(* ===== verification/Exec_Prelude.thy ===== *)
theory Exec_Prelude
  imports Complex_Main "HOL-Library.Sublist"
begin

text \<open>
  The vocabulary shared by the components of the forward-execution subsystem of
  \<^verbatim>\<open>q_backend\<close>: the types that stand for Python values, the errors the code
  raises, the state-and-exception computations its database code is written in, a
  small calculus for reasoning about them, and the primary-key tables they act on.
\<close>

section \<open>Python values\<close>

text \<open>
  \<^item> \<open>uuid\<close>: a \<^verbatim>\<open>uuid.UUID\<close>, by its integer value;
  \<^item> \<open>datetime\<close>: a point in time, in microseconds since the Unix epoch, UTC. The code
    normalises every \<^verbatim>\<open>datetime\<close> it compares with \<^verbatim>\<open>_as_utc\<close>, which reads a
    naive value as UTC, so one integer represents both;
  \<^item> \<open>decimal\<close>: a \<^verbatim>\<open>decimal.Decimal\<close>, as the rational it denotes (the rounding of
    the 28-digit context and of the \<^verbatim>\<open>NUMERIC(20,8)\<close> columns is not modelled);
  \<^item> \<open>json\<close>: the value of a \<^verbatim>\<open>PortableJSON\<close> column or of a \<^verbatim>\<open>dict[str, Any]\<close>.
\<close>

type_synonym uuid = nat
type_synonym datetime = int
type_synonym decimal = rat

datatype json =
    JNull
  | JBool bool
  | JNum decimal
  | JStr string
  | JList "json list"
  | JDict "(string \<times> json) list"

text \<open>\<^verbatim>\<open>timedelta(seconds=n)\<close> and \<^verbatim>\<open>(a - b).total_seconds()\<close>.\<close>

definition seconds :: "int \<Rightarrow> int" where
  "seconds n = n * 1000000"

definition total_seconds :: "int \<Rightarrow> rat" where
  "total_seconds us = of_int us / 1000000"

lemma total_seconds_le_iff: "total_seconds a \<le> of_int n \<longleftrightarrow> a \<le> seconds n"
proof -
  have "total_seconds a \<le> of_int n \<longleftrightarrow> (of_int a :: rat) \<le> of_int (n * 1000000)"
    by (simp add: total_seconds_def divide_le_eq)
  then show ?thesis by (simp only: seconds_def of_int_le_iff)
qed

text \<open>\<^verbatim>\<open>str(uuid)\<close>: 32 lower-case hexadecimal digits in groups of 8, 4, 4, 4 and 12.\<close>

definition hex_digit :: "nat \<Rightarrow> char" where
  "hex_digit d = ''0123456789abcdef'' ! (d mod 16)"

fun hex_digits :: "nat \<Rightarrow> nat \<Rightarrow> string" where
  "hex_digits 0 n = []"
| "hex_digits (Suc w) n = hex_digits w (n div 16) @ [hex_digit n]"

definition uuid_hex :: "uuid \<Rightarrow> string" where
  "uuid_hex u = hex_digits 32 u"

definition uuid_str :: "uuid \<Rightarrow> string" where
  "uuid_str u = (let h = uuid_hex u in
     take 8 h @ ''-'' @ take 4 (drop 8 h) @ ''-'' @ take 4 (drop 12 h) @ ''-''
       @ take 4 (drop 16 h) @ ''-'' @ drop 20 h)"

text \<open>Decimal notation of an integer.\<close>

fun digits_of :: "nat \<Rightarrow> string" where
  "digits_of n = (if n < 10 then [char_of (48 + n)] else digits_of (n div 10) @ [char_of (48 + n mod 10)])"

declare digits_of.simps [simp del]

definition int_str :: "int \<Rightarrow> string" where
  "int_str i = (if i < 0 then ''-'' @ digits_of (nat (- i)) else digits_of (nat i))"

text \<open>Rounding to the nearest integer, ties to the even one.\<close>

definition round_half_even :: "decimal \<Rightarrow> int" where
  "round_half_even x = (let f = \<lfloor>x\<rfloor>; d = x - of_int f in
     if d < 1 / 2 then f else if d > 1 / 2 then f + 1 else if even f then f else f + 1)"

section \<open>Exceptions\<close>

text \<open>
  One constructor per exception class the modelled code raises or lets through. A
  \<^verbatim>\<open>ValueError\<close> carries its message with the interpolated identifiers listed
  separately. \<open>IllegalLifecycleTransition\<close>, \<open>LeaseConflictError\<close>,
  \<open>OrderNotPendingError\<close> and \<open>ExecutionValidationError\<close> are subclasses of
  \<^verbatim>\<open>ValueError\<close> in the code; \<open>IntegrityError\<close> and \<open>MultipleResultsFound\<close> are
  SQLAlchemy's; \<open>ArithmeticError\<close> is what a \<^verbatim>\<open>Decimal\<close> division by zero raises.
\<close>

datatype exec_error =
    ValueError string "uuid list"
  | IllegalLifecycleTransition string string
  | LeaseConflictError uuid string
  | OrderNotPendingError uuid
  | ExecutionValidationError string
  | IntegrityError string
  | MultipleResultsFound
  | RuntimeError string
  | ArithmeticError
  | HTTPException nat string

fun is_value_error :: "exec_error \<Rightarrow> bool" where
  "is_value_error (ValueError _ _) = True"
| "is_value_error (IllegalLifecycleTransition _ _) = True"
| "is_value_error (LeaseConflictError _ _) = True"
| "is_value_error (OrderNotPendingError _) = True"
| "is_value_error (ExecutionValidationError _) = True"
| "is_value_error _ = False"

fun is_sqlalchemy_error :: "exec_error \<Rightarrow> bool" where
  "is_sqlalchemy_error (IntegrityError _) = True"
| "is_sqlalchemy_error MultipleResultsFound = True"
| "is_sqlalchemy_error _ = False"

text \<open>Pure computations that may raise: sequencing, and \<^verbatim>\<open>[f(x) for x in xs]\<close>.\<close>

definition andthen :: "'e + 'a \<Rightarrow> ('a \<Rightarrow> 'e + 'b) \<Rightarrow> 'e + 'b" where
  "andthen r k = (case r of Inl e \<Rightarrow> Inl e | Inr x \<Rightarrow> k x)"

lemma andthen_simps [simp]: "andthen (Inl e) k = Inl e" "andthen (Inr x) k = k x"
  by (simp_all add: andthen_def)

primrec map_result :: "('a \<Rightarrow> 'e + 'b) \<Rightarrow> 'a list \<Rightarrow> 'e + 'b list" where
  "map_result f [] = Inr []"
| "map_result f (x # xs) = (case f x of Inl e \<Rightarrow> Inl e
     | Inr y \<Rightarrow> (case map_result f xs of Inl e \<Rightarrow> Inl e | Inr ys \<Rightarrow> Inr (y # ys)))"

text \<open>\<^verbatim>\<open>str.strip()\<close> and \<^verbatim>\<open>str.lower()\<close> on ASCII texts.\<close>

definition is_space :: "char \<Rightarrow> bool" where
  "is_space c = (c \<in> set [CHR '' '', CHR 0x09, CHR 0x0A, CHR 0x0B, CHR 0x0C, CHR 0x0D])"

definition strip_text :: "string \<Rightarrow> string" where
  "strip_text s = rev (dropWhile is_space (rev (dropWhile is_space s)))"

definition lower_text :: "string \<Rightarrow> string" where
  "lower_text s = map (\<lambda>c. if 65 \<le> (of_char c :: nat) \<and> (of_char c :: nat) \<le> 90 then char_of ((of_char c :: nat) + 32) else c) s"

section \<open>Computations with state and exceptions\<close>

text \<open>
  A statement sequence over a session is a function from the state to an outcome
  (\<open>Inl\<close> the exception, \<open>Inr\<close> the value) and the state it leaves behind; an exception
  keeps the state reached when it was raised, as Python does.
\<close>

type_synonym ('s, 'a) comp = "'s \<Rightarrow> (exec_error + 'a) \<times> 's"

definition ret :: "'a \<Rightarrow> ('s, 'a) comp" where
  "ret x = (\<lambda>s. (Inr x, s))"

definition throw :: "exec_error \<Rightarrow> ('s, 'a) comp" where
  "throw e = (\<lambda>s. (Inl e, s))"

definition bnd :: "('s, 'a) comp \<Rightarrow> ('a \<Rightarrow> ('s, 'b) comp) \<Rightarrow> ('s, 'b) comp" where
  "bnd m k = (\<lambda>s. case m s of (Inl e, s') \<Rightarrow> (Inl e, s') | (Inr x, s') \<Rightarrow> k x s')"

definition gets :: "('s \<Rightarrow> 'a) \<Rightarrow> ('s, 'a) comp" where
  "gets f = (\<lambda>s. (Inr (f s), s))"

definition reads :: "('s \<Rightarrow> exec_error + 'a) \<Rightarrow> ('s, 'a) comp" where
  "reads f = (\<lambda>s. (f s, s))"

definition modify :: "('s \<Rightarrow> 's) \<Rightarrow> ('s, unit) comp" where
  "modify f = (\<lambda>s. (Inr (), f s))"

definition catch :: "('s, 'a) comp \<Rightarrow> (exec_error \<Rightarrow> ('s, 'a) comp) \<Rightarrow> ('s, 'a) comp" where
  "catch m h = (\<lambda>s. case m s of (Inl e, s') \<Rightarrow> h e s' | (Inr x, s') \<Rightarrow> (Inr x, s'))"

definition whenM :: "bool \<Rightarrow> ('s, unit) comp \<Rightarrow> ('s, unit) comp" where
  "whenM b m = (if b then m else ret ())"

primrec for_each :: "('a \<Rightarrow> ('s, 'b) comp) \<Rightarrow> 'a list \<Rightarrow> ('s, 'b list) comp" where
  "for_each f [] = ret []"
| "for_each f (x # xs) = bnd (f x) (\<lambda>y. bnd (for_each f xs) (\<lambda>ys. ret (y # ys)))"

text \<open>A computation over one component of a larger state.\<close>

definition on_part :: "('s \<Rightarrow> 't) \<Rightarrow> ('t \<Rightarrow> 's \<Rightarrow> 's) \<Rightarrow> ('t, 'a) comp \<Rightarrow> ('s, 'a) comp" where
  "on_part get_part put_part m = (\<lambda>s. case m (get_part s) of (r, t) \<Rightarrow> (r, put_part t s))"

lemmas comp_defs = ret_def throw_def bnd_def gets_def reads_def modify_def catch_def whenM_def

lemma bnd_assoc: "bnd (bnd m k) l = bnd m (\<lambda>x. bnd (k x) l)"
  by (simp add: bnd_def fun_eq_iff split: prod.splits sum.splits)

lemma bnd_ret [simp]: "bnd (ret x) k = k x"
  by (simp add: bnd_def ret_def)

lemma bnd_Inr: "m s = (Inr x, s') \<Longrightarrow> bnd m k s = k x s'"
  by (simp add: bnd_def)

lemma bnd_Inl: "m s = (Inl e, s') \<Longrightarrow> bnd m k s = (Inl e, s')"
  by (simp add: bnd_def)

lemma bnd_gets: "bnd (gets f) k s = k (f s) s"
  by (simp add: bnd_def gets_def)

lemma bnd_reads: "bnd (reads f) k s = (case f s of Inl e \<Rightarrow> (Inl e, s) | Inr x \<Rightarrow> k x s)"
  by (simp add: bnd_def reads_def split: sum.splits)

lemma bnd_modify: "bnd (modify f) k s = k () (f s)"
  by (simp add: bnd_def modify_def)

lemma for_each_Cons_run:
  "f x s = (Inr y, s1) \<Longrightarrow> for_each f xs s1 = (Inr ys, s2) \<Longrightarrow>
     for_each f (x # xs) s = (Inr (y # ys), s2)"
  by (simp add: bnd_def ret_def)

subsection \<open>Outcome predicates\<close>

text \<open>
  \<open>outcome m Q E s\<close> says what holds after running \<open>m\<close> from \<open>s\<close>: \<open>Q\<close> of the value and
  the final state, or \<open>E\<close> of the exception and the final state. Its equations for the
  combinators let the simplifier compute it along a statement sequence.
\<close>

definition outcome ::
    "('s, 'a) comp \<Rightarrow> ('a \<Rightarrow> 's \<Rightarrow> bool) \<Rightarrow> (exec_error \<Rightarrow> 's \<Rightarrow> bool) \<Rightarrow> 's \<Rightarrow> bool" where
  "outcome m Q E s = (case m s of (Inl e, s') \<Rightarrow> E e s' | (Inr x, s') \<Rightarrow> Q x s')"

named_theorems outcome_simps \<open>equations that push \<open>outcome\<close> through a computation\<close>

lemma outcome_ret [outcome_simps]: "outcome (ret x) Q E s = Q x s"
  by (simp add: outcome_def ret_def)

lemma outcome_throw [outcome_simps]: "outcome (throw e) Q E s = E e s"
  by (simp add: outcome_def throw_def)

lemma outcome_bnd [outcome_simps]:
  "outcome (bnd m k) Q E s = outcome m (\<lambda>x. outcome (k x) Q E) E s"
  by (simp add: outcome_def bnd_def split: prod.splits sum.splits)

lemma outcome_gets [outcome_simps]: "outcome (gets f) Q E s = Q (f s) s"
  by (simp add: outcome_def gets_def)

lemma outcome_reads [outcome_simps]:
  "outcome (reads f) Q E s = (case f s of Inl e \<Rightarrow> E e s | Inr x \<Rightarrow> Q x s)"
  by (simp add: outcome_def reads_def)

lemma outcome_modify [outcome_simps]: "outcome (modify f) Q E s = Q () (f s)"
  by (simp add: outcome_def modify_def)

lemma outcome_catch [outcome_simps]:
  "outcome (catch m h) Q E s = outcome m Q (\<lambda>e. outcome (h e) Q E) s"
  by (simp add: outcome_def catch_def split: prod.splits sum.splits)

lemma outcome_whenM [outcome_simps]:
  "outcome (whenM b m) Q E s = (if b then outcome m Q E s else Q () s)"
  by (simp add: whenM_def outcome_ret)

lemma outcome_if [outcome_simps]:
  "outcome (if b then m else n) Q E s = (if b then outcome m Q E s else outcome n Q E s)"
  by simp

lemma outcome_case_option [outcome_simps]:
  "outcome (case opt of None \<Rightarrow> m | Some x \<Rightarrow> n x) Q E s =
     (case opt of None \<Rightarrow> outcome m Q E s | Some x \<Rightarrow> outcome (n x) Q E s)"
  by (simp split: option.splits)

lemma outcome_case_prod [outcome_simps]:
  "outcome (case p of (x, y) \<Rightarrow> m x y) Q E s = (case p of (x, y) \<Rightarrow> outcome (m x y) Q E s)"
  by (simp split: prod.splits)

lemma outcome_on_part [outcome_simps]:
  "outcome (on_part g p m) Q E s =
     outcome m (\<lambda>x t. Q x (p t s)) (\<lambda>e t. E e (p t s)) (g s)"
  by (simp add: outcome_def on_part_def split: prod.splits sum.splits)

lemma outcome_mono:
  assumes "outcome m Q E s"
    and "\<And>x t. Q x t \<Longrightarrow> Q' x t" and "\<And>e t. E e t \<Longrightarrow> E' e t"
  shows "outcome m Q' E' s"
  using assms by (auto simp: outcome_def split: prod.splits sum.splits)

lemma outcome_conj:
  "outcome m Q E s \<Longrightarrow> outcome m Q' E' s \<Longrightarrow>
     outcome m (\<lambda>x t. Q x t \<and> Q' x t) (\<lambda>e t. E e t \<and> E' e t) s"
  by (auto simp: outcome_def split: prod.splits sum.splits)

lemma outcome_InrD: "outcome m Q E s \<Longrightarrow> m s = (Inr x, t) \<Longrightarrow> Q x t"
  by (simp add: outcome_def)

lemma outcome_InlD: "outcome m Q E s \<Longrightarrow> m s = (Inl e, t) \<Longrightarrow> E e t"
  by (simp add: outcome_def)

lemma outcome_intro:
  "(\<And>x t. m s = (Inr x, t) \<Longrightarrow> Q x t) \<Longrightarrow> (\<And>e t. m s = (Inl e, t) \<Longrightarrow> E e t) \<Longrightarrow>
     outcome m Q E s"
  by (auto simp: outcome_def split: prod.splits sum.splits)

subsection \<open>Invariants of computations\<close>

text \<open>
  \<open>keeps P m\<close>: from a state with \<open>P\<close>, \<open>m\<close> ends in a state with \<open>P\<close>, whether it returns
  or raises. The rules follow the structure of the computation; the facts proved for
  the repository operations join the same collection.
\<close>

definition keeps :: "('s \<Rightarrow> bool) \<Rightarrow> ('s, 'a) comp \<Rightarrow> bool" where
  "keeps P m \<longleftrightarrow> (\<forall>s. P s \<longrightarrow> P (snd (m s)))"

named_theorems keeps_intros \<open>computations that keep an invariant\<close>

lemma keepsI: "(\<And>s. P s \<Longrightarrow> P (snd (m s))) \<Longrightarrow> keeps P m"
  by (simp add: keeps_def)

lemma keepsD: "keeps P m \<Longrightarrow> P s \<Longrightarrow> P (snd (m s))"
  by (simp add: keeps_def)

lemma keeps_outcome: "keeps P m \<longleftrightarrow> (\<forall>s. P s \<longrightarrow> outcome m (\<lambda>_. P) (\<lambda>_. P) s)"
  by (auto simp: keeps_def outcome_def split: prod.splits sum.splits)
     (metis prod.collapse sum.exhaust)+

lemma keeps_ret [keeps_intros]: "keeps P (ret x)"
  by (simp add: keeps_def ret_def)

lemma keeps_throw [keeps_intros]: "keeps P (throw e)"
  by (simp add: keeps_def throw_def)

lemma keeps_gets [keeps_intros]: "keeps P (gets f)"
  by (simp add: keeps_def gets_def)

lemma keeps_reads [keeps_intros]: "keeps P (reads f)"
  by (simp add: keeps_def reads_def)

lemma keeps_bnd [keeps_intros]:
  assumes "keeps P m" and "\<And>x. keeps P (k x)"
  shows "keeps P (bnd m k)"
proof (rule keepsI)
  fix s assume "P s"
  with assms(1) have "P (snd (m s))" by (rule keepsD)
  with assms(2) show "P (snd (bnd m k s))"
    by (auto simp: bnd_def keeps_def split: prod.splits sum.splits)
qed

lemma keeps_catch [keeps_intros]:
  assumes "keeps P m" and "\<And>e. keeps P (h e)"
  shows "keeps P (catch m h)"
proof (rule keepsI)
  fix s assume "P s"
  with assms(1) have "P (snd (m s))" by (rule keepsD)
  with assms(2) show "P (snd (catch m h s))"
    by (auto simp: catch_def keeps_def split: prod.splits sum.splits)
qed

lemma keeps_whenM [keeps_intros]: "keeps P m \<Longrightarrow> keeps P (whenM b m)"
  by (simp add: whenM_def keeps_ret)

lemma keeps_if [keeps_intros]:
  "(b \<Longrightarrow> keeps P m) \<Longrightarrow> (\<not> b \<Longrightarrow> keeps P n) \<Longrightarrow> keeps P (if b then m else n)"
  by simp

lemma keeps_case_option [keeps_intros]:
  "keeps P m \<Longrightarrow> (\<And>x. keeps P (n x)) \<Longrightarrow> keeps P (case opt of None \<Rightarrow> m | Some x \<Rightarrow> n x)"
  by (simp split: option.splits)

lemma keeps_case_prod [keeps_intros]:
  "(\<And>x y. keeps P (m x y)) \<Longrightarrow> keeps P (case p of (x, y) \<Rightarrow> m x y)"
  by (simp split: prod.splits)

lemma keeps_for_each [keeps_intros]: "(\<And>x. keeps P (f x)) \<Longrightarrow> keeps P (for_each f xs)"
  by (induction xs) (auto intro!: keeps_intros)

lemma keeps_on_part:
  assumes "\<And>s. P s \<Longrightarrow> Q (g s)" and "\<And>s t. P s \<Longrightarrow> Q t \<Longrightarrow> P (p t s)" and "keeps Q m"
  shows "keeps P (on_part g p m)"
proof (rule keepsI)
  fix s assume "P s"
  with assms(1,3) have "Q (snd (m (g s)))" by (blast dest: keepsD)
  with assms(2) \<open>P s\<close> show "P (snd (on_part g p m s))"
    by (auto simp: on_part_def split: prod.splits)
qed

section \<open>Tables\<close>

text \<open>
  A database table is the list of its rows in insertion order. \<open>get_row\<close> is
  \<^verbatim>\<open>session.get(Model, key)\<close>; \<open>upd_row\<close> assigns attributes of the row with that
  key; \<open>del_row\<close> is \<^verbatim>\<open>session.delete\<close>; \<open>scalar_one_or_none\<close> is SQLAlchemy's
  method of that name.
\<close>

definition get_row :: "('r \<Rightarrow> 'k) \<Rightarrow> 'k \<Rightarrow> 'r list \<Rightarrow> 'r option" where
  "get_row rid k rows = find (\<lambda>r. rid r = k) rows"

definition upd_row :: "('r \<Rightarrow> 'k) \<Rightarrow> 'k \<Rightarrow> ('r \<Rightarrow> 'r) \<Rightarrow> 'r list \<Rightarrow> 'r list" where
  "upd_row rid k f rows = map (\<lambda>r. if rid r = k then f r else r) rows"

definition del_row :: "('r \<Rightarrow> 'k) \<Rightarrow> 'k \<Rightarrow> 'r list \<Rightarrow> 'r list" where
  "del_row rid k rows = filter (\<lambda>r. rid r \<noteq> k) rows"

definition scalar_one_or_none :: "'r list \<Rightarrow> exec_error + 'r option" where
  "scalar_one_or_none rows =
     (case rows of [] \<Rightarrow> Inr None | [r] \<Rightarrow> Inr (Some r) | _ \<Rightarrow> Inl MultipleResultsFound)"

lemma get_row_Nil [simp]: "get_row rid k [] = None"
  by (simp add: get_row_def)

lemma get_row_Cons [simp]:
  "get_row rid k (r # rows) = (if rid r = k then Some r else get_row rid k rows)"
  by (simp add: get_row_def)

lemma get_row_append:
  "get_row rid k (xs @ ys) = (case get_row rid k xs of None \<Rightarrow> get_row rid k ys | Some r \<Rightarrow> Some r)"
  by (induction xs) auto

lemma get_row_SomeD: "get_row rid k rows = Some r \<Longrightarrow> r \<in> set rows \<and> rid r = k"
  by (induction rows) (auto split: if_splits)

lemma get_row_None_iff: "get_row rid k rows = None \<longleftrightarrow> k \<notin> rid ` set rows"
  by (induction rows) auto

lemma get_row_in_set:
  "distinct (map rid rows) \<Longrightarrow> r \<in> set rows \<Longrightarrow> get_row rid (rid r) rows = Some r"
  by (induction rows) (auto simp: image_iff)

lemma upd_row_Nil [simp]: "upd_row rid k f [] = []"
  by (simp add: upd_row_def)

lemma upd_row_Cons [simp]:
  "upd_row rid k f (r # rows) = (if rid r = k then f r else r) # upd_row rid k f rows"
  by (simp add: upd_row_def)

lemma upd_row_append [simp]: "upd_row rid k f (xs @ ys) = upd_row rid k f xs @ upd_row rid k f ys"
  by (simp add: upd_row_def)

lemma length_upd_row [simp]: "length (upd_row rid k f rows) = length rows"
  by (simp add: upd_row_def)

lemma map_upd_row [simp]:
  "(\<And>r. g (f r) = g r) \<Longrightarrow> map g (upd_row rid k f rows) = map g rows"
  by (simp add: upd_row_def)

lemma get_upd_row:
  "(\<And>r. rid (f r) = rid r) \<Longrightarrow>
     get_row rid j (upd_row rid k f rows) =
       (if j = k then map_option f (get_row rid k rows) else get_row rid j rows)"
  by (induction rows) auto

lemma upd_row_absent: "k \<notin> rid ` set rows \<Longrightarrow> upd_row rid k f rows = rows"
  by (induction rows) auto

lemma upd_row_twice:
  "(\<And>r. rid (f r) = rid r) \<Longrightarrow>
     upd_row rid k g (upd_row rid k f rows) = upd_row rid k (\<lambda>r. g (f r)) rows"
  by (simp add: upd_row_def)

lemma set_upd_rowD:
  "r \<in> set (upd_row rid k f rows) \<Longrightarrow> r \<in> set rows \<or> (\<exists>r'\<in>set rows. rid r' = k \<and> r = f r')"
  by (auto simp: upd_row_def)

lemma filter_upd_row:
  "(\<And>r. P (f r) = P r) \<Longrightarrow> filter P (upd_row rid k f rows) = upd_row rid k f (filter P rows)"
  by (induction rows) auto

lemma get_del_row:
  "get_row rid j (del_row rid k rows) = (if j = k then None else get_row rid j rows)"
  by (induction rows) (auto simp: del_row_def)

lemma scalar_one_or_none_unique:
  "length rows \<le> 1 \<Longrightarrow> scalar_one_or_none rows = Inr (if rows = [] then None else Some (hd rows))"
  by (cases rows; cases "tl rows") (auto simp: scalar_one_or_none_def)

lemma scalar_one_or_none_SomeD:
  "scalar_one_or_none rows = Inr (Some r) \<Longrightarrow> rows = [r]"
  by (auto simp: scalar_one_or_none_def split: list.splits)

lemma scalar_one_or_none_NoneD: "scalar_one_or_none rows = Inr None \<Longrightarrow> rows = []"
  by (auto simp: scalar_one_or_none_def split: list.splits)

text \<open>Rows that are unique in a key: at most one row per key value.\<close>

lemma distinct_filter_key_le_1:
  "distinct (map key (filter P rows)) \<Longrightarrow> length (filter (\<lambda>r. P r \<and> key r = k) rows) \<le> 1"
proof (induction rows)
  case Nil
  then show ?case by simp
next
  case (Cons r rows)
  show ?case
  proof (cases "P r \<and> key r = k")
    case True
    with Cons.prems have "\<forall>x\<in>set rows. \<not> (P x \<and> key x = k)"
      by (auto simp: image_iff)
    then have "filter (\<lambda>r. P r \<and> key r = k) rows = []"
      by (simp add: filter_empty_conv)
    then show ?thesis by simp
  next
    case False
    with Cons show ?thesis by (auto split: if_splits)
  qed
qed

lemma distinct_key_le_1:
  "distinct (map key rows) \<Longrightarrow> length (filter (\<lambda>r. key r = k) rows) \<le> 1"
  using distinct_filter_key_le_1 [where P = "\<lambda>_. True"] by simp

lemma scalar_one_or_none_find:
  "length (filter P rows) \<le> 1 \<Longrightarrow> scalar_one_or_none (filter P rows) = Inr (find P rows)"
proof (induction rows)
  case Nil
  then show ?case by (simp add: scalar_one_or_none_def)
next
  case (Cons r rows)
  then show ?case by (auto simp: scalar_one_or_none_def split: if_splits)
qed

lemma find_append:
  "find P (xs @ ys) = (case find P xs of None \<Rightarrow> find P ys | Some x \<Rightarrow> Some x)"
  by (induction xs) auto

lemma find_Some_unique_iff:
  assumes "length (filter P rows) \<le> 1"
  shows "find P rows = Some r \<longleftrightarrow> r \<in> set rows \<and> P r"
  using assms
proof (induction rows)
  case Nil
  then show ?case by simp
next
  case (Cons x rows)
  show ?case
  proof (cases "P x")
    case True
    with Cons.prems have "\<forall>y\<in>set rows. \<not> P y" by (simp add: filter_empty_conv)
    with True show ?thesis by auto
  next
    case False
    with Cons show ?thesis by auto
  qed
qed

end
