(* ===== verification/Bars.thy ===== *)
theory Bars
  imports Exec_Prelude
begin

text \<open>
  Completed bars: the timeframe table of \<^verbatim>\<open>market_data/exogenous_context.py\<close>, the frame
  helpers of \<^verbatim>\<open>execution/bars.py\<close> and the coordinator of
  \<^verbatim>\<open>execution/bar_coordinator.py\<close> that shares one fetch among the deployments of a
  stream. A frame is the list of its rows, each an opening time with four prices; the data
  provider is a parameter.
\<close>

section \<open>Timeframes\<close>

text \<open>\<^verbatim>\<open>str.upper\<close> on the ASCII letters.\<close>

definition upper_char :: "char \<Rightarrow> char" where
  "upper_char c = (let n = (of_char c :: nat) in if 97 \<le> n \<and> n \<le> 122 then char_of (n - 32) else c)"

definition upper :: "string \<Rightarrow> string" where
  "upper s = map upper_char s"

definition TF_MINUTES :: "(string \<times> int) list" where
  "TF_MINUTES = [(''M1'', 1), (''M5'', 5), (''M15'', 15), (''H1'', 60), (''D1'', 1440)]"

definition bar_duration :: "string \<Rightarrow> exec_error + int" where
  "bar_duration timeframe = (case map_of TF_MINUTES (upper timeframe) of
     None \<Rightarrow> Inl (ValueError (''Unsupported timeframe '' @ timeframe) [])
   | Some m \<Rightarrow> Inr (seconds (60 * m)))"

lemma bar_duration_pos: "bar_duration tf = Inr d \<Longrightarrow> 0 < d"
  by (auto simp: bar_duration_def TF_MINUTES_def seconds_def split: option.splits if_splits)

section \<open>Frames\<close>

record OHLCV =
  bar_time :: datetime
  bar_open :: decimal
  bar_high :: decimal
  bar_low :: decimal
  bar_close :: decimal

type_synonym frame = "OHLCV list"

text \<open>\<^verbatim>\<open>set_index("time").sort_index()\<close>; rows with equal times keep their order.\<close>

definition ohlcv_list_to_frame :: "OHLCV list \<Rightarrow> frame" where
  "ohlcv_list_to_frame bars = sort_key bar_time bars"

definition bar_close_time :: "datetime \<Rightarrow> string \<Rightarrow> exec_error + datetime" where
  "bar_close_time bar_open_time timeframe = map_sum id (\<lambda>d. bar_open_time + d) (bar_duration timeframe)"

definition frame_close_times :: "frame \<Rightarrow> string \<Rightarrow> exec_error + datetime list" where
  "frame_close_times frame timeframe = map_sum id (\<lambda>d. map (\<lambda>b. bar_time b + d) frame) (bar_duration timeframe)"

definition is_bar_complete :: "datetime \<Rightarrow> string \<Rightarrow> datetime \<Rightarrow> exec_error + bool" where
  "is_bar_complete bar_open_time timeframe now = map_sum id (\<lambda>t. t \<le> now) (bar_close_time bar_open_time timeframe)"

definition drop_forming_bar :: "frame \<Rightarrow> string \<Rightarrow> datetime \<Rightarrow> exec_error + frame" where
  "drop_forming_bar frame timeframe now =
     (if frame = [] then Inr frame
      else map_sum id (\<lambda>complete. if complete then frame else butlast frame)
             (is_bar_complete (bar_time (last frame)) timeframe now))"

definition trim_rolling_window :: "frame \<Rightarrow> int \<Rightarrow> frame" where
  "trim_rolling_window frame max_bars =
     (if max_bars \<le> 0 \<or> int (length frame) \<le> max_bars then frame
      else drop (length frame - nat max_bars) frame)"

lemma length_trim: "0 < n \<Longrightarrow> int (length (trim_rolling_window fr n)) \<le> n"
  by (auto simp: trim_rolling_window_def)

lemma trim_suffix: "suffix (trim_rolling_window fr n) fr"
  by (simp add: trim_rolling_window_def suffix_drop)

section \<open>The bar coordinator\<close>

record BarStreamKey =
  bsk_symbol :: string
  bsk_timeframe :: string

record DeploymentBarConsumer =
  dbc_deployment_id :: string
  dbc_symbol :: string
  dbc_timeframe :: string
  dbc_last_evaluated_close :: "datetime option"

record CompletedBarBatch =
  cbb_key :: BarStreamKey
  cbb_frame :: frame
  cbb_fetched_at :: datetime
  cbb_fetch_span_start :: datetime
  cbb_fetch_span_end :: datetime

record BarCoordinator =
  bco_provider :: "string \<Rightarrow> string \<Rightarrow> datetime \<Rightarrow> datetime \<Rightarrow> exec_error + OHLCV list"
  bco_clock :: datetime
  bco_overlap_bars :: int

text \<open>The computations of the coordinator count the fetches.\<close>

type_synonym 'a bcm = "(nat, 'a) comp"

definition completed_close_times :: "CompletedBarBatch \<Rightarrow> exec_error + datetime list" where
  "completed_close_times batch =
     (if cbb_frame batch = [] then Inr []
      else frame_close_times (cbb_frame batch) (bsk_timeframe (cbb_key batch)))"

definition stream_key :: "DeploymentBarConsumer \<Rightarrow> BarStreamKey" where
  "stream_key consumer = \<lparr>bsk_symbol = dbc_symbol consumer, bsk_timeframe = upper (dbc_timeframe consumer)\<rparr>"

text \<open>\<^verbatim>\<open>grouped.setdefault(key, []).append(consumer)\<close>: groups in order of first occurrence.\<close>

primrec add_to_group ::
    "DeploymentBarConsumer \<Rightarrow> (BarStreamKey \<times> DeploymentBarConsumer list) list \<Rightarrow>
     (BarStreamKey \<times> DeploymentBarConsumer list) list" where
  "add_to_group c [] = [(stream_key c, [c])]"
| "add_to_group c (g # gs) = (if fst g = stream_key c then (fst g, snd g @ [c]) # gs else g # add_to_group c gs)"

definition group_consumers ::
    "DeploymentBarConsumer list \<Rightarrow> (BarStreamKey \<times> DeploymentBarConsumer list) list" where
  "group_consumers consumers = fold add_to_group consumers []"

definition earliest_close :: "DeploymentBarConsumer list \<Rightarrow> datetime option" where
  "earliest_close consumers =
     (let closes = List.map_filter dbc_last_evaluated_close consumers
      in if closes = [] then None else Some (Min (set closes)))"

definition fetch_span ::
    "BarCoordinator \<Rightarrow> int \<Rightarrow> DeploymentBarConsumer list \<Rightarrow> datetime \<Rightarrow> int option \<Rightarrow>
     exec_error + datetime \<times> datetime" where
  "fetch_span self duration consumers now initial_window_bars = (case earliest_close consumers of
     None \<Rightarrow> (case initial_window_bars of
         None \<Rightarrow> Inl (ValueError ''initial_window_bars is required when no consumer has a watermark'' [])
       | Some n \<Rightarrow> Inr (now - duration * n, now))
   | Some t \<Rightarrow> Inr (t - duration * bco_overlap_bars self, now))"

definition fetch_stream ::
    "BarCoordinator \<Rightarrow> BarStreamKey \<Rightarrow> DeploymentBarConsumer list \<Rightarrow> datetime \<Rightarrow> int option \<Rightarrow>
     CompletedBarBatch bcm" where
  "fetch_stream self key consumers now initial_window_bars =
     bnd (reads (\<lambda>_. bar_duration (bsk_timeframe key))) (\<lambda>duration.
     bnd (reads (\<lambda>_. fetch_span self duration consumers now initial_window_bars)) (\<lambda>(start, end_time).
     bnd (reads (\<lambda>_. bco_provider self (bsk_symbol key) (bsk_timeframe key) start end_time)) (\<lambda>raw.
     bnd (modify Suc) (\<lambda>_.
     bnd (reads (\<lambda>_. drop_forming_bar (ohlcv_list_to_frame raw) (bsk_timeframe key) now)) (\<lambda>frame.
     ret \<lparr>cbb_key = key,
       cbb_frame = (if frame = [] then frame else filter (\<lambda>b. bar_time b + duration \<le> now) frame),
       cbb_fetched_at = now, cbb_fetch_span_start = start, cbb_fetch_span_end = end_time\<rparr>)))))"

definition poll ::
    "BarCoordinator \<Rightarrow> DeploymentBarConsumer list \<Rightarrow> int option \<Rightarrow>
     (BarStreamKey \<times> CompletedBarBatch) list bcm" where
  "poll self consumers initial_window_bars =
     for_each (\<lambda>(key, group). bnd (fetch_stream self key group (bco_clock self) initial_window_bars)
         (\<lambda>batch. ret (key, batch)))
       (group_consumers consumers)"

definition new_bars_for_consumer ::
    "CompletedBarBatch \<Rightarrow> DeploymentBarConsumer \<Rightarrow> exec_error + frame" where
  "new_bars_for_consumer batch consumer =
     (if cbb_frame batch = [] then Inr (cbb_frame batch)
      else case completed_close_times batch of
        Inl e \<Rightarrow> Inl e
      | Inr closes \<Rightarrow> (case dbc_last_evaluated_close consumer of
          None \<Rightarrow> Inr (cbb_frame batch)
        | Some watermark \<Rightarrow> Inr (map fst (filter (\<lambda>(b, t). t > watermark) (zip (cbb_frame batch) closes)))))"

section \<open>What a batch contains\<close>

lemma filter_zip_map: "map fst (filter (\<lambda>(b, t). P b t) (zip xs (map f xs))) = filter (\<lambda>b. P b (f b)) xs"
  by (induction xs) auto

lemma new_bars_eq:
  assumes "bar_duration (bsk_timeframe (cbb_key batch)) = Inr d"
  shows "new_bars_for_consumer batch c = Inr (filter (\<lambda>b. case dbc_last_evaluated_close c of
     None \<Rightarrow> True | Some t \<Rightarrow> t < bar_time b + d) (cbb_frame batch))"
  using assms
  by (auto simp: new_bars_for_consumer_def completed_close_times_def frame_close_times_def filter_zip_map split: option.splits)

text \<open>A frame whose rows have all closed by \<open>now\<close>, in order of their opening times.\<close>

definition frame_completed :: "int \<Rightarrow> datetime \<Rightarrow> frame \<Rightarrow> bool" where
  "frame_completed d now fr \<longleftrightarrow> sorted (map bar_time fr) \<and> (\<forall>b\<in>set fr. bar_time b + d \<le> now)"

text \<open>Dropping the forming bar first does not change which bars pass the filter on closing times.\<close>

lemma drop_forming_filter:
  assumes "bar_duration tf = Inr d" and "drop_forming_bar fr tf now = Inr fr'"
  shows "filter (\<lambda>b. bar_time b + d \<le> now) fr' = filter (\<lambda>b. bar_time b + d \<le> now) fr"
proof (cases fr rule: rev_cases)
  case Nil
  with assms show ?thesis by (simp add: drop_forming_bar_def)
next
  case (snoc bs b)
  with assms show ?thesis
    by (auto simp: drop_forming_bar_def is_bar_complete_def bar_close_time_def split: if_splits)
qed

lemma fetch_stream_run:
  assumes "fetch_stream self key cs now win n = (Inr batch, n')"
  obtains d raw start where "bar_duration (bsk_timeframe key) = Inr d" and "n' = Suc n"
    and "fetch_span self d cs now win = Inr (start, now)"
    and "bco_provider self (bsk_symbol key) (bsk_timeframe key) start now = Inr raw"
    and "cbb_key batch = key"
    and "cbb_frame batch = filter (\<lambda>b. bar_time b + d \<le> now) (ohlcv_list_to_frame raw)"
proof -
  have span_end: "fetch_span self d cs now win = Inr (start, end_time) \<Longrightarrow> end_time = now" for d start end_time
    by (auto simp: fetch_span_def split: option.splits)
  have nil: "(if fr = [] then fr else filter P fr) = filter P fr" for P and fr :: frame by simp
  from assms obtain d start end_time raw fr where
    run: "bar_duration (bsk_timeframe key) = Inr d" "n' = Suc n" "fetch_span self d cs now win = Inr (start, end_time)"
      "bco_provider self (bsk_symbol key) (bsk_timeframe key) start end_time = Inr raw" "cbb_key batch = key"
    and fr: "drop_forming_bar (ohlcv_list_to_frame raw) (bsk_timeframe key) now = Inr fr"
      "cbb_frame batch = filter (\<lambda>b. bar_time b + d \<le> now) fr"
    unfolding fetch_stream_def nil by (auto simp: bnd_reads bnd_modify ret_def split: sum.splits prod.splits)
  note [simp] = span_end [OF run(3)]
  show thesis
    using run fr(2) unfolding drop_forming_filter [OF run(1) fr(1)] by (intro that) simp_all
qed

lemma fetched_frame_completed:
  assumes "fetch_stream self key cs now win n = (Inr batch, n')" and "bar_duration (bsk_timeframe key) = Inr d"
  shows "cbb_key batch = key \<and> frame_completed d now (cbb_frame batch)"
proof -
  from assms obtain raw where "cbb_key batch = key"
    "cbb_frame batch = filter (\<lambda>b. bar_time b + d \<le> now) (ohlcv_list_to_frame raw)"
    by (auto elim!: fetch_stream_run)
  then show ?thesis by (simp add: frame_completed_def sorted_filter ohlcv_list_to_frame_def)
qed

end
