(* ===== verification/Exec_Domain.thy ===== *)
theory Exec_Domain
  imports Exec_Prelude
begin

text \<open>
  \<^verbatim>\<open>execution/domain.py\<close>: the enumerations, the lifecycle tables of deployments and
  orders with their validating transition functions, and the value objects. The two
  lifecycle tables share one contract, the locale \<open>status_machine\<close>; the order table is
  moreover ranked, so an order can change status only finitely often.
\<close>

section \<open>Enumerations\<close>

datatype BrokerMode = PAPER | MT5_LIVE

datatype DeploymentLifecycle = DRAFT | RUNNING | PAUSED | STOPPED | LC_ERROR

datatype DecisionOutcome =
    D_HOLD | D_SIGNAL | D_RISK_REJECTED | D_ORDER_INTENT | D_ORDER_FILLED
  | D_ORDER_REJECTED | D_ORDER_UNKNOWN | D_ERROR

datatype SignalAction = SIG_BUY | SIG_SELL | SIG_HOLD | SIG_CLOSE

datatype ExecutionSide = BUY | SELL

datatype ExecutionOrderType = MARKET

datatype ExecutionOrderStatus =
    INTENT | SUBMITTED | FILLED | REJECTED | UNKNOWN | CANCELLED

datatype PositionSide = LONG | SHORT | FLAT

datatype ReconciliationState = NOT_APPLICABLE | PENDING | RECONCILED | AMBIGUOUS

datatype RiskRejectionCode =
    R_KILL_SWITCH | R_LIFECYCLE | R_LEASE_LOST | R_STALE_BAR | R_STALE_QUOTE
  | R_SYMBOL_UNAVAILABLE | R_INVALID_QUANTITY | R_NOTIONAL_LIMIT
  | R_ONE_POSITION_VIOLATION | R_INSUFFICIENT_EQUITY | R_DAILY_LOSS_LIMIT
  | R_DATABASE_UNAVAILABLE | R_BROKER_UNAVAILABLE | R_UNKNOWN_PRIOR_ORDER

datatype LedgerEntryType = INITIAL_BALANCE | FILL_CASH | REALIZED_PNL | FEE | ADJUSTMENT

text \<open>The \<^verbatim>\<open>.value\<close> strings that appear in messages and identifiers.\<close>

fun broker_mode_value :: "BrokerMode \<Rightarrow> string" where
  "broker_mode_value PAPER = ''paper''"
| "broker_mode_value MT5_LIVE = ''mt5_live''"

fun lifecycle_value :: "DeploymentLifecycle \<Rightarrow> string" where
  "lifecycle_value DRAFT = ''draft''"
| "lifecycle_value RUNNING = ''running''"
| "lifecycle_value PAUSED = ''paused''"
| "lifecycle_value STOPPED = ''stopped''"
| "lifecycle_value LC_ERROR = ''error''"

fun order_status_value :: "ExecutionOrderStatus \<Rightarrow> string" where
  "order_status_value INTENT = ''intent''"
| "order_status_value SUBMITTED = ''submitted''"
| "order_status_value FILLED = ''filled''"
| "order_status_value REJECTED = ''rejected''"
| "order_status_value UNKNOWN = ''unknown''"
| "order_status_value CANCELLED = ''cancelled''"

fun side_value :: "ExecutionSide \<Rightarrow> string" where
  "side_value BUY = ''buy''"
| "side_value SELL = ''sell''"

fun position_side_value :: "PositionSide \<Rightarrow> string" where
  "position_side_value LONG = ''long''"
| "position_side_value SHORT = ''short''"
| "position_side_value FLAT = ''flat''"

fun risk_rejection_code_value :: "RiskRejectionCode \<Rightarrow> string" where
  "risk_rejection_code_value R_KILL_SWITCH = ''kill_switch''"
| "risk_rejection_code_value R_LIFECYCLE = ''lifecycle''"
| "risk_rejection_code_value R_LEASE_LOST = ''lease_lost''"
| "risk_rejection_code_value R_STALE_BAR = ''stale_bar''"
| "risk_rejection_code_value R_STALE_QUOTE = ''stale_quote''"
| "risk_rejection_code_value R_SYMBOL_UNAVAILABLE = ''symbol_unavailable''"
| "risk_rejection_code_value R_INVALID_QUANTITY = ''invalid_quantity''"
| "risk_rejection_code_value R_NOTIONAL_LIMIT = ''notional_limit''"
| "risk_rejection_code_value R_ONE_POSITION_VIOLATION = ''one_position_violation''"
| "risk_rejection_code_value R_INSUFFICIENT_EQUITY = ''insufficient_equity''"
| "risk_rejection_code_value R_DAILY_LOSS_LIMIT = ''daily_loss_limit''"
| "risk_rejection_code_value R_DATABASE_UNAVAILABLE = ''database_unavailable''"
| "risk_rejection_code_value R_BROKER_UNAVAILABLE = ''broker_unavailable''"
| "risk_rejection_code_value R_UNKNOWN_PRIOR_ORDER = ''unknown_prior_order''"

section \<open>Lifecycle tables\<close>

fun DEPLOYMENT_TRANSITIONS :: "DeploymentLifecycle \<Rightarrow> DeploymentLifecycle list" where
  "DEPLOYMENT_TRANSITIONS DRAFT = [RUNNING, STOPPED]"
| "DEPLOYMENT_TRANSITIONS RUNNING = [PAUSED, STOPPED, LC_ERROR]"
| "DEPLOYMENT_TRANSITIONS PAUSED = [RUNNING, STOPPED, LC_ERROR]"
| "DEPLOYMENT_TRANSITIONS STOPPED = []"
| "DEPLOYMENT_TRANSITIONS LC_ERROR = [STOPPED]"

fun ORDER_TRANSITIONS :: "ExecutionOrderStatus \<Rightarrow> ExecutionOrderStatus list" where
  "ORDER_TRANSITIONS INTENT = [SUBMITTED, REJECTED, UNKNOWN, CANCELLED]"
| "ORDER_TRANSITIONS SUBMITTED = [FILLED, REJECTED, UNKNOWN]"
| "ORDER_TRANSITIONS UNKNOWN = [FILLED, REJECTED]"
| "ORDER_TRANSITIONS FILLED = []"
| "ORDER_TRANSITIONS REJECTED = []"
| "ORDER_TRANSITIONS CANCELLED = []"

definition validate_deployment_transition ::
    "DeploymentLifecycle \<Rightarrow> DeploymentLifecycle \<Rightarrow> exec_error + DeploymentLifecycle" where
  "validate_deployment_transition current target =
     (if target \<notin> set (DEPLOYMENT_TRANSITIONS current)
      then Inl (IllegalLifecycleTransition (lifecycle_value current) (lifecycle_value target))
      else Inr target)"

definition validate_order_transition ::
    "ExecutionOrderStatus \<Rightarrow> ExecutionOrderStatus \<Rightarrow> exec_error + ExecutionOrderStatus" where
  "validate_order_transition current target =
     (if target \<notin> set (ORDER_TRANSITIONS current)
      then Inl (IllegalLifecycleTransition (order_status_value current) (order_status_value target))
      else Inr target)"

definition is_deployment_evaluating :: "DeploymentLifecycle \<Rightarrow> bool" where
  "is_deployment_evaluating lc \<longleftrightarrow> lc = RUNNING"

definition is_deployment_terminal :: "DeploymentLifecycle \<Rightarrow> bool" where
  "is_deployment_terminal lc \<longleftrightarrow> lc \<in> {STOPPED, LC_ERROR}"

section \<open>Value objects\<close>

record StrategyIdentity =
  si_strategy_name :: string
  si_strategy_version :: int
  si_compiled_config :: "(string \<times> json) list"
  si_config_hash :: string
  si_symbol :: string
  si_timeframe :: string
  si_sizing_config :: "(string \<times> json) list"
  si_risk_config :: "(string \<times> json) list"

record FillRecord =
  fr_broker_mode :: BrokerMode
  fr_external_fill_id :: string
  fr_side :: ExecutionSide
  fr_quantity :: decimal
  fr_price :: decimal
  fr_fee :: decimal
  fr_slippage :: decimal
  fr_quote_bid :: "decimal option"
  fr_quote_ask :: "decimal option"
  fr_quote_timestamp :: "datetime option"
  fr_filled_at :: datetime
  fr_metadata :: "(string \<times> json) list"

text \<open>Decimals that the code renders with \<^verbatim>\<open>str\<close> into a context are kept as numbers.\<close>

record RiskRejection =
  rr_code :: RiskRejectionCode
  rr_message :: string
  rr_context :: "(string \<times> json) list"

section \<open>The contract of a lifecycle table\<close>

definition status_path :: "('s \<Rightarrow> 's list) \<Rightarrow> 's \<Rightarrow> 's \<Rightarrow> bool" where
  "status_path allowed = rtranclp (\<lambda>a b. b \<in> set (allowed a))"

lemma status_path_refl [simp, intro]: "status_path allowed a a"
  by (simp add: status_path_def)

lemma status_path_trans [trans]:
  "status_path allowed a b \<Longrightarrow> status_path allowed b c \<Longrightarrow> status_path allowed a c"
  by (simp add: status_path_def)

lemma status_path_step: "b \<in> set (allowed a) \<Longrightarrow> status_path allowed a b"
  by (simp add: status_path_def r_into_rtranclp)

text \<open>Running a list of requested transitions, stopping at the first refusal.\<close>

fun run_transitions :: "('s \<Rightarrow> 's \<Rightarrow> exec_error + 's) \<Rightarrow> 's \<Rightarrow> 's list \<Rightarrow> exec_error + 's" where
  "run_transitions validate s [] = Inr s"
| "run_transitions validate s (t # ts) =
     (case validate s t of Inl e \<Rightarrow> Inl e | Inr s' \<Rightarrow> run_transitions validate s' ts)"

locale status_machine =
  fixes allowed :: "'s \<Rightarrow> 's list"
    and validate :: "'s \<Rightarrow> 's \<Rightarrow> exec_error + 's"
  assumes validate_iff: "validate c t = Inr r \<longleftrightarrow> t \<in> set (allowed c) \<and> r = t"
begin

lemma validated_path: "validate c t = Inr r \<Longrightarrow> status_path allowed c r"
  by (auto simp: validate_iff intro: status_path_step)

lemma run_path: "run_transitions validate s ts = Inr r \<Longrightarrow> status_path allowed s r"
proof (induction ts arbitrary: s)
  case Nil
  then show ?case by simp
next
  case (Cons t ts)
  then obtain s' where "validate s t = Inr s'" and "run_transitions validate s' ts = Inr r"
    by (auto split: sum.splits)
  then show ?case by (blast intro: Cons.IH validated_path status_path_trans)
qed

lemma terminal_absorbs:
  assumes "allowed s = []" and "status_path allowed s t"
  shows "t = s"
  using assms(2)[unfolded status_path_def] assms(1)
  by (cases rule: converse_rtranclpE) auto

lemma terminal_refuses: "allowed s = [] \<Longrightarrow> run_transitions validate s ts = Inr r \<Longrightarrow> ts = []"
  by (cases ts) (auto simp: validate_iff split: sum.splits)

end

locale ranked_status_machine = status_machine +
  fixes rank :: "'s \<Rightarrow> nat"
  assumes rank_decreases: "t \<in> set (allowed c) \<Longrightarrow> rank t < rank c"
begin

lemma run_bounded: "run_transitions validate s ts = Inr r \<Longrightarrow> length ts + rank r \<le> rank s"
proof (induction ts arbitrary: s)
  case Nil
  then show ?case by simp
next
  case (Cons t ts)
  then obtain s' where v: "validate s t = Inr s'" and "run_transitions validate s' ts = Inr r"
    by (auto split: sum.splits)
  then have "length ts + rank r \<le> rank s'" by (blast intro: Cons.IH)
  moreover from v have "rank s' < rank s" by (auto simp: validate_iff intro: rank_decreases)
  ultimately show ?case by simp
qed

lemma path_rank: "status_path allowed a b \<Longrightarrow> a = b \<or> rank b < rank a"
  unfolding status_path_def
  by (induction rule: rtranclp_induct) (auto dest: rank_decreases)

lemma path_antisym: "status_path allowed a b \<Longrightarrow> status_path allowed b a \<Longrightarrow> a = b"
  by (fastforce dest: path_rank)

end

fun order_rank :: "ExecutionOrderStatus \<Rightarrow> nat" where
  "order_rank INTENT = 3"
| "order_rank SUBMITTED = 2"
| "order_rank UNKNOWN = 1"
| "order_rank _ = 0"

interpretation dep_machine: status_machine DEPLOYMENT_TRANSITIONS validate_deployment_transition
  by unfold_locales (auto simp: validate_deployment_transition_def split: if_splits)

interpretation ord_machine: ranked_status_machine
  ORDER_TRANSITIONS validate_order_transition order_rank
proof unfold_locales
  fix c t r
  show "validate_order_transition c t = Inr r \<longleftrightarrow> t \<in> set (ORDER_TRANSITIONS c) \<and> r = t"
    by (auto simp: validate_order_transition_def split: if_splits)
next
  fix t c
  show "t \<in> set (ORDER_TRANSITIONS c) \<Longrightarrow> order_rank t < order_rank c"
    by (cases c) auto
qed

abbreviation order_path :: "ExecutionOrderStatus \<Rightarrow> ExecutionOrderStatus \<Rightarrow> bool" where
  "order_path \<equiv> status_path ORDER_TRANSITIONS"

abbreviation deployment_path :: "DeploymentLifecycle \<Rightarrow> DeploymentLifecycle \<Rightarrow> bool" where
  "deployment_path \<equiv> status_path DEPLOYMENT_TRANSITIONS"

lemma order_terminal_iff: "ORDER_TRANSITIONS s = [] \<longleftrightarrow> s \<in> {FILLED, REJECTED, CANCELLED}"
  by (cases s) auto

lemma deployment_path_from_terminal:
  "deployment_path s t \<Longrightarrow> s \<in> {STOPPED, LC_ERROR} \<Longrightarrow> t \<in> {STOPPED, LC_ERROR}"
  unfolding status_path_def
  by (induction rule: rtranclp_induct) auto

text \<open>
  A sequence of order status changes that the transition table accepts has at most
  three steps, follows the table, and is empty when it starts at a filled, rejected or
  cancelled order: those three statuses are final.
\<close>

lemma order_history_bounded:
  assumes "run_transitions validate_order_transition s ts = Inr r"
  shows "length ts + order_rank r \<le> order_rank s \<and> length ts \<le> 3 \<and> order_path s r
    \<and> (s \<in> {FILLED, REJECTED, CANCELLED} \<longrightarrow> ts = [] \<and> r = s)"
proof -
  have "order_rank s \<le> 3" by (cases s) auto
  with ord_machine.run_bounded [OF assms] have "length ts \<le> 3" by linarith
  moreover have "order_path s r" using assms by (rule ord_machine.run_path)
  moreover have terminal: "ts = []" if "s \<in> {FILLED, REJECTED, CANCELLED}"
    using that ord_machine.terminal_refuses [OF _ assms] by (simp only: order_terminal_iff)
  moreover have "s \<in> {FILLED, REJECTED, CANCELLED} \<longrightarrow> ts = [] \<and> r = s"
    using terminal assms by (metis run_transitions.simps(1) sum.inject(2))
  ultimately show ?thesis using ord_machine.run_bounded [OF assms] by blast
qed

end
