(* ===== verification/Exec_Models.thy ===== *)
theory Exec_Models
  imports Exec_Domain
begin

text \<open>
  \<^verbatim>\<open>storage/db/execution_models.py\<close>: one record per mapped table, the database that
  holds them, and the constraints the schema declares (primary keys and the unique
  constraints), as the invariant \<open>wf_db\<close>. The eight strategy-identity columns of a
  deployment and of a decision are one field of type \<^typ>\<open>StrategyIdentity\<close>; enum
  columns hold the enum, not its \<^verbatim>\<open>.value\<close>; \<^verbatim>\<open>updated_at\<close> is bookkeeping and left
  out, as are the foreign keys, which SQLite does not enforce.
\<close>

section \<open>Tables\<close>

record PaperAccount =
  pa_id :: uuid
  pa_name :: string
  pa_currency :: string
  pa_initial_balance :: decimal
  pa_cash_balance :: decimal
  pa_sizing_config :: "(string \<times> json) list"
  pa_risk_config :: "(string \<times> json) list"
  pa_created_at :: datetime

record ExecutionDeployment =
  dep_id :: uuid
  dep_paper_account_id :: uuid
  dep_name :: string
  dep_broker_mode :: BrokerMode
  dep_lifecycle :: DeploymentLifecycle
  dep_identity :: StrategyIdentity
  dep_live_activation_enabled :: bool
  dep_last_bar_close_time :: "datetime option"
  dep_started_at :: "datetime option"
  dep_stopped_at :: "datetime option"
  dep_pending_action :: "string option"
  dep_pending_action_requested_at :: "datetime option"
  dep_created_at :: datetime

record ExecutionDecision =
  dec_id :: uuid
  dec_deployment_id :: uuid
  dec_bar_close_time :: datetime
  dec_identity :: StrategyIdentity
  dec_signal_action :: SignalAction
  dec_outcome :: DecisionOutcome
  dec_requested_quantity :: "decimal option"
  dec_reason :: "string option"
  dec_context :: "(string \<times> json) list"
  dec_created_at :: datetime

record ExecutionOrder =
  ord_id :: uuid
  ord_deployment_id :: uuid
  ord_decision_id :: "uuid option"
  ord_broker_mode :: BrokerMode
  ord_side :: ExecutionSide
  ord_order_type :: ExecutionOrderType
  ord_quantity :: decimal
  ord_status :: ExecutionOrderStatus
  ord_reconciliation_state :: ReconciliationState
  ord_external_order_id :: "string option"
  ord_rejection_reason :: "string option"
  ord_intent_committed_at :: "datetime option"
  ord_submitted_at :: "datetime option"
  ord_completed_at :: "datetime option"
  ord_reconciliation_attempted_at :: "datetime option"
  ord_reconciliation_error :: "string option"
  ord_reconciled_at :: "datetime option"
  ord_reconciled_by :: "string option"
  ord_reconciliation_detail :: "string option"
  ord_details :: "(string \<times> json) list"
  ord_created_at :: datetime

record ExecutionFill =
  fil_id :: uuid
  fil_deployment_id :: uuid
  fil_order_id :: uuid
  fil_broker_mode :: BrokerMode
  fil_external_fill_id :: string
  fil_side :: ExecutionSide
  fil_quantity :: decimal
  fil_price :: decimal
  fil_fee :: decimal
  fil_slippage :: decimal
  fil_quote_bid :: "decimal option"
  fil_quote_ask :: "decimal option"
  fil_quote_timestamp :: "datetime option"
  fil_filled_at :: datetime
  fil_details :: "(string \<times> json) list"
  fil_created_at :: datetime

record ExecutionNetPosition =
  pos_id :: uuid
  pos_deployment_id :: uuid
  pos_side :: PositionSide
  pos_quantity :: decimal
  pos_average_entry_price :: "decimal option"
  pos_is_open :: bool
  pos_opened_at :: "datetime option"
  pos_closed_at :: "datetime option"
  pos_created_at :: datetime

record ExecutionLedgerEntry =
  led_id :: uuid
  led_paper_account_id :: uuid
  led_deployment_id :: uuid
  led_fill_id :: "uuid option"
  led_entry_type :: LedgerEntryType
  led_amount :: decimal
  led_balance_after :: decimal
  led_description :: "string option"
  led_created_at :: datetime

record ExecutionRiskEvent =
  rsk_id :: uuid
  rsk_deployment_id :: uuid
  rsk_decision_id :: "uuid option"
  rsk_order_id :: "uuid option"
  rsk_rejection_code :: RiskRejectionCode
  rsk_message :: string
  rsk_context :: "(string \<times> json) list"
  rsk_created_at :: datetime

record ExecutionWorkerLease =
  lea_id :: uuid
  lea_deployment_id :: uuid
  lea_worker_id :: string
  lea_lease_token :: string
  lea_acquired_at :: datetime
  lea_expires_at :: datetime
  lea_heartbeat_at :: datetime

record ExecutionControlState =
  ctl_kill_switch_enabled :: bool
  ctl_kill_switch_reason :: "string option"
  ctl_updated_by :: "string option"

record ExecutionAuditEvent =
  aud_id :: uuid
  aud_event_type :: string
  aud_actor :: "string option"
  aud_deployment_id :: "uuid option"
  aud_message :: string
  aud_payload :: "(string \<times> json) list"
  aud_created_at :: datetime

text \<open>
  The database. \<open>db_next_id\<close> supplies the keys that \<^verbatim>\<open>uuid.uuid4\<close> draws (all distinct);
  \<open>db_clock\<close> is the time the column default \<^verbatim>\<open>utc_now\<close> and the repositories'
  \<^verbatim>\<open>_utcnow()\<close> read. The control state is the singleton row with \<^verbatim>\<open>id=1\<close>.
\<close>

record exec_db =
  db_accounts :: "PaperAccount list"
  db_deployments :: "ExecutionDeployment list"
  db_decisions :: "ExecutionDecision list"
  db_orders :: "ExecutionOrder list"
  db_fills :: "ExecutionFill list"
  db_positions :: "ExecutionNetPosition list"
  db_ledger :: "ExecutionLedgerEntry list"
  db_risk_events :: "ExecutionRiskEvent list"
  db_leases :: "ExecutionWorkerLease list"
  db_control :: "ExecutionControlState option"
  db_audit :: "ExecutionAuditEvent list"
  db_next_id :: uuid
  db_clock :: datetime

type_synonym 'a dbm = "(exec_db, 'a) comp"

definition empty_db :: "datetime \<Rightarrow> exec_db" where
  "empty_db now = \<lparr>db_accounts = [], db_deployments = [], db_decisions = [], db_orders = [],
     db_fills = [], db_positions = [], db_ledger = [], db_risk_events = [], db_leases = [],
     db_control = None, db_audit = [], db_next_id = 0, db_clock = now\<rparr>"

section \<open>Schema constraints\<close>

definition pk_ok :: "('r \<Rightarrow> uuid) \<Rightarrow> uuid \<Rightarrow> 'r list \<Rightarrow> bool" where
  "pk_ok rid n rows \<longleftrightarrow> distinct (map rid rows) \<and> (\<forall>r\<in>set rows. rid r < n)"

definition decision_key :: "ExecutionDecision \<Rightarrow> uuid \<times> datetime" where
  "decision_key d = (dec_deployment_id d, dec_bar_close_time d)"

definition fill_key :: "ExecutionFill \<Rightarrow> BrokerMode \<times> string" where
  "fill_key f = (fil_broker_mode f, fil_external_fill_id f)"

definition primary_keys_ok :: "exec_db \<Rightarrow> bool" where
  "primary_keys_ok db \<longleftrightarrow>
     pk_ok pa_id (db_next_id db) (db_accounts db) \<and>
     pk_ok dep_id (db_next_id db) (db_deployments db) \<and>
     pk_ok dec_id (db_next_id db) (db_decisions db) \<and>
     pk_ok ord_id (db_next_id db) (db_orders db) \<and>
     pk_ok fil_id (db_next_id db) (db_fills db) \<and>
     pk_ok pos_id (db_next_id db) (db_positions db) \<and>
     pk_ok led_id (db_next_id db) (db_ledger db) \<and>
     pk_ok rsk_id (db_next_id db) (db_risk_events db) \<and>
     pk_ok lea_id (db_next_id db) (db_leases db) \<and>
     pk_ok aud_id (db_next_id db) (db_audit db)"

definition unique_keys_ok :: "exec_db \<Rightarrow> bool" where
  "unique_keys_ok db \<longleftrightarrow>
     distinct (map pa_name (db_accounts db)) \<and>
     distinct (map decision_key (db_decisions db)) \<and>
     distinct (map fill_key (db_fills db)) \<and>
     distinct (map pos_deployment_id (filter pos_is_open (db_positions db))) \<and>
     distinct (map lea_deployment_id (db_leases db))"

definition wf_db :: "exec_db \<Rightarrow> bool" where
  "wf_db db \<longleftrightarrow> primary_keys_ok db \<and> unique_keys_ok db"

lemmas wf_db_defs = wf_db_def primary_keys_ok_def unique_keys_ok_def

lemma pk_ok_Nil [simp]: "pk_ok rid n []"
  by (simp add: pk_ok_def)

lemma pk_ok_mono: "pk_ok rid n rows \<Longrightarrow> n \<le> m \<Longrightarrow> pk_ok rid m rows"
  by (auto simp: pk_ok_def)

lemma pk_ok_Suc [simp]: "pk_ok rid n rows \<Longrightarrow> pk_ok rid (Suc n) rows"
  by (auto intro: pk_ok_mono)

lemma pk_ok_insert [simp]: "pk_ok rid n rows \<Longrightarrow> rid r = n \<Longrightarrow> pk_ok rid (Suc n) (rows @ [r])"
  by (auto simp: pk_ok_def)

lemma pk_ok_upd [simp]:
  "pk_ok rid n rows \<Longrightarrow> (\<And>r. rid (f r) = rid r) \<Longrightarrow> pk_ok rid n (upd_row rid k f rows)"
  by (auto simp: pk_ok_def dest!: set_upd_rowD)

lemma pk_ok_del [simp]: "pk_ok rid n rows \<Longrightarrow> pk_ok rid n (del_row rid k rows)"
  by (auto simp: pk_ok_def del_row_def distinct_map intro: inj_on_subset)

lemma pk_ok_filter [simp]: "pk_ok rid n rows \<Longrightarrow> pk_ok rid n (filter P rows)"
  by (auto simp: pk_ok_def distinct_map intro: inj_on_subset)

lemma pk_ok_distinct: "pk_ok rid n rows \<Longrightarrow> distinct (map rid rows)"
  by (simp add: pk_ok_def)

lemma pk_ok_fresh: "pk_ok rid n rows \<Longrightarrow> get_row rid n rows = None"
  by (auto simp: pk_ok_def get_row_None_iff)

lemma wf_empty_db: "wf_db (empty_db now)"
  by (simp add: wf_db_defs empty_db_def)

end
