(* ===== verification/Exec_Store.thy ===== *)
theory Exec_Store
  imports Exec_Models
begin

text \<open>
  \<^verbatim>\<open>storage/db/execution_repositories.py\<close>: one definition per repository function, in
  the order of the source. A function that raises when a row is missing, or whose
  \<^verbatim>\<open>flush\<close> violates a unique constraint, has that branch here. Optional arguments are
  options, with \<^verbatim>\<open>None\<close> their default. The lemmas at the end show that every
  operation keeps the schema constraints \<^const>\<open>wf_db\<close>, and give the lookup-after-update
  equations the components above rely on.
\<close>

section \<open>Sessions\<close>

text \<open>\<^verbatim>\<open>session.add(row); session.flush()\<close>: a new key, the default \<^verbatim>\<open>created_at\<close>.\<close>

definition session_add ::
    "(uuid \<Rightarrow> datetime \<Rightarrow> 'r) \<Rightarrow> ('r \<Rightarrow> exec_db \<Rightarrow> exec_db) \<Rightarrow> 'r dbm" where
  "session_add mk put = (\<lambda>db. let r = mk (db_next_id db) (db_clock db) in
     (Inr r, put r (db\<lparr>db_next_id := Suc (db_next_id db)\<rparr>)))"

definition or_now :: "datetime option \<Rightarrow> exec_db \<Rightarrow> datetime" where
  "or_now at_time db = (case at_time of None \<Rightarrow> db_clock db | Some t \<Rightarrow> t)"

definition upd_opt :: "'a option \<Rightarrow> 'a option \<Rightarrow> 'a option" where
  "upd_opt new old = (case new of None \<Rightarrow> old | Some x \<Rightarrow> Some x)"

section \<open>Paper accounts\<close>

definition create_paper_account ::
    "string \<Rightarrow> decimal \<Rightarrow> string \<Rightarrow> (string \<times> json) list \<Rightarrow> (string \<times> json) list \<Rightarrow>
     PaperAccount dbm" where
  "create_paper_account name initial_balance currency sizing_config risk_config =
     bnd (gets db_accounts) (\<lambda>accounts.
     if name \<in> set (map pa_name accounts) then throw (IntegrityError ''paper_accounts.name'')
     else session_add
       (\<lambda>i now. \<lparr>pa_id = i, pa_name = name, pa_currency = currency,
          pa_initial_balance = initial_balance, pa_cash_balance = initial_balance,
          pa_sizing_config = sizing_config, pa_risk_config = risk_config,
          pa_created_at = now\<rparr>)
       (\<lambda>r db. db\<lparr>db_accounts := db_accounts db @ [r]\<rparr>))"

definition get_paper_account :: "uuid \<Rightarrow> exec_db \<Rightarrow> PaperAccount option" where
  "get_paper_account account_id db = get_row pa_id account_id (db_accounts db)"

definition get_paper_account_by_name :: "string \<Rightarrow> exec_db \<Rightarrow> exec_error + PaperAccount option" where
  "get_paper_account_by_name name db =
     scalar_one_or_none (filter (\<lambda>a. pa_name a = name) (db_accounts db))"

definition update_paper_cash_balance :: "uuid \<Rightarrow> decimal \<Rightarrow> PaperAccount dbm" where
  "update_paper_cash_balance account_id cash_balance =
     bnd (gets (get_paper_account account_id)) (\<lambda>account. case account of
       None \<Rightarrow> throw (ValueError ''PaperAccount not found'' [account_id])
     | Some a \<Rightarrow>
         bnd (modify (\<lambda>db. db\<lparr>db_accounts :=
           upd_row pa_id account_id (\<lambda>a. a\<lparr>pa_cash_balance := cash_balance\<rparr>) (db_accounts db)\<rparr>))
         (\<lambda>_. ret (a\<lparr>pa_cash_balance := cash_balance\<rparr>)))"

section \<open>Deployments\<close>

definition create_execution_deployment ::
    "uuid \<Rightarrow> string \<Rightarrow> StrategyIdentity \<Rightarrow> BrokerMode \<Rightarrow> DeploymentLifecycle \<Rightarrow> bool \<Rightarrow>
     ExecutionDeployment dbm" where
  "create_execution_deployment paper_account_id name identity broker_mode lifecycle live_activation =
     session_add
       (\<lambda>i now. \<lparr>dep_id = i, dep_paper_account_id = paper_account_id, dep_name = name,
          dep_broker_mode = broker_mode, dep_lifecycle = lifecycle, dep_identity = identity,
          dep_live_activation_enabled = live_activation, dep_last_bar_close_time = None,
          dep_started_at = None, dep_stopped_at = None, dep_pending_action = None,
          dep_pending_action_requested_at = None, dep_created_at = now\<rparr>)
       (\<lambda>r db. db\<lparr>db_deployments := db_deployments db @ [r]\<rparr>)"

definition get_execution_deployment :: "uuid \<Rightarrow> exec_db \<Rightarrow> ExecutionDeployment option" where
  "get_execution_deployment deployment_id db = get_row dep_id deployment_id (db_deployments db)"

text \<open>The lookup, the \<^verbatim>\<open>is None\<close> guard and the attribute assignment that the deployment mutators share.\<close>

definition update_deployment ::
    "uuid \<Rightarrow> (exec_db \<Rightarrow> ExecutionDeployment \<Rightarrow> ExecutionDeployment) \<Rightarrow> ExecutionDeployment dbm" where
  "update_deployment deployment_id f =
     bnd (gets (\<lambda>db. (get_execution_deployment deployment_id db, f db))) (\<lambda>(deployment, g).
     case deployment of
       None \<Rightarrow> throw (ValueError ''ExecutionDeployment not found'' [deployment_id])
     | Some d \<Rightarrow>
         bnd (modify (\<lambda>db. db\<lparr>db_deployments := upd_row dep_id deployment_id g (db_deployments db)\<rparr>))
         (\<lambda>_. ret (g d)))"

definition transition_deployment_lifecycle ::
    "uuid \<Rightarrow> DeploymentLifecycle \<Rightarrow> datetime option \<Rightarrow> ExecutionDeployment dbm" where
  "transition_deployment_lifecycle deployment_id target at_time =
     bnd (gets (get_execution_deployment deployment_id)) (\<lambda>deployment. case deployment of
       None \<Rightarrow> throw (ValueError ''ExecutionDeployment not found'' [deployment_id])
     | Some d \<Rightarrow>
         (case validate_deployment_transition (dep_lifecycle d) target of
            Inl e \<Rightarrow> throw e
          | Inr _ \<Rightarrow> update_deployment deployment_id (\<lambda>db d. d\<lparr>dep_lifecycle := target,
              dep_started_at := (if target = RUNNING \<and> dep_started_at d = None
                                 then Some (or_now at_time db) else dep_started_at d),
              dep_stopped_at := (if target \<in> {STOPPED, LC_ERROR}
                                 then Some (or_now at_time db) else dep_stopped_at d)\<rparr>)))"

section \<open>Decisions\<close>

definition create_execution_decision ::
    "uuid \<Rightarrow> datetime \<Rightarrow> StrategyIdentity \<Rightarrow> SignalAction \<Rightarrow> DecisionOutcome \<Rightarrow>
     decimal option \<Rightarrow> string option \<Rightarrow> (string \<times> json) list \<Rightarrow> ExecutionDecision dbm" where
  "create_execution_decision deployment_id bar_close_time identity signal_action decision_outcome
       requested_quantity reason context =
     bnd (gets db_decisions) (\<lambda>decisions.
     if (deployment_id, bar_close_time) \<in> set (map decision_key decisions)
     then throw (IntegrityError ''uq_execution_decisions_deployment_bar_close'')
     else session_add
       (\<lambda>i now. \<lparr>dec_id = i, dec_deployment_id = deployment_id,
          dec_bar_close_time = bar_close_time, dec_identity = identity,
          dec_signal_action = signal_action, dec_outcome = decision_outcome,
          dec_requested_quantity = requested_quantity, dec_reason = reason,
          dec_context = context, dec_created_at = now\<rparr>)
       (\<lambda>r db. db\<lparr>db_decisions := db_decisions db @ [r]\<rparr>))"

definition get_decision_for_bar ::
    "uuid \<Rightarrow> datetime \<Rightarrow> exec_db \<Rightarrow> exec_error + ExecutionDecision option" where
  "get_decision_for_bar deployment_id bar_close_time db = scalar_one_or_none
     (filter (\<lambda>d. dec_deployment_id d = deployment_id \<and> dec_bar_close_time d = bar_close_time)
        (db_decisions db))"

section \<open>Orders\<close>

definition get_execution_order :: "uuid \<Rightarrow> exec_db \<Rightarrow> ExecutionOrder option" where
  "get_execution_order order_id db = get_row ord_id order_id (db_orders db)"

definition create_execution_order_intent ::
    "uuid \<Rightarrow> uuid option \<Rightarrow> BrokerMode \<Rightarrow> ExecutionSide \<Rightarrow> decimal \<Rightarrow> (string \<times> json) list \<Rightarrow>
     ExecutionOrder dbm" where
  "create_execution_order_intent deployment_id decision_id broker_mode side quantity metadata =
     session_add
       (\<lambda>i now. \<lparr>ord_id = i, ord_deployment_id = deployment_id, ord_decision_id = decision_id,
          ord_broker_mode = broker_mode, ord_side = side, ord_order_type = MARKET,
          ord_quantity = quantity, ord_status = INTENT,
          ord_reconciliation_state = NOT_APPLICABLE, ord_external_order_id = None,
          ord_rejection_reason = None, ord_intent_committed_at = Some now,
          ord_submitted_at = None, ord_completed_at = None,
          ord_reconciliation_attempted_at = None, ord_reconciliation_error = None,
          ord_reconciled_at = None, ord_reconciled_by = None,
          ord_reconciliation_detail = None, ord_details = metadata, ord_created_at = now\<rparr>)
       (\<lambda>r db. db\<lparr>db_orders := db_orders db @ [r]\<rparr>)"

definition update_order :: "uuid \<Rightarrow> (ExecutionOrder \<Rightarrow> ExecutionOrder) \<Rightarrow> (exec_db, unit) comp" where
  "update_order order_id f =
     modify (\<lambda>db. db\<lparr>db_orders := upd_row ord_id order_id f (db_orders db)\<rparr>)"

definition transition_execution_order ::
    "uuid \<Rightarrow> ExecutionOrderStatus \<Rightarrow> ReconciliationState option \<Rightarrow> string option \<Rightarrow>
     string option \<Rightarrow> datetime option \<Rightarrow> datetime option \<Rightarrow> unit dbm" where
  "transition_execution_order order_id target reconciliation_state external_order_id
       rejection_reason submitted_at completed_at =
     bnd (gets (get_execution_order order_id)) (\<lambda>order. case order of
       None \<Rightarrow> throw (ValueError ''ExecutionOrder not found'' [order_id])
     | Some ord \<Rightarrow>
         (case validate_order_transition (ord_status ord) target of
            Inl e \<Rightarrow> throw e
          | Inr _ \<Rightarrow> update_order order_id (\<lambda>ord. ord\<lparr>ord_status := target,
              ord_reconciliation_state :=
                (case reconciliation_state of None \<Rightarrow> ord_reconciliation_state ord | Some r \<Rightarrow> r),
              ord_external_order_id := upd_opt external_order_id (ord_external_order_id ord),
              ord_rejection_reason := upd_opt rejection_reason (ord_rejection_reason ord),
              ord_submitted_at := upd_opt submitted_at (ord_submitted_at ord),
              ord_completed_at := upd_opt completed_at (ord_completed_at ord)\<rparr>)))"

section \<open>Fills\<close>

definition create_execution_fill :: "uuid \<Rightarrow> uuid \<Rightarrow> FillRecord \<Rightarrow> ExecutionFill dbm" where
  "create_execution_fill deployment_id order_id fill =
     bnd (gets db_fills) (\<lambda>fills.
     if (fr_broker_mode fill, fr_external_fill_id fill) \<in> set (map fill_key fills)
     then throw (IntegrityError ''uq_execution_fills_broker_external_id'')
     else session_add
       (\<lambda>i now. \<lparr>fil_id = i, fil_deployment_id = deployment_id, fil_order_id = order_id,
          fil_broker_mode = fr_broker_mode fill,
          fil_external_fill_id = fr_external_fill_id fill, fil_side = fr_side fill,
          fil_quantity = fr_quantity fill, fil_price = fr_price fill, fil_fee = fr_fee fill,
          fil_slippage = fr_slippage fill, fil_quote_bid = fr_quote_bid fill,
          fil_quote_ask = fr_quote_ask fill, fil_quote_timestamp = fr_quote_timestamp fill,
          fil_filled_at = fr_filled_at fill, fil_details = fr_metadata fill,
          fil_created_at = now\<rparr>)
       (\<lambda>r db. db\<lparr>db_fills := db_fills db @ [r]\<rparr>))"

definition get_execution_fill_by_external_id ::
    "BrokerMode \<Rightarrow> string \<Rightarrow> exec_db \<Rightarrow> exec_error + ExecutionFill option" where
  "get_execution_fill_by_external_id broker_mode external_fill_id db = scalar_one_or_none
     (filter (\<lambda>f. fil_broker_mode f = broker_mode \<and> fil_external_fill_id f = external_fill_id)
        (db_fills db))"

section \<open>Net positions\<close>

definition get_open_net_position ::
    "uuid \<Rightarrow> exec_db \<Rightarrow> exec_error + ExecutionNetPosition option" where
  "get_open_net_position deployment_id db = scalar_one_or_none
     (filter (\<lambda>p. pos_is_open p \<and> pos_deployment_id p = deployment_id) (db_positions db))"

definition update_position ::
    "uuid \<Rightarrow> (ExecutionNetPosition \<Rightarrow> ExecutionNetPosition) \<Rightarrow> unit dbm" where
  "update_position position_id f =
     modify (\<lambda>db. db\<lparr>db_positions := upd_row pos_id position_id f (db_positions db)\<rparr>)"

definition add_position ::
    "uuid \<Rightarrow> PositionSide \<Rightarrow> decimal \<Rightarrow> decimal option \<Rightarrow> bool \<Rightarrow> datetime option \<Rightarrow>
     datetime option \<Rightarrow> ExecutionNetPosition dbm" where
  "add_position deployment_id side quantity average_entry_price is_open opened_at closed_at =
     session_add
       (\<lambda>i now. \<lparr>pos_id = i, pos_deployment_id = deployment_id, pos_side = side,
          pos_quantity = quantity, pos_average_entry_price = average_entry_price,
          pos_is_open = is_open, pos_opened_at = opened_at, pos_closed_at = closed_at,
          pos_created_at = now\<rparr>)
       (\<lambda>r db. db\<lparr>db_positions := db_positions db @ [r]\<rparr>)"

definition upsert_open_net_position ::
    "uuid \<Rightarrow> PositionSide \<Rightarrow> decimal \<Rightarrow> decimal option \<Rightarrow> datetime option \<Rightarrow> unit dbm" where
  "upsert_open_net_position deployment_id side quantity average_entry_price opened_at =
     bnd (reads (get_open_net_position deployment_id)) (\<lambda>position.
     bnd (gets (or_now opened_at)) (\<lambda>now.
     if side = FLAT \<or> quantity = 0 then
       (case position of
          Some p \<Rightarrow> update_position (pos_id p) (\<lambda>p. p\<lparr>pos_side := FLAT, pos_quantity := 0,
            pos_average_entry_price := None, pos_is_open := False, pos_closed_at := Some now\<rparr>)
        | None \<Rightarrow> bnd (add_position deployment_id FLAT 0 None False None (Some now)) (\<lambda>_. ret ()))
     else
       (case position of
          None \<Rightarrow> bnd (add_position deployment_id side quantity average_entry_price True
                         (Some now) None) (\<lambda>_. ret ())
        | Some p \<Rightarrow> update_position (pos_id p) (\<lambda>p. p\<lparr>pos_side := side,
            pos_quantity := quantity, pos_average_entry_price := average_entry_price,
            pos_is_open := True,
            pos_opened_at := (case pos_opened_at p of None \<Rightarrow> Some now | Some t \<Rightarrow> Some t),
            pos_closed_at := None\<rparr>))))"

section \<open>Ledger and risk events\<close>

definition append_ledger_entry ::
    "uuid \<Rightarrow> uuid \<Rightarrow> LedgerEntryType \<Rightarrow> decimal \<Rightarrow> decimal \<Rightarrow> uuid option \<Rightarrow> string option \<Rightarrow>
     unit dbm" where
  "append_ledger_entry paper_account_id deployment_id entry_type amount balance_after fill_id description =
     bnd (session_add
       (\<lambda>i now. \<lparr>led_id = i, led_paper_account_id = paper_account_id,
          led_deployment_id = deployment_id, led_fill_id = fill_id, led_entry_type = entry_type,
          led_amount = amount, led_balance_after = balance_after, led_description = description,
          led_created_at = now\<rparr>)
       (\<lambda>r db. db\<lparr>db_ledger := db_ledger db @ [r]\<rparr>)) (\<lambda>_. ret ())"

definition record_risk_event ::
    "uuid \<Rightarrow> RiskRejectionCode \<Rightarrow> string \<Rightarrow> uuid option \<Rightarrow> uuid option \<Rightarrow>
     (string \<times> json) list \<Rightarrow> unit dbm" where
  "record_risk_event deployment_id rejection_code message decision_id order_id context =
     bnd (session_add
       (\<lambda>i now. \<lparr>rsk_id = i, rsk_deployment_id = deployment_id, rsk_decision_id = decision_id,
          rsk_order_id = order_id, rsk_rejection_code = rejection_code, rsk_message = message,
          rsk_context = context, rsk_created_at = now\<rparr>)
       (\<lambda>r db. db\<lparr>db_risk_events := db_risk_events db @ [r]\<rparr>)) (\<lambda>_. ret ())"

section \<open>Worker leases\<close>

definition get_worker_lease :: "uuid \<Rightarrow> exec_db \<Rightarrow> exec_error + ExecutionWorkerLease option" where
  "get_worker_lease deployment_id db =
     scalar_one_or_none (filter (\<lambda>l. lea_deployment_id l = deployment_id) (db_leases db))"

definition update_lease :: "uuid \<Rightarrow> (ExecutionWorkerLease \<Rightarrow> ExecutionWorkerLease) \<Rightarrow> unit dbm" where
  "update_lease lease_id f =
     modify (\<lambda>db. db\<lparr>db_leases := upd_row lea_id lease_id f (db_leases db)\<rparr>)"

definition acquire_worker_lease ::
    "uuid \<Rightarrow> string \<Rightarrow> string \<Rightarrow> int \<Rightarrow> datetime option \<Rightarrow> unit dbm" where
  "acquire_worker_lease deployment_id worker_id lease_token ttl_seconds now =
     bnd (reads (get_worker_lease deployment_id)) (\<lambda>current.
     bnd (gets (or_now now)) (\<lambda>ts.
     case current of
       Some l \<Rightarrow>
         if lea_expires_at l > ts \<and> lea_worker_id l \<noteq> worker_id
         then throw (LeaseConflictError deployment_id (lea_worker_id l))
         else update_lease (lea_id l) (\<lambda>l. l\<lparr>lea_worker_id := worker_id,
           lea_lease_token := lease_token, lea_acquired_at := ts,
           lea_expires_at := ts + seconds ttl_seconds, lea_heartbeat_at := ts\<rparr>)
     | None \<Rightarrow>
         bnd (session_add
           (\<lambda>i _. \<lparr>lea_id = i, lea_deployment_id = deployment_id, lea_worker_id = worker_id,
              lea_lease_token = lease_token, lea_acquired_at = ts,
              lea_expires_at = ts + seconds ttl_seconds, lea_heartbeat_at = ts\<rparr>)
           (\<lambda>r db. db\<lparr>db_leases := db_leases db @ [r]\<rparr>)) (\<lambda>_. ret ())))"

definition heartbeat_worker_lease ::
    "uuid \<Rightarrow> string \<Rightarrow> string \<Rightarrow> int \<Rightarrow> datetime option \<Rightarrow> unit dbm" where
  "heartbeat_worker_lease deployment_id worker_id lease_token ttl_seconds now =
     bnd (reads (get_worker_lease deployment_id)) (\<lambda>lease. case lease of
       None \<Rightarrow> throw (ValueError ''No lease for deployment'' [deployment_id])
     | Some l \<Rightarrow>
         if lea_worker_id l \<noteq> worker_id \<or> lea_lease_token l \<noteq> lease_token
         then throw (ValueError ''lease token mismatch'' [])
         else bnd (gets (or_now now)) (\<lambda>ts.
           update_lease (lea_id l) (\<lambda>l. l\<lparr>lea_heartbeat_at := ts,
             lea_expires_at := ts + seconds ttl_seconds\<rparr>)))"

definition delete_lease :: "uuid \<Rightarrow> unit dbm" where
  "delete_lease lease_id = modify (\<lambda>db. db\<lparr>db_leases := del_row lea_id lease_id (db_leases db)\<rparr>)"

definition release_worker_lease :: "uuid \<Rightarrow> string \<Rightarrow> string \<Rightarrow> bool dbm" where
  "release_worker_lease deployment_id worker_id lease_token =
     bnd (reads (get_worker_lease deployment_id)) (\<lambda>lease. case lease of
       None \<Rightarrow> ret False
     | Some l \<Rightarrow>
         if lea_worker_id l \<noteq> worker_id \<or> lea_lease_token l \<noteq> lease_token
         then throw (ValueError ''lease token mismatch'' [])
         else bnd (delete_lease (lea_id l)) (\<lambda>_. ret True))"

section \<open>Global control state\<close>

definition get_execution_control_state :: "ExecutionControlState dbm" where
  "get_execution_control_state =
     bnd (gets db_control) (\<lambda>state. case state of
       Some c \<Rightarrow> ret c
     | None \<Rightarrow>
         (let c = \<lparr>ctl_kill_switch_enabled = False, ctl_kill_switch_reason = None,
                   ctl_updated_by = None\<rparr>
          in bnd (modify (\<lambda>db. db\<lparr>db_control := Some c\<rparr>)) (\<lambda>_. ret c)))"

definition set_kill_switch :: "bool \<Rightarrow> string option \<Rightarrow> string option \<Rightarrow> ExecutionControlState dbm" where
  "set_kill_switch enabled reason updated_by =
     bnd get_execution_control_state (\<lambda>_.
     (let c = \<lparr>ctl_kill_switch_enabled = enabled, ctl_kill_switch_reason = reason,
               ctl_updated_by = updated_by\<rparr>
      in bnd (modify (\<lambda>db. db\<lparr>db_control := Some c\<rparr>)) (\<lambda>_. ret c)))"

section \<open>Listings and updates\<close>

definition list_deployments ::
    "DeploymentLifecycle list option \<Rightarrow> exec_db \<Rightarrow> ExecutionDeployment list" where
  "list_deployments lifecycles db = sort_key dep_created_at
     (filter (\<lambda>d. case lifecycles of None \<Rightarrow> True | Some ls \<Rightarrow> dep_lifecycle d \<in> set ls)
        (db_deployments db))"

definition update_deployment_last_bar_close :: "uuid \<Rightarrow> datetime \<Rightarrow> unit dbm" where
  "update_deployment_last_bar_close deployment_id bar_close_time =
     bnd (update_deployment deployment_id (\<lambda>_ d. d\<lparr>dep_last_bar_close_time := Some bar_close_time\<rparr>))
       (\<lambda>_. ret ())"

definition update_execution_decision_outcome ::
    "uuid \<Rightarrow> DecisionOutcome \<Rightarrow> (string \<times> json) list option \<Rightarrow> unit dbm" where
  "update_execution_decision_outcome decision_id decision_outcome context =
     bnd (gets (\<lambda>db. get_row dec_id decision_id (db_decisions db))) (\<lambda>decision. case decision of
       None \<Rightarrow> throw (ValueError ''ExecutionDecision not found'' [decision_id])
     | Some _ \<Rightarrow> modify (\<lambda>db. db\<lparr>db_decisions := upd_row dec_id decision_id
         (\<lambda>d. d\<lparr>dec_outcome := decision_outcome,
                dec_context := (case context of None \<Rightarrow> dec_context d | Some c \<Rightarrow> c)\<rparr>)
         (db_decisions db)\<rparr>))"

definition list_orders_for_deployment ::
    "uuid \<Rightarrow> ExecutionOrderStatus list option \<Rightarrow> exec_db \<Rightarrow> ExecutionOrder list" where
  "list_orders_for_deployment deployment_id statuses db = sort_key ord_created_at
     (filter (\<lambda>ord. ord_deployment_id ord = deployment_id \<and>
         (case statuses of None \<Rightarrow> True | Some ss \<Rightarrow> ord_status ord \<in> set ss))
        (db_orders db))"

definition mark_incomplete_order :: "ExecutionOrder \<Rightarrow> nat dbm" where
  "mark_incomplete_order ord =
     (if ord_status ord = INTENT \<or> ord_status ord = SUBMITTED
      then bnd (transition_execution_order (ord_id ord) UNKNOWN (Some PENDING) None
                  (Some ''recovery: incomplete order intent'') None None) (\<lambda>_. ret 1)
      else ret 0)"

definition mark_incomplete_orders_unknown :: "uuid \<Rightarrow> nat dbm" where
  "mark_incomplete_orders_unknown deployment_id =
     bnd (gets (list_orders_for_deployment deployment_id (Some [INTENT, SUBMITTED]))) (\<lambda>incomplete.
     bnd (for_each mark_incomplete_order incomplete) (\<lambda>marked. ret (sum_list marked)))"

definition list_pending_reconciliation_orders ::
    "uuid option \<Rightarrow> exec_db \<Rightarrow> ExecutionOrder list" where
  "list_pending_reconciliation_orders deployment_id db = sort_key ord_created_at
     (filter (\<lambda>ord. ord_status ord = UNKNOWN \<and> ord_reconciliation_state ord = PENDING \<and>
         (case deployment_id of None \<Rightarrow> True | Some d \<Rightarrow> ord_deployment_id ord = d))
        (db_orders db))"

definition record_reconciliation_attempt ::
    "uuid \<Rightarrow> datetime option \<Rightarrow> string option \<Rightarrow> unit dbm" where
  "record_reconciliation_attempt order_id at_time err =
     bnd (gets (\<lambda>db. (get_execution_order order_id db, or_now at_time db))) (\<lambda>(order, ts).
     case order of
       None \<Rightarrow> throw (ValueError ''ExecutionOrder not found'' [order_id])
     | Some _ \<Rightarrow> update_order order_id (\<lambda>ord. ord\<lparr>ord_reconciliation_attempted_at := Some ts,
         ord_reconciliation_error := err\<rparr>))"

definition finalize_order_reconciliation ::
    "uuid \<Rightarrow> string \<Rightarrow> string option \<Rightarrow> datetime option \<Rightarrow> unit dbm" where
  "finalize_order_reconciliation order_id reconciled_by detail at_time =
     bnd (gets (\<lambda>db. (get_execution_order order_id db, or_now at_time db))) (\<lambda>(order, ts).
     case order of
       None \<Rightarrow> throw (ValueError ''ExecutionOrder not found'' [order_id])
     | Some _ \<Rightarrow> update_order order_id (\<lambda>ord. ord\<lparr>ord_reconciliation_state := RECONCILED,
         ord_reconciled_at := Some ts, ord_reconciled_by := Some reconciled_by,
         ord_reconciliation_detail := detail, ord_reconciliation_error := None\<rparr>))"

definition release_if_expired :: "datetime \<Rightarrow> ExecutionWorkerLease \<Rightarrow> nat dbm" where
  "release_if_expired ts lease =
     (if lea_expires_at lease \<le> ts then bnd (delete_lease (lea_id lease)) (\<lambda>_. ret 1) else ret 0)"

definition release_expired_leases :: "datetime option \<Rightarrow> nat dbm" where
  "release_expired_leases now =
     bnd (gets (\<lambda>db. (db_leases db, or_now now db))) (\<lambda>(leases, ts).
     bnd (for_each (release_if_expired ts) leases) (\<lambda>released. ret (sum_list released)))"

definition sum_realized_pnl_since :: "uuid \<Rightarrow> datetime \<Rightarrow> exec_db \<Rightarrow> decimal" where
  "sum_realized_pnl_since paper_account_id since db = sum_list (map led_amount
     (filter (\<lambda>e. led_paper_account_id e = paper_account_id \<and>
                  led_entry_type e = REALIZED_PNL \<and> led_created_at e \<ge> since) (db_ledger db)))"

definition count_unknown_orders :: "uuid option \<Rightarrow> exec_db \<Rightarrow> nat" where
  "count_unknown_orders deployment_id db = length
     (filter (\<lambda>ord. ord_status ord = UNKNOWN \<and>
         (case deployment_id of None \<Rightarrow> True | Some d \<Rightarrow> ord_deployment_id ord = d))
        (db_orders db))"

definition get_latest_decision :: "uuid \<Rightarrow> exec_db \<Rightarrow> exec_error + ExecutionDecision option" where
  "get_latest_decision deployment_id db = scalar_one_or_none (take 1
     (sort_key (\<lambda>d. - dec_bar_close_time d)
        (filter (\<lambda>d. dec_deployment_id d = deployment_id) (db_decisions db))))"

definition record_audit_event ::
    "string \<Rightarrow> string \<Rightarrow> string option \<Rightarrow> uuid option \<Rightarrow> (string \<times> json) list \<Rightarrow>
     ExecutionAuditEvent dbm" where
  "record_audit_event event_type message actor deployment_id payload =
     session_add
       (\<lambda>i now. \<lparr>aud_id = i, aud_event_type = event_type, aud_actor = actor,
          aud_deployment_id = deployment_id, aud_message = message, aud_payload = payload,
          aud_created_at = now\<rparr>)
       (\<lambda>r db. db\<lparr>db_audit := db_audit db @ [r]\<rparr>)"

definition set_pending_deployment_action ::
    "uuid \<Rightarrow> string \<Rightarrow> datetime option \<Rightarrow> ExecutionDeployment dbm" where
  "set_pending_deployment_action deployment_id action at_time =
     update_deployment deployment_id (\<lambda>db d. d\<lparr>dep_pending_action := Some action,
       dep_pending_action_requested_at := Some (or_now at_time db)\<rparr>)"

definition clear_pending_deployment_action :: "uuid \<Rightarrow> ExecutionDeployment dbm" where
  "clear_pending_deployment_action deployment_id =
     update_deployment deployment_id (\<lambda>_ d. d\<lparr>dep_pending_action := None,
       dep_pending_action_requested_at := None\<rparr>)"

end
