(* ===== verification/Exec_Store_Inv.thy ===== *)
theory Exec_Store_Inv
  imports Exec_Store
begin

text \<open>
  What the repository operations keep. First the schema constraints \<^const>\<open>wf_db\<close>,
  which every operation keeps; then the footprints: an operation leaves every table it
  does not write unchanged (\<open>frames\<close>); then the two contracts the components above are
  written against, the book of open net positions and the table of worker leases, as
  locales interpreted on the repository functions.
\<close>

section \<open>Footprints\<close>

definition frames :: "('s \<Rightarrow> 'p) \<Rightarrow> ('s, 'a) comp \<Rightarrow> bool" where
  "frames f m \<longleftrightarrow> (\<forall>s. f (snd (m s)) = f s)"

named_theorems frames_intros \<open>computations that leave a projection of the state unchanged\<close>

lemma frames_keeps: "frames f m \<longleftrightarrow> (\<forall>c. keeps (\<lambda>s. f s = c) m)"
  by (auto simp: frames_def keeps_def)

lemma framesD: "frames f m \<Longrightarrow> m s = (r, s') \<Longrightarrow> f s' = f s"
  by (metis frames_def snd_conv)

lemma keeps_frames: "frames f m \<Longrightarrow> keeps (\<lambda>s. P (f s)) m"
  by (simp add: frames_def keeps_def)

lemma frames_ret [frames_intros]: "frames f (ret x)"
  and frames_throw [frames_intros]: "frames f (throw e)"
  and frames_gets [frames_intros]: "frames f (gets g)"
  and frames_reads [frames_intros]: "frames f (reads h)"
  by (simp_all add: frames_def comp_defs)

lemma frames_bnd [frames_intros]:
  "frames f m \<Longrightarrow> (\<And>x. frames f (k x)) \<Longrightarrow> frames f (bnd m k)"
  by (simp add: frames_keeps keeps_bnd)

lemma frames_catch [frames_intros]:
  "frames f m \<Longrightarrow> (\<And>e. frames f (h e)) \<Longrightarrow> frames f (catch m h)"
  by (simp add: frames_keeps keeps_catch)

lemma frames_whenM [frames_intros]: "frames f m \<Longrightarrow> frames f (whenM b m)"
  by (simp add: frames_keeps keeps_whenM)

lemma frames_if [frames_intros]:
  "(b \<Longrightarrow> frames f m) \<Longrightarrow> (\<not> b \<Longrightarrow> frames f n) \<Longrightarrow> frames f (if b then m else n)"
  by simp

lemma frames_case_option [frames_intros]:
  "frames f m \<Longrightarrow> (\<And>x. frames f (n x)) \<Longrightarrow> frames f (case opt of None \<Rightarrow> m | Some x \<Rightarrow> n x)"
  by (simp split: option.splits)

lemma frames_case_sum [frames_intros]:
  "(\<And>e. frames f (m e)) \<Longrightarrow> (\<And>x. frames f (n x)) \<Longrightarrow>
     frames f (case r of Inl e \<Rightarrow> m e | Inr x \<Rightarrow> n x)"
  by (simp split: sum.splits)

lemma frames_case_prod [frames_intros]:
  "(\<And>x y. frames f (m x y)) \<Longrightarrow> frames f (case p of (x, y) \<Rightarrow> m x y)"
  by (simp split: prod.splits)

lemma frames_for_each [frames_intros]: "(\<And>x. frames f (g x)) \<Longrightarrow> frames f (for_each g xs)"
  by (simp add: frames_keeps keeps_for_each)

lemma frames_modify: "(\<And>s. f (g s) = f s) \<Longrightarrow> frames f (modify g)"
  by (simp add: frames_def modify_def)

lemma frames_session_add:
  "(\<And>r db. f (put r (db\<lparr>db_next_id := Suc (db_next_id db)\<rparr>)) = f db) \<Longrightarrow> frames f (session_add mk put)"
  by (simp add: frames_def session_add_def Let_def)

lemma keeps_case_sum [keeps_intros]:
  "(\<And>e. keeps P (m e)) \<Longrightarrow> (\<And>x. keeps P (n x)) \<Longrightarrow>
     keeps P (case r of Inl e \<Rightarrow> m e | Inr x \<Rightarrow> n x)"
  by (simp split: sum.splits)

lemma keeps_modify: "(\<And>s. P s \<Longrightarrow> P (g s)) \<Longrightarrow> keeps P (modify g)"
  by (simp add: keeps_def modify_def)

lemma keeps_session_add:
  "(\<And>db. P db \<Longrightarrow> P (put (mk (db_next_id db) (db_clock db)) (db\<lparr>db_next_id := Suc (db_next_id db)\<rparr>))) \<Longrightarrow>
     keeps P (session_add mk put)"
  by (simp add: keeps_def session_add_def Let_def)

lemma outcome_session_add [outcome_simps]:
  "outcome (session_add mk put) Q E db =
     Q (mk (db_next_id db) (db_clock db))
       (put (mk (db_next_id db) (db_clock db)) (db\<lparr>db_next_id := Suc (db_next_id db)\<rparr>))"
  by (simp add: outcome_def session_add_def Let_def)

lemma outcome_case_sum [outcome_simps]:
  "outcome (case r of Inl e \<Rightarrow> m e | Inr x \<Rightarrow> n x) Q E s =
     (case r of Inl e \<Rightarrow> outcome (m e) Q E s | Inr x \<Rightarrow> outcome (n x) Q E s)"
  by (simp split: sum.splits)

text \<open>
  The book of an account: the tables the ledger writes. Orders, decisions, deployments
  and leases are the other footprints.
\<close>

definition book ::
    "exec_db \<Rightarrow> PaperAccount list \<times> ExecutionFill list \<times> ExecutionNetPosition list \<times>
       ExecutionLedgerEntry list" where
  "book db = (db_accounts db, db_fills db, db_positions db, db_ledger db)"

lemmas order_ops_defs = create_execution_order_intent_def transition_execution_order_def
  record_reconciliation_attempt_def finalize_order_reconciliation_def update_order_def
  mark_incomplete_orders_unknown_def mark_incomplete_order_def

lemmas decision_ops_defs = create_execution_decision_def update_execution_decision_outcome_def

lemmas deployment_ops_defs = create_execution_deployment_def update_deployment_def
  transition_deployment_lifecycle_def update_deployment_last_bar_close_def
  set_pending_deployment_action_def clear_pending_deployment_action_def

lemmas lease_ops_defs = acquire_worker_lease_def heartbeat_worker_lease_def
  release_worker_lease_def release_expired_leases_def release_if_expired_def update_lease_def
  delete_lease_def

lemmas control_ops_defs = get_execution_control_state_def set_kill_switch_def Let_def

lemmas event_ops_defs = record_risk_event_def record_audit_event_def

lemmas book_ops_defs = create_paper_account_def update_paper_cash_balance_def
  create_execution_fill_def upsert_open_net_position_def update_position_def
  add_position_def append_ledger_entry_def

text \<open>Each projection is left alone by the operations on the other tables.\<close>

lemma order_frames [frames_intros]:
  "frames db_orders (create_execution_decision dep bar idn sig dout rq rsn ctx)"
  "frames db_orders (update_execution_decision_outcome did dout octx)"
  "frames db_orders (create_execution_deployment acc nm idn mode lc live)"
  "frames db_orders (update_deployment dep upd)"
  "frames db_orders (transition_deployment_lifecycle dep lc tm)"
  "frames db_orders (update_deployment_last_bar_close dep bar)"
  "frames db_orders (set_pending_deployment_action dep nm tm)"
  "frames db_orders (clear_pending_deployment_action dep)"
  "frames db_orders (acquire_worker_lease dep wk tok ttl tm)"
  "frames db_orders (heartbeat_worker_lease dep wk tok ttl tm)"
  "frames db_orders (release_worker_lease dep wk tok)"
  "frames db_orders (release_expired_leases tm)"
  "frames db_orders (delete_lease lid)"
  "frames db_orders (update_lease lid lupd)"
  "frames db_orders get_execution_control_state"
  "frames db_orders (set_kill_switch en rsn wh2)"
  "frames db_orders (record_risk_event dep code msg decn oidn ctx)"
  "frames db_orders (record_audit_event nm msg actor depo ctx)"
  "frames db_orders (create_paper_account nm bal cur cfg1 cfg2)"
  "frames db_orders (update_paper_cash_balance acc bal)"
  "frames db_orders (create_execution_fill dep oid fill)"
  "frames db_orders (upsert_open_net_position dep psd qty avg tm)"
  "frames db_orders (append_ledger_entry acc dep ety amt bal fid rsn)"
  by (auto simp: decision_ops_defs deployment_ops_defs lease_ops_defs control_ops_defs event_ops_defs book_ops_defs
    intro!: frames_intros frames_modify frames_session_add)

lemma decision_frames [frames_intros]:
  "frames db_decisions (create_execution_order_intent dep decn mode sd qty meta)"
  "frames db_decisions (transition_execution_order oid st rs ext rej sub com)"
  "frames db_decisions (record_reconciliation_attempt oid tm err)"
  "frames db_decisions (finalize_order_reconciliation oid wh det tm)"
  "frames db_decisions (mark_incomplete_orders_unknown dep)"
  "frames db_decisions (create_execution_deployment acc nm idn mode lc live)"
  "frames db_decisions (update_deployment dep upd)"
  "frames db_decisions (transition_deployment_lifecycle dep lc tm)"
  "frames db_decisions (update_deployment_last_bar_close dep bar)"
  "frames db_decisions (set_pending_deployment_action dep nm tm)"
  "frames db_decisions (clear_pending_deployment_action dep)"
  "frames db_decisions (acquire_worker_lease dep wk tok ttl tm)"
  "frames db_decisions (heartbeat_worker_lease dep wk tok ttl tm)"
  "frames db_decisions (release_worker_lease dep wk tok)"
  "frames db_decisions (release_expired_leases tm)"
  "frames db_decisions (delete_lease lid)"
  "frames db_decisions (update_lease lid lupd)"
  "frames db_decisions get_execution_control_state"
  "frames db_decisions (set_kill_switch en rsn wh2)"
  "frames db_decisions (record_risk_event dep code msg decn oidn ctx)"
  "frames db_decisions (record_audit_event nm msg actor depo ctx)"
  "frames db_decisions (create_paper_account nm bal cur cfg1 cfg2)"
  "frames db_decisions (update_paper_cash_balance acc bal)"
  "frames db_decisions (create_execution_fill dep oid fill)"
  "frames db_decisions (upsert_open_net_position dep psd qty avg tm)"
  "frames db_decisions (append_ledger_entry acc dep ety amt bal fid rsn)"
  by (auto simp: order_ops_defs deployment_ops_defs lease_ops_defs control_ops_defs event_ops_defs book_ops_defs
    intro!: frames_intros frames_modify frames_session_add)

lemma deployment_frames [frames_intros]:
  "frames db_deployments (create_execution_order_intent dep decn mode sd qty meta)"
  "frames db_deployments (transition_execution_order oid st rs ext rej sub com)"
  "frames db_deployments (record_reconciliation_attempt oid tm err)"
  "frames db_deployments (finalize_order_reconciliation oid wh det tm)"
  "frames db_deployments (mark_incomplete_orders_unknown dep)"
  "frames db_deployments (create_execution_decision dep bar idn sig dout rq rsn ctx)"
  "frames db_deployments (update_execution_decision_outcome did dout octx)"
  "frames db_deployments (acquire_worker_lease dep wk tok ttl tm)"
  "frames db_deployments (heartbeat_worker_lease dep wk tok ttl tm)"
  "frames db_deployments (release_worker_lease dep wk tok)"
  "frames db_deployments (release_expired_leases tm)"
  "frames db_deployments (delete_lease lid)"
  "frames db_deployments (update_lease lid lupd)"
  "frames db_deployments get_execution_control_state"
  "frames db_deployments (set_kill_switch en rsn wh2)"
  "frames db_deployments (record_risk_event dep code msg decn oidn ctx)"
  "frames db_deployments (record_audit_event nm msg actor depo ctx)"
  "frames db_deployments (create_paper_account nm bal cur cfg1 cfg2)"
  "frames db_deployments (update_paper_cash_balance acc bal)"
  "frames db_deployments (create_execution_fill dep oid fill)"
  "frames db_deployments (upsert_open_net_position dep psd qty avg tm)"
  "frames db_deployments (append_ledger_entry acc dep ety amt bal fid rsn)"
  by (auto simp: order_ops_defs decision_ops_defs lease_ops_defs control_ops_defs event_ops_defs book_ops_defs
    intro!: frames_intros frames_modify frames_session_add)

lemma lease_frames [frames_intros]:
  "frames db_leases (create_execution_order_intent dep decn mode sd qty meta)"
  "frames db_leases (transition_execution_order oid st rs ext rej sub com)"
  "frames db_leases (record_reconciliation_attempt oid tm err)"
  "frames db_leases (finalize_order_reconciliation oid wh det tm)"
  "frames db_leases (mark_incomplete_orders_unknown dep)"
  "frames db_leases (create_execution_decision dep bar idn sig dout rq rsn ctx)"
  "frames db_leases (update_execution_decision_outcome did dout octx)"
  "frames db_leases (create_execution_deployment acc nm idn mode lc live)"
  "frames db_leases (update_deployment dep upd)"
  "frames db_leases (transition_deployment_lifecycle dep lc tm)"
  "frames db_leases (update_deployment_last_bar_close dep bar)"
  "frames db_leases (set_pending_deployment_action dep nm tm)"
  "frames db_leases (clear_pending_deployment_action dep)"
  "frames db_leases get_execution_control_state"
  "frames db_leases (set_kill_switch en rsn wh2)"
  "frames db_leases (record_risk_event dep code msg decn oidn ctx)"
  "frames db_leases (record_audit_event nm msg actor depo ctx)"
  "frames db_leases (create_paper_account nm bal cur cfg1 cfg2)"
  "frames db_leases (update_paper_cash_balance acc bal)"
  "frames db_leases (create_execution_fill dep oid fill)"
  "frames db_leases (upsert_open_net_position dep psd qty avg tm)"
  "frames db_leases (append_ledger_entry acc dep ety amt bal fid rsn)"
  by (auto simp: order_ops_defs decision_ops_defs deployment_ops_defs control_ops_defs event_ops_defs book_ops_defs
    intro!: frames_intros frames_modify frames_session_add)

lemma control_frames [frames_intros]:
  "frames db_control (create_execution_order_intent dep decn mode sd qty meta)"
  "frames db_control (transition_execution_order oid st rs ext rej sub com)"
  "frames db_control (record_reconciliation_attempt oid tm err)"
  "frames db_control (finalize_order_reconciliation oid wh det tm)"
  "frames db_control (mark_incomplete_orders_unknown dep)"
  "frames db_control (create_execution_decision dep bar idn sig dout rq rsn ctx)"
  "frames db_control (update_execution_decision_outcome did dout octx)"
  "frames db_control (create_execution_deployment acc nm idn mode lc live)"
  "frames db_control (update_deployment dep upd)"
  "frames db_control (transition_deployment_lifecycle dep lc tm)"
  "frames db_control (update_deployment_last_bar_close dep bar)"
  "frames db_control (set_pending_deployment_action dep nm tm)"
  "frames db_control (clear_pending_deployment_action dep)"
  "frames db_control (acquire_worker_lease dep wk tok ttl tm)"
  "frames db_control (heartbeat_worker_lease dep wk tok ttl tm)"
  "frames db_control (release_worker_lease dep wk tok)"
  "frames db_control (release_expired_leases tm)"
  "frames db_control (delete_lease lid)"
  "frames db_control (update_lease lid lupd)"
  "frames db_control (record_risk_event dep code msg decn oidn ctx)"
  "frames db_control (record_audit_event nm msg actor depo ctx)"
  "frames db_control (create_paper_account nm bal cur cfg1 cfg2)"
  "frames db_control (update_paper_cash_balance acc bal)"
  "frames db_control (create_execution_fill dep oid fill)"
  "frames db_control (upsert_open_net_position dep psd qty avg tm)"
  "frames db_control (append_ledger_entry acc dep ety amt bal fid rsn)"
  by (auto simp: order_ops_defs decision_ops_defs deployment_ops_defs lease_ops_defs event_ops_defs book_ops_defs
    intro!: frames_intros frames_modify frames_session_add)

lemma book_frames [frames_intros]:
  "frames book (create_execution_order_intent dep decn mode sd qty meta)"
  "frames book (transition_execution_order oid st rs ext rej sub com)"
  "frames book (record_reconciliation_attempt oid tm err)"
  "frames book (finalize_order_reconciliation oid wh det tm)"
  "frames book (mark_incomplete_orders_unknown dep)"
  "frames book (create_execution_decision dep bar idn sig dout rq rsn ctx)"
  "frames book (update_execution_decision_outcome did dout octx)"
  "frames book (create_execution_deployment acc nm idn mode lc live)"
  "frames book (update_deployment dep upd)"
  "frames book (transition_deployment_lifecycle dep lc tm)"
  "frames book (update_deployment_last_bar_close dep bar)"
  "frames book (set_pending_deployment_action dep nm tm)"
  "frames book (clear_pending_deployment_action dep)"
  "frames book (acquire_worker_lease dep wk tok ttl tm)"
  "frames book (heartbeat_worker_lease dep wk tok ttl tm)"
  "frames book (release_worker_lease dep wk tok)"
  "frames book (release_expired_leases tm)"
  "frames book (delete_lease lid)"
  "frames book (update_lease lid lupd)"
  "frames book get_execution_control_state"
  "frames book (set_kill_switch en rsn wh2)"
  "frames book (record_risk_event dep code msg decn oidn ctx)"
  "frames book (record_audit_event nm msg actor depo ctx)"
  by (auto simp: book_def order_ops_defs decision_ops_defs deployment_ops_defs lease_ops_defs control_ops_defs event_ops_defs
    intro!: frames_intros frames_modify frames_session_add)

section \<open>Every operation keeps the schema constraints\<close>

text \<open>Changing the columns of a row that no key mentions, and inserting or deleting rows.\<close>

lemma wf_db_next_id: "wf_db db \<Longrightarrow> wf_db (db\<lparr>db_next_id := Suc (db_next_id db)\<rparr>)"
  by (simp add: wf_db_defs)

lemma distinct_map_filter_upd:
  assumes "distinct (map key (filter P rows))" and "\<And>r. key (f r) = key r"
    and "\<And>r. r \<in> set rows \<Longrightarrow> rid r = k \<Longrightarrow> P (f r) \<Longrightarrow> P r"
  shows "distinct (map key (filter P (upd_row rid k f rows)))"
  using assms(1,3)
proof (induction rows)
  case Nil
  then show ?case by simp
next
  case (Cons r rows)
  have sub: "key ` {x \<in> set (upd_row rid k f rows). P x} \<subseteq> key ` {x \<in> set rows. P x}"
    using Cons.prems(2) assms(2) by (fastforce simp: image_iff dest!: set_upd_rowD)
  have "distinct (map key (filter P (upd_row rid k f rows)))"
    using Cons by (auto split: if_splits)
  with sub Cons.prems assms(2) show ?case
    by (auto split: if_splits)
qed

lemma distinct_map_filter_append:
  "distinct (map key (filter P rows)) \<Longrightarrow> (P r \<Longrightarrow> key r \<notin> key ` {x \<in> set rows. P x}) \<Longrightarrow>
     distinct (map key (filter P (rows @ [r])))"
  by auto

lemma distinct_map_del: "distinct (map key rows) \<Longrightarrow> distinct (map key (del_row rid k rows))"
  by (auto simp: del_row_def distinct_map intro: inj_on_subset)

lemma keeps_update_deployment:
  assumes "\<And>db d. dep_id (f db d) = dep_id d"
  shows "keeps wf_db (update_deployment dep f)"
  unfolding update_deployment_def
  by (auto simp: wf_db_defs assms keeps_def comp_defs split: option.splits)

lemma keeps_update_order:
  "(\<And>r. ord_id (f r) = ord_id r) \<Longrightarrow> keeps wf_db (update_order oid f)"
  by (auto simp: update_order_def wf_db_defs intro!: keeps_modify)

lemma keeps_update_lease:
  "(\<And>r. lea_id (f r) = lea_id r) \<Longrightarrow> (\<And>r. lea_deployment_id (f r) = lea_deployment_id r) \<Longrightarrow>
     keeps wf_db (update_lease oid f)"
  by (auto simp: update_lease_def wf_db_defs intro!: keeps_modify)

lemma order_ops_wf [keeps_intros]:
  "keeps wf_db (create_execution_order_intent dep decn mode sd qty meta)"
  "keeps wf_db (transition_execution_order oid st rs ext rej sub com)"
  "keeps wf_db (record_reconciliation_attempt oid tm err)"
  "keeps wf_db (finalize_order_reconciliation oid wh det tm)"
proof -
  show "keeps wf_db (create_execution_order_intent dep decn mode sd qty meta)"
    by (auto simp: create_execution_order_intent_def wf_db_defs intro!: keeps_session_add)
qed (auto simp: transition_execution_order_def record_reconciliation_attempt_def
       finalize_order_reconciliation_def intro!: keeps_intros keeps_update_order)

lemma mark_incomplete_orders_unknown_wf [keeps_intros]:
  "keeps wf_db (mark_incomplete_orders_unknown dep)"
  unfolding mark_incomplete_orders_unknown_def mark_incomplete_order_def by (auto intro!: keeps_intros)

lemma decision_ops_wf [keeps_intros]:
  "keeps wf_db (create_execution_decision dep bar idn sig dout rq rsn ctx)"
  "keeps wf_db (update_execution_decision_outcome did dout octx)"
proof -
  show "keeps wf_db (create_execution_decision dep bar idn sig dout rq rsn ctx)"
    unfolding keeps_outcome create_execution_decision_def
    by (auto simp: outcome_simps wf_db_defs decision_key_def)
next
  have "map decision_key (upd_row dec_id did (\<lambda>d. d\<lparr>dec_outcome := dout, dec_context := c d\<rparr>) rows)
      = map decision_key rows" for c rows
    by (rule map_upd_row) (simp add: decision_key_def)
  then show "keeps wf_db (update_execution_decision_outcome did dout octx)"
    unfolding update_execution_decision_outcome_def
    by (auto simp: wf_db_defs intro!: keeps_intros keeps_modify)
qed

lemma deployment_ops_wf [keeps_intros]:
  "keeps wf_db (create_execution_deployment acc nm idn mode lc live)"
  "keeps wf_db (transition_deployment_lifecycle dep lc tm)"
  "keeps wf_db (update_deployment_last_bar_close dep bar)"
  "keeps wf_db (set_pending_deployment_action dep nm tm)"
  "keeps wf_db (clear_pending_deployment_action dep)"
proof -
  show "keeps wf_db (create_execution_deployment acc nm idn mode lc live)"
    by (auto simp: create_execution_deployment_def wf_db_defs intro!: keeps_session_add)
qed (auto simp: transition_deployment_lifecycle_def update_deployment_last_bar_close_def
       set_pending_deployment_action_def clear_pending_deployment_action_def
       intro!: keeps_intros keeps_update_deployment)

lemma get_worker_lease_NoneD:
  "get_worker_lease dep db = Inr None \<Longrightarrow> dep \<notin> lea_deployment_id ` set (db_leases db)"
  by (auto simp: get_worker_lease_def filter_empty_conv dest!: scalar_one_or_none_NoneD)

lemma acquire_worker_lease_wf [keeps_intros]: "keeps wf_db (acquire_worker_lease dep wk tok ttl tm)"
  unfolding keeps_outcome acquire_worker_lease_def
  by (auto simp: outcome_simps update_lease_def wf_db_defs
      split: sum.splits option.splits dest!: get_worker_lease_NoneD)

lemma lease_ops_wf [keeps_intros]:
  "keeps wf_db (heartbeat_worker_lease dep wk tok ttl tm)"
  "keeps wf_db (delete_lease lid)"
  "keeps wf_db (release_worker_lease dep wk tok)"
  "keeps wf_db (release_expired_leases tm)"
proof -
  show del: "keeps wf_db (delete_lease lid)" for lid
    by (auto simp: delete_lease_def wf_db_defs intro!: keeps_modify distinct_map_del)
  show "keeps wf_db (heartbeat_worker_lease dep wk tok ttl tm)"
    by (auto simp: heartbeat_worker_lease_def intro!: keeps_intros keeps_update_lease)
  show "keeps wf_db (release_worker_lease dep wk tok)"
    by (auto simp: release_worker_lease_def intro!: keeps_intros del)
  show "keeps wf_db (release_expired_leases tm)"
    by (auto simp: release_expired_leases_def release_if_expired_def intro!: keeps_intros del)
qed

lemma control_event_ops_wf [keeps_intros]:
  "keeps wf_db get_execution_control_state"
  "keeps wf_db (set_kill_switch en rsn wh2)"
  "keeps wf_db (record_risk_event dep code msg decn oidn ctx)"
  "keeps wf_db (record_audit_event nm msg actor depo ctx)"
  by (auto simp: control_ops_defs event_ops_defs wf_db_defs
      intro!: keeps_intros keeps_modify keeps_session_add)

lemma account_ops_wf [keeps_intros]:
  "keeps wf_db (create_paper_account nm bal cur cfg1 cfg2)"
  "keeps wf_db (update_paper_cash_balance acc bal)"
  "keeps wf_db (append_ledger_entry acc dep ety amt bal fid rsn)"
  "keeps wf_db (create_execution_fill dep oid fill)"
proof -
  show "keeps wf_db (create_paper_account nm bal cur cfg1 cfg2)"
    unfolding keeps_outcome create_paper_account_def
    by (auto simp: outcome_simps wf_db_defs)
  show "keeps wf_db (create_execution_fill dep oid fill)"
    unfolding keeps_outcome create_execution_fill_def
    by (auto simp: outcome_simps wf_db_defs fill_key_def)
qed (auto simp: update_paper_cash_balance_def append_ledger_entry_def wf_db_defs
       intro!: keeps_intros keeps_modify keeps_session_add)

section \<open>The book of open net positions\<close>

definition held_position ::
    "(uuid \<Rightarrow> 's \<Rightarrow> exec_error + 'p option) \<Rightarrow> ('p \<Rightarrow> 'v) \<Rightarrow> uuid \<Rightarrow> 's \<Rightarrow> 'v option" where
  "held_position get_open view d s =
     (case get_open d s of Inl _ \<Rightarrow> None | Inr p \<Rightarrow> map_option view p)"

locale net_position_book =
  fixes get_open :: "uuid \<Rightarrow> 's \<Rightarrow> exec_error + 'p option"
    and upsert :: "uuid \<Rightarrow> PositionSide \<Rightarrow> decimal \<Rightarrow> decimal option \<Rightarrow> datetime option \<Rightarrow>
      ('s, unit) comp"
    and view :: "'p \<Rightarrow> PositionSide \<times> decimal \<times> decimal option"
    and invar :: "'s \<Rightarrow> bool"
  assumes get_total: "invar s \<Longrightarrow> \<exists>p. get_open d s = Inr p"
    and upsert_runs: "invar s \<Longrightarrow> \<exists>s'. upsert d sd q e t s = (Inr (), s') \<and> invar s'"
    and upsert_get: "invar s \<Longrightarrow> upsert d sd q e t s = (Inr (), s') \<Longrightarrow>
      held_position get_open view d' s' =
        (if d' = d then (if sd = FLAT \<or> q = 0 then None else Some (sd, q, e))
         else held_position get_open view d' s)"
begin

lemma last_upsert_wins:
  assumes "invar s" and "upsert d sd1 q1 e1 t1 s = (Inr (), s1)"
    and "upsert d sd2 q2 e2 t2 s1 = (Inr (), s2)" and "upsert d sd2 q2 e2 t2 s = (Inr (), s3)"
  shows "held_position get_open view d' s2 = held_position get_open view d' s3"
proof -
  from assms(1,2) have "invar s1" using upsert_runs by (metis prod.inject)
  with assms show ?thesis by (simp add: upsert_get)
qed

lemma flat_closes:
  assumes "invar s"
  shows "\<exists>s'. upsert d FLAT q e t s = (Inr (), s') \<and> invar s' \<and>
    held_position get_open view d s' = None"
  using upsert_runs [OF assms] upsert_get [OF assms] by metis

end

definition position_view :: "ExecutionNetPosition \<Rightarrow> PositionSide \<times> decimal \<times> decimal option" where
  "position_view p = (pos_side p, pos_quantity p, pos_average_entry_price p)"

definition open_position :: "uuid \<Rightarrow> exec_db \<Rightarrow> ExecutionNetPosition option" where
  "open_position d db = find (\<lambda>p. pos_is_open p \<and> pos_deployment_id p = d) (db_positions db)"

lemma one_open_position:
  "wf_db db \<Longrightarrow> length (filter (\<lambda>p. pos_is_open p \<and> pos_deployment_id p = d) (db_positions db)) \<le> 1"
  by (rule distinct_filter_key_le_1) (simp add: wf_db_defs)

lemma get_open_net_position_eq: "wf_db db \<Longrightarrow> get_open_net_position d db = Inr (open_position d db)"
  unfolding get_open_net_position_def open_position_def
  by (rule scalar_one_or_none_find) (rule one_open_position)

lemma open_position_iff:
  "wf_db db \<Longrightarrow> open_position d db = Some p \<longleftrightarrow>
     p \<in> set (db_positions db) \<and> pos_is_open p \<and> pos_deployment_id p = d"
  unfolding open_position_def by (subst find_Some_unique_iff) (auto dest: one_open_position)

lemma open_position_None_iff:
  "open_position d db = None \<longleftrightarrow>
     (\<forall>p\<in>set (db_positions db). \<not> (pos_is_open p \<and> pos_deployment_id p = d))"
  unfolding open_position_def by (auto simp: find_None_iff)

lemma open_position_cong: "db_positions db' = db_positions db \<Longrightarrow> open_position d db' = open_position d db"
  by (simp add: open_position_def)

lemma wf_position_id_inj:
  "wf_db db \<Longrightarrow> p \<in> set (db_positions db) \<Longrightarrow> q \<in> set (db_positions db) \<Longrightarrow>
     pos_id p = pos_id q \<Longrightarrow> p = q"
  by (auto simp: wf_db_defs pk_ok_def distinct_map dest: inj_onD)

text \<open>Overwriting the open position of a deployment, and adding one where there is none.\<close>

lemma overwrite_position:
  assumes wf: "wf_db db" and p: "open_position d db = Some p"
    and f: "\<And>r. pos_id (f r) = pos_id r" "\<And>r. pos_deployment_id (f r) = pos_deployment_id r"
  defines "db' \<equiv> db\<lparr>db_positions := upd_row pos_id (pos_id p) f (db_positions db)\<rparr>"
  shows "wf_db db'"
    and "open_position d' db' =
      (if d' = d then (if pos_is_open (f p) then Some (f p) else None) else open_position d' db)"
proof -
  have pin: "p \<in> set (db_positions db)" "pos_is_open p" "pos_deployment_id p = d"
    using p by (simp_all add: open_position_iff [OF wf])
  have only_p: "r = p" if "r \<in> set (db_positions db)" "pos_id r = pos_id p" for r
    using wf_position_id_inj [OF wf that(1) pin(1) that(2)] .
  have "distinct (map pos_deployment_id (filter pos_is_open (db_positions db')))"
    unfolding db'_def using wf f only_p pin
    by (auto simp: wf_db_defs intro!: distinct_map_filter_upd)
  with wf f show wf': "wf_db db'"
    by (auto simp: wf_db_defs db'_def)
  have mem: "r \<in> set (db_positions db') \<longleftrightarrow>
      (r = f p \<or> (r \<in> set (db_positions db) \<and> pos_id r \<noteq> pos_id p))" for r
    using pin(1) only_p by (auto simp: db'_def upd_row_def image_iff)
  have other: "open_position d' db' = open_position d' db" if "d' \<noteq> d"
  proof -
    have "open_position d' db' = Some r \<longleftrightarrow> open_position d' db = Some r" for r
      using that pin f(2) only_p by (auto simp: open_position_iff [OF wf] open_position_iff [OF wf'] mem)
    then show ?thesis by (metis not_None_eq)
  qed
  have same: "open_position d db' = (if pos_is_open (f p) then Some (f p) else None)"
  proof (cases "pos_is_open (f p)")
    case True
    with pin f(2) have "open_position d db' = Some (f p)"
      by (simp add: open_position_iff [OF wf'] mem)
    with True show ?thesis by simp
  next
    case False
    have "r = p" if "r \<in> set (db_positions db)" "pos_is_open r" "pos_deployment_id r = d" for r
      using that p by (metis open_position_iff [OF wf] option.inject)
    with False have "open_position d db' = None"
      by (auto simp: open_position_None_iff mem)
    with False show ?thesis by simp
  qed
  show "open_position d' db' =
      (if d' = d then (if pos_is_open (f p) then Some (f p) else None) else open_position d' db)"
    using same other by simp
qed

lemma append_position:
  assumes wf: "wf_db db" and r: "pos_id r = db_next_id db" "pos_deployment_id r = d"
    and none: "open_position d db = None"
  defines "db' \<equiv> db\<lparr>db_next_id := Suc (db_next_id db), db_positions := db_positions db @ [r]\<rparr>"
  shows "wf_db db'"
    and "open_position d' db' =
      (if d' = d then (if pos_is_open r then Some r else None) else open_position d' db)"
proof -
  from none r wf show "wf_db db'"
    by (auto simp: wf_db_defs db'_def open_position_None_iff)
  show "open_position d' db' =
      (if d' = d then (if pos_is_open r then Some r else None) else open_position d' db)"
    using none r by (auto simp: open_position_def db'_def find_append split: option.splits)
qed

lemma upsert_open_net_position_spec:
  assumes wf: "wf_db db"
  shows "\<exists>db'. upsert_open_net_position d sd q e t db = (Inr (), db') \<and> wf_db db' \<and>
    (\<forall>d'. map_option position_view (open_position d' db') =
      (if d' = d then (if sd = FLAT \<or> q = 0 then None else Some (sd, q, e))
       else map_option position_view (open_position d' db)))"
proof (cases "open_position d db")
  case None
  show ?thesis
    using append_position [OF wf _ _ None] None
    by (auto simp: upsert_open_net_position_def get_open_net_position_eq [OF wf] add_position_def
        session_add_def Let_def comp_defs position_view_def)
next
  case (Some p)
  show ?thesis
    using overwrite_position [OF wf Some] Some
    by (auto simp: upsert_open_net_position_def get_open_net_position_eq [OF wf]
        update_position_def comp_defs position_view_def)
qed

lemma upsert_wf [keeps_intros]: "keeps wf_db (upsert_open_net_position d sd q e t)"
proof (rule keepsI)
  fix db assume "wf_db db"
  from upsert_open_net_position_spec [OF this, of d sd q e t]
  show "wf_db (snd (upsert_open_net_position d sd q e t db))" by auto
qed

interpretation npb: net_position_book
  get_open_net_position upsert_open_net_position position_view wf_db
proof unfold_locales
  fix s d
  show "wf_db s \<Longrightarrow> \<exists>p. get_open_net_position d s = Inr p"
    by (simp add: get_open_net_position_eq)
next
  fix s d sd q e t
  show "wf_db s \<Longrightarrow> \<exists>s'. upsert_open_net_position d sd q e t s = (Inr (), s') \<and> wf_db s'"
    using upsert_open_net_position_spec by blast
next
  fix s d sd q e t s' d'
  assume "wf_db s" and run: "upsert_open_net_position d sd q e t s = (Inr (), s')"
  then have "wf_db s'" and "map_option position_view (open_position d' s') =
      (if d' = d then (if sd = FLAT \<or> q = 0 then None else Some (sd, q, e))
       else map_option position_view (open_position d' s))"
    using upsert_open_net_position_spec [of s d sd q e t] by auto
  with \<open>wf_db s\<close> show "held_position get_open_net_position position_view d' s' =
      (if d' = d then (if sd = FLAT \<or> q = 0 then None else Some (sd, q, e))
       else held_position get_open_net_position position_view d' s)"
    by (simp add: held_position_def get_open_net_position_eq)
qed

end
