(* ===== verification/Paper_Broker.thy ===== *)
theory Paper_Broker
  imports Exec_Domain
begin

text \<open>
  \<^verbatim>\<open>execution/brokers/base.py\<close>, the values a broker exchanges with the service, and
  \<^verbatim>\<open>execution/brokers/paper.py\<close>, the deterministic simulator that fills market orders
  against an executable quote. The clock and the quote source are parameters: a broker
  record carries the time of the call and the quotes it would be given. What every
  broker promises its callers is the locale \<open>execution_broker\<close>, interpreted on the paper
  broker at the end.
\<close>

section \<open>Broker values\<close>

datatype BrokerRejectionCode =
    B_QUOTE_UNAVAILABLE | B_STALE_QUOTE | B_INVALID_QUOTE | B_INVALID_QUANTITY
  | B_SYMBOL_UNAVAILABLE | B_BROKER_UNAVAILABLE | B_LIVE_LOCKED | B_ACCOUNT_NOT_ALLOWLISTED
  | B_TRADING_DISABLED | B_UNSUPPORTED_FILL_POLICY | B_ORDER_CHECK_FAILED | B_ORDER_SEND_FAILED

datatype BrokerSubmissionOutcome = SO_FILLED | SO_REJECTED | SO_UNKNOWN

datatype BrokerOrderLookupStatus = LK_FILLED | LK_REJECTED | LK_NOT_FOUND | LK_UNAVAILABLE

record PaperCostConfig =
  pcc_point_value :: decimal
  pcc_slippage_points :: decimal
  pcc_cost_per_contract :: decimal
  pcc_cost_bps :: decimal
  pcc_max_quote_age_seconds :: decimal
  pcc_volume_step :: decimal
  pcc_min_volume :: decimal

text \<open>The field bounds pydantic checks when a \<^verbatim>\<open>PaperCostConfig\<close> is built.\<close>

definition cost_config_ok :: "PaperCostConfig \<Rightarrow> bool" where
  "cost_config_ok c \<longleftrightarrow> pcc_point_value c > 0 \<and> pcc_slippage_points c \<ge> 0 \<and>
     pcc_cost_per_contract c \<ge> 0 \<and> pcc_cost_bps c \<ge> 0 \<and> pcc_max_quote_age_seconds c > 0 \<and>
     pcc_volume_step c > 0 \<and> pcc_min_volume c > 0"

record ExecutableQuote =
  q_symbol :: string
  q_bid :: decimal
  q_ask :: decimal
  q_timestamp :: datetime
  q_source :: string

record BrokerHealth =
  bh_broker_mode :: BrokerMode
  bh_is_available :: bool
  bh_message :: string
  bh_checked_at :: datetime

record BrokerPositionSnapshot =
  bps_deployment_id :: uuid
  bps_symbol :: string
  bps_side :: PositionSide
  bps_quantity :: decimal
  bps_average_entry_price :: "decimal option"
  bps_unrealized_pnl :: decimal
  bps_mark_price :: "decimal option"

record BrokerAccountSnapshot =
  bas_account_id :: uuid
  bas_currency :: string
  bas_cash_balance :: decimal
  bas_equity :: decimal
  bas_unrealized_pnl :: decimal
  bas_realized_pnl :: decimal
  bas_total_fees :: decimal
  bas_positions :: "BrokerPositionSnapshot list"
  bas_as_of :: datetime

record MarketOrderRequest =
  mor_deployment_id :: uuid
  mor_order_id :: uuid
  mor_symbol :: string
  mor_side :: ExecutionSide
  mor_quantity :: decimal
  mor_external_fill_id :: string

record BrokerRejection =
  br_code :: BrokerRejectionCode
  br_message :: string
  br_context :: "(string \<times> json) list"

record BrokerSubmissionResult =
  bsr_outcome :: BrokerSubmissionOutcome
  bsr_fill :: "FillRecord option"
  bsr_rejection :: "BrokerRejection option"
  bsr_cost_config :: "PaperCostConfig option"
  bsr_external_order_id :: "string option"
  bsr_external_deal_ids :: "string list"
  bsr_raw_request :: "(string \<times> json) list"
  bsr_raw_response :: "(string \<times> json) list"
  bsr_metadata :: "(string \<times> json) list"

definition accepted :: "BrokerSubmissionResult \<Rightarrow> bool" where
  "accepted r \<longleftrightarrow> bsr_outcome r = SO_FILLED"

record BrokerOrderState =
  bos_status :: BrokerOrderLookupStatus
  bos_fill :: "FillRecord option"
  bos_external_order_id :: "string option"
  bos_external_deal_ids :: "string list"
  bos_message :: string

text \<open>
  The protocol \<^verbatim>\<open>ExecutionBroker\<close>: the two calls the service and the reconciler make.
  Either may raise.
\<close>

record ExecutionBroker =
  bk_submit_market_order ::
    "MarketOrderRequest \<Rightarrow> PaperCostConfig \<Rightarrow> exec_error + BrokerSubmissionResult"
  bk_lookup_order :: "MarketOrderRequest \<Rightarrow> exec_error + BrokerOrderState"

section \<open>The paper broker\<close>

definition validate_quote ::
    "ExecutableQuote option \<Rightarrow> datetime \<Rightarrow> decimal \<Rightarrow> BrokerRejection option" where
  "validate_quote quote now max_age_seconds = (case quote of
     None \<Rightarrow> Some \<lparr>br_code = B_QUOTE_UNAVAILABLE,
               br_message = ''executable quote is unavailable'', br_context = []\<rparr>
   | Some q \<Rightarrow>
       if q_bid q \<le> 0 \<or> q_ask q \<le> 0 then
         Some \<lparr>br_code = B_INVALID_QUOTE, br_message = ''quote prices must be positive'',
           br_context = [(''bid'', JNum (q_bid q)), (''ask'', JNum (q_ask q))]\<rparr>
       else if q_bid q \<ge> q_ask q then
         Some \<lparr>br_code = B_INVALID_QUOTE, br_message = ''quote is crossed or zero spread'',
           br_context = [(''bid'', JNum (q_bid q)), (''ask'', JNum (q_ask q))]\<rparr>
       else (let age = total_seconds (now - q_timestamp q) in
         if age > max_age_seconds then
           Some \<lparr>br_code = B_STALE_QUOTE, br_message = ''quote is stale'',
             br_context = [(''age_seconds'', JNum age), (''max_age_seconds'', JNum max_age_seconds)]\<rparr>
         else None))"

text \<open>\<^verbatim>\<open>Decimal.__mod__\<close>: the remainder of the division truncated towards zero.\<close>

definition dec_mod :: "decimal \<Rightarrow> decimal \<Rightarrow> decimal" where
  "dec_mod a b = (let q = a / b in a - b * of_int (if q \<ge> 0 then \<lfloor>q\<rfloor> else \<lceil>q\<rceil>))"

definition validate_quantity :: "decimal \<Rightarrow> decimal \<Rightarrow> decimal \<Rightarrow> BrokerRejection option" where
  "validate_quantity quantity volume_step min_volume =
     (if quantity \<le> 0 then
        Some \<lparr>br_code = B_INVALID_QUANTITY, br_message = ''quantity must be positive'',
          br_context = [(''quantity'', JNum quantity)]\<rparr>
      else if quantity < min_volume then
        Some \<lparr>br_code = B_INVALID_QUANTITY, br_message = ''quantity is below minimum volume'',
          br_context = [(''quantity'', JNum quantity), (''min_volume'', JNum min_volume)]\<rparr>
      else if dec_mod quantity volume_step \<noteq> 0 then
        Some \<lparr>br_code = B_INVALID_QUANTITY, br_message = ''quantity is not aligned to volume step'',
          br_context = [(''quantity'', JNum quantity), (''volume_step'', JNum volume_step)]\<rparr>
      else None)"

definition executable_fill_price :: "ExecutionSide \<Rightarrow> ExecutableQuote \<Rightarrow> decimal \<Rightarrow> decimal" where
  "executable_fill_price side quote slippage_points =
     (if side = BUY then q_ask quote + slippage_points else q_bid quote - slippage_points)"

definition compute_commission :: "PaperCostConfig \<Rightarrow> decimal \<Rightarrow> decimal \<Rightarrow> decimal" where
  "compute_commission cost price quantity =
     (let per_contract = pcc_cost_per_contract cost * quantity;
          notional = price * quantity * pcc_point_value cost;
          bps_part = (pcc_cost_bps cost / 10000) * notional
      in per_contract + bps_part)"

record PaperBroker =
  pb_quote_source :: "string \<Rightarrow> ExecutableQuote option"
  pb_clock :: datetime
  pb_broker_mode :: BrokerMode

definition health :: "PaperBroker \<Rightarrow> BrokerHealth" where
  "health self = \<lparr>bh_broker_mode = pb_broker_mode self, bh_is_available = True,
     bh_message = ''paper broker ready'', bh_checked_at = pb_clock self\<rparr>"

definition cost_config_dump :: "PaperCostConfig \<Rightarrow> json" where
  "cost_config_dump c = JDict [(''point_value'', JNum (pcc_point_value c)),
     (''slippage_points'', JNum (pcc_slippage_points c)),
     (''cost_per_contract'', JNum (pcc_cost_per_contract c)),
     (''cost_bps'', JNum (pcc_cost_bps c)),
     (''max_quote_age_seconds'', JNum (pcc_max_quote_age_seconds c)),
     (''volume_step'', JNum (pcc_volume_step c)), (''min_volume'', JNum (pcc_min_volume c))]"

definition rejected_submission :: "BrokerRejection \<Rightarrow> PaperCostConfig \<Rightarrow> BrokerSubmissionResult" where
  "rejected_submission rejection cost_config =
     \<lparr>bsr_outcome = SO_REJECTED, bsr_fill = None, bsr_rejection = Some rejection,
      bsr_cost_config = Some cost_config, bsr_external_order_id = None,
      bsr_external_deal_ids = [], bsr_raw_request = [], bsr_raw_response = [], bsr_metadata = []\<rparr>"

definition paper_fill ::
    "PaperBroker \<Rightarrow> MarketOrderRequest \<Rightarrow> PaperCostConfig \<Rightarrow> ExecutableQuote \<Rightarrow> FillRecord" where
  "paper_fill self request cost_config quote =
     (let fill_price = executable_fill_price (mor_side request) quote (pcc_slippage_points cost_config);
          fee = compute_commission cost_config fill_price (mor_quantity request)
      in \<lparr>fr_broker_mode = pb_broker_mode self,
          fr_external_fill_id = mor_external_fill_id request, fr_side = mor_side request,
          fr_quantity = mor_quantity request, fr_price = fill_price, fr_fee = fee,
          fr_slippage = pcc_slippage_points cost_config, fr_quote_bid = Some (q_bid quote),
          fr_quote_ask = Some (q_ask quote), fr_quote_timestamp = Some (q_timestamp quote),
          fr_filled_at = pb_clock self,
          fr_metadata = [(''symbol'', JStr (mor_symbol request)),
            (''deployment_id'', JStr (uuid_str (mor_deployment_id request))),
            (''order_id'', JStr (uuid_str (mor_order_id request))),
            (''cost_config'', cost_config_dump cost_config)]\<rparr>)"

definition submit_market_order ::
    "PaperBroker \<Rightarrow> MarketOrderRequest \<Rightarrow> PaperCostConfig \<Rightarrow> BrokerSubmissionResult" where
  "submit_market_order self request cost_config =
     (let quote = pb_quote_source self (mor_symbol request) in
      case validate_quote quote (pb_clock self) (pcc_max_quote_age_seconds cost_config) of
        Some quote_rejection \<Rightarrow> rejected_submission quote_rejection cost_config
      | None \<Rightarrow>
          (case validate_quantity (mor_quantity request) (pcc_volume_step cost_config)
                  (pcc_min_volume cost_config) of
             Some quantity_rejection \<Rightarrow> rejected_submission quantity_rejection cost_config
           | None \<Rightarrow>
               \<lparr>bsr_outcome = SO_FILLED,
                bsr_fill = map_option (paper_fill self request cost_config) quote,
                bsr_rejection = None, bsr_cost_config = Some cost_config,
                bsr_external_order_id = None, bsr_external_deal_ids = [], bsr_raw_request = [], bsr_raw_response = [], bsr_metadata = []\<rparr>))"

definition lookup_order :: "PaperBroker \<Rightarrow> MarketOrderRequest \<Rightarrow> BrokerOrderState" where
  "lookup_order self request = \<lparr>bos_status = LK_NOT_FOUND, bos_fill = None,
     bos_external_order_id = None, bos_external_deal_ids = [],
     bos_message = ''paper broker keeps no external order state; Q ledger is authoritative''\<rparr>"

definition paper_execution_broker :: "PaperBroker \<Rightarrow> ExecutionBroker" where
  "paper_execution_broker self =
     \<lparr>bk_submit_market_order = (\<lambda>request cost. Inr (submit_market_order self request cost)),
      bk_lookup_order = (\<lambda>request. Inr (lookup_order self request))\<rparr>"

section \<open>What a validated quote and quantity satisfy\<close>

definition quote_executable :: "ExecutableQuote \<Rightarrow> datetime \<Rightarrow> decimal \<Rightarrow> bool" where
  "quote_executable q now max_age \<longleftrightarrow>
     0 < q_bid q \<and> q_bid q < q_ask q \<and> total_seconds (now - q_timestamp q) \<le> max_age"

lemma validate_quote_None_iff:
  "validate_quote quote now max_age = None \<longleftrightarrow> (\<exists>q. quote = Some q \<and> quote_executable q now max_age)"
  by (auto simp: validate_quote_def quote_executable_def Let_def split: option.splits)

lemma dec_mod_0_iff:
  assumes "0 < b"
  shows "dec_mod a b = 0 \<longleftrightarrow> (\<exists>k::int. a = of_int k * b)"
proof
  assume "dec_mod a b = 0"
  then show "\<exists>k::int. a = of_int k * b"
    by (auto simp: dec_mod_def Let_def mult.commute split: if_splits)
next
  assume "\<exists>k::int. a = of_int k * b"
  then obtain k :: int where "a = of_int k * b" by blast
  with assms show "dec_mod a b = 0" by (simp add: dec_mod_def Let_def)
qed

lemma validate_quantity_None_iff:
  "0 < step \<Longrightarrow> validate_quantity q step minv = None \<longleftrightarrow>
     0 < q \<and> minv \<le> q \<and> (\<exists>k::int. q = of_int k * step)"
  by (auto simp: validate_quantity_def dec_mod_0_iff not_le not_less)

lemma validate_quantity_Some_code:
  "validate_quantity q step minv = Some rj \<Longrightarrow> br_code rj = B_INVALID_QUANTITY"
  by (auto simp: validate_quantity_def split: if_splits)

lemma compute_commission_nonneg:
  "cost_config_ok c \<Longrightarrow> 0 \<le> p \<Longrightarrow> 0 \<le> q \<Longrightarrow> 0 \<le> compute_commission c p q"
  by (simp add: compute_commission_def cost_config_ok_def Let_def)

section \<open>The contract of a broker\<close>

text \<open>
  What the service relies on: a filled submission carries a fill on the requested side
  and in the broker's mode, and one that is not filled carries none.
\<close>

locale execution_broker =
  fixes submit :: "MarketOrderRequest \<Rightarrow> PaperCostConfig \<Rightarrow> exec_error + BrokerSubmissionResult"
    and mode :: BrokerMode
  assumes filled_fill: "submit req cost = Inr r \<Longrightarrow> bsr_outcome r = SO_FILLED \<Longrightarrow>
      \<exists>f. bsr_fill r = Some f \<and> fr_side f = mor_side req \<and> fr_broker_mode f = mode"
    and unfilled_no_fill: "submit req cost = Inr r \<Longrightarrow> bsr_outcome r \<noteq> SO_FILLED \<Longrightarrow> bsr_fill r = None"
begin

lemma fill_iff_accepted:
  "submit req cost = Inr r \<Longrightarrow> (\<exists>f. bsr_fill r = Some f) \<longleftrightarrow> accepted r"
  using filled_fill unfilled_no_fill by (fastforce simp: accepted_def)

end

text \<open>A simulator moreover echoes the request and never leaves its outcome open.\<close>

locale simulated_broker = execution_broker +
  assumes echoes: "submit req cost = Inr r \<Longrightarrow> bsr_fill r = Some f \<Longrightarrow>
      fr_quantity f = mor_quantity req \<and> fr_external_fill_id f = mor_external_fill_id req"
    and never_unknown: "submit req cost = Inr r \<Longrightarrow> bsr_outcome r \<noteq> SO_UNKNOWN"
    and never_raises: "\<exists>r. submit req cost = Inr r"
begin

lemma fills_or_rejects:
  "\<exists>r. submit req cost = Inr r \<and>
     ((\<exists>f. bsr_outcome r = SO_FILLED \<and> bsr_fill r = Some f \<and> fr_side f = mor_side req \<and>
         fr_quantity f = mor_quantity req \<and> fr_external_fill_id f = mor_external_fill_id req \<and>
         fr_broker_mode f = mode) \<or>
      (bsr_outcome r = SO_REJECTED \<and> bsr_fill r = None))"
proof -
  obtain r where r: "submit req cost = Inr r" using never_raises by blast
  show ?thesis
  proof (cases "bsr_outcome r")
    case SO_FILLED
    with r filled_fill echoes show ?thesis by metis
  next
    case SO_REJECTED
    with r unfilled_no_fill show ?thesis by force
  next
    case SO_UNKNOWN
    with r never_unknown show ?thesis by blast
  qed
qed

end

lemma submit_market_order_iff:
  "bsr_outcome (submit_market_order pb req c) = SO_FILLED \<longleftrightarrow>
     (\<exists>q. pb_quote_source pb (mor_symbol req) = Some q \<and>
        quote_executable q (pb_clock pb) (pcc_max_quote_age_seconds c)) \<and>
     validate_quantity (mor_quantity req) (pcc_volume_step c) (pcc_min_volume c) = None"
  by (auto simp: submit_market_order_def rejected_submission_def Let_def
      simp flip: validate_quote_None_iff split: option.splits)

lemma submit_market_order_fill:
  assumes "pb_quote_source pb (mor_symbol req) = Some q"
    and "bsr_outcome (submit_market_order pb req c) = SO_FILLED"
  shows "bsr_fill (submit_market_order pb req c) = Some (paper_fill pb req c q)"
  using assms
  by (auto simp: submit_market_order_def rejected_submission_def Let_def split: option.splits)

lemma submit_market_order_unfilled:
  "bsr_outcome (submit_market_order pb req c) \<noteq> SO_FILLED \<Longrightarrow>
     bsr_outcome (submit_market_order pb req c) = SO_REJECTED \<and>
     bsr_fill (submit_market_order pb req c) = None"
  by (auto simp: submit_market_order_def rejected_submission_def Let_def split: option.splits)

interpretation paper: simulated_broker
  "bk_submit_market_order (paper_execution_broker pb)" "pb_broker_mode pb" for pb
proof unfold_locales
  fix req c r
  assume run: "bk_submit_market_order (paper_execution_broker pb) req c = Inr r"
  then have r: "r = submit_market_order pb req c" by (simp add: paper_execution_broker_def)
  show "\<exists>f. bsr_fill r = Some f \<and> fr_side f = mor_side req \<and> fr_broker_mode f = pb_broker_mode pb"
    if "bsr_outcome r = SO_FILLED"
    using that submit_market_order_fill by (auto simp: r submit_market_order_iff paper_fill_def Let_def)
  show "bsr_outcome r \<noteq> SO_FILLED \<Longrightarrow> bsr_fill r = None"
    using submit_market_order_unfilled by (simp add: r)
  show "bsr_outcome r \<noteq> SO_UNKNOWN"
    using submit_market_order_unfilled [of pb req c] by (auto simp: r)
  show "fr_quantity f = mor_quantity req \<and> fr_external_fill_id f = mor_external_fill_id req"
    if "bsr_fill r = Some f" for f
    using that by (auto simp: r submit_market_order_def rejected_submission_def paper_fill_def Let_def
        split: option.splits)
next
  fix req c
  show "\<exists>r. bk_submit_market_order (paper_execution_broker pb) req c = Inr r"
    by (simp add: paper_execution_broker_def)
qed

end
