(* ===== verification/Ledger.thy ===== *)
theory Ledger
  imports Exec_Store_Inv Paper_Broker
begin

text \<open>
  \<^verbatim>\<open>execution/ledger.py\<close>: the pricing of a net position, the transition of a position
  under a fill, the application of a fill to the account, the ledger, the position and
  the order, and the account snapshot.
\<close>

section \<open>Pricing\<close>

record LedgerApplyResult =
  lar_fill_id :: uuid
  lar_cash_balance :: decimal
  lar_realized_pnl :: decimal
  lar_fee :: decimal
  lar_position_side :: PositionSide
  lar_position_quantity :: decimal
  lar_average_entry_price :: "decimal option"
  lar_idempotent :: bool

definition mark_price_for_position :: "PositionSide \<Rightarrow> ExecutableQuote \<Rightarrow> decimal" where
  "mark_price_for_position side quote =
     (if side = LONG then q_bid quote
      else if side = SHORT then q_ask quote
      else (q_bid quote + q_ask quote) / 2)"

definition unrealized_pnl :: "PositionSide \<Rightarrow> decimal \<Rightarrow> decimal \<Rightarrow> decimal \<Rightarrow> decimal \<Rightarrow> decimal" where
  "unrealized_pnl side quantity average_entry_price mark_price point_value =
     (if side = LONG then (mark_price - average_entry_price) * quantity * point_value
      else if side = SHORT then (average_entry_price - mark_price) * quantity * point_value
      else 0)"

definition realized_pnl_for_close ::
    "PositionSide \<Rightarrow> decimal \<Rightarrow> decimal \<Rightarrow> decimal \<Rightarrow> decimal \<Rightarrow> decimal" where
  "realized_pnl_for_close closing_side quantity entry_price exit_price point_value =
     (if closing_side = LONG then (exit_price - entry_price) * quantity * point_value
      else if closing_side = SHORT then (entry_price - exit_price) * quantity * point_value
      else 0)"

section \<open>Position transitions\<close>

record PositionTransition =
  pt_new_side :: PositionSide
  pt_new_quantity :: decimal
  pt_new_average_entry_price :: "decimal option"
  pt_close_quantity :: decimal
  pt_closing_side :: "PositionSide option"
  pt_open_quantity :: decimal
  pt_opening_side :: "PositionSide option"

text \<open>\<^verbatim>\<open>x or y\<close> on an optional \<^verbatim>\<open>Decimal\<close>: \<^verbatim>\<open>None\<close> and zero are both false.\<close>

definition dec_or :: "decimal option \<Rightarrow> decimal \<Rightarrow> decimal" where
  "dec_or x y = (case x of None \<Rightarrow> y | Some v \<Rightarrow> if v = 0 then y else v)"

definition opening_side_of :: "ExecutionSide \<Rightarrow> PositionSide" where
  "opening_side_of order_side = (if order_side = BUY then LONG else SHORT)"

definition transition_position ::
    "PositionSide \<Rightarrow> decimal \<Rightarrow> decimal option \<Rightarrow> ExecutionSide \<Rightarrow> decimal \<Rightarrow> decimal \<Rightarrow>
     exec_error + PositionTransition" where
  "transition_position current_side current_quantity current_entry order_side order_quantity fill_price =
     (if current_side = FLAT \<or> current_quantity = 0 then
        Inr \<lparr>pt_new_side = opening_side_of order_side, pt_new_quantity = order_quantity,
             pt_new_average_entry_price = Some fill_price, pt_close_quantity = 0,
             pt_closing_side = None, pt_open_quantity = order_quantity,
             pt_opening_side = Some (opening_side_of order_side)\<rparr>
      else
        let is_reducing = (current_side = LONG \<and> order_side = SELL) \<or>
              (current_side = SHORT \<and> order_side = BUY);
            is_same_side_add = (current_side = LONG \<and> order_side = BUY) \<or>
              (current_side = SHORT \<and> order_side = SELL)
        in
        if is_same_side_add then
          let new_qty = current_quantity + order_quantity;
              entry = dec_or current_entry fill_price
          in if new_qty = 0 then Inl ArithmeticError
             else Inr \<lparr>pt_new_side = current_side, pt_new_quantity = new_qty,
               pt_new_average_entry_price =
                 Some ((entry * current_quantity + fill_price * order_quantity) / new_qty),
               pt_close_quantity = 0, pt_closing_side = None, pt_open_quantity = order_quantity,
               pt_opening_side = Some current_side\<rparr>
        else if \<not> is_reducing then
          Inl (ValueError ''one-position invariant: order side opposes current position'' [])
        else
          let close_qty = min current_quantity order_quantity;
              remaining_order = order_quantity - close_qty;
              entry = dec_or current_entry fill_price
          in
          if remaining_order = 0 then
            let new_qty = current_quantity - close_qty in
            if new_qty = 0 then
              Inr \<lparr>pt_new_side = FLAT, pt_new_quantity = 0, pt_new_average_entry_price = None,
                pt_close_quantity = close_qty, pt_closing_side = Some current_side,
                pt_open_quantity = 0, pt_opening_side = None\<rparr>
            else
              Inr \<lparr>pt_new_side = current_side, pt_new_quantity = new_qty,
                pt_new_average_entry_price = Some entry, pt_close_quantity = close_qty,
                pt_closing_side = Some current_side, pt_open_quantity = 0, pt_opening_side = None\<rparr>
          else
            Inr \<lparr>pt_new_side = opening_side_of order_side, pt_new_quantity = remaining_order,
              pt_new_average_entry_price = Some fill_price, pt_close_quantity = close_qty,
              pt_closing_side = Some current_side, pt_open_quantity = remaining_order,
              pt_opening_side = Some (opening_side_of order_side)\<rparr>)"

section \<open>Applying a fill\<close>

definition ledger_sum :: "uuid \<Rightarrow> LedgerEntryType \<Rightarrow> exec_db \<Rightarrow> decimal" where
  "ledger_sum paper_account_id entry_type db = sum_list (map led_amount
     (filter (\<lambda>e. led_paper_account_id e = paper_account_id \<and> led_entry_type e = entry_type)
        (db_ledger db)))"

definition ledger_totals :: "uuid \<Rightarrow> exec_db \<Rightarrow> decimal \<times> decimal" where
  "ledger_totals paper_account_id db =
     (ledger_sum paper_account_id REALIZED_PNL db, \<bar>ledger_sum paper_account_id FEE db\<bar>)"

definition require_paper_account :: "uuid \<Rightarrow> PaperAccount dbm" where
  "require_paper_account account_id =
     bnd (gets (get_paper_account account_id)) (\<lambda>account. case account of
       None \<Rightarrow> throw (ValueError ''PaperAccount not found'' [account_id])
     | Some a \<Rightarrow> ret a)"

text \<open>\<^verbatim>\<open>apply_fill\<close>, the branch for a fill that is already recorded.\<close>

definition replay_fill :: "uuid \<Rightarrow> uuid \<Rightarrow> ExecutionFill \<Rightarrow> LedgerApplyResult dbm" where
  "replay_fill paper_account_id deployment_id existing =
     bnd (require_paper_account paper_account_id) (\<lambda>account.
     bnd (reads (get_open_net_position deployment_id)) (\<lambda>position.
     ret \<lparr>lar_fill_id = fil_id existing, lar_cash_balance = pa_cash_balance account,
       lar_realized_pnl = 0, lar_fee = fil_fee existing,
       lar_position_side = (case position of None \<Rightarrow> FLAT | Some p \<Rightarrow> pos_side p),
       lar_position_quantity = (case position of None \<Rightarrow> 0 | Some p \<Rightarrow> pos_quantity p),
       lar_average_entry_price = (case position of None \<Rightarrow> None | Some p \<Rightarrow> pos_average_entry_price p),
       lar_idempotent = True\<rparr>))"

text \<open>The position the fill meets: side, quantity and entry price.\<close>

definition current_position ::
    "ExecutionNetPosition option \<Rightarrow> PositionSide \<times> decimal \<times> decimal option" where
  "current_position position =
     (case position of None \<Rightarrow> (FLAT, 0, None)
      | Some p \<Rightarrow> (if pos_is_open p then pos_side p else FLAT,
                  if pos_is_open p then pos_quantity p else 0, pos_average_entry_price p))"

definition realized_of ::
    "PositionTransition \<Rightarrow> decimal option \<Rightarrow> decimal \<Rightarrow> decimal \<Rightarrow> decimal" where
  "realized_of transition current_entry price point_value =
     (case pt_closing_side transition of
        Some closing_side \<Rightarrow>
          if pt_close_quantity transition > 0
          then realized_pnl_for_close closing_side (pt_close_quantity transition)
                 (dec_or current_entry price) price point_value
          else 0
      | None \<Rightarrow> 0)"

text \<open>The two ledger entries of a fill, each appended only when its amount is not zero.\<close>

definition post_ledger_entries ::
    "uuid \<Rightarrow> uuid \<Rightarrow> uuid \<Rightarrow> string \<Rightarrow> decimal \<Rightarrow> decimal \<Rightarrow> decimal \<Rightarrow> unit dbm" where
  "post_ledger_entries paper_account_id deployment_id fill_id symbol realized fee cash =
     bnd (whenM (realized \<noteq> 0)
            (append_ledger_entry paper_account_id deployment_id REALIZED_PNL realized cash
               (Some fill_id) (Some (symbol @ '' close'')))) (\<lambda>_.
     whenM (fee \<noteq> 0)
       (append_ledger_entry paper_account_id deployment_id FEE (- fee) cash
          (Some fill_id) (Some (symbol @ '' commission''))))"

definition complete_order :: "uuid \<Rightarrow> datetime \<Rightarrow> bool \<Rightarrow> unit dbm" where
  "complete_order order_id filled_at reconciling =
     (if reconciling then
        transition_execution_order order_id FILLED None None None (Some filled_at) (Some filled_at)
      else
        bnd (transition_execution_order order_id SUBMITTED None None None (Some filled_at) None) (\<lambda>_.
        transition_execution_order order_id FILLED None None None None (Some filled_at)))"

definition apply_fill ::
    "uuid \<Rightarrow> uuid \<Rightarrow> uuid \<Rightarrow> FillRecord \<Rightarrow> decimal \<Rightarrow> string \<Rightarrow> bool \<Rightarrow> LedgerApplyResult dbm" where
  "apply_fill paper_account_id deployment_id order_id fill point_value symbol reconciling =
     bnd (reads (get_execution_fill_by_external_id (fr_broker_mode fill) (fr_external_fill_id fill)))
     (\<lambda>existing. case existing of
       Some f \<Rightarrow> replay_fill paper_account_id deployment_id f
     | None \<Rightarrow>
         bnd (require_paper_account paper_account_id) (\<lambda>account.
         bnd (reads (get_open_net_position deployment_id)) (\<lambda>open_pos.
         let (current_side, current_qty, current_entry) = current_position open_pos in
         bnd (reads (\<lambda>_. transition_position current_side current_qty current_entry
                (fr_side fill) (fr_quantity fill) (fr_price fill))) (\<lambda>transition.
         let realized = realized_of transition current_entry (fr_price fill) point_value;
             cash = pa_cash_balance account + realized - fr_fee fill
         in
         bnd (create_execution_fill deployment_id order_id fill) (\<lambda>persisted_fill.
         bnd (post_ledger_entries paper_account_id deployment_id (fil_id persisted_fill) symbol
                realized (fr_fee fill) cash) (\<lambda>_.
         bnd (update_paper_cash_balance paper_account_id cash) (\<lambda>_.
         bnd (upsert_open_net_position deployment_id (pt_new_side transition)
                (pt_new_quantity transition) (pt_new_average_entry_price transition)
                (Some (fr_filled_at fill))) (\<lambda>_.
         bnd (complete_order order_id (fr_filled_at fill) reconciling) (\<lambda>_.
         ret \<lparr>lar_fill_id = fil_id persisted_fill, lar_cash_balance = cash,
           lar_realized_pnl = realized, lar_fee = fr_fee fill,
           lar_position_side = pt_new_side transition,
           lar_position_quantity = pt_new_quantity transition,
           lar_average_entry_price = pt_new_average_entry_price transition,
           lar_idempotent = False\<rparr>)))))))))"

definition account_snapshot ::
    "uuid \<Rightarrow> uuid \<Rightarrow> string \<Rightarrow> ExecutableQuote option \<Rightarrow> decimal \<Rightarrow> datetime option \<Rightarrow>
     BrokerAccountSnapshot dbm" where
  "account_snapshot paper_account_id deployment_id symbol quote point_value as_of =
     bnd (require_paper_account paper_account_id) (\<lambda>account.
     bnd (reads (get_open_net_position deployment_id)) (\<lambda>position.
     let positions = (case position of
           None \<Rightarrow> []
         | Some p \<Rightarrow>
             if pos_is_open p \<and> pos_quantity p > 0 then
               let mark = map_option (mark_price_for_position (pos_side p)) quote;
                   unrealized = (case mark of None \<Rightarrow> 0
                     | Some m \<Rightarrow> unrealized_pnl (pos_side p) (pos_quantity p)
                                  (dec_or (pos_average_entry_price p) 0) m point_value)
               in [\<lparr>bps_deployment_id = deployment_id, bps_symbol = symbol, bps_side = pos_side p,
                    bps_quantity = pos_quantity p,
                    bps_average_entry_price = pos_average_entry_price p,
                    bps_unrealized_pnl = unrealized, bps_mark_price = mark\<rparr>]
             else []);
         total_unrealized = sum_list (map bps_unrealized_pnl positions)
     in
     bnd (gets (\<lambda>db. (ledger_totals paper_account_id db, or_now as_of db)))
       (\<lambda>((realized_total, fee_total), as_of_time).
     ret \<lparr>bas_account_id = paper_account_id, bas_currency = pa_currency account,
       bas_cash_balance = pa_cash_balance account,
       bas_equity = pa_cash_balance account + total_unrealized,
       bas_unrealized_pnl = total_unrealized, bas_realized_pnl = realized_total,
       bas_total_fees = fee_total, bas_positions = positions, bas_as_of = as_of_time\<rparr>)))"

end
