(* ===== verification/Risk.thy ===== *)
theory Risk
  imports Exec_Models Paper_Broker
begin

text \<open>
  \<^verbatim>\<open>execution/risk.py\<close>: the pre-trade risk gate. Eleven checks run in a fixed order and
  the first rejection is returned; the lemmas characterise acceptance by one predicate
  and say which rejection wins.
\<close>

record RiskContext =
  rc_deployment_id :: uuid
  rc_paper_account_id :: uuid
  rc_lifecycle :: DeploymentLifecycle
  rc_symbol :: string
  rc_bar_close_time :: datetime
  rc_side :: ExecutionSide
  rc_quantity :: decimal
  rc_quote :: "ExecutableQuote option"
  rc_now :: datetime
  rc_kill_switch_enabled :: bool
  rc_lease_held :: bool
  rc_has_unknown_orders :: bool
  rc_position_side :: PositionSide
  rc_position_quantity :: decimal
  rc_cash_balance :: decimal
  rc_equity :: decimal
  rc_daily_realized_pnl :: decimal
  rc_max_daily_loss :: "decimal option"
  rc_max_notional :: "decimal option"
  rc_point_value :: decimal
  rc_cost_config :: PaperCostConfig
  rc_max_bar_age_seconds :: decimal
  rc_allow_lifecycle_bypass :: bool

section \<open>The checks\<close>

definition risk_rejection ::
    "RiskRejectionCode \<Rightarrow> string \<Rightarrow> (string \<times> json) list \<Rightarrow> RiskRejection option" where
  "risk_rejection code message context =
     Some \<lparr>rr_code = code, rr_message = message, rr_context = context\<rparr>"

definition check_kill_switch :: "RiskContext \<Rightarrow> RiskRejection option" where
  "check_kill_switch ctx =
     (if rc_kill_switch_enabled ctx \<and> \<not> rc_allow_lifecycle_bypass ctx
      then risk_rejection R_KILL_SWITCH ''global kill switch is enabled'' []
      else None)"

definition check_lifecycle :: "RiskContext \<Rightarrow> RiskRejection option" where
  "check_lifecycle ctx =
     (if rc_allow_lifecycle_bypass ctx then None
      else if \<not> is_deployment_evaluating (rc_lifecycle ctx)
      then risk_rejection R_LIFECYCLE
             (''deployment lifecycle '' @ lifecycle_value (rc_lifecycle ctx) @ '' blocks new orders'') []
      else None)"

definition check_lease :: "RiskContext \<Rightarrow> RiskRejection option" where
  "check_lease ctx =
     (if \<not> rc_lease_held ctx
      then risk_rejection R_LEASE_LOST ''worker does not hold the deployment lease'' []
      else None)"

definition check_unknown_orders :: "RiskContext \<Rightarrow> RiskRejection option" where
  "check_unknown_orders ctx =
     (if rc_has_unknown_orders ctx
      then risk_rejection R_UNKNOWN_PRIOR_ORDER
             ''deployment has an unknown order awaiting reconciliation'' []
      else None)"

definition check_bar_freshness :: "RiskContext \<Rightarrow> RiskRejection option" where
  "check_bar_freshness ctx =
     (let age = total_seconds (rc_now ctx - rc_bar_close_time ctx) in
      if age > rc_max_bar_age_seconds ctx
      then risk_rejection R_STALE_BAR ''bar close is stale''
             [(''age_seconds'', JNum age), (''max_age_seconds'', JNum (rc_max_bar_age_seconds ctx))]
      else None)"

definition check_symbol_quote :: "RiskContext \<Rightarrow> RiskRejection option" where
  "check_symbol_quote ctx =
     (case rc_quote ctx of
        None \<Rightarrow> risk_rejection R_SYMBOL_UNAVAILABLE (''symbol '' @ rc_symbol ctx @ '' quote unavailable'') []
      | Some quote \<Rightarrow>
          (case validate_quote (Some quote) (rc_now ctx)
                  (pcc_max_quote_age_seconds (rc_cost_config ctx)) of
             None \<Rightarrow> None
           | Some broker_rejection \<Rightarrow>
               risk_rejection
                 (if br_code broker_rejection = B_INVALID_QUOTE then R_SYMBOL_UNAVAILABLE
                  else R_STALE_QUOTE)
                 (br_message broker_rejection) (br_context broker_rejection)))"

definition check_quantity :: "RiskContext \<Rightarrow> RiskRejection option" where
  "check_quantity ctx =
     (case validate_quantity (rc_quantity ctx) (pcc_volume_step (rc_cost_config ctx))
             (pcc_min_volume (rc_cost_config ctx)) of
        None \<Rightarrow> None
      | Some broker_rejection \<Rightarrow>
          risk_rejection R_INVALID_QUANTITY (br_message broker_rejection) (br_context broker_rejection))"

definition order_notional :: "RiskContext \<Rightarrow> ExecutableQuote \<Rightarrow> decimal" where
  "order_notional ctx quote =
     (let price = (if rc_side ctx = BUY then q_ask quote else q_bid quote)
      in price * rc_quantity ctx * rc_point_value ctx)"

definition check_notional :: "RiskContext \<Rightarrow> RiskRejection option" where
  "check_notional ctx =
     (case (rc_max_notional ctx, rc_quote ctx) of
        (Some max_notional, Some quote) \<Rightarrow>
          (if order_notional ctx quote > max_notional
           then risk_rejection R_NOTIONAL_LIMIT ''order notional exceeds configured limit''
                  [(''notional'', JNum (order_notional ctx quote)), (''max_notional'', JNum max_notional)]
           else None)
      | _ \<Rightarrow> None)"

definition check_one_position :: "RiskContext \<Rightarrow> RiskRejection option" where
  "check_one_position ctx =
     (if rc_position_side ctx = FLAT then None
      else
        let reducing = (rc_position_side ctx = LONG \<and> rc_side ctx = SELL) \<or>
              (rc_position_side ctx = SHORT \<and> rc_side ctx = BUY);
            same_side_add = (rc_position_side ctx = LONG \<and> rc_side ctx = BUY) \<or>
              (rc_position_side ctx = SHORT \<and> rc_side ctx = SELL)
        in if reducing \<or> same_side_add then None
           else risk_rejection R_ONE_POSITION_VIOLATION
                  ''order would violate the one-position invariant''
                  [(''position_side'', JStr (position_side_value (rc_position_side ctx))),
                   (''order_side'', JStr (side_value (rc_side ctx)))])"

definition check_equity :: "RiskContext \<Rightarrow> RiskRejection option" where
  "check_equity ctx =
     (if rc_equity ctx \<le> 0
      then risk_rejection R_INSUFFICIENT_EQUITY ''account equity is non-positive''
             [(''equity'', JNum (rc_equity ctx))]
      else None)"

definition check_daily_loss :: "RiskContext \<Rightarrow> RiskRejection option" where
  "check_daily_loss ctx =
     (case rc_max_daily_loss ctx of
        None \<Rightarrow> None
      | Some max_daily_loss \<Rightarrow>
          (if rc_daily_realized_pnl ctx \<le> - max_daily_loss
           then risk_rejection R_DAILY_LOSS_LIMIT ''maximum daily realized loss reached''
                  [(''daily_realized_pnl'', JNum (rc_daily_realized_pnl ctx)),
                   (''max_daily_loss'', JNum max_daily_loss)]
           else None))"

section \<open>The gate\<close>

fun first_rejection ::
    "(RiskContext \<Rightarrow> RiskRejection option) list \<Rightarrow> RiskContext \<Rightarrow> RiskRejection option" where
  "first_rejection [] ctx = None"
| "first_rejection (check # checks) ctx =
     (case check ctx of Some rejection \<Rightarrow> Some rejection | None \<Rightarrow> first_rejection checks ctx)"

definition risk_checks :: "(RiskContext \<Rightarrow> RiskRejection option) list" where
  "risk_checks = [check_kill_switch, check_lifecycle, check_lease, check_unknown_orders,
     check_bar_freshness, check_symbol_quote, check_quantity, check_notional, check_one_position,
     check_equity, check_daily_loss]"

definition evaluate :: "RiskContext \<Rightarrow> RiskRejection option" where
  "evaluate ctx = first_rejection risk_checks ctx"

definition deployment_has_unknown_orders :: "ExecutionOrder list \<Rightarrow> bool" where
  "deployment_has_unknown_orders orders = (\<exists>ord\<in>set orders. ord_status ord = UNKNOWN)"

lemmas risk_check_defs = check_kill_switch_def check_lifecycle_def check_lease_def
  check_unknown_orders_def check_bar_freshness_def check_symbol_quote_def check_quantity_def
  check_notional_def check_one_position_def check_equity_def check_daily_loss_def
  risk_rejection_def

section \<open>What the gate accepts\<close>

lemma first_rejection_None: "first_rejection checks ctx = None \<longleftrightarrow> (\<forall>c\<in>set checks. c ctx = None)"
  by (induction checks) (auto split: option.splits)

lemma first_rejection_SomeD:
  "first_rejection checks ctx = Some r \<Longrightarrow>
     \<exists>pre c post. checks = pre @ c # post \<and> c ctx = Some r \<and> (\<forall>p\<in>set pre. p ctx = None)"
proof (induction checks)
  case Nil
  then show ?case by simp
next
  case (Cons c checks)
  show ?case
  proof (cases "c ctx")
    case None
    with Cons obtain pre c' post where "checks = pre @ c' # post" "c' ctx = Some r"
      "\<forall>p\<in>set pre. p ctx = None" by auto
    with None show ?thesis by (intro exI [of _ "c # pre"] exI) auto
  next
    case (Some x)
    with Cons.prems show ?thesis by (intro exI [of _ "[]"] exI) auto
  qed
qed

lemma check_one_position_passes: "check_one_position ctx = None"
  by (cases "rc_position_side ctx"; cases "rc_side ctx") (simp_all add: check_one_position_def)

definition admissible :: "RiskContext \<Rightarrow> bool" where
  "admissible ctx \<longleftrightarrow>
     (rc_allow_lifecycle_bypass ctx \<or> \<not> rc_kill_switch_enabled ctx \<and> rc_lifecycle ctx = RUNNING) \<and>
     rc_lease_held ctx \<and> \<not> rc_has_unknown_orders ctx \<and>
     total_seconds (rc_now ctx - rc_bar_close_time ctx) \<le> rc_max_bar_age_seconds ctx \<and>
     (\<exists>q. rc_quote ctx = Some q \<and>
        quote_executable q (rc_now ctx) (pcc_max_quote_age_seconds (rc_cost_config ctx)) \<and>
        (\<forall>m. rc_max_notional ctx = Some m \<longrightarrow> order_notional ctx q \<le> m)) \<and>
     validate_quantity (rc_quantity ctx) (pcc_volume_step (rc_cost_config ctx))
       (pcc_min_volume (rc_cost_config ctx)) = None \<and>
     0 < rc_equity ctx \<and>
     (\<forall>m. rc_max_daily_loss ctx = Some m \<longrightarrow> - m < rc_daily_realized_pnl ctx)"

lemma check_symbol_quote_None:
  "check_symbol_quote ctx = None \<longleftrightarrow> (\<exists>q. rc_quote ctx = Some q \<and>
     quote_executable q (rc_now ctx) (pcc_max_quote_age_seconds (rc_cost_config ctx)))"
  using validate_quote_None_iff [of "rc_quote ctx" "rc_now ctx"
      "pcc_max_quote_age_seconds (rc_cost_config ctx)"]
  by (auto simp: check_symbol_quote_def risk_rejection_def split: option.splits)

lemma check_quantity_None:
  "check_quantity ctx = None \<longleftrightarrow> validate_quantity (rc_quantity ctx)
     (pcc_volume_step (rc_cost_config ctx)) (pcc_min_volume (rc_cost_config ctx)) = None"
  by (auto simp: check_quantity_def risk_rejection_def split: option.splits)

lemma check_notional_None:
  "rc_quote ctx = Some q \<Longrightarrow> check_notional ctx = None \<longleftrightarrow>
     (\<forall>m. rc_max_notional ctx = Some m \<longrightarrow> order_notional ctx q \<le> m)"
  by (auto simp: check_notional_def risk_rejection_def not_less split: option.splits)

lemma evaluate_None_iff: "evaluate ctx = None \<longleftrightarrow> admissible ctx"
proof -
  have rest: "check_kill_switch ctx = None \<and> check_lifecycle ctx = None \<longleftrightarrow>
      rc_allow_lifecycle_bypass ctx \<or> \<not> rc_kill_switch_enabled ctx \<and> rc_lifecycle ctx = RUNNING"
    "check_lease ctx = None \<longleftrightarrow> rc_lease_held ctx"
    "check_unknown_orders ctx = None \<longleftrightarrow> \<not> rc_has_unknown_orders ctx"
    "check_bar_freshness ctx = None \<longleftrightarrow>
      total_seconds (rc_now ctx - rc_bar_close_time ctx) \<le> rc_max_bar_age_seconds ctx"
    "check_equity ctx = None \<longleftrightarrow> 0 < rc_equity ctx"
    "check_daily_loss ctx = None \<longleftrightarrow> (\<forall>m. rc_max_daily_loss ctx = Some m \<longrightarrow> - m < rc_daily_realized_pnl ctx)"
    by (auto simp: risk_check_defs is_deployment_evaluating_def not_le not_less Let_def split: option.splits)
  have "evaluate ctx = None \<longleftrightarrow> (check_kill_switch ctx = None \<and> check_lifecycle ctx = None) \<and>
      check_lease ctx = None \<and> check_unknown_orders ctx = None \<and> check_bar_freshness ctx = None \<and>
      (check_symbol_quote ctx = None \<and> check_notional ctx = None) \<and> check_quantity ctx = None \<and>
      check_equity ctx = None \<and> check_daily_loss ctx = None"
    unfolding evaluate_def first_rejection_None by (auto simp: risk_checks_def check_one_position_passes)
  also have "\<dots> \<longleftrightarrow> admissible ctx"
    unfolding rest check_symbol_quote_None check_quantity_None admissible_def
    using check_notional_None by blast
  finally show ?thesis .
qed

text \<open>
  C5: the risk gate lets an order through exactly when the context is admissible: lease
  held, no unknown order, fresh bar, executable quote, valid quantity, notional within
  the limit, positive equity, daily loss above the limit, and, unless the lifecycle
  bypass is granted, the kill switch off and the deployment running. The one-position
  check rejects nothing.
\<close>

theorem risk_gate_admits_iff:
  "(evaluate ctx = None \<longleftrightarrow> admissible ctx) \<and> check_one_position ctx = None"
  by (simp add: evaluate_None_iff check_one_position_passes)

text \<open>
  Precedence. Without the bypass the kill switch decides before everything else, then
  the lifecycle; a rejection for a lower-ranked reason is only given when the kill switch
  is off and the deployment is running.
\<close>

lemma risk_gate_precedence:
  assumes "\<not> rc_allow_lifecycle_bypass ctx"
  shows "(rc_kill_switch_enabled ctx \<longrightarrow> map_option rr_code (evaluate ctx) = Some R_KILL_SWITCH) \<and>
    (\<not> rc_kill_switch_enabled ctx \<and> rc_lifecycle ctx \<noteq> RUNNING \<longrightarrow>
       map_option rr_code (evaluate ctx) = Some R_LIFECYCLE) \<and>
    (\<forall>r. evaluate ctx = Some r \<and> rr_code r \<notin> {R_KILL_SWITCH, R_LIFECYCLE} \<longrightarrow>
       \<not> rc_kill_switch_enabled ctx \<and> rc_lifecycle ctx = RUNNING)"
  using assms
  by (auto simp: evaluate_def risk_checks_def check_kill_switch_def check_lifecycle_def
      risk_rejection_def is_deployment_evaluating_def)

definition ex_cost :: PaperCostConfig where
  "ex_cost = \<lparr>pcc_point_value = 1, pcc_slippage_points = 1, pcc_cost_per_contract = 1,
     pcc_cost_bps = 0, pcc_max_quote_age_seconds = 30, pcc_volume_step = 1, pcc_min_volume = 1\<rparr>"

definition ex_quote :: ExecutableQuote where
  "ex_quote = \<lparr>q_symbol = ''WIN'', q_bid = 99, q_ask = 101, q_timestamp = 0, q_source = ''mt5''\<rparr>"

definition ex_context :: RiskContext where
  "ex_context = \<lparr>rc_deployment_id = 1, rc_paper_account_id = 0, rc_lifecycle = RUNNING,
     rc_symbol = ''WIN'', rc_bar_close_time = 0, rc_side = BUY, rc_quantity = 2,
     rc_quote = Some ex_quote, rc_now = 0, rc_kill_switch_enabled = True, rc_lease_held = True,
     rc_has_unknown_orders = False, rc_position_side = FLAT, rc_position_quantity = 0,
     rc_cash_balance = 10000, rc_equity = 10000, rc_daily_realized_pnl = 0,
     rc_max_daily_loss = Some 500, rc_max_notional = None, rc_point_value = 1,
     rc_cost_config = ex_cost, rc_max_bar_age_seconds = 7200, rc_allow_lifecycle_bypass = False\<rparr>"

end
