(* ===== verification/Service.thy ===== *)
theory Service
  imports Ledger Risk
begin

text \<open>
  \<^verbatim>\<open>execution/service.py\<close>: the processing of one completed bar. A session holds the
  working copy of the database and the durable one; \<^verbatim>\<open>commit\<close> publishes the first,
  \<^verbatim>\<open>rollback\<close> returns to the second. The broker, the quotes and the clock are
  parameters, fields of the service record. The log of the requests the broker has been
  sent is part of the state, so that properties can speak about what left the process.
  Wall-clock timing measurements are not modelled.
\<close>

section \<open>Sessions\<close>

record session =
  ses_work :: exec_db
  ses_durable :: exec_db
  ses_submitted :: "MarketOrderRequest list"

type_synonym 'a svm = "(session, 'a) comp"

definition db_op :: "'a dbm \<Rightarrow> 'a svm" where
  "db_op m = on_part ses_work (\<lambda>db s. s\<lparr>ses_work := db\<rparr>) m"

definition commit :: "unit svm" where
  "commit = modify (\<lambda>s. s\<lparr>ses_durable := ses_work s\<rparr>)"

definition rollback :: "unit svm" where
  "rollback = modify (\<lambda>s. s\<lparr>ses_work := ses_durable s\<rparr>)"

text \<open>\<^verbatim>\<open>with session.begin():\<close> commits on success, rolls back and re-raises otherwise.\<close>

definition with_begin :: "'a svm \<Rightarrow> 'a svm" where
  "with_begin m = catch (bnd m (\<lambda>x. bnd commit (\<lambda>_. ret x))) (\<lambda>e. bnd rollback (\<lambda>_. throw e))"

section \<open>Decision values\<close>

record ForwardDecisionResult =
  fdr_bar_close_time :: datetime
  fdr_bar_close_price :: decimal
  fdr_signal_action :: SignalAction
  fdr_reason :: "string option"
  fdr_requested_quantity :: "decimal option"
  fdr_replay :: bool
  fdr_skipped_duplicate :: bool

definition emits_decision :: "ForwardDecisionResult \<Rightarrow> bool" where
  "emits_decision r \<longleftrightarrow> \<not> fdr_replay r \<and> \<not> fdr_skipped_duplicate r"

record BarProcessResult =
  bpr_deployment_id :: uuid
  bpr_bar_close_time :: datetime
  bpr_decision_id :: "uuid option"
  bpr_outcome :: DecisionOutcome
  bpr_order_id :: "uuid option"
  bpr_duplicate :: bool
  bpr_rejection :: "RiskRejection option"

record ExecutionService =
  svc_broker :: ExecutionBroker
  svc_quote_source :: "string \<Rightarrow> ExecutableQuote option"
  svc_crash_checkpoints :: "string list"
  svc_max_bar_age_seconds :: decimal
  svc_clock :: datetime

definition maybe_raise :: "string list \<Rightarrow> string \<Rightarrow> unit svm" where
  "maybe_raise checkpoints name =
     (if name \<in> set checkpoints then throw (RuntimeError (''crash injected at '' @ name)) else ret ())"

definition utc_day_start :: "datetime \<Rightarrow> datetime" where
  "utc_day_start now = (now div seconds 86400) * seconds 86400"

definition map_signal_to_order ::
    "SignalAction \<Rightarrow> PositionSide \<Rightarrow> decimal \<Rightarrow> decimal option \<Rightarrow> (ExecutionSide \<times> decimal) option" where
  "map_signal_to_order signal position_side position_quantity requested_quantity =
     (if signal = SIG_HOLD then None
      else if signal \<in> {SIG_BUY, SIG_SELL} then
        (case requested_quantity of
           None \<Rightarrow> None
         | Some q \<Rightarrow> if q \<le> 0 then None else Some (if signal = SIG_BUY then BUY else SELL, q))
      else if position_side = LONG \<and> position_quantity > 0 then Some (SELL, position_quantity)
      else if position_side = SHORT \<and> position_quantity > 0 then Some (BUY, position_quantity)
      else None)"

section \<open>Configuration values\<close>

text \<open>
  \<^verbatim>\<open>Decimal(str(x))\<close> of a configuration value: numbers as they are, strings in decimal
  notation parsed, anything else refused by \<^verbatim>\<open>Decimal\<close>.
\<close>

definition is_digit :: "char \<Rightarrow> bool" where
  "is_digit c \<longleftrightarrow> 48 \<le> (of_char c :: nat) \<and> (of_char c :: nat) \<le> 57"

definition nat_of_digits :: "string \<Rightarrow> nat" where
  "nat_of_digits s = foldl (\<lambda>n c. 10 * n + (of_char c - 48)) 0 s"

definition split_sign :: "string \<Rightarrow> rat \<times> string" where
  "split_sign s = (case s of
     c # r \<Rightarrow> if c = CHR ''-'' then (- 1, r) else if c = CHR ''+'' then (1, r) else (1, s)
   | [] \<Rightarrow> (1, s))"

definition parse_exponent :: "string \<Rightarrow> rat option" where
  "parse_exponent s = (case s of
     [] \<Rightarrow> Some 1
   | c # r \<Rightarrow>
       if c \<in> {CHR ''e'', CHR ''E''} then
         (case split_sign r of (sign, ds) \<Rightarrow>
            if ds = [] \<or> \<not> list_all is_digit ds then None
            else Some (if sign = 1 then 10 ^ nat_of_digits ds else 1 / 10 ^ nat_of_digits ds))
       else None)"

definition parse_decimal :: "string \<Rightarrow> decimal option" where
  "parse_decimal s = (case split_sign s of (sign, body) \<Rightarrow>
     let int_part = takeWhile is_digit body;
         after_int = dropWhile is_digit body;
         has_point = (case after_int of c # _ \<Rightarrow> c = CHR ''.'' | [] \<Rightarrow> False);
         frac_part = (if has_point then takeWhile is_digit (tl after_int) else []);
         after_frac = (if has_point then dropWhile is_digit (tl after_int) else after_int)
     in if int_part = [] \<and> frac_part = [] then None
        else map_option (\<lambda>scale. sign * scale *
               (of_nat (nat_of_digits (int_part @ frac_part)) / 10 ^ length frac_part))
               (parse_exponent after_frac))"

definition json_decimal :: "json \<Rightarrow> exec_error + decimal" where
  "json_decimal j = (case j of
     JNum n \<Rightarrow> Inr n
   | JStr s \<Rightarrow> (case parse_decimal s of None \<Rightarrow> Inl ArithmeticError | Some n \<Rightarrow> Inr n)
   | _ \<Rightarrow> Inl ArithmeticError)"

text \<open>\<^verbatim>\<open>cfg.get(key)\<close>, then \<^verbatim>\<open>Decimal(str(v)) if v is not None else None\<close>.\<close>

definition config_decimal :: "(string \<times> json) list \<Rightarrow> string \<Rightarrow> exec_error + decimal option" where
  "config_decimal cfg key = (case map_of cfg key of
     None \<Rightarrow> Inr None
   | Some JNull \<Rightarrow> Inr None
   | Some j \<Rightarrow> (case json_decimal j of Inl e \<Rightarrow> Inl e | Inr n \<Rightarrow> Inr (Some n)))"

section \<open>Processing one completed bar\<close>

definition bar_result ::
    "ExecutionDeployment \<Rightarrow> ForwardDecisionResult \<Rightarrow> uuid option \<Rightarrow> DecisionOutcome \<Rightarrow>
     uuid option \<Rightarrow> bool \<Rightarrow> RiskRejection option \<Rightarrow> BarProcessResult" where
  "bar_result deployment ev decision_id result_outcome order_id duplicate rejection =
     \<lparr>bpr_deployment_id = dep_id deployment, bpr_bar_close_time = fdr_bar_close_time ev,
      bpr_decision_id = decision_id, bpr_outcome = result_outcome, bpr_order_id = order_id,
      bpr_duplicate = duplicate, bpr_rejection = rejection\<rparr>"

text \<open>The decision row of the bar.\<close>

definition record_decision ::
    "ExecutionDeployment \<Rightarrow> ForwardDecisionResult \<Rightarrow> ExecutionDecision svm" where
  "record_decision deployment ev = db_op (create_execution_decision (dep_id deployment)
     (fdr_bar_close_time ev) (dep_identity deployment) (fdr_signal_action ev)
     (if fdr_signal_action ev = SIG_HOLD then D_HOLD else D_SIGNAL)
     (fdr_requested_quantity ev) (fdr_reason ev) [(''timing'', JDict [])])"

text \<open>Setting the decision's outcome, advancing the deployment's bar and committing.\<close>

definition close_bar ::
    "ExecutionDeployment \<Rightarrow> ForwardDecisionResult \<Rightarrow> uuid \<Rightarrow> DecisionOutcome \<Rightarrow>
     (string \<times> json) list option \<Rightarrow> unit svm" where
  "close_bar deployment ev decision_id result_outcome context =
     bnd (db_op (update_execution_decision_outcome decision_id result_outcome context)) (\<lambda>_.
     bnd (db_op (update_deployment_last_bar_close (dep_id deployment) (fdr_bar_close_time ev))) (\<lambda>_.
     commit))"

text \<open>The order the bar asks for, with the position it was derived from; \<open>None\<close> when there is none.\<close>

definition plan_order ::
    "ExecutionDeployment \<Rightarrow> ForwardDecisionResult \<Rightarrow> uuid \<Rightarrow> bool \<Rightarrow>
     (ExecutionSide \<times> decimal \<times> PositionSide \<times> decimal) option svm" where
  "plan_order deployment ev decision_id flatten =
     bnd (db_op (reads (get_open_net_position (dep_id deployment)))) (\<lambda>position.
     let position_side = (case position of None \<Rightarrow> FLAT
           | Some p \<Rightarrow> if pos_is_open p then pos_side p else FLAT);
         position_qty = (case position of None \<Rightarrow> 0 | Some p \<Rightarrow> pos_quantity p)
     in
     if flatten then
       (case map_signal_to_order SIG_CLOSE position_side position_qty None of
          None \<Rightarrow>
            bnd (db_op (update_execution_decision_outcome decision_id D_HOLD
                   (Some [(''flatten'', JStr ''no open position'')]))) (\<lambda>_.
            bnd commit (\<lambda>_. ret None))
        | Some (side, quantity) \<Rightarrow> ret (Some (side, quantity, position_side, position_qty)))
     else
       (case map_signal_to_order (fdr_signal_action ev) position_side position_qty
               (fdr_requested_quantity ev) of
          None \<Rightarrow> bnd (close_bar deployment ev decision_id D_HOLD None) (\<lambda>_. ret None)
        | Some (side, quantity) \<Rightarrow> ret (Some (side, quantity, position_side, position_qty))))"

text \<open>The facts the risk gate is given.\<close>

definition build_risk_context ::
    "ExecutionService \<Rightarrow> ExecutionDeployment \<Rightarrow> ForwardDecisionResult \<Rightarrow> string \<Rightarrow> string \<Rightarrow>
     PaperCostConfig \<Rightarrow> decimal \<Rightarrow> bool \<Rightarrow> ExecutionSide \<times> decimal \<times> PositionSide \<times> decimal \<Rightarrow>
     RiskContext svm" where
  "build_risk_context self deployment ev lease_token worker_id cost_config point_value bypass plan =
     (case plan of (side, quantity, position_side, position_qty) \<Rightarrow>
     bnd (db_op (require_paper_account (dep_paper_account_id deployment))) (\<lambda>account.
     let symbol = si_symbol (dep_identity deployment);
         quote = svc_quote_source self symbol;
         now = svc_clock self
     in
     bnd (db_op (reads (get_worker_lease (dep_id deployment)))) (\<lambda>lease.
     bnd (db_op (gets (list_orders_for_deployment (dep_id deployment) None))) (\<lambda>orders.
     bnd (db_op get_execution_control_state) (\<lambda>control.
     let risk_cfg = (if si_risk_config (dep_identity deployment) \<noteq> []
                     then si_risk_config (dep_identity deployment) else pa_risk_config account)
     in
     bnd (db_op (account_snapshot (pa_id account) (dep_id deployment) symbol quote point_value
            (Some now))) (\<lambda>snapshot.
     bnd (db_op (gets (sum_realized_pnl_since (pa_id account) (utc_day_start now)))) (\<lambda>daily.
     bnd (db_op (reads (\<lambda>_. config_decimal risk_cfg ''max_daily_loss''))) (\<lambda>max_daily_loss.
     bnd (db_op (reads (\<lambda>_. config_decimal risk_cfg ''max_notional''))) (\<lambda>max_notional.
     ret \<lparr>rc_deployment_id = dep_id deployment, rc_paper_account_id = pa_id account,
       rc_lifecycle = dep_lifecycle deployment, rc_symbol = symbol,
       rc_bar_close_time = fdr_bar_close_time ev, rc_side = side, rc_quantity = quantity,
       rc_quote = quote, rc_now = now,
       rc_kill_switch_enabled = ctl_kill_switch_enabled control,
       rc_lease_held = (case lease of None \<Rightarrow> False
         | Some l \<Rightarrow> lea_worker_id l = worker_id \<and> lea_lease_token l = lease_token),
       rc_has_unknown_orders = deployment_has_unknown_orders orders,
       rc_position_side = position_side, rc_position_quantity = position_qty,
       rc_cash_balance = pa_cash_balance account, rc_equity = bas_equity snapshot,
       rc_daily_realized_pnl = daily, rc_max_daily_loss = max_daily_loss,
       rc_max_notional = max_notional, rc_point_value = point_value,
       rc_cost_config = cost_config, rc_max_bar_age_seconds = svc_max_bar_age_seconds self,
       rc_allow_lifecycle_bypass = bypass\<rparr>)))))))))"

definition rejection_dump :: "RiskRejection \<Rightarrow> json" where
  "rejection_dump r = JDict [(''code'', JStr (risk_rejection_code_value (rr_code r))),
     (''message'', JStr (rr_message r)), (''context'', JDict (rr_context r))]"

definition reject_by_risk ::
    "ExecutionDeployment \<Rightarrow> ForwardDecisionResult \<Rightarrow> uuid \<Rightarrow> RiskRejection \<Rightarrow> BarProcessResult svm" where
  "reject_by_risk deployment ev decision_id rejection =
     bnd (db_op (record_risk_event (dep_id deployment) (rr_code rejection) (rr_message rejection)
            (Some decision_id) None (rr_context rejection))) (\<lambda>_.
     bnd (close_bar deployment ev decision_id D_RISK_REJECTED
            (Some [(''rejection'', rejection_dump rejection)])) (\<lambda>_.
     ret (bar_result deployment ev (Some decision_id) D_RISK_REJECTED None False (Some rejection))))"

text \<open>The committed intent, then the call to the broker.\<close>

definition commit_intent ::
    "ExecutionService \<Rightarrow> ExecutionDeployment \<Rightarrow> ForwardDecisionResult \<Rightarrow> uuid \<Rightarrow> bool \<Rightarrow>
     ExecutionSide \<Rightarrow> decimal \<Rightarrow> ExecutionOrder svm" where
  "commit_intent self deployment ev decision_id flatten side quantity =
     bnd (db_op (create_execution_order_intent (dep_id deployment) (Some decision_id)
            (dep_broker_mode deployment) side quantity
            [(''flatten'', JBool flatten),
             (''bar_close_time'', JNum (of_int (fdr_bar_close_time ev)))])) (\<lambda>order.
     bnd (maybe_raise (svc_crash_checkpoints self) ''before_intent_commit'') (\<lambda>_.
     bnd commit (\<lambda>_.
     bnd (maybe_raise (svc_crash_checkpoints self) ''after_intent_commit'') (\<lambda>_.
     ret order))))"

definition order_request :: "ExecutionDeployment \<Rightarrow> ExecutionOrder \<Rightarrow> MarketOrderRequest" where
  "order_request deployment order =
     \<lparr>mor_deployment_id = dep_id deployment, mor_order_id = ord_id order,
      mor_symbol = si_symbol (dep_identity deployment), mor_side = ord_side order,
      mor_quantity = ord_quantity order,
      mor_external_fill_id = ''paper:'' @ uuid_str (ord_id order)\<rparr>"

definition submit_to_broker ::
    "ExecutionService \<Rightarrow> MarketOrderRequest \<Rightarrow> PaperCostConfig \<Rightarrow> BrokerSubmissionResult svm" where
  "submit_to_broker self request cost_config =
     bnd (modify (\<lambda>s. s\<lparr>ses_submitted := ses_submitted s @ [request]\<rparr>)) (\<lambda>_.
     bnd (reads (\<lambda>_. bk_submit_market_order (svc_broker self) request cost_config)) (\<lambda>submission.
     bnd (maybe_raise (svc_crash_checkpoints self) ''after_broker_response'') (\<lambda>_.
     ret submission)))"

text \<open>The three ways a submission ends.\<close>

definition settle_unknown ::
    "ExecutionDeployment \<Rightarrow> ForwardDecisionResult \<Rightarrow> uuid \<Rightarrow> uuid \<Rightarrow> BrokerSubmissionResult \<Rightarrow>
     BarProcessResult svm" where
  "settle_unknown deployment ev decision_id order_id submission =
     bnd (db_op (transition_execution_order order_id UNKNOWN (Some PENDING)
            (bsr_external_order_id submission) (Some ''broker outcome unknown'') None None)) (\<lambda>_.
     bnd (close_bar deployment ev decision_id D_ORDER_UNKNOWN None) (\<lambda>_.
     ret (bar_result deployment ev (Some decision_id) D_ORDER_UNKNOWN (Some order_id) False None)))"

definition settle_rejected ::
    "ExecutionDeployment \<Rightarrow> ForwardDecisionResult \<Rightarrow> uuid \<Rightarrow> uuid \<Rightarrow> BrokerSubmissionResult \<Rightarrow>
     datetime \<Rightarrow> BarProcessResult svm" where
  "settle_rejected deployment ev decision_id order_id submission now =
     bnd (db_op (transition_execution_order order_id REJECTED None None
            (Some (case bsr_rejection submission of Some r \<Rightarrow> br_message r
                   | None \<Rightarrow> ''broker rejected order'')) None (Some now))) (\<lambda>_.
     bnd (close_bar deployment ev decision_id D_ORDER_REJECTED None) (\<lambda>_.
     ret (bar_result deployment ev (Some decision_id) D_ORDER_REJECTED (Some order_id) False None)))"

definition mark_fill_failed :: "uuid \<Rightarrow> uuid \<Rightarrow> unit svm" where
  "mark_fill_failed order_id decision_id =
     bnd rollback (\<lambda>_. with_begin
       (bnd (db_op (transition_execution_order order_id UNKNOWN (Some PENDING) None
               (Some ''fill persistence failed'') None None)) (\<lambda>_.
        db_op (update_execution_decision_outcome decision_id D_ORDER_UNKNOWN None))))"

definition persist_fill ::
    "ExecutionService \<Rightarrow> ExecutionDeployment \<Rightarrow> ForwardDecisionResult \<Rightarrow> uuid \<Rightarrow> uuid \<Rightarrow> uuid \<Rightarrow>
     FillRecord \<Rightarrow> decimal \<Rightarrow> unit svm" where
  "persist_fill self deployment ev decision_id order_id account_id fill point_value =
     bnd (db_op (apply_fill account_id (dep_id deployment) order_id fill point_value
            (si_symbol (dep_identity deployment)) False)) (\<lambda>_.
     bnd (maybe_raise (svc_crash_checkpoints self) ''before_fill_commit'') (\<lambda>_.
     close_bar deployment ev decision_id D_ORDER_FILLED None))"

definition settle_filled ::
    "ExecutionService \<Rightarrow> ExecutionDeployment \<Rightarrow> ForwardDecisionResult \<Rightarrow> uuid \<Rightarrow> uuid \<Rightarrow> uuid \<Rightarrow>
     FillRecord \<Rightarrow> decimal \<Rightarrow> BarProcessResult svm" where
  "settle_filled self deployment ev decision_id order_id account_id fill point_value =
     bnd (catch (persist_fill self deployment ev decision_id order_id account_id fill point_value)
            (\<lambda>e. bnd (mark_fill_failed order_id decision_id) (\<lambda>_. throw e))) (\<lambda>_.
     ret (bar_result deployment ev (Some decision_id) D_ORDER_FILLED (Some order_id) False None))"

definition settle_submission ::
    "ExecutionService \<Rightarrow> ExecutionDeployment \<Rightarrow> ForwardDecisionResult \<Rightarrow> uuid \<Rightarrow> uuid \<Rightarrow> uuid \<Rightarrow>
     BrokerSubmissionResult \<Rightarrow> decimal \<Rightarrow> BarProcessResult svm" where
  "settle_submission self deployment ev decision_id order_id account_id submission point_value =
     (if bsr_outcome submission = SO_UNKNOWN
      then settle_unknown deployment ev decision_id order_id submission
      else if \<not> accepted submission \<or> bsr_fill submission = None
      then settle_rejected deployment ev decision_id order_id submission (svc_clock self)
      else settle_filled self deployment ev decision_id order_id account_id
             (the (bsr_fill submission)) point_value)"

text \<open>From an accepted plan to the settled order.\<close>

definition place_order ::
    "ExecutionService \<Rightarrow> ExecutionDeployment \<Rightarrow> ForwardDecisionResult \<Rightarrow> uuid \<Rightarrow> bool \<Rightarrow>
     PaperCostConfig \<Rightarrow> decimal \<Rightarrow> RiskContext \<Rightarrow> BarProcessResult svm" where
  "place_order self deployment ev decision_id flatten cost_config point_value ctx =
     bnd (commit_intent self deployment ev decision_id flatten (rc_side ctx) (rc_quantity ctx)) (\<lambda>order.
     bnd (submit_to_broker self (order_request deployment order) cost_config) (\<lambda>submission.
     settle_submission self deployment ev decision_id (ord_id order) (rc_paper_account_id ctx)
       submission point_value))"

definition decide_bar ::
    "ExecutionService \<Rightarrow> ExecutionDeployment \<Rightarrow> ForwardDecisionResult \<Rightarrow> string \<Rightarrow> string \<Rightarrow>
     PaperCostConfig \<Rightarrow> decimal \<Rightarrow> bool \<Rightarrow> bool \<Rightarrow> uuid \<Rightarrow> BarProcessResult svm" where
  "decide_bar self deployment ev lease_token worker_id cost_config point_value
       allow_lifecycle_bypass flatten decision_id =
     bnd (plan_order deployment ev decision_id flatten) (\<lambda>plan. case plan of
       None \<Rightarrow> ret (bar_result deployment ev (Some decision_id) D_HOLD None False None)
     | Some p \<Rightarrow>
         bnd (build_risk_context self deployment ev lease_token worker_id cost_config point_value
                (allow_lifecycle_bypass \<or> flatten) p) (\<lambda>ctx.
         case evaluate ctx of
           Some rejection \<Rightarrow> reject_by_risk deployment ev decision_id rejection
         | None \<Rightarrow> place_order self deployment ev decision_id flatten cost_config point_value ctx))"

definition process_completed_bar ::
    "ExecutionService \<Rightarrow> ExecutionDeployment \<Rightarrow> ForwardDecisionResult \<Rightarrow> string \<Rightarrow> string \<Rightarrow>
     PaperCostConfig \<Rightarrow> decimal \<Rightarrow> bool \<Rightarrow> bool \<Rightarrow> BarProcessResult svm" where
  "process_completed_bar self deployment ev lease_token worker_id cost_config point_value
       allow_lifecycle_bypass flatten =
     (if \<not> emits_decision ev then
        ret (bar_result deployment ev None D_HOLD None (fdr_skipped_duplicate ev) None)
      else
        bnd (db_op (reads (get_decision_for_bar (dep_id deployment) (fdr_bar_close_time ev))))
        (\<lambda>existing. case existing of
          Some d \<Rightarrow> ret (bar_result deployment ev (Some (dec_id d)) (dec_outcome d) None True None)
        | None \<Rightarrow>
            bnd (record_decision deployment ev) (\<lambda>decision.
            if fdr_signal_action ev = SIG_HOLD \<and> \<not> flatten then
              bnd (db_op (update_deployment_last_bar_close (dep_id deployment)
                     (fdr_bar_close_time ev))) (\<lambda>_.
              bnd commit (\<lambda>_.
              ret (bar_result deployment ev (Some (dec_id decision)) D_HOLD None False None)))
            else decide_bar self deployment ev lease_token worker_id cost_config point_value
                   allow_lifecycle_bypass flatten (dec_id decision))))"

definition flatten_deployment ::
    "ExecutionService \<Rightarrow> ExecutionDeployment \<Rightarrow> string \<Rightarrow> string \<Rightarrow> PaperCostConfig \<Rightarrow> decimal \<Rightarrow>
     datetime option \<Rightarrow> BarProcessResult svm" where
  "flatten_deployment self deployment lease_token worker_id cost_config point_value bar_close_time =
     (let now = (case bar_close_time of None \<Rightarrow> svc_clock self | Some t \<Rightarrow> t) in
      process_completed_bar self deployment
        \<lparr>fdr_bar_close_time = now, fdr_bar_close_price = 0, fdr_signal_action = SIG_CLOSE,
         fdr_reason = Some ''flatten'', fdr_requested_quantity = None, fdr_replay = False,
         fdr_skipped_duplicate = False\<rparr>
        lease_token worker_id cost_config point_value True True)"

end
