(* ===== verification/Bt_Models.thy ===== *)
theory Bt_Models
  imports Exec_Prelude
begin

text \<open>
  The values of a backtest, \<^verbatim>\<open>backtesting/models.py\<close>, its transaction costs, \<^verbatim>\<open>costs.py\<close>, the
  position sizers, \<^verbatim>\<open>position_sizing.py\<close>, and the registry of orders and trades,
  \<^verbatim>\<open>registry.py\<close>. Floating-point prices and quantities are rationals; identifiers drawn by
  \<^verbatim>\<open>uuid4\<close> are arguments. Creation times, which nothing reads, are not modelled.
\<close>

section \<open>Signals, orders, trades\<close>

datatype OrderAction = OA_BUY | OA_SELL

datatype BtSignalAction = BT_BUY | BT_SELL | BT_HOLD | BT_CLOSE

datatype OrderType = OT_MARKET | OT_LIMIT | OT_STOP

datatype OrderStatus = OS_PENDING | OS_EXECUTED | OS_CANCELED | OS_REJECTED

datatype TradeStatus = TR_OPEN | TR_CLOSED

record Signal =
  sg_symbol :: string
  sg_action :: BtSignalAction
  sg_strength :: decimal
  sg_exit_reason :: "string option"

record Order =
  bo_id :: string
  bo_symbol :: string
  bo_action :: OrderAction
  bo_order_type :: OrderType
  bo_quantity :: decimal
  bo_price :: "decimal option"
  bo_status :: OrderStatus

record Trade =
  tr_id :: string
  tr_order_id :: string
  tr_symbol :: string
  tr_action :: OrderAction
  tr_quantity :: decimal
  tr_entry_time :: datetime
  tr_entry_price :: decimal
  tr_exit_time :: "datetime option"
  tr_exit_price :: "decimal option"
  tr_status :: TradeStatus
  tr_pnl :: "decimal option"
  tr_commission :: decimal
  tr_point_value :: decimal
  tr_exit_reason :: "string option"

text \<open>The defaults of an open trade.\<close>

definition new_trade ::
    "string \<Rightarrow> string \<Rightarrow> string \<Rightarrow> OrderAction \<Rightarrow> decimal \<Rightarrow> datetime \<Rightarrow> decimal \<Rightarrow> decimal \<Rightarrow> decimal \<Rightarrow> Trade" where
  "new_trade trade_id order_id symbol action quantity entry_time entry_price point_value commission =
     \<lparr>tr_id = trade_id, tr_order_id = order_id, tr_symbol = symbol, tr_action = action, tr_quantity = quantity,
      tr_entry_time = entry_time, tr_entry_price = entry_price, tr_exit_time = None, tr_exit_price = None,
      tr_status = TR_OPEN, tr_pnl = None, tr_commission = commission, tr_point_value = point_value, tr_exit_reason = None\<rparr>"

section \<open>Costs\<close>

record TransactionCostConfig =
  tcc_cost_per_contract :: decimal
  tcc_cost_bps :: decimal

definition side_cost :: "TransactionCostConfig option \<Rightarrow> decimal \<Rightarrow> decimal \<Rightarrow> decimal \<Rightarrow> decimal" where
  "side_cost costs price quantity point_value = (case costs of
     None \<Rightarrow> 0
   | Some c \<Rightarrow> quantity * tcc_cost_per_contract c + (tcc_cost_bps c / 10000) * price * quantity * point_value)"

section \<open>Position sizing\<close>

text \<open>
  The three sizers. \<open>size_quantity\<close> is the quantity of the order \<^verbatim>\<open>size_signal\<close> returns; the
  volatility is the value of that column, absent when it is missing or not a number.
\<close>

datatype PositionSizer =
    FixedQuantitySizer (fq_quantity: decimal) (fq_scale: bool)
  | FixedSafetyMarginSizer (fm_margin: decimal) (fm_max: "int option") (fm_min: int) (fm_scale: bool)
  | InverseVolatilitySizer (iv_target: decimal) (iv_point_value: decimal) (iv_max: "int option") (iv_min: int) (iv_scale: bool)

definition margin_target_contracts :: "decimal \<Rightarrow> int option \<Rightarrow> int \<Rightarrow> decimal \<Rightarrow> int" where
  "margin_target_contracts margin max_contracts min_contracts capital =
     (let quantity = \<lfloor>capital / margin\<rfloor>;
          quantity = (case max_contracts of None \<Rightarrow> quantity | Some m \<Rightarrow> min quantity m)
      in if quantity < min_contracts then (if min_contracts > 0 \<and> quantity = 0 then min_contracts else 0)
         else if quantity > 0 then quantity else 0)"

definition read_volatility :: "decimal option \<Rightarrow> decimal option" where
  "read_volatility vol = (case vol of None \<Rightarrow> None | Some v \<Rightarrow> if v \<le> 0 then None else Some v)"

definition volatility_target_contracts ::
    "decimal \<Rightarrow> decimal \<Rightarrow> int option \<Rightarrow> int \<Rightarrow> decimal \<Rightarrow> decimal \<Rightarrow> decimal option \<Rightarrow> int option" where
  "volatility_target_contracts target point_value max_contracts min_contracts price capital vol =
     (case read_volatility vol of
        None \<Rightarrow> None
      | Some v \<Rightarrow>
          if price \<le> 0 \<or> capital \<le> 0 then None
          else let notional_per_contract = v * price * point_value in
            if notional_per_contract \<le> 0 then None
            else let raw = \<lfloor>(target / 100) * capital / notional_per_contract\<rfloor>;
                     raw = (case max_contracts of None \<Rightarrow> raw | Some m \<Rightarrow> min raw m);
                     raw = max raw min_contracts
                 in if raw > 0 then Some raw else None)"

definition scaled_quantity :: "bool \<Rightarrow> decimal \<Rightarrow> int \<Rightarrow> decimal option" where
  "scaled_quantity scale strength quantity =
     (if scale then (let q = \<lfloor>of_int quantity * strength\<rfloor> in if q \<le> 0 then None else Some (of_int q))
      else Some (of_int quantity))"

fun size_quantity :: "PositionSizer \<Rightarrow> decimal \<Rightarrow> decimal \<Rightarrow> decimal \<Rightarrow> decimal option \<Rightarrow> decimal option" where
  "size_quantity (FixedQuantitySizer quantity scale) strength price capital vol =
     (let q = \<lfloor>if scale then quantity * strength else quantity\<rfloor> in if q \<le> 0 then None else Some (of_int q))"
| "size_quantity (FixedSafetyMarginSizer margin max_contracts min_contracts scale) strength price capital vol =
     (let quantity = margin_target_contracts margin max_contracts min_contracts capital in
      if quantity \<le> 0 then None else scaled_quantity scale strength quantity)"
| "size_quantity (InverseVolatilitySizer target point_value max_contracts min_contracts scale) strength price capital vol =
     (case volatility_target_contracts target point_value max_contracts min_contracts price capital vol of
        None \<Rightarrow> None | Some quantity \<Rightarrow> scaled_quantity scale strength quantity)"

definition size_signal :: "PositionSizer \<Rightarrow> string \<Rightarrow> Signal \<Rightarrow> decimal \<Rightarrow> decimal \<Rightarrow> decimal option \<Rightarrow> Order option" where
  "size_signal sizer order_id signal price capital vol =
     (if sg_action signal = BT_HOLD \<or> sg_action signal = BT_CLOSE then None
      else map_option (\<lambda>qty. \<lparr>bo_id = order_id, bo_symbol = sg_symbol signal,
          bo_action = (if sg_action signal = BT_BUY then OA_BUY else OA_SELL), bo_order_type = OT_MARKET,
          bo_quantity = qty, bo_price = None, bo_status = OS_PENDING\<rparr>)
        (size_quantity sizer (sg_strength signal) price capital vol))"

fun max_position_size :: "PositionSizer \<Rightarrow> decimal \<Rightarrow> decimal \<Rightarrow> decimal option" where
  "max_position_size (FixedQuantitySizer quantity scale) price capital = Some quantity"
| "max_position_size (FixedSafetyMarginSizer margin max_contracts min_contracts scale) price capital =
     Some (of_int (margin_target_contracts margin max_contracts min_contracts capital))"
| "max_position_size (InverseVolatilitySizer target point_value max_contracts min_contracts scale) price capital =
     (case volatility_target_contracts target point_value max_contracts min_contracts price capital None of
        Some quantity \<Rightarrow> Some (of_int quantity)
      | None \<Rightarrow> map_option of_int max_contracts)"

text \<open>
  The configuration of a sizer with the constraints of its fields, and the sizer built from it;
  the constructors of the two futures sizers check their arguments again.
\<close>

datatype PositionSizingConfig =
    FixedQuantityPositionSizing decimal bool
  | FixedSafetyMarginPositionSizing decimal int "int option" bool
  | InverseVolatilityPositionSizing decimal "int option" int bool

definition max_gte_min :: "int option \<Rightarrow> int \<Rightarrow> bool" where
  "max_gte_min max_contracts min_contracts = (case max_contracts of None \<Rightarrow> True | Some m \<Rightarrow> min_contracts \<le> m)"

fun sizing_config_valid :: "PositionSizingConfig \<Rightarrow> bool" where
  "sizing_config_valid (FixedQuantityPositionSizing quantity scale) = (quantity > 0)"
| "sizing_config_valid (FixedSafetyMarginPositionSizing margin min_contracts max_contracts scale) =
     (margin > 0 \<and> min_contracts \<ge> 0 \<and> (case max_contracts of None \<Rightarrow> True | Some m \<Rightarrow> m \<ge> 0) \<and> max_gte_min max_contracts min_contracts)"
| "sizing_config_valid (InverseVolatilityPositionSizing target max_contracts min_contracts scale) =
     (target > 0 \<and> (case max_contracts of None \<Rightarrow> True | Some m \<Rightarrow> m \<ge> 1) \<and> min_contracts \<ge> 0 \<and> max_gte_min max_contracts min_contracts)"

definition new_safety_margin_sizer :: "decimal \<Rightarrow> int option \<Rightarrow> int \<Rightarrow> bool \<Rightarrow> exec_error + PositionSizer" where
  "new_safety_margin_sizer margin max_contracts min_contracts scale =
     (if margin \<le> 0 then Inl (ValueError ''safety_margin_per_contract must be greater than 0'' [])
      else if min_contracts < 0 then Inl (ValueError ''min_contracts must be greater than or equal to 0'' [])
      else if \<not> max_gte_min max_contracts min_contracts
        then Inl (ValueError ''max_contracts must be greater than or equal to min_contracts'' [])
      else Inr (FixedSafetyMarginSizer margin max_contracts min_contracts scale))"

definition new_inverse_volatility_sizer :: "decimal \<Rightarrow> decimal \<Rightarrow> int option \<Rightarrow> int \<Rightarrow> bool \<Rightarrow> exec_error + PositionSizer" where
  "new_inverse_volatility_sizer target point_value max_contracts min_contracts scale =
     (if target \<le> 0 then Inl (ValueError ''target_volatility_pct must be greater than 0'' [])
      else if point_value \<le> 0 then Inl (ValueError ''point_value must be greater than 0'' [])
      else if min_contracts < 0 then Inl (ValueError ''min_contracts must be greater than or equal to 0'' [])
      else if \<not> max_gte_min max_contracts min_contracts
        then Inl (ValueError ''max_contracts must be greater than or equal to min_contracts'' [])
      else Inr (InverseVolatilitySizer target point_value max_contracts min_contracts scale))"

definition build_position_sizer :: "PositionSizingConfig option \<Rightarrow> decimal \<Rightarrow> exec_error + PositionSizer" where
  "build_position_sizer config point_value = (case config of
     None \<Rightarrow> Inr (FixedQuantitySizer 1 False)
   | Some (FixedQuantityPositionSizing quantity scale) \<Rightarrow> Inr (FixedQuantitySizer quantity scale)
   | Some (FixedSafetyMarginPositionSizing margin min_contracts max_contracts scale) \<Rightarrow>
       new_safety_margin_sizer margin max_contracts min_contracts scale
   | Some (InverseVolatilityPositionSizing target max_contracts min_contracts scale) \<Rightarrow>
       new_inverse_volatility_sizer target point_value max_contracts min_contracts scale)"

section \<open>The registry\<close>

text \<open>A dict in insertion order: \<^verbatim>\<open>d[k] = v\<close> keeps the place of a key it already has.\<close>

primrec dict_put :: "'k \<Rightarrow> 'v \<Rightarrow> ('k \<times> 'v) list \<Rightarrow> ('k \<times> 'v) list" where
  "dict_put k v [] = [(k, v)]"
| "dict_put k v (p # ps) = (if fst p = k then (k, v) # ps else p # dict_put k v ps)"

record TradeRegistry =
  reg_orders :: "(string \<times> Order) list"
  reg_trades :: "(string \<times> Trade) list"

definition new_registry :: TradeRegistry where
  "new_registry = \<lparr>reg_orders = [], reg_trades = []\<rparr>"

definition register_order :: "Order \<Rightarrow> TradeRegistry \<Rightarrow> TradeRegistry" where
  "register_order order self = self\<lparr>reg_orders := dict_put (bo_id order) order (reg_orders self)\<rparr>"

definition register_trade :: "Trade \<Rightarrow> TradeRegistry \<Rightarrow> TradeRegistry" where
  "register_trade trade self = self\<lparr>reg_trades := dict_put (tr_id trade) trade (reg_trades self)\<rparr>"

definition gross_pnl :: "Trade \<Rightarrow> decimal \<Rightarrow> decimal" where
  "gross_pnl trade exit_price =
     (if tr_action trade = OA_BUY then (exit_price - tr_entry_price trade) * tr_quantity trade * tr_point_value trade
      else (tr_entry_price trade - exit_price) * tr_quantity trade * tr_point_value trade)"

definition closed_trade :: "datetime \<Rightarrow> decimal \<Rightarrow> string option \<Rightarrow> Trade \<Rightarrow> Trade" where
  "closed_trade exit_time exit_price exit_reason trade =
     trade\<lparr>tr_exit_time := Some exit_time, tr_exit_price := Some exit_price, tr_status := TR_CLOSED,
       tr_exit_reason := exit_reason, tr_pnl := Some (gross_pnl trade exit_price - tr_commission trade)\<rparr>"

definition close_trade ::
    "string \<Rightarrow> datetime \<Rightarrow> decimal \<Rightarrow> string option \<Rightarrow> TradeRegistry \<Rightarrow> Trade option \<times> TradeRegistry" where
  "close_trade trade_id exit_time exit_price exit_reason self = (case map_of (reg_trades self) trade_id of
     None \<Rightarrow> (None, self)
   | Some trade \<Rightarrow>
       if tr_status trade = TR_CLOSED then (Some trade, self)
       else let t = closed_trade exit_time exit_price exit_reason trade in
         (Some t, self\<lparr>reg_trades := dict_put trade_id t (reg_trades self)\<rparr>))"

definition get_all_trades :: "TradeRegistry \<Rightarrow> Trade list" where
  "get_all_trades self = map snd (reg_trades self)"

definition get_open_trades :: "TradeRegistry \<Rightarrow> Trade list" where
  "get_open_trades self = filter (\<lambda>t. tr_status t = TR_OPEN) (get_all_trades self)"

definition get_closed_trades :: "TradeRegistry \<Rightarrow> Trade list" where
  "get_closed_trades self = filter (\<lambda>t. tr_status t = TR_CLOSED) (get_all_trades self)"

definition merge :: "TradeRegistry \<Rightarrow> TradeRegistry \<Rightarrow> TradeRegistry" where
  "merge self other = \<lparr>reg_orders = fold (\<lambda>(k, v). dict_put k v) (reg_orders other) (reg_orders self),
     reg_trades = fold (\<lambda>(k, v). dict_put k v) (reg_trades other) (reg_trades self)\<rparr>"

section \<open>Performance metrics\<close>

record PerformanceMetrics =
  pm_total_trades :: nat
  pm_total_pnl :: decimal
  pm_total_commission :: decimal
  pm_win_rate :: decimal
  pm_winning_trades :: nat
  pm_losing_trades :: nat
  pm_max_drawdown_value :: decimal
  pm_max_drawdown_pct :: decimal
  pm_profit_factor :: decimal
  pm_recovery_factor :: decimal
  pm_expectancy :: decimal
  pm_avg_win :: decimal
  pm_avg_loss :: decimal
  pm_win_loss_ratio :: decimal
  pm_max_consecutive_wins :: nat
  pm_max_consecutive_losses :: nat

text \<open>\<^verbatim>\<open>t.pnl or 0.0\<close>.\<close>

definition pnl_or_0 :: "Trade \<Rightarrow> decimal" where
  "pnl_or_0 t = (case tr_pnl t of None \<Rightarrow> 0 | Some p \<Rightarrow> p)"

text \<open>The epoch stands for a missing exit time.\<close>

definition get_exit_time :: "Trade \<Rightarrow> datetime" where
  "get_exit_time t = (case tr_exit_time t of None \<Rightarrow> 0 | Some e \<Rightarrow> e)"

text \<open>The streaks: current and longest run of wins, current and longest run of losses.\<close>

fun streak_step :: "decimal \<Rightarrow> nat \<times> nat \<times> nat \<times> nat \<Rightarrow> nat \<times> nat \<times> nat \<times> nat" where
  "streak_step pnl (win, max_wins, loss, max_losses) =
     (if pnl > 0 then (Suc win, max max_wins (Suc win), 0, max_losses)
      else (0, max_wins, Suc loss, max max_losses (Suc loss)))"

text \<open>The equity curve: equity, peak, largest drawdown in value and relative to the peak.\<close>

fun drawdown_step :: "decimal \<Rightarrow> decimal \<times> decimal \<times> decimal \<times> decimal \<Rightarrow> decimal \<times> decimal \<times> decimal \<times> decimal" where
  "drawdown_step pnl (equity, peak, max_val, max_pct) =
     (let equity = equity + pnl; peak = (if equity > peak then equity else peak);
          dd_val = peak - equity; dd_pct = (if peak > 0 then dd_val / peak else 0)
      in (equity, peak, max max_val dd_val, max max_pct dd_pct))"

definition get_performance_metrics :: "TradeRegistry \<Rightarrow> decimal \<Rightarrow> PerformanceMetrics" where
  "get_performance_metrics self initial_capital =
     (let closed = get_closed_trades self; n = length closed in
      if n = 0 then \<lparr>pm_total_trades = 0, pm_total_pnl = 0, pm_total_commission = 0, pm_win_rate = 0, pm_winning_trades = 0,
        pm_losing_trades = 0, pm_max_drawdown_value = 0, pm_max_drawdown_pct = 0, pm_profit_factor = 0,
        pm_recovery_factor = 0, pm_expectancy = 0, pm_avg_win = 0, pm_avg_loss = 0, pm_win_loss_ratio = 0,
        pm_max_consecutive_wins = 0, pm_max_consecutive_losses = 0\<rparr>
      else
        let pnls = map pnl_or_0 (sort_key get_exit_time closed);
            wins = filter (\<lambda>p. p > 0) pnls; losses = filter (\<lambda>p. \<not> p > 0) pnls;
            (_, max_wins, _, max_losses) = fold streak_step pnls (0, 0, 0, 0);
            total_pnl = sum_list (map pnl_or_0 closed);
            total_commission = sum_list (map tr_commission closed);
            gross_profit = sum_list wins; gross_loss = sum_list losses;
            (_, _, max_val, max_pct) = fold drawdown_step pnls (initial_capital, initial_capital, 0, 0);
            avg_win = (if wins \<noteq> [] then gross_profit / of_nat (length wins) else 0);
            avg_loss = (if losses \<noteq> [] then gross_loss / of_nat (length losses) else 0)
        in \<lparr>pm_total_trades = n, pm_total_pnl = total_pnl, pm_total_commission = total_commission,
            pm_win_rate = of_nat (length wins) / of_nat n, pm_winning_trades = length wins, pm_losing_trades = length losses,
            pm_max_drawdown_value = max_val, pm_max_drawdown_pct = max_pct,
            pm_profit_factor = (if gross_loss \<noteq> 0 then gross_profit / \<bar>gross_loss\<bar> else gross_profit),
            pm_recovery_factor = (if max_val > 0 then total_pnl / max_val else 0),
            pm_expectancy = total_pnl / of_nat n, pm_avg_win = avg_win, pm_avg_loss = avg_loss,
            pm_win_loss_ratio = (if avg_loss \<noteq> 0 then avg_win / \<bar>avg_loss\<bar> else 0),
            pm_max_consecutive_wins = max_wins, pm_max_consecutive_losses = max_losses\<rparr>)"

end
