(* ===== verification/Evaluator.thy ===== *)
theory Evaluator
  imports Bars Service Bt_Models
begin

text \<open>
  The incremental evaluator: \<^verbatim>\<open>execution/evaluator.py\<close> with the queued-signal evaluation
  of \<^verbatim>\<open>execution/signal_eval.py\<close>, the position view of
  \<^verbatim>\<open>execution/position_adapter.py\<close>. A trading strategy is a parameter: the code declares it as
  an abstract class. Its indicator columns, its checks (which may change the strategy's own
  state) and the position sizer are functions; timings and the echoed signal payloads are
  not modelled.
\<close>

section \<open>Positions as trades\<close>

definition execution_position_to_trade ::
    "string \<Rightarrow> string \<Rightarrow> PositionSide \<Rightarrow> decimal \<Rightarrow> decimal option \<Rightarrow> datetime option \<Rightarrow> decimal \<Rightarrow>
     exec_error + Trade option" where
  "execution_position_to_trade deployment_id symbol side quantity average_entry_price opened_at point_value =
     (if side = FLAT \<or> quantity \<le> 0 then Inr None
      else case (average_entry_price, opened_at) of
        (Some price, Some opened) \<Rightarrow> Inr (Some
          (new_trade (''exec-'' @ deployment_id) (''exec-order-'' @ deployment_id) symbol
            (if side = LONG then OA_BUY else OA_SELL) quantity opened price point_value 0))
      | _ \<Rightarrow> Inl (ValueError ''open execution position requires entry price and opened_at'' []))"

section \<open>Strategies\<close>

record ('st, 'row) TradingStrategy =
  ts_augment :: "'st \<Rightarrow> frame \<Rightarrow> (datetime \<times> 'row) list"
  ts_check_exits :: "('st \<Rightarrow> Trade list \<Rightarrow> 'row \<Rightarrow> Signal list \<times> 'st) option"
  ts_check_exit_conditions :: "'st \<Rightarrow> 'row \<Rightarrow> Trade list \<Rightarrow> Signal list \<times> 'st"
  ts_check_entry_conditions :: "'st \<Rightarrow> 'row \<Rightarrow> Signal list \<times> 'st"
  ts_close_price :: "'row \<Rightarrow> decimal"
  ts_size_signal :: "Signal \<Rightarrow> decimal \<Rightarrow> decimal \<Rightarrow> 'row \<Rightarrow> decimal option"

definition evaluate_queued_signals ::
    "('st, 'row) TradingStrategy \<Rightarrow> 'row \<Rightarrow> Trade list \<Rightarrow> 'st \<Rightarrow> (Signal list \<times> Signal list) \<times> 'st" where
  "evaluate_queued_signals strategy current_data open_trades st =
     (let (rule_exits, st1) = (case ts_check_exits strategy of
            None \<Rightarrow> ([], st) | Some check \<Rightarrow> check st open_trades current_data);
          closed_symbols = sg_symbol ` set rule_exits;
          (strategy_exits, st2) = ts_check_exit_conditions strategy st1 current_data
            (filter (\<lambda>t. tr_symbol t \<notin> closed_symbols) open_trades);
          (pending_entries, st3) = ts_check_entry_conditions strategy st2 current_data
      in ((rule_exits @ strategy_exits, pending_entries), st3))"

text \<open>\<^verbatim>\<open>getattr(first, "exit_reason", None) or "exit_rule"\<close>, then the first entry that buys or sells.\<close>

definition reason_or :: "string option \<Rightarrow> string \<Rightarrow> string" where
  "reason_or r dflt = (case r of None \<Rightarrow> dflt | Some s \<Rightarrow> if s = [] then dflt else s)"

definition domain_action_from_queued :: "Signal list \<Rightarrow> Signal list \<Rightarrow> SignalAction \<times> string option" where
  "domain_action_from_queued pending_exits pending_entries = (case pending_exits of
     first # _ \<Rightarrow> (SIG_CLOSE, Some (reason_or (sg_exit_reason first) ''exit_rule''))
   | [] \<Rightarrow> (case find (\<lambda>s. sg_action s = BT_BUY \<or> sg_action s = BT_SELL) pending_entries of
       Some s \<Rightarrow> (if sg_action s = BT_BUY then SIG_BUY else SIG_SELL, Some ''entry'')
     | None \<Rightarrow> (SIG_HOLD, None)))"

section \<open>The evaluator\<close>

record 'st StrategyEvaluator =
  sev_deployment_id :: string
  sev_identity :: StrategyIdentity
  sev_timeframe :: string
  sev_initial_capital :: decimal
  sev_point_value :: decimal
  sev_window_bound :: int
  sev_rolling :: frame
  sev_open_trade :: "Trade option"
  sev_last_evaluated_close :: "datetime option"
  sev_replay_mode :: bool
  sev_strategy_state :: 'st

type_synonym ('st, 'a) evm = "('st StrategyEvaluator, 'a) comp"

definition new_evaluator ::
    "string \<Rightarrow> StrategyIdentity \<Rightarrow> decimal \<Rightarrow> decimal \<Rightarrow> Trade option \<Rightarrow> datetime option \<Rightarrow> int \<Rightarrow> 'st \<Rightarrow>
     'st StrategyEvaluator" where
  "new_evaluator deployment_id identity initial_capital point_value open_trade last_evaluated_close window_bound st =
     \<lparr>sev_deployment_id = deployment_id, sev_identity = identity, sev_timeframe = upper (si_timeframe identity),
      sev_initial_capital = initial_capital, sev_point_value = point_value, sev_window_bound = window_bound,
      sev_rolling = [], sev_open_trade = open_trade, sev_last_evaluated_close = last_evaluated_close,
      sev_replay_mode = False, sev_strategy_state = st\<rparr>"

definition set_open_trade :: "Trade option \<Rightarrow> ('st, unit) evm" where
  "set_open_trade trade = modify (\<lambda>ev. ev\<lparr>sev_open_trade := trade\<rparr>)"

definition seed_window :: "frame \<Rightarrow> ('st, unit) evm" where
  "seed_window frame = modify (\<lambda>ev. ev\<lparr>sev_rolling :=
     trim_rolling_window (sort_key bar_time frame) (sev_window_bound ev)\<rparr>)"

text \<open>\<^verbatim>\<open>merged[~merged.index.duplicated(keep="last")]\<close>.\<close>

primrec dedup_last :: "frame \<Rightarrow> frame" where
  "dedup_last [] = []"
| "dedup_last (b # bs) = (if bar_time b \<in> bar_time ` set bs then dedup_last bs else b # dedup_last bs)"

definition merge_window :: "frame \<Rightarrow> ('st, unit) evm" where
  "merge_window ordered = modify (\<lambda>ev. ev\<lparr>sev_rolling :=
     trim_rolling_window (sort_key bar_time (dedup_last (sev_rolling ev @ ordered))) (sev_window_bound ev)\<rparr>)"

definition evaluate_row ::
    "('st, 'row) TradingStrategy \<Rightarrow> 'row \<Rightarrow> datetime \<Rightarrow> ('st, ForwardDecisionResult) evm" where
  "evaluate_row strategy current_data close_time = (\<lambda>ev.
     let duplicate = (\<not> sev_replay_mode ev \<and> sev_last_evaluated_close ev = Some close_time);
         open_trades = (case sev_open_trade ev of None \<Rightarrow> [] | Some t \<Rightarrow> [t]);
         ((pending_exits, pending_entries), st) =
           evaluate_queued_signals strategy current_data open_trades (sev_strategy_state ev);
         (signal_action, reason) = domain_action_from_queued pending_exits pending_entries;
         close_price = ts_close_price strategy current_data;
         requested_quantity = (if signal_action \<in> {SIG_BUY, SIG_SELL} \<and> pending_entries \<noteq> []
           then ts_size_signal strategy (hd pending_entries) close_price (sev_initial_capital ev) current_data
           else None)
     in (Inr \<lparr>fdr_bar_close_time = close_time, fdr_bar_close_price = close_price, fdr_signal_action = signal_action,
           fdr_reason = reason, fdr_requested_quantity = requested_quantity, fdr_replay = sev_replay_mode ev,
           fdr_skipped_duplicate = duplicate\<rparr>,
         ev\<lparr>sev_strategy_state := st,
            sev_last_evaluated_close := (if \<not> sev_replay_mode ev \<and> \<not> duplicate then Some close_time
              else sev_last_evaluated_close ev)\<rparr>))"

text \<open>
  One iteration per bar, with the loop's \<^verbatim>\<open>break\<close> and \<^verbatim>\<open>continue\<close>. The augmented frame is
  computed from the rolling window; a bar that is not in it is skipped.
\<close>

fun ingest_rows ::
    "('st, 'row) TradingStrategy \<Rightarrow> datetime option \<Rightarrow> (datetime \<times> datetime) list \<Rightarrow>
     ('st, ForwardDecisionResult list) evm" where
  "ingest_rows strategy through_close [] = ret []"
| "ingest_rows strategy through_close ((open_time, close_time) # rows) =
     (if (case through_close of None \<Rightarrow> False | Some t \<Rightarrow> t < close_time) then ret []
      else bnd (gets (\<lambda>ev. (sev_last_evaluated_close ev,
             map_of (rev (ts_augment strategy (sev_strategy_state ev) (sev_rolling ev))) open_time))) (\<lambda>(watermark, row).
        if (case watermark of None \<Rightarrow> False | Some w \<Rightarrow> close_time < w) then ingest_rows strategy through_close rows
        else case row of
          None \<Rightarrow> ingest_rows strategy through_close rows
        | Some current_data \<Rightarrow> bnd (evaluate_row strategy current_data close_time) (\<lambda>r.
            bnd (ingest_rows strategy through_close rows) (\<lambda>rs. ret (r # rs)))))"

definition ingest_completed_bars ::
    "('st, 'row) TradingStrategy \<Rightarrow> frame \<Rightarrow> datetime option \<Rightarrow> ('st, ForwardDecisionResult list) evm" where
  "ingest_completed_bars strategy frame through_close =
     (if frame = [] then ret []
      else let ordered = sort_key bar_time frame in
        bnd (merge_window ordered) (\<lambda>_.
        bnd (reads (\<lambda>ev. frame_close_times ordered (sev_timeframe ev))) (\<lambda>closes.
        ingest_rows strategy through_close (zip (map bar_time ordered) closes))))"

definition replay_recovery ::
    "('st, 'row) TradingStrategy \<Rightarrow> frame \<Rightarrow> datetime option \<Rightarrow> ('st, ForwardDecisionResult list) evm" where
  "replay_recovery strategy frame end_close =
     bnd (modify (\<lambda>ev. ev\<lparr>sev_replay_mode := True\<rparr>)) (\<lambda>_.
     bnd (catch (ingest_completed_bars strategy frame end_close)
            (\<lambda>e. bnd (modify (\<lambda>ev. ev\<lparr>sev_replay_mode := False\<rparr>)) (\<lambda>_. throw e))) (\<lambda>rs.
     bnd (modify (\<lambda>ev. ev\<lparr>sev_replay_mode := False\<rparr>)) (\<lambda>_. ret rs)))"

end
