(* ===== verification/Exec_Pages.thy ===== *)
theory Exec_Pages
  imports Exec_Store "HOL-Library.Multiset"
begin

text \<open>
  The page listings of \<^verbatim>\<open>storage/db/execution_repositories.py\<close>. Each selects the rows of
  one table, orders them by a time column and cuts out \<^verbatim>\<open>limit\<close> rows from
  \<^verbatim>\<open>offset\<close>; it also reports how many rows match in all. Rows with equal times stand in
  insertion order. The shared contract is the locale \<open>paged_listing\<close>: a client that reads
  page after page sees every matching row exactly once.
\<close>

section \<open>Ordering and cutting\<close>

definition newest_first :: "('r \<Rightarrow> datetime) \<Rightarrow> ('r \<Rightarrow> bool) \<Rightarrow> 'r list \<Rightarrow> 'r list" where
  "newest_first key P rows = sort_key (\<lambda>r. - key r) (filter P rows)"

definition paginate :: "'r list \<Rightarrow> nat \<Rightarrow> nat \<Rightarrow> 'r list \<times> nat" where
  "paginate stmt limit offset = (take limit (drop offset stmt), length stmt)"

text \<open>The optional bounds \<^verbatim>\<open>from_time\<close> and \<^verbatim>\<open>to_time\<close>, and optional equalities.\<close>

definition within_times :: "datetime option \<Rightarrow> datetime option \<Rightarrow> datetime \<Rightarrow> bool" where
  "within_times from_time to_time t \<longleftrightarrow>
     (case from_time of None \<Rightarrow> True | Some a \<Rightarrow> a \<le> t) \<and>
     (case to_time of None \<Rightarrow> True | Some b \<Rightarrow> t \<le> b)"

definition matches_opt :: "'a option \<Rightarrow> 'a \<Rightarrow> bool" where
  "matches_opt wanted x \<longleftrightarrow> (case wanted of None \<Rightarrow> True | Some w \<Rightarrow> x = w)"

section \<open>The listings\<close>

definition list_paper_accounts :: "nat \<Rightarrow> nat \<Rightarrow> exec_db \<Rightarrow> PaperAccount list \<times> nat" where
  "list_paper_accounts limit offset db =
     (take limit (drop offset (sort_key pa_created_at (db_accounts db))), length (db_accounts db))"

definition list_deployments_page ::
    "uuid option \<Rightarrow> string option \<Rightarrow> string option \<Rightarrow> nat \<Rightarrow> nat \<Rightarrow> exec_db \<Rightarrow>
     ExecutionDeployment list \<times> nat" where
  "list_deployments_page paper_account_id lifecycle symbol limit offset db =
     (let stmt = filter (\<lambda>d. matches_opt paper_account_id (dep_paper_account_id d) \<and>
            matches_opt lifecycle (lifecycle_value (dep_lifecycle d)) \<and>
            matches_opt symbol (si_symbol (dep_identity d))) (db_deployments db)
      in (take limit (drop offset (sort_key (\<lambda>d. - dep_created_at d) stmt)), length stmt))"

definition list_decisions_page ::
    "uuid \<Rightarrow> datetime option \<Rightarrow> datetime option \<Rightarrow> nat \<Rightarrow> nat \<Rightarrow> exec_db \<Rightarrow>
     ExecutionDecision list \<times> nat" where
  "list_decisions_page deployment_id from_time to_time limit offset db =
     paginate (newest_first dec_bar_close_time
       (\<lambda>d. dec_deployment_id d = deployment_id \<and>
            within_times from_time to_time (dec_bar_close_time d)) (db_decisions db)) limit offset"

definition list_orders_page ::
    "uuid \<Rightarrow> string option \<Rightarrow> datetime option \<Rightarrow> datetime option \<Rightarrow> nat \<Rightarrow> nat \<Rightarrow> exec_db \<Rightarrow>
     ExecutionOrder list \<times> nat" where
  "list_orders_page deployment_id status from_time to_time limit offset db =
     paginate (newest_first ord_created_at
       (\<lambda>ord. ord_deployment_id ord = deployment_id \<and>
            matches_opt status (order_status_value (ord_status ord)) \<and>
            within_times from_time to_time (ord_created_at ord)) (db_orders db)) limit offset"

definition list_pending_reconciliation_orders_page ::
    "uuid \<Rightarrow> nat \<Rightarrow> nat \<Rightarrow> exec_db \<Rightarrow> ExecutionOrder list \<times> nat" where
  "list_pending_reconciliation_orders_page deployment_id limit offset db =
     paginate (newest_first ord_created_at
       (\<lambda>ord. ord_deployment_id ord = deployment_id \<and> ord_status ord = UNKNOWN \<and>
            ord_reconciliation_state ord = PENDING) (db_orders db)) limit offset"

definition list_fills_page ::
    "uuid \<Rightarrow> datetime option \<Rightarrow> datetime option \<Rightarrow> nat \<Rightarrow> nat \<Rightarrow> exec_db \<Rightarrow>
     ExecutionFill list \<times> nat" where
  "list_fills_page deployment_id from_time to_time limit offset db =
     paginate (newest_first fil_filled_at
       (\<lambda>f. fil_deployment_id f = deployment_id \<and>
            within_times from_time to_time (fil_filled_at f)) (db_fills db)) limit offset"

text \<open>
  Positions are ordered by \<^verbatim>\<open>updated_at\<close>, a column the ORM maintains and the model's
  position rows do not carry: it is an argument here. The join keeps the positions whose
  deployment belongs to the account.
\<close>

definition list_positions_page ::
    "(ExecutionNetPosition \<Rightarrow> datetime) \<Rightarrow> uuid option \<Rightarrow> uuid option \<Rightarrow> bool \<Rightarrow> nat \<Rightarrow> nat \<Rightarrow>
     exec_db \<Rightarrow> ExecutionNetPosition list \<times> nat" where
  "list_positions_page updated_at deployment_id paper_account_id open_only limit offset db =
     paginate (newest_first updated_at
       (\<lambda>p. matches_opt deployment_id (pos_deployment_id p) \<and>
            (case paper_account_id of None \<Rightarrow> True
             | Some acc \<Rightarrow> map_option dep_paper_account_id
                 (get_execution_deployment (pos_deployment_id p) db) = Some acc) \<and>
            (\<not> open_only \<or> pos_is_open p)) (db_positions db)) limit offset"

definition list_ledger_entries_page ::
    "uuid \<Rightarrow> uuid option \<Rightarrow> datetime option \<Rightarrow> datetime option \<Rightarrow> nat \<Rightarrow> nat \<Rightarrow> exec_db \<Rightarrow>
     ExecutionLedgerEntry list \<times> nat" where
  "list_ledger_entries_page paper_account_id deployment_id from_time to_time limit offset db =
     paginate (newest_first led_created_at
       (\<lambda>e. led_paper_account_id e = paper_account_id \<and>
            matches_opt deployment_id (led_deployment_id e) \<and>
            within_times from_time to_time (led_created_at e)) (db_ledger db)) limit offset"

definition list_risk_events_page ::
    "uuid \<Rightarrow> datetime option \<Rightarrow> datetime option \<Rightarrow> nat \<Rightarrow> nat \<Rightarrow> exec_db \<Rightarrow>
     ExecutionRiskEvent list \<times> nat" where
  "list_risk_events_page deployment_id from_time to_time limit offset db =
     paginate (newest_first rsk_created_at
       (\<lambda>e. rsk_deployment_id e = deployment_id \<and>
            within_times from_time to_time (rsk_created_at e)) (db_risk_events db)) limit offset"

definition list_audit_events_page ::
    "uuid option \<Rightarrow> string option \<Rightarrow> datetime option \<Rightarrow> datetime option \<Rightarrow> nat \<Rightarrow> nat \<Rightarrow>
     exec_db \<Rightarrow> ExecutionAuditEvent list \<times> nat" where
  "list_audit_events_page deployment_id event_type from_time to_time limit offset db =
     paginate (newest_first aud_created_at
       (\<lambda>e. (case deployment_id of None \<Rightarrow> True | Some d \<Rightarrow> aud_deployment_id e = Some d) \<and>
            matches_opt event_type (aud_event_type e) \<and>
            within_times from_time to_time (aud_created_at e)) (db_audit db)) limit offset"

definition list_active_worker_leases :: "exec_db \<Rightarrow> ExecutionWorkerLease list" where
  "list_active_worker_leases db = db_leases db"

section \<open>Reading all pages\<close>

definition pages_exactly :: "(nat \<Rightarrow> nat \<Rightarrow> 'r list \<times> nat) \<Rightarrow> 'r list \<Rightarrow> bool" where
  "pages_exactly page rows \<longleftrightarrow>
     (\<forall>limit offset. snd (page limit offset) = length rows \<and> length (fst (page limit offset)) \<le> limit) \<and>
     (\<forall>n k. 0 < n \<longrightarrow> length rows \<le> k * n \<longrightarrow> concat (map (\<lambda>i. fst (page n (i * n))) [0..<k]) = rows)"

lemma concat_pages:
  "concat (map (\<lambda>i. take n (drop (i * n) rows)) [0..<k]) = take (k * n) rows"
proof (induction k)
  case (Suc k)
  have "take (Suc k * n) rows = take (k * n) rows @ take n (drop (k * n) rows)"
    by (simp add: add.commute flip: take_add)
  with Suc show ?case by simp
qed simp

locale paged_listing =
  fixes rows :: "'s \<Rightarrow> 'r list" and page :: "nat \<Rightarrow> nat \<Rightarrow> 's \<Rightarrow> 'r list \<times> nat"
  assumes page: "page limit offset s = (take limit (drop offset (rows s)), length (rows s))"
begin

lemma exact: "pages_exactly (\<lambda>limit offset. page limit offset s) (rows s)"
  by (simp add: pages_exactly_def page concat_pages)

end

text \<open>The rows a listing walks through: the matching ones, ordered by time, newest first.\<close>

definition newest_of :: "('r \<Rightarrow> datetime) \<Rightarrow> ('r \<Rightarrow> bool) \<Rightarrow> 'r list \<Rightarrow> 'r list \<Rightarrow> bool" where
  "newest_of key P table rows \<longleftrightarrow> mset rows = mset (filter P table) \<and> sorted_wrt (\<lambda>a b. key b \<le> key a) rows"

lemma newest_first_of: "newest_of key P table (newest_first key P table)"
proof -
  have "sorted (map (\<lambda>r. - key r) (newest_first key P table))" by (simp add: newest_first_def)
  then show ?thesis by (simp add: newest_of_def newest_first_def sorted_map)
qed

interpretation accounts_listing: paged_listing "\<lambda>db. sort_key pa_created_at (db_accounts db)" list_paper_accounts
  by unfold_locales (simp add: list_paper_accounts_def)

interpretation deployments_listing: paged_listing
  "\<lambda>db. newest_first dep_created_at (\<lambda>d. matches_opt acc (dep_paper_account_id d) \<and>
      matches_opt lc (lifecycle_value (dep_lifecycle d)) \<and> matches_opt sym (si_symbol (dep_identity d))) (db_deployments db)"
  "list_deployments_page acc lc sym" for acc lc sym
  by unfold_locales (simp add: list_deployments_page_def newest_first_def Let_def)

interpretation decisions_listing: paged_listing
  "\<lambda>db. newest_first dec_bar_close_time (\<lambda>r. dec_deployment_id r = d \<and> within_times a b (dec_bar_close_time r)) (db_decisions db)"
  "list_decisions_page d a b" for d a b
  by unfold_locales (simp add: list_decisions_page_def paginate_def)

interpretation orders_listing: paged_listing
  "\<lambda>db. newest_first ord_created_at (\<lambda>r. ord_deployment_id r = d \<and> matches_opt st (order_status_value (ord_status r)) \<and>
      within_times a b (ord_created_at r)) (db_orders db)"
  "list_orders_page d st a b" for d st a b
  by unfold_locales (simp add: list_orders_page_def paginate_def)

interpretation pending_listing: paged_listing
  "\<lambda>db. newest_first ord_created_at (\<lambda>r. ord_deployment_id r = d \<and> ord_status r = UNKNOWN \<and>
      ord_reconciliation_state r = PENDING) (db_orders db)"
  "list_pending_reconciliation_orders_page d" for d
  by unfold_locales (simp add: list_pending_reconciliation_orders_page_def paginate_def)

interpretation fills_listing: paged_listing
  "\<lambda>db. newest_first fil_filled_at (\<lambda>r. fil_deployment_id r = d \<and> within_times a b (fil_filled_at r)) (db_fills db)"
  "list_fills_page d a b" for d a b
  by unfold_locales (simp add: list_fills_page_def paginate_def)

interpretation ledger_listing: paged_listing
  "\<lambda>db. newest_first led_created_at (\<lambda>r. led_paper_account_id r = acc \<and>
      matches_opt d (led_deployment_id r) \<and> within_times a b (led_created_at r)) (db_ledger db)"
  "list_ledger_entries_page acc d a b" for acc d a b
  by unfold_locales (simp add: list_ledger_entries_page_def paginate_def)

interpretation risk_listing: paged_listing
  "\<lambda>db. newest_first rsk_created_at (\<lambda>r. rsk_deployment_id r = d \<and> within_times a b (rsk_created_at r)) (db_risk_events db)"
  "list_risk_events_page d a b" for d a b
  by unfold_locales (simp add: list_risk_events_page_def paginate_def)

interpretation positions_listing: paged_listing
  "\<lambda>db. newest_first updated_at (\<lambda>p. matches_opt d (pos_deployment_id p) \<and>
      (case acc of None \<Rightarrow> True | Some x \<Rightarrow> map_option dep_paper_account_id
        (get_execution_deployment (pos_deployment_id p) db) = Some x) \<and> (\<not> open_only \<or> pos_is_open p)) (db_positions db)"
  "list_positions_page updated_at d acc open_only" for updated_at d acc open_only
  by unfold_locales (simp add: list_positions_page_def paginate_def)

interpretation audit_listing: paged_listing
  "\<lambda>db. newest_first aud_created_at (\<lambda>r. (case d of None \<Rightarrow> True | Some x \<Rightarrow> aud_deployment_id r = Some x) \<and>
      matches_opt et (aud_event_type r) \<and> within_times a b (aud_created_at r)) (db_audit db)"
  "list_audit_events_page d et a b" for d et a b
  by unfold_locales (simp add: list_audit_events_page_def paginate_def)

text \<open>
  The order, fill, decision and ledger listings are exact. Whatever the filters, every
  page reports the number of matching rows and holds at most \<^verbatim>\<open>limit\<close> of them, and reading
  successive pages of any positive size yields every matching row exactly once, newest first.
\<close>

lemma pages_list_every_row_once:
  "(\<exists>rows. newest_of ord_created_at (\<lambda>r. ord_deployment_id r = d \<and> matches_opt st (order_status_value (ord_status r)) \<and>
      within_times a b (ord_created_at r)) (db_orders db) rows \<and>
    pages_exactly (\<lambda>limit offset. list_orders_page d st a b limit offset db) rows) \<and>
   (\<exists>rows. newest_of fil_filled_at (\<lambda>r. fil_deployment_id r = d \<and> within_times a b (fil_filled_at r)) (db_fills db) rows \<and>
    pages_exactly (\<lambda>limit offset. list_fills_page d a b limit offset db) rows) \<and>
   (\<exists>rows. newest_of dec_bar_close_time (\<lambda>r. dec_deployment_id r = d \<and> within_times a b (dec_bar_close_time r)) (db_decisions db) rows \<and>
    pages_exactly (\<lambda>limit offset. list_decisions_page d a b limit offset db) rows) \<and>
   (\<exists>rows. newest_of led_created_at (\<lambda>r. led_paper_account_id r = acc \<and>
      matches_opt dd (led_deployment_id r) \<and> within_times a b (led_created_at r)) (db_ledger db) rows \<and>
    pages_exactly (\<lambda>limit offset. list_ledger_entries_page acc dd a b limit offset db) rows)"
  by (intro conjI exI) (rule newest_first_of orders_listing.exact fills_listing.exact decisions_listing.exact ledger_listing.exact)+

end
