(* ===== verification/Exec_Example.thy ===== *)
theory Exec_Example
  imports Exec_Models
begin

text \<open>
  A small concrete database, used to show that the hypotheses of the properties can
  hold: one paper account with a balance of 10000, one running paper deployment, one
  order intent, no fills and no position.
\<close>

definition ex_identity :: StrategyIdentity where
  "ex_identity = \<lparr>si_strategy_name = ''ma_cross'', si_strategy_version = 1, si_compiled_config = [],
     si_config_hash = ''abc'', si_symbol = ''WIN'', si_timeframe = ''M5'',
     si_sizing_config = [(''quantity'', JNum 2)], si_risk_config = []\<rparr>"

definition ex_account :: PaperAccount where
  "ex_account = \<lparr>pa_id = 0, pa_name = ''main'', pa_currency = ''BRL'', pa_initial_balance = 10000,
     pa_cash_balance = 10000, pa_sizing_config = [], pa_risk_config = [], pa_created_at = 0\<rparr>"

definition ex_deployment :: ExecutionDeployment where
  "ex_deployment = \<lparr>dep_id = 1, dep_paper_account_id = 0, dep_name = ''dep'', dep_broker_mode = PAPER,
     dep_lifecycle = RUNNING, dep_identity = ex_identity, dep_live_activation_enabled = False,
     dep_last_bar_close_time = None, dep_started_at = None, dep_stopped_at = None,
     dep_pending_action = None, dep_pending_action_requested_at = None, dep_created_at = 0\<rparr>"

definition ex_order :: "ExecutionOrderStatus \<Rightarrow> ReconciliationState \<Rightarrow> ExecutionOrder" where
  "ex_order status rec = \<lparr>ord_id = 2, ord_deployment_id = 1, ord_decision_id = None,
     ord_broker_mode = PAPER, ord_side = BUY, ord_order_type = MARKET, ord_quantity = 2,
     ord_status = status, ord_reconciliation_state = rec, ord_external_order_id = None,
     ord_rejection_reason = None, ord_intent_committed_at = Some 0, ord_submitted_at = None,
     ord_completed_at = None, ord_reconciliation_attempted_at = None,
     ord_reconciliation_error = None, ord_reconciled_at = None, ord_reconciled_by = None,
     ord_reconciliation_detail = None, ord_details = [], ord_created_at = 0\<rparr>"

definition ex_db :: "ExecutionOrder list \<Rightarrow> exec_db" where
  "ex_db orders = \<lparr>db_accounts = [ex_account], db_deployments = [ex_deployment], db_decisions = [],
     db_orders = orders, db_fills = [], db_positions = [], db_ledger = [], db_risk_events = [],
     db_leases = [], db_control = None, db_audit = [], db_next_id = 3, db_clock = 0\<rparr>"

lemmas ex_defs = ex_identity_def ex_account_def ex_deployment_def ex_order_def ex_db_def

definition ex_fill :: FillRecord where
  "ex_fill = \<lparr>fr_broker_mode = PAPER, fr_external_fill_id = ''paper:2'', fr_side = BUY,
     fr_quantity = 2, fr_price = 100, fr_fee = 1, fr_slippage = 0, fr_quote_bid = None,
     fr_quote_ask = None, fr_quote_timestamp = None, fr_filled_at = 0, fr_metadata = []\<rparr>"

definition ex_decision :: ExecutionDecision where
  "ex_decision = \<lparr>dec_id = 0, dec_deployment_id = 1, dec_bar_close_time = 0, dec_identity = ex_identity,
     dec_signal_action = SIG_BUY, dec_outcome = D_SIGNAL, dec_requested_quantity = Some 2,
     dec_reason = None, dec_context = [], dec_created_at = 0\<rparr>"

lemma wf_ex_db: "wf_db (ex_db [])" "wf_db (ex_db [ex_order st rec])"
  by (simp_all add: wf_db_defs ex_defs pk_ok_def)

end
