(* ===== verification/Service_Example.thy ===== *)
theory Service_Example
  imports Service Exec_Example
begin

text \<open>
  A concrete trading session on the example database: a worker with its lease, a paper
  broker with a fresh quote, and a buy signal for one bar. It shows that the hypotheses of
  the session properties can hold.
\<close>

definition ex_lease :: ExecutionWorkerLease where
  "ex_lease = \<lparr>lea_id = 9, lea_deployment_id = 1, lea_worker_id = ''w'', lea_lease_token = ''t'',
     lea_acquired_at = 0, lea_expires_at = 60, lea_heartbeat_at = 0\<rparr>"

definition ex_trading_db :: exec_db where
  "ex_trading_db = (ex_db [])\<lparr>db_leases := [ex_lease], db_next_id := 10\<rparr>"

definition ex_paper :: PaperBroker where
  "ex_paper = \<lparr>pb_quote_source = (\<lambda>_. Some ex_quote), pb_clock = 0, pb_broker_mode = PAPER\<rparr>"

definition ex_service :: "string list \<Rightarrow> ExecutionService" where
  "ex_service checkpoints = \<lparr>svc_broker = paper_execution_broker ex_paper,
     svc_quote_source = (\<lambda>_. Some ex_quote), svc_crash_checkpoints = checkpoints,
     svc_max_bar_age_seconds = 7200, svc_clock = 0\<rparr>"

definition ex_signal :: ForwardDecisionResult where
  "ex_signal = \<lparr>fdr_bar_close_time = 0, fdr_bar_close_price = 100, fdr_signal_action = SIG_BUY,
     fdr_reason = None, fdr_requested_quantity = Some 2, fdr_replay = False,
     fdr_skipped_duplicate = False\<rparr>"

definition ex_session :: session where
  "ex_session = \<lparr>ses_work = ex_trading_db, ses_durable = ex_trading_db, ses_submitted = []\<rparr>"

lemma wf_ex_trading_db: "wf_db ex_trading_db"
  by (simp add: ex_trading_db_def ex_lease_def wf_db_defs ex_defs pk_ok_def)

lemma ex_session_parts:
  "ses_work ex_session = ex_trading_db" "ses_durable ex_session = ex_trading_db" "ses_submitted ex_session = []"
  by (simp_all add: ex_session_def)

text \<open>A computation that is not an error returns a value.\<close>

lemma succeeds_run: "isl (fst (m s)) = False \<Longrightarrow> \<exists>r s'. m s = (Inr r, s')"
  by (cases "m s"; cases "fst (m s)") auto

end
