(* ===== verification/Ledger_Correct.thy ===== *)
theory Ledger_Correct
  imports Ledger Exec_Example
begin

text \<open>
  What the ledger promises. The abstract view of a deployment's position is a signed
  quantity and its value at a mark; a fill moves the signed quantity by the signed fill
  quantity, and changes cash plus value by exactly the value of the fill at the mark
  minus the fee. On the database, cash equals the initial balance plus the ledger, on
  every path including the ones that raise, and applying a fill twice books it once.
\<close>

section \<open>The abstract position\<close>

type_synonym position_view = "PositionSide \<times> decimal \<times> decimal option"

definition position_ok :: "position_view \<Rightarrow> bool" where
  "position_ok v = (case v of (side, qty, entry) \<Rightarrow>
     side \<noteq> FLAT \<and> 0 < qty \<and> (case entry of None \<Rightarrow> False | Some e \<Rightarrow> 0 < e))"

fun signed_quantity :: "position_view option \<Rightarrow> decimal" where
  "signed_quantity (Some (LONG, qty, _)) = qty"
| "signed_quantity (Some (SHORT, qty, _)) = - qty"
| "signed_quantity _ = 0"

fun signed_fill :: "ExecutionSide \<Rightarrow> decimal \<Rightarrow> decimal" where
  "signed_fill BUY qty = qty"
| "signed_fill SELL qty = - qty"

definition marked_value :: "position_view option \<Rightarrow> decimal \<Rightarrow> decimal \<Rightarrow> decimal" where
  "marked_value v mark point_value = (case v of None \<Rightarrow> 0
     | Some (side, qty, entry) \<Rightarrow> unrealized_pnl side qty (dec_or entry 0) mark point_value)"

definition view_or_flat :: "position_view option \<Rightarrow> position_view" where
  "view_or_flat v = (case v of None \<Rightarrow> (FLAT, 0, None) | Some x \<Rightarrow> x)"

definition new_view :: "PositionTransition \<Rightarrow> position_view option" where
  "new_view t = (if pt_new_side t = FLAT \<or> pt_new_quantity t = 0 then None
     else Some (pt_new_side t, pt_new_quantity t, pt_new_average_entry_price t))"

definition transition_view ::
    "position_view option \<Rightarrow> ExecutionSide \<Rightarrow> decimal \<Rightarrow> decimal \<Rightarrow> exec_error + PositionTransition" where
  "transition_view v side qty price =
     (case view_or_flat v of (s, q, e) \<Rightarrow> transition_position s q e side qty price)"

lemmas transition_defs = transition_view_def view_or_flat_def transition_position_def
  opening_side_of_def Let_def

lemma weighted_average:
  fixes c r e p m v :: rat
  assumes "c + r \<noteq> 0"
  shows "(m - (e * c + p * r) / (c + r)) * (c + r) * v = (m - e) * c * v + r * (m - p) * v"
    and "((e * c + p * r) / (c + r) - m) * (c + r) * v = (e - m) * c * v - r * (m - p) * v"
proof -
  have "(e * c + p * r) / (c + r) * (c + r) = e * c + p * r" using assms by simp
  then show "(m - (e * c + p * r) / (c + r)) * (c + r) * v = (m - e) * c * v + r * (m - p) * v"
    and "((e * c + p * r) / (c + r) - m) * (c + r) * v = (e - m) * c * v - r * (m - p) * v"
    by (simp_all only: left_diff_distrib) (simp_all add: algebra_simps)
qed

definition refines_fill ::
    "position_view option \<Rightarrow> ExecutionSide \<Rightarrow> decimal \<Rightarrow> decimal \<Rightarrow> PositionTransition \<Rightarrow> bool" where
  "refines_fill v side qty price t \<longleftrightarrow>
     pred_option position_ok (new_view t) \<and>
     signed_quantity (new_view t) = signed_quantity v + signed_fill side qty \<and>
     (\<forall>mark point_value.
        marked_value (new_view t) mark point_value
          + realized_of t (snd (snd (view_or_flat v))) price point_value =
        marked_value v mark point_value + signed_fill side qty * (mark - price) * point_value)"

lemmas refines_defs = refines_fill_def new_view_def position_ok_def marked_value_def
  unrealized_pnl_def realized_of_def realized_pnl_for_close_def dec_or_def view_or_flat_def

lemma refines_value:
  "refines_fill v side qty price t \<Longrightarrow>
     marked_value (new_view t) mark pv + realized_of t (snd (snd (view_or_flat v))) price pv =
     marked_value v mark pv + signed_fill side qty * (mark - price) * pv"
  by (simp add: refines_fill_def)

lemma flat_transition_refines:
  assumes "0 < qty" and "0 < price"
  shows "\<exists>t. transition_view None side qty price = Inr t \<and> refines_fill None side qty price t"
  using assms by (cases side) (simp_all add: transition_defs refines_defs algebra_simps)

lemma adding_transition_refines:
  assumes "position_ok (s, c, Some e)" and "0 < qty" and "0 < price"
    and "opening_side_of side = s"
  shows "\<exists>t. transition_view (Some (s, c, Some e)) side qty price = Inr t \<and>
    refines_fill (Some (s, c, Some e)) side qty price t"
proof -
  from assms have pos: "0 < c" "0 < e" "0 < c + qty" "c + qty \<noteq> 0"
    by (auto simp: position_ok_def)
  have entry: "0 < (e * c + price * qty) / (c + qty)"
    using pos assms by (intro divide_pos_pos add_pos_pos mult_pos_pos) auto
  show ?thesis
    using assms pos entry weighted_average [OF pos(4)]
    by (cases side) (auto simp: transition_defs refines_defs)
qed

lemma reducing_transition_refines:
  assumes "position_ok (s, c, Some e)" and "0 < qty" and "0 < price"
    and "opening_side_of side \<noteq> s"
  shows "\<exists>t. transition_view (Some (s, c, Some e)) side qty price = Inr t \<and>
    refines_fill (Some (s, c, Some e)) side qty price t"
proof -
  consider "qty < c" | "qty = c" | "c < qty" by linarith
  then show ?thesis
    using assms
    by cases (cases s; cases side; auto simp: transition_defs refines_defs min_def algebra_simps)+
qed

theorem transition_refines:
  assumes "pred_option position_ok v" and "0 < qty" and "0 < price"
  shows "\<exists>t. transition_view v side qty price = Inr t \<and> refines_fill v side qty price t"
proof (cases v)
  case None
  with assms flat_transition_refines show ?thesis by blast
next
  case (Some w)
  then obtain s c e where v: "v = Some (s, c, Some e)" and ok: "position_ok (s, c, Some e)"
    using assms(1) by (cases w) (auto simp: position_ok_def split: option.splits)
  show ?thesis
  proof (cases "opening_side_of side = s")
    case True
    with v ok assms adding_transition_refines show ?thesis by blast
  next
    case False
    with v ok assms reducing_transition_refines show ?thesis by blast
  qed
qed

section \<open>Booking a fill\<close>

definition holding :: "uuid \<Rightarrow> exec_db \<Rightarrow> position_view option" where
  "holding d db = map_option position_view (open_position d db)"

lemma holding_cong: "db_positions db' = db_positions db \<Longrightarrow> holding d db' = holding d db"
  by (simp add: holding_def open_position_def)

lemma current_position_holding:
  "wf_db db \<Longrightarrow> current_position (open_position d db) = view_or_flat (holding d db)"
  using open_position_iff [of db d]
  by (cases "open_position d db")
     (auto simp: current_position_def view_or_flat_def holding_def position_view_def)

definition ledger_balance :: "uuid \<Rightarrow> exec_db \<Rightarrow> decimal" where
  "ledger_balance acc db =
     sum_list (map led_amount (filter (\<lambda>e. led_paper_account_id e = acc) (db_ledger db)))"

definition posted :: "uuid \<Rightarrow> uuid \<Rightarrow> decimal \<Rightarrow> ExecutionLedgerEntry \<Rightarrow> bool" where
  "posted acc d fee e \<longleftrightarrow> led_paper_account_id e = acc \<and> led_deployment_id e = d \<and>
     (led_entry_type e = REALIZED_PNL \<or> led_entry_type e = FEE \<and> led_amount e = - fee)"

text \<open>
  What a fill does to the book, whatever becomes of the order afterwards: one fill row,
  ledger rows that add up to the change of cash, and the new position of that
  deployment.
\<close>

definition booked ::
    "uuid \<Rightarrow> uuid \<Rightarrow> FillRecord \<Rightarrow> decimal \<Rightarrow> PositionTransition \<Rightarrow> exec_db \<Rightarrow> exec_db \<Rightarrow> bool" where
  "booked acc d fill point_value t db db' \<longleftrightarrow>
     (let realized = realized_of t (snd (snd (view_or_flat (holding d db)))) (fr_price fill) point_value;
          change = realized - fr_fee fill in
     db_accounts db' = upd_row pa_id acc (\<lambda>a. a\<lparr>pa_cash_balance := pa_cash_balance a + change\<rparr>)
       (db_accounts db) \<and>
     (\<exists>rows. db_ledger db' = db_ledger db @ rows \<and> sum_list (map led_amount rows) = change \<and>
        (\<forall>e\<in>set rows. posted acc d (fr_fee fill) e)) \<and>
     (\<exists>f. db_fills db' = db_fills db @ [f] \<and> fill_key f = (fr_broker_mode fill, fr_external_fill_id fill) \<and>
        fil_deployment_id f = d \<and> fil_side f = fr_side fill \<and> fil_quantity f = fr_quantity fill \<and>
        fil_price f = fr_price fill \<and> fil_fee f = fr_fee fill) \<and>
     (\<forall>d'. holding d' db' = (if d' = d then new_view t else holding d' db)))"

lemma booked_book_cong: "book db2 = book db1 \<Longrightarrow> booked acc d fill pv t db db1 \<Longrightarrow> booked acc d fill pv t db db2"
  by (simp add: booked_def book_def holding_def open_position_def)

lemma booked_account:
  assumes "booked acc d fill pv t db db'" and "get_paper_account acc db = Some a"
  shows "get_paper_account acc db' = Some (a\<lparr>pa_cash_balance := pa_cash_balance a +
    (realized_of t (snd (snd (view_or_flat (holding d db)))) (fr_price fill) pv - fr_fee fill)\<rparr>)"
  using assms by (simp add: booked_def Let_def get_paper_account_def get_upd_row)

lemma upsert_other_frames [frames_intros]:
  "frames db_accounts (upsert_open_net_position dep psd qty avg tm)"
  "frames db_fills (upsert_open_net_position dep psd qty avg tm)"
  "frames db_ledger (upsert_open_net_position dep psd qty avg tm)"
  by (auto simp: upsert_open_net_position_def update_position_def add_position_def
      intro!: frames_intros frames_modify frames_session_add)

lemma complete_order_frames [frames_intros]:
  "frames book (complete_order oid tm reconciling)"
  "frames db_decisions (complete_order oid tm reconciling)"
  "frames db_deployments (complete_order oid tm reconciling)"
  "frames db_leases (complete_order oid tm reconciling)"
  "frames db_control (complete_order oid tm reconciling)"
  by (auto simp: complete_order_def intro!: frames_intros)

lemma complete_order_wf [keeps_intros]: "keeps wf_db (complete_order oid tm reconciling)"
  by (auto simp: complete_order_def intro!: keeps_intros)

lemma fill_lookup_eq:
  "wf_db db \<Longrightarrow> get_execution_fill_by_external_id mode ext db =
     Inr (find (\<lambda>f. fill_key f = (mode, ext)) (db_fills db))"
proof -
  assume "wf_db db"
  then have "length (filter (\<lambda>f. fill_key f = (mode, ext)) (db_fills db)) \<le> 1"
    by (intro distinct_key_le_1) (simp add: wf_db_defs)
  then show ?thesis
    unfolding get_execution_fill_by_external_id_def
    using scalar_one_or_none_find by (auto simp: fill_key_def)
qed

lemma upd_row_cash:
  assumes "distinct (map pa_id rows)" and "get_row pa_id acc rows = Some a"
  shows "upd_row pa_id acc (\<lambda>r. r\<lparr>pa_cash_balance := pa_cash_balance a + c\<rparr>) rows =
    upd_row pa_id acc (\<lambda>r. r\<lparr>pa_cash_balance := pa_cash_balance r + c\<rparr>) rows"
  using assms by (auto simp: upd_row_def dest: get_row_in_set)

lemma create_execution_fill_run:
  assumes "(fr_broker_mode fill, fr_external_fill_id fill) \<notin> fill_key ` set (db_fills db)"
  shows "\<exists>f. create_execution_fill d oid fill db =
      (Inr f, db\<lparr>db_next_id := Suc (db_next_id db), db_fills := db_fills db @ [f]\<rparr>) \<and>
    fil_id f = db_next_id db \<and> fill_key f = (fr_broker_mode fill, fr_external_fill_id fill) \<and>
    fil_deployment_id f = d \<and> fil_side f = fr_side fill \<and> fil_quantity f = fr_quantity fill \<and>
    fil_price f = fr_price fill \<and> fil_fee f = fr_fee fill"
  using assms
  by (auto simp: create_execution_fill_def session_add_def comp_defs Let_def fill_key_def)

lemma append_ledger_entry_run:
  "\<exists>row. append_ledger_entry acc d ety amt bal fid dsc db =
      (Inr (), db\<lparr>db_next_id := Suc (db_next_id db), db_ledger := db_ledger db @ [row]\<rparr>) \<and>
    led_amount row = amt \<and> led_paper_account_id row = acc \<and> led_deployment_id row = d \<and>
    led_entry_type row = ety"
  by (rule exI [of _ "\<lparr>led_id = db_next_id db, led_paper_account_id = acc, led_deployment_id = d,
        led_fill_id = fid, led_entry_type = ety, led_amount = amt, led_balance_after = bal,
        led_description = dsc, led_created_at = db_clock db\<rparr>"])
     (simp add: append_ledger_entry_def session_add_def comp_defs Let_def)

lemma post_ledger_entries_run:
  "\<exists>rows n. post_ledger_entries acc d fid symbol realized fee cash db =
      (Inr (), db\<lparr>db_next_id := n, db_ledger := db_ledger db @ rows\<rparr>) \<and>
    sum_list (map led_amount rows) = realized - fee \<and>
    (\<forall>e\<in>set rows. posted acc d fee e)"
proof -
  define m where "m b ety amt dsc = whenM b (append_ledger_entry acc d ety amt cash (Some fid) dsc)"
    for b ety amt dsc
  have step: "\<exists>rows n. m (amt \<noteq> 0) ety amt dsc db =
      (Inr (), db\<lparr>db_next_id := n, db_ledger := db_ledger db @ rows\<rparr>) \<and>
      sum_list (map led_amount rows) = amt \<and>
      (\<forall>e\<in>set rows. posted acc d fee e)"
    if "ety = REALIZED_PNL \<or> ety = FEE \<and> amt = - fee" for ety amt dsc db
  proof (cases "amt = 0")
    case True
    then show ?thesis
      by (intro exI [of _ "[]"] exI [of _ "db_next_id db"]) (simp add: m_def comp_defs)
  next
    case False
    then obtain row where "m (amt \<noteq> 0) ety amt dsc db =
        (Inr (), db\<lparr>db_next_id := Suc (db_next_id db), db_ledger := db_ledger db @ [row]\<rparr>)"
      "led_amount row = amt" "led_paper_account_id row = acc" "led_deployment_id row = d"
      "led_entry_type row = ety"
      using append_ledger_entry_run by (fastforce simp: m_def whenM_def)
    with that show ?thesis
      by (intro exI [of _ "[row]"] exI [of _ "Suc (db_next_id db)"]) (simp add: posted_def)
  qed
  obtain rows n where 1: "m (realized \<noteq> 0) REALIZED_PNL realized (Some (symbol @ '' close'')) db =
      (Inr (), db\<lparr>db_next_id := n, db_ledger := db_ledger db @ rows\<rparr>)" (is "_ = (_, ?db1)")
    "sum_list (map led_amount rows) = realized"
    "\<forall>e\<in>set rows. posted acc d fee e"
    using step [of REALIZED_PNL] by blast
  obtain rows' n' where 2: "m (- fee \<noteq> 0) FEE (- fee) (Some (symbol @ '' commission'')) ?db1 =
      (Inr (), ?db1\<lparr>db_next_id := n', db_ledger := db_ledger ?db1 @ rows'\<rparr>)"
    "sum_list (map led_amount rows') = - fee"
    "\<forall>e\<in>set rows'. posted acc d fee e"
    using step [of FEE "- fee"] by blast
  have "post_ledger_entries acc d fid symbol realized fee cash db =
      bnd (m (realized \<noteq> 0) REALIZED_PNL realized (Some (symbol @ '' close'')))
        (\<lambda>_. m (- fee \<noteq> 0) FEE (- fee) (Some (symbol @ '' commission''))) db"
    by (simp add: post_ledger_entries_def m_def)
  also have "\<dots> = (Inr (), db\<lparr>db_next_id := n', db_ledger := db_ledger db @ rows @ rows'\<rparr>)"
    unfolding bnd_def 1(1) using 2(1) by simp
  finally show ?thesis using 1 2 by (intro exI [of _ "rows @ rows'"] exI [of _ n']) auto
qed

lemma update_paper_cash_balance_run:
  "get_paper_account acc db = Some a \<Longrightarrow> update_paper_cash_balance acc cash db =
     (Inr (a\<lparr>pa_cash_balance := cash\<rparr>),
      db\<lparr>db_accounts := upd_row pa_id acc (\<lambda>a. a\<lparr>pa_cash_balance := cash\<rparr>) (db_accounts db)\<rparr>)"
  by (simp add: update_paper_cash_balance_def comp_defs)

text \<open>The part of \<^const>\<open>apply_fill\<close> that writes the book, and its effect.\<close>

definition post_fill ::
    "uuid \<Rightarrow> uuid \<Rightarrow> uuid \<Rightarrow> FillRecord \<Rightarrow> string \<Rightarrow> decimal \<Rightarrow> decimal \<Rightarrow> ExecutionFill dbm" where
  "post_fill acc d oid fill symbol realized cash =
     bnd (create_execution_fill d oid fill) (\<lambda>persisted_fill.
     bnd (post_ledger_entries acc d (fil_id persisted_fill) symbol realized (fr_fee fill) cash) (\<lambda>_.
     bnd (update_paper_cash_balance acc cash) (\<lambda>_. ret persisted_fill)))"

definition book_fill ::
    "uuid \<Rightarrow> uuid \<Rightarrow> uuid \<Rightarrow> FillRecord \<Rightarrow> string \<Rightarrow> PositionTransition \<Rightarrow> decimal \<Rightarrow> decimal \<Rightarrow>
     ExecutionFill dbm" where
  "book_fill acc d oid fill symbol t realized cash =
     bnd (post_fill acc d oid fill symbol realized cash) (\<lambda>persisted_fill.
     bnd (upsert_open_net_position d (pt_new_side t) (pt_new_quantity t)
            (pt_new_average_entry_price t) (Some (fr_filled_at fill))) (\<lambda>_.
     ret persisted_fill))"

lemma post_fill_wf [keeps_intros]: "keeps wf_db (post_fill acc d oid fill symbol realized cash)"
  unfolding post_fill_def post_ledger_entries_def by (auto intro!: keeps_intros)

lemma post_fill_run:
  assumes new: "(fr_broker_mode fill, fr_external_fill_id fill) \<notin> fill_key ` set (db_fills db)"
    and acc: "get_paper_account acc db = Some a"
  shows "\<exists>f rows n. post_fill acc d oid fill symbol realized cash db =
      (Inr f, db\<lparr>db_next_id := n, db_fills := db_fills db @ [f], db_ledger := db_ledger db @ rows,
        db_accounts := upd_row pa_id acc (\<lambda>a. a\<lparr>pa_cash_balance := cash\<rparr>) (db_accounts db)\<rparr>) \<and>
    fil_id f = db_next_id db \<and> fill_key f = (fr_broker_mode fill, fr_external_fill_id fill) \<and>
    fil_deployment_id f = d \<and> fil_side f = fr_side fill \<and> fil_quantity f = fr_quantity fill \<and>
    fil_price f = fr_price fill \<and> fil_fee f = fr_fee fill \<and>
    sum_list (map led_amount rows) = realized - fr_fee fill \<and>
    (\<forall>e\<in>set rows. posted acc d (fr_fee fill) e)"
proof -
  obtain f where f: "create_execution_fill d oid fill db =
      (Inr f, db\<lparr>db_next_id := Suc (db_next_id db), db_fills := db_fills db @ [f]\<rparr>)" (is "_ = (_, ?db1)")
    "fil_id f = db_next_id db" "fill_key f = (fr_broker_mode fill, fr_external_fill_id fill)"
    "fil_deployment_id f = d" "fil_side f = fr_side fill" "fil_quantity f = fr_quantity fill"
    "fil_price f = fr_price fill" "fil_fee f = fr_fee fill"
    using create_execution_fill_run [OF new] by blast
  obtain rows n where rows: "post_ledger_entries acc d (fil_id f) symbol realized (fr_fee fill) cash ?db1 =
      (Inr (), ?db1\<lparr>db_next_id := n, db_ledger := db_ledger ?db1 @ rows\<rparr>)" (is "_ = (_, ?db2)")
    "sum_list (map led_amount rows) = realized - fr_fee fill"
    "\<forall>e\<in>set rows. posted acc d (fr_fee fill) e"
    using post_ledger_entries_run by blast
  have acc2: "get_paper_account acc ?db2 = Some a" using acc by (simp add: get_paper_account_def)
  have "post_fill acc d oid fill symbol realized cash db =
      (Inr f, ?db2\<lparr>db_accounts := upd_row pa_id acc (\<lambda>a. a\<lparr>pa_cash_balance := cash\<rparr>) (db_accounts ?db2)\<rparr>)"
    unfolding post_fill_def bnd_def f(1) ret_def
    by (simp only: prod.case sum.case rows(1) update_paper_cash_balance_run [OF acc2])
  with f rows show ?thesis by (intro exI [of _ f] exI [of _ rows] exI [of _ n]) simp
qed

lemma book_fill_booked:
  assumes wf: "wf_db db" and new: "(fr_broker_mode fill, fr_external_fill_id fill) \<notin> fill_key ` set (db_fills db)"
    and acc: "get_paper_account acc db = Some a"
    and realized: "realized = realized_of t (snd (snd (view_or_flat (holding d db)))) (fr_price fill) pv"
    and cash: "cash = pa_cash_balance a + realized - fr_fee fill"
  shows "\<exists>f db'. book_fill acc d oid fill symbol t realized cash db = (Inr f, db') \<and> wf_db db' \<and>
    booked acc d fill pv t db db' \<and> db_orders db' = db_orders db \<and> fil_id f = db_next_id db"
proof -
  obtain f rows n where run1: "post_fill acc d oid fill symbol realized cash db =
      (Inr f, db\<lparr>db_next_id := n, db_fills := db_fills db @ [f], db_ledger := db_ledger db @ rows,
        db_accounts := upd_row pa_id acc (\<lambda>a. a\<lparr>pa_cash_balance := cash\<rparr>) (db_accounts db)\<rparr>)" (is "_ = (_, ?db1)")
    and f: "fil_id f = db_next_id db" "fill_key f = (fr_broker_mode fill, fr_external_fill_id fill)"
      "fil_deployment_id f = d" "fil_side f = fr_side fill" "fil_quantity f = fr_quantity fill"
      "fil_price f = fr_price fill" "fil_fee f = fr_fee fill"
    and rows: "sum_list (map led_amount rows) = realized - fr_fee fill"
      "\<forall>e\<in>set rows. posted acc d (fr_fee fill) e"
    using post_fill_run [OF new acc] by blast
  from keepsD [OF post_fill_wf wf] run1 have wf1: "wf_db ?db1" by (metis snd_conv)
  obtain db2 where run2: "upsert_open_net_position d (pt_new_side t) (pt_new_quantity t)
      (pt_new_average_entry_price t) (Some (fr_filled_at fill)) ?db1 = (Inr (), db2)"
    and wf2: "wf_db db2" and hold: "\<And>d'. holding d' db2 = (if d' = d then new_view t else holding d' ?db1)"
    using upsert_open_net_position_spec [OF wf1, of d "pt_new_side t" "pt_new_quantity t"
        "pt_new_average_entry_price t" "Some (fr_filled_at fill)"]
    unfolding holding_def new_view_def by blast
  have eq: "db_accounts db2 = db_accounts ?db1" "db_fills db2 = db_fills ?db1"
    "db_ledger db2 = db_ledger ?db1" "db_orders db2 = db_orders ?db1"
    by (rule framesD [where m = "upsert_open_net_position d (pt_new_side t) (pt_new_quantity t)
      (pt_new_average_entry_price t) (Some (fr_filled_at fill))"], rule frames_intros, rule run2)+
  have "distinct (map pa_id (db_accounts db))" using wf by (simp add: wf_db_defs pk_ok_def)
  note cash_eq = upd_row_cash [OF this acc[unfolded get_paper_account_def], of "realized - fr_fee fill"]
  have hold1: "holding d' ?db1 = holding d' db" for d' by (rule holding_cong) simp
  have "booked acc d fill pv t db db2"
    unfolding booked_def Let_def realized [symmetric] eq hold hold1
    using rows f cash_eq by (simp add: cash add_diff_eq)
  moreover have "book_fill acc d oid fill symbol t realized cash db = (Inr f, db2)"
    unfolding book_fill_def bnd_def run1 ret_def by (simp only: prod.case sum.case run2)
  ultimately show ?thesis using wf2 eq f by simp
qed

section \<open>Completing the order\<close>

lemma transition_execution_order_run:
  assumes "get_execution_order oid db = Some ord" and "st \<in> set (ORDER_TRANSITIONS (ord_status ord))"
  shows "transition_execution_order oid st rs ext rej sub com db =
    (Inr (), db\<lparr>db_orders := upd_row ord_id oid (\<lambda>ord. ord\<lparr>ord_status := st,
       ord_reconciliation_state :=
         (case rs of None \<Rightarrow> ord_reconciliation_state ord | Some r \<Rightarrow> r),
       ord_external_order_id := upd_opt ext (ord_external_order_id ord),
       ord_rejection_reason := upd_opt rej (ord_rejection_reason ord),
       ord_submitted_at := upd_opt sub (ord_submitted_at ord),
       ord_completed_at := upd_opt com (ord_completed_at ord)\<rparr>) (db_orders db)\<rparr>)"
  using assms
  by (simp add: transition_execution_order_def update_order_def validate_order_transition_def comp_defs)

definition filled_order :: "datetime \<Rightarrow> ExecutionOrder \<Rightarrow> ExecutionOrder" where
  "filled_order tm ord = ord\<lparr>ord_submitted_at := Some tm, ord_status := FILLED,
     ord_completed_at := Some tm\<rparr>"

lemma filled_order_alt:
  "(\<lambda>ord. ord\<lparr>ord_status := FILLED, ord_submitted_at := Some tm, ord_completed_at := Some tm\<rparr>) =
     filled_order tm"
  by (rule ext) (simp add: filled_order_def)

lemma complete_order_run:
  assumes ord: "get_execution_order oid db = Some ord"
    and st: "ord_status ord = (if reconciling then UNKNOWN else INTENT)"
  shows "complete_order oid tm reconciling db =
    (Inr (), db\<lparr>db_orders := upd_row ord_id oid (filled_order tm) (db_orders db)\<rparr>)"
proof (cases reconciling)
  case True
  with st have "FILLED \<in> set (ORDER_TRANSITIONS (ord_status ord))" by simp
  from transition_execution_order_run [OF ord this] True show ?thesis
    by (simp add: complete_order_def upd_opt_def filled_order_alt)
next
  case False
  with st have sub: "SUBMITTED \<in> set (ORDER_TRANSITIONS (ord_status ord))" by simp
  define f :: "ExecutionOrder \<Rightarrow> ExecutionOrder" where "f = (\<lambda>ord. ord\<lparr>ord_status := SUBMITTED, ord_submitted_at := Some tm\<rparr>)"
  have step1: "transition_execution_order oid SUBMITTED None None None (Some tm) None db =
      (Inr (), db\<lparr>db_orders := upd_row ord_id oid f (db_orders db)\<rparr>)" (is "_ = (_, ?db1)")
    using transition_execution_order_run [OF ord sub] by (simp add: upd_opt_def f_def)
  have ord1: "get_execution_order oid ?db1 = Some (f ord)"
    using ord by (simp add: get_execution_order_def get_upd_row f_def)
  have "FILLED \<in> set (ORDER_TRANSITIONS (ord_status (f ord)))" by (simp add: f_def)
  from transition_execution_order_run [OF ord1 this, of None None None None "Some tm"]
  have "transition_execution_order oid FILLED None None None None (Some tm) ?db1 =
      (Inr (), db\<lparr>db_orders := upd_row ord_id oid (filled_order tm) (db_orders db)\<rparr>)"
    by (simp add: upd_opt_def f_def upd_row_twice filled_order_def [abs_def])
  with False step1 show ?thesis by (simp add: complete_order_def bnd_Inr)
qed

section \<open>Applying a fill\<close>

definition recorded :: "FillRecord \<Rightarrow> exec_db \<Rightarrow> bool" where
  "recorded fill db \<longleftrightarrow> (fr_broker_mode fill, fr_external_fill_id fill) \<in> fill_key ` set (db_fills db)"

lemma fill_lookup_None: "wf_db db \<Longrightarrow> \<not> recorded fill db \<Longrightarrow>
    get_execution_fill_by_external_id (fr_broker_mode fill) (fr_external_fill_id fill) db = Inr None"
  by (force simp: fill_lookup_eq recorded_def find_None_iff)

lemma fill_lookup_Some: "wf_db db \<Longrightarrow> recorded fill db \<Longrightarrow>
    \<exists>f. get_execution_fill_by_external_id (fr_broker_mode fill) (fr_external_fill_id fill) db = Inr (Some f)"
  by (auto simp: fill_lookup_eq recorded_def find_None_iff simp flip: not_None_eq)

lemma apply_fill_new:
  assumes wf: "wf_db db" and new: "\<not> recorded fill db" and acc: "get_paper_account acc db = Some a"
    and t: "transition_view (holding d db) (fr_side fill) (fr_quantity fill) (fr_price fill) = Inr t"
    and realized: "realized = realized_of t (snd (snd (view_or_flat (holding d db)))) (fr_price fill) pv"
    and cash: "cash = pa_cash_balance a + realized - fr_fee fill"
  shows "apply_fill acc d oid fill pv symbol reconciling db =
    bnd (book_fill acc d oid fill symbol t realized cash) (\<lambda>f.
    bnd (complete_order oid (fr_filled_at fill) reconciling) (\<lambda>_.
    ret \<lparr>lar_fill_id = fil_id f, lar_cash_balance = cash, lar_realized_pnl = realized,
      lar_fee = fr_fee fill, lar_position_side = pt_new_side t,
      lar_position_quantity = pt_new_quantity t,
      lar_average_entry_price = pt_new_average_entry_price t, lar_idempotent = False\<rparr>)) db"
proof -
  obtain s q e where view: "view_or_flat (holding d db) = (s, q, e)" by (cases "view_or_flat (holding d db)")
  have cur: "current_position (open_position d db) = (s, q, e)"
    using current_position_holding [OF wf, of d] view by simp
  have tr: "transition_position s q e (fr_side fill) (fr_quantity fill) (fr_price fill) = Inr t"
    using t view by (simp add: transition_view_def)
  have re: "realized_of t e (fr_price fill) pv = realized" using realized view by simp
  show ?thesis
    unfolding apply_fill_def
    by (simp add: bnd_reads fill_lookup_None [OF wf new] require_paper_account_def bnd_assoc
        bnd_gets acc get_open_net_position_eq [OF wf] cur tr re cash [symmetric] Let_def
        book_fill_def post_fill_def)
qed

lemma apply_fill_spec:
  assumes wf: "wf_db db" and new: "\<not> recorded fill db" and acc: "get_paper_account acc db = Some a"
    and ok: "pred_option position_ok (holding d db)"
    and pos: "0 < fr_quantity fill" "0 < fr_price fill"
    and ord: "get_execution_order oid db = Some ord"
    and st: "ord_status ord = (if reconciling then UNKNOWN else INTENT)"
  shows "\<exists>r db' a'. apply_fill acc d oid fill pv symbol reconciling db = (Inr r, db') \<and>
    wf_db db' \<and> recorded fill db' \<and> \<not> lar_idempotent r \<and>
    get_paper_account acc db' = Some a' \<and> lar_cash_balance r = pa_cash_balance a' \<and>
    pred_option position_ok (holding d db') \<and>
    signed_quantity (holding d db') =
      signed_quantity (holding d db) + signed_fill (fr_side fill) (fr_quantity fill) \<and>
    (\<forall>d'. d' \<noteq> d \<longrightarrow> holding d' db' = holding d' db) \<and>
    (\<forall>mark. pa_cash_balance a' + marked_value (holding d db') mark pv =
       pa_cash_balance a + marked_value (holding d db) mark pv
         + signed_fill (fr_side fill) (fr_quantity fill) * (mark - fr_price fill) * pv - fr_fee fill) \<and>
    get_execution_order oid db' = Some (filled_order (fr_filled_at fill) ord)"
proof -
  obtain t where t: "transition_view (holding d db) (fr_side fill) (fr_quantity fill) (fr_price fill) = Inr t"
    and ref: "refines_fill (holding d db) (fr_side fill) (fr_quantity fill) (fr_price fill) t"
    using transition_refines [OF ok pos] by blast
  define realized where "realized = realized_of t (snd (snd (view_or_flat (holding d db)))) (fr_price fill) pv"
  define cash where "cash = pa_cash_balance a + realized - fr_fee fill"
  obtain f db1 where run1: "book_fill acc d oid fill symbol t realized cash db = (Inr f, db1)"
    and wf1: "wf_db db1" and booked: "booked acc d fill pv t db db1" and ords: "db_orders db1 = db_orders db"
    using book_fill_booked [OF wf new[unfolded recorded_def] acc realized_def cash_def] by blast
  let ?db2 = "db1\<lparr>db_orders := upd_row ord_id oid (filled_order (fr_filled_at fill)) (db_orders db1)\<rparr>"
  have run2: "complete_order oid (fr_filled_at fill) reconciling db1 = (Inr (), ?db2)"
    by (rule complete_order_run [OF _ st]) (use ord ords in \<open>simp add: get_execution_order_def\<close>)
  have wf2: "wf_db ?db2" using keepsD [OF complete_order_wf wf1] run2 by (metis snd_conv)
  have booked2: "booked acc d fill pv t db ?db2"
    by (rule booked_book_cong [OF _ booked]) (simp add: book_def)
  have hold: "holding d' ?db2 = (if d' = d then new_view t else holding d' db)" for d'
    using booked2 by (simp add: booked_def Let_def)
  have acc2: "get_paper_account acc ?db2 = Some (a\<lparr>pa_cash_balance := cash\<rparr>)"
    using booked_account [OF booked2 acc] by (simp add: cash_def realized_def add_diff_eq)
  have "recorded fill ?db2" using booked by (auto simp: booked_def recorded_def Let_def)
  moreover have "apply_fill acc d oid fill pv symbol reconciling db =
      (Inr \<lparr>lar_fill_id = fil_id f, lar_cash_balance = cash, lar_realized_pnl = realized,
        lar_fee = fr_fee fill, lar_position_side = pt_new_side t,
        lar_position_quantity = pt_new_quantity t,
        lar_average_entry_price = pt_new_average_entry_price t, lar_idempotent = False\<rparr>, ?db2)"
    (is "_ = (Inr ?r, _)")
    unfolding apply_fill_new [OF wf new acc t realized_def cash_def]
    by (simp add: bnd_def run1 run2 ret_def)
  moreover have "get_execution_order oid ?db2 = Some (filled_order (fr_filled_at fill) ord)"
    using ord ords by (simp add: get_execution_order_def get_upd_row filled_order_def)
  moreover have "cash + marked_value (new_view t) mark pv =
      pa_cash_balance a + marked_value (holding d db) mark pv
        + signed_fill (fr_side fill) (fr_quantity fill) * (mark - fr_price fill) * pv - fr_fee fill" for mark
    using refines_value [OF ref, of mark pv] by (simp add: cash_def realized_def)
  ultimately show ?thesis
    using wf2 acc2 ref
    by (intro exI [of _ ?r] exI [of _ ?db2] exI [of _ "a\<lparr>pa_cash_balance := cash\<rparr>"])
       (simp add: hold refines_fill_def)
qed

text \<open>
  C1: a new fill of positive quantity and price, for an order in the state the caller
  must have put it in, is always applied; it moves the deployment's signed position by
  the signed fill quantity, leaves every other deployment's position alone, and changes
  cash plus the marked value of the position by exactly the value of the fill at the
  mark minus the fee, for every mark.
\<close>

theorem apply_fill_refines:
  assumes wf: "wf_db db" and new: "\<not> recorded fill db" and acc: "get_paper_account acc db = Some a"
    and ok: "pred_option position_ok (holding d db)"
    and pos: "0 < fr_quantity fill" "0 < fr_price fill"
    and ord: "get_execution_order oid db = Some ord"
    and st: "ord_status ord = (if reconciling then UNKNOWN else INTENT)"
  shows "\<exists>r db' a'. apply_fill acc d oid fill pv symbol reconciling db = (Inr r, db') \<and>
    wf_db db' \<and> recorded fill db' \<and> \<not> lar_idempotent r \<and>
    get_paper_account acc db' = Some a' \<and> lar_cash_balance r = pa_cash_balance a' \<and>
    pred_option position_ok (holding d db') \<and>
    signed_quantity (holding d db') =
      signed_quantity (holding d db) + signed_fill (fr_side fill) (fr_quantity fill) \<and>
    (\<forall>d'. d' \<noteq> d \<longrightarrow> holding d' db' = holding d' db) \<and>
    (\<forall>mark. pa_cash_balance a' + marked_value (holding d db') mark pv =
       pa_cash_balance a + marked_value (holding d db) mark pv
         + signed_fill (fr_side fill) (fr_quantity fill) * (mark - fr_price fill) * pv - fr_fee fill) \<and>
    get_execution_order oid db' = Some (filled_order (fr_filled_at fill) ord)"
  using assms by (rule apply_fill_spec)

theorem apply_fill_refines_witness:
  "\<exists>r db'. apply_fill 0 1 2 ex_fill 5 ''WIN'' False (ex_db [ex_order INTENT NOT_APPLICABLE]) = (Inr r, db')
    \<and> wf_db db' \<and> signed_quantity (holding 1 db') = 2"
proof -
  let ?db = "ex_db [ex_order INTENT NOT_APPLICABLE]"
  have new: "\<not> recorded ex_fill ?db" and acc: "get_paper_account 0 ?db = Some ex_account"
    and flat: "holding 1 ?db = None" and pos: "0 < fr_quantity ex_fill" "0 < fr_price ex_fill"
    and ord: "get_execution_order 2 ?db = Some (ex_order INTENT NOT_APPLICABLE)"
    and st: "ord_status (ex_order INTENT NOT_APPLICABLE) = (if False then UNKNOWN else INTENT)"
    by (simp_all add: recorded_def get_paper_account_def get_execution_order_def holding_def
        open_position_def ex_fill_def ex_defs)
  have ok: "pred_option position_ok (holding 1 ?db)" unfolding flat by simp
  show ?thesis
    using apply_fill_refines [OF wf_ex_db(2) new acc ok pos ord st, of 5 "''WIN''"]
    by (auto simp: flat ex_fill_def simp del: One_nat_def)
qed

section \<open>Cash follows the ledger\<close>

definition cash_reconciled :: "exec_db \<Rightarrow> bool" where
  "cash_reconciled db \<longleftrightarrow> (\<forall>a\<in>set (db_accounts db).
     pa_cash_balance a = pa_initial_balance a + ledger_balance (pa_id a) db)"

lemma cash_reconciled_book: "book db' = book db \<Longrightarrow> cash_reconciled db' = cash_reconciled db"
  by (simp add: cash_reconciled_def ledger_balance_def book_def)

lemma booked_cash_reconciled:
  assumes "booked acc d fill pv t db db'" and "cash_reconciled db"
  shows "cash_reconciled db'"
proof -
  obtain rows change where rows: "db_ledger db' = db_ledger db @ rows"
      "sum_list (map led_amount rows) = change" "\<forall>e\<in>set rows. led_paper_account_id e = acc"
    and acc: "db_accounts db' = upd_row pa_id acc
      (\<lambda>a. a\<lparr>pa_cash_balance := pa_cash_balance a + change\<rparr>) (db_accounts db)"
    using assms(1) by (auto simp: booked_def posted_def Let_def)
  have "filter (\<lambda>e. led_paper_account_id e = i) rows = (if i = acc then rows else [])" for i
    using rows(3) by (auto simp: filter_empty_conv filter_id_conv)
  then have bal: "ledger_balance i db' = ledger_balance i db + (if i = acc then change else 0)" for i
    using rows by (simp add: ledger_balance_def)
  show ?thesis
    using assms(2) by (auto simp: cash_reconciled_def acc bal upd_row_def)
qed

lemma apply_fill_cases:
  assumes wf: "wf_db db"
  obtains (replay) f where "recorded fill db"
      "apply_fill acc d oid fill pv symbol reconciling db = replay_fill acc d f db"
  | (refused) e where "\<not> recorded fill db" "apply_fill acc d oid fill pv symbol reconciling db = (Inl e, db)"
  | (booked) a db1 t r where "\<not> recorded fill db"
      "get_paper_account acc db1 = Some (a\<lparr>pa_cash_balance := lar_cash_balance r\<rparr>)"
      "wf_db db1" "booked acc d fill pv t db db1" "db_orders db1 = db_orders db"
      "apply_fill acc d oid fill pv symbol reconciling db =
         bnd (complete_order oid (fr_filled_at fill) reconciling) (\<lambda>_. ret r) db1"
proof (cases "recorded fill db")
  case True
  with fill_lookup_Some [OF wf] obtain f where
    "get_execution_fill_by_external_id (fr_broker_mode fill) (fr_external_fill_id fill) db = Inr (Some f)"
    by blast
  then have "apply_fill acc d oid fill pv symbol reconciling db = replay_fill acc d f db"
    by (simp add: apply_fill_def bnd_reads)
  with True show thesis by (rule replay)
next
  case new: False
  note no_fill = fill_lookup_None [OF wf new]
  show thesis
  proof (cases "get_paper_account acc db")
    case None
    then show thesis
      using refused [OF new]
      by (simp add: apply_fill_def bnd_reads no_fill require_paper_account_def bnd_assoc bnd_gets)
         (simp add: comp_defs)
  next
    case (Some a)
    show thesis
    proof (cases "transition_view (holding d db) (fr_side fill) (fr_quantity fill) (fr_price fill)")
      case (Inl e)
      obtain s q en where view: "view_or_flat (holding d db) = (s, q, en)"
        by (cases "view_or_flat (holding d db)")
      have "transition_position s q en (fr_side fill) (fr_quantity fill) (fr_price fill) = Inl e"
        using Inl view by (simp add: transition_view_def)
      moreover have "current_position (open_position d db) = (s, q, en)"
        using current_position_holding [OF wf, of d] view by simp
      ultimately have "apply_fill acc d oid fill pv symbol reconciling db = (Inl e, db)"
        by (simp add: apply_fill_def bnd_reads no_fill require_paper_account_def bnd_assoc bnd_gets
            Some get_open_net_position_eq [OF wf] Let_def)
      then show thesis by (rule refused [OF new])
    next
      case (Inr t)
      define realized where "realized = realized_of t (snd (snd (view_or_flat (holding d db)))) (fr_price fill) pv"
      define cash where "cash = pa_cash_balance a + realized - fr_fee fill"
      obtain f db1 where run: "book_fill acc d oid fill symbol t realized cash db = (Inr f, db1)"
        and wf1: "wf_db db1" and bk: "booked acc d fill pv t db db1" and ords: "db_orders db1 = db_orders db"
        using book_fill_booked [OF wf new[unfolded recorded_def] Some realized_def cash_def] by blast
      have "get_paper_account acc db1 = Some (a\<lparr>pa_cash_balance := cash\<rparr>)"
        using booked_account [OF bk Some] by (simp add: cash_def realized_def add_diff_eq)
      with apply_fill_new [OF wf new Some Inr realized_def cash_def]
      show thesis
        by (intro booked [OF new _ wf1 bk ords, where r = "\<lparr>lar_fill_id = fil_id f, lar_cash_balance = cash,
              lar_realized_pnl = realized, lar_fee = fr_fee fill, lar_position_side = pt_new_side t,
              lar_position_quantity = pt_new_quantity t,
              lar_average_entry_price = pt_new_average_entry_price t, lar_idempotent = False\<rparr>"])
           (simp_all add: run bnd_def)
    qed
  qed
qed

lemma replay_fill_reads: "frames (\<lambda>db. db) (replay_fill acc d f)"
  by (auto simp: replay_fill_def require_paper_account_def intro!: frames_intros)

lemma apply_fill_book:
  assumes "wf_db db" and "apply_fill acc d oid fill pv symbol reconciling db = (r, db')"
  shows "wf_db db'" and "book db' = book db \<or> (\<exists>t. booked acc d fill pv t db db')"
proof -
  consider "db' = db" | db1 t where "wf_db db1" "booked acc d fill pv t db db1"
      "wf_db db'" "book db' = book db1"
    using assms(1)
  proof (cases rule: apply_fill_cases
      [where fill = fill and acc = acc and d = d and oid = oid and pv = pv and symbol = symbol and
      reconciling = reconciling])
    case (replay f)
    with assms(2) framesD [OF replay_fill_reads] show ?thesis using that(1) by metis
  next
    case (refused e)
    with assms(2) that(1) show ?thesis by simp
  next
    case (booked a db1 t r')
    let ?m = "bnd (complete_order oid (fr_filled_at fill) reconciling) (\<lambda>_. ret r')"
    have run: "?m db1 = (r, db')" using booked assms(2) by simp
    have "frames book ?m" and "keeps wf_db ?m" by (auto intro!: frames_intros keeps_intros)
    with run booked have "book db' = book db1" "wf_db db'"
      by (auto dest: framesD keepsD)+
    with booked that(2) show ?thesis by blast
  qed
  then show "wf_db db'" and "book db' = book db \<or> (\<exists>t. booked acc d fill pv t db db')"
    using assms(1) booked_book_cong by (cases; blast)+
qed

lemma apply_fill_keeps_accounts:
  "keeps (\<lambda>db. wf_db db \<and> cash_reconciled db) (apply_fill acc d oid fill pv symbol reconciling)"
proof (rule keepsI)
  fix db assume inv: "wf_db db \<and> cash_reconciled db"
  obtain r db' where run: "apply_fill acc d oid fill pv symbol reconciling db = (r, db')"
    by (cases "apply_fill acc d oid fill pv symbol reconciling db")
  from apply_fill_book [OF conjunct1 [OF inv] run] inv cash_reconciled_book [of db' db]
  show "wf_db (snd (apply_fill acc d oid fill pv symbol reconciling db)) \<and>
      cash_reconciled (snd (apply_fill acc d oid fill pv symbol reconciling db))"
    by (auto simp: run intro: booked_cash_reconciled)
qed

text \<open>
  C2: \<^const>\<open>apply_fill\<close> keeps the schema constraints and the identity
  \<^emph>\<open>cash = initial balance + sum of the ledger entries\<close> of every account, on every path:
  a new fill, a repeated one, a missing account, an impossible position change, and an
  order whose status refuses the fill.
\<close>

theorem apply_fill_cash_follows_ledger:
  "keeps (\<lambda>db. wf_db db \<and> cash_reconciled db) (apply_fill acc d oid fill pv symbol reconciling)"
  by (rule apply_fill_keeps_accounts)

text \<open>
  C3: a fill is booked at most once. After an \<^const>\<open>apply_fill\<close> that succeeded, applying
  any fill with the same broker mode and external fill id again, for whichever order and
  deployment, changes nothing in the database and reports itself as idempotent.
\<close>

theorem apply_fill_idempotent:
  assumes wf: "wf_db db" and run: "apply_fill acc d oid fill pv symbol reconciling db = (Inr r, db')"
    and same: "fr_broker_mode fill2 = fr_broker_mode fill" "fr_external_fill_id fill2 = fr_external_fill_id fill"
  shows "\<exists>r2. apply_fill acc d2 oid2 fill2 pv2 symbol2 reconciling2 db' = (Inr r2, db') \<and>
    lar_idempotent r2 \<and> lar_realized_pnl r2 = 0 \<and> lar_cash_balance r2 = lar_cash_balance r"
proof -
  have wf': "wf_db db'" using apply_fill_book [OF wf run] by blast
  have acc': "recorded fill db' \<and>
      (\<exists>a. get_paper_account acc db' = Some (a\<lparr>pa_cash_balance := lar_cash_balance r\<rparr>))"
    using wf
  proof (cases rule: apply_fill_cases
      [where fill = fill and acc = acc and d = d and oid = oid and pv = pv and symbol = symbol and
      reconciling = reconciling])
    case (replay f)
    with run have rf: "replay_fill acc d f db = (Inr r, db')" by simp
    with framesD [OF replay_fill_reads] have "db' = db" by metis
    moreover from rf obtain a where "get_paper_account acc db = Some a" "pa_cash_balance a = lar_cash_balance r"
      by (auto simp: replay_fill_def require_paper_account_def comp_defs
          split: option.splits sum.splits prod.splits)
    ultimately show ?thesis using replay by (auto intro!: exI [of _ a])
  next
    case (refused e)
    with run show ?thesis by simp
  next
    case (booked a db1 t r1)
    let ?m = "bnd (complete_order oid (fr_filled_at fill) reconciling) (\<lambda>_. ret r1)"
    have m: "?m db1 = (Inr r, db')" using booked run by simp
    have "frames book ?m" by (auto intro!: frames_intros)
    from framesD [OF this m] have "book db' = book db1" .
    moreover from m have "r1 = r" by (simp add: bnd_def ret_def split: prod.splits sum.splits)
    moreover have "recorded fill db1"
      using booked(4) by (auto simp: booked_def recorded_def Let_def)
    ultimately show ?thesis using booked(2)
      by (auto simp: book_def recorded_def get_paper_account_def)
  qed
  then have "recorded fill2 db'" using same by (simp add: recorded_def)
  from fill_lookup_Some [OF wf' this] obtain f where
    "get_execution_fill_by_external_id (fr_broker_mode fill2) (fr_external_fill_id fill2) db' = Inr (Some f)"
    by blast
  with acc' show ?thesis
    by (auto simp: apply_fill_def replay_fill_def require_paper_account_def
        get_open_net_position_eq [OF wf'] comp_defs)
qed

theorem apply_fill_idempotent_witness:
  "\<exists>r db' r2. apply_fill 0 1 2 ex_fill 5 ''WIN'' False (ex_db [ex_order INTENT NOT_APPLICABLE]) = (Inr r, db')
    \<and> apply_fill 0 1 2 (ex_fill\<lparr>fr_price := 7\<rparr>) 5 ''WIN'' False db' = (Inr r2, db') \<and> lar_idempotent r2"
proof -
  let ?run = "apply_fill 0 1 2 ex_fill 5 ''WIN'' False (ex_db [ex_order INTENT NOT_APPLICABLE])"
  obtain r db' where run: "?run = (Inr r, db')"
  proof -
    have "isl (fst ?run) = False" by code_simp
    then show thesis using that by (cases ?run; cases "fst ?run") auto
  qed
  show ?thesis
    using run apply_fill_idempotent [OF wf_ex_db(2) run, of "ex_fill\<lparr>fr_price := 7\<rparr>" 1 2 5 "''WIN''" False] by auto
qed

section \<open>Snapshots\<close>

text \<open>
  The ledger holds nothing but realized results and fees, and no fee is negative: what
  \<^const>\<open>apply_fill\<close> writes when the fees of the fills are not negative.
\<close>

definition ledger_typed :: "exec_db \<Rightarrow> bool" where
  "ledger_typed db \<longleftrightarrow> (\<forall>e\<in>set (db_ledger db).
     led_entry_type e = REALIZED_PNL \<or> led_entry_type e = FEE \<and> led_amount e \<le> 0)"

lemma ledger_balance_split:
  assumes "ledger_typed db"
  shows "ledger_balance acc db = ledger_sum acc REALIZED_PNL db - \<bar>ledger_sum acc FEE db\<bar>"
proof -
  have split: "sum_list (map led_amount (filter (\<lambda>e. led_paper_account_id e = acc) es)) =
      sum_list (map led_amount (filter (\<lambda>e. led_paper_account_id e = acc \<and> led_entry_type e = REALIZED_PNL) es)) +
      sum_list (map led_amount (filter (\<lambda>e. led_paper_account_id e = acc \<and> led_entry_type e = FEE) es)) \<and>
      sum_list (map led_amount (filter (\<lambda>e. led_paper_account_id e = acc \<and> led_entry_type e = FEE) es)) \<le> 0"
    if "\<forall>e\<in>set es. led_entry_type e = REALIZED_PNL \<or> led_entry_type e = FEE \<and> led_amount e \<le> 0" for es
    using that by (induction es) auto
  show ?thesis
    using split [OF assms [unfolded ledger_typed_def]] by (simp add: ledger_balance_def ledger_sum_def)
qed

lemma booked_ledger_typed:
  assumes "booked acc d fill pv t db db'" and "0 \<le> fr_fee fill" and "ledger_typed db"
  shows "ledger_typed db'"
proof -
  obtain rows where "db_ledger db' = db_ledger db @ rows" "\<forall>e\<in>set rows. posted acc d (fr_fee fill) e"
    using assms(1) unfolding booked_def Let_def by blast
  with assms(2,3) show ?thesis unfolding ledger_typed_def posted_def by fastforce
qed

definition position_mark :: "position_view option \<Rightarrow> ExecutableQuote \<Rightarrow> decimal" where
  "position_mark v quote = mark_price_for_position (fst (view_or_flat v)) quote"

text \<open>
  An account snapshot taken with a quote reads the database without changing it, and
  its numbers agree: equity is cash plus the value of the held position at the executable
  side of the quote (bid for a long, ask for a short), and cash is the initial balance
  plus the realized result minus the fees it reports.
\<close>

lemma account_snapshot_agrees:
  assumes wf: "wf_db db" and acc: "get_paper_account acc db = Some a"
    and ok: "pred_option position_ok (holding d db)"
    and cash: "cash_reconciled db" and typed: "ledger_typed db"
  shows "\<exists>s. account_snapshot acc d symbol (Some quote) pv tm db = (Inr s, db) \<and>
    bas_cash_balance s = pa_cash_balance a \<and>
    bas_equity s = bas_cash_balance s + marked_value (holding d db) (position_mark (holding d db) quote) pv \<and>
    bas_cash_balance s = pa_initial_balance a + bas_realized_pnl s - bas_total_fees s \<and>
    length (bas_positions s) = (if holding d db = None then 0 else 1)"
proof -
  have "a \<in> set (db_accounts db)" "pa_id a = acc"
    using acc get_row_SomeD by (fastforce simp: get_paper_account_def)+
  with cash have "pa_cash_balance a = pa_initial_balance a + ledger_balance acc db"
    by (auto simp: cash_reconciled_def)
  then have bal: "pa_cash_balance a =
      pa_initial_balance a + ledger_sum acc REALIZED_PNL db - \<bar>ledger_sum acc FEE db\<bar>"
    by (simp add: ledger_balance_split [OF typed])
  show ?thesis
  proof (cases "open_position d db")
    case None
    with bal show ?thesis
      by (simp add: account_snapshot_def require_paper_account_def comp_defs acc
          get_open_net_position_eq [OF wf] ledger_totals_def holding_def marked_value_def Let_def)
  next
    case (Some p)
    then have "pos_is_open p" by (simp add: open_position_iff [OF wf])
    moreover from ok Some have "0 < pos_quantity p"
      by (simp add: holding_def position_view_def position_ok_def)
    ultimately show ?thesis
      using bal Some
      by (simp add: account_snapshot_def require_paper_account_def comp_defs acc
          get_open_net_position_eq [OF wf] ledger_totals_def holding_def marked_value_def Let_def
          position_view_def position_mark_def view_or_flat_def)
  qed
qed

end
