(* ===== verification/Exec_History.thy ===== *)
theory Exec_History
  imports Exec_Store_Inv
begin

text \<open>
  The database as an audit trail. \<open>history db db'\<close> says that \<open>db'\<close> continues \<open>db\<close>: no order,
  decision, fill, ledger entry, risk event or audit event disappears; fills, ledger
  entries and events never change; a decision keeps its bar, strategy and signal; an
  order keeps its deployment, side and quantity and its status only moves along the
  order lifecycle. Every repository operation continues the history, hence so does every
  component built from them: the rules are proved once, in the locale of a preorder that
  computations respect.
\<close>

section \<open>Computations that respect a preorder\<close>

definition steps :: "('s \<Rightarrow> 's \<Rightarrow> bool) \<Rightarrow> ('s, 'a) comp \<Rightarrow> bool" where
  "steps R m \<longleftrightarrow> (\<forall>s. R s (snd (m s)))"

lemma stepsI: "(\<And>s. R s (snd (m s))) \<Longrightarrow> steps R m"
  by (simp add: steps_def)

lemma stepsD: "steps R m \<Longrightarrow> m s = (r, s') \<Longrightarrow> R s s'"
  by (metis steps_def snd_conv)

lemma steps_modify: "(\<And>s. R s (f s)) \<Longrightarrow> steps R (modify f)"
  by (simp add: steps_def modify_def)

locale step_preorder =
  fixes R :: "'s \<Rightarrow> 's \<Rightarrow> bool"
  assumes refl: "R s s"
    and trans: "R s t \<Longrightarrow> R t u \<Longrightarrow> R s u"
begin

lemma steps_ret: "steps R (ret x)"
  and steps_throw: "steps R (throw e)"
  and steps_gets: "steps R (gets f)"
  and steps_reads: "steps R (reads g)"
  by (simp_all add: steps_def comp_defs refl)

lemma steps_bnd:
  assumes "steps R m" and "\<And>x. steps R (k x)"
  shows "steps R (bnd m k)"
proof (rule stepsI)
  fix s
  show "R s (snd (bnd m k s))"
  proof (cases "m s")
    case (Pair r t)
    with assms(1) have "R s t" by (rule stepsD)
    with Pair assms(2) show ?thesis
      by (cases r) (auto simp: bnd_def steps_def intro: trans)
  qed
qed

lemma steps_catch:
  assumes "steps R m" and "\<And>e. steps R (h e)"
  shows "steps R (catch m h)"
proof (rule stepsI)
  fix s
  show "R s (snd (catch m h s))"
  proof (cases "m s")
    case (Pair r t)
    with assms(1) have "R s t" by (rule stepsD)
    with Pair assms(2) show ?thesis
      by (cases r) (auto simp: catch_def steps_def intro: trans)
  qed
qed

lemma steps_whenM: "steps R m \<Longrightarrow> steps R (whenM b m)"
  by (simp add: whenM_def steps_ret)

lemma steps_if: "(b \<Longrightarrow> steps R m) \<Longrightarrow> (\<not> b \<Longrightarrow> steps R n) \<Longrightarrow> steps R (if b then m else n)"
  by simp

lemma steps_case_option:
  "steps R m \<Longrightarrow> (\<And>x. steps R (n x)) \<Longrightarrow> steps R (case opt of None \<Rightarrow> m | Some x \<Rightarrow> n x)"
  by (simp split: option.splits)

lemma steps_case_sum:
  "(\<And>e. steps R (m e)) \<Longrightarrow> (\<And>x. steps R (n x)) \<Longrightarrow>
     steps R (case r of Inl e \<Rightarrow> m e | Inr x \<Rightarrow> n x)"
  by (simp split: sum.splits)

lemma steps_case_prod:
  "(\<And>x y. steps R (m x y)) \<Longrightarrow> steps R (case p of (x, y) \<Rightarrow> m x y)"
  by (simp split: prod.splits)

lemma steps_for_each: "(\<And>x. steps R (f x)) \<Longrightarrow> steps R (for_each f xs)"
  by (induction xs) (auto intro!: steps_ret steps_bnd)

lemmas steps_rules = steps_ret steps_throw steps_gets steps_reads steps_bnd steps_catch
  steps_whenM steps_if steps_case_option steps_case_sum steps_case_prod steps_for_each

end

section \<open>Tables that only grow\<close>

definition evolves :: "('r \<Rightarrow> 'r \<Rightarrow> bool) \<Rightarrow> 'r list \<Rightarrow> 'r list \<Rightarrow> bool" where
  "evolves step xs ys \<longleftrightarrow> (\<exists>zs ws. ys = zs @ ws \<and> list_all2 step xs zs)"

lemma evolves_refl: "(\<And>r. step r r) \<Longrightarrow> evolves step xs xs"
  unfolding evolves_def by (rule exI [of _ xs], rule exI [of _ "[]"]) (simp add: list_all2_refl)

lemma evolves_append: "(\<And>r. step r r) \<Longrightarrow> evolves step xs (xs @ ws)"
  unfolding evolves_def by (rule exI [of _ xs], rule exI [of _ ws]) (simp add: list_all2_refl)

lemma evolves_trans:
  assumes "\<And>a b c. step a b \<Longrightarrow> step b c \<Longrightarrow> step a c"
    and "evolves step xs ys" and "evolves step ys zs"
  shows "evolves step xs zs"
proof -
  obtain p q where p: "ys = p @ q" "list_all2 step xs p" using assms(2) by (auto simp: evolves_def)
  obtain u v where u: "zs = u @ v" "list_all2 step ys u" using assms(3) by (auto simp: evolves_def)
  from u(2) p(1) obtain u1 u2 where "u = u1 @ u2" "list_all2 step p u1"
    by (auto simp: list_all2_append1)
  moreover from this p have "list_all2 step xs u1"
    using list_all2_trans [of step step step xs p u1] assms(1) by blast
  ultimately show ?thesis
    unfolding evolves_def using u by (intro exI [of _ u1] exI [of _ "u2 @ v"]) simp
qed

lemma evolves_upd:
  assumes "\<And>r. step r r" and "\<And>r. r \<in> set rows \<Longrightarrow> rid r = k \<Longrightarrow> step r (f r)"
  shows "evolves step rows (upd_row rid k f rows)"
proof -
  have "list_all2 step rows (upd_row rid k f rows)"
    using assms by (auto simp: upd_row_def list_all2_conv_all_nth)
  then show ?thesis unfolding evolves_def by blast
qed

lemma evolves_prefix: "evolves (=) xs ys \<longleftrightarrow> prefix xs ys"
  by (auto simp: evolves_def prefix_def list_all2_eq [symmetric])

lemma evolves_get_row:
  assumes ev: "evolves step xs ys" and id: "\<And>a b. step a b \<Longrightarrow> rid b = rid a"
    and row: "get_row rid k xs = Some r"
  shows "\<exists>r'. get_row rid k ys = Some r' \<and> step r r'"
proof -
  obtain zs ws where ys: "ys = zs @ ws" and all: "list_all2 step xs zs" using ev by (auto simp: evolves_def)
  from all row have "\<exists>r'. get_row rid k zs = Some r' \<and> step r r'"
    by (induction rule: list_all2_induct) (auto dest: id split: if_splits)
  then show ?thesis by (auto simp: ys get_row_append)
qed

section \<open>The audit trail\<close>

definition order_step :: "ExecutionOrder \<Rightarrow> ExecutionOrder \<Rightarrow> bool" where
  "order_step a b \<longleftrightarrow> ord_id b = ord_id a \<and> ord_deployment_id b = ord_deployment_id a \<and>
     ord_decision_id b = ord_decision_id a \<and> ord_broker_mode b = ord_broker_mode a \<and>
     ord_side b = ord_side a \<and> ord_quantity b = ord_quantity a \<and>
     ord_created_at b = ord_created_at a \<and> order_path (ord_status a) (ord_status b)"

definition decision_step :: "ExecutionDecision \<Rightarrow> ExecutionDecision \<Rightarrow> bool" where
  "decision_step a b \<longleftrightarrow> dec_id b = dec_id a \<and> decision_key b = decision_key a \<and>
     dec_identity b = dec_identity a \<and> dec_signal_action b = dec_signal_action a \<and>
     dec_requested_quantity b = dec_requested_quantity a"

definition trail :: "exec_db \<Rightarrow> exec_db \<Rightarrow> bool" where
  "trail db db' \<longleftrightarrow>
     evolves order_step (db_orders db) (db_orders db') \<and>
     evolves decision_step (db_decisions db) (db_decisions db') \<and>
     prefix (db_fills db) (db_fills db') \<and>
     prefix (db_ledger db) (db_ledger db') \<and>
     prefix (db_risk_events db) (db_risk_events db') \<and>
     prefix (db_audit db) (db_audit db')"

definition history :: "exec_db \<Rightarrow> exec_db \<Rightarrow> bool" where
  "history db db' \<longleftrightarrow> (wf_db db \<longrightarrow> wf_db db' \<and> trail db db')"

lemma order_step_refl [simp]: "order_step r r"
  by (simp add: order_step_def)

lemma order_step_trans: "order_step a b \<Longrightarrow> order_step b c \<Longrightarrow> order_step a c"
  by (auto simp: order_step_def intro: status_path_trans)

lemma decision_step_refl [simp]: "decision_step r r"
  by (simp add: decision_step_def)

lemma decision_step_trans: "decision_step a b \<Longrightarrow> decision_step b c \<Longrightarrow> decision_step a c"
  by (auto simp: decision_step_def)

lemma trail_refl [simp]: "trail db db"
  by (auto simp: trail_def intro: evolves_refl)

lemma trail_trans: "trail a b \<Longrightarrow> trail b c \<Longrightarrow> trail a c"
  unfolding trail_def
  by (blast intro: evolves_trans order_step_trans decision_step_trans prefix_order.trans)

interpretation hist: step_preorder history
  by unfold_locales (auto simp: history_def intro: trail_trans)

named_theorems history_intros \<open>computations that continue the history\<close>

lemmas history_rules [history_intros] = hist.steps_rules

lemma steps_history:
  "keeps wf_db m \<Longrightarrow> (\<And>db. wf_db db \<Longrightarrow> trail db (snd (m db))) \<Longrightarrow> steps history m"
  by (simp add: steps_def history_def keeps_def)

text \<open>The operations on the other tables leave the trail as it is.\<close>

definition trail_tables where
  "trail_tables db = (db_orders db, db_decisions db, db_fills db, db_ledger db, db_risk_events db, db_audit db)"

lemma frames_history: "keeps wf_db m \<Longrightarrow> frames trail_tables m \<Longrightarrow> steps history m"
  by (rule steps_history) (auto simp: frames_def trail_tables_def trail_def intro: evolves_refl)

lemma untracked_frames:
  "frames trail_tables (create_paper_account nm bal cur cfg1 cfg2)"
  "frames trail_tables (update_paper_cash_balance acc bal)"
  "frames trail_tables (create_execution_deployment acc nm idn mode lc live)"
  "frames trail_tables (update_deployment dep upd)"
  "frames trail_tables (transition_deployment_lifecycle dep lc tm)"
  "frames trail_tables (update_deployment_last_bar_close dep bar)"
  "frames trail_tables (set_pending_deployment_action dep nm tm)"
  "frames trail_tables (clear_pending_deployment_action dep)"
  "frames trail_tables (upsert_open_net_position dep psd qty avg tm)"
  "frames trail_tables (acquire_worker_lease dep wk tok ttl tm)"
  "frames trail_tables (heartbeat_worker_lease dep wk tok ttl tm)"
  "frames trail_tables (release_worker_lease dep wk tok)"
  "frames trail_tables (release_expired_leases tm)"
  "frames trail_tables get_execution_control_state"
  "frames trail_tables (set_kill_switch en rsn wh2)"
  by (auto simp: trail_tables_def create_paper_account_def update_paper_cash_balance_def
      upsert_open_net_position_def update_position_def add_position_def deployment_ops_defs
      lease_ops_defs control_ops_defs intro!: frames_intros frames_modify frames_session_add)

lemma untracked_history [history_intros]:
  "steps history (create_paper_account nm bal cur cfg1 cfg2)"
  "steps history (update_paper_cash_balance acc bal)"
  "steps history (create_execution_deployment acc nm idn mode lc live)"
  "steps history (transition_deployment_lifecycle dep lc tm)"
  "steps history (update_deployment_last_bar_close dep bar)"
  "steps history (set_pending_deployment_action dep nm tm)"
  "steps history (clear_pending_deployment_action dep)"
  "steps history (upsert_open_net_position dep psd qty avg tm)"
  "steps history (acquire_worker_lease dep wk tok ttl tm)"
  "steps history (heartbeat_worker_lease dep wk tok ttl tm)"
  "steps history (release_worker_lease dep wk tok)"
  "steps history (release_expired_leases tm)"
  "steps history get_execution_control_state"
  "steps history (set_kill_switch en rsn wh2)"
  by (rule frames_history, rule keeps_intros, rule untracked_frames)+

text \<open>The operations that insert a row.\<close>

lemma insert_history [history_intros]:
  "steps history (create_execution_decision dep bar idn sig dout rq rsn ctx)"
  "steps history (create_execution_order_intent dep decn mode sd qty meta)"
  "steps history (create_execution_fill dep oid fill)"
  "steps history (append_ledger_entry acc dep ety amt bal fid rsn)"
  "steps history (record_risk_event dep code msg decn oidn ctx)"
  "steps history (record_audit_event nm msg actor depo ctx)"
proof -
  show "steps history (create_execution_decision dep bar idn sig dout rq rsn ctx)"
    by (rule steps_history [OF decision_ops_wf(1)])
       (auto simp: create_execution_decision_def session_add_def comp_defs Let_def trail_def
          intro: evolves_refl evolves_append)
  show "steps history (create_execution_order_intent dep decn mode sd qty meta)"
    by (rule steps_history [OF order_ops_wf(1)])
       (auto simp: create_execution_order_intent_def session_add_def Let_def trail_def
          intro: evolves_refl evolves_append)
  show "steps history (create_execution_fill dep oid fill)"
    by (rule steps_history [OF account_ops_wf(4)])
       (auto simp: create_execution_fill_def session_add_def comp_defs Let_def trail_def
          intro: evolves_refl)
  show "steps history (append_ledger_entry acc dep ety amt bal fid rsn)"
    by (rule steps_history [OF account_ops_wf(3)])
       (auto simp: append_ledger_entry_def session_add_def comp_defs Let_def trail_def
          intro: evolves_refl)
  show "steps history (record_risk_event dep code msg decn oidn ctx)"
    by (rule steps_history [OF control_event_ops_wf(3)])
       (auto simp: record_risk_event_def session_add_def comp_defs Let_def trail_def
          intro: evolves_refl)
  show "steps history (record_audit_event nm msg actor depo ctx)"
    by (rule steps_history [OF control_event_ops_wf(4)])
       (auto simp: record_audit_event_def session_add_def Let_def trail_def intro: evolves_refl)
qed

text \<open>The operations that change a row.\<close>

lemma wf_order_unique:
  "wf_db db \<Longrightarrow> get_execution_order oid db = Some ord \<Longrightarrow> r \<in> set (db_orders db) \<Longrightarrow> ord_id r = oid \<Longrightarrow> r = ord"
  using get_row_in_set [of ord_id "db_orders db" r]
  by (auto simp: wf_db_defs pk_ok_def get_execution_order_def)

lemma trail_update_order:
  assumes "wf_db db" and "get_execution_order oid db = Some ord" and "order_step ord (f ord)"
  shows "trail db (db\<lparr>db_orders := upd_row ord_id oid f (db_orders db)\<rparr>)"
proof -
  have "evolves order_step (db_orders db) (upd_row ord_id oid f (db_orders db))"
    using assms by (intro evolves_upd) (auto dest: wf_order_unique)
  then show ?thesis by (auto simp: trail_def intro: evolves_refl)
qed

lemma update_history [history_intros]:
  "steps history (update_execution_decision_outcome did dout octx)"
  "steps history (transition_execution_order oid st rs ext rej sub com)"
  "steps history (record_reconciliation_attempt oid tm err)"
  "steps history (finalize_order_reconciliation oid wh det tm)"
proof -
  show "steps history (update_execution_decision_outcome did dout octx)"
    by (rule steps_history [OF decision_ops_wf(2)])
       (auto simp: update_execution_decision_outcome_def comp_defs trail_def decision_step_def
          decision_key_def intro!: evolves_refl evolves_upd split: option.splits)
  show "steps history (record_reconciliation_attempt oid tm err)"
    by (rule steps_history [OF order_ops_wf(3)])
       (auto simp: record_reconciliation_attempt_def update_order_def comp_defs order_step_def
          intro!: trail_update_order split: option.splits)
  show "steps history (finalize_order_reconciliation oid wh det tm)"
    by (rule steps_history [OF order_ops_wf(4)])
       (auto simp: finalize_order_reconciliation_def update_order_def comp_defs order_step_def
          intro!: trail_update_order split: option.splits)
  show "steps history (transition_execution_order oid st rs ext rej sub com)"
    by (rule steps_history [OF order_ops_wf(2)])
       (auto simp: transition_execution_order_def update_order_def comp_defs order_step_def
          validate_order_transition_def intro!: trail_update_order status_path_step
          split: option.splits if_splits)
qed

lemma mark_incomplete_history [history_intros]: "steps history (mark_incomplete_orders_unknown dep)"
  unfolding mark_incomplete_orders_unknown_def mark_incomplete_order_def by (auto intro!: history_intros)

end
