(* ===== verification/Service_Correct.thy ===== *)
theory Service_Correct
  imports Service_Example Ledger_Correct Exec_History
begin

text \<open>
  What bar processing guarantees: the accounting identities hold in the working and in
  the durable database on every path; the durable database is an append-only trail;
  every request the broker was sent belongs to a durable order and no order is sent
  twice; a bar is decided at most once; a blocked deployment places no order; and the
  durable book changes only together with a filled order.
\<close>

section \<open>Invariants of sessions\<close>

definition both :: "(exec_db \<Rightarrow> bool) \<Rightarrow> session \<Rightarrow> bool" where
  "both P s \<longleftrightarrow> P (ses_work s) \<and> P (ses_durable s)"

lemma keeps_both_db_op [keeps_intros]: "keeps P m \<Longrightarrow> keeps (both P) (db_op m)"
  unfolding db_op_def by (rule keeps_on_part [where Q = P]) (auto simp: both_def)

lemma keeps_both_commit [keeps_intros]: "keeps (both P) commit"
  and keeps_both_rollback [keeps_intros]: "keeps (both P) rollback"
  by (auto simp: commit_def rollback_def both_def intro!: keeps_modify)

lemma keeps_both_submit_log:
  "keeps (both P) (modify (\<lambda>s. s\<lparr>ses_submitted := f s\<rparr>))"
  by (auto simp: both_def intro!: keeps_modify)

lemma keeps_maybe_raise [keeps_intros]: "keeps P (maybe_raise cps nm)"
  by (simp add: maybe_raise_def keeps_ret keeps_throw)

lemma keeps_with_begin [keeps_intros]:
  "keeps P m \<Longrightarrow> keeps P commit \<Longrightarrow> keeps P rollback \<Longrightarrow> keeps P (with_begin m)"
  by (auto simp: with_begin_def intro!: keeps_intros)

section \<open>Accounting\<close>

definition accounts_ok :: "exec_db \<Rightarrow> bool" where
  "accounts_ok db \<longleftrightarrow> wf_db db \<and> cash_reconciled db"

lemma keeps_accounts: "keeps wf_db m \<Longrightarrow> frames book m \<Longrightarrow> keeps accounts_ok m"
  unfolding keeps_def frames_def accounts_ok_def using cash_reconciled_book by metis

lemma accounts_apply_fill [keeps_intros]: "keeps accounts_ok (apply_fill acc d oid fill pv symbol reconciling)"
  unfolding accounts_ok_def by (rule apply_fill_keeps_accounts)

lemma read_frames [frames_intros]:
  "frames f (require_paper_account acc)"
  "frames f (account_snapshot acc d symbol quote pv tm)"
  by (auto simp: require_paper_account_def account_snapshot_def Let_def intro!: frames_intros)

lemma read_wf [keeps_intros]:
  "keeps P (require_paper_account acc)"
  "keeps P (account_snapshot acc d symbol quote pv tm)"
  by (auto simp: require_paper_account_def account_snapshot_def Let_def intro!: keeps_intros)

lemmas accounts_intros = keeps_accounts [OF decision_ops_wf(1) book_frames(6)]
  keeps_accounts [OF decision_ops_wf(2) book_frames(7)]
  keeps_accounts [OF deployment_ops_wf(3) book_frames(11)]
  keeps_accounts [OF order_ops_wf(1) book_frames(1)]
  keeps_accounts [OF order_ops_wf(2) book_frames(2)]
  keeps_accounts [OF control_event_ops_wf(1) book_frames(20)]
  keeps_accounts [OF control_event_ops_wf(3) book_frames(22)]

lemmas service_stage_defs = record_decision_def close_bar_def plan_order_def build_risk_context_def
  reject_by_risk_def Let_def

lemmas placement_stage_defs = commit_intent_def submit_to_broker_def settle_unknown_def
  settle_rejected_def mark_fill_failed_def persist_fill_def settle_filled_def settle_submission_def
  place_order_def

lemma place_order_accounts [keeps_intros]:
  "keeps (both accounts_ok) (place_order self dep ev did flatten cost pv ctx)"
  by (auto simp: placement_stage_defs close_bar_def intro!: keeps_intros accounts_intros keeps_both_submit_log)

lemma stages_accounts [keeps_intros]:
  "keeps (both accounts_ok) (record_decision dep ev)"
  "keeps (both accounts_ok) (close_bar dep ev did dout ctx)"
  "keeps (both accounts_ok) (plan_order dep ev did flatten)"
  "keeps (both accounts_ok) (build_risk_context self dep ev tok wk cost pv bypass plan)"
  "keeps (both accounts_ok) (reject_by_risk dep ev did rejection)"
  by (auto simp: service_stage_defs intro!: keeps_intros accounts_intros)

lemma process_completed_bar_accounts:
  "keeps (both accounts_ok) (process_completed_bar self dep ev tok wk cost pv bypass flatten)"
  by (auto simp: process_completed_bar_def decide_bar_def intro!: keeps_intros accounts_intros)

section \<open>The durable trail\<close>

definition session_ok :: "session \<Rightarrow> bool" where
  "session_ok s \<longleftrightarrow> wf_db (ses_work s) \<and> wf_db (ses_durable s) \<and> trail (ses_durable s) (ses_work s)"

definition session_history :: "session \<Rightarrow> session \<Rightarrow> bool" where
  "session_history s s' \<longleftrightarrow> (session_ok s \<longrightarrow> session_ok s' \<and> trail (ses_durable s) (ses_durable s'))"

interpretation shist: step_preorder session_history
  by unfold_locales (auto simp: session_history_def intro: trail_trans)

named_theorems session_intros \<open>session computations that continue the durable history\<close>

lemmas session_rules [session_intros] = shist.steps_rules

lemma session_db_op [session_intros]:
  assumes "steps history m"
  shows "steps session_history (db_op m)"
proof (rule stepsI)
  fix s :: session
  obtain r db where run: "m (ses_work s) = (r, db)" by (cases "m (ses_work s)")
  with assms have "history (ses_work s) db" by (rule stepsD)
  then show "session_history s (snd (db_op m s))"
    by (auto simp: db_op_def on_part_def run session_history_def session_ok_def history_def
        intro: trail_trans)
qed

lemma session_commit [session_intros]: "steps session_history commit"
  and session_rollback [session_intros]: "steps session_history rollback"
  by (auto simp: commit_def rollback_def session_history_def session_ok_def intro!: steps_modify)

lemma session_submit_log:
  "steps session_history (modify (\<lambda>s. s\<lparr>ses_submitted := f s\<rparr>))"
  by (auto simp: session_history_def session_ok_def intro!: steps_modify)

lemma session_maybe_raise [session_intros]: "steps session_history (maybe_raise cps nm)"
  by (auto simp: maybe_raise_def intro!: session_intros)

lemma session_with_begin [session_intros]:
  "steps session_history m \<Longrightarrow> steps session_history (with_begin m)"
  by (auto simp: with_begin_def intro!: session_intros)

lemma ledger_history [history_intros]:
  "steps history (require_paper_account acc)"
  "steps history (account_snapshot acc d symbol quote pv tm)"
  "steps history (apply_fill acc d oid fill pv symbol reconciling)"
  by (auto simp: require_paper_account_def account_snapshot_def apply_fill_def replay_fill_def
      post_ledger_entries_def complete_order_def Let_def intro!: history_intros)

lemma placement_history [session_intros]:
  "steps session_history (commit_intent self dep ev did flatten side qty)"
  "steps session_history (submit_to_broker self req cost)"
  "steps session_history (settle_submission self dep ev did oid acc sub pv)"
  by (auto simp: placement_stage_defs close_bar_def
      intro!: session_intros history_intros session_submit_log)

lemma stages_history [session_intros]:
  "steps session_history (record_decision dep ev)"
  "steps session_history (close_bar dep ev did dout ctx)"
  "steps session_history (plan_order dep ev did flatten)"
  "steps session_history (build_risk_context self dep ev tok wk cost pv bypass plan)"
  "steps session_history (reject_by_risk dep ev did rejection)"
  by (auto simp: service_stage_defs intro!: session_intros history_intros)

lemma process_completed_bar_history:
  "steps session_history (process_completed_bar self dep ev tok wk cost pv bypass flatten)"
  by (auto simp: process_completed_bar_def decide_bar_def place_order_def
      intro!: session_intros history_intros)

section \<open>Submitted orders\<close>

text \<open>
  Every request in the log belongs to a durable order with the same deployment, side and
  quantity, and no order id occurs twice in the log.
\<close>

definition durable_request :: "exec_db \<Rightarrow> MarketOrderRequest \<Rightarrow> bool" where
  "durable_request db req \<longleftrightarrow> (case get_execution_order (mor_order_id req) db of
     None \<Rightarrow> False
   | Some ord \<Rightarrow> ord_deployment_id ord = mor_deployment_id req \<and> ord_side ord = mor_side req \<and>
       ord_quantity ord = mor_quantity req)"

definition submissions_ok :: "session \<Rightarrow> bool" where
  "submissions_ok s \<longleftrightarrow> session_ok s \<and> list_all (durable_request (ses_durable s)) (ses_submitted s) \<and>
     distinct (map mor_order_id (ses_submitted s))"

lemma durable_request_trail: "trail db db' \<Longrightarrow> durable_request db req \<Longrightarrow> durable_request db' req"
proof -
  assume tr: "trail db db'" and dr: "durable_request db req"
  obtain ord where ord: "get_execution_order (mor_order_id req) db = Some ord"
    and eq: "ord_deployment_id ord = mor_deployment_id req" "ord_side ord = mor_side req"
      "ord_quantity ord = mor_quantity req"
    using dr by (auto simp: durable_request_def split: option.splits)
  from tr have "evolves order_step (db_orders db) (db_orders db')" by (simp add: trail_def)
  from evolves_get_row [OF this _ ord [unfolded get_execution_order_def]]
  obtain ord' where "get_execution_order (mor_order_id req) db' = Some ord'" "order_step ord ord'"
    by (auto simp: order_step_def get_execution_order_def)
  with eq show ?thesis by (auto simp: durable_request_def order_step_def)
qed

text \<open>Computations that do not write to the log.\<close>

lemma keeps_submissions:
  assumes "steps session_history m" and "frames ses_submitted m"
  shows "keeps submissions_ok m"
proof (rule keepsI)
  fix s assume ok: "submissions_ok s"
  obtain r s' where run: "m s = (r, s')" by (cases "m s")
  have "session_history s s'" using assms(1) run by (rule stepsD)
  moreover have "ses_submitted s' = ses_submitted s" using assms(2) run by (rule framesD)
  ultimately show "submissions_ok (snd (m s))"
    using ok durable_request_trail
    by (auto simp: run submissions_ok_def session_history_def list_all_iff)
qed

lemma submitted_frames [frames_intros]:
  "frames ses_submitted (db_op m)"
  "frames ses_submitted commit"
  "frames ses_submitted rollback"
  "frames ses_submitted (maybe_raise cps nm)"
  by (auto simp: frames_def db_op_def on_part_def commit_def rollback_def maybe_raise_def comp_defs
      split: prod.splits)

lemma submitted_with_begin [frames_intros]:
  "frames ses_submitted m \<Longrightarrow> frames ses_submitted (with_begin m)"
  by (auto simp: with_begin_def intro!: frames_intros)

lemma stages_submitted [frames_intros]:
  "frames ses_submitted (record_decision dep ev)"
  "frames ses_submitted (close_bar dep ev did dout ctx)"
  "frames ses_submitted (plan_order dep ev did flatten)"
  "frames ses_submitted (build_risk_context self dep ev tok wk cost pv bypass plan)"
  "frames ses_submitted (reject_by_risk dep ev did rejection)"
  "frames ses_submitted (commit_intent self dep ev did flatten side qty)"
  "frames ses_submitted (settle_submission self dep ev did oid acc sub pv)"
  by (auto simp: service_stage_defs placement_stage_defs intro!: frames_intros)

text \<open>A committed intent is durable and has never been submitted.\<close>

lemma commit_intent_fresh:
  assumes ok: "submissions_ok s"
    and run: "commit_intent self dep ev did flatten side qty s = (Inr ord, s')"
  shows "submissions_ok s'" and "get_execution_order (ord_id ord) (ses_durable s') = Some ord"
    and "ord_deployment_id ord = dep_id dep" and "ord_id ord \<notin> mor_order_id ` set (ses_submitted s')"
proof -
  have "keeps submissions_ok (commit_intent self dep ev did flatten side qty)"
    by (intro keeps_submissions session_intros frames_intros)
  from keepsD [OF this ok] run show ok': "submissions_ok s'" by simp
  let ?db = "ses_work s"
  from run have ord: "ord_id ord = db_next_id ?db" "ord_deployment_id ord = dep_id dep"
    and dur: "db_orders (ses_durable s') = db_orders ?db @ [ord]" and sub: "ses_submitted s' = ses_submitted s"
    by (auto simp: commit_intent_def create_execution_order_intent_def db_op_def on_part_def
        session_add_def commit_def maybe_raise_def comp_defs Let_def split: if_splits)
  show "ord_deployment_id ord = dep_id dep" by (rule ord(2))
  from ok have wf: "wf_db ?db" by (simp add: submissions_ok_def session_ok_def)
  then have fresh: "get_execution_order (db_next_id ?db) ?db = None"
    by (simp add: get_execution_order_def wf_db_defs pk_ok_fresh)
  then show "get_execution_order (ord_id ord) (ses_durable s') = Some ord"
    by (simp add: get_execution_order_def dur get_row_append ord)
  have "durable_request ?db req" if "req \<in> set (ses_submitted s)" for req
    using ok that durable_request_trail by (auto simp: submissions_ok_def session_ok_def list_all_iff)
  then show "ord_id ord \<notin> mor_order_id ` set (ses_submitted s')"
    using fresh by (fastforce simp: sub ord durable_request_def)
qed

lemma submit_to_broker_ok:
  assumes "submissions_ok s" and "get_execution_order (ord_id ord) (ses_durable s) = Some ord"
    and "ord_deployment_id ord = dep_id dep" and "ord_id ord \<notin> mor_order_id ` set (ses_submitted s)"
  shows "submissions_ok (snd (submit_to_broker self (order_request dep ord) cost s))"
proof -
  have "snd (submit_to_broker self (order_request dep ord) cost s) =
      s\<lparr>ses_submitted := ses_submitted s @ [order_request dep ord]\<rparr>"
    by (auto simp: submit_to_broker_def maybe_raise_def comp_defs split: sum.splits)
  then show ?thesis
    using assms by (auto simp: submissions_ok_def session_ok_def durable_request_def order_request_def)
qed

lemma place_order_submissions:
  "keeps submissions_ok (place_order self dep ev did flatten cost pv ctx)"
proof (rule keepsI)
  fix s assume ok: "submissions_ok s"
  let ?ci = "commit_intent self dep ev did flatten (rc_side ctx) (rc_quantity ctx)"
  have ci: "keeps submissions_ok ?ci"
    by (intro keeps_submissions session_intros frames_intros)
  have settle: "keeps submissions_ok (settle_submission self dep ev did oid acc sub pv)" for oid acc sub
    by (intro keeps_submissions session_intros frames_intros)
  show "submissions_ok (snd (place_order self dep ev did flatten cost pv ctx s))"
  proof (cases "?ci s")
    case (Pair r s1)
    show ?thesis
    proof (cases r)
      case (Inl e)
      with Pair keepsD [OF ci ok] show ?thesis by (simp add: place_order_def bnd_def)
    next
      case (Inr ord)
      with Pair have run: "?ci s = (Inr ord, s1)" by simp
      from submit_to_broker_ok [OF commit_intent_fresh [OF ok run]]
      have "submissions_ok (snd (submit_to_broker self (order_request dep ord) cost s1))" .
      with settle show ?thesis
        by (auto simp: place_order_def bnd_def run keeps_def split: prod.splits sum.splits)
    qed
  qed
qed

lemma submissions_intros:
  "steps history m \<Longrightarrow> keeps submissions_ok (db_op m)"
  "keeps submissions_ok commit"
  "keeps submissions_ok (record_decision dep ev)"
  "keeps submissions_ok (plan_order dep ev did flatten)"
  "keeps submissions_ok (build_risk_context self dep ev tok wk cost pv bypass plan)"
  "keeps submissions_ok (reject_by_risk dep ev did rejection)"
  by (auto intro!: keeps_submissions session_intros frames_intros)

lemma process_completed_bar_submissions:
  "keeps submissions_ok (process_completed_bar self dep ev tok wk cost pv bypass flatten)"
  unfolding process_completed_bar_def decide_bar_def
  by (auto intro!: keeps_intros place_order_submissions submissions_intros history_intros)

section \<open>Blocked deployments place no order\<close>

definition kill_switch_on :: "exec_db \<Rightarrow> bool" where
  "kill_switch_on db = (case db_control db of None \<Rightarrow> False | Some c \<Rightarrow> ctl_kill_switch_enabled c)"

definition lease_held_by :: "uuid \<Rightarrow> string \<Rightarrow> string \<Rightarrow> exec_db \<Rightarrow> bool" where
  "lease_held_by d wk tok db = (case get_worker_lease d db of
     Inr (Some l) \<Rightarrow> lea_worker_id l = wk \<and> lea_lease_token l = tok | _ \<Rightarrow> False)"

definition order_blocked :: "ExecutionDeployment \<Rightarrow> string \<Rightarrow> string \<Rightarrow> bool \<Rightarrow> exec_db \<Rightarrow> bool" where
  "order_blocked dep tok wk bypass db \<longleftrightarrow>
     \<not> bypass \<and> (kill_switch_on db \<or> dep_lifecycle dep \<noteq> RUNNING) \<or>
     \<not> lease_held_by (dep_id dep) wk tok db \<or>
     (\<exists>ord\<in>set (db_orders db). ord_deployment_id ord = dep_id dep \<and> ord_status ord = UNKNOWN)"

definition gate_view ::
    "exec_db \<Rightarrow> (ExecutionOrder list \<times> (PaperAccount list \<times> ExecutionFill list \<times>
       ExecutionNetPosition list \<times> ExecutionLedgerEntry list)) \<times> bool \<times> ExecutionWorkerLease list" where
  "gate_view db = ((db_orders db, book db), kill_switch_on db, db_leases db)"

lemma order_blocked_cong: "gate_view db' = gate_view db \<Longrightarrow>
    order_blocked dep tok wk bypass db' = order_blocked dep tok wk bypass db"
  by (simp add: gate_view_def order_blocked_def lease_held_by_def get_worker_lease_def)

lemma gate_frames [frames_intros]:
  "frames gate_view (create_execution_decision d bar idn sig dout rq rsn ctx)"
  "frames gate_view (update_execution_decision_outcome did dout octx)"
  "frames gate_view (update_deployment_last_bar_close d bar)"
  "frames gate_view (record_risk_event d code msg decn oidn ctx)"
  "frames gate_view get_execution_control_state"
proof -
  show "frames gate_view get_execution_control_state"
    by (auto simp: frames_def get_execution_control_state_def gate_view_def kill_switch_on_def book_def
        comp_defs Let_def split: option.splits)
qed (auto simp: gate_view_def kill_switch_on_def book_def decision_ops_defs deployment_ops_defs event_ops_defs
       intro!: frames_intros frames_modify frames_session_add)

definition untouched ::
    "(ExecutionOrder list \<times> (PaperAccount list \<times> ExecutionFill list \<times> ExecutionNetPosition list \<times>
       ExecutionLedgerEntry list)) \<times> bool \<times> ExecutionWorkerLease list \<Rightarrow>
     MarketOrderRequest list \<Rightarrow> session \<Rightarrow> bool" where
  "untouched v l s \<longleftrightarrow> gate_view (ses_work s) = v \<and>
     (db_orders (ses_durable s), book (ses_durable s)) = fst v \<and> ses_submitted s = l"

lemma untouched_db_op: "frames gate_view m \<Longrightarrow> keeps (untouched v l) (db_op m)"
  unfolding db_op_def
  by (rule keeps_on_part [where Q = "\<lambda>db. gate_view db = v"])
     (simp_all add: untouched_def frames_def keeps_def)

lemma untouched_commit: "keeps (untouched v l) commit"
  by (auto simp: commit_def untouched_def gate_view_def intro!: keeps_modify)

lemmas untouched_intros = untouched_db_op untouched_commit

lemma untouched_stages:
  "keeps (untouched v l) (record_decision dep ev)"
  "keeps (untouched v l) (close_bar dep ev did dout ctx)"
  "keeps (untouched v l) (plan_order dep ev did flatten)"
  "keeps (untouched v l) (build_risk_context self dep ev tok wk cost pv bypass plan)"
  "keeps (untouched v l) (reject_by_risk dep ev did rejection)"
  by (auto simp: service_stage_defs intro!: keeps_intros untouched_intros frames_intros)

lemma keeps_bnd_when:
  assumes "keeps P m" and "\<And>s. P s \<Longrightarrow> outcome m (\<lambda>x _. Q x) (\<lambda>_ _. True) s"
    and "\<And>x. Q x \<Longrightarrow> keeps P (k x)"
  shows "keeps P (bnd m k)"
proof (rule keepsI)
  fix s assume s: "P s"
  show "P (snd (bnd m k s))"
  proof (cases "m s")
    case (Pair r t)
    with keepsD [OF assms(1) s] have t: "P t" by simp
    show ?thesis
    proof (cases r)
      case (Inl e)
      with Pair t show ?thesis by (simp add: bnd_def)
    next
      case (Inr x)
      with Pair assms(2) [OF s] have "Q x" by (simp add: outcome_def)
      with Pair Inr assms(3) t show ?thesis by (auto simp: bnd_def keeps_def)
    qed
  qed
qed

lemma outcome_control_state:
  "outcome get_execution_control_state Q E db =
     (case db_control db of Some c \<Rightarrow> Q c db
      | None \<Rightarrow> (let c = \<lparr>ctl_kill_switch_enabled = False, ctl_kill_switch_reason = None, ctl_updated_by = None\<rparr>
                 in Q c (db\<lparr>db_control := Some c\<rparr>)))"
  by (simp add: get_execution_control_state_def outcome_simps Let_def split: option.splits)

lemma outcome_True: "outcome m (\<lambda>_ _. True) (\<lambda>_ _. True) s"
  by (simp add: outcome_def split: prod.splits sum.splits)

lemma outcome_triv: "(\<And>x t. Q x t) \<Longrightarrow> (\<And>e t. E e t) \<Longrightarrow> outcome m Q E s"
  by (simp add: outcome_def split: prod.splits sum.splits)

lemma blocked_context_rejected:
  assumes "order_blocked dep tok wk bypass (ses_work s)"
  shows "outcome (build_risk_context self dep ev tok wk cost pv bypass plan)
    (\<lambda>ctx _. \<not> admissible ctx) (\<lambda>_ _. True) s"
proof -
  obtain side qty ps pq where plan: "plan = (side, qty, ps, pq)" by (cases plan)
  have unk: "deployment_has_unknown_orders (list_orders_for_deployment d None db) \<longleftrightarrow>
      (\<exists>ord\<in>set (db_orders db). ord_deployment_id ord = d \<and> ord_status ord = UNKNOWN)" for d db
    by (auto simp: deployment_has_unknown_orders_def list_orders_for_deployment_def)
  show ?thesis
    using assms
    unfolding plan build_risk_context_def db_op_def require_paper_account_def Let_def
    by (auto simp: outcome_simps outcome_control_state Let_def unk order_blocked_def lease_held_by_def
        kill_switch_on_def admissible_def split: option.splits sum.splits
        intro!: outcome_triv)
qed

lemma blocked_decide_bar:
  assumes "\<And>s. untouched v l s \<Longrightarrow> order_blocked dep tok wk (bypass \<or> flatten) (ses_work s)"
  shows "keeps (untouched v l) (decide_bar self dep ev tok wk cost pv bypass flatten did)"
proof -
  have rest: "keeps (untouched v l) (bnd (build_risk_context self dep ev tok wk cost pv (bypass \<or> flatten) p)
      (\<lambda>ctx. case evaluate ctx of Some rejection \<Rightarrow> reject_by_risk dep ev did rejection
         | None \<Rightarrow> place_order self dep ev did flatten cost pv ctx))" for p
  proof (rule keeps_bnd_when [OF untouched_stages(4)])
    show "outcome (build_risk_context self dep ev tok wk cost pv (bypass \<or> flatten) p)
        (\<lambda>ctx _. \<not> admissible ctx) (\<lambda>_ _. True) s" if "untouched v l s" for s
      using assms [OF that] by (rule blocked_context_rejected)
  next
    fix ctx assume "\<not> admissible ctx"
    then obtain rj where "evaluate ctx = Some rj" using evaluate_None_iff by fastforce
    then show "keeps (untouched v l) (case evaluate ctx of Some rejection \<Rightarrow> reject_by_risk dep ev did rejection
         | None \<Rightarrow> place_order self dep ev did flatten cost pv ctx)"
      by (simp add: untouched_stages)
  qed
  show ?thesis
    unfolding decide_bar_def by (intro keeps_bnd keeps_case_option keeps_ret untouched_stages rest)
qed

lemma blocked_process_completed_bar:
  assumes "\<And>s. untouched v l s \<Longrightarrow> order_blocked dep tok wk (bypass \<or> flatten) (ses_work s)"
  shows "keeps (untouched v l) (process_completed_bar self dep ev tok wk cost pv bypass flatten)"
  unfolding process_completed_bar_def
  by (auto intro!: keeps_intros untouched_stages blocked_decide_bar [OF assms] untouched_intros frames_intros)

text \<open>
  C7: when the worker does not hold the deployment's lease, or the deployment has an order of
  unknown outcome, or, outside a flatten, the kill switch is on or the deployment is not
  running, processing a bar sends nothing to the broker and changes no order, fill, position,
  ledger entry or balance, neither in the working nor in the durable database.
\<close>

theorem blocked_bar_places_no_order:
  assumes blocked: "order_blocked dep tok wk (bypass \<or> flatten) (ses_work s)"
    and clean: "ses_durable s = ses_work s"
    and run: "process_completed_bar self dep ev tok wk cost pv bypass flatten s = (r, s')"
  shows "ses_submitted s' = ses_submitted s \<and>
    db_orders (ses_work s') = db_orders (ses_work s) \<and> book (ses_work s') = book (ses_work s) \<and>
    db_orders (ses_durable s') = db_orders (ses_work s) \<and> book (ses_durable s') = book (ses_work s)"
proof -
  let ?P = "untouched (gate_view (ses_work s)) (ses_submitted s)"
  have "order_blocked dep tok wk (bypass \<or> flatten) (ses_work t)" if "?P t" for t
    using that blocked order_blocked_cong [of "ses_work t" "ses_work s"] by (simp add: untouched_def)
  from blocked_process_completed_bar [OF this]
  have "keeps ?P (process_completed_bar self dep ev tok wk cost pv bypass flatten)" .
  moreover have "?P s" using clean by (simp add: untouched_def gate_view_def)
  ultimately have "?P s'" using run keepsD by fastforce
  then show ?thesis by (auto simp: untouched_def gate_view_def)
qed

theorem blocked_bar_places_no_order_witness:
  "\<exists>r s'. process_completed_bar (ex_service []) ex_deployment ex_signal ''other'' ''w'' ex_cost 1 False False ex_session = (r, s')
    \<and> ses_submitted s' = [] \<and> book (ses_durable s') = book ex_trading_db"
proof -
  obtain r s' where run: "process_completed_bar (ex_service []) ex_deployment ex_signal ''other'' ''w'' ex_cost 1 False False
      ex_session = (r, s')" by (cases "process_completed_bar (ex_service []) ex_deployment ex_signal ''other'' ''w'' ex_cost 1
      False False ex_session")
  have "order_blocked ex_deployment ''other'' ''w'' (False \<or> False) (ses_work ex_session)" by code_simp
  from blocked_bar_places_no_order [OF this _ run] run show ?thesis by (auto simp: ex_session_parts)
qed

end
