(* ===== verification/Service_Once.thy ===== *)
theory Service_Once
  imports Service_Correct
begin

text \<open>
  A bar is decided once. A run of \<^const>\<open>process_completed_bar\<close> that returns leaves the
  working and the durable database equal and the decision of the bar in both; a later
  run for the same deployment and bar is then a no-op, whoever issues it.
\<close>

section \<open>What holds after a successful run\<close>

text \<open>The outcome equations without the state argument, for continuations.\<close>

lemma outcome_ret_fun: "outcome (ret x) Q E = Q x"
  by (simp add: fun_eq_iff outcome_simps)

lemma outcome_throw_fun: "outcome (throw e) Q E = E e"
  by (simp add: fun_eq_iff outcome_simps)

lemma outcome_bnd_fun: "outcome (bnd m k) Q E = outcome m (\<lambda>x. outcome (k x) Q E) E"
  by (simp add: fun_eq_iff outcome_simps)

lemma outcome_modify_fun: "outcome (modify f) Q E = (\<lambda>s. Q () (f s))"
  by (simp add: fun_eq_iff outcome_simps)

lemma outcome_catch_fun: "outcome (catch m h) Q E = outcome m Q (\<lambda>e. outcome (h e) Q E)"
  by (simp add: fun_eq_iff outcome_simps)

lemma outcome_True_fun: "outcome m (\<lambda>_ _. True) (\<lambda>_ _. True) = (\<lambda>_. True)"
  by (simp add: fun_eq_iff outcome_True)

lemmas outcome_funs = outcome_ret_fun outcome_throw_fun outcome_bnd_fun outcome_modify_fun
  outcome_catch_fun outcome_True_fun

definition succ :: "('s \<Rightarrow> bool) \<Rightarrow> ('s, 'a) comp \<Rightarrow> bool" where
  "succ P m \<longleftrightarrow> (\<forall>s. P s \<longrightarrow> outcome m (\<lambda>_. P) (\<lambda>_ _. True) s)"

named_theorems succ_intros \<open>computations that keep a predicate when they return\<close>

lemma succ_keeps: "keeps P m \<Longrightarrow> succ P m"
  unfolding succ_def keeps_outcome by (blast intro: outcome_mono)

lemma succD: "succ P m \<Longrightarrow> P s \<Longrightarrow> m s = (Inr x, s') \<Longrightarrow> P s'"
  unfolding succ_def by (blast dest: outcome_InrD)

lemma succ_ret [succ_intros]: "succ P (ret x)"
  and succ_throw [succ_intros]: "succ P (throw e)"
  by (simp_all add: succ_def outcome_simps)

lemma succ_bnd [succ_intros]: "succ P m \<Longrightarrow> (\<And>x. succ P (k x)) \<Longrightarrow> succ P (bnd m k)"
  unfolding succ_def outcome_bnd by (blast intro: outcome_mono)

lemma succ_if [succ_intros]: "succ P m \<Longrightarrow> succ P n \<Longrightarrow> succ P (if b then m else n)"
  by simp

lemma succ_case_option [succ_intros]:
  "succ P m \<Longrightarrow> (\<And>x. succ P (n x)) \<Longrightarrow> succ P (case opt of None \<Rightarrow> m | Some x \<Rightarrow> n x)"
  by (simp split: option.splits)

lemma succ_reraise [succ_intros]: "succ P m \<Longrightarrow> succ P (catch m (\<lambda>e. bnd (h e) (\<lambda>_. throw e)))"
  unfolding succ_def outcome_catch outcome_bnd outcome_throw
  by (auto intro: outcome_mono simp: outcome_True)

section \<open>The decision stays\<close>

definition decided :: "uuid \<times> datetime \<Rightarrow> uuid \<Rightarrow> session \<Rightarrow> bool" where
  "decided key did s \<longleftrightarrow> wf_db (ses_work s) \<and>
     (\<exists>d\<in>set (db_decisions (ses_work s)). decision_key d = key \<and> dec_id d = did)"

lemma trail_decision:
  assumes "trail db db'" and "d \<in> set (db_decisions db)"
  shows "\<exists>d'\<in>set (db_decisions db'). decision_step d d'"
proof -
  obtain zs ws where "db_decisions db' = zs @ ws" and all: "list_all2 decision_step (db_decisions db) zs"
    using assms(1) by (auto simp: trail_def evolves_def)
  moreover from all assms(2) obtain d' where "d' \<in> set zs" "decision_step d d'"
    by (metis in_set_conv_nth list_all2_conv_all_nth)
  ultimately show ?thesis by auto
qed

lemma decided_db_op [succ_intros]:
  assumes "steps history m"
  shows "succ (decided key did) (db_op m)"
proof (rule succ_keeps, rule keepsI)
  fix s assume dec: "decided key did s"
  obtain r db where run: "m (ses_work s) = (r, db)" by (cases "m (ses_work s)")
  with assms have "history (ses_work s) db" by (rule stepsD)
  with dec have "wf_db db" "trail (ses_work s) db" by (auto simp: decided_def history_def)
  with dec trail_decision show "decided key did (snd (db_op m s))"
    by (fastforce simp: decided_def db_op_def on_part_def run decision_step_def)
qed

lemma decided_commit [succ_intros]: "succ (decided key did) commit"
  and decided_log: "succ (decided key did) (modify (\<lambda>s. s\<lparr>ses_submitted := f s\<rparr>))"
  by (auto simp: commit_def decided_def intro!: succ_keeps keeps_modify)

lemma decided_reads [succ_intros]: "succ P (reads f)"
  and decided_maybe_raise [succ_intros]: "succ P (maybe_raise cps nm)"
  by (auto intro!: succ_keeps keeps_intros)

lemma decided_stages [succ_intros]:
  "succ (decided key did) (close_bar dep ev i dout ctx)"
  "succ (decided key did) (plan_order dep ev i flatten)"
  "succ (decided key did) (build_risk_context self dep ev tok wk cost pv bypass plan)"
  "succ (decided key did) (reject_by_risk dep ev i rejection)"
  "succ (decided key did) (place_order self dep ev i flatten cost pv rctx)"
  by (auto simp: service_stage_defs placement_stage_defs split: prod.splits
      intro!: succ_intros history_intros decided_log)

lemma decided_decide_bar [succ_intros]:
  "succ (decided key did) (decide_bar self dep ev tok wk cost pv bypass flatten i)"
  by (auto simp: decide_bar_def intro!: succ_intros)

lemma create_execution_decision_row:
  "create_execution_decision dep bar idn sig dout rq rsn ctx db = (Inr d, db') \<Longrightarrow>
     d \<in> set (db_decisions db') \<and> decision_key d = (dep, bar)"
  by (auto simp: create_execution_decision_def session_add_def decision_key_def comp_defs Let_def
      split: if_splits)

lemma record_decision_decided:
  assumes "wf_db (ses_work s)" and "record_decision dep ev s = (Inr d, s')"
  shows "decided (dep_id dep, fdr_bar_close_time ev) (dec_id d) s'"
proof -
  let ?m = "create_execution_decision (dep_id dep) (fdr_bar_close_time ev) (dep_identity dep)
    (fdr_signal_action ev) (if fdr_signal_action ev = SIG_HOLD then D_HOLD else D_SIGNAL)
    (fdr_requested_quantity ev) (fdr_reason ev) [(''timing'', JDict [])]"
  obtain db where run: "?m (ses_work s) = (Inr d, db)" and s': "s' = s\<lparr>ses_work := db\<rparr>"
    using assms(2) by (auto simp: record_decision_def db_op_def on_part_def split: prod.splits)
  from keepsD [OF decision_ops_wf(1) assms(1)] run have "wf_db db" by (metis snd_conv)
  with create_execution_decision_row [OF run] show ?thesis by (auto simp: decided_def s')
qed

lemma decided_lookup:
  assumes "decided (d, bar) did s"
  shows "\<exists>dec. get_decision_for_bar d bar (ses_work s) = Inr (Some dec) \<and> dec_id dec = did"
proof -
  let ?P = "\<lambda>x. dec_deployment_id x = d \<and> dec_bar_close_time x = bar"
  have "distinct (map decision_key (db_decisions (ses_work s)))"
    using assms by (simp add: decided_def wf_db_defs)
  from distinct_key_le_1 [OF this, of "(d, bar)"]
  have len: "length (filter ?P (db_decisions (ses_work s))) \<le> 1" by (simp add: decision_key_def)
  obtain x where "x \<in> set (db_decisions (ses_work s))" "?P x" "dec_id x = did"
    using assms by (auto simp: decided_def decision_key_def)
  with len find_Some_unique_iff [OF len, of x] scalar_one_or_none_find [OF len]
  show ?thesis by (simp add: get_decision_for_bar_def)
qed

section \<open>A run that returns has committed\<close>

definition clean :: "session \<Rightarrow> bool" where
  "clean s \<longleftrightarrow> ses_durable s = ses_work s"

definition lands :: "uuid option \<Rightarrow> BarProcessResult svm \<Rightarrow> bool" where
  "lands did m \<longleftrightarrow> (\<forall>s. outcome m (\<lambda>r s'. clean s' \<and> bpr_decision_id r = did) (\<lambda>_ _. True) s)"

lemma landsD: "lands did m \<Longrightarrow> m s = (Inr r, s') \<Longrightarrow> clean s' \<and> bpr_decision_id r = did"
  unfolding lands_def by (drule spec [of _ s]) (simp add: outcome_def)

lemma lands_close_bar:
  "bpr_decision_id r = did \<Longrightarrow> lands did (bnd (close_bar dep ev i dout ctx) (\<lambda>_. ret r))"
  by (simp add: lands_def close_bar_def commit_def clean_def outcome_funs)

lemma lands_bnd: "(\<And>x. lands did (k x)) \<Longrightarrow> lands did (bnd m k)"
  by (simp add: lands_def outcome_bnd outcome_triv)

lemma lands_settle:
  "lands (Some did) (settle_submission self dep ev did oid acc sub pv)"
  by (simp add: settle_submission_def settle_unknown_def settle_rejected_def lands_bnd lands_close_bar
      bar_result_def)
     (simp add: lands_def settle_filled_def persist_fill_def close_bar_def commit_def clean_def
      outcome_funs bar_result_def)

lemma lands_decide_bar:
  "lands (Some did) (decide_bar self dep ev tok wk cost pv bypass flatten did)"
proof -
  have plan: "outcome (plan_order dep ev did flatten) (\<lambda>p t. p = None \<longrightarrow> clean t) (\<lambda>_ _. True) s" for s
    unfolding plan_order_def outcome_bnd_fun Let_def
    by (rule outcome_triv)
       (simp_all add: close_bar_def commit_def clean_def outcome_funs split: option.splits prod.splits)
  have rest: "lands (Some did) (bnd (build_risk_context self dep ev tok wk cost pv b p)
      (\<lambda>ctx. case evaluate ctx of Some rejection \<Rightarrow> reject_by_risk dep ev did rejection
         | None \<Rightarrow> place_order self dep ev did flatten cost pv ctx))" for b p
    by (rule lands_bnd)
       (auto simp: reject_by_risk_def place_order_def bar_result_def split: option.splits
          intro!: lands_bnd lands_close_bar lands_settle)
  show ?thesis
    unfolding lands_def decide_bar_def outcome_bnd
  proof (rule allI, rule outcome_mono [OF plan])
    fix s t :: session and p :: "(ExecutionSide \<times> decimal \<times> PositionSide \<times> decimal) option"
    assume "p = None \<longrightarrow> clean t"
    then show "outcome (case p of None \<Rightarrow> ret (bar_result dep ev (Some did) D_HOLD None False None)
        | Some p \<Rightarrow> bnd (build_risk_context self dep ev tok wk cost pv (bypass \<or> flatten) p)
            (\<lambda>ctx. case evaluate ctx of None \<Rightarrow> place_order self dep ev did flatten cost pv ctx
               | Some rejection \<Rightarrow> reject_by_risk dep ev did rejection))
        (\<lambda>r s'. clean s' \<and> bpr_decision_id r = Some did) (\<lambda>_ _. True) t"
      using rest by (cases p) (auto simp: lands_def outcome_simps bar_result_def)
  qed simp
qed

lemma process_completed_bar_duplicate:
  assumes "emits_decision ev" and "get_decision_for_bar (dep_id dep) (fdr_bar_close_time ev) (ses_work s) = Inr (Some d)"
  shows "process_completed_bar self dep ev tok wk cost pv bypass flatten s =
    (Inr (bar_result dep ev (Some (dec_id d)) (dec_outcome d) None True None), s)"
  using assms by (simp add: process_completed_bar_def db_op_def on_part_def comp_defs)

lemma process_completed_bar_decides:
  assumes ev: "emits_decision ev" and wf: "wf_db (ses_work s)" and cl: "clean s"
    and run: "process_completed_bar self dep ev tok wk cost pv bypass flatten s = (Inr r, s')"
  shows "clean s' \<and> (\<exists>d. get_decision_for_bar (dep_id dep) (fdr_bar_close_time ev) (ses_work s') = Inr (Some d) \<and>
    bpr_decision_id r = Some (dec_id d))"
proof (cases "get_decision_for_bar (dep_id dep) (fdr_bar_close_time ev) (ses_work s)")
  case (Inl e)
  with run ev show ?thesis by (simp add: process_completed_bar_def db_op_def on_part_def comp_defs)
next
  case (Inr x)
  show ?thesis
  proof (cases x)
    case (Some d)
    with process_completed_bar_duplicate [OF ev] Inr run cl show ?thesis by (auto simp: bar_result_def)
  next
    case None
    define rest where "rest dec = (if fdr_signal_action ev = SIG_HOLD \<and> \<not> flatten then
        bnd (db_op (update_deployment_last_bar_close (dep_id dep) (fdr_bar_close_time ev))) (\<lambda>_.
        bnd commit (\<lambda>_. ret (bar_result dep ev (Some (dec_id dec)) D_HOLD None False None)))
      else decide_bar self dep ev tok wk cost pv bypass flatten (dec_id dec))" for dec :: ExecutionDecision
    have step: "bnd (record_decision dep ev) rest s = (Inr r, s')"
      using run ev Inr None
      by (simp add: process_completed_bar_def db_op_def on_part_def rest_def [abs_def] bnd_def reads_def)
    then obtain dec s1 where rd: "record_decision dep ev s = (Inr dec, s1)" and rr: "rest dec s1 = (Inr r, s')"
      by (auto simp: bnd_def split: prod.splits sum.splits)
    have dec1: "decided (dep_id dep, fdr_bar_close_time ev) (dec_id dec) s1"
      using wf rd by (rule record_decision_decided)
    have "succ (decided (dep_id dep, fdr_bar_close_time ev) (dec_id dec)) (rest dec)"
      by (auto simp: rest_def intro!: succ_intros history_intros)
    from succD [OF this dec1 rr]
    have dec2: "decided (dep_id dep, fdr_bar_close_time ev) (dec_id dec) s'" .
    have "lands (Some (dec_id dec)) (rest dec)"
    proof (cases "fdr_signal_action ev = SIG_HOLD \<and> \<not> flatten")
      case True
      then show ?thesis by (simp add: rest_def lands_def commit_def clean_def outcome_funs bar_result_def)
    next
      case False
      then have "rest dec = decide_bar self dep ev tok wk cost pv bypass flatten (dec_id dec)"
        unfolding rest_def by (rule if_not_P)
      then show ?thesis by (simp add: lands_decide_bar)
    qed
    from landsD [OF this rr] have "clean s' \<and> bpr_decision_id r = Some (dec_id dec)" .
    with decided_lookup [OF dec2] show ?thesis by metis
  qed
qed

text \<open>
  C8: once a run for a bar has returned, its decision is durable, and every later run for the
  same deployment and bar (any worker, any lease, flatten or not) returns the same decision
  as a duplicate and changes nothing.
\<close>

theorem bar_decided_once:
  assumes "emits_decision ev" and "wf_db (ses_work s)" and "clean s"
    and "process_completed_bar self dep ev tok wk cost pv bypass flatten s = (Inr r, s')"
    and "emits_decision ev2" and "fdr_bar_close_time ev2 = fdr_bar_close_time ev"
  shows "clean s' \<and> (\<exists>d. get_decision_for_bar (dep_id dep) (fdr_bar_close_time ev) (ses_durable s') = Inr (Some d) \<and>
      bpr_decision_id r = Some (dec_id d)) \<and>
    (\<exists>r2. process_completed_bar self2 dep ev2 tok2 wk2 cost2 pv2 bypass2 flatten2 s' = (Inr r2, s') \<and>
      bpr_duplicate r2 \<and> bpr_decision_id r2 = bpr_decision_id r \<and> bpr_order_id r2 = None)"
proof -
  from process_completed_bar_decides [OF assms(1-4)]
  obtain d where d: "clean s'" "get_decision_for_bar (dep_id dep) (fdr_bar_close_time ev) (ses_work s') = Inr (Some d)"
    "bpr_decision_id r = Some (dec_id d)" by blast
  with process_completed_bar_duplicate [OF assms(5), of dep s' d] assms(6)
  show ?thesis by (simp add: clean_def bar_result_def)
qed

theorem bar_decided_once_witness:
  "\<exists>r s' r2. process_completed_bar (ex_service []) ex_deployment (ex_signal\<lparr>fdr_signal_action := SIG_HOLD\<rparr>) ''t'' ''w''
      ex_cost 1 False False ex_session = (Inr r, s') \<and>
    process_completed_bar (ex_service []) ex_deployment ex_signal ''t2'' ''w2'' ex_cost 1 False False s' = (Inr r2, s') \<and>
    bpr_duplicate r2 \<and> bpr_decision_id r2 = bpr_decision_id r"
proof -
  let ?ev = "ex_signal\<lparr>fdr_signal_action := SIG_HOLD\<rparr>"
  have "isl (fst (process_completed_bar (ex_service []) ex_deployment ?ev ''t'' ''w'' ex_cost 1 False False ex_session)) = False"
    by code_simp
  from succeeds_run [of "process_completed_bar (ex_service []) ex_deployment ?ev ''t'' ''w'' ex_cost 1 False False", OF this]
  obtain r s' where run: "process_completed_bar (ex_service []) ex_deployment ?ev ''t'' ''w'' ex_cost 1 False False ex_session = (Inr r, s')"
    by blast
  have ev: "emits_decision ?ev" "emits_decision ex_signal" "fdr_bar_close_time ex_signal = fdr_bar_close_time ?ev"
    by (simp_all add: emits_decision_def ex_signal_def)
  have wf: "wf_db (ses_work ex_session)" and cl: "clean ex_session"
    by (simp_all add: ex_session_parts wf_ex_trading_db clean_def)
  from run bar_decided_once [OF ev(1) wf cl run ev(2,3), of "ex_service []" "''t2''" "''w2''" ex_cost 1 False False] show ?thesis
    by blast
qed

end
