(* ===== verification/Service_Placement.thy ===== *)
theory Service_Placement
  imports Service_Once
begin

text \<open>
  Placing an order, from the accepted plan to the settled outcome: the run of each stage, the
  outcome of a filled order, the state after a failed fill, and the atomicity of the durable book
  over the whole of a bar, on sessions that may hold uncommitted work.
\<close>

section \<open>Runs of the stages\<close>

lemma db_op_run: "m (ses_work s) = (r, db) \<Longrightarrow> db_op m s = (r, s\<lparr>ses_work := db\<rparr>)"
  by (simp add: db_op_def on_part_def)

definition with_intent :: "ExecutionOrder \<Rightarrow> exec_db \<Rightarrow> exec_db" where
  "with_intent ord db = db\<lparr>db_next_id := Suc (db_next_id db), db_orders := db_orders db @ [ord]\<rparr>"

definition intent_order ::
    "ExecutionDeployment \<Rightarrow> ForwardDecisionResult \<Rightarrow> uuid \<Rightarrow> bool \<Rightarrow> ExecutionSide \<Rightarrow> decimal \<Rightarrow> exec_db \<Rightarrow>
     ExecutionOrder" where
  "intent_order dep ev did flatten side qty db =
     the (case fst (create_execution_order_intent (dep_id dep) (Some did) (dep_broker_mode dep) side qty
       [(''flatten'', JBool flatten), (''bar_close_time'', JNum (of_int (fdr_bar_close_time ev)))] db) of
       Inr ord \<Rightarrow> Some ord | Inl _ \<Rightarrow> None)"

lemma intent_order_fields [simp]:
  "ord_id (intent_order dep ev did flatten side qty db) = db_next_id db"
  "ord_status (intent_order dep ev did flatten side qty db) = INTENT"
  "ord_side (intent_order dep ev did flatten side qty db) = side"
  "ord_quantity (intent_order dep ev did flatten side qty db) = qty"
  "ord_deployment_id (intent_order dep ev did flatten side qty db) = dep_id dep"
  "ord_broker_mode (intent_order dep ev did flatten side qty db) = dep_broker_mode dep"
  by (simp_all add: intent_order_def create_execution_order_intent_def session_add_def Let_def)

lemma create_intent_run:
  "create_execution_order_intent (dep_id dep) (Some did) (dep_broker_mode dep) side qty
     [(''flatten'', JBool flatten), (''bar_close_time'', JNum (of_int (fdr_bar_close_time ev)))] db =
   (Inr (intent_order dep ev did flatten side qty db),
    with_intent (intent_order dep ev did flatten side qty db) db)"
  by (simp add: intent_order_def with_intent_def create_execution_order_intent_def session_add_def Let_def)

lemma commit_intent_run:
  "commit_intent self dep ev did flatten side qty s =
    (let ord = intent_order dep ev did flatten side qty (ses_work s);
         db = with_intent ord (ses_work s) in
     if ''before_intent_commit'' \<in> set (svc_crash_checkpoints self)
     then (Inl (RuntimeError (''crash injected at '' @ ''before_intent_commit'')), s\<lparr>ses_work := db\<rparr>)
     else if ''after_intent_commit'' \<in> set (svc_crash_checkpoints self)
     then (Inl (RuntimeError (''crash injected at '' @ ''after_intent_commit'')),
           s\<lparr>ses_work := db, ses_durable := db\<rparr>)
     else (Inr ord, s\<lparr>ses_work := db, ses_durable := db\<rparr>))"
  by (simp add: commit_intent_def bnd_def db_op_def on_part_def create_intent_run maybe_raise_def commit_def
      modify_def throw_def ret_def Let_def)

lemma submit_to_broker_run:
  "submit_to_broker self req cost s =
    (let s1 = s\<lparr>ses_submitted := ses_submitted s @ [req]\<rparr> in
     case bk_submit_market_order (svc_broker self) req cost of
       Inl e \<Rightarrow> (Inl e, s1)
     | Inr sub \<Rightarrow>
         if ''after_broker_response'' \<in> set (svc_crash_checkpoints self)
         then (Inl (RuntimeError (''crash injected at '' @ ''after_broker_response'')), s1)
         else (Inr sub, s1))"
  by (simp add: submit_to_broker_def maybe_raise_def comp_defs Let_def split: sum.splits)

lemma with_intent_wf: "wf_db db \<Longrightarrow> wf_db (with_intent (intent_order dep ev did flatten side qty db) db)"
  using keepsD [OF order_ops_wf(1)] create_intent_run by (metis snd_conv)

lemma with_intent_order:
  "wf_db db \<Longrightarrow> ord_id ord = db_next_id db \<Longrightarrow> get_execution_order oid (with_intent ord db) =
     (if oid = db_next_id db then Some ord else get_execution_order oid db)"
  by (auto simp: with_intent_def get_execution_order_def get_row_append wf_db_defs pk_ok_fresh
      split: option.splits)

lemma with_intent_simps [simp]:
  "book (with_intent ord db) = book db" "db_decisions (with_intent ord db) = db_decisions db"
  "db_deployments (with_intent ord db) = db_deployments db"
  "db_accounts (with_intent ord db) = db_accounts db" "db_fills (with_intent ord db) = db_fills db"
  "db_ledger (with_intent ord db) = db_ledger db" "holding d (with_intent ord db) = holding d db"
  by (simp_all add: with_intent_def book_def holding_def open_position_def)

section \<open>Closing the bar\<close>

definition bar_closed :: "ExecutionDeployment \<Rightarrow> ForwardDecisionResult \<Rightarrow> uuid \<Rightarrow> DecisionOutcome \<Rightarrow> exec_db \<Rightarrow> bool" where
  "bar_closed dep ev did dout db \<longleftrightarrow>
     map_option dec_outcome (get_row dec_id did (db_decisions db)) = Some dout \<and>
     map_option dep_last_bar_close_time (get_execution_deployment (dep_id dep) db) = Some (Some (fdr_bar_close_time ev))"

lemma close_bar_run:
  assumes dec: "get_row dec_id did (db_decisions (ses_work s)) \<noteq> None"
    and dep: "get_execution_deployment (dep_id dep) (ses_work s) \<noteq> None"
  shows "\<exists>db'. close_bar dep ev did dout ctx s = (Inr (), s\<lparr>ses_work := db', ses_durable := db'\<rparr>) \<and>
    bar_closed dep ev did dout db' \<and> db_orders db' = db_orders (ses_work s) \<and> book db' = book (ses_work s)"
proof -
  obtain d where d: "get_row dec_id did (db_decisions (ses_work s)) = Some d" using dec by blast
  let ?db1 = "(ses_work s)\<lparr>db_decisions := upd_row dec_id did (\<lambda>d. d\<lparr>dec_outcome := dout,
    dec_context := (case ctx of None \<Rightarrow> dec_context d | Some c \<Rightarrow> c)\<rparr>) (db_decisions (ses_work s))\<rparr>"
  let ?db2 = "?db1\<lparr>db_deployments := upd_row dep_id (dep_id dep)
    (\<lambda>d. d\<lparr>dep_last_bar_close_time := Some (fdr_bar_close_time ev)\<rparr>) (db_deployments ?db1)\<rparr>"
  have 1: "update_execution_decision_outcome did dout ctx (ses_work s) = (Inr (), ?db1)"
    using d by (simp add: update_execution_decision_outcome_def comp_defs)
  have 2: "update_deployment_last_bar_close (dep_id dep) (fdr_bar_close_time ev) ?db1 = (Inr (), ?db2)"
    using dep by (auto simp: update_deployment_last_bar_close_def update_deployment_def comp_defs
        get_execution_deployment_def)
  have "close_bar dep ev did dout ctx s = (Inr (), s\<lparr>ses_work := ?db2, ses_durable := ?db2\<rparr>)"
    by (simp add: close_bar_def bnd_def db_op_def on_part_def 1 2 commit_def modify_def)
  moreover have "bar_closed dep ev did dout ?db2"
    using d dep by (auto simp: bar_closed_def get_execution_deployment_def get_upd_row)
  ultimately show ?thesis by (intro exI [of _ ?db2]) (simp add: book_def)
qed

section \<open>A filled order\<close>

lemma get_row_Some_trail:
  assumes "trail db db'" and "get_row dec_id did (db_decisions db) \<noteq> None"
  shows "get_row dec_id did (db_decisions db') \<noteq> None"
  using assms evolves_get_row [of decision_step "db_decisions db" "db_decisions db'" dec_id did]
  by (auto simp: trail_def decision_step_def)

lemma apply_fill_deployments [frames_intros]:
  "frames db_deployments (apply_fill acc d oid fill pv symbol reconciling)"
  by (auto simp: apply_fill_def replay_fill_def require_paper_account_def post_ledger_entries_def
      Let_def intro!: frames_intros)

lemma place_order_filled_run:
  fixes dep ev did flatten ctx
  defines "ord s \<equiv> intent_order dep ev did flatten (rc_side ctx) (rc_quantity ctx) (ses_work s)"
  assumes wf: "wf_db (ses_work s)" and cl: "clean s" and quiet: "svc_crash_checkpoints self = []"
    and sub: "bk_submit_market_order (svc_broker self) (order_request dep (ord s)) cost = Inr sub"
    and filled: "bsr_outcome sub = SO_FILLED" "bsr_fill sub = Some fill"
    and new: "\<not> recorded fill (ses_work s)"
    and acc: "get_paper_account (rc_paper_account_id ctx) (ses_work s) = Some a"
    and ok: "pred_option position_ok (holding (dep_id dep) (ses_work s))"
    and pos: "0 < fr_quantity fill" "0 < fr_price fill"
    and dec: "get_row dec_id did (db_decisions (ses_work s)) \<noteq> None"
    and row: "get_execution_deployment (dep_id dep) (ses_work s) \<noteq> None"
  shows "\<exists>s' a'. place_order self dep ev did flatten cost pv ctx s =
      (Inr (bar_result dep ev (Some did) D_ORDER_FILLED (Some (ord_id (ord s))) False None), s') \<and>
    clean s' \<and> ses_submitted s' = ses_submitted s @ [order_request dep (ord s)] \<and>
    bar_closed dep ev did D_ORDER_FILLED (ses_durable s') \<and>
    get_execution_order (ord_id (ord s)) (ses_durable s') = Some (filled_order (fr_filled_at fill) (ord s)) \<and>
    signed_quantity (holding (dep_id dep) (ses_durable s')) =
      signed_quantity (holding (dep_id dep) (ses_work s)) + signed_fill (fr_side fill) (fr_quantity fill) \<and>
    get_paper_account (rc_paper_account_id ctx) (ses_durable s') = Some a' \<and>
    (\<forall>mark. pa_cash_balance a' + marked_value (holding (dep_id dep) (ses_durable s')) mark pv =
       pa_cash_balance a + marked_value (holding (dep_id dep) (ses_work s)) mark pv
         + signed_fill (fr_side fill) (fr_quantity fill) * (mark - fr_price fill) * pv - fr_fee fill)"
proof -
  let ?o = "ord s" and ?d = "dep_id dep" and ?acc = "rc_paper_account_id ctx"
  let ?db1 = "with_intent ?o (ses_work s)"
  let ?s1 = "s\<lparr>ses_work := ?db1, ses_durable := ?db1\<rparr>"
  define s2 where "s2 = ?s1\<lparr>ses_submitted := ses_submitted s @ [order_request dep ?o]\<rparr>"
  have s2: "ses_work s2 = ?db1" "ses_submitted s2 = ses_submitted s @ [order_request dep ?o]"
    by (simp_all add: s2_def)
  have ci: "commit_intent self dep ev did flatten (rc_side ctx) (rc_quantity ctx) s = (Inr ?o, ?s1)"
    unfolding commit_intent_run by (simp add: quiet ord_def Let_def)
  have sb: "submit_to_broker self (order_request dep ?o) cost ?s1 = (Inr sub, s2)"
    by (simp add: submit_to_broker_run sub quiet s2_def)
  have wf1: "wf_db ?db1" unfolding ord_def using wf by (rule with_intent_wf)
  have hold1: "holding d' ?db1 = holding d' (ses_work s)" for d'
    by (rule holding_cong) (simp add: with_intent_def)
  have new1: "\<not> recorded fill ?db1" using new by (simp add: recorded_def with_intent_def)
  have acc1: "get_paper_account ?acc ?db1 = Some a" using acc by (simp add: get_paper_account_def with_intent_def)
  have ok1: "pred_option position_ok (holding ?d ?db1)" using ok by (simp add: hold1)
  have o1: "get_execution_order (ord_id ?o) ?db1 = Some ?o"
    using with_intent_order [OF wf] by (simp add: ord_def)
  obtain r db2 a' where af: "apply_fill ?acc ?d (ord_id ?o) fill pv (si_symbol (dep_identity dep)) False ?db1 = (Inr r, db2)"
    and a': "get_paper_account ?acc db2 = Some a'"
    and signed: "signed_quantity (holding ?d db2) =
      signed_quantity (holding ?d (ses_work s)) + signed_fill (fr_side fill) (fr_quantity fill)"
    and val: "\<forall>mark. pa_cash_balance a' + marked_value (holding ?d db2) mark pv =
       pa_cash_balance a + marked_value (holding ?d (ses_work s)) mark pv
         + signed_fill (fr_side fill) (fr_quantity fill) * (mark - fr_price fill) * pv - fr_fee fill"
    and o2: "get_execution_order (ord_id ?o) db2 = Some (filled_order (fr_filled_at fill) ?o)"
    using apply_fill_spec [OF wf1 new1 acc1 ok1 pos o1, of False pv "si_symbol (dep_identity dep)"]
    unfolding hold1 by (auto simp: ord_def)
  have "history ?db1 db2" using ledger_history(3) af by (rule stepsD)
  with wf1 have tr: "trail ?db1 db2" by (simp add: history_def)
  have dec2: "get_row dec_id did (db_decisions db2) \<noteq> None"
    by (rule get_row_Some_trail [OF tr]) (simp add: dec)
  have row2: "get_execution_deployment ?d db2 \<noteq> None"
    using row framesD [OF apply_fill_deployments af] by (simp add: get_execution_deployment_def)
  obtain db3 where cb: "close_bar dep ev did D_ORDER_FILLED None (s2\<lparr>ses_work := db2\<rparr>) =
      (Inr (), s2\<lparr>ses_work := db3, ses_durable := db3\<rparr>)"
    and closed: "bar_closed dep ev did D_ORDER_FILLED db3"
    and eq: "db_orders db3 = db_orders db2" "book db3 = book db2"
    using close_bar_run [of did "s2\<lparr>ses_work := db2\<rparr>" dep ev D_ORDER_FILLED None] dec2 row2 by auto
  have pf: "persist_fill self dep ev did (ord_id ?o) ?acc fill pv s2 =
      (Inr (), s2\<lparr>ses_work := db3, ses_durable := db3\<rparr>)"
    by (simp add: persist_fill_def bnd_def db_op_def on_part_def s2 af maybe_raise_def quiet ret_def cb)
  have run: "place_order self dep ev did flatten cost pv ctx s =
      (Inr (bar_result dep ev (Some did) D_ORDER_FILLED (Some (ord_id ?o)) False None),
       s2\<lparr>ses_work := db3, ses_durable := db3\<rparr>)"
    by (simp add: place_order_def bnd_def ci sb settle_submission_def filled accepted_def settle_filled_def
        catch_def pf ret_def)
  have "holding ?d db3 = holding ?d db2" "get_paper_account ?acc db3 = get_paper_account ?acc db2"
    using eq by (auto simp: book_def get_paper_account_def intro: holding_cong)
  with run closed eq o2 a' signed val show ?thesis
    by (simp add: clean_def get_execution_order_def s2)
qed

section \<open>A fill that cannot be persisted\<close>

text \<open>\<^const>\<open>persist_fill\<close> publishes nothing before its last statement.\<close>

lemma persist_fill_raises:
  assumes "persist_fill self dep ev did oid acc fill pv s = (Inl e, s')"
  shows "ses_durable s' = ses_durable s \<and> ses_submitted s' = ses_submitted s"
proof -
  have leaf: "ses_durable t' = ses_durable t \<and> ses_submitted t' = ses_submitted t"
    if "db_op m t = (r, t')" for m :: "'x dbm" and t r t'
    using that by (auto simp: db_op_def on_part_def split: prod.splits)
  have leaf2: "ses_durable t' = ses_durable t \<and> ses_submitted t' = ses_submitted t"
    if "db_op m t = (r, t')" for m :: "unit dbm" and t r t'
    using that by (auto simp: db_op_def on_part_def split: prod.splits)
  show ?thesis
    using assms
    by (auto simp: persist_fill_def close_bar_def bnd_def maybe_raise_def commit_def modify_def throw_def
        ret_def split: prod.splits sum.splits if_splits dest!: leaf leaf2)
qed

definition failed_order :: "ExecutionOrder \<Rightarrow> ExecutionOrder" where
  "failed_order ord = ord\<lparr>ord_status := UNKNOWN, ord_reconciliation_state := PENDING,
     ord_rejection_reason := Some ''fill persistence failed''\<rparr>"

lemma mark_fill_failed_run:
  assumes ord: "get_execution_order oid (ses_durable s) = Some ord" and st: "ord_status ord = INTENT"
    and dec: "get_row dec_id did (db_decisions (ses_durable s)) \<noteq> None"
  shows "\<exists>db'. mark_fill_failed oid did s = (Inr (), s\<lparr>ses_work := db', ses_durable := db'\<rparr>) \<and>
    book db' = book (ses_durable s) \<and> get_execution_order oid db' = Some (failed_order ord) \<and>
    (\<forall>i. i \<noteq> oid \<longrightarrow> get_execution_order i db' = get_execution_order i (ses_durable s)) \<and>
    map_option dec_outcome (get_row dec_id did (db_decisions db')) = Some D_ORDER_UNKNOWN"
proof -
  let ?db = "ses_durable s"
  have "UNKNOWN \<in> set (ORDER_TRANSITIONS (ord_status ord))" by (simp add: st)
  note run1 = transition_execution_order_run [OF ord this, of "Some PENDING" None
      "Some ''fill persistence failed''" None None]
  define db1 where "db1 = snd (transition_execution_order oid UNKNOWN (Some PENDING) None
    (Some ''fill persistence failed'') None None ?db)"
  note db1 = db1_def [unfolded run1 snd_conv]
  let ?db2 = "db1\<lparr>db_decisions := upd_row dec_id did (\<lambda>d. d\<lparr>dec_outcome := D_ORDER_UNKNOWN,
    dec_context := dec_context d\<rparr>) (db_decisions db1)\<rparr>"
  have decs: "db_decisions db1 = db_decisions ?db" by (simp add: db1)
  have run2: "update_execution_decision_outcome did D_ORDER_UNKNOWN None db1 = (Inr (), ?db2)"
    using dec by (auto simp: update_execution_decision_outcome_def comp_defs decs)
  have 1: "transition_execution_order oid UNKNOWN (Some PENDING) None
      (Some ''fill persistence failed'') None None ?db = (Inr (), db1)"
    by (simp add: run1 db1)
  have "mark_fill_failed oid did s = (Inr (), s\<lparr>ses_work := ?db2, ses_durable := ?db2\<rparr>)"
    unfolding mark_fill_failed_def with_begin_def bnd_def catch_def rollback_def modify_def commit_def
      db_op_def on_part_def ret_def
    by (simp add: 1 run2)
  moreover have "get_execution_order i ?db2 = (if i = oid then Some (failed_order ord) else get_execution_order i ?db)" for i
    using ord by (simp add: db1 get_execution_order_def get_upd_row failed_order_def upd_opt_def)
  moreover have "book ?db2 = book ?db" by (simp add: db1 book_def)
  moreover have "map_option dec_outcome (get_row dec_id did (db_decisions ?db2)) = Some D_ORDER_UNKNOWN"
    using dec by (auto simp: decs get_upd_row)
  ultimately show ?thesis by (intro exI [of _ ?db2]) simp
qed

lemma settle_filled_failure:
  assumes ord: "get_execution_order oid (ses_durable s) = Some ord" and st: "ord_status ord = INTENT"
    and dec: "get_row dec_id did (db_decisions (ses_durable s)) \<noteq> None"
    and fail: "persist_fill self dep ev did oid acc fill pv s = (Inl e, s1)"
  shows "\<exists>s'. settle_filled self dep ev did oid acc fill pv s = (Inl e, s') \<and> clean s' \<and>
    ses_submitted s' = ses_submitted s \<and> book (ses_durable s') = book (ses_durable s) \<and>
    get_execution_order oid (ses_durable s') = Some (failed_order ord) \<and>
    (\<forall>i. i \<noteq> oid \<longrightarrow> get_execution_order i (ses_durable s') = get_execution_order i (ses_durable s)) \<and>
    map_option dec_outcome (get_row dec_id did (db_decisions (ses_durable s'))) = Some D_ORDER_UNKNOWN"
proof -
  from persist_fill_raises [OF fail] have s1: "ses_durable s1 = ses_durable s" "ses_submitted s1 = ses_submitted s"
    by simp_all
  from mark_fill_failed_run [of oid s1 ord did] ord st dec obtain db' where
    run: "mark_fill_failed oid did s1 = (Inr (), s1\<lparr>ses_work := db', ses_durable := db'\<rparr>)"
    and facts: "book db' = book (ses_durable s)" "get_execution_order oid db' = Some (failed_order ord)"
      "\<forall>i. i \<noteq> oid \<longrightarrow> get_execution_order i db' = get_execution_order i (ses_durable s)"
      "map_option dec_outcome (get_row dec_id did (db_decisions db')) = Some D_ORDER_UNKNOWN"
    by (auto simp: s1)
  have "settle_filled self dep ev did oid acc fill pv s = (Inl e, s1\<lparr>ses_work := db', ses_durable := db'\<rparr>)"
    by (simp add: settle_filled_def bnd_def catch_def fail run throw_def)
  with facts show ?thesis by (auto simp: clean_def s1)
qed

text \<open>
  C10: when persisting a broker's fill fails for whatever reason, the failure is re-raised, and
  the durable state is: the book exactly as before the submission, the order UNKNOWN and
  pending reconciliation, every other order untouched, the decision marked order-unknown.
\<close>

theorem failed_fill_becomes_unknown:
  assumes "get_execution_order oid (ses_durable s) = Some ord" and "ord_status ord = INTENT"
    and "get_row dec_id did (db_decisions (ses_durable s)) \<noteq> None"
    and "persist_fill self dep ev did oid acc fill pv s = (Inl e, s1)"
  shows "\<exists>s'. settle_filled self dep ev did oid acc fill pv s = (Inl e, s') \<and> clean s' \<and>
    ses_submitted s' = ses_submitted s \<and> book (ses_durable s') = book (ses_durable s) \<and>
    get_execution_order oid (ses_durable s') = Some (failed_order ord) \<and>
    (\<forall>i. i \<noteq> oid \<longrightarrow> get_execution_order i (ses_durable s') = get_execution_order i (ses_durable s)) \<and>
    map_option dec_outcome (get_row dec_id did (db_decisions (ses_durable s'))) = Some D_ORDER_UNKNOWN"
  using assms by (rule settle_filled_failure)

theorem failed_fill_becomes_unknown_witness:
  "let db = (ex_db [ex_order INTENT NOT_APPLICABLE])\<lparr>db_decisions := [ex_decision]\<rparr>;
       s = \<lparr>ses_work = db, ses_durable = db, ses_submitted = []\<rparr>
   in \<exists>e s'. settle_filled (ex_service [''before_fill_commit'']) ex_deployment ex_signal 0 2 0 ex_fill 1 s = (Inl e, s') \<and>
     book (ses_durable s') = book db \<and>
     map_option ord_status (get_execution_order 2 (ses_durable s')) = Some UNKNOWN"
proof -
  let ?db = "(ex_db [ex_order INTENT NOT_APPLICABLE])\<lparr>db_decisions := [ex_decision]\<rparr>"
  let ?s = "\<lparr>ses_work = ?db, ses_durable = ?db, ses_submitted = []\<rparr>"
  let ?persist = "persist_fill (ex_service [''before_fill_commit'']) ex_deployment ex_signal 0 2 0 ex_fill 1"
  have "isl (fst (?persist ?s))" by code_simp
  then obtain e s1 where run: "?persist ?s = (Inl e, s1)" by (cases "?persist ?s"; cases "fst (?persist ?s)") auto
  have ord: "get_execution_order 2 (ses_durable ?s) = Some (ex_order INTENT NOT_APPLICABLE)"
    and st: "ord_status (ex_order INTENT NOT_APPLICABLE) = INTENT"
    and dec: "get_row dec_id 0 (db_decisions (ses_durable ?s)) \<noteq> None"
    by (simp_all add: get_execution_order_def ex_decision_def get_row_def ex_defs)
  from failed_fill_becomes_unknown [OF ord st dec run] show ?thesis
    by (auto simp: Let_def failed_order_def)
qed

section \<open>Atomicity of the durable book\<close>

text \<open>
  The two durable databases a placement started at \<open>db\<close> can leave: order \<open>oid\<close> is stored and not
  filled and the book is the old one, or the order is filled and the book is the old one
  with the fill booked. No other order changes in either.
\<close>

definition unfilled :: "uuid \<Rightarrow> exec_db \<Rightarrow> bool" where
  "unfilled oid db = (case get_execution_order oid db of None \<Rightarrow> False | Some ord \<Rightarrow> ord_status ord \<noteq> FILLED)"

definition other_orders_kept :: "uuid \<Rightarrow> exec_db \<Rightarrow> exec_db \<Rightarrow> bool" where
  "other_orders_kept oid db db' \<longleftrightarrow> (\<forall>i. i \<noteq> oid \<longrightarrow> get_execution_order i db' = get_execution_order i db)"

definition unbooked :: "uuid \<Rightarrow> exec_db \<Rightarrow> exec_db \<Rightarrow> bool" where
  "unbooked oid db db' \<longleftrightarrow> unfilled oid db' \<and> book db' = book db \<and> other_orders_kept oid db db'"

definition filled_as :: "uuid \<Rightarrow> uuid \<Rightarrow> FillRecord \<Rightarrow> decimal \<Rightarrow> uuid \<Rightarrow> exec_db \<Rightarrow> exec_db \<Rightarrow> bool" where
  "filled_as acc d fill pv oid db db' \<longleftrightarrow>
     map_option ord_status (get_execution_order oid db') = Some FILLED \<and>
     (\<exists>t. booked acc d fill pv t db db') \<and> other_orders_kept oid db db'"

lemma unbooked_frames:
  "frames db_orders m \<Longrightarrow> frames book m \<Longrightarrow> keeps (unbooked oid db) m"
  by (simp add: frames_def keeps_def unbooked_def unfilled_def other_orders_kept_def get_execution_order_def)

lemma unbooked_transition:
  "st \<noteq> FILLED \<Longrightarrow> keeps (unbooked oid db) (transition_execution_order oid st rs ext rej sub com)"
  by (rule keepsI)
     (auto simp: unbooked_def unfilled_def other_orders_kept_def transition_execution_order_def update_order_def
        comp_defs get_execution_order_def get_upd_row book_def split: option.splits sum.splits)

lemma unbooked_close_bar: "keeps (both (unbooked oid db)) (close_bar dep ev did dout ctx)"
  by (auto simp: close_bar_def intro!: keeps_intros unbooked_frames frames_intros)

lemma unbooked_settle:
  "keeps (both (unbooked oid db)) (settle_unknown dep ev did oid sub)"
  "keeps (both (unbooked oid db)) (settle_rejected dep ev did oid sub now)"
  by (auto simp: settle_unknown_def settle_rejected_def
      intro!: keeps_intros unbooked_close_bar unbooked_transition)

lemma unbooked_mark_fill_failed:
  assumes "unbooked oid db (ses_durable s)"
  shows "both (unbooked oid db) (snd (mark_fill_failed oid did s))"
proof -
  let ?m = "with_begin (bnd (db_op (transition_execution_order oid UNKNOWN (Some PENDING) None
      (Some ''fill persistence failed'') None None)) (\<lambda>_.
      db_op (update_execution_decision_outcome did D_ORDER_UNKNOWN None)))"
  have k: "keeps (both (unbooked oid db)) ?m"
    by (auto intro!: keeps_intros unbooked_transition unbooked_frames frames_intros)
  have "both (unbooked oid db) (s\<lparr>ses_work := ses_durable s\<rparr>)" using assms by (simp add: both_def)
  from keepsD [OF k this] show ?thesis
    by (simp add: mark_fill_failed_def bnd_def rollback_def modify_def)
qed

lemma booked_from_intent:
  "booked acc d fill pv t (with_intent ord db) db' \<Longrightarrow> booked acc d fill pv t db db'"
  unfolding booked_def by (simp only: with_intent_simps)

lemma frames_work_db_op:
  assumes "frames db_orders m" and "frames book m"
  shows "frames (\<lambda>t. (db_orders (ses_work t), book (ses_work t))) (db_op m)"
  using assms by (simp add: frames_def db_op_def on_part_def split_def)

lemma close_bar_commits:
  assumes cb: "close_bar dep ev did dout ctx s = (Inr (), s')"
  shows "db_orders (ses_durable s') = db_orders (ses_work s)" and "book (ses_durable s') = book (ses_work s)"
proof -
  have "frames (\<lambda>t. (db_orders (ses_work t), book (ses_work t))) (close_bar dep ev did dout ctx)"
    unfolding close_bar_def by (intro frames_bnd frames_work_db_op frames_intros) (simp add: commit_def frames_modify)
  from framesD [OF this cb] have "db_orders (ses_work s') = db_orders (ses_work s)" "book (ses_work s') = book (ses_work s)"
    by simp_all
  moreover have "ses_durable s' = ses_work s'"
    using cb by (auto simp: close_bar_def bnd_def commit_def modify_def split: prod.splits sum.splits)
  ultimately show "db_orders (ses_durable s') = db_orders (ses_work s)" and "book (ses_durable s') = book (ses_work s)"
    by simp_all
qed

text \<open>The session between the committed intent and the settled order.\<close>

definition intent_stored :: "ExecutionOrder \<Rightarrow> exec_db \<Rightarrow> session \<Rightarrow> bool" where
  "intent_stored ord db s \<longleftrightarrow> wf_db db \<and> wf_db (ses_work s) \<and> ord_id ord = db_next_id db \<and> ord_status ord = INTENT \<and>
     ses_work s = with_intent ord db \<and> ses_durable s = with_intent ord db"

lemma intent_stored_order:
  assumes "intent_stored ord db s"
  shows "get_execution_order i (ses_work s) = (if i = ord_id ord then Some ord else get_execution_order i db)"
  using assms with_intent_order by (auto simp: intent_stored_def)

lemma intent_stored_unbooked:
  assumes "intent_stored ord db s"
  shows "both (unbooked (ord_id ord) db) s"
  using assms intent_stored_order [OF assms]
  by (auto simp: both_def unbooked_def unfilled_def other_orders_kept_def intent_stored_def)

lemma persist_fill_settled:
  assumes st: "intent_stored ord db s"
    and run: "persist_fill self dep ev did (ord_id ord) acc fill pv s = (Inr (), s')"
  shows "unbooked (ord_id ord) db (ses_durable s') \<or> filled_as acc (dep_id dep) fill pv (ord_id ord) db (ses_durable s')"
proof -
  let ?oid = "ord_id ord"
  let ?af = "apply_fill acc (dep_id dep) ?oid fill pv (si_symbol (dep_identity dep)) False"
  from run obtain r db2 where af: "?af (ses_work s) = (Inr r, db2)"
    and cb: "close_bar dep ev did D_ORDER_FILLED None (s\<lparr>ses_work := db2\<rparr>) = (Inr (), s')"
    by (auto simp: persist_fill_def bnd_def db_op_def on_part_def maybe_raise_def ret_def throw_def
        split: prod.splits sum.splits if_splits)
  from close_bar_commits [OF cb]
  have dur: "db_orders (ses_durable s') = db_orders db2" "book (ses_durable s') = book db2" by simp_all
  have get: "get_execution_order i (ses_durable s') = get_execution_order i db2" for i
    by (simp add: get_execution_order_def dur)
  have o1: "get_execution_order ?oid (ses_work s) = Some ord" using intent_stored_order [OF st] by simp
  from st have wf: "wf_db (ses_work s)" unfolding intent_stored_def by blast
  then show ?thesis
  proof (cases rule: apply_fill_cases [where fill = fill and acc = acc and d = "dep_id dep" and oid = ?oid and
        pv = pv and symbol = "si_symbol (dep_identity dep)" and reconciling = False])
    case (replay f)
    with af framesD [OF replay_fill_reads] have "db2 = ses_work s" by metis
    then have "unbooked ?oid db (ses_durable s')"
      using intent_stored_unbooked [OF st]
      by (simp add: both_def unbooked_def unfilled_def other_orders_kept_def get dur)
    then show ?thesis ..
  next
    case (refused e)
    with af show ?thesis by simp
  next
    case (booked a db1' t r1)
    have o1': "get_execution_order i db1' = get_execution_order i (ses_work s)" for i
      using booked(5) by (simp add: get_execution_order_def)
    have db2: "db2 = db1'\<lparr>db_orders := upd_row ord_id ?oid (filled_order (fr_filled_at fill)) (db_orders db1')\<rparr>"
      using booked(6) af complete_order_run [of ?oid db1' ord False "fr_filled_at fill"] o1 o1' st
      by (simp add: bnd_def ret_def intent_stored_def)
    have "booked acc (dep_id dep) fill pv t (ses_work s) (ses_durable s')"
      by (rule booked_book_cong [OF _ booked(4)]) (simp only: dur, simp add: db2 book_def)
    with st booked_from_intent have "booked acc (dep_id dep) fill pv t db (ses_durable s')"
      unfolding intent_stored_def by metis
    moreover have "get_execution_order i db2 =
        (if i = ?oid then Some (filled_order (fr_filled_at fill) ord) else get_execution_order i db)" for i
      using o1' [of i] intent_stored_order [OF st, of i]
      by (auto simp: db2 get_execution_order_def get_upd_row filled_order_def)
    ultimately have "filled_as acc (dep_id dep) fill pv ?oid db (ses_durable s')"
      by (auto simp: filled_as_def other_orders_kept_def get filled_order_def)
    then show ?thesis ..
  qed
qed

lemma settle_submission_settled:
  assumes st: "intent_stored ord db s"
    and run: "settle_submission self dep ev did (ord_id ord) acc sub pv s = (r, s')"
  shows "unbooked (ord_id ord) db (ses_durable s') \<or>
    (\<exists>fill. bsr_fill sub = Some fill \<and> filled_as acc (dep_id dep) fill pv (ord_id ord) db (ses_durable s') \<and>
       r = Inr (bar_result dep ev (Some did) D_ORDER_FILLED (Some (ord_id ord)) False None))"
proof -
  let ?oid = "ord_id ord" and ?fill = "the (bsr_fill sub)"
  note start = intent_stored_unbooked [OF st]
  consider (unk) "settle_unknown dep ev did ?oid sub s = (r, s')"
    | (rej) "settle_rejected dep ev did ?oid sub (svc_clock self) s = (r, s')"
    | (fil) "bsr_fill sub = Some ?fill" "settle_filled self dep ev did ?oid acc ?fill pv s = (r, s')"
    using run by (auto simp: settle_submission_def split: if_splits)
  then show ?thesis
  proof cases
    case unk
    then have "both (unbooked ?oid db) s'" using keepsD [OF unbooked_settle(1) start] by (metis snd_conv)
    then show ?thesis by (simp add: both_def)
  next
    case rej
    then have "both (unbooked ?oid db) s'" using keepsD [OF unbooked_settle(2) start] by (metis snd_conv)
    then show ?thesis by (simp add: both_def)
  next
    case fil
    let ?pf = "persist_fill self dep ev did ?oid acc ?fill pv"
    obtain x s1 where pf: "?pf s = (x, s1)" by (cases "?pf s")
    show ?thesis
    proof (cases x)
      case (Inl e)
      with pf have "ses_durable s1 = ses_durable s" using persist_fill_raises by blast
      with start have "unbooked ?oid db (ses_durable s1)" by (simp add: both_def)
      from unbooked_mark_fill_failed [OF this, of did] have "both (unbooked ?oid db) s'"
        using fil pf Inl
        by (auto simp: settle_filled_def bnd_def catch_def throw_def split: prod.splits sum.splits)
      then show ?thesis by (simp add: both_def)
    next
      case (Inr u)
      then have "?pf s = (Inr (), s1)" using pf by simp
      from persist_fill_settled [OF st this] show ?thesis
        using fil pf Inr by (auto simp: settle_filled_def bnd_def catch_def ret_def)
    qed
  qed
qed

text \<open>
  What processing a bar may have done by the time it ends in \<open>(r, s')\<close>, relative to the working
  database \<open>db\<close> and the log \<open>l\<close> it started from: placed the order \<open>oid\<close>, which the broker has
  been sent at most once, and either left it unfilled with the book as it was, or
  returned with it filled and the broker's own fill booked.
\<close>

definition placed ::
    "ExecutionService \<Rightarrow> ExecutionDeployment \<Rightarrow> PaperCostConfig \<Rightarrow> decimal \<Rightarrow> uuid \<Rightarrow> exec_db \<Rightarrow> MarketOrderRequest list \<Rightarrow>
     exec_error + BarProcessResult \<Rightarrow> session \<Rightarrow> bool" where
  "placed self dep cost pv oid db l r s' \<longleftrightarrow>
     get_execution_order oid db = None \<and>
     (\<exists>reqs. ses_submitted s' = l @ reqs \<and>
       (length reqs \<le> 1 \<and> list_all (\<lambda>req. mor_order_id req = oid) reqs \<and> unbooked oid db (ses_durable s') \<or>
        (\<exists>req sub fill res. reqs = [req] \<and> mor_order_id req = oid \<and>
           bk_submit_market_order (svc_broker self) req cost = Inr sub \<and> bsr_fill sub = Some fill \<and>
           filled_as (dep_paper_account_id dep) (dep_id dep) fill pv oid db (ses_durable s') \<and>
           r = Inr res \<and> bpr_order_id res = Some oid \<and> bpr_outcome res = D_ORDER_FILLED)))"

lemma place_order_settled:
  fixes dep ev did flatten ctx
  assumes wf: "wf_db (ses_work s)" and acc: "rc_paper_account_id ctx = dep_paper_account_id dep"
    and run: "place_order self dep ev did flatten cost pv ctx s = (r, s')"
  shows "ses_durable s' = ses_durable s \<and> ses_submitted s' = ses_submitted s \<or>
    placed self dep cost pv (db_next_id (ses_work s)) (ses_work s) (ses_submitted s) r s'"
proof -
  let ?db = "ses_work s" and ?l = "ses_submitted s"
  let ?o = "intent_order dep ev did flatten (rc_side ctx) (rc_quantity ctx) ?db"
  let ?db1 = "with_intent ?o ?db" and ?oid = "db_next_id ?db" and ?req = "order_request dep ?o"
  let ?s1 = "s\<lparr>ses_work := ?db1, ses_durable := ?db1\<rparr>"
  have fresh: "get_execution_order ?oid ?db = None"
    using wf by (simp add: get_execution_order_def wf_db_defs pk_ok_fresh)
  have st: "intent_stored ?o ?db t" if "ses_work t = ?db1" "ses_durable t = ?db1" for t
    using that wf with_intent_wf by (simp add: intent_stored_def)
  have unb: "unbooked ?oid ?db ?db1" using intent_stored_unbooked [OF st, of ?s1] by (simp add: both_def)
  have req: "mor_order_id ?req = ?oid" by (simp add: order_request_def)
  show ?thesis
  proof (cases "commit_intent self dep ev did flatten (rc_side ctx) (rc_quantity ctx) s = (Inr ?o, ?s1)")
    case False
    with run show ?thesis
      using unb fresh
      by (auto simp: place_order_def bnd_def commit_intent_run placed_def Let_def split: if_splits)
  next
    case ci: True
    obtain x s2 where sb: "submit_to_broker self ?req cost ?s1 = (x, s2)" by (cases "submit_to_broker self ?req cost ?s1")
    then have s2: "ses_work s2 = ?db1" "ses_durable s2 = ?db1" "ses_submitted s2 = ?l @ [?req]"
      and bk: "x = Inr sub \<Longrightarrow> bk_submit_market_order (svc_broker self) ?req cost = Inr sub" for sub
      by (auto simp: submit_to_broker_run Let_def split: sum.splits if_splits)
    show ?thesis
    proof (cases x)
      case (Inl e)
      with run ci sb s2 unb fresh req show ?thesis by (simp add: place_order_def bnd_def placed_def)
    next
      case (Inr sub)
      then have ss: "settle_submission self dep ev did (ord_id ?o) (dep_paper_account_id dep) sub pv s2 = (r, s')"
        using run ci sb by (simp add: place_order_def bnd_def acc)
      have "ses_submitted s' = ?l @ [?req]" using framesD [OF stages_submitted(7) ss] s2(3) by simp
      with settle_submission_settled [OF st [OF s2(1,2)] ss] bk [OF Inr] fresh req show ?thesis
        by (auto simp: placed_def bar_result_def)
    qed
  qed
qed

section \<open>The bar as a whole\<close>

text \<open>
  The sessions a bar goes through before an order is placed: the orders, the book and the log
  are those of the start, and the durable database is the one of the start or holds
  the working orders and book of the start. The starting session may hold uncommitted work.
\<close>

definition undecided :: "session \<Rightarrow> session \<Rightarrow> bool" where
  "undecided s t \<longleftrightarrow> wf_db (ses_work t) \<and> gate_view (ses_work t) = gate_view (ses_work s) \<and>
     ses_submitted t = ses_submitted s \<and>
     (ses_durable t = ses_durable s \<or>
      db_orders (ses_durable t) = db_orders (ses_work s) \<and> book (ses_durable t) = book (ses_work s))"

lemma undecided_db_op: "keeps wf_db m \<Longrightarrow> frames gate_view m \<Longrightarrow> keeps (undecided s) (db_op m)"
  unfolding db_op_def
  by (rule keeps_on_part [where Q = "\<lambda>db. wf_db db \<and> gate_view db = gate_view (ses_work s)"])
     (auto simp: undecided_def frames_def keeps_def)

lemma undecided_commit: "keeps (undecided s) commit"
  by (auto simp: commit_def undecided_def gate_view_def intro!: keeps_modify)

lemmas undecided_intros = undecided_db_op undecided_commit

lemma undecided_stages:
  "keeps (undecided s) (record_decision dep ev)"
  "keeps (undecided s) (close_bar dep ev did dout ctx)"
  "keeps (undecided s) (plan_order dep ev did flatten)"
  "keeps (undecided s) (build_risk_context self dep ev tok wk cost pv bypass plan)"
  "keeps (undecided s) (reject_by_risk dep ev did rejection)"
  by (auto simp: service_stage_defs intro!: keeps_intros undecided_intros frames_intros)

lemma risk_context_account:
  "outcome (build_risk_context self dep ev tok wk cost pv bypass plan)
    (\<lambda>ctx _. rc_paper_account_id ctx = dep_paper_account_id dep) (\<lambda>_ _. True) s"
proof -
  obtain side qty ps pq where plan: "plan = (side, qty, ps, pq)" by (cases plan)
  have "get_paper_account i db = Some a \<Longrightarrow> pa_id a = i" for i db a
    by (auto simp: get_paper_account_def dest: get_row_SomeD)
  then show ?thesis
    unfolding plan build_risk_context_def db_op_def require_paper_account_def Let_def
    by (auto simp: outcome_simps outcome_control_state Let_def split: option.splits sum.splits
        intro!: outcome_triv)
qed

text \<open>A computation that, from a state in \<open>P\<close>, ends in \<open>Q\<close> whether it returns or raises.\<close>

definition ends :: "('s \<Rightarrow> bool) \<Rightarrow> (exec_error + 'a \<Rightarrow> 's \<Rightarrow> bool) \<Rightarrow> ('s, 'a) comp \<Rightarrow> bool" where
  "ends P Q m \<longleftrightarrow> (\<forall>s r s'. P s \<longrightarrow> m s = (r, s') \<longrightarrow> Q r s')"

lemma ends_keeps: "keeps P m \<Longrightarrow> (\<And>r t. P t \<Longrightarrow> Q r t) \<Longrightarrow> ends P Q m"
  unfolding ends_def keeps_def by (metis snd_conv)

lemma ends_bnd:
  assumes m: "keeps P m" and err: "\<And>e t. P t \<Longrightarrow> Q (Inl e) t"
    and val: "\<And>s. P s \<Longrightarrow> outcome m (\<lambda>x _. R x) (\<lambda>_ _. True) s" and k: "\<And>x. R x \<Longrightarrow> ends P Q (k x)"
  shows "ends P Q (bnd m k)"
  unfolding ends_def
proof (intro allI impI)
  fix s r s' assume s: "P s" and run: "bnd m k s = (r, s')"
  obtain x t where mt: "m s = (x, t)" by (cases "m s")
  from keepsD [OF m s] mt have t: "P t" by simp
  show "Q r s'"
  proof (cases x)
    case (Inl e)
    with run mt have "r = Inl e" "s' = t" by (auto simp: bnd_def)
    with err [OF t] show ?thesis by simp
  next
    case (Inr y)
    with mt val [OF s] have "R y" by (simp add: outcome_def)
    with k have "ends P Q (k y)" .
    with t run mt Inr show ?thesis by (auto simp: ends_def bnd_def)
  qed
qed

lemmas ends_seq = ends_bnd [where R = "\<lambda>_. True", OF _ _ outcome_True]

definition bar_outcome ::
    "ExecutionService \<Rightarrow> ExecutionDeployment \<Rightarrow> PaperCostConfig \<Rightarrow> decimal \<Rightarrow> session \<Rightarrow>
     exec_error + BarProcessResult \<Rightarrow> session \<Rightarrow> bool" where
  "bar_outcome self dep cost pv s r s' \<longleftrightarrow>
     ses_submitted s' = ses_submitted s \<and>
       (ses_durable s' = ses_durable s \<or>
        db_orders (ses_durable s') = db_orders (ses_work s) \<and> book (ses_durable s') = book (ses_work s)) \<or>
     (\<exists>oid. placed self dep cost pv oid (ses_work s) (ses_submitted s) r s')"

lemma undecided_outcome: "undecided s t \<Longrightarrow> bar_outcome self dep cost pv s r t"
  by (auto simp: undecided_def bar_outcome_def)

lemma placed_cong:
  assumes "gate_view db' = gate_view db" and "placed self dep cost pv oid db' l r s'"
  shows "placed self dep cost pv oid db l r s'"
proof -
  have o: "get_execution_order i db' = get_execution_order i db" for i
    using assms(1) by (simp add: gate_view_def get_execution_order_def)
  have b: "book db' = book db" using assms(1) by (simp add: gate_view_def)
  then have bk: "booked acc d fill pv t db' x = booked acc d fill pv t db x" for acc d fill t x
    by (simp add: booked_def book_def holding_def open_position_def)
  show ?thesis
    using assms(2) by (simp add: placed_def unbooked_def filled_as_def other_orders_kept_def o b bk)
qed

lemma place_order_ends:
  assumes "rc_paper_account_id ctx = dep_paper_account_id dep"
  shows "ends (undecided s) (bar_outcome self dep cost pv s) (place_order self dep ev did flatten cost pv ctx)"
  unfolding ends_def
proof (intro allI impI)
  fix t r t' assume t: "undecided s t" and run: "place_order self dep ev did flatten cost pv ctx t = (r, t')"
  from t have wf: "wf_db (ses_work t)" and gv: "gate_view (ses_work t) = gate_view (ses_work s)"
    and l: "ses_submitted t = ses_submitted s"
    by (simp_all add: undecided_def)
  from place_order_settled [OF wf assms run] show "bar_outcome self dep cost pv s r t'"
  proof
    assume "ses_durable t' = ses_durable t \<and> ses_submitted t' = ses_submitted t"
    with t show ?thesis by (auto simp: undecided_def bar_outcome_def)
  next
    assume "placed self dep cost pv (db_next_id (ses_work t)) (ses_work t) (ses_submitted t) r t'"
    from placed_cong [OF gv this] show ?thesis by (auto simp: bar_outcome_def l)
  qed
qed

lemma decide_bar_ends:
  "ends (undecided s) (bar_outcome self dep cost pv s) (decide_bar self dep ev tok wk cost pv bypass flatten did)"
proof -
  have rest: "ends (undecided s) (bar_outcome self dep cost pv s)
      (bnd (build_risk_context self dep ev tok wk cost pv (bypass \<or> flatten) p)
        (\<lambda>ctx. case evaluate ctx of Some rejection \<Rightarrow> reject_by_risk dep ev did rejection
           | None \<Rightarrow> place_order self dep ev did flatten cost pv ctx))" for p
    by (rule ends_bnd [OF undecided_stages(4) undecided_outcome risk_context_account])
       (auto split: option.split intro: place_order_ends ends_keeps [OF undecided_stages(5) undecided_outcome])
  show ?thesis
    unfolding decide_bar_def
    by (rule ends_seq [OF undecided_stages(3) undecided_outcome])
       (auto split: option.split intro: rest ends_keeps [OF keeps_ret undecided_outcome])
qed

lemma process_completed_bar_ends:
  "ends (undecided s) (bar_outcome self dep cost pv s) (process_completed_bar self dep ev tok wk cost pv bypass flatten)"
proof -
  have hold: "keeps (undecided s) (bnd (db_op (update_deployment_last_bar_close d bar)) (\<lambda>_. bnd commit (\<lambda>_. ret x)))"
    for d bar x
    by (intro keeps_intros undecided_intros frames_intros)
  have look: "keeps (undecided s) (db_op (reads f))" for f
    by (intro keeps_intros undecided_intros frames_intros)
  have fresh: "ends (undecided s) (bar_outcome self dep cost pv s)
      (bnd (record_decision dep ev) (\<lambda>decision.
            if fdr_signal_action ev = SIG_HOLD \<and> \<not> flatten then
              bnd (db_op (update_deployment_last_bar_close (dep_id dep)
                     (fdr_bar_close_time ev))) (\<lambda>_.
              bnd commit (\<lambda>_.
              ret (bar_result dep ev (Some (dec_id decision)) D_HOLD None False None)))
            else decide_bar self dep ev tok wk cost pv bypass flatten (dec_id decision)))"
    by (rule ends_seq [OF undecided_stages(1) undecided_outcome])
       (auto intro: decide_bar_ends ends_keeps [OF hold undecided_outcome])
  have "ends (undecided s) (bar_outcome self dep cost pv s)
      (bnd (db_op (reads (get_decision_for_bar (dep_id dep) (fdr_bar_close_time ev)))) (\<lambda>existing. case existing of
          Some d \<Rightarrow> ret (bar_result dep ev (Some (dec_id d)) (dec_outcome d) None True None)
        | None \<Rightarrow> bnd (record_decision dep ev) (\<lambda>decision.
            if fdr_signal_action ev = SIG_HOLD \<and> \<not> flatten then
              bnd (db_op (update_deployment_last_bar_close (dep_id dep)
                     (fdr_bar_close_time ev))) (\<lambda>_.
              bnd commit (\<lambda>_.
              ret (bar_result dep ev (Some (dec_id decision)) D_HOLD None False None)))
            else decide_bar self dep ev tok wk cost pv bypass flatten (dec_id decision))))"
    by (rule ends_seq [OF look undecided_outcome])
       (auto split: option.split intro: fresh ends_keeps [OF keeps_ret undecided_outcome])
  then show ?thesis
    unfolding process_completed_bar_def by (auto intro: ends_keeps [OF keeps_ret undecided_outcome])
qed

section \<open>A bar filled on top of uncommitted work\<close>

text \<open>
  A filled bar in a session with uncommitted work: the worker's lease has just been renewed
  and is not committed yet. The stages of the bar, one after the other.
\<close>

definition ex_pending_session :: session where
  "ex_pending_session = ex_session\<lparr>ses_work := ex_trading_db\<lparr>db_leases := [ex_lease\<lparr>lea_heartbeat_at := 1\<rparr>]\<rparr>\<rparr>"

definition ex_recorded where
  "ex_recorded = record_decision ex_deployment ex_signal ex_pending_session"

definition ex_planned where
  "ex_planned = plan_order ex_deployment ex_signal (dec_id (projr (fst ex_recorded))) False (snd ex_recorded)"

definition ex_gated where
  "ex_gated = build_risk_context (ex_service []) ex_deployment ex_signal ''t'' ''w'' ex_cost 1 False
  (the (projr (fst ex_planned))) (snd ex_planned)"

definition ex_intended where
  "ex_intended = commit_intent (ex_service []) ex_deployment ex_signal (dec_id (projr (fst ex_recorded))) False
  (rc_side (projr (fst ex_gated))) (rc_quantity (projr (fst ex_gated))) (snd ex_gated)"

definition ex_answered where
  "ex_answered = submit_to_broker (ex_service []) (order_request ex_deployment (projr (fst ex_intended))) ex_cost
  (snd ex_intended)"

definition ex_settled where
  "ex_settled = settle_submission (ex_service []) ex_deployment ex_signal (dec_id (projr (fst ex_recorded)))
  (ord_id (projr (fst ex_intended))) (rc_paper_account_id (projr (fst ex_gated))) (projr (fst ex_answered)) 1 (snd ex_answered)"

lemma returned: "isl (fst x) = False \<Longrightarrow> x = (Inr (projr (fst x)), snd x)"
  by (cases x) simp

lemma ex_pending_run:
  "process_completed_bar (ex_service []) ex_deployment ex_signal ''t'' ''w'' ex_cost 1 False False ex_pending_session = ex_settled"
proof -
  have "isl (fst ex_recorded) = False" "isl (fst ex_planned) = False" "isl (fst ex_gated) = False"
    "isl (fst ex_intended) = False" "isl (fst ex_answered) = False"
    by code_simp+
  note runs = this [THEN returned]
  have plan: "projr (fst ex_planned) = Some (the (projr (fst ex_planned)))" by code_simp
  have facts: "emits_decision ex_signal"
    "get_decision_for_bar (dep_id ex_deployment) (fdr_bar_close_time ex_signal) (ses_work ex_pending_session) = Inr None"
    "evaluate (projr (fst ex_gated)) = None" "fdr_signal_action ex_signal \<noteq> SIG_HOLD"
    by code_simp+
  have "place_order (ex_service []) ex_deployment ex_signal (dec_id (projr (fst ex_recorded))) False ex_cost 1
      (projr (fst ex_gated)) (snd ex_gated) = ex_settled"
    unfolding place_order_def bnd_def ex_intended_def [symmetric]
    apply (subst runs(4)) apply (simp only: prod.case sum.case ex_answered_def [symmetric])
    apply (subst runs(5)) by (simp only: prod.case sum.case ex_settled_def [symmetric])
  moreover have "decide_bar (ex_service []) ex_deployment ex_signal ''t'' ''w'' ex_cost 1 False False
      (dec_id (projr (fst ex_recorded))) (snd ex_recorded) = place_order (ex_service []) ex_deployment ex_signal
      (dec_id (projr (fst ex_recorded))) False ex_cost 1 (projr (fst ex_gated)) (snd ex_gated)"
    unfolding decide_bar_def bnd_def ex_planned_def [symmetric]
    apply (subst runs(2)) apply (subst plan) apply (simp only: prod.case sum.case option.case ex_gated_def [symmetric] simp_thms)
    apply (subst runs(3)) by (simp only: prod.case sum.case facts option.case)
  moreover have "process_completed_bar (ex_service []) ex_deployment ex_signal ''t'' ''w'' ex_cost 1 False False ex_pending_session =
     decide_bar (ex_service []) ex_deployment ex_signal ''t'' ''w'' ex_cost 1 False False
      (dec_id (projr (fst ex_recorded))) (snd ex_recorded)"
    apply (simp add: process_completed_bar_def db_op_def on_part_def reads_def bnd_def facts ex_recorded_def [symmetric])
    apply (subst runs(1)) by simp
  ultimately show ?thesis by simp
qed

lemma ex_settled_facts:
  "map mor_order_id (ses_submitted (snd ex_settled)) = [11]"
  "map_option ord_status (get_execution_order 11 (ses_durable (snd ex_settled))) = Some FILLED"
  "map fil_quantity (db_fills (ses_durable (snd ex_settled))) = [2]"
  by code_simp+

section \<open>The property\<close>

text \<open>
  C11: processing a bar changes the durable book only together with its order, whatever happens
  (a crash at any checkpoint, a broker error, a rejection, a failed fill) and whatever
  uncommitted work the session held. Relative to the working database it started from,
  either no order was placed and nothing sent (the durable orders and book are those of
  before, or those of the working database when the bar was committed); or one new order
  is durable, no other order changed, the broker was sent that order at most once, and
  either the order is not filled and the book is unchanged, or the call returned, the
  order is filled and the book has exactly the fill the broker answered booked.
\<close>

theorem placement_is_atomic:
  assumes wf: "wf_db (ses_work s)"
    and run: "process_completed_bar self dep ev tok wk cost pv bypass flatten s = (r, s')"
  shows "ses_submitted s' = ses_submitted s \<and>
      (ses_durable s' = ses_durable s \<or>
       db_orders (ses_durable s') = db_orders (ses_work s) \<and> book (ses_durable s') = book (ses_work s)) \<or>
    (\<exists>oid. placed self dep cost pv oid (ses_work s) (ses_submitted s) r s')"
proof -
  have "undecided s s" using wf by (simp add: undecided_def)
  with process_completed_bar_ends run have "bar_outcome self dep cost pv s r s'"
    unfolding ends_def by blast
  then show ?thesis by (simp add: bar_outcome_def)
qed

theorem placement_is_atomic_witness:
  "ses_durable ex_pending_session \<noteq> ses_work ex_pending_session \<and>
   (\<exists>r s' oid fill. process_completed_bar (ex_service []) ex_deployment ex_signal ''t'' ''w'' ex_cost 1 False False
       ex_pending_session = (r, s') \<and>
     map mor_order_id (ses_submitted s') = [oid] \<and>
     get_execution_order oid (ses_work ex_pending_session) = None \<and>
     filled_as 0 1 fill 1 oid (ses_work ex_pending_session) (ses_durable s') \<and> fr_quantity fill = 2)"
proof -
  let ?s = ex_pending_session
  let ?run = "process_completed_bar (ex_service []) ex_deployment ex_signal ''t'' ''w'' ex_cost 1 False False"
  obtain r s' where run: "?run ?s = (r, s')" by (cases "?run ?s")
  have "wf_db (ses_work ?s)"
    by (simp add: ex_pending_session_def ex_session_def ex_trading_db_def ex_lease_def wf_db_defs ex_defs pk_ok_def)
  note result = placement_is_atomic [OF this run]
  have last: "snd ex_settled = s'" using run unfolding ex_pending_run by (rule arg_cong [where f = snd, THEN trans]) simp
  have sub: "map mor_order_id (ses_submitted s') = [11]"
    and fil: "map_option ord_status (get_execution_order 11 (ses_durable s')) = Some FILLED"
    and qty: "map fil_quantity (db_fills (ses_durable s')) = [2]"
    using ex_settled_facts by (simp_all add: last)
  have start: "ses_submitted ?s = []" "db_fills (ses_work ?s) = []"
    by (simp_all add: ex_pending_session_def ex_session_def ex_trading_db_def ex_defs)
  have ids: "dep_paper_account_id ex_deployment = 0" "dep_id ex_deployment = 1" by (simp_all add: ex_deployment_def)
  from result sub start obtain oid where "placed (ex_service []) ex_deployment ex_cost 1 oid (ses_work ?s) [] r s'"
    by auto
  with sub fil have "oid = 11" and new: "get_execution_order oid (ses_work ?s) = None"
    and "\<exists>fill. filled_as 0 1 fill 1 oid (ses_work ?s) (ses_durable s')"
    by (auto simp: placed_def unbooked_def unfilled_def ids split: option.splits)
  then obtain fill where as: "filled_as 0 1 fill 1 oid (ses_work ?s) (ses_durable s')" by blast
  then have "fr_quantity fill = 2" using qty start by (auto simp: filled_as_def booked_def Let_def)
  moreover have "ses_durable ?s \<noteq> ses_work ?s"
    by (auto simp: ex_pending_session_def ex_session_def ex_trading_db_def ex_lease_def dest: arg_cong [where f = db_leases])
  moreover have "map mor_order_id (ses_submitted s') = [oid]" using sub \<open>oid = 11\<close> by simp
  ultimately show ?thesis
    using run new as by (intro conjI exI [of _ r] exI [of _ s'] exI [of _ oid] exI [of _ fill])
qed

end
