(* ===== verification/Reconciliation.thy ===== *)
theory Reconciliation
  imports Service_Placement
begin

text \<open>
  \<^verbatim>\<open>execution/reconciliation.py\<close>: the resolution of orders whose outcome is unknown, by
  asking the broker or by an operator's assertion, and \<^verbatim>\<open>execution/recovery.py\<close>'s
  start-up pass that turns interrupted orders into unknown ones. Neither sends an order:
  their only broker call is the lookup.
\<close>

section \<open>Resolutions\<close>

definition AUTO_ACTOR :: string where
  "AUTO_ACTOR = ''reconciler''"

datatype ReconciliationResolution = RES_FILLED | RES_FAILED | RES_UNAVAILABLE

record ReconciliationOutcome =
  rec_order_id :: uuid
  rec_deployment_id :: uuid
  rec_resolution :: ReconciliationResolution
  rec_message :: string

text \<open>\<^verbatim>\<open>a or b\<close> on strings: the empty string is false.\<close>

definition str_or :: "string \<Rightarrow> string \<Rightarrow> string" where
  "str_or a b = (if a = [] then b else a)"

fun lookup_status_value :: "BrokerOrderLookupStatus \<Rightarrow> string" where
  "lookup_status_value LK_FILLED = ''filled''"
| "lookup_status_value LK_REJECTED = ''rejected''"
| "lookup_status_value LK_NOT_FOUND = ''not_found''"
| "lookup_status_value LK_UNAVAILABLE = ''unavailable''"

definition lookup_request_for_order :: "ExecutionOrder \<Rightarrow> ExecutionDeployment \<Rightarrow> MarketOrderRequest" where
  "lookup_request_for_order order deployment =
     \<lparr>mor_deployment_id = dep_id deployment, mor_order_id = ord_id order,
      mor_symbol = si_symbol (dep_identity deployment), mor_side = ord_side order,
      mor_quantity = ord_quantity order,
      mor_external_fill_id = broker_mode_value (ord_broker_mode order) @ '':'' @ uuid_str (ord_id order)\<rparr>"

definition is_pending :: "ExecutionOrder \<Rightarrow> bool" where
  "is_pending order \<longleftrightarrow> ord_status order = UNKNOWN \<and> ord_reconciliation_state order = PENDING"

definition assert_pending :: "ExecutionOrder \<Rightarrow> unit dbm" where
  "assert_pending order =
     (if ord_status order \<noteq> UNKNOWN \<or> ord_reconciliation_state order \<noteq> PENDING
      then throw (OrderNotPendingError (ord_id order)) else ret ())"

definition mark_decision :: "ExecutionOrder \<Rightarrow> DecisionOutcome \<Rightarrow> unit dbm" where
  "mark_decision order dout =
     (case ord_decision_id order of
        None \<Rightarrow> ret ()
      | Some decision_id \<Rightarrow> update_execution_decision_outcome decision_id dout None)"

definition apply_filled_resolution ::
    "ExecutionOrder \<Rightarrow> ExecutionDeployment \<Rightarrow> FillRecord \<Rightarrow> decimal \<Rightarrow> string \<Rightarrow> string option \<Rightarrow>
     datetime option \<Rightarrow> unit dbm" where
  "apply_filled_resolution order deployment fill point_value reconciled_by detail at_time =
     bnd (gets (or_now at_time)) (\<lambda>ts.
     bnd (apply_fill (dep_paper_account_id deployment) (dep_id deployment) (ord_id order) fill
            point_value (si_symbol (dep_identity deployment)) True) (\<lambda>_.
     bnd (finalize_order_reconciliation (ord_id order) reconciled_by detail (Some ts)) (\<lambda>_.
     mark_decision order D_ORDER_FILLED)))"

definition apply_failed_resolution ::
    "ExecutionOrder \<Rightarrow> string \<Rightarrow> string option \<Rightarrow> string \<Rightarrow> datetime option \<Rightarrow> unit dbm" where
  "apply_failed_resolution order reconciled_by detail reason at_time =
     bnd (gets (or_now at_time)) (\<lambda>ts.
     bnd (transition_execution_order (ord_id order) REJECTED None None (Some reason) None (Some ts)) (\<lambda>_.
     bnd (finalize_order_reconciliation (ord_id order) reconciled_by detail (Some ts)) (\<lambda>_.
     mark_decision order D_ORDER_REJECTED)))"

definition resolve_order_manually ::
    "ExecutionOrder \<Rightarrow> ExecutionDeployment \<Rightarrow> string \<Rightarrow> string \<Rightarrow> string \<Rightarrow> decimal \<Rightarrow>
     FillRecord option \<Rightarrow> datetime option \<Rightarrow> ReconciliationOutcome dbm" where
  "resolve_order_manually order deployment result actor note point_value fill at_time =
     bnd (assert_pending order) (\<lambda>_.
     if result = ''filled'' then
       (case fill of
          None \<Rightarrow> throw (ValueError ''filled resolution requires fill details'' [])
        | Some f \<Rightarrow>
            bnd (apply_filled_resolution order deployment f point_value actor (Some note) at_time) (\<lambda>_.
            ret \<lparr>rec_order_id = ord_id order, rec_deployment_id = dep_id deployment,
              rec_resolution = RES_FILLED, rec_message = ''manual resolution: filled''\<rparr>))
     else if result = ''not_filled'' then
       bnd (apply_failed_resolution order actor (Some note)
              (''manual resolution: not filled ('' @ note @ '')'') at_time) (\<lambda>_.
       ret \<lparr>rec_order_id = ord_id order, rec_deployment_id = dep_id deployment,
         rec_resolution = RES_FAILED, rec_message = ''manual resolution: not filled''\<rparr>)
     else throw (ValueError ''unknown manual resolution outcome'' []))"

section \<open>The reconciler\<close>

record OrderReconciler =
  orc_broker :: ExecutionBroker
  orc_point_value :: decimal
  orc_clock :: datetime

definition reconcile_order ::
    "OrderReconciler \<Rightarrow> ExecutionOrder \<Rightarrow> ExecutionDeployment \<Rightarrow> ReconciliationOutcome dbm" where
  "reconcile_order self order deployment =
     (let now = orc_clock self;
          res = (\<lambda>resolution message. \<lparr>rec_order_id = ord_id order,
            rec_deployment_id = dep_id deployment, rec_resolution = resolution,
            rec_message = message\<rparr>)
      in
      bnd (reads (\<lambda>_. bk_lookup_order (orc_broker self) (lookup_request_for_order order deployment)))
      (\<lambda>state.
      case bos_status state of
        LK_FILLED \<Rightarrow>
          (case bos_fill state of
             None \<Rightarrow>
               bnd (record_reconciliation_attempt (ord_id order) (Some now)
                      (Some ''broker reported filled without fill details'')) (\<lambda>_.
               ret (res RES_UNAVAILABLE ''filled without fill details''))
           | Some fill \<Rightarrow>
               bnd (apply_filled_resolution order deployment fill (orc_point_value self) AUTO_ACTOR
                      (Some (str_or (bos_message state) ''broker confirmed fill'')) (Some now)) (\<lambda>_.
               ret (res RES_FILLED (bos_message state))))
      | LK_UNAVAILABLE \<Rightarrow>
          bnd (record_reconciliation_attempt (ord_id order) (Some now)
                 (Some (str_or (bos_message state) ''broker unavailable''))) (\<lambda>_.
          ret (res RES_UNAVAILABLE (bos_message state)))
      | _ \<Rightarrow>
          (let reason = ''reconciliation: broker reported '' @ lookup_status_value (bos_status state) in
           bnd (apply_failed_resolution order AUTO_ACTOR (Some (str_or (bos_message state) reason))
                  reason (Some now)) (\<lambda>_.
           ret (res RES_FAILED (bos_message state))))))"

definition reconcile_deployment ::
    "OrderReconciler \<Rightarrow> ExecutionDeployment \<Rightarrow> ReconciliationOutcome list dbm" where
  "reconcile_deployment self deployment =
     bnd (gets (list_pending_reconciliation_orders (Some (dep_id deployment)))) (\<lambda>pending.
     for_each (\<lambda>order. reconcile_order self order deployment) pending)"

text \<open>
  The loop's cache of deployments is not modelled: reconciling writes no deployment row, so
  each lookup gives what the cached one gave.
\<close>

definition reconcile_all_pending :: "OrderReconciler \<Rightarrow> ReconciliationOutcome list dbm" where
  "reconcile_all_pending self =
     bnd (gets (list_pending_reconciliation_orders None)) (\<lambda>pending.
     bnd (for_each (\<lambda>order.
            bnd (gets (get_execution_deployment (ord_deployment_id order))) (\<lambda>deployment.
            case deployment of
              None \<Rightarrow> ret []
            | Some d \<Rightarrow> bnd (reconcile_order self order d) (\<lambda>res. ret [res]))) pending) (\<lambda>results.
     ret (concat results)))"

section \<open>Start-up recovery\<close>

record RecoveryResult =
  rcv_leases_released :: nat
  rcv_unknown_orders_marked :: nat
  rcv_failed_closed :: bool
  rcv_message :: string

definition recover :: "(string \<Rightarrow> ExecutableQuote option) \<Rightarrow> datetime option \<Rightarrow> RecoveryResult dbm" where
  "recover quote_source now =
     bnd (gets (or_now now)) (\<lambda>ts.
     bnd (release_expired_leases (Some ts)) (\<lambda>leases_released.
     bnd (gets (list_deployments None)) (\<lambda>deployments.
     bnd (for_each (\<lambda>d. mark_incomplete_orders_unknown (dep_id d)) deployments) (\<lambda>marked.
     bnd (gets (list_deployments (Some [RUNNING]))) (\<lambda>running.
     case find (\<lambda>d. quote_source (si_symbol (dep_identity d)) = None) running of
       Some d \<Rightarrow> ret \<lparr>rcv_leases_released = leases_released, rcv_unknown_orders_marked = sum_list marked,
         rcv_failed_closed = True,
         rcv_message = ''quote unavailable for '' @ si_symbol (dep_identity d)\<rparr>
     | None \<Rightarrow> ret \<lparr>rcv_leases_released = leases_released, rcv_unknown_orders_marked = sum_list marked,
         rcv_failed_closed = False, rcv_message = ''recovery complete''\<rparr>)))))"

end
