(* ===== verification/Control.thy ===== *)
theory Control
  imports Bars Exec_Pages Reconciliation
begin

text \<open>
  The control plane: the lifecycle commands of \<^verbatim>\<open>execution/commands.py\<close>, the input
  validation of \<^verbatim>\<open>execution/validation.py\<close> and the service functions of
  \<^verbatim>\<open>api/services/execution.py\<close>, which the HTTP routes call. Parameters stand for what
  lies outside: the canonical hash of a configuration (SHA-256 of its JSON), the engine a
  registered strategy runs on, and the saved backtest runs. Response models are projections
  of the rows, so the functions return the rows. A decimal that the code stores as its
  string is represented by its value. Non-finite decimals are not modelled.
\<close>

section \<open>Lifecycle commands\<close>

definition start_deployment :: "uuid \<Rightarrow> ExecutionDeployment dbm" where
  "start_deployment deployment_id = transition_deployment_lifecycle deployment_id RUNNING None"

definition pause_deployment :: "uuid \<Rightarrow> ExecutionDeployment dbm" where
  "pause_deployment deployment_id = transition_deployment_lifecycle deployment_id PAUSED None"

definition stop_deployment :: "uuid \<Rightarrow> ExecutionDeployment dbm" where
  "stop_deployment deployment_id = transition_deployment_lifecycle deployment_id STOPPED None"

definition enable_kill_switch :: "string option \<Rightarrow> string option \<Rightarrow> unit dbm" where
  "enable_kill_switch reason updated_by = bnd (set_kill_switch True reason updated_by) (\<lambda>_. ret ())"

definition disable_kill_switch :: "string option \<Rightarrow> unit dbm" where
  "disable_kill_switch updated_by = bnd (set_kill_switch False None updated_by) (\<lambda>_. ret ())"

definition get_deployment_or_raise :: "uuid \<Rightarrow> ExecutionDeployment dbm" where
  "get_deployment_or_raise deployment_id =
     bnd (gets (get_execution_deployment deployment_id)) (\<lambda>deployment. case deployment of
       None \<Rightarrow> throw (ValueError ''ExecutionDeployment not found'' [deployment_id])
     | Some d \<Rightarrow> ret d)"

section \<open>Validation\<close>

text \<open>Results of validation, with the sequencing of statements that may raise.\<close>

definition sbnd :: "exec_error + 'a \<Rightarrow> ('a \<Rightarrow> exec_error + 'b) \<Rightarrow> exec_error + 'b" where
  "sbnd r k = (case r of Inl e \<Rightarrow> Inl e | Inr x \<Rightarrow> k x)"

definition require :: "bool \<Rightarrow> string \<Rightarrow> exec_error + unit" where
  "require b message = (if b then Inr () else Inl (ExecutionValidationError message))"

lemma sbnd_simps [simp]: "sbnd (Inl e) k = Inl e" "sbnd (Inr x) k = k x"
  by (simp_all add: sbnd_def)

lemma sbnd_Inr_iff: "sbnd r k = Inr y \<longleftrightarrow> (\<exists>x. r = Inr x \<and> k x = Inr y)"
  by (cases r) auto

lemma require_Inr_iff [simp]: "require b m = Inr u \<longleftrightarrow> b"
  by (simp add: require_def)

type_synonym config = "(string \<times> json) list"

definition MAX_DAILY_LOSS :: decimal where "MAX_DAILY_LOSS = 10000000"

definition MAX_NOTIONAL :: decimal where "MAX_NOTIONAL = 1000000000"

definition MIN_TIMEFRAME_MINUTES :: int where "MIN_TIMEFRAME_MINUTES = 15"

definition parse_positive_decimal :: "json \<Rightarrow> string \<Rightarrow> decimal \<Rightarrow> exec_error + decimal" where
  "parse_positive_decimal value field max_value = (case json_decimal value of
     Inl _ \<Rightarrow> Inl (ExecutionValidationError (field @ '' must be a decimal''))
   | Inr parsed \<Rightarrow>
       if parsed \<le> 0 then Inl (ExecutionValidationError (field @ '' must be positive''))
       else if parsed > max_value then Inl (ExecutionValidationError (field @ '' exceeds allowed maximum''))
       else Inr parsed)"

definition validate_timeframe :: "string \<Rightarrow> exec_error + string" where
  "validate_timeframe timeframe = (let key = upper timeframe in case map_of TF_MINUTES key of
     None \<Rightarrow> Inl (ExecutionValidationError (''unsupported timeframe '' @ timeframe))
   | Some minutes \<Rightarrow>
       if minutes < MIN_TIMEFRAME_MINUTES
       then Inl (ExecutionValidationError (''timeframe below the M15 minimum: '' @ timeframe))
       else Inr key)"

text \<open>One optional limit: absent or null, or a positive bounded decimal.\<close>

definition validate_limit :: "config \<Rightarrow> string \<Rightarrow> decimal \<Rightarrow> exec_error + config" where
  "validate_limit cfg field max_value = (case map_of cfg field of
     None \<Rightarrow> Inr []
   | Some JNull \<Rightarrow> Inr []
   | Some j \<Rightarrow> sbnd (parse_positive_decimal j field max_value) (\<lambda>amount. Inr [(field, JNum amount)]))"

definition validate_risk_config :: "config option \<Rightarrow> exec_error + config" where
  "validate_risk_config risk_config = (case risk_config of
     None \<Rightarrow> Inr []
   | Some cfg \<Rightarrow>
       if cfg = [] then Inr []
       else sbnd (validate_limit cfg ''max_daily_loss'' MAX_DAILY_LOSS) (\<lambda>daily.
            sbnd (validate_limit cfg ''max_notional'' MAX_NOTIONAL) (\<lambda>notional. Inr (daily @ notional))))"

definition validate_sizing_config :: "config \<Rightarrow> exec_error + config" where
  "validate_sizing_config sizing_config =
     (if sizing_config = [] then Inl (ExecutionValidationError ''sizing_config is required'')
      else case map_of sizing_config ''quantity'' of
        None \<Rightarrow> Inl (ExecutionValidationError ''sizing_config.quantity is required'')
      | Some JNull \<Rightarrow> Inl (ExecutionValidationError ''sizing_config.quantity is required'')
      | Some j \<Rightarrow> sbnd (parse_positive_decimal j ''quantity'' 1000000) (\<lambda>_. Inr sizing_config))"

definition broker_mode_of :: "string \<Rightarrow> BrokerMode option" where
  "broker_mode_of s = find (\<lambda>m. broker_mode_value m = s) [PAPER, MT5_LIVE]"

definition validate_broker_mode :: "string \<Rightarrow> bool \<Rightarrow> bool \<Rightarrow> exec_error + BrokerMode" where
  "validate_broker_mode broker_mode live_capability_locked live_activation_enabled = (case broker_mode_of broker_mode of
     None \<Rightarrow> Inl (ExecutionValidationError (''unsupported broker_mode '' @ broker_mode))
   | Some mode \<Rightarrow>
       if mode \<noteq> PAPER then Inl (ExecutionValidationError ''only paper broker_mode is supported'')
       else if live_activation_enabled then Inl (ExecutionValidationError ''live_activation_enabled is locked'')
       else if mode = MT5_LIVE \<and> live_capability_locked
       then Inl (ExecutionValidationError ''live execution capability is locked'')
       else Inr mode)"

text \<open>Truth of a JSON value, and \<^verbatim>\<open>cfg.get(key)\<close> with a missing key as null.\<close>

definition json_get :: "config \<Rightarrow> string \<Rightarrow> json" where
  "json_get cfg key = (case map_of cfg key of None \<Rightarrow> JNull | Some j \<Rightarrow> j)"

fun json_truthy :: "json \<Rightarrow> bool" where
  "json_truthy JNull = False"
| "json_truthy (JBool b) = b"
| "json_truthy (JNum n) = (n \<noteq> 0)"
| "json_truthy (JStr s) = (s \<noteq> [])"
| "json_truthy (JList xs) = (xs \<noteq> [])"
| "json_truthy (JDict xs) = (xs \<noteq> [])"

text \<open>What the validation asks of its environment.\<close>

record control_env =
  env_config_hash :: "config \<Rightarrow> string"
  env_strategy_engine :: "string \<Rightarrow> string option"
  env_backtest_run :: "uuid \<Rightarrow> (bool \<times> config) option"
  env_live_capability_locked :: bool
  env_point_value :: decimal

definition validate_strategy_identity ::
    "control_env \<Rightarrow> string \<Rightarrow> int \<Rightarrow> config \<Rightarrow> string \<Rightarrow> string \<Rightarrow> string \<Rightarrow> config \<Rightarrow> config option \<Rightarrow>
     exec_error + StrategyIdentity" where
  "validate_strategy_identity env strategy_name strategy_version compiled_config config_hash symbol timeframe
       sizing_config risk_config =
     sbnd (require (strategy_name \<noteq> []) ''strategy_name is required'') (\<lambda>_.
     sbnd (require (strategy_version \<ge> 1) ''strategy_version must be >= 1'') (\<lambda>_.
     sbnd (require (symbol \<noteq> []) ''symbol is required'') (\<lambda>_.
     sbnd (require (config_hash \<noteq> []) ''config_hash is required'') (\<lambda>_.
     sbnd (require (config_hash = env_config_hash env compiled_config)
             ''config_hash does not match compiled_config'') (\<lambda>_.
     sbnd (case env_strategy_engine env strategy_name of
             None \<Rightarrow> Inl (ExecutionValidationError (''Unknown strategy '' @ strategy_name))
           | Some engine \<Rightarrow> Inr engine) (\<lambda>engine.
     sbnd (require (engine = ''candle'') ''tick strategies cannot be deployed to forward execution'') (\<lambda>_.
     sbnd (validate_timeframe timeframe) (\<lambda>normalized_tf.
     sbnd (require (\<not> json_truthy (json_get compiled_config ''symbol'') \<or>
                    json_get compiled_config ''symbol'' = JStr symbol)
             ''symbol must match compiled_config.symbol'') (\<lambda>_.
     sbnd (if \<not> json_truthy (json_get compiled_config ''timeframe'') then Inr ()
           else case json_get compiled_config ''timeframe'' of
             JStr tf \<Rightarrow> require (upper tf = normalized_tf) ''timeframe must match compiled_config.timeframe''
           | _ \<Rightarrow> Inl (RuntimeError ''AttributeError: upper'')) (\<lambda>_.
     sbnd (validate_sizing_config sizing_config) (\<lambda>sizing.
     sbnd (validate_risk_config risk_config) (\<lambda>risk.
     Inr \<lparr>si_strategy_name = strategy_name, si_strategy_version = strategy_version,
       si_compiled_config = compiled_config, si_config_hash = config_hash, si_symbol = symbol,
       si_timeframe = normalized_tf, si_sizing_config = sizing, si_risk_config = risk\<rparr>))))))))))))"

text \<open>
  \<^verbatim>\<open>str(config.get(key) or default)\<close> for string values and \<^verbatim>\<open>dict(config.get(key) or {})\<close>;
  a value of another type makes the conversion of the code raise or print it, which the model
  reports as an error.
\<close>

definition config_str_or :: "config \<Rightarrow> string \<Rightarrow> string \<Rightarrow> exec_error + string" where
  "config_str_or cfg key dflt = (let j = json_get cfg key in
     if \<not> json_truthy j then Inr dflt else case j of JStr s \<Rightarrow> Inr s | _ \<Rightarrow> Inl (RuntimeError ''TypeError''))"

definition config_dict_or_empty :: "config \<Rightarrow> string \<Rightarrow> exec_error + config" where
  "config_dict_or_empty cfg key = (let j = json_get cfg key in
     if \<not> json_truthy j then Inr [] else case j of JDict d \<Rightarrow> Inr d | _ \<Rightarrow> Inl (RuntimeError ''TypeError''))"

definition optional_entry :: "config \<Rightarrow> string \<Rightarrow> config" where
  "optional_entry cfg key = (case json_get cfg key of JNull \<Rightarrow> [] | j \<Rightarrow> [(key, j)])"

definition identity_from_saved_backtest ::
    "control_env \<Rightarrow> uuid \<Rightarrow> config option \<Rightarrow> config option \<Rightarrow> exec_error + StrategyIdentity" where
  "identity_from_saved_backtest env source_backtest_run_id sizing_config risk_config =
     (case env_backtest_run env source_backtest_run_id of
        None \<Rightarrow> Inl (ExecutionValidationError ''source_backtest_run_id not found'')
      | Some (is_saved, config) \<Rightarrow>
          sbnd (require is_saved ''source backtest run must be saved'') (\<lambda>_.
          sbnd (require (json_get config ''engine'' \<noteq> JStr ''tick'')
                  ''tick backtests cannot be deployed to forward execution'') (\<lambda>_.
          sbnd (config_str_or config ''strategy'' []) (\<lambda>strategy_name.
          sbnd (config_dict_or_empty config ''strategy_params'') (\<lambda>strategy_params.
          sbnd (config_str_or config ''symbol'' []) (\<lambda>symbol.
          sbnd (config_str_or config ''timeframe'' ''H1'') (\<lambda>timeframe.
          let compiled_config = [(''strategy'', JStr strategy_name), (''strategy_params'', JDict strategy_params),
                (''symbol'', JStr symbol), (''timeframe'', JStr timeframe)]
                @ optional_entry config ''entries'' @ optional_entry config ''entry_manager''
                @ optional_entry config ''exit_params'';
              default_sizing = (case sizing_config of
                  Some s \<Rightarrow> if s = [] then [(''type'', JStr ''fixed_quantity''), (''quantity'', JNum 1)] else s
                | None \<Rightarrow> [(''type'', JStr ''fixed_quantity''), (''quantity'', JNum 1)])
          in validate_strategy_identity env strategy_name 1 compiled_config (env_config_hash env compiled_config)
               symbol timeframe default_sizing risk_config)))))))"

section \<open>Errors as HTTP responses\<close>

text \<open>The \<^verbatim>\<open>except\<close> clauses of the service functions; other exceptions pass through.\<close>

definition http_from_validation :: "exec_error \<Rightarrow> exec_error" where
  "http_from_validation e = (case e of
     ExecutionValidationError message \<Rightarrow> HTTPException 400 message
   | IntegrityError _ \<Rightarrow> HTTPException 503 ''database unavailable; command was not accepted''
   | MultipleResultsFound \<Rightarrow> HTTPException 503 ''database unavailable; command was not accepted''
   | _ \<Rightarrow> e)"

definition http_from_action :: "exec_error \<Rightarrow> exec_error" where
  "http_from_action e = (case e of
     IllegalLifecycleTransition current target \<Rightarrow> HTTPException 409 (current @ '' to '' @ target)
   | IntegrityError _ \<Rightarrow> HTTPException 503 ''database unavailable; command was not accepted''
   | MultipleResultsFound \<Rightarrow> HTTPException 503 ''database unavailable; command was not accepted''
   | _ \<Rightarrow> e)"

definition http_from_resolution :: "exec_error \<Rightarrow> exec_error" where
  "http_from_resolution e = (case e of
     OrderNotPendingError _ \<Rightarrow> HTTPException 409 ''order is not pending reconciliation''
   | IntegrityError _ \<Rightarrow> HTTPException 503 ''database unavailable; command was not accepted''
   | MultipleResultsFound \<Rightarrow> HTTPException 503 ''database unavailable; command was not accepted''
   | _ \<Rightarrow> e)"

definition http_from_db :: "exec_error \<Rightarrow> exec_error" where
  "http_from_db e = (if is_sqlalchemy_error e
     then HTTPException 503 ''database unavailable; command was not accepted'' else e)"

definition map_errors :: "(exec_error \<Rightarrow> exec_error) \<Rightarrow> 'a dbm \<Rightarrow> 'a dbm" where
  "map_errors f m = catch m (\<lambda>e. throw (f e))"

text \<open>The lookups with a 404.\<close>

definition found_or_404 :: "string \<Rightarrow> (exec_db \<Rightarrow> 'a option) \<Rightarrow> 'a dbm" where
  "found_or_404 what get_it = bnd (gets get_it) (\<lambda>x. case x of
     None \<Rightarrow> throw (HTTPException 404 (what @ '' not found'')) | Some y \<Rightarrow> ret y)"

section \<open>Accounts and deployments\<close>

definition create_account ::
    "string \<Rightarrow> decimal \<Rightarrow> string \<Rightarrow> config \<Rightarrow> config \<Rightarrow> PaperAccount dbm" where
  "create_account name initial_balance currency sizing_config risk_config =
     bnd (reads (get_paper_account_by_name name)) (\<lambda>existing. case existing of
       Some _ \<Rightarrow> throw (HTTPException 409 ''paper account name already exists'')
     | None \<Rightarrow> map_errors http_from_validation
         (bnd (reads (\<lambda>_. validate_risk_config (Some risk_config))) (\<lambda>risk.
          create_paper_account name initial_balance currency sizing_config risk)))"

definition get_account :: "uuid \<Rightarrow> PaperAccount dbm" where
  "get_account account_id = found_or_404 ''paper account'' (get_paper_account account_id)"

record DeploymentIdentityInput =
  dii_strategy_name :: string
  dii_strategy_version :: int
  dii_compiled_config :: config
  dii_config_hash :: string
  dii_symbol :: string
  dii_timeframe :: string
  dii_sizing_config :: config
  dii_risk_config :: config

record DeploymentCreateRequest =
  dcr_paper_account_id :: uuid
  dcr_name :: string
  dcr_broker_mode :: string
  dcr_live_activation_enabled :: bool
  dcr_source_backtest_run_id :: "uuid option"
  dcr_identity :: "DeploymentIdentityInput option"

record DeploymentDetail =
  dd_deployment :: ExecutionDeployment
  dd_open_position :: "ExecutionNetPosition option"
  dd_worker_lease :: "(ExecutionWorkerLease \<times> bool) option"
  dd_latest_decision :: "ExecutionDecision option"
  dd_unknown_order_count :: nat

text \<open>A lease with its \<^verbatim>\<open>is_active\<close> flag.\<close>

definition lease_response :: "datetime \<Rightarrow> ExecutionWorkerLease \<Rightarrow> ExecutionWorkerLease \<times> bool" where
  "lease_response now lease = (lease, lea_expires_at lease > now)"

definition get_deployment_detail :: "uuid \<Rightarrow> DeploymentDetail dbm" where
  "get_deployment_detail deployment_id =
     bnd (found_or_404 ''deployment'' (get_execution_deployment deployment_id)) (\<lambda>deployment.
     bnd (gets db_clock) (\<lambda>now.
     bnd (reads (get_worker_lease deployment_id)) (\<lambda>lease.
     bnd (reads (get_open_net_position deployment_id)) (\<lambda>position.
     bnd (reads (get_latest_decision deployment_id)) (\<lambda>latest.
     bnd (gets (count_unknown_orders (Some deployment_id))) (\<lambda>unknown.
     ret \<lparr>dd_deployment = deployment, dd_open_position = position,
       dd_worker_lease = map_option (lease_response now) lease,
       dd_latest_decision = latest, dd_unknown_order_count = unknown\<rparr>))))))"

definition requested_identity :: "control_env \<Rightarrow> DeploymentCreateRequest \<Rightarrow> exec_error + StrategyIdentity" where
  "requested_identity env body = (case dcr_source_backtest_run_id body of
     Some run \<Rightarrow> identity_from_saved_backtest env run
       (map_option dii_sizing_config (dcr_identity body)) (map_option dii_risk_config (dcr_identity body))
   | None \<Rightarrow> (case dcr_identity body of
       Some i \<Rightarrow> validate_strategy_identity env (dii_strategy_name i) (dii_strategy_version i)
         (dii_compiled_config i) (dii_config_hash i) (dii_symbol i) (dii_timeframe i)
         (dii_sizing_config i) (Some (dii_risk_config i))
     | None \<Rightarrow> Inl (ExecutionValidationError ''either source_backtest_run_id or identity is required'')))"

definition create_deployment :: "control_env \<Rightarrow> DeploymentCreateRequest \<Rightarrow> DeploymentDetail dbm" where
  "create_deployment env body =
     bnd (found_or_404 ''paper account'' (get_paper_account (dcr_paper_account_id body))) (\<lambda>_.
     map_errors http_from_validation
       (bnd (reads (\<lambda>_. validate_broker_mode (dcr_broker_mode body) (env_live_capability_locked env)
               (dcr_live_activation_enabled body))) (\<lambda>_.
        bnd (reads (\<lambda>_. requested_identity env body)) (\<lambda>identity.
        bnd (create_execution_deployment (dcr_paper_account_id body) (dcr_name body) identity PAPER DRAFT False)
          (\<lambda>deployment. get_deployment_detail (dep_id deployment))))))"

section \<open>Deployment actions\<close>

datatype DeploymentAction = ACT_START | ACT_PAUSE | ACT_STOP | ACT_FLATTEN

fun action_value :: "DeploymentAction \<Rightarrow> string" where
  "action_value ACT_START = ''start''"
| "action_value ACT_PAUSE = ''pause''"
| "action_value ACT_STOP = ''stop''"
| "action_value ACT_FLATTEN = ''flatten''"

record DeploymentActionResponse =
  dar_deployment_id :: uuid
  dar_lifecycle :: DeploymentLifecycle
  dar_pending_action :: "string option"
  dar_message :: string

definition perform_action :: "uuid \<Rightarrow> DeploymentAction \<Rightarrow> (ExecutionDeployment \<times> string \<times> string option) dbm" where
  "perform_action deployment_id action = (case action of
     ACT_START \<Rightarrow> bnd (start_deployment deployment_id) (\<lambda>d. ret (d, ''start accepted'', None))
   | ACT_PAUSE \<Rightarrow> bnd (pause_deployment deployment_id) (\<lambda>d. ret (d, ''pause accepted'', None))
   | ACT_STOP \<Rightarrow> bnd (stop_deployment deployment_id) (\<lambda>d. ret (d, ''stop accepted'', None))
   | ACT_FLATTEN \<Rightarrow> bnd (set_pending_deployment_action deployment_id ''flatten'' None)
       (\<lambda>d. ret (d, ''flatten queued for worker'', dep_pending_action d)))"

definition json_of_opt :: "string option \<Rightarrow> json" where
  "json_of_opt s = (case s of None \<Rightarrow> JNull | Some x \<Rightarrow> JStr x)"

definition apply_deployment_action ::
    "uuid \<Rightarrow> DeploymentAction \<Rightarrow> bool \<Rightarrow> string option \<Rightarrow> DeploymentActionResponse dbm" where
  "apply_deployment_action deployment_id action confirm actor =
     bnd (found_or_404 ''deployment'' (get_execution_deployment deployment_id)) (\<lambda>_.
     if action = ACT_FLATTEN \<and> \<not> confirm then throw (HTTPException 400 ''flatten requires confirm=true'')
     else map_errors http_from_action
       (bnd (perform_action deployment_id action) (\<lambda>(deployment, message, pending).
        bnd (record_audit_event (''deployment_'' @ action_value action) message actor (Some deployment_id)
               [(''lifecycle'', JStr (lifecycle_value (dep_lifecycle deployment))),
                (''pending_action'', json_of_opt pending)]) (\<lambda>_.
        ret \<lparr>dar_deployment_id = deployment_id, dar_lifecycle = dep_lifecycle deployment,
          dar_pending_action = pending, dar_message = message\<rparr>))))"

section \<open>Resolving an unknown order\<close>

record OrderResolutionRequest =
  orr_outcome :: string
  orr_actor :: string
  orr_reason :: string
  orr_price :: "decimal option"
  orr_quantity :: "decimal option"
  orr_fee :: "decimal option"
  orr_filled_at :: "datetime option"
  orr_external_fill_id :: "string option"

fun resolution_value :: "ReconciliationResolution \<Rightarrow> string" where
  "resolution_value RES_FILLED = ''filled''"
| "resolution_value RES_FAILED = ''failed''"
| "resolution_value RES_UNAVAILABLE = ''unavailable''"

text \<open>The request validator guarantees the price of a filled resolution; a missing one is refused by \<^verbatim>\<open>FillRecord\<close>.\<close>

definition asserted_fill :: "ExecutionOrder \<Rightarrow> OrderResolutionRequest \<Rightarrow> datetime \<Rightarrow> exec_error + FillRecord option" where
  "asserted_fill order body now =
     (if orr_outcome body \<noteq> ''filled'' then Inr None
      else case orr_price body of
        None \<Rightarrow> Inl (ValueError ''price: input should be a decimal'' [])
      | Some price \<Rightarrow> Inr (Some
          \<lparr>fr_broker_mode = ord_broker_mode order,
           fr_external_fill_id = (case orr_external_fill_id body of
               Some s \<Rightarrow> if s = [] then ''manual:'' @ uuid_str (ord_id order) else s
             | None \<Rightarrow> ''manual:'' @ uuid_str (ord_id order)),
           fr_side = ord_side order,
           fr_quantity = (case orr_quantity body of Some q \<Rightarrow> q | None \<Rightarrow> ord_quantity order),
           fr_price = price, fr_fee = (case orr_fee body of Some f \<Rightarrow> f | None \<Rightarrow> 0), fr_slippage = 0,
           fr_quote_bid = None, fr_quote_ask = None, fr_quote_timestamp = None,
           fr_filled_at = (case orr_filled_at body of Some t \<Rightarrow> t | None \<Rightarrow> now),
           fr_metadata = [(''manual_resolution'', JBool True), (''actor'', JStr (orr_actor body))]\<rparr>))"

definition resolve_order ::
    "control_env \<Rightarrow> uuid \<Rightarrow> OrderResolutionRequest \<Rightarrow> (ExecutionOrder option \<times> ReconciliationResolution \<times> string) dbm" where
  "resolve_order env order_id body =
     bnd (found_or_404 ''order'' (get_execution_order order_id)) (\<lambda>order.
     bnd (found_or_404 ''deployment'' (get_execution_deployment (ord_deployment_id order))) (\<lambda>deployment.
     bnd (gets db_clock) (\<lambda>now.
     bnd (reads (\<lambda>_. asserted_fill order body now)) (\<lambda>fill.
     map_errors http_from_resolution
       (bnd (resolve_order_manually order deployment (orr_outcome body) (orr_actor body) (orr_reason body)
               (env_point_value env) fill None) (\<lambda>result.
        bnd (record_audit_event ''order_reconciliation_resolved''
               (''order '' @ uuid_str (ord_id order) @ '' resolved: '' @ resolution_value (rec_resolution result))
               (Some (orr_actor body)) (Some (dep_id deployment))
               [(''order_id'', JStr (uuid_str (ord_id order))), (''outcome'', JStr (orr_outcome body)),
                (''resolution'', JStr (resolution_value (rec_resolution result))),
                (''reason'', JStr (orr_reason body))]) (\<lambda>_.
        bnd (gets (get_execution_order order_id)) (\<lambda>refreshed.
        ret (refreshed, rec_resolution result, rec_message result)))))))))"

section \<open>Listings\<close>

text \<open>A page with its bounds, after the 404 check of the parent row.\<close>

definition deployment_page ::
    "uuid \<Rightarrow> (nat \<Rightarrow> nat \<Rightarrow> exec_db \<Rightarrow> 'r list \<times> nat) \<Rightarrow> nat \<Rightarrow> nat \<Rightarrow> ('r list \<times> nat \<times> nat \<times> nat) dbm" where
  "deployment_page deployment_id page limit offset =
     bnd (found_or_404 ''deployment'' (get_execution_deployment deployment_id)) (\<lambda>_.
     bnd (gets (page limit offset)) (\<lambda>(items, total). ret (items, total, limit, offset)))"

definition list_accounts :: "nat \<Rightarrow> nat \<Rightarrow> (PaperAccount list \<times> nat \<times> nat \<times> nat) dbm" where
  "list_accounts limit offset =
     map_errors http_from_db (bnd (gets (list_paper_accounts limit offset)) (\<lambda>(items, total). ret (items, total, limit, offset)))"

definition api_list_deployments ::
    "uuid option \<Rightarrow> string option \<Rightarrow> string option \<Rightarrow> nat \<Rightarrow> nat \<Rightarrow>
     (ExecutionDeployment list \<times> nat \<times> nat \<times> nat) dbm" where
  "api_list_deployments paper_account_id lifecycle symbol limit offset =
     bnd (gets (list_deployments_page paper_account_id lifecycle symbol limit offset))
       (\<lambda>(items, total). ret (items, total, limit, offset))"

definition list_decisions ::
    "uuid \<Rightarrow> datetime option \<Rightarrow> datetime option \<Rightarrow> nat \<Rightarrow> nat \<Rightarrow> (ExecutionDecision list \<times> nat \<times> nat \<times> nat) dbm" where
  "list_decisions deployment_id from_time to_time =
     deployment_page deployment_id (list_decisions_page deployment_id from_time to_time)"

definition list_orders ::
    "uuid \<Rightarrow> string option \<Rightarrow> datetime option \<Rightarrow> datetime option \<Rightarrow> nat \<Rightarrow> nat \<Rightarrow>
     (ExecutionOrder list \<times> nat \<times> nat \<times> nat) dbm" where
  "list_orders deployment_id status from_time to_time =
     deployment_page deployment_id (list_orders_page deployment_id status from_time to_time)"

definition list_pending_reconciliation :: "uuid \<Rightarrow> nat \<Rightarrow> nat \<Rightarrow> (ExecutionOrder list \<times> nat \<times> nat \<times> nat) dbm" where
  "list_pending_reconciliation deployment_id =
     deployment_page deployment_id (list_pending_reconciliation_orders_page deployment_id)"

definition list_fills ::
    "uuid \<Rightarrow> datetime option \<Rightarrow> datetime option \<Rightarrow> nat \<Rightarrow> nat \<Rightarrow> (ExecutionFill list \<times> nat \<times> nat \<times> nat) dbm" where
  "list_fills deployment_id from_time to_time =
     deployment_page deployment_id (list_fills_page deployment_id from_time to_time)"

definition list_positions ::
    "(ExecutionNetPosition \<Rightarrow> datetime) \<Rightarrow> uuid option \<Rightarrow> uuid option \<Rightarrow> bool \<Rightarrow> nat \<Rightarrow> nat \<Rightarrow>
     (ExecutionNetPosition list \<times> nat \<times> nat \<times> nat) dbm" where
  "list_positions updated_at deployment_id paper_account_id open_only limit offset =
     bnd (gets (list_positions_page updated_at deployment_id paper_account_id open_only limit offset))
       (\<lambda>(items, total). ret (items, total, limit, offset))"

definition list_ledger ::
    "uuid \<Rightarrow> uuid option \<Rightarrow> datetime option \<Rightarrow> datetime option \<Rightarrow> nat \<Rightarrow> nat \<Rightarrow>
     (ExecutionLedgerEntry list \<times> nat \<times> nat \<times> nat) dbm" where
  "list_ledger paper_account_id deployment_id from_time to_time limit offset =
     bnd (found_or_404 ''paper account'' (get_paper_account paper_account_id)) (\<lambda>_.
     bnd (gets (list_ledger_entries_page paper_account_id deployment_id from_time to_time limit offset))
       (\<lambda>(items, total). ret (items, total, limit, offset)))"

definition list_risk_events ::
    "uuid \<Rightarrow> datetime option \<Rightarrow> datetime option \<Rightarrow> nat \<Rightarrow> nat \<Rightarrow> (ExecutionRiskEvent list \<times> nat \<times> nat \<times> nat) dbm" where
  "list_risk_events deployment_id from_time to_time =
     deployment_page deployment_id (list_risk_events_page deployment_id from_time to_time)"

definition list_audit_events ::
    "uuid option \<Rightarrow> string option \<Rightarrow> datetime option \<Rightarrow> datetime option \<Rightarrow> nat \<Rightarrow> nat \<Rightarrow>
     (ExecutionAuditEvent list \<times> nat \<times> nat \<times> nat) dbm" where
  "list_audit_events deployment_id event_type from_time to_time limit offset =
     bnd (gets (list_audit_events_page deployment_id event_type from_time to_time limit offset))
       (\<lambda>(items, total). ret (items, total, limit, offset))"

section \<open>Kill switch and health\<close>

definition get_kill_switch :: "ExecutionControlState dbm" where
  "get_kill_switch = get_execution_control_state"

definition update_kill_switch ::
    "bool \<Rightarrow> bool \<Rightarrow> string option \<Rightarrow> string option \<Rightarrow> (ExecutionControlState \<times> uuid) dbm" where
  "update_kill_switch enabled confirm reason updated_by =
     (if \<not> confirm then throw (HTTPException 400 ''kill switch changes require confirm=true'')
      else map_errors http_from_db
        (bnd (if enabled then enable_kill_switch reason updated_by else disable_kill_switch updated_by) (\<lambda>_.
         bnd (record_audit_event (if enabled then ''kill_switch_enabled'' else ''kill_switch_disabled'')
                (if enabled then ''kill switch enabled'' else ''kill switch disabled'') updated_by None
                [(''enabled'', JBool enabled), (''reason'', json_of_opt reason)]) (\<lambda>audit.
         bnd get_execution_control_state (\<lambda>state. ret (state, aud_id audit))))))"

record DeploymentHealth =
  dh_deployment :: ExecutionDeployment
  dh_worker_lease :: "(ExecutionWorkerLease \<times> bool) option"
  dh_latest_decision :: "ExecutionDecision option"
  dh_unknown_order_count :: nat

record ExecutionHealth =
  eh_api_status :: string
  eh_worker_status :: string
  eh_market_data_status :: string
  eh_kill_switch_enabled :: bool
  eh_unknown_order_count :: nat
  eh_deployments :: "DeploymentHealth list"

text \<open>\<^verbatim>\<open>{lease.deployment_id: lease for lease in ...}\<close>: a later lease of a deployment replaces an earlier one.\<close>

definition lease_by_deployment :: "ExecutionWorkerLease list \<Rightarrow> uuid \<Rightarrow> ExecutionWorkerLease option" where
  "lease_by_deployment leases = map_of (rev (map (\<lambda>l. (lea_deployment_id l, l)) leases))"

definition deployment_health ::
    "datetime \<Rightarrow> (uuid \<Rightarrow> ExecutionWorkerLease option) \<Rightarrow> ExecutionDeployment \<Rightarrow> DeploymentHealth dbm" where
  "deployment_health now leases deployment =
     bnd (reads (get_latest_decision (dep_id deployment))) (\<lambda>latest.
     bnd (gets (count_unknown_orders (Some (dep_id deployment)))) (\<lambda>unknown.
     ret \<lparr>dh_deployment = deployment, dh_worker_lease = map_option (lease_response now) (leases (dep_id deployment)),
       dh_latest_decision = latest, dh_unknown_order_count = unknown\<rparr>))"

definition get_execution_health :: "bool \<Rightarrow> ExecutionHealth dbm" where
  "get_execution_health mt5_connected = map_errors http_from_db
     (bnd (gets db_clock) (\<lambda>now.
      bnd get_execution_control_state (\<lambda>control.
      bnd (gets (list_deployments_page None None None 200 0)) (\<lambda>(deployments, _).
      bnd (gets (\<lambda>db. lease_by_deployment (list_active_worker_leases db))) (\<lambda>leases.
      bnd (for_each (deployment_health now leases) deployments) (\<lambda>healths.
      bnd (gets (count_unknown_orders None)) (\<lambda>unknown_total.
      ret \<lparr>eh_api_status = (if unknown_total > 0 \<or> ctl_kill_switch_enabled control then ''degraded'' else ''ok''),
        eh_worker_status = (if \<exists>h\<in>set healths. (case dh_worker_lease h of None \<Rightarrow> False | Some (_, active) \<Rightarrow> active)
           then ''healthy'' else ''offline''),
        eh_market_data_status = (if mt5_connected then ''online'' else ''offline''),
        eh_kill_switch_enabled = ctl_kill_switch_enabled control,
        eh_unknown_order_count = unknown_total, eh_deployments = healths\<rparr>)))))))"

end
