(* ===== verification/Worker.thy ===== *)
theory Worker
  imports Evaluator Control
begin

text \<open>
  The execution worker, \<^verbatim>\<open>execution/worker.py\<close>, with \<^verbatim>\<open>ExecutionRecovery.build_runtime\<close> of
  \<^verbatim>\<open>execution/recovery.py\<close> and the operator's \<^verbatim>\<open>cmd_flatten\<close> of \<^verbatim>\<open>cli/q_execution.py\<close>. Its state
  is the database session, the runtimes and lease tokens it keeps in memory between polls, the
  number of bar fetches and of tokens drawn, and its health report. A poll opens a session: it
  starts from the committed database, and what it has not committed is lost when it closes,
  while the runtimes and tokens in memory stay. A runtime keeps the deployment row it last saw
  (\<^verbatim>\<open>expire_on_commit=False\<close>). Strategies, their initial state and the tokens of
  \<^verbatim>\<open>uuid4\<close> are parameters; waiting between polls, logging and signal handlers are not modelled.
\<close>

section \<open>State\<close>

record 'st DeploymentRuntime =
  drt_deployment :: ExecutionDeployment
  drt_identity :: StrategyIdentity
  drt_evaluator :: "'st StrategyEvaluator"
  drt_lease_token :: string

record WorkerHealth =
  wh_worker_id :: string
  wh_running :: bool
  wh_active_deployments :: nat
  wh_last_poll_at :: "datetime option"
  wh_last_error :: "exec_error option"

record WorkerSettings =
  wse_worker_id :: string
  wse_lease_ttl_seconds :: int
  wse_default_point_value :: decimal
  wse_paper_slippage_points :: decimal
  wse_paper_cost_per_contract :: decimal
  wse_paper_cost_bps :: decimal
  wse_max_quote_age_seconds :: decimal
  wse_initial_window_bars :: int

record ('st, 'row) ExecutionWorker =
  ewk_coordinator :: BarCoordinator
  ewk_quote_source :: "string \<Rightarrow> ExecutableQuote option"
  ewk_broker :: ExecutionBroker
  ewk_service :: ExecutionService
  ewk_settings :: WorkerSettings
  ewk_clock :: datetime
  ewk_strategy :: "StrategyIdentity \<Rightarrow> ('st, 'row) TradingStrategy"
  ewk_new_strategy :: "StrategyIdentity \<Rightarrow> exec_error + 'st \<times> int"
  ewk_uuid4 :: "nat \<Rightarrow> string"

record 'st worker_state =
  wst_session :: session
  wst_runtimes :: "(uuid \<times> 'st DeploymentRuntime) list"
  wst_lease_tokens :: "uuid \<rightharpoonup> string"
  wst_fetch_count :: nat
  wst_tokens_drawn :: nat
  wst_running :: bool
  wst_last_poll_at :: "datetime option"
  wst_last_error :: "exec_error option"

type_synonym ('st, 'a) wkm = "('st worker_state, 'a) comp"

text \<open>Database, coordinator and evaluator calls from the worker.\<close>

definition on_session :: "'a svm \<Rightarrow> ('st, 'a) wkm" where
  "on_session m = on_part wst_session (\<lambda>s w. w\<lparr>wst_session := s\<rparr>) m"

definition on_db :: "'a dbm \<Rightarrow> ('st, 'a) wkm" where
  "on_db m = on_session (db_op m)"

definition on_coordinator :: "'a bcm \<Rightarrow> ('st, 'a) wkm" where
  "on_coordinator m = on_part wst_fetch_count (\<lambda>n w. w\<lparr>wst_fetch_count := n\<rparr>) m"

text \<open>\<^verbatim>\<open>with self.session_factory() as session:\<close>\<close>

definition with_session :: "('st, 'a) wkm \<Rightarrow> ('st, 'a) wkm" where
  "with_session m =
     bnd (on_session rollback) (\<lambda>_.
     bnd (catch m (\<lambda>e. bnd (on_session rollback) (\<lambda>_. throw e))) (\<lambda>x.
     bnd (on_session rollback) (\<lambda>_. ret x)))"

text \<open>The dict of runtimes: \<^verbatim>\<open>d[k] = v\<close> keeps the place of a key it already has.\<close>

primrec put_runtime :: "uuid \<Rightarrow> 'r \<Rightarrow> (uuid \<times> 'r) list \<Rightarrow> (uuid \<times> 'r) list" where
  "put_runtime k v [] = [(k, v)]"
| "put_runtime k v (p # ps) = (if fst p = k then (k, v) # ps else p # put_runtime k v ps)"

definition has_runtime :: "uuid \<Rightarrow> 'st worker_state \<Rightarrow> bool" where
  "has_runtime k w \<longleftrightarrow> k \<in> fst ` set (wst_runtimes w)"

definition set_runtime :: "uuid \<Rightarrow> 'st DeploymentRuntime \<Rightarrow> ('st, unit) wkm" where
  "set_runtime k rt = modify (\<lambda>w. w\<lparr>wst_runtimes := put_runtime k rt (wst_runtimes w)\<rparr>)"

definition set_runtime_deployment :: "uuid \<Rightarrow> ExecutionDeployment \<Rightarrow> ('st, unit) wkm" where
  "set_runtime_deployment k d = modify (\<lambda>w. w\<lparr>wst_runtimes :=
     map (\<lambda>(j, rt). (j, if j = k then rt\<lparr>drt_deployment := d\<rparr> else rt)) (wst_runtimes w)\<rparr>)"

text \<open>A call of the evaluator of one runtime.\<close>

definition on_evaluator :: "uuid \<Rightarrow> ('st, 'a) evm \<Rightarrow> ('st, 'a) wkm" where
  "on_evaluator k m = (\<lambda>w. case map_of (wst_runtimes w) k of
     None \<Rightarrow> (Inl (RuntimeError ''KeyError''), w)
   | Some rt \<Rightarrow> (case m (drt_evaluator rt) of (r, ev) \<Rightarrow>
       (r, w\<lparr>wst_runtimes := put_runtime k (rt\<lparr>drt_evaluator := ev\<rparr>) (wst_runtimes w)\<rparr>)))"

section \<open>Building a runtime\<close>

text \<open>\<^verbatim>\<open>batches.get(key)\<close>.\<close>

definition get_batch :: "(BarStreamKey \<times> CompletedBarBatch) list \<Rightarrow> BarStreamKey \<Rightarrow> CompletedBarBatch option" where
  "get_batch batches key = map_of (rev batches) key"

definition deployment_consumer :: "ExecutionDeployment \<Rightarrow> datetime option \<Rightarrow> DeploymentBarConsumer" where
  "deployment_consumer deployment last_close =
     \<lparr>dbc_deployment_id = uuid_str (dep_id deployment), dbc_symbol = si_symbol (dep_identity deployment),
      dbc_timeframe = si_timeframe (dep_identity deployment), dbc_last_evaluated_close = last_close\<rparr>"

definition restore_window ::
    "('st, 'row) TradingStrategy \<Rightarrow> ExecutionDeployment \<Rightarrow> CompletedBarBatch option \<Rightarrow> ('st, unit) evm" where
  "restore_window strategy deployment batch = (case batch of
     None \<Rightarrow> ret ()
   | Some b \<Rightarrow> if cbb_frame b = [] then ret ()
       else case dep_last_bar_close_time deployment of
         Some t \<Rightarrow> bnd (replay_recovery strategy (cbb_frame b) (Some t)) (\<lambda>_. ret ())
       | None \<Rightarrow> seed_window (cbb_frame b))"

definition open_trade_of :: "ExecutionDeployment \<Rightarrow> decimal \<Rightarrow> ExecutionNetPosition option \<Rightarrow> exec_error + Trade option" where
  "open_trade_of deployment point_value position = (case position of
     None \<Rightarrow> Inr None
   | Some p \<Rightarrow> if pos_is_open p then execution_position_to_trade (uuid_str (dep_id deployment)) (si_symbol (dep_identity deployment))
         (pos_side p) (pos_quantity p) (pos_average_entry_price p) (pos_opened_at p) point_value
       else Inr None)"

definition build_runtime ::
    "('st, 'row) ExecutionWorker \<Rightarrow> ExecutionDeployment \<Rightarrow> string \<Rightarrow> decimal \<Rightarrow> decimal \<Rightarrow> ('st, 'st DeploymentRuntime) wkm" where
  "build_runtime self deployment lease_token point_value initial_capital =
     (let identity = dep_identity deployment; consumer = deployment_consumer deployment (dep_last_bar_close_time deployment) in
     bnd (on_db (reads (get_open_net_position (dep_id deployment)))) (\<lambda>position.
     bnd (reads (\<lambda>_. open_trade_of deployment point_value position)) (\<lambda>trade.
     bnd (reads (\<lambda>_. ewk_new_strategy self identity)) (\<lambda>(st, window_bound).
     bnd (on_coordinator (poll (ewk_coordinator self) [consumer] (Some (wse_initial_window_bars (ewk_settings self))))) (\<lambda>batches.
     let evaluator = new_evaluator (uuid_str (dep_id deployment)) identity initial_capital point_value trade
           (dep_last_bar_close_time deployment) window_bound st
     in case restore_window (ewk_strategy self identity) deployment (get_batch batches (stream_key consumer)) evaluator of
          (Inl e, _) \<Rightarrow> throw e
        | (Inr _, ev) \<Rightarrow> ret \<lparr>drt_deployment = deployment, drt_identity = identity, drt_evaluator = ev,
            drt_lease_token = lease_token\<rparr>)))))"

section \<open>Leases and deployments\<close>

definition worker_order_reconciler :: "('st, 'row) ExecutionWorker \<Rightarrow> OrderReconciler" where
  "worker_order_reconciler self = \<lparr>orc_broker = ewk_broker self,
     orc_point_value = wse_default_point_value (ewk_settings self), orc_clock = ewk_clock self\<rparr>"

definition worker_health :: "('st, 'row) ExecutionWorker \<Rightarrow> 'st worker_state \<Rightarrow> WorkerHealth" where
  "worker_health self w = \<lparr>wh_worker_id = wse_worker_id (ewk_settings self), wh_running = wst_running w,
     wh_active_deployments = length (wst_runtimes w), wh_last_poll_at = wst_last_poll_at w,
     wh_last_error = wst_last_error w\<rparr>"

definition heartbeat_lease :: "('st, 'row) ExecutionWorker \<Rightarrow> uuid \<Rightarrow> datetime \<Rightarrow> ('st, unit) wkm" where
  "heartbeat_lease self deployment_id now =
     bnd (gets (\<lambda>w. wst_lease_tokens w deployment_id)) (\<lambda>token. case token of
       None \<Rightarrow> ret ()
     | Some t \<Rightarrow> on_db (heartbeat_worker_lease deployment_id (wse_worker_id (ewk_settings self)) t
         (wse_lease_ttl_seconds (ewk_settings self)) (Some now)))"

definition release_deployment :: "('st, 'row) ExecutionWorker \<Rightarrow> uuid \<Rightarrow> ('st, unit) wkm" where
  "release_deployment self deployment_id =
     bnd (gets (\<lambda>w. wst_lease_tokens w deployment_id)) (\<lambda>token.
     bnd (modify (\<lambda>w. w\<lparr>wst_lease_tokens := (wst_lease_tokens w)(deployment_id := None),
            wst_runtimes := filter (\<lambda>p. fst p \<noteq> deployment_id) (wst_runtimes w)\<rparr>)) (\<lambda>_.
     case token of
       None \<Rightarrow> ret ()
     | Some t \<Rightarrow> bnd (catch (on_db (release_worker_lease deployment_id (wse_worker_id (ewk_settings self)) t))
           (\<lambda>e. if is_value_error e then ret False else throw e)) (\<lambda>_. ret ())))"

text \<open>The branch of \<^verbatim>\<open>_refresh_deployments\<close> that takes a running deployment on.\<close>

definition adopt_deployment :: "('st, 'row) ExecutionWorker \<Rightarrow> datetime \<Rightarrow> ExecutionDeployment \<Rightarrow> ('st, unit) wkm" where
  "adopt_deployment self now deployment =
     bnd (gets (\<lambda>w. ewk_uuid4 self (wst_tokens_drawn w))) (\<lambda>token.
     bnd (modify (\<lambda>w. w\<lparr>wst_tokens_drawn := Suc (wst_tokens_drawn w)\<rparr>)) (\<lambda>_.
     bnd (catch (bnd (on_db (acquire_worker_lease (dep_id deployment) (wse_worker_id (ewk_settings self)) token
              (wse_lease_ttl_seconds (ewk_settings self)) (Some now))) (\<lambda>_. ret True))
            (\<lambda>e. case e of LeaseConflictError _ _ \<Rightarrow> ret False | _ \<Rightarrow> throw e)) (\<lambda>acquired.
     if \<not> acquired then ret ()
     else
       bnd (on_db (gets (get_paper_account (dep_paper_account_id deployment)))) (\<lambda>account.
       bnd (build_runtime self deployment token (wse_default_point_value (ewk_settings self))
              (case account of None \<Rightarrow> 100000 | Some a \<Rightarrow> pa_initial_balance a)) (\<lambda>runtime.
       bnd (set_runtime (dep_id deployment) runtime) (\<lambda>_.
       modify (\<lambda>w. w\<lparr>wst_lease_tokens := (wst_lease_tokens w)(dep_id deployment := Some token)\<rparr>)))))))"

definition refresh_deployment :: "('st, 'row) ExecutionWorker \<Rightarrow> datetime \<Rightarrow> ExecutionDeployment \<Rightarrow> ('st, unit) wkm" where
  "refresh_deployment self now deployment =
     bnd (gets (has_runtime (dep_id deployment))) (\<lambda>known.
     if dep_lifecycle deployment = PAUSED then
       whenM known (heartbeat_lease self (dep_id deployment) now)
     else if \<not> known then adopt_deployment self now deployment
     else
       bnd (heartbeat_lease self (dep_id deployment) now) (\<lambda>_.
       set_runtime_deployment (dep_id deployment) deployment))"

definition refresh_deployments :: "('st, 'row) ExecutionWorker \<Rightarrow> datetime \<Rightarrow> ('st, unit) wkm" where
  "refresh_deployments self now =
     bnd (on_db (gets (list_deployments (Some [RUNNING, PAUSED])))) (\<lambda>deployments.
     bnd (for_each (refresh_deployment self now) deployments) (\<lambda>_.
     bnd (gets (\<lambda>w. filter (\<lambda>k. k \<notin> dep_id ` set deployments) (map fst (wst_runtimes w)))) (\<lambda>gone.
     bnd (for_each (release_deployment self) gone) (\<lambda>_. ret ()))))"

definition shutdown :: "('st, 'row) ExecutionWorker \<Rightarrow> ('st, unit) wkm" where
  "shutdown self = with_session
     (bnd (gets (\<lambda>w. map fst (wst_runtimes w))) (\<lambda>ids.
      bnd (for_each (release_deployment self) ids) (\<lambda>_. on_session commit)))"

definition worker_cost_config :: "('st, 'row) ExecutionWorker \<Rightarrow> PaperCostConfig" where
  "worker_cost_config self = (let s = ewk_settings self in
     \<lparr>pcc_point_value = wse_default_point_value s, pcc_slippage_points = wse_paper_slippage_points s,
      pcc_cost_per_contract = wse_paper_cost_per_contract s, pcc_cost_bps = wse_paper_cost_bps s,
      pcc_max_quote_age_seconds = wse_max_quote_age_seconds s, pcc_volume_step = 1, pcc_min_volume = 1\<rparr>)"

section \<open>A poll\<close>

text \<open>\<^verbatim>\<open>for runtime in list(self._runtimes.values())\<close>: the runtimes are objects, read when their turn comes.\<close>

definition for_each_runtime :: "('st DeploymentRuntime \<Rightarrow> ('st, unit) wkm) \<Rightarrow> ('st, unit) wkm" where
  "for_each_runtime f =
     bnd (gets (\<lambda>w. map fst (wst_runtimes w))) (\<lambda>ids.
     bnd (for_each (\<lambda>k. bnd (gets (\<lambda>w. map_of (wst_runtimes w) k)) (\<lambda>rt. case rt of None \<Rightarrow> ret () | Some r \<Rightarrow> f r)) ids)
       (\<lambda>_. ret ()))"

definition poll_consumers :: "'st worker_state \<Rightarrow> DeploymentBarConsumer list" where
  "poll_consumers w = map (\<lambda>(_, rt). deployment_consumer (drt_deployment rt) (sev_last_evaluated_close (drt_evaluator rt)))
     (filter (\<lambda>(_, rt). dep_lifecycle (drt_deployment rt) = RUNNING) (wst_runtimes w))"

definition flatten_if_requested :: "('st, 'row) ExecutionWorker \<Rightarrow> 'st DeploymentRuntime \<Rightarrow> ('st, unit) wkm" where
  "flatten_if_requested self rt = (let did = dep_id (drt_deployment rt) in
     bnd (on_db (gets (get_execution_deployment did))) (\<lambda>found. case found of
       None \<Rightarrow> ret ()
     | Some deployment \<Rightarrow>
         bnd (set_runtime_deployment did deployment) (\<lambda>_.
         if dep_pending_action deployment = Some ''flatten'' then
           bnd (gets (\<lambda>w. wst_lease_tokens w did)) (\<lambda>token. case token of
             None \<Rightarrow> ret ()
           | Some t \<Rightarrow>
               bnd (on_session (flatten_deployment (ewk_service self) deployment t (wse_worker_id (ewk_settings self))
                      (worker_cost_config self) (wse_default_point_value (ewk_settings self)) None)) (\<lambda>_.
               bnd (on_db (clear_pending_deployment_action did)) (\<lambda>_. ret ())))
         else ret ())))"

definition process_new_bars ::
    "('st, 'row) ExecutionWorker \<Rightarrow> ExecutionDeployment \<Rightarrow> frame \<Rightarrow> ('st, unit) wkm" where
  "process_new_bars self deployment new_bars =
     bnd (on_evaluator (dep_id deployment)
            (ingest_completed_bars (ewk_strategy self (dep_identity deployment)) new_bars None)) (\<lambda>eval_results.
     bnd (gets (\<lambda>w. wst_lease_tokens w (dep_id deployment))) (\<lambda>token. case token of
       None \<Rightarrow> throw (RuntimeError ''KeyError'')
     | Some t \<Rightarrow>
         bnd (for_each (\<lambda>r. on_session (process_completed_bar (ewk_service self) deployment r t
                (wse_worker_id (ewk_settings self)) (worker_cost_config self) (wse_default_point_value (ewk_settings self)) False False))
              eval_results) (\<lambda>_. ret ())))"

definition process_runtime ::
    "('st, 'row) ExecutionWorker \<Rightarrow> (BarStreamKey \<times> CompletedBarBatch) list \<Rightarrow> 'st DeploymentRuntime \<Rightarrow> ('st, unit) wkm" where
  "process_runtime self batches rt =
     (if dep_lifecycle (drt_deployment rt) \<noteq> RUNNING then ret ()
      else let did = dep_id (drt_deployment rt) in
        bnd (on_db (gets (get_execution_deployment did))) (\<lambda>found. case found of
          None \<Rightarrow> ret ()
        | Some deployment \<Rightarrow>
            bnd (set_runtime_deployment did deployment) (\<lambda>_.
            let consumer = deployment_consumer deployment (sev_last_evaluated_close (drt_evaluator rt)) in
            case get_batch batches (stream_key consumer) of
              None \<Rightarrow> ret ()
            | Some batch \<Rightarrow>
                bnd (reads (\<lambda>_. new_bars_for_consumer batch consumer)) (\<lambda>new_bars.
                if new_bars = [] then ret () else process_new_bars self deployment new_bars))))"

definition poll_once :: "('st, 'row) ExecutionWorker \<Rightarrow> ('st, unit) wkm" where
  "poll_once self = (let now = ewk_clock self in with_session
     (bnd (refresh_deployments self now) (\<lambda>_.
      bnd (for_each_runtime (\<lambda>rt. bnd (on_db (reconcile_deployment (worker_order_reconciler self) (drt_deployment rt))) (\<lambda>_. ret ()))) (\<lambda>_.
      bnd (gets poll_consumers) (\<lambda>consumers.
      if consumers = [] then
        bnd (on_session commit) (\<lambda>_. modify (\<lambda>w. w\<lparr>wst_last_poll_at := Some now\<rparr>))
      else
        bnd (on_coordinator (poll (ewk_coordinator self) consumers (Some (wse_initial_window_bars (ewk_settings self))))) (\<lambda>batches.
        bnd (for_each_runtime (flatten_if_requested self)) (\<lambda>_.
        bnd (for_each_runtime (process_runtime self batches)) (\<lambda>_.
        bnd (on_session commit) (\<lambda>_.
        modify (\<lambda>w. w\<lparr>wst_last_poll_at := Some now, wst_last_error := None\<rparr>))))))))))"

section \<open>Running\<close>

text \<open>Start-up: recovery, then the reconciliation of every pending order, each committed.\<close>

definition startup :: "('st, 'row) ExecutionWorker \<Rightarrow> ('st, unit) wkm" where
  "startup self =
     bnd (modify (\<lambda>w. w\<lparr>wst_running := True\<rparr>)) (\<lambda>_. with_session
     (bnd (on_db (recover (ewk_quote_source self) None)) (\<lambda>result.
      bnd (on_session commit) (\<lambda>_.
      if rcv_failed_closed result then throw (RuntimeError (rcv_message result))
      else
        bnd (on_db (reconcile_all_pending (worker_order_reconciler self))) (\<lambda>_.
        on_session commit)))))"

text \<open>One turn of the loop: a poll that raises is recorded and the loop goes on.\<close>

definition poll_guarded :: "('st, 'row) ExecutionWorker \<Rightarrow> ('st, unit) wkm" where
  "poll_guarded self = catch (poll_once self) (\<lambda>e. modify (\<lambda>w. w\<lparr>wst_last_error := Some e\<rparr>))"

text \<open>
  \<^verbatim>\<open>run\<close>, up to the shutdown request: the list holds the worker as it is configured at each
  poll, with the clock, the quotes and the bars of that moment.
\<close>

definition run_worker :: "('st, 'row) ExecutionWorker \<Rightarrow> ('st, 'row) ExecutionWorker list \<Rightarrow> ('st, unit) wkm" where
  "run_worker self polls =
     (let stop = bnd (shutdown self) (\<lambda>_. modify (\<lambda>w. w\<lparr>wst_running := False\<rparr>)) in
      bnd (catch (bnd (startup self) (\<lambda>_. bnd (for_each poll_guarded polls) (\<lambda>_. ret ())))
             (\<lambda>e. bnd stop (\<lambda>_. throw e))) (\<lambda>_. stop))"

section \<open>The operator's flatten\<close>

definition cmd_flatten :: "('st, 'row) ExecutionWorker \<Rightarrow> uuid \<Rightarrow> string \<Rightarrow> BarProcessResult svm" where
  "cmd_flatten self deployment_id lease_token =
     (let worker_id = wse_worker_id (ewk_settings self);
          release = catch (bnd (db_op (release_worker_lease deployment_id worker_id lease_token)) (\<lambda>_. ret ()))
            (\<lambda>e. if is_value_error e then ret () else throw e)
      in bnd rollback (\<lambda>_. with_begin
     (bnd (db_op (get_deployment_or_raise deployment_id)) (\<lambda>deployment.
      bnd (db_op (acquire_worker_lease deployment_id worker_id lease_token (wse_lease_ttl_seconds (ewk_settings self)) None)) (\<lambda>_.
      bnd (catch (bnd (flatten_deployment (ewk_service self) deployment lease_token worker_id (worker_cost_config self)
                         (wse_default_point_value (ewk_settings self)) None) (\<lambda>result.
                  bnd (db_op (clear_pending_deployment_action deployment_id)) (\<lambda>_. ret result)))
             (\<lambda>e. bnd release (\<lambda>_. throw e))) (\<lambda>result.
      bnd release (\<lambda>_. ret result)))))))"

end
