(* ===== verification/Exec_Leases.thy ===== *)
theory Exec_Leases
  imports Exec_Store_Inv Exec_Example
begin

text \<open>
  Worker leases: the abstract lease table, a map from deployments to the worker, token and
  expiry of their lease, with one step per repository operation; the locale of a lease
  service that implements it, with the two facts workers rely on (a lease cannot be taken
  by another worker before it expires; a worker whose token was replaced stays fenced off);
  and its interpretation on the repository's operations.
\<close>

section \<open>Rows addressed by two keys\<close>

lemma upd_row_other_key:
  assumes "distinct (map rid rows)" and "distinct (map key rows)" and "r \<in> set rows"
  shows "upd_row rid (rid r) f rows = upd_row key (key r) f rows"
  unfolding upd_row_def using assms by (intro map_cong) (auto simp: distinct_map inj_on_def)

lemma del_row_other_key:
  assumes "distinct (map rid rows)" and "distinct (map key rows)" and "r \<in> set rows"
  shows "del_row rid (rid r) rows = del_row key (key r) rows"
  unfolding del_row_def using assms by (intro filter_cong) (auto simp: distinct_map inj_on_def)

section \<open>The abstract lease table\<close>

type_synonym lease_view = "string \<times> string \<times> datetime"

datatype lease_op =
    Acquire uuid string string int datetime
  | Heartbeat uuid string string int datetime
  | Release uuid string string
  | Expire datetime

fun lease_spec :: "lease_op \<Rightarrow> (uuid \<Rightarrow> lease_view option) \<Rightarrow> bool \<times> (uuid \<Rightarrow> lease_view option)" where
  "lease_spec (Acquire d w t ttl ts) h = (case h d of
     Some (w', t', e) \<Rightarrow> if ts < e \<and> w' \<noteq> w then (False, h) else (True, h(d \<mapsto> (w, t, ts + seconds ttl)))
   | None \<Rightarrow> (True, h(d \<mapsto> (w, t, ts + seconds ttl))))"
| "lease_spec (Heartbeat d w t ttl ts) h = (case h d of
     Some (w', t', e) \<Rightarrow> if w' = w \<and> t' = t then (True, h(d \<mapsto> (w, t, ts + seconds ttl))) else (False, h)
   | None \<Rightarrow> (False, h))"
| "lease_spec (Release d w t) h = (case h d of
     Some (w', t', e) \<Rightarrow> if w' = w \<and> t' = t then (True, h(d := None)) else (False, h)
   | None \<Rightarrow> (True, h))"
| "lease_spec (Expire ts) h = (True, \<lambda>d. case h d of
     Some (w, t, e) \<Rightarrow> if e \<le> ts then None else Some (w, t, e)
   | None \<Rightarrow> None)"

text \<open>Operations that cannot disturb the lease \<open>(w, t, e)\<close> on \<open>d\<close>: other deployments, and other workers before it expires.\<close>

fun keeps_lease :: "uuid \<Rightarrow> lease_view \<Rightarrow> lease_op \<Rightarrow> bool" where
  "keeps_lease d (w, t, e) (Acquire d' w' t' ttl ts) \<longleftrightarrow> d' \<noteq> d \<or> w' \<noteq> w \<and> ts < e"
| "keeps_lease d (w, t, e) (Heartbeat d' w' t' ttl ts) \<longleftrightarrow> d' \<noteq> d \<or> w' \<noteq> w"
| "keeps_lease d (w, t, e) (Release d' w' t') \<longleftrightarrow> d' \<noteq> d \<or> w' \<noteq> w"
| "keeps_lease d (w, t, e) (Expire ts) \<longleftrightarrow> ts < e"

text \<open>Operations that do not bring the token \<open>t\<close> back on \<open>d\<close>: acquisitions draw a fresh token.\<close>

fun not_reissued :: "uuid \<Rightarrow> string \<Rightarrow> lease_op \<Rightarrow> bool" where
  "not_reissued d t (Acquire d' w' t' ttl ts) \<longleftrightarrow> d' \<noteq> d \<or> t' \<noteq> t"
| "not_reissued d t _ \<longleftrightarrow> True"

definition token_gone :: "uuid \<Rightarrow> string \<Rightarrow> (uuid \<Rightarrow> lease_view option) \<Rightarrow> bool" where
  "token_gone d t h \<longleftrightarrow> (\<forall>w e. h d \<noteq> Some (w, t, e))"

lemma lease_spec_keeps_lease: "h d = Some l \<Longrightarrow> keeps_lease d l op \<Longrightarrow> snd (lease_spec op h) d = Some l"
  by (cases l; cases op) (auto split: option.splits)

lemma lease_spec_token_gone: "token_gone d t h \<Longrightarrow> not_reissued d t op \<Longrightarrow> token_gone d t (snd (lease_spec op h))"
  by (cases op) (auto simp: token_gone_def split: option.splits if_splits)

lemma lease_spec_gone_fails:
  "token_gone d t h \<Longrightarrow> \<not> fst (lease_spec (Heartbeat d w t ttl ts) h)"
  by (auto simp: token_gone_def split: option.splits)

section \<open>A lease service\<close>

locale lease_service =
  fixes ok :: "'s \<Rightarrow> bool" and holder :: "'s \<Rightarrow> uuid \<Rightarrow> lease_view option"
    and step :: "lease_op \<Rightarrow> 's \<Rightarrow> bool \<times> 's"
  assumes step_ok: "ok s \<Longrightarrow> ok (snd (step op s))"
    and step_refines: "ok s \<Longrightarrow> holder (snd (step op s)) = snd (lease_spec op (holder s))"
    and step_result: "ok s \<Longrightarrow> fst (step op s) = fst (lease_spec op (holder s))"
begin

definition run :: "lease_op list \<Rightarrow> 's \<Rightarrow> 's" where
  "run ops s = fold (\<lambda>op s. snd (step op s)) ops s"

lemma run_simps [simp]: "run [] s = s" "run (op # ops) s = run ops (snd (step op s))"
  by (simp_all add: run_def)

lemma run_ok: "ok s \<Longrightarrow> ok (run ops s)"
  by (induction ops arbitrary: s) (auto intro: step_ok)

lemma exclusive:
  "ok s \<Longrightarrow> holder s d = Some l \<Longrightarrow> \<forall>op\<in>set ops. keeps_lease d l op \<Longrightarrow> holder (run ops s) d = Some l"
proof (induction ops arbitrary: s)
  case (Cons op ops)
  then show ?case using step_ok [of s op] step_refines [of s op] lease_spec_keeps_lease [of "holder s" d l op] by simp
qed simp

lemma fenced:
  "ok s \<Longrightarrow> token_gone d t (holder s) \<Longrightarrow> \<forall>op\<in>set ops. not_reissued d t op \<Longrightarrow> token_gone d t (holder (run ops s))"
proof (induction ops arbitrary: s)
  case (Cons op ops)
  then show ?case using step_ok [of s op] step_refines [of s op] lease_spec_token_gone [of d t "holder s" op] by simp
qed simp

lemma fenced_heartbeat_fails:
  "ok s \<Longrightarrow> token_gone d t (holder s) \<Longrightarrow> \<forall>op\<in>set ops. not_reissued d t op \<Longrightarrow>
     \<not> fst (step (Heartbeat d w t ttl ts) (run ops s))"
  using fenced run_ok step_result lease_spec_gone_fails by metis

end

section \<open>The repository is a lease service\<close>

definition lease_view_of :: "ExecutionWorkerLease \<Rightarrow> lease_view" where
  "lease_view_of l = (lea_worker_id l, lea_lease_token l, lea_expires_at l)"

definition lease_holder :: "exec_db \<Rightarrow> uuid \<Rightarrow> lease_view option" where
  "lease_holder db d = map_option lease_view_of (get_row lea_deployment_id d (db_leases db))"

fun lease_call :: "lease_op \<Rightarrow> unit dbm" where
  "lease_call (Acquire d w t ttl ts) = acquire_worker_lease d w t ttl (Some ts)"
| "lease_call (Heartbeat d w t ttl ts) = heartbeat_worker_lease d w t ttl (Some ts)"
| "lease_call (Release d w t) = bnd (release_worker_lease d w t) (\<lambda>_. ret ())"
| "lease_call (Expire ts) = bnd (release_expired_leases (Some ts)) (\<lambda>_. ret ())"

definition lease_step :: "lease_op \<Rightarrow> exec_db \<Rightarrow> bool \<times> exec_db" where
  "lease_step op db = (case lease_call op db of (r, db') \<Rightarrow> (\<not> isl r, db'))"

lemma get_worker_lease_eq:
  "wf_db db \<Longrightarrow> get_worker_lease d db = Inr (get_row lea_deployment_id d (db_leases db))"
  unfolding get_worker_lease_def get_row_def
  by (rule scalar_one_or_none_find, rule distinct_key_le_1) (simp add: wf_db_defs)

lemma lease_keys: "wf_db db \<Longrightarrow> distinct (map lea_id (db_leases db))" "wf_db db \<Longrightarrow> distinct (map lea_deployment_id (db_leases db))"
  by (simp_all add: wf_db_defs pk_ok_def)

lemma upd_lease:
  assumes "wf_db db" and "get_row lea_deployment_id d (db_leases db) = Some l"
    and "\<And>l. lea_deployment_id (f l) = lea_deployment_id l"
  shows "get_row lea_deployment_id d' (upd_row lea_id (lea_id l) f (db_leases db)) =
    (if d' = d then Some (f l) else get_row lea_deployment_id d' (db_leases db))"
proof -
  from get_row_SomeD [OF assms(2)] have l: "l \<in> set (db_leases db)" "lea_deployment_id l = d" by simp_all
  show ?thesis
    using upd_row_other_key [OF lease_keys [OF assms(1)] l(1)] assms(2,3) l(2) by (simp add: get_upd_row)
qed

lemma del_lease:
  assumes "wf_db db" and "get_row lea_deployment_id d (db_leases db) = Some l"
  shows "get_row lea_deployment_id d' (del_row lea_id (lea_id l) (db_leases db)) =
    (if d' = d then None else get_row lea_deployment_id d' (db_leases db))"
proof -
  from get_row_SomeD [OF assms(2)] have l: "l \<in> set (db_leases db)" "lea_deployment_id l = d" by simp_all
  show ?thesis
    using del_row_other_key [OF lease_keys [OF assms(1)] l(1)] l(2) by (simp add: get_del_row)
qed

text \<open>Deleting the expired leases.\<close>

definition expired_ids :: "datetime \<Rightarrow> ExecutionWorkerLease list \<Rightarrow> uuid set" where
  "expired_ids ts ls = lea_id ` {x \<in> set ls. lea_expires_at x \<le> ts}"

lemma expired_ids_simps [simp]:
  "expired_ids ts [] = {}"
  "expired_ids ts (l # ls) = (if lea_expires_at l \<le> ts then insert (lea_id l) (expired_ids ts ls) else expired_ids ts ls)"
  by (auto simp: expired_ids_def)

lemma release_list_run:
  "\<exists>ns. for_each (release_if_expired ts) ls db =
     (Inr ns, db\<lparr>db_leases := filter (\<lambda>l. lea_id l \<notin> expired_ids ts ls) (db_leases db)\<rparr>)"
proof (induction ls arbitrary: db)
  case Nil
  then show ?case by (simp add: ret_def)
next
  case (Cons l ls)
  show ?case
  proof (cases "lea_expires_at l \<le> ts")
    case True
    let ?db1 = "db\<lparr>db_leases := del_row lea_id (lea_id l) (db_leases db)\<rparr>"
    have "release_if_expired ts l db = (Inr 1, ?db1)"
      using True by (simp add: release_if_expired_def delete_lease_def comp_defs)
    moreover obtain ns where "for_each (release_if_expired ts) ls ?db1 =
        (Inr ns, ?db1\<lparr>db_leases := filter (\<lambda>l. lea_id l \<notin> expired_ids ts ls) (db_leases ?db1)\<rparr>)"
      using Cons.IH by blast
    ultimately have "for_each (release_if_expired ts) (l # ls) db =
        (Inr (1 # ns), ?db1\<lparr>db_leases := filter (\<lambda>l. lea_id l \<notin> expired_ids ts ls) (db_leases ?db1)\<rparr>)"
      by (rule for_each_Cons_run)
    with True show ?thesis by (simp add: del_row_def conj_commute)
  next
    case False
    have "release_if_expired ts l db = (Inr 0, db)" using False by (simp add: release_if_expired_def ret_def)
    moreover obtain ns where "for_each (release_if_expired ts) ls db =
        (Inr ns, db\<lparr>db_leases := filter (\<lambda>l. lea_id l \<notin> expired_ids ts ls) (db_leases db)\<rparr>)"
      using Cons.IH by blast
    ultimately have "for_each (release_if_expired ts) (l # ls) db =
        (Inr (0 # ns), db\<lparr>db_leases := filter (\<lambda>l. lea_id l \<notin> expired_ids ts ls) (db_leases db)\<rparr>)"
      by (rule for_each_Cons_run)
    with False show ?thesis by simp
  qed
qed

lemma release_expired_run:
  assumes "wf_db db"
  shows "\<exists>n. release_expired_leases (Some ts) db =
    (Inr n, db\<lparr>db_leases := filter (\<lambda>l. ts < lea_expires_at l) (db_leases db)\<rparr>)"
proof -
  have "filter (\<lambda>l. lea_id l \<notin> expired_ids ts (db_leases db)) (db_leases db) =
      filter (\<lambda>l. ts < lea_expires_at l) (db_leases db)"
    using assms
    by (intro filter_cong) (auto simp: expired_ids_def wf_db_defs pk_ok_def distinct_map inj_on_def not_le)
  with release_list_run [of ts "db_leases db" db] show ?thesis
    by (auto simp: release_expired_leases_def bnd_def gets_def or_now_def ret_def)
qed

lemma holder_expired:
  assumes "wf_db db"
  shows "lease_holder (db\<lparr>db_leases := filter (\<lambda>l. ts < lea_expires_at l) (db_leases db)\<rparr>) =
    snd (lease_spec (Expire ts) (lease_holder db))"
proof -
  have "get_row key d (filter P rows) = (case get_row key d rows of None \<Rightarrow> None | Some l \<Rightarrow> if P l then Some l else None)"
    if "distinct (map key rows)" for key :: "'r \<Rightarrow> 'k" and d P rows
    using that
  proof (induction rows)
    case (Cons r rows)
    moreover have "get_row key (key r) (filter P rows) = None"
      using Cons.prems by (auto simp: get_row_None_iff image_iff)
    ultimately show ?case by (cases "key r = d") auto
  qed simp
  from this [OF lease_keys(2) [OF assms]] show ?thesis
    by (auto simp: fun_eq_iff lease_holder_def lease_view_of_def split: option.splits)
qed

lemma lease_call_run:
  assumes wf: "wf_db db"
  shows "isl (fst (lease_call op db)) = (\<not> fst (lease_spec op (lease_holder db))) \<and>
    lease_holder (snd (lease_call op db)) = snd (lease_spec op (lease_holder db))"
proof (cases op)
  case (Acquire d w t ttl ts)
  show ?thesis
  proof (cases "get_row lea_deployment_id d (db_leases db)")
    case None
    then show ?thesis
      by (auto simp: Acquire acquire_worker_lease_def get_worker_lease_eq [OF wf] or_now_def session_add_def Let_def comp_defs
          lease_holder_def lease_view_of_def fun_eq_iff get_row_append split: option.splits)
  next
    case (Some l)
    then show ?thesis
      by (auto simp: Acquire acquire_worker_lease_def get_worker_lease_eq [OF wf] or_now_def update_lease_def comp_defs
          lease_holder_def lease_view_of_def fun_eq_iff upd_lease [OF wf Some])
  qed
next
  case (Heartbeat d w t ttl ts)
  show ?thesis
  proof (cases "get_row lea_deployment_id d (db_leases db)")
    case None
    then show ?thesis
      by (simp add: Heartbeat heartbeat_worker_lease_def get_worker_lease_eq [OF wf] comp_defs lease_holder_def fun_eq_iff)
  next
    case (Some l)
    then show ?thesis
      by (auto simp: Heartbeat heartbeat_worker_lease_def get_worker_lease_eq [OF wf] or_now_def update_lease_def comp_defs
          lease_holder_def lease_view_of_def fun_eq_iff upd_lease [OF wf Some])
  qed
next
  case (Release d w t)
  show ?thesis
  proof (cases "get_row lea_deployment_id d (db_leases db)")
    case None
    then show ?thesis
      by (simp add: Release release_worker_lease_def get_worker_lease_eq [OF wf] comp_defs lease_holder_def fun_eq_iff)
  next
    case (Some l)
    then show ?thesis
      by (auto simp: Release release_worker_lease_def get_worker_lease_eq [OF wf] delete_lease_def comp_defs
          lease_holder_def lease_view_of_def fun_eq_iff del_lease [OF wf Some])
  qed
next
  case (Expire ts)
  from release_expired_run [OF wf] obtain n where
    "release_expired_leases (Some ts) db = (Inr n, db\<lparr>db_leases := filter (\<lambda>l. ts < lea_expires_at l) (db_leases db)\<rparr>)"
    by blast
  then show ?thesis by (simp add: Expire bnd_def ret_def holder_expired [OF wf] del: lease_spec.simps) simp
qed

lemma lease_call_wf: "keeps wf_db (lease_call op)"
  by (cases op) (auto intro!: keeps_intros)

interpretation leases: lease_service wf_db lease_holder lease_step
proof unfold_locales
  fix db op assume wf: "wf_db db"
  show "wf_db (snd (lease_step op db))"
    using keepsD [OF lease_call_wf wf, of op] by (simp add: lease_step_def split_beta)
  show "lease_holder (snd (lease_step op db)) = snd (lease_spec op (lease_holder db))"
    and "fst (lease_step op db) = fst (lease_spec op (lease_holder db))"
    using lease_call_run [OF wf, of op] by (simp_all add: lease_step_def split_beta)
qed

text \<open>A sequence of lease calls by any workers; a call that raises leaves the table as it is and the next one follows.\<close>

primrec lease_calls :: "lease_op list \<Rightarrow> exec_db \<Rightarrow> exec_db" where
  "lease_calls [] db = db"
| "lease_calls (op # ops) db = lease_calls ops (snd (lease_call op db))"

lemma lease_calls_run: "lease_calls ops db = leases.run ops db"
  by (induction ops arbitrary: db) (auto simp: lease_step_def split: prod.splits)

text \<open>
  C19: the repository's lease operations refine the abstract lease table: each call succeeds
  exactly when the table allows it, and changes the holder of every deployment exactly as the
  table says; a refused call changes no holder.
\<close>

theorem lease_operations_refine:
  assumes "wf_db db"
  shows "isl (fst (lease_call op db)) = (\<not> fst (lease_spec op (lease_holder db))) \<and>
    lease_holder (snd (lease_call op db)) = snd (lease_spec op (lease_holder db))"
  using assms by (rule lease_call_run)

theorem lease_operations_refine_witness:
  "isl (fst (lease_call (Heartbeat 1 ''w'' ''t'' 60 0) (ex_db []))) \<and>
   lease_holder (snd (lease_call (Heartbeat 1 ''w'' ''t'' 60 0) (ex_db []))) 1 = None"
  using lease_operations_refine [OF wf_ex_db(1), of "Heartbeat 1 ''w'' ''t'' 60 0"]
  by (simp add: lease_holder_def ex_db_def)

text \<open>
  C20: mutual exclusion. While a worker's lease has not expired, no sequence of lease calls by
  other workers (or for other deployments, or of expiry sweeps before its expiry) takes it away:
  it keeps its token and expiry, and the worker's heartbeat still succeeds.
\<close>

theorem lease_is_exclusive:
  assumes wf: "wf_db db" and held: "lease_holder db d = Some (w, t, e)"
    and others: "\<forall>op\<in>set ops. keeps_lease d (w, t, e) op"
  shows "lease_holder (lease_calls ops db) d = Some (w, t, e) \<and>
    \<not> isl (fst (heartbeat_worker_lease d w t ttl (Some ts) (lease_calls ops db)))"
proof -
  have h: "lease_holder (lease_calls ops db) d = Some (w, t, e)"
    using leases.exclusive [OF wf held others] by (simp add: lease_calls_run)
  moreover have "wf_db (lease_calls ops db)" using leases.run_ok [OF wf] by (simp add: lease_calls_run)
  ultimately show ?thesis using lease_call_run [of "lease_calls ops db" "Heartbeat d w t ttl ts"] by simp
qed

theorem lease_is_exclusive_witness:
  "lease_holder (lease_calls [Acquire 1 ''other'' ''t2'' 60 5, Release 1 ''other'' ''t2'', Expire 6]
      ((ex_db [])\<lparr>db_leases := [\<lparr>lea_id = 0, lea_deployment_id = 1, lea_worker_id = ''w'', lea_lease_token = ''t'',
         lea_acquired_at = 0, lea_expires_at = 60, lea_heartbeat_at = 0\<rparr>]\<rparr>)) 1 = Some (''w'', ''t'', 60)"
  by (rule lease_is_exclusive [THEN conjunct1])
    (simp_all add: wf_db_defs pk_ok_def ex_defs lease_holder_def lease_view_of_def)

text \<open>
  Fencing: once a worker's token is no longer the one on the lease, it never becomes valid
  again unless it is issued anew: after any further lease calls the worker's heartbeat is
  refused.
\<close>

lemma replaced_token_stays_fenced:
  assumes wf: "wf_db db" and gone: "token_gone d t (lease_holder db)"
    and fresh: "\<forall>op\<in>set ops. not_reissued d t op"
  shows "token_gone d t (lease_holder (lease_calls ops db)) \<and>
    isl (fst (heartbeat_worker_lease d w t ttl (Some ts) (lease_calls ops db)))"
proof -
  have g: "token_gone d t (lease_holder (lease_calls ops db))"
    using leases.fenced [OF wf gone fresh] by (simp add: lease_calls_run)
  have "wf_db (lease_calls ops db)" using leases.run_ok [OF wf] by (simp add: lease_calls_run)
  from lease_call_run [OF this, of "Heartbeat d w t ttl ts"] lease_spec_gone_fails [OF g] g show ?thesis
    by (simp del: lease_spec.simps)
qed

end
