(* ===== verification/Reconciliation_Correct.thy ===== *)
theory Reconciliation_Correct
  imports Reconciliation Exec_Leases
begin

text \<open>
  What reconciliation and recovery guarantee: the accounting identities and the audit trail
  are kept; an order the broker cannot answer for stays pending and the book is untouched; a
  failed or absent order is closed without touching the book; a confirmed fill is booked like
  any other; and recovery leaves no order between intent and outcome.
\<close>

section \<open>Invariants\<close>

lemma keeps_mark_decision:
  "(\<And>i. keeps P (update_execution_decision_outcome i dout None)) \<Longrightarrow> keeps P (mark_decision ord dout)"
  by (auto simp: mark_decision_def intro!: keeps_intros)

lemmas reconcile_accounts_intros = accounts_intros
  keeps_accounts [OF order_ops_wf(3) book_frames(3)] keeps_accounts [OF order_ops_wf(4) book_frames(4)]

lemma resolution_accounts [keeps_intros]:
  "keeps accounts_ok (apply_filled_resolution ord dep fill pv who det tm)"
  "keeps accounts_ok (apply_failed_resolution ord who det rsn tm)"
  by (auto simp: apply_filled_resolution_def apply_failed_resolution_def
      intro!: keeps_intros keeps_mark_decision reconcile_accounts_intros)

lemma reconcile_order_accounts [keeps_intros]: "keeps accounts_ok (reconcile_order self ord dep)"
  by (auto simp: reconcile_order_def Let_def split: BrokerOrderLookupStatus.splits
      intro!: keeps_intros reconcile_accounts_intros)

lemma resolution_history [history_intros]:
  "steps history (apply_filled_resolution ord dep fill pv who det tm)"
  "steps history (apply_failed_resolution ord who det rsn tm)"
  by (auto simp: apply_filled_resolution_def apply_failed_resolution_def mark_decision_def
      intro!: history_intros)

lemma reconcile_order_history [history_intros]: "steps history (reconcile_order self ord dep)"
  by (auto simp: reconcile_order_def Let_def split: BrokerOrderLookupStatus.splits
      intro!: history_intros)

lemma manual_resolution_invariants:
  "keeps accounts_ok (resolve_order_manually ord dep res actor note pv fill tm)"
  "steps history (resolve_order_manually ord dep res actor note pv fill tm)"
  by (auto simp: resolve_order_manually_def assert_pending_def intro!: keeps_intros history_intros)

lemma reconcile_passes_invariants:
  "keeps accounts_ok (reconcile_deployment self dep)" "keeps accounts_ok (reconcile_all_pending self)"
  "steps history (reconcile_deployment self dep)" "steps history (reconcile_all_pending self)"
  by (auto simp: reconcile_deployment_def reconcile_all_pending_def intro!: keeps_intros history_intros)

text \<open>
  C12: reconciling, automatically over one deployment or all of them or by an operator's
  assertion, keeps the schema constraints and the identity of cash and ledger, and only
  continues the audit trail: no order, fill, decision or ledger entry is removed or rewritten
  outside the order lifecycle.
\<close>

theorem reconciliation_keeps_invariants:
  "keeps accounts_ok (reconcile_all_pending self) \<and> steps history (reconcile_all_pending self) \<and>
   keeps accounts_ok (reconcile_deployment self dep) \<and> steps history (reconcile_deployment self dep) \<and>
   keeps accounts_ok (resolve_order_manually ord dep res actor note pv fill tm) \<and>
   steps history (resolve_order_manually ord dep res actor note pv fill tm)"
  by (simp add: reconcile_passes_invariants manual_resolution_invariants)

section \<open>Runs\<close>

definition decision_present :: "ExecutionOrder \<Rightarrow> exec_db \<Rightarrow> bool" where
  "decision_present ord db = (case ord_decision_id ord of None \<Rightarrow> True
     | Some i \<Rightarrow> get_row dec_id i (db_decisions db) \<noteq> None)"

lemma mark_decision_run:
  assumes "decision_present ord db"
  shows "\<exists>decs. mark_decision ord dout db = (Inr (), db\<lparr>db_decisions := decs\<rparr>) \<and>
    (\<forall>i. (get_row dec_id i decs = None) = (get_row dec_id i (db_decisions db) = None))"
proof (cases "ord_decision_id ord")
  case None
  then show ?thesis
    by (intro exI [of _ "db_decisions db"]) (simp add: mark_decision_def ret_def)
next
  case (Some i)
  let ?f = "\<lambda>d. d\<lparr>dec_outcome := dout, dec_context := dec_context d\<rparr>"
  from Some assms have "mark_decision ord dout db =
      (Inr (), db\<lparr>db_decisions := upd_row dec_id i ?f (db_decisions db)\<rparr>)"
    by (auto simp: mark_decision_def decision_present_def update_execution_decision_outcome_def comp_defs)
  then show ?thesis
    by (intro exI [of _ "upd_row dec_id i ?f (db_decisions db)"]) (auto simp: get_upd_row)
qed

definition reconciled_order :: "string \<Rightarrow> string option \<Rightarrow> datetime \<Rightarrow> ExecutionOrder \<Rightarrow> ExecutionOrder" where
  "reconciled_order who det ts ord = ord\<lparr>ord_reconciliation_state := RECONCILED,
     ord_reconciled_at := Some ts, ord_reconciled_by := Some who,
     ord_reconciliation_detail := det, ord_reconciliation_error := None\<rparr>"

lemma reconciled_order_simps [simp]:
  "ord_id (reconciled_order who det ts ord) = ord_id ord"
  "ord_status (reconciled_order who det ts ord) = ord_status ord"
  "ord_deployment_id (reconciled_order who det ts ord) = ord_deployment_id ord"
  "ord_reconciliation_state (reconciled_order who det ts ord) = RECONCILED"
  by (simp_all add: reconciled_order_def)

lemma finalize_run:
  "get_execution_order oid db = Some ord \<Longrightarrow> finalize_order_reconciliation oid who det (Some ts) db =
     (Inr (), db\<lparr>db_orders := upd_row ord_id oid (reconciled_order who det ts) (db_orders db)\<rparr>)"
  by (simp add: finalize_order_reconciliation_def update_order_def comp_defs or_now_def
      reconciled_order_def [abs_def])

definition rejected_order :: "string \<Rightarrow> datetime \<Rightarrow> ExecutionOrder \<Rightarrow> ExecutionOrder" where
  "rejected_order reason ts ord = ord\<lparr>ord_status := REJECTED, ord_rejection_reason := Some reason,
     ord_completed_at := Some ts\<rparr>"

definition closed_as_failed :: "string \<Rightarrow> string option \<Rightarrow> string \<Rightarrow> datetime \<Rightarrow> ExecutionOrder \<Rightarrow> ExecutionOrder" where
  "closed_as_failed who det reason ts ord = reconciled_order who det ts (rejected_order reason ts ord)"

lemma closed_as_failed_simps [simp]:
  "ord_id (closed_as_failed who det reason ts ord) = ord_id ord"
  "ord_status (closed_as_failed who det reason ts ord) = REJECTED"
  "ord_deployment_id (closed_as_failed who det reason ts ord) = ord_deployment_id ord"
  "ord_reconciliation_state (closed_as_failed who det reason ts ord) = RECONCILED"
  by (simp_all add: closed_as_failed_def rejected_order_def)

lemma apply_failed_resolution_run:
  assumes ord: "get_execution_order (ord_id o1) db = Some o1" and st: "ord_status o1 = UNKNOWN"
    and dec: "decision_present o1 db"
  shows "\<exists>decs. apply_failed_resolution o1 who det reason (Some ts) db =
      (Inr (), db\<lparr>db_orders := upd_row ord_id (ord_id o1) (closed_as_failed who det reason ts) (db_orders db),
        db_decisions := decs\<rparr>) \<and>
    (\<forall>i. (get_row dec_id i decs = None) = (get_row dec_id i (db_decisions db) = None))"
proof -
  have "REJECTED \<in> set (ORDER_TRANSITIONS (ord_status o1))" by (simp add: st)
  note t = transition_execution_order_run [OF ord this, of None None "Some reason" None "Some ts"]
  let ?db1 = "db\<lparr>db_orders := upd_row ord_id (ord_id o1) (rejected_order reason ts) (db_orders db)\<rparr>"
  have 1: "transition_execution_order (ord_id o1) REJECTED None None (Some reason) None (Some ts) db = (Inr (), ?db1)"
    by (simp add: t upd_opt_def rejected_order_def [abs_def])
  have o2: "get_execution_order (ord_id o1) ?db1 = Some (rejected_order reason ts o1)"
    using ord by (simp add: get_execution_order_def get_upd_row rejected_order_def)
  let ?db2 = "db\<lparr>db_orders := upd_row ord_id (ord_id o1) (closed_as_failed who det reason ts) (db_orders db)\<rparr>"
  have 2: "finalize_order_reconciliation (ord_id o1) who det (Some ts) ?db1 = (Inr (), ?db2)"
    using finalize_run [OF o2]
    by (simp add: upd_row_twice rejected_order_def closed_as_failed_def [abs_def])
  have "decision_present o1 ?db2" using dec by (simp add: decision_present_def split: option.splits)
  from mark_decision_run [OF this, of D_ORDER_REJECTED] obtain decs where
    "mark_decision o1 D_ORDER_REJECTED ?db2 = (Inr (), ?db2\<lparr>db_decisions := decs\<rparr>)"
    "\<forall>i. (get_row dec_id i decs = None) = (get_row dec_id i (db_decisions db) = None)" by auto
  then show ?thesis
    by (intro exI [of _ decs]) (simp add: apply_failed_resolution_def bnd_def gets_def or_now_def 1 2)
qed

definition other_orders_same :: "uuid \<Rightarrow> exec_db \<Rightarrow> exec_db \<Rightarrow> bool" where
  "other_orders_same oid db db' \<longleftrightarrow>
     (\<forall>i. i \<noteq> oid \<longrightarrow> get_execution_order i db' = get_execution_order i db)"

definition resolution_of :: "BrokerOrderState \<Rightarrow> ReconciliationResolution" where
  "resolution_of state = (case bos_status state of
     LK_FILLED \<Rightarrow> if bos_fill state = None then RES_UNAVAILABLE else RES_FILLED
   | LK_UNAVAILABLE \<Rightarrow> RES_UNAVAILABLE | _ \<Rightarrow> RES_FAILED)"

lemma record_attempt_run:
  assumes "get_execution_order (ord_id o1) db = Some o1" and "is_pending o1"
  shows "\<exists>db' o2. record_reconciliation_attempt (ord_id o1) (Some ts) err db = (Inr (), db') \<and>
    book db' = book db \<and> other_orders_same (ord_id o1) db db' \<and>
    get_execution_order (ord_id o1) db' = Some o2 \<and> is_pending o2"
  using assms
  by (auto simp: record_reconciliation_attempt_def update_order_def comp_defs or_now_def book_def
      other_orders_same_def get_execution_order_def get_upd_row is_pending_def)

lemma apply_failed_resolution_book:
  assumes "get_execution_order (ord_id o1) db = Some o1" and "ord_status o1 = UNKNOWN"
    and "decision_present o1 db"
  shows "\<exists>db' o2. apply_failed_resolution o1 who det reason (Some ts) db = (Inr (), db') \<and>
    book db' = book db \<and> other_orders_same (ord_id o1) db db' \<and>
    get_execution_order (ord_id o1) db' = Some o2 \<and> ord_status o2 = REJECTED \<and>
    ord_reconciliation_state o2 = RECONCILED"
proof -
  obtain decs where run: "apply_failed_resolution o1 who det reason (Some ts) db =
      (Inr (), db\<lparr>db_orders := upd_row ord_id (ord_id o1) (closed_as_failed who det reason ts) (db_orders db),
        db_decisions := decs\<rparr>)" (is "_ = (_, ?db')")
    using apply_failed_resolution_run [OF assms] by blast
  moreover have "get_execution_order i ?db' = (if i = ord_id o1 then Some (closed_as_failed who det reason ts o1)
      else get_execution_order i db)" for i
    using assms(1) by (simp add: get_execution_order_def get_upd_row)
  ultimately show ?thesis
    by (intro exI [of _ ?db'] exI [of _ "closed_as_failed who det reason ts o1"])
       (simp add: book_def other_orders_same_def)
qed

lemma reconcile_order_no_fill:
  assumes ord: "get_execution_order (ord_id o1) db = Some o1" and pend: "is_pending o1"
    and dec: "decision_present o1 db"
    and lookup: "bk_lookup_order (orc_broker self) (lookup_request_for_order o1 dep) = answer"
    and nofill: "case answer of Inl e \<Rightarrow> True | Inr state \<Rightarrow> resolution_of state \<noteq> RES_FILLED"
  shows "case answer of
      Inl e \<Rightarrow> reconcile_order self o1 dep db = (Inl e, db)
    | Inr state \<Rightarrow> (\<exists>r db' o2. reconcile_order self o1 dep db = (Inr r, db') \<and>
        rec_resolution r = resolution_of state \<and> book db' = book db \<and>
        other_orders_same (ord_id o1) db db' \<and> get_execution_order (ord_id o1) db' = Some o2 \<and>
        (if resolution_of state = RES_FAILED
         then ord_status o2 = REJECTED \<and> ord_reconciliation_state o2 = RECONCILED
         else is_pending o2))"
proof (cases answer)
  case (Inl e)
  with lookup show ?thesis by (simp add: reconcile_order_def bnd_def reads_def Let_def)
next
  case (Inr state)
  have st: "ord_status o1 = UNKNOWN" using pend by (simp add: is_pending_def)
  show ?thesis
  proof (cases "resolution_of state = RES_FAILED")
    case True
    then have status: "bos_status state = LK_REJECTED \<or> bos_status state = LK_NOT_FOUND"
      by (auto simp: resolution_of_def split: BrokerOrderLookupStatus.splits if_splits)
    let ?reason = "''reconciliation: broker reported '' @ lookup_status_value (bos_status state)"
    obtain db' o2 where "apply_failed_resolution o1 AUTO_ACTOR (Some (str_or (bos_message state) ?reason))
        ?reason (Some (orc_clock self)) db = (Inr (), db')"
      "book db' = book db" "other_orders_same (ord_id o1) db db'"
      "get_execution_order (ord_id o1) db' = Some o2" "ord_status o2 = REJECTED"
      "ord_reconciliation_state o2 = RECONCILED"
      using apply_failed_resolution_book [OF ord st dec] by blast
    with True status lookup Inr show ?thesis
      by (auto simp: reconcile_order_def bnd_def reads_def ret_def Let_def)
  next
    case False
    then consider "bos_status state = LK_UNAVAILABLE" | "bos_status state = LK_FILLED" "bos_fill state = None"
      using nofill Inr by (auto simp: resolution_of_def split: BrokerOrderLookupStatus.splits if_splits)
    then obtain err m where run: "reconcile_order self o1 dep db =
        bnd (record_reconciliation_attempt (ord_id o1) (Some (orc_clock self)) (Some err)) (\<lambda>_.
        ret \<lparr>rec_order_id = ord_id o1, rec_deployment_id = dep_id dep,
          rec_resolution = resolution_of state, rec_message = m\<rparr>) db"
    proof cases
      case 1
      then show thesis
        using that [of "str_or (bos_message state) ''broker unavailable''" "bos_message state"] lookup Inr
        by (simp add: reconcile_order_def bnd_def reads_def resolution_of_def Let_def)
    next
      case 2
      then show thesis
        using that [of "''broker reported filled without fill details''" "''filled without fill details''"] lookup Inr
        by (simp add: reconcile_order_def bnd_def reads_def resolution_of_def Let_def)
    qed
    obtain db' o2 where "record_reconciliation_attempt (ord_id o1) (Some (orc_clock self)) (Some err) db = (Inr (), db')"
      "book db' = book db" "other_orders_same (ord_id o1) db db'"
      "get_execution_order (ord_id o1) db' = Some o2" "is_pending o2"
      using record_attempt_run [OF ord pend] by blast
    with False Inr show ?thesis by (simp add: run bnd_def ret_def)
  qed
qed

text \<open>
  Reconciling a pending order without a usable fill never touches the book. If the broker
  rejected or never saw the order it is closed as rejected and reconciled; if the broker cannot
  say, or reports a fill without details, the order stays pending; if the lookup raises,
  nothing changes at all. Other orders are not touched.
\<close>

lemma reconcile_without_fill:
  assumes ord: "get_execution_order (ord_id o1) db = Some o1" and pend: "is_pending o1"
    and dec: "decision_present o1 db"
    and lookup: "bk_lookup_order (orc_broker self) (lookup_request_for_order o1 dep) = answer"
    and nofill: "case answer of Inl e \<Rightarrow> True | Inr state \<Rightarrow> resolution_of state \<noteq> RES_FILLED"
  shows "case answer of
      Inl e \<Rightarrow> reconcile_order self o1 dep db = (Inl e, db)
    | Inr state \<Rightarrow> (\<exists>r db' o2. reconcile_order self o1 dep db = (Inr r, db') \<and>
        rec_resolution r = resolution_of state \<and> book db' = book db \<and>
        other_orders_same (ord_id o1) db db' \<and> get_execution_order (ord_id o1) db' = Some o2 \<and>
        (if resolution_of state = RES_FAILED
         then ord_status o2 = REJECTED \<and> ord_reconciliation_state o2 = RECONCILED
         else is_pending o2))"
  using assms by (rule reconcile_order_no_fill)

section \<open>A confirmed fill\<close>

lemma apply_filled_resolution_run:
  assumes af: "apply_fill (dep_paper_account_id dep) (dep_id dep) (ord_id o1) fill pv
      (si_symbol (dep_identity dep)) True db = (Inr r, db1)"
    and o1: "get_execution_order (ord_id o1) db1 = Some o2" and dec: "decision_present o1 db1"
  shows "\<exists>decs. apply_filled_resolution o1 dep fill pv who det (Some ts) db =
    (Inr (), db1\<lparr>db_orders := upd_row ord_id (ord_id o1) (reconciled_order who det ts) (db_orders db1),
      db_decisions := decs\<rparr>)"
proof -
  let ?db2 = "db1\<lparr>db_orders := upd_row ord_id (ord_id o1) (reconciled_order who det ts) (db_orders db1)\<rparr>"
  have "decision_present o1 ?db2" using dec by (simp add: decision_present_def split: option.splits)
  from mark_decision_run [OF this, of D_ORDER_FILLED] obtain decs where
    "mark_decision o1 D_ORDER_FILLED ?db2 = (Inr (), ?db2\<lparr>db_decisions := decs\<rparr>)" by blast
  then show ?thesis
    by (intro exI [of _ decs])
       (simp add: apply_filled_resolution_def bnd_def gets_def or_now_def af finalize_run [OF o1])
qed

lemma decision_present_trail:
  "trail db db' \<Longrightarrow> decision_present ord db \<Longrightarrow> decision_present ord db'"
  using get_row_Some_trail by (auto simp: decision_present_def split: option.splits)

text \<open>
  A pending order whose fill the broker confirms is booked exactly like a fill on the normal
  path: signed position and account value move by the fill, and the order ends filled and
  reconciled.
\<close>

lemma reconcile_confirmed_fill:
  assumes wf: "wf_db db" and ord: "get_execution_order (ord_id o1) db = Some o1" and pend: "is_pending o1"
    and dec: "decision_present o1 db"
    and lookup: "bk_lookup_order (orc_broker self) (lookup_request_for_order o1 dep) = Inr state"
    and filled: "bos_status state = LK_FILLED" "bos_fill state = Some fill"
    and new: "\<not> recorded fill db" and acc: "get_paper_account (dep_paper_account_id dep) db = Some a"
    and ok: "pred_option position_ok (holding (dep_id dep) db)"
    and pos: "0 < fr_quantity fill" "0 < fr_price fill"
  shows "\<exists>r db' o2 a'. reconcile_order self o1 dep db = (Inr r, db') \<and> rec_resolution r = RES_FILLED \<and>
    get_execution_order (ord_id o1) db' = Some o2 \<and> ord_status o2 = FILLED \<and>
    ord_reconciliation_state o2 = RECONCILED \<and>
    signed_quantity (holding (dep_id dep) db') =
      signed_quantity (holding (dep_id dep) db) + signed_fill (fr_side fill) (fr_quantity fill) \<and>
    get_paper_account (dep_paper_account_id dep) db' = Some a' \<and>
    (\<forall>mark. pa_cash_balance a' + marked_value (holding (dep_id dep) db') mark (orc_point_value self) =
       pa_cash_balance a + marked_value (holding (dep_id dep) db) mark (orc_point_value self)
         + signed_fill (fr_side fill) (fr_quantity fill) * (mark - fr_price fill) * orc_point_value self
         - fr_fee fill)"
proof -
  have st: "ord_status o1 = (if True then UNKNOWN else INTENT)" using pend by (simp add: is_pending_def)
  obtain r db1 a' where af: "apply_fill (dep_paper_account_id dep) (dep_id dep) (ord_id o1) fill
      (orc_point_value self) (si_symbol (dep_identity dep)) True db = (Inr r, db1)"
    and a': "get_paper_account (dep_paper_account_id dep) db1 = Some a'"
    and facts: "signed_quantity (holding (dep_id dep) db1) =
      signed_quantity (holding (dep_id dep) db) + signed_fill (fr_side fill) (fr_quantity fill)"
      "\<forall>mark. pa_cash_balance a' + marked_value (holding (dep_id dep) db1) mark (orc_point_value self) =
       pa_cash_balance a + marked_value (holding (dep_id dep) db) mark (orc_point_value self)
         + signed_fill (fr_side fill) (fr_quantity fill) * (mark - fr_price fill) * orc_point_value self
         - fr_fee fill"
    and o2: "get_execution_order (ord_id o1) db1 = Some (filled_order (fr_filled_at fill) o1)"
    using apply_fill_spec [OF wf new acc ok pos ord st] by blast
  have "history db db1" using ledger_history(3) af by (rule stepsD)
  with wf have "trail db db1" by (simp add: history_def)
  from apply_filled_resolution_run [OF af o2 decision_present_trail [OF this dec], of AUTO_ACTOR
      "Some (str_or (bos_message state) ''broker confirmed fill'')" "orc_clock self"]
  obtain decs where run: "apply_filled_resolution o1 dep fill (orc_point_value self) AUTO_ACTOR
      (Some (str_or (bos_message state) ''broker confirmed fill'')) (Some (orc_clock self)) db =
    (Inr (), db1\<lparr>db_orders := upd_row ord_id (ord_id o1) (reconciled_order AUTO_ACTOR
        (Some (str_or (bos_message state) ''broker confirmed fill'')) (orc_clock self)) (db_orders db1),
      db_decisions := decs\<rparr>)" (is "_ = (_, ?db2)")
    by blast
  have "holding (dep_id dep) ?db2 = holding (dep_id dep) db1" by (rule holding_cong) simp
  moreover have "reconcile_order self o1 dep db = (Inr \<lparr>rec_order_id = ord_id o1,
      rec_deployment_id = dep_id dep, rec_resolution = RES_FILLED, rec_message = bos_message state\<rparr>, ?db2)"
    by (simp add: reconcile_order_def bnd_def reads_def lookup filled run ret_def Let_def)
  ultimately show ?thesis
    using a' facts o2
    by (simp add: get_paper_account_def get_execution_order_def get_upd_row filled_order_def)
qed

text \<open>
  C15: a confirmed fill whose external id is already recorded is not booked again, but the
  resolution still stamps the order as reconciled: it leaves the pending list while its status
  stays unknown, so no later pass will look at it and the risk gate keeps refusing orders of
  its deployment.
\<close>

theorem reconcile_recorded_fill_strands_order:
  assumes wf: "wf_db db" and ord: "get_execution_order (ord_id o1) db = Some o1" and pend: "is_pending o1"
    and dec: "decision_present o1 db"
    and lookup: "bk_lookup_order (orc_broker self) (lookup_request_for_order o1 dep) = Inr state"
    and filled: "bos_status state = LK_FILLED" "bos_fill state = Some fill"
    and old: "recorded fill db" and acc: "get_paper_account (dep_paper_account_id dep) db = Some a"
  shows "\<exists>r db' o2. reconcile_order self o1 dep db = (Inr r, db') \<and> rec_resolution r = RES_FILLED \<and>
    book db' = book db \<and> get_execution_order (ord_id o1) db' = Some o2 \<and>
    ord_status o2 = UNKNOWN \<and> \<not> is_pending o2 \<and>
    deployment_has_unknown_orders (list_orders_for_deployment (ord_deployment_id o1) None db')"
proof -
  obtain f where "get_execution_fill_by_external_id (fr_broker_mode fill) (fr_external_fill_id fill) db = Inr (Some f)"
    using fill_lookup_Some [OF wf old] by blast
  then obtain r where af: "apply_fill (dep_paper_account_id dep) (dep_id dep) (ord_id o1) fill
      (orc_point_value self) (si_symbol (dep_identity dep)) True db = (Inr r, db)"
    by (simp add: apply_fill_def replay_fill_def require_paper_account_def acc comp_defs
        get_open_net_position_eq [OF wf])
  from apply_filled_resolution_run [OF af ord dec, of AUTO_ACTOR
      "Some (str_or (bos_message state) ''broker confirmed fill'')" "orc_clock self"]
  obtain decs where run: "apply_filled_resolution o1 dep fill (orc_point_value self) AUTO_ACTOR
      (Some (str_or (bos_message state) ''broker confirmed fill'')) (Some (orc_clock self)) db =
    (Inr (), db\<lparr>db_orders := upd_row ord_id (ord_id o1) (reconciled_order AUTO_ACTOR
        (Some (str_or (bos_message state) ''broker confirmed fill'')) (orc_clock self)) (db_orders db),
      db_decisions := decs\<rparr>)" (is "_ = (_, ?db2)")
    by blast
  let ?o2 = "reconciled_order AUTO_ACTOR (Some (str_or (bos_message state) ''broker confirmed fill'')) (orc_clock self) o1"
  have o2: "get_execution_order (ord_id o1) ?db2 = Some ?o2"
    using ord by (simp add: get_execution_order_def get_upd_row)
  then have "?o2 \<in> set (db_orders ?db2)" unfolding get_execution_order_def by (blast dest: get_row_SomeD)
  with pend have "deployment_has_unknown_orders (list_orders_for_deployment (ord_deployment_id o1) None ?db2)"
    by (auto simp: deployment_has_unknown_orders_def list_orders_for_deployment_def is_pending_def
        intro!: bexI [of _ ?o2])
  moreover have "reconcile_order self o1 dep db = (Inr \<lparr>rec_order_id = ord_id o1,
      rec_deployment_id = dep_id dep, rec_resolution = RES_FILLED, rec_message = bos_message state\<rparr>, ?db2)"
    by (simp add: reconcile_order_def bnd_def reads_def lookup filled run ret_def Let_def)
  ultimately show ?thesis
    using o2 pend
    by (intro exI [of _ ?db2] exI [of _ ?o2] exI [of _ "\<lparr>rec_order_id = ord_id o1,
      rec_deployment_id = dep_id dep, rec_resolution = RES_FILLED, rec_message = bos_message state\<rparr>"])
       (simp add: book_def is_pending_def)
qed

section \<open>Passes over all pending orders\<close>

lemma reconcile_list_failed:
  assumes "\<And>ord. is_pending ord \<Longrightarrow> \<exists>state. bk_lookup_order (orc_broker self) (lookup_request_for_order ord dep) = Inr state \<and>
      resolution_of state = RES_FAILED"
    and "wf_db db" and "distinct (map ord_id os)"
    and "\<forall>ord\<in>set os. get_execution_order (ord_id ord) db = Some ord \<and> is_pending ord \<and> decision_present ord db"
  shows "\<exists>rs db'. for_each (\<lambda>ord. reconcile_order self ord dep) os db = (Inr rs, db') \<and> wf_db db' \<and>
    book db' = book db \<and> length rs = length os \<and> (\<forall>r\<in>set rs. rec_resolution r = RES_FAILED) \<and>
    (\<forall>i. if i \<in> ord_id ` set os then map_option ord_status (get_execution_order i db') = Some REJECTED
         else get_execution_order i db' = get_execution_order i db)"
  using assms(2-4)
proof (induction os arbitrary: db)
  case Nil
  then show ?case by (simp add: ret_def)
next
  case (Cons o1 os)
  then have o1: "get_execution_order (ord_id o1) db = Some o1" "is_pending o1" "decision_present o1 db" by auto
  obtain state where lk: "bk_lookup_order (orc_broker self) (lookup_request_for_order o1 dep) = Inr state"
    and failed: "resolution_of state = RES_FAILED" using assms(1) o1 by blast
  from reconcile_order_no_fill [OF o1 lk] failed obtain r db1 o2 where
    run1: "reconcile_order self o1 dep db = (Inr r, db1)" and r: "rec_resolution r = RES_FAILED"
    and bk: "book db1 = book db" and oth: "other_orders_same (ord_id o1) db db1"
    and o2: "get_execution_order (ord_id o1) db1 = Some o2" "ord_status o2 = REJECTED"
    by auto
  have "history db db1" using reconcile_order_history run1 by (rule stepsD)
  with Cons.prems(1) have wf1: "wf_db db1" and tr: "trail db db1" by (auto simp: history_def)
  have "\<forall>ord\<in>set os. get_execution_order (ord_id ord) db1 = Some ord \<and> is_pending ord \<and> decision_present ord db1"
  proof
    fix ord assume ord: "ord \<in> set os"
    then have "ord_id ord \<noteq> ord_id o1" using Cons.prems(2) by (auto simp: image_iff)
    with ord Cons.prems(3) oth decision_present_trail [OF tr]
    show "get_execution_order (ord_id ord) db1 = Some ord \<and> is_pending ord \<and> decision_present ord db1"
      by (simp add: other_orders_same_def)
  qed
  with Cons.IH [OF wf1] Cons.prems obtain rs db' where
    run2: "for_each (\<lambda>ord. reconcile_order self ord dep) os db1 = (Inr rs, db')" and "wf_db db'"
    "book db' = book db1" "length rs = length os" "\<forall>r\<in>set rs. rec_resolution r = RES_FAILED"
    and rest: "\<forall>i. if i \<in> ord_id ` set os then map_option ord_status (get_execution_order i db') = Some REJECTED
         else get_execution_order i db' = get_execution_order i db1"
    by auto
  moreover have "if i \<in> ord_id ` set (o1 # os) then map_option ord_status (get_execution_order i db') = Some REJECTED
      else get_execution_order i db' = get_execution_order i db" for i
    using rest [rule_format, of i] oth o2 by (auto simp: other_orders_same_def split: if_splits)
  ultimately show ?case
    using run1 r bk oth
    by (intro exI [of _ "r # rs"] exI [of _ db']) (simp add: bnd_def ret_def other_orders_same_def)
qed

lemma wf_get_order: "wf_db db \<Longrightarrow> r \<in> set (db_orders db) \<Longrightarrow> get_execution_order (ord_id r) db = Some r"
  by (simp add: get_execution_order_def wf_db_defs pk_ok_def get_row_in_set)

lemma paper_lookup_failed:
  "\<exists>state. bk_lookup_order (paper_execution_broker pb) req = Inr state \<and> resolution_of state = RES_FAILED"
  by (simp add: paper_execution_broker_def lookup_order_def resolution_of_def)

definition decisions_present :: "exec_db \<Rightarrow> bool" where
  "decisions_present db \<longleftrightarrow> (\<forall>ord\<in>set (db_orders db). decision_present ord db)"

text \<open>
  C16: with the paper broker a reconciliation pass over a deployment closes every pending order as
  rejected, leaves no pending order of that deployment behind, touches no other order, and
  leaves the book exactly as it was.
\<close>

theorem paper_reconciliation_clears_pending:
  assumes wf: "wf_db db" and pres: "decisions_present db"
    and paper: "orc_broker self = paper_execution_broker pb"
  shows "\<exists>rs db'. reconcile_deployment self dep db = (Inr rs, db') \<and> wf_db db' \<and> book db' = book db \<and>
    length rs = length (list_pending_reconciliation_orders (Some (dep_id dep)) db) \<and>
    list_pending_reconciliation_orders (Some (dep_id dep)) db' = [] \<and>
    (\<forall>r\<in>set (db_orders db'). ord_deployment_id r \<noteq> dep_id dep \<longrightarrow> r \<in> set (db_orders db))"
proof -
  let ?os = "list_pending_reconciliation_orders (Some (dep_id dep)) db"
  have os: "set ?os = {r \<in> set (db_orders db). is_pending r \<and> ord_deployment_id r = dep_id dep}"
    by (auto simp: list_pending_reconciliation_orders_def is_pending_def)
  have dist: "distinct (map ord_id ?os)"
    using wf unfolding list_pending_reconciliation_orders_def wf_db_defs pk_ok_def
    by (auto simp: distinct_map intro: inj_on_subset)
  have "\<forall>ord\<in>set ?os. get_execution_order (ord_id ord) db = Some ord \<and> is_pending ord \<and> decision_present ord db"
    using wf_get_order [OF wf] pres by (simp add: os decisions_present_def)
  from reconcile_list_failed [OF _ wf dist this, of self dep] paper paper_lookup_failed
  obtain rs db' where run: "for_each (\<lambda>ord. reconcile_order self ord dep) ?os db = (Inr rs, db')"
    and wf': "wf_db db'" "book db' = book db" "length rs = length ?os"
    and ords: "\<forall>i. if i \<in> ord_id ` set ?os then map_option ord_status (get_execution_order i db') = Some REJECTED
         else get_execution_order i db' = get_execution_order i db"
    by auto
  have run': "reconcile_deployment self dep db = (Inr rs, db')"
    by (simp add: reconcile_deployment_def bnd_def gets_def run)
  from stepsD [OF reconcile_passes_invariants(3) run'] wf have tr: "trail db db'" by (simp add: history_def)
  have row: "r \<in> set (db_orders db) \<and> r \<notin> set ?os \<or> ord_status r = REJECTED \<and> ord_deployment_id r = dep_id dep"
    if r: "r \<in> set (db_orders db')" for r
  proof (cases "ord_id r \<in> ord_id ` set ?os")
    case False
    then have "get_execution_order (ord_id r) db = Some r"
      using ords [rule_format, of "ord_id r"] wf_get_order [OF wf'(1) r] by simp
    then have "r \<in> set (db_orders db)" unfolding get_execution_order_def by (blast dest: get_row_SomeD)
    with False show ?thesis by auto
  next
    case True
    then obtain o1 where o1: "o1 \<in> set ?os" "ord_id r = ord_id o1" by blast
    have "ord_status r = REJECTED"
      using ords [rule_format, of "ord_id r"] True wf_get_order [OF wf'(1) r] by simp
    moreover have "order_step o1 r"
    proof -
      from tr have "evolves order_step (db_orders db) (db_orders db')" by (simp add: trail_def)
      from evolves_get_row [OF this _ wf_get_order [OF wf, unfolded get_execution_order_def], of o1] o1(1)
      have "\<exists>r'. get_row ord_id (ord_id o1) (db_orders db') = Some r' \<and> order_step o1 r'"
        by (auto simp: os order_step_def)
      then show ?thesis
        using wf_get_order [OF wf'(1) r] o1(2) by (auto simp: get_execution_order_def)
    qed
    ultimately show ?thesis using o1 by (auto simp: os order_step_def)
  qed
  have "list_pending_reconciliation_orders (Some (dep_id dep)) db' = []"
  proof -
    have "\<forall>r\<in>set (db_orders db'). \<not> (is_pending r \<and> ord_deployment_id r = dep_id dep)"
      using row os by (fastforce simp: is_pending_def)
    then show ?thesis
      by (auto simp: list_pending_reconciliation_orders_def is_pending_def filter_empty_conv)
  qed
  with run' wf' row show ?thesis by blast
qed

section \<open>Recovery\<close>

definition incomplete :: "ExecutionOrder \<Rightarrow> bool" where
  "incomplete ord \<longleftrightarrow> ord_status ord = INTENT \<or> ord_status ord = SUBMITTED"

definition marked_unknown :: "ExecutionOrder \<Rightarrow> ExecutionOrder" where
  "marked_unknown ord = ord\<lparr>ord_status := UNKNOWN, ord_reconciliation_state := PENDING,
     ord_rejection_reason := Some ''recovery: incomplete order intent''\<rparr>"

lemma marked_unknown_simps [simp]:
  "ord_id (marked_unknown ord) = ord_id ord" "ord_deployment_id (marked_unknown ord) = ord_deployment_id ord"
  "\<not> incomplete (marked_unknown ord)"
  by (simp_all add: marked_unknown_def incomplete_def)

definition mark_when :: "(ExecutionOrder \<Rightarrow> bool) \<Rightarrow> exec_db \<Rightarrow> exec_db" where
  "mark_when P db = db\<lparr>db_orders := map (\<lambda>r. if P r then marked_unknown r else r) (db_orders db)\<rparr>"

lemma mark_one_run:
  assumes "get_execution_order (ord_id o1) db = Some o1" and "incomplete o1"
  shows "mark_incomplete_order o1 db = (Inr 1, mark_when (\<lambda>r. ord_id r = ord_id o1) db)"
proof -
  have "UNKNOWN \<in> set (ORDER_TRANSITIONS (ord_status o1))" using assms(2) by (auto simp: incomplete_def)
  from transition_execution_order_run [OF assms(1) this] assms(2) show ?thesis
    by (simp add: mark_incomplete_order_def incomplete_def mark_when_def upd_opt_def
        marked_unknown_def [abs_def] upd_row_def bnd_def ret_def)
qed

lemma mark_list_run:
  assumes "distinct (map ord_id os)"
    and "\<forall>ord\<in>set os. get_execution_order (ord_id ord) db = Some ord \<and> incomplete ord"
  shows "for_each mark_incomplete_order os db =
    (Inr (replicate (length os) 1), mark_when (\<lambda>r. ord_id r \<in> ord_id ` set os) db)"
  using assms
proof (induction os arbitrary: db)
  case Nil
  then show ?case by (simp add: ret_def mark_when_def)
next
  case (Cons o1 os)
  let ?db1 = "mark_when (\<lambda>r. ord_id r = ord_id o1) db"
  have get1: "get_execution_order i ?db1 =
      (if i = ord_id o1 then map_option marked_unknown (get_execution_order i db) else get_execution_order i db)" for i
    using get_upd_row [of ord_id marked_unknown i "ord_id o1" "db_orders db"]
    by (simp add: mark_when_def get_execution_order_def upd_row_def)
  have "\<forall>ord\<in>set os. get_execution_order (ord_id ord) ?db1 = Some ord \<and> incomplete ord"
    using Cons.prems by (auto simp: get1 image_iff)
  with Cons.prems have rest: "for_each mark_incomplete_order os ?db1 =
      (Inr (replicate (length os) 1), mark_when (\<lambda>r. ord_id r \<in> ord_id ` set os) ?db1)"
    by (intro Cons.IH) auto
  have comb: "mark_when (\<lambda>r. ord_id r \<in> ord_id ` set os) ?db1 = mark_when (\<lambda>r. ord_id r \<in> ord_id ` set (o1 # os)) db"
    using Cons.prems(1) by (auto simp: mark_when_def image_iff)
  have "mark_incomplete_order o1 db = (Inr 1, ?db1)"
    using Cons.prems(2) by (intro mark_one_run) auto
  from for_each_Cons_run [of mark_incomplete_order, OF this rest] show ?case by (simp add: comb)
qed

lemma mark_incomplete_run:
  assumes wf: "wf_db db"
  shows "mark_incomplete_orders_unknown d db =
    (Inr (length (filter (\<lambda>r. ord_deployment_id r = d \<and> incomplete r) (db_orders db))),
     mark_when (\<lambda>r. ord_deployment_id r = d \<and> incomplete r) db)"
proof -
  let ?os = "list_orders_for_deployment d (Some [INTENT, SUBMITTED]) db"
  have os: "set ?os = {r \<in> set (db_orders db). ord_deployment_id r = d \<and> incomplete r}"
    by (auto simp: list_orders_for_deployment_def incomplete_def)
  have dist: "distinct (map ord_id ?os)"
    using wf unfolding list_orders_for_deployment_def wf_db_defs pk_ok_def
    by (auto simp: distinct_map intro: inj_on_subset)
  have len: "length ?os = length (filter (\<lambda>r. ord_deployment_id r = d \<and> incomplete r) (db_orders db))"
    by (simp add: list_orders_for_deployment_def incomplete_def disj_commute)
  have "\<forall>ord\<in>set ?os. get_execution_order (ord_id ord) db = Some ord \<and> incomplete ord"
    using wf_get_order [OF wf] by (simp add: os)
  note run = mark_list_run [OF dist this]
  have "r \<in> set (db_orders db) \<Longrightarrow> ord_id r \<in> ord_id ` set ?os \<longleftrightarrow> ord_deployment_id r = d \<and> incomplete r" for r
    using wf_get_order [OF wf] by (auto simp: os image_iff) (metis option.inject)+
  then have "mark_when (\<lambda>r. ord_id r \<in> ord_id ` set ?os) db = mark_when (\<lambda>r. ord_deployment_id r = d \<and> incomplete r) db"
    by (simp add: mark_when_def)
  then show ?thesis
    by (simp add: mark_incomplete_orders_unknown_def bnd_def gets_def run ret_def sum_list_replicate len)
qed

text \<open>All deployments in turn, and the expired leases.\<close>

lemma mark_when_twice:
  assumes "\<And>r. (if Q (if P r then marked_unknown r else r) then marked_unknown (if P r then marked_unknown r else r)
      else (if P r then marked_unknown r else r)) = (if R r then marked_unknown r else r)"
  shows "mark_when Q (mark_when P db) = mark_when R db"
proof -
  have "map (\<lambda>r. if Q r then marked_unknown r else r) (map (\<lambda>r. if P r then marked_unknown r else r) rows) =
      map (\<lambda>r. if R r then marked_unknown r else r) rows" for rows
    using assms by (induction rows) simp_all
  then show ?thesis by (simp add: mark_when_def)
qed

lemma mark_deployments_run:
  assumes "wf_db db"
  shows "\<exists>ns. for_each (\<lambda>d. mark_incomplete_orders_unknown (dep_id d)) ds db =
      (Inr ns, mark_when (\<lambda>r. ord_deployment_id r \<in> dep_id ` set ds \<and> incomplete r) db) \<and>
    sum_list ns = length (filter (\<lambda>r. ord_deployment_id r \<in> dep_id ` set ds \<and> incomplete r) (db_orders db))"
  using assms
proof (induction ds arbitrary: db)
  case Nil
  then show ?case by (simp add: ret_def mark_when_def)
next
  case (Cons d ds)
  let ?P = "\<lambda>r. ord_deployment_id r = dep_id d \<and> incomplete r"
  let ?Q = "\<lambda>r. ord_deployment_id r \<in> dep_id ` set ds \<and> incomplete r"
  let ?R = "\<lambda>r. ord_deployment_id r \<in> dep_id ` set (d # ds) \<and> incomplete r"
  note run1 = mark_incomplete_run [OF Cons.prems, of "dep_id d"]
  have wf1: "wf_db (mark_when ?P db)"
    using keepsD [OF mark_incomplete_orders_unknown_wf Cons.prems] run1 by (metis snd_conv)
  from Cons.IH [OF wf1] obtain ns where
    run2: "for_each (\<lambda>d. mark_incomplete_orders_unknown (dep_id d)) ds (mark_when ?P db) =
      (Inr ns, mark_when ?Q (mark_when ?P db))"
    and ns: "sum_list ns = length (filter ?Q (db_orders (mark_when ?P db)))" by blast
  have pt: "(if ?Q (if ?P r then marked_unknown r else r) then marked_unknown (if ?P r then marked_unknown r else r)
      else (if ?P r then marked_unknown r else r)) = (if ?R r then marked_unknown r else r)" for r
    by (cases "?P r") auto
  have comb: "mark_when ?Q (mark_when ?P db) = mark_when ?R db"
    by (rule mark_when_twice) (rule pt)
  have count: "length (filter ?P rows) + length (filter ?Q (map (\<lambda>r. if ?P r then marked_unknown r else r) rows)) =
      length (filter ?R rows)" for rows
    by (induction rows) auto
  have "db_orders (mark_when ?P db) = map (\<lambda>r. if ?P r then marked_unknown r else r) (db_orders db)"
    by (simp add: mark_when_def)
  with ns count [of "db_orders db"]
  have "sum_list (length (filter ?P (db_orders db)) # ns) = length (filter ?R (db_orders db))" by (simp only: sum_list.Cons)
  with for_each_Cons_run [of "\<lambda>d. mark_incomplete_orders_unknown (dep_id d)", OF run1 run2, unfolded comb]
  show ?case by blast
qed

text \<open>
  C17: start-up recovery always completes. It deletes exactly the expired leases, turns every
  order of a known deployment that was still between intent and outcome into an unknown order
  pending reconciliation (and counts them), leaves every other order and the whole book alone,
  and fails closed exactly when some running deployment's symbol has no quote.
\<close>

theorem recovery_marks_interrupted_orders:
  assumes wf: "wf_db db"
  shows "\<exists>r db'. recover quote_source (Some ts) db = (Inr r, db') \<and> wf_db db' \<and> book db' = book db \<and>
    db_leases db' = filter (\<lambda>l. ts < lea_expires_at l) (db_leases db) \<and>
    db_orders db' = map (\<lambda>ord. if ord_deployment_id ord \<in> dep_id ` set (db_deployments db) \<and> incomplete ord
      then marked_unknown ord else ord) (db_orders db) \<and>
    rcv_unknown_orders_marked r = length (filter (\<lambda>ord. ord_deployment_id ord \<in> dep_id ` set (db_deployments db)
      \<and> incomplete ord) (db_orders db)) \<and>
    (rcv_failed_closed r \<longleftrightarrow> (\<exists>d\<in>set (db_deployments db). dep_lifecycle d = RUNNING \<and>
       quote_source (si_symbol (dep_identity d)) = None))"
proof -
  let ?db1 = "db\<lparr>db_leases := filter (\<lambda>l. ts < lea_expires_at l) (db_leases db)\<rparr>"
  let ?P = "\<lambda>ord. ord_deployment_id ord \<in> dep_id ` set (db_deployments db) \<and> incomplete ord"
  obtain n where run1: "release_expired_leases (Some ts) db = (Inr n, ?db1)"
    using release_expired_run [OF wf] by blast
  have wf1: "wf_db ?db1" using keepsD [OF lease_ops_wf(4) wf] run1 by (metis snd_conv)
  have ds: "set (list_deployments None ?db1) = set (db_deployments db)" by (simp add: list_deployments_def)
  from mark_deployments_run [OF wf1, of "list_deployments None ?db1"] obtain ns where
    run2: "for_each (\<lambda>d. mark_incomplete_orders_unknown (dep_id d)) (list_deployments None ?db1) ?db1 =
      (Inr ns, mark_when ?P ?db1)"
    and ns: "sum_list ns = length (filter ?P (db_orders db))"
    unfolding ds by auto
  have "keeps wf_db (for_each (\<lambda>d. mark_incomplete_orders_unknown (dep_id d)) (list_deployments None ?db1))"
    by (intro keeps_intros)
  from keepsD [OF this wf1] have wf2: "wf_db (mark_when ?P ?db1)" unfolding run2 by simp
  define db2 where "db2 = mark_when ?P ?db1"
  have db2: "book db2 = book db" "db_leases db2 = filter (\<lambda>l. ts < lea_expires_at l) (db_leases db)"
    "db_orders db2 = map (\<lambda>r. if ?P r then marked_unknown r else r) (db_orders db)" "db_deployments db2 = db_deployments db"
    by (simp_all add: db2_def mark_when_def book_def)
  let ?bad = "find (\<lambda>d. quote_source (si_symbol (dep_identity d)) = None) (list_deployments (Some [RUNNING]) db2)"
  have bad: "?bad \<noteq> None \<longleftrightarrow> (\<exists>d\<in>set (db_deployments db). dep_lifecycle d = RUNNING \<and>
      quote_source (si_symbol (dep_identity d)) = None)"
    by (auto simp: find_None_iff list_deployments_def db2)
  have run: "recover quote_source (Some ts) db = (Inr \<lparr>rcv_leases_released = n, rcv_unknown_orders_marked = sum_list ns,
      rcv_failed_closed = (?bad \<noteq> None), rcv_message = (case ?bad of None \<Rightarrow> ''recovery complete''
        | Some d \<Rightarrow> ''quote unavailable for '' @ si_symbol (dep_identity d))\<rparr>, db2)"
    unfolding recover_def bnd_gets or_now_def option.case
    apply (subst bnd_def)
    apply (simp only: run1 prod.case sum.case bnd_gets)
    apply (subst bnd_def)
    apply (simp only: run2 [folded db2_def] prod.case sum.case bnd_gets)
    apply (cases ?bad)
     apply (simp_all only: ret_def option.case)
    apply simp_all
    done
  show ?thesis
    by (rule exI, rule exI [of _ db2], rule conjI, rule run)
      (use wf2 [folded db2_def] ns db2 bad in \<open>simp only: RecoveryResult.simps simp_thms\<close>)
qed

section \<open>Example\<close>

definition ex_answering :: "BrokerOrderState \<Rightarrow> OrderReconciler" where
  "ex_answering state = \<lparr>orc_broker = \<lparr>bk_submit_market_order = (\<lambda>request cost. Inl (RuntimeError ''refused'')),
     bk_lookup_order = (\<lambda>request. Inr state)\<rparr>, orc_point_value = 1, orc_clock = 0\<rparr>"

definition ex_confirmed :: BrokerOrderState where
  "ex_confirmed = \<lparr>bos_status = LK_FILLED, bos_fill = Some ex_fill, bos_external_order_id = None,
     bos_external_deal_ids = [], bos_message = []\<rparr>"

definition ex_pending_db :: exec_db where
  "ex_pending_db = ex_db [ex_order UNKNOWN PENDING]"

definition ex_recorded_fill :: ExecutionFill where
  "ex_recorded_fill = \<lparr>fil_id = 0, fil_deployment_id = 1, fil_order_id = 2, fil_broker_mode = PAPER,
     fil_external_fill_id = ''paper:2'', fil_side = BUY, fil_quantity = 2, fil_price = 100, fil_fee = 1,
     fil_slippage = 0, fil_quote_bid = None, fil_quote_ask = None, fil_quote_timestamp = None,
     fil_filled_at = 0, fil_details = [], fil_created_at = 0\<rparr>"

lemma ex_pending_facts:
  "wf_db ex_pending_db" "get_execution_order (ord_id (ex_order UNKNOWN PENDING)) ex_pending_db = Some (ex_order UNKNOWN PENDING)"
  "is_pending (ex_order UNKNOWN PENDING)" "decision_present (ex_order UNKNOWN PENDING) ex_pending_db"
  "decisions_present ex_pending_db"
  "bk_lookup_order (orc_broker (ex_answering state)) request = Inr state"
  using wf_ex_db by (simp_all add: ex_pending_db_def get_execution_order_def get_row_def is_pending_def
      decisions_present_def decision_present_def ex_answering_def ex_defs)

theorem reconcile_recorded_fill_strands_order_witness:
  "\<exists>r db' o2. reconcile_order (ex_answering ex_confirmed) (ex_order UNKNOWN PENDING) ex_deployment
      (ex_pending_db\<lparr>db_fills := [ex_recorded_fill]\<rparr>) = (Inr r, db') \<and>
    get_execution_order 2 db' = Some o2 \<and> ord_status o2 = UNKNOWN \<and> \<not> is_pending o2"
proof -
  let ?db = "ex_pending_db\<lparr>db_fills := [ex_recorded_fill]\<rparr>"
  have filled: "bos_status ex_confirmed = LK_FILLED" "bos_fill ex_confirmed = Some ex_fill" by (simp_all add: ex_confirmed_def)
  have wf: "wf_db ?db" and ord: "get_execution_order (ord_id (ex_order UNKNOWN PENDING)) ?db = Some (ex_order UNKNOWN PENDING)"
    and dec: "decision_present (ex_order UNKNOWN PENDING) ?db" and old: "recorded ex_fill ?db"
    and acc: "get_paper_account (dep_paper_account_id ex_deployment) ?db = Some ex_account"
    and ids: "ord_id (ex_order UNKNOWN PENDING) = 2"
    by (simp_all add: wf_db_defs pk_ok_def recorded_def fill_key_def get_execution_order_def get_paper_account_def get_row_def
        decision_present_def ex_pending_db_def ex_recorded_fill_def ex_fill_def ex_defs)
  from reconcile_recorded_fill_strands_order [OF wf ord ex_pending_facts(3) dec ex_pending_facts(6) filled old acc] show ?thesis
    unfolding ids by blast
qed

theorem paper_reconciliation_clears_pending_witness:
  "\<exists>rs db'. reconcile_deployment \<lparr>orc_broker = paper_execution_broker ex_paper, orc_point_value = 1, orc_clock = 0\<rparr>
      ex_deployment ex_pending_db = (Inr rs, db') \<and> length rs = 1 \<and>
    list_pending_reconciliation_orders (Some 1) ex_pending_db \<noteq> [] \<and>
    list_pending_reconciliation_orders (Some 1) db' = []"
proof -
  have one: "length (list_pending_reconciliation_orders (Some 1) ex_pending_db) = 1" and id: "dep_id ex_deployment = 1"
    by code_simp+
  from one have ne: "list_pending_reconciliation_orders (Some 1) ex_pending_db \<noteq> []" by (metis length_0_conv zero_neq_one)
  show ?thesis
    using paper_reconciliation_clears_pending [OF ex_pending_facts(1,5), of
        "\<lparr>orc_broker = paper_execution_broker ex_paper, orc_point_value = 1, orc_clock = 0\<rparr>" ex_paper ex_deployment] ne
    unfolding id one by auto
qed

theorem recovery_marks_interrupted_orders_witness:
  "\<exists>r db'. recover (\<lambda>_. Some ex_quote) (Some 100) (ex_db [ex_order INTENT NOT_APPLICABLE]) = (Inr r, db') \<and>
    rcv_unknown_orders_marked r = 1 \<and> \<not> rcv_failed_closed r \<and> map ord_status (db_orders db') = [UNKNOWN]"
  using recovery_marks_interrupted_orders [OF wf_ex_db(2), of "\<lambda>_. Some ex_quote" 100 INTENT NOT_APPLICABLE]
  by (auto simp: incomplete_def marked_unknown_def ex_defs)

end
