(* ===== verification/Control_Correct.thy ===== *)
theory Control_Correct
  imports Control Exec_Leases Reconciliation_Correct
begin

text \<open>
  What the control plane guarantees: only validated paper drafts are created; an action is
  accepted exactly when the lifecycle allows it and is then audited; an unconfirmed or refused
  command changes nothing; the kill switch reads back as set and stops all orders; and an
  operator's resolution keeps the books.
\<close>

section \<open>Validation\<close>

lemma parse_positive_decimal_iff:
  "parse_positive_decimal j field m = Inr x \<longleftrightarrow> json_decimal j = Inr x \<and> 0 < x \<and> x \<le> m"
  by (auto simp: parse_positive_decimal_def split: sum.splits)

definition limit_ok :: "config \<Rightarrow> string \<Rightarrow> decimal \<Rightarrow> bool" where
  "limit_ok cfg field m \<longleftrightarrow> (case config_decimal cfg field of
     Inl _ \<Rightarrow> False | Inr None \<Rightarrow> True | Inr (Some x) \<Rightarrow> 0 < x \<and> x \<le> m)"

lemma validate_limit_cases:
  "validate_limit cfg field m = Inr r \<Longrightarrow> r = [] \<or> (\<exists>x. r = [(field, JNum x)] \<and> 0 < x \<and> x \<le> m)"
  by (auto simp: validate_limit_def sbnd_Inr_iff parse_positive_decimal_iff split: option.splits json.splits)

lemma validated_risk_config:
  assumes "validate_risk_config cfg = Inr risk"
  shows "limit_ok risk ''max_daily_loss'' MAX_DAILY_LOSS \<and> limit_ok risk ''max_notional'' MAX_NOTIONAL"
  using assms
  by (auto simp: validate_risk_config_def sbnd_Inr_iff limit_ok_def config_decimal_def json_decimal_def
      split: option.splits if_splits dest!: validate_limit_cases)

text \<open>The limits the risk gate will read are the ones the operator wrote.\<close>

lemma validate_limit_reads:
  assumes "validate_limit cfg f m = Inr r"
  shows "config_decimal r f = config_decimal cfg f" and "g \<noteq> f \<Longrightarrow> map_of r g = None"
proof -
  have "map_of cfg f = None \<or> map_of cfg f = Some JNull \<or> (\<exists>j. map_of cfg f = Some j \<and> j \<noteq> JNull)" by auto
  then show "config_decimal r f = config_decimal cfg f"
    using assms
    by (auto simp: validate_limit_def sbnd_Inr_iff config_decimal_def parse_positive_decimal_iff json_decimal_def
        split: json.splits)
  show "g \<noteq> f \<Longrightarrow> map_of r g = None" using validate_limit_cases [OF assms] by auto
qed

lemma validated_limit_reads_back:
  assumes "validate_risk_config (Some cfg) = Inr risk"
  shows "config_decimal risk ''max_daily_loss'' = config_decimal cfg ''max_daily_loss'' \<and>
    config_decimal risk ''max_notional'' = config_decimal cfg ''max_notional''"
proof (cases "cfg = []")
  case True
  with assms show ?thesis by (simp add: validate_risk_config_def)
next
  case False
  with assms obtain a b where a: "validate_limit cfg ''max_daily_loss'' MAX_DAILY_LOSS = Inr a"
    and b: "validate_limit cfg ''max_notional'' MAX_NOTIONAL = Inr b" and r: "risk = a @ b"
    by (auto simp: validate_risk_config_def sbnd_Inr_iff)
  have "map_of b ''max_daily_loss'' = None" "map_of a ''max_notional'' = None"
    using validate_limit_reads(2) [OF b] validate_limit_reads(2) [OF a] by simp_all
  then have "config_decimal risk ''max_daily_loss'' = config_decimal a ''max_daily_loss''"
    "config_decimal risk ''max_notional'' = config_decimal b ''max_notional''"
    by (simp_all add: config_decimal_def r map_add_def split: option.splits)
  then show ?thesis using validate_limit_reads(1) [OF a] validate_limit_reads(1) [OF b] by simp
qed

text \<open>
  Validated risk limits round-trip into the risk gate. Whatever decimal notation the operator
  used, the limits the bar service reads from the stored configuration are the ones written
  (absent stays absent), and they are positive and within the allowed maxima.
\<close>

lemma risk_limits_round_trip:
  assumes "validate_risk_config (Some cfg) = Inr risk"
  shows "config_decimal risk ''max_daily_loss'' = config_decimal cfg ''max_daily_loss'' \<and>
    config_decimal risk ''max_notional'' = config_decimal cfg ''max_notional'' \<and>
    limit_ok risk ''max_daily_loss'' MAX_DAILY_LOSS \<and> limit_ok risk ''max_notional'' MAX_NOTIONAL"
  using validated_limit_reads_back [OF assms] validated_risk_config [OF assms] by simp

definition identity_ok :: "control_env \<Rightarrow> StrategyIdentity \<Rightarrow> bool" where
  "identity_ok env i \<longleftrightarrow> si_strategy_name i \<noteq> [] \<and> 1 \<le> si_strategy_version i \<and> si_symbol i \<noteq> [] \<and>
     si_config_hash i = env_config_hash env (si_compiled_config i) \<and>
     env_strategy_engine env (si_strategy_name i) = Some ''candle'' \<and>
     si_timeframe i \<in> {''M15'', ''H1'', ''D1''} \<and>
     validate_sizing_config (si_sizing_config i) = Inr (si_sizing_config i) \<and>
     limit_ok (si_risk_config i) ''max_daily_loss'' MAX_DAILY_LOSS \<and>
     limit_ok (si_risk_config i) ''max_notional'' MAX_NOTIONAL"

lemma validated_timeframe: "validate_timeframe tf = Inr k \<Longrightarrow> k \<in> {''M15'', ''H1'', ''D1''}"
  by (auto simp: validate_timeframe_def TF_MINUTES_def MIN_TIMEFRAME_MINUTES_def Let_def split: option.splits if_splits)

lemma validated_sizing: "validate_sizing_config c = Inr c' \<Longrightarrow> c' = c"
  by (auto simp: validate_sizing_config_def sbnd_Inr_iff split: if_splits option.splits json.splits)

lemma validated_identity:
  assumes "validate_strategy_identity env nm v cfg h sy tf sizing risk = Inr i"
  shows "identity_ok env i"
proof -
  from assms obtain engine ntf sz rk where
    "nm \<noteq> []" "1 \<le> v" "sy \<noteq> []" "h = env_config_hash env cfg" "env_strategy_engine env nm = Some engine"
    "engine = ''candle''" "validate_timeframe tf = Inr ntf" "validate_sizing_config sizing = Inr sz"
    "validate_risk_config risk = Inr rk"
    and i: "i = \<lparr>si_strategy_name = nm, si_strategy_version = v, si_compiled_config = cfg, si_config_hash = h,
      si_symbol = sy, si_timeframe = ntf, si_sizing_config = sz, si_risk_config = rk\<rparr>"
    by (auto simp: validate_strategy_identity_def sbnd_Inr_iff split: option.splits)
  then show ?thesis
    using validated_timeframe validated_sizing validated_risk_config by (auto simp: identity_ok_def)
qed

lemma requested_identity_ok: "requested_identity env body = Inr i \<Longrightarrow> identity_ok env i"
  by (auto simp: requested_identity_def identity_from_saved_backtest_def sbnd_Inr_iff Let_def
      split: option.splits dest: validated_identity)

section \<open>Reading a deployment\<close>

lemma get_latest_decision_total: "\<exists>d. get_latest_decision dep db = Inr d"
  unfolding get_latest_decision_def by (rule exI, rule scalar_one_or_none_unique) simp

lemma get_deployment_detail_run:
  assumes wf: "wf_db db" and d: "get_execution_deployment did db = Some d"
  shows "\<exists>detail. get_deployment_detail did db = (Inr detail, db) \<and> dd_deployment detail = d"
proof -
  obtain latest where "get_latest_decision did db = Inr latest" using get_latest_decision_total by blast
  with d show ?thesis
    by (simp add: get_deployment_detail_def found_or_404_def get_worker_lease_eq [OF wf] get_open_net_position_eq [OF wf]
        comp_defs)
qed

lemma found_or_404_run:
  "found_or_404 what f db = (case f db of None \<Rightarrow> (Inl (HTTPException 404 (what @ '' not found'')), db) | Some x \<Rightarrow> (Inr x, db))"
  by (simp add: found_or_404_def bnd_gets throw_def ret_def split: option.splits)

text \<open>
  A deployment comes into existence only as a validated paper draft. If the request is
  refused, nothing is stored; if it is accepted, exactly one deployment row is added: a draft,
  on the paper broker, without live activation, for a candle strategy, with a matching
  configuration hash, a timeframe of at least 15 minutes and positive bounded risk limits.
\<close>

lemma created_deployment_is_validated_draft:
  assumes wf: "wf_db db" and run: "create_deployment env body db = (r, db')"
  shows "case r of
      Inl e \<Rightarrow> db' = db
    | Inr detail \<Rightarrow> \<exists>d. dd_deployment detail = d \<and>
        db' = db\<lparr>db_next_id := Suc (db_next_id db), db_deployments := db_deployments db @ [d]\<rparr> \<and>
        dep_lifecycle d = DRAFT \<and> dep_broker_mode d = PAPER \<and> \<not> dep_live_activation_enabled d \<and>
        dep_paper_account_id d = dcr_paper_account_id body \<and> identity_ok env (dep_identity d)"
proof -
  consider (refused) e where "create_deployment env body db = (Inl e, db)"
    | (accepted) i where "requested_identity env body = Inr i"
        "create_deployment env body db = map_errors http_from_validation
          (bnd (create_execution_deployment (dcr_paper_account_id body) (dcr_name body) i PAPER DRAFT False)
            (\<lambda>deployment. get_deployment_detail (dep_id deployment))) db"
    by (cases "get_paper_account (dcr_paper_account_id body) db";
        cases "validate_broker_mode (dcr_broker_mode body) (env_live_capability_locked env) (dcr_live_activation_enabled body)";
        cases "requested_identity env body")
      (auto simp: create_deployment_def found_or_404_run bnd_reads map_errors_def comp_defs)
  then show ?thesis
  proof cases
    case refused
    with run have "r = Inl e" "db' = db" by simp_all
    then show ?thesis by simp
  next
    case (accepted i)
    let ?new = "create_execution_deployment (dcr_paper_account_id body) (dcr_name body) i PAPER DRAFT False"
    obtain d db1 where new: "?new db = (Inr d, db1)"
      and db1: "db1 = db\<lparr>db_next_id := Suc (db_next_id db), db_deployments := db_deployments db @ [d]\<rparr>"
      and d: "dep_id d = db_next_id db" "dep_lifecycle d = DRAFT" "dep_broker_mode d = PAPER" "\<not> dep_live_activation_enabled d"
        "dep_paper_account_id d = dcr_paper_account_id body" "dep_identity d = i"
      by (auto simp: create_execution_deployment_def session_add_def Let_def)
    have wf1: "wf_db db1" using keepsD [OF deployment_ops_wf(1) wf] new by (metis snd_conv)
    have "get_execution_deployment (dep_id d) db1 = Some d"
      using wf by (auto simp: get_execution_deployment_def db1 get_row_append d pk_ok_fresh wf_db_defs)
    from get_deployment_detail_run [OF wf1 this] obtain detail where
      "get_deployment_detail (dep_id d) db1 = (Inr detail, db1)" "dd_deployment detail = d" by blast
    with run accepted(2) new have "r = Inr detail" "db' = db1" "dd_deployment detail = d"
      by (auto simp: map_errors_def catch_def bnd_def)
    with d db1 requested_identity_ok [OF accepted(1)] show ?thesis by simp
  qed
qed

section \<open>Deployment actions\<close>

fun action_target :: "DeploymentAction \<Rightarrow> DeploymentLifecycle option" where
  "action_target ACT_START = Some RUNNING"
| "action_target ACT_PAUSE = Some PAUSED"
| "action_target ACT_STOP = Some STOPPED"
| "action_target ACT_FLATTEN = None"

definition action_allowed :: "DeploymentAction \<Rightarrow> bool \<Rightarrow> ExecutionDeployment \<Rightarrow> bool" where
  "action_allowed action confirm d \<longleftrightarrow> (case action_target action of
     None \<Rightarrow> confirm | Some target \<Rightarrow> target \<in> set (DEPLOYMENT_TRANSITIONS (dep_lifecycle d)))"

definition action_result :: "DeploymentAction \<Rightarrow> ExecutionDeployment \<Rightarrow> ExecutionDeployment \<Rightarrow> bool" where
  "action_result action d d' \<longleftrightarrow> dep_identity d' = dep_identity d \<and> dep_broker_mode d' = dep_broker_mode d \<and>
     (case action_target action of
        None \<Rightarrow> dep_lifecycle d' = dep_lifecycle d \<and> dep_pending_action d' = Some ''flatten''
      | Some target \<Rightarrow> dep_lifecycle d' = target \<and> dep_pending_action d' = dep_pending_action d)"

lemma update_deployment_run:
  "get_execution_deployment did db = Some d \<Longrightarrow>
    update_deployment did g db = (Inr (g db d), db\<lparr>db_deployments := upd_row dep_id did (g db) (db_deployments db)\<rparr>)"
  by (simp add: update_deployment_def comp_defs)

lemma transition_run:
  assumes d: "get_execution_deployment did db = Some d" and ok: "target \<in> set (DEPLOYMENT_TRANSITIONS (dep_lifecycle d))"
  obtains f where "transition_deployment_lifecycle did target None db =
      (Inr (f d), db\<lparr>db_deployments := upd_row dep_id did f (db_deployments db)\<rparr>)"
    and "\<And>r. dep_id (f r) = dep_id r" and "\<And>r. dep_lifecycle (f r) = target"
    and "\<And>r. dep_identity (f r) = dep_identity r" and "\<And>r. dep_broker_mode (f r) = dep_broker_mode r"
    and "\<And>r. dep_pending_action (f r) = dep_pending_action r"
proof -
  let ?g = "\<lambda>db d. d\<lparr>dep_lifecycle := target,
      dep_started_at := (if target = RUNNING \<and> dep_started_at d = None then Some (or_now None db) else dep_started_at d),
      dep_stopped_at := (if target \<in> {STOPPED, LC_ERROR} then Some (or_now None db) else dep_stopped_at d)\<rparr>"
  have "transition_deployment_lifecycle did target None db = update_deployment did ?g db"
    using d ok by (simp add: transition_deployment_lifecycle_def validate_deployment_transition_def bnd_gets)
  with update_deployment_run [OF d, of ?g] show thesis by (intro that [of "?g db"]) simp_all
qed

lemma perform_action_run:
  assumes d: "get_execution_deployment did db = Some d"
  shows "if action_target action = None \<or> action_allowed action confirm d
    then \<exists>f msg pend. perform_action did action db =
        (Inr (f d, msg, pend), db\<lparr>db_deployments := upd_row dep_id did f (db_deployments db)\<rparr>) \<and>
      (\<forall>r. dep_id (f r) = dep_id r) \<and> action_result action d (f d)
    else \<exists>a b. perform_action did action db = (Inl (IllegalLifecycleTransition a b), db)"
proof (cases "action_target action")
  case None
  let ?g = "\<lambda>db d. d\<lparr>dep_pending_action := Some ''flatten'', dep_pending_action_requested_at := Some (or_now None db)\<rparr>"
  have "set_pending_deployment_action did ''flatten'' None db =
      (Inr (?g db d), db\<lparr>db_deployments := upd_row dep_id did (?g db) (db_deployments db)\<rparr>)"
    using update_deployment_run [OF d, of ?g] by (simp add: set_pending_deployment_action_def)
  then have "perform_action did ACT_FLATTEN db = (Inr (?g db d, ''flatten queued for worker'', dep_pending_action (?g db d)),
      db\<lparr>db_deployments := upd_row dep_id did (?g db) (db_deployments db)\<rparr>)"
    by (simp add: perform_action_def bnd_def ret_def)
  moreover have "action = ACT_FLATTEN" using None by (cases action) auto
  ultimately show ?thesis
    by (auto simp: action_result_def simp del: exec_db.update_convs intro!: exI [of _ "?g db"])
next
  case (Some target)
  have run: "perform_action did action db = bnd (transition_deployment_lifecycle did target None)
      (\<lambda>d. ret (d, action_value action @ '' accepted'', None)) db"
    using Some by (cases action) (auto simp: perform_action_def start_deployment_def pause_deployment_def stop_deployment_def)
  show ?thesis
  proof (cases "target \<in> set (DEPLOYMENT_TRANSITIONS (dep_lifecycle d))")
    case True
    from transition_run [OF d this] obtain f where
      f: "transition_deployment_lifecycle did target None db = (Inr (f d), db\<lparr>db_deployments := upd_row dep_id did f (db_deployments db)\<rparr>)"
        "\<And>r. dep_id (f r) = dep_id r" "\<And>r. dep_lifecycle (f r) = target" "\<And>r. dep_identity (f r) = dep_identity r"
        "\<And>r. dep_broker_mode (f r) = dep_broker_mode r" "\<And>r. dep_pending_action (f r) = dep_pending_action r" by blast
    then have "perform_action did action db = (Inr (f d, action_value action @ '' accepted'', None),
        db\<lparr>db_deployments := upd_row dep_id did f (db_deployments db)\<rparr>)"
      by (simp add: run bnd_def ret_def)
    moreover have "action_result action d (f d)" using f Some by (simp add: action_result_def)
    moreover have "action_allowed action confirm d" using True Some by (simp add: action_allowed_def)
    ultimately show ?thesis using f(2) by auto
  next
    case False
    then have "\<exists>a b. perform_action did action db = (Inl (IllegalLifecycleTransition a b), db)"
      using d by (simp add: run transition_deployment_lifecycle_def validate_deployment_transition_def comp_defs)
    with False Some show ?thesis by (simp add: action_allowed_def)
  qed
qed

text \<open>
  C27: a deployment action is accepted exactly when it is allowed: start, pause and stop when the
  lifecycle table has the transition, flatten when it is confirmed. An accepted action changes
  only that deployment's lifecycle (or queues the flatten) and appends one audit event naming
  the actor; orders, books and leases are untouched. A refused one is a 409 (or 400 for an
  unconfirmed flatten) and changes nothing.
\<close>

theorem deployment_action_accepted_iff_allowed:
  assumes d: "get_execution_deployment did db = Some d"
  shows "if action_allowed action confirm d
    then \<exists>resp d' a db'. apply_deployment_action did action confirm actor db = (Inr resp, db') \<and>
      action_result action d d' \<and> dar_lifecycle resp = dep_lifecycle d' \<and> get_execution_deployment did db' = Some d' \<and>
      (\<forall>i. i \<noteq> did \<longrightarrow> get_execution_deployment i db' = get_execution_deployment i db) \<and>
      db_audit db' = db_audit db @ [a] \<and> aud_deployment_id a = Some did \<and> aud_actor a = actor \<and>
      db_orders db' = db_orders db \<and> book db' = book db \<and> db_leases db' = db_leases db
    else \<exists>msg. apply_deployment_action did action confirm actor db =
      (Inl (HTTPException (if action = ACT_FLATTEN then 400 else 409) msg), db)"
proof (cases "action_allowed action confirm d")
  case True
  from perform_action_run [OF d, of action confirm] True obtain f msg pend where
    run: "perform_action did action db = (Inr (f d, msg, pend), db\<lparr>db_deployments := upd_row dep_id did f (db_deployments db)\<rparr>)"
    and f: "\<And>r. dep_id (f r) = dep_id r" and res: "action_result action d (f d)" by auto
  have ok: "\<not> (action = ACT_FLATTEN \<and> \<not> confirm)" using True by (auto simp: action_allowed_def)
  have get: "get_execution_deployment i (db'\<lparr>db_deployments := upd_row dep_id did f (db_deployments db)\<rparr>) =
      (if i = did then Some (f d) else get_execution_deployment i db)" for i db'
    using d get_upd_row [of dep_id f i did "db_deployments db"] f by (simp add: get_execution_deployment_def)
  show ?thesis
    using True ok d res get
    by (auto simp: apply_deployment_action_def found_or_404_run bnd_def [of "found_or_404 _ _"] map_errors_def catch_def
        bnd_def run record_audit_event_def session_add_def Let_def ret_def get_execution_deployment_def book_def)
next
  case False
  show ?thesis
  proof (cases "action = ACT_FLATTEN")
    case True
    with False d show ?thesis
      by (simp add: action_allowed_def apply_deployment_action_def found_or_404_run bnd_def throw_def)
  next
    case nf: False
    then have "action_target action \<noteq> None" by (cases action) auto
    with False perform_action_run [OF d, of action confirm] obtain a b where
      "perform_action did action db = (Inl (IllegalLifecycleTransition a b), db)" by auto
    with False nf d show ?thesis
      by (simp add: apply_deployment_action_def found_or_404_run bnd_def map_errors_def catch_def throw_def http_from_action_def)
  qed
qed

theorem deployment_action_accepted_iff_allowed_witness:
  "(\<exists>resp db'. apply_deployment_action 1 ACT_PAUSE False None (ex_db []) = (Inr resp, db') \<and> dar_lifecycle resp = PAUSED) \<and>
   (\<exists>msg. apply_deployment_action 1 ACT_START False None (ex_db []) = (Inl (HTTPException 409 msg), ex_db []))"
proof -
  have d: "get_execution_deployment 1 (ex_db []) = Some ex_deployment"
    by (simp add: get_execution_deployment_def ex_db_def ex_deployment_def)
  have "action_allowed ACT_PAUSE False ex_deployment" "\<not> action_allowed ACT_START False ex_deployment"
    by (simp_all add: action_allowed_def ex_deployment_def)
  with deployment_action_accepted_iff_allowed [OF d, of ACT_PAUSE False None]
    deployment_action_accepted_iff_allowed [OF d, of ACT_START False None] show ?thesis
    by (auto simp: action_result_def)
qed

section \<open>The kill switch\<close>

lemma update_kill_switch_run:
  obtains a c where "update_kill_switch en True reason by db = (Inr (c, aud_id a),
      db\<lparr>db_control := Some c, db_next_id := Suc (db_next_id db), db_audit := db_audit db @ [a]\<rparr>)"
    and "ctl_kill_switch_enabled c = en" and "ctl_kill_switch_reason c = (if en then reason else None)"
proof -
  let ?c = "\<lparr>ctl_kill_switch_enabled = en, ctl_kill_switch_reason = (if en then reason else None), ctl_updated_by = by\<rparr>"
  let ?a = "\<lparr>aud_id = db_next_id db, aud_event_type = (if en then ''kill_switch_enabled'' else ''kill_switch_disabled''),
      aud_actor = by, aud_deployment_id = None, aud_message = (if en then ''kill switch enabled'' else ''kill switch disabled''),
      aud_payload = [(''enabled'', JBool en), (''reason'', json_of_opt reason)], aud_created_at = db_clock db\<rparr>"
  have "update_kill_switch en True reason by db = (Inr (?c, aud_id ?a),
      db\<lparr>db_control := Some ?c, db_next_id := Suc (db_next_id db), db_audit := db_audit db @ [?a]\<rparr>)"
    by (cases "db_control db"; cases en)
      (simp_all add: update_kill_switch_def map_errors_def enable_kill_switch_def disable_kill_switch_def set_kill_switch_def
        get_execution_control_state_def record_audit_event_def session_add_def Let_def comp_defs)
  then show thesis by (rule that) simp_all
qed

text \<open>
  C28: once an operator has confirmed the kill switch, it reads back as enabled, and no bar
  processed from that state outside a flatten (any worker, any deployment, any signal) sends an
  order or changes an order, a balance, a position or the ledger.
\<close>

theorem kill_switch_stops_orders:
  assumes ks: "update_kill_switch True True reason by db = (x, db')"
    and run: "process_completed_bar self dep ev tok wk cost pv False False
      \<lparr>ses_work = db', ses_durable = db', ses_submitted = sent\<rparr> = (r, s')"
  shows "\<not> isl x \<and> (\<exists>c. get_kill_switch db' = (Inr c, db') \<and> ctl_kill_switch_enabled c) \<and>
    ses_submitted s' = sent \<and> db_orders (ses_durable s') = db_orders db \<and> book (ses_durable s') = book db"
proof -
  obtain a c where "update_kill_switch True True reason by db = (Inr (c, aud_id a),
      db\<lparr>db_control := Some c, db_next_id := Suc (db_next_id db), db_audit := db_audit db @ [a]\<rparr>)"
    and "ctl_kill_switch_enabled c = True" by (rule update_kill_switch_run)
  with ks have x: "\<not> isl x" and c: "ctl_kill_switch_enabled c"
    and db': "db' = db\<lparr>db_control := Some c, db_next_id := Suc (db_next_id db), db_audit := db_audit db @ [a]\<rparr>"
    by auto
  let ?s = "\<lparr>ses_work = db', ses_durable = db', ses_submitted = sent\<rparr>"
  let ?P = "untouched (gate_view db') sent"
  have on: "order_blocked dep tok wk (False \<or> False) db'" by (simp add: order_blocked_def kill_switch_on_def db' c)
  have "order_blocked dep tok wk (False \<or> False) (ses_work t)" if "?P t" for t
    using that on order_blocked_cong [of "ses_work t" db'] by (simp add: untouched_def)
  from blocked_process_completed_bar [OF this]
  have "keeps ?P (process_completed_bar self dep ev tok wk cost pv False False)" .
  moreover have "?P ?s" by (simp add: untouched_def gate_view_def)
  ultimately have "?P s'" using run keepsD by fastforce
  moreover have "get_kill_switch db' = (Inr c, db')"
    by (simp add: get_kill_switch_def get_execution_control_state_def db' comp_defs)
  ultimately show ?thesis using x c by (auto simp: untouched_def gate_view_def db' book_def)
qed

theorem kill_switch_stops_orders_witness:
  "\<exists>x db' r s'. update_kill_switch True True (Some ''halt'') None ex_trading_db = (x, db') \<and>
     process_completed_bar (ex_service []) ex_deployment ex_signal ''t'' ''w'' ex_cost 1 False False
       \<lparr>ses_work = db', ses_durable = db', ses_submitted = []\<rparr> = (r, s') \<and> ses_submitted s' = []"
proof -
  obtain x db' where ks: "update_kill_switch True True (Some ''halt'') None ex_trading_db = (x, db')" by fastforce
  let ?m = "process_completed_bar (ex_service []) ex_deployment ex_signal ''t'' ''w'' ex_cost 1 False False
       \<lparr>ses_work = db', ses_durable = db', ses_submitted = []\<rparr>"
  obtain r s' where run: "?m = (r, s')" by fastforce
  from kill_switch_stops_orders [OF ks run] ks run show ?thesis by blast
qed

section \<open>The books under control commands\<close>

lemma keeps_map_errors [keeps_intros]: "keeps P m \<Longrightarrow> keeps P (map_errors f m)"
  by (auto simp: map_errors_def intro!: keeps_intros)

lemma history_map_errors [history_intros]: "steps history m \<Longrightarrow> steps history (map_errors f m)"
  by (auto simp: map_errors_def intro!: history_intros)

lemma reads_found_or_404 [keeps_intros, history_intros]: "keeps P (found_or_404 what f)" "steps history (found_or_404 what f)"
  by (auto simp: found_or_404_def intro!: keeps_intros history_intros)

lemma control_accounts:
  "keeps accounts_ok (create_execution_deployment acc nm idn mode lc live)"
  "keeps accounts_ok (transition_deployment_lifecycle dep lc tm)"
  "keeps accounts_ok (set_pending_deployment_action dep nm tm)"
  "keeps accounts_ok (record_audit_event nm msg actor depo ctx)"
  "keeps accounts_ok (set_kill_switch en rsn wh)"
  "keeps accounts_ok get_execution_control_state"
  by (rule keeps_accounts, rule keeps_intros, rule frames_intros)+

lemmas control_defs = resolve_order_def apply_deployment_action_def perform_action_def start_deployment_def
  pause_deployment_def stop_deployment_def update_kill_switch_def enable_kill_switch_def disable_kill_switch_def
  create_deployment_def get_deployment_detail_def

text \<open>
  The control plane cannot corrupt the books: its requests keep the schema constraints and the
  identity of cash and ledger, and only continue the audit trail, whether they succeed or fail.
\<close>

lemma control_invariants:
  "keeps accounts_ok (resolve_order env oid body)" "steps history (resolve_order env oid body)"
  "keeps accounts_ok (apply_deployment_action did action confirm actor)"
  "steps history (apply_deployment_action did action confirm actor)"
  "keeps accounts_ok (update_kill_switch en confirm reason by)" "steps history (update_kill_switch en confirm reason by)"
  "keeps accounts_ok (create_deployment env req)" "steps history (create_deployment env req)"
  by (auto simp: control_defs split: DeploymentAction.splits
      intro!: keeps_intros history_intros control_accounts manual_resolution_invariants)

section \<open>Evicted workers\<close>

text \<open>
  A worker whose lease token was replaced cannot trade. Whatever lease calls follow (short
  of issuing that very token again), a bar or a flatten processed with the old token sends
  nothing to the broker and leaves orders and books as they were.
\<close>

lemma evicted_worker_places_no_order:
  assumes wf: "wf_db db" and gone: "token_gone (dep_id dep) tok (lease_holder db)"
    and fresh: "\<forall>op\<in>set ops. not_reissued (dep_id dep) tok op"
    and run: "process_completed_bar self dep ev tok wk cost pv bypass flatten
      \<lparr>ses_work = lease_calls ops db, ses_durable = lease_calls ops db, ses_submitted = sent\<rparr> = (r, s')"
  shows "ses_submitted s' = sent \<and> db_orders (ses_durable s') = db_orders (lease_calls ops db) \<and>
    book (ses_durable s') = book (lease_calls ops db)"
proof -
  let ?db = "lease_calls ops db"
  let ?P = "untouched (gate_view ?db) sent"
  have "token_gone (dep_id dep) tok (lease_holder ?db)" and "wf_db ?db"
    using leases.fenced [OF wf gone fresh] leases.run_ok [OF wf] by (simp_all add: lease_calls_run)
  then have "\<not> lease_held_by (dep_id dep) wk tok ?db"
    by (auto simp: lease_held_by_def get_worker_lease_eq token_gone_def lease_holder_def lease_view_of_def split: option.splits)
  then have blocked: "order_blocked dep tok wk (bypass \<or> flatten) ?db" by (simp add: order_blocked_def)
  have "order_blocked dep tok wk (bypass \<or> flatten) (ses_work t)" if "?P t" for t
    using that blocked order_blocked_cong [of "ses_work t" ?db] by (simp add: untouched_def)
  from blocked_process_completed_bar [OF this]
  have "keeps ?P (process_completed_bar self dep ev tok wk cost pv bypass flatten)" .
  moreover have "?P \<lparr>ses_work = ?db, ses_durable = ?db, ses_submitted = sent\<rparr>" by (simp add: untouched_def gate_view_def)
  ultimately have "?P s'" using run keepsD by fastforce
  then show ?thesis by (auto simp: untouched_def gate_view_def)
qed

end
