(* ===== verification/Worker_Correct.thy ===== *)
theory Worker_Correct
  imports Worker Control_Correct
begin

text \<open>
  What the worker guarantees. Every poll, start-up, shutdown and operator flatten keeps the books,
  the audit trail and the log of submissions consistent, whether it succeeds or raises
  half-way; so does every interleaving of them with crashes and control requests. A poll that
  gets past its refresh holds an unexpired lease on every deployment it works on. A worker
  that has lost a lease never trades again until it is restarted.
\<close>

section \<open>Computations of the worker\<close>

abbreviation on_ses :: "(session \<Rightarrow> bool) \<Rightarrow> 'st worker_state \<Rightarrow> bool" where
  "on_ses P w \<equiv> P (wst_session w)"

lemma keeps_on_session [keeps_intros]: "keeps P m \<Longrightarrow> keeps (on_ses P) (on_session m)"
  unfolding on_session_def by (rule keeps_on_part [where Q = P]) simp_all

lemma keeps_on_db [keeps_intros]: "keeps P (db_op m) \<Longrightarrow> keeps (on_ses P) (on_db m)"
  unfolding on_db_def by (rule keeps_on_session)

lemma keeps_memory [keeps_intros]:
  "keeps (on_ses P) (on_coordinator c)" "keeps (on_ses P) (set_runtime k rt)"
  "keeps (on_ses P) (set_runtime_deployment k d)" "keeps (on_ses P) (on_evaluator k m)"
  by (auto simp: keeps_def on_coordinator_def on_part_def set_runtime_def set_runtime_deployment_def on_evaluator_def
      modify_def split: prod.splits option.splits)

lemma keeps_memory_modify [keeps_intros]:
  "keeps (on_ses P) (modify (\<lambda>w. w\<lparr>wst_lease_tokens := f1 w, wst_runtimes := f2 w\<rparr>))"
  "keeps (on_ses P) (modify (\<lambda>w. w\<lparr>wst_lease_tokens := f1 w\<rparr>))"
  "keeps (on_ses P) (modify (\<lambda>w. w\<lparr>wst_tokens_drawn := f3 w\<rparr>))"
  "keeps (on_ses P) (modify (\<lambda>w. w\<lparr>wst_running := f4 w\<rparr>))"
  "keeps (on_ses P) (modify (\<lambda>w. w\<lparr>wst_last_poll_at := f5 w\<rparr>))"
  "keeps (on_ses P) (modify (\<lambda>w. w\<lparr>wst_last_error := f6 w\<rparr>))"
  "keeps (on_ses P) (modify (\<lambda>w. w\<lparr>wst_last_poll_at := f5 w, wst_last_error := f6 w\<rparr>))"
  by (simp_all add: keeps_def modify_def)

lemma keeps_with_session [keeps_intros]:
  "keeps P rollback \<Longrightarrow> keeps (on_ses P) m \<Longrightarrow> keeps (on_ses P) (with_session m)"
  by (auto simp: with_session_def intro!: keeps_intros)

lemma keeps_for_each_runtime [keeps_intros]:
  "(\<And>rt. keeps P (f rt)) \<Longrightarrow> keeps P (for_each_runtime f)"
  by (auto simp: for_each_runtime_def intro!: keeps_intros)

lemma keeps_case_result:
  "(\<And>e. keeps P (f e)) \<Longrightarrow> (\<And>v ev. keeps P (g v ev)) \<Longrightarrow>
     keeps P (case r of (Inl e, _) \<Rightarrow> f e | (Inr v, ev) \<Rightarrow> g v ev)"
  by (simp split: prod.splits sum.splits)

section \<open>Books, trail and submissions\<close>

text \<open>Everything the durable database promises, seen from an earlier durable database.\<close>

definition trading_since :: "exec_db \<Rightarrow> session \<Rightarrow> bool" where
  "trading_since db0 s \<longleftrightarrow> submissions_ok s \<and> both accounts_ok s \<and> trail db0 (ses_durable s)"

lemma keeps_trading_since:
  assumes "keeps submissions_ok m" and "keeps (both accounts_ok) m" and "steps session_history m"
  shows "keeps (trading_since db0) m"
proof (rule keepsI)
  fix s assume "trading_since db0 s"
  moreover from this have "session_ok s" by (simp add: trading_since_def submissions_ok_def)
  moreover have "session_history s (snd (m s))" using assms(3) by (simp add: steps_def)
  ultimately show "trading_since db0 (snd (m s))"
    using assms(1,2) by (auto simp: trading_since_def session_history_def keeps_def intro: trail_trans)
qed

lemma trading_db_op [keeps_intros]:
  "keeps accounts_ok m \<Longrightarrow> steps history m \<Longrightarrow> keeps (trading_since db0) (db_op m)"
  by (intro keeps_trading_since submissions_intros keeps_both_db_op session_db_op)

lemma trading_commit [keeps_intros]: "keeps (trading_since db0) commit"
  and trading_rollback [keeps_intros]: "keeps (trading_since db0) rollback"
  by (intro keeps_trading_since submissions_intros keeps_intros session_intros keeps_submissions frames_intros)+

lemma trading_bars [keeps_intros]:
  "keeps (trading_since db0) (process_completed_bar self dep ev tok wk cost pv bypass flatten)"
  "keeps (trading_since db0) (flatten_deployment self dep tok wk cost pv tm)"
  by (auto simp: flatten_deployment_def Let_def intro!: keeps_trading_since process_completed_bar_submissions
      process_completed_bar_accounts process_completed_bar_history)

lemma worker_accounts:
  "keeps accounts_ok (acquire_worker_lease dep wk tok ttl tm)"
  "keeps accounts_ok (heartbeat_worker_lease dep wk tok ttl tm)"
  "keeps accounts_ok (release_worker_lease dep wk tok)"
  "keeps accounts_ok (release_expired_leases tm)"
  "keeps accounts_ok (clear_pending_deployment_action dep)"
  "keeps accounts_ok (mark_incomplete_orders_unknown dep)"
  by (rule keeps_accounts, rule keeps_intros, rule frames_intros)+

lemma recover_invariants: "keeps accounts_ok (recover qs tm)" "steps history (recover qs tm)"
  by (auto simp: recover_def intro!: keeps_intros history_intros worker_accounts)

lemma build_runtime_trading [keeps_intros]: "keeps (on_ses (trading_since db0)) (build_runtime self dep tok pv cap)"
  by (auto simp: build_runtime_def Let_def intro!: keeps_intros keeps_case_result history_intros)

lemma refresh_trading [keeps_intros]:
  "keeps (on_ses (trading_since db0)) (heartbeat_lease self d now)"
  "keeps (on_ses (trading_since db0)) (release_deployment self d)"
  "keeps (on_ses (trading_since db0)) (adopt_deployment self now dep)"
  by (auto simp: heartbeat_lease_def release_deployment_def adopt_deployment_def split: exec_error.splits
      intro!: keeps_intros history_intros worker_accounts)

lemma refresh_deployments_trading [keeps_intros]: "keeps (on_ses (trading_since db0)) (refresh_deployments self now)"
  by (auto simp: refresh_deployments_def refresh_deployment_def intro!: keeps_intros history_intros)

lemma poll_stages_trading [keeps_intros]:
  "keeps (on_ses (trading_since db0)) (flatten_if_requested self rt)"
  "keeps (on_ses (trading_since db0)) (process_runtime self batches rt)"
  by (auto simp: flatten_if_requested_def process_runtime_def process_new_bars_def Let_def
      intro!: keeps_intros history_intros worker_accounts)

lemma worker_trading [keeps_intros]:
  "keeps (on_ses (trading_since db0)) (poll_once self)"
  "keeps (on_ses (trading_since db0)) (startup self)"
  "keeps (on_ses (trading_since db0)) (shutdown self)"
  by (auto simp: poll_once_def startup_def shutdown_def Let_def
      intro!: keeps_intros history_intros recover_invariants reconcile_passes_invariants)

lemma run_worker_trading:
  "keeps (on_ses (trading_since db0)) (poll_guarded self)"
  "keeps (on_ses (trading_since db0)) (run_worker self polls)"
  by (auto simp: run_worker_def poll_guarded_def Let_def intro!: keeps_intros)

lemma cmd_flatten_trading: "keeps (trading_since db0) (cmd_flatten self did tok)"
  by (auto simp: cmd_flatten_def get_deployment_or_raise_def Let_def intro!: keeps_intros history_intros worker_accounts)

section \<open>The system\<close>

text \<open>
  One worker process and the processes that issue control requests, over one database. The
  requests of the control plane run in a session of their own, which commits when the request
  succeeds. A crash loses the worker's memory and what it had not committed. Requests are
  interleaved with whole polls: what another process commits during a poll is seen by the next.
\<close>

datatype control_request =
    CreateDeployment control_env DeploymentCreateRequest
  | ActOnDeployment uuid DeploymentAction bool "string option"
  | ResolveOrder control_env uuid OrderResolutionRequest
  | UpdateKillSwitch bool bool "string option" "string option"

fun serve :: "control_request \<Rightarrow> unit dbm" where
  "serve (CreateDeployment env body) = bnd (create_deployment env body) (\<lambda>_. ret ())"
| "serve (ActOnDeployment did action confirm actor) = bnd (apply_deployment_action did action confirm actor) (\<lambda>_. ret ())"
| "serve (ResolveOrder env oid body) = bnd (resolve_order env oid body) (\<lambda>_. ret ())"
| "serve (UpdateKillSwitch enabled confirm reason by) = bnd (update_kill_switch enabled confirm reason by) (\<lambda>_. ret ())"

definition crash :: "'st worker_state \<Rightarrow> 'st worker_state" where
  "crash w = (snd (on_session rollback w))\<lparr>wst_runtimes := [], wst_lease_tokens := Map.empty, wst_running := False\<rparr>"

inductive forward_step :: "('st, 'row) ExecutionWorker set \<Rightarrow> 'st worker_state \<Rightarrow> 'st worker_state \<Rightarrow> bool"
    for workers where
  Startup: "self \<in> workers \<Longrightarrow> startup self w = (r, w') \<Longrightarrow> forward_step workers w w'"
| Poll: "self \<in> workers \<Longrightarrow> poll_guarded self w = (r, w') \<Longrightarrow> forward_step workers w w'"
| Shutdown: "self \<in> workers \<Longrightarrow> shutdown self w = (r, w') \<Longrightarrow> forward_step workers w w'"
| Crash: "forward_step workers w (crash w)"
| Request: "on_session (bnd rollback (\<lambda>_. with_begin (db_op (serve req)))) w = (r, w') \<Longrightarrow> forward_step workers w w'"
| Flatten: "self \<in> workers \<Longrightarrow> on_session (cmd_flatten self did tok) w = (r, w') \<Longrightarrow> forward_step workers w w'"

abbreviation forward_run :: "('st, 'row) ExecutionWorker set \<Rightarrow> 'st worker_state \<Rightarrow> 'st worker_state \<Rightarrow> bool" where
  "forward_run workers \<equiv> (forward_step workers)\<^sup>*\<^sup>*"

lemma serve_invariants: "keeps accounts_ok (serve req)" "steps history (serve req)"
  by (cases req; auto intro!: keeps_intros history_intros control_invariants)+

lemma forward_step_trading:
  assumes "forward_step workers w w'" and "trading_since db0 (wst_session w)"
  shows "trading_since db0 (wst_session w')"
  using assms
proof (cases rule: forward_step.cases)
  case Startup
  with worker_trading(2) assms(2) show ?thesis by (metis keepsD snd_conv)
next
  case Poll
  with run_worker_trading(1) assms(2) show ?thesis by (metis keepsD snd_conv)
next
  case Shutdown
  with worker_trading(3) assms(2) show ?thesis by (metis keepsD snd_conv)
next
  case Crash
  with keepsD [OF keeps_on_session [OF trading_rollback]] assms(2) show ?thesis by (simp add: crash_def)
next
  case (Request req r)
  have "keeps (on_ses (trading_since db0)) (on_session (bnd rollback (\<lambda>_. with_begin (db_op (serve req)))))"
    by (intro keeps_intros serve_invariants)
  with Request assms(2) show ?thesis by (metis keepsD snd_conv)
next
  case Flatten
  with keeps_on_session [OF cmd_flatten_trading] assms(2) show ?thesis by (metis keepsD snd_conv)
qed

text \<open>
  C30: whatever the worker, the operators and the operating system do, in whatever order (start-ups,
  polls that succeed or raise half-way, shutdowns, crashes, control requests, flattens), the
  database stays correct. Every account's cash is its initial balance plus its ledger entries, in
  the committed and in the working database; the schema constraints hold; the committed history
  is append-only, so no order, fill, decision or ledger entry ever committed is lost or rewritten
  outside the order lifecycle; every request the broker was ever sent belongs to a committed
  order with the same deployment, side and quantity; and no order is ever sent twice.
\<close>

theorem forward_execution_is_safe:
  assumes "forward_run workers w w'"
    and "submissions_ok (wst_session w)" and "both accounts_ok (wst_session w)"
  shows "both accounts_ok (wst_session w') \<and> trail (ses_durable (wst_session w)) (ses_durable (wst_session w')) \<and>
    list_all (durable_request (ses_durable (wst_session w'))) (ses_submitted (wst_session w')) \<and>
    distinct (map mor_order_id (ses_submitted (wst_session w')))"
proof -
  let ?db = "ses_durable (wst_session w)"
  have "trading_since ?db (wst_session w)" using assms(2,3) by (simp add: trading_since_def)
  with assms(1) have "trading_since ?db (wst_session w')"
    by (induction rule: rtranclp_induct) (auto intro: forward_step_trading)
  then show ?thesis by (simp add: trading_since_def submissions_ok_def)
qed

section \<open>Leases\<close>

abbreviation wdb :: "'st worker_state \<Rightarrow> exec_db" where
  "wdb w \<equiv> ses_work (wst_session w)"

definition put_db :: "exec_db \<Rightarrow> 'st worker_state \<Rightarrow> 'st worker_state" where
  "put_db db w = w\<lparr>wst_session := (wst_session w)\<lparr>ses_work := db\<rparr>\<rparr>"

lemma put_db_simps [simp]:
  "wst_runtimes (put_db db w) = wst_runtimes w" "wst_lease_tokens (put_db db w) = wst_lease_tokens w"
  "wdb (put_db db w) = db" "ses_durable (wst_session (put_db db w)) = ses_durable (wst_session w)"
  "ses_submitted (wst_session (put_db db w)) = ses_submitted (wst_session w)"
  "has_runtime k (put_db db w) = has_runtime k w" "put_db (wdb w) w = w"
  by (simp_all add: put_db_def has_runtime_def)

lemma on_db_run: "on_db m w = (case m (wdb w) of (r, db) \<Rightarrow> (r, put_db db w))"
  by (simp add: on_db_def on_session_def db_op_def on_part_def put_db_def split: prod.splits)

text \<open>What the worker keeps in memory: one token for each runtime.\<close>

definition memory_ok :: "'st worker_state \<Rightarrow> bool" where
  "memory_ok w \<longleftrightarrow> distinct (map fst (wst_runtimes w)) \<and> (\<forall>k. has_runtime k w = (wst_lease_tokens w k \<noteq> None))"

definition lease_current :: "('st, 'row) ExecutionWorker \<Rightarrow> datetime \<Rightarrow> uuid \<Rightarrow> 'st worker_state \<Rightarrow> bool" where
  "lease_current self now k w \<longleftrightarrow> (\<exists>t. wst_lease_tokens w k = Some t \<and>
     lease_holder (wdb w) k = Some (wse_worker_id (ewk_settings self), t, now + seconds (wse_lease_ttl_seconds (ewk_settings self))))"

text \<open>A step that leaves the committed database, and the runtimes, tokens and leases of all deployments but one, as they are.\<close>

definition only_touches :: "uuid \<Rightarrow> 'st worker_state \<Rightarrow> 'st worker_state \<Rightarrow> bool" where
  "only_touches k w w' \<longleftrightarrow> (wf_db (wdb w) \<longrightarrow> wf_db (wdb w') \<and>
     ses_durable (wst_session w') = ses_durable (wst_session w) \<and>
     ses_submitted (wst_session w') = ses_submitted (wst_session w) \<and>
     (\<forall>j. j \<noteq> k \<longrightarrow> has_runtime j w' = has_runtime j w \<and> wst_lease_tokens w' j = wst_lease_tokens w j \<and>
        lease_holder (wdb w') j = lease_holder (wdb w) j))"

interpretation only: step_preorder "only_touches k" for k
  by unfold_locales (auto simp: only_touches_def)

lemma lease_db_run:
  assumes "wf_db (wdb w)" and "on_db (lease_call op) w = (r, w')"
  shows "\<exists>db. w' = put_db db w \<and> wf_db db \<and> isl r = (\<not> fst (lease_spec op (lease_holder (wdb w)))) \<and>
    lease_holder db = snd (lease_spec op (lease_holder (wdb w)))"
proof -
  obtain db where run: "lease_call op (wdb w) = (r, db)" and w': "w' = put_db db w"
    using assms(2) by (auto simp: on_db_run split: prod.splits)
  with lease_call_run [OF assms(1), of op] keepsD [OF lease_call_wf assms(1), of op] show ?thesis by auto
qed

lemma heartbeat_lease_cases:
  assumes "wf_db (wdb w)" and "heartbeat_lease self k now w = (r, w')" and "wst_lease_tokens w k = Some t"
  obtains (renewed) db e where "r = Inr ()" "w' = put_db db w" "wf_db db"
      "lease_holder (wdb w) k = Some (wse_worker_id (ewk_settings self), t, e)"
      "lease_holder db = (lease_holder (wdb w))(k \<mapsto> (wse_worker_id (ewk_settings self), t,
         now + seconds (wse_lease_ttl_seconds (ewk_settings self))))"
  | (lost) e db where "r = Inl e" "w' = put_db db w" "wf_db db" "lease_holder db = lease_holder (wdb w)"
proof -
  let ?op = "Heartbeat k (wse_worker_id (ewk_settings self)) t (wse_lease_ttl_seconds (ewk_settings self)) now"
  have "on_db (lease_call ?op) w = (r, w')" using assms(2,3) by (simp add: heartbeat_lease_def bnd_gets)
  from lease_db_run [OF assms(1) this] obtain db where db: "w' = put_db db w" "wf_db db"
    "isl r = (\<not> fst (lease_spec ?op (lease_holder (wdb w))))" "lease_holder db = snd (lease_spec ?op (lease_holder (wdb w)))"
    by blast
  show ?thesis
  proof (cases r)
    case (Inl e)
    with db have "lease_holder db = lease_holder (wdb w)" by (auto split: option.splits if_splits prod.splits)
    with Inl db lost show ?thesis by blast
  next
    case (Inr u)
    with db have "fst (lease_spec ?op (lease_holder (wdb w)))" by simp
    then obtain e where "lease_holder (wdb w) k = Some (wse_worker_id (ewk_settings self), t, e)"
      by (auto split: option.splits if_splits prod.splits)
    with Inr db renewed show ?thesis by auto
  qed
qed

lemma on_db_read [simp]: "on_db (reads f) w = (f (wdb w), w)" "on_db (gets g) w = (Inr (g (wdb w)), w)"
  by (simp_all add: on_db_run reads_def gets_def put_db_def)

lemma build_runtime_run: "\<exists>n. snd (build_runtime self dep tok pv cap w) = w\<lparr>wst_fetch_count := n\<rparr>"
proof -
  let ?P = "\<lambda>w'. \<exists>n. w' = w\<lparr>wst_fetch_count := n\<rparr>"
  have "keeps ?P (build_runtime self dep tok pv cap)"
    by (auto simp: build_runtime_def Let_def intro!: keeps_intros keeps_case_result)
      (auto simp: keeps_def on_coordinator_def on_part_def split: prod.splits)
  then show ?thesis by (rule keepsD) (simp add: exI [of _ "wst_fetch_count w"])
qed

lemma put_runtime_keys [simp]: "fst ` set (put_runtime k v ps) = insert k (fst ` set ps)"
  by (induction ps) auto

lemma put_runtime_distinct: "distinct (map fst ps) \<Longrightarrow> distinct (map fst (put_runtime k v ps))"
  by (induction ps) (auto simp: image_iff)

lemma set_deployment_keys [simp]: "fst ` set (map (\<lambda>(j, rt). (j, if j = k then f rt else rt)) ps) = fst ` set ps"
  by (force simp: image_iff)

lemma drop_runtime_keys [simp]: "fst ` set (filter (\<lambda>p. fst p \<noteq> k) ps) = fst ` set ps - {k}"
  by auto

lemma only_lease_call:
  assumes "case op of Acquire d _ _ _ _ \<Rightarrow> d = k | Heartbeat d _ _ _ _ \<Rightarrow> d = k | Release d _ _ \<Rightarrow> d = k | Expire _ \<Rightarrow> False"
  shows "only_touches k w (snd (on_db (lease_call op) w))"
proof (cases "wf_db (wdb w)")
  case True
  obtain r w' where run: "on_db (lease_call op) w = (r, w')" by fastforce
  have other: "snd (lease_spec op h) j = h j" if "j \<noteq> k" for h j
    using assms that by (cases op) (auto split: option.splits prod.splits)
  from lease_db_run [OF True run] other show ?thesis by (auto simp: only_touches_def run)
qed (simp add: only_touches_def)

lemma release_snd: "snd (on_db (release_worker_lease k wk t) w) = snd (on_db (lease_call (Release k wk t)) w)"
  by (simp add: on_db_run bnd_def ret_def split: prod.splits sum.splits)

lemma only_leases:
  "steps (only_touches k) (on_db (acquire_worker_lease k wk t ttl (Some now)))"
  "steps (only_touches k) (on_db (heartbeat_worker_lease k wk t ttl (Some now)))"
  "steps (only_touches k) (on_db (release_worker_lease k wk t))"
proof -
  show "steps (only_touches k) (on_db (release_worker_lease k wk t))"
    by (rule stepsI, subst release_snd, rule only_lease_call) simp
qed (use only_lease_call [where op = "Acquire k wk t ttl now"] only_lease_call [where op = "Heartbeat k wk t ttl now"]
  in \<open>auto intro!: stepsI\<close>)

lemma only_build: "steps (only_touches k) (build_runtime self dep tok pv cap)"
proof (rule stepsI)
  fix w
  obtain n where "snd (build_runtime self dep tok pv cap w) = w\<lparr>wst_fetch_count := n\<rparr>" using build_runtime_run by blast
  then show "only_touches k w (snd (build_runtime self dep tok pv cap w))" by (simp add: only_touches_def has_runtime_def)
qed

lemma only_memory:
  "steps (only_touches k) (on_db (reads f))" "steps (only_touches k) (on_db (gets g))"
  "steps (only_touches k) (set_runtime k rt)" "steps (only_touches k) (set_runtime_deployment j d)"
  "steps (only_touches k) (modify (\<lambda>w. w\<lparr>wst_tokens_drawn := n w\<rparr>))"
  "steps (only_touches k) (modify (\<lambda>w. w\<lparr>wst_lease_tokens := (wst_lease_tokens w)(k := ot)\<rparr>))"
  "steps (only_touches k) (modify (\<lambda>w. w\<lparr>wst_lease_tokens := (wst_lease_tokens w)(k := ot),
     wst_runtimes := filter (\<lambda>p. fst p \<noteq> k) (wst_runtimes w)\<rparr>))"
  by (auto simp: steps_def only_touches_def set_runtime_def set_runtime_deployment_def modify_def has_runtime_def
      simp del: set_map set_filter)

lemma only_refresh:
  "steps (only_touches k) (heartbeat_lease self k now)"
  "steps (only_touches k) (release_deployment self k)"
  "dep_id dep = k \<Longrightarrow> steps (only_touches k) (adopt_deployment self now dep)"
  "dep_id dep = k \<Longrightarrow> steps (only_touches k) (refresh_deployment self now dep)"
proof -
  show hb: "steps (only_touches k) (heartbeat_lease self k now)"
    by (auto simp: heartbeat_lease_def intro!: only.steps_rules only_leases)
  show "steps (only_touches k) (release_deployment self k)"
    by (auto simp: release_deployment_def intro!: only.steps_rules only_leases only_build only_memory)
  show ad: "steps (only_touches k) (adopt_deployment self now dep)" if "dep_id dep = k"
    using that by (auto simp: adopt_deployment_def split: exec_error.splits intro!: only.steps_rules only_leases only_build only_memory)
  show "steps (only_touches k) (refresh_deployment self now dep)" if "dep_id dep = k"
    using that hb ad by (auto simp: refresh_deployment_def intro!: only.steps_rules only_memory)
qed

lemma only_refreshD: "only_touches (dep_id dep) w (snd (refresh_deployment self now dep w))"
  and only_releaseD: "only_touches k w (snd (release_deployment self k w))"
  by (rule only_refresh [unfolded steps_def, THEN spec], rule refl, rule only_refresh [unfolded steps_def, THEN spec])

section \<open>A lost lease\<close>

text \<open>
  The worker still has a runtime and a token for an active deployment, but the committed lease
  is not the one of that token: it expired and was released or taken, an operator's flatten
  replaced and deleted it, or the poll that acquired it was rolled back.
\<close>

definition active_in :: "uuid \<Rightarrow> exec_db \<Rightarrow> bool" where
  "active_in k db \<longleftrightarrow> (\<exists>dep\<in>set (db_deployments db). dep_id dep = k \<and> dep_lifecycle dep \<in> {RUNNING, PAUSED})"

definition lost_in :: "string \<Rightarrow> uuid \<Rightarrow> string \<Rightarrow> exec_db \<Rightarrow> bool" where
  "lost_in wid k t db \<longleftrightarrow> wf_db db \<and> active_in k db \<and> (\<forall>e. lease_holder db k \<noteq> Some (wid, t, e))"

definition lease_lost :: "string \<Rightarrow> uuid \<Rightarrow> string \<Rightarrow> 'st worker_state \<Rightarrow> bool" where
  "lease_lost wid k t w \<longleftrightarrow> lost_in wid k t (ses_durable (wst_session w)) \<and> has_runtime k w \<and> wst_lease_tokens w k = Some t"

lemma lease_lost_error [simp]: "lease_lost wid k t (w\<lparr>wst_last_error := e\<rparr>) = lease_lost wid k t w"
  by (simp add: lease_lost_def has_runtime_def)

definition bereft :: "session \<Rightarrow> string \<Rightarrow> uuid \<Rightarrow> string \<Rightarrow> 'st worker_state \<Rightarrow> bool" where
  "bereft s0 wid k t w \<longleftrightarrow> wf_db (wdb w) \<and> ses_durable (wst_session w) = ses_durable s0 \<and>
     ses_submitted (wst_session w) = ses_submitted s0 \<and> has_runtime k w \<and> wst_lease_tokens w k = Some t \<and>
     (\<forall>e. lease_holder (wdb w) k \<noteq> Some (wid, t, e))"

lemma for_each_fails:
  assumes "x \<in> set xs" and "\<And>y s. y \<in> set xs \<Longrightarrow> P s \<Longrightarrow> P (snd (f y s))" and "\<And>s. P s \<Longrightarrow> isl (fst (f x s))" and "P s"
  shows "isl (fst (for_each f xs s)) \<and> P (snd (for_each f xs s))"
  using assms
proof (induction xs arbitrary: s)
  case (Cons y ys)
  obtain r s' where run: "f y s = (r, s')" by fastforce
  with Cons.prems have "P s'" by (metis list.set_intros(1) snd_conv)
  show ?case
  proof (cases r)
    case (Inl e)
    with run \<open>P s'\<close> show ?thesis by (simp add: bnd_def)
  next
    case (Inr v)
    then have "x \<noteq> y" using Cons.prems run by (metis fst_conv sum.disc(2))
    with Cons have "isl (fst (for_each f ys s')) \<and> P (snd (for_each f ys s'))" using \<open>P s'\<close> by simp
    with run Inr show ?thesis by (auto simp: bnd_def ret_def split: prod.splits sum.splits)
  qed
qed simp

lemma refresh_bereft:
  assumes b: "bereft s0 wid k t w" and wid: "wid = wse_worker_id (ewk_settings self)"
    and active: "dep_lifecycle dep \<in> {RUNNING, PAUSED}"
  shows "bereft s0 wid k t (snd (refresh_deployment self now dep w))"
    and "dep_id dep = k \<Longrightarrow> isl (fst (refresh_deployment self now dep w))"
proof -
  have k: "isl (fst (refresh_deployment self now dep w)) \<and> bereft s0 wid k t (snd (refresh_deployment self now dep w))"
    if d: "dep_id dep = k"
  proof -
    from b have known: "has_runtime k w" and wf: "wf_db (wdb w)" and tok: "wst_lease_tokens w k = Some t"
      by (simp_all add: bereft_def)
    obtain r w' where run: "heartbeat_lease self k now w = (r, w')" by fastforce
    from wf run tok have "isl r \<and> bereft s0 wid k t w'"
    proof (cases rule: heartbeat_lease_cases)
      case renewed
      with b wid show ?thesis by (auto simp: bereft_def)
    next
      case lost
      with b show ?thesis by (auto simp: bereft_def)
    qed
    with known active run show ?thesis
      by (cases r) (auto simp: refresh_deployment_def d gets_def whenM_def bnd_def)
  qed
  then show "dep_id dep = k \<Longrightarrow> isl (fst (refresh_deployment self now dep w))" by blast
  show "bereft s0 wid k t (snd (refresh_deployment self now dep w))"
  proof (cases "dep_id dep = k")
    case False
    have "only_touches (dep_id dep) w (snd (refresh_deployment self now dep w))"
      by (rule only_refreshD)
    with b False show ?thesis by (auto simp: bereft_def only_touches_def)
  qed (use k in blast)
qed

section \<open>Leases after a refresh\<close>

lemma gets_apply: "gets f s = (Inr (f s), s)"
  by (simp add: gets_def)

lemmas run_defs = gets_apply bnd_def catch_def ret_def throw_def modify_def

text \<open>Taking a deployment on either finds another worker's lease, or ends with a current one.\<close>

lemma adopt_run:
  assumes wf: "wf_db (wdb w)" and mem: "memory_ok w" and new: "\<not> has_runtime (dep_id dep) w"
    and run: "adopt_deployment self now dep w = (Inr u, w')"
  shows "memory_ok w' \<and> (has_runtime (dep_id dep) w' \<longrightarrow> lease_current self now (dep_id dep) w')"
proof -
  let ?k = "dep_id dep" and ?s = "ewk_settings self" and ?t = "ewk_uuid4 self (wst_tokens_drawn w)"
  let ?op = "Acquire ?k (wse_worker_id ?s) ?t (wse_lease_ttl_seconds ?s) now"
  define w1 where "w1 = w\<lparr>wst_tokens_drawn := Suc (wst_tokens_drawn w)\<rparr>"
  have w1: "wf_db (wdb w1)" "memory_ok w1" "\<not> has_runtime ?k w1" "wst_lease_tokens w1 = wst_lease_tokens w"
    "wst_runtimes w1 = wst_runtimes w" using wf mem new by (simp_all add: w1_def memory_ok_def has_runtime_def)
  obtain r w2 where acq: "on_db (lease_call ?op) w1 = (r, w2)" by fastforce
  from lease_db_run [OF w1(1) acq] obtain db where db: "w2 = put_db db w1"
    "isl r = (\<not> fst (lease_spec ?op (lease_holder (wdb w1))))" "lease_holder db = snd (lease_spec ?op (lease_holder (wdb w1)))"
    by blast
  show ?thesis
  proof (cases r)
    case (Inl e)
    have "w' = w2"
      using run acq Inl by (cases e) (auto simp: adopt_deployment_def run_defs simp flip: w1_def)
    with w1 show ?thesis by (auto simp: db memory_ok_def has_runtime_def)
  next
    case (Inr v)
    let ?cap = "case get_paper_account (dep_paper_account_id dep) (wdb w2) of None \<Rightarrow> 100000 | Some a \<Rightarrow> pa_initial_balance a"
    obtain rb w3 where b: "build_runtime self dep ?t (wse_default_point_value ?s) ?cap w2 = (rb, w3)" by fastforce
    with build_runtime_run [of self dep ?t "wse_default_point_value ?s" ?cap w2] obtain n where w3: "w3 = w2\<lparr>wst_fetch_count := n\<rparr>"
      by auto
    from run acq Inr b obtain rt where w': "w' = w3\<lparr>wst_runtimes := put_runtime ?k rt (wst_runtimes w3),
        wst_lease_tokens := (wst_lease_tokens w3)(?k := Some ?t)\<rparr>"
      by (auto simp: adopt_deployment_def run_defs set_runtime_def
          simp flip: w1_def split: sum.splits prod.splits)
    have "lease_holder db ?k = Some (wse_worker_id ?s, ?t, now + seconds (wse_lease_ttl_seconds ?s))"
      using db Inr by (auto split: option.splits prod.splits if_splits)
    with w1 show ?thesis
      by (auto simp: w' w3 db memory_ok_def has_runtime_def lease_current_def put_runtime_distinct)
  qed
qed

lemma memory_ok_put_db [simp]: "memory_ok (put_db db w) = memory_ok w"
  by (simp add: memory_ok_def)

lemma memory_ok_token: "memory_ok w \<Longrightarrow> has_runtime k w \<Longrightarrow> \<exists>t. wst_lease_tokens w k = Some t"
  by (auto simp: memory_ok_def)

lemma heartbeat_run:
  assumes "wf_db (wdb w)" and mem: "memory_ok w" and known: "has_runtime k w" and "heartbeat_lease self k now w = (Inr u, w')"
  shows "memory_ok w' \<and> lease_current self now k w'"
proof -
  obtain t where t: "wst_lease_tokens w k = Some t" using memory_ok_token [OF mem known] by blast
  from assms(1,4) t show ?thesis
  proof (cases rule: heartbeat_lease_cases)
    case renewed
    with mem t show ?thesis by (simp add: lease_current_def)
  qed simp
qed

lemma set_deployment_fst: "map fst (map (\<lambda>(j, rt). (j, if j = k then f rt else rt)) ps) = map fst ps"
  by (induction ps) auto

lemma set_deployment_same:
  "memory_ok (w\<lparr>wst_runtimes := map (\<lambda>(j, rt). (j, if j = k then f rt else rt)) (wst_runtimes w)\<rparr>) = memory_ok w"
  "lease_current self now i (w\<lparr>wst_runtimes := rts\<rparr>) = lease_current self now i w"
  by (simp_all add: memory_ok_def has_runtime_def lease_current_def set_deployment_fst del: map_map set_map list.set_map)

lemma refresh_run:
  assumes wf: "wf_db (wdb w)" and mem: "memory_ok w" and active: "dep_lifecycle dep \<in> {RUNNING, PAUSED}"
    and run: "refresh_deployment self now dep w = (Inr u, w')"
  shows "memory_ok w' \<and> (has_runtime (dep_id dep) w' \<longrightarrow> lease_current self now (dep_id dep) w')"
proof (cases "has_runtime (dep_id dep) w")
  case True
  obtain r w1 where hb: "heartbeat_lease self (dep_id dep) now w = (r, w1)" by fastforce
  show ?thesis
  proof (cases r)
    case (Inl e)
    with run hb True show ?thesis by (simp add: refresh_deployment_def run_defs whenM_def split: if_splits)
  next
    case (Inr v)
    from heartbeat_run [OF wf mem True] hb Inr have "memory_ok w1 \<and> lease_current self now (dep_id dep) w1" by blast
    with run hb Inr True show ?thesis
      by (auto simp: refresh_deployment_def run_defs whenM_def set_runtime_deployment_def set_deployment_same split: if_splits)
  qed
next
  case False
  show ?thesis
  proof (cases "dep_lifecycle dep = PAUSED")
    case True
    with False run mem show ?thesis by (simp add: refresh_deployment_def run_defs whenM_def)
  next
    case running: False
    with False run have "adopt_deployment self now dep w = (Inr u, w')" by (simp add: refresh_deployment_def run_defs)
    from adopt_run [OF wf mem False this] show ?thesis .
  qed
qed

definition leases_current :: "('st, 'row) ExecutionWorker \<Rightarrow> datetime \<Rightarrow> uuid set \<Rightarrow> 'st worker_state \<Rightarrow> bool" where
  "leases_current self now J w \<longleftrightarrow> wf_db (wdb w) \<and> memory_ok w \<and>
     (\<forall>j\<in>J. has_runtime j w \<longrightarrow> lease_current self now j w)"

lemma only_touches_current:
  "only_touches k w w' \<Longrightarrow> wf_db (wdb w) \<Longrightarrow> j \<noteq> k \<Longrightarrow>
     has_runtime j w' = has_runtime j w \<and> lease_current self now j w' = lease_current self now j w"
  by (auto simp: only_touches_def lease_current_def)

lemma refresh_all_run:
  assumes "\<forall>d\<in>set ds. dep_lifecycle d \<in> {RUNNING, PAUSED}" and "leases_current self now J w"
    and "for_each (refresh_deployment self now) ds w = (Inr us, w')"
  shows "leases_current self now (J \<union> dep_id ` set ds) w'"
  using assms
proof (induction ds arbitrary: J w us)
  case (Cons d ds)
  obtain u w1 us' where d: "refresh_deployment self now d w = (Inr u, w1)"
    and rest: "for_each (refresh_deployment self now) ds w1 = (Inr us', w')"
    using Cons.prems(3) by (auto simp: run_defs split: prod.splits sum.splits)
  have touch: "only_touches (dep_id d) w w1"
    using only_refreshD [where dep = d and w = w and self = self and now = now] by (simp add: d)
  have wf: "wf_db (wdb w)" and mem: "memory_ok w" using Cons.prems(2) by (simp_all add: leases_current_def)
  from refresh_run [OF wf mem _ d] Cons.prems(1)
  have "memory_ok w1" "has_runtime (dep_id d) w1 \<longrightarrow> lease_current self now (dep_id d) w1" by simp_all
  moreover have "wf_db (wdb w1)" using touch wf by (simp add: only_touches_def)
  ultimately have "leases_current self now (insert (dep_id d) J) w1"
    using Cons.prems(2) only_touches_current [OF touch wf, where self = self and now = now] unfolding leases_current_def by (metis insert_iff)
  from Cons.IH [OF _ this rest] Cons.prems(1) show ?case by simp
qed (simp add: ret_def)

lemma release_run:
  assumes "memory_ok w"
  shows "memory_ok (snd (release_deployment self k w)) \<and> \<not> has_runtime k (snd (release_deployment self k w))"
proof -
  let ?w = "w\<lparr>wst_lease_tokens := (wst_lease_tokens w)(k := None), wst_runtimes := filter (\<lambda>p. fst p \<noteq> k) (wst_runtimes w)\<rparr>"
  have w: "memory_ok ?w \<and> \<not> has_runtime k ?w"
    using assms unfolding memory_ok_def has_runtime_def by (auto simp: distinct_map_filter simp del: set_filter)
  have rel: "keeps (\<lambda>w. memory_ok w \<and> \<not> has_runtime k w) (on_db m)" for m :: "bool dbm"
    by (auto simp: keeps_def on_db_run split: prod.splits)
  have "keeps (\<lambda>w. memory_ok w \<and> \<not> has_runtime k w)
      (case wst_lease_tokens w k of None \<Rightarrow> ret () | Some t \<Rightarrow> bnd (catch (on_db (release_worker_lease k (wse_worker_id (ewk_settings self)) t))
           (\<lambda>e. if is_value_error e then ret False else throw e)) (\<lambda>_. ret ()))"
    by (auto intro!: keeps_intros rel)
  from keepsD [OF this w] show ?thesis by (simp add: release_deployment_def bnd_gets bnd_modify)
qed

lemma release_all_run:
  assumes "leases_current self now J w" and "for_each (release_deployment self) ks w = (Inr us, w')" and "J \<inter> set ks = {}"
  shows "leases_current self now J w' \<and> (\<forall>j. has_runtime j w' = (has_runtime j w \<and> j \<notin> set ks))"
  using assms
proof (induction ks arbitrary: w us)
  case (Cons k ks)
  obtain u w1 us' where d: "release_deployment self k w = (Inr u, w1)"
    and rest: "for_each (release_deployment self) ks w1 = (Inr us', w')"
    using Cons.prems(2) by (auto simp: run_defs split: prod.splits sum.splits)
  have touch: "only_touches k w w1" using only_releaseD [where w = w and self = self and k = k] by (simp add: d)
  have wf: "wf_db (wdb w)" using Cons.prems(1) by (simp add: leases_current_def)
  have rel: "memory_ok w1" "\<not> has_runtime k w1" using release_run [of w self k] Cons.prems(1) by (simp_all add: leases_current_def d)
  have same: "has_runtime j w1 = has_runtime j w" "lease_current self now j w1 = lease_current self now j w" if "j \<noteq> k" for j
    using only_touches_current [OF touch wf that, where self = self and now = now] by blast+
  have "k \<notin> J" using Cons.prems(3) by simp
  moreover have "wf_db (wdb w1)" using touch wf by (simp add: only_touches_def)
  ultimately have "leases_current self now J w1"
    using Cons.prems(1) rel same unfolding leases_current_def by metis
  from Cons.IH [OF this rest] Cons.prems(3)
  have ih: "leases_current self now J w'" "\<And>j. has_runtime j w' = (has_runtime j w1 \<and> j \<notin> set ks)" by auto
  have "has_runtime j w' = (has_runtime j w \<and> j \<notin> set (k # ks))" for j
    using ih(2) rel(2) same(1) by (cases "j = k") auto
  with ih(1) show ?case by blast
qed (simp add: ret_def)

text \<open>
  A worker trades only under leases it holds. When the refresh at the start of a poll
  succeeds, the worker has a token for each of its runtimes, the database has the lease of
  that deployment under that token and the worker's name, and the lease runs for the full time
  to live from the moment of the poll; deployments that are no longer active have been given
  up.
\<close>

lemma refreshed_worker_holds_leases:
  assumes "wf_db (wdb w)" and "memory_ok w" and "refresh_deployments self now w = (Inr u, w')"
  shows "memory_ok w' \<and> (\<forall>k. has_runtime k w' \<longrightarrow> lease_current self now k w' \<and>
    (\<exists>dep\<in>set (db_deployments (wdb w)). dep_id dep = k \<and> dep_lifecycle dep \<in> {RUNNING, PAUSED}))"
proof -
  let ?L = "list_deployments (Some [RUNNING, PAUSED]) (wdb w)"
  have L: "set ?L = {d \<in> set (db_deployments (wdb w)). dep_lifecycle d \<in> {RUNNING, PAUSED}}"
    by (auto simp: list_deployments_def)
  obtain us w1 where refresh: "for_each (refresh_deployment self now) ?L w = (Inr us, w1)"
    using assms(3) by (auto simp: refresh_deployments_def run_defs split: prod.splits sum.splits)
  let ?gone = "filter (\<lambda>k. k \<notin> dep_id ` set ?L) (map fst (wst_runtimes w1))"
  obtain vs where release: "for_each (release_deployment self) ?gone w1 = (Inr vs, w')"
    using assms(3) refresh by (auto simp: refresh_deployments_def run_defs split: prod.splits sum.splits)
  have "leases_current self now {} w" using assms(1,2) by (simp add: leases_current_def)
  from refresh_all_run [OF _ this refresh] L have "leases_current self now (dep_id ` set ?L) w1" by simp
  from release_all_run [OF this release] L
  have fin: "leases_current self now (dep_id ` set ?L) w'" and "\<And>j. has_runtime j w' = (has_runtime j w1 \<and> j \<notin> set ?gone)"
    by (auto simp: disjoint_iff)
  then have "k \<in> dep_id ` set ?L" if "has_runtime k w'" for k
    using that by (auto simp: has_runtime_def)
  with fin L show ?thesis by (fastforce simp: leases_current_def)
qed

section \<open>A worker that lost a lease\<close>

lemma poll_bereft:
  assumes lost: "lease_lost wid k t w" and wid: "wid = wse_worker_id (ewk_settings self)"
  shows "isl (fst (poll_once self w)) \<and> lease_lost wid k t (snd (poll_once self w)) \<and>
    ses_durable (wst_session (snd (poll_once self w))) = ses_durable (wst_session w) \<and>
    ses_submitted (wst_session (snd (poll_once self w))) = ses_submitted (wst_session w)"
proof -
  let ?D = "ses_durable (wst_session w)"
  from lost obtain dep where t: "wst_lease_tokens w k = Some t" "\<And>e. lease_holder ?D k \<noteq> Some (wid, t, e)"
    and wf: "wf_db ?D" and known: "has_runtime k w"
    and dep: "dep \<in> set (db_deployments ?D)" "dep_id dep = k" "dep_lifecycle dep \<in> {RUNNING, PAUSED}"
    by (auto simp: lease_lost_def lost_in_def active_in_def)
  define w1 where "w1 = put_db ?D w"
  have open_run: "on_session rollback v = (Inr (), put_db (ses_durable (wst_session v)) v)" for v :: "'a worker_state"
    by (simp add: on_session_def on_part_def rollback_def modify_def put_db_def)
  have b: "bereft (wst_session w) wid k t w1" using t wf known by (simp add: bereft_def w1_def)
  let ?L = "list_deployments (Some [RUNNING, PAUSED]) ?D"
  have L: "dep \<in> set ?L" "\<And>d. d \<in> set ?L \<Longrightarrow> dep_lifecycle d \<in> {RUNNING, PAUSED}"
    using dep by (auto simp: list_deployments_def)
  have fe: "isl (fst (for_each (refresh_deployment self (ewk_clock self)) ?L w1)) \<and>
      bereft (wst_session w) wid k t (snd (for_each (refresh_deployment self (ewk_clock self)) ?L w1))"
    by (rule for_each_fails [OF L(1)]) (use b L(2) refresh_bereft [OF _ wid] dep in \<open>blast+\<close>)
  then obtain e w2 where run: "for_each (refresh_deployment self (ewk_clock self)) ?L w1 = (Inl e, w2)"
    and b2: "bereft (wst_session w) wid k t w2"
    by (metis isl_def prod.collapse)
  have "refresh_deployments self (ewk_clock self) w1 = (Inl e, w2)"
    by (simp add: refresh_deployments_def bnd_def run) (simp add: w1_def run [unfolded w1_def])
  then have "poll_once self w = (Inl e, put_db ?D w2)"
    using b2 by (simp add: poll_once_def with_session_def Let_def bnd_def catch_def open_run throw_def bereft_def flip: w1_def)
  with b2 lost show ?thesis by (auto simp: lease_lost_def bereft_def)
qed

lemma poll_lost:
  assumes "lease_lost wid k t w" and "wid = wse_worker_id (ewk_settings self)"
  shows "lease_lost wid k t (snd (poll_guarded self w)) \<and>
    ses_durable (wst_session (snd (poll_guarded self w))) = ses_durable (wst_session w) \<and>
    ses_submitted (wst_session (snd (poll_guarded self w))) = ses_submitted (wst_session w) \<and>
    wst_last_error (snd (poll_guarded self w)) \<noteq> None"
proof -
  note p = poll_bereft [OF assms]
  then obtain e where e: "fst (poll_once self w) = Inl e" by (auto simp: isl_def)
  have "poll_guarded self w = (Inr (), (snd (poll_once self w))\<lparr>wst_last_error := Some e\<rparr>)"
    using e by (auto simp: poll_guarded_def catch_def modify_def split: prod.splits)
  with p show ?thesis by simp
qed

text \<open>
  What happens around the worker: its own polls, each with the clock, the quotes and the bars of
  its moment, and the commits of other processes (operators, other workers), each with the
  database it leaves. A poll opens its session on the database of that moment.
\<close>

datatype ('st, 'row) happening = Polls "('st, 'row) ExecutionWorker" | Commits exec_db

fun happens :: "('st, 'row) happening \<Rightarrow> 'st worker_state \<Rightarrow> 'st worker_state" where
  "happens (Polls self) w = snd (poll_guarded self w)"
| "happens (Commits db) w = w\<lparr>wst_session := (wst_session w)\<lparr>ses_durable := db\<rparr>\<rparr>"

fun still_lost_after :: "string \<Rightarrow> uuid \<Rightarrow> string \<Rightarrow> ('st, 'row) happening \<Rightarrow> bool" where
  "still_lost_after wid k t (Polls self) = (wse_worker_id (ewk_settings self) = wid)"
| "still_lost_after wid k t (Commits db) = lost_in wid k t db"

fun committed_db :: "exec_db \<Rightarrow> ('st, 'row) happening list \<Rightarrow> exec_db" where
  "committed_db db [] = db"
| "committed_db db (Polls _ # hs) = committed_db db hs"
| "committed_db db (Commits db' # hs) = committed_db db' hs"

fun is_poll :: "('st, 'row) happening \<Rightarrow> bool" where
  "is_poll (Polls _) = True"
| "is_poll (Commits _) = False"

definition stuck :: "string \<Rightarrow> uuid \<Rightarrow> string \<Rightarrow> exec_db \<Rightarrow> MarketOrderRequest list \<Rightarrow> bool \<Rightarrow> 'st worker_state \<Rightarrow> bool" where
  "stuck wid k t db l polled w \<longleftrightarrow> lease_lost wid k t w \<and> ses_durable (wst_session w) = db \<and>
     ses_submitted (wst_session w) = l \<and> (polled \<longrightarrow> wst_last_error w \<noteq> None)"

lemma stuck_happens:
  assumes "stuck wid k t db l polled w" and "still_lost_after wid k t h"
  shows "stuck wid k t (committed_db db [h]) l (polled \<or> is_poll h) (happens h w)"
proof (cases h)
  case (Polls self)
  with assms have "lease_lost wid k t w" "wid = wse_worker_id (ewk_settings self)" by (simp_all add: stuck_def)
  from poll_lost [OF this] assms(1) show ?thesis unfolding Polls by (simp add: stuck_def)
next
  case (Commits db')
  with assms show ?thesis by (auto simp: stuck_def lease_lost_def has_runtime_def)
qed

lemma committed_db_Cons: "committed_db db (h # hs) = committed_db (committed_db db [h]) hs"
  by (cases h) simp_all

lemma stuck_fold:
  assumes "stuck wid k t db l polled w" and "list_all (still_lost_after wid k t) hs"
  shows "stuck wid k t (committed_db db hs) l (polled \<or> list_ex is_poll hs) (fold happens hs w)"
  using assms
proof (induction hs arbitrary: w db polled)
  case (Cons h hs)
  then have "stuck wid k t (committed_db db [h]) l (polled \<or> is_poll h) (happens h w)"
    using stuck_happens [of wid k t db l polled w h] by simp
  from Cons.IH [OF this] Cons.prems(2) show ?case
    by (subst committed_db_Cons) (simp add: disj_assoc)
qed simp

text \<open>Giving a deployment up always returns: a lease that is not the worker's own is left alone.\<close>

lemma release_returns:
  assumes wf: "wf_db (wdb w)"
  shows "\<exists>w'. release_deployment self k w = (Inr (), w') \<and> wf_db (wdb w') \<and>
    wst_runtimes w' = filter (\<lambda>p. fst p \<noteq> k) (wst_runtimes w) \<and>
    wst_lease_tokens w' = (wst_lease_tokens w)(k := None)"
proof -
  let ?w = "w\<lparr>wst_lease_tokens := (wst_lease_tokens w)(k := None), wst_runtimes := filter (\<lambda>p. fst p \<noteq> k) (wst_runtimes w)\<rparr>"
  let ?rel = "\<lambda>t. release_worker_lease k (wse_worker_id (ewk_settings self)) t"
  have caught: "is_value_error e" if "?rel t (wdb w) = (Inl e, db)" for t e db
  proof -
    obtain ol where "get_worker_lease k (wdb w) = Inr ol" using get_worker_lease_eq [OF wf] by blast
    with that show ?thesis
      by (auto simp: release_worker_lease_def delete_lease_def comp_defs split: option.splits if_splits)
  qed
  have kept: "wf_db db" if "?rel t (wdb w) = (r, db)" for t r db
    using keepsD [OF lease_ops_wf(3) wf] that by (metis snd_conv)
  show ?thesis
    using wf caught kept
    by (cases "wst_lease_tokens w k")
       (auto simp: release_deployment_def run_defs on_db_run split: prod.splits sum.splits)
qed

lemma release_all_returns:
  assumes "wf_db (wdb w)"
  shows "\<exists>us w'. for_each (release_deployment self) ks w = (Inr us, w') \<and>
    wst_runtimes w' = filter (\<lambda>p. fst p \<notin> set ks) (wst_runtimes w) \<and>
    (\<forall>k\<in>set ks. wst_lease_tokens w' k = None) \<and> (\<forall>k. k \<notin> set ks \<longrightarrow> wst_lease_tokens w' k = wst_lease_tokens w k)"
  using assms
proof (induction ks arbitrary: w)
  case (Cons k ks)
  from release_returns [OF Cons.prems] obtain w1 where w1: "release_deployment self k w = (Inr (), w1)" "wf_db (wdb w1)"
    "wst_runtimes w1 = filter (\<lambda>p. fst p \<noteq> k) (wst_runtimes w)" "wst_lease_tokens w1 = (wst_lease_tokens w)(k := None)"
    by blast
  from Cons.IH [OF w1(2)] obtain us w' where w': "for_each (release_deployment self) ks w1 = (Inr us, w')"
    "wst_runtimes w' = filter (\<lambda>p. fst p \<notin> set ks) (wst_runtimes w1)"
    "\<forall>k\<in>set ks. wst_lease_tokens w' k = None" "\<forall>k. k \<notin> set ks \<longrightarrow> wst_lease_tokens w' k = wst_lease_tokens w1 k"
    by blast
  have "for_each (release_deployment self) (k # ks) w = (Inr (() # us), w')" using w1 w' by (simp add: run_defs)
  moreover have "wst_runtimes w' = filter (\<lambda>p. fst p \<notin> set (k # ks)) (wst_runtimes w)"
    using w1 w' by (simp add: conj_commute)
  ultimately show ?case using w1 w' by (auto simp: fun_upd_apply)
qed (simp add: ret_def)

lemma refresh_others:
  assumes "wf_db (wdb w)" and "has_runtime k w" and "k \<notin> dep_id ` set ds"
    and "for_each (refresh_deployment self now) ds w = (Inr us, w')"
  shows "wf_db (wdb w') \<and> has_runtime k w'"
  using assms
proof (induction ds arbitrary: w us)
  case (Cons d ds)
  obtain u w1 us' where d: "refresh_deployment self now d w = (Inr u, w1)"
    and rest: "for_each (refresh_deployment self now) ds w1 = (Inr us', w')"
    using Cons.prems(4) by (auto simp: run_defs split: prod.splits sum.splits)
  have "only_touches (dep_id d) w w1"
    using only_refreshD [where dep = d and w = w and self = self and now = now] by (simp add: d)
  with Cons.prems(1-3) have "wf_db (wdb w1)" "has_runtime k w1" by (auto simp: only_touches_def)
  from Cons.IH [OF this _ rest] Cons.prems(3) show ?case by simp
qed (simp add: ret_def)

lemma refresh_gives_up:
  assumes wf: "wf_db (wdb w)" and known: "has_runtime k w" and gone: "\<not> active_in k (wdb w)"
    and run: "for_each (refresh_deployment self now) (list_deployments (Some [RUNNING, PAUSED]) (wdb w)) w = (Inr us, w2)"
  shows "\<exists>w3. refresh_deployments self now w = (Inr (), w3) \<and> \<not> has_runtime k w3 \<and> wst_lease_tokens w3 k = None"
proof -
  let ?L = "list_deployments (Some [RUNNING, PAUSED]) (wdb w)"
  let ?gone = "filter (\<lambda>j. j \<notin> dep_id ` set ?L) (map fst (wst_runtimes w2))"
  have k: "k \<notin> dep_id ` set ?L" using gone by (auto simp: active_in_def list_deployments_def)
  from refresh_others [OF wf known k run] have w2: "wf_db (wdb w2)" "has_runtime k w2" by simp_all
  from release_all_returns [OF w2(1), of self ?gone] obtain vs w3
    where w3: "for_each (release_deployment self) ?gone w2 = (Inr vs, w3)"
      "wst_runtimes w3 = filter (\<lambda>p. fst p \<notin> set ?gone) (wst_runtimes w2)" "\<forall>j\<in>set ?gone. wst_lease_tokens w3 j = None"
    by blast
  have "k \<in> set ?gone" using w2(2) k by (auto simp: has_runtime_def)
  with w3 have "\<not> has_runtime k w3" "wst_lease_tokens w3 k = None" by (auto simp: has_runtime_def)
  moreover have "refresh_deployments self now w = (Inr (), w3)"
    unfolding refresh_deployments_def by (simp add: bnd_def on_db_run gets_def run w3(1) ret_def)
  ultimately show ?thesis by blast
qed

text \<open>
  C35: a worker that lost its lease on one active deployment stops altogether. As long as that
  deployment stays active and the lease lost in what other processes commit, every poll
  raises in the refresh of the deployments, before any bar is fetched: the worker sends
  nothing to the broker and commits nothing, for any of its deployments (the database is
  the one the others committed last), and it stays in that state, since the runtime and
  the token stay in its memory. Only stopping the deployment ends it: on a database in which
  the deployment is not active, once the active ones have been refreshed, the refresh
  returns and the worker has dropped the runtime and the token.
\<close>

theorem lost_lease_stops_worker:
  assumes "lease_lost wid k t w" and "list_all (still_lost_after wid k t) hs"
  shows "lease_lost wid k t (fold happens hs w) \<and>
    ses_durable (wst_session (fold happens hs w)) = committed_db (ses_durable (wst_session w)) hs \<and>
    ses_submitted (wst_session (fold happens hs w)) = ses_submitted (wst_session w) \<and>
    (list_ex is_poll hs \<longrightarrow> wst_last_error (fold happens hs w) \<noteq> None) \<and>
    (wf_db db \<and> \<not> active_in k db \<and>
     for_each (refresh_deployment self now) (list_deployments (Some [RUNNING, PAUSED]) db)
       (put_db db (fold happens hs w)) = (Inr us, w2) \<longrightarrow>
     (\<exists>w3. refresh_deployments self now (put_db db (fold happens hs w)) = (Inr (), w3) \<and>
        \<not> has_runtime k w3 \<and> wst_lease_tokens w3 k = None))"
proof -
  let ?w = "fold happens hs w"
  have "stuck wid k t (ses_durable (wst_session w)) (ses_submitted (wst_session w)) False w"
    using assms(1) by (simp add: stuck_def)
  from stuck_fold [OF this assms(2)]
  have fin: "stuck wid k t (committed_db (ses_durable (wst_session w)) hs) (ses_submitted (wst_session w))
      (list_ex is_poll hs) ?w" by simp
  then have known: "has_runtime k (put_db db ?w)" by (simp add: stuck_def lease_lost_def)
  have "\<exists>w3. refresh_deployments self now (put_db db ?w) = (Inr (), w3) \<and> \<not> has_runtime k w3 \<and> wst_lease_tokens w3 k = None"
    if stopped: "wf_db db \<and> \<not> active_in k db \<and>
      for_each (refresh_deployment self now) (list_deployments (Some [RUNNING, PAUSED]) db) (put_db db ?w) = (Inr us, w2)"
    by (rule refresh_gives_up [OF _ known]) (use stopped in simp_all)
  with fin show ?thesis by (simp add: stuck_def)
qed

end
