(* ===== verification/Worker_Example.thy ===== *)
theory Worker_Example
  imports Worker_Correct
begin

text \<open>
  A concrete worker on the example database: one running deployment with its lease, no bars. It
  shows that the hypotheses of the worker properties can hold.
\<close>

definition ex_strategy :: "(unit, unit) TradingStrategy" where
  "ex_strategy = \<lparr>ts_augment = (\<lambda>_ _. []), ts_check_exits = None, ts_check_exit_conditions = (\<lambda>st _ _. ([], st)),
     ts_check_entry_conditions = (\<lambda>st _. ([], st)), ts_close_price = (\<lambda>_. 0), ts_size_signal = (\<lambda>_ _ _ _. None)\<rparr>"

definition ex_worker :: "(unit, unit) ExecutionWorker" where
  "ex_worker = \<lparr>ewk_coordinator = \<lparr>bco_provider = (\<lambda>_ _ _ _. Inr []), bco_clock = 0, bco_overlap_bars = 1\<rparr>,
     ewk_quote_source = (\<lambda>_. Some ex_quote), ewk_broker = paper_execution_broker ex_paper, ewk_service = ex_service [],
     ewk_settings = \<lparr>wse_worker_id = ''w'', wse_lease_ttl_seconds = 30, wse_default_point_value = 1,
       wse_paper_slippage_points = 0, wse_paper_cost_per_contract = 0, wse_paper_cost_bps = 0,
       wse_max_quote_age_seconds = 30, wse_initial_window_bars = 260\<rparr>,
     ewk_clock = 5, ewk_strategy = (\<lambda>_. ex_strategy), ewk_new_strategy = (\<lambda>_. Inr ((), 10)), ewk_uuid4 = (\<lambda>n. replicate n CHR ''x'')\<rparr>"

definition ex_runtime_of :: "ExecutionDeployment \<Rightarrow> unit DeploymentRuntime" where
  "ex_runtime_of dep = \<lparr>drt_deployment = dep, drt_identity = dep_identity dep,
     drt_evaluator = new_evaluator (uuid_str (dep_id dep)) (dep_identity dep) 1000 1 None None 10 (), drt_lease_token = ''t''\<rparr>"

definition ex_worker_state :: "string \<Rightarrow> unit worker_state" where
  "ex_worker_state token = \<lparr>wst_session = ex_session, wst_runtimes = [(1, ex_runtime_of ex_deployment)],
     wst_lease_tokens = [1 \<mapsto> token], wst_fetch_count = 0, wst_tokens_drawn = 0, wst_running = True,
     wst_last_poll_at = None, wst_last_error = None\<rparr>"

lemma ex_memory_ok: "memory_ok (ex_worker_state tok)"
  by (simp add: memory_ok_def has_runtime_def ex_worker_state_def)

text \<open>The lease of the deployment has gone to another worker; later an operator stops the deployment.\<close>

definition ex_taken_db :: exec_db where
  "ex_taken_db = ex_trading_db\<lparr>db_leases := [ex_lease\<lparr>lea_worker_id := ''other'', lea_lease_token := ''new''\<rparr>]\<rparr>"

definition ex_stopped_db :: exec_db where
  "ex_stopped_db = ex_taken_db\<lparr>db_deployments := [ex_deployment\<lparr>dep_lifecycle := STOPPED\<rparr>]\<rparr>"

definition ex_stuck_worker :: "unit worker_state" where
  "ex_stuck_worker = fold happens [Polls ex_worker, Commits ex_taken_db, Polls ex_worker] (ex_worker_state ''old'')"

lemma ex_dbs_wf: "wf_db ex_taken_db" "wf_db ex_stopped_db"
  by (simp_all add: ex_taken_db_def ex_stopped_db_def ex_trading_db_def ex_lease_def ex_deployment_def wf_db_defs ex_defs pk_ok_def)

lemma ex_lost:
  "lease_lost ''w'' 1 ''old'' (ex_worker_state ''old'')" "lost_in ''w'' 1 ''old'' ex_taken_db" "\<not> active_in 1 ex_stopped_db"
proof -
  show "lease_lost ''w'' 1 ''old'' (ex_worker_state ''old'')"
    unfolding lease_lost_def lost_in_def active_in_def
    by (simp add: ex_worker_state_def ex_session_def wf_ex_trading_db has_runtime_def)
       (simp add: ex_trading_db_def ex_db_def ex_deployment_def lease_holder_def lease_view_of_def ex_lease_def)
  show "lost_in ''w'' 1 ''old'' ex_taken_db"
    unfolding lost_in_def active_in_def using ex_dbs_wf(1)
    by (simp add: ex_taken_db_def ex_trading_db_def ex_db_def ex_deployment_def lease_holder_def lease_view_of_def ex_lease_def)
  show "\<not> active_in 1 ex_stopped_db"
    by (simp add: active_in_def ex_stopped_db_def)
qed

theorem lost_lease_stops_worker_witness:
  "ses_submitted (wst_session ex_stuck_worker) = [] \<and> ses_durable (wst_session ex_stuck_worker) = ex_taken_db \<and>
   wst_last_error ex_stuck_worker \<noteq> None \<and>
   (\<exists>w3. refresh_deployments ex_worker 5 (put_db ex_stopped_db ex_stuck_worker) = (Inr (), w3) \<and> \<not> has_runtime 1 w3 \<and>
      wst_lease_tokens w3 1 = None)"
proof -
  let ?hs = "[Polls ex_worker, Commits ex_taken_db, Polls ex_worker]"
  have hs: "list_all (still_lost_after ''w'' 1 ''old'') ?hs" using ex_lost(2) by (simp add: ex_worker_def)
  have none: "list_deployments (Some [RUNNING, PAUSED]) ex_stopped_db = []" by code_simp
  have start: "ses_submitted (wst_session (ex_worker_state ''old'')) = []" by (simp add: ex_worker_state_def ex_session_def)
  note result = lost_lease_stops_worker [OF ex_lost(1) hs, folded ex_stuck_worker_def, of ex_stopped_db ex_worker 5 "[]"
      "put_db ex_stopped_db ex_stuck_worker"]
  from result ex_dbs_wf(2) ex_lost(3) show ?thesis
    by (auto simp: none start ret_def)
qed

lemma ex_trading_cash: "cash_reconciled ex_trading_db"
  by (simp add: cash_reconciled_def ledger_balance_def ex_trading_db_def ex_defs)

lemma ex_session_ok: "submissions_ok ex_session" "both accounts_ok ex_session"
  by (simp_all add: submissions_ok_def session_ok_def both_def accounts_ok_def ex_session_def wf_ex_trading_db
      ex_trading_cash)

theorem forward_execution_is_safe_witness:
  "\<exists>w'. forward_run {ex_worker} (ex_worker_state ''t'') w' \<and> wst_runtimes w' = [] \<and> both accounts_ok (wst_session w') \<and>
     distinct (map mor_order_id (ses_submitted (wst_session w')))"
proof -
  let ?w = "ex_worker_state ''t''"
  obtain r w1 where "poll_guarded ex_worker ?w = (r, w1)" by fastforce
  then have "forward_step {ex_worker} ?w w1" by (intro forward_step.Poll) simp_all
  moreover have "forward_step {ex_worker} w1 (crash w1)" by (rule forward_step.Crash)
  ultimately have run: "forward_run {ex_worker} ?w (crash w1)" by (rule rtranclp.rtrancl_into_rtrancl [OF r_into_rtranclp])
  have ok: "submissions_ok (wst_session ?w)" "both accounts_ok (wst_session ?w)"
    using ex_session_ok by (simp_all add: ex_worker_state_def)
  have "wst_runtimes (crash w1) = []" by (simp add: crash_def)
  with run forward_execution_is_safe [OF run ok] show ?thesis by blast
qed

end
