(* ===== verification/Live_Broker.thy ===== *)
theory Live_Broker
  imports Paper_Broker
begin

unbundle bit_operations_syntax

text \<open>
  The live broker: \<^verbatim>\<open>execution/brokers/live_gates.py\<close>, \<^verbatim>\<open>mt5_constants.py\<close> and
  \<^verbatim>\<open>metatrader.py\<close>. The MetaTrader terminal behind \<^verbatim>\<open>Mt5Runtime\<close> is a parameter: a
  record of its answers, of which the answers to \<^verbatim>\<open>order_send\<close>, \<^verbatim>\<open>orders_get\<close> and
  \<^verbatim>\<open>history_deals_get\<close> may depend on the orders sent so far. The state of the
  computations is the list of those orders, so that properties can speak about what left
  the process. Floating-point volumes and prices are rationals.
\<close>

section \<open>MetaTrader constants\<close>

definition Mt5_ORDER_BUY :: int where "Mt5_ORDER_BUY = 0"
definition Mt5_ORDER_SELL :: int where "Mt5_ORDER_SELL = 1"
definition Mt5_TRADE_ACTION_DEAL :: int where "Mt5_TRADE_ACTION_DEAL = 1"
definition Mt5_ORDER_TIME_GTC :: int where "Mt5_ORDER_TIME_GTC = 0"
definition Mt5_ORDER_FILLING_FOK :: int where "Mt5_ORDER_FILLING_FOK = 0"
definition Mt5_ORDER_FILLING_IOC :: int where "Mt5_ORDER_FILLING_IOC = 1"
definition Mt5_ORDER_FILLING_RETURN :: int where "Mt5_ORDER_FILLING_RETURN = 2"
definition Mt5_SYMBOL_FILLING_FOK :: int where "Mt5_SYMBOL_FILLING_FOK = 1"
definition Mt5_SYMBOL_FILLING_IOC :: int where "Mt5_SYMBOL_FILLING_IOC = 2"
definition Mt5_SYMBOL_FILLING_RETURN :: int where "Mt5_SYMBOL_FILLING_RETURN = 4"

definition RETCODE_LABELS :: "(int \<times> string) list" where
  "RETCODE_LABELS = [(10004, ''requote''), (10006, ''reject''), (10014, ''invalid_volume''), (10018, ''market_closed''),
     (10009, ''done''), (10010, ''done_partial''), (10012, ''timeout''), (10020, ''price_changed''),
     (10021, ''price_off''), (10016, ''invalid_stops''), (10017, ''trade_disabled''), (10031, ''no_connection'')]"

definition retcode_label :: "int \<Rightarrow> string" where
  "retcode_label retcode = (case map_of RETCODE_LABELS retcode of
     Some s \<Rightarrow> s | None \<Rightarrow> ''retcode_'' @ int_str retcode)"

definition is_success_retcode :: "int \<Rightarrow> bool" where
  "is_success_retcode retcode \<longleftrightarrow> retcode \<in> {10009, 10010}"

definition is_unknown_retcode :: "int \<Rightarrow> bool" where
  "is_unknown_retcode retcode \<longleftrightarrow> retcode \<in> {10012, 10031}"

section \<open>Activation gates\<close>

record LiveExecutionGates =
  leg_enabled :: bool
  leg_account_allowlist :: "int set"
  leg_deployment_live_activation_enabled :: bool
  leg_controlled_account_validated :: bool

definition broker_rejection :: "BrokerRejectionCode \<Rightarrow> string \<Rightarrow> (string \<times> json) list \<Rightarrow> BrokerRejection" where
  "broker_rejection code message context = \<lparr>br_code = code, br_message = message, br_context = context\<rparr>"

definition evaluate_live_gates :: "LiveExecutionGates \<Rightarrow> int option \<Rightarrow> BrokerRejection option" where
  "evaluate_live_gates gates account_login =
     (if \<not> leg_enabled gates then Some (broker_rejection B_LIVE_LOCKED
         ''live execution is disabled (Q_LIVE_EXECUTION_ENABLED=false)'' [(''capability'', JStr ''live_locked'')])
      else case account_login of
        None \<Rightarrow> Some (broker_rejection B_BROKER_UNAVAILABLE ''MT5 account is not connected'' [])
      | Some login \<Rightarrow>
          if login \<notin> leg_account_allowlist gates then Some (broker_rejection B_ACCOUNT_NOT_ALLOWLISTED
            ''account is not on the live execution allowlist'' [(''account_login'', JNum (of_int login))])
          else if \<not> leg_deployment_live_activation_enabled gates then Some (broker_rejection B_LIVE_LOCKED
            ''deployment live activation is disabled'' [(''capability'', JStr ''live_locked'')])
          else if \<not> leg_controlled_account_validated gates then Some (broker_rejection B_LIVE_LOCKED
            ''live execution is implemented but operationally unvalidated; controlled-account validation record is missing''
            [(''capability'', JStr ''live_locked'')])
          else None)"

section \<open>The terminal\<close>

record Mt5Request =
  mq_action :: int
  mq_symbol :: string
  mq_volume :: decimal
  mq_type :: int
  mq_price :: decimal
  mq_deviation :: int
  mq_magic :: int
  mq_comment :: string
  mq_type_time :: int
  mq_type_filling :: int

record Mt5Account =
  ma_login :: int
  ma_trade_allowed :: bool

record Mt5SymbolInfo =
  ms_volume_step :: decimal
  ms_volume_min :: decimal
  ms_volume_max :: decimal
  ms_filling_mode :: int
  ms_digits :: nat
  ms_trade_mode :: int

record Mt5Tick =
  mt_bid :: decimal
  mt_ask :: decimal
  mt_time :: int

record Mt5Deal =
  md_ticket :: int
  md_magic :: int
  md_comment :: string
  md_volume :: decimal
  md_price :: decimal
  md_time :: int

record Mt5SendResult =
  mr_retcode :: int
  mr_order :: int
  mr_deal :: int

record Mt5Runtime =
  rt_is_stub :: bool
  rt_account_info :: "Mt5Account option"
  rt_symbol_select :: "string \<Rightarrow> bool"
  rt_symbol_info :: "string \<Rightarrow> Mt5SymbolInfo option"
  rt_symbol_info_tick :: "string \<Rightarrow> Mt5Tick option"
  rt_order_check :: "Mt5Request \<Rightarrow> int option"
  rt_order_send :: "Mt5Request list \<Rightarrow> Mt5Request \<Rightarrow> Mt5SendResult option"
  rt_orders_get :: "Mt5Request list \<Rightarrow> int \<Rightarrow> bool"
  rt_history_deals :: "Mt5Request list \<Rightarrow> datetime \<Rightarrow> datetime \<Rightarrow> Mt5Deal list"
  rt_last_error :: "int \<times> string"

type_synonym 'a ltm = "(Mt5Request list, 'a) comp"

section \<open>Translation of an order\<close>

definition intent_magic :: "uuid \<Rightarrow> int \<Rightarrow> int" where
  "intent_magic order_id base = (base XOR (int order_id AND 0x7FFFFFFF)) AND 0x7FFFFFFF"

definition intent_comment :: "uuid \<Rightarrow> string" where
  "intent_comment order_id = ''q:'' @ take 24 (filter (\<lambda>c. c \<noteq> CHR ''-'') (uuid_str order_id))"

definition normalize_volume :: "decimal \<Rightarrow> decimal \<Rightarrow> decimal \<Rightarrow> decimal \<Rightarrow> exec_error + decimal" where
  "normalize_volume quantity step vmin vmax =
     (let value = (if step > 0 then of_int (round_half_even (quantity / step)) * step else quantity)
      in if value < vmin then Inl (ValueError ''volume below symbol minimum'' [])
         else if vmax > 0 \<and> value > vmax then Inl (ValueError ''volume above symbol maximum'' [])
         else Inr value)"

definition normalize_price :: "decimal \<Rightarrow> nat \<Rightarrow> decimal" where
  "normalize_price price digits = of_int (round_half_even (price * 10 ^ digits)) / 10 ^ digits"

definition select_filling_mode :: "int \<Rightarrow> exec_error + int" where
  "select_filling_mode mode =
     (if mode AND Mt5_SYMBOL_FILLING_FOK \<noteq> 0 then Inr Mt5_ORDER_FILLING_FOK
      else if mode AND Mt5_SYMBOL_FILLING_IOC \<noteq> 0 then Inr Mt5_ORDER_FILLING_IOC
      else if mode AND Mt5_SYMBOL_FILLING_RETURN \<noteq> 0 then Inr Mt5_ORDER_FILLING_RETURN
      else Inl (ValueError ''symbol does not advertise a supported filling mode'' []))"

definition map_side_to_mt5 :: "ExecutionSide \<Rightarrow> int" where
  "map_side_to_mt5 side = (if side = BUY then Mt5_ORDER_BUY else Mt5_ORDER_SELL)"

definition request_json :: "Mt5Request \<Rightarrow> (string \<times> json) list" where
  "request_json q = [(''action'', JNum (of_int (mq_action q))), (''symbol'', JStr (mq_symbol q)),
     (''volume'', JNum (mq_volume q)), (''type'', JNum (of_int (mq_type q))), (''price'', JNum (mq_price q)),
     (''deviation'', JNum (of_int (mq_deviation q))), (''magic'', JNum (of_int (mq_magic q))),
     (''comment'', JStr (mq_comment q)), (''type_time'', JNum (of_int (mq_type_time q))),
     (''type_filling'', JNum (of_int (mq_type_filling q)))]"

definition sanitize_request_for_storage :: "(string \<times> json) list \<Rightarrow> (string \<times> json) list" where
  "sanitize_request_for_storage request = filter (\<lambda>(k, v). k \<notin> {''password''}) request"

section \<open>The broker\<close>

record MetaTraderBroker =
  mtb_runtime :: Mt5Runtime
  mtb_clock :: datetime
  mtb_gates :: LiveExecutionGates
  mtb_dry_run :: bool
  mtb_slippage_deviation :: int
  mtb_max_quote_age_seconds :: decimal
  mtb_magic_base :: int
  mtb_reconcile_lookback :: int

definition live_health :: "MetaTraderBroker \<Rightarrow> BrokerHealth" where
  "live_health self =
     (if rt_is_stub (mtb_runtime self) then \<lparr>bh_broker_mode = MT5_LIVE, bh_is_available = False,
        bh_message = ''MT5 live adapter unavailable (stub platform)'', bh_checked_at = mtb_clock self\<rparr>
      else let available = (rt_account_info (mtb_runtime self) \<noteq> None) in
        \<lparr>bh_broker_mode = MT5_LIVE, bh_is_available = available,
         bh_message = (if available then ''MT5 live adapter connected'' else ''MT5 live adapter cannot read account_info''),
         bh_checked_at = mtb_clock self\<rparr>)"

definition preflight :: "MetaTraderBroker \<Rightarrow> MarketOrderRequest \<Rightarrow> datetime \<Rightarrow> Mt5Account option \<Rightarrow> BrokerRejection option" where
  "preflight self request now account = (let rt = mtb_runtime self; symbol = mor_symbol request in
     case account of
       None \<Rightarrow> Some (broker_rejection B_BROKER_UNAVAILABLE ''MT5 account_info is unavailable'' [])
     | Some a \<Rightarrow>
         if \<not> ma_trade_allowed a then Some (broker_rejection B_TRADING_DISABLED
           ''terminal trading is disabled for this account'' [])
         else if \<not> rt_symbol_select rt symbol then Some (broker_rejection B_SYMBOL_UNAVAILABLE
           (''symbol '' @ symbol @ '' is not visible in MarketWatch'') [])
         else case rt_symbol_info rt symbol of
           None \<Rightarrow> Some (broker_rejection B_SYMBOL_UNAVAILABLE (''symbol '' @ symbol @ '' is unavailable'') [])
         | Some info \<Rightarrow> (case rt_symbol_info_tick rt symbol of
             None \<Rightarrow> Some (broker_rejection B_QUOTE_UNAVAILABLE (''quote for '' @ symbol @ '' is unavailable'') [])
           | Some tick \<Rightarrow>
               (case validate_quote (Some \<lparr>q_symbol = symbol, q_bid = mt_bid tick, q_ask = mt_ask tick,
                        q_timestamp = seconds (mt_time tick), q_source = ''mt5''\<rparr>) now (mtb_max_quote_age_seconds self) of
                  Some rejection \<Rightarrow> Some rejection
                | None \<Rightarrow> if ms_trade_mode info = 0 then Some (broker_rejection B_SYMBOL_UNAVAILABLE
                    (''symbol '' @ symbol @ '' is not tradable'') []) else None)))"

text \<open>
  The deals of an intent: those with its magic number or comment, narrowed to the one deal the
  terminal named when that is among them, in order of time, each ticket once.
\<close>

definition matching_deals :: "int \<Rightarrow> string \<Rightarrow> int option \<Rightarrow> Mt5Deal list \<Rightarrow> Mt5Deal list" where
  "matching_deals magic comment fallback_deal deals =
     (let ms = filter (\<lambda>d. md_magic d = magic \<or> take (length comment) (md_comment d) = comment) deals
      in case fallback_deal of
        None \<Rightarrow> ms
      | Some t \<Rightarrow> (let named = filter (\<lambda>d. md_ticket d = t) ms in if named = [] then ms else named))"

primrec distinct_deals :: "int set \<Rightarrow> Mt5Deal list \<Rightarrow> Mt5Deal list" where
  "distinct_deals seen [] = []"
| "distinct_deals seen (d # ds) =
     (if md_ticket d \<in> seen \<or> md_ticket d = 0 then distinct_deals seen ds
      else d # distinct_deals (insert (md_ticket d) seen) ds)"

definition reconcile_fill ::
    "MetaTraderBroker \<Rightarrow> MarketOrderRequest \<Rightarrow> datetime \<Rightarrow> int \<Rightarrow> string \<Rightarrow> int option \<Rightarrow> int option \<Rightarrow>
     (FillRecord \<times> string list) option ltm" where
  "reconcile_fill self request now magic comment external_order fallback_deal =
     bnd (gets (\<lambda>log. rt_history_deals (mtb_runtime self) log (now - mtb_reconcile_lookback self) now)) (\<lambda>deals.
     let deals = distinct_deals {} (sort_key md_time (matching_deals magic comment fallback_deal deals));
         total_qty = sum_list (map md_volume deals);
         notional = sum_list (map (\<lambda>d. md_volume d * md_price d) deals);
         latest_time = foldl (\<lambda>t d. max t (seconds (md_time d))) now deals;
         deal_ids = map (\<lambda>d. int_str (md_ticket d)) deals
     in ret (if deals = [] \<or> total_qty \<le> 0 then None
       else Some (\<lparr>fr_broker_mode = MT5_LIVE, fr_external_fill_id = last deal_ids, fr_side = mor_side request,
           fr_quantity = total_qty, fr_price = notional / total_qty, fr_fee = 0, fr_slippage = 0,
           fr_quote_bid = None, fr_quote_ask = None, fr_quote_timestamp = None, fr_filled_at = latest_time,
           fr_metadata = [(''symbol'', JStr (mor_symbol request)),
             (''deployment_id'', JStr (uuid_str (mor_deployment_id request))),
             (''order_id'', JStr (uuid_str (mor_order_id request))),
             (''external_order_id'', case external_order of None \<Rightarrow> JNull | Some n \<Rightarrow> JStr (int_str n)),
             (''deal_tickets'', JList (map JStr deal_ids))]\<rparr>, deal_ids)))"

definition submission ::
    "BrokerSubmissionOutcome \<Rightarrow> FillRecord option \<Rightarrow> BrokerRejection option \<Rightarrow> PaperCostConfig option \<Rightarrow> int option \<Rightarrow>
     string list \<Rightarrow> (string \<times> json) list \<Rightarrow> (string \<times> json) list \<Rightarrow> (string \<times> json) list \<Rightarrow> BrokerSubmissionResult" where
  "submission result fill rejection cost_config external_order deal_ids raw_request raw_response metadata =
     \<lparr>bsr_outcome = result, bsr_fill = fill, bsr_rejection = rejection, bsr_cost_config = cost_config,
      bsr_external_order_id = map_option int_str external_order, bsr_external_deal_ids = deal_ids,
      bsr_raw_request = raw_request, bsr_raw_response = raw_response, bsr_metadata = metadata\<rparr>"

definition recovered_submission ::
    "FillRecord \<times> string list \<Rightarrow> int option \<Rightarrow> int \<Rightarrow> BrokerSubmissionResult" where
  "recovered_submission p external_order magic = submission SO_FILLED (Some (fst p)) None None external_order (snd p) [] []
     [(''recovered'', JBool True), (''magic'', JNum (of_int magic))]"

definition recover_unknown ::
    "MetaTraderBroker \<Rightarrow> MarketOrderRequest \<Rightarrow> datetime \<Rightarrow> int option \<Rightarrow> BrokerSubmissionResult ltm" where
  "recover_unknown self request now external_order =
     (let magic = intent_magic (mor_order_id request) (mtb_magic_base self);
          comment = intent_comment (mor_order_id request);
          search = bnd (reconcile_fill self request now magic comment external_order None) (\<lambda>reconciled. case reconciled of
            Some p \<Rightarrow> ret (recovered_submission p external_order magic)
          | None \<Rightarrow> ret (submission SO_UNKNOWN None None None external_order [] [] []
              [(''magic'', JNum (of_int magic)), (''comment'', JStr comment), (''recovered'', JBool False)]))
      in case external_order of
        None \<Rightarrow> search
      | Some ticket \<Rightarrow>
          bnd (gets (\<lambda>log. rt_orders_get (mtb_runtime self) log ticket)) (\<lambda>open_order.
          if \<not> open_order then search
          else bnd (reconcile_fill self request now magic comment external_order None) (\<lambda>reconciled. case reconciled of
            Some p \<Rightarrow> ret (recovered_submission p external_order magic)
          | None \<Rightarrow> search)))"

text \<open>The order for the terminal, once symbol, volume and filling policy are settled.\<close>

definition build_request ::
    "MetaTraderBroker \<Rightarrow> MarketOrderRequest \<Rightarrow> Mt5SymbolInfo \<Rightarrow> Mt5Tick \<Rightarrow> decimal \<Rightarrow> int \<Rightarrow> Mt5Request" where
  "build_request self request info tick volume filling =
     \<lparr>mq_action = Mt5_TRADE_ACTION_DEAL, mq_symbol = mor_symbol request, mq_volume = volume,
      mq_type = map_side_to_mt5 (mor_side request),
      mq_price = normalize_price (if mor_side request = BUY then mt_ask tick else mt_bid tick) (ms_digits info),
      mq_deviation = mtb_slippage_deviation self, mq_magic = intent_magic (mor_order_id request) (mtb_magic_base self),
      mq_comment = intent_comment (mor_order_id request), mq_type_time = Mt5_ORDER_TIME_GTC, mq_type_filling = filling\<rparr>"

text \<open>\<^verbatim>\<open>raw["order"]\<close> and \<^verbatim>\<open>raw["deal"]\<close>: zero means none.\<close>

definition nonzero :: "int \<Rightarrow> int option" where
  "nonzero n = (if n = 0 then None else Some n)"

text \<open>\<^verbatim>\<open>order_send\<close>, and what its answer means.\<close>

definition interpret_send ::
    "MetaTraderBroker \<Rightarrow> MarketOrderRequest \<Rightarrow> PaperCostConfig \<Rightarrow> Mt5Request \<Rightarrow> Mt5SendResult option \<Rightarrow>
     BrokerSubmissionResult ltm" where
  "interpret_send self request cost_config mt5_request send =
     (let now = mtb_clock self;
          stored = sanitize_request_for_storage (request_json mt5_request);
          ident = [(''magic'', JNum (of_int (mq_magic mt5_request))), (''comment'', JStr (mq_comment mt5_request))]
      in case send of
        None \<Rightarrow>
          bnd (recover_unknown self request now None) (\<lambda>recovered.
          if bsr_outcome recovered = SO_FILLED then ret recovered
          else ret (submission SO_UNKNOWN None (Some (broker_rejection B_ORDER_SEND_FAILED
                 (''order_send returned None: '' @ snd (rt_last_error (mtb_runtime self)))
                 [(''mt5_error_code'', JNum (of_int (fst (rt_last_error (mtb_runtime self)))))]))
                 (Some cost_config) None [] stored [] ident))
      | Some sent \<Rightarrow>
          (let retcode = mr_retcode sent;
               external_order = nonzero (mr_order sent);
               raw = [(''retcode'', JNum (of_int retcode)), (''order'', JNum (of_int (mr_order sent))),
                      (''deal'', JNum (of_int (mr_deal sent)))]
           in if is_unknown_retcode retcode then
                bnd (recover_unknown self request now external_order) (\<lambda>recovered.
                if bsr_outcome recovered \<noteq> SO_UNKNOWN then ret recovered
                else ret (submission SO_UNKNOWN None (Some (broker_rejection B_ORDER_SEND_FAILED
                       (''ambiguous send outcome: '' @ retcode_label retcode) [(''retcode'', JNum (of_int retcode))]))
                       (Some cost_config) external_order [] stored raw ident))
              else if \<not> is_success_retcode retcode then
                ret (submission SO_REJECTED None (Some (broker_rejection B_ORDER_SEND_FAILED
                       (''order_send rejected: '' @ retcode_label retcode) [(''retcode'', JNum (of_int retcode))]))
                       (Some cost_config) external_order [] stored raw [])
              else
                bnd (reconcile_fill self request now (mq_magic mt5_request) (mq_comment mt5_request) external_order
                       (nonzero (mr_deal sent))) (\<lambda>reconciled. case reconciled of
                  None \<Rightarrow> ret (submission SO_UNKNOWN None None (Some cost_config) external_order [] stored raw ident)
                | Some (fill, deal_ids) \<Rightarrow>
                    ret (submission SO_FILLED (Some fill) None (Some cost_config) external_order deal_ids stored raw ident))))"

definition send_order ::
    "MetaTraderBroker \<Rightarrow> MarketOrderRequest \<Rightarrow> PaperCostConfig \<Rightarrow> Mt5Request \<Rightarrow> BrokerSubmissionResult ltm" where
  "send_order self request cost_config mt5_request =
     bnd (gets (\<lambda>log. rt_order_send (mtb_runtime self) log mt5_request)) (\<lambda>send.
     bnd (modify (\<lambda>log. log @ [mt5_request])) (\<lambda>_.
     interpret_send self request cost_config mt5_request send))"

definition check_and_send ::
    "MetaTraderBroker \<Rightarrow> MarketOrderRequest \<Rightarrow> PaperCostConfig \<Rightarrow> Mt5Request \<Rightarrow> BrokerSubmissionResult ltm" where
  "check_and_send self request cost_config mt5_request =
     (let stored = sanitize_request_for_storage (request_json mt5_request) in
      case rt_order_check (mtb_runtime self) mt5_request of
        None \<Rightarrow> ret (submission SO_REJECTED None (Some (broker_rejection B_ORDER_CHECK_FAILED
            (''order_check failed: '' @ snd (rt_last_error (mtb_runtime self)))
            [(''mt5_error_code'', JNum (of_int (fst (rt_last_error (mtb_runtime self)))))]))
            (Some cost_config) None [] stored [] [])
      | Some retcode \<Rightarrow>
          if \<not> is_success_retcode retcode then
            ret (submission SO_REJECTED None (Some (broker_rejection B_ORDER_CHECK_FAILED
              (''order_check rejected: '' @ retcode_label retcode) [(''retcode'', JNum (of_int retcode))]))
              (Some cost_config) None [] stored [(''check_retcode'', JNum (of_int retcode))] [])
          else if mtb_dry_run self then
            ret (submission SO_REJECTED None (Some (broker_rejection B_LIVE_LOCKED
              ''live adapter is implemented and order_check passed, but dry_run prevents order_send in this environment''
              [(''capability'', JStr ''live_locked'')]))
              (Some cost_config) None [] stored [(''check_retcode'', JNum (of_int retcode))] [])
          else send_order self request cost_config mt5_request)"

definition live_submit_market_order ::
    "MetaTraderBroker \<Rightarrow> MarketOrderRequest \<Rightarrow> PaperCostConfig \<Rightarrow> BrokerSubmissionResult ltm" where
  "live_submit_market_order self request cost_config =
     (let now = mtb_clock self; rt = mtb_runtime self; account = rt_account_info rt;
          rejected = (\<lambda>rejection. ret (submission SO_REJECTED None (Some rejection) (Some cost_config) None [] [] [] []))
      in case evaluate_live_gates (mtb_gates self) (map_option ma_login account) of
        Some rejection \<Rightarrow> rejected rejection
      | None \<Rightarrow> (case preflight self request now account of
          Some rejection \<Rightarrow> rejected rejection
        | None \<Rightarrow> (case (rt_symbol_info rt (mor_symbol request), rt_symbol_info_tick rt (mor_symbol request)) of
            (Some info, Some tick) \<Rightarrow>
              (case normalize_volume (mor_quantity request) (ms_volume_step info) (ms_volume_min info) (ms_volume_max info) of
                 Inl (ValueError msg _) \<Rightarrow> rejected (broker_rejection B_INVALID_QUANTITY msg [])
               | Inl e \<Rightarrow> throw e
               | Inr volume \<Rightarrow> (case select_filling_mode (ms_filling_mode info) of
                   Inl (ValueError msg _) \<Rightarrow> rejected (broker_rejection B_UNSUPPORTED_FILL_POLICY msg [])
                 | Inl e \<Rightarrow> throw e
                 | Inr filling \<Rightarrow> check_and_send self request cost_config
                     (build_request self request info tick volume filling)))
          | _ \<Rightarrow> throw (RuntimeError ''AssertionError''))))"

definition live_lookup_order :: "MetaTraderBroker \<Rightarrow> MarketOrderRequest \<Rightarrow> BrokerOrderState ltm" where
  "live_lookup_order self request =
     (let rt = mtb_runtime self in
      if rt_is_stub rt then ret \<lparr>bos_status = LK_UNAVAILABLE, bos_fill = None, bos_external_order_id = None,
        bos_external_deal_ids = [], bos_message = ''MT5 live adapter unavailable (stub platform)''\<rparr>
      else if rt_account_info rt = None then ret \<lparr>bos_status = LK_UNAVAILABLE, bos_fill = None, bos_external_order_id = None,
        bos_external_deal_ids = [], bos_message = ''MT5 account_info unavailable: '' @ snd (rt_last_error rt)\<rparr>
      else bnd (reconcile_fill self request (mtb_clock self) (intent_magic (mor_order_id request) (mtb_magic_base self))
                 (intent_comment (mor_order_id request)) None None) (\<lambda>reconciled. case reconciled of
        None \<Rightarrow> ret \<lparr>bos_status = LK_NOT_FOUND, bos_fill = None, bos_external_order_id = None,
          bos_external_deal_ids = [], bos_message = ''no MT5 deal matches the intent magic/comment''\<rparr>
      | Some (fill, deal_ids) \<Rightarrow> ret \<lparr>bos_status = LK_FILLED, bos_fill = Some fill, bos_external_order_id = None,
          bos_external_deal_ids = deal_ids, bos_message = ''reconciled from MT5 deal history''\<rparr>))"

end
