(* ===== verification/Live_Broker_Correct.thy ===== *)
theory Live_Broker_Correct
  imports Live_Broker
begin

text \<open>
  What the live broker promises: an order leaves the process only when every activation gate
  and every pre-trade check has passed, one per submission; an order that left is reported as
  rejected only on a definite answer; a reconciled fill adds up the deals of its intent; and
  the submission honours the contract of \<open>execution_broker\<close>.
\<close>

section \<open>Rounding\<close>

lemma round_half_even_dist: "\<bar>of_int (round_half_even x) - x\<bar> \<le> 1 / 2"
proof -
  have "of_int \<lfloor>x\<rfloor> \<le> x" and "x < of_int \<lfloor>x\<rfloor> + 1" using floor_correct [of x] by simp_all
  then show ?thesis by (auto simp: round_half_even_def Let_def)
qed

lemma round_half_even_of_int [simp]: "round_half_even (of_int k) = k"
  by (simp add: round_half_even_def)

text \<open>The volume sent is a multiple of the step, within the symbol's limits, half a step away at most.\<close>

lemma normalize_volumeD:
  assumes "normalize_volume quantity step vmin vmax = Inr v"
  shows "vmin \<le> v" and "0 < vmax \<Longrightarrow> v \<le> vmax"
    and "0 < step \<Longrightarrow> \<exists>k::int. v = of_int k * step"
    and "0 < step \<Longrightarrow> \<bar>v - quantity\<bar> \<le> step / 2"
proof -
  let ?k = "round_half_even (quantity / step)"
  show "vmin \<le> v" "0 < vmax \<Longrightarrow> v \<le> vmax" "0 < step \<Longrightarrow> \<exists>k::int. v = of_int k * step"
    using assms by (auto simp: normalize_volume_def Let_def split: if_splits)
  show "\<bar>v - quantity\<bar> \<le> step / 2" if step: "0 < step"
  proof -
    have "v = of_int ?k * step" using assms step by (auto simp: normalize_volume_def Let_def split: if_splits)
    then have "v - quantity = (of_int ?k - quantity / step) * step" using step by (simp add: left_diff_distrib)
    then have "\<bar>v - quantity\<bar> = \<bar>of_int ?k - quantity / step\<bar> * step" using step by (simp add: abs_mult)
    also have "\<dots> \<le> (1 / 2) * step"
      using step round_half_even_dist [of "quantity / step"] by (intro mult_right_mono) simp_all
    finally show ?thesis by simp
  qed
qed

lemma normalize_volume_near:
  assumes "normalize_volume quantity step vmin vmax = Inr v"
  shows "\<bar>v - quantity\<bar> \<le> max 0 (step / 2)"
proof (cases "0 < step")
  case True
  then show ?thesis using normalize_volumeD(4) [OF assms] by simp
next
  case False
  then have "v = quantity" using assms by (auto simp: normalize_volume_def Let_def split: if_splits)
  then show ?thesis by simp
qed

text \<open>A quantity already on the grid is sent unchanged.\<close>

lemma normalize_volume_aligned:
  assumes "0 < step" and "vmin \<le> of_int k * step" and "of_int k * step \<le> vmax"
  shows "normalize_volume (of_int k * step) step vmin vmax = Inr (of_int k * step)"
  using assms by (simp add: normalize_volume_def Let_def)

lemma normalize_volume_error:
  "normalize_volume q step vmin vmax = Inl e \<Longrightarrow> \<exists>msg. e = ValueError msg []"
  by (auto simp: normalize_volume_def Let_def split: if_splits)

lemma select_filling_mode_error: "select_filling_mode n = Inl e \<Longrightarrow> \<exists>msg. e = ValueError msg []"
  by (auto simp: select_filling_mode_def split: if_splits)

section \<open>What leaves the process\<close>

text \<open>
  \<open>order_cleared self request q\<close>: the terminal order \<open>q\<close> stands for the request, every gate is
  open, the account and the symbol can trade, the quote is executable, and \<^verbatim>\<open>order_check\<close>
  accepted \<open>q\<close>.
\<close>

definition gates_open :: "LiveExecutionGates \<Rightarrow> Mt5Account \<Rightarrow> bool" where
  "gates_open g account \<longleftrightarrow> leg_enabled g \<and> ma_login account \<in> leg_account_allowlist g \<and>
     leg_deployment_live_activation_enabled g \<and> leg_controlled_account_validated g"

definition order_cleared :: "MetaTraderBroker \<Rightarrow> MarketOrderRequest \<Rightarrow> Mt5Request \<Rightarrow> bool" where
  "order_cleared self request q \<longleftrightarrow> (let rt = mtb_runtime self; symbol = mor_symbol request in
     (\<exists>account info tick volume filling retcode.
        rt_account_info rt = Some account \<and> gates_open (mtb_gates self) account \<and> ma_trade_allowed account \<and>
        rt_symbol_select rt symbol \<and> rt_symbol_info rt symbol = Some info \<and> ms_trade_mode info \<noteq> 0 \<and>
        rt_symbol_info_tick rt symbol = Some tick \<and> 0 < mt_bid tick \<and> mt_bid tick < mt_ask tick \<and>
        total_seconds (mtb_clock self - seconds (mt_time tick)) \<le> mtb_max_quote_age_seconds self \<and>
        normalize_volume (mor_quantity request) (ms_volume_step info) (ms_volume_min info) (ms_volume_max info) = Inr volume \<and>
        select_filling_mode (ms_filling_mode info) = Inr filling \<and>
        q = build_request self request info tick volume filling \<and>
        rt_order_check rt q = Some retcode \<and> is_success_retcode retcode \<and> \<not> mtb_dry_run self))"

lemma evaluate_live_gates_None_iff:
  "evaluate_live_gates g (map_option ma_login account) = None \<longleftrightarrow> (\<exists>a. account = Some a \<and> gates_open g a)"
  by (auto simp: evaluate_live_gates_def gates_open_def split: option.splits)

lemma preflight_None_iff:
  "preflight self request now account = None \<longleftrightarrow>
     (\<exists>a info tick. account = Some a \<and> ma_trade_allowed a \<and>
        rt_symbol_select (mtb_runtime self) (mor_symbol request) \<and>
        rt_symbol_info (mtb_runtime self) (mor_symbol request) = Some info \<and> ms_trade_mode info \<noteq> 0 \<and>
        rt_symbol_info_tick (mtb_runtime self) (mor_symbol request) = Some tick \<and>
        0 < mt_bid tick \<and> mt_bid tick < mt_ask tick \<and>
        total_seconds (now - seconds (mt_time tick)) \<le> mtb_max_quote_age_seconds self)"
proof -
  have ok: "validate_quote (Some \<lparr>q_symbol = s, q_bid = b, q_ask = a, q_timestamp = t, q_source = src\<rparr>) now max_age = None
      \<longleftrightarrow> 0 < b \<and> b < a \<and> total_seconds (now - t) \<le> max_age" for s b a t src max_age
    by (simp add: validate_quote_None_iff quote_executable_def)
  have bad: "validate_quote (Some \<lparr>q_symbol = s, q_bid = b, q_ask = a, q_timestamp = t, q_source = src\<rparr>) now max_age = Some r
      \<Longrightarrow> \<not> (0 < b \<and> b < a \<and> total_seconds (now - t) \<le> max_age)" for s b a t src max_age r
    using ok [of s b a t src max_age] by auto
  show ?thesis
    by (auto simp: preflight_def Let_def ok dest: bad split: option.splits if_splits)
qed

text \<open>Reading the terminal's history and recovering an intent send nothing.\<close>

lemma reconcile_fill_run: "\<exists>v. reconcile_fill self req now magic c ext fb lg = (Inr v, lg)"
  by (simp add: reconcile_fill_def comp_defs Let_def)

lemma recover_unknown_run: "\<exists>r. recover_unknown self req now ext lg = (Inr r, lg)"
proof -
  obtain v where v: "reconcile_fill self req now (intent_magic (mor_order_id req) (mtb_magic_base self))
      (intent_comment (mor_order_id req)) ext None lg = (Inr v, lg)"
    using reconcile_fill_run by blast
  then show ?thesis
    by (cases ext; cases v) (simp_all add: recover_unknown_def Let_def comp_defs v)
qed

lemma lookup_sends_nothing: "\<exists>st. live_lookup_order self req lg = (Inr st, lg)"
proof -
  obtain v where v: "reconcile_fill self req (mtb_clock self) (intent_magic (mor_order_id req) (mtb_magic_base self))
      (intent_comment (mor_order_id req)) None None lg = (Inr v, lg)"
    using reconcile_fill_run by blast
  then show ?thesis
    by (cases v) (auto simp: live_lookup_order_def Let_def comp_defs v)
qed

lemma interpret_send_run: "\<exists>r. interpret_send self req cost q send lg = (Inr r, lg)"
proof (cases send)
  case None
  obtain r where r: "recover_unknown self req (mtb_clock self) None lg = (Inr r, lg)"
    using recover_unknown_run by blast
  then show ?thesis by (simp add: None interpret_send_def Let_def comp_defs r)
next
  case (Some sent)
  obtain r where r: "recover_unknown self req (mtb_clock self) (nonzero (mr_order sent)) lg = (Inr r, lg)"
    using recover_unknown_run by blast
  obtain v where v: "reconcile_fill self req (mtb_clock self) (mq_magic q) (mq_comment q) (nonzero (mr_order sent))
      (nonzero (mr_deal sent)) lg = (Inr v, lg)"
    using reconcile_fill_run by blast
  show ?thesis
    by (cases v) (auto simp: Some interpret_send_def Let_def comp_defs r v)
qed


text \<open>A cleared order is sent, and the answer interpreted; any other submission is rejected locally.\<close>

lemma submit_cleared:
  assumes "order_cleared self req q"
  shows "live_submit_market_order self req cost lg =
    interpret_send self req cost q (rt_order_send (mtb_runtime self) lg q) (lg @ [q])"
proof -
  let ?rt = "mtb_runtime self" and ?s = "mor_symbol req"
  from assms obtain account info tick volume filling retcode where c:
    "rt_account_info ?rt = Some account" "gates_open (mtb_gates self) account" "ma_trade_allowed account"
    "rt_symbol_select ?rt ?s" "rt_symbol_info ?rt ?s = Some info" "ms_trade_mode info \<noteq> 0"
    "rt_symbol_info_tick ?rt ?s = Some tick" "0 < mt_bid tick" "mt_bid tick < mt_ask tick"
    "total_seconds (mtb_clock self - seconds (mt_time tick)) \<le> mtb_max_quote_age_seconds self"
    and v: "normalize_volume (mor_quantity req) (ms_volume_step info) (ms_volume_min info) (ms_volume_max info) = Inr volume"
    "select_filling_mode (ms_filling_mode info) = Inr filling"
    and q: "build_request self req info tick volume filling = q"
    and k: "rt_order_check ?rt q = Some retcode" "is_success_retcode retcode" "\<not> mtb_dry_run self"
    by (auto simp: order_cleared_def Let_def)
  have "evaluate_live_gates (mtb_gates self) (map_option ma_login (rt_account_info ?rt)) = None"
    and "preflight self req (mtb_clock self) (rt_account_info ?rt) = None"
    unfolding evaluate_live_gates_None_iff preflight_None_iff using c by auto
  then show ?thesis
    by (simp add: live_submit_market_order_def check_and_send_def send_order_def Let_def c v q k bnd_gets bnd_modify)
qed

lemma not_None_split: "\<not> (a = None \<and> b = None) \<Longrightarrow> (\<exists>x. a = Some x) \<or> a = None \<and> (\<exists>y. b = Some y)"
  by (cases a; cases b) simp_all

lemma submit_not_cleared:
  assumes "\<nexists>q. order_cleared self req q"
  shows "\<exists>r. live_submit_market_order self req cost lg = (Inr r, lg) \<and> bsr_outcome r = SO_REJECTED \<and> bsr_fill r = None"
proof (cases "evaluate_live_gates (mtb_gates self) (map_option ma_login (rt_account_info (mtb_runtime self))) = None
    \<and> preflight self req (mtb_clock self) (rt_account_info (mtb_runtime self)) = None")
  case False
  from not_None_split [OF this] obtain r where "evaluate_live_gates (mtb_gates self) (map_option ma_login (rt_account_info (mtb_runtime self))) = Some r
      \<or> evaluate_live_gates (mtb_gates self) (map_option ma_login (rt_account_info (mtb_runtime self))) = None \<and>
        preflight self req (mtb_clock self) (rt_account_info (mtb_runtime self)) = Some r"
    by blast
  then show ?thesis by (elim disjE conjE) (simp_all add: live_submit_market_order_def submission_def ret_def Let_def)
next
  case True
  let ?rt = "mtb_runtime self" and ?s = "mor_symbol req"
  from True obtain account info tick where c:
    "rt_account_info ?rt = Some account" "gates_open (mtb_gates self) account" "ma_trade_allowed account"
    "rt_symbol_select ?rt ?s" "rt_symbol_info ?rt ?s = Some info" "ms_trade_mode info \<noteq> 0"
    "rt_symbol_info_tick ?rt ?s = Some tick" "0 < mt_bid tick" "mt_bid tick < mt_ask tick"
    "total_seconds (mtb_clock self - seconds (mt_time tick)) \<le> mtb_max_quote_age_seconds self"
    by (auto simp: evaluate_live_gates_None_iff preflight_None_iff)
  let ?vol = "normalize_volume (mor_quantity req) (ms_volume_step info) (ms_volume_min info) (ms_volume_max info)"
  let ?fil = "select_filling_mode (ms_filling_mode info)"
  have dead: "\<not> (is_success_retcode retcode \<and> \<not> mtb_dry_run self)"
    if "?vol = Inr volume" "?fil = Inr filling" "rt_order_check ?rt (build_request self req info tick volume filling) = Some retcode"
    for volume filling retcode
    using assms c that by (auto simp: order_cleared_def Let_def)
  show ?thesis
    using True normalize_volume_error select_filling_mode_error
    by (cases ?vol; cases ?fil)
       (fastforce simp: live_submit_market_order_def check_and_send_def submission_def ret_def Let_def c
          dest: dead split: option.splits)+
qed

lemma live_submit_run: "\<exists>r. live_submit_market_order self req cost lg = (Inr r, snd (live_submit_market_order self req cost lg))"
  using submit_cleared submit_not_cleared interpret_send_run by (metis snd_conv)

text \<open>
  C31. A live submission sends a terminal order exactly when the order is cleared: the kill switch
  setting, the account allowlist, the deployment's live activation and the controlled-account
  validation all allow it, trading is enabled, the quote is executable, \<^verbatim>\<open>order_check\<close>
  succeeded and the adapter is not in dry-run mode. It sends at most that one order, which
  carries the symbol, the side and the magic number of the request and a volume within the
  symbol's limits and half a volume step from the requested quantity; otherwise it rejects.
  Looking an order up, or recovering an unknown one, never sends anything.
\<close>

theorem live_order_sent_iff_cleared:
  "(\<forall>q. snd (live_submit_market_order self req cost lg) = lg @ [q] \<longleftrightarrow> order_cleared self req q) \<and>
   (snd (live_submit_market_order self req cost lg) = lg \<or>
    (\<exists>q info. snd (live_submit_market_order self req cost lg) = lg @ [q] \<and> mq_symbol q = mor_symbol req \<and>
       mq_type q = map_side_to_mt5 (mor_side req) \<and> mq_magic q = intent_magic (mor_order_id req) (mtb_magic_base self) \<and>
       rt_symbol_info (mtb_runtime self) (mor_symbol req) = Some info \<and> ms_volume_min info \<le> mq_volume q \<and>
       \<bar>mq_volume q - mor_quantity req\<bar> \<le> max 0 (ms_volume_step info / 2))) \<and>
   snd (live_lookup_order self req lg) = lg \<and> snd (recover_unknown self req now ext lg) = lg"
proof -
  have uniq: "q = q'" if "order_cleared self req q" "order_cleared self req q'" for q q'
    using that by (auto simp: order_cleared_def Let_def)
  have sent: "snd (live_submit_market_order self req cost lg) = lg @ [q]" if "order_cleared self req q" for q
    using submit_cleared [OF that, of cost lg] interpret_send_run [of self req cost q _ "lg @ [q]"] by (metis snd_conv)
  have kept: "snd (live_submit_market_order self req cost lg) = lg" if "\<nexists>q. order_cleared self req q"
    using submit_not_cleared [OF that] by (metis snd_conv)
  have iff: "snd (live_submit_market_order self req cost lg) = lg @ [q] \<longleftrightarrow> order_cleared self req q" for q
    using sent kept uniq by (metis append_self_conv list.distinct(1) same_append_eq list.inject)
  have carries: "\<exists>info. mq_symbol q = mor_symbol req \<and> mq_type q = map_side_to_mt5 (mor_side req) \<and>
      mq_magic q = intent_magic (mor_order_id req) (mtb_magic_base self) \<and>
      rt_symbol_info (mtb_runtime self) (mor_symbol req) = Some info \<and> ms_volume_min info \<le> mq_volume q \<and>
      \<bar>mq_volume q - mor_quantity req\<bar> \<le> max 0 (ms_volume_step info / 2)" if "order_cleared self req q" for q
    using that by (auto simp: order_cleared_def Let_def build_request_def dest: normalize_volumeD(1) normalize_volume_near)
  have "snd (live_lookup_order self req lg) = lg" "snd (recover_unknown self req now ext lg) = lg"
    using lookup_sends_nothing recover_unknown_run by (metis snd_conv)+
  then show ?thesis using iff carries kept by blast
qed

section \<open>The deals of an intent\<close>

definition intent_deals :: "MetaTraderBroker \<Rightarrow> datetime \<Rightarrow> int \<Rightarrow> string \<Rightarrow> int option \<Rightarrow> Mt5Request list \<Rightarrow> Mt5Deal list" where
  "intent_deals self now magic comment fallback_deal lg =
     distinct_deals {} (sort_key md_time (matching_deals magic comment fallback_deal
       (rt_history_deals (mtb_runtime self) lg (now - mtb_reconcile_lookback self) now)))"

lemma distinct_deals_tickets:
  "distinct (map md_ticket (distinct_deals seen ds)) \<and>
   md_ticket ` set (distinct_deals seen ds) = md_ticket ` set ds - insert 0 seen \<and>
   set (distinct_deals seen ds) \<subseteq> set ds"
  by (induction ds arbitrary: seen) auto

lemma set_distinct_deals:
  assumes "inj_on md_ticket (set ds)"
  shows "set (distinct_deals {} ds) = {d \<in> set ds. md_ticket d \<noteq> 0}"
proof -
  note t = distinct_deals_tickets [of "{}" ds]
  have "d \<in> set (distinct_deals {} ds)" if "d \<in> set ds" "md_ticket d \<noteq> 0" for d
  proof -
    from that t have "md_ticket d \<in> md_ticket ` set (distinct_deals {} ds)" by auto
    then obtain e where "e \<in> set (distinct_deals {} ds)" "md_ticket e = md_ticket d" by auto
    with t that assms show ?thesis by (metis inj_onD subsetD)
  qed
  with t show ?thesis by (auto simp: image_iff)
qed

lemma sum_distinct_deals:
  assumes "inj_on md_ticket (set ds)"
  shows "sum_list (map h (distinct_deals {} ds)) = (\<Sum>d | d \<in> set ds \<and> md_ticket d \<noteq> 0. h d)"
proof -
  have "distinct (distinct_deals {} ds)" using distinct_deals_tickets [of "{}" ds] by (simp add: distinct_map)
  then show ?thesis by (simp add: sum_list_distinct_conv_sum_set set_distinct_deals [OF assms])
qed

lemma reconcile_fill_eq:
  "reconcile_fill self req now magic c ext fb lg =
     (Inr (let ds = intent_deals self now magic c fb lg; qty = sum_list (map md_volume ds) in
       if ds = [] \<or> qty \<le> 0 then None
       else Some (\<lparr>fr_broker_mode = MT5_LIVE, fr_external_fill_id = int_str (md_ticket (last ds)), fr_side = mor_side req,
           fr_quantity = qty, fr_price = sum_list (map (\<lambda>d. md_volume d * md_price d) ds) / qty, fr_fee = 0, fr_slippage = 0,
           fr_quote_bid = None, fr_quote_ask = None, fr_quote_timestamp = None,
           fr_filled_at = foldl (\<lambda>t d. max t (seconds (md_time d))) now ds,
           fr_metadata = [(''symbol'', JStr (mor_symbol req)),
             (''deployment_id'', JStr (uuid_str (mor_deployment_id req))),
             (''order_id'', JStr (uuid_str (mor_order_id req))),
             (''external_order_id'', case ext of None \<Rightarrow> JNull | Some n \<Rightarrow> JStr (int_str n)),
             (''deal_tickets'', JList (map (JStr \<circ> (\<lambda>d. int_str (md_ticket d))) ds))]\<rparr>,
           map (\<lambda>d. int_str (md_ticket d)) ds)), lg)"
  by (simp add: reconcile_fill_def intent_deals_def bnd_gets ret_def Let_def last_map)

lemma weighted_mean_bounds:
  fixes w x :: "'a \<Rightarrow> rat"
  assumes "finite D" and "D \<noteq> {}" and "\<And>d. d \<in> D \<Longrightarrow> 0 < w d"
  shows "Min (x ` D) \<le> (\<Sum>d\<in>D. w d * x d) / (\<Sum>d\<in>D. w d)" and "(\<Sum>d\<in>D. w d * x d) / (\<Sum>d\<in>D. w d) \<le> Max (x ` D)"
proof -
  have pos: "0 < (\<Sum>d\<in>D. w d)" using assms by (intro sum_pos) auto
  have "(\<Sum>d\<in>D. w d * Min (x ` D)) \<le> (\<Sum>d\<in>D. w d * x d)" "(\<Sum>d\<in>D. w d * x d) \<le> (\<Sum>d\<in>D. w d * Max (x ` D))"
    using assms by (auto intro!: sum_mono mult_left_mono simp: less_imp_le)
  with pos show "Min (x ` D) \<le> (\<Sum>d\<in>D. w d * x d) / (\<Sum>d\<in>D. w d)"
    and "(\<Sum>d\<in>D. w d * x d) / (\<Sum>d\<in>D. w d) \<le> Max (x ` D)"
    by (simp_all add: le_divide_eq divide_le_eq mult.commute flip: sum_distrib_left sum_distrib_right)
qed

text \<open>
  A fill reconciled from the terminal's history adds up the deals of its intent, each ticket
  once however often and in whatever order the history lists it: the quantity is the total volume
  of those deals, and the price is their volume-weighted average, which lies between the lowest
  and the highest deal price.
\<close>

lemma reconciled_fill_is_vwap:
  assumes "reconcile_fill self req now magic c ext fb lg = (Inr (Some (f, ids)), lg)"
    and "ds = matching_deals magic c fb (rt_history_deals (mtb_runtime self) lg (now - mtb_reconcile_lookback self) now)"
    and "inj_on md_ticket (set ds)" and "\<forall>d\<in>set ds. 0 < md_volume d"
  shows "fr_quantity f = (\<Sum>d | d \<in> set ds \<and> md_ticket d \<noteq> 0. md_volume d) \<and>
    fr_price f * fr_quantity f = (\<Sum>d | d \<in> set ds \<and> md_ticket d \<noteq> 0. md_volume d * md_price d) \<and>
    Min (md_price ` {d \<in> set ds. md_ticket d \<noteq> 0}) \<le> fr_price f \<and>
    fr_price f \<le> Max (md_price ` {d \<in> set ds. md_ticket d \<noteq> 0}) \<and>
    length ids = card {d \<in> set ds. md_ticket d \<noteq> 0}"
proof -
  let ?D = "{d \<in> set ds. md_ticket d \<noteq> 0}" and ?I = "intent_deals self now magic c fb lg"
  have I: "?I = distinct_deals {} (sort_key md_time ds)" by (simp add: intent_deals_def assms(2))
  have inj: "inj_on md_ticket (set (sort_key md_time ds))" using assms(3) by simp
  have D: "set ?I = ?D" by (simp add: I set_distinct_deals [OF inj])
  have len: "length ?I = card ?D"
    using distinct_deals_tickets [of "{}" "sort_key md_time ds"] distinct_card [of ?I]
    by (metis I D distinct_map)
  have sums: "sum_list (map h ?I) = (\<Sum>d | d \<in> set ds \<and> md_ticket d \<noteq> 0. h d)" for h :: "Mt5Deal \<Rightarrow> rat"
    by (simp add: I sum_distinct_deals [OF inj])
  from assms(1) have ne: "?I \<noteq> []" and pos: "0 < sum_list (map md_volume ?I)"
    and f: "fr_quantity f = sum_list (map md_volume ?I)"
      "fr_price f = sum_list (map (\<lambda>d. md_volume d * md_price d) ?I) / sum_list (map md_volume ?I)"
    and ids: "length ids = length ?I"
    by (auto simp: reconcile_fill_eq Let_def split: if_splits)
  have "?D \<noteq> {}" using ne D by (metis set_empty)
  then have "Min (md_price ` ?D) \<le> fr_price f \<and> fr_price f \<le> Max (md_price ` ?D)"
    using weighted_mean_bounds [of ?D md_volume md_price] assms(4) by (simp add: f sums)
  with pos show ?thesis by (simp add: f sums len ids)
qed

section \<open>What an answer means\<close>

text \<open>A definite refusal: the terminal answered, and neither with success nor ambiguously.\<close>

definition definite_refusal :: "Mt5SendResult option \<Rightarrow> bool" where
  "definite_refusal send \<longleftrightarrow> (\<exists>sent. send = Some sent \<and> \<not> is_success_retcode (mr_retcode sent) \<and> \<not> is_unknown_retcode (mr_retcode sent))"

definition named_deal :: "Mt5SendResult option \<Rightarrow> int option" where
  "named_deal send = (case send of Some sent \<Rightarrow> if is_success_retcode (mr_retcode sent) then nonzero (mr_deal sent) else None | None \<Rightarrow> None)"

definition recorded_deals :: "MetaTraderBroker \<Rightarrow> MarketOrderRequest \<Rightarrow> int option \<Rightarrow> Mt5Request list \<Rightarrow> Mt5Deal list" where
  "recorded_deals self req fb lg = intent_deals self (mtb_clock self) (intent_magic (mor_order_id req) (mtb_magic_base self))
     (intent_comment (mor_order_id req)) fb lg"

lemma reconciled_iff: "(\<exists>p. reconcile_fill self req now magic c ext fb lg = (Inr (Some p), lg)) \<longleftrightarrow>
    0 < sum_list (map md_volume (intent_deals self now magic c fb lg))"
  by (auto simp: reconcile_fill_eq Let_def)

lemma reconciled_fields:
  assumes "reconcile_fill self req now magic c ext fb lg = (Inr (Some p), lg)"
  shows "fr_side (fst p) = mor_side req" "fr_broker_mode (fst p) = MT5_LIVE"
    "fr_quantity (fst p) = sum_list (map md_volume (intent_deals self now magic c fb lg))"
  using assms by (auto simp: reconcile_fill_eq Let_def split: if_splits)

text \<open>
  What is reported for an order whose refusal is not certain: filled with the recorded deals
  when there are any, unknown otherwise.
\<close>

definition settled_by_history :: "MetaTraderBroker \<Rightarrow> MarketOrderRequest \<Rightarrow> int option \<Rightarrow> Mt5Request list \<Rightarrow> BrokerSubmissionResult \<Rightarrow> bool" where
  "settled_by_history self req fb lg r \<longleftrightarrow> (let qty = sum_list (map md_volume (recorded_deals self req fb lg)) in
     if 0 < qty then bsr_outcome r = SO_FILLED \<and>
       (\<exists>f. bsr_fill r = Some f \<and> fr_side f = mor_side req \<and> fr_broker_mode f = MT5_LIVE \<and> fr_quantity f = qty)
     else bsr_outcome r = SO_UNKNOWN \<and> bsr_fill r = None)"

lemma recover_unknown_settles:
  "\<exists>r. recover_unknown self req (mtb_clock self) ext lg = (Inr r, lg) \<and> settled_by_history self req None lg r"
proof -
  let ?m = "intent_magic (mor_order_id req) (mtb_magic_base self)" and ?c = "intent_comment (mor_order_id req)"
  obtain v where v: "reconcile_fill self req (mtb_clock self) ?m ?c ext None lg = (Inr v, lg)"
    using reconcile_fill_run by blast
  note iff = reconciled_iff [of self req "mtb_clock self" ?m ?c ext None lg]
  show ?thesis
  proof (cases v)
    case None
    with iff v have "\<not> 0 < sum_list (map md_volume (recorded_deals self req None lg))" by (simp add: recorded_deals_def)
    then show ?thesis using v None
      by (cases ext) (simp_all add: recover_unknown_def comp_defs settled_by_history_def submission_def Let_def)
  next
    case (Some p)
    with iff v have "0 < sum_list (map md_volume (recorded_deals self req None lg))" by (auto simp: recorded_deals_def)
    with reconciled_fields [OF v [unfolded Some]] show ?thesis using v Some
      by (cases ext) (simp_all add: recover_unknown_def comp_defs settled_by_history_def recovered_submission_def
          submission_def recorded_deals_def Let_def)
  qed
qed

lemma settled_cases: "settled_by_history self req fb lg r \<Longrightarrow> bsr_outcome r = SO_FILLED \<or> bsr_outcome r = SO_UNKNOWN"
  by (auto simp: settled_by_history_def Let_def split: if_splits)

lemma settled_unknown:
  "settled_by_history self req fb lg r \<Longrightarrow> bsr_outcome r = SO_UNKNOWN \<Longrightarrow> bsr_outcome r' = SO_UNKNOWN \<Longrightarrow> bsr_fill r' = None \<Longrightarrow>
     settled_by_history self req fb lg r'"
  by (auto simp: settled_by_history_def Let_def split: if_splits)

lemma interpret_send_means:
  assumes q: "mq_magic q = intent_magic (mor_order_id req) (mtb_magic_base self)" "mq_comment q = intent_comment (mor_order_id req)"
  shows "\<exists>r. interpret_send self req cost q send lg = (Inr r, lg) \<and>
    (if definite_refusal send then bsr_outcome r = SO_REJECTED \<and> bsr_fill r = None
     else settled_by_history self req (named_deal send) lg r)"
proof (cases send)
  case None
  obtain r where r: "recover_unknown self req (mtb_clock self) None lg = (Inr r, lg)" "settled_by_history self req None lg r"
    using recover_unknown_settles by blast
  show ?thesis using settled_cases [OF r(2)] settled_unknown [OF r(2)] r(2)
    by (auto simp: None interpret_send_def Let_def comp_defs r(1) definite_refusal_def named_deal_def submission_def)
next
  case (Some sent)
  obtain r where r: "recover_unknown self req (mtb_clock self) (nonzero (mr_order sent)) lg = (Inr r, lg)"
      "settled_by_history self req None lg r"
    using recover_unknown_settles by blast
  let ?rec = "reconcile_fill self req (mtb_clock self) (mq_magic q) (mq_comment q) (nonzero (mr_order sent)) (nonzero (mr_deal sent)) lg"
  have excl: "\<not> (is_success_retcode c \<and> is_unknown_retcode c)" for c
    by (auto simp: is_success_retcode_def is_unknown_retcode_def)
  obtain v where v: "?rec = (Inr v, lg)" using reconcile_fill_run by blast
  have done_: "if v = None then sum_list (map md_volume (recorded_deals self req (nonzero (mr_deal sent)) lg)) \<le> 0
      else 0 < sum_list (map md_volume (recorded_deals self req (nonzero (mr_deal sent)) lg)) \<and> fr_side (fst (the v)) = mor_side req \<and>
        fr_broker_mode (fst (the v)) = MT5_LIVE \<and>
        fr_quantity (fst (the v)) = sum_list (map md_volume (recorded_deals self req (nonzero (mr_deal sent)) lg))"
    using v reconciled_iff [of self req "mtb_clock self" "mq_magic q" "mq_comment q" "nonzero (mr_order sent)" "nonzero (mr_deal sent)" lg]
    by (cases v) (auto simp: recorded_deals_def q dest: reconciled_fields)
  consider (unknown) "is_unknown_retcode (mr_retcode sent)" | (ok) "is_success_retcode (mr_retcode sent)"
    | (refused) "\<not> is_unknown_retcode (mr_retcode sent)" "\<not> is_success_retcode (mr_retcode sent)" by blast
  then show ?thesis
  proof cases
    case unknown
    with excl have "\<not> is_success_retcode (mr_retcode sent)" by blast
    with unknown show ?thesis using settled_cases [OF r(2)] settled_unknown [OF r(2)] r(2)
      by (auto simp: Some interpret_send_def Let_def comp_defs r(1) definite_refusal_def named_deal_def submission_def)
  next
    case ok
    with excl have nu: "\<not> is_unknown_retcode (mr_retcode sent)" by blast
    show ?thesis using done_
      by (cases v) (auto simp: Some interpret_send_def Let_def comp_defs v ok nu definite_refusal_def named_deal_def
          settled_by_history_def submission_def)
  next
    case refused
    then show ?thesis
      by (simp add: Some interpret_send_def Let_def comp_defs definite_refusal_def submission_def)
  qed
qed

lemma live_outcome:
  assumes "order_cleared self req q"
  shows "\<exists>r. fst (live_submit_market_order self req cost lg) = Inr r \<and>
    (if definite_refusal (rt_order_send (mtb_runtime self) lg q) then bsr_outcome r = SO_REJECTED \<and> bsr_fill r = None
     else settled_by_history self req (named_deal (rt_order_send (mtb_runtime self) lg q)) (lg @ [q]) r)"
proof -
  have "mq_magic q = intent_magic (mor_order_id req) (mtb_magic_base self)" "mq_comment q = intent_comment (mor_order_id req)"
    using assms by (auto simp: order_cleared_def build_request_def Let_def)
  from interpret_send_means [OF this] show ?thesis by (metis submit_cleared [OF assms] fst_conv)
qed

interpretation live: execution_broker "\<lambda>req cost. fst (live_submit_market_order self req cost lg)" MT5_LIVE for self lg
proof unfold_locales
  fix req cost r
  assume run: "fst (live_submit_market_order self req cost lg) = Inr r"
  have "(bsr_outcome r = SO_FILLED \<longrightarrow> (\<exists>f. bsr_fill r = Some f \<and> fr_side f = mor_side req \<and> fr_broker_mode f = MT5_LIVE)) \<and>
        (bsr_outcome r \<noteq> SO_FILLED \<longrightarrow> bsr_fill r = None)"
  proof (cases "\<exists>q. order_cleared self req q")
    case True
    then obtain q where "order_cleared self req q" by blast
    from live_outcome [OF this, of cost lg] run show ?thesis
      by (auto simp: settled_by_history_def Let_def split: if_splits)
  next
    case False
    from submit_not_cleared [OF this, of cost lg] run show ?thesis by auto
  qed
  then show "bsr_outcome r = SO_FILLED \<Longrightarrow> \<exists>f. bsr_fill r = Some f \<and> fr_side f = mor_side req \<and> fr_broker_mode f = MT5_LIVE"
    and "bsr_outcome r \<noteq> SO_FILLED \<Longrightarrow> bsr_fill r = None" by blast+
qed

text \<open>
  C32. An order that was sent is never lost: it is reported as rejected exactly when the terminal
  refused it for certain, and after a missing, ambiguous or successful answer the deals on
  record decide. If they have a positive volume the order is filled with that volume on the
  requested side, otherwise its outcome is unknown, which blocks the deployment.
\<close>

theorem sent_order_settled_by_deals:
  assumes "order_cleared self req q"
    and "send = rt_order_send (mtb_runtime self) lg q"
    and "qty = sum_list (map md_volume (recorded_deals self req (named_deal send) (lg @ [q])))"
  shows "\<exists>r. fst (live_submit_market_order self req cost lg) = Inr r \<and>
    (bsr_outcome r = SO_REJECTED \<longleftrightarrow> definite_refusal send) \<and>
    (bsr_outcome r = SO_FILLED \<longleftrightarrow> \<not> definite_refusal send \<and> 0 < qty) \<and>
    (accepted r \<longleftrightarrow> (\<exists>f. bsr_fill r = Some f)) \<and>
    (\<forall>f. bsr_fill r = Some f \<longrightarrow> fr_quantity f = qty \<and> fr_side f = mor_side req)"
proof -
  obtain r where r: "fst (live_submit_market_order self req cost lg) = Inr r"
    and m: "if definite_refusal send then bsr_outcome r = SO_REJECTED \<and> bsr_fill r = None
      else settled_by_history self req (named_deal send) (lg @ [q]) r"
    using live_outcome [OF assms(1), of cost lg] unfolding assms(2) by blast
  from live.fill_iff_accepted [OF r] have "accepted r \<longleftrightarrow> (\<exists>f. bsr_fill r = Some f)" by blast
  with r m show ?thesis unfolding assms(3)
    by (auto simp: settled_by_history_def Let_def split: if_splits)
qed

section \<open>A terminal that times out after filling\<close>

definition ex_deal :: Mt5Deal where
  "ex_deal = \<lparr>md_ticket = 7, md_magic = 5, md_comment = [], md_volume = 2, md_price = 101, md_time = 0\<rparr>"

definition ex_runtime :: Mt5Runtime where
  "ex_runtime = \<lparr>rt_is_stub = False, rt_account_info = Some \<lparr>ma_login = 1, ma_trade_allowed = True\<rparr>,
     rt_symbol_select = (\<lambda>_. True),
     rt_symbol_info = (\<lambda>_. Some \<lparr>ms_volume_step = 1, ms_volume_min = 1, ms_volume_max = 10, ms_filling_mode = 1,
       ms_digits = 0, ms_trade_mode = 4\<rparr>),
     rt_symbol_info_tick = (\<lambda>_. Some \<lparr>mt_bid = 100, mt_ask = 101, mt_time = 0\<rparr>),
     rt_order_check = (\<lambda>_. Some 10009), rt_order_send = (\<lambda>_ _. Some \<lparr>mr_retcode = 10012, mr_order = 0, mr_deal = 0\<rparr>),
     rt_orders_get = (\<lambda>_ _. False), rt_history_deals = (\<lambda>lg _ _. if lg = [] then [] else [ex_deal, ex_deal]),
     rt_last_error = (0, [])\<rparr>"

definition ex_live_broker :: MetaTraderBroker where
  "ex_live_broker = \<lparr>mtb_runtime = ex_runtime, mtb_clock = 0,
     mtb_gates = \<lparr>leg_enabled = True, leg_account_allowlist = {1}, leg_deployment_live_activation_enabled = True,
       leg_controlled_account_validated = True\<rparr>,
     mtb_dry_run = False, mtb_slippage_deviation = 20, mtb_max_quote_age_seconds = 30, mtb_magic_base = 0,
     mtb_reconcile_lookback = 0\<rparr>"

definition ex_live_order :: MarketOrderRequest where
  "ex_live_order = \<lparr>mor_deployment_id = 1, mor_order_id = 5, mor_symbol = ''WIN'', mor_side = BUY, mor_quantity = 2,
     mor_external_fill_id = ''paper:5''\<rparr>"

definition ex_sent :: Mt5Request where
  "ex_sent = \<lparr>mq_action = 1, mq_symbol = ''WIN'', mq_volume = 2, mq_type = 0, mq_price = 101, mq_deviation = 20,
     mq_magic = 5, mq_comment = intent_comment 5, mq_type_time = 0, mq_type_filling = 0\<rparr>"

definition ex_symbol :: Mt5SymbolInfo where
  "ex_symbol = \<lparr>ms_volume_step = 1, ms_volume_min = 1, ms_volume_max = 10, ms_filling_mode = 1, ms_digits = 0, ms_trade_mode = 4\<rparr>"

definition ex_tick :: Mt5Tick where
  "ex_tick = \<lparr>mt_bid = 100, mt_ask = 101, mt_time = 0\<rparr>"

lemma ex_live_parts:
  "normalize_volume (mor_quantity ex_live_order) (ms_volume_step ex_symbol) (ms_volume_min ex_symbol) (ms_volume_max ex_symbol) = Inr 2"
  "select_filling_mode (ms_filling_mode ex_symbol) = Inr 0"
  "ex_sent = build_request ex_live_broker ex_live_order ex_symbol ex_tick 2 0"
  "is_success_retcode 10009"
  by code_simp+

lemma ex_order_cleared: "order_cleared ex_live_broker ex_live_order ex_sent"
  unfolding order_cleared_def Let_def
  by (rule exI [of _ "\<lparr>ma_login = 1, ma_trade_allowed = True\<rparr>"], rule exI [of _ ex_symbol], rule exI [of _ ex_tick],
      rule exI [of _ 2], rule exI [of _ 0], rule exI [of _ 10009])
     (simp add: ex_live_parts(1,2,4) flip: ex_live_parts(3),
      simp add: ex_live_broker_def ex_runtime_def gates_open_def ex_symbol_def ex_tick_def seconds_def total_seconds_def)

theorem sent_order_settled_by_deals_witness:
  "\<exists>r. fst (live_submit_market_order ex_live_broker ex_live_order (\<lparr>pcc_point_value = 1, pcc_slippage_points = 0,
      pcc_cost_per_contract = 0, pcc_cost_bps = 0, pcc_max_quote_age_seconds = 30, pcc_volume_step = 1, pcc_min_volume = 1\<rparr>) []) = Inr r \<and>
    bsr_outcome r = SO_FILLED \<and> (\<forall>f. bsr_fill r = Some f \<longrightarrow> fr_quantity f = 2)"
proof -
  let ?send = "rt_order_send (mtb_runtime ex_live_broker) [] ex_sent"
  have send: "?send = Some \<lparr>mr_retcode = 10012, mr_order = 0, mr_deal = 0\<rparr>"
    by (simp add: ex_live_broker_def ex_runtime_def)
  have "\<not> definite_refusal ?send" by (simp add: send definite_refusal_def is_unknown_retcode_def)
  moreover have "sum_list (map md_volume (recorded_deals ex_live_broker ex_live_order (named_deal ?send) ([] @ [ex_sent]))) = 2"
    by code_simp
  ultimately show ?thesis
    using sent_order_settled_by_deals [OF ex_order_cleared refl refl] by (metis zero_less_numeral)
qed

end
