(* ===== verification/Bars_Correct.thy ===== *)
theory Bars_Correct
  imports Bars
begin

text \<open>
  What a poll of the bar coordinator delivers: one fetch for each stream, however many consumers
  share it, and to each consumer only completed bars it has not evaluated, in order.
\<close>

lemma add_to_group_keys:
  "distinct (map fst gs) \<Longrightarrow> distinct (map fst (add_to_group c gs)) \<and>
     fst ` set (add_to_group c gs) = insert (stream_key c) (fst ` set gs)"
  by (induction gs) (auto simp: image_iff)

lemma group_consumers_keys:
  "distinct (map fst (group_consumers cs)) \<and> fst ` set (group_consumers cs) = stream_key ` set cs"
proof -
  have "distinct (map fst gs) \<Longrightarrow> distinct (map fst (fold add_to_group cs gs)) \<and>
      fst ` set (fold add_to_group cs gs) = stream_key ` set cs \<union> fst ` set gs" for gs
    by (induction cs arbitrary: gs) (auto simp: add_to_group_keys)
  from this [of "[]"] show ?thesis by (simp add: group_consumers_def)
qed

text \<open>One batch for each group, under its key, at the cost of one fetch.\<close>

lemma poll_groups_run:
  assumes "for_each (\<lambda>(key, group). bnd (fetch_stream self key group now win) (\<lambda>batch. ret (key, batch))) gs n = (Inr batches, n')"
  shows "n' = n + length gs \<and> map fst batches = map fst gs \<and>
    (\<forall>(key, batch)\<in>set batches. \<exists>group m m'. fetch_stream self key group now win m = (Inr batch, m'))"
  using assms
proof (induction gs arbitrary: n batches)
  case (Cons g gs)
  obtain key group where g: "g = (key, group)" by (cases g)
  from Cons.prems obtain batch m rest where f: "fetch_stream self key group now win n = (Inr batch, m)"
    and r: "for_each (\<lambda>(key, group). bnd (fetch_stream self key group now win) (\<lambda>batch. ret (key, batch))) gs m = (Inr rest, n')"
    and b: "batches = (key, batch) # rest"
    by (auto simp: g bnd_def ret_def split: prod.splits sum.splits)
  have "m = Suc n" using f by (rule fetch_stream_run)
  with Cons.IH [OF r] f show ?case by (auto simp: b g)
qed (simp add: ret_def)

text \<open>
  C36: a poll of the coordinator fetches each stream once, and gives every consumer a batch. The
  bars it then selects for a consumer are in order, have all closed by the time of the poll,
  so that no forming bar is ever evaluated, and close after the last bar the consumer has
  evaluated.
\<close>

theorem poll_delivers_new_completed_bars:
  assumes "poll self cs win n = (Inr batches, n')" and "c \<in> set cs"
  shows "n' = n + card (stream_key ` set cs) \<and>
    (\<exists>batch d bars. map_of batches (stream_key c) = Some batch \<and> bar_duration (upper (dbc_timeframe c)) = Inr d \<and>
       new_bars_for_consumer batch c = Inr bars \<and> sorted (map bar_time bars) \<and>
       (\<forall>b\<in>set bars. bar_time b + d \<le> bco_clock self \<and> (\<forall>t. dbc_last_evaluated_close c = Some t \<longrightarrow> t < bar_time b + d)))"
proof -
  let ?gs = "group_consumers cs" and ?k = "stream_key c"
  have run: "n' = n + length ?gs" "map fst batches = map fst ?gs"
    "\<forall>(key, batch)\<in>set batches. \<exists>group m m'. fetch_stream self key group (bco_clock self) win m = (Inr batch, m')"
    using poll_groups_run [OF assms(1) [unfolded poll_def]] by blast+
  have "length ?gs = card (stream_key ` set cs)"
    using group_consumers_keys [of cs] by (metis distinct_card length_map list.set_map)
  moreover have "?k \<in> set (map fst batches)" unfolding run(2) using group_consumers_keys [of cs] assms(2) by simp
  then obtain batch where batch: "map_of batches ?k = Some batch" by (metis in_set_conv_decomp list.set_map map_of_eq_None_iff not_None_eq)
  obtain group m m' where f: "fetch_stream self ?k group (bco_clock self) win m = (Inr batch, m')"
    using run(3) map_of_SomeD [OF batch] by fastforce
  obtain d where d: "bar_duration (bsk_timeframe ?k) = Inr d" using f by (rule fetch_stream_run)
  have "cbb_key batch = ?k" "frame_completed d (bco_clock self) (cbb_frame batch)" using fetched_frame_completed [OF f d] by blast+
  moreover from this d have "new_bars_for_consumer batch c = Inr (filter (\<lambda>b. case dbc_last_evaluated_close c of
      None \<Rightarrow> True | Some t \<Rightarrow> t < bar_time b + d) (cbb_frame batch))"
    by (intro new_bars_eq) simp
  ultimately show ?thesis
    using run(1) batch d by (auto simp: frame_completed_def stream_key_def sorted_filter intro!: exI [of _ batch] exI [of _ d])
qed

theorem poll_delivers_new_completed_bars_witness:
  "\<exists>batches batch. poll \<lparr>bco_provider = (\<lambda>_ _ _ _. Inr []), bco_clock = 0, bco_overlap_bars = 1\<rparr>
       [\<lparr>dbc_deployment_id = ''a'', dbc_symbol = ''WIN'', dbc_timeframe = ''m15'', dbc_last_evaluated_close = None\<rparr>,
        \<lparr>dbc_deployment_id = ''b'', dbc_symbol = ''WIN'', dbc_timeframe = ''M15'', dbc_last_evaluated_close = Some 0\<rparr>]
       (Some 10) 0 = (Inr batches, Suc 0) \<and>
     map_of batches \<lparr>bsk_symbol = ''WIN'', bsk_timeframe = ''M15''\<rparr> = Some batch"
proof -
  let ?self = "\<lparr>bco_provider = (\<lambda>_ _ _ _. Inr []), bco_clock = 0, bco_overlap_bars = 1\<rparr>"
  let ?a = "\<lparr>dbc_deployment_id = ''a'', dbc_symbol = ''WIN'', dbc_timeframe = ''m15'', dbc_last_evaluated_close = None\<rparr>"
  let ?b = "\<lparr>dbc_deployment_id = ''b'', dbc_symbol = ''WIN'', dbc_timeframe = ''M15'', dbc_last_evaluated_close = Some 0\<rparr>"
  have ok: "isl (fst (poll ?self [?a, ?b] (Some 10) 0)) = False" by code_simp
  then obtain batches n' where run: "poll ?self [?a, ?b] (Some 10) 0 = (Inr batches, n')"
    by (cases "poll ?self [?a, ?b] (Some 10) 0"; cases "fst (poll ?self [?a, ?b] (Some 10) 0)") auto
  have key: "stream_key ?a = \<lparr>bsk_symbol = ''WIN'', bsk_timeframe = ''M15''\<rparr>" "stream_key ?b = stream_key ?a" by code_simp+
  show ?thesis using poll_delivers_new_completed_bars [OF run, of ?b] run by (auto simp: key)
qed

end
