(* ===== verification/Bt_Engine.thy ===== *)
theory Bt_Engine
  imports Evaluator
begin

text \<open>
  The candle backtest engine, \<^verbatim>\<open>backtesting/engine.py\<close>. Signals derived from a closed bar are
  queued and filled at the next bar's open. The strategy is the parameter of the forward
  evaluator, with the prices and the volatility it may read from a row; \<^verbatim>\<open>uuid4\<close> is a supply of
  identifiers. The three day-trade times are given as times of day; a time that does not parse
  is \<open>None\<close> and raises. The conversion of the index to timestamps is not modelled.
\<close>

section \<open>State\<close>

datatype ParallelMode = SEQUENTIAL | DAY_TRADE

record ('st, 'row) BacktestEngine =
  be_strategy :: "('st, 'row) TradingStrategy"
  be_sizer :: PositionSizer
  be_initial_capital :: decimal
  be_point_values :: "(string \<times> decimal) list"
  be_day_trade :: bool
  be_day_trade_times :: "(int \<times> int \<times> int) option"
  be_costs :: "TransactionCostConfig option"
  be_open :: "'row \<Rightarrow> decimal option"
  be_close :: "'row \<Rightarrow> decimal option"
  be_volatility :: "'row \<Rightarrow> decimal option"
  be_uuid4 :: "nat \<Rightarrow> string"

record 'st bt_state =
  bt_registry :: TradeRegistry
  bt_capital :: decimal
  bt_pending_exits :: "Signal list"
  bt_pending_entries :: "Signal list"
  bt_strategy_state :: 'st
  bt_uuids :: nat

text \<open>\<^verbatim>\<open>timestamp.date()\<close> and \<^verbatim>\<open>timestamp.time()\<close>.\<close>

definition date_of :: "datetime \<Rightarrow> int" where
  "date_of t = t div (24 * 60 * 60 * 1000000)"

definition time_of :: "datetime \<Rightarrow> int" where
  "time_of t = t mod (24 * 60 * 60 * 1000000)"

section \<open>Closing and opening trades\<close>

definition close_trade_with_costs ::
    "('st, 'row) BacktestEngine \<Rightarrow> string \<Rightarrow> datetime \<Rightarrow> decimal \<Rightarrow> string option \<Rightarrow> TradeRegistry \<Rightarrow> Trade option \<times> TradeRegistry" where
  "close_trade_with_costs self trade_id exit_time exit_price exit_reason registry =
     (let registry = (case map_of (reg_trades registry) trade_id of
        None \<Rightarrow> registry
      | Some trade \<Rightarrow> if tr_status trade = TR_CLOSED then registry
          else registry\<lparr>reg_trades := dict_put trade_id (trade\<lparr>tr_commission := tr_commission trade +
            side_cost (be_costs self) exit_price (tr_quantity trade) (tr_point_value trade)\<rparr>) (reg_trades registry)\<rparr>)
      in close_trade trade_id exit_time exit_price exit_reason registry)"

text \<open>Close one trade and credit its profit or loss; then a list of them.\<close>

definition settle_trade ::
    "('st, 'row) BacktestEngine \<Rightarrow> datetime \<Rightarrow> decimal \<Rightarrow> string \<Rightarrow> Trade \<Rightarrow> 'st bt_state \<Rightarrow> 'st bt_state" where
  "settle_trade self timestamp price reason t s =
     (case close_trade_with_costs self (tr_id t) timestamp price (Some reason) (bt_registry s) of
        (result, registry) \<Rightarrow> s\<lparr>bt_registry := registry, bt_capital := bt_capital s +
          (case result of None \<Rightarrow> 0 | Some c \<Rightarrow> (case tr_pnl c of None \<Rightarrow> 0 | Some p \<Rightarrow> p))\<rparr>)"

definition settle_trades ::
    "('st, 'row) BacktestEngine \<Rightarrow> datetime \<Rightarrow> decimal \<Rightarrow> string \<Rightarrow> Trade list \<Rightarrow> 'st bt_state \<Rightarrow> 'st bt_state" where
  "settle_trades self timestamp price reason ts s = fold (settle_trade self timestamp price reason) ts s"

text \<open>Section B: an exit closes every open trade of its symbol.\<close>

definition execute_exit ::
    "('st, 'row) BacktestEngine \<Rightarrow> datetime \<Rightarrow> decimal \<Rightarrow> Signal \<Rightarrow> 'st bt_state \<Rightarrow> 'st bt_state" where
  "execute_exit self timestamp price sig s =
     (if sg_action sig \<noteq> BT_CLOSE then s
      else settle_trades self timestamp price (reason_or (sg_exit_reason sig) ''SIGNAL'')
        (filter (\<lambda>t. tr_symbol t = sg_symbol sig) (get_open_trades (bt_registry s))) s)"

text \<open>Section C: an entry is sized, capped by what the sizer lets the symbol hold, and filled.\<close>

definition open_quantity :: "string \<Rightarrow> TradeRegistry \<Rightarrow> decimal" where
  "open_quantity symbol registry = sum_list (map tr_quantity (filter (\<lambda>t. tr_symbol t = symbol) (get_open_trades registry)))"

definition cap_order :: "decimal option \<Rightarrow> TradeRegistry \<Rightarrow> Order \<Rightarrow> Order option" where
  "cap_order max_size registry order = (case max_size of
     None \<Rightarrow> Some order
   | Some m \<Rightarrow> let remaining = m - open_quantity (bo_symbol order) registry in
       if remaining \<le> 0 then None
       else if bo_quantity order > remaining then Some (order\<lparr>bo_quantity := remaining\<rparr>) else Some order)"

definition point_value_of :: "('st, 'row) BacktestEngine \<Rightarrow> string \<Rightarrow> decimal" where
  "point_value_of self symbol = (case map_of (be_point_values self) symbol of None \<Rightarrow> 1 | Some v \<Rightarrow> v)"

definition fill_order :: "('st, 'row) BacktestEngine \<Rightarrow> datetime \<Rightarrow> decimal \<Rightarrow> Order \<Rightarrow> 'st bt_state \<Rightarrow> 'st bt_state" where
  "fill_order self timestamp price order s =
     (let point_val = point_value_of self (bo_symbol order);
          trade = new_trade (be_uuid4 self (bt_uuids s)) (bo_id order) (bo_symbol order) (bo_action order) (bo_quantity order)
            timestamp price point_val (side_cost (be_costs self) price (bo_quantity order) point_val)
      in s\<lparr>bt_registry := register_trade trade (register_order order (bt_registry s)), bt_uuids := Suc (bt_uuids s)\<rparr>)"

definition execute_entry ::
    "('st, 'row) BacktestEngine \<Rightarrow> datetime \<Rightarrow> decimal \<Rightarrow> 'row \<Rightarrow> Signal \<Rightarrow> 'st bt_state \<Rightarrow> 'st bt_state" where
  "execute_entry self timestamp price current_data sig s =
     (case size_signal (be_sizer self) (be_uuid4 self (bt_uuids s)) sig price (bt_capital s) (be_volatility self current_data) of
        None \<Rightarrow> s
      | Some order \<Rightarrow>
          let s = s\<lparr>bt_uuids := Suc (bt_uuids s)\<rparr> in
          (case cap_order (max_position_size (be_sizer self) price (bt_capital s)) (bt_registry s) order of
             None \<Rightarrow> s
           | Some order \<Rightarrow> fill_order self timestamp price order s))"

section \<open>One bar\<close>

text \<open>Section D: the exits and entries queued for the next bar.\<close>

definition queue_exits :: "('st, 'row) BacktestEngine \<Rightarrow> 'row \<Rightarrow> 'st bt_state \<Rightarrow> 'st bt_state" where
  "queue_exits self current_data s =
     (let open_trades = get_open_trades (bt_registry s);
          (rule_exits, st1) = (case ts_check_exits (be_strategy self) of
            None \<Rightarrow> ([], bt_strategy_state s) | Some check \<Rightarrow> check (bt_strategy_state s) open_trades current_data);
          (strategy_exits, st2) = ts_check_exit_conditions (be_strategy self) st1 current_data
            (filter (\<lambda>t. tr_symbol t \<notin> sg_symbol ` set rule_exits) open_trades)
      in s\<lparr>bt_pending_exits := rule_exits @ strategy_exits, bt_strategy_state := st2\<rparr>)"

definition queue_entries :: "('st, 'row) BacktestEngine \<Rightarrow> 'row \<Rightarrow> 'st bt_state \<Rightarrow> 'st bt_state" where
  "queue_entries self current_data s =
     (case ts_check_entry_conditions (be_strategy self) (bt_strategy_state s) current_data of
        (entries, st) \<Rightarrow> s\<lparr>bt_pending_entries := entries, bt_strategy_state := st\<rparr>)"

definition clear_pending :: "'st bt_state \<Rightarrow> 'st bt_state" where
  "clear_pending s = s\<lparr>bt_pending_exits := [], bt_pending_entries := []\<rparr>"

definition queue_signals ::
    "('st, 'row) BacktestEngine \<Rightarrow> (int \<times> int \<times> int) \<Rightarrow> bool \<Rightarrow> datetime \<Rightarrow> 'row \<Rightarrow> 'st bt_state \<Rightarrow> 'st bt_state" where
  "queue_signals self day_times is_last_bar_of_day timestamp current_data s =
     (case day_times of (start_t, end_t, close_t) \<Rightarrow>
      if be_day_trade self then
        if time_of timestamp < close_t \<and> \<not> is_last_bar_of_day then
          let s = queue_exits self current_data s in
          if start_t \<le> time_of timestamp \<and> time_of timestamp \<le> end_t then queue_entries self current_data s
          else s\<lparr>bt_pending_entries := []\<rparr>
        else clear_pending s
      else queue_entries self current_data (queue_exits self current_data s))"

definition fill_price_of :: "('st, 'row) BacktestEngine \<Rightarrow> 'row \<Rightarrow> decimal" where
  "fill_price_of self row = (case be_open self row of Some p \<Rightarrow> p
     | None \<Rightarrow> (case be_close self row of Some p \<Rightarrow> p | None \<Rightarrow> 0))"

text \<open>Sections B and C: what was queued on the previous bar.\<close>

definition execute_pending :: "('st, 'row) BacktestEngine \<Rightarrow> datetime \<Rightarrow> 'row \<Rightarrow> 'st bt_state \<Rightarrow> 'st bt_state" where
  "execute_pending self timestamp row s =
     (let price = fill_price_of self row;
          s = fold (execute_exit self timestamp price) (bt_pending_exits s) s
      in fold (execute_entry self timestamp price row) (bt_pending_entries s) s)"

definition end_of_day :: "('st, 'row) BacktestEngine \<Rightarrow> datetime \<Rightarrow> decimal \<Rightarrow> 'st bt_state \<Rightarrow> 'st bt_state" where
  "end_of_day self timestamp price s =
     clear_pending (settle_trades self timestamp price ''END_OF_DAY'' (get_open_trades (bt_registry s)) s)"

definition bar_step ::
    "('st, 'row) BacktestEngine \<Rightarrow> (int \<times> int \<times> int) \<Rightarrow> bool \<Rightarrow> datetime \<Rightarrow> 'row \<Rightarrow> 'st bt_state \<Rightarrow> 'st bt_state" where
  "bar_step self day_times is_last_bar_of_day timestamp row s =
     (if be_day_trade self \<and> snd (snd day_times) \<le> time_of timestamp then end_of_day self timestamp (fill_price_of self row) s
      else
        let s = queue_signals self day_times is_last_bar_of_day timestamp row (execute_pending self timestamp row s) in
        if be_day_trade self \<and> is_last_bar_of_day
        then end_of_day self timestamp (case be_close self row of Some p \<Rightarrow> p | None \<Rightarrow> fill_price_of self row) s
        else s)"

section \<open>A run\<close>

fun run_bars ::
    "('st, 'row) BacktestEngine \<Rightarrow> (int \<times> int \<times> int) \<Rightarrow> datetime option \<Rightarrow> (datetime \<times> 'row) list \<Rightarrow>
     'st bt_state \<Rightarrow> 'st bt_state" where
  "run_bars self day_times trade_start [] s = s"
| "run_bars self day_times trade_start ((timestamp, row) # rest) s =
     run_bars self day_times trade_start rest
       (if (case trade_start of None \<Rightarrow> False | Some t \<Rightarrow> timestamp < t) then s
        else bar_step self day_times
          (case rest of [] \<Rightarrow> True | (next_ts, _) # _ \<Rightarrow> date_of next_ts \<noteq> date_of timestamp) timestamp row s)"

definition start_state :: "('st, 'row) BacktestEngine \<Rightarrow> 'st \<Rightarrow> nat \<Rightarrow> 'st bt_state" where
  "start_state self st uuids = \<lparr>bt_registry = new_registry, bt_capital = be_initial_capital self, bt_pending_exits = [],
     bt_pending_entries = [], bt_strategy_state = st, bt_uuids = uuids\<rparr>"

definition force_close :: "('st, 'row) BacktestEngine \<Rightarrow> (datetime \<times> 'row) list \<Rightarrow> 'st bt_state \<Rightarrow> 'st bt_state" where
  "force_close self chunk s = (case last chunk of (final_time, final_row) \<Rightarrow>
     s\<lparr>bt_registry := fold (\<lambda>t r. snd (close_trade_with_costs self (tr_id t) final_time
         (case be_close self final_row of None \<Rightarrow> 0 | Some p \<Rightarrow> p) (Some ''FORCE_CLOSE'') r))
       (get_open_trades (bt_registry s)) (bt_registry s)\<rparr>)"

definition run_single_chunk ::
    "('st, 'row) BacktestEngine \<Rightarrow> frame \<Rightarrow> bool \<Rightarrow> datetime option \<Rightarrow> 'st \<Rightarrow> nat \<Rightarrow> exec_error + 'st bt_state" where
  "run_single_chunk self data force_close_at_end trade_start st uuids =
     (let chunk = ts_augment (be_strategy self) st data;
          loop = (\<lambda>day_times. let s = run_bars self day_times trade_start chunk (start_state self st uuids) in
            if force_close_at_end \<and> chunk \<noteq> [] then force_close self chunk s else s)
      in if be_day_trade self then (case be_day_trade_times self of
           None \<Rightarrow> Inl (ValueError ''Invalid day trade time config'' [])
         | Some day_times \<Rightarrow> Inr (loop day_times))
         else Inr (loop (0, 0, 0)))"

text \<open>\<^verbatim>\<open>data.groupby(data.index.date)\<close>: the days in ascending order, the bars of each in theirs.\<close>

definition days_of :: "frame \<Rightarrow> int list" where
  "days_of data = sorted_list_of_set ((\<lambda>b. date_of (bar_time b)) ` set data)"

fun run_days ::
    "('st, 'row) BacktestEngine \<Rightarrow> datetime option \<Rightarrow> frame list \<Rightarrow> TradeRegistry \<Rightarrow> 'st \<Rightarrow> nat \<Rightarrow> exec_error + TradeRegistry" where
  "run_days self trade_start [] master st uuids = Inr master"
| "run_days self trade_start (chunk # chunks) master st uuids =
     (case run_single_chunk self chunk True trade_start st uuids of
        Inl e \<Rightarrow> Inl e
      | Inr s \<Rightarrow> run_days self trade_start chunks (merge master (bt_registry s)) (bt_strategy_state s) (bt_uuids s))"

definition run_backtest ::
    "('st, 'row) BacktestEngine \<Rightarrow> frame \<Rightarrow> ParallelMode \<Rightarrow> datetime option \<Rightarrow> 'st \<Rightarrow> exec_error + TradeRegistry" where
  "run_backtest self data mode trade_start st =
     (if data = [] then Inr new_registry
      else case mode of
        DAY_TRADE \<Rightarrow> run_days self trade_start
          (map (\<lambda>d. filter (\<lambda>b. date_of (bar_time b) = d) data) (days_of data)) new_registry st 0
      | SEQUENTIAL \<Rightarrow> map_sum id bt_registry (run_single_chunk self data False trade_start st 0))"

end
