(* ===== verification/Evaluator_Correct.thy ===== *)
theory Evaluator_Correct
  imports Evaluator
begin

text \<open>
  What the evaluator guarantees for any strategy: each completed bar is emitted at most once
  and in order, whatever frames are delivered; the rolling window stays bounded, ordered and
  free of duplicates; a replay emits nothing and moves no watermark; and no new bar of a
  delivery is lost.
\<close>

section \<open>The watermark\<close>

definition emitted :: "ForwardDecisionResult list \<Rightarrow> datetime list" where
  "emitted rs = map fdr_bar_close_time (filter emits_decision rs)"

definition above :: "datetime option \<Rightarrow> datetime list \<Rightarrow> bool" where
  "above w xs \<longleftrightarrow> (\<forall>x\<in>set xs. case w of None \<Rightarrow> True | Some t \<Rightarrow> t < x)"

definition advance :: "datetime option \<Rightarrow> datetime list \<Rightarrow> datetime option" where
  "advance w xs = (if xs = [] then w else Some (last xs))"

lemma emitted_simps [simp]:
  "emitted [] = []" "emitted (r # rs) = (if emits_decision r then fdr_bar_close_time r # emitted rs else emitted rs)"
  "emitted (rs @ rs') = emitted rs @ emitted rs'"
  by (simp_all add: emitted_def)

text \<open>Evaluation in order above a watermark, as one relation closed under sequencing.\<close>

definition in_order :: "datetime option \<Rightarrow> datetime list \<Rightarrow> datetime option \<Rightarrow> bool" where
  "in_order w xs w' \<longleftrightarrow> sorted_wrt (<) xs \<and> above w xs \<and> w' = advance w xs"

lemma in_order_Nil [simp]: "in_order w [] w' \<longleftrightarrow> w' = w"
  by (simp add: in_order_def above_def advance_def)

lemma in_order_single: "(case w of None \<Rightarrow> True | Some t \<Rightarrow> t < x) \<Longrightarrow> in_order w [x] (Some x)"
  by (cases w) (simp_all add: in_order_def above_def advance_def)

lemma in_order_append: "in_order w xs w1 \<Longrightarrow> in_order w1 ys w2 \<Longrightarrow> in_order w (xs @ ys) w2"
proof (cases xs rule: rev_cases)
  case (snoc zs z)
  assume "in_order w xs w1" "in_order w1 ys w2"
  with snoc show ?thesis
    by (fastforce simp: in_order_def above_def advance_def sorted_wrt_append split: option.splits)
qed simp

lemma evaluate_row_run:
  "evaluate_row strat row t ev = (Inr r, ev') \<Longrightarrow>
     sev_replay_mode ev' = sev_replay_mode ev \<and> sev_rolling ev' = sev_rolling ev \<and>
     sev_window_bound ev' = sev_window_bound ev \<and> sev_timeframe ev' = sev_timeframe ev \<and>
     sev_open_trade ev' = sev_open_trade ev \<and> fdr_bar_close_time r = t \<and>
     fdr_replay r = sev_replay_mode ev \<and>
     fdr_skipped_duplicate r = (\<not> sev_replay_mode ev \<and> sev_last_evaluated_close ev = Some t) \<and>
     sev_last_evaluated_close ev' = (if emits_decision r then Some t else sev_last_evaluated_close ev)"
  by (auto simp: evaluate_row_def Let_def emits_decision_def split: prod.splits)

lemma evaluate_row_total: "\<exists>r ev'. evaluate_row strat row t ev = (Inr r, ev')"
  by (auto simp: evaluate_row_def Let_def split: prod.splits)

text \<open>The fields an evaluation leaves alone.\<close>

definition sev_frame where
  "sev_frame ev = (sev_replay_mode ev, sev_rolling ev, sev_window_bound ev, sev_timeframe ev, sev_open_trade ev)"

lemma ingest_rows_run:
  "\<exists>rs ev'. ingest_rows strat thr rows ev = (Inr rs, ev') \<and> sev_frame ev' = sev_frame ev \<and>
     (\<forall>r\<in>set rs. fdr_replay r = sev_replay_mode ev) \<and>
     in_order (sev_last_evaluated_close ev) (emitted rs) (sev_last_evaluated_close ev')"
proof (induction rows arbitrary: ev)
  case Nil
  then show ?case by (simp add: ret_def)
next
  case (Cons p rows)
  obtain ot ct where p: "p = (ot, ct)" by fastforce
  let ?stop = "case thr of None \<Rightarrow> False | Some t \<Rightarrow> t < ct"
  let ?w = "sev_last_evaluated_close ev"
  let ?row = "map_of (rev (ts_augment strat (sev_strategy_state ev) (sev_rolling ev))) ot"
  consider "?stop" | "\<not> ?stop" "(case ?w of None \<Rightarrow> False | Some w \<Rightarrow> ct < w) \<or> ?row = None"
    | row where "\<not> ?stop" "\<not> (case ?w of None \<Rightarrow> False | Some w \<Rightarrow> ct < w)" "?row = Some row"
    by (cases ?row) auto
  then show ?case
  proof cases
    case 1
    then show ?thesis by (simp add: p ret_def)
  next
    case 2
    then have "ingest_rows strat thr ((ot, ct) # rows) ev = ingest_rows strat thr rows ev"
      by (auto simp: bnd_gets)
    with Cons.IH [of ev] show ?thesis by (simp only: p)
  next
    case (3 row)
    obtain r ev1 where ev: "evaluate_row strat row ct ev = (Inr r, ev1)" using evaluate_row_total [of strat row ct ev] by blast
    note facts = evaluate_row_run [OF ev]
    from Cons.IH [of ev1] obtain rs ev2 where
      rs: "ingest_rows strat thr rows ev1 = (Inr rs, ev2)" "sev_frame ev2 = sev_frame ev1"
        "\<forall>r\<in>set rs. fdr_replay r = sev_replay_mode ev1"
        "in_order (sev_last_evaluated_close ev1) (emitted rs) (sev_last_evaluated_close ev2)" by blast
    have step: "in_order ?w (emitted [r]) (sev_last_evaluated_close ev1)"
      using facts 3(2) by (auto simp: emits_decision_def in_order_single split: option.splits if_splits)
    have "ingest_rows strat thr ((ot, ct) # rows) ev = (Inr (r # rs), ev2)"
      using 3 by (simp add: comp_defs ev rs(1))
    moreover have "in_order ?w (emitted (r # rs)) (sev_last_evaluated_close ev2)"
      using in_order_append [OF step rs(4)] by (simp split: if_splits)
    ultimately show ?thesis unfolding p
      by (intro exI [of _ "r # rs"] exI [of _ ev2]) (use facts rs(2,3) in \<open>simp add: sev_frame_def\<close>)
  qed
qed

text \<open>A delivery: the window after merging it, then its rows.\<close>

definition merged_window :: "'st StrategyEvaluator \<Rightarrow> frame \<Rightarrow> frame" where
  "merged_window ev fr =
     trim_rolling_window (sort_key bar_time (dedup_last (sev_rolling ev @ sort_key bar_time fr))) (sev_window_bound ev)"

lemma ingest_eq:
  assumes "fr \<noteq> []" and "bar_duration (sev_timeframe ev) = Inr d"
  shows "ingest_completed_bars strat fr thr ev =
    ingest_rows strat thr (map (\<lambda>b. (bar_time b, bar_time b + d)) (sort_key bar_time fr)) (ev\<lparr>sev_rolling := merged_window ev fr\<rparr>)"
proof -
  have "zip (map bar_time xs) (map (\<lambda>b. bar_time b + d) xs) = map (\<lambda>b. (bar_time b, bar_time b + d)) xs" for xs :: frame
    by (induction xs) simp_all
  with assms show ?thesis
    by (simp add: ingest_completed_bars_def merge_window_def Let_def bnd_modify bnd_reads frame_close_times_def merged_window_def)
qed

lemma ingest_in_order:
  assumes "ingest_completed_bars strat fr thr ev = (Inr rs, ev')"
  shows "in_order (sev_last_evaluated_close ev) (emitted rs) (sev_last_evaluated_close ev') \<and>
    (\<forall>r\<in>set rs. fdr_replay r = sev_replay_mode ev) \<and>
    sev_frame ev' = sev_frame (ev\<lparr>sev_rolling := (if fr = [] then sev_rolling ev else merged_window ev fr)\<rparr>)"
proof (cases "fr = []")
  case True
  with assms show ?thesis by (simp add: ingest_completed_bars_def ret_def sev_frame_def)
next
  case False
  from assms False obtain d where d: "bar_duration (sev_timeframe ev) = Inr d"
    by (cases "bar_duration (sev_timeframe ev)")
      (auto simp: ingest_completed_bars_def merge_window_def Let_def bnd_modify bnd_reads frame_close_times_def)
  let ?ev = "ev\<lparr>sev_rolling := merged_window ev fr\<rparr>"
  from ingest_rows_run [of strat thr "map (\<lambda>b. (bar_time b, bar_time b + d)) (sort_key bar_time fr)" ?ev] assms
  show ?thesis by (auto simp: ingest_eq [OF False d] False)
qed

text \<open>
  C22: whatever frames are delivered to a live evaluator, however they overlap, repeat or arrive
  out of order, the bars it emits decisions for have strictly increasing closing times, all
  later than the watermark it started from, and the watermark ends at the last one: no bar is
  ever decided twice by the evaluator.
\<close>

theorem evaluator_emits_each_bar_once:
  assumes "for_each (\<lambda>fr. ingest_completed_bars strat fr None) frs ev = (Inr rss, ev')"
  shows "in_order (sev_last_evaluated_close ev) (emitted (concat rss)) (sev_last_evaluated_close ev')"
  using assms
proof (induction frs arbitrary: ev rss)
  case Nil
  then show ?case by (simp add: ret_def)
next
  case (Cons fr frs)
  then obtain rs ev1 rss' where "ingest_completed_bars strat fr None ev = (Inr rs, ev1)"
    and "for_each (\<lambda>fr. ingest_completed_bars strat fr None) frs ev1 = (Inr rss', ev')" and "rss = rs # rss'"
    by (auto simp: bnd_def ret_def split: prod.splits sum.splits)
  with ingest_in_order [of strat fr None ev rs ev1] Cons.IH show ?case by (auto intro: in_order_append)
qed

section \<open>The rolling window\<close>

definition window_ok :: "'st StrategyEvaluator \<Rightarrow> bool" where
  "window_ok ev \<longleftrightarrow> sorted_wrt (<) (map bar_time (sev_rolling ev)) \<and> int (length (sev_rolling ev)) \<le> sev_window_bound ev \<and>
     0 < sev_window_bound ev"

lemma set_dedup_last: "set (dedup_last bs) \<subseteq> set bs" and times_dedup_last: "bar_time ` set (dedup_last bs) = bar_time ` set bs"
  and distinct_dedup_last: "distinct (map bar_time (dedup_last bs))"
  by (induction bs) auto

lemma dedup_last_id: "distinct (map bar_time bs) \<Longrightarrow> dedup_last bs = bs"
  by (induction bs) auto

lemma sorted_window: "sorted_wrt (<) (map bar_time (trim_rolling_window (sort_key bar_time (dedup_last bs)) n))"
proof -
  let ?xs = "sort_key bar_time (dedup_last bs)"
  have "distinct (map bar_time ?xs)" using distinct_dedup_last [of bs]
    by (simp add: distinct_map)
  then have strict: "sorted_wrt (<) (map bar_time ?xs)" by (simp add: strict_sorted_iff)
  obtain zs where "?xs = zs @ trim_rolling_window ?xs n" using trim_suffix [of ?xs n] by (auto simp: suffix_def)
  then have "map bar_time ?xs = map bar_time zs @ map bar_time (trim_rolling_window ?xs n)" by (metis map_append)
  with strict show ?thesis by (simp add: sorted_wrt_append)
qed

lemma merged_window_ok: "window_ok ev \<Longrightarrow> window_ok (ev\<lparr>sev_rolling := merged_window ev fr\<rparr>)"
  by (simp add: window_ok_def merged_window_def sorted_window length_trim)

lemma keeps_window_frame: "sev_frame ev' = sev_frame ev \<Longrightarrow> window_ok ev' = window_ok ev"
  by (simp add: window_ok_def sev_frame_def)

lemma ingest_rows_window: "keeps window_ok (ingest_rows strat thr rows)"
proof (rule keepsI)
  fix ev :: "'a StrategyEvaluator" assume ok: "window_ok ev"
  obtain rs ev' where "ingest_rows strat thr rows ev = (Inr rs, ev')" "sev_frame ev' = sev_frame ev"
    using ingest_rows_run [of strat thr rows ev] by blast
  with ok keeps_window_frame show "window_ok (snd (ingest_rows strat thr rows ev))" by fastforce
qed

lemma ingest_window: "keeps window_ok (ingest_completed_bars strat fr thr)"
proof -
  have "keeps window_ok (merge_window (sort_key bar_time fr))"
    using merged_window_ok by (auto simp: merge_window_def merged_window_def intro!: keeps_modify)
  then show ?thesis by (auto simp: ingest_completed_bars_def Let_def intro!: keeps_intros ingest_rows_window)
qed

lemma replay_window: "keeps window_ok (replay_recovery strat fr thr)"
  by (auto simp: replay_recovery_def window_ok_def intro!: keeps_intros keeps_modify ingest_window)

text \<open>
  The rolling window is bounded work. Live deliveries and replays keep it strictly ordered
  by opening time (so each bar occurs once) and no longer than the window bound, whether they
  return or raise.
\<close>

lemma rolling_window_bounded:
  "keeps window_ok (ingest_completed_bars strat fr thr) \<and> keeps window_ok (replay_recovery strat fr thr)"
  by (simp add: ingest_window replay_window)

section \<open>Replay\<close>

lemma replay_run:
  assumes "replay_recovery strat fr thr ev = (Inr rs, ev')"
  shows "emitted rs = [] \<and> sev_last_evaluated_close ev' = sev_last_evaluated_close ev \<and> \<not> sev_replay_mode ev'"
proof -
  let ?ev = "ev\<lparr>sev_replay_mode := True\<rparr>"
  from assms obtain ev1 where run: "ingest_completed_bars strat fr thr ?ev = (Inr rs, ev1)"
    and ev': "ev' = ev1\<lparr>sev_replay_mode := False\<rparr>"
    by (auto simp: replay_recovery_def bnd_modify comp_defs split: prod.splits sum.splits)
  from ingest_in_order [OF run] have "emitted rs = []"
    by (auto simp: emitted_def filter_empty_conv emits_decision_def)
  with ingest_in_order [OF run] ev' show ?thesis by simp
qed

section \<open>No bar is lost\<close>

definition indexed_like_bars :: "('st, 'row) TradingStrategy \<Rightarrow> bool" where
  "indexed_like_bars strat \<longleftrightarrow> (\<forall>st fr. map fst (ts_augment strat st fr) = map bar_time fr)"

definition past :: "datetime option \<Rightarrow> datetime \<Rightarrow> bool" where
  "past w t \<longleftrightarrow> (case w of None \<Rightarrow> True | Some x \<Rightarrow> x < t)"

lemma row_present:
  assumes "indexed_like_bars strat"
  shows "map_of (rev (ts_augment strat st fr)) t = None \<longleftrightarrow> t \<notin> bar_time ` set fr"
proof -
  have "fst ` set (ts_augment strat st fr) = bar_time ` set fr"
    using assms unfolding indexed_like_bars_def by (metis list.set_map)
  then show ?thesis by (simp add: map_of_eq_None_iff)
qed

lemma ingest_rows_complete:
  assumes idx: "indexed_like_bars strat"
  shows "\<not> sev_replay_mode ev \<Longrightarrow> sorted_wrt (<) (map snd rows) \<Longrightarrow>
    \<forall>p\<in>set rows. past (sev_last_evaluated_close ev) (snd p) \<longrightarrow> fst p \<in> bar_time ` set (sev_rolling ev) \<Longrightarrow>
    ingest_rows strat None rows ev = (Inr rs, ev') \<Longrightarrow>
    emitted rs = filter (past (sev_last_evaluated_close ev)) (map snd rows)"
proof (induction rows arbitrary: ev rs)
  case Nil
  then show ?case by (simp add: ret_def)
next
  case (Cons p rows)
  obtain ot ct where p: "p = (ot, ct)" by fastforce
  let ?w = "sev_last_evaluated_close ev"
  let ?row = "map_of (rev (ts_augment strat (sev_strategy_state ev) (sev_rolling ev))) ot"
  note run = Cons.prems(4) [unfolded p]
  show ?case
  proof (cases "past ?w ct")
    case True
    with Cons.prems(3) have "ot \<in> bar_time ` set (sev_rolling ev)" by (auto simp: p)
    then obtain row where row: "?row = Some row" using row_present [OF idx] by (metis not_None_eq)
    have nskip: "\<not> (case ?w of None \<Rightarrow> False | Some w \<Rightarrow> ct < w)" using True by (auto simp: past_def split: option.splits)
    obtain r ev1 where ev: "evaluate_row strat row ct ev = (Inr r, ev1)" using evaluate_row_total [of strat row ct ev] by blast
    note facts = evaluate_row_run [OF ev]
    have emit: "emits_decision r"
      using True facts Cons.prems(1) by (auto simp: emits_decision_def past_def)
    obtain rs1 where rs1: "ingest_rows strat None rows ev1 = (Inr rs1, ev')" "rs = r # rs1"
      using run row nskip by (auto simp: comp_defs ev split: prod.splits sum.splits)
    have later: "past ?w t" "past (Some ct) t" if "t \<in> set (map snd rows)" for t
      using that Cons.prems(2) True by (auto simp: p past_def split: option.splits)
    have "emitted rs1 = filter (past (sev_last_evaluated_close ev1)) (map snd rows)"
      using Cons.prems facts emit later rs1(1) by (intro Cons.IH) (auto simp: p)
    also have "\<dots> = filter (past ?w) (map snd rows)"
      using later facts emit by (intro filter_cong) auto
    finally show ?thesis using rs1(2) emit facts True by (simp add: p)
  next
    case False
    have "\<exists>ev1 rs1. ingest_rows strat None rows ev1 = (Inr rs1, ev') \<and> emitted rs = emitted rs1 \<and>
        sev_frame ev1 = sev_frame ev \<and> sev_last_evaluated_close ev1 = ?w"
    proof (cases "(case ?w of None \<Rightarrow> False | Some w \<Rightarrow> ct < w) \<or> ?row = None")
      case True
      then have "ingest_rows strat None ((ot, ct) # rows) ev = ingest_rows strat None rows ev" by (auto simp: bnd_gets)
      then have "ingest_rows strat None rows ev = (Inr rs, ev')" using run by (rule trans [OF sym])
      then show ?thesis by blast
    next
      case skip: False
      then obtain row where row: "?row = Some row" and nskip: "\<not> (case ?w of None \<Rightarrow> False | Some w \<Rightarrow> ct < w)" by auto
      obtain r ev1 where ev: "evaluate_row strat row ct ev = (Inr r, ev1)" using evaluate_row_total [of strat row ct ev] by blast
      note facts = evaluate_row_run [OF ev]
      have dup: "\<not> emits_decision r"
        using False nskip facts Cons.prems(1) by (auto simp: emits_decision_def past_def split: option.splits)
      obtain rs1 where "ingest_rows strat None rows ev1 = (Inr rs1, ev')" "rs = r # rs1"
        using run row nskip by (auto simp: comp_defs ev split: prod.splits sum.splits)
      with dup facts show ?thesis by (intro exI [of _ ev1] exI [of _ rs1]) (auto simp: sev_frame_def)
    qed
    then obtain ev1 rs1 where r1: "ingest_rows strat None rows ev1 = (Inr rs1, ev')" "emitted rs = emitted rs1"
      "sev_frame ev1 = sev_frame ev" "sev_last_evaluated_close ev1 = ?w" by blast
    have "emitted rs1 = filter (past (sev_last_evaluated_close ev1)) (map snd rows)"
      using Cons.prems r1 by (intro Cons.IH) (auto simp: sev_frame_def)
    with r1 False show ?thesis by (simp add: p)
  qed
qed

text \<open>The last bars of an ordered window survive its trimming.\<close>

lemma late_in_drop:
  assumes "sorted_wrt (<) xs" and "t \<in> set xs" and "card {u \<in> set xs. t \<le> u} \<le> n"
  shows "(t :: int) \<in> set (drop (length xs - n) xs)"
proof (rule ccontr)
  let ?k = "length xs - n"
  assume out: "t \<notin> set (drop ?k xs)"
  then have t: "t \<in> set (take ?k xs)" using assms(2) by (metis Un_iff append_take_drop_id set_append)
  then have k: "0 < ?k" by (cases ?k) auto
  have sorted: "sorted_wrt (<) (take ?k xs @ drop ?k xs)" using assms(1) by simp
  then have above: "\<forall>u\<in>set (drop ?k xs). t < u" using t by (simp add: sorted_wrt_append del: append_take_drop_id)
  have "distinct xs" using assms(1) by (simp add: strict_sorted_iff)
  then have "distinct (drop ?k xs)" by (rule distinct_drop)
  then have "card (set (drop ?k xs)) = n" using k by (simp add: distinct_card)
  moreover have "insert t (set (drop ?k xs)) \<subseteq> {u \<in> set xs. t \<le> u}"
    using above assms(2) by (auto dest: in_set_dropD)
  then have "card (insert t (set (drop ?k xs))) \<le> card {u \<in> set xs. t \<le> u}" by (intro card_mono) auto
  with assms(3) have "card (insert t (set (drop ?k xs))) \<le> n" by linarith
  ultimately show False using out by simp
qed

lemma new_bar_in_window:
  assumes d: "distinct (map bar_time fr)" "int (length fr) \<le> sev_window_bound ev"
    and old: "\<forall>b\<in>set (sev_rolling ev). bar_time b < t" and t: "t \<in> bar_time ` set fr"
  shows "t \<in> bar_time ` set (merged_window ev fr)"
proof -
  let ?all = "sort_key bar_time (dedup_last (sev_rolling ev @ sort_key bar_time fr))"
  let ?ts = "map bar_time ?all"
  have times: "set ?ts = bar_time ` set (sev_rolling ev) \<union> bar_time ` set fr"
    using times_dedup_last [of "sev_rolling ev @ sort_key bar_time fr"] by (simp add: image_Un)
  have strict: "sorted_wrt (<) ?ts"
    using distinct_dedup_last [of "sev_rolling ev @ sort_key bar_time fr"]
    by (simp add: strict_sorted_iff distinct_map)
  show ?thesis
  proof (cases "sev_window_bound ev \<le> 0 \<or> int (length ?all) \<le> sev_window_bound ev")
    case True
    then have "merged_window ev fr = ?all" by (simp add: merged_window_def trim_rolling_window_def)
    with times t show ?thesis by (metis UnCI list.set_map)
  next
    case False
    let ?n = "nat (sev_window_bound ev)"
    have "{u \<in> set ?ts. t \<le> u} \<subseteq> set (map bar_time fr)" using old unfolding times by force
    then have "card {u \<in> set ?ts. t \<le> u} \<le> length fr"
      using card_mono [OF finite_set] card_length [of "map bar_time fr"] by (metis length_map le_trans)
    then have "card {u \<in> set ?ts. t \<le> u} \<le> ?n" using d(2) by linarith
    moreover have "t \<in> set ?ts" using t unfolding times by blast
    ultimately have "t \<in> set (drop (length ?ts - ?n) ?ts)" using late_in_drop [OF strict] by blast
    then have "t \<in> bar_time ` set (drop (length ?all - ?n) ?all)" by (simp only: drop_map length_map list.set_map)
    then show ?thesis using False by (auto simp: merged_window_def trim_rolling_window_def)
  qed
qed

text \<open>
  C24: no completed bar is lost. Delivering a frame of distinct bars that fits the window to a
  live evaluator whose window lies behind its watermark returns, and the bars it emits are
  exactly those of the frame that close after the watermark, in order.
\<close>

theorem evaluator_misses_no_bar:
  assumes idx: "indexed_like_bars strat" and live: "\<not> sev_replay_mode ev"
    and d: "bar_duration (sev_timeframe ev) = Inr d"
    and fits: "distinct (map bar_time fr)" "int (length fr) \<le> sev_window_bound ev"
    and behind: "\<forall>b\<in>set (sev_rolling ev). \<not> past (sev_last_evaluated_close ev) (bar_time b + d)"
  shows "\<exists>rs ev'. ingest_completed_bars strat fr None ev = (Inr rs, ev') \<and>
    emitted rs = filter (past (sev_last_evaluated_close ev)) (map (\<lambda>b. bar_time b + d) (sort_key bar_time fr))"
proof (cases "fr = []")
  case True
  then show ?thesis by (simp add: ingest_completed_bars_def ret_def)
next
  case False
  let ?rows = "map (\<lambda>b. (bar_time b, bar_time b + d)) (sort_key bar_time fr)"
  let ?ev = "ev\<lparr>sev_rolling := merged_window ev fr\<rparr>"
  obtain rs ev' where run: "ingest_rows strat None ?rows ?ev = (Inr rs, ev')"
    using ingest_rows_run [of strat None ?rows ?ev] by blast
  have snd: "map snd ?rows = map (\<lambda>t. t + d) (map bar_time (sort_key bar_time fr))" by simp
  have "sorted_wrt (<) (map bar_time (sort_key bar_time fr))"
    using fits(1) by (simp add: strict_sorted_iff distinct_map)
  then have strict: "sorted_wrt (<) (map snd ?rows)" unfolding snd by (simp add: sorted_wrt_map)
  have "bar_time b \<in> bar_time ` set (merged_window ev fr)"
    if b: "b \<in> set fr" "past (sev_last_evaluated_close ev) (bar_time b + d)" for b
  proof (rule new_bar_in_window [OF fits])
    show "\<forall>c\<in>set (sev_rolling ev). bar_time c < bar_time b"
      using behind b(2) by (fastforce simp: past_def split: option.splits)
  qed (use b(1) in blast)
  then have "emitted rs = filter (past (sev_last_evaluated_close ?ev)) (map snd ?rows)"
    using live by (intro ingest_rows_complete [OF idx _ strict _ run]) auto
  then show ?thesis using run by (simp add: ingest_eq [OF False d] o_def)
qed

section \<open>Example\<close>

definition ex_strategy :: "(unit, decimal) TradingStrategy" where
  "ex_strategy = \<lparr>ts_augment = (\<lambda>_ fr. map (\<lambda>b. (bar_time b, bar_close b)) fr), ts_check_exits = None,
     ts_check_exit_conditions = (\<lambda>st row trades. ([], st)), ts_check_entry_conditions = (\<lambda>st row. ([], st)),
     ts_close_price = (\<lambda>row. row), ts_size_signal = (\<lambda>_ _ _ _. None)\<rparr>"

definition ex_bar :: "datetime \<Rightarrow> OHLCV" where
  "ex_bar t = \<lparr>bar_time = t, bar_open = 1, bar_high = 2, bar_low = 1, bar_close = 2\<rparr>"

definition ex_evaluator :: "datetime option \<Rightarrow> unit StrategyEvaluator" where
  "ex_evaluator w = new_evaluator ''1'' \<lparr>si_strategy_name = ''ma_cross'', si_strategy_version = 1, si_compiled_config = [],
     si_config_hash = ''abc'', si_symbol = ''WIN'', si_timeframe = ''m1'', si_sizing_config = [], si_risk_config = []\<rparr>
     1000 1 None w 10 ()"

theorem evaluator_emits_each_bar_once_witness:
  "\<exists>rss ev'. for_each (\<lambda>fr. ingest_completed_bars ex_strategy fr None) [[ex_bar 0], [ex_bar 0, ex_bar 60000000]]
      (ex_evaluator None) = (Inr rss, ev') \<and>
    in_order None (emitted (concat rss)) (sev_last_evaluated_close ev') \<and> emitted (concat rss) = [60000000, 120000000]"
proof -
  let ?m = "for_each (\<lambda>fr. ingest_completed_bars ex_strategy fr None) [[ex_bar 0], [ex_bar 0, ex_bar 60000000]]"
  have run: "map_sum (\<lambda>_. ()) (\<lambda>rss. emitted (concat rss)) (fst (?m (ex_evaluator None))) = Inr [60000000, 120000000]"
    by code_simp
  obtain r ev' where m: "?m (ex_evaluator None) = (r, ev')" by fastforce
  with run obtain rss where rss: "r = Inr rss" "emitted (concat rss) = [60000000, 120000000]" by (cases r) auto
  have "sev_last_evaluated_close (ex_evaluator None) = None" by (simp add: ex_evaluator_def new_evaluator_def)
  with evaluator_emits_each_bar_once [OF m [unfolded rss(1)]] m rss show ?thesis by auto
qed

theorem evaluator_misses_no_bar_witness:
  "\<exists>rs ev'. ingest_completed_bars ex_strategy [ex_bar 60000000, ex_bar 0] None (ex_evaluator (Some 60000000)) = (Inr rs, ev') \<and>
    emitted rs = [120000000]"
proof -
  have idx: "indexed_like_bars ex_strategy" by (simp add: indexed_like_bars_def ex_strategy_def)
  have d: "bar_duration (sev_timeframe (ex_evaluator (Some 60000000))) = Inr 60000000" by code_simp
  have sorted: "map (\<lambda>b. bar_time b + 60000000) (sort_key bar_time [ex_bar 60000000, ex_bar 0]) = [60000000, 120000000]" by code_simp
  have ev: "\<not> sev_replay_mode (ex_evaluator w)" "sev_rolling (ex_evaluator w) = []" "sev_window_bound (ex_evaluator w) = 10"
    "sev_last_evaluated_close (ex_evaluator w) = w" for w by (simp_all add: ex_evaluator_def new_evaluator_def)
  show ?thesis
    using evaluator_misses_no_bar [OF idx ev(1) d, of "[ex_bar 60000000, ex_bar 0]"]
    unfolding sorted by (simp add: ev ex_bar_def past_def)
qed

end
