(* ===== verification/Bt_Correct.thy ===== *)
theory Bt_Correct
  imports Bt_Engine Evaluator_Correct
begin

text \<open>
  What the backtest engine guarantees: the capital it sizes positions with is the initial
  capital plus the booked result of the closed trades; open exposure stays within the cap of
  the fixed-quantity sizer; a bar's fills do not depend on what the strategy makes of that bar.
\<close>

section \<open>Dictionaries\<close>

lemma map_of_dict_put [simp]: "map_of (dict_put k v ps) = (map_of ps)(k \<mapsto> v)"
  by (induction ps) auto

lemma keys_dict_put [simp]: "fst ` set (dict_put k v ps) = insert k (fst ` set ps)"
  by (induction ps) auto

lemma distinct_dict_put: "distinct (map fst ps) \<Longrightarrow> distinct (map fst (dict_put k v ps))"
  by (induction ps) (auto simp: image_iff)

lemma dict_put_new: "k \<notin> fst ` set ps \<Longrightarrow> dict_put k v ps = ps @ [(k, v)]"
  by (induction ps) auto

lemma sum_dict_put:
  fixes f :: "'v \<Rightarrow> 'n::ab_group_add"
  shows "sum_list (map (\<lambda>p. f (snd p)) (dict_put k v ps)) = sum_list (map (\<lambda>p. f (snd p)) ps)
     + f v - (case map_of ps k of None \<Rightarrow> 0 | Some u \<Rightarrow> f u)"
  by (induction ps) (auto split: option.splits)

section \<open>Accounting\<close>

text \<open>
  A trade in order: its quantity is positive, its commission is the cost of the side or sides
  that were executed, and once closed its result is the price difference net of that commission.
\<close>

definition trade_ok :: "('st, 'row) BacktestEngine \<Rightarrow> Trade \<Rightarrow> bool" where
  "trade_ok self t \<longleftrightarrow> 0 < tr_quantity t \<and> (case tr_status t of
     TR_OPEN \<Rightarrow> tr_pnl t = None \<and> tr_exit_time t = None \<and>
       tr_commission t = side_cost (be_costs self) (tr_entry_price t) (tr_quantity t) (tr_point_value t)
   | TR_CLOSED \<Rightarrow> (\<exists>p. tr_exit_price t = Some p \<and> tr_pnl t = Some (gross_pnl t p - tr_commission t) \<and>
       tr_commission t = side_cost (be_costs self) (tr_entry_price t) (tr_quantity t) (tr_point_value t) +
         side_cost (be_costs self) p (tr_quantity t) (tr_point_value t)))"

definition realized :: "Trade \<Rightarrow> decimal" where
  "realized t = (if tr_status t = TR_CLOSED then pnl_or_0 t else 0)"

definition open_in :: "string \<Rightarrow> Trade \<Rightarrow> decimal" where
  "open_in symbol t = (if tr_status t = TR_OPEN \<and> tr_symbol t = symbol then tr_quantity t else 0)"

definition registry_ok :: "('st, 'row) BacktestEngine \<Rightarrow> TradeRegistry \<Rightarrow> bool" where
  "registry_ok self r \<longleftrightarrow> distinct (map fst (reg_trades r)) \<and> (\<forall>(k, t)\<in>set (reg_trades r). tr_id t = k \<and> trade_ok self t)"

text \<open>The largest exposure a sizer lets a symbol reach, whatever the capital.\<close>

fun position_limit :: "PositionSizer \<Rightarrow> decimal option" where
  "position_limit (FixedQuantitySizer quantity scale) = Some quantity"
| "position_limit (FixedSafetyMarginSizer margin max_contracts min_contracts scale) = map_option of_int max_contracts"
| "position_limit (InverseVolatilitySizer target point_value max_contracts min_contracts scale) = map_option of_int max_contracts"

definition exposure_ok :: "('st, 'row) BacktestEngine \<Rightarrow> TradeRegistry \<Rightarrow> bool" where
  "exposure_ok self r \<longleftrightarrow> (\<forall>m. position_limit (be_sizer self) = Some m \<longrightarrow> (\<forall>symbol. open_quantity symbol r \<le> m))"

definition bt_ok :: "('st, 'row) BacktestEngine \<Rightarrow> 'st bt_state \<Rightarrow> bool" where
  "bt_ok self s \<longleftrightarrow> registry_ok self (bt_registry s) \<and>
     fst ` set (reg_trades (bt_registry s)) \<subseteq> be_uuid4 self ` {..<bt_uuids s} \<and>
     bt_capital s = be_initial_capital self + sum_list (map realized (get_all_trades (bt_registry s))) \<and>
     exposure_ok self (bt_registry s)"

lemma realized_closed: "sum_list (map realized (get_all_trades r)) = sum_list (map pnl_or_0 (get_closed_trades r))"
proof -
  have "sum_list (map realized ts) = sum_list (map pnl_or_0 (filter (\<lambda>t. tr_status t = TR_CLOSED) ts))" for ts
    by (induction ts) (auto simp: realized_def)
  then show ?thesis by (simp add: get_closed_trades_def)
qed

lemma open_quantity_sum: "open_quantity symbol r = sum_list (map (open_in symbol) (get_all_trades r))"
proof -
  have "sum_list (map (open_in symbol) ts) = sum_list (map tr_quantity
      (filter (\<lambda>t. tr_symbol t = symbol) (filter (\<lambda>t. tr_status t = TR_OPEN) ts)))" for ts
    by (induction ts) (auto simp: open_in_def)
  then show ?thesis by (simp add: open_quantity_def get_open_trades_def)
qed

lemma sum_trades_put:
  fixes f :: "Trade \<Rightarrow> decimal"
  shows "sum_list (map f (get_all_trades (r\<lparr>reg_trades := dict_put k t (reg_trades r)\<rparr>))) =
    sum_list (map f (get_all_trades r)) + f t - (case map_of (reg_trades r) k of None \<Rightarrow> 0 | Some u \<Rightarrow> f u)"
  using sum_dict_put [of f k t "reg_trades r"] by (simp add: get_all_trades_def comp_def)

lemma registry_okD:
  "registry_ok self r \<Longrightarrow> map_of (reg_trades r) k = Some t \<Longrightarrow> tr_id t = k \<and> trade_ok self t"
  by (auto simp: registry_ok_def dest: map_of_SomeD)

lemma set_dict_put: "p \<in> set (dict_put k v ps) \<Longrightarrow> p \<in> set ps \<or> p = (k, v)"
  by (induction ps) (auto split: if_splits)

lemma registry_ok_put:
  assumes "registry_ok self r" and "tr_id t = k" and "trade_ok self t"
  shows "registry_ok self (r\<lparr>reg_trades := dict_put k t (reg_trades r)\<rparr>)"
  using assms by (fastforce simp: registry_ok_def distinct_dict_put dest: set_dict_put)

lemma open_trade_found:
  assumes "registry_ok self r" and "t \<in> set (get_open_trades r)"
  shows "map_of (reg_trades r) (tr_id t) = Some t \<and> tr_status t = TR_OPEN"
proof -
  from assms(2) obtain k where "(k, t) \<in> set (reg_trades r)" "tr_status t = TR_OPEN"
    by (auto simp: get_open_trades_def get_all_trades_def)
  with assms(1) show ?thesis by (auto simp: registry_ok_def intro!: map_of_is_SomeI)
qed

lemma distinct_open_ids:
  assumes "registry_ok self r"
  shows "distinct (map tr_id (get_open_trades r))"
proof -
  have "map (tr_id \<circ> snd) (reg_trades r) = map fst (reg_trades r)"
    using assms by (auto simp: registry_ok_def)
  with assms have "distinct (map tr_id (get_all_trades r))" by (metis registry_ok_def get_all_trades_def map_map)
  then show ?thesis by (simp add: get_open_trades_def distinct_map_filter)
qed

section \<open>Settling\<close>

text \<open>Closing an open trade books its result net of the costs of both sides.\<close>

definition final_trade :: "('st, 'row) BacktestEngine \<Rightarrow> datetime \<Rightarrow> decimal \<Rightarrow> string option \<Rightarrow> Trade \<Rightarrow> Trade" where
  "final_trade self exit_time exit_price reason t = closed_trade exit_time exit_price reason
     (t\<lparr>tr_commission := tr_commission t + side_cost (be_costs self) exit_price (tr_quantity t) (tr_point_value t)\<rparr>)"

lemma dict_put_twice: "dict_put k v (dict_put k u ps) = dict_put k v ps"
  by (induction ps) auto

lemma close_open_trade:
  assumes "map_of (reg_trades r) k = Some t" and "tr_status t = TR_OPEN"
  shows "close_trade_with_costs self k exit_time price reason r =
    (Some (final_trade self exit_time price reason t), r\<lparr>reg_trades := dict_put k (final_trade self exit_time price reason t) (reg_trades r)\<rparr>)"
  using assms by (simp add: close_trade_with_costs_def close_trade_def final_trade_def Let_def dict_put_twice)

lemma final_trade_simps [simp]:
  "tr_id (final_trade self tm price reason t) = tr_id t"
  "tr_symbol (final_trade self tm price reason t) = tr_symbol t"
  "tr_entry_time (final_trade self tm price reason t) = tr_entry_time t"
  "tr_exit_time (final_trade self tm price reason t) = Some tm"
  "tr_status (final_trade self tm price reason t) = TR_CLOSED"
  "open_in symbol (final_trade self tm price reason t) = 0"
  "tr_pnl (final_trade self tm price reason t) = Some (realized (final_trade self tm price reason t))"
  by (simp_all add: final_trade_def closed_trade_def open_in_def realized_def pnl_or_0_def)

lemma trade_ok_final:
  "trade_ok self t \<Longrightarrow> tr_status t = TR_OPEN \<Longrightarrow> trade_ok self (final_trade self tm price reason t)"
  by (simp add: final_trade_def closed_trade_def trade_ok_def gross_pnl_def)

lemma realized_open [simp]: "tr_status t = TR_OPEN \<Longrightarrow> realized t = 0"
  by (simp add: realized_def)

lemma exposure_put_final:
  assumes "exposure_ok self r" and "registry_ok self r" and "map_of (reg_trades r) (tr_id t) = Some t"
  shows "exposure_ok self (r\<lparr>reg_trades := dict_put (tr_id t) (final_trade self tm price reason t) (reg_trades r)\<rparr>)"
proof -
  have "0 < tr_quantity t" using registry_okD [OF assms(2,3)] by (simp add: trade_ok_def)
  then have nonneg: "0 \<le> open_in symbol t" for symbol by (simp add: open_in_def)
  have "open_quantity symbol (r\<lparr>reg_trades := dict_put (tr_id t) (final_trade self tm price reason t) (reg_trades r)\<rparr>)
      \<le> open_quantity symbol r" for symbol
    using nonneg [of symbol] by (simp add: open_quantity_sum sum_trades_put assms(3))
  then show ?thesis using assms(1) unfolding exposure_ok_def by (meson order_trans)
qed

lemma settle_open_trade:
  assumes "map_of (reg_trades (bt_registry s)) (tr_id t) = Some t" and "tr_status t = TR_OPEN"
  shows "settle_trade self tm price reason t s =
    s\<lparr>bt_registry := (bt_registry s)\<lparr>reg_trades := dict_put (tr_id t) (final_trade self tm price (Some reason) t) (reg_trades (bt_registry s))\<rparr>,
      bt_capital := bt_capital s + realized (final_trade self tm price (Some reason) t)\<rparr>"
  by (simp add: settle_trade_def close_open_trade [OF assms])

lemma settle_trade_ok:
  assumes ok: "bt_ok self s" and t: "map_of (reg_trades (bt_registry s)) (tr_id t) = Some t" "tr_status t = TR_OPEN"
  shows "bt_ok self (settle_trade self tm price reason t s)"
proof -
  have rok: "registry_ok self (bt_registry s)" and ex: "exposure_ok self (bt_registry s)" using ok by (simp_all add: bt_ok_def)
  have tok: "trade_ok self t" using registry_okD [OF rok t(1)] by blast
  have mem: "tr_id t \<in> fst ` set (reg_trades (bt_registry s))" using t(1) by (metis map_of_eq_None_iff option.distinct(1))
  then have "tr_id t \<in> be_uuid4 self ` {..<bt_uuids s}" using ok unfolding bt_ok_def by blast
  with ok show ?thesis
    by (simp add: settle_open_trade [OF t] bt_ok_def registry_ok_put [OF rok _ trade_ok_final [OF tok t(2)]]
        exposure_put_final [OF ex rok t(1)] sum_trades_put t)
qed

text \<open>The open trades of a registry are settled one after the other; what each settlement keeps, all keep.\<close>

lemma open_dict_put_final:
  assumes "distinct (map fst ps)" and "\<And>k u. (k, u) \<in> set ps \<Longrightarrow> tr_id u = k" and "tr_id t \<in> fst ` set ps"
  shows "filter (\<lambda>u. tr_status u = TR_OPEN) (map snd (dict_put (tr_id t) (final_trade self tm price reason t) ps)) =
    filter (\<lambda>u. tr_id u \<noteq> tr_id t) (filter (\<lambda>u. tr_status u = TR_OPEN) (map snd ps))"
  using assms
proof (induction ps)
  case (Cons p ps)
  have p: "tr_id (snd p) = fst p" using Cons.prems(2) by (metis list.set_intros(1) prod.collapse)
  show ?case
  proof (cases "fst p = tr_id t")
    case True
    have "tr_id u \<noteq> tr_id t" if "u \<in> set (filter (\<lambda>u. tr_status u = TR_OPEN) (map snd ps))" for u
    proof -
      from that obtain k where k: "(k, u) \<in> set ps" by auto
      then have "tr_id u = k" using Cons.prems(2) by simp
      with k True Cons.prems(1) show ?thesis by (force simp: image_iff)
    qed
    then have "filter (\<lambda>u. tr_id u \<noteq> tr_id t) (filter (\<lambda>u. tr_status u = TR_OPEN) (map snd ps)) =
        filter (\<lambda>u. tr_status u = TR_OPEN) (map snd ps)" by (intro filter_True ballI)
    with p True show ?thesis by simp
  next
    case False
    then have "tr_id (snd p) \<noteq> tr_id t" using p by simp
    moreover have "filter (\<lambda>u. tr_status u = TR_OPEN) (map snd (dict_put (tr_id t) (final_trade self tm price reason t) ps)) =
        filter (\<lambda>u. tr_id u \<noteq> tr_id t) (filter (\<lambda>u. tr_status u = TR_OPEN) (map snd ps))"
      using Cons.prems False by (intro Cons.IH) auto
    ultimately show ?thesis using False by simp
  qed
qed simp

lemma open_after_put_final:
  assumes "registry_ok self r" and "map_of (reg_trades r) (tr_id t) = Some t"
  shows "get_open_trades (r\<lparr>reg_trades := dict_put (tr_id t) (final_trade self tm price reason t) (reg_trades r)\<rparr>) =
    filter (\<lambda>u. tr_id u \<noteq> tr_id t) (get_open_trades r)"
proof -
  have "tr_id t \<in> fst ` set (reg_trades r)" using assms(2) by (metis map_of_eq_None_iff option.distinct(1))
  with assms(1) have "filter (\<lambda>u. tr_status u = TR_OPEN) (map snd (dict_put (tr_id t) (final_trade self tm price reason t) (reg_trades r))) =
    filter (\<lambda>u. tr_id u \<noteq> tr_id t) (filter (\<lambda>u. tr_status u = TR_OPEN) (map snd (reg_trades r)))"
    by (intro open_dict_put_final) (auto simp: registry_ok_def)
  then show ?thesis by (simp add: get_open_trades_def get_all_trades_def)
qed

lemma settle_trades_rule:
  assumes step: "\<And>s t. P s \<Longrightarrow> t \<in> set (get_open_trades (bt_registry s)) \<Longrightarrow>
      P (settle_trade self tm price reason t s)"
    and reg: "\<And>s. P s \<Longrightarrow> registry_ok self (bt_registry s)"
    and "P s" and "set ts \<subseteq> set (get_open_trades (bt_registry s))" and "distinct (map tr_id ts)"
  shows "P (settle_trades self tm price reason ts s) \<and>
    get_open_trades (bt_registry (settle_trades self tm price reason ts s)) =
      filter (\<lambda>u. tr_id u \<notin> tr_id ` set ts) (get_open_trades (bt_registry s))"
  using assms(3-)
proof (induction ts arbitrary: s)
  case Nil
  then show ?case by (simp add: settle_trades_def)
next
  case (Cons t ts)
  have t: "t \<in> set (get_open_trades (bt_registry s))" using Cons.prems by simp
  note found = open_trade_found [OF reg [OF Cons.prems(1)] t]
  let ?s = "settle_trade self tm price reason t s"
  have opens: "get_open_trades (bt_registry ?s) = filter (\<lambda>u. tr_id u \<noteq> tr_id t) (get_open_trades (bt_registry s))"
    using found by (simp add: settle_open_trade open_after_put_final [OF reg [OF Cons.prems(1)]])
  have "set ts \<subseteq> set (get_open_trades (bt_registry ?s))"
    using Cons.prems by (auto simp: opens image_iff)
  from Cons.IH [OF step [OF Cons.prems(1) t] this] Cons.prems(3)
  show ?case by (auto simp: settle_trades_def opens intro!: filter_cong)
qed

lemma settle_trades_ok:
  assumes "bt_ok self s" and "set ts \<subseteq> set (get_open_trades (bt_registry s))" and "distinct (map tr_id ts)"
  shows "bt_ok self (settle_trades self tm price reason ts s)"
  using settle_trades_rule [where P = "bt_ok self", OF _ _ assms] settle_trade_ok open_trade_found
  by (metis bt_ok_def)

lemma bt_ok_registry: "bt_ok self s \<Longrightarrow> registry_ok self (bt_registry s)"
  by (simp add: bt_ok_def)

lemma execute_exit_ok: "bt_ok self s \<Longrightarrow> bt_ok self (execute_exit self tm price sig s)"
  using distinct_map_filter [OF distinct_open_ids [OF bt_ok_registry]]
  by (auto simp: execute_exit_def intro!: settle_trades_ok)

lemma end_of_day_ok: "bt_ok self s \<Longrightarrow> bt_ok self (end_of_day self tm price s)"
  using settle_trades_ok [OF _ subset_refl distinct_open_ids [OF bt_ok_registry]]
  by (simp add: end_of_day_def clear_pending_def bt_ok_def)

section \<open>Entries\<close>

text \<open>What a sizer built from a valid configuration satisfies.\<close>

fun sizer_ok :: "PositionSizer \<Rightarrow> bool" where
  "sizer_ok (FixedQuantitySizer quantity scale) = (0 < quantity)"
| "sizer_ok (FixedSafetyMarginSizer margin max_contracts min_contracts scale) =
     (0 < margin \<and> 0 \<le> min_contracts \<and> max_gte_min max_contracts min_contracts)"
| "sizer_ok (InverseVolatilitySizer target point_value max_contracts min_contracts scale) =
     (0 < target \<and> 0 < point_value \<and> 0 \<le> min_contracts \<and> max_gte_min max_contracts min_contracts)"

lemma built_sizer_ok:
  "build_position_sizer config pv = Inr sizer \<Longrightarrow> pred_option sizing_config_valid config \<Longrightarrow> sizer_ok sizer"
  by (auto simp: build_position_sizer_def new_safety_margin_sizer_def new_inverse_volatility_sizer_def
      split: option.splits PositionSizingConfig.splits if_splits)

lemma scaled_quantity_pos: "scaled_quantity scale strength q = Some x \<Longrightarrow> 0 < q \<Longrightarrow> 0 < x"
  by (auto simp: scaled_quantity_def Let_def split: if_splits)

lemma size_quantity_pos:
  assumes "size_quantity sizer strength price capital vol = Some q"
  shows "0 < q"
proof (cases sizer)
  case (FixedQuantitySizer quantity scale)
  then show ?thesis using assms by (auto simp: Let_def split: if_splits)
next
  case (FixedSafetyMarginSizer margin mx mn scale)
  then show ?thesis using assms by (auto simp: Let_def split: if_splits intro: scaled_quantity_pos)
next
  case (InverseVolatilitySizer target pv mx mn scale)
  then obtain n where n: "volatility_target_contracts target pv mx mn price capital vol = Some n"
    and q: "scaled_quantity scale strength n = Some q" using assms by (auto split: option.splits)
  have "0 < n" using n by (auto simp: volatility_target_contracts_def Let_def split: option.splits if_splits)
  with q show ?thesis by (rule scaled_quantity_pos)
qed

lemma max_position_size_bound:
  assumes "sizer_ok sizer" and "position_limit sizer = Some m"
  shows "\<exists>c. max_position_size sizer price capital = Some c \<and> c \<le> m"
  using assms by (cases sizer) (auto simp: max_gte_min_def margin_target_contracts_def volatility_target_contracts_def read_volatility_def Let_def)

lemma cap_order_bound:
  assumes "cap_order limit r order = Some order'" and "0 < bo_quantity order"
  shows "0 < bo_quantity order'" "bo_symbol order' = bo_symbol order"
    "\<forall>c. limit = Some c \<longrightarrow> open_quantity (bo_symbol order) r + bo_quantity order' \<le> c"
  using assms by (auto simp: cap_order_def Let_def split: option.splits if_splits)

lemma size_signal_pos: "size_signal sizer i sig price capital vol = Some order \<Longrightarrow> 0 < bo_quantity order"
  by (auto simp: size_signal_def split: if_splits dest: size_quantity_pos)

lemma new_trade_ok:
  "0 < quantity \<Longrightarrow> commission = side_cost (be_costs self) price quantity pv \<Longrightarrow>
   trade_ok self (new_trade i oid symbol action quantity tm price pv commission)"
  by (simp add: trade_ok_def new_trade_def)

lemma fill_order_ok:
  assumes inj: "inj (be_uuid4 self)" and ok: "bt_ok self s" and pos: "0 < bo_quantity order"
    and cap: "\<forall>m. position_limit (be_sizer self) = Some m \<longrightarrow> open_quantity (bo_symbol order) (bt_registry s) + bo_quantity order \<le> m"
  shows "bt_ok self (fill_order self tm price order s)"
proof -
  let ?r = "bt_registry s" and ?k = "be_uuid4 self (bt_uuids s)"
  define t where "t = new_trade ?k (bo_id order) (bo_symbol order) (bo_action order) (bo_quantity order) tm price
    (point_value_of self (bo_symbol order)) (side_cost (be_costs self) price (bo_quantity order) (point_value_of self (bo_symbol order)))"
  define r where "r = register_order order ?r"
  have new: "?k \<notin> fst ` set (reg_trades r)"
    using ok inj by (auto simp: bt_ok_def r_def register_order_def dest: injD)
  then have none: "map_of (reg_trades r) ?k = None" by (simp add: map_of_eq_None_iff)
  have t: "tr_id t = ?k" "trade_ok self t" "realized t = 0" "open_in symbol t = (if symbol = bo_symbol order then bo_quantity order else 0)" for symbol
    using pos new_trade_ok by (auto simp: t_def new_trade_def realized_def open_in_def trade_ok_def)
  have same: "get_all_trades r = get_all_trades ?r" "registry_ok self r = registry_ok self ?r" "exposure_ok self r = exposure_ok self ?r"
    by (simp_all add: r_def register_order_def get_all_trades_def registry_ok_def exposure_ok_def open_quantity_sum)
  have ex: "exposure_ok self (r\<lparr>reg_trades := dict_put ?k t (reg_trades r)\<rparr>)"
    using ok cap by (simp add: bt_ok_def exposure_ok_def open_quantity_sum sum_trades_put none t same)
  have keys: "insert ?k (fst ` set (reg_trades r)) \<subseteq> be_uuid4 self ` {..<Suc (bt_uuids s)}"
    using ok by (auto simp: bt_ok_def r_def register_order_def lessThan_Suc)
  have "fill_order self tm price order s = s\<lparr>bt_registry := r\<lparr>reg_trades := dict_put ?k t (reg_trades r)\<rparr>, bt_uuids := Suc (bt_uuids s)\<rparr>"
    by (simp add: fill_order_def Let_def t_def [symmetric] r_def [symmetric] register_trade_def t)
  then show ?thesis using ok ex keys registry_ok_put [of self r t ?k]
    by (simp add: bt_ok_def same t sum_trades_put none)
qed

lemma execute_entry_ok:
  assumes inj: "inj (be_uuid4 self)" and sizer: "sizer_ok (be_sizer self)" and ok: "bt_ok self s"
  shows "bt_ok self (execute_entry self tm price row sig s)"
proof (cases "size_signal (be_sizer self) (be_uuid4 self (bt_uuids s)) sig price (bt_capital s) (be_volatility self row)")
  case (Some order)
  let ?s = "s\<lparr>bt_uuids := Suc (bt_uuids s)\<rparr>"
  have ok': "bt_ok self ?s" using ok by (auto simp: bt_ok_def lessThan_Suc)
  note pos = size_signal_pos [OF Some]
  show ?thesis
  proof (cases "cap_order (max_position_size (be_sizer self) price (bt_capital s)) (bt_registry s) order")
    case None
    then show ?thesis using Some ok' by (simp add: execute_entry_def Let_def)
  next
    case (Some order')
    note b = cap_order_bound [OF Some pos]
    have "open_quantity (bo_symbol order') (bt_registry ?s) + bo_quantity order' \<le> m" if "position_limit (be_sizer self) = Some m" for m
    proof -
      from max_position_size_bound [OF sizer that] obtain c
        where "max_position_size (be_sizer self) price (bt_capital s) = Some c" "c \<le> m" by blast
      then show ?thesis using b by force
    qed
    then show ?thesis using fill_order_ok [OF inj ok' b(1)] Some \<open>size_signal _ _ _ _ _ _ = Some order\<close>
      by (simp add: execute_entry_def Let_def)
  qed
qed (use ok in \<open>simp add: execute_entry_def\<close>)

section \<open>Bars and runs\<close>

lemma queue_exits_keeps [simp]:
  "bt_registry (queue_exits self row s) = bt_registry s" "bt_capital (queue_exits self row s) = bt_capital s"
  "bt_uuids (queue_exits self row s) = bt_uuids s"
  by (simp_all add: queue_exits_def Let_def split: prod.splits)

lemma queue_entries_keeps [simp]:
  "bt_registry (queue_entries self row s) = bt_registry s" "bt_capital (queue_entries self row s) = bt_capital s"
  "bt_uuids (queue_entries self row s) = bt_uuids s"
  by (simp_all add: queue_entries_def split: prod.splits)

lemma clear_pending_keeps [simp]:
  "bt_registry (clear_pending s) = bt_registry s" "bt_capital (clear_pending s) = bt_capital s"
  "bt_uuids (clear_pending s) = bt_uuids s"
  by (simp_all add: clear_pending_def)

lemma queue_signals_keeps [simp]:
  "bt_registry (queue_signals self tms lst tm row s) = bt_registry s"
  "bt_capital (queue_signals self tms lst tm row s) = bt_capital s"
  "bt_uuids (queue_signals self tms lst tm row s) = bt_uuids s"
  by (simp_all add: queue_signals_def Let_def split: prod.splits)

lemma queue_signals_ok [simp]: "bt_ok self (queue_signals self tms lst tm row s) = bt_ok self s"
  by (simp add: bt_ok_def)

lemma fold_keeps: "P s \<Longrightarrow> (\<And>x s. P s \<Longrightarrow> P (f x s)) \<Longrightarrow> P (fold f xs s)"
  by (induction xs arbitrary: s) auto

lemma execute_pending_ok:
  assumes "inj (be_uuid4 self)" and "sizer_ok (be_sizer self)" and "bt_ok self s"
  shows "bt_ok self (execute_pending self tm row s)"
  unfolding execute_pending_def Let_def
  by (intro fold_keeps [where P = "bt_ok self"] assms(3) execute_exit_ok execute_entry_ok [OF assms(1,2)])

lemma bar_step_ok:
  assumes "inj (be_uuid4 self)" and "sizer_ok (be_sizer self)" and "bt_ok self s"
  shows "bt_ok self (bar_step self tms lst tm row s)"
  using execute_pending_ok [OF assms] assms(3) by (auto simp: bar_step_def Let_def intro!: end_of_day_ok)

lemma start_state_ok:
  assumes "sizer_ok (be_sizer self)"
  shows "bt_ok self (start_state self st n)"
proof -
  have "0 \<le> m" if "position_limit (be_sizer self) = Some m" for m
    using assms that by (cases "be_sizer self") (auto simp: max_gte_min_def)
  then show ?thesis by (simp add: bt_ok_def start_state_def registry_ok_def exposure_ok_def open_quantity_sum get_all_trades_def new_registry_def)
qed

lemma run_bars_ok:
  assumes "inj (be_uuid4 self)" and "sizer_ok (be_sizer self)" and "bt_ok self s"
  shows "bt_ok self (run_bars self tms start bars s)"
  using assms(3)
proof (induction bars arbitrary: s)
  case (Cons b bars)
  then show ?case by (cases b) (simp add: bar_step_ok [OF assms(1,2)])
qed simp

section \<open>Day trading\<close>

text \<open>Trades that are over were opened the day they were closed; open ones were opened on day \<open>d\<close>.\<close>

definition same_day :: "Trade \<Rightarrow> bool" where
  "same_day t \<longleftrightarrow> (\<exists>e. tr_exit_time t = Some e \<and> date_of e = date_of (tr_entry_time t))"

definition day_ok :: "('st, 'row) BacktestEngine \<Rightarrow> int \<Rightarrow> 'st bt_state \<Rightarrow> bool" where
  "day_ok self d s \<longleftrightarrow> bt_ok self s \<and> (\<forall>t\<in>set (get_all_trades (bt_registry s)).
     if tr_status t = TR_CLOSED then same_day t else date_of (tr_entry_time t) = d)"

lemma all_trades_put:
  "t \<in> set (get_all_trades (r\<lparr>reg_trades := dict_put k u (reg_trades r)\<rparr>)) \<Longrightarrow> t \<in> set (get_all_trades r) \<or> t = u"
  by (auto simp: get_all_trades_def dest: set_dict_put)

lemma settle_trade_day:
  assumes "day_ok self d s" and "t \<in> set (get_open_trades (bt_registry s))" and "date_of tm = d"
  shows "day_ok self d (settle_trade self tm price reason t s)"
proof -
  have ok: "bt_ok self s" using assms(1) by (simp add: day_ok_def)
  note found = open_trade_found [OF bt_ok_registry [OF ok] assms(2)]
  have "date_of (tr_entry_time t) = d"
    using assms(1,2) found by (auto simp: day_ok_def get_open_trades_def split: if_splits)
  then have "same_day (final_trade self tm price (Some reason) t)" using assms(3) by (simp add: same_day_def)
  then show ?thesis using assms(1) found settle_trade_ok [OF ok]
    by (fastforce simp: day_ok_def settle_open_trade dest: all_trades_put)
qed

lemma settle_trades_day:
  assumes "day_ok self d s" and "date_of tm = d" and "set ts \<subseteq> set (get_open_trades (bt_registry s))" and "distinct (map tr_id ts)"
  shows "day_ok self d (settle_trades self tm price reason ts s) \<and>
    get_open_trades (bt_registry (settle_trades self tm price reason ts s)) =
      filter (\<lambda>u. tr_id u \<notin> tr_id ` set ts) (get_open_trades (bt_registry s))"
proof (rule settle_trades_rule [where P = "day_ok self d"])
  show "day_ok self d (settle_trade self tm price reason t s)" if "day_ok self d s" "t \<in> set (get_open_trades (bt_registry s))" for s t
    using that assms(2) by (rule settle_trade_day)
qed (use assms in \<open>simp_all add: day_ok_def bt_ok_registry\<close>)

lemma execute_exit_day:
  assumes "day_ok self d s" and "date_of tm = d"
  shows "day_ok self d (execute_exit self tm price sig s)"
proof -
  have "distinct (map tr_id (get_open_trades (bt_registry s)))"
    using assms(1) by (auto simp: day_ok_def intro: distinct_open_ids bt_ok_registry)
  then show ?thesis using assms settle_trades_day [OF assms, of "filter _ (get_open_trades (bt_registry s))"]
    by (simp add: execute_exit_def distinct_map_filter)
qed

lemma end_of_day_day:
  assumes "day_ok self d s" and "date_of tm = d"
  shows "day_ok self d (end_of_day self tm price s) \<and> get_open_trades (bt_registry (end_of_day self tm price s)) = []"
proof -
  have "distinct (map tr_id (get_open_trades (bt_registry s)))"
    using assms(1) by (auto simp: day_ok_def intro: distinct_open_ids bt_ok_registry)
  from settle_trades_day [OF assms subset_refl this] show ?thesis
    by (auto simp: end_of_day_def day_ok_def bt_ok_def)
qed

lemma fill_order_trades:
  "t \<in> set (get_all_trades (bt_registry (fill_order self tm price order s))) \<Longrightarrow>
   t \<in> set (get_all_trades (bt_registry s)) \<or> tr_status t = TR_OPEN \<and> tr_entry_time t = tm"
  by (auto simp: fill_order_def Let_def register_trade_def register_order_def new_trade_def get_all_trades_def dest!: set_dict_put)

lemma execute_entry_day:
  assumes "inj (be_uuid4 self)" and "sizer_ok (be_sizer self)" and "day_ok self d s" and "date_of tm = d"
  shows "day_ok self d (execute_entry self tm price row sig s)"
proof -
  have "t \<in> set (get_all_trades (bt_registry (execute_entry self tm price row sig s))) \<Longrightarrow>
      t \<in> set (get_all_trades (bt_registry s)) \<or> tr_status t = TR_OPEN \<and> tr_entry_time t = tm" for t
    by (auto simp: execute_entry_def Let_def split: option.splits dest!: fill_order_trades)
  then show ?thesis using assms execute_entry_ok [OF assms(1,2)] by (fastforce simp: day_ok_def)
qed

lemma execute_pending_day:
  assumes "inj (be_uuid4 self)" and "sizer_ok (be_sizer self)" and "day_ok self d s" and "date_of tm = d"
  shows "day_ok self d (execute_pending self tm row s)"
  unfolding execute_pending_def Let_def
  by (intro fold_keeps [where P = "day_ok self d"] assms(3) execute_exit_day [OF _ assms(4)] execute_entry_day [OF assms(1,2) _ assms(4)])

lemma bar_step_day:
  assumes "inj (be_uuid4 self)" and "sizer_ok (be_sizer self)" and "be_day_trade self"
    and "day_ok self d s" and "date_of tm = d"
  shows "day_ok self d (bar_step self tms lst tm row s) \<and>
    (lst \<longrightarrow> get_open_trades (bt_registry (bar_step self tms lst tm row s)) = [])"
proof -
  have "day_ok self d (queue_signals self tms lst tm row (execute_pending self tm row s))"
    using execute_pending_day [OF assms(1,2,4,5)] by (simp add: day_ok_def)
  then show ?thesis using end_of_day_day [OF _ assms(5)] assms(3,4) by (cases lst) (auto simp: bar_step_def Let_def)
qed

lemma day_ok_flat: "day_ok self d s \<Longrightarrow> get_open_trades (bt_registry s) = [] \<Longrightarrow> day_ok self d' s"
  by (auto simp: day_ok_def get_open_trades_def filter_empty_conv) (metis TradeStatus.exhaust)

lemma run_bars_day:
  assumes "inj (be_uuid4 self)" and "sizer_ok (be_sizer self)" and "be_day_trade self"
  shows "sorted (map fst bars) \<Longrightarrow> day_ok self d s \<Longrightarrow>
    (get_open_trades (bt_registry s) \<noteq> [] \<Longrightarrow> bars \<noteq> [] \<and> date_of (fst (hd bars)) = d \<and> (\<forall>t. start = Some t \<longrightarrow> t \<le> fst (hd bars))) \<Longrightarrow>
    \<exists>d'. day_ok self d' (run_bars self tms start bars s) \<and> get_open_trades (bt_registry (run_bars self tms start bars s)) = []"
proof (induction bars arbitrary: d s)
  case Nil
  then show ?case by auto
next
  case (Cons b bars)
  obtain tm row where b: "b = (tm, row)" by fastforce
  show ?case
  proof (cases "\<exists>t. start = Some t \<and> tm < t")
    case True
    then have flat: "get_open_trades (bt_registry s) = []" using Cons.prems(3) b by force
    then show ?thesis using True Cons.IH [OF _ Cons.prems(2)] Cons.prems(1) b by auto
  next
    case False
    let ?lst = "case bars of [] \<Rightarrow> True | (next_ts, _) # _ \<Rightarrow> date_of next_ts \<noteq> date_of tm"
    let ?s = "bar_step self tms ?lst tm row s"
    have "day_ok self (date_of tm) s"
      using Cons.prems(2,3) b day_ok_flat by (cases "get_open_trades (bt_registry s) = []") auto
    note step = bar_step_day [OF assms this refl, of tms ?lst row]
    have "bars \<noteq> [] \<and> date_of (fst (hd bars)) = date_of tm \<and> (\<forall>t. start = Some t \<longrightarrow> t \<le> fst (hd bars))"
      if "get_open_trades (bt_registry ?s) \<noteq> []"
    proof -
      have "\<not> ?lst" using that step by blast
      then obtain b' rest where bars: "bars = b' # rest" and day: "date_of (fst b') = date_of tm"
        by (cases bars) (auto split: prod.splits)
      moreover have "tm \<le> fst b'" using Cons.prems(1) b bars by simp
      ultimately show ?thesis using False by (auto simp: not_less intro: order_trans)
    qed
    then have "\<exists>d'. day_ok self d' (run_bars self tms start bars ?s) \<and> get_open_trades (bt_registry (run_bars self tms start bars ?s)) = []"
      using Cons.IH [of "date_of tm" ?s] Cons.prems(1) step by auto
    then show ?thesis using False b by (auto split: option.splits)
  qed
qed

lemma run_single_chunk_cases:
  assumes "run_single_chunk self data force start st n = Inr s"
  obtains tms where "s = run_bars self tms start (ts_augment (be_strategy self) st data) (start_state self st n)"
  | tms s' where "s' = run_bars self tms start (ts_augment (be_strategy self) st data) (start_state self st n)"
      "s = force_close self (ts_augment (be_strategy self) st data) s'"
  using assms by (auto simp: run_single_chunk_def Let_def split: if_splits option.splits)

lemma force_close_flat: "get_open_trades (bt_registry s) = [] \<Longrightarrow> force_close self chunk s = s"
  by (simp add: force_close_def split: prod.splits)

lemma flat_same_day:
  assumes "day_ok self d s" and "get_open_trades (bt_registry s) = []" and "t \<in> set (get_all_trades (bt_registry s))"
  shows "tr_status t = TR_CLOSED \<and> same_day t"
  using assms by (cases "tr_status t") (auto simp: day_ok_def get_open_trades_def filter_empty_conv)

lemma run_single_chunk_day:
  assumes "inj (be_uuid4 self)" and "sizer_ok (be_sizer self)" and "be_day_trade self"
    and "indexed_like_bars (be_strategy self)" and "sorted (map bar_time data)"
    and run: "run_single_chunk self data force start st n = Inr s"
    and t: "t \<in> set (get_all_trades (bt_registry s))"
  shows "tr_status t = TR_CLOSED \<and> same_day t"
proof -
  let ?s = "\<lambda>tms. run_bars self tms start (ts_augment (be_strategy self) st data) (start_state self st n)"
  have "day_ok self 0 (start_state self st n)" "get_open_trades (bt_registry (start_state self st n)) = []"
    using start_state_ok [OF assms(2)] by (auto simp: day_ok_def start_state_def new_registry_def get_open_trades_def get_all_trades_def)
  then have flat: "\<exists>d. day_ok self d (?s tms) \<and> get_open_trades (bt_registry (?s tms)) = []" for tms
    using run_bars_day [OF assms(1-3)] assms(4,5) by (simp add: indexed_like_bars_def)
  from run show ?thesis
    by (cases rule: run_single_chunk_cases) (use flat t flat_same_day in \<open>metis force_close_flat\<close>)+
qed

lemma merge_trades:
  "t \<in> set (get_all_trades (merge r r')) \<Longrightarrow> t \<in> set (get_all_trades r) \<or> t \<in> set (get_all_trades r')"
proof -
  have "p \<in> set (fold (\<lambda>(k, v). dict_put k v) qs ps) \<Longrightarrow> p \<in> set ps \<or> p \<in> set qs" for p and ps qs :: "(string \<times> Trade) list"
    by (induction qs arbitrary: ps) (auto dest: set_dict_put)
  then show "t \<in> set (get_all_trades (merge r r')) \<Longrightarrow> ?thesis" by (force simp: merge_def get_all_trades_def)
qed

lemma run_days_trades:
  assumes "run_days self start chunks master st n = Inr r" and "t \<in> set (get_all_trades r)"
  shows "t \<in> set (get_all_trades master) \<or>
    (\<exists>chunk st n s. chunk \<in> set chunks \<and> run_single_chunk self chunk True start st n = Inr s \<and> t \<in> set (get_all_trades (bt_registry s)))"
  using assms
proof (induction self start chunks master st n rule: run_days.induct)
  case (2 self start chunk chunks master st n)
  then obtain s where s: "run_single_chunk self chunk True start st n = Inr s"
    and rest: "run_days self start chunks (merge master (bt_registry s)) (bt_strategy_state s) (bt_uuids s) = Inr r"
    by (auto split: sum.splits)
  from "2.IH" [OF s rest "2.prems"(2)] show ?case using s merge_trades by (metis list.set_intros)
qed simp

lemma run_backtest_day:
  assumes "inj (be_uuid4 self)" and "sizer_ok (be_sizer self)" and "be_day_trade self"
    and "indexed_like_bars (be_strategy self)" and "sorted (map bar_time data)"
    and run: "run_backtest self data mode start st = Inr r" and t: "t \<in> set (get_all_trades r)"
  shows "tr_status t = TR_CLOSED \<and> same_day t"
proof (cases mode)
  case SEQUENTIAL
  then obtain s where "run_single_chunk self data False start st 0 = Inr s" "r = bt_registry s \<or> r = new_registry"
    using run t by (auto simp: run_backtest_def new_registry_def get_all_trades_def split: if_splits sum.splits)
      (metis map_sum.simps(1) obj_sumE sum.distinct(1) map_sum.simps(2) sum.inject(2))
  moreover have "r \<noteq> new_registry" using t by (auto simp: new_registry_def get_all_trades_def)
  ultimately show ?thesis using run_single_chunk_day [OF assms(1-5)] t by blast
next
  case DAY_TRADE
  have empty: "t \<notin> set (get_all_trades new_registry)" by (simp add: new_registry_def get_all_trades_def)
  then have "run_days self start (map (\<lambda>d. filter (\<lambda>b. date_of (bar_time b) = d) data) (days_of data)) new_registry st 0 = Inr r"
    using DAY_TRADE run t by (auto simp: run_backtest_def split: if_splits)
  from run_days_trades [OF this t] empty obtain d st' n s
    where "run_single_chunk self (filter (\<lambda>b. date_of (bar_time b) = d) data) True start st' n = Inr s"
      "t \<in> set (get_all_trades (bt_registry s))" by auto
  moreover have "sorted (map bar_time (filter (\<lambda>b. date_of (bar_time b) = d) data))" using assms(5) by (rule sorted_filter)
  ultimately show ?thesis using run_single_chunk_day [OF assms(1-4)] by blast
qed

section \<open>Properties\<close>

text \<open>A strategy that always buys, trading two bars on each of two days.\<close>

definition ex_engine :: "(unit, decimal \<times> decimal) BacktestEngine" where
  "ex_engine = \<lparr>be_strategy = \<lparr>ts_augment = (\<lambda>_ fr. map (\<lambda>b. (bar_time b, (bar_open b, bar_close b))) fr), ts_check_exits = None,
       ts_check_exit_conditions = (\<lambda>st row trades. ([], st)),
       ts_check_entry_conditions = (\<lambda>st row. ([\<lparr>sg_symbol = ''WIN'', sg_action = BT_BUY, sg_strength = 1, sg_exit_reason = None\<rparr>], st)),
       ts_close_price = snd, ts_size_signal = (\<lambda>_ _ _ _. None)\<rparr>,
     be_sizer = FixedQuantitySizer 2 False, be_initial_capital = 1000, be_point_values = [(''WIN'', 10)], be_day_trade = True,
     be_day_trade_times = Some (0, 60000000000, 61200000000),
     be_costs = Some \<lparr>tcc_cost_per_contract = 1, tcc_cost_bps = 0\<rparr>, be_open = (\<lambda>row. Some (fst row)), be_close = (\<lambda>row. Some (snd row)),
     be_volatility = (\<lambda>_. None), be_uuid4 = (\<lambda>n. replicate n CHR ''a'')\<rparr>"

definition ex_bars :: frame where
  "ex_bars = map (\<lambda>(t, p). \<lparr>bar_time = t, bar_open = p, bar_high = p + 1, bar_low = p, bar_close = p + 1\<rparr>)
     [(0, 5), (3600000000, 6), (86400000000, 7), (90000000000, 9)]"

lemma ex_engine_facts:
  "inj (be_uuid4 ex_engine)" "be_day_trade ex_engine" "indexed_like_bars (be_strategy ex_engine)"
  "build_position_sizer (Some (FixedQuantityPositionSizing 2 False)) 10 = Inr (be_sizer ex_engine)"
  by (auto simp: ex_engine_def inj_def replicate_eq_replicate indexed_like_bars_def build_position_sizer_def)

text \<open>
  C37. At every point of a backtest the capital that positions are sized with is the initial
  capital plus the results of the trades closed so far, and each result is the price difference
  times quantity and point value, net of the cost of the entry and of the exit, each charged once.
\<close>

theorem backtest_capital_is_booked:
  assumes "inj (be_uuid4 self)"
    and "build_position_sizer config pv = Inr (be_sizer self)" and "pred_option sizing_config_valid config"
    and s: "s = run_bars self day_times trade_start bars (start_state self st n)"
  shows "bt_capital s = be_initial_capital self + sum_list (map pnl_or_0 (get_closed_trades (bt_registry s))) \<and>
    (\<forall>t\<in>set (get_closed_trades (bt_registry s)). \<exists>p. tr_exit_price t = Some p \<and>
       tr_pnl t = Some (gross_pnl t p - (side_cost (be_costs self) (tr_entry_price t) (tr_quantity t) (tr_point_value t) +
         side_cost (be_costs self) p (tr_quantity t) (tr_point_value t))))"
proof -
  have sizer: "sizer_ok (be_sizer self)" using assms(2,3) by (rule built_sizer_ok)
  have ok: "bt_ok self s" unfolding s by (rule run_bars_ok [OF assms(1) sizer start_state_ok [OF sizer]])
  have "trade_ok self t" if "t \<in> set (get_closed_trades (bt_registry s))" for t
    using that ok by (auto simp: bt_ok_def registry_ok_def get_closed_trades_def get_all_trades_def)
  then show ?thesis using ok by (fastforce simp: bt_ok_def realized_closed trade_ok_def get_closed_trades_def)
qed

text \<open>
  C38. The open quantity of a symbol never exceeds the limit of the configured sizer: the fixed
  quantity, or the maximum number of contracts where one is set.
\<close>

theorem backtest_exposure_bounded:
  assumes "inj (be_uuid4 self)"
    and "build_position_sizer config pv = Inr (be_sizer self)" and "pred_option sizing_config_valid config"
    and "position_limit (be_sizer self) = Some m"
  shows "open_quantity symbol (bt_registry (run_bars self day_times trade_start bars (start_state self st n))) \<le> m"
proof -
  have sizer: "sizer_ok (be_sizer self)" using assms(2,3) by (rule built_sizer_ok)
  show ?thesis using run_bars_ok [OF assms(1) sizer start_state_ok [OF sizer]] assms(4) by (simp add: bt_ok_def exposure_ok_def)
qed

text \<open>
  C39. A day-trading backtest carries nothing overnight: whatever the mode it runs in, at its end
  every trade is closed, on the day it was opened.
\<close>

theorem day_trades_close_the_same_day:
  assumes "inj (be_uuid4 self)"
    and "build_position_sizer config pv = Inr (be_sizer self)" and "pred_option sizing_config_valid config"
    and "be_day_trade self" and "indexed_like_bars (be_strategy self)" and "sorted (map bar_time data)"
    and "run_backtest self data mode trade_start st = Inr registry"
  shows "\<forall>t\<in>set (get_all_trades registry). tr_status t = TR_CLOSED \<and>
    (\<exists>e. tr_exit_time t = Some e \<and> date_of e = date_of (tr_entry_time t))"
  using run_backtest_day [OF assms(1) built_sizer_ok [OF assms(2,3)] assms(4-)] by (simp add: same_day_def)

theorem backtest_capital_is_booked_witness:
  "let s = run_bars ex_engine (0, 60000000000, 61200000000) None (ts_augment (be_strategy ex_engine) () ex_bars) (start_state ex_engine () 0)
   in bt_capital s = 1000 + sum_list (map pnl_or_0 (get_closed_trades (bt_registry s))) \<and> bt_capital s = 1032"
proof -
  have "bt_capital (run_bars ex_engine (0, 60000000000, 61200000000) None (ts_augment (be_strategy ex_engine) () ex_bars) (start_state ex_engine () 0)) = 1032"
    by code_simp
  moreover have "be_initial_capital ex_engine = 1000" by code_simp
  ultimately show ?thesis using backtest_capital_is_booked [OF ex_engine_facts(1,4) _ refl, of "(0, 60000000000, 61200000000)" None
      "ts_augment (be_strategy ex_engine) () ex_bars" "()" 0] by (simp add: Let_def)
qed

theorem backtest_exposure_bounded_witness:
  "let q = open_quantity ''WIN'' (bt_registry (run_bars (ex_engine\<lparr>be_day_trade := False\<rparr>) (0, 0, 0) None
     (ts_augment (be_strategy ex_engine) () ex_bars) (start_state ex_engine () 0))) in q \<le> 2 \<and> q = 2"
proof -
  let ?e = "ex_engine\<lparr>be_day_trade := False\<rparr>"
  have "open_quantity ''WIN'' (bt_registry (run_bars ?e (0, 0, 0) None (ts_augment (be_strategy ex_engine) () ex_bars) (start_state ?e () 0))) \<le> 2"
    by (rule backtest_exposure_bounded [where config = "Some (FixedQuantityPositionSizing 2 False)" and pv = 10])
      (use ex_engine_facts in \<open>simp_all add: ex_engine_def\<close>)
  moreover have "open_quantity ''WIN'' (bt_registry (run_bars ?e (0, 0, 0) None (ts_augment (be_strategy ex_engine) () ex_bars) (start_state ex_engine () 0))) = 2"
    by code_simp
  ultimately show ?thesis by (simp add: Let_def start_state_def)
qed

theorem day_trades_close_the_same_day_witness:
  "\<exists>registry. run_backtest ex_engine ex_bars DAY_TRADE None () = Inr registry \<and> length (get_all_trades registry) = 2 \<and>
     (\<forall>t\<in>set (get_all_trades registry). tr_status t = TR_CLOSED \<and>
       (\<exists>e. tr_exit_time t = Some e \<and> date_of e = date_of (tr_entry_time t)))"
proof -
  have "map_sum (\<lambda>_. ()) (\<lambda>r. length (get_all_trades r)) (run_backtest ex_engine ex_bars DAY_TRADE None ()) = Inr 2" by code_simp
  then obtain registry where run: "run_backtest ex_engine ex_bars DAY_TRADE None () = Inr registry" "length (get_all_trades registry) = 2"
    by (cases "run_backtest ex_engine ex_bars DAY_TRADE None ()") auto
  have "sorted (map bar_time ex_bars)" by code_simp
  with day_trades_close_the_same_day [OF ex_engine_facts(1,4) _ ex_engine_facts(2,3) _ run(1)] run show ?thesis by simp
qed

end
