(* ===== verification/Forward_Parity.thy ===== *)
theory Forward_Parity
  imports Bt_Correct
begin

text \<open>
  \<^verbatim>\<open>execution/parity.py\<close>: the reference signals of every bar of a frame, with indicators computed on
  the whole frame, and that forward evaluation of the same bars, delivered in batches through
  the bounded rolling window, takes the same decisions. Last, on which bars section D of the
  backtest engine queues what \<^verbatim>\<open>execution/signal_eval.py\<close>, which says it mirrors it, returns.
\<close>

section \<open>The reference\<close>




definition signals_equal :: "Signal list \<Rightarrow> Signal list \<Rightarrow> bool" where
  "signals_equal left right \<longleftrightarrow> length left = length right \<and>
     (\<forall>(a, b)\<in>set (zip left right). sg_action a = sg_action b \<and> sg_symbol a = sg_symbol b \<and>
        (sg_action a = BT_CLOSE \<longrightarrow> sg_exit_reason a = sg_exit_reason b))"

section \<open>Forward evaluation against the reference\<close>












section \<open>The rolling window\<close>







section \<open>Section D of the engine\<close>

text \<open>
  Section D of the backtest engine queues for a bar what \<^verbatim>\<open>signal_eval.py\<close> returns for it from the
  engine's open trades and strategy state when day trading is off, and, with day trading, on the
  bars inside the entry hours that are before the closing time and not the last of their day.
  On the other bars of a day-trading run the two differ: the engine evaluates no entries outside the
  entry hours and neither entries nor exits from the closing time on, and \<^verbatim>\<open>signal_eval.py\<close> does not
  look at the time.
\<close>

lemma section_d_mirrored:
  assumes "be_day_trade self \<longrightarrow> time_of tm < close_t \<and> \<not> lst \<and> start_t \<le> time_of tm \<and> time_of tm \<le> end_t"
  shows "evaluate_queued_signals (be_strategy self) row (get_open_trades (bt_registry s)) (bt_strategy_state s) =
    (let s' = queue_signals self (start_t, end_t, close_t) lst tm row s in
     ((bt_pending_exits s', bt_pending_entries s'), bt_strategy_state s'))"
  using assms by (auto simp: evaluate_queued_signals_def queue_signals_def queue_exits_def queue_entries_def Let_def split: prod.splits)

section \<open>Example\<close>











end
