(* ===== verification/Exit_Rules.thy ===== *)
theory Exit_Rules
  imports Bt_Models
begin

text \<open>
  The exit rules of \<^verbatim>\<open>backtesting/exit_rules/\<close>, their registry, and the strategy of
  \<^verbatim>\<open>backtesting/exit_strategy.py\<close> that runs the enabled rules on every open trade. A row of
  indicators is a map from columns to numbers, in which a column that is missing or not a number
  is absent; the parameters of a rule are a map from names to numbers.
\<close>

type_synonym exit_row = "string \<rightharpoonup> decimal"
type_synonym exit_params = "string \<rightharpoonup> decimal"

text \<open>\<^verbatim>\<open>float(params.get(name, default))\<close> and \<^verbatim>\<open>int(params.get(name, default))\<close>, which truncates.\<close>

definition float_param :: "exit_params \<Rightarrow> string \<Rightarrow> decimal \<Rightarrow> decimal" where
  "float_param params name dflt = (case params name of None \<Rightarrow> dflt | Some v \<Rightarrow> v)"

definition int_param :: "exit_params \<Rightarrow> string \<Rightarrow> int \<Rightarrow> int" where
  "int_param params name dflt = (case params name of None \<Rightarrow> dflt
     | Some v \<Rightarrow> if 0 \<le> v then \<lfloor>v\<rfloor> else \<lceil>v\<rceil>)"

section \<open>Shared helpers\<close>

definition is_long :: "Trade \<Rightarrow> bool" where
  "is_long trade = (tr_action trade = OA_BUY)"

text \<open>
  The prices of a bar are numbers where the column exists: a NaN high or low, which the program passes on
  (every comparison with it is then false), is not represented in a row.
\<close>

definition bar_prices :: "exit_row \<Rightarrow> decimal \<times> decimal \<times> decimal" where
  "bar_prices data =
     (let current_close = (case data ''close'' of None \<Rightarrow> 0 | Some v \<Rightarrow> v);
          current_high = (case data ''high'' of None \<Rightarrow> current_close | Some v \<Rightarrow> v);
          current_low = (case data ''low'' of None \<Rightarrow> current_close | Some v \<Rightarrow> v)
      in (current_close, current_high, current_low))"

definition bar_high_of :: "exit_row \<Rightarrow> decimal" where
  "bar_high_of data = fst (snd (bar_prices data))"

definition bar_low_of :: "exit_row \<Rightarrow> decimal" where
  "bar_low_of data = snd (snd (bar_prices data))"

definition atr_col :: "exit_params \<Rightarrow> string" where
  "atr_col params = ''atr_'' @ int_str (int_param params ''atr_period'' 14)"

text \<open>The state a rule keeps for a trade; each rule uses some of the keys.\<close>

record RuleState =
  rs_extreme :: "decimal option"
  rs_peak :: "decimal option"
  rs_armed :: bool
  rs_ratchet :: "decimal option"
  rs_bars :: "nat option"
  rs_sar :: "decimal option"
  rs_ep :: decimal
  rs_af :: decimal
  rs_prior_low :: "decimal option"
  rs_prior_prior_low :: "decimal option"
  rs_prior_high :: "decimal option"
  rs_prior_prior_high :: "decimal option"

definition empty_state :: RuleState where
  "empty_state = \<lparr>rs_extreme = None, rs_peak = None, rs_armed = False, rs_ratchet = None, rs_bars = None, rs_sar = None,
     rs_ep = 0, rs_af = 0, rs_prior_low = None, rs_prior_prior_low = None, rs_prior_high = None, rs_prior_prior_high = None\<rparr>"

section \<open>Stops and targets from the entry\<close>

definition fixed_sl_should_exit :: "Trade \<Rightarrow> exit_row \<Rightarrow> exit_params \<Rightarrow> bool" where
  "fixed_sl_should_exit trade data params =
     (let stop_loss_pct = float_param params ''stop_loss_pct'' 0 in
      if is_long trade then bar_low_of data \<le> tr_entry_price trade * (1 - stop_loss_pct)
      else bar_high_of data \<ge> tr_entry_price trade * (1 + stop_loss_pct))"

definition atr_sl_should_exit :: "Trade \<Rightarrow> exit_row \<Rightarrow> exit_params \<Rightarrow> bool" where
  "atr_sl_should_exit trade data params = (case data (atr_col params) of
     None \<Rightarrow> False
   | Some atr_val \<Rightarrow> let stop_loss_atr = float_param params ''stop_loss_atr'' 0 in
       if is_long trade then bar_low_of data \<le> tr_entry_price trade - stop_loss_atr * atr_val
       else bar_high_of data \<ge> tr_entry_price trade + stop_loss_atr * atr_val)"

definition fixed_tp_should_exit :: "Trade \<Rightarrow> exit_row \<Rightarrow> exit_params \<Rightarrow> bool" where
  "fixed_tp_should_exit trade data params =
     (let take_profit_pct = float_param params ''take_profit_pct'' 0 in
      if is_long trade then bar_high_of data \<ge> tr_entry_price trade * (1 + take_profit_pct)
      else bar_low_of data \<le> tr_entry_price trade * (1 - take_profit_pct))"

definition atr_tp_should_exit :: "Trade \<Rightarrow> exit_row \<Rightarrow> exit_params \<Rightarrow> bool" where
  "atr_tp_should_exit trade data params = (case data (atr_col params) of
     None \<Rightarrow> False
   | Some atr_val \<Rightarrow> let take_profit_atr = float_param params ''take_profit_atr'' 0 in
       if is_long trade then bar_high_of data \<ge> tr_entry_price trade + take_profit_atr * atr_val
       else bar_low_of data \<le> tr_entry_price trade - take_profit_atr * atr_val)"

section \<open>Trailing stops\<close>

definition trailing_on_bar :: "Trade \<Rightarrow> exit_row \<Rightarrow> RuleState \<Rightarrow> RuleState" where
  "trailing_on_bar trade data state = state\<lparr>rs_extreme := Some (case rs_extreme state of
     None \<Rightarrow> if is_long trade then max (tr_entry_price trade) (bar_high_of data) else min (tr_entry_price trade) (bar_low_of data)
   | Some e \<Rightarrow> if is_long trade then max e (bar_high_of data) else min e (bar_low_of data))\<rparr>"

definition trailing_should_exit :: "Trade \<Rightarrow> exit_row \<Rightarrow> RuleState \<Rightarrow> exit_params \<Rightarrow> bool" where
  "trailing_should_exit trade data state params =
     (let trailing_stop_pct = float_param params ''trailing_stop_pct'' 0;
          extreme = (case rs_extreme state of None \<Rightarrow> tr_entry_price trade | Some e \<Rightarrow> e)
      in if is_long trade then bar_low_of data \<le> extreme * (1 - trailing_stop_pct)
         else bar_high_of data \<ge> extreme * (1 + trailing_stop_pct))"

definition chandelier_on_bar :: "Trade \<Rightarrow> exit_row \<Rightarrow> RuleState \<Rightarrow> RuleState" where
  "chandelier_on_bar trade data state =
     (let peak = (case rs_peak state of None \<Rightarrow> tr_entry_price trade | Some p \<Rightarrow> p) in
      state\<lparr>rs_peak := Some (if is_long trade then max peak (bar_high_of data) else min peak (bar_low_of data))\<rparr>)"

definition chandelier_should_exit :: "Trade \<Rightarrow> exit_row \<Rightarrow> RuleState \<Rightarrow> exit_params \<Rightarrow> bool" where
  "chandelier_should_exit trade data state params = (case data (atr_col params) of
     None \<Rightarrow> False
   | Some atr_val \<Rightarrow> let mult = float_param params ''chandelier_atr_mult'' 0;
         peak = (case rs_peak state of None \<Rightarrow> tr_entry_price trade | Some p \<Rightarrow> p)
       in if is_long trade then bar_low_of data \<le> peak - mult * atr_val else bar_high_of data \<ge> peak + mult * atr_val)"

definition donchian_period :: "exit_params \<Rightarrow> int" where
  "donchian_period params = int_param params ''donchian_exit_period'' 0"

definition donchian_should_exit :: "Trade \<Rightarrow> exit_row \<Rightarrow> exit_params \<Rightarrow> bool" where
  "donchian_should_exit trade data params =
     (case (data (''donchian_high_'' @ int_str (donchian_period params)), data (''donchian_low_'' @ int_str (donchian_period params))) of
        (Some donchian_high, Some donchian_low) \<Rightarrow>
          if is_long trade then bar_low_of data \<le> donchian_low else bar_high_of data \<ge> donchian_high
      | _ \<Rightarrow> False)"

section \<open>Parabolic SAR\<close>

definition clamp_psar_long :: "decimal \<Rightarrow> decimal option \<Rightarrow> decimal option \<Rightarrow> decimal" where
  "clamp_psar_long sar prior_low prior_prior_low =
     (let clamped = (case prior_low of None \<Rightarrow> sar | Some l \<Rightarrow> min sar l)
      in case prior_prior_low of None \<Rightarrow> clamped | Some l \<Rightarrow> min clamped l)"

definition clamp_psar_short :: "decimal \<Rightarrow> decimal option \<Rightarrow> decimal option \<Rightarrow> decimal" where
  "clamp_psar_short sar prior_high prior_prior_high =
     (let clamped = (case prior_high of None \<Rightarrow> sar | Some h \<Rightarrow> max sar h)
      in case prior_prior_high of None \<Rightarrow> clamped | Some h \<Rightarrow> max clamped h)"

definition update_psar_long :: "decimal \<Rightarrow> decimal \<Rightarrow> decimal \<Rightarrow> decimal \<Rightarrow> decimal \<Rightarrow> decimal \<Rightarrow> RuleState \<Rightarrow> RuleState" where
  "update_psar_long high low af_start af_step af_max entry_price state = (case rs_sar state of
     None \<Rightarrow> state\<lparr>rs_sar := Some (min entry_price low), rs_ep := max entry_price high, rs_af := af_start,
       rs_prior_low := Some low, rs_prior_prior_low := None\<rparr>
   | Some sar \<Rightarrow>
       let sar = clamp_psar_long (sar + rs_af state * (rs_ep state - sar)) (rs_prior_low state) (rs_prior_prior_low state);
           (ep, af) = (if high > rs_ep state then (high, min (rs_af state + af_step) af_max) else (rs_ep state, rs_af state))
       in state\<lparr>rs_sar := Some sar, rs_ep := ep, rs_af := af,
            rs_prior_prior_low := rs_prior_low state, rs_prior_low := Some low\<rparr>)"

definition update_psar_short :: "decimal \<Rightarrow> decimal \<Rightarrow> decimal \<Rightarrow> decimal \<Rightarrow> decimal \<Rightarrow> decimal \<Rightarrow> RuleState \<Rightarrow> RuleState" where
  "update_psar_short high low af_start af_step af_max entry_price state = (case rs_sar state of
     None \<Rightarrow> state\<lparr>rs_sar := Some (max entry_price high), rs_ep := min entry_price low, rs_af := af_start,
       rs_prior_high := Some high, rs_prior_prior_high := None\<rparr>
   | Some sar \<Rightarrow>
       let sar = clamp_psar_short (sar + rs_af state * (rs_ep state - sar)) (rs_prior_high state) (rs_prior_prior_high state);
           (ep, af) = (if low < rs_ep state then (low, min (rs_af state + af_step) af_max) else (rs_ep state, rs_af state))
       in state\<lparr>rs_sar := Some sar, rs_ep := ep, rs_af := af,
            rs_prior_prior_high := rs_prior_high state, rs_prior_high := Some high\<rparr>)"

definition psar_on_bar :: "Trade \<Rightarrow> exit_row \<Rightarrow> RuleState \<Rightarrow> exit_params \<Rightarrow> RuleState" where
  "psar_on_bar trade data state params =
     (let af_start = float_param params ''psar_af_start'' 0;
          af_step = float_param params ''psar_af_step'' (2 / 100);
          af_max = float_param params ''psar_af_max'' (2 / 10);
          update = (if is_long trade then update_psar_long else update_psar_short)
      in update (bar_high_of data) (bar_low_of data) af_start af_step af_max (tr_entry_price trade) state)"

definition psar_should_exit :: "Trade \<Rightarrow> exit_row \<Rightarrow> RuleState \<Rightarrow> bool" where
  "psar_should_exit trade data state = (case rs_sar state of
     None \<Rightarrow> False
   | Some sar \<Rightarrow> if is_long trade then bar_low_of data \<le> sar else bar_high_of data \<ge> sar)"

section \<open>Armed stops and the time stop\<close>

definition breakeven_on_bar :: "Trade \<Rightarrow> exit_row \<Rightarrow> RuleState \<Rightarrow> exit_params \<Rightarrow> RuleState" where
  "breakeven_on_bar trade data state params =
     (if rs_armed state then state
      else let trigger = float_param params ''breakeven_trigger_pct'' 0; entry = tr_entry_price trade;
             gain = (if is_long trade then (bar_high_of data - entry) / entry else (entry - bar_low_of data) / entry)
        in if gain \<ge> trigger then state\<lparr>rs_armed := True\<rparr> else state)"

definition breakeven_should_exit :: "Trade \<Rightarrow> exit_row \<Rightarrow> RuleState \<Rightarrow> exit_params \<Rightarrow> bool" where
  "breakeven_should_exit trade data state params =
     (if \<not> rs_armed state then False
      else let offset = float_param params ''breakeven_offset_pct'' 0 in
        if is_long trade then bar_low_of data \<le> tr_entry_price trade * (1 + offset)
        else bar_high_of data \<ge> tr_entry_price trade * (1 - offset))"

text \<open>The ratchet is set when the rule is armed, so an armed state has one.\<close>

definition ratchet_on_bar :: "Trade \<Rightarrow> exit_row \<Rightarrow> RuleState \<Rightarrow> exit_params \<Rightarrow> RuleState" where
  "ratchet_on_bar trade data state params = (case data (atr_col params) of
     None \<Rightarrow> state
   | Some atr_val \<Rightarrow>
       let distance = float_param params ''target_ratchet_atr'' 0 * atr_val;
           high = bar_high_of data; low = bar_low_of data; entry = tr_entry_price trade
       in if is_long trade then
            if \<not> rs_armed state \<and> high \<ge> entry + distance then state\<lparr>rs_armed := True, rs_ratchet := Some (high - distance)\<rparr>
            else if rs_armed state then state\<lparr>rs_ratchet := map_option (\<lambda>r. max r (high - distance)) (rs_ratchet state)\<rparr>
            else state
          else
            if \<not> rs_armed state \<and> low \<le> entry - distance then state\<lparr>rs_armed := True, rs_ratchet := Some (low + distance)\<rparr>
            else if rs_armed state then state\<lparr>rs_ratchet := map_option (\<lambda>r. min r (low + distance)) (rs_ratchet state)\<rparr>
            else state)"

definition ratchet_should_exit :: "Trade \<Rightarrow> exit_row \<Rightarrow> RuleState \<Rightarrow> bool" where
  "ratchet_should_exit trade data state =
     (if \<not> rs_armed state then False
      else case rs_ratchet state of
        None \<Rightarrow> False
      | Some r \<Rightarrow> if is_long trade then bar_low_of data \<le> r else bar_high_of data \<ge> r)"

definition time_stop_on_bar :: "RuleState \<Rightarrow> RuleState" where
  "time_stop_on_bar state = state\<lparr>rs_bars := Some ((case rs_bars state of None \<Rightarrow> 0 | Some n \<Rightarrow> n) + 1)\<rparr>"

definition time_stop_should_exit :: "RuleState \<Rightarrow> exit_params \<Rightarrow> bool" where
  "time_stop_should_exit state params =
     (int (case rs_bars state of None \<Rightarrow> 0 | Some n \<Rightarrow> n) \<ge> int_param params ''max_bars_in_trade'' 0)"

section \<open>The rules as one type\<close>

datatype ExitRule = FixedStopLossRule | AtrStopLossRule | FixedTakeProfitRule | AtrTakeProfitRule | TrailingStopRule
  | ChandelierExitRule | BreakevenStopRule | ParabolicSarStopRule | ProfitTargetRatchetRule | TimeStopRule
  | DonchianChannelStopRule

definition EXIT_RULES :: "ExitRule list" where
  "EXIT_RULES = [FixedStopLossRule, AtrStopLossRule, FixedTakeProfitRule, AtrTakeProfitRule, TrailingStopRule,
     ChandelierExitRule, BreakevenStopRule, ParabolicSarStopRule, ProfitTargetRatchetRule, TimeStopRule, DonchianChannelStopRule]"

fun rule_id :: "ExitRule \<Rightarrow> string" where
  "rule_id FixedStopLossRule = ''fixed_sl''"
| "rule_id AtrStopLossRule = ''atr_sl''"
| "rule_id FixedTakeProfitRule = ''fixed_tp''"
| "rule_id AtrTakeProfitRule = ''atr_tp''"
| "rule_id TrailingStopRule = ''trailing''"
| "rule_id ChandelierExitRule = ''chandelier''"
| "rule_id BreakevenStopRule = ''breakeven''"
| "rule_id ParabolicSarStopRule = ''psar''"
| "rule_id ProfitTargetRatchetRule = ''profit_target_ratchet''"
| "rule_id TimeStopRule = ''time_stop''"
| "rule_id DonchianChannelStopRule = ''donchian_stop''"

fun enable_param :: "ExitRule \<Rightarrow> string" where
  "enable_param FixedStopLossRule = ''stop_loss_pct''"
| "enable_param AtrStopLossRule = ''stop_loss_atr''"
| "enable_param FixedTakeProfitRule = ''take_profit_pct''"
| "enable_param AtrTakeProfitRule = ''take_profit_atr''"
| "enable_param TrailingStopRule = ''trailing_stop_pct''"
| "enable_param ChandelierExitRule = ''chandelier_atr_mult''"
| "enable_param BreakevenStopRule = ''breakeven_trigger_pct''"
| "enable_param ParabolicSarStopRule = ''psar_af_start''"
| "enable_param ProfitTargetRatchetRule = ''target_ratchet_atr''"
| "enable_param TimeStopRule = ''max_bars_in_trade''"
| "enable_param DonchianChannelStopRule = ''donchian_exit_period''"

definition is_enabled :: "exit_params \<Rightarrow> ExitRule \<Rightarrow> bool" where
  "is_enabled params rule =
     (if rule = TimeStopRule \<or> rule = DonchianChannelStopRule then int_param params (enable_param rule) 0 > 0
      else float_param params (enable_param rule) 0 > 0)"

definition required_columns :: "exit_params \<Rightarrow> ExitRule \<Rightarrow> string list" where
  "required_columns params rule =
     (if \<not> is_enabled params rule then []
      else case rule of
        AtrStopLossRule \<Rightarrow> [atr_col params]
      | AtrTakeProfitRule \<Rightarrow> [atr_col params]
      | ChandelierExitRule \<Rightarrow> [atr_col params]
      | ProfitTargetRatchetRule \<Rightarrow> [atr_col params]
      | DonchianChannelStopRule \<Rightarrow> [''donchian_high_'' @ int_str (donchian_period params), ''donchian_low_'' @ int_str (donchian_period params)]
      | _ \<Rightarrow> [])"

fun on_bar :: "ExitRule \<Rightarrow> Trade \<Rightarrow> exit_row \<Rightarrow> exit_params \<Rightarrow> RuleState \<Rightarrow> RuleState" where
  "on_bar TrailingStopRule trade data params state = trailing_on_bar trade data state"
| "on_bar ChandelierExitRule trade data params state = chandelier_on_bar trade data state"
| "on_bar BreakevenStopRule trade data params state = breakeven_on_bar trade data state params"
| "on_bar ParabolicSarStopRule trade data params state = psar_on_bar trade data state params"
| "on_bar ProfitTargetRatchetRule trade data params state = ratchet_on_bar trade data state params"
| "on_bar TimeStopRule trade data params state = time_stop_on_bar state"
| "on_bar _ trade data params state = state"

fun should_exit :: "ExitRule \<Rightarrow> Trade \<Rightarrow> exit_row \<Rightarrow> exit_params \<Rightarrow> RuleState \<Rightarrow> bool" where
  "should_exit FixedStopLossRule trade data params state = fixed_sl_should_exit trade data params"
| "should_exit AtrStopLossRule trade data params state = atr_sl_should_exit trade data params"
| "should_exit FixedTakeProfitRule trade data params state = fixed_tp_should_exit trade data params"
| "should_exit AtrTakeProfitRule trade data params state = atr_tp_should_exit trade data params"
| "should_exit TrailingStopRule trade data params state = trailing_should_exit trade data state params"
| "should_exit ChandelierExitRule trade data params state = chandelier_should_exit trade data state params"
| "should_exit BreakevenStopRule trade data params state = breakeven_should_exit trade data state params"
| "should_exit ParabolicSarStopRule trade data params state = psar_should_exit trade data state"
| "should_exit ProfitTargetRatchetRule trade data params state = ratchet_should_exit trade data state"
| "should_exit TimeStopRule trade data params state = time_stop_should_exit state params"
| "should_exit DonchianChannelStopRule trade data params state = donchian_should_exit trade data params"

definition enabled_rules :: "exit_params \<Rightarrow> ExitRule list" where
  "enabled_rules params = filter (is_enabled params) EXIT_RULES"

text \<open>\<^verbatim>\<open>required_columns\<close> of the registry, a sorted list without duplicates, as the set it lists.\<close>

definition registry_required_columns :: "exit_params \<Rightarrow> string set" where
  "registry_required_columns params = (\<Union>rule\<in>set (enabled_rules params). set (required_columns params rule))"

section \<open>The exit strategy\<close>

record ExitStrategy =
  es_params :: exit_params
  es_rules :: "ExitRule list"
  es_state :: "string \<Rightarrow> (string \<Rightarrow> RuleState option) option"

definition new_exit_strategy :: "exit_params \<Rightarrow> ExitStrategy" where
  "new_exit_strategy params = \<lparr>es_params = params, es_rules = enabled_rules params, es_state = Map.empty\<rparr>"

definition prune_stale_state :: "Trade list \<Rightarrow> ExitStrategy \<Rightarrow> ExitStrategy" where
  "prune_stale_state open_trades self =
     self\<lparr>es_state := (\<lambda>trade_id. if trade_id \<in> set (map tr_id open_trades) then es_state self trade_id else None)\<rparr>"

definition rule_state :: "ExitStrategy \<Rightarrow> string \<Rightarrow> string \<Rightarrow> RuleState" where
  "rule_state self trade_id rid = (case es_state self trade_id of
     None \<Rightarrow> empty_state
   | Some states \<Rightarrow> (case states rid of None \<Rightarrow> empty_state | Some st \<Rightarrow> st))"

definition set_rule_state :: "string \<Rightarrow> string \<Rightarrow> RuleState \<Rightarrow> ExitStrategy \<Rightarrow> ExitStrategy" where
  "set_rule_state trade_id rid st self =
     self\<lparr>es_state := (es_state self)(trade_id \<mapsto> (case es_state self trade_id of None \<Rightarrow> Map.empty | Some m \<Rightarrow> m)(rid \<mapsto> st))\<rparr>"

definition columns_ready :: "ExitStrategy \<Rightarrow> ExitRule \<Rightarrow> exit_row \<Rightarrow> bool" where
  "columns_ready self rule data = list_all (\<lambda>col. data col \<noteq> None) (required_columns (es_params self) rule)"

text \<open>The rules of one trade, up to the first that fires.\<close>

primrec run_rules :: "ExitRule list \<Rightarrow> Trade \<Rightarrow> exit_row \<Rightarrow> ExitStrategy \<Rightarrow> string option \<times> ExitStrategy" where
  "run_rules [] trade data self = (None, self)"
| "run_rules (rule # rules) trade data self =
     (let st = on_bar rule trade data (es_params self) (rule_state self (tr_id trade) (rule_id rule));
          self = set_rule_state (tr_id trade) (rule_id rule) st self
      in if columns_ready self rule data \<and> should_exit rule trade data (es_params self) st then (Some (rule_id rule), self)
         else run_rules rules trade data self)"

primrec check_trades :: "Trade list \<Rightarrow> exit_row \<Rightarrow> ExitStrategy \<Rightarrow> Signal list \<times> ExitStrategy" where
  "check_trades [] data self = ([], self)"
| "check_trades (trade # trades) data self =
     (let (fired, self) = run_rules (es_rules self) trade data self;
          (signals, self) = check_trades trades data self
      in ((case fired of None \<Rightarrow> [] | Some rid \<Rightarrow> [\<lparr>sg_symbol = tr_symbol trade, sg_action = BT_CLOSE, sg_strength = 1,
             sg_exit_reason = Some rid\<rparr>]) @ signals, self))"

definition check_exits :: "Trade list \<Rightarrow> exit_row \<Rightarrow> ExitStrategy \<Rightarrow> Signal list \<times> ExitStrategy" where
  "check_exits open_trades current_data self = check_trades open_trades current_data (prune_stale_state open_trades self)"

end
