(* ===== verification/Exit_Rules_Correct.thy ===== *)
theory Exit_Rules_Correct
  imports Exit_Rules
begin

text \<open>
  The incremental exit rules against a reference that looks at all bars of a trade at once, and
  that the exit strategy closes each trade for the first enabled rule whose condition holds.
\<close>

section \<open>The reference\<close>

text \<open>
  \<open>exit_condition\<close> says whether a rule asks to close a trade, given all bars since the trade was
  opened, the last of them the current one. Only the parabolic SAR is a recurrence by nature;
  its level is the fold of its update.
\<close>

abbreviation best_price :: "Trade \<Rightarrow> exit_row list \<Rightarrow> decimal" where
  "best_price t rows \<equiv> (if is_long t then Max (set (tr_entry_price t # map bar_high_of rows))
     else Min (set (tr_entry_price t # map bar_low_of rows)))"

definition breached :: "Trade \<Rightarrow> exit_row \<Rightarrow> decimal \<Rightarrow> bool" where
  "breached t row stop = (if is_long t then bar_low_of row \<le> stop else bar_high_of row \<ge> stop)"

definition reached_gain :: "Trade \<Rightarrow> decimal \<Rightarrow> exit_row \<Rightarrow> bool" where
  "reached_gain t trigger row = (trigger \<le> (if is_long t then (bar_high_of row - tr_entry_price t) / tr_entry_price t
     else (tr_entry_price t - bar_low_of row) / tr_entry_price t))"

definition ratchet_distance :: "exit_params \<Rightarrow> exit_row \<Rightarrow> decimal" where
  "ratchet_distance params row = float_param params ''target_ratchet_atr'' 0 * (case row (atr_col params) of None \<Rightarrow> 0 | Some a \<Rightarrow> a)"

definition ratchet_arms :: "exit_params \<Rightarrow> Trade \<Rightarrow> exit_row \<Rightarrow> bool" where
  "ratchet_arms params t row = (if is_long t then bar_high_of row \<ge> tr_entry_price t + ratchet_distance params row
     else bar_low_of row \<le> tr_entry_price t - ratchet_distance params row)"

definition ratchet_level :: "exit_params \<Rightarrow> Trade \<Rightarrow> exit_row \<Rightarrow> decimal" where
  "ratchet_level params t row = (if is_long t then bar_high_of row - ratchet_distance params row
     else bar_low_of row + ratchet_distance params row)"

definition armed_levels :: "exit_params \<Rightarrow> Trade \<Rightarrow> exit_row list \<Rightarrow> decimal list" where
  "armed_levels params t rows = map (ratchet_level params t)
     (dropWhile (\<lambda>row. \<not> ratchet_arms params t row) (filter (\<lambda>row. row (atr_col params) \<noteq> None) rows))"

definition best_level :: "Trade \<Rightarrow> decimal list \<Rightarrow> decimal" where
  "best_level t ls = (if is_long t then Max (set ls) else Min (set ls))"

fun exit_condition :: "exit_params \<Rightarrow> Trade \<Rightarrow> exit_row list \<Rightarrow> ExitRule \<Rightarrow> bool" where
  "exit_condition params t rows TrailingStopRule =
     (let pct = float_param params ''trailing_stop_pct'' 0 in
      breached t (last rows) (best_price t rows * (if is_long t then 1 - pct else 1 + pct)))"
| "exit_condition params t rows ChandelierExitRule = (case last rows (atr_col params) of
     None \<Rightarrow> False
   | Some atr \<Rightarrow> let distance = float_param params ''chandelier_atr_mult'' 0 * atr in
       breached t (last rows) (if is_long t then best_price t rows - distance else best_price t rows + distance))"
| "exit_condition params t rows BreakevenStopRule =
     (let offset = float_param params ''breakeven_offset_pct'' 0 in
      list_ex (reached_gain t (float_param params ''breakeven_trigger_pct'' 0)) rows \<and>
      breached t (last rows) (tr_entry_price t * (if is_long t then 1 + offset else 1 - offset)))"
| "exit_condition params t rows ProfitTargetRatchetRule =
     (last rows (atr_col params) \<noteq> None \<and> armed_levels params t rows \<noteq> [] \<and>
      breached t (last rows) (best_level t (armed_levels params t rows)))"
| "exit_condition params t rows TimeStopRule = (int_param params ''max_bars_in_trade'' 0 \<le> int (length rows))"
| "exit_condition params t rows ParabolicSarStopRule =
     (case rs_sar (fold (\<lambda>row st. psar_on_bar t row st params) rows empty_state) of
        None \<Rightarrow> False | Some sar \<Rightarrow> breached t (last rows) sar)"
| "exit_condition params t rows rule = should_exit rule t (last rows) params empty_state"

section \<open>Each rule\<close>

abbreviation after_bars :: "ExitRule \<Rightarrow> exit_params \<Rightarrow> Trade \<Rightarrow> exit_row list \<Rightarrow> RuleState" where
  "after_bars rule params t rows \<equiv> fold (\<lambda>row. on_bar rule t row params) rows empty_state"

lemma trailing_state:
  "rows \<noteq> [] \<Longrightarrow> rs_extreme (after_bars TrailingStopRule params t rows) = Some (best_price t rows)"
proof (induction rows rule: rev_induct)
  case (snoc row rows)
  then show ?case
    by (cases "rows = []") (auto simp: trailing_on_bar_def empty_state_def max.commute min.commute insert_commute Max_insert Min_insert)
qed simp

lemma chandelier_state:
  "rows \<noteq> [] \<Longrightarrow> rs_peak (after_bars ChandelierExitRule params t rows) = Some (best_price t rows)"
proof (induction rows rule: rev_induct)
  case (snoc row rows)
  then show ?case
    by (cases "rows = []") (auto simp: chandelier_on_bar_def empty_state_def max.commute min.commute insert_commute Max_insert Min_insert)
qed simp

lemma breakeven_state:
  "rs_armed (after_bars BreakevenStopRule params t rows) =
   list_ex (reached_gain t (float_param params ''breakeven_trigger_pct'' 0)) rows"
proof (induction rows rule: rev_induct)
  case (snoc row rows)
  then show ?case by (auto simp: breakeven_on_bar_def reached_gain_def Let_def)
qed (simp add: empty_state_def)

lemma time_stop_state: "rs_bars (after_bars TimeStopRule params t rows) = (if rows = [] then None else Some (length rows))"
proof (induction rows rule: rev_induct)
  case (snoc row rows)
  then show ?case by (simp add: time_stop_on_bar_def)
qed (simp add: empty_state_def)

lemma armed_levels_snoc:
  "armed_levels params t (rows @ [row]) = (if row (atr_col params) = None then armed_levels params t rows
     else if armed_levels params t rows = [] \<and> \<not> ratchet_arms params t row then []
     else armed_levels params t rows @ [ratchet_level params t row])"
  by (auto simp: armed_levels_def dropWhile_append dropWhile_eq_Nil_conv)

lemma best_level_snoc:
  "ls \<noteq> [] \<Longrightarrow> best_level t (ls @ [l]) = (if is_long t then max (best_level t ls) l else min (best_level t ls) l)"
  by (auto simp: best_level_def Max_insert Min_insert max.commute min.commute)

lemma ratchet_state:
  fixes params :: exit_params and t :: Trade
  defines "st rows \<equiv> after_bars ProfitTargetRatchetRule params t rows"
  shows "rs_armed (st rows) = (armed_levels params t rows \<noteq> []) \<and>
    (armed_levels params t rows \<noteq> [] \<longrightarrow> rs_ratchet (st rows) = Some (best_level t (armed_levels params t rows)))"
proof (induction rows rule: rev_induct)
  case Nil
  then show ?case by (simp add: st_def empty_state_def armed_levels_def)
next
  case (snoc row rows)
  have step: "st (rows @ [row]) = ratchet_on_bar t row (st rows) params" by (simp add: st_def)
  show ?case
  proof (cases "row (atr_col params)")
    case None
    then show ?thesis using snoc by (simp add: step ratchet_on_bar_def armed_levels_snoc)
  next
    case (Some atr)
    then have dist: "ratchet_distance params row = float_param params ''target_ratchet_atr'' 0 * atr" by (simp add: ratchet_distance_def)
    show ?thesis
    proof (cases "armed_levels params t rows = []")
      case True
      then show ?thesis using snoc Some
        by (auto simp: step ratchet_on_bar_def armed_levels_snoc ratchet_arms_def ratchet_level_def dist Let_def best_level_def)
    next
      case False
      then show ?thesis using snoc Some
        by (auto simp: step ratchet_on_bar_def armed_levels_snoc ratchet_level_def dist Let_def best_level_snoc)
    qed
  qed
qed

lemma should_exit_reference:
  assumes "rows \<noteq> []" and "rule \<noteq> ProfitTargetRatchetRule \<or> last rows (atr_col params) \<noteq> None"
  shows "should_exit rule t (last rows) params (after_bars rule params t rows) = exit_condition params t rows rule"
proof (cases rule)
  case TrailingStopRule
  then show ?thesis using assms(1)
    by (simp add: trailing_should_exit_def trailing_state [OF assms(1)] breached_def Let_def del: on_bar.simps)
next
  case ChandelierExitRule
  then show ?thesis using assms(1)
    by (simp add: chandelier_should_exit_def chandelier_state [OF assms(1)] breached_def Let_def del: on_bar.simps split: option.splits)
next
  case BreakevenStopRule
  then show ?thesis
    by (simp add: breakeven_should_exit_def breakeven_state breached_def Let_def del: on_bar.simps)
next
  case ProfitTargetRatchetRule
  then show ?thesis using assms(2) ratchet_state [where params = params and t = t and rows = rows]
    by (auto simp: ratchet_should_exit_def breached_def simp del: on_bar.simps)
next
  case TimeStopRule
  then show ?thesis using assms(1) by (simp add: time_stop_should_exit_def time_stop_state del: on_bar.simps)
next
  case ParabolicSarStopRule
  have "(\<lambda>row. on_bar ParabolicSarStopRule t row params) = (\<lambda>row st. psar_on_bar t row st params)" by (intro ext) simp
  with ParabolicSarStopRule show ?thesis by (simp add: psar_should_exit_def breached_def split: option.splits)
qed (simp_all add: fixed_sl_should_exit_def atr_sl_should_exit_def fixed_tp_should_exit_def atr_tp_should_exit_def donchian_should_exit_def)

section \<open>The strategy\<close>

lemma rule_id_inj: "rule_id r = rule_id r' \<longleftrightarrow> r = r'"
  by (cases r; cases r') simp_all

lemma rule_state_set [simp]:
  "rule_state (set_rule_state i rid st self) j rid' = (if i = j \<and> rid = rid' then st else rule_state self j rid')"
  by (auto simp: rule_state_def set_rule_state_def split: option.splits)

lemma set_rule_state_fixed [simp]:
  "es_params (set_rule_state i rid st self) = es_params self" "es_rules (set_rule_state i rid st self) = es_rules self"
  by (simp_all add: set_rule_state_def)

lemma columns_ready_cong: "es_params self' = es_params self \<Longrightarrow> columns_ready self' = columns_ready self"
  by (intro ext) (simp add: columns_ready_def)

text \<open>Whether a rule fires for a trade in a state of the strategy, and the signal a trade gets.\<close>

definition fires :: "ExitStrategy \<Rightarrow> exit_row \<Rightarrow> Trade \<Rightarrow> ExitRule \<Rightarrow> bool" where
  "fires self row t rule \<longleftrightarrow> columns_ready self rule row \<and>
     should_exit rule t row (es_params self) (on_bar rule t row (es_params self) (rule_state self (tr_id t) (rule_id rule)))"

definition close_for :: "Trade \<Rightarrow> ExitRule option \<Rightarrow> Signal list" where
  "close_for t rule = (case rule of None \<Rightarrow> []
     | Some r \<Rightarrow> [\<lparr>sg_symbol = tr_symbol t, sg_action = BT_CLOSE, sg_strength = 1, sg_exit_reason = Some (rule_id r)\<rparr>])"

definition exit_signal :: "ExitStrategy \<Rightarrow> exit_row \<Rightarrow> Trade \<Rightarrow> Signal list" where
  "exit_signal self row t = close_for t (find (fires self row t) (es_rules self))"

text \<open>Running the rules of one trade leaves every other trade alone.\<close>

lemma run_rules_fixed:
  "es_params (snd (run_rules rules t row self)) = es_params self \<and> es_rules (snd (run_rules rules t row self)) = es_rules self \<and>
   (\<forall>i. i \<noteq> tr_id t \<longrightarrow> es_state (snd (run_rules rules t row self)) i = es_state self i)"
proof (induction rules arbitrary: self)
  case (Cons rule rules)
  show ?case using Cons [of "set_rule_state (tr_id t) (rule_id rule) st self" for st]
    by (auto simp: Let_def) (auto simp: set_rule_state_def)
qed simp

lemma fires_set_other:
  "rule \<noteq> rule' \<Longrightarrow> fires (set_rule_state (tr_id t) (rule_id rule') st self) row t rule = fires self row t rule"
  by (simp add: fires_def columns_ready_def rule_id_inj)

lemma run_rules_run:
  "distinct rules \<Longrightarrow> fst (run_rules rules t row self) = map_option rule_id (find (fires self row t) rules) \<and>
   (find (fires self row t) rules = None \<longrightarrow> (\<forall>rule\<in>set rules.
      rule_state (snd (run_rules rules t row self)) (tr_id t) (rule_id rule) =
      on_bar rule t row (es_params self) (rule_state self (tr_id t) (rule_id rule))))"
proof (induction rules arbitrary: self)
  case (Cons rule rules)
  let ?st = "on_bar rule t row (es_params self) (rule_state self (tr_id t) (rule_id rule))"
  let ?self = "set_rule_state (tr_id t) (rule_id rule) ?st self"
  have fires: "fires self row t rule = (columns_ready ?self rule row \<and> should_exit rule t row (es_params ?self) ?st)"
    by (simp add: fires_def columns_ready_def)
  have same: "find (fires ?self row t) rules = find (fires self row t) rules"
  proof (intro find_cong refl)
    fix x assume "x \<in> set rules"
    then have "x \<noteq> rule" using Cons.prems by auto
    then show "fires ?self row t x = fires self row t x" by (rule fires_set_other)
  qed
  have rest: "rule_state (snd (run_rules rules t row self')) (tr_id t) (rule_id rule) = rule_state self' (tr_id t) (rule_id rule)"
    if "rule \<notin> set rules" for self'
    using that
  proof (induction rules arbitrary: self')
    case (Cons r rs)
    then show ?case by (auto simp: Let_def rule_id_inj)
  qed simp
  show ?case
  proof (cases "fires self row t rule")
    case True
    then show ?thesis using fires by (simp add: Let_def)
  next
    case False
    then have run: "run_rules (rule # rules) t row self = run_rules rules t row ?self" using fires by (auto simp: Let_def)
    show ?thesis using Cons.IH [of ?self] Cons.prems False rest [of ?self] same
      by (auto simp: run rule_id_inj simp del: run_rules.simps)
  qed
qed simp

lemma run_rules_absent:
  "es_state (snd (run_rules rules t row self)) i = None \<Longrightarrow> rule_state (snd (run_rules rules t row self)) i rid = empty_state"
  by (simp add: rule_state_def)

lemma fires_cong:
  "es_params self' = es_params self \<Longrightarrow> es_state self' (tr_id t) = es_state self (tr_id t) \<Longrightarrow> fires self' row t = fires self row t"
  by (intro ext) (simp add: fires_def columns_ready_def rule_state_def)

lemma check_trades_run:
  assumes "distinct (map tr_id ts)" and "distinct (es_rules self)"
  shows "fst (check_trades ts row self) = concat (map (exit_signal self row) ts) \<and>
    es_params (snd (check_trades ts row self)) = es_params self \<and> es_rules (snd (check_trades ts row self)) = es_rules self \<and>
    (\<forall>i. i \<notin> tr_id ` set ts \<longrightarrow> es_state (snd (check_trades ts row self)) i = es_state self i) \<and>
    (\<forall>t\<in>set ts. find (fires self row t) (es_rules self) = None \<longrightarrow> (\<forall>rule\<in>set (es_rules self).
       rule_state (snd (check_trades ts row self)) (tr_id t) (rule_id rule) =
       on_bar rule t row (es_params self) (rule_state self (tr_id t) (rule_id rule))))"
  using assms
proof (induction ts arbitrary: self)
  case (Cons t ts)
  obtain fired self1 where run: "run_rules (es_rules self) t row self = (fired, self1)" by fastforce
  note fixed = run_rules_fixed [of "es_rules self" t row self, unfolded run snd_conv]
  note first = run_rules_run [OF Cons.prems(2), of t row self, unfolded run fst_conv snd_conv]
  have IH: "fst (check_trades ts row self1) = concat (map (exit_signal self1 row) ts)"
    "es_params (snd (check_trades ts row self1)) = es_params self1" "es_rules (snd (check_trades ts row self1)) = es_rules self1"
    "\<And>i. i \<notin> tr_id ` set ts \<Longrightarrow> es_state (snd (check_trades ts row self1)) i = es_state self1 i"
    "\<And>u rule. u \<in> set ts \<Longrightarrow> find (fires self1 row u) (es_rules self1) = None \<Longrightarrow> rule \<in> set (es_rules self1) \<Longrightarrow>
       rule_state (snd (check_trades ts row self1)) (tr_id u) (rule_id rule) =
       on_bar rule u row (es_params self1) (rule_state self1 (tr_id u) (rule_id rule))"
    using Cons.IH [of self1] Cons.prems fixed by auto
  have other: "fires self1 row u = fires self row u" "\<And>rid. rule_state self1 (tr_id u) rid = rule_state self (tr_id u) rid"
    if "u \<in> set ts" for u
  proof -
    have "tr_id u \<noteq> tr_id t" using that Cons.prems(1) by (auto simp: image_iff)
    then have "es_state self1 (tr_id u) = es_state self (tr_id u)" using fixed by blast
    then show "fires self1 row u = fires self row u" "\<And>rid. rule_state self1 (tr_id u) rid = rule_state self (tr_id u) rid"
      using fixed by (auto intro: fires_cong simp: rule_state_def)
  qed
  have check: "check_trades (t # ts) row self = (close_for t (find (fires self row t) (es_rules self)) @ fst (check_trades ts row self1),
      snd (check_trades ts row self1))"
    using first by (cases "find (fires self row t) (es_rules self)") (simp_all add: run close_for_def split_beta)
  have signals: "map (exit_signal self1 row) ts = map (exit_signal self row) ts"
    using other fixed by (simp add: exit_signal_def)
  have own: "rule_state (snd (check_trades ts row self1)) (tr_id t) rid = rule_state self1 (tr_id t) rid" for rid
    using IH(4) [of "tr_id t"] Cons.prems(1) by (simp add: rule_state_def)
  have states: "rule_state (snd (check_trades ts row self1)) (tr_id u) (rule_id rule) =
      on_bar rule u row (es_params self) (rule_state self (tr_id u) (rule_id rule))"
    if "u \<in> set (t # ts)" "find (fires self row u) (es_rules self) = None" "rule \<in> set (es_rules self)" for u rule
  proof (cases "u = t")
    case True
    then show ?thesis using that own first by simp
  next
    case False
    then show ?thesis using that IH(5) [of u rule] other [of u] fixed by simp
  qed
  show ?case unfolding check
  proof (intro conjI allI ballI impI)
    fix i assume "i \<notin> tr_id ` set (t # ts)"
    then show "es_state (snd (close_for t (find (fires self row t) (es_rules self)) @ fst (check_trades ts row self1),
        snd (check_trades ts row self1))) i = es_state self i" using IH(4) [of i] fixed by simp
  qed (use IH(1-3) fixed states in \<open>simp_all add: signals exit_signal_def [symmetric] del: find.simps\<close>)
qed simp

lemma check_exits_run:
  assumes "distinct (map tr_id ts)" and "distinct (es_rules self)"
  shows "fst (check_exits ts row self) = concat (map (exit_signal self row) ts)"
    and "es_params (snd (check_exits ts row self)) = es_params self" and "es_rules (snd (check_exits ts row self)) = es_rules self"
    and "i \<notin> tr_id ` set ts \<Longrightarrow> es_state (snd (check_exits ts row self)) i = None"
    and "t \<in> set ts \<Longrightarrow> find (fires self row t) (es_rules self) = None \<Longrightarrow> rule \<in> set (es_rules self) \<Longrightarrow>
       rule_state (snd (check_exits ts row self)) (tr_id t) (rule_id rule) =
       on_bar rule t row (es_params self) (rule_state self (tr_id t) (rule_id rule))"
proof -
  let ?self = "prune_stale_state ts self"
  have same: "es_params ?self = es_params self" "es_rules ?self = es_rules self" by (simp_all add: prune_stale_state_def)
  have kept: "fires ?self row u = fires self row u" "rule_state ?self (tr_id u) rid = rule_state self (tr_id u) rid" if "u \<in> set ts" for u rid
    using that by (auto intro!: fires_cong simp: prune_stale_state_def rule_state_def)
  have run: "fst (check_exits ts row self) = concat (map (exit_signal ?self row) ts)"
    "es_params (snd (check_exits ts row self)) = es_params self" "es_rules (snd (check_exits ts row self)) = es_rules self"
    "\<And>i. i \<notin> tr_id ` set ts \<Longrightarrow> es_state (snd (check_exits ts row self)) i = es_state ?self i"
    "\<And>t rule. t \<in> set ts \<Longrightarrow> find (fires ?self row t) (es_rules self) = None \<Longrightarrow> rule \<in> set (es_rules self) \<Longrightarrow>
       rule_state (snd (check_exits ts row self)) (tr_id t) (rule_id rule) =
       on_bar rule t row (es_params self) (rule_state ?self (tr_id t) (rule_id rule))"
    using check_trades_run [of ts ?self row] assms by (auto simp: check_exits_def same)
  show "fst (check_exits ts row self) = concat (map (exit_signal self row) ts)"
    unfolding run(1) using kept by (intro arg_cong [where f = concat] map_cong refl) (simp add: exit_signal_def same)
  show "es_state (snd (check_exits ts row self)) i = None" if "i \<notin> tr_id ` set ts"
    using run(4) [OF that] that by (simp add: prune_stale_state_def)
  show "rule_state (snd (check_exits ts row self)) (tr_id t) (rule_id rule) =
      on_bar rule t row (es_params self) (rule_state self (tr_id t) (rule_id rule))"
    if "t \<in> set ts" "find (fires self row t) (es_rules self) = None" "rule \<in> set (es_rules self)"
    using run(5) [of t rule] that kept [of t] by simp
qed (use check_trades_run [of ts "prune_stale_state ts self" row] assms in \<open>simp_all add: check_exits_def prune_stale_state_def\<close>)

section \<open>Over time\<close>

text \<open>The strategy after a history of bars, each with the trades that were open.\<close>

definition exit_history :: "exit_params \<Rightarrow> (Trade list \<times> exit_row) list \<Rightarrow> ExitStrategy" where
  "exit_history params history = fold (\<lambda>(ts, row) es. snd (check_exits ts row es)) history (new_exit_strategy params)"

definition well_named :: "(Trade list \<times> exit_row) list \<Rightarrow> bool" where
  "well_named history = list_all (\<lambda>(ts, _). distinct (map tr_id ts)) history"

lemma distinct_enabled: "distinct (enabled_rules params)"
  by (simp add: enabled_rules_def EXIT_RULES_def)

lemma history_fixed:
  "well_named history \<Longrightarrow> es_params (exit_history params history) = params \<and> es_rules (exit_history params history) = enabled_rules params"
proof (induction history rule: rev_induct)
  case (snoc step history)
  then show ?case using check_exits_run(2,3) [of "fst step" "exit_history params history" "snd step"]
    by (simp add: exit_history_def well_named_def split_beta distinct_enabled)
qed (simp add: exit_history_def new_exit_strategy_def)

lemma enabled_not_ready:
  assumes "is_enabled params rule" and "\<not> list_all (\<lambda>col. row col \<noteq> None) (required_columns params rule)"
  shows "\<not> exit_condition params t (rows @ [row]) rule"
  using assms by (cases rule) (auto simp: required_columns_def atr_sl_should_exit_def atr_tp_should_exit_def
      donchian_should_exit_def split: option.splits)

lemma fires_reference:
  assumes "es_params es = params" and "is_enabled params rule"
    and "rule_state es (tr_id t) (rule_id rule) = after_bars rule params t rows"
  shows "fires es row t rule = exit_condition params t (rows @ [row]) rule"
proof (cases "columns_ready es rule row")
  case True
  have "rule \<noteq> ProfitTargetRatchetRule \<or> row (atr_col params) \<noteq> None"
    using True assms(1,2) by (auto simp: columns_ready_def required_columns_def)
  then have "should_exit rule t (last (rows @ [row])) params (after_bars rule params t (rows @ [row])) = exit_condition params t (rows @ [row]) rule"
    by (intro should_exit_reference) simp_all
  then show ?thesis using True assms by (simp add: fires_def)
next
  case False
  then show ?thesis using enabled_not_ready [OF assms(2)] assms(1) by (auto simp: fires_def columns_ready_def)
qed

text \<open>No rule has asked to close the trade on any of these bars.\<close>

definition untouched :: "exit_params \<Rightarrow> Trade \<Rightarrow> exit_row list \<Rightarrow> bool" where
  "untouched params t rows \<longleftrightarrow> (\<forall>k<length rows. \<forall>rule\<in>set (enabled_rules params). \<not> exit_condition params t (take (Suc k) rows) rule)"

lemma untouched_snoc:
  "untouched params t (rows @ [row]) \<longleftrightarrow> untouched params t rows \<and> (\<forall>rule\<in>set (enabled_rules params). \<not> exit_condition params t (rows @ [row]) rule)"
  by (auto simp: untouched_def less_Suc_eq all_conj_distrib)

lemma history_snoc:
  "exit_history params (history @ [(ts, row)]) = snd (check_exits ts row (exit_history params history))"
  by (simp add: exit_history_def)

lemma history_state:
  assumes named: "well_named (before @ bars)" and absent: "before = [] \<or> tr_id t \<notin> tr_id ` set (fst (last before))"
    and "list_all (\<lambda>(ts, _). t \<in> set ts) bars" and "untouched params t (map snd bars)" and rule: "rule \<in> set (enabled_rules params)"
  shows "rule_state (exit_history params (before @ bars)) (tr_id t) (rule_id rule) = after_bars rule params t (map snd bars)"
  using assms
proof (induction bars arbitrary: rule rule: rev_induct)
  case Nil
  have "es_state (exit_history params before) (tr_id t) = None"
  proof (cases before rule: rev_cases)
    case (snoc history step)
    then show ?thesis using Nil.prems history_fixed [of history params]
        check_exits_run(4) [of "fst step" "exit_history params history" "tr_id t" "snd step"]
      by (cases step) (auto simp: history_snoc well_named_def distinct_enabled)
  qed (simp add: exit_history_def new_exit_strategy_def)
  then show ?case by (simp add: rule_state_def)
next
  case (snoc step bars)
  obtain ts row where step: "step = (ts, row)" by fastforce
  let ?es = "exit_history params (before @ bars)"
  have named: "well_named (before @ bars)" "distinct (map tr_id ts)" using snoc.prems(1) by (simp_all add: well_named_def step)
  note fixed = history_fixed [OF named(1), of params]
  have IH: "rule_state ?es (tr_id t) (rule_id r) = after_bars r params t (map snd bars)" if "r \<in> set (enabled_rules params)" for r
    using snoc.IH [OF named(1) absent _ _ that] snoc.prems by (simp add: untouched_snoc step)
  have "fires ?es row t r = exit_condition params t (map snd bars @ [row]) r" if "r \<in> set (enabled_rules params)" for r
    using fires_reference [OF _ _ IH [OF that]] fixed that by (auto simp: enabled_rules_def)
  then have "find (fires ?es row t) (es_rules ?es) = None"
    using fixed snoc.prems(4) by (auto simp: find_None_iff untouched_snoc step)
  then show ?case using check_exits_run(5) [OF named(2), of ?es t row rule] fixed snoc.prems IH
    by (simp add: step distinct_enabled history_snoc [of params "before @ bars", simplified])
qed

section \<open>Properties\<close>

definition ex_trade :: Trade where
  "ex_trade = new_trade ''t1'' ''o1'' ''WIN'' OA_BUY 1 0 100 1 0"

definition ex_row :: "decimal \<Rightarrow> decimal \<Rightarrow> exit_row" where
  "ex_row high low = [''high'' \<mapsto> high, ''low'' \<mapsto> low, ''close'' \<mapsto> low]"

text \<open>
  C21. The exit strategy, which keeps one small state per trade and rule, closes each open trade
  exactly as a reference that looks at all bars of the trade at once: a trade that no rule has
  asked to close before gets a close signal when the condition of some enabled rule holds over its
  bars, with the first such rule as its reason, and the signals of one bar are those of its open
  trades in order, whatever other trades there are or were.
\<close>

theorem exit_signals_match_reference:
  assumes "well_named (before @ bars @ [(ts, row)])"
    and "before = [] \<or> tr_id t \<notin> tr_id ` set (fst (last before))"
    and "list_all (\<lambda>(ts, _). t \<in> set ts) bars" and "t \<in> set ts" and "untouched params t (map snd bars)"
  shows "let es = exit_history params (before @ bars) in
    fst (check_exits ts row es) = concat (map (exit_signal es row) ts) \<and>
    exit_signal es row t = close_for t (find (exit_condition params t (map snd bars @ [row])) (enabled_rules params))"
proof -
  let ?es = "exit_history params (before @ bars)"
  have named: "well_named (before @ bars)" "distinct (map tr_id ts)" using assms(1) by (simp_all add: well_named_def)
  note fixed = history_fixed [OF named(1), of params]
  have "fires ?es row t r = exit_condition params t (map snd bars @ [row]) r" if "r \<in> set (enabled_rules params)" for r
    using fires_reference [OF _ _ history_state [OF named(1) assms(2,3,5) that]] fixed that by (auto simp: enabled_rules_def)
  then have "find (fires ?es row t) (enabled_rules params) = find (exit_condition params t (map snd bars @ [row])) (enabled_rules params)"
    by (intro find_cong) auto
  then show ?thesis using check_exits_run(1) [OF named(2), of ?es row] fixed by (simp add: exit_signal_def distinct_enabled Let_def)
qed

theorem exit_signals_match_reference_witness:
  "fst (check_exits [ex_trade] (ex_row 105 101) (exit_history [''trailing_stop_pct'' \<mapsto> 1 / 20, ''max_bars_in_trade'' \<mapsto> 9]
      [([ex_trade], ex_row 104 99), ([ex_trade], ex_row 108 103)])) = close_for ex_trade (Some TrailingStopRule)"
proof -
  let ?p = "[''trailing_stop_pct'' \<mapsto> 1 / 20, ''max_bars_in_trade'' \<mapsto> 9] :: exit_params"
  let ?bars = "[([ex_trade], ex_row 104 99), ([ex_trade], ex_row 108 103)]"
  have enabled: "enabled_rules ?p = [TrailingStopRule, TimeStopRule]" by code_simp
  have one: "exit_condition ?p ex_trade [ex_row 104 99] TrailingStopRule = False" "exit_condition ?p ex_trade [ex_row 104 99] TimeStopRule = False"
    by code_simp+
  have two: "exit_condition ?p ex_trade [ex_row 104 99, ex_row 108 103] TrailingStopRule = False"
    "exit_condition ?p ex_trade [ex_row 104 99, ex_row 108 103] TimeStopRule = False" by code_simp+
  have three: "exit_condition ?p ex_trade [ex_row 104 99, ex_row 108 103, ex_row 105 101] TrailingStopRule = True" by code_simp
  have "untouched ?p ex_trade (map snd ?bars)"
    using one two by (simp add: untouched_def enabled less_Suc_eq All_less_Suc del: exit_condition.simps)
  from exit_signals_match_reference [OF _ _ _ _ this, of "[]" "[ex_trade]" "ex_row 105 101"]
  show ?thesis using three by (simp add: enabled well_named_def Let_def del: exit_condition.simps)
qed

end
