(* ===== verification/Genome_Params.thy ===== *)
theory Genome_Params
  imports Exit_Rules
begin

text \<open>
  The parameters a search may tune: \<^verbatim>\<open>StrategyParamSpec\<close> of \<^verbatim>\<open>backtesting/strategy_registry.py\<close>, the
  parameters of the exit rules, the exit presets, \<^verbatim>\<open>genome/param_bounds.py\<close> and
  \<^verbatim>\<open>genome/exit_rule_policy.py\<close>, which adds the exit parameters to the bounds of the genome and keeps
  the exit policy of a genome in its metadata. Labels and hints are not modelled.
\<close>

section \<open>Values and parameter specifications\<close>

datatype pyval = PyNone | PyBool bool | PyInt int | PyFloat decimal | PyStr string | PyList "pyval list"
  | PyDict "(string \<times> pyval) list"

datatype ParamType = PT_INT | PT_FLOAT | PT_CATEGORICAL

record StrategyParamSpec =
  ps_name :: string
  ps_type :: ParamType
  ps_default :: pyval
  ps_min :: "decimal option"
  ps_max :: "decimal option"
  ps_step :: "decimal option"
  ps_choices :: "string list option"
  ps_exit_group :: "string option"
  ps_search_min :: "decimal option"
  ps_search_max :: "decimal option"
  ps_search_step :: "decimal option"
  ps_search_scale :: "string option"

definition param_spec ::
    "string \<Rightarrow> ParamType \<Rightarrow> pyval \<Rightarrow> decimal option \<Rightarrow> decimal option \<Rightarrow> decimal option \<Rightarrow> StrategyParamSpec" where
  "param_spec name ty dflt mn mx step = \<lparr>ps_name = name, ps_type = ty, ps_default = dflt, ps_min = mn, ps_max = mx,
     ps_step = step, ps_choices = None, ps_exit_group = None, ps_search_min = None, ps_search_max = None,
     ps_search_step = None, ps_search_scale = None\<rparr>"

definition validate_search_bounds :: "StrategyParamSpec \<Rightarrow> bool" where
  "validate_search_bounds self \<longleftrightarrow>
     (case (ps_search_min self, ps_search_max self) of (Some a, Some b) \<Rightarrow> a < b | _ \<Rightarrow> True) \<and>
     (ps_search_scale self = Some ''log'' \<longrightarrow> ps_type self = PT_FLOAT \<and>
        (case (if ps_search_min self \<noteq> None then ps_search_min self else ps_min self) of None \<Rightarrow> False | Some low \<Rightarrow> 0 < low))"

section \<open>The parameters of the exit rules\<close>

definition fixed_sl_param_specs :: "StrategyParamSpec list" where
  "fixed_sl_param_specs = [
     (param_spec ''stop_loss_pct'' PT_FLOAT (PyFloat 0) (Some 0) (Some (1 / 2)) (Some (1 / 1000)))\<lparr>ps_exit_group := Some ''stop_loss'', ps_search_min := Some (1 / 500), ps_search_max := Some (1 / 20), ps_search_scale := Some ''log''\<rparr>]"

definition atr_sl_param_specs :: "StrategyParamSpec list" where
  "atr_sl_param_specs = [
     (param_spec ''stop_loss_atr'' PT_FLOAT (PyFloat 0) (Some 0) (Some 10) (Some (1 / 10)))\<lparr>ps_exit_group := Some ''stop_loss'', ps_search_min := Some 1, ps_search_max := Some 4, ps_search_step := Some (1 / 2)\<rparr>,
     (param_spec ''atr_period'' PT_INT (PyInt 14) (Some 2) (Some 100) (Some 1))\<lparr>ps_exit_group := Some ''general'', ps_search_min := Some 7, ps_search_max := Some 28, ps_search_step := Some 7\<rparr>]"

definition fixed_tp_param_specs :: "StrategyParamSpec list" where
  "fixed_tp_param_specs = [
     (param_spec ''take_profit_pct'' PT_FLOAT (PyFloat 0) (Some 0) (Some 1) (Some (1 / 1000)))\<lparr>ps_exit_group := Some ''target'', ps_search_min := Some (3 / 1000), ps_search_max := Some (1 / 10), ps_search_scale := Some ''log''\<rparr>]"

definition atr_tp_param_specs :: "StrategyParamSpec list" where
  "atr_tp_param_specs = [
     (param_spec ''take_profit_atr'' PT_FLOAT (PyFloat 0) (Some 0) (Some 20) (Some (1 / 10)))\<lparr>ps_exit_group := Some ''target'', ps_search_min := Some 1, ps_search_max := Some 6, ps_search_step := Some (1 / 2)\<rparr>]"

definition trailing_param_specs :: "StrategyParamSpec list" where
  "trailing_param_specs = [
     (param_spec ''trailing_stop_pct'' PT_FLOAT (PyFloat 0) (Some 0) (Some (1 / 2)) (Some (1 / 1000)))\<lparr>ps_exit_group := Some ''trailing'', ps_search_min := Some (3 / 1000), ps_search_max := Some (3 / 50), ps_search_scale := Some ''log''\<rparr>]"

definition chandelier_param_specs :: "StrategyParamSpec list" where
  "chandelier_param_specs = [
     (param_spec ''chandelier_atr_mult'' PT_FLOAT (PyFloat 0) (Some 0) (Some 10) (Some (1 / 10)))\<lparr>ps_exit_group := Some ''trailing''\<rparr>]"

definition breakeven_param_specs :: "StrategyParamSpec list" where
  "breakeven_param_specs = [
     (param_spec ''breakeven_trigger_pct'' PT_FLOAT (PyFloat 0) (Some 0) (Some (1 / 2)) (Some (1 / 1000)))\<lparr>ps_exit_group := Some ''stop_loss'', ps_search_min := Some (1 / 500), ps_search_max := Some (3 / 100), ps_search_scale := Some ''log''\<rparr>,
     (param_spec ''breakeven_offset_pct'' PT_FLOAT (PyFloat 0) (Some 0) (Some (1 / 10)) (Some (1 / 1000)))\<lparr>ps_exit_group := Some ''stop_loss'', ps_search_min := Some (1 / 2000), ps_search_max := Some (1 / 200), ps_search_scale := Some ''log''\<rparr>]"

definition psar_param_specs :: "StrategyParamSpec list" where
  "psar_param_specs = [
     (param_spec ''psar_af_start'' PT_FLOAT (PyFloat 0) (Some 0) (Some (1 / 10)) (Some (1 / 200)))\<lparr>ps_exit_group := Some ''trailing''\<rparr>,
     (param_spec ''psar_af_step'' PT_FLOAT (PyFloat (1 / 50)) (Some 0) (Some (1 / 10)) (Some (1 / 200)))\<lparr>ps_exit_group := Some ''trailing''\<rparr>,
     (param_spec ''psar_af_max'' PT_FLOAT (PyFloat (1 / 5)) (Some 0) (Some 1) (Some (1 / 100)))\<lparr>ps_exit_group := Some ''trailing''\<rparr>]"

definition ratchet_param_specs :: "StrategyParamSpec list" where
  "ratchet_param_specs = [
     (param_spec ''target_ratchet_atr'' PT_FLOAT (PyFloat 0) (Some 0) (Some 20) (Some (1 / 10)))\<lparr>ps_exit_group := Some ''target''\<rparr>]"

definition time_stop_param_specs :: "StrategyParamSpec list" where
  "time_stop_param_specs = [
     (param_spec ''max_bars_in_trade'' PT_INT (PyInt 0) (Some 0) (Some 5000) (Some 1))\<lparr>ps_exit_group := Some ''time''\<rparr>]"

definition donchian_param_specs :: "StrategyParamSpec list" where
  "donchian_param_specs = [
     (param_spec ''donchian_exit_period'' PT_INT (PyInt 0) (Some 0) (Some 500) (Some 1))\<lparr>ps_exit_group := Some ''trailing''\<rparr>]"

fun param_specs :: "ExitRule \<Rightarrow> StrategyParamSpec list" where
  "param_specs FixedStopLossRule = fixed_sl_param_specs"
| "param_specs AtrStopLossRule = atr_sl_param_specs"
| "param_specs FixedTakeProfitRule = fixed_tp_param_specs"
| "param_specs AtrTakeProfitRule = atr_tp_param_specs"
| "param_specs TrailingStopRule = trailing_param_specs"
| "param_specs ChandelierExitRule = chandelier_param_specs"
| "param_specs BreakevenStopRule = breakeven_param_specs"
| "param_specs ParabolicSarStopRule = psar_param_specs"
| "param_specs ProfitTargetRatchetRule = ratchet_param_specs"
| "param_specs TimeStopRule = time_stop_param_specs"
| "param_specs DonchianChannelStopRule = donchian_param_specs"

fun exit_group :: "ExitRule \<Rightarrow> string" where
  "exit_group FixedStopLossRule = ''stop_loss''"
| "exit_group AtrStopLossRule = ''stop_loss''"
| "exit_group FixedTakeProfitRule = ''target''"
| "exit_group AtrTakeProfitRule = ''target''"
| "exit_group TrailingStopRule = ''trailing''"
| "exit_group ChandelierExitRule = ''trailing''"
| "exit_group BreakevenStopRule = ''stop_loss''"
| "exit_group ParabolicSarStopRule = ''trailing''"
| "exit_group ProfitTargetRatchetRule = ''target''"
| "exit_group TimeStopRule = ''time''"
| "exit_group DonchianChannelStopRule = ''trailing''"

definition param_names :: "ExitRule \<Rightarrow> string list" where
  "param_names rule = map ps_name (filter (\<lambda>spec. ps_exit_group spec \<noteq> Some ''general'') (param_specs rule))"

definition required_param_names :: "ExitRule \<Rightarrow> string list" where
  "required_param_names rule =
     (if rule \<in> {AtrStopLossRule, AtrTakeProfitRule, ChandelierExitRule, ProfitTargetRatchetRule} then [''atr_period''] else [])"

text \<open>The catalogue: by group, then in the order of the registry. Every group is in the list.\<close>

definition EXIT_GROUP_ORDER :: "string list" where
  "EXIT_GROUP_ORDER = [''stop_loss'', ''trailing'', ''target'', ''time'']"

definition list_exit_rules :: "ExitRule list" where
  "list_exit_rules = concat (map (\<lambda>g. filter (\<lambda>rule. exit_group rule = g) EXIT_RULES) EXIT_GROUP_ORDER)"

definition all_param_specs :: "StrategyParamSpec list" where
  "all_param_specs = fold (\<lambda>spec specs. if ps_name spec \<in> ps_name ` set specs then specs else specs @ [spec])
     (concat (map param_specs EXIT_RULES)) []"

section \<open>Presets and exit policies\<close>

record ExitPreset =
  ep_id :: string
  ep_parameters :: "(string \<times> pyval) list"

definition EXIT_PRESETS :: "ExitPreset list" where
  "EXIT_PRESETS = [
     \<lparr>ep_id = ''atr_stop_chandelier'', ep_parameters = [(''stop_loss_atr'', PyFloat 2), (''atr_period'', PyInt 14), (''chandelier_atr_mult'', PyFloat 3)]\<rparr>,
     \<lparr>ep_id = ''breakeven_time_stop'', ep_parameters = [(''breakeven_trigger_pct'', PyFloat (1 / 50)), (''breakeven_offset_pct'', PyFloat (1 / 1000)), (''max_bars_in_trade'', PyInt 50)]\<rparr>,
     \<lparr>ep_id = ''fixed_pct_bracket'', ep_parameters = [(''stop_loss_pct'', PyFloat (1 / 50)), (''take_profit_pct'', PyFloat (1 / 20))]\<rparr>,
     \<lparr>ep_id = ''parabolic_sar_trail'', ep_parameters = [(''psar_af_start'', PyFloat (1 / 50)), (''psar_af_step'', PyFloat (1 / 50)), (''psar_af_max'', PyFloat (1 / 5))]\<rparr>,
     \<lparr>ep_id = ''donchian_channel_trail'', ep_parameters = [(''donchian_exit_period'', PyInt 20)]\<rparr>,
     \<lparr>ep_id = ''ratchet_target_atr_stop'', ep_parameters = [(''target_ratchet_atr'', PyFloat 2), (''stop_loss_atr'', PyFloat 2), (''atr_period'', PyInt 14)]\<rparr>]"

definition genome_exit_param_ref :: "string \<Rightarrow> string" where
  "genome_exit_param_ref exit_param_name = ''exit_'' @ exit_param_name"

definition rules_for_preset :: "ExitPreset \<Rightarrow> ExitRule list" where
  "rules_for_preset preset = (let preset_params = map fst (ep_parameters preset) in
     filter (\<lambda>rule. enable_param rule \<in> set preset_params \<or> list_ex (\<lambda>name. name \<in> set preset_params) (param_names rule)) list_exit_rules)"

text \<open>A sorted list of names without duplicates, as the set it lists.\<close>

definition preset_exit_param_names :: "ExitPreset \<Rightarrow> string set" where
  "preset_exit_param_names preset = set (map fst (ep_parameters preset)) \<union>
     (\<Union>rule\<in>set (rules_for_preset preset). {enable_param rule} \<union> set (param_names rule) \<union> set (required_param_names rule))"

definition preset_by_id :: "string \<Rightarrow> ExitPreset option" where
  "preset_by_id preset_id = find (\<lambda>preset. ep_id preset = preset_id) EXIT_PRESETS"

section \<open>Bounds of the genome\<close>

definition signal_param_bounds :: "StrategyParamSpec list" where
  "signal_param_bounds = [
     (param_spec ''short_period'' PT_INT (PyInt 50) (Some 5) (Some 60) (Some 5)),
     (param_spec ''long_period'' PT_INT (PyInt 200) (Some 50) (Some 300) (Some 25)),
     (param_spec ''short_ma_type'' PT_CATEGORICAL (PyStr ''sma'') (None) (None) (None))\<lparr>ps_choices := Some [''ema'', ''hma'', ''sma'', ''smma'', ''wma'']\<rparr>,
     (param_spec ''long_ma_type'' PT_CATEGORICAL (PyStr ''sma'') (None) (None) (None))\<lparr>ps_choices := Some [''ema'', ''hma'', ''sma'', ''smma'', ''wma'']\<rparr>,
     (param_spec ''threshold'' PT_FLOAT (PyFloat 0) (Some (- 3)) (Some 3) (Some (1 / 2))),
     (param_spec ''period'' PT_INT (PyInt 20) (Some 10) (Some 100) (Some 10)),
     (param_spec ''oversold'' PT_FLOAT (PyFloat 30) (Some 15) (Some 40) (Some 5)),
     (param_spec ''overbought'' PT_FLOAT (PyFloat 70) (Some 60) (Some 85) (Some 5)),
     (param_spec ''num_std'' PT_FLOAT (PyFloat 2) (Some 1) (Some 3) (Some (1 / 2))),
     (param_spec ''fast_period'' PT_INT (PyInt 12) (Some 5) (Some 20) (Some 5)),
     (param_spec ''slow_period'' PT_INT (PyInt 26) (Some 20) (Some 60) (Some 10)),
     (param_spec ''signal_period'' PT_INT (PyInt 9) (Some 5) (Some 15) (Some 5)),
     (param_spec ''band_pct'' PT_FLOAT (PyFloat 0) (Some 0) (Some 1) (Some (1 / 4))),
     (param_spec ''holding_period'' PT_INT (PyInt 10) (Some 5) (Some 30) (Some 5))]"

definition series_param_bounds :: "StrategyParamSpec list" where
  "series_param_bounds = [
     (param_spec ''ma_type'' PT_CATEGORICAL (PyStr ''sma'') (None) (None) (None))\<lparr>ps_choices := Some [''ema'', ''hma'', ''sma'', ''smma'', ''wma'']\<rparr>,
     (param_spec ''lookback_bars'' PT_INT (PyInt 252) (Some 60) (Some 360) (Some 60)),
     (param_spec ''rebalance_bars'' PT_INT (PyInt 21) (Some 10) (Some 60) (Some 10)),
     (param_spec ''vol_window'' PT_INT (PyInt 63) (Some 20) (Some 120) (Some 20)),
     (param_spec ''vol_estimator'' PT_CATEGORICAL (PyStr ''yang_zhang'') (None) (None) (None))\<lparr>ps_choices := Some [''yang_zhang'', ''close_to_close'']\<rparr>,
     (param_spec ''factor'' PT_FLOAT (PyFloat 1) (Some (1 / 2)) (Some 3) (Some (1 / 2))),
     (param_spec ''lookback_1'' PT_INT (PyInt 21) (Some 10) (Some 60) (Some 10)),
     (param_spec ''lookback_2'' PT_INT (PyInt 63) (Some 30) (Some 150) (Some 30)),
     (param_spec ''lookback_3'' PT_INT (PyInt 252) (Some 100) (Some 400) (Some 100)),
     (param_spec ''latent_index'' PT_INT (PyInt 0) (Some 0) (Some 31) (Some 1)),
     (param_spec ''window'' PT_INT (PyInt 63) (Some 5) (Some 200) (Some 5)),
     (param_spec ''change_bars'' PT_INT (PyInt 1) (Some 1) (Some 100) (Some 1)),
     (param_spec ''clip_low'' PT_FLOAT (PyFloat (- 3)) (Some (- 5)) (Some 0) (Some (1 / 2))),
     (param_spec ''clip_high'' PT_FLOAT (PyFloat 3) (Some 0) (Some 5) (Some (1 / 2)))]"

definition session_param_bounds :: "StrategyParamSpec list" where
  "session_param_bounds = [
     (param_spec ''regime_lookback'' PT_INT (PyInt 63) (Some 20) (Some 500) (Some 20)),
     (param_spec ''ma_period'' PT_INT (PyInt 20) (Some 10) (Some 100) (Some 10)),
     (param_spec ''atr_period'' PT_INT (PyInt 14) (Some 7) (Some 28) (Some 7)),
     (param_spec ''range_minutes'' PT_INT (PyInt 60) (Some 15) (Some 120) (Some 15))]"

definition static_param_bounds :: "StrategyParamSpec list" where
  "static_param_bounds = signal_param_bounds @ series_param_bounds @ session_param_bounds"

text \<open>
  \<^verbatim>\<open>_round_to_sig\<close> for one significant figure. The exponent is found by scaling; the steps allowed
  cover the exponents of floats.
\<close>

fun floor_log10 :: "nat \<Rightarrow> decimal \<Rightarrow> int" where
  "floor_log10 0 v = 0"
| "floor_log10 (Suc n) v = (if v \<ge> 10 then floor_log10 n (v / 10) + 1 else if v < 1 then floor_log10 n (v * 10) - 1 else 0)"

definition round_to_sig :: "decimal \<Rightarrow> decimal" where
  "round_to_sig value = (if value = 0 then 0
     else let digits = - floor_log10 400 \<bar>value\<bar> in
       if 0 \<le> digits then of_int (round_half_even (value * 10 ^ nat digits)) / 10 ^ nat digits
       else of_int (round_half_even (value / 10 ^ nat (- digits))) * 10 ^ nat (- digits))"

definition genome_exit_bounds :: "StrategyParamSpec \<Rightarrow> bool \<Rightarrow> decimal \<times> decimal option \<times> decimal option" where
  "genome_exit_bounds spec is_enable =
     (let search_max = (case ps_search_max spec of Some m \<Rightarrow> Some m | None \<Rightarrow> ps_max spec);
          search_min = (case ps_search_min spec of Some m \<Rightarrow> Some m | None \<Rightarrow> ps_min spec);
          low = (if is_enable then 0 else case search_min of Some m \<Rightarrow> m | None \<Rightarrow> (case ps_min spec of Some m \<Rightarrow> m | None \<Rightarrow> 0));
          step = (case ps_search_step spec of Some s \<Rightarrow> Some s
            | None \<Rightarrow> (case (ps_search_scale spec, search_min, search_max) of
                (Some scale, Some a, Some b) \<Rightarrow> if scale = ''log'' then Some (round_to_sig ((b - a) / 12)) else ps_step spec
              | _ \<Rightarrow> ps_step spec))
      in (low, search_max, step))"

definition exit_param_bound :: "StrategyParamSpec \<Rightarrow> StrategyParamSpec" where
  "exit_param_bound spec =
     (let is_enable = (ps_name spec \<in> set (map enable_param list_exit_rules)); (mn, mx, step) = genome_exit_bounds spec is_enable
      in spec\<lparr>ps_name := genome_exit_param_ref (ps_name spec), ps_min := Some mn, ps_max := mx, ps_step := step,
           ps_default := (if is_enable then PyInt 0 else ps_default spec),
           ps_search_min := None, ps_search_max := None, ps_search_step := None, ps_search_scale := None\<rparr>)"

text \<open>No exit parameter has the name of a static one, so none is skipped.\<close>

definition GENOME_PARAM_BOUNDS :: "StrategyParamSpec list" where
  "GENOME_PARAM_BOUNDS = static_param_bounds @
     map exit_param_bound (filter (\<lambda>spec. genome_exit_param_ref (ps_name spec) \<notin> ps_name ` set static_param_bounds) all_param_specs)"

definition param_bound :: "string \<Rightarrow> StrategyParamSpec option" where
  "param_bound key = find (\<lambda>spec. ps_name spec = key) GENOME_PARAM_BOUNDS"

end
