(* ===== verification/Genome_Specs.thy ===== *)
theory Genome_Specs
  imports Genome_Params
begin

text \<open>
  The primitives a strategy genome may use, \<^verbatim>\<open>backtesting/genome/node_specs.py\<close>: for each kind of
  node its arity, the types of its inputs and outputs, its parameters, and which generators of the
  genetic search may insert it.
\<close>

datatype OutputType = OT_PRICE | OT_OSCILLATOR | OT_BOOL | OT_EXIT_POLICY

record NodeSpec =
  ns_kind :: string
  ns_min_inputs :: nat
  ns_max_inputs :: nat
  ns_input_series_types :: "OutputType list option"
  ns_output_ports :: "string list"
  ns_port_types :: "(string \<times> OutputType) list"
  ns_allowed_param_keys :: "string list"
  ns_gen_category :: "string option"
  ns_gen_random_init :: "bool option"
  ns_gen_add_node :: "bool option"
  ns_gen_swap :: "bool option"

type_synonym gen_flags = "string option \<times> bool option \<times> bool option \<times> bool option"

definition no_gen :: gen_flags where
  "no_gen = (None, None, None, None)"

definition NodeSpec_of ::
    "string \<Rightarrow> nat \<Rightarrow> nat \<Rightarrow> OutputType list option \<Rightarrow> (string \<times> OutputType) list \<Rightarrow> string list \<Rightarrow> gen_flags \<Rightarrow> NodeSpec" where
  "NodeSpec_of kind mn mx types ports keys gen = (case gen of (category, random_init, add_node, swap) \<Rightarrow>
     \<lparr>ns_kind = kind, ns_min_inputs = mn, ns_max_inputs = mx, ns_input_series_types = types, ns_output_ports = map fst ports,
      ns_port_types = ports, ns_allowed_param_keys = keys, ns_gen_category = category, ns_gen_random_init = random_init,
      ns_gen_add_node = add_node, ns_gen_swap = swap\<rparr>)"

definition source_specs :: "NodeSpec list" where
  "source_specs = [
     NodeSpec_of ''source.close'' 0 0 None [(''out'', OT_PRICE)] [] no_gen,
     NodeSpec_of ''source.high'' 0 0 None [(''out'', OT_PRICE)] [] no_gen,
     NodeSpec_of ''source.low'' 0 0 None [(''out'', OT_PRICE)] [] no_gen,
     NodeSpec_of ''source.open'' 0 0 None [(''out'', OT_PRICE)] [] no_gen,
     NodeSpec_of ''source.volume'' 0 0 None [(''out'', OT_PRICE)] [] no_gen,
     NodeSpec_of ''source.exog.close'' 0 0 None [(''out'', OT_PRICE)] [''symbol''] (Some ''exogenous'', Some False, Some False, Some False),
     NodeSpec_of ''source.exog.return'' 0 0 None [(''out'', OT_OSCILLATOR)] [''symbol'', ''lookback_bars''] (Some ''exogenous'', Some False, Some False, Some False),
     NodeSpec_of ''source.exog.return_zscore'' 0 0 None [(''out'', OT_OSCILLATOR)] [''symbol'', ''lookback_bars'', ''window''] (Some ''exogenous'', Some False, Some False, Some False),
     NodeSpec_of ''source.exog.rolling_corr'' 0 0 None [(''out'', OT_OSCILLATOR)] [''symbol'', ''window''] (Some ''exogenous'', Some False, Some False, Some False),
     NodeSpec_of ''source.exog.relative_strength'' 0 0 None [(''out'', OT_OSCILLATOR)] [''symbol'', ''lookback_bars''] (Some ''exogenous'', Some False, Some False, Some False),
     NodeSpec_of ''source.exog.vol_regime'' 0 0 None [(''out'', OT_BOOL)] [''symbol'', ''vol_window''] (Some ''exogenous'', Some False, Some False, Some False),
     NodeSpec_of ''source.exog.direction_regime'' 0 0 None [(''out'', OT_BOOL)] [''symbol'', ''lookback_bars''] (Some ''exogenous'', Some False, Some False, Some False)]"

definition indicator_specs :: "NodeSpec list" where
  "indicator_specs = [
     NodeSpec_of ''ind.ma'' 1 1 (Some [OT_PRICE]) [(''out'', OT_PRICE)] [''period'', ''ma_type''] no_gen,
     NodeSpec_of ''ind.ema'' 1 1 (Some [OT_PRICE]) [(''out'', OT_PRICE)] [''period''] no_gen,
     NodeSpec_of ''ind.rsi'' 1 1 (Some [OT_PRICE]) [(''out'', OT_OSCILLATOR)] [''period''] no_gen,
     NodeSpec_of ''ind.atr'' 0 0 None [(''out'', OT_OSCILLATOR)] [''period''] no_gen,
     NodeSpec_of ''ind.macd'' 1 1 (Some [OT_PRICE]) [(''macd'', OT_OSCILLATOR), (''macd_signal'', OT_OSCILLATOR), (''macd_histogram'', OT_OSCILLATOR)] [''fast_period'', ''slow_period'', ''signal_period''] no_gen,
     NodeSpec_of ''ind.bollinger'' 1 1 (Some [OT_PRICE]) [(''bb_upper'', OT_PRICE), (''bb_middle'', OT_PRICE), (''bb_lower'', OT_PRICE)] [''period'', ''num_std''] no_gen,
     NodeSpec_of ''ind.donchian'' 0 0 None [(''donchian_upper'', OT_PRICE), (''donchian_lower'', OT_PRICE)] [''period''] no_gen,
     NodeSpec_of ''ind.momentum'' 1 1 (Some [OT_PRICE]) [(''out'', OT_OSCILLATOR)] [''lookback_bars''] no_gen,
     NodeSpec_of ''ind.realized_vol'' 1 1 (Some [OT_PRICE]) [(''out'', OT_OSCILLATOR)] [''window'', ''estimator''] no_gen,
     NodeSpec_of ''ind.diff'' 2 2 (Some [OT_PRICE, OT_PRICE]) [(''out'', OT_PRICE)] [] no_gen,
     NodeSpec_of ''ind.ratio'' 2 2 (Some [OT_PRICE, OT_OSCILLATOR]) [(''out'', OT_OSCILLATOR)] [] no_gen,
     NodeSpec_of ''ind.trb_channel'' 1 1 (Some [OT_PRICE]) [(''channel_high'', OT_PRICE), (''channel_low'', OT_PRICE), (''trb_upper'', OT_PRICE), (''trb_lower'', OT_PRICE)] [''period'', ''band_pct''] no_gen,
     NodeSpec_of ''ind.ma_band'' 1 1 (Some [OT_PRICE]) [(''ma_band_upper'', OT_PRICE), (''ma_band_lower'', OT_PRICE)] [''band_pct''] no_gen,
     NodeSpec_of ''ind.tsmom'' 0 0 None [(''buy_signal'', OT_BOOL), (''sell_signal'', OT_BOOL), (''momentum'', OT_OSCILLATOR), (''volatility'', OT_OSCILLATOR)] [''lookback_bars'', ''rebalance_bars'', ''vol_window'', ''vol_estimator''] no_gen]"

definition transform_specs :: "NodeSpec list" where
  "transform_specs = [
     NodeSpec_of ''transform.shift'' 1 1 None [(''out'', OT_PRICE)] [''bars''] no_gen,
     NodeSpec_of ''transform.abs'' 1 1 None [(''out'', OT_PRICE)] [] no_gen,
     NodeSpec_of ''transform.scale'' 1 1 None [(''out'', OT_PRICE)] [''factor''] no_gen,
     NodeSpec_of ''transform.zscore'' 1 1 None [(''out'', OT_OSCILLATOR)] [''window''] (Some ''transform'', Some True, Some True, Some True),
     NodeSpec_of ''transform.rank'' 1 1 None [(''out'', OT_OSCILLATOR)] [''window''] (Some ''transform'', Some True, Some True, Some True),
     NodeSpec_of ''transform.pct_change'' 1 1 None [(''out'', OT_OSCILLATOR)] [''change_bars''] (Some ''transform'', Some True, Some True, Some True),
     NodeSpec_of ''transform.clip'' 1 1 None [(''out'', OT_PRICE)] [''clip_low'', ''clip_high''] (Some ''transform'', Some True, Some True, Some True)]"

definition session_feature_specs :: "NodeSpec list" where
  "session_feature_specs = [
     NodeSpec_of ''feature.minutes_from_open'' 0 0 None [(''out'', OT_OSCILLATOR)] [''session_open''] (Some ''feature'', Some True, Some True, Some True),
     NodeSpec_of ''feature.time_of_day'' 0 0 None [(''out'', OT_OSCILLATOR)] [''session_open'', ''session_close''] (Some ''feature'', Some True, Some True, Some True),
     NodeSpec_of ''feature.day_of_week'' 0 0 None [(''out'', OT_OSCILLATOR)] [] (Some ''feature'', Some True, Some True, Some True),
     NodeSpec_of ''feature.month_of_year'' 0 0 None [(''out'', OT_OSCILLATOR)] [] (Some ''feature'', Some True, Some True, Some True),
     NodeSpec_of ''feature.session_window'' 0 0 None [(''out'', OT_BOOL)] [''window_from'', ''window_to''] (Some ''feature'', Some True, Some True, Some False),
     NodeSpec_of ''feature.vol_regime'' 1 1 (Some [OT_PRICE]) [(''out'', OT_OSCILLATOR)] [''window'', ''regime_lookback''] (Some ''feature'', Some True, Some True, Some True),
     NodeSpec_of ''feature.trend_regime'' 1 1 (Some [OT_PRICE]) [(''out'', OT_OSCILLATOR)] [''ma_period''] (Some ''feature'', Some True, Some True, Some True),
     NodeSpec_of ''feature.range_compression'' 1 1 (Some [OT_PRICE]) [(''out'', OT_OSCILLATOR)] [''window'', ''regime_lookback''] (Some ''feature'', Some True, Some True, Some True),
     NodeSpec_of ''feature.prev_session_high'' 0 0 None [(''out'', OT_PRICE)] [] (Some ''feature'', Some True, Some True, Some True),
     NodeSpec_of ''feature.prev_session_low'' 0 0 None [(''out'', OT_PRICE)] [] (Some ''feature'', Some True, Some True, Some True),
     NodeSpec_of ''feature.prev_session_close'' 0 0 None [(''out'', OT_PRICE)] [] (Some ''feature'', Some True, Some True, Some True)]"

definition level_feature_specs :: "NodeSpec list" where
  "level_feature_specs = [
     NodeSpec_of ''feature.session_gap'' 0 0 None [(''out'', OT_OSCILLATOR)] [] (Some ''feature'', Some True, Some True, Some True),
     NodeSpec_of ''feature.dist_prev_session_high_atr'' 0 0 None [(''out'', OT_OSCILLATOR)] [''atr_period''] (Some ''feature'', Some True, Some True, Some True),
     NodeSpec_of ''feature.dist_prev_session_low_atr'' 0 0 None [(''out'', OT_OSCILLATOR)] [''atr_period''] (Some ''feature'', Some True, Some True, Some True),
     NodeSpec_of ''feature.dist_prev_session_close_atr'' 0 0 None [(''out'', OT_OSCILLATOR)] [''atr_period''] (Some ''feature'', Some True, Some True, Some True),
     NodeSpec_of ''feature.opening_range_high'' 0 0 None [(''out'', OT_PRICE)] [''session_open'', ''range_minutes''] (Some ''feature'', Some True, Some True, Some True),
     NodeSpec_of ''feature.opening_range_low'' 0 0 None [(''out'', OT_PRICE)] [''session_open'', ''range_minutes''] (Some ''feature'', Some True, Some True, Some True),
     NodeSpec_of ''feature.d1_prev_high'' 0 0 None [(''out'', OT_PRICE)] [] (Some ''feature'', Some True, Some True, Some True),
     NodeSpec_of ''feature.d1_prev_low'' 0 0 None [(''out'', OT_PRICE)] [] (Some ''feature'', Some True, Some True, Some True),
     NodeSpec_of ''feature.d1_prev_close'' 0 0 None [(''out'', OT_PRICE)] [] (Some ''feature'', Some True, Some True, Some True),
     NodeSpec_of ''feature.d1_trend'' 0 0 None [(''out'', OT_OSCILLATOR)] [] (Some ''feature'', Some True, Some True, Some True),
     NodeSpec_of ''feature.d1_volatility'' 0 0 None [(''out'', OT_OSCILLATOR)] [] (Some ''feature'', Some True, Some True, Some True)]"

definition signal_specs :: "NodeSpec list" where
  "signal_specs = [
     NodeSpec_of ''cmp.gt'' 2 2 (Some [OT_PRICE, OT_PRICE]) [(''out'', OT_BOOL)] [] no_gen,
     NodeSpec_of ''cmp.lt'' 2 2 (Some [OT_PRICE, OT_PRICE]) [(''out'', OT_BOOL)] [] no_gen,
     NodeSpec_of ''cmp.gte'' 2 2 (Some [OT_PRICE, OT_PRICE]) [(''out'', OT_BOOL)] [] no_gen,
     NodeSpec_of ''cmp.lte'' 2 2 (Some [OT_PRICE, OT_PRICE]) [(''out'', OT_BOOL)] [] no_gen,
     NodeSpec_of ''cmp.cross_above'' 1 2 None [(''out'', OT_BOOL)] [''threshold'', ''negate''] no_gen,
     NodeSpec_of ''cmp.cross_below'' 1 2 None [(''out'', OT_BOOL)] [''threshold'', ''negate''] no_gen,
     NodeSpec_of ''cmp.touch_below'' 2 2 (Some [OT_PRICE, OT_PRICE]) [(''out'', OT_BOOL)] [] no_gen,
     NodeSpec_of ''cmp.touch_above'' 2 2 (Some [OT_PRICE, OT_PRICE]) [(''out'', OT_BOOL)] [] no_gen,
     NodeSpec_of ''cmp.trb_breakout_above'' 3 3 (Some [OT_PRICE, OT_PRICE, OT_PRICE]) [(''out'', OT_BOOL)] [] no_gen,
     NodeSpec_of ''cmp.trb_breakout_below'' 3 3 (Some [OT_PRICE, OT_PRICE, OT_PRICE]) [(''out'', OT_BOOL)] [] no_gen,
     NodeSpec_of ''logic.and'' 2 2 None [(''out'', OT_BOOL)] [] no_gen,
     NodeSpec_of ''logic.or'' 2 2 None [(''out'', OT_BOOL)] [] no_gen,
     NodeSpec_of ''logic.not'' 1 1 None [(''out'', OT_BOOL)] [] no_gen]"

definition exit_specs :: "NodeSpec list" where
  "exit_specs = [
     NodeSpec_of ''exit.opposite_signal'' 0 0 None [(''out'', OT_EXIT_POLICY)] [] no_gen,
     NodeSpec_of ''exit.middle_band'' 2 2 (Some [OT_PRICE, OT_PRICE]) [(''exit_long'', OT_BOOL), (''exit_short'', OT_BOOL)] [] no_gen,
     NodeSpec_of ''exit.fixed_holding'' 0 0 None [(''out'', OT_EXIT_POLICY)] [''holding_period''] no_gen,
     NodeSpec_of ''exit.rebalance'' 0 0 None [(''out'', OT_EXIT_POLICY)] [] no_gen]"

definition late_indicator_specs :: "NodeSpec list" where
  "late_indicator_specs = [
     NodeSpec_of ''ind.trend_blend'' 1 1 (Some [OT_PRICE]) [(''out'', OT_OSCILLATOR), (''volatility'', OT_OSCILLATOR)] [''lookback_1'', ''lookback_2'', ''lookback_3'', ''vol_window''] no_gen,
     NodeSpec_of ''ind.latent'' 0 0 None [(''out'', OT_OSCILLATOR)] [''latent_index''] no_gen]"

definition NODE_SPECS :: "NodeSpec list" where
  "NODE_SPECS = source_specs @ indicator_specs @ transform_specs @ session_feature_specs @ level_feature_specs @ signal_specs @ exit_specs @ late_indicator_specs"

definition node_spec :: "string \<Rightarrow> NodeSpec option" where
  "node_spec kind = find (\<lambda>spec. ns_kind spec = kind) NODE_SPECS"

definition DEFAULT_MAX_DEPTH :: nat where "DEFAULT_MAX_DEPTH = 12"

definition DEFAULT_MAX_NODE_COUNT :: nat where "DEFAULT_MAX_NODE_COUNT = 24"

text \<open>\<^verbatim>\<open>str.split(c, 1)\<close> at the first occurrence, and \<^verbatim>\<open>str.startswith\<close>.\<close>

primrec split_first :: "char \<Rightarrow> string \<Rightarrow> string \<times> string option" where
  "split_first c [] = ([], None)"
| "split_first c (x # xs) = (if x = c then ([], Some xs) else (case split_first c xs of (a, b) \<Rightarrow> (x # a, b)))"

definition starts_with :: "string \<Rightarrow> string \<Rightarrow> bool" where
  "starts_with p s = prefix p s"

definition parse_input_ref :: "string \<Rightarrow> string \<times> string" where
  "parse_input_ref raw = (case split_first CHR '':'' raw of
     (node_id, Some port) \<Rightarrow> (node_id, port) | (_, None) \<Rightarrow> (raw, ''out''))"

definition port_output_type :: "string \<Rightarrow> string \<Rightarrow> OutputType option" where
  "port_output_type kind port = (case node_spec kind of None \<Rightarrow> None | Some spec \<Rightarrow> map_of (ns_port_types spec) port)"

section \<open>Generation metadata\<close>

record NodeGenMetadata =
  ng_category :: string
  ng_random_init :: bool
  ng_add_node :: bool
  ng_swap :: bool

definition derive_gen_category :: "string \<Rightarrow> string" where
  "derive_gen_category kind = (case map_of [(''source'', ''source''), (''ind'', ''indicator''), (''transform'', ''transform''),
       (''feature'', ''feature''), (''cmp'', ''cmp''), (''logic'', ''logic''), (''exit'', ''exit'')] (fst (split_first CHR ''.'' kind)) of
     None \<Rightarrow> ''core'' | Some c \<Rightarrow> c)"

definition SWAP_EXCLUDED_INDICATORS :: "string list" where
  "SWAP_EXCLUDED_INDICATORS = [''ind.diff'', ''ind.ratio'', ''ind.tsmom'', ''ind.latent'']"

definition ADD_NODE_INDICATORS :: "string list" where
  "ADD_NODE_INDICATORS = [''ind.ma'', ''ind.ema'', ''ind.rsi'']"

definition WO158_TRANSFORM_KINDS :: "string list" where
  "WO158_TRANSFORM_KINDS = [''transform.zscore'', ''transform.rank'', ''transform.pct_change'', ''transform.clip'']"

definition WO159_CONTEXT_FEATURE_KINDS :: "string list" where
  "WO159_CONTEXT_FEATURE_KINDS = [''feature.minutes_from_open'', ''feature.time_of_day'', ''feature.day_of_week'', ''feature.month_of_year'', ''feature.session_window'', ''feature.vol_regime'', ''feature.trend_regime'', ''feature.range_compression'', ''feature.prev_session_high'', ''feature.prev_session_low'', ''feature.prev_session_close'', ''feature.session_gap'', ''feature.dist_prev_session_high_atr'', ''feature.dist_prev_session_low_atr'', ''feature.dist_prev_session_close_atr'', ''feature.opening_range_high'', ''feature.opening_range_low'', ''feature.d1_prev_high'', ''feature.d1_prev_low'', ''feature.d1_prev_close'', ''feature.d1_trend'', ''feature.d1_volatility'']"

definition flag_or :: "bool option \<Rightarrow> bool \<Rightarrow> bool" where
  "flag_or flag dflt = (case flag of None \<Rightarrow> dflt | Some b \<Rightarrow> b)"

definition resolve_node_gen_metadata :: "NodeSpec \<Rightarrow> NodeGenMetadata" where
  "resolve_node_gen_metadata spec =
     (let category = (case ns_gen_category spec of None \<Rightarrow> derive_gen_category (ns_kind spec) | Some c \<Rightarrow> c);
          category_or = (\<lambda>c. case ns_gen_category spec of None \<Rightarrow> c | Some x \<Rightarrow> if x = [] then c else x);
          meta = (\<lambda>c random_init add_node swap. \<lparr>ng_category = c, ng_random_init = flag_or (ns_gen_random_init spec) random_init,
            ng_add_node = flag_or (ns_gen_add_node spec) add_node, ng_swap = flag_or (ns_gen_swap spec) swap\<rparr>)
      in if ns_kind spec \<in> set WO158_TRANSFORM_KINDS then meta (category_or ''transform'') True True True
         else if ns_kind spec \<in> set WO159_CONTEXT_FEATURE_KINDS
           then meta (category_or ''feature'') True True (ns_kind spec \<noteq> ''feature.session_window'')
         else if starts_with ''ind.'' (ns_kind spec)
           then meta category False (ns_kind spec \<in> set ADD_NODE_INDICATORS) (ns_kind spec \<notin> set SWAP_EXCLUDED_INDICATORS)
         else meta category False False False)"

text \<open>Sorted tuples of kinds, as the sets they list.\<close>

definition kinds_with :: "(NodeSpec \<Rightarrow> bool) \<Rightarrow> string set" where
  "kinds_with P = ns_kind ` set (filter P NODE_SPECS)"

definition base_indicator_kinds :: "string set" where
  "base_indicator_kinds = kinds_with (\<lambda>spec. starts_with ''ind.'' (ns_kind spec) \<and> ng_swap (resolve_node_gen_metadata spec) \<and>
     ns_kind spec \<noteq> ''ind.latent'')"

definition add_node_kinds :: "string set" where
  "add_node_kinds = kinds_with (\<lambda>spec. ng_add_node (resolve_node_gen_metadata spec))"

definition random_init_transform_kinds :: "string set" where
  "random_init_transform_kinds = kinds_with (\<lambda>spec. starts_with ''transform.'' (ns_kind spec) \<and> ng_random_init (resolve_node_gen_metadata spec))"

definition swap_kinds :: "string set \<Rightarrow> string set" where
  "swap_kinds indicator_kinds = {kind \<in> indicator_kinds. kind \<in> ns_kind ` set NODE_SPECS \<and> starts_with ''ind.'' kind} \<union>
     kinds_with (\<lambda>spec. starts_with ''transform.'' (ns_kind spec) \<and> ng_swap (resolve_node_gen_metadata spec)) \<union>
     kinds_with (\<lambda>spec. starts_with ''feature.'' (ns_kind spec) \<and> ng_swap (resolve_node_gen_metadata spec))"

end
