(* ===== verification/Genome.thy ===== *)
theory Genome
  imports Genome_Specs "HOL-Library.List_Lexorder" "HOL-Library.Char_ord"
begin

text \<open>
  Strategy genomes: the document of \<^verbatim>\<open>backtesting/genome/schema.py\<close>, its validation,
  \<^verbatim>\<open>validate.py\<close>, and its compilation into an execution plan, \<^verbatim>\<open>compile.py\<close>. A validation is the
  first error it raises, or \<open>None\<close>. The recursions over the inputs of a node have fuel; both are
  called with the number of nodes plus one, which is enough for every genome without a cycle.
\<close>

section \<open>Documents\<close>

datatype genome_error =
    GenomeValidationError string
  | GenomeKeyError string
  | GenomeTypeError
  | GenomeValueError string
  | GenomeRecursionError

record GenomeNode =
  gn_id :: string
  gn_kind :: string
  gn_params :: "(string \<times> pyval) list"
  gn_inputs :: "string list"

record Genome =
  ge_genome_id :: string
  ge_nodes :: "GenomeNode list"
  ge_entry_long :: string
  ge_entry_short :: string
  ge_exit_long :: string
  ge_exit_short :: string
  ge_metadata :: "(string \<times> pyval) list"

definition node_by_id :: "GenomeNode list \<Rightarrow> string \<Rightarrow> GenomeNode option" where
  "node_by_id nodes node_id = find (\<lambda>n. gn_id n = node_id) nodes"

text \<open>The first error of a sequence of checks.\<close>

primrec first_error :: "genome_error option list \<Rightarrow> genome_error option" where
  "first_error [] = None"
| "first_error (e # es) = (case e of None \<Rightarrow> first_error es | Some x \<Rightarrow> Some x)"

definition fail_if :: "bool \<Rightarrow> string \<Rightarrow> genome_error option" where
  "fail_if b message = (if b then Some (GenomeValidationError message) else None)"

section \<open>Values of parameters\<close>

definition is_param_ref :: "pyval \<Rightarrow> bool" where
  "is_param_ref v = (case v of PyDict d \<Rightarrow> ''param'' \<in> fst ` set d \<and> length d \<le> 2 | _ \<Rightarrow> False)"

text \<open>
  The text of a value. Numbers, lists and the like render to texts that name no parameter and are
  no time of day; so does the empty text that stands for them here.
\<close>

definition py_text :: "pyval \<Rightarrow> string" where
  "py_text v = (case v of PyStr s \<Rightarrow> s | _ \<Rightarrow> [])"

definition ref_name :: "pyval \<Rightarrow> string" where
  "ref_name v = (case v of PyDict d \<Rightarrow> (case map_of d ''param'' of Some p \<Rightarrow> py_text p | None \<Rightarrow> []) | _ \<Rightarrow> [])"

fun py_number :: "pyval \<Rightarrow> decimal option" where
  "py_number (PyInt i) = Some (of_int i)"
| "py_number (PyFloat x) = Some x"
| "py_number (PyBool b) = Some (if b then 1 else 0)"
| "py_number _ = None"

fun py_truthy :: "pyval \<Rightarrow> bool" where
  "py_truthy PyNone = False"
| "py_truthy (PyBool b) = b"
| "py_truthy (PyInt i) = (i \<noteq> 0)"
| "py_truthy (PyFloat x) = (x \<noteq> 0)"
| "py_truthy (PyStr s) = (s \<noteq> [])"
| "py_truthy (PyList l) = (l \<noteq> [])"
| "py_truthy (PyDict d) = (d \<noteq> [])"

text \<open>\<^verbatim>\<open>isinstance(value, int)\<close>, which a bool is, and its value.\<close>

fun py_int_value :: "pyval \<Rightarrow> int option" where
  "py_int_value (PyInt i) = Some i"
| "py_int_value (PyBool b) = Some (if b then 1 else 0)"
| "py_int_value _ = None"

text \<open>The regular expression for a time of day, on the stripped text.\<close>

definition digit_value :: "char \<Rightarrow> int option" where
  "digit_value c = map_of (zip ''0123456789'' [0..9]) c"

definition minute_value :: "char \<Rightarrow> char \<Rightarrow> int option" where
  "minute_value a b = (case (digit_value a, digit_value b) of
     (Some x, Some y) \<Rightarrow> if x \<le> 5 then Some (10 * x + y) else None | _ \<Rightarrow> None)"

definition parse_hhmm :: "string \<Rightarrow> (int \<times> int) option" where
  "parse_hhmm v = (case strip_text v of
     [h, sep, m1, m2] \<Rightarrow> (case (digit_value h, minute_value m1 m2) of
        (Some x, Some m) \<Rightarrow> if sep = CHR '':'' then Some (x, m) else None | _ \<Rightarrow> None)
   | [h1, h2, sep, m1, m2] \<Rightarrow> (case (digit_value h1, digit_value h2, minute_value m1 m2) of
        (Some x, Some y, Some m) \<Rightarrow> if sep = CHR '':'' \<and> (x \<le> 1 \<or> x = 2 \<and> y \<le> 3) then Some (10 * x + y, m) else None
      | _ \<Rightarrow> None)
   | _ \<Rightarrow> None)"

definition hhmm_to_minutes :: "string \<Rightarrow> int option" where
  "hhmm_to_minutes v = map_option (\<lambda>(hour, minute). hour * 60 + minute) (parse_hhmm v)"

section \<open>Validation of one node\<close>

text \<open>\<^verbatim>\<open>value > high\<close>, where the value is a number and the other operand may be anything.\<close>

definition clip_error :: "decimal \<Rightarrow> pyval \<Rightarrow> bool \<Rightarrow> string \<Rightarrow> genome_error option" where
  "clip_error v other is_low message = (case py_number other of
     None \<Rightarrow> Some GenomeTypeError
   | Some w \<Rightarrow> fail_if (if is_low then v > w else v < w) message)"

definition clip_param_error :: "(string \<times> pyval) list \<Rightarrow> string \<Rightarrow> pyval \<Rightarrow> genome_error option" where
  "clip_param_error params key v =
     (let check = (\<lambda>own other is_low message. if key = own then (case map_of params other of
            Some o' \<Rightarrow> if is_param_ref o' then None else (case py_number v of None \<Rightarrow> None | Some x \<Rightarrow> clip_error x o' is_low message)
          | None \<Rightarrow> None) else None)
      in first_error [check ''clip_low'' ''clip_high'' True ''clip_low must be <= clip_high'',
                      check ''clip_high'' ''clip_low'' False ''clip_high must be >= clip_low''])"

definition param_error :: "GenomeNode \<Rightarrow> string \<times> pyval \<Rightarrow> genome_error option" where
  "param_error node = (\<lambda>(key, v).
     if is_param_ref v then fail_if (param_bound (ref_name v) = None) ''param ref is not in GENOME_PARAM_BOUNDS''
     else if key = ''bars'' \<and> gn_kind node = ''transform.shift'' then fail_if (py_number v \<noteq> Some 1) ''transform.shift.bars must be 1''
     else if key = ''change_bars'' \<and> gn_kind node = ''transform.pct_change'' then
       fail_if (case py_int_value v of None \<Rightarrow> True | Some i \<Rightarrow> i < 1) ''transform.pct_change.change_bars must be >= 1''
     else if gn_kind node = ''transform.clip'' then clip_param_error (gn_params node) key v
     else if gn_kind node = ''feature.session_window'' \<and> key = ''window_to'' \<and>
       (case map_of (gn_params node) ''window_from'' of None \<Rightarrow> False | Some w \<Rightarrow> \<not> is_param_ref w) then
       (case (hhmm_to_minutes (case map_of (gn_params node) ''window_from'' of None \<Rightarrow> [] | Some w \<Rightarrow> py_text w),
              hhmm_to_minutes (py_text v)) of
          (Some a, Some b) \<Rightarrow> fail_if (a \<ge> b) ''feature.session_window window_from must be before window_to''
        | _ \<Rightarrow> Some (GenomeValidationError ''window must be HH:MM''))
     else if key \<in> set [''session_open'', ''session_close'', ''window_from'', ''window_to''] then
       fail_if (parse_hhmm (py_text v) = None) ''param must be HH:MM''
     else None)"

text \<open>The position of an input is that of the first equal one, as \<^verbatim>\<open>list.index\<close> finds it.\<close>

definition input_index :: "string list \<Rightarrow> string \<Rightarrow> nat" where
  "input_index inputs raw = length (takeWhile (\<lambda>x. x \<noteq> raw) inputs)"

definition series_error :: "NodeSpec \<Rightarrow> GenomeNode \<Rightarrow> string \<Rightarrow> OutputType \<Rightarrow> genome_error option" where
  "series_error spec node raw ref_type = (case ns_input_series_types spec of
     None \<Rightarrow> None
   | Some types \<Rightarrow> let idx = input_index (gn_inputs node) raw in
       if idx < length types then fail_if (ref_type \<notin> {types ! idx, OT_PRICE, OT_OSCILLATOR}) ''type does not match expected''
       else Some (GenomeKeyError ''tuple index out of range''))"

definition input_error :: "GenomeNode list \<Rightarrow> NodeSpec \<Rightarrow> GenomeNode \<Rightarrow> string \<Rightarrow> genome_error option" where
  "input_error nodes spec node raw =
     (let (ref_node_id, port) = parse_input_ref raw in
      case node_by_id nodes ref_node_id of
        None \<Rightarrow> Some (GenomeValidationError ''input references unknown node'')
      | Some ref_node \<Rightarrow> (case port_output_type (gn_kind ref_node) port of
          None \<Rightarrow> Some (GenomeValidationError ''input references invalid port'')
        | Some ref_type \<Rightarrow> first_error
            [if starts_with ''logic.'' (gn_kind node) then fail_if (ref_type \<noteq> OT_BOOL) ''requires bool_series inputs''
             else if starts_with ''cmp.'' (gn_kind node) then fail_if (ref_type = OT_BOOL) ''cannot compare bool_series input''
             else if gn_kind node = ''exit.middle_band'' then fail_if (ref_type \<noteq> OT_PRICE) ''requires price_series inputs''
             else None,
             series_error spec node raw ref_type]))"

definition node_error :: "GenomeNode list \<Rightarrow> GenomeNode \<Rightarrow> genome_error option" where
  "node_error nodes node = (case node_spec (gn_kind node) of
     None \<Rightarrow> Some (GenomeValidationError ''Unknown node kind'')
   | Some spec \<Rightarrow> first_error
      ([fail_if (\<not> set (map fst (gn_params node)) \<subseteq> set (ns_allowed_param_keys spec)) ''unknown params'']
       @ map (param_error node) (gn_params node)
       @ [fail_if (length (gn_inputs node) < ns_min_inputs spec \<or> length (gn_inputs node) > ns_max_inputs spec) ''wrong number of inputs'']
       @ map (input_error nodes spec node) (gn_inputs node)))"

section \<open>The graph\<close>

definition parents :: "GenomeNode \<Rightarrow> string list" where
  "parents node = map (\<lambda>raw. fst (parse_input_ref raw)) (gn_inputs node)"

definition adjacency :: "GenomeNode list \<Rightarrow> string \<Rightarrow> string list" where
  "adjacency nodes parent = concat (map (\<lambda>n. map (\<lambda>_. gn_id n) (filter (\<lambda>p. p = parent) (parents n))) nodes)"

definition indegrees :: "GenomeNode list \<Rightarrow> (string \<times> int) list" where
  "indegrees nodes = map (\<lambda>n. (gn_id n, int (length (gn_inputs n)))) nodes"

text \<open>
  One turn of the loop: the children of a node lose one from their indegree, and those that
  reach zero are ready. Every child is a node of the genome; nothing else is in the table.
\<close>

primrec relax :: "(string \<times> int) list \<Rightarrow> string list \<Rightarrow> (string \<times> int) list \<times> string list" where
  "relax indegree [] = (indegree, [])"
| "relax indegree (child # children) = (case map_of indegree child of
     None \<Rightarrow> relax indegree children
   | Some d \<Rightarrow> (case relax (dict_put child (d - 1) indegree) children of
       (indegree', ready) \<Rightarrow> (indegree', (if d - 1 = 0 then [child] else []) @ ready)))"

definition pending_edges :: "(string \<times> int) list \<Rightarrow> nat" where
  "pending_edges indegree = sum_list (map (\<lambda>(_, d). nat d) indegree)"

lemma pending_put:
  "map_of indegree c = Some d \<Longrightarrow> pending_edges (dict_put c e indegree) + nat d = pending_edges indegree + nat e"
  by (induction indegree) (auto simp: pending_edges_def split: if_splits)

lemma pending_relax:
  "pending_edges (fst (relax indegree children)) + length (snd (relax indegree children)) \<le> pending_edges indegree"
proof (induction children arbitrary: indegree)
  case (Cons c cs)
  show ?case
  proof (cases "map_of indegree c")
    case (Some d)
    then show ?thesis using Cons [of "dict_put c (d - 1) indegree"] pending_put [OF Some, of "d - 1"]
      by (auto split: prod.splits)
  qed (use Cons in simp)
qed simp

function kahn :: "(string \<Rightarrow> string list) \<Rightarrow> (string \<times> int) list \<Rightarrow> string list \<Rightarrow> string list" where
  "kahn adj indegree [] = []"
| "kahn adj indegree (current # queue) =
     current # kahn adj (fst (relax indegree (adj current))) (queue @ snd (relax indegree (adj current)))"
  by pat_completeness auto

termination kahn
proof (relation "measure (\<lambda>(adj, indegree, queue). 2 * pending_edges indegree + length queue)", goal_cases)
  case (2 adj indegree current queue)
  then show ?case using pending_relax [of indegree "adj current"] by simp
qed simp

definition kahn_order :: "GenomeNode list \<Rightarrow> string list" where
  "kahn_order nodes = kahn (adjacency nodes) (indegrees nodes) (map fst (filter (\<lambda>(_, d). d = 0) (indegrees nodes)))"

definition assert_acyclic :: "GenomeNode list \<Rightarrow> genome_error option" where
  "assert_acyclic nodes = fail_if (length (kahn_order nodes) \<noteq> length nodes) ''Genome DAG contains a cycle''"

primrec node_depth :: "nat \<Rightarrow> (string \<Rightarrow> string list) \<Rightarrow> string \<Rightarrow> nat option" where
  "node_depth 0 children node_id = None"
| "node_depth (Suc fuel) children node_id =
     (if children node_id = [] then Some 1
      else map_option (\<lambda>ds. 1 + Max (set ds)) (those (map (node_depth fuel children) (children node_id))))"

definition children_of :: "GenomeNode list \<Rightarrow> string \<Rightarrow> string list" where
  "children_of nodes node_id = (case node_by_id nodes node_id of None \<Rightarrow> [] | Some n \<Rightarrow> parents n)"

definition depth_error :: "nat \<Rightarrow> GenomeNode list \<Rightarrow> GenomeNode \<Rightarrow> genome_error option" where
  "depth_error max_depth nodes node = (case node_depth (Suc (length nodes)) (children_of nodes) (gn_id node) of
     None \<Rightarrow> Some GenomeRecursionError
   | Some depth \<Rightarrow> fail_if (depth > max_depth) ''exceeds max depth'')"

section \<open>Signals and the exit policy\<close>

definition require_bool_ref :: "GenomeNode list \<Rightarrow> string \<Rightarrow> genome_error option" where
  "require_bool_ref nodes ref_id =
     (let (node_id, port) = parse_input_ref ref_id in
      case node_by_id nodes node_id of
        None \<Rightarrow> Some (GenomeValidationError ''references unknown node'')
      | Some node \<Rightarrow> (case port_output_type (gn_kind node) port of
          None \<Rightarrow> Some (GenomeValidationError ''references invalid port'')
        | Some out_type \<Rightarrow> fail_if (out_type \<noteq> OT_BOOL) ''must reference a bool_series node''))"

definition exit_ref_error :: "GenomeNode list \<Rightarrow> string \<Rightarrow> genome_error option" where
  "exit_ref_error nodes ref_id =
     (let (node_id, port) = parse_input_ref ref_id in
      case node_by_id nodes node_id of
        None \<Rightarrow> Some (GenomeValidationError ''references unknown node'')
      | Some node \<Rightarrow>
          if starts_with ''exit.'' (gn_kind node) then None
          else (case port_output_type (gn_kind node) port of
            None \<Rightarrow> Some (GenomeValidationError ''references invalid port'')
          | Some out_type \<Rightarrow> fail_if (out_type \<noteq> OT_BOOL) ''must reference a bool_series or exit_policy node''))"

definition validate_signal_refs :: "Genome \<Rightarrow> genome_error option" where
  "validate_signal_refs genome = first_error
     [require_bool_ref (ge_nodes genome) (ge_entry_long genome), require_bool_ref (ge_nodes genome) (ge_entry_short genome),
      exit_ref_error (ge_nodes genome) (ge_exit_long genome), exit_ref_error (ge_nodes genome) (ge_exit_short genome)]"

definition get_exit_rule_policy :: "Genome \<Rightarrow> (string \<times> pyval) list option" where
  "get_exit_rule_policy genome = (case map_of (ge_metadata genome) ''exit_rule_policy'' of
     Some (PyDict policy) \<Rightarrow> if ''params'' \<in> fst ` set policy then Some policy else None
   | _ \<Rightarrow> None)"

definition single_stop_ids :: "string list" where
  "single_stop_ids = [''fixed_stop_only'', ''atr_stop_only'']"

definition policy_param_error :: "string \<Rightarrow> string \<times> pyval \<Rightarrow> genome_error option" where
  "policy_param_error preset_id = (\<lambda>(exit_name, binding).
     if \<not> is_param_ref binding then None
     else if param_bound (ref_name binding) = None
       then Some (GenomeValidationError ''exit_rule_policy param ref is not in GENOME_PARAM_BOUNDS'')
     else if preset_id \<in> set single_stop_ids then None
     else case preset_by_id preset_id of
       None \<Rightarrow> Some (GenomeKeyError preset_id)
     | Some preset \<Rightarrow> fail_if (exit_name \<notin> preset_exit_param_names preset) ''exit_rule_policy param is not part of preset'')"

definition validate_exit_rule_policy :: "Genome \<Rightarrow> genome_error option" where
  "validate_exit_rule_policy genome = (case get_exit_rule_policy genome of
     None \<Rightarrow> None
   | Some policy \<Rightarrow> (case map_of policy ''preset_id'' of
       Some (PyStr preset_id) \<Rightarrow>
         if preset_id = [] then Some (GenomeValidationError ''preset_id must be a non-empty string'')
         else if preset_id \<notin> set (map ep_id EXIT_PRESETS) \<union> set single_stop_ids
           then Some (GenomeValidationError ''preset_id is not a supported exit preset'')
         else (case map_of policy ''params'' of
           Some (PyDict params) \<Rightarrow>
             if params = [] then Some (GenomeValidationError ''params must be a non-empty object'')
             else first_error (map (policy_param_error preset_id) params)
         | _ \<Rightarrow> Some (GenomeValidationError ''params must be a non-empty object''))
     | _ \<Rightarrow> Some (GenomeValidationError ''preset_id must be a non-empty string'')))"

definition validate_genome :: "nat \<Rightarrow> nat \<Rightarrow> Genome \<Rightarrow> genome_error option" where
  "validate_genome max_depth max_node_count genome = (let nodes = ge_nodes genome in first_error
     ([fail_if (length nodes > max_node_count) ''too many nodes'', fail_if (\<not> distinct (map gn_id nodes)) ''Duplicate node id'']
      @ map (node_error nodes) nodes
      @ [assert_acyclic nodes]
      @ map (depth_error max_depth nodes) nodes
      @ [validate_signal_refs genome, validate_exit_rule_policy genome]))"

end
