(* ===== verification/Genome_Compile.thy ===== *)
theory Genome_Compile
  imports Genome
begin

text \<open>
  Compilation of a genome, \<^verbatim>\<open>backtesting/genome/compile.py\<close> with \<^verbatim>\<open>resolve_node_params\<close> of
  \<^verbatim>\<open>validate.py\<close>. The memo table of \<^verbatim>\<open>compile_node\<close> only avoids compiling a node twice; without it
  the result is the same. A cache key is the structure its text prints.
\<close>

section \<open>Resolved parameters\<close>

fun py_negate :: "pyval \<Rightarrow> pyval" where
  "py_negate (PyInt i) = PyInt (- i)"
| "py_negate (PyBool b) = PyInt (if b then - 1 else 0)"
| "py_negate (PyFloat x) = PyFloat (- x)"
| "py_negate v = v"

definition ref_negated :: "pyval \<Rightarrow> bool" where
  "ref_negated v = (case v of PyDict d \<Rightarrow> (case map_of d ''negate'' of None \<Rightarrow> False | Some n \<Rightarrow> py_truthy n) | _ \<Rightarrow> False)"

definition resolve_value :: "(string \<rightharpoonup> pyval) \<Rightarrow> pyval \<Rightarrow> genome_error + pyval" where
  "resolve_value trial_params v =
     (if \<not> is_param_ref v then Inr v
      else case (case trial_params (ref_name v) of Some x \<Rightarrow> Some x | None \<Rightarrow> map_option ps_default (param_bound (ref_name v))) of
        None \<Rightarrow> Inl (GenomeKeyError (ref_name v))
      | Some x \<Rightarrow> Inr (if ref_negated v then py_negate x else x))"

definition resolve_node_params :: "GenomeNode \<Rightarrow> (string \<rightharpoonup> pyval) \<Rightarrow> genome_error + (string \<times> pyval) list" where
  "resolve_node_params node trial_params =
     (let bars = (if gn_kind node = ''transform.shift'' \<and> ''bars'' \<notin> fst ` set (gn_params node) then [(''bars'', PyInt 1)] else [])
      in map_sum id (\<lambda>resolved. bars @ resolved)
           (map_result (\<lambda>(key, v). map_sum id (Pair key) (resolve_value trial_params v)) (gn_params node)))"

section \<open>Compiled nodes\<close>

datatype cache_key = CacheKey string "(string \<times> pyval) list" "cache_key list"

record InputBinding =
  ib_node_id :: string
  ib_port :: string
  ib_column :: string

record CompiledNode =
  cn_node :: GenomeNode
  cn_resolved_params :: "(string \<times> pyval) list"
  cn_column_by_port :: "(string \<times> string) list"
  cn_input_bindings :: "InputBinding list"
  cn_cache_key :: cache_key

definition column_name :: "string \<Rightarrow> string \<Rightarrow> string" where
  "column_name node_id port = (if port = ''out'' then ''g_'' @ node_id else ''g_'' @ node_id @ ''__'' @ port)"

definition cache_key_of :: "string \<Rightarrow> (string \<times> pyval) list \<Rightarrow> cache_key list \<Rightarrow> cache_key" where
  "cache_key_of kind resolved_params input_keys = CacheKey kind (sort_key fst resolved_params) input_keys"

definition bind_input :: "(string \<Rightarrow> genome_error + CompiledNode) \<Rightarrow> string \<Rightarrow> genome_error + InputBinding \<times> cache_key" where
  "bind_input compile raw_input =
     (let (parent_id, port) = parse_input_ref raw_input in
      case compile parent_id of
        Inl e \<Rightarrow> Inl e
      | Inr parent \<Rightarrow> (case map_of (cn_column_by_port parent) port of
          None \<Rightarrow> Inl (GenomeKeyError port)
        | Some column \<Rightarrow> Inr (\<lparr>ib_node_id = parent_id, ib_port = port, ib_column = column\<rparr>, cn_cache_key parent)))"

definition assemble_node ::
    "(string \<rightharpoonup> pyval) \<Rightarrow> GenomeNode \<Rightarrow> (InputBinding \<times> cache_key) list \<Rightarrow> genome_error + CompiledNode" where
  "assemble_node params node inputs = (case resolve_node_params node params of
     Inl e \<Rightarrow> Inl e
   | Inr resolved \<Rightarrow> (case node_spec (gn_kind node) of
       None \<Rightarrow> Inl (GenomeKeyError (gn_kind node))
     | Some spec \<Rightarrow> Inr \<lparr>cn_node = node, cn_resolved_params = resolved,
         cn_column_by_port = map (\<lambda>port. (port, column_name (gn_id node) port)) (ns_output_ports spec),
         cn_input_bindings = map fst inputs, cn_cache_key = cache_key_of (gn_kind node) resolved (map snd inputs)\<rparr>))"

primrec compile_node ::
    "nat \<Rightarrow> GenomeNode list \<Rightarrow> (string \<rightharpoonup> pyval) \<Rightarrow> string \<Rightarrow> genome_error + CompiledNode" where
  "compile_node 0 nodes params node_id = Inl GenomeRecursionError"
| "compile_node (Suc fuel) nodes params node_id = (case node_by_id nodes node_id of
     None \<Rightarrow> Inl (GenomeKeyError node_id)
   | Some node \<Rightarrow> (case map_result (bind_input (compile_node fuel nodes params)) (gn_inputs node) of
       Inl e \<Rightarrow> Inl e
     | Inr inputs \<Rightarrow> assemble_node params node inputs))"

section \<open>Execution plans\<close>

datatype ExitPolicyKind = EP_BOOL | EP_FIXED_HOLDING | EP_MIDDLE_BAND | EP_REBALANCE

record ExecutionPlan =
  pl_trial_params :: "string \<rightharpoonup> pyval"
  pl_sorted_nodes :: "CompiledNode list"
  pl_entry_long_column :: string
  pl_entry_short_column :: string
  pl_exit_long_policy :: ExitPolicyKind
  pl_exit_short_policy :: ExitPolicyKind
  pl_exit_long_column :: "string option"
  pl_exit_short_column :: "string option"
  pl_exit_long_middle_columns :: "(string \<times> string) option"
  pl_fixed_holding_period :: "int option"

definition topological_sort :: "GenomeNode list \<Rightarrow> genome_error + string list" where
  "topological_sort nodes = (if length (kahn_order nodes) \<noteq> length nodes
     then Inl (GenomeValidationError ''Failed to topologically sort genome DAG'') else Inr (kahn_order nodes))"

definition port_column :: "CompiledNode \<Rightarrow> string \<Rightarrow> genome_error + string" where
  "port_column compiled port = (case map_of (cn_column_by_port compiled) port of
     None \<Rightarrow> Inl (GenomeKeyError port) | Some column \<Rightarrow> Inr column)"

definition resolve_signal_column :: "(string \<Rightarrow> genome_error + CompiledNode) \<Rightarrow> string \<Rightarrow> genome_error + string" where
  "resolve_signal_column compiled ref_id = (let (node_id, port) = parse_input_ref ref_id in
     case compiled node_id of Inl e \<Rightarrow> Inl e | Inr c \<Rightarrow> port_column c port)"

type_synonym exit_resolution = "ExitPolicyKind \<times> string option \<times> (string \<times> string) option"

definition resolve_exit :: "CompiledNode \<Rightarrow> string \<Rightarrow> string \<Rightarrow> string \<Rightarrow> bool \<Rightarrow> genome_error + exit_resolution" where
  "resolve_exit exit_node entry_long_col entry_short_col ref_id long =
     (let kind = gn_kind (cn_node exit_node) in
      if kind = ''exit.fixed_holding'' then Inr (EP_FIXED_HOLDING, None, None)
      else if kind = ''exit.rebalance'' then Inr (EP_REBALANCE, None, None)
      else if kind = ''exit.opposite_signal'' then Inr (EP_BOOL, Some (if long then entry_short_col else entry_long_col), None)
      else if kind = ''exit.middle_band'' then (case (port_column exit_node ''exit_long'', port_column exit_node ''exit_short'') of
          (Inr a, Inr b) \<Rightarrow> Inr (EP_MIDDLE_BAND, None, Some (a, b)) | (Inl e, _) \<Rightarrow> Inl e | (_, Inl e) \<Rightarrow> Inl e)
      else map_sum id (\<lambda>column. (EP_BOOL, Some column, None)) (port_column exit_node (snd (parse_input_ref ref_id))))"

text \<open>\<^verbatim>\<open>int(resolved_params["holding_period"])\<close>; in a text, separators between digits are not modelled.\<close>

definition int_of_text :: "string \<Rightarrow> int option" where
  "int_of_text s =
     (let t = strip_text s;
          (sign, digits) = (case t of [] \<Rightarrow> (1, []) | c # cs \<Rightarrow> if c = CHR ''-'' then (- 1, cs) else if c = CHR ''+'' then (1, cs) else (1, t))
      in if digits = [] then None
         else map_option (\<lambda>ds. sign * fold (\<lambda>d n. 10 * n + d) ds 0) (those (map digit_value digits)))"

fun py_int :: "pyval \<Rightarrow> genome_error + int" where
  "py_int (PyInt i) = Inr i"
| "py_int (PyBool b) = Inr (if b then 1 else 0)"
| "py_int (PyFloat x) = Inr (if 0 \<le> x then \<lfloor>x\<rfloor> else \<lceil>x\<rceil>)"
| "py_int (PyStr s) = (case int_of_text s of None \<Rightarrow> Inl (GenomeValueError s) | Some i \<Rightarrow> Inr i)"
| "py_int _ = Inl GenomeTypeError"

definition holding_of :: "CompiledNode \<Rightarrow> genome_error + int" where
  "holding_of compiled = (case map_of (cn_resolved_params compiled) ''holding_period'' of
     None \<Rightarrow> Inl (GenomeKeyError ''holding_period'') | Some v \<Rightarrow> py_int v)"

definition holding_period :: "CompiledNode \<Rightarrow> CompiledNode \<Rightarrow> genome_error + int option" where
  "holding_period exit_long exit_short =
     (if gn_kind (cn_node exit_long) = ''exit.fixed_holding'' then map_sum id Some (holding_of exit_long)
      else if gn_kind (cn_node exit_short) = ''exit.fixed_holding'' then map_sum id Some (holding_of exit_short)
      else Inr None)"

definition compile_genome :: "nat \<Rightarrow> nat \<Rightarrow> Genome \<Rightarrow> (string \<rightharpoonup> pyval) \<Rightarrow> genome_error + ExecutionPlan" where
  "compile_genome max_depth max_node_count genome params = (case validate_genome max_depth max_node_count genome of
     Some e \<Rightarrow> Inl e
   | None \<Rightarrow>
      let nodes = ge_nodes genome; compiled = compile_node (Suc (length nodes)) nodes params in
      andthen (map_result (\<lambda>n. compiled (gn_id n)) nodes) (\<lambda>_.
      andthen (topological_sort nodes) (\<lambda>order.
      andthen (resolve_signal_column compiled (ge_entry_long genome)) (\<lambda>entry_long.
      andthen (resolve_signal_column compiled (ge_entry_short genome)) (\<lambda>entry_short.
      andthen (compiled (fst (parse_input_ref (ge_exit_long genome)))) (\<lambda>exit_long_node.
      andthen (compiled (fst (parse_input_ref (ge_exit_short genome)))) (\<lambda>exit_short_node.
      andthen (resolve_exit exit_long_node entry_long entry_short (ge_exit_long genome) True) (\<lambda>(long_policy, long_column, long_middle).
      andthen (resolve_exit exit_short_node entry_long entry_short (ge_exit_short genome) False) (\<lambda>(short_policy, short_column, _).
      andthen (holding_period exit_long_node exit_short_node) (\<lambda>holding.
      andthen (map_result compiled order) (\<lambda>sorted_nodes.
        Inr \<lparr>pl_trial_params = params, pl_sorted_nodes = sorted_nodes, pl_entry_long_column = entry_long,
             pl_entry_short_column = entry_short, pl_exit_long_policy = long_policy, pl_exit_short_policy = short_policy,
             pl_exit_long_column = long_column, pl_exit_short_column = short_column, pl_exit_long_middle_columns = long_middle,
             pl_fixed_holding_period = holding\<rparr>)))))))))))"

end
