(* ===== verification/Genome_Correct.thy ===== *)
theory Genome_Correct
  imports Genome_Compile
begin

text \<open>
  What validation and compilation of a genome guarantee: an accepted genome is a well-typed graph
  without cycles and of bounded depth, and it compiles to a plan that computes every column before
  it is read.
\<close>

section \<open>Kahn's algorithm\<close>

lemma keys_put_present: "c \<in> fst ` set ps \<Longrightarrow> map fst (dict_put c v ps) = map fst ps"
  by (induction ps) auto

lemma lookup_put: "map_of (dict_put k v ps) = (map_of ps)(k \<mapsto> v)"
  by (induction ps) auto

lemma relax_keys: "map fst (fst (relax indegree cs)) = map fst indegree"
proof (induction cs arbitrary: indegree)
  case (Cons c cs)
  show ?case
  proof (cases "map_of indegree c")
    case (Some d)
    then have "c \<in> fst ` set indegree" by (metis map_of_eq_None_iff option.distinct(1))
    then show ?thesis using Some Cons [of "dict_put c (d - 1) indegree"] by (simp add: keys_put_present split_beta)
  qed (use Cons in simp)
qed simp

lemma relax_lookup: "map_of (fst (relax indegree cs)) i = map_option (\<lambda>d. d - int (count_list cs i)) (map_of indegree i)"
proof (induction cs arbitrary: indegree)
  case (Cons c cs)
  show ?case
  proof (cases "map_of indegree c")
    case (Some d)
    then show ?thesis using Cons [of "dict_put c (d - 1) indegree"]
      by (cases "map_of indegree i") (auto simp: lookup_put split_beta)
  qed (use Cons in \<open>cases "map_of indegree i"; auto\<close>)
qed (simp add: option.map_ident)

lemma relax_ready:
  "set (snd (relax indegree cs)) = {i. \<exists>d. map_of indegree i = Some d \<and> 0 < d \<and> d \<le> int (count_list cs i)} \<and>
   distinct (snd (relax indegree cs))"
proof (induction cs arbitrary: indegree)
  case (Cons c cs)
  show ?case
  proof (cases "map_of indegree c")
    case (Some d)
    let ?r = "relax (dict_put c (d - 1) indegree) cs"
    have IH: "set (snd ?r) = {i. \<exists>e. (if i = c then Some (d - 1) else map_of indegree i) = Some e \<and> 0 < e \<and> e \<le> int (count_list cs i)}"
      "distinct (snd ?r)" using Cons [of "dict_put c (d - 1) indegree"] by (simp_all add: lookup_put)
    have run: "snd (relax indegree (c # cs)) = (if d - 1 = 0 then [c] else []) @ snd ?r"
      using Some by (simp add: split_beta)
    have "i \<in> set (snd (relax indegree (c # cs))) \<longleftrightarrow> (\<exists>e. map_of indegree i = Some e \<and> 0 < e \<and> e \<le> int (count_list (c # cs) i))" for i
      unfolding run using Some IH(1) by (cases "i = c") auto
    moreover have "distinct (snd (relax indegree (c # cs)))" unfolding run using IH by auto
    ultimately show ?thesis by blast
  next
    case None
    then show ?thesis using Cons [of indegree] by auto
  qed
qed simp

text \<open>A list of node names in which the inputs of each come before it.\<close>

definition topological :: "(string \<Rightarrow> string list) \<Rightarrow> string list \<Rightarrow> bool" where
  "topological par xs \<longleftrightarrow> (\<forall>k<length xs. set (par (xs ! k)) \<subseteq> set (take k xs))"

lemma topological_append:
  assumes "topological par xs" and "\<And>y. y \<in> set ys \<Longrightarrow> set (par y) \<subseteq> set xs"
  shows "topological par (xs @ ys)"
  unfolding topological_def
proof (intro allI impI)
  fix k assume k: "k < length (xs @ ys)"
  show "set (par ((xs @ ys) ! k)) \<subseteq> set (take k (xs @ ys))"
  proof (cases "k < length xs")
    case True
    then show ?thesis using assms(1) by (simp add: topological_def nth_append)
  next
    case False
    then have "(xs @ ys) ! k \<in> set ys" using k by (simp add: nth_append)
    then show ?thesis using assms(2) False by auto
  qed
qed

definition kahn_inv :: "string list \<Rightarrow> (string \<Rightarrow> string list) \<Rightarrow> string list \<Rightarrow> (string \<times> int) list \<Rightarrow> string list \<Rightarrow> bool" where
  "kahn_inv ids par seen indegree queue \<longleftrightarrow>
     (\<forall>i. map_of indegree i = (if i \<in> set ids then Some (int (length (filter (\<lambda>p. p \<notin> set seen) (par i)))) else None)) \<and>
     distinct (seen @ queue) \<and> set (seen @ queue) = {i \<in> set ids. set (par i) \<subseteq> set seen} \<and> topological par (seen @ queue)"

lemma count_unprocessed:
  "c \<notin> set seen \<Longrightarrow> length (filter (\<lambda>p. p \<notin> set (seen @ [c])) ps) + count_list ps c = length (filter (\<lambda>p. p \<notin> set seen) ps)"
  by (induction ps) auto

lemma kahn_step:
  assumes inv: "kahn_inv ids par seen indegree (c # queue)"
    and adj: "\<And>i. i \<in> set ids \<Longrightarrow> count_list (adj c) i = count_list (par i) c"
  shows "kahn_inv ids par (seen @ [c]) (fst (relax indegree (adj c))) (queue @ snd (relax indegree (adj c)))"
proof -
  let ?left = "\<lambda>seen i. length (filter (\<lambda>p. p \<notin> set seen) (par i))"
  let ?ready = "snd (relax indegree (adj c))"
  have look: "map_of indegree i = (if i \<in> set ids then Some (int (?left seen i)) else None)" for i
    using inv by (simp add: kahn_inv_def)
  have c: "c \<notin> set seen" and dist: "distinct (seen @ c # queue)" and set: "set (seen @ c # queue) = {i \<in> set ids. set (par i) \<subseteq> set seen}"
    and topo: "topological par (seen @ c # queue)"
    using inv by (auto simp: kahn_inv_def)
  have left: "?left (seen @ [c]) i + count_list (par i) c = ?left seen i" for i using count_unprocessed [OF c] .
  have none: "?left seen i = 0 \<longleftrightarrow> set (par i) \<subseteq> set seen" for i seen by (auto simp: filter_empty_conv)
  have ready: "set ?ready = {i \<in> set ids. \<not> set (par i) \<subseteq> set seen \<and> set (par i) \<subseteq> set (seen @ [c])}"
  proof -
    have "i \<in> set ?ready \<longleftrightarrow> i \<in> set ids \<and> 0 < ?left seen i \<and> ?left seen i \<le> count_list (par i) c" for i
      using relax_ready [of indegree "adj c"] adj by (auto simp: look split: if_splits)
    moreover have "?left seen i \<le> count_list (par i) c \<longleftrightarrow> ?left (seen @ [c]) i = 0" for i using left [of i] by linarith
    ultimately have "i \<in> set ?ready \<longleftrightarrow> i \<in> set ids \<and> \<not> set (par i) \<subseteq> set seen \<and> set (par i) \<subseteq> set (seen @ [c])" for i
      using none [of seen i] none [of "seen @ [c]" i] by (metis bot_nat_0.not_eq_extremum)
    then show ?thesis by blast
  qed
  have disjoint: "set ?ready \<inter> set (seen @ c # queue) = {}" unfolding ready set by blast
  have members: "set ((seen @ [c]) @ queue @ ?ready) = {i \<in> set ids. set (par i) \<subseteq> set (seen @ [c])}"
    using set ready by auto
  have "topological par ((seen @ c # queue) @ ?ready)"
    using topo by (rule topological_append) (use ready in auto)
  moreover have "map_of (fst (relax indegree (adj c))) i =
      (if i \<in> set ids then Some (int (?left (seen @ [c]) i)) else None)" for i
    using left [of i] adj [of i] by (cases "i \<in> set ids") (simp_all add: relax_lookup look)
  ultimately show ?thesis
    using dist disjoint relax_ready [of indegree "adj c"] members by (auto simp: kahn_inv_def)
qed

lemma kahn_result:
  assumes "kahn_inv ids par seen indegree queue" and adj: "\<And>c i. i \<in> set ids \<Longrightarrow> count_list (adj c) i = count_list (par i) c"
  shows "distinct (seen @ kahn adj indegree queue) \<and> topological par (seen @ kahn adj indegree queue) \<and>
    set (seen @ kahn adj indegree queue) = {i \<in> set ids. set (par i) \<subseteq> set (seen @ kahn adj indegree queue)}"
  using assms
proof (induction adj indegree queue arbitrary: seen rule: kahn.induct)
  case (1 adj indegree)
  then show ?case by (simp add: kahn_inv_def)
next
  case (2 adj indegree c queue)
  from "2.IH" [OF kahn_step [where adj = adj, OF "2.prems"] "2.prems"(2)] show ?case by simp
qed

text \<open>The graph of a genome: the inputs of each node, and the edges from an input to the node.\<close>

definition genome_edges :: "GenomeNode list \<Rightarrow> (string \<times> string) set" where
  "genome_edges nodes = {(p, gn_id n) |p n. n \<in> set nodes \<and> p \<in> set (parents n)}"

lemma node_by_id_unique:
  "distinct (map gn_id nodes) \<Longrightarrow> n \<in> set nodes \<Longrightarrow> node_by_id nodes (gn_id n) = Some n"
  by (induction nodes) (auto simp: node_by_id_def)

lemma node_by_id_SomeD: "node_by_id nodes i = Some n \<Longrightarrow> n \<in> set nodes \<and> gn_id n = i"
  by (auto simp: node_by_id_def find_Some_iff)

lemma children_of_node: "distinct (map gn_id nodes) \<Longrightarrow> n \<in> set nodes \<Longrightarrow> children_of nodes (gn_id n) = parents n"
  by (simp add: children_of_def node_by_id_unique)

lemma count_adjacency:
  assumes "distinct (map gn_id nodes)" and "i \<in> set (map gn_id nodes)"
  shows "count_list (adjacency nodes c) i = count_list (children_of nodes i) c"
proof -
  have other: "count_list (adjacency ns c) i = 0" if "i \<notin> gn_id ` set ns" for ns
    using that by (auto simp: adjacency_def count_list_0_iff)
  have filter: "length (filter (\<lambda>p. p = c) ps) = count_list ps c" for ps :: "string list" by (induction ps) auto
  have const: "count_list (map (\<lambda>_. i) ps) i = length ps" for ps :: "string list" by (induction ps) auto
  from assms show ?thesis
  proof (induction nodes)
    case (Cons n ns)
    show ?case
    proof (cases "gn_id n = i")
      case True
      then have "count_list (adjacency ns c) i = 0" using Cons.prems other by simp
      then show ?thesis using True
        by (simp add: adjacency_def children_of_def node_by_id_def const filter)
    next
      case False
      then have "count_list (map (\<lambda>_. gn_id n) (filter (\<lambda>p. p = c) (parents n))) i = 0" by (auto simp: count_list_0_iff)
      moreover have "children_of (n # ns) i = children_of ns i" using False by (simp add: children_of_def node_by_id_def)
      ultimately show ?thesis using Cons False by (simp add: adjacency_def)
    qed
  qed simp
qed

lemma kahn_start:
  assumes "distinct (map gn_id nodes)"
  shows "kahn_inv (map gn_id nodes) (children_of nodes) [] (indegrees nodes) (map fst (filter (\<lambda>(_, d). d = 0) (indegrees nodes)))"
proof -
  have look: "map_of (indegrees ns) i = (if i \<in> gn_id ` set ns then Some (int (length (children_of ns i))) else None)" for ns i
    by (induction ns) (auto simp: indegrees_def children_of_def node_by_id_def parents_def)
  have roots: "map fst (filter (\<lambda>(_, d). d = 0) (indegrees ns)) = map gn_id (filter (\<lambda>n. parents n = []) ns)" for ns
    by (induction ns) (auto simp: indegrees_def parents_def)
  have "distinct (map gn_id (filter (\<lambda>n. parents n = []) nodes))" using assms by (rule distinct_map_filter)
  moreover have "set (map gn_id (filter (\<lambda>n. parents n = []) nodes)) = {i \<in> set (map gn_id nodes). set (children_of nodes i) \<subseteq> {}}"
    using children_of_node [OF assms] by auto
  moreover have "topological (children_of nodes) ([] @ map gn_id (filter (\<lambda>n. parents n = []) nodes))"
    using children_of_node [OF assms] by (intro topological_append) (auto simp: topological_def)
  ultimately show ?thesis by (simp add: kahn_inv_def look roots)
qed

lemma kahn_order_facts:
  assumes "distinct (map gn_id nodes)"
  shows "distinct (kahn_order nodes)" and "topological (children_of nodes) (kahn_order nodes)"
    and "set (kahn_order nodes) = {i \<in> set (map gn_id nodes). set (children_of nodes i) \<subseteq> set (kahn_order nodes)}"
  using kahn_result [OF kahn_start [OF assms], of "adjacency nodes"] count_adjacency [OF assms]
  by (simp_all add: kahn_order_def)

lemma topological_acyclic:
  assumes "topological par xs" and "\<And>p i. (p, i) \<in> E \<Longrightarrow> i \<in> set xs \<and> p \<in> set (par i)" and "distinct xs"
  shows "acyclic E"
proof -
  define pos where "pos i = length (takeWhile (\<lambda>x. x \<noteq> i) xs)" for i
  have pos: "pos i < length xs \<and> xs ! pos i = i" if "i \<in> set xs" for i
    using that unfolding pos_def by (induction xs) auto
  have before: "pos p < pos i" if "(p, i) \<in> E" for p i
  proof -
    have "i \<in> set xs" "p \<in> set (par i)" using assms(2) that by blast+
    then have "p \<in> set (take (pos i) xs)" using assms(1) pos [of i] unfolding topological_def by (metis subsetD)
    then obtain k where k: "k < pos i" "k < length xs" "xs ! k = p" by (auto simp: in_set_conv_nth)
    then have "pos p = k" using pos [of p] assms(3) by (metis nth_eq_iff_index_eq nth_mem)
    with k show ?thesis by simp
  qed
  have "E \<subseteq> measure pos" using before by auto
  then show ?thesis by (metis wf_acyclic wf_measure wf_subset)
qed

text \<open>The test that validation uses is exact: it passes just the graphs without a cycle.\<close>

lemma assert_acyclic_iff:
  assumes dist: "distinct (map gn_id nodes)" and closed: "\<And>n p. n \<in> set nodes \<Longrightarrow> p \<in> set (parents n) \<Longrightarrow> p \<in> gn_id ` set nodes"
  shows "assert_acyclic nodes = None \<longleftrightarrow> acyclic (genome_edges nodes)"
proof -
  let ?o = "kahn_order nodes"
  note facts = kahn_order_facts [OF dist]
  have sub: "set ?o \<subseteq> set (map gn_id nodes)" using facts(3) by blast
  have full: "length ?o = length nodes \<longleftrightarrow> set ?o = set (map gn_id nodes)"
    using facts(1) sub dist by (metis card_subset_eq distinct_card finite_set length_map)
  have edge: "(p, i) \<in> genome_edges nodes \<longleftrightarrow> i \<in> set (map gn_id nodes) \<and> p \<in> set (children_of nodes i)" for p i
    using children_of_node [OF dist] by (auto simp: genome_edges_def)
  have "set ?o = set (map gn_id nodes) \<longleftrightarrow> acyclic (genome_edges nodes)"
  proof
    assume "set ?o = set (map gn_id nodes)"
    then show "acyclic (genome_edges nodes)" using topological_acyclic [OF facts(2) _ facts(1)] edge by blast
  next
    assume acyc: "acyclic (genome_edges nodes)"
    have "genome_edges nodes \<subseteq> (gn_id ` set nodes) \<times> (gn_id ` set nodes)" using closed by (auto simp: genome_edges_def)
    then have "wf (genome_edges nodes)" using acyc by (meson finite_SigmaI finite_acyclic_wf finite_imageI finite_set finite_subset)
    then have "i \<in> set (map gn_id nodes) \<longrightarrow> i \<in> set ?o" for i
    proof (induction i rule: wf_induct_rule)
      case (less i)
      show ?case
      proof
        assume i: "i \<in> set (map gn_id nodes)"
        have "p \<in> set ?o" if "p \<in> set (children_of nodes i)" for p
          using less [of p] edge [of p i] i that \<open>genome_edges nodes \<subseteq> _\<close> by auto
        then show "i \<in> set ?o" using facts(3) i by blast
      qed
    qed
    then show "set ?o = set (map gn_id nodes)" using sub by blast
  qed
  then show ?thesis using full by (simp add: assert_acyclic_def fail_if_def)
qed

section \<open>Accepted genomes\<close>

lemma first_error_None: "first_error es = None \<longleftrightarrow> (\<forall>e\<in>set es. e = None)"
  by (induction es) (auto split: option.splits)

lemma fail_if_None [simp]: "fail_if b m = None \<longleftrightarrow> \<not> b"
  by (simp add: fail_if_def)

text \<open>The typing discipline of the inputs of a node.\<close>

definition resolves :: "GenomeNode list \<Rightarrow> string \<Rightarrow> GenomeNode \<Rightarrow> OutputType \<Rightarrow> bool" where
  "resolves nodes raw source ty \<longleftrightarrow> node_by_id nodes (fst (parse_input_ref raw)) = Some source \<and>
     port_output_type (gn_kind source) (snd (parse_input_ref raw)) = Some ty"

definition typed_input :: "GenomeNode list \<Rightarrow> NodeSpec \<Rightarrow> GenomeNode \<Rightarrow> string \<Rightarrow> bool" where
  "typed_input nodes spec node raw \<longleftrightarrow> (\<exists>source ty. resolves nodes raw source ty \<and>
     (starts_with ''logic.'' (gn_kind node) \<longrightarrow> ty = OT_BOOL) \<and> (starts_with ''cmp.'' (gn_kind node) \<longrightarrow> ty \<noteq> OT_BOOL) \<and>
     (ns_input_series_types spec \<noteq> None \<longrightarrow> ty \<in> {OT_PRICE, OT_OSCILLATOR}))"

definition typed_node :: "GenomeNode list \<Rightarrow> GenomeNode \<Rightarrow> bool" where
  "typed_node nodes node \<longleftrightarrow> (\<exists>spec. node_spec (gn_kind node) = Some spec \<and>
     set (map fst (gn_params node)) \<subseteq> set (ns_allowed_param_keys spec) \<and>
     ns_min_inputs spec \<le> length (gn_inputs node) \<and> length (gn_inputs node) \<le> ns_max_inputs spec \<and>
     (\<forall>raw\<in>set (gn_inputs node). typed_input nodes spec node raw))"

lemma specs_series:
  "list_all (\<lambda>spec. case ns_input_series_types spec of None \<Rightarrow> True
     | Some types \<Rightarrow> list_all (\<lambda>ty. ty = OT_PRICE \<or> ty = OT_OSCILLATOR) types) NODE_SPECS"
  by code_simp

lemma node_spec_series:
  assumes "node_spec kind = Some spec" and "ns_input_series_types spec = Some types" and "idx < length types"
  shows "types ! idx \<in> {OT_PRICE, OT_OSCILLATOR}"
proof -
  have "spec \<in> set NODE_SPECS" using assms(1) by (auto simp: node_spec_def find_Some_iff)
  with specs_series assms(2) have "list_all (\<lambda>ty. ty = OT_PRICE \<or> ty = OT_OSCILLATOR) types"
    by (fastforce simp: list_all_iff split: option.splits)
  then show ?thesis using assms(3) by (auto simp: list_all_length)
qed

lemma input_error_None:
  assumes "node_spec (gn_kind node) = Some spec" and "input_error nodes spec node raw = None"
  shows "typed_input nodes spec node raw"
proof -
  from assms(2) obtain source ty where r: "resolves nodes raw source ty"
    and k: "(if starts_with ''logic.'' (gn_kind node) then fail_if (ty \<noteq> OT_BOOL) ''requires bool_series inputs''
             else if starts_with ''cmp.'' (gn_kind node) then fail_if (ty = OT_BOOL) ''cannot compare bool_series input''
             else if gn_kind node = ''exit.middle_band'' then fail_if (ty \<noteq> OT_PRICE) ''requires price_series inputs''
             else None) = None"
    and s: "series_error spec node raw ty = None"
    by (auto simp: input_error_def resolves_def first_error_None split: prod.splits option.splits)
  have "ty \<in> {OT_PRICE, OT_OSCILLATOR}" if "ns_input_series_types spec \<noteq> None"
    using s that node_spec_series [OF assms(1)] by (auto simp: series_error_def Let_def split: option.splits if_splits)
  moreover have "starts_with ''logic.'' k \<Longrightarrow> \<not> starts_with ''cmp.'' k" for k
    by (cases k) (auto simp: starts_with_def)
  ultimately show ?thesis using r k unfolding typed_input_def
    by (cases "ns_input_series_types spec = None") (auto split: if_splits)
qed

lemma node_error_None: "node_error nodes node = None \<Longrightarrow> typed_node nodes node"
  by (auto simp: node_error_def typed_node_def first_error_None input_error_None not_less split: option.splits)

definition bool_ref :: "GenomeNode list \<Rightarrow> string \<Rightarrow> bool" where
  "bool_ref nodes raw \<longleftrightarrow> (\<exists>source. resolves nodes raw source OT_BOOL)"

definition exit_ref :: "GenomeNode list \<Rightarrow> string \<Rightarrow> bool" where
  "exit_ref nodes raw \<longleftrightarrow> bool_ref nodes raw \<or>
     (\<exists>node. node_by_id nodes (fst (parse_input_ref raw)) = Some node \<and> starts_with ''exit.'' (gn_kind node))"

lemma signal_refs_None:
  assumes "validate_signal_refs genome = None"
  shows "bool_ref (ge_nodes genome) (ge_entry_long genome) \<and> bool_ref (ge_nodes genome) (ge_entry_short genome) \<and>
    exit_ref (ge_nodes genome) (ge_exit_long genome) \<and> exit_ref (ge_nodes genome) (ge_exit_short genome)"
proof -
  have "require_bool_ref nodes raw = None \<Longrightarrow> bool_ref nodes raw" for nodes raw
    by (auto simp: require_bool_ref_def bool_ref_def resolves_def split: prod.splits option.splits)
  moreover have "exit_ref_error nodes raw = None \<Longrightarrow> exit_ref nodes raw" for nodes raw
    by (auto simp: exit_ref_error_def exit_ref_def bool_ref_def resolves_def split: prod.splits option.splits if_splits)
  ultimately show ?thesis using assms unfolding validate_signal_refs_def first_error_None by auto
qed

text \<open>A chain of inputs, from a node down.\<close>

fun input_chain :: "(string \<Rightarrow> string list) \<Rightarrow> string list \<Rightarrow> bool" where
  "input_chain par (i # p # rest) \<longleftrightarrow> p \<in> set (par i) \<and> input_chain par (p # rest)"
| "input_chain par _ \<longleftrightarrow> True"

lemma those_Some: "those xs = Some ys \<longleftrightarrow> xs = map Some ys"
  by (induction xs arbitrary: ys) (auto split: option.splits)

lemma node_depth_bounds_chain:
  "node_depth fuel par i = Some d \<Longrightarrow> input_chain par (i # rest) \<Longrightarrow> length (i # rest) \<le> d"
proof (induction fuel arbitrary: i d rest)
  case (Suc fuel)
  show ?case
  proof (cases rest)
    case Nil
    then show ?thesis using Suc.prems(1) by (auto split: if_splits)
  next
    case (Cons p rest')
    then have p: "p \<in> set (par i)" and chain: "input_chain par (p # rest')" using Suc.prems(2) by auto
    then obtain ds where ds: "map (node_depth fuel par) (par i) = map Some ds" "d = 1 + Max (set ds)"
      using Suc.prems(1) by (auto simp: those_Some split: if_splits)
    from p ds(1) obtain e where e: "node_depth fuel par p = Some e" "e \<in> set ds"
      by (metis (no_types, lifting) image_eqI image_iff list.set_map)
    have "length (p # rest') \<le> e" by (rule Suc.IH [OF e(1) chain])
    also have "\<dots> \<le> Max (set ds)" using e(2) by simp
    finally show ?thesis using ds(2) Cons by simp
  qed
qed simp

lemma accepted_facts:
  assumes "validate_genome max_depth max_nodes genome = None"
  shows "length (ge_nodes genome) \<le> max_nodes" and "distinct (map gn_id (ge_nodes genome))"
    and "\<And>node. node \<in> set (ge_nodes genome) \<Longrightarrow> typed_node (ge_nodes genome) node \<and> node_error (ge_nodes genome) node = None"
    and "assert_acyclic (ge_nodes genome) = None"
    and "\<And>node. node \<in> set (ge_nodes genome) \<Longrightarrow>
      \<exists>d\<le>max_depth. node_depth (Suc (length (ge_nodes genome))) (children_of (ge_nodes genome)) (gn_id node) = Some d"
    and "validate_signal_refs genome = None"
proof -
  note v = assms [unfolded validate_genome_def Let_def first_error_None]
  show "length (ge_nodes genome) \<le> max_nodes" "distinct (map gn_id (ge_nodes genome))" "assert_acyclic (ge_nodes genome) = None"
    "validate_signal_refs genome = None" using v by auto
  show "typed_node (ge_nodes genome) node \<and> node_error (ge_nodes genome) node = None" if "node \<in> set (ge_nodes genome)" for node
    using v that by (auto intro!: node_error_None)
  show "\<exists>d\<le>max_depth. node_depth (Suc (length (ge_nodes genome))) (children_of (ge_nodes genome)) (gn_id node) = Some d"
    if "node \<in> set (ge_nodes genome)" for node
  proof -
    have "depth_error max_depth (ge_nodes genome) node = None" using v that by auto
    then show ?thesis by (auto simp: depth_error_def not_less simp del: node_depth.simps split: option.splits)
  qed
qed

lemma typed_parents:
  assumes "typed_node nodes node" and "p \<in> set (parents node)"
  shows "p \<in> gn_id ` set nodes"
proof -
  from assms obtain raw spec where raw: "p = fst (parse_input_ref raw)" "typed_input nodes spec node raw"
    by (auto simp: typed_node_def parents_def)
  then obtain source where "node_by_id nodes p = Some source" by (auto simp: typed_input_def resolves_def)
  then show ?thesis using node_by_id_SomeD by (metis image_eqI)
qed

lemma accepted_acyclic:
  assumes "validate_genome max_depth max_nodes genome = None"
  shows "acyclic (genome_edges (ge_nodes genome))"
proof -
  note a = accepted_facts [OF assms]
  have "p \<in> gn_id ` set (ge_nodes genome)" if "n \<in> set (ge_nodes genome)" "p \<in> set (parents n)" for n p
    using typed_parents a(3) that by blast
  then show ?thesis using assert_acyclic_iff [OF a(2)] a(4) by blast
qed

section \<open>Compilation\<close>

lemma map_result_Inr: "map_result f xs = Inr ys \<longleftrightarrow> list_all2 (\<lambda>x y. f x = Inr y) xs ys"
proof (induction xs arbitrary: ys)
  case (Cons x xs)
  show ?case by (cases ys; cases "f x"; cases "map_result f xs") (auto simp: Cons [symmetric])
qed auto

lemma map_result_total: "(\<And>x. x \<in> set xs \<Longrightarrow> \<exists>y. f x = Inr y) \<Longrightarrow> \<exists>ys. map_result f xs = Inr ys"
  by (induction xs) force+

lemma specs_ports:
  "list_all (\<lambda>spec. ns_output_ports spec = map fst (ns_port_types spec)) NODE_SPECS"
  by code_simp

lemma specs_exits:
  "list_all (\<lambda>spec. starts_with ''exit.'' (ns_kind spec) \<longrightarrow>
     ns_kind spec = ''exit.fixed_holding'' \<or> ns_kind spec = ''exit.rebalance'' \<or> ns_kind spec = ''exit.opposite_signal'' \<or>
     ns_kind spec = ''exit.middle_band'' \<and> ns_output_ports spec = [''exit_long'', ''exit_short'']) NODE_SPECS"
  by code_simp

lemma node_spec_mem: "node_spec kind = Some spec \<Longrightarrow> spec \<in> set NODE_SPECS \<and> ns_kind spec = kind"
  by (auto simp: node_spec_def find_Some_iff)

lemma port_in_outputs:
  assumes "node_spec kind = Some spec" and "port_output_type kind port = Some ty"
  shows "port \<in> set (ns_output_ports spec)"
proof -
  have "ns_output_ports spec = map fst (ns_port_types spec)"
    using specs_ports node_spec_mem [OF assms(1)] by (auto simp: list_all_iff)
  moreover have "map_of (ns_port_types spec) port = Some ty" using assms by (simp add: port_output_type_def)
  ultimately show ?thesis by (metis list.set_map map_of_eq_None_iff option.distinct(1))
qed

lemma map_of_ports: "map_of (map (\<lambda>p. (p, f p)) ps) p = (if p \<in> set ps then Some (f p) else None)"
  by (induction ps) auto

text \<open>What the compiled form of a node is, whatever its fuel.\<close>

definition bound_to :: "string \<Rightarrow> InputBinding \<Rightarrow> bool" where
  "bound_to raw b \<longleftrightarrow> ib_node_id b = fst (parse_input_ref raw) \<and> ib_port b = snd (parse_input_ref raw) \<and>
     ib_column b = column_name (ib_node_id b) (ib_port b)"

definition compiled_as :: "(string \<rightharpoonup> pyval) \<Rightarrow> GenomeNode \<Rightarrow> CompiledNode \<Rightarrow> bool" where
  "compiled_as params node c \<longleftrightarrow> cn_node c = node \<and> resolve_node_params node params = Inr (cn_resolved_params c) \<and>
     (\<exists>spec. node_spec (gn_kind node) = Some spec \<and>
        cn_column_by_port c = map (\<lambda>port. (port, column_name (gn_id node) port)) (ns_output_ports spec)) \<and>
     list_all2 bound_to (gn_inputs node) (cn_input_bindings c)"

lemma resolve_node_params_total:
  assumes "node_error nodes node = None"
  shows "\<exists>resolved. resolve_node_params node params = Inr resolved"
proof -
  have "\<exists>y. map_sum id (Pair key) (resolve_value params v) = Inr y" if "(key, v) \<in> set (gn_params node)" for key v
  proof -
    have "param_error node (key, v) = None"
      using assms that by (auto simp: node_error_def first_error_None split: option.splits)
    then have "is_param_ref v \<Longrightarrow> param_bound (ref_name v) \<noteq> None" by (auto simp: param_error_def)
    then show ?thesis by (auto simp: resolve_value_def split: option.splits)
  qed
  then have "\<exists>ys. map_result (\<lambda>(key, v). map_sum id (Pair key) (resolve_value params v)) (gn_params node) = Inr ys"
    by (intro map_result_total) auto
  then show ?thesis by (auto simp: resolve_node_params_def Let_def)
qed

lemma compile_node_ok:
  assumes nodes: "\<And>n. n \<in> set nodes \<Longrightarrow> typed_node nodes n \<and> node_error nodes n = None"
  shows "node_depth fuel (children_of nodes) i = Some d \<Longrightarrow> node_by_id nodes i = Some node \<Longrightarrow>
    \<exists>c. compile_node fuel nodes params i = Inr c \<and> compiled_as params node c"
proof (induction fuel arbitrary: i d node)
  case (Suc fuel)
  have n: "node \<in> set nodes" "gn_id node = i" using node_by_id_SomeD [OF Suc.prems(2)] by auto
  then obtain spec where spec: "node_spec (gn_kind node) = Some spec" and inputs: "\<And>raw. raw \<in> set (gn_inputs node) \<Longrightarrow> typed_input nodes spec node raw"
    using nodes [OF n(1)] by (auto simp: typed_node_def)
  have bind: "\<exists>b k. bind_input (compile_node fuel nodes params) raw = Inr (b, k) \<and> bound_to raw b" if raw: "raw \<in> set (gn_inputs node)" for raw
  proof -
    obtain p port where pr: "parse_input_ref raw = (p, port)" by fastforce
    from inputs [OF raw] obtain source ty where src: "node_by_id nodes p = Some source" "port_output_type (gn_kind source) port = Some ty"
      by (auto simp: typed_input_def resolves_def pr)
    have "p \<in> set (children_of nodes i)" using raw pr Suc.prems(2) by (force simp: children_of_def parents_def)
    then obtain e where "node_depth fuel (children_of nodes) p = Some e"
      using Suc.prems(1) by (auto simp: those_Some split: if_splits)
        (metis (no_types, lifting) imageE image_eqI list.set_map)
    from Suc.IH [OF this src(1)] obtain c where c: "compile_node fuel nodes params p = Inr c" "compiled_as params source c" by blast
    have "gn_id source = p" using node_by_id_SomeD [OF src(1)] by simp
    then have "map_of (cn_column_by_port c) port = Some (column_name p port)"
      using c(2) port_in_outputs src(2) by (auto simp: compiled_as_def map_of_ports)
    then show ?thesis by (simp add: bind_input_def pr c(1) bound_to_def)
  qed
  then obtain bs where bs: "map_result (bind_input (compile_node fuel nodes params)) (gn_inputs node) = Inr bs"
    using map_result_total [of "gn_inputs node" "bind_input (compile_node fuel nodes params)"] by blast
  have "list_all2 bound_to (gn_inputs node) (map fst bs)"
    unfolding list_all2_map2
  proof (rule list.rel_mono_strong [OF bs [unfolded map_result_Inr]])
    fix raw b assume "raw \<in> set (gn_inputs node)" "b \<in> set bs" "bind_input (compile_node fuel nodes params) raw = Inr b"
    then show "bound_to raw (fst b)" using bind [of raw] by auto
  qed
  moreover obtain resolved where "resolve_node_params node params = Inr resolved"
    using resolve_node_params_total nodes n(1) by blast
  ultimately show ?case using spec Suc.prems(2) bs by (simp add: assemble_node_def compiled_as_def n(2))
qed simp

lemma exit_kinds:
  assumes "node_spec kind = Some spec" and "starts_with ''exit.'' kind"
  shows "kind = ''exit.fixed_holding'' \<or> kind = ''exit.rebalance'' \<or> kind = ''exit.opposite_signal'' \<or>
    kind = ''exit.middle_band'' \<and> ns_output_ports spec = [''exit_long'', ''exit_short'']"
  using specs_exits node_spec_mem [OF assms(1)] assms(2) unfolding list_all_iff by blast

lemma resolve_exit_total:
  assumes c: "compiled_as params node c" and node: "node_by_id nodes (fst (parse_input_ref raw)) = Some node"
    and exit: "exit_ref nodes raw"
  shows "\<exists>r. resolve_exit c entry_long entry_short raw long = Inr r"
proof -
  from c obtain spec where spec: "node_spec (gn_kind node) = Some spec"
    and cols: "cn_column_by_port c = map (\<lambda>port. (port, column_name (gn_id node) port)) (ns_output_ports spec)" and "cn_node c = node"
    by (auto simp: compiled_as_def)
  show ?thesis
  proof (cases "starts_with ''exit.'' (gn_kind node)")
    case True
    then show ?thesis using exit_kinds [OF spec] \<open>cn_node c = node\<close> cols by (auto simp: resolve_exit_def Let_def port_column_def)
  next
    case False
    then have "port_output_type (gn_kind node) (snd (parse_input_ref raw)) = Some OT_BOOL"
      using exit node by (auto simp: exit_ref_def bool_ref_def resolves_def)
    then have "snd (parse_input_ref raw) \<in> set (ns_output_ports spec)" by (rule port_in_outputs [OF spec])
    then have "\<exists>col. port_column c (snd (parse_input_ref raw)) = Inr col" by (simp add: port_column_def cols map_of_ports)
    then show ?thesis using \<open>cn_node c = node\<close> cols False by (auto simp: resolve_exit_def Let_def starts_with_def port_column_def split: option.splits sum.splits)
  qed
qed

text \<open>A fixed holding period that is given and is a number.\<close>

definition holding_given :: "GenomeNode list \<Rightarrow> (string \<rightharpoonup> pyval) \<Rightarrow> string \<Rightarrow> bool" where
  "holding_given nodes params raw \<longleftrightarrow> (case node_by_id nodes (fst (parse_input_ref raw)) of
     None \<Rightarrow> True
   | Some node \<Rightarrow> gn_kind node = ''exit.fixed_holding'' \<longrightarrow>
       (case resolve_node_params node params of Inl _ \<Rightarrow> False
        | Inr resolved \<Rightarrow> (case map_of resolved ''holding_period'' of None \<Rightarrow> False | Some v \<Rightarrow> \<not> isl (py_int v))))"

lemma holding_of_total:
  assumes "compiled_as params node c" and "node_by_id nodes (fst (parse_input_ref raw)) = Some node"
    and "holding_given nodes params raw" and "gn_kind node = ''exit.fixed_holding''"
  shows "\<exists>h. holding_of c = Inr h"
  using assms by (auto simp: holding_given_def compiled_as_def holding_of_def isl_def split: option.splits sum.splits)
    (metis old.sum.exhaust)

text \<open>Every column a node reads is written by an earlier node.\<close>

definition reads_earlier_columns :: "CompiledNode list \<Rightarrow> bool" where
  "reads_earlier_columns cs \<longleftrightarrow> (\<forall>k<length cs. \<forall>b\<in>set (cn_input_bindings (cs ! k)).
     \<exists>j<k. gn_id (cn_node (cs ! j)) = ib_node_id b \<and> (ib_port b, ib_column b) \<in> set (cn_column_by_port (cs ! j)))"

lemma sorted_nodes_read_earlier:
  assumes typed: "\<And>n. n \<in> set nodes \<Longrightarrow> typed_node nodes n"
    and topo: "topological (children_of nodes) order"
    and cs: "list_all2 (\<lambda>i c. \<exists>n. node_by_id nodes i = Some n \<and> compiled_as params n c) order cs"
  shows "reads_earlier_columns cs"
  unfolding reads_earlier_columns_def
proof (intro allI impI ballI)
  fix k b assume k: "k < length cs" and b: "b \<in> set (cn_input_bindings (cs ! k))"
  have len: "length order = length cs" using cs by (rule list_all2_lengthD)
  have comp: "\<exists>n. node_by_id nodes (order ! j) = Some n \<and> compiled_as params n (cs ! j)" if "j < length cs" for j
    using list_all2_nthD [OF cs] that len by simp
  from comp [OF k] obtain n where n: "node_by_id nodes (order ! k) = Some n" "compiled_as params n (cs ! k)" by blast
  then have bindings: "list_all2 bound_to (gn_inputs n) (cn_input_bindings (cs ! k))" by (simp add: compiled_as_def)
  from b obtain q where q: "q < length (cn_input_bindings (cs ! k))" "cn_input_bindings (cs ! k) ! q = b"
    by (auto simp: in_set_conv_nth)
  define raw where "raw = gn_inputs n ! q"
  have raw: "raw \<in> set (gn_inputs n)" "bound_to raw b"
    using list_all2_nthD2 [OF bindings q(1)] list_all2_lengthD [OF bindings] q by (auto simp: raw_def)
  let ?p = "ib_node_id b"
  have "?p \<in> set (children_of nodes (order ! k))" using raw n(1) by (auto simp: children_of_def parents_def bound_to_def)
  then have "?p \<in> set (take k order)" using topo k len by (auto simp: topological_def)
  then obtain j where j: "j < k" "order ! j = ?p" using k len by (auto simp: in_set_conv_nth)
  then obtain m where m: "node_by_id nodes ?p = Some m" "compiled_as params m (cs ! j)" using comp [of j] k by auto
  have nm: "n \<in> set nodes" using node_by_id_SomeD [OF n(1)] by simp
  obtain source ty spec where "resolves nodes raw source ty" using typed [OF nm] raw(1) by (auto simp: typed_node_def typed_input_def)
  then have "port_output_type (gn_kind m) (ib_port b) = Some ty" using raw(2) m(1) by (auto simp: resolves_def bound_to_def)
  then have "(ib_port b, ib_column b) \<in> set (cn_column_by_port (cs ! j))"
    using m raw(2) port_in_outputs node_by_id_SomeD [OF m(1)] by (auto simp: compiled_as_def bound_to_def)
  moreover have "gn_id (cn_node (cs ! j)) = ?p" using m node_by_id_SomeD [OF m(1)] by (simp add: compiled_as_def)
  ultimately show "\<exists>j<k. gn_id (cn_node (cs ! j)) = ?p \<and> (ib_port b, ib_column b) \<in> set (cn_column_by_port (cs ! j))"
    using j(1) by blast
qed

lemma compile_order:
  assumes "\<And>i. i \<in> set order \<Longrightarrow> \<exists>n c. node_by_id nodes i = Some n \<and> compiled i = Inr c \<and> compiled_as params n c"
  shows "\<exists>cs. map_result compiled order = Inr cs \<and>
    list_all2 (\<lambda>i c. \<exists>n. node_by_id nodes i = Some n \<and> compiled_as params n c) order cs"
proof -
  obtain cs where cs: "map_result compiled order = Inr cs" using map_result_total [of order compiled] assms by blast
  have "list_all2 (\<lambda>i c. \<exists>n. node_by_id nodes i = Some n \<and> compiled_as params n c) order cs"
    by (rule list.rel_mono_strong [OF cs [unfolded map_result_Inr]]) (use assms in force)
  with cs show ?thesis by blast
qed

lemma compiled_order_nodes:
  assumes "list_all2 (\<lambda>i c. \<exists>n. node_by_id nodes i = Some n \<and> compiled_as params n c) order cs"
  shows "map (gn_id \<circ> cn_node) cs = order \<and> set (map cn_node cs) \<subseteq> set nodes"
  using assms
proof (induction order cs rule: list_all2_induct)
  case (Cons i order c cs)
  then obtain n where n: "node_by_id nodes i = Some n" "compiled_as params n c" by blast
  then have "cn_node c = n" by (simp add: compiled_as_def)
  with node_by_id_SomeD [OF n(1)] Cons.IH show ?case by simp
qed simp

lemma resolve_signal_total:
  assumes "bool_ref nodes raw"
    and "\<And>i n. node_by_id nodes i = Some n \<Longrightarrow> \<exists>c. compiled i = Inr c \<and> compiled_as params n c"
  shows "resolve_signal_column compiled raw = Inr (column_name (fst (parse_input_ref raw)) (snd (parse_input_ref raw)))"
proof -
  obtain i port where pr: "parse_input_ref raw = (i, port)" by fastforce
  from assms(1) obtain n where n: "node_by_id nodes i = Some n" "port_output_type (gn_kind n) port = Some OT_BOOL"
    by (auto simp: bool_ref_def resolves_def pr)
  obtain c where c: "compiled i = Inr c" "compiled_as params n c" using assms(2) [OF n(1)] by blast
  have "gn_id n = i" using node_by_id_SomeD [OF n(1)] by simp
  then show ?thesis using c n(2) port_in_outputs
    by (auto simp: resolve_signal_column_def pr port_column_def compiled_as_def map_of_ports)
qed

section \<open>Properties\<close>

text \<open>The genome a composite strategy has by default.\<close>

definition param_ref :: "string \<Rightarrow> pyval" where
  "param_ref name = PyDict [(''param'', PyStr name)]"

definition genome_node :: "string \<Rightarrow> string \<Rightarrow> (string \<times> pyval) list \<Rightarrow> string list \<Rightarrow> GenomeNode" where
  "genome_node i kind params inputs = \<lparr>gn_id = i, gn_kind = kind, gn_params = params, gn_inputs = inputs\<rparr>"

definition DEFAULT_MA_CROSSOVER_GENOME :: Genome where
  "DEFAULT_MA_CROSSOVER_GENOME = \<lparr>ge_genome_id = ''default-ma-crossover'', ge_nodes =
     [genome_node ''n1'' ''source.close'' [] [],
      genome_node ''n2'' ''ind.ma'' [(''period'', param_ref ''short_period''), (''ma_type'', param_ref ''short_ma_type'')] [''n1''],
      genome_node ''n3'' ''ind.ma'' [(''period'', param_ref ''long_period''), (''ma_type'', param_ref ''long_ma_type'')] [''n1''],
      genome_node ''n4'' ''ind.diff'' [] [''n2'', ''n3''],
      genome_node ''n5'' ''cmp.cross_above'' [(''threshold'', param_ref ''threshold'')] [''n4''],
      genome_node ''n6'' ''cmp.cross_below'' [(''threshold'', PyDict [(''param'', PyStr ''threshold''), (''negate'', PyBool True)])] [''n4'']],
     ge_entry_long = ''n5'', ge_entry_short = ''n6'', ge_exit_long = ''n6'', ge_exit_short = ''n5'',
     ge_metadata = [(''equivalent_registry'', PyStr ''MACrossover'')]\<rparr>"

lemma default_genome_accepted: "validate_genome DEFAULT_MAX_DEPTH DEFAULT_MAX_NODE_COUNT DEFAULT_MA_CROSSOVER_GENOME = None"
  by code_simp

text \<open>
  C4. A genome that passes validation is a typed graph without cycles: its nodes are few enough and
  have distinct names, each is of a known kind with allowed parameters and as many inputs as its
  kind takes, each input names an output of a node and has a type the node can consume, no chain
  of inputs is longer than the depth limit, the entry signals are Boolean series, and each exit
  signal is one or is an exit node.
\<close>

theorem accepted_genome_is_typed_dag:
  assumes "validate_genome max_depth max_node_count genome = None"
  shows "length (ge_nodes genome) \<le> max_node_count \<and> distinct (map gn_id (ge_nodes genome)) \<and>
    (\<forall>node\<in>set (ge_nodes genome). typed_node (ge_nodes genome) node) \<and>
    acyclic (genome_edges (ge_nodes genome)) \<and>
    (\<forall>i rest. i \<in> gn_id ` set (ge_nodes genome) \<and> input_chain (children_of (ge_nodes genome)) (i # rest) \<longrightarrow>
       length (i # rest) \<le> max_depth) \<and>
    bool_ref (ge_nodes genome) (ge_entry_long genome) \<and> bool_ref (ge_nodes genome) (ge_entry_short genome) \<and>
    exit_ref (ge_nodes genome) (ge_exit_long genome) \<and> exit_ref (ge_nodes genome) (ge_exit_short genome)"
proof -
  note a = accepted_facts [OF assms]
  have "length (i # rest) \<le> max_depth"
    if "i \<in> gn_id ` set (ge_nodes genome)" "input_chain (children_of (ge_nodes genome)) (i # rest)" for i rest
    using that a(5) node_depth_bounds_chain by (metis image_iff order_trans)
  then show ?thesis using a(1-3) accepted_acyclic [OF assms] signal_refs_None [OF a(6)] by blast
qed

theorem accepted_genome_is_typed_dag_witness:
  "acyclic (genome_edges (ge_nodes DEFAULT_MA_CROSSOVER_GENOME)) \<and> length (ge_nodes DEFAULT_MA_CROSSOVER_GENOME) = 6"
  using accepted_genome_is_typed_dag [OF default_genome_accepted] by (simp add: DEFAULT_MA_CROSSOVER_GENOME_def)

text \<open>
  C13. A genome that passes validation compiles, provided a fixed-holding exit has a holding period
  that is a number: the plan has every node once, in an order in which each column is written
  before it is read, and its entry columns are the outputs the genome names.
\<close>

theorem accepted_genome_compiles:
  assumes "validate_genome max_depth max_node_count genome = None"
    and "holding_given (ge_nodes genome) params (ge_exit_long genome)" and "holding_given (ge_nodes genome) params (ge_exit_short genome)"
  shows "\<exists>plan. compile_genome max_depth max_node_count genome params = Inr plan \<and>
    distinct (map (gn_id \<circ> cn_node) (pl_sorted_nodes plan)) \<and> set (map cn_node (pl_sorted_nodes plan)) = set (ge_nodes genome) \<and>
    reads_earlier_columns (pl_sorted_nodes plan) \<and>
    pl_entry_long_column plan = column_name (fst (parse_input_ref (ge_entry_long genome))) (snd (parse_input_ref (ge_entry_long genome))) \<and>
    pl_entry_short_column plan = column_name (fst (parse_input_ref (ge_entry_short genome))) (snd (parse_input_ref (ge_entry_short genome)))"
proof -
  let ?nodes = "ge_nodes genome" and ?order = "kahn_order (ge_nodes genome)"
  let ?compiled = "compile_node (Suc (length ?nodes)) ?nodes params"
  note a = accepted_facts [OF assms(1)] and refs = signal_refs_None [OF accepted_facts(6) [OF assms(1)]]
  have compiled: "\<exists>c. ?compiled i = Inr c \<and> compiled_as params n c" if "node_by_id ?nodes i = Some n" for i n
    using a(5) node_by_id_SomeD [OF that] compile_node_ok [OF a(3) _ that] by blast
  have order: "length ?order = length ?nodes" using a(4) by (simp add: assert_acyclic_def)
  have sub: "set ?order \<subseteq> set (map gn_id ?nodes)" using kahn_order_facts(3) [OF a(2)] by blast
  have set_order: "set ?order = set (map gn_id ?nodes)"
    using kahn_order_facts(1) [OF a(2)] order sub a(2) by (metis card_subset_eq distinct_card finite_set length_map)
  have by_id: "\<exists>n. node_by_id ?nodes i = Some n" if "i \<in> set ?order" for i
    using that set_order node_by_id_unique [OF a(2)] by auto
  obtain cs where cs: "map_result ?compiled ?order = Inr cs"
      "list_all2 (\<lambda>i c. \<exists>n. node_by_id ?nodes i = Some n \<and> compiled_as params n c) ?order cs"
    using compile_order [of ?order ?nodes ?compiled params] by_id compiled by blast
  obtain all where all: "map_result (\<lambda>n. ?compiled (gn_id n)) ?nodes = Inr all"
    using map_result_total [of ?nodes "\<lambda>n. ?compiled (gn_id n)"] compiled node_by_id_unique [OF a(2)] by blast
  have entry: "resolve_signal_column ?compiled raw = Inr (column_name (fst (parse_input_ref raw)) (snd (parse_input_ref raw)))"
    if "bool_ref ?nodes raw" for raw using resolve_signal_total [OF that, of ?compiled params] compiled by blast
  have exit: "\<exists>n c. node_by_id ?nodes (fst (parse_input_ref raw)) = Some n \<and> ?compiled (fst (parse_input_ref raw)) = Inr c \<and> compiled_as params n c"
    if "exit_ref ?nodes raw" for raw using that compiled by (auto simp: exit_ref_def bool_ref_def resolves_def)
  obtain ln lc where l: "node_by_id ?nodes (fst (parse_input_ref (ge_exit_long genome))) = Some ln"
      "?compiled (fst (parse_input_ref (ge_exit_long genome))) = Inr lc" "compiled_as params ln lc" using exit refs by blast
  obtain sn sc where s: "node_by_id ?nodes (fst (parse_input_ref (ge_exit_short genome))) = Some sn"
      "?compiled (fst (parse_input_ref (ge_exit_short genome))) = Inr sc" "compiled_as params sn sc" using exit refs by blast
  define lr where "lr = (\<lambda>x y. projr (resolve_exit lc x y (ge_exit_long genome) True))"
  have lr: "resolve_exit lc x y (ge_exit_long genome) True = Inr (lr x y)" for x y
    using resolve_exit_total [OF l(3,1) _, of x y True] refs by (auto simp: lr_def)
  define sr where "sr = (\<lambda>x y. projr (resolve_exit sc x y (ge_exit_short genome) False))"
  have sr: "resolve_exit sc x y (ge_exit_short genome) False = Inr (sr x y)" for x y
    using resolve_exit_total [OF s(3,1) _, of x y False] refs by (auto simp: sr_def)
  have kinds: "cn_node lc = ln" "cn_node sc = sn" using l(3) s(3) by (simp_all add: compiled_as_def)
  obtain h where h: "holding_period lc sc = Inr h"
    using holding_of_total [OF l(3,1) assms(2)] holding_of_total [OF s(3,1) assms(3)]
    by (cases "gn_kind ln = ''exit.fixed_holding''"; cases "gn_kind sn = ''exit.fixed_holding''") (auto simp: holding_period_def kinds)
  have ids: "map (gn_id \<circ> cn_node) cs = ?order" and mem: "set (map cn_node cs) \<subseteq> set ?nodes"
    using compiled_order_nodes [OF cs(2)] by blast+
  have "set (map cn_node cs) = set ?nodes"
  proof (intro equalityI subsetI)
    fix n assume n: "n \<in> set ?nodes"
    then have "gn_id n \<in> set (map (gn_id \<circ> cn_node) cs)" unfolding ids set_order by simp
    then obtain c where c: "c \<in> set cs" "gn_id (cn_node c) = gn_id n" by auto
    then have "cn_node c = n" using mem n a(2) by (metis image_eqI image_set node_by_id_unique option.inject subsetD)
    with c show "n \<in> set (map cn_node cs)" by auto
  qed (use mem in blast)
  moreover have "reads_earlier_columns cs"
    using sorted_nodes_read_earlier [OF _ kahn_order_facts(2) [OF a(2)] cs(2)] a(3) by blast
  moreover have "distinct (map (gn_id \<circ> cn_node) cs)" unfolding ids by (rule kahn_order_facts(1) [OF a(2)])
  ultimately show ?thesis using assms(1) order refs
    by (simp add: compile_genome_def Let_def all topological_sort_def entry l(2) s(2) lr sr h cs(1) split_beta del: compile_node.simps)
qed

theorem accepted_genome_compiles_witness:
  "\<exists>plan. compile_genome DEFAULT_MAX_DEPTH DEFAULT_MAX_NODE_COUNT DEFAULT_MA_CROSSOVER_GENOME Map.empty = Inr plan \<and>
    reads_earlier_columns (pl_sorted_nodes plan)"
proof -
  have "holding_given (ge_nodes DEFAULT_MA_CROSSOVER_GENOME) Map.empty (ge_exit_long DEFAULT_MA_CROSSOVER_GENOME)"
    and "holding_given (ge_nodes DEFAULT_MA_CROSSOVER_GENOME) Map.empty (ge_exit_short DEFAULT_MA_CROSSOVER_GENOME)" by code_simp+
  from accepted_genome_compiles [OF default_genome_accepted this] show ?thesis by blast
qed

end
