(* ===== verification/Bt_Series.thy ===== *)
theory Bt_Series
  imports Exec_Prelude
begin

text \<open>
  The numbers, series and frames that strategies compute with. A float is a rational or one of the
  special values; a zero has no sign, and rounding is not modelled. A series is a list of floats in
  the order of its index, a frame has an index of times and named columns. The operations are those
  the strategies use, by their documented formulas: arithmetic, \<^verbatim>\<open>shift\<close>, \<^verbatim>\<open>rolling\<close> with a full window,
  and \<^verbatim>\<open>ewm(adjust=False)\<close>. The collection \<open>causal\<close> has the facts that an operation commutes with
  cutting off the end of its arguments: no value depends on a later one.
\<close>

named_theorems causal

section \<open>Floats\<close>

datatype flt = NaN | PInf | MInf | Fin decimal

datatype series_error = SeriesKeyError string | SeriesValueError string | SeriesTypeError | SeriesZeroDivision

definition flt_inf :: "decimal \<Rightarrow> flt" where
  "flt_inf x = (if 0 < x then PInf else if x < 0 then MInf else NaN)"

fun fneg :: "flt \<Rightarrow> flt" where
  "fneg NaN = NaN"
| "fneg PInf = MInf"
| "fneg MInf = PInf"
| "fneg (Fin x) = Fin (- x)"

fun fadd :: "flt \<Rightarrow> flt \<Rightarrow> flt" where
  "fadd (Fin x) (Fin y) = Fin (x + y)"
| "fadd (Fin _) y = y"
| "fadd x (Fin _) = x"
| "fadd PInf PInf = PInf"
| "fadd MInf MInf = MInf"
| "fadd _ _ = NaN"

definition fsub :: "flt \<Rightarrow> flt \<Rightarrow> flt" where
  "fsub x y = fadd x (fneg y)"

fun flt_sgn :: "flt \<Rightarrow> decimal" where
  "flt_sgn (Fin x) = sgn x"
| "flt_sgn PInf = 1"
| "flt_sgn MInf = - 1"
| "flt_sgn NaN = 0"

fun fmul :: "flt \<Rightarrow> flt \<Rightarrow> flt" where
  "fmul (Fin x) (Fin y) = Fin (x * y)"
| "fmul NaN _ = NaN"
| "fmul _ NaN = NaN"
| "fmul x y = flt_inf (flt_sgn x * flt_sgn y)"

fun fdiv :: "flt \<Rightarrow> flt \<Rightarrow> flt" where
  "fdiv (Fin x) (Fin y) = (if y = 0 then flt_inf x else Fin (x / y))"
| "fdiv NaN _ = NaN"
| "fdiv _ NaN = NaN"
| "fdiv (Fin _) _ = Fin 0"
| "fdiv x (Fin y) = flt_inf (flt_sgn x * (if y < 0 then - 1 else 1))"
| "fdiv _ _ = NaN"

fun fabs :: "flt \<Rightarrow> flt" where
  "fabs (Fin x) = Fin \<bar>x\<bar>"
| "fabs MInf = PInf"
| "fabs x = x"

text \<open>\<^verbatim>\<open>np.sign\<close>, and the comparisons, which are false for a value that is not a number.\<close>

definition fsign :: "flt \<Rightarrow> flt" where
  "fsign x = (if x = NaN then NaN else Fin (flt_sgn x))"

fun flt_less :: "flt \<Rightarrow> flt \<Rightarrow> bool" where
  "flt_less (Fin x) (Fin y) = (x < y)"
| "flt_less NaN _ = False"
| "flt_less _ NaN = False"
| "flt_less x y = (x = MInf \<and> y \<noteq> MInf \<or> y = PInf \<and> x \<noteq> PInf)"

definition flt_le :: "flt \<Rightarrow> flt \<Rightarrow> bool" where
  "flt_le x y = (flt_less x y \<or> x = y \<and> x \<noteq> NaN)"

definition flt_clip_lower :: "flt \<Rightarrow> flt \<Rightarrow> flt" where
  "flt_clip_lower lo x = (if flt_less x lo then lo else x)"

definition flt_clip_upper :: "flt \<Rightarrow> flt \<Rightarrow> flt" where
  "flt_clip_upper hi x = (if flt_less hi x then hi else x)"

text \<open>\<^verbatim>\<open>max(axis=1)\<close> of a row, which skips missing values.\<close>

definition flt_max :: "flt \<Rightarrow> flt \<Rightarrow> flt" where
  "flt_max x y = (if x = NaN then y else if flt_less x y then y else x)"

section \<open>Elementary functions\<close>

text \<open>
  The logarithm and the square root of \<^verbatim>\<open>numpy\<close> are parameters: what they return for a positive
  number. Their values elsewhere are the documented ones.
\<close>

record numerics =
  np_log :: "decimal \<Rightarrow> decimal"
  np_sqrt :: "decimal \<Rightarrow> decimal"

fun flog :: "numerics \<Rightarrow> flt \<Rightarrow> flt" where
  "flog np (Fin x) = (if 0 < x then Fin (np_log np x) else if x = 0 then MInf else NaN)"
| "flog np PInf = PInf"
| "flog np _ = NaN"

fun fsqrt :: "numerics \<Rightarrow> flt \<Rightarrow> flt" where
  "fsqrt np (Fin x) = (if 0 < x then Fin (np_sqrt np x) else if x = 0 then Fin 0 else NaN)"
| "fsqrt np PInf = PInf"
| "fsqrt np _ = NaN"

section \<open>Series\<close>

type_synonym series = "flt list"

text \<open>\<^verbatim>\<open>shift(k)\<close>; a negative \<open>k\<close> moves later values to earlier places.\<close>

definition shift_by :: "'a \<Rightarrow> int \<Rightarrow> 'a list \<Rightarrow> 'a list" where
  "shift_by fill k xs =
     (if 0 \<le> k then take (length xs) (replicate (nat k) fill @ xs)
      else drop (nat (- k)) xs @ replicate (min (nat (- k)) (length xs)) fill)"

abbreviation shift :: "int \<Rightarrow> series \<Rightarrow> series" where
  "shift \<equiv> shift_by NaN"

text \<open>A value for each position, computed from the values up to that position.\<close>

definition on_history :: "('a list \<Rightarrow> 'b) \<Rightarrow> 'a list \<Rightarrow> 'b list" where
  "on_history f xs = map (\<lambda>i. f (take (Suc i) xs)) [0..<length xs]"

fun finite_values :: "series \<Rightarrow> decimal list" where
  "finite_values [] = []"
| "finite_values (Fin x # xs) = x # finite_values xs"
| "finite_values (_ # xs) = finite_values xs"

text \<open>
  \<^verbatim>\<open>rolling(window)\<close> with an aggregate: the last \<open>window\<close> values, of which infinite ones count as
  missing, and a result only if none is missing. A negative window raises.
\<close>

definition window_value :: "nat \<Rightarrow> (decimal list \<Rightarrow> flt) \<Rightarrow> series \<Rightarrow> flt" where
  "window_value w f past = (let obs = finite_values (drop (length past - w) past) in if length obs < w then NaN else f obs)"

definition rolling :: "int \<Rightarrow> (decimal list \<Rightarrow> flt) \<Rightarrow> series \<Rightarrow> series_error + series" where
  "rolling window f xs = (if window < 0 then Inl (SeriesValueError ''window must be an integer 0 or greater'')
     else Inr (on_history (window_value (nat window) f) xs))"

definition agg_mean :: "decimal list \<Rightarrow> flt" where
  "agg_mean obs = (if obs = [] then NaN else Fin (sum_list obs / of_nat (length obs)))"

definition agg_max :: "decimal list \<Rightarrow> flt" where
  "agg_max obs = (if obs = [] then NaN else Fin (Max (set obs)))"

definition agg_min :: "decimal list \<Rightarrow> flt" where
  "agg_min obs = (if obs = [] then NaN else Fin (Min (set obs)))"

definition agg_var :: "decimal list \<Rightarrow> flt" where
  "agg_var obs = (if length obs < 2 then NaN
     else let m = sum_list obs / of_nat (length obs) in
       Fin (sum_list (map (\<lambda>x. (x - m) ^ 2) obs) / of_nat (length obs - 1)))"

definition agg_std :: "numerics \<Rightarrow> decimal list \<Rightarrow> flt" where
  "agg_std np obs = fsqrt np (agg_var obs)"

text \<open>
  \<^verbatim>\<open>ewm(alpha, min_periods, adjust=False).mean()\<close>. The state is the weighted mean so far, the weight
  it has, which a missing value lowers, and the number of values seen.
\<close>

type_synonym ewm_state = "decimal option \<times> decimal \<times> nat"

fun ewm_step :: "decimal \<Rightarrow> ewm_state \<Rightarrow> flt \<Rightarrow> ewm_state" where
  "ewm_step alpha (None, weight, seen) (Fin x) = (Some x, weight, Suc seen)"
| "ewm_step alpha (None, weight, seen) _ = (None, weight, seen)"
| "ewm_step alpha (Some m, weight, seen) (Fin x) =
     (let old = weight * (1 - alpha) in (Some ((old * m + alpha * x) / (old + alpha)), 1, Suc seen))"
| "ewm_step alpha (Some m, weight, seen) _ = (Some m, weight * (1 - alpha), seen)"

definition ewm_value :: "nat \<Rightarrow> ewm_state \<Rightarrow> flt" where
  "ewm_value min_periods st = (case st of (Some m, _, seen) \<Rightarrow> if max 1 min_periods \<le> seen then Fin m else NaN | _ \<Rightarrow> NaN)"

primrec ewm_from :: "decimal \<Rightarrow> nat \<Rightarrow> ewm_state \<Rightarrow> series \<Rightarrow> series" where
  "ewm_from alpha min_periods st [] = []"
| "ewm_from alpha min_periods st (x # xs) =
     (let st = ewm_step alpha st x in ewm_value min_periods st # ewm_from alpha min_periods st xs)"

definition ewm_mean :: "decimal \<Rightarrow> nat \<Rightarrow> series \<Rightarrow> series_error + series" where
  "ewm_mean alpha min_periods xs = (if 0 < alpha \<and> alpha \<le> 1 then Inr (ewm_from alpha min_periods (None, 1, 0) xs)
     else Inl (SeriesValueError ''alpha must satisfy: 0 < alpha <= 1''))"

definition ewm_span :: "int \<Rightarrow> series \<Rightarrow> series_error + series" where
  "ewm_span sp xs = (if sp < 1 then Inl (SeriesValueError ''span must satisfy: span >= 1'')
     else ewm_mean (2 / of_int (sp + 1)) 0 xs)"

text \<open>\<^verbatim>\<open>ewm(alpha=1 / period, min_periods=period)\<close>, Wilder's smoothing.\<close>

definition ewm_wilder :: "int \<Rightarrow> series \<Rightarrow> series_error + series" where
  "ewm_wilder period xs = (if period = 0 then Inl SeriesZeroDivision else ewm_mean (1 / of_int period) (nat period) xs)"

section \<open>Frames\<close>

text \<open>A column of truth values has missing ones when it was aligned with another index.\<close>

datatype column = NumCol series | BoolCol "bool option list"

record DataFrame =
  df_index :: "datetime list"
  df_columns :: "string \<rightharpoonup> column"

fun col_take :: "nat \<Rightarrow> column \<Rightarrow> column" where
  "col_take n (NumCol xs) = NumCol (take n xs)"
| "col_take n (BoolCol bs) = BoolCol (take n bs)"

definition take_frame :: "nat \<Rightarrow> DataFrame \<Rightarrow> DataFrame" where
  "take_frame n df = \<lparr>df_index = take n (df_index df), df_columns = map_option (col_take n) \<circ> df_columns df\<rparr>"

definition set_column :: "string \<Rightarrow> column \<Rightarrow> DataFrame \<Rightarrow> DataFrame" where
  "set_column c col df = df\<lparr>df_columns := (df_columns df)(c \<mapsto> col)\<rparr>"

abbreviation set_num :: "string \<Rightarrow> series \<Rightarrow> DataFrame \<Rightarrow> DataFrame" where
  "set_num c xs \<equiv> set_column c (NumCol xs)"

abbreviation set_bool :: "string \<Rightarrow> bool list \<Rightarrow> DataFrame \<Rightarrow> DataFrame" where
  "set_bool c bs \<equiv> set_column c (BoolCol (map Some bs))"

definition has_column :: "string \<Rightarrow> DataFrame \<Rightarrow> bool" where
  "has_column c df = (df_columns df c \<noteq> None)"

definition get_num :: "string \<Rightarrow> DataFrame \<Rightarrow> series_error + series" where
  "get_num c df = (case df_columns df c of
     None \<Rightarrow> Inl (SeriesKeyError c) | Some (NumCol xs) \<Rightarrow> Inr xs | Some (BoolCol _) \<Rightarrow> Inl SeriesTypeError)"

definition get_bool :: "string \<Rightarrow> DataFrame \<Rightarrow> series_error + bool option list" where
  "get_bool c df = (case df_columns df c of
     None \<Rightarrow> Inl (SeriesKeyError c) | Some (BoolCol bs) \<Rightarrow> Inr bs | Some (NumCol _) \<Rightarrow> Inl SeriesTypeError)"

text \<open>A row, and the truth value Python gives a cell; a missing value counts as true.\<close>

datatype cell = CellNum flt | CellBool "bool option"

fun cell_at :: "column \<Rightarrow> nat \<Rightarrow> cell option" where
  "cell_at (NumCol xs) i = (if i < length xs then Some (CellNum (xs ! i)) else None)"
| "cell_at (BoolCol bs) i = (if i < length bs then Some (CellBool (bs ! i)) else None)"

type_synonym data_row = "string \<rightharpoonup> cell"

definition row_at :: "DataFrame \<Rightarrow> nat \<Rightarrow> data_row" where
  "row_at df i = (\<lambda>c. Option.bind (df_columns df c) (\<lambda>col. cell_at col i))"

fun cell_truthy :: "cell \<Rightarrow> bool" where
  "cell_truthy (CellNum x) = (x \<noteq> Fin 0)"
| "cell_truthy (CellBool b) = (b \<noteq> Some False)"

text \<open>\<^verbatim>\<open>current_data.get(name, False)\<close> as a condition.\<close>

definition row_flag :: "data_row \<Rightarrow> string \<Rightarrow> bool" where
  "row_flag row c = (case row c of None \<Rightarrow> False | Some v \<Rightarrow> cell_truthy v)"

section \<open>Causality\<close>

text \<open>How a result is cut: an error stays.\<close>

abbreviation cut :: "nat \<Rightarrow> 'e + 'a list \<Rightarrow> 'e + 'a list" where
  "cut n \<equiv> map_sum id (take n)"

abbreviation cut_frame :: "nat \<Rightarrow> 'e + DataFrame \<Rightarrow> 'e + DataFrame" where
  "cut_frame n \<equiv> map_sum id (take_frame n)"

lemma map_take [causal]: "map f (take n xs) = take n (map f xs)"
  by (simp add: take_map)

lemma zip_take_both [causal]: "zip (take n xs) (take n ys) = take n (zip xs ys)"
  by (simp add: take_zip)

lemma shift_take [causal]:
  assumes "0 \<le> k"
  shows "shift_by fill k (take n xs) = take n (shift_by fill k xs)"
  using assms by (auto simp: shift_by_def min_def take_all_iff)

lemma on_history_take [causal]: "on_history f (take n xs) = take n (on_history f xs)"
proof -
  have "on_history f (take n xs) = map (\<lambda>i. f (take (Suc i) (take n xs))) [0..<min n (length xs)]"
    by (simp add: on_history_def min.commute)
  also have "\<dots> = map (\<lambda>i. f (take (Suc i) xs)) [0..<min n (length xs)]"
    by (rule map_cong) (auto simp: min_def split: if_splits)
  also have "\<dots> = take n (on_history f xs)" by (simp add: on_history_def take_map take_upt min_def)
  finally show ?thesis .
qed

lemma ewm_from_take [causal]: "ewm_from alpha mp st (take n xs) = take n (ewm_from alpha mp st xs)"
  by (induction xs arbitrary: n st) (auto simp: Let_def take_Cons split: nat.splits)

lemma rolling_take [causal]: "rolling w f (take n xs) = cut n (rolling w f xs)"
  by (simp add: rolling_def causal)

lemma ewm_mean_take [causal]: "ewm_mean alpha mp (take n xs) = cut n (ewm_mean alpha mp xs)"
  by (simp add: ewm_mean_def causal)

lemma ewm_span_take [causal]: "ewm_span sp (take n xs) = cut n (ewm_span sp xs)"
  by (simp add: ewm_span_def causal)

lemma ewm_wilder_take [causal]: "ewm_wilder period (take n xs) = cut n (ewm_wilder period xs)"
  by (simp add: ewm_wilder_def causal)

lemma andthen_map_sum [causal]: "andthen (map_sum id f r) k = andthen r (\<lambda>x. k (f x))"
  by (cases r) simp_all

lemma map_sum_andthen [causal]: "map_sum id f (andthen r k) = andthen r (\<lambda>x. map_sum id f (k x))"
  by (cases r) simp_all

lemma map_sum_if [causal]: "map_sum id f (if b then r else r') = (if b then map_sum id f r else map_sum id f r')"
  by simp

lemma take_frame_columns [causal]: "df_columns (take_frame n df) c = map_option (col_take n) (df_columns df c)"
  by (simp add: take_frame_def)

lemma take_frame_index [causal]: "df_index (take_frame n df) = take n (df_index df)"
  by (simp add: take_frame_def)

lemma set_column_take [causal]: "set_column c (col_take n col) (take_frame n df) = take_frame n (set_column c col df)"
  by (auto simp: set_column_def take_frame_def)

lemma set_num_take [causal]: "set_num c (take n xs) (take_frame n df) = take_frame n (set_num c xs df)"
  using set_column_take [of c n "NumCol xs" df] by simp

lemma set_bool_take [causal]: "set_column c (BoolCol (take n bs)) (take_frame n df) = take_frame n (set_column c (BoolCol bs) df)"
  using set_column_take [of c n "BoolCol bs" df] by simp

lemma has_column_take [causal]: "has_column c (take_frame n df) = has_column c df"
  by (simp add: has_column_def causal)

lemma get_num_take [causal]: "get_num c (take_frame n df) = cut n (get_num c df)"
  by (simp add: get_num_def causal split: option.splits column.splits)

lemma get_bool_take [causal]: "get_bool c (take_frame n df) = cut n (get_bool c df)"
  by (simp add: get_bool_def causal split: option.splits column.splits)

text \<open>The first rows of a frame determine, and are determined by, the frame cut there.\<close>

lemma cell_at_take: "i < n \<Longrightarrow> cell_at (col_take n col) i = cell_at col i"
  by (cases col) auto

lemma row_at_take [causal]: "i < n \<Longrightarrow> row_at (take_frame n df) i = row_at df i"
  by (rule ext) (simp add: row_at_def causal cell_at_take split: option.splits bind_splits)

text \<open>
  The contract of \<^verbatim>\<open>TradingStrategy.compute_indicators\<close>: cutting the data first or the result
  afterwards is the same. Its consequence is that bars that agree up to some time have rows that
  agree up to that time, whatever follows.
\<close>

locale causal_indicators =
  fixes compute :: "DataFrame \<Rightarrow> 'e + DataFrame"
  assumes compute_take: "compute (take_frame n df) = cut_frame n (compute df)"
begin

lemma prefix_determined:
  assumes "take_frame n df = take_frame n df'" and "compute df = Inr out"
  shows "\<exists>out'. compute df' = Inr out' \<and> take_frame n out' = take_frame n out"
proof -
  have "cut_frame n (compute df') = Inr (take_frame n out)"
    using assms compute_take [of n df] compute_take [of n df'] by simp
  then show ?thesis by (cases "compute df'") auto
qed

lemma no_look_ahead:
  assumes "take_frame n df = take_frame n df'" and "compute df = Inr out" and "i < n"
  shows "\<exists>out'. compute df' = Inr out' \<and> row_at out' i = row_at out i"
  using prefix_determined [OF assms(1,2)] row_at_take [OF assms(3)] by metis

end

end
