(* ===== verification/Bt_Indicators.thy ===== *)
theory Bt_Indicators
  imports Bt_Series
begin

text \<open>
  The indicators strategies are built from: \<^verbatim>\<open>backtesting/technical_indicators.py\<close>,
  \<^verbatim>\<open>transforms.py\<close>, \<^verbatim>\<open>moving_averages.py\<close> and the series of \<^verbatim>\<open>strategies/lai_lau_common.py\<close>. All of them
  are causal, as long as no lag is negative.
\<close>

abbreviation sdiv :: "series \<Rightarrow> series \<Rightarrow> series" where "sdiv \<equiv> map2 fdiv"
abbreviation ssub :: "series \<Rightarrow> series \<Rightarrow> series" where "ssub \<equiv> map2 fsub"
abbreviation sadd :: "series \<Rightarrow> series \<Rightarrow> series" where "sadd \<equiv> map2 fadd"
abbreviation smul :: "series \<Rightarrow> series \<Rightarrow> series" where "smul \<equiv> map2 fmul"
abbreviation sscale :: "flt \<Rightarrow> series \<Rightarrow> series" where "sscale c \<equiv> map (\<lambda>x. fmul x c)"

section \<open>Technical indicators\<close>

definition compute_realized_vol :: "numerics \<Rightarrow> series \<Rightarrow> int \<Rightarrow> series_error + series" where
  "compute_realized_vol np close window =
     (let log_ret = map (flog np) (sdiv close (shift 1 close)) in
      andthen (rolling window (agg_std np) log_ret) (\<lambda>std. Inr (sscale (fsqrt np (Fin 252)) std)))"

definition compute_yang_zhang :: "numerics \<Rightarrow> series \<Rightarrow> series \<Rightarrow> series \<Rightarrow> series \<Rightarrow> int \<Rightarrow> series_error + series" where
  "compute_yang_zhang np open' high low close window =
     (let prev_close = shift 1 close;
          overnight = map (flog np) (sdiv open' prev_close);
          open_close = map (flog np) (sdiv close open');
          u = map (flog np) (sdiv high open');
          d = map (flog np) (sdiv low open');
          c = map (flog np) (sdiv close open');
          rogers_satchell = sadd (smul u (ssub u c)) (smul d (ssub d c))
      in andthen (rolling window agg_var overnight) (\<lambda>var_overnight.
         andthen (rolling window agg_var open_close) (\<lambda>var_open_close.
         andthen (rolling window agg_mean rogers_satchell) (\<lambda>mean_rs.
           if window = 1 then Inl SeriesZeroDivision
           else let k = 34 / 100 / (134 / 100 + of_int (window + 1) / of_int (window - 1));
                    yz_var = sadd (sadd var_overnight (sscale (Fin k) var_open_close)) (sscale (Fin (1 - k)) mean_rs)
                in Inr (map (fsqrt np) (sscale (Fin 252) yz_var))))))"

definition compute_rsi :: "series \<Rightarrow> int \<Rightarrow> series_error + series" where
  "compute_rsi close period =
     (let delta = ssub close (shift 1 close);
          gain = map (flt_clip_lower (Fin 0)) delta;
          loss = map (flt_clip_lower (Fin 0)) (map fneg delta)
      in andthen (ewm_wilder period gain) (\<lambda>avg_gain.
         andthen (ewm_wilder period loss) (\<lambda>avg_loss.
           let rs = sdiv avg_gain avg_loss
           in Inr (map (\<lambda>r. fsub (Fin 100) (fdiv (Fin 100) (fadd (Fin 1) r))) rs))))"

definition compute_bollinger_bands :: "numerics \<Rightarrow> series \<Rightarrow> int \<Rightarrow> decimal \<Rightarrow> series_error + (series \<times> series \<times> series)" where
  "compute_bollinger_bands np close period num_std =
     andthen (rolling period agg_mean close) (\<lambda>middle.
     andthen (rolling period (agg_std np) close) (\<lambda>std.
       let upper = sadd middle (sscale (Fin num_std) std); lower = ssub middle (sscale (Fin num_std) std)
       in Inr (upper, middle, lower)))"

definition compute_macd :: "series \<Rightarrow> int \<Rightarrow> int \<Rightarrow> int \<Rightarrow> series_error + (series \<times> series \<times> series)" where
  "compute_macd close fast_period slow_period signal_period =
     andthen (ewm_span fast_period close) (\<lambda>fast_ema.
     andthen (ewm_span slow_period close) (\<lambda>slow_ema.
       let macd_line = ssub fast_ema slow_ema in
       andthen (ewm_span signal_period macd_line) (\<lambda>signal_line.
         Inr (macd_line, signal_line, ssub macd_line signal_line))))"

definition compute_donchian_channels :: "series \<Rightarrow> series \<Rightarrow> int \<Rightarrow> series_error + (series \<times> series)" where
  "compute_donchian_channels high low period =
     andthen (rolling period agg_max high) (\<lambda>highest.
     andthen (rolling period agg_min low) (\<lambda>lowest. Inr (shift 1 highest, shift 1 lowest)))"

definition true_range :: "series \<Rightarrow> series \<Rightarrow> series \<Rightarrow> series" where
  "true_range high low close =
     (let prev_close = shift 1 close; tr1 = ssub high low; tr2 = map fabs (ssub high prev_close); tr3 = map fabs (ssub low prev_close)
      in map2 flt_max (map2 flt_max tr1 tr2) tr3)"

definition compute_atr :: "series \<Rightarrow> series \<Rightarrow> series \<Rightarrow> int \<Rightarrow> series_error + series" where
  "compute_atr high low close period = ewm_wilder period (true_range high low close)"

section \<open>Transforms\<close>

definition compute_rolling_zscore :: "numerics \<Rightarrow> series \<Rightarrow> int \<Rightarrow> series_error + series" where
  "compute_rolling_zscore np xs window =
     andthen (rolling window agg_mean xs) (\<lambda>mean.
     andthen (rolling window (agg_std np) xs) (\<lambda>std. Inr (sdiv (ssub xs mean) std)))"

text \<open>
  The rank of the last value of a window that has no missing value, as a share of the window.
  The loop looks at the last \<open>window\<close> values of the series so far; with a window below one the slice
  starts after the current value, is empty, and its last element raises.
\<close>

definition rank_value :: "nat \<Rightarrow> series \<Rightarrow> flt" where
  "rank_value w past = (if length past < w then NaN
     else let window_vals = drop (length past - w) past in
       if NaN \<in> set window_vals then NaN
       else Fin (of_nat (length (filter (\<lambda>v. flt_le v (last past)) window_vals)) / of_nat w))"

definition compute_rolling_rank :: "series \<Rightarrow> int \<Rightarrow> series_error + series" where
  "compute_rolling_rank xs window =
     (if window < 1 \<and> xs \<noteq> [] then Inl (SeriesKeyError ''index -1 is out of bounds'') else Inr (on_history (rank_value (nat window)) xs))"

definition compute_pct_change :: "series \<Rightarrow> int \<Rightarrow> series_error + series" where
  "compute_pct_change xs change_bars =
     (if change_bars < 1 then Inl (SeriesValueError ''change_bars must be >= 1'')
      else Inr (map (\<lambda>x. fsub x (Fin 1)) (sdiv xs (shift change_bars xs))))"

definition compute_clip :: "series \<Rightarrow> decimal \<Rightarrow> decimal \<Rightarrow> series_error + series" where
  "compute_clip xs clip_low clip_high =
     (if clip_low > clip_high then Inl (SeriesValueError ''clip_low must be <= clip_high'')
      else Inr (map (\<lambda>x. flt_clip_upper (Fin clip_high) (flt_clip_lower (Fin clip_low) x)) xs))"

section \<open>Moving averages\<close>

definition VALID_MA_TYPES :: "string list" where
  "VALID_MA_TYPES = [''sma'', ''ema'', ''wma'', ''smma'', ''hma'']"

definition normalize_ma_type :: "string \<Rightarrow> series_error + string" where
  "normalize_ma_type v = (let normalized = strip_text (lower_text v) in
     if normalized \<in> set VALID_MA_TYPES then Inr normalized else Inl (SeriesValueError ''Invalid MA type''))"

definition weighted_mean :: "decimal list \<Rightarrow> flt" where
  "weighted_mean obs = (if obs = [] then NaN
     else Fin (sum_list (map2 (\<lambda>x k. x * of_nat k) obs [1..<Suc (length obs)]) / of_nat (sum_list [1..<Suc (length obs)])))"

definition wma :: "series \<Rightarrow> int \<Rightarrow> series_error + series" where
  "wma xs period = rolling period weighted_mean xs"

text \<open>\<^verbatim>\<open>int(np.sqrt(n))\<close>\<close>

definition int_sqrt :: "int \<Rightarrow> int" where
  "int_sqrt n = int (length (filter (\<lambda>k. k * k \<le> n) [1..n]))"

definition hma :: "series \<Rightarrow> int \<Rightarrow> series_error + series" where
  "hma xs period =
     (let half_period = max (period div 2) 1; sqrt_period = max (int_sqrt period) 1 in
      andthen (wma xs half_period) (\<lambda>wma_half.
      andthen (wma xs period) (\<lambda>wma_full.
        wma (ssub (sscale (Fin 2) wma_half) wma_full) sqrt_period)))"

definition compute_ma :: "series \<Rightarrow> int \<Rightarrow> string \<Rightarrow> series_error + series" where
  "compute_ma xs period ma_type =
     (if period < 1 then Inl (SeriesValueError ''MA period must be at least 1.'')
      else andthen (normalize_ma_type ma_type) (\<lambda>normalized.
        if normalized = ''sma'' then rolling period agg_mean xs
        else if normalized = ''ema'' then ewm_span period xs
        else if normalized = ''wma'' then wma xs period
        else if normalized = ''smma'' then ewm_mean (1 / of_int period) 0 xs
        else hma xs period))"

section \<open>Causality\<close>

text \<open>Cutting a pair or a triple of series.\<close>

abbreviation cut2 :: "nat \<Rightarrow> 'e + ('a list \<times> 'b list) \<Rightarrow> 'e + ('a list \<times> 'b list)" where
  "cut2 n \<equiv> map_sum id (map_prod (take n) (take n))"

abbreviation cut3 :: "nat \<Rightarrow> 'e + ('a list \<times> 'b list \<times> 'c list) \<Rightarrow> 'e + ('a list \<times> 'b list \<times> 'c list)" where
  "cut3 n \<equiv> map_sum id (map_prod (take n) (map_prod (take n) (take n)))"

lemma compute_realized_vol_take [causal]: "compute_realized_vol np (take n xs) w = cut n (compute_realized_vol np xs w)"
  by (simp add: compute_realized_vol_def Let_def causal)

lemma compute_yang_zhang_take [causal]:
  "compute_yang_zhang np (take n o') (take n h) (take n l) (take n c) w = cut n (compute_yang_zhang np o' h l c w)"
  by (simp add: compute_yang_zhang_def Let_def causal cong: if_cong)

lemma compute_rsi_take [causal]: "compute_rsi (take n xs) p = cut n (compute_rsi xs p)"
  by (simp add: compute_rsi_def Let_def causal)

lemma compute_bollinger_bands_take [causal]:
  "compute_bollinger_bands np (take n xs) p k = cut3 n (compute_bollinger_bands np xs p k)"
  by (simp add: compute_bollinger_bands_def Let_def causal)

lemma compute_macd_take [causal]: "compute_macd (take n xs) f s g = cut3 n (compute_macd xs f s g)"
  by (simp add: compute_macd_def Let_def causal)

lemma compute_donchian_channels_take [causal]:
  "compute_donchian_channels (take n h) (take n l) p = cut2 n (compute_donchian_channels h l p)"
  by (simp add: compute_donchian_channels_def causal)

lemma compute_atr_take [causal]: "compute_atr (take n h) (take n l) (take n c) p = cut n (compute_atr h l c p)"
  by (simp add: compute_atr_def true_range_def Let_def causal)

lemma compute_rolling_zscore_take [causal]: "compute_rolling_zscore np (take n xs) w = cut n (compute_rolling_zscore np xs w)"
  by (simp add: compute_rolling_zscore_def causal)

lemma compute_rolling_rank_take [causal]:
  "0 < n \<Longrightarrow> compute_rolling_rank (take n xs) w = cut n (compute_rolling_rank xs w)"
  by (simp add: compute_rolling_rank_def causal)

lemma compute_pct_change_take [causal]: "compute_pct_change (take n xs) k = cut n (compute_pct_change xs k)"
  by (simp add: compute_pct_change_def causal)

lemma compute_clip_take [causal]: "compute_clip (take n xs) lo hi = cut n (compute_clip xs lo hi)"
  by (simp add: compute_clip_def causal)

lemma wma_take [causal]: "wma (take n xs) p = cut n (wma xs p)"
  by (simp add: wma_def causal)

lemma hma_take [causal]: "hma (take n xs) p = cut n (hma xs p)"
  by (simp add: hma_def Let_def causal)

lemma compute_ma_take [causal]: "compute_ma (take n xs) p ty = cut n (compute_ma xs p ty)"
  by (simp add: compute_ma_def causal cong: if_cong)

end
