(* ===== verification/Bt_Strategies.thy ===== *)
theory Bt_Strategies
  imports Bt_Indicators Bt_Models
begin

text \<open>
  The candle strategies of \<^verbatim>\<open>backtesting/strategies/\<close> and \<^verbatim>\<open>MACrossoverStrategy\<close> of
  \<^verbatim>\<open>backtesting/strategy.py\<close>: the indicators each computes over a frame and the signals each emits
  for a row. Labels and chart metadata are not modelled. An error of a constructor is the error of
  the first computation.
\<close>

section \<open>Frames and rows\<close>

definition with_columns :: "(string \<times> column) list \<Rightarrow> DataFrame \<Rightarrow> DataFrame" where
  "with_columns cols df = fold (\<lambda>(c, col). set_column c col) cols df"

lemma with_columns_simps [simp]:
  "with_columns [] df = df" "with_columns ((c, col) # cols) df = with_columns cols (set_column c col df)"
  by (simp_all add: with_columns_def)

abbreviation flags :: "bool list \<Rightarrow> column" where
  "flags bs \<equiv> BoolCol (map Some bs)"

definition require_columns :: "string list \<Rightarrow> DataFrame \<Rightarrow> series_error + unit" where
  "require_columns names df = (if list_all (\<lambda>c. has_column c df) names then Inr ()
     else Inl (SeriesValueError ''Data must contain the columns of the strategy''))"

definition crosses_above :: "series \<Rightarrow> series \<Rightarrow> series \<Rightarrow> series \<Rightarrow> bool list" where
  "crosses_above prev prev_level now level = map2 (\<and>) (map2 flt_le prev prev_level) (map2 (\<lambda>x y. flt_less y x) now level)"

definition crosses_below :: "series \<Rightarrow> series \<Rightarrow> series \<Rightarrow> series \<Rightarrow> bool list" where
  "crosses_below prev prev_level now level = map2 (\<and>) (map2 (\<lambda>x y. flt_le y x) prev prev_level) (map2 flt_less now level)"

abbreviation const_like :: "decimal \<Rightarrow> 'a list \<Rightarrow> series" where
  "const_like v xs \<equiv> map (\<lambda>_. Fin v) xs"

definition new_signal :: "string \<Rightarrow> BtSignalAction \<Rightarrow> Signal" where
  "new_signal symbol action = \<lparr>sg_symbol = symbol, sg_action = action, sg_strength = 1, sg_exit_reason = None\<rparr>"

text \<open>The name of a row is its label when that is a text.\<close>

definition resolve_symbol :: "string option \<Rightarrow> string \<Rightarrow> string" where
  "resolve_symbol name default_symbol = (case name of
     None \<Rightarrow> default_symbol
   | Some symbol \<Rightarrow> if length symbol > 8 \<and> list_ex (\<lambda>c. c \<in> set ''-: '') symbol then default_symbol else symbol)"

section \<open>Crossover strategies\<close>

definition ma_crossover_indicators :: "int \<Rightarrow> int \<Rightarrow> decimal \<Rightarrow> string \<Rightarrow> string \<Rightarrow> DataFrame \<Rightarrow> series_error + DataFrame" where
  "ma_crossover_indicators short_period long_period threshold short_ma_type long_ma_type df =
     andthen (require_columns [''close''] df) (\<lambda>_.
     andthen (get_num ''close'' df) (\<lambda>close.
     andthen (compute_ma close short_period short_ma_type) (\<lambda>ma_short.
     andthen (compute_ma close long_period long_ma_type) (\<lambda>ma_long.
       let delta = ssub ma_short ma_long; prev_delta = shift 1 delta;
           above = const_like threshold delta; below = const_like (- threshold) delta
       in Inr (with_columns [(''ma_short'', NumCol ma_short), (''ma_long'', NumCol ma_long), (''delta'', NumCol delta),
            (''prev_delta'', NumCol prev_delta),
            (''buy_signal'', flags (crosses_above prev_delta above delta above)),
            (''sell_signal'', flags (crosses_below prev_delta below delta below))] df)))))"

definition bollinger_indicators :: "numerics \<Rightarrow> int \<Rightarrow> decimal \<Rightarrow> DataFrame \<Rightarrow> series_error + DataFrame" where
  "bollinger_indicators np period num_std df =
     andthen (require_columns [''close''] df) (\<lambda>_.
     andthen (get_num ''close'' df) (\<lambda>close.
     andthen (compute_bollinger_bands np close period num_std) (\<lambda>(upper, middle, lower).
       let prev_close = shift 1 close
       in Inr (with_columns [(''bb_upper'', NumCol upper), (''bb_middle'', NumCol middle), (''bb_lower'', NumCol lower),
            (''prev_close'', NumCol prev_close), (''prev_bb_lower'', NumCol (shift 1 lower)),
            (''prev_bb_upper'', NumCol (shift 1 upper)), (''prev_bb_middle'', NumCol (shift 1 middle)),
            (''buy_signal'', flags (crosses_below prev_close (shift 1 lower) close lower)),
            (''sell_signal'', flags (crosses_above prev_close (shift 1 upper) close upper)),
            (''exit_long_signal'', flags (crosses_above prev_close (shift 1 middle) close middle)),
            (''exit_short_signal'', flags (crosses_below prev_close (shift 1 middle) close middle))] df))))"

definition donchian_indicators :: "int \<Rightarrow> DataFrame \<Rightarrow> series_error + DataFrame" where
  "donchian_indicators period df =
     andthen (require_columns [''close'', ''high'', ''low''] df) (\<lambda>_.
     andthen (get_num ''high'' df) (\<lambda>high.
     andthen (get_num ''low'' df) (\<lambda>low.
     andthen (compute_donchian_channels high low period) (\<lambda>(upper, lower).
     andthen (get_num ''close'' df) (\<lambda>close.
       let prev_close = shift 1 close
       in Inr (with_columns [(''donchian_upper'', NumCol upper), (''donchian_lower'', NumCol lower), (''prev_close'', NumCol prev_close),
            (''prev_donchian_upper'', NumCol (shift 1 upper)), (''prev_donchian_lower'', NumCol (shift 1 lower)),
            (''buy_signal'', flags (crosses_above prev_close (shift 1 upper) close upper)),
            (''sell_signal'', flags (crosses_below prev_close (shift 1 lower) close lower))] df))))))"

definition macd_indicators :: "int \<Rightarrow> int \<Rightarrow> int \<Rightarrow> DataFrame \<Rightarrow> series_error + DataFrame" where
  "macd_indicators fast_period slow_period signal_period df =
     andthen (require_columns [''close''] df) (\<lambda>_.
     andthen (get_num ''close'' df) (\<lambda>close.
     andthen (compute_macd close fast_period slow_period signal_period) (\<lambda>(macd_line, signal_line, histogram).
       Inr (with_columns [(''macd'', NumCol macd_line), (''macd_signal'', NumCol signal_line), (''macd_histogram'', NumCol histogram),
            (''prev_macd'', NumCol (shift 1 macd_line)), (''prev_macd_signal'', NumCol (shift 1 signal_line)),
            (''buy_signal'', flags (crosses_above (shift 1 macd_line) (shift 1 signal_line) macd_line signal_line)),
            (''sell_signal'', flags (crosses_below (shift 1 macd_line) (shift 1 signal_line) macd_line signal_line))] df))))"

definition rsi_indicators :: "int \<Rightarrow> decimal \<Rightarrow> decimal \<Rightarrow> DataFrame \<Rightarrow> series_error + DataFrame" where
  "rsi_indicators period oversold overbought df =
     andthen (require_columns [''close''] df) (\<lambda>_.
     andthen (get_num ''close'' df) (\<lambda>close.
     andthen (compute_rsi close period) (\<lambda>rsi.
       let prev_rsi = shift 1 rsi; os = const_like oversold rsi; ob = const_like overbought rsi
       in Inr (with_columns [(''rsi'', NumCol rsi), (''prev_rsi'', NumCol prev_rsi),
            (''buy_signal'', flags (crosses_above prev_rsi os rsi os)),
            (''sell_signal'', flags (crosses_above prev_rsi ob rsi ob))] df))))"

section \<open>The rules of Lai and Lau\<close>

definition bar_numbers :: "DataFrame \<Rightarrow> nat list" where
  "bar_numbers df = [0..<length (df_index df)]"

definition add_bar_index :: "DataFrame \<Rightarrow> DataFrame" where
  "add_bar_index df = set_num ''bar_index'' (map (\<lambda>i. Fin (of_nat i)) (bar_numbers df)) df"

definition compute_ma_band_signals :: "series \<Rightarrow> decimal \<Rightarrow> DataFrame \<Rightarrow> series_error + DataFrame" where
  "compute_ma_band_signals ma_series band_pct df =
     andthen (get_num ''close'' df) (\<lambda>close.
       let upper = sscale (Fin (1 + band_pct / 100)) ma_series; lower = sscale (Fin (1 - band_pct / 100)) ma_series;
           prev_close = shift 1 close
       in Inr (with_columns [(''ma_band_upper'', NumCol upper), (''ma_band_lower'', NumCol lower),
            (''buy_signal'', flags (crosses_above prev_close (shift 1 upper) close upper)),
            (''sell_signal'', flags (crosses_below prev_close (shift 1 lower) close lower))] df))"

definition compute_trb_channel_signals :: "int \<Rightarrow> decimal \<Rightarrow> DataFrame \<Rightarrow> series_error + DataFrame" where
  "compute_trb_channel_signals period band_pct df =
     andthen (get_num ''close'' df) (\<lambda>close.
       let prev_close = shift 1 close in
       andthen (rolling period agg_max prev_close) (\<lambda>channel_high.
       andthen (rolling period agg_min prev_close) (\<lambda>channel_low.
         let upper = sscale (Fin (1 + band_pct / 100)) channel_high; lower = sscale (Fin (1 - band_pct / 100)) channel_low
         in Inr (with_columns [(''channel_high'', NumCol channel_high), (''channel_low'', NumCol channel_low),
              (''trb_upper'', NumCol upper), (''trb_lower'', NumCol lower),
              (''buy_signal'', flags (crosses_above prev_close channel_high close upper)),
              (''sell_signal'', flags (crosses_below prev_close channel_low close lower))] df))))"

definition vma_indicators :: "int \<Rightarrow> decimal \<Rightarrow> string \<Rightarrow> DataFrame \<Rightarrow> series_error + DataFrame" where
  "vma_indicators period band_pct ma_type df =
     andthen (require_columns [''close''] df) (\<lambda>_.
     andthen (get_num ''close'' df) (\<lambda>close.
     andthen (compute_ma close period ma_type) (\<lambda>ma. compute_ma_band_signals ma band_pct (set_num ''ma'' ma df))))"

definition fma_indicators :: "int \<Rightarrow> decimal \<Rightarrow> string \<Rightarrow> DataFrame \<Rightarrow> series_error + DataFrame" where
  "fma_indicators period band_pct ma_type df =
     andthen (require_columns [''close''] df) (\<lambda>_.
     andthen (get_num ''close'' df) (\<lambda>close.
     andthen (compute_ma close period ma_type) (\<lambda>ma. compute_ma_band_signals ma band_pct (set_num ''ma'' ma (add_bar_index df)))))"

definition trb_indicators :: "int \<Rightarrow> decimal \<Rightarrow> DataFrame \<Rightarrow> series_error + DataFrame" where
  "trb_indicators period band_pct df =
     andthen (require_columns [''close''] df) (\<lambda>_. compute_trb_channel_signals period band_pct (add_bar_index df))"

section \<open>Momentum strategies\<close>

definition compute_volatility :: "numerics \<Rightarrow> string \<Rightarrow> int \<Rightarrow> DataFrame \<Rightarrow> series_error + series" where
  "compute_volatility np vol_estimator vol_window df =
     (if vol_estimator = ''yang_zhang'' \<and> list_all (\<lambda>c. has_column c df) [''open'', ''high'', ''low'', ''close''] then
        andthen (get_num ''open'' df) (\<lambda>open'. andthen (get_num ''high'' df) (\<lambda>high. andthen (get_num ''low'' df) (\<lambda>low.
        andthen (get_num ''close'' df) (\<lambda>close. compute_yang_zhang np open' high low close vol_window))))
      else andthen (get_num ''close'' df) (\<lambda>close. compute_realized_vol np close vol_window))"

text \<open>
  Every \<open>rebalance_bars\<close>-th bar rebalances; \<^verbatim>\<open>numpy\<close> gives a zero remainder for a zero divisor. The
  previous sign of a rebalancing bar is that of the rebalancing bar before it, or zero.
\<close>

definition rebalances :: "int \<Rightarrow> nat \<Rightarrow> bool" where
  "rebalances rebalance_bars i = (rebalance_bars = 0 \<or> int i mod rebalance_bars = 0)"

fun previous_signs :: "flt \<Rightarrow> (bool \<times> flt) list \<Rightarrow> series" where
  "previous_signs last_sign [] = []"
| "previous_signs last_sign ((rebalance, sign) # rest) =
     (if rebalance then (if last_sign = NaN then Fin 0 else last_sign) # previous_signs sign rest
      else Fin 0 # previous_signs last_sign rest)"

definition rebalance_flips :: "bool list \<Rightarrow> series \<Rightarrow> bool list \<times> bool list" where
  "rebalance_flips rebalance momentum =
     (let prev_sign = previous_signs NaN (zip rebalance (map fsign momentum)) in
      (map2 (\<and>) rebalance (map2 (\<lambda>m p. flt_less (Fin 0) m \<and> flt_le p (Fin 0)) momentum prev_sign),
       map2 (\<and>) rebalance (map2 (\<lambda>m p. flt_less m (Fin 0) \<and> flt_le (Fin 0) p) momentum prev_sign)))"

definition momentum_columns ::
    "numerics \<Rightarrow> string \<Rightarrow> int \<Rightarrow> int \<Rightarrow> series \<Rightarrow> series \<Rightarrow> DataFrame \<Rightarrow> series_error + DataFrame" where
  "momentum_columns np vol_estimator vol_window rebalance_bars momentum strength df =
     andthen (compute_volatility np vol_estimator vol_window df) (\<lambda>volatility.
       let rebalance = map (rebalances rebalance_bars) (bar_numbers df); (buy, sell) = rebalance_flips rebalance momentum
       in Inr (with_columns [(''momentum'', NumCol momentum), (''signal_strength'', NumCol strength), (''volatility'', NumCol volatility),
            (''bar_index'', NumCol (map (\<lambda>i. Fin (of_nat i)) (bar_numbers df))), (''rebalance'', flags rebalance),
            (''buy_signal'', flags buy), (''sell_signal'', flags sell)] df))"

text \<open>
  The Newey-West t-statistic of a window of returns, in which a return that is not finite counts
  as zero. A window below one divides by zero; no registered parameter allows it.
\<close>

definition fill_zero :: "flt \<Rightarrow> flt" where
  "fill_zero x = (case x of Fin v \<Rightarrow> Fin v | _ \<Rightarrow> Fin 0)"

definition newey_west :: "numerics \<Rightarrow> int \<Rightarrow> decimal list \<Rightarrow> flt" where
  "newey_west np lags sub =
     (let w = of_nat (length sub); m = sum_list sub / w;
          gamma = (\<lambda>j. sum_list (map2 (\<lambda>a b. (a - m) * (b - m)) (drop j sub) sub) / w);
          S = fold (\<lambda>j s. s + 2 * (1 - of_int j / of_int (lags + 1)) * gamma (nat j)) [1..lags] (gamma 0)
      in if S > 1 / 10 ^ 12 then fdiv (Fin m) (fsqrt np (Fin (S / w))) else Fin 0)"

definition compute_rolling_newey_west_t_stat :: "numerics \<Rightarrow> series \<Rightarrow> int \<Rightarrow> int \<Rightarrow> series_error + series" where
  "compute_rolling_newey_west_t_stat np returns window lags =
     (if window < 1 then Inl SeriesZeroDivision
      else Inr (on_history (\<lambda>past. if length past < nat window then NaN
             else newey_west np lags (finite_values (drop (length past - nat window) past))) returns))"

definition past_return :: "int \<Rightarrow> series \<Rightarrow> series" where
  "past_return lookback close = map (\<lambda>x. fsub x (Fin 1)) (sdiv close (shift lookback close))"

record TSMOMConfig =
  tm_lookback_bars :: int
  tm_rebalance_bars :: int
  tm_vol_window :: int
  tm_vol_estimator :: string
  tm_trading_rule :: string
  tm_trend_signal_cap :: decimal
  tm_nw_lags :: int
  tm_rebalance_on_every_bar :: bool

definition flt_min :: "flt \<Rightarrow> flt \<Rightarrow> flt" where
  "flt_min x y = (if x = NaN \<or> y = NaN then NaN else if flt_less y x then y else x)"

definition tsmom_indicators :: "numerics \<Rightarrow> TSMOMConfig \<Rightarrow> DataFrame \<Rightarrow> series_error + DataFrame" where
  "tsmom_indicators np self df =
     andthen (require_columns [''close''] df) (\<lambda>_.
     andthen (get_num ''close'' df) (\<lambda>close.
       let finish = momentum_columns np (tm_vol_estimator self) (tm_vol_window self) (tm_rebalance_bars self) in
       if tm_trading_rule self = ''trend'' then
         andthen (compute_rolling_newey_west_t_stat np (map (\<lambda>r. fill_zero (flog np r)) (sdiv close (shift 1 close)))
             (tm_lookback_bars self) (tm_nw_lags self)) (\<lambda>t_stat.
           finish t_stat (map (\<lambda>t. fdiv (flt_min (fabs t) (Fin (tm_trend_signal_cap self))) (Fin (tm_trend_signal_cap self))) t_stat)
             (set_num ''t_stat'' t_stat df))
       else finish (past_return (tm_lookback_bars self) close) (const_like 1 (df_index df)) df))"

record HurstConfig =
  hb_lookback_1 :: int
  hb_lookback_2 :: int
  hb_lookback_3 :: int
  hb_rebalance_bars :: int
  hb_vol_window :: int
  hb_vol_estimator :: string
  hb_risk_free_rate_annual :: decimal
  hb_signal_lag_bars :: int
  hb_rebalance_on_every_bar :: bool

definition excess_sign :: "HurstConfig \<Rightarrow> int \<Rightarrow> series \<Rightarrow> series" where
  "excess_sign self lookback close =
     map (\<lambda>r. fsign (fsub r (Fin (hb_risk_free_rate_annual self / 252 * of_int lookback)))) (past_return lookback close)"

definition hurst_indicators :: "numerics \<Rightarrow> HurstConfig \<Rightarrow> DataFrame \<Rightarrow> series_error + DataFrame" where
  "hurst_indicators np self df =
     andthen (require_columns [''close''] df) (\<lambda>_.
     andthen (get_num ''close'' df) (\<lambda>close.
       let sig_1 = excess_sign self (hb_lookback_1 self) close; sig_2 = excess_sign self (hb_lookback_2 self) close;
           sig_3 = excess_sign self (hb_lookback_3 self) close;
           blend = map (\<lambda>x. fdiv x (Fin 3)) (sadd (sadd sig_1 sig_2) sig_3);
           blend = (if hb_signal_lag_bars self > 0 then shift (hb_signal_lag_bars self) blend else blend)
       in momentum_columns np (hb_vol_estimator self) (hb_vol_window self) (hb_rebalance_bars self) blend
            (map (\<lambda>x. if x = NaN then Fin 0 else fabs x) blend)
            (with_columns [(''sig_1'', NumCol sig_1), (''sig_2'', NumCol sig_2), (''sig_3'', NumCol sig_3)] df)))"

end
