(* ===== verification/Bt_Pairs.thy ===== *)
theory Bt_Pairs
  imports Bt_Strategies
begin

text \<open>
  The pairs strategy, \<^verbatim>\<open>backtesting/strategies/gatev_pairs.py\<close>: a state machine over the bars that
  runs in cycles of a formation and a trading period. The formation period has at least one bar.
\<close>

section \<open>The loop\<close>

record pairs_state =
  gp_position :: int
  gp_start_a :: flt
  gp_start_b :: flt
  gp_sd :: flt
  gp_spreads :: series

definition pairs_start :: pairs_state where
  "pairs_start = \<lparr>gp_position = 0, gp_start_a = Fin 0, gp_start_b = Fin 0, gp_sd = Fin 0, gp_spreads = []\<rparr>"

definition tiny :: flt where "tiny = Fin (1 / 10 ^ 12)"

definition normalized_price :: "flt \<Rightarrow> flt \<Rightarrow> flt" where
  "normalized_price price start = (if flt_less tiny start then fdiv price start else Fin 1)"

definition population_sd :: "numerics \<Rightarrow> series \<Rightarrow> flt" where
  "population_sd np xs =
     (let count = Fin (of_nat (length xs)); mean = fdiv (fold (\<lambda>v s. fadd s v) xs (Fin 0)) count
      in fsqrt np (fdiv (fold (\<lambda>v s. fadd s (fmul (fsub v mean) (fsub v mean))) xs (Fin 0)) count))"

record pairs_flags =
  gf_buy :: bool
  gf_sell :: bool
  gf_exit :: bool
  gf_spread :: flt

definition trade_spread :: "decimal \<Rightarrow> bool \<Rightarrow> flt \<Rightarrow> pairs_state \<Rightarrow> (bool \<times> bool \<times> bool) \<times> int" where
  "trade_spread open_threshold_sd last_bar spread st =
     (let bound = fmul (Fin open_threshold_sd) (gp_sd st) in
      if gp_position st = 0 then
        (if flt_less tiny (gp_sd st) then
           (if flt_less bound spread then ((False, True, False), - 1)
            else if flt_less spread (fneg bound) then ((True, False, False), 1)
            else ((False, False, False), 0))
         else ((False, False, False), 0))
      else if gp_position st = 1 then
        (if flt_le (Fin 0) spread \<or> last_bar then ((False, False, True), 0) else ((False, False, False), 1))
      else
        (if flt_le spread (Fin 0) \<or> last_bar then ((False, False, True), 0) else ((False, False, False), - 1)))"

definition pairs_step ::
    "numerics \<Rightarrow> int \<Rightarrow> int \<Rightarrow> decimal \<Rightarrow> nat \<Rightarrow> flt \<times> flt \<Rightarrow> pairs_state \<Rightarrow> pairs_flags \<times> pairs_state" where
  "pairs_step np formation_bars trading_bars open_threshold_sd i prices st =
     (let cycle_len = formation_bars + trading_bars; k = int i mod cycle_len;
          st = (if k = 0 then st\<lparr>gp_start_a := fst prices, gp_start_b := snd prices, gp_position := 0\<rparr> else st);
          spread = fsub (normalized_price (fst prices) (gp_start_a st)) (normalized_price (snd prices) (gp_start_b st));
          st = st\<lparr>gp_spreads := gp_spreads st @ [spread]\<rparr>
      in if k = formation_bars - 1 then
           (\<lparr>gf_buy = False, gf_sell = False, gf_exit = False, gf_spread = spread\<rparr>,
            st\<lparr>gp_sd := population_sd np (drop (length (gp_spreads st) - nat formation_bars) (gp_spreads st))\<rparr>)
         else if k \<ge> formation_bars then
           (let ((buy, sell, exit), position) = trade_spread open_threshold_sd (k = cycle_len - 1) spread st
            in (\<lparr>gf_buy = buy, gf_sell = sell, gf_exit = exit, gf_spread = spread\<rparr>, st\<lparr>gp_position := position\<rparr>))
         else (\<lparr>gf_buy = False, gf_sell = False, gf_exit = False, gf_spread = spread\<rparr>, st))"

primrec pairs_run ::
    "numerics \<Rightarrow> int \<Rightarrow> int \<Rightarrow> decimal \<Rightarrow> nat \<Rightarrow> (flt \<times> flt) list \<Rightarrow> pairs_state \<Rightarrow> pairs_flags list" where
  "pairs_run np formation_bars trading_bars open_threshold_sd i [] st = []"
| "pairs_run np formation_bars trading_bars open_threshold_sd i (prices # rest) st =
     (let (out, st) = pairs_step np formation_bars trading_bars open_threshold_sd i prices st
      in out # pairs_run np formation_bars trading_bars open_threshold_sd (Suc i) rest st)"

definition compute_pairs_signals :: "numerics \<Rightarrow> series \<Rightarrow> series \<Rightarrow> int \<Rightarrow> int \<Rightarrow> decimal \<Rightarrow> series_error + pairs_flags list" where
  "compute_pairs_signals np price_a price_b formation_bars trading_bars open_threshold_sd =
     (if formation_bars + trading_bars = 0 \<and> price_a \<noteq> [] then Inl SeriesZeroDivision
      else Inr (pairs_run np formation_bars trading_bars open_threshold_sd 0 (zip price_a price_b) pairs_start))"

section \<open>The strategy\<close>

record GatevConfig =
  gv_col_a :: string
  gv_col_b :: string
  gv_open_col_a :: string
  gv_open_col_b :: string
  gv_formation_bars :: int
  gv_trading_bars :: int
  gv_open_threshold_sd :: decimal
  gv_vol_window :: int

definition gatev_open :: "GatevConfig \<Rightarrow> series \<Rightarrow> DataFrame \<Rightarrow> series_error + series" where
  "gatev_open self close df =
     (if has_column (gv_open_col_a self) df \<and> has_column (gv_open_col_b self) df then
        andthen (get_num (gv_open_col_a self) df) (\<lambda>a. andthen (get_num (gv_open_col_b self) df) (\<lambda>b. Inr (ssub a b)))
      else Inr close)"

text \<open>
  The price columns are read again after the synthetic prices were stored, which matters when
  they have the names of the latter.
\<close>

definition gatev_indicators :: "numerics \<Rightarrow> GatevConfig \<Rightarrow> DataFrame \<Rightarrow> series_error + DataFrame" where
  "gatev_indicators np self df =
     andthen (require_columns [gv_col_a self, gv_col_b self] df) (\<lambda>_.
     andthen (get_num (gv_col_a self) df) (\<lambda>a.
     andthen (get_num (gv_col_b self) df) (\<lambda>b.
       let close = ssub a b; df = set_num ''close'' close df in
       andthen (gatev_open self close df) (\<lambda>open'.
       let df = with_columns [(''open'', NumCol open'), (''high'', NumCol close), (''low'', NumCol close)] df in
       andthen (get_num (gv_col_a self) df) (\<lambda>price_a.
       andthen (get_num (gv_col_b self) df) (\<lambda>price_b.
       andthen (compute_pairs_signals np price_a price_b (gv_formation_bars self) (gv_trading_bars self) (gv_open_threshold_sd self)) (\<lambda>out.
       andthen (compute_realized_vol np price_a (gv_vol_window self)) (\<lambda>vol_a.
       andthen (compute_realized_vol np price_b (gv_vol_window self)) (\<lambda>vol_b.
         Inr (with_columns [(''buy_signal'', flags (map gf_buy out)), (''sell_signal'', flags (map gf_sell out)),
           (''exit_signal'', flags (map gf_exit out)), (''spread'', NumCol (map gf_spread out)),
           (''volatility'', NumCol (sscale (Fin (1 / 2)) (sadd vol_a vol_b))),
           (''bar_index'', NumCol (map (\<lambda>i. Fin (of_nat i)) (bar_numbers df))),
           (''rebalance'', flags (map (\<lambda>_. False) (bar_numbers df)))] df))))))))))"

end
