(* ===== verification/Bt_Causality.thy ===== *)
theory Bt_Causality
  imports Bt_Pairs
begin

text \<open>
  The registered candle strategies together: their indicators, entry and exit signals. All of them
  keep the contract of \<^verbatim>\<open>TradingStrategy\<close>, that the value at a bar depends on no later bar, for every
  choice of parameters with lags of at least zero.
\<close>

section \<open>Strategies\<close>

datatype Strategy =
    MACrossover int int decimal string string
  | BollingerReversion int decimal
  | DonchianBreakout int
  | FMA int decimal string int
  | VMA int decimal string
  | TRB int decimal int
  | MACD int int int
  | RSIMeanReversion int decimal decimal
  | TSMOM TSMOMConfig
  | HurstTrendBlend HurstConfig
  | GatevPairs GatevConfig

fun compute_indicators :: "numerics \<Rightarrow> Strategy \<Rightarrow> DataFrame \<Rightarrow> series_error + DataFrame" where
  "compute_indicators np (MACrossover sp lp th st lt) df = ma_crossover_indicators sp lp th st lt df"
| "compute_indicators np (BollingerReversion p k) df = bollinger_indicators np p k df"
| "compute_indicators np (DonchianBreakout p) df = donchian_indicators p df"
| "compute_indicators np (FMA p b ty h) df = fma_indicators p b ty df"
| "compute_indicators np (VMA p b ty) df = vma_indicators p b ty df"
| "compute_indicators np (TRB p b h) df = trb_indicators p b df"
| "compute_indicators np (MACD f s g) df = macd_indicators f s g df"
| "compute_indicators np (RSIMeanReversion p a b) df = rsi_indicators p a b df"
| "compute_indicators np (TSMOM cfg) df = tsmom_indicators np cfg df"
| "compute_indicators np (HurstTrendBlend cfg) df = hurst_indicators np cfg df"
| "compute_indicators np (GatevPairs cfg) df = gatev_indicators np cfg df"

section \<open>Signals\<close>

definition edge_entries :: "string \<Rightarrow> data_row \<Rightarrow> Signal list" where
  "edge_entries symbol row =
     (if row_flag row ''buy_signal'' then [new_signal symbol BT_BUY]
      else if row_flag row ''sell_signal'' then [new_signal symbol BT_SELL] else [])"

text \<open>
  Entries of the momentum strategies. A row without a momentum has no entry; the strength is
  finite wherever there is one.
\<close>

definition num_or :: "data_row \<Rightarrow> string \<Rightarrow> flt \<Rightarrow> flt" where
  "num_or row c dflt = (case row c of Some (CellNum x) \<Rightarrow> x | _ \<Rightarrow> dflt)"

definition strength_of :: "data_row \<Rightarrow> decimal" where
  "strength_of row = (case num_or row ''signal_strength'' (Fin 1) of Fin x \<Rightarrow> x | _ \<Rightarrow> 0)"

definition momentum_entries :: "bool \<Rightarrow> string \<Rightarrow> data_row \<Rightarrow> Signal list" where
  "momentum_entries rebalance_on_every_bar symbol row =
     (let mom = num_or row ''momentum'' NaN; signal = (\<lambda>action. (new_signal symbol action)\<lparr>sg_strength := strength_of row\<rparr>) in
      if mom = NaN then []
      else if rebalance_on_every_bar then
        (if row_flag row ''rebalance'' then
           (if flt_less (Fin 0) mom then [signal BT_BUY] else if flt_less mom (Fin 0) then [signal BT_SELL] else [])
         else [])
      else if row_flag row ''buy_signal'' then [signal BT_BUY]
      else if row_flag row ''sell_signal'' then [signal BT_SELL] else [])"

fun check_entry_conditions :: "Strategy \<Rightarrow> string \<Rightarrow> data_row \<Rightarrow> Signal list" where
  "check_entry_conditions (TSMOM cfg) symbol row = momentum_entries (tm_rebalance_on_every_bar cfg) symbol row"
| "check_entry_conditions (HurstTrendBlend cfg) symbol row = momentum_entries (hb_rebalance_on_every_bar cfg) symbol row"
| "check_entry_conditions _ symbol row = edge_entries symbol row"

definition close_where :: "string \<Rightarrow> (Trade \<Rightarrow> bool) \<Rightarrow> Trade list \<Rightarrow> Signal list" where
  "close_where symbol P open_trades =
     map (\<lambda>_. new_signal symbol BT_CLOSE) (filter (\<lambda>trade. tr_symbol trade = symbol \<and> P trade) open_trades)"

definition flag_exits :: "string \<Rightarrow> bool \<Rightarrow> bool \<Rightarrow> Trade list \<Rightarrow> Signal list" where
  "flag_exits symbol exit_long exit_short open_trades =
     close_where symbol (\<lambda>trade. if tr_action trade = OA_BUY then exit_long else exit_short) open_trades"

text \<open>
  The bar number of each time of the index. The times are taken to be distinct, as those of the candles
  that are loaded are: on an index that repeats a time of an entry, the look-up of
  \<^verbatim>\<open>fixed_holding_period_exits\<close> raises in the program, and is the first bar of that time here.
\<close>

definition build_timestamp_to_bar :: "DataFrame \<Rightarrow> datetime \<rightharpoonup> nat" where
  "build_timestamp_to_bar df = map_of (zip (df_index df) (bar_numbers df))"

definition fixed_holding_period_exits ::
    "data_row \<Rightarrow> Trade list \<Rightarrow> string \<Rightarrow> int \<Rightarrow> (datetime \<rightharpoonup> nat) \<Rightarrow> Signal list" where
  "fixed_holding_period_exits row open_trades symbol holding_period timestamp_to_bar =
     (case num_or row ''bar_index'' NaN of
        Fin bar \<Rightarrow> close_where symbol (\<lambda>trade. case timestamp_to_bar (tr_entry_time trade) of
          None \<Rightarrow> False | Some entry_bar \<Rightarrow> \<lfloor>bar\<rfloor> - int entry_bar \<ge> holding_period) open_trades
      | _ \<Rightarrow> [])"

definition momentum_exits :: "bool \<Rightarrow> string \<Rightarrow> data_row \<Rightarrow> Trade list \<Rightarrow> Signal list" where
  "momentum_exits rebalance_on_every_bar symbol row open_trades =
     close_where symbol (\<lambda>trade. (if tr_action trade = OA_BUY then row_flag row ''sell_signal'' else row_flag row ''buy_signal'') \<or>
       rebalance_on_every_bar \<and> row_flag row ''rebalance'') open_trades"

text \<open>The times of the bars the indicators were last computed for, if they were.\<close>

fun check_exit_conditions ::
    "Strategy \<Rightarrow> (datetime \<rightharpoonup> nat) option \<Rightarrow> string \<Rightarrow> data_row \<Rightarrow> Trade list \<Rightarrow> Signal list" where
  "check_exit_conditions (BollingerReversion _ _) bars symbol row open_trades =
     flag_exits symbol (row_flag row ''exit_long_signal'') (row_flag row ''exit_short_signal'') open_trades"
| "check_exit_conditions (FMA _ _ _ holding) bars symbol row open_trades = (case bars of
     None \<Rightarrow> [] | Some timestamp_to_bar \<Rightarrow> fixed_holding_period_exits row open_trades symbol holding timestamp_to_bar)"
| "check_exit_conditions (TRB _ _ holding) bars symbol row open_trades = (case bars of
     None \<Rightarrow> [] | Some timestamp_to_bar \<Rightarrow> fixed_holding_period_exits row open_trades symbol holding timestamp_to_bar)"
| "check_exit_conditions (TSMOM cfg) bars symbol row open_trades =
     momentum_exits (tm_rebalance_on_every_bar cfg) symbol row open_trades"
| "check_exit_conditions (HurstTrendBlend cfg) bars symbol row open_trades =
     momentum_exits (hb_rebalance_on_every_bar cfg) symbol row open_trades"
| "check_exit_conditions (GatevPairs _) bars symbol row open_trades =
     close_where symbol (\<lambda>_. row_flag row ''exit_signal'') open_trades"
| "check_exit_conditions _ bars symbol row open_trades =
     flag_exits symbol (row_flag row ''sell_signal'') (row_flag row ''buy_signal'') open_trades"

section \<open>Causality\<close>

lemma require_columns_take [causal]: "require_columns names (take_frame n df) = require_columns names df"
  by (simp add: require_columns_def causal)

lemma bar_numbers_take [causal]: "bar_numbers (take_frame n df) = take n (bar_numbers df)"
  by (simp add: bar_numbers_def causal take_upt min_def)

lemma bar_numbers_column [causal]: "bar_numbers (set_column c col df) = bar_numbers df"
  by (simp add: bar_numbers_def set_column_def)

lemma index_column [causal]: "df_index (set_column c col df) = df_index df"
  by (simp add: set_column_def)

lemma crosses_take [causal]:
  "crosses_above (take n a) (take n b) (take n c) (take n d) = take n (crosses_above a b c d)"
  "crosses_below (take n a) (take n b) (take n c) (take n d) = take n (crosses_below a b c d)"
  by (simp_all add: crosses_above_def crosses_below_def causal)

lemma add_bar_index_take [causal]: "add_bar_index (take_frame n df) = take_frame n (add_bar_index df)"
  by (simp add: add_bar_index_def causal)

lemma compute_ma_band_signals_take [causal]:
  "compute_ma_band_signals (take n ma) b (take_frame n df) = cut_frame n (compute_ma_band_signals ma b df)"
  by (simp add: compute_ma_band_signals_def Let_def causal)

lemma compute_trb_channel_signals_take [causal]:
  "compute_trb_channel_signals p b (take_frame n df) = cut_frame n (compute_trb_channel_signals p b df)"
  by (simp add: compute_trb_channel_signals_def Let_def causal)

lemma compute_volatility_take [causal]:
  "compute_volatility np ve w (take_frame n df) = cut n (compute_volatility np ve w df)"
  by (simp add: compute_volatility_def causal cong: if_cong)

lemma previous_signs_take [causal]: "previous_signs l (take n xs) = take n (previous_signs l xs)"
  by (induction l xs arbitrary: n rule: previous_signs.induct) (auto simp: take_Cons split: nat.splits)

lemma rebalance_flips_take [causal]:
  "rebalance_flips (take n r) (take n m) = map_prod (take n) (take n) (rebalance_flips r m)"
  by (simp add: rebalance_flips_def Let_def causal)

lemma momentum_columns_take [causal]:
  "momentum_columns np ve w r (take n m) (take n s) (take_frame n df) = cut_frame n (momentum_columns np ve w r m s df)"
  by (simp add: momentum_columns_def Let_def causal split_beta)

lemma newey_west_take [causal]:
  "compute_rolling_newey_west_t_stat np (take n xs) w l = cut n (compute_rolling_newey_west_t_stat np xs w l)"
  by (simp add: compute_rolling_newey_west_t_stat_def causal)

lemma past_return_take [causal]: "0 \<le> k \<Longrightarrow> past_return k (take n xs) = take n (past_return k xs)"
  by (simp add: past_return_def causal)

lemma excess_sign_take [causal]: "0 \<le> k \<Longrightarrow> excess_sign cfg k (take n xs) = take n (excess_sign cfg k xs)"
  by (simp add: excess_sign_def causal)

lemma pairs_run_take [causal]: "pairs_run np f t d i (take n ps) st = take n (pairs_run np f t d i ps st)"
  by (induction ps arbitrary: n i st) (auto simp: take_Cons Let_def split: nat.splits prod.splits)

lemma compute_pairs_signals_take [causal]:
  "f + t \<noteq> 0 \<Longrightarrow> compute_pairs_signals np (take n a) (take n b) f t d = cut n (compute_pairs_signals np a b f t d)"
  by (simp add: compute_pairs_signals_def causal)

lemma gatev_open_take [causal]: "gatev_open cfg (take n xs) (take_frame n df) = cut n (gatev_open cfg xs df)"
  by (simp add: gatev_open_def causal cong: if_cong)

text \<open>Lags that do not look ahead, and cycles that are not empty.\<close>

fun lags_ok :: "Strategy \<Rightarrow> bool" where
  "lags_ok (TSMOM cfg) = (0 \<le> tm_lookback_bars cfg)"
| "lags_ok (HurstTrendBlend cfg) = (0 \<le> hb_lookback_1 cfg \<and> 0 \<le> hb_lookback_2 cfg \<and> 0 \<le> hb_lookback_3 cfg)"
| "lags_ok (GatevPairs cfg) = (gv_formation_bars cfg + gv_trading_bars cfg \<noteq> 0)"
| "lags_ok _ = True"

lemma crossover_take:
  "ma_crossover_indicators sp lp th st lt (take_frame n df) = cut_frame n (ma_crossover_indicators sp lp th st lt df)"
  "bollinger_indicators np p k (take_frame n df) = cut_frame n (bollinger_indicators np p k df)"
  "donchian_indicators p (take_frame n df) = cut_frame n (donchian_indicators p df)"
  "macd_indicators f s g (take_frame n df) = cut_frame n (macd_indicators f s g df)"
  "rsi_indicators p a b (take_frame n df) = cut_frame n (rsi_indicators p a b df)"
  by (simp_all add: ma_crossover_indicators_def bollinger_indicators_def donchian_indicators_def macd_indicators_def
      rsi_indicators_def Let_def causal split_beta)

lemma lai_lau_take:
  "vma_indicators p b ty (take_frame n df) = cut_frame n (vma_indicators p b ty df)"
  "fma_indicators p b ty (take_frame n df) = cut_frame n (fma_indicators p b ty df)"
  "trb_indicators p b (take_frame n df) = cut_frame n (trb_indicators p b df)"
  by (simp_all add: vma_indicators_def fma_indicators_def trb_indicators_def causal)

lemma tsmom_take:
  "0 \<le> tm_lookback_bars cfg \<Longrightarrow> tsmom_indicators np cfg (take_frame n df) = cut_frame n (tsmom_indicators np cfg df)"
  by (simp add: tsmom_indicators_def Let_def causal cong: if_cong)

lemma hurst_take:
  assumes "0 \<le> hb_lookback_1 cfg" "0 \<le> hb_lookback_2 cfg" "0 \<le> hb_lookback_3 cfg"
  shows "hurst_indicators np cfg (take_frame n df) = cut_frame n (hurst_indicators np cfg df)"
  by (cases "hb_signal_lag_bars cfg > 0") (simp_all add: assms hurst_indicators_def Let_def causal)

lemma gatev_take:
  "gv_formation_bars cfg + gv_trading_bars cfg \<noteq> 0 \<Longrightarrow> gatev_indicators np cfg (take_frame n df) = cut_frame n (gatev_indicators np cfg df)"
  by (simp add: gatev_indicators_def Let_def causal)

lemma compute_indicators_take:
  "lags_ok strategy \<Longrightarrow> compute_indicators np strategy (take_frame n df) = cut_frame n (compute_indicators np strategy df)"
  by (cases strategy) (simp_all add: crossover_take lai_lau_take tsmom_take hurst_take gatev_take)

text \<open>The strategies that keep the contract, and two of them.\<close>

locale registered_strategy =
  fixes np :: numerics and strategy :: Strategy
  assumes lags: "lags_ok strategy"

sublocale registered_strategy \<subseteq> causal_indicators "compute_indicators np strategy"
  by unfold_locales (rule compute_indicators_take [OF lags])

context registered_strategy
begin

lemma strategy_prefix:
  assumes "take_frame n df = take_frame n df'" and "compute_indicators np strategy df = Inr out"
  shows "\<exists>out'. compute_indicators np strategy df' = Inr out' \<and> take_frame n out' = take_frame n out"
  using assms by (rule prefix_determined)

end

interpretation default_ma_crossover: registered_strategy np "MACrossover 50 200 0 ''sma'' ''sma''" for np
  by unfold_locales simp

interpretation default_rsi: registered_strategy np "RSIMeanReversion 14 30 70" for np
  by unfold_locales simp

section \<open>Signals depend on the past only\<close>

lemma map_of_zip_prefix:
  assumes "t \<in> set (take n xs)" and "length ys = length xs"
  shows "map_of (zip xs ys) t = map_of (take n (zip xs ys)) t"
proof -
  have "t \<in> dom (map_of (zip (take n xs) (take n ys)))" using assms by (auto simp: dom_map_of_zip)
  moreover have "zip xs ys = take n (zip xs ys) @ drop n (zip xs ys)" by simp
  ultimately show ?thesis by (metis map_add_dom_app_simps(1) map_of_append take_zip)
qed

lemma timestamp_to_bar_prefix:
  assumes "take_frame n a = take_frame n b" and "t \<in> set (take n (df_index a))"
  shows "build_timestamp_to_bar a t = build_timestamp_to_bar b t"
proof -
  have eq: "take n (df_index a) = take n (df_index b)" using assms(1) by (metis take_frame_index)
  moreover have "take n [0..<length (df_index a)] = take n [0..<length (df_index b)]"
    using arg_cong [OF assms(1), of bar_numbers] by (simp add: bar_numbers_take) (simp add: bar_numbers_def)
  ultimately have "take n (zip (df_index a) [0..<length (df_index a)]) = take n (zip (df_index b) [0..<length (df_index b)])"
    by (simp add: take_zip)
  then show ?thesis using assms(2) eq
    by (simp add: build_timestamp_to_bar_def bar_numbers_def) (metis length_upt map_of_zip_prefix minus_nat.diff_0)
qed

lemma exits_use_entry_times:
  assumes "\<forall>trade\<in>set trades. bars (tr_entry_time trade) = bars' (tr_entry_time trade)"
  shows "check_exit_conditions strategy (Some bars) symbol row trades = check_exit_conditions strategy (Some bars') symbol row trades"
proof -
  have "fixed_holding_period_exits row trades symbol h bars = fixed_holding_period_exits row trades symbol h bars'" for h
    using assms by (auto simp: fixed_holding_period_exits_def close_where_def split: flt.splits
        intro!: arg_cong [where f = "map (\<lambda>_. new_signal symbol BT_CLOSE)"] filter_cong)
  then show ?thesis by (cases strategy) simp_all
qed

text \<open>
  C23. No strategy looks ahead. If two series of bars agree on their first bars, then a strategy
  that computes its indicators for one of them computes them for the other, the row of any of
  those first bars is the same for both, and so are the entry signals at that bar and, for trades
  entered by then, the exit signals. The lookbacks of the momentum strategies must not be negative.
\<close>

theorem strategies_never_look_ahead:
  assumes "lags_ok strategy" and "take_frame n df = take_frame n df'" and "compute_indicators np strategy df = Inr out" and "i < n"
    and "\<forall>trade\<in>set trades. tr_entry_time trade \<in> set (take n (df_index out))"
  shows "\<exists>out'. compute_indicators np strategy df' = Inr out' \<and> row_at out' i = row_at out i \<and>
    check_entry_conditions strategy symbol (row_at out' i) = check_entry_conditions strategy symbol (row_at out i) \<and>
    check_exit_conditions strategy (Some (build_timestamp_to_bar out')) symbol (row_at out' i) trades =
    check_exit_conditions strategy (Some (build_timestamp_to_bar out)) symbol (row_at out i) trades"
proof -
  have "registered_strategy strategy" using assms(1) by unfold_locales
  from registered_strategy.strategy_prefix [OF this assms(2,3)]
  obtain out' where out': "compute_indicators np strategy df' = Inr out'" "take_frame n out' = take_frame n out" by blast
  then have row: "row_at out' i = row_at out i" using row_at_take [OF assms(4)] by metis
  have "\<forall>trade\<in>set trades. build_timestamp_to_bar out' (tr_entry_time trade) = build_timestamp_to_bar out (tr_entry_time trade)"
    using timestamp_to_bar_prefix [OF out'(2) [symmetric]] assms(5) by simp
  from exits_use_entry_times [OF this] row out'(1) show ?thesis by simp
qed

definition ex_closes :: "decimal list \<Rightarrow> DataFrame" where
  "ex_closes closes = \<lparr>df_index = map int [0..<length closes], df_columns = [''close'' \<mapsto> NumCol (map Fin closes)]\<rparr>"

definition ex_numerics :: numerics where
  "ex_numerics = \<lparr>np_log = (\<lambda>x. x - 1), np_sqrt = (\<lambda>x. x)\<rparr>"

theorem strategies_never_look_ahead_witness:
  "\<exists>out'. compute_indicators ex_numerics (MACrossover 1 2 0 ''sma'' ''ema'') (ex_closes [10, 8, 12, 99]) = Inr out' \<and>
    check_entry_conditions (MACrossover 1 2 0 ''sma'' ''ema'') ''WIN'' (row_at out' 2) = [new_signal ''WIN'' BT_BUY]"
proof -
  let ?s = "MACrossover 1 2 0 ''sma'' ''ema''"
  have "take_frame 3 (ex_closes [10, 8, 12, 5]) = take_frame 3 (ex_closes [10, 8, 12, 99])"
    by (simp add: ex_closes_def take_frame_def fun_eq_iff)
  moreover have "\<not> isl (compute_indicators ex_numerics ?s (ex_closes [10, 8, 12, 5]))" by code_simp
  then obtain out where out: "compute_indicators ex_numerics ?s (ex_closes [10, 8, 12, 5]) = Inr out" by (cases "compute_indicators ex_numerics ?s (ex_closes [10, 8, 12, 5])") auto
  moreover have "check_entry_conditions ?s ''WIN'' (row_at (projr (compute_indicators ex_numerics ?s (ex_closes [10, 8, 12, 5]))) 2) = [new_signal ''WIN'' BT_BUY]"
    by code_simp
  ultimately show ?thesis using strategies_never_look_ahead [of ?s 3 "ex_closes [10, 8, 12, 5]" "ex_closes [10, 8, 12, 99]" ex_numerics out 2 "[]" "''WIN''"]
    by auto
qed

end
