(* ===== verification/Bt_Registry.thy ===== *)
theory Bt_Registry
  imports Genome_Compile Bt_Causality
begin

text \<open>
  The registry of strategies: their parameters, the merge of given parameters with the defaults and
  the construction of a strategy, \<^verbatim>\<open>backtesting/strategy_registry.py\<close>, \<^verbatim>\<open>strategies/*.py\<close> and
  \<^verbatim>\<open>factory.py\<close>; strategies that combine others, \<^verbatim>\<open>composite_entry.py\<close> with the
  \<^verbatim>\<open>signal_managers\<close>; and the two ways a saved request is turned into a strategy, that of a backtest
  (\<^verbatim>\<open>api/backtest_jobs.py\<close>) and that of forward execution (\<^verbatim>\<open>execution/strategy_build.py\<close>). Custom
  strategies, which are read from a file, labels and search hints are not modelled.
\<close>

section \<open>Parameters\<close>

definition ma_crossover_params :: "StrategyParamSpec list" where
  "ma_crossover_params = [
     (param_spec ''short_period'' PT_INT (PyInt 50) (Some 2) (Some 100) (Some 1))\<lparr>ps_search_min := Some 10, ps_search_max := Some 60, ps_search_step := Some 10\<rparr>,
     (param_spec ''long_period'' PT_INT (PyInt 200) (Some 10) (Some 300) (Some 1))\<lparr>ps_search_min := Some 100, ps_search_max := Some 250, ps_search_step := Some 50\<rparr>,
     (param_spec ''short_ma_type'' PT_CATEGORICAL (PyStr ''sma'') (None) (None) (None))\<lparr>ps_choices := Some [''ema'', ''hma'', ''sma'', ''smma'', ''wma'']\<rparr>,
     (param_spec ''long_ma_type'' PT_CATEGORICAL (PyStr ''sma'') (None) (None) (None))\<lparr>ps_choices := Some [''ema'', ''hma'', ''sma'', ''smma'', ''wma'']\<rparr>,
     (param_spec ''threshold'' PT_FLOAT (PyFloat 0) (Some 0) (Some 10) (Some (1 / 100)))\<lparr>ps_search_min := Some 0, ps_search_max := Some 1, ps_search_step := Some (1 / 4)\<rparr>]"

definition bollinger_params :: "StrategyParamSpec list" where
  "bollinger_params = [
     (param_spec ''period'' PT_INT (PyInt 20) (Some 2) (Some 400) (Some 1))\<lparr>ps_search_min := Some 10, ps_search_max := Some 40, ps_search_step := Some 10\<rparr>,
     (param_spec ''num_std'' PT_FLOAT (PyFloat 2) (Some (1 / 2)) (Some 5) (Some (1 / 10)))\<lparr>ps_search_min := Some 1, ps_search_max := Some 3, ps_search_step := Some (1 / 2)\<rparr>]"

definition donchian_params :: "StrategyParamSpec list" where
  "donchian_params = [
     (param_spec ''period'' PT_INT (PyInt 20) (Some 2) (Some 400) (Some 1))\<lparr>ps_search_min := Some 10, ps_search_max := Some 60, ps_search_step := Some 10\<rparr>]"

definition fma_params :: "StrategyParamSpec list" where
  "fma_params = [
     (param_spec ''period'' PT_INT (PyInt 60) (Some 2) (Some 400) (Some 1))\<lparr>ps_search_min := Some 20, ps_search_max := Some 100, ps_search_step := Some 20\<rparr>,
     (param_spec ''band_pct'' PT_FLOAT (PyFloat 0) (Some 0) (Some 5) (Some (1 / 100)))\<lparr>ps_search_min := Some 0, ps_search_max := Some 1, ps_search_step := Some (1 / 4)\<rparr>,
     (param_spec ''ma_type'' PT_CATEGORICAL (PyStr ''sma'') (None) (None) (None))\<lparr>ps_choices := Some [''ema'', ''hma'', ''sma'', ''smma'', ''wma'']\<rparr>,
     (param_spec ''holding_period'' PT_INT (PyInt 10) (Some 1) (Some 60) (Some 1))\<lparr>ps_search_min := Some 5, ps_search_max := Some 30, ps_search_step := Some 5\<rparr>]"

definition vma_params :: "StrategyParamSpec list" where
  "vma_params = [
     (param_spec ''period'' PT_INT (PyInt 20) (Some 2) (Some 400) (Some 1))\<lparr>ps_search_min := Some 10, ps_search_max := Some 50, ps_search_step := Some 10\<rparr>,
     (param_spec ''band_pct'' PT_FLOAT (PyFloat 0) (Some 0) (Some 5) (Some (1 / 100)))\<lparr>ps_search_min := Some 0, ps_search_max := Some 1, ps_search_step := Some (1 / 4)\<rparr>,
     (param_spec ''ma_type'' PT_CATEGORICAL (PyStr ''sma'') (None) (None) (None))\<lparr>ps_choices := Some [''ema'', ''hma'', ''sma'', ''smma'', ''wma'']\<rparr>]"

definition trb_params :: "StrategyParamSpec list" where
  "trb_params = [
     (param_spec ''period'' PT_INT (PyInt 60) (Some 3) (Some 240) (Some 1))\<lparr>ps_search_min := Some 20, ps_search_max := Some 120, ps_search_step := Some 20\<rparr>,
     (param_spec ''band_pct'' PT_FLOAT (PyFloat 0) (Some 0) (Some 5) (Some (1 / 100)))\<lparr>ps_search_min := Some 0, ps_search_max := Some 1, ps_search_step := Some (1 / 4)\<rparr>,
     (param_spec ''holding_period'' PT_INT (PyInt 10) (Some 1) (Some 60) (Some 1))\<lparr>ps_search_min := Some 5, ps_search_max := Some 30, ps_search_step := Some 5\<rparr>]"

definition macd_params :: "StrategyParamSpec list" where
  "macd_params = [
     (param_spec ''fast_period'' PT_INT (PyInt 12) (Some 2) (Some 100) (Some 1))\<lparr>ps_search_min := Some 8, ps_search_max := Some 16, ps_search_step := Some 4\<rparr>,
     (param_spec ''slow_period'' PT_INT (PyInt 26) (Some 2) (Some 400) (Some 1))\<lparr>ps_search_min := Some 20, ps_search_max := Some 32, ps_search_step := Some 6\<rparr>,
     (param_spec ''signal_period'' PT_INT (PyInt 9) (Some 2) (Some 100) (Some 1))\<lparr>ps_search_min := Some 6, ps_search_max := Some 12, ps_search_step := Some 3\<rparr>]"

definition rsi_params :: "StrategyParamSpec list" where
  "rsi_params = [
     (param_spec ''period'' PT_INT (PyInt 14) (Some 2) (Some 200) (Some 1))\<lparr>ps_search_min := Some 7, ps_search_max := Some 21, ps_search_step := Some 7\<rparr>,
     (param_spec ''oversold'' PT_FLOAT (PyFloat 30) (Some 0) (Some 50) (Some (1 / 2)))\<lparr>ps_search_min := Some 15, ps_search_max := Some 35, ps_search_step := Some 5\<rparr>,
     (param_spec ''overbought'' PT_FLOAT (PyFloat 70) (Some 50) (Some 100) (Some (1 / 2)))\<lparr>ps_search_min := Some 65, ps_search_max := Some 85, ps_search_step := Some 5\<rparr>]"

definition tsmom_params :: "StrategyParamSpec list" where
  "tsmom_params = [
     (param_spec ''lookback_bars'' PT_INT (PyInt 252) (Some 20) (Some 1000) (Some 1))\<lparr>ps_search_min := Some 63, ps_search_max := Some 252, ps_search_step := Some 63\<rparr>,
     (param_spec ''rebalance_bars'' PT_INT (PyInt 21) (Some 1) (Some 252) (Some 1))\<lparr>ps_search_min := Some 21, ps_search_max := Some 63, ps_search_step := Some 21\<rparr>,
     (param_spec ''vol_window'' PT_INT (PyInt 63) (Some 2) (Some 400) (Some 1))\<lparr>ps_search_min := Some 21, ps_search_max := Some 126, ps_search_step := Some 21\<rparr>,
     (param_spec ''vol_estimator'' PT_CATEGORICAL (PyStr ''yang_zhang'') (None) (None) (None))\<lparr>ps_choices := Some [''yang_zhang'', ''close_to_close'']\<rparr>,
     (param_spec ''trading_rule'' PT_CATEGORICAL (PyStr ''sign'') (None) (None) (None))\<lparr>ps_choices := Some [''sign'', ''trend'']\<rparr>,
     (param_spec ''trend_signal_cap'' PT_FLOAT (PyFloat 1) (Some (1 / 10)) (Some 10) (Some (1 / 10)))\<lparr>ps_search_min := Some 1, ps_search_max := Some 3, ps_search_step := Some (1 / 2)\<rparr>,
     (param_spec ''nw_lags'' PT_INT (PyInt 4) (Some 0) (Some 100) (Some 1))\<lparr>ps_search_min := Some 0, ps_search_max := Some 8, ps_search_step := Some 2\<rparr>,
     (param_spec ''rebalance_on_every_bar'' PT_CATEGORICAL (PyStr ''false'') (None) (None) (None))\<lparr>ps_choices := Some [''true'', ''false'']\<rparr>]"

definition hurst_params :: "StrategyParamSpec list" where
  "hurst_params = [
     (param_spec ''lookback_1'' PT_INT (PyInt 21) (Some 5) (Some 1000) (Some 1))\<lparr>ps_search_min := Some 21, ps_search_max := Some 63, ps_search_step := Some 21\<rparr>,
     (param_spec ''lookback_2'' PT_INT (PyInt 63) (Some 5) (Some 1000) (Some 1))\<lparr>ps_search_min := Some 63, ps_search_max := Some 189, ps_search_step := Some 63\<rparr>,
     (param_spec ''lookback_3'' PT_INT (PyInt 252) (Some 5) (Some 1000) (Some 1))\<lparr>ps_search_min := Some 126, ps_search_max := Some 378, ps_search_step := Some 126\<rparr>,
     (param_spec ''rebalance_bars'' PT_INT (PyInt 21) (Some 1) (Some 252) (Some 1))\<lparr>ps_search_min := Some 21, ps_search_max := Some 63, ps_search_step := Some 21\<rparr>,
     (param_spec ''vol_window'' PT_INT (PyInt 63) (Some 2) (Some 400) (Some 1))\<lparr>ps_search_min := Some 21, ps_search_max := Some 126, ps_search_step := Some 21\<rparr>,
     (param_spec ''vol_estimator'' PT_CATEGORICAL (PyStr ''yang_zhang'') (None) (None) (None))\<lparr>ps_choices := Some [''yang_zhang'', ''close_to_close'']\<rparr>,
     (param_spec ''risk_free_rate_annual'' PT_FLOAT (PyFloat 0) (Some 0) (Some 20) (Some (1 / 100))),
     (param_spec ''signal_lag_bars'' PT_INT (PyInt 0) (Some 0) (Some 252) (Some 1)),
     (param_spec ''rebalance_on_every_bar'' PT_CATEGORICAL (PyStr ''true'') (None) (None) (None))\<lparr>ps_choices := Some [''true'', ''false'']\<rparr>]"

definition gatev_params :: "StrategyParamSpec list" where
  "gatev_params = [
     (param_spec ''col_a'' PT_CATEGORICAL (PyStr ''close_a'') (None) (None) (None))\<lparr>ps_choices := Some [''close_a'', ''close'']\<rparr>,
     (param_spec ''col_b'' PT_CATEGORICAL (PyStr ''close_b'') (None) (None) (None))\<lparr>ps_choices := Some [''close_b'', ''close'']\<rparr>,
     (param_spec ''open_col_a'' PT_CATEGORICAL (PyStr ''open_a'') (None) (None) (None))\<lparr>ps_choices := Some [''open_a'', ''open'']\<rparr>,
     (param_spec ''open_col_b'' PT_CATEGORICAL (PyStr ''open_b'') (None) (None) (None))\<lparr>ps_choices := Some [''open_b'', ''open'']\<rparr>,
     (param_spec ''formation_bars'' PT_INT (PyInt 252) (Some 10) (Some 1000) (Some 1))\<lparr>ps_search_min := Some 126, ps_search_max := Some 378, ps_search_step := Some 126\<rparr>,
     (param_spec ''trading_bars'' PT_INT (PyInt 126) (Some 5) (Some 1000) (Some 1))\<lparr>ps_search_min := Some 63, ps_search_max := Some 189, ps_search_step := Some 63\<rparr>,
     (param_spec ''open_threshold_sd'' PT_FLOAT (PyFloat 2) (Some (1 / 2)) (Some 5) (Some (1 / 10)))\<lparr>ps_search_min := Some (3 / 2), ps_search_max := Some 3, ps_search_step := Some (1 / 2)\<rparr>,
     (param_spec ''vol_window'' PT_INT (PyInt 63) (Some 2) (Some 400) (Some 1))\<lparr>ps_search_min := Some 21, ps_search_max := Some 126, ps_search_step := Some 21\<rparr>,
     (param_spec ''vol_estimator'' PT_CATEGORICAL (PyStr ''close_to_close'') (None) (None) (None))\<lparr>ps_choices := Some [''close_to_close'']\<rparr>]"

text \<open>Candle strategies also take the parameters of the exit rules.\<close>

definition with_exit_params :: "StrategyParamSpec list \<Rightarrow> StrategyParamSpec list" where
  "with_exit_params params = params @ filter (\<lambda>spec. ps_name spec \<notin> ps_name ` set params) all_param_specs"

definition STRATEGY_REGISTRY :: "(string \<times> StrategyParamSpec list) list" where
  "STRATEGY_REGISTRY = map (\<lambda>(name, params). (name, with_exit_params params))
     [(''BollingerReversion'', bollinger_params), (''DonchianBreakout'', donchian_params), (''FMA'', fma_params),
      (''GatevPairs'', gatev_params), (''HurstTrendBlend'', hurst_params), (''MACrossover'', ma_crossover_params),
      (''MACD'', macd_params), (''RSIMeanReversion'', rsi_params), (''TRB'', trb_params), (''TSMOM'', tsmom_params),
      (''VMA'', vma_params)] @ [(''CompositeStrategy'', [])]"

definition info_params :: "string \<Rightarrow> genome_error + StrategyParamSpec list" where
  "info_params name = (case map_of STRATEGY_REGISTRY name of
     None \<Rightarrow> Inl (GenomeValueError ''Unknown strategy'') | Some specs \<Rightarrow> Inr specs)"

definition default_params_for :: "string \<Rightarrow> genome_error + (string \<times> pyval) list" where
  "default_params_for name = map_sum id (map (\<lambda>spec. (ps_name spec, ps_default spec))) (info_params name)"

text \<open>
  \<^verbatim>\<open>float(v)\<close> and \<^verbatim>\<open>str(v)\<close>. In a text, exponents and the names of special values are not modelled;
  floats, lists and the like render to texts that are no valid choice, as does the empty one.
\<close>

definition float_of_text :: "string \<Rightarrow> decimal option" where
  "float_of_text s =
     (let t = strip_text s; (whole, fraction) = split_first CHR ''.'' t in
      case fraction of
        None \<Rightarrow> map_option of_int (int_of_text t)
      | Some f \<Rightarrow> (case (int_of_text (if whole \<in> {[], ''-'', ''+''} then whole @ ''0'' else whole), those (map digit_value f)) of
          (Some w, Some ds) \<Rightarrow> if whole \<in> {[], ''-'', ''+''} \<and> ds = [] then None
            else Some (of_int w + (if take 1 t = ''-'' then - 1 else 1) * (of_int (fold (\<lambda>d n. 10 * n + d) ds 0) / 10 ^ length ds))
        | _ \<Rightarrow> None))"

fun py_float :: "pyval \<Rightarrow> genome_error + decimal" where
  "py_float (PyFloat x) = Inr x"
| "py_float (PyInt i) = Inr (of_int i)"
| "py_float (PyBool b) = Inr (if b then 1 else 0)"
| "py_float (PyStr s) = (case float_of_text s of None \<Rightarrow> Inl (GenomeValueError s) | Some x \<Rightarrow> Inr x)"
| "py_float _ = Inl GenomeTypeError"

fun py_str :: "pyval \<Rightarrow> string" where
  "py_str (PyStr s) = s"
| "py_str (PyBool b) = (if b then ''True'' else ''False'')"
| "py_str (PyInt i) = int_str i"
| "py_str PyNone = ''None''"
| "py_str _ = []"

definition coerce_param_value :: "StrategyParamSpec \<Rightarrow> pyval \<Rightarrow> genome_error + pyval" where
  "coerce_param_value spec raw = (case ps_type spec of
     PT_INT \<Rightarrow> map_sum id PyInt (py_int raw)
   | PT_FLOAT \<Rightarrow> map_sum id PyFloat (py_float raw)
   | PT_CATEGORICAL \<Rightarrow> Inr (PyStr (py_str raw)))"

definition merge_param :: "(string \<times> pyval) list \<Rightarrow> StrategyParamSpec \<Rightarrow> genome_error + (string \<times> pyval)" where
  "merge_param params spec = (case map_of params (ps_name spec) of
     None \<Rightarrow> Inr (ps_name spec, ps_default spec)
   | Some raw \<Rightarrow> map_sum id (Pair (ps_name spec)) (coerce_param_value spec raw))"

definition merge_strategy_params :: "string \<Rightarrow> (string \<times> pyval) list \<Rightarrow> genome_error + (string \<times> pyval) list" where
  "merge_strategy_params name params =
     (if name = ''CompositeStrategy'' then Inr params else andthen (info_params name) (map_result (merge_param params)))"

section \<open>Construction\<close>

definition need :: "(string \<times> pyval) list \<Rightarrow> string \<Rightarrow> (pyval \<Rightarrow> genome_error + 'a) \<Rightarrow> genome_error + 'a" where
  "need params key conv = (case map_of params key of None \<Rightarrow> Inl (GenomeKeyError key) | Some v \<Rightarrow> conv v)"

definition get_or :: "(string \<times> pyval) list \<Rightarrow> string \<Rightarrow> pyval \<Rightarrow> pyval" where
  "get_or params key dflt = (case map_of params key of None \<Rightarrow> dflt | Some v \<Rightarrow> v)"

definition py_ma_type :: "pyval \<Rightarrow> genome_error + string" where
  "py_ma_type v = (case normalize_ma_type (py_str v) of Inl _ \<Rightarrow> Inl (GenomeValueError ''Invalid MA type'') | Inr t \<Rightarrow> Inr t)"

definition one_of :: "string list \<Rightarrow> string \<Rightarrow> genome_error + string" where
  "one_of choices v = (if v \<in> set choices then Inr v else Inl (GenomeValueError v))"

abbreviation VOL_ESTIMATOR_CHOICES :: "string list" where
  "VOL_ESTIMATOR_CHOICES \<equiv> [''yang_zhang'', ''close_to_close'']"

definition build_ma_crossover :: "(string \<times> pyval) list \<Rightarrow> genome_error + Strategy" where
  "build_ma_crossover params =
     andthen (need params ''short_period'' py_int) (\<lambda>short_period. andthen (need params ''long_period'' py_int) (\<lambda>long_period.
     andthen (need params ''threshold'' py_float) (\<lambda>threshold. andthen (need params ''short_ma_type'' py_ma_type) (\<lambda>short_ma_type.
     andthen (need params ''long_ma_type'' py_ma_type) (\<lambda>long_ma_type.
       Inr (MACrossover short_period long_period threshold short_ma_type long_ma_type))))))"

definition build_bollinger_reversion :: "(string \<times> pyval) list \<Rightarrow> genome_error + Strategy" where
  "build_bollinger_reversion params = andthen (need params ''period'' py_int) (\<lambda>period.
     andthen (need params ''num_std'' py_float) (\<lambda>num_std. Inr (BollingerReversion period num_std)))"

definition build_donchian_breakout :: "(string \<times> pyval) list \<Rightarrow> genome_error + Strategy" where
  "build_donchian_breakout params = andthen (need params ''period'' py_int) (\<lambda>period. Inr (DonchianBreakout period))"

definition build_fma :: "(string \<times> pyval) list \<Rightarrow> genome_error + Strategy" where
  "build_fma params = andthen (need params ''period'' py_int) (\<lambda>period. andthen (need params ''band_pct'' py_float) (\<lambda>band_pct.
     andthen (need params ''ma_type'' py_ma_type) (\<lambda>ma_type. andthen (need params ''holding_period'' py_int) (\<lambda>holding_period.
       Inr (FMA period band_pct ma_type holding_period)))))"

definition build_vma :: "(string \<times> pyval) list \<Rightarrow> genome_error + Strategy" where
  "build_vma params = andthen (need params ''period'' py_int) (\<lambda>period. andthen (need params ''band_pct'' py_float) (\<lambda>band_pct.
     andthen (need params ''ma_type'' py_ma_type) (\<lambda>ma_type. Inr (VMA period band_pct ma_type))))"

definition build_trb :: "(string \<times> pyval) list \<Rightarrow> genome_error + Strategy" where
  "build_trb params = andthen (need params ''period'' py_int) (\<lambda>period. andthen (need params ''band_pct'' py_float) (\<lambda>band_pct.
     andthen (need params ''holding_period'' py_int) (\<lambda>holding_period. Inr (TRB period band_pct holding_period))))"

definition build_macd :: "(string \<times> pyval) list \<Rightarrow> genome_error + Strategy" where
  "build_macd params = andthen (need params ''fast_period'' py_int) (\<lambda>fast. andthen (need params ''slow_period'' py_int) (\<lambda>slow.
     andthen (need params ''signal_period'' py_int) (\<lambda>signal. Inr (MACD fast slow signal))))"

definition build_rsi_mean_reversion :: "(string \<times> pyval) list \<Rightarrow> genome_error + Strategy" where
  "build_rsi_mean_reversion params = andthen (need params ''period'' py_int) (\<lambda>period.
     andthen (need params ''oversold'' py_float) (\<lambda>oversold. andthen (need params ''overbought'' py_float) (\<lambda>overbought.
       Inr (RSIMeanReversion period oversold overbought))))"

definition build_tsmom :: "(string \<times> pyval) list \<Rightarrow> genome_error + Strategy" where
  "build_tsmom params =
     andthen (need params ''lookback_bars'' py_int) (\<lambda>lookback. andthen (need params ''rebalance_bars'' py_int) (\<lambda>rebalance.
     andthen (need params ''vol_window'' py_int) (\<lambda>vol_window. andthen (need params ''vol_estimator'' (\<lambda>v. Inr (py_str v))) (\<lambda>estimator.
     andthen (py_float (get_or params ''trend_signal_cap'' (PyFloat 1))) (\<lambda>cap. andthen (py_int (get_or params ''nw_lags'' (PyInt 4))) (\<lambda>lags.
     andthen (one_of VOL_ESTIMATOR_CHOICES estimator) (\<lambda>estimator.
     andthen (one_of [''sign'', ''trend''] (py_str (get_or params ''trading_rule'' (PyStr ''sign'')))) (\<lambda>rule.
       Inr (TSMOM \<lparr>tm_lookback_bars = lookback, tm_rebalance_bars = rebalance, tm_vol_window = vol_window, tm_vol_estimator = estimator,
         tm_trading_rule = rule, tm_trend_signal_cap = cap, tm_nw_lags = lags,
         tm_rebalance_on_every_bar = (lower_text (py_str (get_or params ''rebalance_on_every_bar'' (PyStr ''false''))) = ''true'')\<rparr>)))))))))"

definition build_hurst :: "(string \<times> pyval) list \<Rightarrow> genome_error + Strategy" where
  "build_hurst params =
     andthen (need params ''lookback_1'' py_int) (\<lambda>l1. andthen (need params ''lookback_2'' py_int) (\<lambda>l2.
     andthen (need params ''lookback_3'' py_int) (\<lambda>l3. andthen (need params ''rebalance_bars'' py_int) (\<lambda>rebalance.
     andthen (need params ''vol_window'' py_int) (\<lambda>vol_window. andthen (need params ''vol_estimator'' (\<lambda>v. Inr (py_str v))) (\<lambda>estimator.
     andthen (py_float (get_or params ''risk_free_rate_annual'' (PyFloat 0))) (\<lambda>rf.
     andthen (py_int (get_or params ''signal_lag_bars'' (PyInt 0))) (\<lambda>lag.
     andthen (one_of VOL_ESTIMATOR_CHOICES estimator) (\<lambda>estimator.
       Inr (HurstTrendBlend \<lparr>hb_lookback_1 = l1, hb_lookback_2 = l2, hb_lookback_3 = l3, hb_rebalance_bars = rebalance,
         hb_vol_window = vol_window, hb_vol_estimator = estimator, hb_risk_free_rate_annual = rf, hb_signal_lag_bars = lag,
         hb_rebalance_on_every_bar = (lower_text (py_str (get_or params ''rebalance_on_every_bar'' (PyStr ''true''))) = ''true'')\<rparr>))))))))))"

definition build_pairs :: "(string \<times> pyval) list \<Rightarrow> genome_error + Strategy" where
  "build_pairs params =
     andthen (py_int (get_or params ''formation_bars'' (PyInt 252))) (\<lambda>formation.
     andthen (py_int (get_or params ''trading_bars'' (PyInt 126))) (\<lambda>trading.
     andthen (py_float (get_or params ''open_threshold_sd'' (PyFloat 2))) (\<lambda>threshold.
     andthen (py_int (get_or params ''vol_window'' (PyInt 63))) (\<lambda>vol_window.
     andthen (one_of VOL_ESTIMATOR_CHOICES (py_str (get_or params ''vol_estimator'' (PyStr ''close_to_close'')))) (\<lambda>_.
       Inr (GatevPairs \<lparr>gv_col_a = py_str (get_or params ''col_a'' (PyStr ''close_a'')), gv_col_b = py_str (get_or params ''col_b'' (PyStr ''close_b'')),
         gv_open_col_a = py_str (get_or params ''open_col_a'' (PyStr ''open_a'')), gv_open_col_b = py_str (get_or params ''open_col_b'' (PyStr ''open_b'')),
         gv_formation_bars = formation, gv_trading_bars = trading, gv_open_threshold_sd = threshold, gv_vol_window = vol_window\<rparr>))))))"

text \<open>An evolved strategy interprets a genome; its parameters are kept as they are given.\<close>

datatype BuiltStrategy = Builtin Strategy | Evolved "(string \<times> pyval) list"

definition build_named :: "string \<Rightarrow> (string \<times> pyval) list \<Rightarrow> genome_error + BuiltStrategy" where
  "build_named name params =
     (if name = ''CompositeStrategy'' then Inr (Evolved params)
      else case map_of [(''MACrossover'', build_ma_crossover), (''BollingerReversion'', build_bollinger_reversion),
          (''DonchianBreakout'', build_donchian_breakout), (''FMA'', build_fma), (''VMA'', build_vma), (''TRB'', build_trb),
          (''MACD'', build_macd), (''RSIMeanReversion'', build_rsi_mean_reversion), (''TSMOM'', build_tsmom),
          (''HurstTrendBlend'', build_hurst), (''GatevPairs'', build_pairs)] name of
        None \<Rightarrow> Inl (GenomeValueError ''Unknown strategy'')
      | Some build \<Rightarrow> map_sum id Builtin (build params))"

text \<open>
  The exit parameters as the rules read them, with \<^verbatim>\<open>float(params.get(name, default))\<close>: numbers and
  texts that denote one. A value \<^verbatim>\<open>float\<close> refuses, for which building the exit strategy raises, counts
  as absent.
\<close>

definition float_or_none :: "pyval \<Rightarrow> decimal option" where
  "float_or_none v = (case py_float v of Inr x \<Rightarrow> Some x | Inl _ \<Rightarrow> None)"

definition exit_params_of :: "(string \<times> pyval) list \<Rightarrow> exit_params" where
  "exit_params_of params = (\<lambda>name. Option.bind (map_of params name) float_or_none)"

text \<open>A strategy with its exit strategy.\<close>

record single_strategy =
  ss_strategy :: BuiltStrategy
  ss_symbol :: string
  ss_exit_strategy :: ExitStrategy

definition build_strategy :: "string \<Rightarrow> (string \<times> pyval) list \<Rightarrow> string \<Rightarrow> genome_error + single_strategy" where
  "build_strategy name params symbol =
     andthen (merge_strategy_params name params) (\<lambda>merged.
     andthen (build_named name merged) (\<lambda>strategy.
       Inr \<lparr>ss_strategy = strategy, ss_symbol = symbol, ss_exit_strategy = new_exit_strategy (exit_params_of merged)\<rparr>))"

section \<open>Combined entries\<close>

datatype Stance = ST_SHORT | ST_FLAT | ST_LONG

datatype SignalManager = OrManager | AndManager | MajorityManager int

fun combine :: "SignalManager \<Rightarrow> Stance list \<Rightarrow> Stance" where
  "combine OrManager stances =
     (let has_long = ST_LONG \<in> set stances; has_short = ST_SHORT \<in> set stances in
      if has_long \<and> \<not> has_short then ST_LONG else if has_short \<and> \<not> has_long then ST_SHORT else ST_FLAT)"
| "combine AndManager stances =
     (let non_flat = filter (\<lambda>s. s \<noteq> ST_FLAT) stances in
      if non_flat = [] then ST_FLAT
      else if list_all (\<lambda>s. s = ST_LONG) non_flat then ST_LONG
      else if list_all (\<lambda>s. s = ST_SHORT) non_flat then ST_SHORT else ST_FLAT)"
| "combine (MajorityManager vote_threshold) stances =
     (if stances = [] then ST_FLAT
      else let long_count = int (length (filter (\<lambda>s. s = ST_LONG) stances)); short_count = int (length (filter (\<lambda>s. s = ST_SHORT) stances)) in
        if long_count \<ge> vote_threshold \<and> long_count > short_count then ST_LONG
        else if short_count \<ge> vote_threshold \<and> short_count > long_count then ST_SHORT else ST_FLAT)"

definition get_manager :: "string \<Rightarrow> (string \<times> pyval) list \<Rightarrow> genome_error + SignalManager" where
  "get_manager kind params =
     (if kind = ''or'' then Inr OrManager else if kind = ''and'' then Inr AndManager
      else if kind = ''majority'' then map_sum id MajorityManager (py_int (get_or params ''vote_threshold'' (PyInt 2)))
      else Inl (GenomeValueError ''Unknown signal manager''))"

primrec stance_from :: "Stance \<Rightarrow> (bool \<times> bool) list \<Rightarrow> Stance list" where
  "stance_from current [] = []"
| "stance_from current (edge # edges) =
     (let next = (if fst edge then ST_LONG else if snd edge then ST_SHORT else current) in next # stance_from next edges)"

definition derive_stance :: "bool list \<Rightarrow> bool list \<Rightarrow> Stance list" where
  "derive_stance buy sell = stance_from ST_FLAT (zip buy sell)"

record CompositeEntryStrategy =
  ce_instances :: "(string \<times> BuiltStrategy) list"
  ce_manager :: SignalManager
  ce_symbol :: string
  ce_exit_strategy :: ExitStrategy

definition build_instance :: "string \<times> (string \<times> pyval) list \<Rightarrow> genome_error + (string \<times> BuiltStrategy)" where
  "build_instance = (\<lambda>(name, params). andthen (merge_strategy_params name params) (\<lambda>merged.
     map_sum id (Pair name) (build_named name merged)))"

definition build_composite_entry ::
    "(string \<times> (string \<times> pyval) list) list \<Rightarrow> string \<Rightarrow> (string \<times> pyval) list \<Rightarrow> (string \<times> pyval) list \<Rightarrow> string \<Rightarrow>
     genome_error + CompositeEntryStrategy" where
  "build_composite_entry entries manager_kind manager_params exit_params symbol =
     andthen (get_manager manager_kind manager_params) (\<lambda>manager.
     andthen (map_result build_instance entries) (\<lambda>instances.
       Inr \<lparr>ce_instances = instances, ce_manager = manager, ce_symbol = symbol,
            ce_exit_strategy = new_exit_strategy (exit_params_of exit_params)\<rparr>))"

text \<open>
  The net stance of the instances at every bar, and its edges. The edges of an instance are the
  signal columns of its frame, or its entries where it has no such columns. The columns of its
  chart are not copied.
\<close>

primrec column_flags :: "column \<Rightarrow> bool list" where
  "column_flags (BoolCol bs) = map (\<lambda>b. b = Some True) bs"
| "column_flags (NumCol xs) = map (\<lambda>x. x \<noteq> Fin 0 \<and> x \<noteq> NaN) xs"

definition edge_columns :: "(data_row \<Rightarrow> Signal list) \<Rightarrow> DataFrame \<Rightarrow> bool list \<times> bool list" where
  "edge_columns entries df = (case (df_columns df ''buy_signal'', df_columns df ''sell_signal'') of
     (Some buy, Some sell) \<Rightarrow> (column_flags buy, column_flags sell)
   | _ \<Rightarrow> let emits = (\<lambda>action. map (\<lambda>i. \<exists>s\<in>set (entries (row_at df i)). sg_action s = action) [0..<length (df_index df)])
         in (emits BT_BUY, emits BT_SELL))"

definition net_stances :: "SignalManager \<Rightarrow> nat \<Rightarrow> Stance list list \<Rightarrow> Stance list" where
  "net_stances manager len stances = map (\<lambda>i. if stances = [] then ST_FLAT else combine manager (map (\<lambda>s. s ! i) stances)) [0..<len]"

definition stance_number :: "Stance \<Rightarrow> flt" where
  "stance_number s = (case s of ST_SHORT \<Rightarrow> Fin (- 1) | ST_FLAT \<Rightarrow> Fin 0 | ST_LONG \<Rightarrow> Fin 1)"

definition net_edges :: "Stance \<Rightarrow> Stance list \<Rightarrow> bool list" where
  "net_edges stance net = map2 (\<lambda>s p. s = stance \<and> p \<noteq> stance) net (shift_by ST_FLAT 1 net)"

definition net_columns :: "SignalManager \<Rightarrow> nat \<Rightarrow> Stance list list \<Rightarrow> (string \<times> column) list" where
  "net_columns manager len stances =
     (let net = net_stances manager len stances;
          slots = map2 (\<lambda>i s. (''e'' @ int_str (int i) @ ''__stance'', NumCol (map stance_number s))) [0..<length stances] stances
      in slots @ [(''net_stance'', NumCol (map stance_number net)),
           (''net_long_signal'', flags (net_edges ST_LONG net)), (''net_short_signal'', flags (net_edges ST_SHORT net)),
           (''buy_signal'', flags (net_edges ST_LONG net)), (''sell_signal'', flags (net_edges ST_SHORT net))])"

definition composite_entry_indicators ::
    "(BuiltStrategy \<Rightarrow> data_row \<Rightarrow> Signal list) \<Rightarrow> (BuiltStrategy \<Rightarrow> DataFrame \<Rightarrow> 'e + DataFrame) \<Rightarrow>
     CompositeEntryStrategy \<Rightarrow> DataFrame \<Rightarrow> 'e + DataFrame" where
  "composite_entry_indicators entries compute self df =
     andthen (map_result (\<lambda>(_, sub). map_sum id (\<lambda>sub_df. case edge_columns (entries sub) sub_df of (buy, sell) \<Rightarrow> derive_stance buy sell)
         (compute sub df)) (ce_instances self)) (\<lambda>stances.
       Inr (with_columns (net_columns (ce_manager self) (length (df_index df)) stances) df))"

definition net_entries :: "string \<Rightarrow> data_row \<Rightarrow> Signal list" where
  "net_entries symbol row =
     (if row_flag row ''net_long_signal'' then [new_signal symbol BT_BUY]
      else if row_flag row ''net_short_signal'' then [new_signal symbol BT_SELL] else [])"

definition net_exits :: "string \<Rightarrow> data_row \<Rightarrow> Trade list \<Rightarrow> Signal list" where
  "net_exits symbol row open_trades =
     close_where symbol (\<lambda>trade. if tr_action trade = OA_BUY then num_or row ''net_stance'' (Fin 0) = Fin (- 1)
       else num_or row ''net_stance'' (Fin 0) = Fin 1) open_trades"

section \<open>Requests\<close>

record BacktestRequest =
  brq_engine :: string
  brq_symbol :: string
  brq_strategy :: string
  brq_strategy_params :: "(string \<times> pyval) list"
  brq_entries :: "(string \<times> (string \<times> pyval) list) list option"
  brq_entry_manager :: "string \<times> (string \<times> pyval) list"
  brq_exit_params :: "(string \<times> pyval) list"

definition normalize_entries ::
    "BacktestRequest \<Rightarrow> (string \<times> (string \<times> pyval) list) list \<times> (string \<times> (string \<times> pyval) list) \<times> (string \<times> pyval) list" where
  "normalize_entries request = (case brq_entries request of
     Some entries \<Rightarrow> (entries, brq_entry_manager request, brq_exit_params request)
   | None \<Rightarrow> let is_exit = (\<lambda>(key, _). key \<in> ps_name ` set all_param_specs) in
       ([(brq_strategy request, filter (\<lambda>p. \<not> is_exit p) (brq_strategy_params request))], (''or'', []),
        filter is_exit (brq_strategy_params request)))"

text \<open>The strategy of a backtest.\<close>

definition backtest_strategy :: "BacktestRequest \<Rightarrow> genome_error + CompositeEntryStrategy" where
  "backtest_strategy request = (let (entries, manager, exit_params) = normalize_entries request in
     build_composite_entry entries (fst manager) (snd manager) exit_params (brq_symbol request))"

text \<open>The strategy of a deployment.\<close>

datatype ForwardStrategy = ForwardEntries CompositeEntryStrategy | ForwardSingle single_strategy

definition build_strategy_from_compiled :: "BacktestRequest \<Rightarrow> string \<Rightarrow> genome_error + ForwardStrategy" where
  "build_strategy_from_compiled request symbol =
     (if brq_engine request = ''tick'' then Inl (GenomeValueError ''tick/sub-second strategies are outside forward execution scope'')
      else let (entries, manager, exit_params) = normalize_entries request in
        if brq_entries request \<noteq> None
        then map_sum id ForwardEntries (build_composite_entry entries (fst manager) (snd manager) exit_params symbol)
        else map_sum id ForwardSingle (build_strategy (brq_strategy request) (snd (hd entries)) symbol))"

fun forward_exit_strategy :: "ForwardStrategy \<Rightarrow> ExitStrategy" where
  "forward_exit_strategy (ForwardEntries s) = ce_exit_strategy s"
| "forward_exit_strategy (ForwardSingle s) = ss_exit_strategy s"

end
