(* ===== verification/Bt_Registry_Correct.thy ===== *)
theory Bt_Registry_Correct
  imports Bt_Registry
begin

text \<open>
  What the registry guarantees: every registered strategy is built from its defaults and looks
  ahead at nothing, also when strategies are combined; and what it does not: a deployment of a
  single strategy has none of the exit rules that its backtest had.
\<close>

section \<open>Merged parameters\<close>

lemma map_of_merged:
  assumes "map_result (merge_param params) specs = Inr merged" and "map_of params k = None"
  shows "map_of merged k = map_option ps_default (find (\<lambda>spec. ps_name spec = k) specs)"
  using assms
proof (induction specs arbitrary: merged)
  case (Cons spec specs)
  then obtain entry rest where "merge_param params spec = Inr entry" "map_result (merge_param params) specs = Inr rest"
    and merged: "merged = entry # rest" by (auto split: sum.splits)
  moreover have "fst entry = ps_name spec"
    using calculation(1) by (cases "map_of params (ps_name spec)"; cases "coerce_param_value spec (the (map_of params (ps_name spec)))")
      (auto simp: merge_param_def)
  moreover have "ps_name spec = k \<Longrightarrow> snd entry = ps_default spec" using calculation(1) Cons.prems(2) by (auto simp: merge_param_def)
  ultimately show ?case using Cons by (cases entry) auto
qed simp

text \<open>Every exit rule is off by default, and no strategy has a parameter of that name of its own.\<close>

lemma exit_rules_default_off:
  "list_all (\<lambda>(_, specs). specs = [] \<or> list_all (\<lambda>rule. Option.bind (map_option ps_default (find (\<lambda>spec. ps_name spec = enable_param rule) specs)) float_or_none = Some 0)
     EXIT_RULES) STRATEGY_REGISTRY"
  by code_simp

lemma enable_params_are_exit_params: "list_all (\<lambda>rule. enable_param rule \<in> ps_name ` set all_param_specs) EXIT_RULES"
  by code_simp

lemma merged_without_exit_params:
  assumes "merge_strategy_params name params = Inr merged" and "name \<noteq> ''CompositeStrategy''"
    and "\<forall>p\<in>set params. fst p \<notin> ps_name ` set all_param_specs"
  shows "enabled_rules (exit_params_of merged) = []"
proof -
  obtain specs where specs: "(name, specs) \<in> set STRATEGY_REGISTRY" "map_result (merge_param params) specs = Inr merged"
    using assms(1,2) by (auto simp: merge_strategy_params_def info_params_def split: option.splits dest: map_of_SomeD)
  have "\<not> is_enabled (exit_params_of merged) rule" if rule: "rule \<in> set EXIT_RULES" for rule
  proof -
    have "enable_param rule \<in> ps_name ` set all_param_specs" using enable_params_are_exit_params rule by (simp add: list_all_iff)
    then have "enable_param rule \<notin> fst ` set params" using assms(3) by auto
    then have none: "map_of params (enable_param rule) = None" by (simp add: map_of_eq_None_iff)
    have "exit_params_of merged (enable_param rule) = Some 0 \<or> exit_params_of merged (enable_param rule) = None"
      using exit_rules_default_off specs(1) rule map_of_merged [OF specs(2) none]
      by (fastforce simp: list_all_iff exit_params_of_def)
    then show ?thesis by (auto simp: is_enabled_def float_param_def int_param_def)
  qed
  then show ?thesis by (simp add: enabled_rules_def filter_empty_conv)
qed

section \<open>Combined entries\<close>

lemma with_columns_take [causal]:
  "with_columns (map (\<lambda>(c, col). (c, col_take n col)) cols) (take_frame n df) = take_frame n (with_columns cols df)"
  by (induction cols arbitrary: df) (auto simp: causal)

lemma column_flags_take [causal]: "column_flags (col_take n col) = take n (column_flags col)"
  by (cases col) (simp_all add: causal)

lemma edge_columns_take [causal]: "edge_columns e (take_frame n df) = map_prod (take n) (take n) (edge_columns e df)"
proof -
  have rows: "map (\<lambda>i. \<exists>s\<in>set (e (row_at (take_frame n df) i)). sg_action s = a) [0..<length (df_index (take_frame n df))] =
      take n (map (\<lambda>i. \<exists>s\<in>set (e (row_at df i)). sg_action s = a) [0..<length (df_index df)])" for a
    by (rule nth_equalityI) (auto simp: take_frame_index row_at_take)
  show ?thesis
    by (auto simp: edge_columns_def Let_def rows take_frame_columns column_flags_take split: option.splits)
qed

lemma stance_from_take: "stance_from s (take n es) = take n (stance_from s es)"
  by (induction es arbitrary: n s) (auto simp: take_Cons Let_def split: nat.splits)

lemma derive_stance_take [causal]: "derive_stance (take n b) (take n s) = take n (derive_stance b s)"
  by (simp add: derive_stance_def causal stance_from_take)

lemma net_stances_take [causal]:
  "net_stances m (min n len) (map (take n) stances) = take n (net_stances m len stances)"
  by (auto simp: net_stances_def take_map take_upt min_def o_def intro!: arg_cong2 [where f = combine])

lemma net_edges_take [causal]: "net_edges s (take n net) = take n (net_edges s net)"
  by (simp add: net_edges_def causal)

lemma net_columns_take:
  "net_columns m (min len n) (map (take n) stances) = map (\<lambda>(c, col). (c, col_take n col)) (net_columns m len stances)"
proof -
  have slots: "map2 (\<lambda>i s. (name i, NumCol (map stance_number s))) is (map (take n) ss) =
      map (\<lambda>(c, col). (c, col_take n col)) (map2 (\<lambda>i s. (name i, NumCol (map stance_number s))) is ss)"
    for name :: "nat \<Rightarrow> string" and "is" ss
    by (induction "is" ss rule: list_induct2') (simp_all add: causal)
  show ?thesis
    unfolding net_columns_def Let_def length_map slots
    using net_stances_take [of m n len stances] by (simp add: min.commute causal)
qed

lemma map_result_cut [causal]: "map_result (\<lambda>x. map_sum id g (f x)) xs = map_sum id (map g) (map_result f xs)"
  by (induction xs) (auto split: sum.splits)

lemma map_result_cong: "(\<And>x. x \<in> set xs \<Longrightarrow> f x = g x) \<Longrightarrow> map_result f xs = map_result g xs"
  by (induction xs) (auto cong: sum.case_cong)

lemma map_sum_map_sum: "map_sum id f (map_sum id g r) = map_sum id (\<lambda>x. f (g x)) r"
  by (cases r) simp_all

lemma composite_entry_take:
  assumes "\<And>name sub. (name, sub) \<in> set (ce_instances self) \<Longrightarrow> compute sub (take_frame n df) = cut_frame n (compute sub df)"
  shows "composite_entry_indicators e compute self (take_frame n df) = cut_frame n (composite_entry_indicators e compute self df)"
proof -
  let ?stance = "\<lambda>sub sub_df. case edge_columns (e sub) sub_df of (buy, sell) \<Rightarrow> derive_stance buy sell"
  have sub: "map_result (\<lambda>(_, sub). map_sum id (?stance sub) (compute sub (take_frame n df))) (ce_instances self) =
      map_sum id (map (take n)) (map_result (\<lambda>(_, sub). map_sum id (?stance sub) (compute sub df)) (ce_instances self))"
  proof -
    have cut_stance: "?stance sub (take_frame n d) = take n (?stance sub d)" for sub d
      by (cases "edge_columns (e sub) d") (simp add: causal)
    have "map_result (\<lambda>(_, sub). map_sum id (?stance sub) (compute sub (take_frame n df))) (ce_instances self) =
        map_result (\<lambda>p. map_sum id (take n) (map_sum id (?stance (snd p)) (compute (snd p) df))) (ce_instances self)"
      by (rule map_result_cong) (auto simp: assms map_sum_map_sum cut_stance)
    then show ?thesis by (simp add: map_result_cut case_prod_unfold)
  qed
  show ?thesis
    unfolding composite_entry_indicators_def sub andthen_map_sum map_sum_andthen take_frame_index length_take net_columns_take
    by (simp add: with_columns_take)
qed

text \<open>The combined strategy as a provider of causal indicators.\<close>

locale causal_entries =
  fixes entries :: "BuiltStrategy \<Rightarrow> data_row \<Rightarrow> Signal list"
    and compute :: "BuiltStrategy \<Rightarrow> DataFrame \<Rightarrow> 'e + DataFrame" and self :: CompositeEntryStrategy
  assumes instance_take: "(name, sub) \<in> set (ce_instances self) \<Longrightarrow> compute sub (take_frame n df) = cut_frame n (compute sub df)"

sublocale causal_entries \<subseteq> causal_indicators "composite_entry_indicators entries compute self"
  by unfold_locales (rule composite_entry_take, rule instance_take)

definition ex_entries :: CompositeEntryStrategy where
  "ex_entries = \<lparr>ce_instances = [(''MACrossover'', Builtin (MACrossover 10 50 0 ''sma'' ''sma'')), (''DonchianBreakout'', Builtin (DonchianBreakout 20))],
     ce_manager = AndManager, ce_symbol = ''WIN'', ce_exit_strategy = new_exit_strategy Map.empty\<rparr>"

fun builtin_indicators :: "numerics \<Rightarrow> BuiltStrategy \<Rightarrow> DataFrame \<Rightarrow> series_error + DataFrame" where
  "builtin_indicators np (Builtin s) df = compute_indicators np s df"
| "builtin_indicators np (Evolved _) df = Inl SeriesTypeError"

interpretation combined: causal_entries e "builtin_indicators np" ex_entries for e np
  by unfold_locales (auto simp: ex_entries_def compute_indicators_take simp del: compute_indicators.simps)

section \<open>Defaults\<close>

text \<open>Every registered strategy is built from its defaults, and none of them looks ahead.\<close>

lemma registered_defaults_build:
  "list_all (\<lambda>(name, _). case andthen (merge_strategy_params name []) (build_named name) of
      Inr (Builtin strategy) \<Rightarrow> lags_ok strategy | Inr (Evolved params) \<Rightarrow> name = ''CompositeStrategy'' | Inl _ \<Rightarrow> False) STRATEGY_REGISTRY"
  by code_simp

section \<open>Exit rules of a deployment\<close>

lemma map_of_filter_keys:
  "P k \<Longrightarrow> map_of (filter (\<lambda>(key, _). P key) params) k = map_of params k"
  by (induction params) auto

lemma is_enabled_cong: "params (enable_param rule) = params' (enable_param rule) \<Longrightarrow> is_enabled params rule = is_enabled params' rule"
  by (simp add: is_enabled_def float_param_def int_param_def)

lemma enabled_rules_of_exit_params:
  "enabled_rules (exit_params_of (filter (\<lambda>(key, _). key \<in> ps_name ` set all_param_specs) params)) = enabled_rules (exit_params_of params)"
proof -
  have "exit_params_of (filter (\<lambda>(key, _). key \<in> ps_name ` set all_param_specs) params) (enable_param rule) = exit_params_of params (enable_param rule)"
    if "rule \<in> set EXIT_RULES" for rule
    using enable_params_are_exit_params that
    by (simp add: exit_params_of_def list_all_iff map_of_filter_keys [where P = "\<lambda>key. key \<in> ps_name ` set all_param_specs"])
  then show ?thesis unfolding enabled_rules_def by (intro filter_cong is_enabled_cong) simp_all
qed

lemma no_rules_no_exits: "es_rules es = [] \<Longrightarrow> fst (check_trades trades row es) = []"
  by (induction trades arbitrary: es) (auto simp: split_beta Let_def)

text \<open>
  C6. The exit rules of a single-strategy request are lost in forward execution. The backtest of
  such a request runs every exit rule its parameters enable; the strategy built from the same
  request for a deployment has none, so its exit strategy never closes a trade.
\<close>

theorem deployed_strategy_has_no_exit_rules:
  assumes "brq_entries request = None" and "brq_strategy request \<noteq> ''CompositeStrategy''"
    and "build_strategy_from_compiled request symbol = Inr forward" and "backtest_strategy request = Inr backtest"
  shows "es_rules (ce_exit_strategy backtest) = enabled_rules (exit_params_of (brq_strategy_params request)) \<and>
    es_rules (forward_exit_strategy forward) = [] \<and> fst (check_exits trades row (forward_exit_strategy forward)) = []"
proof -
  let ?is_exit = "\<lambda>(key :: string, _ :: pyval). key \<in> ps_name ` set all_param_specs"
  let ?own = "filter (\<lambda>p. \<not> ?is_exit p) (brq_strategy_params request)"
  obtain merged strategy where merged: "merge_strategy_params (brq_strategy request) ?own = Inr merged"
    and forward: "forward = ForwardSingle \<lparr>ss_strategy = strategy, ss_symbol = symbol, ss_exit_strategy = new_exit_strategy (exit_params_of merged)\<rparr>"
    using assms(1,3) by (auto simp: build_strategy_from_compiled_def normalize_entries_def build_strategy_def Let_def andthen_def
        split: if_splits sum.splits)
  have "enabled_rules (exit_params_of merged) = []" using merged_without_exit_params [OF merged assms(2)] by auto
  then have none: "es_rules (forward_exit_strategy forward) = []" using forward by (simp add: new_exit_strategy_def)
  then have "fst (check_exits trades row (forward_exit_strategy forward)) = []"
    by (simp add: check_exits_def no_rules_no_exits prune_stale_state_def)
  moreover have "es_rules (ce_exit_strategy backtest) = enabled_rules (exit_params_of (brq_strategy_params request))"
    using assms(1,4) enabled_rules_of_exit_params [of "brq_strategy_params request"]
    by (auto simp: backtest_strategy_def normalize_entries_def build_composite_entry_def Let_def andthen_def new_exit_strategy_def
        split: sum.splits)
  ultimately show ?thesis using none by blast
qed

definition ex_request :: BacktestRequest where
  "ex_request = \<lparr>brq_engine = ''candle'', brq_symbol = ''WIN'', brq_strategy = ''MACrossover'',
     brq_strategy_params = [(''short_period'', PyInt 10), (''stop_loss_pct'', PyFloat (1 / 50))], brq_entries = None,
     brq_entry_manager = (''or'', []), brq_exit_params = []\<rparr>"

theorem deployed_strategy_has_no_exit_rules_witness:
  "\<exists>forward backtest. build_strategy_from_compiled ex_request ''WIN'' = Inr forward \<and> backtest_strategy ex_request = Inr backtest \<and>
    es_rules (ce_exit_strategy backtest) = [FixedStopLossRule] \<and> es_rules (forward_exit_strategy forward) = []"
proof -
  have "\<not> isl (build_strategy_from_compiled ex_request ''WIN'')" and "\<not> isl (backtest_strategy ex_request)" by code_simp+
  then obtain forward backtest where built: "build_strategy_from_compiled ex_request ''WIN'' = Inr forward" "backtest_strategy ex_request = Inr backtest"
    by (metis isl_def sum.exhaust)
  have "enabled_rules (exit_params_of (brq_strategy_params ex_request)) = [FixedStopLossRule]" by code_simp
  moreover have "brq_entries ex_request = None" "brq_strategy ex_request \<noteq> ''CompositeStrategy''" by (simp_all add: ex_request_def)
  ultimately show ?thesis using deployed_strategy_has_no_exit_rules [OF _ _ built] built by metis
qed

end
