(* ===== verification/Bt_Pairs_Correct.thy ===== *)
theory Bt_Pairs_Correct
  imports Bt_Pairs
begin

text \<open>
  Ranges of the indicators, and the life of a position of the pairs strategy: one that is opened
  before the last bar of a cycle is closed by the end of that cycle, and one that is opened at the
  last bar is forgotten.
\<close>

section \<open>The relative strength index\<close>

definition nonneg_or_missing :: "flt \<Rightarrow> bool" where
  "nonneg_or_missing x = (case x of Fin v \<Rightarrow> 0 \<le> v | _ \<Rightarrow> True)"

definition ewm_nonneg :: "ewm_state \<Rightarrow> bool" where
  "ewm_nonneg st = (case st of (m, weight, _) \<Rightarrow> 0 \<le> weight \<and> (case m of None \<Rightarrow> True | Some v \<Rightarrow> 0 \<le> v))"

lemma ewm_step_nonneg:
  assumes "0 < alpha" "alpha \<le> 1" "ewm_nonneg st" "nonneg_or_missing x"
  shows "ewm_nonneg (ewm_step alpha st x)"
  using assms by (cases "(alpha, st, x)" rule: ewm_step.cases) (auto simp: ewm_nonneg_def nonneg_or_missing_def Let_def)

lemma ewm_from_nonneg:
  assumes "0 < alpha" "alpha \<le> 1" "ewm_nonneg st" "list_all nonneg_or_missing xs"
  shows "\<forall>y\<in>set (ewm_from alpha mp st xs). y = NaN \<or> (\<exists>v\<ge>0. y = Fin v)"
  using assms
proof (induction xs arbitrary: st)
  case (Cons x xs)
  then have st: "ewm_nonneg (ewm_step alpha st x)" by (simp add: ewm_step_nonneg)
  then have "ewm_value mp (ewm_step alpha st x) = NaN \<or> (\<exists>v\<ge>0. ewm_value mp (ewm_step alpha st x) = Fin v)"
    by (auto simp: ewm_nonneg_def ewm_value_def split: prod.splits option.splits)
  then show ?case using Cons st by (simp add: Let_def)
qed simp

lemma ewm_wilder_nonneg:
  assumes "ewm_wilder period xs = Inr ys" "list_all nonneg_or_missing xs" "y \<in> set ys"
  shows "y = NaN \<or> (\<exists>v\<ge>0. y = Fin v)"
  using assms ewm_from_nonneg [of "1 / of_int period" "(None, 1, 0)" xs "nat period"]
  by (auto simp: ewm_wilder_def ewm_mean_def ewm_nonneg_def split: if_splits)

lemma clip_nonneg: "nonneg_or_missing (flt_clip_lower (Fin 0) x)"
  by (cases x) (auto simp: flt_clip_lower_def nonneg_or_missing_def)

lemma rsi_of_averages:
  assumes "g = NaN \<or> (\<exists>v\<ge>0. g = Fin v)" and "l = NaN \<or> (\<exists>v\<ge>0. l = Fin v)"
  shows "let r = fsub (Fin 100) (fdiv (Fin 100) (fadd (Fin 1) (fdiv g l))) in r = NaN \<or> (\<exists>v. r = Fin v \<and> 0 \<le> v \<and> v \<le> 100)"
proof (cases "\<exists>a b. g = Fin a \<and> l = Fin b")
  case True
  then obtain a b where ab: "g = Fin a" "l = Fin b" "0 \<le> a" "0 \<le> b" using assms by auto
  show ?thesis
  proof (cases "b = 0")
    case True
    then show ?thesis using ab by (cases "a = 0") (simp_all add: fsub_def flt_inf_def Let_def)
  next
    case False
    then have "0 \<le> a / b" using ab by simp
    then have "0 < 1 + a / b" "100 / (1 + a / b) \<le> 100" "0 \<le> 100 / (1 + a / b)" by (simp_all add: divide_le_eq)
    then show ?thesis using ab False by (simp add: fsub_def Let_def)
  qed
next
  case False
  then show ?thesis using assms by (cases g; cases l) (auto simp: fsub_def Let_def)
qed

text \<open>A relative strength index is missing or between 0 and 100.\<close>

lemma rsi_in_range:
  assumes "compute_rsi close period = Inr rsi" and "x \<in> set rsi"
  shows "x = NaN \<or> (\<exists>v. x = Fin v \<and> 0 \<le> v \<and> v \<le> 100)"
proof -
  let ?delta = "ssub close (shift 1 close)"
  obtain g l where avg: "ewm_wilder period (map (flt_clip_lower (Fin 0)) ?delta) = Inr g"
      "ewm_wilder period (map (flt_clip_lower (Fin 0)) (map fneg ?delta)) = Inr l"
    and rsi: "rsi = map (\<lambda>r. fsub (Fin 100) (fdiv (Fin 100) (fadd (Fin 1) r))) (sdiv g l)"
    using assms(1) by (auto simp: compute_rsi_def Let_def andthen_def simp del: map_map split: sum.splits)
  from assms(2) rsi obtain a b where "(a, b) \<in> set (zip g l)" and x: "x = fsub (Fin 100) (fdiv (Fin 100) (fadd (Fin 1) (fdiv a b)))" by auto
  then have "a \<in> set g" "b \<in> set l" by (auto dest: set_zip_leftD set_zip_rightD)
  then have "a = NaN \<or> (\<exists>v\<ge>0. a = Fin v)" "b = NaN \<or> (\<exists>v\<ge>0. b = Fin v)"
    using ewm_wilder_nonneg [OF avg(1)] ewm_wilder_nonneg [OF avg(2)] by (auto simp: list_all_iff clip_nonneg)
  from rsi_of_averages [OF this] x show ?thesis by (simp add: Let_def)
qed

section \<open>Positions of the pairs strategy\<close>

lemma next_bar_of_cycle: "0 < L \<Longrightarrow> int i mod L < L - 1 \<Longrightarrow> int (Suc i) mod L = int i mod L + 1"
proof -
  assume "0 < L" "int i mod L < L - 1"
  have "int (Suc i) mod L = (1 + int i mod L) mod L" by (simp add: mod_add_right_eq)
  also have "\<dots> = 1 + int i mod L" using \<open>0 < L\<close> \<open>int i mod L < L - 1\<close> by (intro mod_pos_pos_trivial) auto
  finally show ?thesis by simp
qed

lemma held_position_step:
  assumes "1 \<le> f" and "1 \<le> t" and "f \<le> int i mod (f + t)" and "gp_position st \<noteq> 0"
    and "pairs_step np f t d i p st = (out, st')"
  shows "gf_exit out \<or> gp_position st' \<noteq> 0 \<and> \<not> gf_buy out \<and> \<not> gf_sell out \<and> int i mod (f + t) \<noteq> f + t - 1"
  using assms by (auto simp: pairs_step_def trade_spread_def Let_def split: if_splits prod.splits)

lemma held_position_exits:
  assumes "1 \<le> f" and "1 \<le> t" and "f \<le> int i mod (f + t)" and "gp_position st \<noteq> 0"
    and "int i mod (f + t) + int r = f + t - 1" and "r < length ps"
  shows "\<exists>j\<le>r. gf_exit (pairs_run np f t d i ps st ! j) \<and>
    (\<forall>k<j. \<not> gf_buy (pairs_run np f t d i ps st ! k) \<and> \<not> gf_sell (pairs_run np f t d i ps st ! k))"
  using assms
proof (induction r arbitrary: i ps st)
  case (0 i ps st)
  then obtain p rest where ps: "ps = p # rest" by (cases ps) auto
  obtain out st' where step: "pairs_step np f t d i p st = (out, st')" by fastforce
  have "gf_exit out" using held_position_step [OF 0(1-4) step] 0(5) by auto
  then show ?case using ps step by auto
next
  case (Suc r i ps st)
  then obtain p rest where ps: "ps = p # rest" by (cases ps) auto
  obtain out st' where step: "pairs_step np f t d i p st = (out, st')" by fastforce
  have next_bar: "int (Suc i) mod (f + t) = int i mod (f + t) + 1" using Suc.prems by (intro next_bar_of_cycle) auto
  consider "gf_exit out" | "gp_position st' \<noteq> 0" "\<not> gf_buy out" "\<not> gf_sell out"
    using held_position_step [OF Suc.prems(1-4) step] by blast
  then show ?case
  proof cases
    case 1
    then show ?thesis using ps step by (intro exI [of _ 0]) simp
  next
    case 2
    obtain j where j: "j \<le> r" "gf_exit (pairs_run np f t d (Suc i) rest st' ! j)"
        "\<forall>k<j. \<not> gf_buy (pairs_run np f t d (Suc i) rest st' ! k) \<and> \<not> gf_sell (pairs_run np f t d (Suc i) rest st' ! k)"
      using Suc.IH [of "Suc i" st' rest] Suc.prems 2(1) next_bar ps by auto
    then show ?thesis using 2 ps step
      by (intro exI [of _ "Suc j"]) (auto simp: less_Suc_eq_0_disj)
  qed
qed

lemma pairs_run_suffix:
  assumes "j < length ps"
  shows "\<exists>st'. drop j (pairs_run np f t d i ps st) = pairs_run np f t d (i + j) (drop j ps) st'"
  using assms
proof (induction ps arbitrary: i j st)
  case (Cons p ps)
  show ?case
  proof (cases j)
    case (Suc m)
    then show ?thesis using Cons.IH [of m "Suc i" "snd (pairs_step np f t d i p st)"] Cons.prems
      by (simp add: Let_def split_beta)
  qed auto
qed simp

lemma length_pairs_run: "length (pairs_run np f t d i ps st) = length ps"
  by (induction ps arbitrary: i st) (auto simp: Let_def split_beta)

text \<open>
  A position opened at a bar that is not the last of its cycle is closed by an exit signal later
  in the cycle, with no other entry in between, if the data reach the end of the cycle.
\<close>

lemma pairs_position_closes_in_cycle:
  fixes np f t d ps
  defines "out \<equiv> pairs_run np f t d 0 ps pairs_start"
  assumes "1 \<le> f" and "1 \<le> t" and "j < length ps" and "gf_buy (out ! j) \<or> gf_sell (out ! j)"
    and "int j mod (f + t) + int (Suc r) = f + t - 1" and "Suc (j + r) < length ps"
  shows "\<exists>m. j < m \<and> m \<le> Suc (j + r) \<and> gf_exit (out ! m) \<and> (\<forall>k. j < k \<and> k < m \<longrightarrow> \<not> gf_buy (out ! k) \<and> \<not> gf_sell (out ! k))"
proof -
  obtain st where st: "drop j out = pairs_run np f t d j (drop j ps) st"
    using pairs_run_suffix [OF assms(4), of np f t d 0 pairs_start] by (auto simp: out_def)
  have drop: "drop j ps = ps ! j # drop (Suc j) ps" using assms(4) by (simp add: Cons_nth_drop_Suc)
  obtain o' st' where step: "pairs_step np f t d j (ps ! j) st = (o', st')" by fastforce
  have nth: "out ! (j + k) = pairs_run np f t d j (drop j ps) st ! k" if "j + k < length ps" for k
    using that st [symmetric] by (simp add: out_def length_pairs_run)
  have "out ! j = o'" using nth [of 0] assms(4) drop step by simp
  then have entry: "gf_buy o' \<or> gf_sell o'" using assms(5) by simp
  have trading: "f \<le> int j mod (f + t)" and held: "gp_position st' \<noteq> 0"
    using entry step by (auto simp: pairs_step_def trade_spread_def Let_def split: if_splits prod.splits)
  have next_bar: "int (Suc j) mod (f + t) = int j mod (f + t) + 1" using assms(2,3,6) by (intro next_bar_of_cycle) auto
  have len: "r < length (drop (Suc j) ps)" using assms(7) by simp
  obtain k where k: "k \<le> r" "gf_exit (pairs_run np f t d (Suc j) (drop (Suc j) ps) st' ! k)"
      "\<forall>l<k. \<not> gf_buy (pairs_run np f t d (Suc j) (drop (Suc j) ps) st' ! l) \<and> \<not> gf_sell (pairs_run np f t d (Suc j) (drop (Suc j) ps) st' ! l)"
    using held_position_exits [OF assms(2,3) _ held, of "Suc j" r "drop (Suc j) ps" np d] trading next_bar assms(6) len by auto
  have later: "out ! (Suc (j + l)) = pairs_run np f t d (Suc j) (drop (Suc j) ps) st' ! l" if "Suc (j + l) < length ps" for l
    using nth [of "Suc l"] that drop step by simp
  show ?thesis
  proof (intro exI [of _ "Suc (j + k)"] conjI allI impI)
    show "gf_exit (out ! Suc (j + k))" using later [of k] k assms(7) by simp
    fix q assume q: "j < q \<and> q < Suc (j + k)"
    then obtain l where "q = Suc (j + l)" "l < k" by (metis add_Suc_right less_imp_Suc_add nat_add_left_cancel_less not_less_eq)
    then show "\<not> gf_buy (out ! q)" "\<not> gf_sell (out ! q)" using later [of l] k assms(7) by auto
  qed (use k in auto)
qed

text \<open>
  A position opened at the last bar of a cycle is not: the next bar starts a new cycle without a
  position, and no exit signal comes before another entry.
\<close>

lemma flat_step:
  assumes "1 \<le> f" and "gp_position st = 0 \<or> int i mod (f + t) = 0" and "pairs_step np f t d i p st = (out, st')"
  shows "\<not> gf_exit out \<and> (gf_buy out \<or> gf_sell out \<or> gp_position st' = 0)"
  using assms by (auto simp: pairs_step_def trade_spread_def Let_def split: if_splits prod.splits)

lemma flat_exits_follow_entries:
  assumes "1 \<le> f" and "gp_position st = 0 \<or> int i mod (f + t) = 0" and "m < length ps" and "gf_exit (pairs_run np f t d i ps st ! m)"
  shows "\<exists>k<m. gf_buy (pairs_run np f t d i ps st ! k) \<or> gf_sell (pairs_run np f t d i ps st ! k)"
  using assms
proof (induction ps arbitrary: i m st)
  case (Cons p ps)
  obtain out st' where step: "pairs_step np f t d i p st = (out, st')" by fastforce
  note flat = flat_step [OF Cons.prems(1,2) step]
  show ?case
  proof (cases "gf_buy out \<or> gf_sell out")
    case True
    then show ?thesis using Cons.prems(4) flat step by (cases m) (auto intro!: exI [of _ 0])
  next
    case False
    then obtain l where l: "m = Suc l" using Cons.prems(4) flat step by (cases m) auto
    then obtain k where "k < l" "gf_buy (pairs_run np f t d (Suc i) ps st' ! k) \<or> gf_sell (pairs_run np f t d (Suc i) ps st' ! k)"
      using Cons.IH [of st' "Suc i" l] Cons.prems False flat step by auto
    then show ?thesis using l step by (intro exI [of _ "Suc k"]) simp
  qed
qed simp

lemma pairs_position_opened_last_is_dropped:
  fixes np f t d ps
  defines "out \<equiv> pairs_run np f t d 0 ps pairs_start"
  assumes "1 \<le> f" and "0 < f + t" and "int j mod (f + t) = f + t - 1" and "j < m" and "m < length ps" and "gf_exit (out ! m)"
  shows "\<exists>k. j < k \<and> k < m \<and> (gf_buy (out ! k) \<or> gf_sell (out ! k))"
proof -
  obtain st where st: "drop (Suc j) out = pairs_run np f t d (Suc j) (drop (Suc j) ps) st"
    using pairs_run_suffix [of "Suc j" ps np f t d 0 pairs_start] assms(5,6) by (auto simp: out_def)
  have nth: "out ! (Suc j + k) = pairs_run np f t d (Suc j) (drop (Suc j) ps) st ! k" if "Suc j + k < length ps" for k
    using that st [symmetric] by (simp add: out_def length_pairs_run)
  have "int (Suc j) mod (f + t) = (1 + int j mod (f + t)) mod (f + t)" by (simp add: mod_add_right_eq)
  then have start: "int (Suc j) mod (f + t) = 0" using assms(4) by simp
  obtain l where l: "m = Suc j + l" using assms(5) by (metis less_iff_Suc_add add_Suc add_Suc_right)
  have len: "l < length (drop (Suc j) ps)" using assms(6) l by simp
  obtain k where "k < l" "gf_buy (out ! (Suc j + k)) \<or> gf_sell (out ! (Suc j + k))"
    using flat_exits_follow_entries [OF assms(2), of st "Suc j" t l "drop (Suc j) ps" np d] start nth assms(6,7) l len by auto
  then show ?thesis using l by (intro exI [of _ "Suc j + k"]) auto
qed

end
