(* ===== verification/Bt_Session.thy ===== *)
theory Bt_Session
  imports Genome Bt_Strategies Bt_Engine
begin

text \<open>
  Session context, \<^verbatim>\<open>backtesting/session_context/compute.py\<close> and \<^verbatim>\<open>frame.py\<close>: features of the time of
  day, of the previous session and of completed days. A session is a calendar date. Times are
  those of the index, in microseconds since 1970; the mark that a frame has been prepared, which a
  copy of the frame keeps, is not modelled apart from the columns that tell the same.
\<close>

section \<open>Time of day and calendar\<close>

definition minutes_of_day :: "datetime \<Rightarrow> int" where
  "minutes_of_day t = time_of t div 60000000"

definition hhmm :: "string \<Rightarrow> series_error + int" where
  "hhmm v = (case hhmm_to_minutes v of None \<Rightarrow> Inl (SeriesValueError ''Expected HH:MM session time'') | Some m \<Rightarrow> Inr m)"

definition minutes_after :: "int \<Rightarrow> datetime \<Rightarrow> flt" where
  "minutes_after open_minutes t = (if minutes_of_day t < open_minutes then NaN else Fin (of_int (minutes_of_day t - open_minutes)))"

definition compute_minutes_from_open :: "datetime list \<Rightarrow> string \<Rightarrow> series_error + series" where
  "compute_minutes_from_open index session_open = andthen (hhmm session_open) (\<lambda>open_minutes. Inr (map (minutes_after open_minutes) index))"

definition compute_time_of_day :: "datetime list \<Rightarrow> string \<Rightarrow> string \<Rightarrow> series_error + series" where
  "compute_time_of_day index session_open session_close =
     andthen (hhmm session_open) (\<lambda>open_minutes. andthen (hhmm session_close) (\<lambda>close_minutes.
       if close_minutes \<le> open_minutes then Inl (SeriesValueError ''session_close must be after session_open.'')
       else Inr (map (\<lambda>t. Fin (of_int (min close_minutes (max open_minutes (minutes_of_day t)) - open_minutes) /
              of_int (close_minutes - open_minutes))) index)))"

text \<open>Monday is zero; day zero was a Thursday.\<close>

definition compute_day_of_week :: "datetime list \<Rightarrow> series" where
  "compute_day_of_week index = map (\<lambda>t. Fin (of_int ((date_of t + 3) mod 7))) index"

text \<open>The month of a day of the Gregorian calendar, counted in years that begin in March.\<close>

definition month_of :: "int \<Rightarrow> int" where
  "month_of day =
     (let z = day + 719468; doe = z mod 146097;
          yoe = (doe - doe div 1460 + doe div 36524 - doe div 146096) div 365;
          doy = doe - (365 * yoe + yoe div 4 - yoe div 100); mp = (5 * doy + 2) div 153
      in if mp < 10 then mp + 3 else mp - 9)"

definition compute_month_of_year :: "datetime list \<Rightarrow> series" where
  "compute_month_of_year index = map (\<lambda>t. Fin (of_int (month_of (date_of t)))) index"

definition compute_session_window :: "datetime list \<Rightarrow> string \<Rightarrow> string \<Rightarrow> series_error + bool list" where
  "compute_session_window index window_from window_to =
     andthen (hhmm window_from) (\<lambda>start. andthen (hhmm window_to) (\<lambda>stop.
       if stop \<le> start then Inl (SeriesValueError ''window_from must be before window_to.'')
       else Inr (map (\<lambda>t. start \<le> minutes_of_day t \<and> minutes_of_day t \<le> stop) index)))"

section \<open>Sessions\<close>

text \<open>Aggregates of a group, which skip missing values.\<close>

definition present :: "series \<Rightarrow> series" where
  "present xs = filter (\<lambda>x. x \<noteq> NaN) xs"

definition group_first :: "series \<Rightarrow> flt" where
  "group_first xs = (case present xs of [] \<Rightarrow> NaN | x # _ \<Rightarrow> x)"

definition group_last :: "series \<Rightarrow> flt" where
  "group_last xs = (case present xs of [] \<Rightarrow> NaN | ys \<Rightarrow> last ys)"

definition group_max :: "series \<Rightarrow> flt" where
  "group_max xs = (case present xs of [] \<Rightarrow> NaN | y # ys \<Rightarrow> fold (\<lambda>x m. if flt_less m x then x else m) ys y)"

definition group_min :: "series \<Rightarrow> flt" where
  "group_min xs = (case present xs of [] \<Rightarrow> NaN | y # ys \<Rightarrow> fold (\<lambda>x m. if flt_less x m then x else m) ys y)"

definition of_session :: "int list \<Rightarrow> series \<Rightarrow> int \<Rightarrow> series" where
  "of_session dates xs d = map snd (filter (\<lambda>(e, _). e = d) (zip dates xs))"

definition sessions :: "int list \<Rightarrow> int list" where
  "sessions dates = sort (remdups dates)"

definition daily :: "(series \<Rightarrow> flt) \<Rightarrow> int list \<Rightarrow> series \<Rightarrow> series" where
  "daily agg dates xs = map (\<lambda>d. agg (of_session dates xs d)) (sessions dates)"

text \<open>The value of its session for every bar.\<close>

definition map_sessions :: "int list \<Rightarrow> series \<Rightarrow> series" where
  "map_sessions dates values = map (\<lambda>d. case map_of (zip (sessions dates) values) d of None \<Rightarrow> NaN | Some v \<Rightarrow> v) dates"

definition map_previous_session_values :: "(series \<Rightarrow> flt) \<Rightarrow> int list \<Rightarrow> series \<Rightarrow> series" where
  "map_previous_session_values agg dates xs = map_sessions dates (shift 1 (daily agg dates xs))"

definition compute_session_gap :: "int list \<Rightarrow> series \<Rightarrow> series \<Rightarrow> series" where
  "compute_session_gap dates open' close =
     map_sessions dates (map (\<lambda>x. fsub x (Fin 1)) (sdiv (daily group_first dates open') (shift 1 (daily group_last dates close))))"

definition compute_d1_trend :: "series \<Rightarrow> int \<Rightarrow> series" where
  "compute_d1_trend closes lookback = map fsign (past_return lookback closes)"

section \<open>The context columns\<close>

record SessionContextConfig =
  sc_d1_trend_lookback :: int
  sc_d1_vol_window :: int

definition default_b3 :: SessionContextConfig where
  "default_b3 = \<lparr>sc_d1_trend_lookback = 5, sc_d1_vol_window = 21\<rparr>"

definition RUN_CONTEXT_COLUMNS :: "string list" where
  "RUN_CONTEXT_COLUMNS = [''_ctx_prev_session_high'', ''_ctx_prev_session_low'', ''_ctx_prev_session_close'', ''_ctx_session_gap'',
     ''_ctx_d1_prev_high'', ''_ctx_d1_prev_low'', ''_ctx_d1_prev_close'', ''_ctx_d1_trend'', ''_ctx_d1_volatility'']"

definition compute_session_context_bundle ::
    "numerics \<Rightarrow> SessionContextConfig \<Rightarrow> datetime list \<Rightarrow> series \<Rightarrow> series \<Rightarrow> series \<Rightarrow> series \<Rightarrow> series_error + (string \<times> column) list" where
  "compute_session_context_bundle np config index open' high low close =
     (let dates = map date_of index; closes = daily group_last dates close in
      andthen (compute_realized_vol np closes (sc_d1_vol_window config)) (\<lambda>d1_vol.
        Inr (zip RUN_CONTEXT_COLUMNS (map NumCol
          [map_previous_session_values group_max dates high, map_previous_session_values group_min dates low,
           map_previous_session_values group_last dates close, compute_session_gap dates open' close,
           map_previous_session_values group_max dates high, map_previous_session_values group_min dates low,
           map_previous_session_values group_last dates close,
           map_sessions dates (shift 1 (compute_d1_trend closes (sc_d1_trend_lookback config))),
           map_sessions dates (shift 1 d1_vol)]))))"

text \<open>Missing price columns are filled in from the close.\<close>

definition flt_min_skip :: "flt \<Rightarrow> flt \<Rightarrow> flt" where
  "flt_min_skip x y = (if x = NaN then y else if flt_less y x then y else x)"

definition coerce_ohlcv_columns :: "DataFrame \<Rightarrow> series_error + (series \<times> series \<times> series \<times> series)" where
  "coerce_ohlcv_columns df =
     (if \<not> has_column ''close'' df then Inl (SeriesValueError ''Session context requires a close column.'')
      else andthen (get_num ''close'' df) (\<lambda>close.
        andthen (if has_column ''open'' df then get_num ''open'' df else Inr close) (\<lambda>open'.
        andthen (if has_column ''high'' df then get_num ''high'' df else Inr (map2 flt_max open' close)) (\<lambda>high.
        andthen (if has_column ''low'' df then get_num ''low'' df else Inr (map2 flt_min_skip open' close)) (\<lambda>low.
          Inr (open', high, low, close))))))"

definition prepare_evaluation_frame :: "numerics \<Rightarrow> SessionContextConfig \<Rightarrow> DataFrame \<Rightarrow> series_error + DataFrame" where
  "prepare_evaluation_frame np config df =
     (if list_all (\<lambda>c. has_column c df) RUN_CONTEXT_COLUMNS then Inr df
      else andthen (coerce_ohlcv_columns df) (\<lambda>(open', high, low, close).
        andthen (compute_session_context_bundle np config (df_index df) open' high low close) (\<lambda>cols. Inr (with_columns cols df))))"

section \<open>Regimes and levels\<close>

definition zero_to_nan :: "flt \<Rightarrow> flt" where
  "zero_to_nan x = (if x = Fin 0 then NaN else x)"

definition compute_vol_regime :: "numerics \<Rightarrow> series \<Rightarrow> int \<Rightarrow> int \<Rightarrow> series_error + series" where
  "compute_vol_regime np source window regime_lookback =
     andthen (compute_realized_vol np source window) (\<lambda>vol. compute_rolling_rank vol regime_lookback)"

definition compute_trend_regime :: "numerics \<Rightarrow> series \<Rightarrow> int \<Rightarrow> series_error + series" where
  "compute_trend_regime np source ma_period =
     andthen (rolling ma_period agg_mean source) (\<lambda>ma.
     andthen (compute_realized_vol np source ma_period) (\<lambda>vol. Inr (sdiv (ssub source ma) (map zero_to_nan vol))))"

definition compute_range_compression :: "series \<Rightarrow> series \<Rightarrow> series \<Rightarrow> int \<Rightarrow> series_error + series" where
  "compute_range_compression high low close regime_lookback =
     andthen (compute_atr high low close 14) (\<lambda>atr. compute_rolling_rank (sdiv (ssub high low) (map zero_to_nan atr)) regime_lookback)"

definition compute_distance_atr :: "series \<Rightarrow> series \<Rightarrow> int \<Rightarrow> series \<Rightarrow> series \<Rightarrow> series_error + series" where
  "compute_distance_atr close level atr_period high low =
     andthen (compute_atr high low close atr_period) (\<lambda>atr. Inr (sdiv (ssub close level) (map zero_to_nan atr)))"

text \<open>
  The range of the first minutes of a session, shown from the end of that range. A comparison with
  a bar before the opening, whose minutes are missing, is false.
\<close>

definition in_opening :: "int \<Rightarrow> int \<Rightarrow> datetime \<Rightarrow> bool" where
  "in_opening open_minutes range_minutes t = flt_le (minutes_after open_minutes t) (Fin (of_int range_minutes))"

definition opening_level :: "(series \<Rightarrow> flt) \<Rightarrow> int \<Rightarrow> int \<Rightarrow> datetime list \<Rightarrow> series \<Rightarrow> series" where
  "opening_level agg open_minutes range_minutes index xs =
     map (\<lambda>t. if flt_le (Fin (of_int range_minutes)) (minutes_after open_minutes t)
       then agg (map snd (filter (\<lambda>(s, _). date_of s = date_of t \<and> in_opening open_minutes range_minutes s) (zip index xs)))
       else NaN) index"

definition compute_opening_range_levels ::
    "datetime list \<Rightarrow> series \<Rightarrow> series \<Rightarrow> string \<Rightarrow> int \<Rightarrow> series_error + (series \<times> series)" where
  "compute_opening_range_levels index high low session_open range_minutes =
     andthen (hhmm session_open) (\<lambda>open_minutes.
       Inr (opening_level group_max open_minutes range_minutes index high, opening_level group_min open_minutes range_minutes index low))"

end
