(* ===== verification/Bt_Session_Causal.thy ===== *)
theory Bt_Session_Causal
  imports Bt_Session Bt_Causality
begin

text \<open>
  The session context looks at no later bar. Values of earlier sessions need bars in the order of
  time; the gap needs an opening price at the first bar of a session; the opening range needs bars
  at least a minute apart, because within a minute it would see the bars that follow.
\<close>

section \<open>Values of earlier sessions\<close>

definition last_or_missing :: "series \<Rightarrow> flt" where
  "last_or_missing xs = (if xs = [] then NaN else last xs)"

lemma strict_sorted_split:
  fixes S :: "int list"
  assumes "sorted_wrt (<) S" and "d \<in> set S"
  shows "S ! length (filter (\<lambda>e. e < d) S) = d" and "take (length (filter (\<lambda>e. e < d) S)) S = filter (\<lambda>e. e < d) S"
    and "length (filter (\<lambda>e. e < d) S) < length S"
proof -
  from assms(2) obtain P R where S: "S = P @ d # R" by (auto dest: split_list)
  then have "filter (\<lambda>e. e < d) P = P" "filter (\<lambda>e. e < d) R = []"
    using assms(1) by (auto simp: sorted_wrt_append filter_id_conv filter_empty_conv)
  then have "filter (\<lambda>e. e < d) S = P" by (simp add: S)
  then show "S ! length (filter (\<lambda>e. e < d) S) = d" "take (length (filter (\<lambda>e. e < d) S)) S = filter (\<lambda>e. e < d) S"
      "length (filter (\<lambda>e. e < d) S) < length S"
    by (simp_all add: S nth_append)
qed

lemma shift_one_nth: "k < length xs \<Longrightarrow> shift 1 xs ! k = last_or_missing (take k xs)"
  by (cases k) (auto simp: shift_by_def last_or_missing_def take_Suc_conv_app_nth)

text \<open>A function of the completed days that is causal and keeps the length.\<close>

definition causal_days :: "(series \<Rightarrow> series) \<Rightarrow> bool" where
  "causal_days F \<longleftrightarrow> (\<forall>n xs. F (take n xs) = take n (F xs)) \<and> (\<forall>xs. length (F xs) = length xs)"

lemma sessions_facts: "sorted_wrt (<) (sessions D)" "set (sessions D) = set D"
  by (simp_all add: sessions_def strict_sorted_iff)

lemma session_value:
  assumes "causal_days F" and "d \<in> set D"
  shows "map_of (zip (sessions D) (shift 1 (F (map h (sessions D))))) d =
    Some (last_or_missing (F (map h (filter (\<lambda>e. e < d) (sessions D)))))"
proof -
  let ?S = "sessions D" and ?ys = "F (map h (sessions D))"
  let ?k = "length (filter (\<lambda>e. e < d) ?S)"
  have d: "d \<in> set ?S" using assms(2) by (simp add: sessions_facts)
  note split = strict_sorted_split [OF sessions_facts(1) d]
  have len: "length ?ys = length ?S" using assms(1) by (simp add: causal_days_def)
  have "distinct ?S" using sessions_facts(1) [of D] by (simp add: strict_sorted_iff)
  then have "map_of (zip ?S (shift 1 ?ys)) (?S ! ?k) = Some (shift 1 ?ys ! ?k)"
    using split(3) len by (intro map_of_zip_nth) (simp_all add: shift_by_def)
  also have "shift 1 ?ys ! ?k = last_or_missing (take ?k ?ys)" using split(3) len by (intro shift_one_nth) simp
  also have "take ?k ?ys = F (map h (filter (\<lambda>e. e < d) ?S))"
    using assms(1) split(2) unfolding causal_days_def by (metis take_map)
  finally show ?thesis using split(1) by simp
qed

section \<open>Cutting the bars\<close>

lemma later_dates:
  fixes D :: "int list"
  assumes "sorted D" and "i < n" and "i < length D" and "e \<in> set (drop n D)"
  shows "D ! i \<le> e"
proof -
  obtain k where "k < length D - n" "e = D ! (n + k)" using assms(4) by (auto simp: in_set_conv_nth)
  then show ?thesis using sorted_nth_mono [OF assms(1), of i "n + k"] assms(2) by simp
qed

lemma earlier_dates_cut:
  fixes D :: "int list"
  assumes "sorted D" and "i < n" and "i < length D" and "e < D ! i"
  shows "e \<in> set D \<longleftrightarrow> e \<in> set (take n D)"
proof -
  have "e \<notin> set (drop n D)" using later_dates [OF assms(1-3)] assms(4) by force
  then show ?thesis by (metis Un_iff append_take_drop_id set_append)
qed

lemma earlier_sessions_cut:
  assumes "sorted D" and "i < n" and "i < length D"
  shows "filter (\<lambda>e. e < D ! i) (sessions (take n D)) = filter (\<lambda>e. e < D ! i) (sessions D)"
proof (rule sorted_distinct_set_unique)
  show "set (filter (\<lambda>e. e < D ! i) (sessions (take n D))) = set (filter (\<lambda>e. e < D ! i) (sessions D))"
    using earlier_dates_cut [OF assms] by (auto simp: sessions_facts)
qed (simp_all add: sessions_def sorted_filter [where f = id, simplified])

lemma filter_cut:
  assumes "\<And>p. p \<in> set (drop n xs) \<Longrightarrow> \<not> P p"
  shows "filter P (take n xs) = filter P xs"
proof -
  have "filter P xs = filter P (take n xs) @ filter P (drop n xs)" by (metis append_take_drop_id filter_append)
  then show ?thesis using assms by (simp add: filter_empty_conv)
qed

lemma of_session_cut:
  assumes "sorted D" and "i < n" and "i < length D" and "e < D ! i"
  shows "of_session (take n D) (take n xs) e = of_session D xs e"
proof -
  have "\<not> fst p = e" if "p \<in> set (drop n (zip D xs))" for p
  proof -
    have "fst p \<in> set (drop n D)" using that by (metis drop_zip in_set_zipE prod.collapse)
    then show ?thesis using later_dates [OF assms(1-3)] assms(4) by force
  qed
  then show ?thesis unfolding of_session_def zip_take_both by (subst filter_cut) (auto simp: split_beta)
qed

lemma map_take_cong:
  assumes "\<And>i. i < n \<Longrightarrow> i < length D \<Longrightarrow> f (D ! i) = g (D ! i)"
  shows "map f (take n D) = take n (map g D)"
  by (rule nth_equalityI) (use assms in auto)

lemma map_sessions_take:
  assumes "sorted D" and "causal_days F"
  shows "map_sessions (take n D) (shift 1 (F (daily agg (take n D) (take n xs)))) =
    take n (map_sessions D (shift 1 (F (daily agg D xs))))"
  unfolding map_sessions_def
proof (rule map_take_cong)
  fix i assume i: "i < n" "i < length D"
  have mem: "D ! i \<in> set (take n D)" "D ! i \<in> set D" using i by (auto simp: in_set_conv_nth)
  have "map (\<lambda>d. agg (of_session (take n D) (take n xs) d)) (filter (\<lambda>e. e < D ! i) (sessions (take n D))) =
      map (\<lambda>d. agg (of_session D xs d)) (filter (\<lambda>e. e < D ! i) (sessions D))"
    unfolding earlier_sessions_cut [OF assms(1) i] by (rule map_cong) (auto simp: of_session_cut [OF assms(1) i])
  then show "(case map_of (zip (sessions (take n D)) (shift 1 (F (daily agg (take n D) (take n xs))))) (D ! i) of None \<Rightarrow> NaN | Some v \<Rightarrow> v) =
      (case map_of (zip (sessions D) (shift 1 (F (daily agg D xs)))) (D ! i) of None \<Rightarrow> NaN | Some v \<Rightarrow> v)"
    unfolding daily_def session_value [OF assms(2) mem(1)] session_value [OF assms(2) mem(2)] by simp
qed

lemma causal_days_id: "causal_days (\<lambda>xs. xs)"
  by (simp add: causal_days_def)

lemma previous_session_take:
  "sorted D \<Longrightarrow> map_previous_session_values agg (take n D) (take n xs) = take n (map_previous_session_values agg D xs)"
  unfolding map_previous_session_values_def by (rule map_sessions_take [OF _ causal_days_id])

lemma length_past_return [simp]: "length (past_return k xs) = length xs"
  by (simp add: past_return_def shift_by_def)

lemma causal_days_trend: "0 \<le> k \<Longrightarrow> causal_days (\<lambda>xs. compute_d1_trend xs k)"
  by (simp add: causal_days_def compute_d1_trend_def causal)

lemma realized_vol_days:
  assumes "0 \<le> w"
  shows "\<exists>F. causal_days F \<and> (\<forall>xs. compute_realized_vol np xs w = Inr (F xs))"
proof -
  define F where "F = (\<lambda>xs. sscale (fsqrt np (Fin 252)) (on_history (window_value (nat w) (agg_std np)) (map (flog np) (sdiv xs (shift 1 xs)))))"
  have "compute_realized_vol np xs w = Inr (F xs)" for xs
    using assms by (simp add: compute_realized_vol_def rolling_def Let_def F_def)
  moreover have "causal_days F" by (simp add: causal_days_def F_def causal) (simp add: on_history_def shift_by_def)
  ultimately show ?thesis by blast
qed

section \<open>The gap\<close>

lemma present_all: "NaN \<notin> set xs \<Longrightarrow> present xs = xs"
  by (auto simp: present_def filter_id_conv)

lemma of_session_prefix: "\<exists>rest. of_session D xs d = of_session (take n D) (take n xs) d @ rest"
proof -
  have "zip D xs = take n (zip D xs) @ drop n (zip D xs)" by simp
  then have "filter P (zip D xs) = filter P (take n (zip D xs)) @ filter P (drop n (zip D xs))" for P by (metis filter_append)
  then show ?thesis unfolding of_session_def zip_take_both by simp
qed

lemma first_of_session_cut:
  assumes "i < n" and "i < length D" and "length xs = length D" and "NaN \<notin> set xs"
  shows "group_first (of_session (take n D) (take n xs) (D ! i)) = group_first (of_session D xs (D ! i))"
proof -
  define cut whole where "cut = of_session (take n D) (take n xs) (D ! i)" and "whole = of_session D xs (D ! i)"
  obtain rest where rest: "whole = cut @ rest" unfolding cut_def whole_def using of_session_prefix by blast
  have "set whole \<subseteq> set xs" by (auto simp: whole_def of_session_def dest: set_zip_rightD)
  then have "NaN \<notin> set whole" "NaN \<notin> set cut" using assms(4) rest by auto
  then have "present whole = whole" "present cut = cut" by (simp_all add: present_all)
  moreover have "(D ! i, xs ! i) \<in> set (zip (take n D) (take n xs))" using assms(1-3) by (auto simp: set_zip intro!: exI [of _ i])
  then have "cut \<noteq> []" by (force simp: cut_def of_session_def filter_empty_conv)
  then obtain y ys where "cut = y # ys" by (cases cut) auto
  ultimately show ?thesis using rest unfolding cut_def [symmetric] whole_def [symmetric] by (simp add: group_first_def)
qed

lemma index_of_session:
  assumes "d \<in> set D" and "length ys = length (sessions D)"
  shows "map_of (zip (sessions D) ys) d = Some (ys ! length (filter (\<lambda>e. e < d) (sessions D)))"
proof -
  have d: "d \<in> set (sessions D)" using assms(1) by (simp add: sessions_facts)
  note split = strict_sorted_split [OF sessions_facts(1) d]
  have "distinct (sessions D)" using sessions_facts(1) [of D] by (simp add: strict_sorted_iff)
  then show ?thesis using map_of_zip_nth [of "sessions D" ys "length (filter (\<lambda>e. e < d) (sessions D))"] split assms(2) by simp
qed

lemma gap_value:
  assumes "d \<in> set D"
  shows "map_of (zip (sessions D) (map (\<lambda>x. fsub x (Fin 1)) (sdiv (daily f D xs) (shift 1 (daily g D ys))))) d =
    Some (fsub (fdiv (f (of_session D xs d)) (last_or_missing (map (\<lambda>e. g (of_session D ys e)) (filter (\<lambda>e. e < d) (sessions D))))) (Fin 1))"
proof -
  have d: "d \<in> set (sessions D)" using assms by (simp add: sessions_facts)
  note split = strict_sorted_split [OF sessions_facts(1) d]
  have len: "length (shift 1 (daily g D ys)) = length (sessions D)" by (simp add: shift_by_def daily_def)
  have "shift 1 (daily g D ys) ! length (filter (\<lambda>e. e < d) (sessions D)) =
      last_or_missing (map (\<lambda>e. g (of_session D ys e)) (filter (\<lambda>e. e < d) (sessions D)))"
    using split by (subst shift_one_nth) (simp_all add: daily_def take_map)
  then show ?thesis using split len by (subst index_of_session [OF assms]) (simp_all add: daily_def)
qed

lemma compute_session_gap_take:
  assumes "sorted D" and "length open' = length D" and "NaN \<notin> set open'"
  shows "compute_session_gap (take n D) (take n open') (take n close) = take n (compute_session_gap D open' close)"
  unfolding compute_session_gap_def map_sessions_def
proof (rule map_take_cong)
  fix i assume i: "i < n" "i < length D"
  have mem: "D ! i \<in> set (take n D)" "D ! i \<in> set D" using i by (auto simp: in_set_conv_nth)
  have "map (\<lambda>e. group_last (of_session (take n D) (take n close) e)) (filter (\<lambda>e. e < D ! i) (sessions (take n D))) =
      map (\<lambda>e. group_last (of_session D close e)) (filter (\<lambda>e. e < D ! i) (sessions D))"
    unfolding earlier_sessions_cut [OF assms(1) i] by (rule map_cong) (auto simp: of_session_cut [OF assms(1) i])
  then show "(case map_of (zip (sessions (take n D)) (map (\<lambda>x. fsub x (Fin 1)) (sdiv (daily group_first (take n D) (take n open'))
        (shift 1 (daily group_last (take n D) (take n close)))))) (D ! i) of None \<Rightarrow> NaN | Some v \<Rightarrow> v) =
      (case map_of (zip (sessions D) (map (\<lambda>x. fsub x (Fin 1)) (sdiv (daily group_first D open') (shift 1 (daily group_last D close))))) (D ! i)
        of None \<Rightarrow> NaN | Some v \<Rightarrow> v)"
    unfolding gap_value [OF mem(1)] gap_value [OF mem(2)] by (simp add: first_of_session_cut [OF i assms(2,3)])
qed

section \<open>The opening range\<close>

definition minute_bars :: "datetime list \<Rightarrow> bool" where
  "minute_bars index = sorted_wrt (\<lambda>s t. s div 60000000 < t div 60000000) index"

lemma minute_decomposes: "t div 60000000 = date_of t * 1440 + minutes_of_day t"
proof -
  have "t = date_of t * (1440 * 60000000) + time_of t" by (simp add: date_of_def time_of_def)
  then have "t div 60000000 = (time_of t + (date_of t * 1440) * 60000000) div 60000000" by (simp add: algebra_simps)
  also have "\<dots> = date_of t * 1440 + time_of t div 60000000" by (rule div_mult_self1) simp
  finally show ?thesis by (simp add: minutes_of_day_def)
qed

lemma minute_bars_nth: "minute_bars index \<Longrightarrow> i < j \<Longrightarrow> j < length index \<Longrightarrow> index ! i div 60000000 < index ! j div 60000000"
  unfolding minute_bars_def by (rule sorted_wrt_nth_less)

lemma minute_bars_dates: "minute_bars index \<Longrightarrow> sorted (map date_of index)"
proof -
  assume mb: "minute_bars index"
  have "sorted_wrt (\<lambda>s t. date_of s \<le> date_of t) index"
  proof (rule sorted_wrt_mono_rel [OF _ mb [unfolded minute_bars_def]])
    fix s t :: int assume "s div 60000000 < t div 60000000"
    then have "s \<le> t" by (meson linorder_not_less order_less_imp_le zdiv_mono1 zero_less_numeral)
    then show "date_of s \<le> date_of t" by (simp add: date_of_def zdiv_mono1)
  qed
  then show ?thesis by (simp add: sorted_wrt_map)
qed

lemma opening_level_take:
  assumes "minute_bars index"
  shows "opening_level agg om rm (take n index) (take n xs) = take n (opening_level agg om rm index xs)"
  unfolding opening_level_def
proof (rule map_take_cong)
  fix i assume i: "i < n" "i < length index"
  let ?t = "index ! i"
  let ?P = "\<lambda>(s, _ :: flt). date_of s = date_of ?t \<and> in_opening om rm s"
  have "filter ?P (take n (zip index xs)) = filter ?P (zip index xs)" if reveal: "flt_le (Fin (of_int rm)) (minutes_after om ?t)"
  proof (rule filter_cut)
    fix p assume "p \<in> set (drop n (zip index xs))"
    then have "fst p \<in> set (drop n index)" by (metis drop_zip in_set_zipE prod.collapse)
    then obtain k where "k < length index - n" "fst p = index ! (n + k)" by (auto simp: in_set_conv_nth)
    then have later: "?t div 60000000 < fst p div 60000000" using minute_bars_nth [OF assms, of i "n + k"] i by simp
    show "\<not> ?P p"
    proof
      assume "?P p"
      then have "date_of (fst p) = date_of ?t" "in_opening om rm (fst p)" by auto
      moreover from this later have "minutes_of_day ?t < minutes_of_day (fst p)"
        using minute_decomposes [of ?t] minute_decomposes [of "fst p"] by simp
      ultimately show False using reveal by (auto simp: in_opening_def minutes_after_def flt_le_def split: if_splits)
    qed
  qed
  then show "(if flt_le (Fin (of_int rm)) (minutes_after om ?t) then agg (map snd (filter ?P (zip (take n index) (take n xs)))) else NaN) =
      (if flt_le (Fin (of_int rm)) (minutes_after om ?t) then agg (map snd (filter ?P (zip index xs))) else NaN)"
    by (simp add: zip_take_both)
qed

lemma compute_opening_range_levels_take [causal]:
  "minute_bars index \<Longrightarrow> compute_opening_range_levels (take n index) (take n h) (take n l) so rm = cut2 n (compute_opening_range_levels index h l so rm)"
  by (simp add: compute_opening_range_levels_def causal opening_level_take)

section \<open>Frames\<close>

lemma time_features_take [causal]:
  "compute_minutes_from_open (take n index) so = cut n (compute_minutes_from_open index so)"
  "compute_time_of_day (take n index) so sc = cut n (compute_time_of_day index so sc)"
  "compute_day_of_week (take n index) = take n (compute_day_of_week index)"
  "compute_month_of_year (take n index) = take n (compute_month_of_year index)"
  "compute_session_window (take n index) w1 w2 = cut n (compute_session_window index w1 w2)"
  by (simp_all add: compute_minutes_from_open_def compute_time_of_day_def compute_day_of_week_def compute_month_of_year_def
      compute_session_window_def causal cong: if_cong)

lemma regimes_take [causal]:
  "0 < n \<Longrightarrow> compute_vol_regime np (take n xs) w r = cut n (compute_vol_regime np xs w r)"
  "compute_trend_regime np (take n xs) p = cut n (compute_trend_regime np xs p)"
  "0 < n \<Longrightarrow> compute_range_compression (take n h) (take n l) (take n c) r = cut n (compute_range_compression h l c r)"
  "compute_distance_atr (take n c) (take n v) p (take n h) (take n l) = cut n (compute_distance_atr c v p h l)"
  by (simp_all add: compute_vol_regime_def compute_trend_regime_def compute_range_compression_def compute_distance_atr_def causal)

lemma coerce_ohlcv_take [causal]:
  "coerce_ohlcv_columns (take_frame n df) =
   map_sum id (map_prod (take n) (map_prod (take n) (map_prod (take n) (take n)))) (coerce_ohlcv_columns df)"
  by (cases "has_column ''open'' df"; cases "has_column ''high'' df"; cases "has_column ''low'' df")
    (simp_all add: coerce_ohlcv_columns_def causal cong: if_cong)

text \<open>Bars at least a minute apart, each with an opening price.\<close>

definition bars_ok :: "DataFrame \<Rightarrow> bool" where
  "bars_ok df \<longleftrightarrow> minute_bars (df_index df) \<and>
     (\<forall>open' high low close. coerce_ohlcv_columns df = Inr (open', high, low, close) \<longrightarrow>
        length open' = length (df_index df) \<and> NaN \<notin> set open')"

definition take_columns :: "nat \<Rightarrow> (string \<times> column) list \<Rightarrow> (string \<times> column) list" where
  "take_columns n = map (\<lambda>(c, col). (c, col_take n col))"

lemma context_bundle_take:
  assumes "minute_bars index" and "length open' = length index" and "NaN \<notin> set open'"
    and "0 \<le> sc_d1_trend_lookback config" and "0 \<le> sc_d1_vol_window config"
  shows "compute_session_context_bundle np config (take n index) (take n open') (take n high) (take n low) (take n close) =
    map_sum id (take_columns n) (compute_session_context_bundle np config index open' high low close)"
proof -
  obtain F where F: "causal_days F" "\<And>xs. compute_realized_vol np xs (sc_d1_vol_window config) = Inr (F xs)"
    using realized_vol_days [OF assms(5)] by metis
  note sorted = minute_bars_dates [OF assms(1)]
  have gap: "compute_session_gap (take n (map date_of index)) (take n open') (take n close) = take n (compute_session_gap (map date_of index) open' close)"
    by (rule compute_session_gap_take) (use assms sorted in auto)
  show ?thesis
    by (simp add: compute_session_context_bundle_def Let_def F(2) map_take previous_session_take [OF sorted] gap
        map_sessions_take [OF sorted F(1)] map_sessions_take [OF sorted causal_days_trend [OF assms(4)]]
        take_columns_def RUN_CONTEXT_COLUMNS_def)
qed

lemma prepare_evaluation_frame_take:
  assumes "bars_ok df" and "0 \<le> sc_d1_trend_lookback config" and "0 \<le> sc_d1_vol_window config"
  shows "prepare_evaluation_frame np config (take_frame n df) = cut_frame n (prepare_evaluation_frame np config df)"
proof (cases "coerce_ohlcv_columns df")
  case (Inl e)
  then show ?thesis by (simp add: prepare_evaluation_frame_def causal)
next
  case (Inr r)
  obtain o' h l c where r: "r = (o', h, l, c)" by (cases r) auto
  have ok: "minute_bars (df_index df)" "length o' = length (df_index df)" "NaN \<notin> set o'"
    using assms(1) Inr r by (auto simp: bars_ok_def)
  have cols: "with_columns (take_columns n cols) (take_frame n df) = take_frame n (with_columns cols df)" for cols
    by (induction cols arbitrary: df) (auto simp: take_columns_def causal)
  show ?thesis using Inr r
    by (simp add: prepare_evaluation_frame_def causal context_bundle_take [OF ok assms(2,3)] cols)
qed

end
