(* ===== verification/Tick_Engine.thy ===== *)
theory Tick_Engine
  imports Bt_Registry Bt_Engine
begin

text \<open>
  The tick backtest, \<^verbatim>\<open>backtesting/tick/\<close>: sizing for the kernel (\<^verbatim>\<open>orders.py\<close>), the compiled loop
  that holds at most one position (\<^verbatim>\<open>kernel.py\<close>), the engine that splits ticks by day and registers
  the trades (\<^verbatim>\<open>engine.py\<close>), the moving-average strategy (\<^verbatim>\<open>strategies/tick_ma_breakout.py\<close>) and the
  bars of its chart (\<^verbatim>\<open>chart_data.py\<close>). The arrays of a tick stream have one length; prices are finite
  and exact. A missing stop or target (\<^verbatim>\<open>nan\<close>) is \<open>None\<close>. The trades the kernel writes to arrays are
  a list, identifiers drawn by \<^verbatim>\<open>uuid4\<close> a sequence. Labels of the chart are not modelled.
\<close>

section \<open>Ticks, signals, sizing\<close>

record TickArrays =
  ta_time_msc :: "int list"
  ta_bid :: "decimal list"
  ta_ask :: "decimal list"
  ta_last :: "decimal list"
  ta_volume :: "int list"

record TickSignals =
  ts_direction :: "int list"
  ts_sl_points :: "decimal option list"
  ts_tp_points :: "decimal option list"

datatype ExitReason = XR_STOP_LOSS | XR_TAKE_PROFIT | XR_SIGNAL | XR_END_OF_DAY

fun exit_reason_name :: "ExitReason \<Rightarrow> string" where
  "exit_reason_name XR_STOP_LOSS = ''STOP_LOSS''"
| "exit_reason_name XR_TAKE_PROFIT = ''TAKE_PROFIT''"
| "exit_reason_name XR_SIGNAL = ''SIGNAL''"
| "exit_reason_name XR_END_OF_DAY = ''END_OF_DAY''"

text \<open>
  The scalars of a sizing configuration, whose margin its validation keeps positive: the mode of
  fixed quantities with the quantity, or margin, minimum and maximum. A configuration that sizes by
  volatility has no margin to read.
\<close>

datatype tick_error = TickAttributeError string | TickValueError string

datatype kernel_sizing = SIZING_FIXED_QUANTITY decimal | SIZING_FIXED_SAFETY_MARGIN decimal decimal decimal

fun kernel_sizing_params :: "PositionSizingConfig \<Rightarrow> tick_error + kernel_sizing" where
  "kernel_sizing_params (FixedQuantityPositionSizing quantity _) = Inr (SIZING_FIXED_QUANTITY quantity)"
| "kernel_sizing_params (FixedSafetyMarginPositionSizing margin min_contracts max_contracts _) =
     Inr (SIZING_FIXED_SAFETY_MARGIN margin (of_int min_contracts) (case max_contracts of None \<Rightarrow> 0 | Some m \<Rightarrow> of_int m))"
| "kernel_sizing_params (InverseVolatilityPositionSizing _ _ _ _) = Inl (TickAttributeError ''safety_margin_per_contract'')"

definition trunc :: "decimal \<Rightarrow> int" where
  "trunc x = (if 0 \<le> x then \<lfloor>x\<rfloor> else \<lceil>x\<rceil>)"

fun compute_quantity :: "decimal \<Rightarrow> kernel_sizing \<Rightarrow> decimal" where
  "compute_quantity capital (SIZING_FIXED_QUANTITY a) = a"
| "compute_quantity capital (SIZING_FIXED_SAFETY_MARGIN a b c) =
     (let qty = trunc (capital / a);
          qty = (if c > 0 \<and> qty > trunc c then trunc c else qty);
          min_c = trunc b
      in if qty < min_c then (if min_c > 0 \<and> qty = 0 then of_int min_c else 0)
         else if qty \<le> 0 then 0 else of_int qty)"

section \<open>The kernel\<close>

text \<open>One row of the arrays the kernel reads, and the position it holds.\<close>

record kernel_row =
  kr_bid :: decimal
  kr_ask :: decimal
  kr_direction :: int
  kr_sl :: "decimal option"
  kr_tp :: "decimal option"

record kernel_position =
  kp_dir :: int
  kp_entry_idx :: nat
  kp_entry_price :: decimal
  kp_quantity :: decimal
  kp_sl_price :: "decimal option"
  kp_tp_price :: "decimal option"

record kernel_trade =
  kt_entry_idx :: nat
  kt_exit_idx :: nat
  kt_entry_price :: decimal
  kt_exit_price :: decimal
  kt_direction :: int
  kt_quantity :: decimal
  kt_exit_reason :: ExitReason

record kernel_state =
  ks_capital :: decimal
  ks_position :: "kernel_position option"
  ks_trades :: "kernel_trade list"

definition kernel_open :: "nat \<Rightarrow> kernel_row \<Rightarrow> decimal \<Rightarrow> kernel_position" where
  "kernel_open i row qty =
     (let dir = (if kr_direction row > 0 then 1 else - 1);
          price = (if dir > 0 then kr_ask row else kr_bid row)
      in \<lparr>kp_dir = dir, kp_entry_idx = i, kp_entry_price = price, kp_quantity = qty,
          kp_sl_price = map_option (\<lambda>pts. if dir > 0 then price - pts else price + pts) (kr_sl row),
          kp_tp_price = map_option (\<lambda>pts. if dir > 0 then price + pts else price - pts) (kr_tp row)\<rparr>)"

definition kernel_fill_price :: "kernel_position \<Rightarrow> kernel_row \<Rightarrow> decimal" where
  "kernel_fill_price pos row = (if kp_dir pos > 0 then kr_bid row else kr_ask row)"

definition kernel_exit :: "kernel_position \<Rightarrow> kernel_row \<Rightarrow> ExitReason option" where
  "kernel_exit pos row =
     (if kp_dir pos > 0 then
        (if \<exists>sl\<in>set_option (kp_sl_price pos). kr_bid row \<le> sl then Some XR_STOP_LOSS
         else if \<exists>tp\<in>set_option (kp_tp_price pos). kr_bid row \<ge> tp then Some XR_TAKE_PROFIT
         else if kr_direction row < 0 then Some XR_SIGNAL else None)
      else
        (if \<exists>sl\<in>set_option (kp_sl_price pos). kr_ask row \<ge> sl then Some XR_STOP_LOSS
         else if \<exists>tp\<in>set_option (kp_tp_price pos). kr_ask row \<le> tp then Some XR_TAKE_PROFIT
         else if kr_direction row > 0 then Some XR_SIGNAL else None))"

definition position_pnl :: "decimal \<Rightarrow> kernel_position \<Rightarrow> decimal \<Rightarrow> decimal" where
  "position_pnl point_value pos price =
     (if kp_dir pos > 0 then (price - kp_entry_price pos) * kp_quantity pos * point_value
      else (kp_entry_price pos - price) * kp_quantity pos * point_value)"

definition kernel_trade_of :: "kernel_position \<Rightarrow> nat \<Rightarrow> decimal \<Rightarrow> ExitReason \<Rightarrow> kernel_trade" where
  "kernel_trade_of pos i price reason =
     \<lparr>kt_entry_idx = kp_entry_idx pos, kt_exit_idx = i, kt_entry_price = kp_entry_price pos, kt_exit_price = price,
      kt_direction = kp_dir pos, kt_quantity = kp_quantity pos, kt_exit_reason = reason\<rparr>"

definition kernel_close :: "decimal \<Rightarrow> nat \<Rightarrow> kernel_row \<Rightarrow> ExitReason \<Rightarrow> kernel_position \<Rightarrow> kernel_state \<Rightarrow> kernel_state" where
  "kernel_close point_value i row reason pos st =
     (let price = kernel_fill_price pos row in
      \<lparr>ks_capital = ks_capital st + position_pnl point_value pos price, ks_position = None,
       ks_trades = ks_trades st @ [kernel_trade_of pos i price reason]\<rparr>)"

text \<open>
  One turn of the loop. The flag that would block a new entry is reset at the start of the turn
  after the one that sets it, and nothing reads it.
\<close>

definition kernel_step :: "kernel_sizing \<Rightarrow> decimal \<Rightarrow> nat \<Rightarrow> kernel_row \<Rightarrow> kernel_state \<Rightarrow> kernel_state" where
  "kernel_step sizing point_value i row st = (case ks_position st of
     None \<Rightarrow>
       if kr_direction row = 0 then st
       else let qty = compute_quantity (ks_capital st) sizing in
         if qty > 0 then st\<lparr>ks_position := Some (kernel_open i row qty)\<rparr> else st
   | Some pos \<Rightarrow> (case kernel_exit pos row of
       None \<Rightarrow> st
     | Some reason \<Rightarrow> kernel_close point_value i row reason pos st))"

primrec kernel_loop :: "kernel_sizing \<Rightarrow> decimal \<Rightarrow> nat \<Rightarrow> kernel_row list \<Rightarrow> kernel_state \<Rightarrow> kernel_state" where
  "kernel_loop sizing point_value i [] st = st"
| "kernel_loop sizing point_value i (row # rows) st =
     kernel_loop sizing point_value (Suc i) rows (kernel_step sizing point_value i row st)"

definition simulate :: "kernel_sizing \<Rightarrow> decimal \<Rightarrow> decimal \<Rightarrow> kernel_row list \<Rightarrow> kernel_state" where
  "simulate sizing point_value initial_capital rows =
     (let st = kernel_loop sizing point_value 0 rows \<lparr>ks_capital = initial_capital, ks_position = None, ks_trades = []\<rparr> in
      case ks_position st of
        None \<Rightarrow> st
      | Some pos \<Rightarrow> kernel_close point_value (length rows - 1) (last rows) XR_END_OF_DAY pos st)"

section \<open>The engine\<close>

definition msc_to_datetime :: "int \<Rightarrow> datetime" where
  "msc_to_datetime msc = msc * 1000"

definition slice_ticks :: "nat \<Rightarrow> nat \<Rightarrow> TickArrays \<Rightarrow> TickArrays" where
  "slice_ticks start stop ticks =
     \<lparr>ta_time_msc = take (stop - start) (drop start (ta_time_msc ticks)), ta_bid = take (stop - start) (drop start (ta_bid ticks)),
      ta_ask = take (stop - start) (drop start (ta_ask ticks)), ta_last = take (stop - start) (drop start (ta_last ticks)),
      ta_volume = take (stop - start) (drop start (ta_volume ticks))\<rparr>"

text \<open>The ranges of equal neighbours: cut where a value differs from the one before it.\<close>

definition boundaries :: "'a list \<Rightarrow> nat list" where
  "boundaries ids = filter (\<lambda>i. ids ! i \<noteq> ids ! (i - 1)) [1..<length ids]"

definition group_ranges :: "'a list \<Rightarrow> (nat \<times> nat) list" where
  "group_ranges ids = (if ids = [] then [] else zip (0 # boundaries ids) (boundaries ids @ [length ids]))"

definition split_ticks_by_day :: "TickArrays \<Rightarrow> TickArrays list" where
  "split_ticks_by_day ticks =
     map (\<lambda>(start, stop). slice_ticks start stop ticks) (group_ranges (map (\<lambda>t. t div 86400000) (ta_time_msc ticks)))"

definition kernel_rows :: "TickArrays \<Rightarrow> TickSignals \<Rightarrow> kernel_row list" where
  "kernel_rows ticks signals =
     map (\<lambda>((b, a), (d, sl, tp)). \<lparr>kr_bid = b, kr_ask = a, kr_direction = d, kr_sl = sl, kr_tp = tp\<rparr>)
       (zip (zip (ta_bid ticks) (ta_ask ticks)) (zip (ts_direction signals) (zip (ts_sl_points signals) (ts_tp_points signals))))"

definition trade_of_event :: "string \<Rightarrow> string \<Rightarrow> int list \<Rightarrow> string \<Rightarrow> decimal \<Rightarrow> kernel_trade \<Rightarrow> Trade" where
  "trade_of_event order_id trade_id time_msc symbol point_value e =
     new_trade trade_id order_id symbol (if kt_direction e > 0 then OA_BUY else OA_SELL) (kt_quantity e)
       (msc_to_datetime (time_msc ! kt_entry_idx e)) (kt_entry_price e) point_value 0"

definition register_event ::
    "(nat \<Rightarrow> string) \<Rightarrow> int list \<Rightarrow> string \<Rightarrow> decimal \<Rightarrow> kernel_trade \<Rightarrow> nat \<times> TradeRegistry \<Rightarrow> nat \<times> TradeRegistry" where
  "register_event uuid time_msc symbol point_value e = (\<lambda>(k, registry).
     let trade = trade_of_event (uuid k) (uuid (Suc k)) time_msc symbol point_value e in
     (k + 2, snd (close_trade (tr_id trade) (msc_to_datetime (time_msc ! kt_exit_idx e)) (kt_exit_price e)
        (Some (exit_reason_name (kt_exit_reason e))) (register_trade trade registry))))"

definition events_to_registry ::
    "(nat \<Rightarrow> string) \<Rightarrow> nat \<Rightarrow> kernel_trade list \<Rightarrow> int list \<Rightarrow> string \<Rightarrow> decimal \<Rightarrow> nat \<times> TradeRegistry" where
  "events_to_registry uuid k events time_msc symbol point_value =
     fold (register_event uuid time_msc symbol point_value) events (k, new_registry)"

record TickBacktestEngine =
  te_compute_signals :: "TickArrays \<Rightarrow> TickSignals"
  te_sizing :: kernel_sizing
  te_initial_capital :: decimal
  te_point_value :: decimal
  te_symbol :: string

definition new_tick_engine ::
    "(TickArrays \<Rightarrow> TickSignals) \<Rightarrow> PositionSizingConfig \<Rightarrow> decimal \<Rightarrow> decimal \<Rightarrow> string \<Rightarrow> tick_error + TickBacktestEngine" where
  "new_tick_engine compute_signals sizing_config initial_capital point_value symbol =
     map_sum id (\<lambda>sizing. \<lparr>te_compute_signals = compute_signals, te_sizing = sizing, te_initial_capital = initial_capital,
       te_point_value = point_value, te_symbol = symbol\<rparr>) (kernel_sizing_params sizing_config)"

definition tick_run_single_chunk :: "(nat \<Rightarrow> string) \<Rightarrow> TickBacktestEngine \<Rightarrow> TickArrays \<Rightarrow> nat \<Rightarrow> nat \<times> TradeRegistry" where
  "tick_run_single_chunk uuid self ticks k =
     events_to_registry uuid k
       (ks_trades (simulate (te_sizing self) (te_point_value self) (te_initial_capital self)
          (kernel_rows ticks (te_compute_signals self ticks))))
       (ta_time_msc ticks) (te_symbol self) (te_point_value self)"

definition merge_chunk :: "(nat \<Rightarrow> string) \<Rightarrow> TickBacktestEngine \<Rightarrow> TickArrays \<Rightarrow> nat \<times> TradeRegistry \<Rightarrow> nat \<times> TradeRegistry" where
  "merge_chunk uuid self chunk = (\<lambda>(k, master).
     let (k', registry) = tick_run_single_chunk uuid self chunk k in (k', merge master registry))"

definition tick_run :: "(nat \<Rightarrow> string) \<Rightarrow> TickBacktestEngine \<Rightarrow> TickArrays \<Rightarrow> bool \<Rightarrow> TradeRegistry" where
  "tick_run uuid self ticks day_trade =
     (if ta_time_msc ticks = [] then new_registry
      else if day_trade then snd (fold (merge_chunk uuid self) (split_ticks_by_day ticks) (0, new_registry))
      else snd (tick_run_single_chunk uuid self ticks 0))"

section \<open>The moving-average breakout\<close>

text \<open>Averages from running sums; the first values, where the window is not full, are missing.\<close>

primrec cumsum_from :: "decimal \<Rightarrow> decimal list \<Rightarrow> decimal list" where
  "cumsum_from acc [] = []"
| "cumsum_from acc (x # xs) = (acc + x) # cumsum_from (acc + x) xs"

abbreviation cumsum :: "decimal list \<Rightarrow> decimal list" where
  "cumsum \<equiv> cumsum_from 0"

definition rolling_sma :: "decimal list \<Rightarrow> int \<Rightarrow> series" where
  "rolling_sma values period =
     (let n = length values in
      if period \<le> 0 \<or> int n < period then replicate n NaN
      else let p = nat period; csum = cumsum values in
        replicate (p - 1) NaN @
        map2 (\<lambda>hi lo. Fin ((hi - lo) / of_int period)) (drop (p - 1) csum) (0 # take (n - p) csum))"

record TickMaBreakout =
  mb_short_period :: int
  mb_long_period :: int
  mb_threshold :: decimal
  mb_sl_points :: decimal
  mb_tp_points :: decimal

definition breakout_delta :: "TickMaBreakout \<Rightarrow> decimal list \<Rightarrow> series" where
  "breakout_delta self price = ssub (rolling_sma price (mb_short_period self)) (rolling_sma price (mb_long_period self))"

definition breakout_signals :: "TickMaBreakout \<Rightarrow> TickArrays \<Rightarrow> TickSignals" where
  "breakout_signals self ticks =
     (let price = ta_last ticks; delta = breakout_delta self price; prev_delta = shift 1 delta;
          th = Fin (mb_threshold self); neg = Fin (- mb_threshold self);
          distance = (\<lambda>pts. map (\<lambda>_. if pts > 0 then Some pts else None) price)
      in \<lparr>ts_direction = map2 (\<lambda>d p. if flt_less d neg \<and> flt_le neg p then - 1 else if flt_less th d \<and> flt_le p th then 1 else 0)
            delta prev_delta,
          ts_sl_points = distance (mb_sl_points self), ts_tp_points = distance (mb_tp_points self)\<rparr>)"

definition breakout_indicator_series :: "TickMaBreakout \<Rightarrow> TickArrays \<Rightarrow> (string \<times> series) list" where
  "breakout_indicator_series self ticks =
     [(''ma_short'', rolling_sma (ta_last ticks) (mb_short_period self)),
      (''ma_long'', rolling_sma (ta_last ticks) (mb_long_period self)),
      (''delta'', breakout_delta self (ta_last ticks))]"

definition tick_ma_breakout_params :: "StrategyParamSpec list" where
  "tick_ma_breakout_params = [
     param_spec ''short_period'' PT_INT (PyInt 50) (Some 2) (Some 2000) (Some 1),
     param_spec ''long_period'' PT_INT (PyInt 200) (Some 2) (Some 5000) (Some 1),
     param_spec ''threshold'' PT_FLOAT (PyFloat 0) (Some 0) (Some 100) (Some (1 / 100)),
     param_spec ''sl_points'' PT_FLOAT (PyFloat 0) (Some 0) (Some 1000) (Some (1 / 100)),
     param_spec ''tp_points'' PT_FLOAT (PyFloat 0) (Some 0) (Some 1000) (Some (1 / 100))]"

definition build_tick_ma_breakout :: "(string \<times> pyval) list \<Rightarrow> genome_error + TickMaBreakout" where
  "build_tick_ma_breakout params =
     andthen (need params ''short_period'' py_int) (\<lambda>short_period. andthen (need params ''long_period'' py_int) (\<lambda>long_period.
     andthen (need params ''threshold'' py_float) (\<lambda>threshold. andthen (need params ''sl_points'' py_float) (\<lambda>sl.
     andthen (need params ''tp_points'' py_float) (\<lambda>tp.
       Inr \<lparr>mb_short_period = short_period, mb_long_period = long_period, mb_threshold = threshold,
            mb_sl_points = sl, mb_tp_points = tp\<rparr>)))))"

text \<open>The only strategy of the tick engine; the others are refused.\<close>

definition build_tick_strategy :: "string \<Rightarrow> (string \<times> pyval) list \<Rightarrow> genome_error + TickMaBreakout" where
  "build_tick_strategy name params =
     (if name = ''TickMaBreakout'' then andthen (map_result (merge_param params) tick_ma_breakout_params) build_tick_ma_breakout
      else andthen (info_params name) (\<lambda>_. Inl (GenomeValueError ''Strategy is not a tick engine strategy.'')))"

section \<open>Chart bars\<close>

definition DISPLAY_TIMEFRAME_MS :: "(string \<times> int) list" where
  "DISPLAY_TIMEFRAME_MS =
     [(''M1'', 60000), (''M2'', 120000), (''M3'', 180000), (''M4'', 240000), (''M5'', 300000), (''M6'', 360000),
      (''M10'', 600000), (''M12'', 720000), (''M15'', 900000), (''M20'', 1200000), (''M30'', 1800000), (''H1'', 3600000),
      (''H2'', 7200000), (''H3'', 10800000), (''H4'', 14400000), (''H6'', 21600000), (''H8'', 28800000), (''H12'', 43200000),
      (''D1'', 86400000), (''W1'', 604800000), (''MN1'', 2592000000)]"

definition mid_price :: "TickArrays \<Rightarrow> decimal list" where
  "mid_price ticks = (if list_ex (\<lambda>x. x > 0) (ta_last ticks) then ta_last ticks
     else map2 (\<lambda>b a. (b + a) / 2) (ta_bid ticks) (ta_ask ticks))"

definition upper_text :: "string \<Rightarrow> string" where
  "upper_text s = map (\<lambda>c. if 97 \<le> (of_char c :: nat) \<and> (of_char c :: nat) \<le> 122 then char_of ((of_char c :: nat) - 32) else c) s"

text \<open>The widths of the table are positive, so doubling passes a day after a few turns.\<close>

function widen_bars :: "int \<Rightarrow> int \<Rightarrow> int" where
  "widen_bars span_msc bar_ms =
     (if 0 < bar_ms \<and> span_msc > 0 \<and> span_msc div bar_ms > 50000 then
        (if bar_ms * 2 > 86400000 then bar_ms * 2 else widen_bars span_msc (bar_ms * 2))
      else bar_ms)"
  by pat_completeness auto
termination by (relation "measure (\<lambda>(span_msc, bar_ms). nat (86400001 - bar_ms))") auto

declare widen_bars.simps [simp del]

definition resolve_bar_ms :: "string \<Rightarrow> int \<Rightarrow> tick_error + int" where
  "resolve_bar_ms display_timeframe span_msc = (case map_of DISPLAY_TIMEFRAME_MS (upper_text display_timeframe) of
     None \<Rightarrow> Inl (TickValueError ''Invalid display_timeframe'')
   | Some bar_ms \<Rightarrow> Inr (widen_bars span_msc bar_ms))"

record chart_bar =
  cb_open_msc :: int
  cb_open :: decimal
  cb_high :: decimal
  cb_low :: decimal
  cb_close :: decimal
  cb_volume :: int

definition chart_bar_of :: "TickArrays \<Rightarrow> int \<Rightarrow> nat \<times> nat \<Rightarrow> chart_bar" where
  "chart_bar_of ticks bar_ms = (\<lambda>(start, stop).
     let prices = take (stop - start) (drop start (mid_price ticks)) in
     \<lparr>cb_open_msc = (ta_time_msc ticks ! start) div bar_ms * bar_ms, cb_open = hd prices, cb_high = Max (set prices),
      cb_low = Min (set prices), cb_close = last prices, cb_volume = sum_list (take (stop - start) (drop start (ta_volume ticks)))\<rparr>)"

definition resample_ticks_to_bars :: "TickArrays \<Rightarrow> int \<Rightarrow> chart_bar list \<times> (nat \<times> nat) list" where
  "resample_ticks_to_bars ticks bar_ms =
     (let bar_ranges = group_ranges (map (\<lambda>t. t div bar_ms) (ta_time_msc ticks))
      in (map (chart_bar_of ticks bar_ms) bar_ranges, bar_ranges))"

definition sample_indicator_at_bars :: "series \<Rightarrow> (nat \<times> nat) list \<Rightarrow> flt list" where
  "sample_indicator_at_bars values bar_ranges = map (\<lambda>(start, stop). values ! (stop - 1)) bar_ranges"

definition serialize_tick_chart_data ::
    "TickArrays \<Rightarrow> TickMaBreakout \<Rightarrow> string \<Rightarrow> tick_error + (chart_bar list \<times> (string \<times> flt list) list)" where
  "serialize_tick_chart_data ticks strategy display_timeframe =
     (let msc = ta_time_msc ticks; span_msc = (if msc = [] then 0 else last msc - hd msc) in
      andthen (resolve_bar_ms display_timeframe span_msc) (\<lambda>bar_ms.
        let (bars, bar_ranges) = resample_ticks_to_bars ticks bar_ms in
        Inr (bars, map (\<lambda>(key, values). (key, sample_indicator_at_bars values bar_ranges)) (breakout_indicator_series strategy ticks))))"

end
