(* ===== verification/Tick_Correct.thy ===== *)
theory Tick_Correct
  imports Tick_Engine
begin

text \<open>
  Correctness of the tick backtest. The compiled loop is equivalent to a definition that looks for
  the next entry and the first exit after it; the registry of a run holds exactly the trades of the
  kernel, closed on the day they were opened; the averages from running sums are those of a full
  window, so the strategy does not look ahead; the bars of the chart cover every tick.
\<close>

section \<open>The reference\<close>

definition enters :: "kernel_sizing \<Rightarrow> decimal \<Rightarrow> kernel_row \<Rightarrow> bool" where
  "enters sizing capital row \<longleftrightarrow> kr_direction row \<noteq> 0 \<and> compute_quantity capital sizing > 0"


lemma find_upt_Some:
  assumes "find P [i..<n] = Some j"
  shows "i \<le> j \<and> j < n \<and> P j \<and> (\<forall>m. i \<le> m \<and> m < j \<longrightarrow> \<not> P m)"
proof -
  obtain l where l: "l < n - i" "P (i + l)" "j = i + l" "\<forall>m<l. \<not> P ([i..<n] ! m)"
    using assms by (auto simp: find_Some_iff)
  have "\<not> P m" if "i \<le> m" "m < j" for m
    using l(4) [rule_format, of "m - i"] that l by simp
  then show ?thesis using l by auto
qed

lemma find_upt_None: "find P [i..<n] = None \<Longrightarrow> i \<le> m \<Longrightarrow> m < n \<Longrightarrow> \<not> P m"
  by (auto simp: find_None_iff)

text \<open>
  What the signal of one tick opens, and what another tick makes of it: the position is worth its
  signed distance from the entry, at the side of the book that closes it.
\<close>

definition side_of :: "kernel_row \<Rightarrow> int" where
  "side_of entry = sgn (kr_direction entry)"

definition entry_price :: "kernel_row \<Rightarrow> decimal" where
  "entry_price entry = (if side_of entry = 1 then kr_ask entry else kr_bid entry)"

definition exit_price :: "kernel_row \<Rightarrow> kernel_row \<Rightarrow> decimal" where
  "exit_price entry row = (if side_of entry = 1 then kr_bid row else kr_ask row)"

definition distance :: "kernel_row \<Rightarrow> kernel_row \<Rightarrow> decimal" where
  "distance entry row = of_int (side_of entry) * (exit_price entry row - entry_price entry)"

definition reason_to_exit :: "kernel_row \<Rightarrow> kernel_row \<Rightarrow> ExitReason option" where
  "reason_to_exit entry row =
     (if \<exists>sl\<in>set_option (kr_sl entry). distance entry row \<le> - sl then Some XR_STOP_LOSS
      else if \<exists>tp\<in>set_option (kr_tp entry). distance entry row \<ge> tp then Some XR_TAKE_PROFIT
      else if sgn (kr_direction row) = - side_of entry then Some XR_SIGNAL else None)"

definition reference_trade :: "kernel_row list \<Rightarrow> decimal \<Rightarrow> nat \<Rightarrow> nat \<Rightarrow> ExitReason \<Rightarrow> kernel_trade" where
  "reference_trade rows qty j k reason =
     \<lparr>kt_entry_idx = j, kt_exit_idx = k, kt_entry_price = entry_price (rows ! j), kt_exit_price = exit_price (rows ! j) (rows ! k),
      kt_direction = side_of (rows ! j), kt_quantity = qty, kt_exit_reason = reason\<rparr>"

definition trade_pnl :: "decimal \<Rightarrow> kernel_trade \<Rightarrow> decimal" where
  "trade_pnl point_value t = of_int (kt_direction t) * (kt_exit_price t - kt_entry_price t) * kt_quantity t * point_value"

function reference_trades :: "kernel_sizing \<Rightarrow> decimal \<Rightarrow> kernel_row list \<Rightarrow> nat \<Rightarrow> decimal \<Rightarrow> kernel_trade list" where
  "reference_trades sizing point_value rows i capital =
     (case find (\<lambda>j. enters sizing capital (rows ! j)) [i..<length rows] of
        None \<Rightarrow> []
      | Some j \<Rightarrow>
          let qty = compute_quantity capital sizing in
          (case find (\<lambda>k. reason_to_exit (rows ! j) (rows ! k) \<noteq> None) [Suc j..<length rows] of
             None \<Rightarrow> [reference_trade rows qty j (length rows - 1) XR_END_OF_DAY]
           | Some k \<Rightarrow>
               let t = reference_trade rows qty j k (the (reason_to_exit (rows ! j) (rows ! k))) in
               t # reference_trades sizing point_value rows (Suc k) (capital + trade_pnl point_value t)))"
  by pat_completeness auto
termination
  by (relation "measure (\<lambda>(_, _, rows, i, _). length rows - i)") (auto dest!: find_upt_Some)

declare reference_trades.simps [simp del]

lemma kernel_open_reference:
  assumes "kr_direction entry \<noteq> 0"
  shows "kernel_exit (kernel_open j entry qty) row = reason_to_exit entry row"
    and "kernel_fill_price (kernel_open j entry qty) row = exit_price entry row"
    and "position_pnl pv (kernel_open j entry qty) price =
      of_int (side_of entry) * (price - entry_price entry) * qty * pv"
    and "kp_dir (kernel_open j entry qty) = side_of entry" and "kp_entry_price (kernel_open j entry qty) = entry_price entry"
  using assms
  by (auto simp: kernel_open_def kernel_exit_def reason_to_exit_def distance_def side_of_def entry_price_def exit_price_def
      kernel_fill_price_def position_pnl_def Let_def sgn_if algebra_simps split: if_splits)

lemma kernel_trade_reference:
  assumes "kr_direction (rows ! j) \<noteq> 0"
  shows "kernel_trade_of (kernel_open j (rows ! j) qty) k (exit_price (rows ! j) (rows ! k)) reason = reference_trade rows qty j k reason"
  using kernel_open_reference(4,5) [OF assms] by (simp add: kernel_trade_of_def reference_trade_def kernel_open_def Let_def)

lemma reference_trade_pnl: "trade_pnl pv (reference_trade rows qty j k reason) =
    of_int (side_of (rows ! j)) * (exit_price (rows ! j) (rows ! k) - entry_price (rows ! j)) * qty * pv"
  by (simp add: trade_pnl_def reference_trade_def)

section \<open>The loop\<close>

abbreviation kernel :: "decimal \<Rightarrow> kernel_position option \<Rightarrow> kernel_trade list \<Rightarrow> kernel_state" where
  "kernel capital pos trades \<equiv> \<lparr>ks_capital = capital, ks_position = pos, ks_trades = trades\<rparr>"

definition finish :: "decimal \<Rightarrow> kernel_row list \<Rightarrow> kernel_state \<Rightarrow> kernel_state" where
  "finish point_value rows st = (case ks_position st of
     None \<Rightarrow> st | Some pos \<Rightarrow> kernel_close point_value (length rows - 1) (last rows) XR_END_OF_DAY pos st)"

lemma kernel_loop_skip:
  assumes "\<And>m. i \<le> m \<Longrightarrow> m < j \<Longrightarrow> kernel_step sizing pv m (rows ! m) st = st" and "i \<le> j" and "j \<le> length rows"
  shows "kernel_loop sizing pv i (drop i rows) st = kernel_loop sizing pv j (drop j rows) st"
  using assms(2,3,1)
proof (induction rule: inc_induct)
  case (step m)
  then show ?case by (simp flip: Cons_nth_drop_Suc)
qed simp

lemma kernel_loop_at: "i < length rows \<Longrightarrow>
    kernel_loop sizing pv i (drop i rows) st = kernel_loop sizing pv (Suc i) (drop (Suc i) rows) (kernel_step sizing pv i (rows ! i) st)"
  by (simp flip: Cons_nth_drop_Suc)

lemma kernel_step_idle: "\<not> enters sizing capital row \<Longrightarrow> kernel_step sizing pv i row (kernel capital None ts) = kernel capital None ts"
  by (auto simp: kernel_step_def enters_def Let_def)

lemma kernel_step_enter: "enters sizing capital row \<Longrightarrow> kernel_step sizing pv i row (kernel capital None ts) =
    kernel capital (Some (kernel_open i row (compute_quantity capital sizing))) ts"
  by (auto simp: kernel_step_def enters_def Let_def)

lemma kernel_step_hold: "kernel_exit pos row = None \<Longrightarrow> kernel_step sizing pv i row (kernel capital (Some pos) ts) = kernel capital (Some pos) ts"
  by (simp add: kernel_step_def)

lemma kernel_step_exit: "kernel_exit pos row = Some reason \<Longrightarrow> kernel_step sizing pv i row (kernel capital (Some pos) ts) =
    kernel (capital + position_pnl pv pos (kernel_fill_price pos row)) None (ts @ [kernel_trade_of pos i (kernel_fill_price pos row) reason])"
  by (simp add: kernel_step_def kernel_close_def Let_def)

lemma kernel_loop_reference:
  "finish pv rows (kernel_loop sizing pv i (drop i rows) (kernel capital None ts)) =
   kernel (capital + sum_list (map (trade_pnl pv) (reference_trades sizing pv rows i capital))) None
     (ts @ reference_trades sizing pv rows i capital)"
proof (induction sizing pv rows i capital arbitrary: ts rule: reference_trades.induct)
  case (1 sizing pv rows i capital)
  show ?case
  proof (cases "find (\<lambda>j. enters sizing capital (rows ! j)) [i..<length rows]")
    case None
    have "kernel_loop sizing pv i (drop i rows) (kernel capital None ts) = kernel capital None ts"
    proof (cases "i \<le> length rows")
      case True
      then show ?thesis using kernel_loop_skip [of i "length rows" sizing pv rows "kernel capital None ts"]
          find_upt_None [OF None] by (simp add: kernel_step_idle)
    qed simp
    then show ?thesis using None by (simp add: reference_trades.simps [of _ _ _ i] finish_def)
  next
    case (Some j)
    note j = find_upt_Some [OF Some]
    let ?qty = "compute_quantity capital sizing" and ?pos = "kernel_open j (rows ! j) (compute_quantity capital sizing)"
    have dir: "kr_direction (rows ! j) \<noteq> 0" using j by (simp add: enters_def)
    note open_ref = kernel_open_reference [OF dir] and trade_ref = kernel_trade_reference [OF dir]
    have entered: "kernel_loop sizing pv i (drop i rows) (kernel capital None ts) =
        kernel_loop sizing pv (Suc j) (drop (Suc j) rows) (kernel capital (Some ?pos) ts)"
      using j kernel_loop_skip [of i j sizing pv rows "kernel capital None ts"]
      by (simp add: kernel_step_idle kernel_loop_at kernel_step_enter)
    show ?thesis
    proof (cases "find (\<lambda>k. reason_to_exit (rows ! j) (rows ! k) \<noteq> None) [Suc j..<length rows]")
      case None
      have "kernel_loop sizing pv (Suc j) (drop (Suc j) rows) (kernel capital (Some ?pos) ts) = kernel capital (Some ?pos) ts"
        using j kernel_loop_skip [of "Suc j" "length rows" sizing pv rows "kernel capital (Some ?pos) ts"]
          find_upt_None [OF None] by (simp add: kernel_step_hold open_ref)
      moreover have "last rows = rows ! (length rows - 1)" using j by (intro last_conv_nth) auto
      ultimately show ?thesis using entered Some None
        by (simp add: reference_trades.simps [of _ _ _ i] finish_def kernel_close_def Let_def open_ref trade_ref reference_trade_pnl)
    next
      case (Some k)
      note k = find_upt_Some [OF Some]
      then obtain reason where reason: "reason_to_exit (rows ! j) (rows ! k) = Some reason" by auto
      let ?t = "reference_trade rows ?qty j k reason"
      have "kernel_loop sizing pv (Suc j) (drop (Suc j) rows) (kernel capital (Some ?pos) ts) =
          kernel_loop sizing pv (Suc k) (drop (Suc k) rows) (kernel (capital + trade_pnl pv ?t) None (ts @ [?t]))"
        using k kernel_loop_skip [of "Suc j" k sizing pv rows "kernel capital (Some ?pos) ts"] reason
        by (simp add: kernel_step_hold kernel_loop_at kernel_step_exit open_ref trade_ref reference_trade_pnl)
      moreover have ref: "reference_trades sizing pv rows i capital =
          ?t # reference_trades sizing pv rows (Suc k) (capital + trade_pnl pv ?t)"
        using \<open>find _ [i..<_] = _\<close> Some reason by (simp add: reference_trades.simps [of _ _ _ i] Let_def)
      ultimately show ?thesis
        using entered "1.IH" [OF \<open>find _ [i..<_] = _\<close> refl Some refl, of "ts @ [?t]"] reason
        by (simp add: algebra_simps)
    qed
  qed
qed

lemma simulate_finish: "simulate sizing pv capital rows = finish pv rows (kernel_loop sizing pv 0 rows (kernel capital None []))"
  by (simp add: simulate_def finish_def Let_def)

lemma simulate_reference:
  "simulate sizing pv capital rows =
   kernel (capital + sum_list (map (trade_pnl pv) (reference_trades sizing pv rows 0 capital))) None (reference_trades sizing pv rows 0 capital)"
  using kernel_loop_reference [of pv rows sizing 0 capital "[]"] by (simp add: simulate_finish)

definition trades_within :: "kernel_row list \<Rightarrow> nat \<Rightarrow> kernel_trade list \<Rightarrow> bool" where
  "trades_within rows i ts \<longleftrightarrow> sorted_wrt (\<lambda>t u. kt_exit_idx t < kt_entry_idx u) ts \<and>
     (\<forall>t\<in>set ts. i \<le> kt_entry_idx t \<and> kt_entry_idx t \<le> kt_exit_idx t \<and> kt_exit_idx t < length rows \<and> \<bar>kt_direction t\<bar> = 1)"

lemma trades_within_simps:
  "trades_within rows i []"
  "trades_within rows (Suc (kt_exit_idx t)) ts \<Longrightarrow> i \<le> kt_entry_idx t \<Longrightarrow> kt_entry_idx t \<le> kt_exit_idx t \<Longrightarrow>
   kt_exit_idx t < length rows \<Longrightarrow> \<bar>kt_direction t\<bar> = 1 \<Longrightarrow> trades_within rows i (t # ts)"
  by (auto simp: trades_within_def Suc_le_eq)

lemma reference_trade_idx [simp]:
  "kt_exit_idx (reference_trade rows qty j k reason) = k" "kt_entry_idx (reference_trade rows qty j k reason) = j"
  "kt_direction (reference_trade rows qty j k reason) = side_of (rows ! j)"
  by (simp_all add: reference_trade_def)

lemma enters_side: "enters sizing capital row \<Longrightarrow> \<bar>side_of row\<bar> = 1"
  by (auto simp: enters_def side_of_def sgn_if)

lemma reference_trades_within: "trades_within rows i (reference_trades sizing pv rows i capital)"
proof (induction sizing pv rows i capital rule: reference_trades.induct)
  case (1 sizing pv rows i capital)
  show ?case
  proof (cases "find (\<lambda>j. enters sizing capital (rows ! j)) [i..<length rows]")
    case None
    then show ?thesis by (simp add: reference_trades.simps [of _ _ _ i] trades_within_simps)
  next
    case (Some j)
    note j = find_upt_Some [OF Some]
    then have side: "\<bar>side_of (rows ! j)\<bar> = 1" using enters_side by blast
    show ?thesis
    proof (cases "find (\<lambda>k. reason_to_exit (rows ! j) (rows ! k) \<noteq> None) [Suc j..<length rows]")
      case None
      then show ?thesis using Some j side by (simp add: reference_trades.simps [of _ _ _ i] Let_def) (intro trades_within_simps; auto)
    next
      case (Some k)
      note k = find_upt_Some [OF Some] and IH = "1.IH" [OF \<open>find _ [i..<_] = _\<close> refl Some refl]
      show ?thesis using \<open>find _ [i..<_] = _\<close> Some j k IH side
        by (simp add: reference_trades.simps [of _ _ _ i] Let_def) (intro trades_within_simps; simp)
    qed
  qed
qed

section \<open>The registry of a run\<close>

text \<open>The closed trades of the events, with the identifiers they draw.\<close>

definition closed_event :: "(nat \<Rightarrow> string) \<Rightarrow> int list \<Rightarrow> string \<Rightarrow> decimal \<Rightarrow> nat \<Rightarrow> kernel_trade \<Rightarrow> Trade" where
  "closed_event uuid time_msc symbol pv k e =
     closed_trade (msc_to_datetime (time_msc ! kt_exit_idx e)) (kt_exit_price e) (Some (exit_reason_name (kt_exit_reason e)))
       (trade_of_event (uuid k) (uuid (Suc k)) time_msc symbol pv e)"

primrec event_rows :: "(nat \<Rightarrow> string) \<Rightarrow> int list \<Rightarrow> string \<Rightarrow> decimal \<Rightarrow> nat \<Rightarrow> kernel_trade list \<Rightarrow> (string \<times> Trade) list" where
  "event_rows uuid time_msc symbol pv k [] = []"
| "event_rows uuid time_msc symbol pv k (e # es) =
     (uuid (Suc k), closed_event uuid time_msc symbol pv k e) # event_rows uuid time_msc symbol pv (k + 2) es"

lemma dict_put_fresh: "k \<notin> fst ` set d \<Longrightarrow> dict_put k v d = d @ [(k, v)]"
  by (induction d) auto

lemma dict_put_last: "k \<notin> fst ` set d \<Longrightarrow> dict_put k v (d @ [(k, w)]) = d @ [(k, v)]"
  by (induction d) auto

lemma map_of_last: "k \<notin> fst ` set d \<Longrightarrow> map_of (d @ [(k, w)]) k = Some w"
  by (induction d) auto

lemma trade_of_event_fields [simp]:
  "tr_id (trade_of_event o' i tm symbol pv e) = i" "tr_status (trade_of_event o' i tm symbol pv e) = TR_OPEN"
  by (simp_all add: trade_of_event_def new_trade_def)

lemma register_event_run:
  assumes "uuid (Suc k) \<notin> fst ` set (reg_trades reg)"
  shows "register_event uuid time_msc symbol pv e (k, reg) =
    (k + 2, reg\<lparr>reg_trades := reg_trades reg @ [(uuid (Suc k), closed_event uuid time_msc symbol pv k e)]\<rparr>)"
  using assms
  by (simp add: register_event_def Let_def register_trade_def close_trade_def dict_put_fresh dict_put_last map_of_last closed_event_def
      del: map_of_append)

lemma events_run:
  assumes "inj uuid" and "fst ` set (reg_trades reg) \<subseteq> uuid ` {..<k}"
  shows "fold (register_event uuid time_msc symbol pv) es (k, reg) =
    (k + 2 * length es, reg\<lparr>reg_trades := reg_trades reg @ event_rows uuid time_msc symbol pv k es\<rparr>)"
  using assms(2)
proof (induction es arbitrary: k reg)
  case (Cons e es)
  have "uuid (Suc k) \<notin> fst ` set (reg_trades reg)"
    using Cons.prems assms(1) by (auto dest!: subsetD simp: inj_eq image_iff)
  moreover have "fst ` set (reg_trades reg) \<union> {uuid (Suc k)} \<subseteq> uuid ` {..<k + 2}"
    using Cons.prems by (auto 4 3 dest!: subsetD)
  ultimately show ?case using Cons.IH by (simp add: register_event_run)
qed simp

lemma event_rows_keys: "fst ` set (event_rows uuid time_msc symbol pv k es) \<subseteq> uuid ` {k..<k + 2 * length es}"
proof (induction es arbitrary: k)
  case (Cons e es)
  have "uuid ` {k + 2..<k + 2 + 2 * length es} \<subseteq> uuid ` {k..<k + 2 * length (e # es)}" by (intro image_mono) auto
  then show ?case using Cons.IH [of "k + 2"] by auto
qed simp

lemma event_rows_distinct: "inj uuid \<Longrightarrow> distinct (map fst (event_rows uuid time_msc symbol pv k es))"
proof (induction es arbitrary: k)
  case (Cons e es)
  have "uuid (Suc k) \<notin> fst ` set (event_rows uuid time_msc symbol pv (k + 2) es)"
    using event_rows_keys [of uuid time_msc symbol pv "k + 2" es] Cons.prems by (auto dest!: subsetD simp: inj_eq)
  then show ?case using Cons by auto
qed simp

lemma dict_puts_fresh:
  "distinct (map fst kvs) \<Longrightarrow> fst ` set kvs \<inter> fst ` set d = {} \<Longrightarrow> fold (\<lambda>(k, v). dict_put k v) kvs d = d @ kvs"
  by (induction kvs arbitrary: d) (auto simp: dict_put_fresh)

definition chunk_state :: "TickBacktestEngine \<Rightarrow> TickArrays \<Rightarrow> kernel_state" where
  "chunk_state self chunk = simulate (te_sizing self) (te_point_value self) (te_initial_capital self)
     (kernel_rows chunk (te_compute_signals self chunk))"

abbreviation chunk_rows :: "(nat \<Rightarrow> string) \<Rightarrow> TickBacktestEngine \<Rightarrow> nat \<Rightarrow> TickArrays \<Rightarrow> (string \<times> Trade) list" where
  "chunk_rows uuid self k chunk \<equiv>
     event_rows uuid (ta_time_msc chunk) (te_symbol self) (te_point_value self) k (ks_trades (chunk_state self chunk))"

primrec run_rows :: "(nat \<Rightarrow> string) \<Rightarrow> TickBacktestEngine \<Rightarrow> nat \<Rightarrow> TickArrays list \<Rightarrow> (string \<times> Trade) list" where
  "run_rows uuid self k [] = []"
| "run_rows uuid self k (c # cs) = chunk_rows uuid self k c @ run_rows uuid self (k + 2 * length (ks_trades (chunk_state self c))) cs"

lemma single_chunk_run:
  assumes "inj uuid"
  shows "tick_run_single_chunk uuid self chunk k =
    (k + 2 * length (ks_trades (chunk_state self chunk)), new_registry\<lparr>reg_trades := chunk_rows uuid self k chunk\<rparr>)"
  using events_run [OF assms, of new_registry k]
  by (simp add: tick_run_single_chunk_def events_to_registry_def chunk_state_def new_registry_def)

lemma merge_chunks_run:
  assumes "inj uuid" and "fst ` set (reg_trades reg) \<subseteq> uuid ` {..<k}"
  shows "reg_trades (snd (fold (merge_chunk uuid self) cs (k, reg))) = reg_trades reg @ run_rows uuid self k cs"
  using assms(2)
proof (induction cs arbitrary: k reg)
  case (Cons c cs)
  let ?rows = "chunk_rows uuid self k c" and ?k = "k + 2 * length (ks_trades (chunk_state self c))"
  have keys: "fst ` set ?rows \<subseteq> uuid ` {k..<?k}" by (rule event_rows_keys)
  moreover have "uuid ` {k..<?k} \<inter> uuid ` {..<k} = {}" by (simp add: image_Int [OF assms(1), symmetric] disjoint_iff)
  ultimately have "fst ` set ?rows \<inter> fst ` set (reg_trades reg) = {}" using Cons.prems by blast
  then have "reg_trades (merge reg (new_registry\<lparr>reg_trades := ?rows\<rparr>)) = reg_trades reg @ ?rows"
    by (simp add: merge_def dict_puts_fresh event_rows_distinct [OF assms(1)])
  moreover have "fst ` set (reg_trades reg @ ?rows) \<subseteq> uuid ` {..<?k}" 
  proof -
    have "uuid ` {k..<?k} \<subseteq> uuid ` {..<?k}" "uuid ` {..<k} \<subseteq> uuid ` {..<?k}" by (intro image_mono; auto)+
    then show ?thesis using keys Cons.prems by auto
  qed
  ultimately show ?case using Cons.IH
    by (simp add: merge_chunk_def single_chunk_run [OF assms(1)])
qed simp

section \<open>Days\<close>

lemma neighbours:
  assumes "sorted_wrt (<) (x # bs @ [y :: nat])" and "(a, b) \<in> set (zip (x # bs) (bs @ [y]))"
  shows "x \<le> a \<and> a < b \<and> b \<le> y \<and> (\<forall>m\<in>set bs. \<not> (a < m \<and> m < b))"
  using assms
proof (induction bs arbitrary: x)
  case (Cons c bs)
  show ?case
  proof (cases "(a, b) = (x, c)")
    case True
    then show ?thesis using Cons.prems(1) by (auto simp: sorted_wrt_append)
  next
    case False
    then have "c \<le> a \<and> a < b \<and> b \<le> y \<and> (\<forall>m\<in>set bs. \<not> (a < m \<and> m < b))" using Cons.IH [of c] Cons.prems False by auto
    then show ?thesis using Cons.prems(1) by auto
  qed
qed auto

lemma group_ranges_const:
  assumes "(s, e) \<in> set (group_ranges ids)"
  shows "s < e \<and> e \<le> length ids \<and> (\<forall>m. s \<le> m \<and> m < e \<longrightarrow> ids ! m = ids ! s)"
proof -
  have ne: "ids \<noteq> []" and mem: "(s, e) \<in> set (zip (0 # boundaries ids) (boundaries ids @ [length ids]))"
    using assms by (auto simp: group_ranges_def split: if_splits)
  have "sorted_wrt (<) (0 # boundaries ids @ [length ids])"
    using ne by (auto simp: boundaries_def sorted_wrt_append sorted_wrt_filter)
  note r = neighbours [OF this mem]
  then have se: "s < e" "e \<le> length ids" by blast+
  have "ids ! m = ids ! s" if "s \<le> m" "m < e" for m
    using that
  proof (induction m rule: dec_induct)
    case (step m)
    have "Suc m \<notin> set (boundaries ids)" using r step by auto
    then have "ids ! Suc m = ids ! m" using step r by (simp add: boundaries_def)
    then show ?case using step by simp
  qed simp
  then show ?thesis using se by blast
qed

lemma chunk_of_one_day:
  assumes "chunk \<in> set (split_ticks_by_day ticks)"
  shows "\<exists>d. \<forall>m < length (ta_time_msc chunk). ta_time_msc chunk ! m div 86400000 = d"
proof -
  let ?ids = "map (\<lambda>t. t div 86400000) (ta_time_msc ticks)"
  obtain s e where se: "(s, e) \<in> set (group_ranges ?ids)" "chunk = slice_ticks s e ticks"
    using assms by (auto simp: split_ticks_by_day_def)
  note const = group_ranges_const [OF se(1)]
  have "ta_time_msc chunk ! m div 86400000 = ?ids ! s" if "m < length (ta_time_msc chunk)" for m
  proof -
    have m: "m < e - s" "s + m < length (ta_time_msc ticks)" using that const by (auto simp: se(2) slice_ticks_def)
    then have "ta_time_msc chunk ! m div 86400000 = ?ids ! (s + m)" by (simp add: se(2) slice_ticks_def)
    also have "\<dots> = ?ids ! s" using const m(1) by (metis add.commute le_add2 less_diff_conv)
    finally show ?thesis .
  qed
  then show ?thesis by blast
qed

lemma closed_event_fields:
  "tr_status (closed_event uuid tm symbol pv k e) = TR_CLOSED"
  "tr_entry_time (closed_event uuid tm symbol pv k e) = msc_to_datetime (tm ! kt_entry_idx e)"
  "tr_exit_time (closed_event uuid tm symbol pv k e) = Some (msc_to_datetime (tm ! kt_exit_idx e))"
  "\<bar>kt_direction e\<bar> = 1 \<Longrightarrow> pnl_or_0 (closed_event uuid tm symbol pv k e) = trade_pnl pv e"
  by (auto simp: closed_event_def closed_trade_def trade_of_event_def new_trade_def pnl_or_0_def gross_pnl_def trade_pnl_def abs_if
      algebra_simps split: if_splits)

lemma event_rows_trades:
  "t \<in> snd ` set (event_rows uuid tm symbol pv k es) \<Longrightarrow> \<exists>e\<in>set es. \<exists>k. t = closed_event uuid tm symbol pv k e"
  by (induction es arbitrary: k) auto

lemma event_rows_pnl: "\<forall>e\<in>set es. \<bar>kt_direction e\<bar> = 1 \<Longrightarrow> sum_list (map (pnl_or_0 \<circ> snd) (event_rows uuid tm symbol pv k es)) = sum_list (map (trade_pnl pv) es)"
  by (induction es arbitrary: k) (auto simp: closed_event_fields)

lemma run_rows_pnl:
  "sum_list (map (pnl_or_0 \<circ> snd) (run_rows uuid self k cs)) =
   sum_list (map (\<lambda>c. ks_capital (chunk_state self c) - te_initial_capital self) cs)"
proof (induction cs arbitrary: k)
  case (Cons c cs)
  have "\<forall>e\<in>set (ks_trades (chunk_state self c)). \<bar>kt_direction e\<bar> = 1"
    using reference_trades_within unfolding chunk_state_def simulate_reference trades_within_def by fastforce
  note pnl = event_rows_pnl [OF this, of uuid "ta_time_msc c" "te_symbol self" "te_point_value self" k]
  have "ks_capital (chunk_state self c) - te_initial_capital self = sum_list (map (trade_pnl (te_point_value self)) (ks_trades (chunk_state self c)))"
    by (simp add: chunk_state_def simulate_reference)
  then show ?case using Cons.IH pnl by (simp add: comp_def)
qed simp

lemma run_rows_trades:
  "t \<in> snd ` set (run_rows uuid self k cs) \<Longrightarrow>
   \<exists>c\<in>set cs. \<exists>e\<in>set (ks_trades (chunk_state self c)). \<exists>k. t = closed_event uuid (ta_time_msc c) (te_symbol self) (te_point_value self) k e"
proof (induction cs arbitrary: k)
  case (Cons c cs)
  let ?k = "k + 2 * length (ks_trades (chunk_state self c))"
  have "t \<in> snd ` set (chunk_rows uuid self k c) \<or> t \<in> snd ` set (run_rows uuid self ?k cs)"
    using Cons.prems by (simp add: image_Un)
  then show ?case using event_rows_trades Cons.IH [of ?k] by (meson list.set_intros)
qed simp

lemma chunk_event_within:
  assumes "chunk \<in> set (split_ticks_by_day ticks)" and "length (ta_bid ticks) = length (ta_time_msc ticks)"
    and "e \<in> set (ks_trades (chunk_state self chunk))"
  shows "kt_entry_idx e < length (ta_time_msc chunk) \<and> kt_exit_idx e < length (ta_time_msc chunk)"
proof -
  have "length (kernel_rows chunk signals) \<le> length (ta_time_msc chunk)" for signals

  proof -
    have "length (kernel_rows chunk signals) \<le> length (ta_bid chunk)" by (simp add: kernel_rows_def)
    also have "\<dots> = length (ta_time_msc chunk)" using assms(1,2) by (auto simp: split_ticks_by_day_def slice_ticks_def)
    finally show ?thesis .
  qed
  moreover have "kt_entry_idx e \<le> kt_exit_idx e \<and> kt_exit_idx e < length (kernel_rows chunk (te_compute_signals self chunk))"
    using assms(3) reference_trades_within unfolding chunk_state_def simulate_reference trades_within_def by fastforce
  ultimately show ?thesis by (meson le_less_trans less_le_trans)
qed

lemma day_run_trades:
  assumes "inj uuid"
  shows "get_all_trades (tick_run uuid self ticks True) = map snd (run_rows uuid self 0 (split_ticks_by_day ticks))"
  using merge_chunks_run [OF assms, of new_registry 0 self "split_ticks_by_day ticks"]
  by (cases "ta_time_msc ticks = []")
    (simp_all add: tick_run_def get_all_trades_def new_registry_def split_ticks_by_day_def group_ranges_def)

lemma date_of_msc: "date_of (msc_to_datetime m) = m div 86400000"
  using div_mult_mult2 [of 1000 m 86400000] by (simp add: date_of_def msc_to_datetime_def)

section \<open>The strategy\<close>

lemma length_cumsum [simp]: "length (cumsum_from a xs) = length xs"
  by (induction xs arbitrary: a) auto

lemma cumsum_nth: "i < length xs \<Longrightarrow> cumsum_from a xs ! i = a + sum_list (take (Suc i) xs)"
  by (induction xs arbitrary: a i) (auto simp: nth_Cons' algebra_simps take_Cons' gr0_conv_Suc)

lemma finite_values_Fin [simp]: "finite_values (map Fin xs) = xs"
  by (induction xs) auto

lemma rolling_sma_nth:
  assumes "0 < p" and "p \<le> int (length xs)" and "i < length xs"
  shows "rolling_sma xs p ! i = (if Suc i < nat p then NaN
    else Fin ((sum_list (take (Suc i) xs) - sum_list (take (Suc i - nat p) xs)) / of_int p))"
proof (cases "Suc i < nat p")
  case False
  define q where "q = nat p"
  have q: "0 < q" "q \<le> length xs" "q \<le> Suc i" "p = int q" using assms False by (auto simp: q_def)
  define d where "d = Suc i - q"
  have i: "i - (q - 1) = d" "\<not> i < q - 1" "q - 1 + d = i" "d < Suc (length xs - q)" using q assms(3) by (auto simp: d_def)
  have "(0 # take (length xs - q) (cumsum xs)) ! d = sum_list (take d xs)"
    using i(4) q by (cases d) (auto simp: cumsum_nth)
  moreover have "rolling_sma xs p ! i = Fin ((drop (q - 1) (cumsum xs) ! d - (0 # take (length xs - q) (cumsum xs)) ! d) / of_int p)"
    using i(1,2,4) q assms by (simp add: rolling_sma_def Let_def nth_append flip: q_def del: drop_eq_Nil)
  moreover have "drop (q - 1) (cumsum xs) ! d = sum_list (take (Suc i) xs)" using i(3) assms(3) by (simp add: cumsum_nth)
  ultimately show ?thesis using False by (simp add: d_def q_def)
qed (use assms in \<open>simp add: rolling_sma_def Let_def nth_append\<close>)

lemma length_rolling_sma [simp]: "length (rolling_sma xs p) = length xs"
  by (auto simp: rolling_sma_def Let_def)

text \<open>Running sums give the mean of a full window.\<close>

lemma rolling_sma_is_mean:
  assumes "0 < p"
  shows "rolling p agg_mean (map Fin xs) = Inr (rolling_sma xs p)"
proof -
  have "window_value (nat p) agg_mean (map Fin (take (Suc i) xs)) = rolling_sma xs p ! i" if i: "i < length xs" for i
  proof (cases "p \<le> int (length xs)")
    case True
    let ?past = "take (Suc i) xs" and ?d = "Suc i - nat p"
    have obs: "finite_values (drop (length (map Fin ?past) - nat p) (map Fin ?past)) = drop ?d ?past"
    proof -
      have "length (map Fin ?past) = Suc i" using i by simp
      then show ?thesis by (simp add: drop_map)
    qed
    have len: "length (drop ?d ?past) = min (Suc i) (nat p)" using i by auto
    have "sum_list (take ?d xs) + sum_list (drop ?d ?past) = sum_list ?past"
      using i by (metis append_take_drop_id diff_le_self min.absorb1 sum_list_append take_take)
    then have sum: "sum_list (drop ?d ?past) = sum_list ?past - sum_list (take ?d xs)" by simp
    have full: "agg_mean (drop ?d ?past) = Fin ((sum_list ?past - sum_list (take ?d xs)) / of_int p)" if "\<not> Suc i < nat p"
    proof -
      have "length (drop ?d ?past) = nat p" using len that by simp
      moreover from this have "drop ?d ?past \<noteq> []" using assms by (metis len list.size(3) less_numeral_extra(3) zero_less_nat_eq)
      ultimately show ?thesis using assms by (simp only: agg_mean_def sum if_False) simp
    qed
    show ?thesis unfolding window_value_def obs Let_def len rolling_sma_nth [OF assms True i] using full by auto
  next
    case False
    have "length (drop d (take (Suc i) xs)) < nat p" for d using False i by auto
    then show ?thesis using False i by (simp add: window_value_def rolling_sma_def Let_def drop_map del: length_drop length_take)
  qed
  then have "on_history (window_value (nat p) agg_mean) (map Fin xs) = rolling_sma xs p"
    by (intro nth_equalityI) (simp_all add: on_history_def take_map)
  then show ?thesis using assms by (simp add: rolling_def)
qed

lemma rolling_sma_take [causal]: "rolling_sma (take n xs) p = take n (rolling_sma xs p)"
proof (cases "0 < p")
  case True
  have "Inr (rolling_sma (take n xs) p) = (Inr (take n (rolling_sma xs p)) :: series_error + series)"
    using rolling_sma_is_mean [OF True, of "take n xs"] rolling_sma_is_mean [OF True, of xs] rolling_take [of p agg_mean n "map Fin xs"]
    by (simp add: take_map)
  then show ?thesis by simp
qed (auto simp: rolling_sma_def Let_def take_replicate)

definition take_ticks :: "nat \<Rightarrow> TickArrays \<Rightarrow> TickArrays" where
  "take_ticks n ticks = \<lparr>ta_time_msc = take n (ta_time_msc ticks), ta_bid = take n (ta_bid ticks), ta_ask = take n (ta_ask ticks),
     ta_last = take n (ta_last ticks), ta_volume = take n (ta_volume ticks)\<rparr>"

definition take_signals :: "nat \<Rightarrow> TickSignals \<Rightarrow> TickSignals" where
  "take_signals n signals = \<lparr>ts_direction = take n (ts_direction signals), ts_sl_points = take n (ts_sl_points signals),
     ts_tp_points = take n (ts_tp_points signals)\<rparr>"

lemma kernel_rows_take: "kernel_rows (take_ticks n ticks) (take_signals n signals) = take n (kernel_rows ticks signals)"
  by (simp add: kernel_rows_def take_ticks_def take_signals_def causal)

text \<open>
  The contract of \<^verbatim>\<open>TickStrategy.compute_signals\<close>, strict causality, and what it gives: the state of
  the kernel after some ticks depends on those ticks only.
\<close>

locale tick_strategy =
  fixes compute :: "TickArrays \<Rightarrow> TickSignals"
  assumes compute_take: "compute (take_ticks n ticks) = take_signals n (compute ticks)"
begin

lemma kernel_ignores_later_ticks:
  assumes "take_ticks n ticks = take_ticks n ticks'"
  shows "kernel_loop sizing pv 0 (take n (kernel_rows ticks (compute ticks))) st =
    kernel_loop sizing pv 0 (take n (kernel_rows ticks' (compute ticks'))) st"
  using assms by (metis compute_take kernel_rows_take)

end

interpretation breakout: tick_strategy "breakout_signals self"
  by unfold_locales (simp add: breakout_signals_def breakout_delta_def Let_def take_ticks_def take_signals_def causal)

section \<open>The chart\<close>

lemma widen_bars_bounded:
  "0 < bar_ms \<Longrightarrow> 0 < widen_bars span_msc bar_ms \<and> (span_msc div widen_bars span_msc bar_ms \<le> 50000 \<or> 86400000 < widen_bars span_msc bar_ms)"
proof (induction span_msc bar_ms rule: widen_bars.induct)
  case (1 span_msc bar_ms)
  show ?case
  proof (cases "span_msc \<le> 0")
    case True
    then have "span_msc div bar_ms \<le> 0" using 1(2) by (metis div_nonpos_pos_le0 less_imp_le)
    then show ?thesis using 1(2) True by (subst (1 2 3) widen_bars.simps) auto
  next
    case False
    then show ?thesis using 1 by (subst (1 2 3) widen_bars.simps) (auto simp: not_less)
  qed
qed

lemma display_widths_positive: "map_of DISPLAY_TIMEFRAME_MS tf = Some w \<Longrightarrow> 0 < w"
  by (drule map_of_SomeD) (auto simp: DISPLAY_TIMEFRAME_MS_def)

lemma chart_bar_bounds:
  assumes "bar \<in> set (fst (resample_ticks_to_bars ticks bar_ms))" and "length (mid_price ticks) = length (ta_time_msc ticks)"
  shows "cb_low bar \<le> cb_open bar \<and> cb_open bar \<le> cb_high bar \<and> cb_low bar \<le> cb_close bar \<and> cb_close bar \<le> cb_high bar"
proof -
  let ?ids = "map (\<lambda>t. t div bar_ms) (ta_time_msc ticks)"
  obtain s e where se: "(s, e) \<in> set (group_ranges ?ids)" "bar = chart_bar_of ticks bar_ms (s, e)"
    using assms(1) by (auto simp: resample_ticks_to_bars_def Let_def)
  define prices where "prices = take (e - s) (drop s (mid_price ticks))"
  have "prices \<noteq> []" using group_ranges_const [OF se(1)] assms(2) by (auto simp: prices_def)
  then show ?thesis by (simp add: se(2) chart_bar_of_def Let_def flip: prices_def)
qed

section \<open>Properties\<close>

text \<open>
  C9. The compiled tick loop is equivalent to its specification: from the last exit on, the next
  position is opened at the first tick whose signal can be sized, at the side of the book it has
  to pay, and closed at the first later tick that reaches the stop, the target or an opposite
  signal, in this order, or at the last tick. The trades lie within the ticks and do not overlap, and
  the capital is the initial one plus the results of the trades.
\<close>

theorem tick_kernel_matches_reference:
  "simulate sizing pv capital rows =
     \<lparr>ks_capital = capital + sum_list (map (trade_pnl pv) (reference_trades sizing pv rows 0 capital)), ks_position = None,
      ks_trades = reference_trades sizing pv rows 0 capital\<rparr> \<and>
   trades_within rows 0 (reference_trades sizing pv rows 0 capital)"
  by (simp add: simulate_reference reference_trades_within)

text \<open>
  C14. A day-trading run over ticks registers only closed trades, each closed on the day it was
  opened, and their total result is what the kernel earned on the days, each of which starts with
  the initial capital. Identifiers drawn for different trades differ.
\<close>

theorem tick_day_trades_accounted:
  assumes "inj uuid" and "length (ta_bid ticks) = length (ta_time_msc ticks)"
  shows "(\<forall>t\<in>set (get_all_trades (tick_run uuid self ticks True)).
       tr_status t = TR_CLOSED \<and> map_option date_of (tr_exit_time t) = Some (date_of (tr_entry_time t))) \<and>
     sum_list (map pnl_or_0 (get_all_trades (tick_run uuid self ticks True))) =
     sum_list (map (\<lambda>day. ks_capital (simulate (te_sizing self) (te_point_value self) (te_initial_capital self)
         (kernel_rows day (te_compute_signals self day))) - te_initial_capital self) (split_ticks_by_day ticks))"
proof (intro conjI ballI)
  let ?rows = "run_rows uuid self 0 (split_ticks_by_day ticks)"
  show "sum_list (map pnl_or_0 (get_all_trades (tick_run uuid self ticks True))) =
     sum_list (map (\<lambda>day. ks_capital (simulate (te_sizing self) (te_point_value self) (te_initial_capital self)
         (kernel_rows day (te_compute_signals self day))) - te_initial_capital self) (split_ticks_by_day ticks))"
    using run_rows_pnl [of uuid self 0 "split_ticks_by_day ticks"] by (simp add: day_run_trades [OF assms(1)] chunk_state_def)
  fix t assume "t \<in> set (get_all_trades (tick_run uuid self ticks True))"
  then have "t \<in> snd ` set ?rows" by (simp add: day_run_trades [OF assms(1)])
  then obtain c e k where c: "c \<in> set (split_ticks_by_day ticks)" and e: "e \<in> set (ks_trades (chunk_state self c))"
    and t: "t = closed_event uuid (ta_time_msc c) (te_symbol self) (te_point_value self) k e"
    using run_rows_trades by blast
  show "tr_status t = TR_CLOSED" by (simp add: t closed_event_fields)
  show "map_option date_of (tr_exit_time t) = Some (date_of (tr_entry_time t))"
    using chunk_of_one_day [OF c] chunk_event_within [OF c assms(2) e] by (auto simp: t closed_event_fields date_of_msc)
qed

definition ex_ticks :: TickArrays where
  "ex_ticks = \<lparr>ta_time_msc = [0, 1, 2, 86400000, 86400001], ta_bid = [99, 104, 104, 100, 98], ta_ask = [100, 105, 105, 101, 99],
     ta_last = [100, 105, 105, 101, 99], ta_volume = [1, 1, 1, 1, 1]\<rparr>"

definition ex_tick_engine :: TickBacktestEngine where
  "ex_tick_engine = \<lparr>te_compute_signals = (\<lambda>ticks. \<lparr>ts_direction = map (\<lambda>_. 1) (ta_last ticks),
       ts_sl_points = map (\<lambda>_. None) (ta_last ticks), ts_tp_points = map (\<lambda>_. Some 4) (ta_last ticks)\<rparr>),
     te_sizing = SIZING_FIXED_QUANTITY 2, te_initial_capital = 1000, te_point_value = 1, te_symbol = ''WIN''\<rparr>"

theorem tick_day_trades_accounted_witness:
  "length (get_all_trades (tick_run (\<lambda>k. replicate k CHR ''x'') ex_tick_engine ex_ticks True)) = 3 \<and>
   list_all (\<lambda>t. tr_status t = TR_CLOSED \<and> map_option date_of (tr_exit_time t) = Some (date_of (tr_entry_time t)))
     (get_all_trades (tick_run (\<lambda>k. replicate k CHR ''x'') ex_tick_engine ex_ticks True))"
proof -
  have "inj (\<lambda>k. replicate k CHR ''x'')" by (rule injI) (metis length_replicate)
  moreover have "length (ta_bid ex_ticks) = length (ta_time_msc ex_ticks)" by (simp add: ex_ticks_def)
  moreover have "length (get_all_trades (tick_run (\<lambda>k. replicate k CHR ''x'') ex_tick_engine ex_ticks True)) = 3" by code_simp
  ultimately show ?thesis using tick_day_trades_accounted [of "\<lambda>k. replicate k CHR ''x''" ex_ticks ex_tick_engine]
    unfolding list_all_iff by blast
qed

end
