(* ===== verification/Composite.thy ===== *)
theory Composite
  imports Bt_Session Bt_Registry
begin

text \<open>
  The interpreter of compiled genomes, \<^verbatim>\<open>backtesting/genome/composite_strategy.py\<close> with
  \<^verbatim>\<open>feature_nodes.py\<close>, \<^verbatim>\<open>resolve_exit_params_from_policy\<close> of \<^verbatim>\<open>exit_rule_policy.py\<close> and the column names
  of \<^verbatim>\<open>market_data/exogenous_columns.py\<close>. A node computes a column for each of its ports; a strategy
  object keeps the columns it computed under the cache key of the node, until it is given a frame of
  another length. The values of a trained encoder (\<open>ind.latent\<close>) are a parameter. A node that reads a
  column of another type than its specification gives, which validation excludes, raises; the high and
  low of an opening range are read before they are needed.
\<close>

section \<open>Errors, parameters, inputs\<close>

datatype composite_error =
    ParamError genome_error
  | FrameError series_error
  | CompositeIndexError
  | CompositeValueError string

abbreviation in_param :: "genome_error + 'a \<Rightarrow> composite_error + 'a" where
  "in_param \<equiv> map_sum ParamError id"

definition in_frame :: "series_error + 'a \<Rightarrow> composite_error + 'a" where
  "in_frame r = map_sum FrameError id r"

type_synonym resolved_params = "(string \<times> pyval) list"

definition p_int :: "resolved_params \<Rightarrow> string \<Rightarrow> composite_error + int" where
  "p_int params key = in_param (need params key py_int)"

definition p_float :: "resolved_params \<Rightarrow> string \<Rightarrow> composite_error + decimal" where
  "p_float params key = in_param (need params key py_float)"

definition p_str :: "resolved_params \<Rightarrow> string \<Rightarrow> composite_error + string" where
  "p_str params key = in_param (need params key (\<lambda>v. Inr (py_str v)))"

type_synonym outputs = "(string \<times> column) list"

definition get_col :: "string \<Rightarrow> DataFrame \<Rightarrow> composite_error + column" where
  "get_col c df = (case df_columns df c of None \<Rightarrow> Inl (FrameError (SeriesKeyError c)) | Some col \<Rightarrow> Inr col)"

definition num :: "string \<Rightarrow> DataFrame \<Rightarrow> composite_error + series" where
  "num c df = in_frame (get_num c df)"

definition binding_series :: "CompiledNode \<Rightarrow> nat \<Rightarrow> DataFrame \<Rightarrow> composite_error + series" where
  "binding_series compiled i df = (if i < length (cn_input_bindings compiled)
     then num (ib_column (cn_input_bindings compiled ! i)) df else Inl CompositeIndexError)"

definition binding_flags :: "CompiledNode \<Rightarrow> nat \<Rightarrow> DataFrame \<Rightarrow> composite_error + bool option list" where
  "binding_flags compiled i df = (if i < length (cn_input_bindings compiled)
     then in_frame (get_bool (ib_column (cn_input_bindings compiled ! i)) df) else Inl CompositeIndexError)"

definition out_series :: "composite_error + series \<Rightarrow> composite_error + outputs" where
  "out_series r = map_sum id (\<lambda>xs. [(''out'', NumCol xs)]) r"

definition out_flags :: "composite_error + bool list \<Rightarrow> composite_error + outputs" where
  "out_flags r = map_sum id (\<lambda>bs. [(''out'', flags bs)]) r"

section \<open>Sources\<close>

definition symbol_namespace :: "string \<Rightarrow> string" where
  "symbol_namespace symbol = concat (map (\<lambda>c. if c = CHR ''$'' then [] else if c = CHR ''/'' \<or> c = CHR 0x5C then ''_'' else [c]) symbol)"

definition exog_column_name :: "string \<Rightarrow> string \<Rightarrow> string" where
  "exog_column_name symbol sfx = ''exog_'' @ symbol_namespace symbol @ ''_'' @ sfx"

definition resolve_exog_column :: "DataFrame \<Rightarrow> string \<Rightarrow> string \<Rightarrow> composite_error + column" where
  "resolve_exog_column df symbol sfx = get_col (exog_column_name symbol sfx) df"

text \<open>\<^verbatim>\<open>astype(bool)\<close>: a missing value is true.\<close>

primrec as_bool :: "column \<Rightarrow> column" where
  "as_bool (NumCol xs) = flags (map (\<lambda>x. x \<noteq> Fin 0) xs)"
| "as_bool (BoolCol bs) = flags (map (\<lambda>b. b \<noteq> Some False) bs)"

definition exog_suffix :: "string \<Rightarrow> resolved_params \<Rightarrow> composite_error + string" where
  "exog_suffix kind params =
     (if kind = ''source.exog.close'' then Inr ''close''
      else if kind = ''source.exog.return'' then
        andthen (p_int params ''lookback_bars'') (\<lambda>lookback. Inr (''return_'' @ int_str lookback))
      else if kind = ''source.exog.return_zscore'' then
        andthen (p_int params ''lookback_bars'') (\<lambda>lookback. andthen (p_int params ''window'') (\<lambda>window.
          Inr (''return_zscore_'' @ int_str lookback @ ''_'' @ int_str window)))
      else if kind = ''source.exog.rolling_corr'' then
        andthen (p_int params ''window'') (\<lambda>window. Inr (''rolling_corr_'' @ int_str window))
      else if kind = ''source.exog.relative_strength'' then
        andthen (p_int params ''lookback_bars'') (\<lambda>lookback. Inr (''relative_strength_'' @ int_str lookback))
      else if kind = ''source.exog.vol_regime'' then
        andthen (p_int params ''vol_window'') (\<lambda>vol_window. Inr (''vol_regime_'' @ int_str vol_window))
      else andthen (p_int params ''lookback_bars'') (\<lambda>lookback. Inr (''direction_regime_'' @ int_str lookback)))"

definition exog_kinds :: "string list" where
  "exog_kinds = [''source.exog.close'', ''source.exog.return'', ''source.exog.return_zscore'', ''source.exog.rolling_corr'',
     ''source.exog.relative_strength'', ''source.exog.vol_regime'', ''source.exog.direction_regime'']"

definition exog_outputs :: "string \<Rightarrow> resolved_params \<Rightarrow> DataFrame \<Rightarrow> composite_error + outputs" where
  "exog_outputs kind params df =
     andthen (exog_suffix kind params) (\<lambda>sfx. andthen (p_str params ''symbol'') (\<lambda>symbol.
     andthen (resolve_exog_column df symbol sfx) (\<lambda>col.
       Inr [(''out'', if kind \<in> {''source.exog.vol_regime'', ''source.exog.direction_regime''} then as_bool col else col)])))"

definition price_sources :: "(string \<times> string) list" where
  "price_sources = [(''source.close'', ''close''), (''source.high'', ''high''), (''source.low'', ''low''), (''source.open'', ''open''),
     (''source.volume'', ''volume'')]"

section \<open>Indicators\<close>

definition average_outputs :: "CompiledNode \<Rightarrow> string \<Rightarrow> resolved_params \<Rightarrow> DataFrame \<Rightarrow> composite_error + outputs" where
  "average_outputs compiled kind params df =
     (if kind = ''ind.ma'' then
        andthen (binding_series compiled 0 df) (\<lambda>source. andthen (p_int params ''period'') (\<lambda>period.
        andthen (in_param (need params ''ma_type'' py_ma_type)) (\<lambda>ma_type. out_series (in_frame (compute_ma source period ma_type)))))
      else if kind = ''ind.ema'' then
        andthen (binding_series compiled 0 df) (\<lambda>source. andthen (p_int params ''period'') (\<lambda>period.
          out_series (in_frame (compute_ma source period ''ema''))))
      else if kind = ''ind.rsi'' then
        andthen (binding_series compiled 0 df) (\<lambda>source. andthen (p_int params ''period'') (\<lambda>period.
          out_series (in_frame (compute_rsi source period))))
      else
        andthen (num ''high'' df) (\<lambda>high. andthen (num ''low'' df) (\<lambda>low. andthen (num ''close'' df) (\<lambda>close.
        andthen (p_int params ''period'') (\<lambda>period. out_series (in_frame (compute_atr high low close period)))))))"

definition macd_outputs :: "CompiledNode \<Rightarrow> resolved_params \<Rightarrow> DataFrame \<Rightarrow> composite_error + outputs" where
  "macd_outputs compiled params df =
     andthen (binding_series compiled 0 df) (\<lambda>source.
     andthen (p_int params ''fast_period'') (\<lambda>fast. andthen (p_int params ''slow_period'') (\<lambda>slow.
     andthen (p_int params ''signal_period'') (\<lambda>signal.
     andthen (in_frame (compute_macd source fast slow signal)) (\<lambda>(macd_line, signal_line, histogram).
       Inr [(''macd'', NumCol macd_line), (''macd_signal'', NumCol signal_line), (''macd_histogram'', NumCol histogram)])))))"

definition bollinger_outputs :: "numerics \<Rightarrow> CompiledNode \<Rightarrow> resolved_params \<Rightarrow> DataFrame \<Rightarrow> composite_error + outputs" where
  "bollinger_outputs np compiled params df =
     andthen (binding_series compiled 0 df) (\<lambda>source.
     andthen (p_int params ''period'') (\<lambda>period. andthen (p_float params ''num_std'') (\<lambda>num_std.
     andthen (in_frame (compute_bollinger_bands np source period num_std)) (\<lambda>(upper, middle, lower).
       Inr [(''bb_upper'', NumCol upper), (''bb_middle'', NumCol middle), (''bb_lower'', NumCol lower)]))))"

definition donchian_outputs :: "resolved_params \<Rightarrow> DataFrame \<Rightarrow> composite_error + outputs" where
  "donchian_outputs params df =
     andthen (num ''high'' df) (\<lambda>high. andthen (num ''low'' df) (\<lambda>low. andthen (p_int params ''period'') (\<lambda>period.
     andthen (in_frame (compute_donchian_channels high low period)) (\<lambda>(upper, lower).
       Inr [(''donchian_upper'', NumCol upper), (''donchian_lower'', NumCol lower)]))))"

definition momentum_outputs :: "CompiledNode \<Rightarrow> resolved_params \<Rightarrow> DataFrame \<Rightarrow> composite_error + outputs" where
  "momentum_outputs compiled params df =
     andthen (binding_series compiled 0 df) (\<lambda>source. andthen (p_int params ''lookback_bars'') (\<lambda>lookback.
       out_series (Inr (past_return lookback source))))"

definition realized_vol_outputs :: "numerics \<Rightarrow> CompiledNode \<Rightarrow> resolved_params \<Rightarrow> DataFrame \<Rightarrow> composite_error + outputs" where
  "realized_vol_outputs np compiled params df =
     andthen (binding_series compiled 0 df) (\<lambda>source. andthen (p_int params ''window'') (\<lambda>window.
       if py_str (get_or params ''estimator'' (PyStr ''close_to_close'')) = ''yang_zhang'' \<and>
          list_all (\<lambda>c. has_column c df) [''open'', ''high'', ''low'', ''close'']
       then out_series (in_frame (compute_volatility np ''yang_zhang'' window df))
       else out_series (in_frame (compute_realized_vol np source window))))"

definition pair_outputs :: "CompiledNode \<Rightarrow> string \<Rightarrow> DataFrame \<Rightarrow> composite_error + outputs" where
  "pair_outputs compiled kind df =
     andthen (binding_series compiled 0 df) (\<lambda>left. andthen (binding_series compiled 1 df) (\<lambda>right.
       out_series (Inr (if kind = ''ind.diff'' then ssub left right else map (\<lambda>x. fsub x (Fin 1)) (sdiv left right)))))"

definition trb_outputs :: "CompiledNode \<Rightarrow> resolved_params \<Rightarrow> DataFrame \<Rightarrow> composite_error + outputs" where
  "trb_outputs compiled params df =
     andthen (binding_series compiled 0 df) (\<lambda>close.
     andthen (p_int params ''period'') (\<lambda>period. andthen (p_float params ''band_pct'') (\<lambda>band_pct.
     andthen (in_frame (compute_trb_channel_signals period band_pct \<lparr>df_index = df_index df, df_columns = [''close'' \<mapsto> NumCol close]\<rparr>)) (\<lambda>tmp.
     andthen (get_col ''channel_high'' tmp) (\<lambda>channel_high. andthen (get_col ''channel_low'' tmp) (\<lambda>channel_low.
     andthen (get_col ''trb_upper'' tmp) (\<lambda>trb_upper. andthen (get_col ''trb_lower'' tmp) (\<lambda>trb_lower.
       Inr [(''channel_high'', channel_high), (''channel_low'', channel_low), (''trb_upper'', trb_upper), (''trb_lower'', trb_lower)]))))))))"

definition ma_band_outputs :: "CompiledNode \<Rightarrow> resolved_params \<Rightarrow> DataFrame \<Rightarrow> composite_error + outputs" where
  "ma_band_outputs compiled params df =
     andthen (binding_series compiled 0 df) (\<lambda>ma. andthen (p_float params ''band_pct'') (\<lambda>band_pct.
       Inr [(''ma_band_upper'', NumCol (sscale (Fin (1 + band_pct / 100)) ma)),
            (''ma_band_lower'', NumCol (sscale (Fin (1 - band_pct / 100)) ma))]))"

definition tsmom_outputs :: "numerics \<Rightarrow> resolved_params \<Rightarrow> DataFrame \<Rightarrow> composite_error + outputs" where
  "tsmom_outputs np params df =
     andthen (p_int params ''lookback_bars'') (\<lambda>lookback. andthen (p_int params ''rebalance_bars'') (\<lambda>rebalance_bars.
     andthen (p_int params ''vol_window'') (\<lambda>vol_window. andthen (p_str params ''vol_estimator'') (\<lambda>vol_estimator.
     andthen (num ''close'' df) (\<lambda>close.
     andthen (in_frame (compute_volatility np vol_estimator vol_window df)) (\<lambda>volatility.
       let momentum = past_return lookback close;
           (buy, sell) = rebalance_flips (map (rebalances rebalance_bars) (bar_numbers df)) momentum
       in Inr [(''momentum'', NumCol momentum), (''volatility'', NumCol volatility), (''buy_signal'', flags buy),
            (''sell_signal'', flags sell)]))))))"

definition trend_blend_outputs :: "numerics \<Rightarrow> CompiledNode \<Rightarrow> resolved_params \<Rightarrow> DataFrame \<Rightarrow> composite_error + outputs" where
  "trend_blend_outputs np compiled params df =
     andthen (binding_series compiled 0 df) (\<lambda>source.
     andthen (p_int params ''lookback_1'') (\<lambda>l1. andthen (p_int params ''lookback_2'') (\<lambda>l2.
     andthen (p_int params ''lookback_3'') (\<lambda>l3. andthen (p_int params ''vol_window'') (\<lambda>vol_w.
     andthen (in_frame (compute_realized_vol np source vol_w)) (\<lambda>volatility.
       let sign = (\<lambda>l. map fsign (past_return l source)) in
       Inr [(''out'', NumCol (map (\<lambda>x. fdiv x (Fin 3)) (sadd (sadd (sign l1) (sign l2)) (sign l3)))),
            (''volatility'', NumCol volatility)]))))))"

text \<open>The encoder, when a model is configured: the column of a latent variable over a frame.\<close>

type_synonym latent_model = "(int \<Rightarrow> DataFrame \<Rightarrow> composite_error + series) option"

definition latent_outputs :: "latent_model \<Rightarrow> resolved_params \<Rightarrow> DataFrame \<Rightarrow> composite_error + outputs" where
  "latent_outputs latent params df = (case latent of
     None \<Rightarrow> out_series (Inr (map (\<lambda>_. NaN) (df_index df)))
   | Some encode \<Rightarrow> andthen (in_param (py_int (get_or params ''latent_index'' (PyInt 0)))) (\<lambda>latent_index.
       out_series (encode latent_index df)))"

section \<open>Transforms\<close>

definition transform_outputs :: "numerics \<Rightarrow> CompiledNode \<Rightarrow> string \<Rightarrow> resolved_params \<Rightarrow> DataFrame \<Rightarrow> composite_error + outputs" where
  "transform_outputs np compiled kind params df =
     andthen (binding_series compiled 0 df) (\<lambda>source.
       if kind = ''transform.shift'' then
         andthen (in_param (py_int (get_or params ''bars'' (PyInt 1)))) (\<lambda>bars. out_series (Inr (shift bars source)))
       else if kind = ''transform.abs'' then out_series (Inr (map fabs source))
       else if kind = ''transform.scale'' then andthen (p_float params ''factor'') (\<lambda>factor. out_series (Inr (sscale (Fin factor) source)))
       else if kind = ''transform.zscore'' then
         andthen (p_int params ''window'') (\<lambda>window. out_series (in_frame (compute_rolling_zscore np source window)))
       else if kind = ''transform.rank'' then
         andthen (p_int params ''window'') (\<lambda>window. out_series (in_frame (compute_rolling_rank source window)))
       else if kind = ''transform.pct_change'' then
         andthen (p_int params ''change_bars'') (\<lambda>change_bars. out_series (in_frame (compute_pct_change source change_bars)))
       else
         andthen (p_float params ''clip_low'') (\<lambda>clip_low. andthen (p_float params ''clip_high'') (\<lambda>clip_high.
           out_series (in_frame (compute_clip source clip_low clip_high)))))"

section \<open>Features\<close>

definition time_feature :: "string \<Rightarrow> resolved_params \<Rightarrow> DataFrame \<Rightarrow> composite_error + outputs" where
  "time_feature kind params df =
     (let index = df_index df in
      if kind = ''feature.minutes_from_open'' then
        andthen (p_str params ''session_open'') (\<lambda>session_open. out_series (in_frame (compute_minutes_from_open index session_open)))
      else if kind = ''feature.time_of_day'' then
        andthen (p_str params ''session_open'') (\<lambda>session_open. andthen (p_str params ''session_close'') (\<lambda>session_close.
          out_series (in_frame (compute_time_of_day index session_open session_close))))
      else if kind = ''feature.day_of_week'' then out_series (Inr (compute_day_of_week index))
      else if kind = ''feature.month_of_year'' then out_series (Inr (compute_month_of_year index))
      else andthen (p_str params ''window_from'') (\<lambda>window_from. andthen (p_str params ''window_to'') (\<lambda>window_to.
          out_flags (in_frame (compute_session_window index window_from window_to)))))"

definition time_features :: "string list" where
  "time_features = [''feature.minutes_from_open'', ''feature.time_of_day'', ''feature.day_of_week'', ''feature.month_of_year'',
     ''feature.session_window'']"

definition context_features :: "(string \<times> string) list" where
  "context_features =
     [(''feature.prev_session_high'', ''_ctx_prev_session_high''), (''feature.prev_session_low'', ''_ctx_prev_session_low''),
      (''feature.prev_session_close'', ''_ctx_prev_session_close''), (''feature.session_gap'', ''_ctx_session_gap''),
      (''feature.d1_prev_high'', ''_ctx_d1_prev_high''), (''feature.d1_prev_low'', ''_ctx_d1_prev_low''),
      (''feature.d1_prev_close'', ''_ctx_d1_prev_close''), (''feature.d1_trend'', ''_ctx_d1_trend''),
      (''feature.d1_volatility'', ''_ctx_d1_volatility'')]"

definition regime_feature :: "numerics \<Rightarrow> CompiledNode \<Rightarrow> string \<Rightarrow> resolved_params \<Rightarrow> DataFrame \<Rightarrow> composite_error + outputs" where
  "regime_feature np compiled kind params df =
     andthen (binding_series compiled 0 df) (\<lambda>source.
       if kind = ''feature.vol_regime'' then
         andthen (p_int params ''window'') (\<lambda>window. andthen (p_int params ''regime_lookback'') (\<lambda>regime_lookback.
           out_series (in_frame (compute_vol_regime np source window regime_lookback))))
       else if kind = ''feature.trend_regime'' then
         andthen (p_int params ''ma_period'') (\<lambda>ma_period. out_series (in_frame (compute_trend_regime np source ma_period)))
       else
         andthen (num ''high'' df) (\<lambda>high. andthen (num ''low'' df) (\<lambda>low.
         andthen (p_int params ''window'') (\<lambda>_. andthen (p_int params ''regime_lookback'') (\<lambda>regime_lookback.
           out_series (in_frame (compute_range_compression high low source regime_lookback)))))))"

definition level_features :: "(string \<times> string) list" where
  "level_features =
     [(''feature.dist_prev_session_high_atr'', ''_ctx_prev_session_high''), (''feature.dist_prev_session_low_atr'', ''_ctx_prev_session_low''),
      (''feature.dist_prev_session_close_atr'', ''_ctx_prev_session_close'')]"

definition distance_feature :: "string \<Rightarrow> resolved_params \<Rightarrow> DataFrame \<Rightarrow> composite_error + outputs" where
  "distance_feature level_column params df =
     andthen (num ''close'' df) (\<lambda>close. andthen (num level_column df) (\<lambda>level. andthen (p_int params ''atr_period'') (\<lambda>atr_period.
     andthen (num ''high'' df) (\<lambda>high. andthen (num ''low'' df) (\<lambda>low.
       out_series (in_frame (compute_distance_atr close level atr_period high low)))))))"

definition opening_feature :: "string \<Rightarrow> resolved_params \<Rightarrow> DataFrame \<Rightarrow> composite_error + outputs" where
  "opening_feature kind params df =
     andthen (p_str params ''session_open'') (\<lambda>session_open. andthen (p_int params ''range_minutes'') (\<lambda>range_minutes.
     andthen (num ''high'' df) (\<lambda>high. andthen (num ''low'' df) (\<lambda>low.
     andthen (in_frame (compute_opening_range_levels (df_index df) high low session_open range_minutes)) (\<lambda>(or_high, or_low).
       out_series (Inr (if kind = ''feature.opening_range_high'' then or_high else or_low)))))))"

definition evaluate_feature_node :: "numerics \<Rightarrow> CompiledNode \<Rightarrow> string \<Rightarrow> resolved_params \<Rightarrow> DataFrame \<Rightarrow> composite_error + outputs" where
  "evaluate_feature_node np compiled kind params df =
     (if kind \<in> set time_features then time_feature kind params df
      else case map_of context_features kind of
        Some column \<Rightarrow> map_sum id (\<lambda>col. [(''out'', col)]) (get_col column df)
      | None \<Rightarrow> (case map_of level_features kind of
          Some level \<Rightarrow> distance_feature level params df
        | None \<Rightarrow>
            if kind \<in> {''feature.vol_regime'', ''feature.trend_regime'', ''feature.range_compression''} then regime_feature np compiled kind params df
            else if kind \<in> {''feature.opening_range_high'', ''feature.opening_range_low''} then opening_feature kind params df
            else Inl (CompositeValueError ''Unsupported feature node kind'')))"

section \<open>Comparisons and logic\<close>

text \<open>
  A missing truth value counts as false in a conjunction or disjunction. Complementing a column that
  had missing values gives Python's complement of each object, an integer that is never zero.
\<close>

definition complement_flags :: "bool option list \<Rightarrow> column" where
  "complement_flags bs = (if None \<in> set bs then NumCol (map (\<lambda>b. if b = Some True then Fin (- 2) else Fin (- 1)) bs)
     else flags (map (\<lambda>b. b \<noteq> Some True) bs))"

definition logic_outputs :: "CompiledNode \<Rightarrow> string \<Rightarrow> DataFrame \<Rightarrow> composite_error + outputs" where
  "logic_outputs compiled kind df =
     (if kind = ''logic.not'' then
        andthen (binding_flags compiled 0 df) (\<lambda>source. Inr [(''out'', complement_flags source)])
      else
        andthen (binding_flags compiled 0 df) (\<lambda>left. andthen (binding_flags compiled 1 df) (\<lambda>right.
          out_flags (Inr (if kind = ''logic.and'' then map2 (\<lambda>a b. a = Some True \<and> b = Some True) left right
            else map2 (\<lambda>a b. a = Some True \<or> b = Some True) left right)))))"

definition compare :: "string \<Rightarrow> flt \<Rightarrow> flt \<Rightarrow> bool" where
  "compare kind x y = (if kind = ''cmp.gt'' then flt_less y x else if kind = ''cmp.lt'' then flt_less x y
     else if kind = ''cmp.gte'' then flt_le y x else flt_le x y)"

definition compare_outputs :: "CompiledNode \<Rightarrow> string \<Rightarrow> DataFrame \<Rightarrow> composite_error + outputs" where
  "compare_outputs compiled kind df =
     andthen (binding_series compiled 0 df) (\<lambda>left. andthen (binding_series compiled 1 df) (\<lambda>right.
       out_flags (Inr (map2 (compare kind) left right))))"

definition cross_outputs :: "CompiledNode \<Rightarrow> string \<Rightarrow> resolved_params \<Rightarrow> DataFrame \<Rightarrow> composite_error + outputs" where
  "cross_outputs compiled kind params df =
     (let crosses = (if kind = ''cmp.cross_above'' then crosses_above else crosses_below) in
      if length (cn_input_bindings compiled) = 1 then
        andthen (binding_series compiled 0 df) (\<lambda>xs.
        andthen (in_param (py_float (get_or params ''threshold'' (PyFloat 0)))) (\<lambda>threshold.
          out_flags (Inr (crosses (shift 1 xs) (const_like threshold xs) xs (const_like threshold xs)))))
      else
        andthen (binding_series compiled 0 df) (\<lambda>left. andthen (binding_series compiled 1 df) (\<lambda>right.
          out_flags (Inr (crosses (shift 1 left) (shift 1 right) left right)))))"

definition touch_outputs :: "CompiledNode \<Rightarrow> string \<Rightarrow> DataFrame \<Rightarrow> composite_error + outputs" where
  "touch_outputs compiled kind df =
     andthen (binding_series compiled 0 df) (\<lambda>close. andthen (binding_series compiled 1 df) (\<lambda>band.
       out_flags (Inr ((if kind = ''cmp.touch_above'' then crosses_above else crosses_below) (shift 1 close) (shift 1 band) close band))))"

definition breakout_outputs :: "CompiledNode \<Rightarrow> string \<Rightarrow> DataFrame \<Rightarrow> composite_error + outputs" where
  "breakout_outputs compiled kind df =
     andthen (binding_series compiled 0 df) (\<lambda>close. andthen (binding_series compiled 1 df) (\<lambda>level.
     andthen (binding_series compiled 2 df) (\<lambda>channel.
       out_flags (Inr ((if kind = ''cmp.trb_breakout_above'' then crosses_above else crosses_below) (shift 1 close) channel close level)))))"

definition evaluate_bool_node :: "CompiledNode \<Rightarrow> string \<Rightarrow> resolved_params \<Rightarrow> DataFrame \<Rightarrow> composite_error + outputs" where
  "evaluate_bool_node compiled kind params df =
     (if kind \<in> {''logic.and'', ''logic.or'', ''logic.not''} then logic_outputs compiled kind df
      else if kind \<in> {''cmp.gt'', ''cmp.lt'', ''cmp.gte'', ''cmp.lte''} then compare_outputs compiled kind df
      else if kind \<in> {''cmp.cross_above'', ''cmp.cross_below''} then cross_outputs compiled kind params df
      else if kind \<in> {''cmp.touch_below'', ''cmp.touch_above''} then touch_outputs compiled kind df
      else if kind \<in> {''cmp.trb_breakout_above'', ''cmp.trb_breakout_below''} then breakout_outputs compiled kind df
      else Inr [])"

definition middle_band_outputs :: "CompiledNode \<Rightarrow> DataFrame \<Rightarrow> composite_error + outputs" where
  "middle_band_outputs compiled df =
     andthen (binding_series compiled 0 df) (\<lambda>close. andthen (binding_series compiled 1 df) (\<lambda>middle.
       Inr [(''exit_long'', flags (crosses_above (shift 1 close) (shift 1 middle) close middle)),
            (''exit_short'', flags (crosses_below (shift 1 close) (shift 1 middle) close middle))]))"

section \<open>Nodes\<close>

definition has_prefix :: "string \<Rightarrow> string \<Rightarrow> bool" where
  "has_prefix p s = (take (length p) s = p)"

definition transform_kinds :: "string list" where
  "transform_kinds = [''transform.shift'', ''transform.abs'', ''transform.scale'', ''transform.zscore'', ''transform.rank'',
     ''transform.pct_change'', ''transform.clip'']"

definition indicator_outputs ::
    "numerics \<Rightarrow> latent_model \<Rightarrow> CompiledNode \<Rightarrow> string \<Rightarrow> resolved_params \<Rightarrow> DataFrame \<Rightarrow> composite_error + outputs" where
  "indicator_outputs np latent compiled kind params df =
     (if kind \<in> {''ind.ma'', ''ind.ema'', ''ind.rsi'', ''ind.atr''} then average_outputs compiled kind params df
      else if kind = ''ind.macd'' then macd_outputs compiled params df
      else if kind = ''ind.bollinger'' then bollinger_outputs np compiled params df
      else if kind = ''ind.donchian'' then donchian_outputs params df
      else if kind = ''ind.momentum'' then momentum_outputs compiled params df
      else if kind = ''ind.realized_vol'' then realized_vol_outputs np compiled params df
      else if kind \<in> {''ind.diff'', ''ind.ratio''} then pair_outputs compiled kind df
      else if kind = ''ind.trb_channel'' then trb_outputs compiled params df
      else if kind = ''ind.ma_band'' then ma_band_outputs compiled params df
      else if kind = ''ind.tsmom'' then tsmom_outputs np params df
      else if kind = ''ind.trend_blend'' then trend_blend_outputs np compiled params df
      else if kind = ''ind.latent'' then latent_outputs latent params df
      else Inl (CompositeValueError ''Unsupported node kind''))"

definition node_outputs :: "numerics \<Rightarrow> latent_model \<Rightarrow> CompiledNode \<Rightarrow> DataFrame \<Rightarrow> composite_error + outputs" where
  "node_outputs np latent compiled df =
     (let kind = gn_kind (cn_node compiled); params = cn_resolved_params compiled in
      case map_of price_sources kind of
        Some column \<Rightarrow> map_sum id (\<lambda>col. [(''out'', col)]) (get_col column df)
      | None \<Rightarrow>
          if kind \<in> set exog_kinds then exog_outputs kind params df
          else if kind \<in> set transform_kinds then transform_outputs np compiled kind params df
          else if has_prefix ''feature.'' kind then evaluate_feature_node np compiled kind params df
          else if has_prefix ''cmp.'' kind \<or> has_prefix ''logic.'' kind then evaluate_bool_node compiled kind params df
          else if kind = ''exit.middle_band'' then middle_band_outputs compiled df
          else if has_prefix ''exit.'' kind then Inr []
          else indicator_outputs np latent compiled kind params df)"

text \<open>The columns of the ports.\<close>

definition port_columns :: "CompiledNode \<Rightarrow> outputs \<Rightarrow> composite_error + outputs" where
  "port_columns compiled outs = map_result (\<lambda>(port, col). case map_of (cn_column_by_port compiled) port of
     None \<Rightarrow> Inl (FrameError (SeriesKeyError port)) | Some column \<Rightarrow> Inr (column, col)) outs"

definition evaluate_node :: "numerics \<Rightarrow> latent_model \<Rightarrow> CompiledNode \<Rightarrow> DataFrame \<Rightarrow> composite_error + DataFrame" where
  "evaluate_node np latent compiled df =
     andthen (node_outputs np latent compiled df) (\<lambda>outs. andthen (port_columns compiled outs) (\<lambda>cols. Inr (with_columns cols df)))"

section \<open>The cache\<close>

text \<open>
  A cached column is a series with the index it was computed on. Assigning it to a frame with the
  same index, or an empty one, keeps its values; otherwise its values are looked up by label, which
  raises when labels repeat, and a label it does not have gives a missing value.
\<close>

type_synonym series_cache = "cache_key \<rightharpoonup> datetime list \<times> outputs"

primrec lookup_labels :: "datetime list \<Rightarrow> datetime list \<Rightarrow> column \<Rightarrow> column" where
  "lookup_labels labels index (NumCol xs) =
     NumCol (map (\<lambda>t. case map_of (zip labels xs) t of None \<Rightarrow> NaN | Some x \<Rightarrow> x) index)"
| "lookup_labels labels index (BoolCol bs) =
     BoolCol (map (\<lambda>t. case map_of (zip labels bs) t of None \<Rightarrow> None | Some b \<Rightarrow> b) index)"

definition align :: "datetime list \<Rightarrow> datetime list \<Rightarrow> column \<Rightarrow> composite_error + column" where
  "align labels index col =
     (if labels = index \<or> index = [] then Inr col
      else if \<not> distinct labels then Inl (CompositeValueError ''cannot reindex on an axis with duplicate labels'')
      else Inr (lookup_labels labels index col))"

definition restore_node :: "CompiledNode \<Rightarrow> datetime list \<times> outputs \<Rightarrow> DataFrame \<Rightarrow> composite_error + DataFrame" where
  "restore_node compiled cached df =
     andthen (map_result (\<lambda>(port, column). case map_of (snd cached) port of
         None \<Rightarrow> Inl (FrameError (SeriesKeyError port))
       | Some col \<Rightarrow> map_sum id (Pair column) (align (fst cached) (df_index df) col)) (cn_column_by_port compiled)) (\<lambda>cols.
       Inr (with_columns cols df))"

definition node_entry :: "CompiledNode \<Rightarrow> DataFrame \<Rightarrow> composite_error + outputs" where
  "node_entry compiled df = map_result (\<lambda>(port, column). map_sum id (Pair port) (get_col column df)) (cn_column_by_port compiled)"

definition uncached :: "CompiledNode \<Rightarrow> bool" where
  "uncached compiled = (has_prefix ''exit.'' (gn_kind (cn_node compiled)) \<and> gn_kind (cn_node compiled) \<noteq> ''exit.middle_band'')"

definition cache_node :: "CompiledNode \<Rightarrow> DataFrame \<Rightarrow> series_cache \<Rightarrow> (composite_error + DataFrame) \<times> series_cache" where
  "cache_node compiled df cache =
     (if uncached compiled then (Inr df, cache)
      else case node_entry compiled df of
        Inl e \<Rightarrow> (Inl e, cache)
      | Inr cols \<Rightarrow> (Inr df, cache(cn_cache_key compiled \<mapsto> (df_index df, cols))))"

definition run_node :: "numerics \<Rightarrow> latent_model \<Rightarrow> CompiledNode \<Rightarrow> DataFrame \<Rightarrow> series_cache \<Rightarrow> (composite_error + DataFrame) \<times> series_cache" where
  "run_node np latent compiled df cache = (case cache (cn_cache_key compiled) of
     Some cached \<Rightarrow> (restore_node compiled cached df, cache)
   | None \<Rightarrow> (case evaluate_node np latent compiled df of
       Inl e \<Rightarrow> (Inl e, cache) | Inr df' \<Rightarrow> cache_node compiled df' cache))"

primrec run_nodes :: "numerics \<Rightarrow> latent_model \<Rightarrow> CompiledNode list \<Rightarrow> DataFrame \<Rightarrow> series_cache \<Rightarrow> (composite_error + DataFrame) \<times> series_cache" where
  "run_nodes np latent [] df cache = (Inr df, cache)"
| "run_nodes np latent (c # cs) df cache = (case run_node np latent c df cache of
     (Inl e, cache') \<Rightarrow> (Inl e, cache') | (Inr df', cache') \<Rightarrow> run_nodes np latent cs df' cache')"

section \<open>The strategy\<close>

text \<open>
  The parameters of a strategy object do not change after it is built, so its plan is that of its
  genome. The state is the cache, the length of the last frame and the bars of its times.
\<close>

record CompositeStrategy =
  co_genome :: Genome
  co_plan :: ExecutionPlan
  co_symbol :: string
  co_exit_strategy :: ExitStrategy
  co_latent :: latent_model

record composite_state =
  co_series_cache :: series_cache
  co_last_data_len :: "nat option"
  co_timestamp_to_bar :: "(datetime \<rightharpoonup> nat) option"

definition new_composite_state :: composite_state where
  "new_composite_state = \<lparr>co_series_cache = Map.empty, co_last_data_len = None, co_timestamp_to_bar = None\<rparr>"

definition policy_value :: "(string \<rightharpoonup> pyval) \<Rightarrow> pyval \<Rightarrow> pyval" where
  "policy_value trial_params binding =
     (if \<not> is_param_ref binding then binding
      else case trial_params (ref_name binding) of
        Some v \<Rightarrow> v
      | None \<Rightarrow> (case param_bound (ref_name binding) of Some spec \<Rightarrow> ps_default spec | None \<Rightarrow> PyInt 0))"

definition resolve_exit_params_from_policy :: "(string \<times> pyval) list \<Rightarrow> (string \<rightharpoonup> pyval) \<Rightarrow> (string \<times> pyval) list" where
  "resolve_exit_params_from_policy policy trial_params =
     (let disabled = map (\<lambda>rule. (enable_param rule, PyInt 0)) list_exit_rules;
          defaults = map (\<lambda>spec. (ps_name spec, ps_default spec)) (filter (\<lambda>spec. ps_name spec \<notin> fst ` set disabled) all_param_specs);
          bound = (case map_of policy ''params'' of Some (PyDict ps) \<Rightarrow> ps | _ \<Rightarrow> [])
      in fold (\<lambda>(exit_name, binding). dict_put exit_name (policy_value trial_params binding)) bound (disabled @ defaults))"

definition composite_exit_strategy :: "Genome \<Rightarrow> (string \<times> pyval) list \<Rightarrow> ExitStrategy" where
  "composite_exit_strategy genome trial_params = (case get_exit_rule_policy genome of
     None \<Rightarrow> new_exit_strategy (exit_params_of trial_params)
   | Some policy \<Rightarrow> new_exit_strategy (exit_params_of (resolve_exit_params_from_policy policy (map_of trial_params))))"

definition build_composite :: "nat \<Rightarrow> nat \<Rightarrow> latent_model \<Rightarrow> Genome \<Rightarrow> (string \<times> pyval) list \<Rightarrow> string \<Rightarrow> genome_error + CompositeStrategy" where
  "build_composite max_depth max_node_count latent genome trial_params symbol =
     andthen (compile_genome max_depth max_node_count genome (map_of trial_params)) (\<lambda>plan.
       Inr \<lparr>co_genome = genome, co_plan = plan, co_symbol = symbol,
            co_exit_strategy = composite_exit_strategy genome trial_params, co_latent = latent\<rparr>)"

definition has_features :: "Genome \<Rightarrow> bool" where
  "has_features genome = list_ex (\<lambda>node. has_prefix ''feature.'' (gn_kind node)) (ge_nodes genome)"

definition uses_bar_index :: "ExecutionPlan \<Rightarrow> bool" where
  "uses_bar_index plan = (list_ex (\<lambda>c. gn_kind (cn_node c) \<in> {''exit.fixed_holding'', ''ind.tsmom''}) (pl_sorted_nodes plan) \<or>
     pl_fixed_holding_period plan \<noteq> None)"

definition flag_column :: "string \<Rightarrow> string \<Rightarrow> DataFrame \<Rightarrow> composite_error + DataFrame" where
  "flag_column name column df = map_sum id (\<lambda>col. set_column name (flags (column_flags col)) df) (get_col column df)"

definition copy_column :: "string \<Rightarrow> string \<Rightarrow> DataFrame \<Rightarrow> composite_error + DataFrame" where
  "copy_column name column df = map_sum id (\<lambda>col. set_column name col df) (get_col column df)"

definition entry_columns :: "ExecutionPlan \<Rightarrow> DataFrame \<Rightarrow> composite_error + DataFrame" where
  "entry_columns plan df =
     andthen (flag_column ''entry_long_signal'' (pl_entry_long_column plan) df) (\<lambda>df.
     andthen (flag_column ''entry_short_signal'' (pl_entry_short_column plan) df) (\<lambda>df.
     andthen (copy_column ''buy_signal'' ''entry_long_signal'' df) (copy_column ''sell_signal'' ''entry_short_signal'')))"

definition flag_if :: "string \<Rightarrow> string option \<Rightarrow> DataFrame \<Rightarrow> composite_error + DataFrame" where
  "flag_if name column df = (case column of None \<Rightarrow> Inr df | Some c \<Rightarrow> flag_column name c df)"

definition exit_columns :: "ExecutionPlan \<Rightarrow> DataFrame \<Rightarrow> composite_error + DataFrame" where
  "exit_columns plan df =
     (case (pl_exit_long_policy plan, pl_exit_long_middle_columns plan) of
        (EP_MIDDLE_BAND, Some (long, short)) \<Rightarrow>
          andthen (flag_column ''exit_long_signal'' long df) (flag_column ''exit_short_signal'' short)
      | _ \<Rightarrow> andthen (flag_if ''exit_long_signal'' (pl_exit_long_column plan) df) (flag_if ''exit_short_signal'' (pl_exit_short_column plan)))"

definition evaluation_frame :: "numerics \<Rightarrow> Genome \<Rightarrow> DataFrame \<Rightarrow> composite_error + DataFrame" where
  "evaluation_frame np genome df = (if has_features genome then in_frame (prepare_evaluation_frame np default_b3 df) else Inr df)"

definition composite_indicators ::
    "numerics \<Rightarrow> CompositeStrategy \<Rightarrow> DataFrame \<Rightarrow> composite_state \<Rightarrow> (composite_error + DataFrame) \<times> composite_state" where
  "composite_indicators np self data st = (case evaluation_frame np (co_genome self) data of
     Inl e \<Rightarrow> (Inl e, st)
   | Inr df \<Rightarrow>
       let plan = co_plan self;
           fresh = (co_last_data_len st \<noteq> Some (length (df_index df)));
           st = (if fresh then st\<lparr>co_series_cache := Map.empty, co_last_data_len := Some (length (df_index df))\<rparr> else st);
           (r, cache) = run_nodes np (co_latent self) (pl_sorted_nodes plan) (if uses_bar_index plan then add_bar_index df else df) (co_series_cache st);
           st = st\<lparr>co_series_cache := cache\<rparr>
       in case andthen r (\<lambda>df. andthen (entry_columns plan df) (exit_columns plan)) of
            Inl e \<Rightarrow> (Inl e, st)
          | Inr df \<Rightarrow> (Inr df, if pl_fixed_holding_period plan = None then st else st\<lparr>co_timestamp_to_bar := Some (build_timestamp_to_bar df)\<rparr>))"

definition row_flag_or :: "data_row \<Rightarrow> string \<Rightarrow> string \<Rightarrow> bool" where
  "row_flag_or row c d = (case row c of Some v \<Rightarrow> cell_truthy v | None \<Rightarrow> row_flag row d)"

definition composite_entries :: "string \<Rightarrow> data_row \<Rightarrow> Signal list" where
  "composite_entries symbol row =
     (if row_flag_or row ''entry_long_signal'' ''buy_signal'' then [new_signal symbol BT_BUY]
      else if row_flag_or row ''entry_short_signal'' ''sell_signal'' then [new_signal symbol BT_SELL] else [])"

definition composite_exits :: "CompositeStrategy \<Rightarrow> composite_state \<Rightarrow> string \<Rightarrow> data_row \<Rightarrow> Trade list \<Rightarrow> Signal list" where
  "composite_exits self st symbol row open_trades =
     (case (pl_fixed_holding_period (co_plan self), co_timestamp_to_bar st) of
        (Some period, Some timestamp_to_bar) \<Rightarrow> fixed_holding_period_exits row open_trades symbol period timestamp_to_bar
      | _ \<Rightarrow> flag_exits symbol (row_flag row ''exit_long_signal'') (row_flag row ''exit_short_signal'') open_trades)"

end
