(* ===== verification/Composite_Causal.thy ===== *)
theory Composite_Causal
  imports Composite Bt_Session_Causal Bt_Registry_Correct Genome_Correct
begin

text \<open>
  Causality of evolved strategies: every node commutes with cutting off the end of a frame, so does
  the run of a plan with its cache, and hence the signals at a bar do not depend on later bars.
\<close>

section \<open>Combinators\<close>

abbreviation cut_outputs :: "nat \<Rightarrow> 'e + outputs \<Rightarrow> 'e + outputs" where
  "cut_outputs n \<equiv> map_sum id (take_columns n)"

lemma take_columns_simps [simp]: "take_columns n [] = []" "take_columns n ((c, col) # cols) = (c, col_take n col) # take_columns n cols"
  by (simp_all add: take_columns_def)

lemma in_frame_map_sum [causal]: "in_frame (map_sum id f r) = map_sum id f (in_frame r)"
  by (cases r) (simp_all add: in_frame_def)

lemma get_col_take [causal]: "get_col c (take_frame n df) = map_sum id (col_take n) (get_col c df)"
  by (simp add: get_col_def causal split: option.splits)

lemma num_take [causal]: "num c (take_frame n df) = cut n (num c df)"
  by (simp add: num_def causal)

lemma binding_take [causal]:
  "binding_series c i (take_frame n df) = cut n (binding_series c i df)"
  "binding_flags c i (take_frame n df) = cut n (binding_flags c i df)"
  by (simp_all add: binding_series_def binding_flags_def causal)

lemma out_take [causal]:
  "out_series (cut n r) = cut_outputs n (out_series r)"
  "out_series (Inr (take n xs)) = cut_outputs n (out_series (Inr xs))"
  "out_flags (cut n q) = cut_outputs n (out_flags q)"
  "out_flags (Inr (take n bs)) = cut_outputs n (out_flags (Inr bs))"
  by (cases r; cases q; simp add: out_series_def out_flags_def take_map)+

lemma single_column_take [causal]:
  "map_sum id (\<lambda>col. [(port, col)]) (map_sum id (col_take n) r) = cut_outputs n (map_sum id (\<lambda>col. [(port, col)]) r)"
  by (cases r) simp_all

lemma andthen_cong [fundef_cong]: "r = r' \<Longrightarrow> (\<And>x. r' = Inr x \<Longrightarrow> k x = k' x) \<Longrightarrow> andthen r k = andthen r' k'"
  by (cases r') simp_all

section \<open>Nodes\<close>

lemma as_bool_take: "as_bool (col_take n col) = col_take n (as_bool col)"
  by (cases col) (simp_all add: take_map)

lemma if_take [causal]:
  "(if b then take n xs else take n ys) = take n (if b then xs else ys)" "(if b then col_take n x else col_take n y) = col_take n (if b then x else y)"
  by simp_all

lemma exog_outputs_take [causal]: "exog_outputs kind params (take_frame n df) = cut_outputs n (exog_outputs kind params df)"
  by (simp add: exog_outputs_def resolve_exog_column_def causal as_bool_take cong: if_cong)

lemma average_outputs_take [causal]: "average_outputs c kind params (take_frame n df) = cut_outputs n (average_outputs c kind params df)"
  by (simp add: average_outputs_def causal cong: if_cong)

lemma band_outputs_take [causal]:
  "macd_outputs c params (take_frame n df) = cut_outputs n (macd_outputs c params df)"
  "bollinger_outputs np c params (take_frame n df) = cut_outputs n (bollinger_outputs np c params df)"
  "donchian_outputs params (take_frame n df) = cut_outputs n (donchian_outputs params df)"
  "ma_band_outputs c params (take_frame n df) = cut_outputs n (ma_band_outputs c params df)"
  "pair_outputs c kind (take_frame n df) = cut_outputs n (pair_outputs c kind df)"
  by (simp_all add: macd_outputs_def bollinger_outputs_def donchian_outputs_def ma_band_outputs_def pair_outputs_def causal split_beta
      cong: if_cong)

lemma realized_vol_outputs_take [causal]: "realized_vol_outputs np c params (take_frame n df) = cut_outputs n (realized_vol_outputs np c params df)"
  by (simp add: realized_vol_outputs_def causal cong: if_cong)

definition latent_causal :: "latent_model \<Rightarrow> bool" where
  "latent_causal latent \<longleftrightarrow> (\<forall>encode k n df. latent = Some encode \<longrightarrow> encode k (take_frame n df) = cut n (encode k df))"

lemma latent_outputs_take [causal]:
  "latent_causal latent \<Longrightarrow> latent_outputs latent params (take_frame n df) = cut_outputs n (latent_outputs latent params df)"
  by (cases latent) (simp_all add: latent_outputs_def latent_causal_def causal)

text \<open>A frame without missing truth values; complementing a column that has some is not causal.\<close>

primrec col_complete :: "column \<Rightarrow> bool" where
  "col_complete (NumCol xs) = True"
| "col_complete (BoolCol bs) = (None \<notin> set bs)"

definition frame_complete :: "DataFrame \<Rightarrow> bool" where
  "frame_complete df \<longleftrightarrow> (\<forall>c col. df_columns df c = Some col \<longrightarrow> col_complete col)"

lemma binding_flags_complete: "frame_complete df \<Longrightarrow> binding_flags c i df = Inr bs \<Longrightarrow> None \<notin> set bs"
  by (auto simp: binding_flags_def get_bool_def in_frame_def frame_complete_def split: if_splits option.splits column.splits)
    (metis col_complete.simps(2))

lemma complement_flags_take: "None \<notin> set bs \<Longrightarrow> complement_flags (take n bs) = col_take n (complement_flags bs)"
  by (auto simp: complement_flags_def take_map dest: in_set_takeD)

lemma logic_outputs_take [causal]:
  "frame_complete df \<Longrightarrow> logic_outputs c kind (take_frame n df) = cut_outputs n (logic_outputs c kind df)"
  by (cases "kind = ''logic.not''")
    (simp_all add: logic_outputs_def causal complement_flags_take binding_flags_complete cong: if_cong andthen_cong)

lemma compare_outputs_take [causal]:
  "compare_outputs c kind (take_frame n df) = cut_outputs n (compare_outputs c kind df)"
  "cross_outputs c kind params (take_frame n df) = cut_outputs n (cross_outputs c kind params df)"
  "touch_outputs c kind (take_frame n df) = cut_outputs n (touch_outputs c kind df)"
  "breakout_outputs c kind (take_frame n df) = cut_outputs n (breakout_outputs c kind df)"
  "middle_band_outputs c (take_frame n df) = cut_outputs n (middle_band_outputs c df)"
  by (simp_all add: compare_outputs_def cross_outputs_def touch_outputs_def breakout_outputs_def middle_band_outputs_def Let_def causal
      cong: if_cong)

lemma evaluate_bool_node_take [causal]:
  "frame_complete df \<Longrightarrow> evaluate_bool_node c kind params (take_frame n df) = cut_outputs n (evaluate_bool_node c kind params df)"
  by (simp add: evaluate_bool_node_def causal cong: if_cong)

lemma close_frame_take [causal]:
  "\<lparr>df_index = take n index, df_columns = [''close'' \<mapsto> NumCol (take n xs)]\<rparr> = take_frame n \<lparr>df_index = index, df_columns = [''close'' \<mapsto> NumCol xs]\<rparr>"
  by (auto simp: take_frame_def)

lemma trb_outputs_take [causal]: "trb_outputs c params (take_frame n df) = cut_outputs n (trb_outputs c params df)"
  by (simp add: trb_outputs_def causal)

text \<open>Lags that do not look ahead.\<close>

definition lag_ok :: "resolved_params \<Rightarrow> string \<Rightarrow> bool" where
  "lag_ok params key = (case p_int params key of Inr k \<Rightarrow> 0 \<le> k | Inl _ \<Rightarrow> True)"

definition node_lags_ok :: "CompiledNode \<Rightarrow> bool" where
  "node_lags_ok c = (let kind = gn_kind (cn_node c); params = cn_resolved_params c in
     (kind \<in> {''ind.momentum'', ''ind.tsmom''} \<longrightarrow> lag_ok params ''lookback_bars'') \<and>
     (kind = ''ind.trend_blend'' \<longrightarrow> list_all (lag_ok params) [''lookback_1'', ''lookback_2'', ''lookback_3'']) \<and>
     (kind = ''transform.shift'' \<longrightarrow> (case py_int (get_or params ''bars'' (PyInt 1)) of Inr k \<Rightarrow> 0 \<le> k | Inl _ \<Rightarrow> True)))"

lemma momentum_outputs_take [causal]:
  "lag_ok params ''lookback_bars'' \<Longrightarrow> momentum_outputs c params (take_frame n df) = cut_outputs n (momentum_outputs c params df)"
  by (cases "p_int params ''lookback_bars''") (simp_all add: momentum_outputs_def lag_ok_def causal)

lemma tsmom_outputs_take [causal]:
  "lag_ok params ''lookback_bars'' \<Longrightarrow> tsmom_outputs np params (take_frame n df) = cut_outputs n (tsmom_outputs np params df)"
  by (cases "p_int params ''lookback_bars''") (simp_all add: tsmom_outputs_def lag_ok_def causal split_beta Let_def)

lemma trend_blend_outputs_take [causal]:
  "list_all (lag_ok params) [''lookback_1'', ''lookback_2'', ''lookback_3''] \<Longrightarrow>
   trend_blend_outputs np c params (take_frame n df) = cut_outputs n (trend_blend_outputs np c params df)"
  by (cases "p_int params ''lookback_1''"; cases "p_int params ''lookback_2''"; cases "p_int params ''lookback_3''")
    (simp_all add: trend_blend_outputs_def lag_ok_def causal Let_def)

lemma transform_outputs_take [causal]:
  assumes "0 < n" and "kind = ''transform.shift'' \<Longrightarrow> case py_int (get_or params ''bars'' (PyInt 1)) of Inr k \<Rightarrow> 0 \<le> k | Inl _ \<Rightarrow> True"
  shows "transform_outputs np c kind params (take_frame n df) = cut_outputs n (transform_outputs np c kind params df)"
proof (cases "kind = ''transform.shift''")
  case True
  then show ?thesis using assms(2) by (cases "py_int (get_or params ''bars'' (PyInt 1))") (simp_all add: transform_outputs_def causal)
next
  case False
  then show ?thesis using assms(1) by (simp add: transform_outputs_def causal cong: if_cong)
qed

lemma time_feature_take [causal]: "time_feature kind params (take_frame n df) = cut_outputs n (time_feature kind params df)"
  by (simp add: time_feature_def Let_def causal cong: if_cong)

lemma level_feature_take [causal]:
  "distance_feature level params (take_frame n df) = cut_outputs n (distance_feature level params df)"
  "minute_bars (df_index df) \<Longrightarrow> opening_feature kind params (take_frame n df) = cut_outputs n (opening_feature kind params df)"
  by (simp_all add: distance_feature_def opening_feature_def causal split_beta cong: if_cong)

lemma regime_feature_take [causal]:
  "0 < n \<Longrightarrow> regime_feature np c kind params (take_frame n df) = cut_outputs n (regime_feature np c kind params df)"
  by (simp add: regime_feature_def causal cong: if_cong)

lemma cut_ifI:
  "(b \<Longrightarrow> x = cut_outputs n x') \<Longrightarrow> (\<not> b \<Longrightarrow> y = cut_outputs n y') \<Longrightarrow> (if b then x else y) = cut_outputs n (if b then x' else y')"
  by simp

lemma cut_optionI:
  "(m = None \<Longrightarrow> x = cut_outputs n x') \<Longrightarrow> (\<And>y. m = Some y \<Longrightarrow> k y = cut_outputs n (k' y)) \<Longrightarrow>
   (case m of None \<Rightarrow> x | Some y \<Rightarrow> k y) = cut_outputs n (case m of None \<Rightarrow> x' | Some y \<Rightarrow> k' y)"
  by (cases m) simp_all

lemma column_output_take: "map_sum id (\<lambda>col. [(port, col)]) (get_col c (take_frame n df)) = cut_outputs n (map_sum id (\<lambda>col. [(port, col)]) (get_col c df))"
  by (simp add: causal)

lemma evaluate_feature_node_take:
  "0 < n \<Longrightarrow> minute_bars (df_index df) \<Longrightarrow>
   evaluate_feature_node np c kind params (take_frame n df) = cut_outputs n (evaluate_feature_node np c kind params df)"
  unfolding evaluate_feature_node_def
  by (intro cut_ifI cut_optionI column_output_take time_feature_take level_feature_take regime_feature_take; simp)

lemma indicator_outputs_take:
  assumes "latent_causal latent" and "node_lags_ok c" and "kind = gn_kind (cn_node c)" and "params = cn_resolved_params c"
  shows "indicator_outputs np latent c kind params (take_frame n df) = cut_outputs n (indicator_outputs np latent c kind params df)"
proof -
  have "kind = ''ind.momentum'' \<Longrightarrow> lag_ok params ''lookback_bars''" "kind = ''ind.tsmom'' \<Longrightarrow> lag_ok params ''lookback_bars''"
    "kind = ''ind.trend_blend'' \<Longrightarrow> list_all (lag_ok params) [''lookback_1'', ''lookback_2'', ''lookback_3'']"
    using assms(2-4) by (auto simp: node_lags_ok_def Let_def)
  then show ?thesis unfolding indicator_outputs_def
    by (intro cut_ifI average_outputs_take band_outputs_take momentum_outputs_take realized_vol_outputs_take trb_outputs_take
        tsmom_outputs_take trend_blend_outputs_take latent_outputs_take [OF assms(1)]) simp_all
qed

lemma node_outputs_take:
  assumes "0 < n" and "minute_bars (df_index df)" and "frame_complete df" and "latent_causal latent" and "node_lags_ok c"
  shows "node_outputs np latent c (take_frame n df) = cut_outputs n (node_outputs np latent c df)"
proof -
  have shift: "gn_kind (cn_node c) = ''transform.shift'' \<Longrightarrow>
      case py_int (get_or (cn_resolved_params c) ''bars'' (PyInt 1)) of Inr k \<Rightarrow> 0 \<le> k | Inl _ \<Rightarrow> True"
    using assms(5) by (simp add: node_lags_ok_def Let_def)
  show ?thesis unfolding node_outputs_def Let_def
    by (intro cut_ifI cut_optionI column_output_take exog_outputs_take transform_outputs_take [OF assms(1) shift]
        evaluate_feature_node_take [OF assms(1,2)] evaluate_bool_node_take [OF assms(3)] compare_outputs_take
        indicator_outputs_take [OF assms(4,5)]; simp)
qed

section \<open>Complete frames\<close>

text \<open>What a computation gives when it returns.\<close>

definition gives :: "('a \<Rightarrow> bool) \<Rightarrow> 'e + 'a \<Rightarrow> bool" where
  "gives P r \<longleftrightarrow> (\<forall>x. r = Inr x \<longrightarrow> P x)"

lemma gives_Inl: "gives P (Inl e)"
  by (simp add: gives_def)

lemma gives_Inr: "P x \<Longrightarrow> gives P (Inr x)"
  by (simp add: gives_def)

lemma gives_andthen: "(\<And>x. r = Inr x \<Longrightarrow> gives P (k x)) \<Longrightarrow> gives P (andthen r k)"
  by (cases r) (simp_all add: gives_def)

lemma gives_if: "(b \<Longrightarrow> gives P r) \<Longrightarrow> (\<not> b \<Longrightarrow> gives P r') \<Longrightarrow> gives P (if b then r else r')"
  by simp

lemmas gives_rules = gives_Inl gives_Inr gives_andthen gives_if

abbreviation complete_outputs :: "outputs \<Rightarrow> bool" where
  "complete_outputs \<equiv> list_all (col_complete \<circ> snd)"

lemma gives_out:
  "gives complete_outputs (out_series r)" "gives complete_outputs (out_flags q)"
  by (cases r; cases q; auto simp: gives_def out_series_def out_flags_def)+

lemma gives_col: "frame_complete df \<Longrightarrow> gives complete_outputs (map_sum id (\<lambda>col. [(port, col)]) (get_col c df))"
  by (auto simp: gives_def get_col_def frame_complete_def split: option.splits)

lemma complete_as_bool: "col_complete (as_bool col)" "col_complete (complement_flags bs)" "col_complete (flags qs)"
  by (cases col; auto simp: complement_flags_def)+

lemma gives_prod: "(\<And>a b. p = (a, b) \<Longrightarrow> gives P (k a b)) \<Longrightarrow> gives P (case p of (a, b) \<Rightarrow> k a b)"
  by (cases p) simp

lemma gives_option: "(m = None \<Longrightarrow> gives P r) \<Longrightarrow> (\<And>y. m = Some y \<Longrightarrow> gives P (k y)) \<Longrightarrow> gives P (case m of None \<Rightarrow> r | Some y \<Rightarrow> k y)"
  by (cases m) simp_all

lemmas gives_intros = gives_rules gives_out gives_col gives_prod gives_option

lemma frame_complete_set [simp]: "frame_complete df \<Longrightarrow> col_complete col \<Longrightarrow> frame_complete (set_column c col df)"
  by (auto simp: frame_complete_def set_column_def split: if_splits)

lemma frame_complete_with: "frame_complete df \<Longrightarrow> complete_outputs cols \<Longrightarrow> frame_complete (with_columns cols df)"
  by (induction cols arbitrary: df) auto

lemma get_col_complete: "frame_complete df \<Longrightarrow> get_col c df = Inr col \<Longrightarrow> col_complete col"
  by (auto simp: get_col_def frame_complete_def split: option.splits)

lemma trb_frame_complete: "frame_complete df \<Longrightarrow> gives frame_complete (compute_trb_channel_signals p b df)"
  by (auto simp: gives_def compute_trb_channel_signals_def Let_def andthen_def split: sum.splits)

lemma trb_outputs_complete: "gives complete_outputs (trb_outputs c params df)"
proof -
  have "frame_complete \<lparr>df_index = df_index df, df_columns = [''close'' \<mapsto> NumCol close]\<rparr>" for close
    by (auto simp: frame_complete_def split: if_splits)
  then have tmp: "in_frame (compute_trb_channel_signals p b \<lparr>df_index = df_index df, df_columns = [''close'' \<mapsto> NumCol close]\<rparr>) = Inr tmp \<Longrightarrow>
      frame_complete tmp" for p b close tmp
    using trb_frame_complete unfolding gives_def in_frame_def
    by (cases "compute_trb_channel_signals p b \<lparr>df_index = df_index df, df_columns = [''close'' \<mapsto> NumCol close]\<rparr>") (simp, metis map_sum.simps(2) id_apply sum.inject(2))
  then show ?thesis unfolding trb_outputs_def by (intro gives_intros) (auto dest: tmp intro: get_col_complete)
qed

lemma exog_outputs_complete: "frame_complete df \<Longrightarrow> gives complete_outputs (exog_outputs kind params df)"
  unfolding exog_outputs_def resolve_exog_column_def by (intro gives_intros) (auto simp: complete_as_bool dest: get_col_complete)

lemma indicator_outputs_complete: "gives complete_outputs (indicator_outputs np latent c kind params df)"
  unfolding indicator_outputs_def average_outputs_def macd_outputs_def bollinger_outputs_def donchian_outputs_def momentum_outputs_def
    realized_vol_outputs_def pair_outputs_def ma_band_outputs_def tsmom_outputs_def trend_blend_outputs_def latent_outputs_def Let_def
  by (intro gives_intros trb_outputs_complete) auto

lemma bool_outputs_complete: "gives complete_outputs (evaluate_bool_node c kind params df)"
  unfolding evaluate_bool_node_def logic_outputs_def compare_outputs_def cross_outputs_def touch_outputs_def breakout_outputs_def Let_def
  by (intro gives_intros) (auto simp: complete_as_bool)

lemma feature_outputs_complete: "frame_complete df \<Longrightarrow> gives complete_outputs (evaluate_feature_node np c kind params df)"
  unfolding evaluate_feature_node_def time_feature_def regime_feature_def distance_feature_def opening_feature_def Let_def
  by (intro gives_intros)

lemma node_outputs_complete: "frame_complete df \<Longrightarrow> gives complete_outputs (node_outputs np latent c df)"
  unfolding node_outputs_def Let_def transform_outputs_def middle_band_outputs_def
  by (intro gives_intros exog_outputs_complete indicator_outputs_complete bool_outputs_complete feature_outputs_complete) auto

section \<open>Runs\<close>

lemma df_index_with [simp]: "df_index (with_columns cols df) = df_index df"
  by (induction cols arbitrary: df) (auto simp: set_column_def)

lemma with_take_columns: "with_columns (take_columns n cols) (take_frame n df) = take_frame n (with_columns cols df)"
  by (induction cols arbitrary: df) (auto simp: causal)

lemma port_columns_take: "port_columns c (take_columns n outs) = cut_outputs n (port_columns c outs)"
  by (induction outs) (auto simp: port_columns_def split: sum.splits option.splits)

lemma port_columns_complete: "complete_outputs outs \<Longrightarrow> gives complete_outputs (port_columns c outs)"
  by (induction outs) (auto simp: port_columns_def gives_def split: sum.splits option.splits)

definition node_causal :: "latent_model \<Rightarrow> CompiledNode \<Rightarrow> bool" where
  "node_causal latent c \<longleftrightarrow> latent_causal latent \<and> node_lags_ok c"

definition frame_ok :: "DataFrame \<Rightarrow> bool" where
  "frame_ok df \<longleftrightarrow> minute_bars (df_index df) \<and> frame_complete df"

lemma evaluate_node_take:
  assumes "0 < n" and "frame_ok df" and "node_causal latent c"
  shows "evaluate_node np latent c (take_frame n df) = cut_frame n (evaluate_node np latent c df)"
  using node_outputs_take [OF assms(1)] assms
  by (simp add: evaluate_node_def frame_ok_def node_causal_def causal port_columns_take with_take_columns)

lemma evaluate_node_ok: "frame_ok df \<Longrightarrow> gives (\<lambda>df'. frame_ok df' \<and> df_index df' = df_index df) (evaluate_node np latent c df)"
proof -
  assume ok: "frame_ok df"
  have "gives complete_outputs (port_columns c outs)" if "node_outputs np latent c df = Inr outs" for outs
    using node_outputs_complete [of df np latent c] ok that port_columns_complete by (auto simp: gives_def frame_ok_def)
  then show ?thesis unfolding evaluate_node_def using ok
    by (intro gives_rules) (auto simp: frame_ok_def gives_def intro: frame_complete_with)
qed

definition cache_ok :: "datetime list \<Rightarrow> series_cache \<Rightarrow> bool" where
  "cache_ok index cache \<longleftrightarrow> (\<forall>key idx cols. cache key = Some (idx, cols) \<longrightarrow> idx = index \<and> complete_outputs cols)"

definition cut_cache :: "nat \<Rightarrow> series_cache \<Rightarrow> series_cache" where
  "cut_cache n cache = map_option (map_prod (take n) (take_columns n)) \<circ> cache"

lemma cut_cache_lookup: "cut_cache n cache key = map_option (map_prod (take n) (take_columns n)) (cache key)"
  by (simp add: cut_cache_def)

lemma map_of_take_columns: "map_of (take_columns n cols) port = map_option (col_take n) (map_of cols port)"
  by (induction cols) auto

primrec restored :: "outputs \<Rightarrow> (string \<times> string) list \<Rightarrow> composite_error + outputs" where
  "restored cols [] = Inr []"
| "restored cols (p # ports) = (case map_of cols (fst p) of
     None \<Rightarrow> Inl (FrameError (SeriesKeyError (fst p))) | Some col \<Rightarrow> map_sum id ((#) (snd p, col)) (restored cols ports))"

lemma restore_node_same:
  "restore_node c (df_index df, cols) df = andthen (restored cols (cn_column_by_port c)) (\<lambda>cols. Inr (with_columns cols df))"
proof -
  have "map_result (\<lambda>(port, column). case map_of cols port of None \<Rightarrow> Inl (FrameError (SeriesKeyError port))
      | Some col \<Rightarrow> map_sum id (Pair column) (align (df_index df) (df_index df) col)) ports = restored cols ports" for ports
    by (induction ports) (auto simp: align_def split: option.splits sum.splits)
  then show ?thesis by (simp only: restore_node_def fst_conv snd_conv)
qed

lemma restored_take: "restored (take_columns n cols) ports = cut_outputs n (restored cols ports)"
proof (induction ports)
  case (Cons p ports)
  then show ?case by (cases "restored cols ports"; cases "map_of cols (fst p)") (auto simp: map_of_take_columns)
qed simp

lemma restored_complete: "complete_outputs cols \<Longrightarrow> gives complete_outputs (restored cols ports)"
proof (induction ports)
  case (Cons p ports)
  have "map_of cols (fst p) = Some col \<Longrightarrow> col_complete col" for col
    using Cons.prems by (auto simp: list_all_iff dest!: map_of_SomeD)
  then show ?case using Cons by (cases "restored cols ports"; cases "map_of cols (fst p)") (auto simp: gives_def)
qed (simp add: gives_def)

lemma restore_node_take:
  "restore_node c (take n (df_index df), take_columns n cols) (take_frame n df) = cut_frame n (restore_node c (df_index df, cols) df)"
  using restore_node_same [of c "take_frame n df" "take_columns n cols"]
  by (simp add: restore_node_same restored_take causal with_take_columns)

lemma restore_node_ok:
  assumes "frame_ok df" and "complete_outputs cols"
  shows "gives (\<lambda>df'. frame_ok df' \<and> df_index df' = df_index df) (restore_node c (df_index df, cols) df)"
  unfolding restore_node_same using assms restored_complete [OF assms(2), of "cn_column_by_port c"]
  by (intro gives_andthen) (auto simp: frame_ok_def gives_def intro: frame_complete_with)

lemma node_entry_take: "node_entry c (take_frame n df) = cut_outputs n (node_entry c df)"
proof -
  have "map_result (\<lambda>(port, column). map_sum id (Pair port) (get_col column (take_frame n df))) ports =
      cut_outputs n (map_result (\<lambda>(port, column). map_sum id (Pair port) (get_col column df)) ports)" for ports
  proof (induction ports)
    case (Cons p ports)
    then show ?case by (cases p; cases "get_col (snd p) df") (auto simp: get_col_take split: sum.splits)
  qed simp
  then show ?thesis by (simp add: node_entry_def)
qed

lemma node_entry_complete: "frame_complete df \<Longrightarrow> gives complete_outputs (node_entry c df)"
proof -
  assume "frame_complete df"
  then have "gives complete_outputs (map_result (\<lambda>(port, column). map_sum id (Pair port) (get_col column df)) ports)" for ports
  proof (induction ports)
    case (Cons p ports)
    then show ?case by (cases p; cases "get_col (snd p) df") (auto simp: gives_def dest: get_col_complete split: sum.splits)
  qed (simp add: gives_def)
  then show ?thesis by (simp add: node_entry_def)
qed

definition run_ok :: "DataFrame \<Rightarrow> series_cache \<Rightarrow> bool" where
  "run_ok df cache \<longleftrightarrow> frame_ok df \<and> cache_ok (df_index df) cache"

lemma cache_node_ok:
  assumes "run_ok df cache"
  shows "(fst (cache_node c df cache) = Inr df' \<longrightarrow> df' = df) \<and> cache_ok (df_index df) (snd (cache_node c df cache))"
  using assms node_entry_complete [of df c]
  by (auto simp: cache_node_def run_ok_def frame_ok_def cache_ok_def gives_def split: sum.splits if_splits)

lemma cache_node_take:
  "cache_node c (take_frame n df) (cut_cache n cache) = map_prod (cut_frame n) (cut_cache n) (cache_node c df cache)"
  by (cases "node_entry c df") (auto simp: cache_node_def node_entry_take cut_cache_def causal)

lemma run_node_ok:
  assumes "run_ok df cache" and "run_node np latent c df cache = (Inr df', cache')"
  shows "run_ok df' cache' \<and> df_index df' = df_index df"
proof (cases "cache (cn_cache_key c)")
  case None
  with assms(2) obtain df1 where ev: "evaluate_node np latent c df = Inr df1" and "cache_node c df1 cache = (Inr df', cache')"
    by (auto simp: run_node_def split: sum.splits)
  moreover have "frame_ok df1 \<and> df_index df1 = df_index df"
    using evaluate_node_ok [of df np latent c] ev assms(1) by (auto simp: gives_def run_ok_def)
  ultimately show ?thesis using assms(1) cache_node_ok [of df1 cache c df'] by (auto simp: run_ok_def)
next
  case (Some cached)
  then have "cached = (df_index df, snd cached)" "complete_outputs (snd cached)"
    using assms(1) by (cases cached; auto simp: run_ok_def cache_ok_def)+
  with Some show ?thesis using assms restore_node_ok [of df "snd cached" c]
    by (auto simp: run_node_def gives_def run_ok_def)
qed

lemma run_node_take:
  assumes "0 < n" and "run_ok df cache" and "node_causal latent c"
  shows "run_node np latent c (take_frame n df) (cut_cache n cache) = map_prod (cut_frame n) (cut_cache n) (run_node np latent c df cache)"
proof (cases "cache (cn_cache_key c)")
  case None
  then show ?thesis using evaluate_node_take [OF assms(1) _ assms(3), of df np] assms(2)
    by (cases "evaluate_node np latent c df") (auto simp: run_node_def cut_cache_lookup run_ok_def cache_node_take)
next
  case (Some cached)
  then obtain cols where "cached = (df_index df, cols)" using assms(2) by (cases cached) (auto simp: run_ok_def cache_ok_def)
  with Some show ?thesis by (simp add: run_node_def cut_cache_lookup restore_node_take)
qed

lemma run_nodes_take:
  assumes "0 < n" and "run_ok df cache" and "list_all (node_causal latent) cs"
  shows "run_nodes np latent cs (take_frame n df) (cut_cache n cache) = map_prod (cut_frame n) (cut_cache n) (run_nodes np latent cs df cache)"
  using assms(2,3)
proof (induction cs arbitrary: df cache)
  case (Cons c cs)
  obtain r cache' where run: "run_node np latent c df cache = (r, cache')" by fastforce
  have cut: "run_node np latent c (take_frame n df) (cut_cache n cache) = (cut_frame n r, cut_cache n cache')"
    using run_node_take [OF assms(1) Cons.prems(1), of latent c np] Cons.prems(2) run by simp
  show ?case
  proof (cases r)
    case (Inl e)
    then show ?thesis using run cut by simp
  next
    case (Inr df')
    then have "run_ok df' cache'" using run_node_ok [OF Cons.prems(1)] run by blast
    then show ?thesis using Cons.IH Cons.prems(2) run cut Inr by simp
  qed
qed simp

section \<open>Strategies\<close>

lemma flag_column_take [causal]: "flag_column name column (take_frame n df) = cut_frame n (flag_column name column df)"
  by (cases "get_col column df") (simp_all add: flag_column_def causal)

lemma copy_column_take [causal]: "copy_column name column (take_frame n df) = cut_frame n (copy_column name column df)"
  by (cases "get_col column df") (simp_all add: copy_column_def causal)

lemma signal_columns_take [causal]:
  "entry_columns plan (take_frame n df) = cut_frame n (entry_columns plan df)"
  "flag_if name column (take_frame n df) = cut_frame n (flag_if name column df)"
  "exit_columns plan (take_frame n df) = cut_frame n (exit_columns plan df)"
  by (simp_all add: entry_columns_def exit_columns_def flag_if_def causal split: option.split ExitPolicyKind.split)

lemma prepare_complete:
  "frame_complete df \<Longrightarrow> gives (\<lambda>df'. frame_complete df' \<and> df_index df' = df_index df) (prepare_evaluation_frame np config df)"
proof -
  assume ok: "frame_complete df"
  have "gives complete_outputs (compute_session_context_bundle np config index open' high low close)" for index open' high low close
    unfolding compute_session_context_bundle_def Let_def by (intro gives_rules) (auto simp: list_all_iff RUN_CONTEXT_COLUMNS_def)
  then show ?thesis unfolding prepare_evaluation_frame_def using ok
    by (intro gives_intros) (auto simp: gives_def intro: frame_complete_with)
qed

lemma evaluation_frame_ok:
  assumes "bars_ok df" and "frame_complete df" and "evaluation_frame np genome df = Inr df'"
  shows "frame_ok df' \<and> df_index df' = df_index df"
  using assms prepare_complete [of df np default_b3]
  by (cases "prepare_evaluation_frame np default_b3 df")
    (auto simp: evaluation_frame_def in_frame_def gives_def frame_ok_def bars_ok_def split: if_splits)

lemma evaluation_frame_take:
  "bars_ok df \<Longrightarrow> evaluation_frame np genome (take_frame n df) = cut_frame n (evaluation_frame np genome df)"
  by (simp add: evaluation_frame_def prepare_evaluation_frame_take default_b3_def causal)

definition with_bars :: "ExecutionPlan \<Rightarrow> DataFrame \<Rightarrow> DataFrame" where
  "with_bars plan df = (if uses_bar_index plan then add_bar_index df else df)"

lemma with_bars_ok: "frame_ok df \<Longrightarrow> frame_ok (with_bars plan df)"
  by (simp add: with_bars_def add_bar_index_def frame_ok_def) (simp add: set_column_def)

lemma with_bars_take: "with_bars plan (take_frame n df) = take_frame n (with_bars plan df)"
  by (simp add: with_bars_def causal)

text \<open>What a strategy object computes the first time.\<close>

definition first_indicators :: "numerics \<Rightarrow> CompositeStrategy \<Rightarrow> DataFrame \<Rightarrow> composite_error + DataFrame" where
  "first_indicators np self data =
     andthen (evaluation_frame np (co_genome self) data) (\<lambda>df.
     andthen (fst (run_nodes np (co_latent self) (pl_sorted_nodes (co_plan self)) (with_bars (co_plan self) df) Map.empty)) (\<lambda>df.
     andthen (entry_columns (co_plan self) df) (exit_columns (co_plan self))))"

lemma composite_first:
  "fst (composite_indicators np self df new_composite_state) = first_indicators np self df"
  "composite_indicators np self df new_composite_state = (Inr out, st) \<Longrightarrow>
   co_timestamp_to_bar st = (if pl_fixed_holding_period (co_plan self) = None then None else Some (build_timestamp_to_bar out))"
  by (auto simp: composite_indicators_def first_indicators_def new_composite_state_def with_bars_def Let_def andthen_def split_beta
      split: sum.splits if_splits)

lemma first_indicators_take:
  assumes "0 < n" and "bars_ok df" and "frame_complete df" and "list_all (node_causal (co_latent self)) (pl_sorted_nodes (co_plan self))"
  shows "first_indicators np self (take_frame n df) = cut_frame n (first_indicators np self df)"
proof (cases "evaluation_frame np (co_genome self) df")
  case (Inl e)
  then show ?thesis by (simp add: first_indicators_def evaluation_frame_take [OF assms(2)])
next
  case (Inr df')
  have "run_ok (with_bars (co_plan self) df') Map.empty"
    using with_bars_ok evaluation_frame_ok [OF assms(2,3) Inr] by (simp add: run_ok_def cache_ok_def)
  moreover have "cut_cache n Map.empty = Map.empty" by (simp add: cut_cache_def fun_eq_iff)
  ultimately have "run_nodes np (co_latent self) (pl_sorted_nodes (co_plan self)) (take_frame n (with_bars (co_plan self) df')) Map.empty =
      map_prod (cut_frame n) (cut_cache n) (run_nodes np (co_latent self) (pl_sorted_nodes (co_plan self)) (with_bars (co_plan self) df') Map.empty)"
    using run_nodes_take [OF assms(1) _ assms(4)] by metis
  then show ?thesis by (simp add: first_indicators_def evaluation_frame_take [OF assms(2)] Inr with_bars_take causal)
qed

lemma holding_exits_cong:
  assumes "\<forall>trade\<in>set trades. bars (tr_entry_time trade) = bars' (tr_entry_time trade)"
  shows "fixed_holding_period_exits row trades symbol h bars = fixed_holding_period_exits row trades symbol h bars'"
  using exits_use_entry_times [OF assms, of "TRB 0 0 h"] by simp

text \<open>
  C25. An evolved strategy does not look ahead either. If two series of bars, at least a minute
  apart and with opening prices, agree on their first bars, and the lags of the genome are not
  negative and its encoder is causal, then a new strategy object that computes its indicators for
  one of them computes them for the other, with the same row at each of those first bars, hence the
  same entries and, for trades entered by then, the same exits.
\<close>

theorem evolved_strategies_never_look_ahead:
  assumes "latent_causal (co_latent self)" and "list_all node_lags_ok (pl_sorted_nodes (co_plan self))"
    and "bars_ok df" and "frame_complete df" and "bars_ok df'" and "frame_complete df'"
    and "take_frame n df = take_frame n df'" and "i < n"
    and "composite_indicators np self df new_composite_state = (Inr out, st)"
    and "\<forall>trade\<in>set trades. tr_entry_time trade \<in> set (take n (df_index out))"
  shows "\<exists>out' st'. composite_indicators np self df' new_composite_state = (Inr out', st') \<and> row_at out' i = row_at out i \<and>
    composite_entries symbol (row_at out' i) = composite_entries symbol (row_at out i) \<and>
    composite_exits self st' symbol (row_at out' i) trades = composite_exits self st symbol (row_at out i) trades"
proof -
  have nodes: "list_all (node_causal (co_latent self)) (pl_sorted_nodes (co_plan self))" and "0 < n"
    using assms(1,2,8) by (auto simp: node_causal_def list_all_iff)
  have "first_indicators np self df = Inr out" using assms(9) composite_first(1) [of np self df] by simp
  then have "cut_frame n (first_indicators np self df') = Inr (take_frame n out)"
    using first_indicators_take [OF \<open>0 < n\<close> assms(3,4) nodes] first_indicators_take [OF \<open>0 < n\<close> assms(5,6) nodes] assms(7) by simp
  then obtain out' where out': "first_indicators np self df' = Inr out'" "take_frame n out' = take_frame n out"
    by (cases "first_indicators np self df'") auto
  then obtain st' where run: "composite_indicators np self df' new_composite_state = (Inr out', st')"
    using composite_first(1) [of np self df'] by (metis prod.collapse)
  have row: "row_at out' i = row_at out i" using out'(2) row_at_take [OF assms(8)] by metis
  have "\<forall>trade\<in>set trades. build_timestamp_to_bar out' (tr_entry_time trade) = build_timestamp_to_bar out (tr_entry_time trade)"
    using timestamp_to_bar_prefix [OF out'(2) [symmetric]] assms(10) by simp
  then have "composite_exits self st' symbol (row_at out' i) trades = composite_exits self st symbol (row_at out i) trades"
    using holding_exits_cong composite_first(2) [OF run] composite_first(2) [OF assms(9)]
    by (auto simp: composite_exits_def row split: option.splits)
  then show ?thesis using run row by auto
qed

definition ex_minutes :: "decimal list \<Rightarrow> DataFrame" where
  "ex_minutes closes = \<lparr>df_index = map (\<lambda>k. int k * 60000000) [0..<length closes], df_columns = [''close'' \<mapsto> NumCol (map Fin closes)]\<rparr>"

definition ex_node :: "string \<Rightarrow> string \<Rightarrow> string list \<Rightarrow> CompiledNode" where
  "ex_node i kind inputs = \<lparr>cn_node = genome_node i kind [] inputs, cn_resolved_params = [], cn_column_by_port = [(''out'', column_name i ''out'')],
     cn_input_bindings = map (\<lambda>k. \<lparr>ib_node_id = k, ib_port = ''out'', ib_column = column_name k ''out''\<rparr>) inputs,
     cn_cache_key = CacheKey kind [] []\<rparr>"

definition ex_evolved :: CompositeStrategy where
  "ex_evolved =
     (let nodes = [ex_node ''n1'' ''source.close'' [], ex_node ''n2'' ''transform.shift'' [''n1''],
        ex_node ''n3'' ''cmp.gt'' [''n1'', ''n2''], ex_node ''n4'' ''cmp.lt'' [''n1'', ''n2'']] in
      \<lparr>co_genome = \<lparr>ge_genome_id = ''g'', ge_nodes = map cn_node nodes, ge_entry_long = ''n3'', ge_entry_short = ''n4'',
         ge_exit_long = ''n4'', ge_exit_short = ''n3'', ge_metadata = []\<rparr>,
       co_plan = \<lparr>pl_trial_params = Map.empty, pl_sorted_nodes = nodes, pl_entry_long_column = ''g_n3'', pl_entry_short_column = ''g_n4'',
         pl_exit_long_policy = EP_BOOL, pl_exit_short_policy = EP_BOOL, pl_exit_long_column = Some ''g_n4'',
         pl_exit_short_column = Some ''g_n3'', pl_exit_long_middle_columns = None, pl_fixed_holding_period = None\<rparr>,
       co_symbol = ''WIN'', co_exit_strategy = new_exit_strategy Map.empty, co_latent = None\<rparr>)"

lemma ex_minutes_ok: "bars_ok (ex_minutes closes)" "frame_complete (ex_minutes closes)"
proof -
  show "bars_ok (ex_minutes closes)"
    by (auto simp: bars_ok_def minute_bars_def ex_minutes_def sorted_wrt_iff_nth_less coerce_ohlcv_columns_def has_column_def get_num_def)
  show "frame_complete (ex_minutes closes)" by (simp add: frame_complete_def ex_minutes_def)
qed

theorem evolved_strategies_never_look_ahead_witness:
  "\<exists>out' st'. composite_indicators ex_numerics ex_evolved (ex_minutes [10, 8, 12, 99]) new_composite_state = (Inr out', st') \<and>
    composite_entries ''WIN'' (row_at out' 2) = [new_signal ''WIN'' BT_BUY]"
proof -
  let ?df = "ex_minutes [10, 8, 12, 5]" and ?df' = "ex_minutes [10, 8, 12, 99]"
  let ?run = "composite_indicators ex_numerics ex_evolved ?df new_composite_state"
  have "take_frame 3 ?df = take_frame 3 ?df'" by (simp add: ex_minutes_def take_frame_def fun_eq_iff)
  moreover have "latent_causal (co_latent ex_evolved)" by (simp add: ex_evolved_def Let_def latent_causal_def)
  moreover have "list_all node_lags_ok (pl_sorted_nodes (co_plan ex_evolved))" by code_simp
  moreover have "\<not> isl (fst ?run)" by code_simp
  then obtain out st where out: "?run = (Inr out, st)" by (metis surjective_pairing sum.collapse(2))
  moreover have "composite_entries ''WIN'' (row_at (projr (fst ?run)) 2) = [new_signal ''WIN'' BT_BUY]" by code_simp
  ultimately show ?thesis
    using evolved_strategies_never_look_ahead [of ex_evolved ?df ?df' 3 2 ex_numerics out st "[]" "''WIN''"] ex_minutes_ok by auto
qed

end
