(* ===== verification/Composite_Cache.thy ===== *)
theory Composite_Cache
  imports Composite_Causal
begin

text \<open>
  What a strategy object of an evolved genome answers when it is asked again. The columns of a node
  are kept as long as the frames have the same length, so a second frame of that length is answered
  from the first one, by label.
\<close>

section \<open>Missing values\<close>

primrec missing_at :: "nat \<Rightarrow> column \<Rightarrow> bool" where
  "missing_at i (NumCol xs) = (i < length xs \<and> xs ! i = NaN)"
| "missing_at i (BoolCol bs) = (i < length bs \<and> bs ! i = None)"

definition missing_in :: "nat \<Rightarrow> DataFrame \<Rightarrow> string \<Rightarrow> bool" where
  "missing_in i df c = (case df_columns df c of None \<Rightarrow> False | Some col \<Rightarrow> missing_at i col)"

lemma lookup_labels_missing:
  "i < length index \<Longrightarrow> index ! i \<notin> set labels \<Longrightarrow> missing_at i (lookup_labels labels index col)"
  by (cases col) (auto split: option.split dest!: map_of_SomeD set_zip_leftD)

lemma align_missing:
  assumes "align labels index col = Inr col'" and "i < length index" and "index ! i \<notin> set labels"
  shows "missing_at i col'"
  using assms nth_mem [of i index] lookup_labels_missing by (auto simp: align_def split: if_splits)

lemma missing_set_column: "missing_in i (set_column c col df) d = (if d = c then missing_at i col else missing_in i df d)"
  by (simp add: missing_in_def set_column_def)

lemma missing_with_columns:
  "list_all (\<lambda>(c, col). missing_at i col) cols \<Longrightarrow> missing_in i df d \<or> d \<in> fst ` set cols \<Longrightarrow> missing_in i (with_columns cols df) d"
proof (induction cols arbitrary: df)
  case (Cons p cols)
  then show ?case by (cases p) (auto simp: missing_set_column)
qed simp

section \<open>The first call fills the cache\<close>

definition stored :: "datetime list \<Rightarrow> series_cache \<Rightarrow> bool" where
  "stored index cache \<longleftrightarrow> (\<forall>key. pred_option (\<lambda>entry. fst entry = index) (cache key))"

lemma stored_lookup: "stored index cache \<Longrightarrow> cache key = Some entry \<Longrightarrow> fst entry = index"
  unfolding stored_def by (drule spec [of _ key]) simp

lemma stored_update: "stored index cache \<Longrightarrow> stored index (cache(key \<mapsto> (index, cols)))"
  by (simp add: stored_def)

lemma evaluate_node_index: "evaluate_node np latent c df = Inr df' \<Longrightarrow> df_index df' = df_index df"
  by (auto simp: evaluate_node_def andthen_def split: sum.splits)

lemma restore_node_index: "restore_node c cached df = Inr df' \<Longrightarrow> df_index df' = df_index df"
  by (auto simp: restore_node_def andthen_def split: sum.splits)

lemma run_node_fills:
  assumes "run_node np latent c df cache = (Inr df', cache')" and "stored (df_index df) cache"
  shows "df_index df' = df_index df" and "stored (df_index df) cache'" and "dom cache \<subseteq> dom cache'"
    and "\<not> uncached c \<Longrightarrow> cn_cache_key c \<in> dom cache'"
  using assms
  by (auto simp: run_node_def cache_node_def stored_update evaluate_node_index restore_node_index
      split: option.splits sum.splits if_splits)

lemma run_nodes_fill:
  assumes "run_nodes np latent cs df cache = (Inr df', cache')" and "stored (df_index df) cache"
  shows "df_index df' = df_index df \<and> stored (df_index df) cache' \<and> dom cache \<subseteq> dom cache' \<and>
    (\<forall>c\<in>set cs. \<not> uncached c \<longrightarrow> cn_cache_key c \<in> dom cache')"
  using assms
proof (induction cs arbitrary: df cache)
  case (Cons c cs)
  then obtain df1 cache1 where run: "run_node np latent c df cache = (Inr df1, cache1)" "run_nodes np latent cs df1 cache1 = (Inr df', cache')"
    by (auto split: prod.splits sum.splits)
  note filled = run_node_fills [OF run(1) Cons.prems(2)]
  have rest: "df_index df' = df_index df" "stored (df_index df) cache'" "dom cache1 \<subseteq> dom cache'"
      "\<forall>c\<in>set cs. \<not> uncached c \<longrightarrow> cn_cache_key c \<in> dom cache'"
    using Cons.IH [OF run(2)] filled(1,2) by auto
  show ?case using rest filled(3) subsetD [OF rest(3) filled(4)] by auto
qed simp

section \<open>The second call reads it\<close>

lemma uncached_outputs:
  assumes "uncached c"
  shows "evaluate_node np latent c df = Inr df"
proof -
  obtain rest where "gn_kind (cn_node c) = ''exit.'' @ rest" "gn_kind (cn_node c) \<noteq> ''exit.middle_band''"
    using assms by (metis append_take_drop_id has_prefix_def uncached_def)
  then show ?thesis
    by (simp add: has_prefix_def evaluate_node_def node_outputs_def port_columns_def price_sources_def exog_kinds_def transform_kinds_def)
qed

lemma restore_node_missing:
  assumes "restore_node c (labels, cols) df = Inr df'" and "i < length (df_index df)" and "df_index df ! i \<notin> set labels"
    and "missing_in i df d \<or> d \<in> snd ` set (cn_column_by_port c)"
  shows "missing_in i df' d"
proof -
  let ?restore = "\<lambda>(port, column). case map_of cols port of
         None \<Rightarrow> Inl (FrameError (SeriesKeyError port))
       | Some col \<Rightarrow> map_sum id (Pair column) (align labels (df_index df) col)"
  have each: "list_all (\<lambda>(c, col). missing_at i col) new \<and> map fst new = map snd ports" if "map_result ?restore ports = Inr new" for ports new
    using that assms(2,3)
    by (induction ports arbitrary: new) (auto split: sum.splits option.splits simp: map_sum_def dest: align_missing)
  obtain new where new: "map_result ?restore (cn_column_by_port c) = Inr new" "df' = with_columns new df"
    using assms(1) unfolding restore_node_def fst_conv snd_conv by (cases "map_result ?restore (cn_column_by_port c)") simp_all
  have "fst ` set new = snd ` set (cn_column_by_port c)" unfolding list.set_map [symmetric] using each [OF new(1)] by simp
  then show ?thesis using missing_with_columns [of i new df d] conjunct1 [OF each [OF new(1)]] assms(4) new(2) by simp
qed

definition node_columns :: "CompiledNode list \<Rightarrow> string list" where
  "node_columns cs = concat (map (\<lambda>c. if uncached c then [] else map snd (cn_column_by_port c)) cs)"

lemma run_nodes_missing:
  assumes "run_nodes np latent cs df cache = (Inr df', cache')" and "stored labels cache"
    and "\<forall>c\<in>set cs. \<not> uncached c \<longrightarrow> cn_cache_key c \<in> dom cache"
    and "i < length (df_index df)" and "df_index df ! i \<notin> set labels" and "missing_in i df d \<or> d \<in> set (node_columns cs)"
  shows "missing_in i df' d"
  using assms
proof (induction cs arbitrary: df)
  case (Cons c cs)
  obtain df1 where run: "run_node np latent c df cache = (Inr df1, cache)" "run_nodes np latent cs df1 cache = (Inr df', cache')"
    "df_index df1 = df_index df" "missing_in i df d \<or> \<not> uncached c \<and> d \<in> snd ` set (cn_column_by_port c) \<Longrightarrow> missing_in i df1 d"
  proof (cases "cache (cn_cache_key c)")
    case None
    then have "uncached c" using Cons.prems(3) by (auto simp: dom_def)
    then have "run_node np latent c df cache = (Inr df, cache)" using None by (simp add: run_node_def cache_node_def uncached_outputs)
    with \<open>uncached c\<close> Cons.prems(1) show ?thesis by (intro that [of df]) auto
  next
    case (Some cached)
    then have "fst cached = labels" using Cons.prems(2) stored_lookup by blast
    with Some Cons.prems show ?thesis
      by (intro that [of "projr (restore_node c cached df)"])
        (auto simp: run_node_def restore_node_index split: sum.splits intro: restore_node_missing [of c labels "snd cached"])
  qed
  have "missing_in i df1 d \<or> d \<in> set (node_columns cs)"
    using run(4) Cons.prems(6) by (auto simp: node_columns_def split: if_splits)
  with Cons.IH [OF run(2)] Cons.prems(2-5) run(3) show ?case by simp
qed (simp add: node_columns_def)

section \<open>Signals\<close>

definition silent_in :: "nat \<Rightarrow> DataFrame \<Rightarrow> string \<Rightarrow> bool" where
  "silent_in i df c \<longleftrightarrow> row_at df i c = Some (CellBool (Some False))"

lemma column_flags_missing: "missing_at i col \<Longrightarrow> cell_at (flags (column_flags col)) i = Some (CellBool (Some False))"
  by (cases col) simp_all

lemma silent_flag_column:
  assumes "flag_column name column df = Inr df'" and "missing_in i df column"
  shows "silent_in i df' name"
  using assms column_flags_missing
  by (auto simp: flag_column_def get_col_def missing_in_def silent_in_def row_at_def set_column_def split: option.splits)

lemma flag_column_others:
  assumes "flag_column name column df = Inr df'" and "c \<noteq> name"
  shows "df_columns df' c = df_columns df c"
  using assms by (auto simp: flag_column_def get_col_def set_column_def split: option.splits)

lemma copy_column_others:
  assumes "copy_column name column df = Inr df'" and "c \<noteq> name"
  shows "df_columns df' c = df_columns df c"
  using assms by (auto simp: copy_column_def get_col_def set_column_def split: option.splits)

lemma entry_columns_silent:
  assumes "entry_columns plan df = Inr df'" and "missing_in i df (pl_entry_long_column plan)" and "missing_in i df (pl_entry_short_column plan)"
    and "pl_entry_short_column plan \<noteq> ''entry_long_signal''"
  shows "silent_in i df' ''entry_long_signal''" and "silent_in i df' ''entry_short_signal''"
    and "c \<notin> {''entry_long_signal'', ''entry_short_signal'', ''buy_signal'', ''sell_signal''} \<Longrightarrow> df_columns df' c = df_columns df c"
proof -
  obtain df1 where 1: "flag_column ''entry_long_signal'' (pl_entry_long_column plan) df = Inr df1"
    using assms(1) unfolding entry_columns_def by (cases "flag_column ''entry_long_signal'' (pl_entry_long_column plan) df") simp_all
  then obtain df2 where 2: "flag_column ''entry_short_signal'' (pl_entry_short_column plan) df1 = Inr df2"
    using assms(1) unfolding entry_columns_def by (cases "flag_column ''entry_short_signal'' (pl_entry_short_column plan) df1") simp_all
  then obtain df3 where 3: "copy_column ''buy_signal'' ''entry_long_signal'' df2 = Inr df3" "copy_column ''sell_signal'' ''entry_short_signal'' df3 = Inr df'"
    using assms(1) 1 unfolding entry_columns_def by (cases "copy_column ''buy_signal'' ''entry_long_signal'' df2") simp_all
  note others = flag_column_others [OF 1] flag_column_others [OF 2] copy_column_others [OF 3(1)] copy_column_others [OF 3(2)]
  have "missing_in i df1 (pl_entry_short_column plan)" using assms(3,4) others(1) by (simp add: missing_in_def)
  then show "silent_in i df' ''entry_short_signal''" "silent_in i df' ''entry_long_signal''"
    using silent_flag_column [OF 1 assms(2)] silent_flag_column [OF 2] others by (simp_all add: silent_in_def row_at_def)
  show "df_columns df' c = df_columns df c" if "c \<notin> {''entry_long_signal'', ''entry_short_signal'', ''buy_signal'', ''sell_signal''}"
    using that others by simp
qed

text \<open>The columns that the signals of a plan are read from, and plans that read them from their nodes.\<close>

definition exit_sources :: "ExecutionPlan \<Rightarrow> string list" where
  "exit_sources plan = (case (pl_exit_long_policy plan, pl_exit_long_middle_columns plan) of
     (EP_MIDDLE_BAND, Some (long, short)) \<Rightarrow> [long, short]
   | _ \<Rightarrow> (case (pl_exit_long_column plan, pl_exit_short_column plan) of (Some long, Some short) \<Rightarrow> [long, short] | _ \<Rightarrow> []))"

definition signals_from_nodes :: "ExecutionPlan \<Rightarrow> bool" where
  "signals_from_nodes plan = list_all (\<lambda>c. c \<in> set (node_columns (pl_sorted_nodes plan)) \<and> has_prefix ''g_'' c)
     ([pl_entry_long_column plan, pl_entry_short_column plan] @ exit_sources plan)"

lemma exit_columns_others:
  assumes "exit_columns plan df = Inr df'" and "c \<notin> {''exit_long_signal'', ''exit_short_signal''}"
  shows "df_columns df' c = df_columns df c"
  using assms
  by (auto simp: exit_columns_def flag_if_def andthen_def flag_column_others split: option.splits ExitPolicyKind.splits sum.splits)

lemma two_flags_silent:
  assumes "andthen (flag_column ''exit_long_signal'' long df) (flag_column ''exit_short_signal'' short) = Inr df'"
    and "missing_in i df long" and "missing_in i df short" and "has_prefix ''g_'' short"
  shows "silent_in i df' ''exit_long_signal''" and "silent_in i df' ''exit_short_signal''"
proof -
  obtain df1 where 1: "flag_column ''exit_long_signal'' long df = Inr df1" "flag_column ''exit_short_signal'' short df1 = Inr df'"
    using assms(1) by (cases "flag_column ''exit_long_signal'' long df") simp_all
  have "short \<noteq> ''exit_long_signal''" using assms(4) by (auto simp: has_prefix_def)
  then have "missing_in i df1 short" using assms(3) flag_column_others [OF 1(1)] by (simp add: missing_in_def)
  then show "silent_in i df' ''exit_short_signal''" "silent_in i df' ''exit_long_signal''"
    using silent_flag_column [OF 1(1) assms(2)] silent_flag_column [OF 1(2)] flag_column_others [OF 1(2)] by (simp_all add: silent_in_def row_at_def)
qed

lemma exit_columns_two:
  assumes "exit_sources plan \<noteq> []"
  obtains long short where "exit_sources plan = [long, short]"
    and "exit_columns plan df = andthen (flag_column ''exit_long_signal'' long df) (flag_column ''exit_short_signal'' short)"
proof -
  have "flag_if name (Some column) = flag_column name column" for name column by (simp add: flag_if_def fun_eq_iff)
  then show ?thesis using assms that
    by (auto simp: exit_columns_def exit_sources_def split: option.splits ExitPolicyKind.splits)
qed

lemma exit_columns_silent:
  assumes "exit_columns plan df = Inr df'" and "exit_sources plan \<noteq> []"
    and "list_all (\<lambda>c. missing_in i df c \<and> has_prefix ''g_'' c) (exit_sources plan)"
  shows "silent_in i df' ''exit_long_signal'' \<and> silent_in i df' ''exit_short_signal''"
proof -
  obtain long short where two: "exit_sources plan = [long, short]"
    "exit_columns plan df = andthen (flag_column ''exit_long_signal'' long df) (flag_column ''exit_short_signal'' short)"
    using exit_columns_two [OF assms(2)] by blast
  then show ?thesis using two_flags_silent assms(1,3) by simp
qed

lemma signals_silent:
  assumes "andthen (entry_columns plan df) (exit_columns plan) = Inr out" and "signals_from_nodes plan"
    and "\<And>c. c \<in> set (node_columns (pl_sorted_nodes plan)) \<Longrightarrow> missing_in i df c"
  shows "silent_in i out ''entry_long_signal'' \<and> silent_in i out ''entry_short_signal'' \<and>
    (exit_sources plan \<noteq> [] \<longrightarrow> silent_in i out ''exit_long_signal'' \<and> silent_in i out ''exit_short_signal'')"
proof -
  have sources: "missing_in i df c" "has_prefix ''g_'' c" if "c \<in> set ([pl_entry_long_column plan, pl_entry_short_column plan] @ exit_sources plan)" for c
    using assms(2,3) that by (auto simp: signals_from_nodes_def list_all_iff)
  obtain df1 where 1: "entry_columns plan df = Inr df1" "exit_columns plan df1 = Inr out"
    using assms(1) by (cases "entry_columns plan df") simp_all
  have "pl_entry_short_column plan \<noteq> ''entry_long_signal''" using sources(2) [of "pl_entry_short_column plan"] by (auto simp: has_prefix_def)
  then have entry: "silent_in i df1 ''entry_long_signal''" "silent_in i df1 ''entry_short_signal''"
      "c \<notin> {''entry_long_signal'', ''entry_short_signal'', ''buy_signal'', ''sell_signal''} \<Longrightarrow> df_columns df1 c = df_columns df c" for c
    using entry_columns_silent [OF 1(1) sources(1) sources(1)] by simp_all
  have "missing_in i df1 c \<and> has_prefix ''g_'' c" if "c \<in> set (exit_sources plan)" for c
  proof -
    have "c \<notin> {''entry_long_signal'', ''entry_short_signal'', ''buy_signal'', ''sell_signal''}" using sources(2) [of c] that by (auto simp: has_prefix_def)
    then show ?thesis using entry(3) sources [of c] that by (simp add: missing_in_def)
  qed
  then have "exit_sources plan \<noteq> [] \<longrightarrow> silent_in i out ''exit_long_signal'' \<and> silent_in i out ''exit_short_signal''"
    using exit_columns_silent [OF 1(2)] by (simp add: list_all_iff)
  moreover have "silent_in i out ''entry_long_signal''" "silent_in i out ''entry_short_signal''"
    using entry(1,2) exit_columns_others [OF 1(2)] by (simp_all add: silent_in_def row_at_def)
  ultimately show ?thesis by simp
qed

section \<open>The second frame\<close>

lemma composite_run:
  assumes "composite_indicators np self df st = (Inr out, st')"
  obtains df1 df2 cache' where "evaluation_frame np (co_genome self) df = Inr df1"
    and "run_nodes np (co_latent self) (pl_sorted_nodes (co_plan self)) (with_bars (co_plan self) df1)
      (if co_last_data_len st = Some (length (df_index df1)) then co_series_cache st else Map.empty) = (Inr df2, cache')"
    and "andthen (entry_columns (co_plan self) df2) (exit_columns (co_plan self)) = Inr out"
    and "co_series_cache st' = cache'" and "co_last_data_len st' = Some (length (df_index df1))"
  using assms
  by (auto simp: composite_indicators_def with_bars_def Let_def andthen_def split: sum.splits prod.splits if_splits)

lemma evaluation_frame_index: "evaluation_frame np genome df = Inr df' \<Longrightarrow> df_index df' = df_index df"
  by (auto simp: evaluation_frame_def in_frame_def prepare_evaluation_frame_def andthen_def split: sum.splits if_splits prod.splits)

lemma with_bars_index [simp]: "df_index (with_bars plan df) = df_index df"
  by (simp add: with_bars_def add_bar_index_def set_column_def)

text \<open>
  C18. A strategy object of an evolved genome that is given a second frame as long as the first
  answers from the first: at a bar whose time the first frame does not have, it gives no entry and,
  when its exits are read from columns, no exit, whatever the bars are.
\<close>

theorem same_length_frame_is_silent:
  assumes "composite_indicators np self df new_composite_state = (Inr out, st)" and "signals_from_nodes (co_plan self)"
    and "composite_indicators np self df' st = (Inr out', st')" and "length (df_index df') = length (df_index df)"
    and "i < length (df_index df')" and "df_index df' ! i \<notin> set (df_index df)"
  shows "composite_entries symbol (row_at out' i) = [] \<and>
    (exit_sources (co_plan self) \<noteq> [] \<and> pl_fixed_holding_period (co_plan self) = None \<longrightarrow> composite_exits self st' symbol (row_at out' i) trades = [])"
proof -
  let ?nodes = "pl_sorted_nodes (co_plan self)"
  obtain df1 df2 cache where first: "evaluation_frame np (co_genome self) df = Inr df1"
      "run_nodes np (co_latent self) ?nodes (with_bars (co_plan self) df1) Map.empty = (Inr df2, cache)"
      "co_series_cache st = cache" "co_last_data_len st = Some (length (df_index df1))"
    by (rule composite_run [OF assms(1)]) (auto simp: new_composite_state_def intro: that)
  note index = evaluation_frame_index [OF first(1)]
  have filled: "stored (df_index df) cache" "\<forall>c\<in>set ?nodes. \<not> uncached c \<longrightarrow> cn_cache_key c \<in> dom cache"
    using run_nodes_fill [OF first(2)] index by (simp_all add: stored_def)
  obtain df3 df4 cache' where second: "evaluation_frame np (co_genome self) df' = Inr df3"
      "run_nodes np (co_latent self) ?nodes (with_bars (co_plan self) df3)
        (if co_last_data_len st = Some (length (df_index df3)) then co_series_cache st else Map.empty) = (Inr df4, cache')"
      "andthen (entry_columns (co_plan self) df4) (exit_columns (co_plan self)) = Inr out'"
    using composite_run [OF assms(3)] by metis
  note index' = evaluation_frame_index [OF second(1)]
  have "run_nodes np (co_latent self) ?nodes (with_bars (co_plan self) df3) cache = (Inr df4, cache')"
    using second(2) first(3,4) index index' assms(4) by simp
  then have "missing_in i df4 c" if "c \<in> set (node_columns ?nodes)" for c
    using run_nodes_missing [OF _ filled] assms(5,6) index' that by simp
  then have "silent_in i out' ''entry_long_signal'' \<and> silent_in i out' ''entry_short_signal'' \<and>
      (exit_sources (co_plan self) \<noteq> [] \<longrightarrow> silent_in i out' ''exit_long_signal'' \<and> silent_in i out' ''exit_short_signal'')"
    by (rule signals_silent [OF second(3) assms(2)])
  then show ?thesis
    by (auto simp: silent_in_def composite_entries_def row_flag_or_def composite_exits_def row_flag_def flag_exits_def close_where_def)
qed

definition ex_later :: "decimal list \<Rightarrow> DataFrame" where
  "ex_later closes = (ex_minutes closes)\<lparr>df_index := map (\<lambda>k. int (Suc k) * 60000000) [0..<length closes]\<rparr>"

theorem same_length_frame_is_silent_witness:
  "\<exists>out st out' st'. composite_indicators ex_numerics ex_evolved (ex_minutes [10, 8, 12]) new_composite_state = (Inr out, st) \<and>
    composite_indicators ex_numerics ex_evolved (ex_later [8, 12, 99]) st = (Inr out', st') \<and>
    composite_entries ''WIN'' (row_at out' 2) = []"
proof -
  let ?df = "ex_minutes [10, 8, 12]" and ?df' = "ex_later [8, 12, 99]"
  let ?first = "composite_indicators ex_numerics ex_evolved ?df new_composite_state"
  let ?second = "composite_indicators ex_numerics ex_evolved ?df' (snd ?first)"
  have "\<not> isl (fst ?first)" by code_simp
  then obtain out st where out: "?first = (Inr out, st)" by (metis surjective_pairing sum.collapse(2))
  have "\<not> isl (fst ?second)" by code_simp
  then obtain out' st' where out': "composite_indicators ex_numerics ex_evolved ?df' st = (Inr out', st')"
    using out by (metis surjective_pairing sum.collapse(2) snd_conv)
  have "signals_from_nodes (co_plan ex_evolved)" by code_simp
  from same_length_frame_is_silent [OF out this out', of 2 "''WIN''"] out out' show ?thesis
    by (auto simp: ex_later_def ex_minutes_def upt_rec)
qed

end
