(* ===== verification/Activity.thy ===== *)
theory Activity
  imports Composite_Causal
begin

text \<open>
  The random choices of the genetic search and its probe of a genome, \<^verbatim>\<open>backtesting/genome/activity.py\<close>:
  a genome is tradeable on a series of bars when its entry signals rise often enough, and one that is
  not may be repaired. The generator is the list of the numbers it yields, zeros after them, so every
  sequence of choices is that of some generator. The quantiles of a series are a parameter.
\<close>

section \<open>Random choices\<close>

type_synonym rng = "nat list"

datatype operator_error =
    OpGenomeError genome_error
  | OpCompositeError composite_error
  | OpIndexError
  | OpTypeError
  | OpAssertionError

type_synonym 'a rand = "rng \<Rightarrow> (operator_error + 'a) \<times> rng"

definition give :: "'a \<Rightarrow> 'a rand" where
  "give x = (\<lambda>rng. (Inr x, rng))"

definition fail :: "operator_error \<Rightarrow> 'a rand" where
  "fail e = (\<lambda>rng. (Inl e, rng))"

definition rbind :: "'a rand \<Rightarrow> ('a \<Rightarrow> 'b rand) \<Rightarrow> 'b rand" where
  "rbind m k = (\<lambda>rng. case m rng of (Inl e, rng') \<Rightarrow> (Inl e, rng') | (Inr x, rng') \<Rightarrow> k x rng')"

text \<open>A computation without choices.\<close>

definition lift :: "operator_error + 'a \<Rightarrow> 'a rand" where
  "lift r = (\<lambda>rng. (r, rng))"

text \<open>\<^verbatim>\<open>except GenomeValidationError\<close>.\<close>

fun is_validation_error :: "operator_error \<Rightarrow> bool" where
  "is_validation_error (OpGenomeError (GenomeValidationError _)) = True"
| "is_validation_error (OpCompositeError (ParamError (GenomeValidationError _))) = True"
| "is_validation_error _ = False"

definition except_invalid :: "'a rand \<Rightarrow> (operator_error \<Rightarrow> 'a rand) \<Rightarrow> 'a rand" where
  "except_invalid m h = (\<lambda>rng. case m rng of
     (Inl e, rng') \<Rightarrow> if is_validation_error e then h e rng' else (Inl e, rng') | (Inr x, rng') \<Rightarrow> (Inr x, rng'))"

definition draw :: "nat rand" where
  "draw = (\<lambda>rng. case rng of [] \<Rightarrow> (Inr 0, []) | n # rest \<Rightarrow> (Inr n, rest))"

definition choice :: "'a list \<Rightarrow> 'a rand" where
  "choice xs = (if xs = [] then fail OpIndexError else rbind draw (\<lambda>n. give (xs ! (n mod length xs))))"

definition random :: "decimal rand" where
  "random = rbind draw (\<lambda>n. give (of_nat (n mod 2 ^ 53) / 2 ^ 53))"

definition uniform :: "decimal \<Rightarrow> decimal \<Rightarrow> decimal rand" where
  "uniform a b = rbind random (\<lambda>u. give (a + (b - a) * u))"

definition randint :: "int \<Rightarrow> int \<Rightarrow> int rand" where
  "randint a b = (if b < a then fail (OpGenomeError (GenomeValueError ''empty range''))
     else rbind draw (\<lambda>n. give (a + int n mod (b - a + 1))))"

lemmas rand_defs = give_def fail_def rbind_def lift_def except_invalid_def draw_def choice_def random_def uniform_def randint_def

section \<open>Parameters of a genome\<close>

definition literal_param_keys :: "(string \<times> pyval) list \<Rightarrow> string list" where
  "literal_param_keys params = map (ref_name \<circ> snd) (filter (is_param_ref \<circ> snd) params)"

definition policy_params :: "(string \<times> pyval) list \<Rightarrow> (string \<times> pyval) list" where
  "policy_params policy = (case map_of policy ''params'' of Some (PyDict ps) \<Rightarrow> ps | _ \<Rightarrow> [])"

definition collect_genome_param_keys :: "Genome \<Rightarrow> string list" where
  "collect_genome_param_keys genome = concat (map (\<lambda>node. literal_param_keys (gn_params node)) (ge_nodes genome)) @
     (case get_exit_rule_policy genome of None \<Rightarrow> [] | Some policy \<Rightarrow> literal_param_keys (policy_params policy))"

definition default_trial_params :: "Genome \<Rightarrow> operator_error + (string \<times> pyval) list" where
  "default_trial_params genome = map_result (\<lambda>key. case param_bound key of
     None \<Rightarrow> Inl (OpGenomeError (GenomeKeyError key)) | Some spec \<Rightarrow> Inr (key, ps_default spec))
     (sort (remdups (collect_genome_param_keys genome)))"

section \<open>The probe\<close>

record probe =
  pb_numerics :: numerics
  pb_quantile :: "series \<Rightarrow> decimal \<Rightarrow> decimal"
  pb_data :: DataFrame

record ActivityStats =
  as_n_entries :: nat
  as_n_exits :: nat
  as_min_signals :: nat

definition is_tradeable :: "ActivityStats \<Rightarrow> bool" where
  "is_tradeable stats = (as_min_signals stats \<le> as_n_entries stats)"

text \<open>\<^verbatim>\<open>series.fillna(False).astype(int)\<close>, for a Boolean column.\<close>

primrec column_ints :: "column \<Rightarrow> int list" where
  "column_ints (BoolCol bs) = map (\<lambda>b. if b = Some True then 1 else 0) bs"
| "column_ints (NumCol xs) = map (\<lambda>x. case x of Fin v \<Rightarrow> (if 0 \<le> v then \<lfloor>v\<rfloor> else \<lceil>v\<rceil>) | _ \<Rightarrow> 0) xs"

definition count_rising_edges :: "column \<Rightarrow> nat" where
  "count_rising_edges col = (let values = column_ints col in
     if length values < 2 then nat (sum_list values)
     else length (filter (\<lambda>(a, b). 0 < b - a) (zip values (tl values))))"

definition probe_strategy :: "Genome \<Rightarrow> (string \<times> pyval) list \<Rightarrow> operator_error + CompositeStrategy" where
  "probe_strategy genome trial_params =
     map_sum OpGenomeError id (build_composite DEFAULT_MAX_DEPTH DEFAULT_MAX_NODE_COUNT None genome trial_params ''BTCUSDT'')"

definition probe_indicators :: "probe \<Rightarrow> CompositeStrategy \<Rightarrow> operator_error + DataFrame" where
  "probe_indicators probe strategy = map_sum OpCompositeError id (fst (composite_indicators (pb_numerics probe) strategy (pb_data probe) new_composite_state))"

definition edges_of :: "string \<Rightarrow> DataFrame \<Rightarrow> nat" where
  "edges_of c df = (case df_columns df c of None \<Rightarrow> 0 | Some col \<Rightarrow> count_rising_edges col)"

definition count_exits :: "ExecutionPlan \<Rightarrow> DataFrame \<Rightarrow> nat" where
  "count_exits plan df = (let n_exits = edges_of ''exit_long_signal'' df + edges_of ''exit_short_signal'' df in
     if n_exits = 0 \<and> pl_exit_long_policy plan = EP_BOOL then
       (case (pl_exit_long_column plan, pl_exit_short_column plan) of
          (Some c, _) \<Rightarrow> edges_of c df | (None, Some c) \<Rightarrow> edges_of c df | _ \<Rightarrow> n_exits)
     else n_exits)"

text \<open>The limits of the caller are not used: the strategy compiles with the default ones.\<close>

definition genome_signal_activity :: "probe \<Rightarrow> nat \<Rightarrow> Genome \<Rightarrow> operator_error + ActivityStats" where
  "genome_signal_activity probe min_signals genome =
     (if df_index (pb_data probe) = [] then Inr \<lparr>as_n_entries = 0, as_n_exits = 0, as_min_signals = min_signals\<rparr>
      else andthen (default_trial_params genome) (\<lambda>params. andthen (probe_strategy genome params) (\<lambda>strategy.
        andthen (probe_indicators probe strategy) (\<lambda>indicators.
          Inr \<lparr>as_n_entries = edges_of ''entry_long_signal'' indicators + edges_of ''entry_short_signal'' indicators,
               as_n_exits = count_exits (co_plan strategy) indicators, as_min_signals = min_signals\<rparr>))))"

definition tradeable :: "probe \<Rightarrow> nat \<Rightarrow> Genome \<Rightarrow> bool rand" where
  "tradeable probe min_signals genome = lift (map_sum id is_tradeable (genome_signal_activity probe min_signals genome))"

definition validate_or_raise :: "nat \<Rightarrow> nat \<Rightarrow> Genome \<Rightarrow> Genome rand" where
  "validate_or_raise max_nodes max_depth genome = (case validate_genome max_depth max_nodes genome of
     None \<Rightarrow> give genome | Some e \<Rightarrow> fail (OpGenomeError e))"

definition set_node :: "nat \<Rightarrow> GenomeNode \<Rightarrow> Genome \<Rightarrow> Genome" where
  "set_node k node genome = genome\<lparr>ge_nodes := (ge_nodes genome)[k := node]\<rparr>"

section \<open>Repairs\<close>

definition parent_series :: "probe \<Rightarrow> Genome \<Rightarrow> GenomeNode \<Rightarrow> (string \<times> pyval) list \<Rightarrow> operator_error + column option" where
  "parent_series probe genome cmp_node trial_params = (case gn_inputs cmp_node of
     [] \<Rightarrow> Inr None
   | raw # _ \<Rightarrow> let (parent_id, port) = parse_input_ref raw in
       andthen (probe_strategy genome trial_params) (\<lambda>strategy. andthen (probe_indicators probe strategy) (\<lambda>indicators.
         Inr (df_columns indicators (column_name parent_id port)))))"

text \<open>\<^verbatim>\<open>dropna()\<close>, and nothing for an empty result; the quantile of a Boolean series raises.\<close>

definition observed :: "column option \<Rightarrow> operator_error + series option" where
  "observed col = (case col of
     None \<Rightarrow> Inr None
   | Some (NumCol xs) \<Rightarrow> (let seen = filter (\<lambda>x. x \<noteq> NaN) xs in Inr (if seen = [] then None else Some seen))
   | Some (BoolCol bs) \<Rightarrow> if list_all (\<lambda>b. b = None) bs then Inr None else Inl OpTypeError)"

text \<open>\<^verbatim>\<open>port_types.get(port, port_types["out"])\<close>: the default is read first, whether it is needed or not.\<close>

definition parent_output_type :: "Genome \<Rightarrow> string \<Rightarrow> operator_error + OutputType" where
  "parent_output_type genome raw = (let (parent_id, port) = parse_input_ref raw in
     case node_by_id (ge_nodes genome) parent_id of
       None \<Rightarrow> Inl (OpGenomeError (GenomeKeyError parent_id))
     | Some parent \<Rightarrow> (case node_spec (gn_kind parent) of
         None \<Rightarrow> Inl (OpGenomeError (GenomeKeyError (gn_kind parent)))
       | Some spec \<Rightarrow> (case map_of (ns_port_types spec) ''out'' of
           None \<Rightarrow> Inl (OpGenomeError (GenomeKeyError ''out''))
         | Some dflt \<Rightarrow> Inr (case map_of (ns_port_types spec) port of None \<Rightarrow> dflt | Some t \<Rightarrow> t))))"

definition recentered :: "probe \<Rightarrow> OutputType \<Rightarrow> string \<Rightarrow> series \<Rightarrow> decimal rand" where
  "recentered probe output_type kind seen =
     (let oscillates = (output_type = OT_OSCILLATOR);
          low = (let q = pb_quantile probe seen (1 / 4) in if oscillates then max 0 q else q);
          high = (let q = pb_quantile probe seen (3 / 4) in if oscillates then min 100 q else q);
          median = (let q = pb_quantile probe seen (1 / 2) in if oscillates then min (max q low) high else q)
      in if high \<le> low then give median
         else if kind = ''cmp.cross_above'' then uniform low median else uniform median high)"

definition recenters :: "GenomeNode \<Rightarrow> bool" where
  "recenters node = (gn_kind node \<in> {''cmp.cross_above'', ''cmp.cross_below''} \<and> ''threshold'' \<in> fst ` set (gn_params node))"

text \<open>The loop over the nodes of the child, by position; the flag says whether one has changed.\<close>

definition recenter_node :: "probe \<Rightarrow> (string \<times> pyval) list \<Rightarrow> nat \<Rightarrow> Genome \<times> bool \<Rightarrow> (Genome \<times> bool) rand" where
  "recenter_node probe trial_params k = (\<lambda>(child, changed).
     let node = ge_nodes child ! k in
     if \<not> recenters node then give (child, changed)
     else rbind (lift (andthen (parent_series probe child node trial_params) observed)) (\<lambda>series. case series of
         None \<Rightarrow> give (child, changed)
       | Some seen \<Rightarrow> rbind (lift (parent_output_type child (hd (gn_inputs node)))) (\<lambda>output_type.
           rbind (recentered probe output_type (gn_kind node) seen) (\<lambda>target.
             give (set_node k (node\<lparr>gn_params := dict_put ''threshold'' (PyFloat target) (gn_params node)\<rparr>) child, True)))))"

primrec each :: "('a \<Rightarrow> 's \<Rightarrow> 's rand) \<Rightarrow> 'a list \<Rightarrow> 's \<Rightarrow> 's rand" where
  "each f [] s = give s"
| "each f (x # xs) s = rbind (f x s) (each f xs)"

definition if_changed :: "nat \<Rightarrow> nat \<Rightarrow> Genome \<times> bool \<Rightarrow> Genome rand" where
  "if_changed max_nodes max_depth = (\<lambda>(child, changed). if changed then validate_or_raise max_nodes max_depth child else give child)"

definition repair_recenter_thresholds :: "probe \<Rightarrow> nat \<Rightarrow> nat \<Rightarrow> Genome \<Rightarrow> Genome rand" where
  "repair_recenter_thresholds probe max_nodes max_depth genome =
     rbind (lift (default_trial_params genome)) (\<lambda>trial_params.
     rbind (each (recenter_node probe trial_params) [0..<length (ge_nodes genome)] (genome, False)) (if_changed max_nodes max_depth))"

definition PERIOD_PARAM_KEYS :: "string list" where
  "PERIOD_PARAM_KEYS = [''period'', ''lookback_bars'', ''lookback_1'', ''lookback_2'', ''lookback_3'', ''fast_period'', ''slow_period'', ''vol_window'']"

text \<open>The current value of a period, when it is a reference or an integer.\<close>

definition current_period :: "pyval \<Rightarrow> operator_error + decimal option" where
  "current_period v = (case v of
     PyDict d \<Rightarrow> if ''param'' \<in> fst ` set d then
         (case param_bound (ref_name v) of
            None \<Rightarrow> Inr (Some 10)
          | Some bounds \<Rightarrow> (case py_number (ps_default bounds) of None \<Rightarrow> Inl OpTypeError | Some x \<Rightarrow> Inr (Some x)))
       else Inr None
   | _ \<Rightarrow> Inr (map_option of_int (py_int_value v)))"

definition shortened :: "decimal \<Rightarrow> int" where
  "shortened current = max 2 (if 0 \<le> current then \<lfloor>current * (3 / 5)\<rfloor> else \<lceil>current * (3 / 5)\<rceil>)"

definition shorten_key :: "string \<Rightarrow> (string \<times> pyval) list \<times> bool \<Rightarrow> operator_error + (string \<times> pyval) list \<times> bool" where
  "shorten_key key = (\<lambda>(params, changed). case map_of params key of
     None \<Rightarrow> Inr (params, changed)
   | Some v \<Rightarrow> andthen (current_period v) (\<lambda>current. case current of
       None \<Rightarrow> Inr (params, changed)
     | Some x \<Rightarrow> Inr (dict_put key (PyInt (shortened x)) params, True)))"

definition shorten_node :: "nat \<Rightarrow> Genome \<times> bool \<Rightarrow> (Genome \<times> bool) rand" where
  "shorten_node k = (\<lambda>(child, changed).
     let node = ge_nodes child ! k in
     if \<not> starts_with ''ind.'' (gn_kind node) then give (child, changed)
     else rbind (each (\<lambda>key s. lift (shorten_key key s)) PERIOD_PARAM_KEYS (gn_params node, changed)) (\<lambda>(params, changed').
       give (set_node k (node\<lparr>gn_params := params\<rparr>) child, changed')))"

definition repair_shorten_lookbacks :: "nat \<Rightarrow> nat \<Rightarrow> Genome \<Rightarrow> Genome rand" where
  "repair_shorten_lookbacks max_nodes max_depth genome =
     rbind (each shorten_node [0..<length (ge_nodes genome)] (genome, False)) (if_changed max_nodes max_depth)"

text \<open>Relaxing an entry that is a conjunction to one of its inputs.\<close>

definition relaxed_ref :: "GenomeNode list \<Rightarrow> string \<Rightarrow> string option rand" where
  "relaxed_ref nodes raw = (case node_by_id nodes (fst (parse_input_ref raw)) of
     None \<Rightarrow> give None
   | Some node \<Rightarrow> if gn_kind node \<noteq> ''logic.and'' then give None
       else rbind (choice (parents node)) (\<lambda>replacement. give (Some replacement)))"

definition repair_relax_logic_and :: "nat \<Rightarrow> nat \<Rightarrow> Genome \<Rightarrow> Genome rand" where
  "repair_relax_logic_and max_nodes max_depth genome =
     rbind (relaxed_ref (ge_nodes genome) (ge_entry_long genome)) (\<lambda>long.
     rbind (relaxed_ref (ge_nodes genome) (ge_entry_short genome)) (\<lambda>short.
       let child = (case long of None \<Rightarrow> genome | Some r \<Rightarrow> genome\<lparr>ge_entry_long := r\<rparr>);
           child = (case short of None \<Rightarrow> child | Some r \<Rightarrow> child\<lparr>ge_entry_short := r\<rparr>)
       in if_changed max_nodes max_depth (child, long \<noteq> None \<or> short \<noteq> None)))"

definition repair_operation :: "probe \<Rightarrow> nat \<Rightarrow> nat \<Rightarrow> nat \<Rightarrow> Genome \<Rightarrow> Genome rand" where
  "repair_operation probe max_nodes max_depth attempt =
     [repair_recenter_thresholds probe max_nodes max_depth, repair_shorten_lookbacks max_nodes max_depth,
      repair_relax_logic_and max_nodes max_depth] ! (attempt mod 3)"

text \<open>
  The attempts from the given one on: a candidate that is tradeable is the result, one that is not is
  where the next attempt starts, and an attempt that fails validation is skipped. A candidate that
  cannot be probed is dropped too, when what it raises is a validation error.
\<close>

primrec repair_attempts :: "probe \<Rightarrow> nat \<Rightarrow> nat \<Rightarrow> nat \<Rightarrow> nat \<Rightarrow> nat \<Rightarrow> Genome \<Rightarrow> Genome rand" where
  "repair_attempts probe min_signals max_nodes max_depth attempt 0 current = give current"
| "repair_attempts probe min_signals max_nodes max_depth attempt (Suc n) current =
     rbind (except_invalid
         (rbind (repair_operation probe max_nodes max_depth attempt current) (\<lambda>candidate.
          rbind (tradeable probe min_signals candidate) (\<lambda>ok. give (candidate, ok))))
         (\<lambda>_. give (current, False))) (\<lambda>(next, ok).
       if ok then give next else repair_attempts probe min_signals max_nodes max_depth (Suc attempt) n next)"

definition repair_genome :: "probe \<Rightarrow> nat \<Rightarrow> nat \<Rightarrow> nat \<Rightarrow> nat \<Rightarrow> Genome \<Rightarrow> Genome rand" where
  "repair_genome probe min_signals max_nodes max_depth max_attempts genome =
     rbind (tradeable probe min_signals genome) (\<lambda>ok. if ok then give genome
       else repair_attempts probe min_signals max_nodes max_depth 0 max_attempts genome)"

definition population_tradeable_fraction :: "probe \<Rightarrow> nat \<Rightarrow> Genome list \<Rightarrow> operator_error + decimal" where
  "population_tradeable_fraction probe min_signals population =
     (if population = [] then Inr 0
      else andthen (map_result (genome_signal_activity probe min_signals) population) (\<lambda>stats.
        Inr (of_nat (length (filter is_tradeable stats)) / of_nat (length population))))"

end
