(* ===== verification/Operators.thy ===== *)
theory Operators
  imports Activity
begin

text \<open>
  The genetic operators on genomes, \<^verbatim>\<open>backtesting/genome/operators.py\<close>: adaptive rates and weights,
  crossover of two genomes at compatible nodes, and the eleven mutations. A node that is changed in
  place is given by its position. Sets of node names are lists without repetitions; the identifiers of
  the nodes of a genome are distinct, as validation demands.
\<close>

section \<open>Rates and weights\<close>

definition genome_node_count :: "Genome \<Rightarrow> nat" where
  "genome_node_count genome = length (ge_nodes genome)"

definition genome_param_count :: "Genome \<Rightarrow> nat" where
  "genome_param_count genome = length (remdups (collect_genome_param_keys genome))"

definition genome_structural_fingerprint :: "Genome \<Rightarrow> string list" where
  "genome_structural_fingerprint genome = sort (map gn_kind (ge_nodes genome))"

definition population_structural_diversity :: "Genome list \<Rightarrow> decimal" where
  "population_structural_diversity population = (if population = [] then 1
     else of_nat (length (remdups (map genome_structural_fingerprint population))) / of_nat (length population))"

definition adapt_mutation_rate :: "decimal \<Rightarrow> decimal \<Rightarrow> decimal \<Rightarrow> int \<Rightarrow> int \<Rightarrow> decimal \<Rightarrow> decimal" where
  "adapt_mutation_rate base_rate min_rate max_rate stagnation_generations stagnation_patience structural_diversity =
     (if max_rate \<le> min_rate \<or> stagnation_generations = 0 then base_rate
      else let stagnation = (if stagnation_patience \<le> stagnation_generations
             then min 1 (of_int (stagnation_generations - stagnation_patience + 1) / of_int (max stagnation_patience 1)) else 0);
           homogeneity = (if structural_diversity < 1 / 2 then 1 / 2 - structural_diversity else 0);
           pressure = min 1 (stagnation + homogeneity);
           adapted = base_rate + pressure * (max_rate - base_rate)
      in min max_rate (max min_rate adapted))"

definition weight_of :: "(string \<times> decimal) list \<Rightarrow> string \<Rightarrow> decimal" where
  "weight_of weights c = (case map_of weights c of None \<Rightarrow> 1 | Some w \<Rightarrow> w)"

primrec pick_weighted :: "(string \<times> decimal) list \<Rightarrow> decimal \<Rightarrow> decimal \<Rightarrow> string list \<Rightarrow> string option" where
  "pick_weighted weights pick cumulative [] = None"
| "pick_weighted weights pick cumulative (c # cs) = (let cumulative' = cumulative + max (weight_of weights c) 0 in
     if pick \<le> cumulative' then Some c else pick_weighted weights pick cumulative' cs)"

definition weighted_choice :: "string list \<Rightarrow> (string \<times> decimal) list \<Rightarrow> string rand" where
  "weighted_choice choices weights =
     (let total = sum_list (map (\<lambda>c. max (weight_of weights c) 0) choices) in
      if total \<le> 0 then choice choices
      else rbind (uniform 0 total) (\<lambda>pick. give (case pick_weighted weights pick 0 choices of None \<Rightarrow> last choices | Some c \<Rightarrow> c)))"

definition choose_seeding :: "string list \<Rightarrow> (string \<times> decimal) list \<Rightarrow> string rand" where
  "choose_seeding choices weights = (if weights = [] then choice choices else weighted_choice choices weights)"

definition update_mutation_operator_weights :: "decimal \<Rightarrow> decimal \<Rightarrow> decimal \<Rightarrow> (string \<times> decimal) list \<Rightarrow> string \<Rightarrow> decimal \<Rightarrow> (string \<times> decimal) list" where
  "update_mutation_operator_weights learning_rate min_weight max_weight weights operator fitness_delta = (case map_of weights operator of
     None \<Rightarrow> weights
   | Some w \<Rightarrow>
       if 0 < fitness_delta then dict_put operator (min max_weight (w * (1 + learning_rate))) weights
       else if fitness_delta < 0 then dict_put operator (max min_weight (w * (1 - learning_rate / 2))) weights
       else weights)"

section \<open>Genomes\<close>

definition clone_genome :: "string option \<Rightarrow> int option \<Rightarrow> Genome \<Rightarrow> Genome" where
  "clone_genome genome_id generation genome =
     (let genome = (case genome_id of None \<Rightarrow> genome | Some i \<Rightarrow> genome\<lparr>ge_genome_id := i\<rparr>) in
      case generation of None \<Rightarrow> genome | Some g \<Rightarrow> genome\<lparr>ge_metadata := dict_put ''generation'' (PyInt g) (ge_metadata genome)\<rparr>)"

definition spec_of :: "string \<Rightarrow> operator_error + NodeSpec" where
  "spec_of kind = (case node_spec kind of None \<Rightarrow> Inl (OpGenomeError (GenomeKeyError kind)) | Some spec \<Rightarrow> Inr spec)"

definition node_output_type :: "string \<Rightarrow> operator_error + OutputType" where
  "node_output_type kind = andthen (spec_of kind) (\<lambda>spec. case ns_output_ports spec of
     [] \<Rightarrow> Inl OpIndexError
   | port # _ \<Rightarrow> (case map_of (ns_port_types spec) port of None \<Rightarrow> Inl (OpGenomeError (GenomeKeyError port)) | Some t \<Rightarrow> Inr t))"

definition primary_output_type :: "GenomeNode \<Rightarrow> operator_error + OutputType" where
  "primary_output_type node = (if gn_kind node = ''exit.middle_band'' then map_sum id (\<lambda>_. OT_EXIT_POLICY) (spec_of (gn_kind node))
     else node_output_type (gn_kind node))"

primrec filter_result :: "('a \<Rightarrow> 'e + bool) \<Rightarrow> 'a list \<Rightarrow> 'e + 'a list" where
  "filter_result p [] = Inr []"
| "filter_result p (x # xs) = andthen (p x) (\<lambda>b. map_sum id (\<lambda>ys. if b then x # ys else ys) (filter_result p xs))"

text \<open>The nodes of a genome with a Boolean output, by name.\<close>

definition bool_nodes :: "GenomeNode list \<Rightarrow> operator_error + string list" where
  "bool_nodes nodes = map_sum id (map gn_id) (filter_result (\<lambda>node. map_sum id (\<lambda>t. t = OT_BOOL) (primary_output_type node)) nodes)"

definition positions :: "(GenomeNode \<Rightarrow> bool) \<Rightarrow> GenomeNode list \<Rightarrow> nat list" where
  "positions p nodes = filter (\<lambda>k. p (nodes ! k)) [0..<length nodes]"

section \<open>Crossover\<close>

definition cuttable :: "GenomeNode \<Rightarrow> bool" where
  "cuttable node = list_ex (\<lambda>p. starts_with p (gn_kind node)) [''ind.'', ''cmp.'', ''logic.'']"

definition compatible_cut :: "GenomeNode \<Rightarrow> GenomeNode \<Rightarrow> operator_error + bool" where
  "compatible_cut cut_a node =
     andthen (primary_output_type cut_a) (\<lambda>output_type. andthen (spec_of (gn_kind cut_a)) (\<lambda>spec_a.
     andthen (primary_output_type node) (\<lambda>t. andthen (spec_of (gn_kind node)) (\<lambda>spec.
       Inr (t = output_type \<and> ns_min_inputs spec = ns_min_inputs spec_a \<and> ns_max_inputs spec = ns_max_inputs spec_a)))))"

definition compatible_cut_nodes :: "GenomeNode \<Rightarrow> GenomeNode list \<Rightarrow> operator_error + GenomeNode list" where
  "compatible_cut_nodes cut_a cuts_b = filter_result (compatible_cut cut_a) cuts_b"

text \<open>
  The nodes reached from a stack of names; the top of the stack is its head. The measure is the
  number of nodes that are not collected, then the height of the stack.
\<close>

function collect_ids :: "GenomeNode list \<Rightarrow> string list \<Rightarrow> string list \<Rightarrow> string list" where
  "collect_ids nodes collected [] = collected"
| "collect_ids nodes collected (node_id # stack) =
     (if node_id \<in> set collected then collect_ids nodes collected stack
      else case node_by_id nodes node_id of
        None \<Rightarrow> collect_ids nodes collected stack
      | Some node \<Rightarrow> collect_ids nodes (collected @ [node_id]) (rev (parents node) @ stack))"
  by pat_completeness auto

lemma node_by_id_name: "node_by_id nodes node_id = Some node \<Longrightarrow> node_id \<in> gn_id ` set nodes"
  by (auto simp: node_by_id_def find_Some_iff)

termination collect_ids
proof (relation "measures [\<lambda>(nodes, collected, stack). card (gn_id ` set nodes - set collected), \<lambda>(nodes, collected, stack). length stack]", goal_cases)
  case (4 nodes collected node_id stack node)
  have "node_id \<in> gn_id ` set nodes - set collected" using 4 node_by_id_name by blast
  then have "card (gn_id ` set nodes - set collected - {node_id}) < card (gn_id ` set nodes - set collected)" by (intro card_Diff1_less) simp_all
  then show ?case by (simp add: Diff_insert [symmetric] insert_commute)
qed auto

definition subtree_node_ids :: "Genome \<Rightarrow> string \<Rightarrow> string list" where
  "subtree_node_ids genome root_id = collect_ids (ge_nodes genome) [] [root_id]"

definition signal_ids :: "Genome \<Rightarrow> string list" where
  "signal_ids genome = map (\<lambda>raw. fst (parse_input_ref raw)) [ge_entry_long genome, ge_entry_short genome, ge_exit_long genome, ge_exit_short genome]"

definition reachable_node_ids :: "Genome \<Rightarrow> string list" where
  "reachable_node_ids genome = collect_ids (ge_nodes genome) [] (rev (signal_ids genome))"

definition prune_unreachable_nodes :: "Genome \<Rightarrow> Genome" where
  "prune_unreachable_nodes genome = genome\<lparr>ge_nodes := filter (\<lambda>node. gn_id node \<in> set (reachable_node_ids genome)) (ge_nodes genome)\<rparr>"

definition with_port :: "string \<Rightarrow> string \<Rightarrow> string" where
  "with_port new_id raw = (if CHR '':'' \<in> set raw then new_id @ '':'' @ snd (parse_input_ref raw) else new_id)"

definition remap_input_ref :: "(string \<times> string) list \<Rightarrow> string \<Rightarrow> string" where
  "remap_input_ref id_map raw = (let node_id = fst (parse_input_ref raw) in
     with_port (case map_of id_map node_id of None \<Rightarrow> node_id | Some i \<Rightarrow> i) raw)"

definition numbered :: "nat \<Rightarrow> string" where
  "numbered k = ''n'' @ digits_of k"

text \<open>The numbers of node names are distinct, so the search for a free one ends.\<close>

definition digits_value :: "string \<Rightarrow> nat" where
  "digits_value s = foldl (\<lambda>v c. 10 * v + (of_char c - 48)) 0 s"

lemma digits_value_of: "digits_value (digits_of n) = n"
proof (induction n rule: digits_of.induct)
  case (1 n)
  have char: "of_char (char_of (48 + d) :: char) - (48 :: nat) = d" if "d < 10" for d :: nat using that by simp
  show ?case
  proof (cases "n < 10")
    case True
    then show ?thesis by (subst digits_of.simps) (simp add: digits_value_def)
  next
    case False
    then show ?thesis using 1 by (subst digits_of.simps) (simp add: digits_value_def)
  qed
qed

lemma numbered_inject: "numbered j = numbered k \<longleftrightarrow> j = k"
  by (metis digits_value_of append_same_eq numbered_def same_append_eq)

function next_unique_node_id :: "string list \<Rightarrow> nat \<Rightarrow> string \<times> nat" where
  "next_unique_node_id existing_ids candidate =
     (if numbered candidate \<in> set existing_ids then next_unique_node_id existing_ids (Suc candidate)
      else (numbered candidate, Suc candidate))"
  by pat_completeness auto

termination next_unique_node_id
proof (relation "measure (\<lambda>(existing_ids, candidate). card (set existing_ids \<inter> numbered ` {candidate..}))", goal_cases)
  case (2 existing_ids candidate)
  have "set existing_ids \<inter> numbered ` {Suc candidate..} \<subseteq> set existing_ids \<inter> numbered ` {candidate..}" by auto
  moreover have "numbered candidate \<in> set existing_ids \<inter> numbered ` {candidate..}" "numbered candidate \<notin> numbered ` {Suc candidate..}"
    using 2 numbered_inject by auto
  ultimately have "set existing_ids \<inter> numbered ` {Suc candidate..} \<subset> set existing_ids \<inter> numbered ` {candidate..}" by blast
  then show ?case by (simp add: psubset_card_mono)
qed simp

declare next_unique_node_id.simps [simp del]

primrec new_ids :: "string list \<Rightarrow> nat \<Rightarrow> string list \<Rightarrow> (string \<times> string) list" where
  "new_ids existing_ids counter [] = []"
| "new_ids existing_ids counter (node_id # rest) = (case next_unique_node_id existing_ids counter of
     (new_id, counter') \<Rightarrow> (node_id, new_id) # new_ids (new_id # existing_ids) counter' rest)"

definition copy_node :: "(string \<times> string) list \<Rightarrow> GenomeNode \<Rightarrow> GenomeNode" where
  "copy_node id_map source = source\<lparr>gn_id := (case map_of id_map (gn_id source) of None \<Rightarrow> gn_id source | Some i \<Rightarrow> i),
     gn_inputs := map (remap_input_ref id_map) (gn_inputs source)\<rparr>"

text \<open>Every name of the subtree is that of a node of the genome.\<close>

definition copy_subtree_with_new_ids :: "Genome \<Rightarrow> string list \<Rightarrow> string list \<Rightarrow> nat \<Rightarrow> GenomeNode list \<times> (string \<times> string) list" where
  "copy_subtree_with_new_ids genome subtree_ids existing_ids start_counter =
     (let id_map = new_ids existing_ids start_counter (sort subtree_ids)
      in (map (\<lambda>node_id. copy_node id_map (the (node_by_id (ge_nodes genome) node_id))) (sort subtree_ids), id_map))"

definition rewire_ref :: "string \<Rightarrow> string \<Rightarrow> string \<Rightarrow> string" where
  "rewire_ref old_root_id new_root_id raw = (if fst (parse_input_ref raw) = old_root_id then with_port new_root_id raw else raw)"

definition rewire_consumers :: "string \<Rightarrow> string \<Rightarrow> Genome \<Rightarrow> Genome" where
  "rewire_consumers old_root_id new_root_id genome = (let rewire = rewire_ref old_root_id new_root_id in
     genome\<lparr>ge_nodes := map (\<lambda>node. node\<lparr>gn_inputs := map rewire (gn_inputs node)\<rparr>) (ge_nodes genome),
       ge_entry_long := rewire (ge_entry_long genome), ge_entry_short := rewire (ge_entry_short genome),
       ge_exit_long := rewire (ge_exit_long genome), ge_exit_short := rewire (ge_exit_short genome)\<rparr>)"

definition numeric_suffix :: "string \<Rightarrow> nat option" where
  "numeric_suffix node_id = (case node_id of
     CHR ''n'' # ds \<Rightarrow> if ds \<noteq> [] \<and> list_all (\<lambda>c. digit_value c \<noteq> None) ds then Some (digits_value ds) else None
   | _ \<Rightarrow> None)"

definition max_numeric_node_suffix :: "string list \<Rightarrow> nat" where
  "max_numeric_node_suffix node_ids = fold max (List.map_filter numeric_suffix node_ids) 0"

definition dependents :: "GenomeNode list \<Rightarrow> string list \<Rightarrow> string \<Rightarrow> nat" where
  "dependents nodes subtree_ids parent = length (filter (\<lambda>p. p = parent)
     (concat (map (\<lambda>node_id. parents (the (node_by_id nodes node_id))) subtree_ids)))"

definition prune_subtree_leaves :: "string list \<Rightarrow> Genome \<Rightarrow> string \<Rightarrow> string list" where
  "prune_subtree_leaves subtree_ids genome keep_root =
     (case filter (\<lambda>node_id. node_id \<noteq> keep_root \<and> dependents (ge_nodes genome) subtree_ids node_id = 0) subtree_ids of
        [] \<Rightarrow> subtree_ids
      | leaf # _ \<Rightarrow> remove1 leaf subtree_ids)"

definition single_node_crossover :: "nat \<Rightarrow> nat \<Rightarrow> Genome \<Rightarrow> nat \<Rightarrow> GenomeNode \<Rightarrow> Genome rand" where
  "single_node_crossover max_nodes max_depth child k cut_b =
     validate_or_raise max_nodes max_depth
       (set_node k ((ge_nodes child ! k)\<lparr>gn_kind := gn_kind cut_b, gn_params := gn_params cut_b\<rparr>) child)"

text \<open>One turn of the loop: the child with the imported subtree in place of the node.\<close>

definition graft :: "Genome \<Rightarrow> Genome \<Rightarrow> GenomeNode \<Rightarrow> GenomeNode \<Rightarrow> string list \<Rightarrow> Genome" where
  "graft parent_a parent_b cut_a cut_b pruned_ids =
     (let kept = filter (\<lambda>node. gn_id node \<noteq> gn_id cut_a) (ge_nodes parent_a);
          existing_ids = map gn_id kept;
          (imported, id_map) = copy_subtree_with_new_ids parent_b pruned_ids existing_ids (Suc (max_numeric_node_suffix existing_ids));
          new_root_id = (case map_of id_map (gn_id cut_b) of None \<Rightarrow> gn_id cut_b | Some i \<Rightarrow> i)
      in prune_unreachable_nodes (rewire_consumers (gn_id cut_a) new_root_id (parent_a\<lparr>ge_nodes := kept @ imported\<rparr>)))"

function graft_pruned :: "nat \<Rightarrow> nat \<Rightarrow> Genome \<Rightarrow> Genome \<Rightarrow> GenomeNode \<Rightarrow> GenomeNode \<Rightarrow> string list \<Rightarrow> operator_error + Genome" where
  "graft_pruned max_nodes max_depth parent_a parent_b cut_a cut_b pruned_ids =
     (let child = graft parent_a parent_b cut_a cut_b pruned_ids in
      case validate_genome max_depth max_nodes child of
        None \<Rightarrow> Inr child
      | Some e \<Rightarrow>
          if \<not> is_validation_error (OpGenomeError e) \<or> length pruned_ids \<le> 1 then Inl (OpGenomeError e)
          else let next_pruned = prune_subtree_leaves pruned_ids parent_b (gn_id cut_b) in
            if next_pruned = pruned_ids then Inl (OpGenomeError e)
            else graft_pruned max_nodes max_depth parent_a parent_b cut_a cut_b next_pruned)"
  by pat_completeness auto

lemma prune_subtree_shrinks: "prune_subtree_leaves ids genome keep \<noteq> ids \<Longrightarrow> length (prune_subtree_leaves ids genome keep) < length ids"
proof -
  have "length (remove1 leaf ids) < length ids" if "filter P ids = leaf # rest" for leaf rest P
  proof -
    have "leaf \<in> set ids" using that by (metis filter_is_subset list.set_intros(1) subsetD)
    then show ?thesis using length_pos_if_in_set [of leaf ids] by (simp add: length_remove1)
  qed
  then show "prune_subtree_leaves ids genome keep \<noteq> ids \<Longrightarrow> length (prune_subtree_leaves ids genome keep) < length ids"
    unfolding prune_subtree_leaves_def by (metis (no_types, lifting) list.case(1) list.case(2) list.exhaust)
qed

termination graft_pruned
  using prune_subtree_shrinks by (relation "measure (\<lambda>(max_nodes, max_depth, parent_a, parent_b, cut_a, cut_b, pruned_ids). length pruned_ids)") auto

declare graft_pruned.simps [simp del]

definition subtree_crossover :: "nat \<Rightarrow> nat \<Rightarrow> Genome \<Rightarrow> Genome \<Rightarrow> GenomeNode \<Rightarrow> GenomeNode \<Rightarrow> operator_error + Genome" where
  "subtree_crossover max_nodes max_depth parent_a parent_b cut_a cut_b =
     (if gn_id cut_a \<notin> gn_id ` set (ge_nodes parent_a) then Inr parent_a
      else let subtree_b_ids = subtree_node_ids parent_b (gn_id cut_b) in
        if length subtree_b_ids \<le> 1 then Inl (OpGenomeError (GenomeValidationError ''subtree too small for crossover''))
        else graft_pruned max_nodes max_depth parent_a parent_b cut_a cut_b subtree_b_ids)"

definition crossover_genomes :: "nat \<Rightarrow> nat \<Rightarrow> Genome \<Rightarrow> Genome \<Rightarrow> Genome rand" where
  "crossover_genomes max_nodes max_depth parent_a parent_b =
     (let cuts_a = positions cuttable (ge_nodes parent_a); cuts_b = filter cuttable (ge_nodes parent_b) in
      if cuts_a = [] \<or> cuts_b = [] then give parent_a
      else rbind (choice cuts_a) (\<lambda>k. let cut_a = ge_nodes parent_a ! k in
        rbind (lift (compatible_cut_nodes cut_a cuts_b)) (\<lambda>compatible_b.
          if compatible_b = [] then give parent_a
          else let multi_node = filter (\<lambda>node. 1 < length (subtree_node_ids parent_b (gn_id node))) compatible_b;
                   single = rbind (choice compatible_b) (single_node_crossover max_nodes max_depth parent_a k)
               in if multi_node = [] then single
                  else rbind (choice multi_node) (\<lambda>cut_b.
                    except_invalid (lift (subtree_crossover max_nodes max_depth parent_a parent_b cut_a cut_b)) (\<lambda>_. single)))))"

section \<open>Parameters of new nodes\<close>

definition FEATURE_LITERAL_DEFAULTS :: "(string \<times> string) list" where
  "FEATURE_LITERAL_DEFAULTS = [(''session_open'', ''09:00''), (''session_close'', ''18:00''), (''window_from'', ''10:00''), (''window_to'', ''12:00'')]"

definition random_param_ref :: "string \<Rightarrow> pyval" where
  "random_param_ref key = PyDict [(''param'', PyStr key)]"

definition sample_latent_index :: "int \<Rightarrow> int rand" where
  "sample_latent_index n_latents = (if n_latents \<le> 0 then give 0 else randint 0 (n_latents - 1))"

definition random_param :: "int \<Rightarrow> string \<Rightarrow> string \<Rightarrow> (string \<times> pyval) rand" where
  "random_param n_latents kind key = (case map_of FEATURE_LITERAL_DEFAULTS key of
     Some v \<Rightarrow> give (key, PyStr v)
   | None \<Rightarrow>
       if kind = ''ind.latent'' \<and> key = ''latent_index'' then rbind (sample_latent_index n_latents) (\<lambda>i. give (key, PyInt i))
       else give (key, random_param_ref key))"

primrec map_rand :: "('a \<Rightarrow> 'b rand) \<Rightarrow> 'a list \<Rightarrow> 'b list rand" where
  "map_rand f [] = give []"
| "map_rand f (x # xs) = rbind (f x) (\<lambda>y. rbind (map_rand f xs) (\<lambda>ys. give (y # ys)))"

definition random_node_params :: "int \<Rightarrow> string \<Rightarrow> (string \<times> pyval) list rand" where
  "random_node_params n_latents kind = rbind (lift (spec_of kind)) (\<lambda>spec.
     map_rand (random_param n_latents kind) (sort (ns_allowed_param_keys spec)))"

definition round4 :: "decimal \<Rightarrow> decimal" where
  "round4 x = of_int (round_half_even (x * 10000)) / 10000"

text \<open>
  A new value for a parameter with bounds. The second test of the latent index never decides: only
  the kind tested first has that parameter.
\<close>

definition nudged_value :: "int \<Rightarrow> string \<Rightarrow> string \<Rightarrow> StrategyParamSpec \<Rightarrow> pyval rand" where
  "nudged_value n_latents kind key bounds =
     (if kind = ''ind.latent'' \<and> key = ''latent_index'' then rbind (sample_latent_index n_latents) (\<lambda>i. give (PyInt i))
      else case (ps_type bounds, ps_choices bounds, ps_min bounds, ps_max bounds) of
        (PT_CATEGORICAL, Some (c # cs), _, _) \<Rightarrow> rbind (choice (c # cs)) (\<lambda>v. give (PyStr v))
      | (PT_INT, _, Some mn, Some mx) \<Rightarrow>
          if key = ''latent_index'' \<and> 0 < n_latents then rbind (sample_latent_index n_latents) (\<lambda>i. give (PyInt i))
          else rbind (randint \<lfloor>mn\<rfloor> \<lfloor>mx\<rfloor>) (\<lambda>i. give (PyInt i))
      | (PT_FLOAT, _, Some mn, Some mx) \<Rightarrow> rbind (uniform mn mx) (\<lambda>x. give (PyFloat (round4 x)))
      | _ \<Rightarrow> give (random_param_ref key))"

definition light_mutate_params :: "nat \<Rightarrow> nat \<Rightarrow> int \<Rightarrow> Genome \<Rightarrow> Genome rand" where
  "light_mutate_params max_nodes max_depth n_latents genome =
     (if ge_nodes genome = [] then give genome
      else rbind (choice [0..<length (ge_nodes genome)]) (\<lambda>k. let node = ge_nodes genome ! k in
        rbind (lift (spec_of (gn_kind node))) (\<lambda>spec.
          if ns_allowed_param_keys spec = [] then give genome
          else rbind (choice (sort (ns_allowed_param_keys spec))) (\<lambda>key. case param_bound key of
              None \<Rightarrow> give genome
            | Some bounds \<Rightarrow> rbind (nudged_value n_latents (gn_kind node) key bounds) (\<lambda>v.
                validate_or_raise max_nodes max_depth (set_node k (node\<lparr>gn_params := dict_put key v (gn_params node)\<rparr>) genome))))))"

section \<open>Exit policies\<close>

definition selected_exit_policy_presets :: "string list option \<Rightarrow> operator_error + ExitPreset list" where
  "selected_exit_policy_presets preset_ids = (case preset_ids of
     None \<Rightarrow> Inr EXIT_PRESETS
   | Some ids \<Rightarrow> map_result (\<lambda>i. case preset_by_id i of None \<Rightarrow> Inl (OpGenomeError (GenomeKeyError i)) | Some p \<Rightarrow> Inr p) ids)"

definition exit_ref_param :: "string \<Rightarrow> string \<times> pyval" where
  "exit_ref_param name = (name, PyDict [(''param'', PyStr (genome_exit_param_ref name))])"

definition build_exit_rule_policy :: "ExitPreset \<Rightarrow> (string \<times> pyval) list" where
  "build_exit_rule_policy preset = [(''preset_id'', PyStr (ep_id preset)),
     (''params'', PyDict (map exit_ref_param (sorted_list_of_set (preset_exit_param_names preset))))]"

definition build_single_stop_exit_policy :: "bool \<Rightarrow> (string \<times> pyval) list" where
  "build_single_stop_exit_policy atr =
     (if atr then [(''preset_id'', PyStr ''atr_stop_only''), (''params'', PyDict [exit_ref_param ''stop_loss_atr'', exit_ref_param ''atr_period''])]
      else [(''preset_id'', PyStr ''fixed_stop_only''), (''params'', PyDict [exit_ref_param ''stop_loss_pct''])])"

definition put_policy :: "(string \<times> pyval) list \<Rightarrow> Genome \<Rightarrow> Genome" where
  "put_policy policy genome = genome\<lparr>ge_metadata := dict_put ''exit_rule_policy'' (PyDict policy) (ge_metadata genome)\<rparr>"

definition attach_exit_rule_policy :: "ExitPreset \<Rightarrow> Genome \<Rightarrow> Genome" where
  "attach_exit_rule_policy preset genome = put_policy (build_exit_rule_policy preset) genome"

definition drop_exit_rule_policy :: "Genome \<Rightarrow> Genome" where
  "drop_exit_rule_policy genome = genome\<lparr>ge_metadata := filter (\<lambda>(k, v). k \<noteq> ''exit_rule_policy'') (ge_metadata genome)\<rparr>"

definition mutate_swap_exit_policy :: "string list option \<Rightarrow> Genome \<Rightarrow> Genome rand" where
  "mutate_swap_exit_policy preset_ids genome = rbind (lift (selected_exit_policy_presets preset_ids)) (\<lambda>presets.
     if presets = [] then give genome
     else let current_id = Option.bind (get_exit_rule_policy genome) (\<lambda>policy. map_of policy ''preset_id'');
              others = filter (\<lambda>preset. current_id \<noteq> Some (PyStr (ep_id preset))) presets
          in rbind (choice (if others = [] then presets else others)) (\<lambda>preset. give (attach_exit_rule_policy preset genome)))"

definition mutate_add_exit_stop :: "Genome \<Rightarrow> Genome rand" where
  "mutate_add_exit_stop genome = (if get_exit_rule_policy genome \<noteq> None then give genome
     else rbind random (\<lambda>u. give (put_policy (build_single_stop_exit_policy (u < 1 / 2)) genome)))"

definition mutate_replace_exit_with_preset :: "string list option \<Rightarrow> Genome \<Rightarrow> Genome rand" where
  "mutate_replace_exit_with_preset preset_ids genome = rbind (lift (selected_exit_policy_presets preset_ids)) (\<lambda>presets.
     if presets = [] then give genome else rbind (choice presets) (\<lambda>preset. give (attach_exit_rule_policy preset genome)))"

definition mutate_drop_exit_policy :: "Genome \<Rightarrow> Genome rand" where
  "mutate_drop_exit_policy genome = (if get_exit_rule_policy genome = None then give genome else give (drop_exit_rule_policy genome))"

definition mutate_nudge_exit_param_ref :: "Genome \<Rightarrow> Genome rand" where
  "mutate_nudge_exit_param_ref genome = (case get_exit_rule_policy genome of
     None \<Rightarrow> give genome
   | Some policy \<Rightarrow> let params = policy_params policy in
       if params = [] then give genome
       else rbind (choice (sort (map fst params))) (\<lambda>exit_name.
         give (put_policy (dict_put ''params'' (PyDict (dict_put exit_name (snd (exit_ref_param exit_name)) params)) policy) genome)))"

section \<open>Mutations of the graph\<close>

definition mutate_rewire :: "nat \<Rightarrow> nat \<Rightarrow> Genome \<Rightarrow> Genome rand" where
  "mutate_rewire max_nodes max_depth genome =
     (let nodes = ge_nodes genome; candidates = positions (\<lambda>node. gn_inputs node \<noteq> []) nodes in
      if candidates = [] then give genome
      else rbind (choice candidates) (\<lambda>k. let target = nodes ! k in
        rbind (choice [0..<length (gn_inputs target)]) (\<lambda>idx.
          let producers = filter (\<lambda>node. gn_id node \<noteq> gn_id target) nodes in
          if producers = [] then give genome
          else rbind (choice producers) (\<lambda>producer.
            validate_or_raise max_nodes max_depth (set_node k (target\<lparr>gn_inputs := (gn_inputs target)[idx := gn_id producer]\<rparr>) genome)))))"

definition swappable :: "GenomeNode \<Rightarrow> operator_error + bool" where
  "swappable node = (if list_ex (\<lambda>p. starts_with p (gn_kind node)) [''ind.'', ''transform.'', ''feature.'']
     then map_sum id (\<lambda>spec. ng_swap (resolve_node_gen_metadata spec)) (spec_of (gn_kind node)) else Inr False)"

definition swap_candidates :: "string list \<Rightarrow> GenomeNode \<Rightarrow> operator_error + string list" where
  "swap_candidates indicator_kinds node =
     andthen (primary_output_type node) (\<lambda>old_type. andthen (spec_of (gn_kind node)) (\<lambda>old_spec.
       filter_result (\<lambda>kind. andthen (node_output_type kind) (\<lambda>t. andthen (spec_of kind) (\<lambda>spec.
         Inr (t = old_type \<and> ns_min_inputs spec = ns_min_inputs old_spec)))) (sorted_list_of_set (swap_kinds (set indicator_kinds)))))"

definition mutate_swap_indicator :: "nat \<Rightarrow> nat \<Rightarrow> string list \<Rightarrow> int \<Rightarrow> Genome \<Rightarrow> Genome rand" where
  "mutate_swap_indicator max_nodes max_depth indicator_kinds n_latents genome =
     (let nodes = ge_nodes genome in
      rbind (lift (filter_result (\<lambda>k. swappable (nodes ! k)) [0..<length nodes])) (\<lambda>candidates.
        if candidates = [] then give genome
        else rbind (choice candidates) (\<lambda>k. let node = nodes ! k in
          rbind (lift (swap_candidates indicator_kinds node)) (\<lambda>compatible.
            if compatible = [] then give genome
            else rbind (choice compatible) (\<lambda>new_kind. rbind (random_node_params n_latents new_kind) (\<lambda>params.
              validate_or_raise max_nodes max_depth (set_node k (node\<lparr>gn_kind := new_kind, gn_params := params\<rparr>) genome)))))))"

definition mutate_swap_exit :: "nat \<Rightarrow> nat \<Rightarrow> Genome \<Rightarrow> Genome rand" where
  "mutate_swap_exit max_nodes max_depth genome = rbind (lift (bool_nodes (ge_nodes genome))) (\<lambda>names.
     if length names < 2 then give genome
     else rbind (choice names) (\<lambda>long. rbind (choice names) (\<lambda>short.
       validate_or_raise max_nodes max_depth (genome\<lparr>ge_exit_long := long, ge_exit_short := short\<rparr>))))"

definition with_close_node :: "Genome \<Rightarrow> Genome \<times> string" where
  "with_close_node genome = (case find (\<lambda>node. gn_kind node = ''source.close'') (ge_nodes genome) of
     None \<Rightarrow> (genome\<lparr>ge_nodes := \<lparr>gn_id = ''n1'', gn_kind = ''source.close'', gn_params = [], gn_inputs = []\<rparr> # ge_nodes genome\<rparr>, ''n1'')
   | Some node \<Rightarrow> (genome, gn_id node))"

definition mutate_add_node :: "nat \<Rightarrow> nat \<Rightarrow> Genome \<Rightarrow> Genome rand" where
  "mutate_add_node max_nodes max_depth genome =
     (if max_nodes \<le> length (ge_nodes genome) then give genome
      else let (child, close_id) = with_close_node genome; new_id = numbered (Suc (length (ge_nodes child))) in
        rbind (choice (sorted_list_of_set add_node_kinds)) (\<lambda>kind. rbind (lift (spec_of kind)) (\<lambda>spec.
        rbind (random_node_params 0 kind) (\<lambda>params.
          let child = child\<lparr>ge_nodes := ge_nodes child @ [\<lparr>gn_id = new_id, gn_kind = kind, gn_params = params,
                gn_inputs = (if 0 < ns_min_inputs spec then [close_id] else [])\<rparr>]\<rparr> in
          rbind (lift (bool_nodes (ge_nodes child))) (\<lambda>names.
            if names = [] then validate_or_raise max_nodes max_depth child
            else rbind random (\<lambda>u. rbind (choice names) (\<lambda>name.
              validate_or_raise max_nodes max_depth (if u < 1 / 2 then child\<lparr>ge_entry_long := name\<rparr> else child\<lparr>ge_entry_short := name\<rparr>))))))))"

text \<open>Removing a node: its readers read the fallback, and a signal it gave is that of the first Boolean node left.\<close>

definition detach :: "string \<Rightarrow> string \<Rightarrow> GenomeNode \<Rightarrow> GenomeNode" where
  "detach target_id fallback node = node\<lparr>gn_inputs := map (\<lambda>raw. if fst (parse_input_ref raw) = target_id then fallback else raw) (gn_inputs node)\<rparr>"

definition detached_ref :: "string list \<Rightarrow> string \<Rightarrow> string \<Rightarrow> operator_error + string" where
  "detached_ref names target_id raw = (if fst (parse_input_ref raw) \<noteq> target_id then Inr raw
     else case names of [] \<Rightarrow> Inl (OpGenomeError (GenomeValidationError ''no bool nodes after removal'')) | name # _ \<Rightarrow> Inr name)"

definition without_node :: "string \<Rightarrow> string \<Rightarrow> Genome \<Rightarrow> operator_error + Genome" where
  "without_node target_id fallback genome =
     (let nodes = filter (\<lambda>node. gn_id node \<noteq> target_id) (map (detach target_id fallback) (ge_nodes genome));
          refs = [ge_entry_long genome, ge_entry_short genome, ge_exit_long genome, ge_exit_short genome]
      in andthen (if list_ex (\<lambda>raw. fst (parse_input_ref raw) = target_id) refs then bool_nodes nodes else Inr []) (\<lambda>names.
         andthen (map_result (detached_ref names target_id) refs) (\<lambda>refs'. case refs' of
           [el, es, xl, xs] \<Rightarrow> Inr (genome\<lparr>ge_nodes := nodes, ge_entry_long := el, ge_entry_short := es, ge_exit_long := xl, ge_exit_short := xs\<rparr>)
         | _ \<Rightarrow> Inl OpIndexError)))"

definition removable :: "GenomeNode \<Rightarrow> bool" where
  "removable node = (\<not> starts_with ''source.'' (gn_kind node) \<and> \<not> starts_with ''exit.'' (gn_kind node))"

definition mutate_remove_node :: "nat \<Rightarrow> nat \<Rightarrow> Genome \<Rightarrow> Genome rand" where
  "mutate_remove_node max_nodes max_depth genome =
     (let candidates = filter removable (ge_nodes genome) in
      if length candidates \<le> 2 then give genome
      else rbind (choice candidates) (\<lambda>target.
        let fallback = (case find (\<lambda>node. gn_kind node = ''source.close'') (ge_nodes genome) of
              None \<Rightarrow> gn_id (hd (ge_nodes genome)) | Some node \<Rightarrow> gn_id node) in
        rbind (lift (without_node (gn_id target) fallback genome)) (validate_or_raise max_nodes max_depth)))"

definition mutate_nudge_param :: "nat \<Rightarrow> nat \<Rightarrow> probe option \<Rightarrow> nat \<Rightarrow> nat \<Rightarrow> int \<Rightarrow> Genome \<Rightarrow> Genome rand" where
  "mutate_nudge_param max_nodes max_depth probe_df min_signals repair_max_attempts n_latents genome =
     (let light = light_mutate_params max_nodes max_depth n_latents genome in
      case probe_df of
        None \<Rightarrow> light
      | Some probe \<Rightarrow>
          if df_index (pb_data probe) = [] \<or> min_signals = 0 then light
          else rbind (tradeable probe min_signals genome) (\<lambda>ok. if ok then light
            else rbind (repair_genome probe min_signals max_nodes max_depth repair_max_attempts genome) (\<lambda>repaired.
              rbind (tradeable probe min_signals repaired) (\<lambda>ok'. if ok' then give repaired else light))))"

section \<open>Mutation\<close>

definition EXIT_MUTATION_OPERATORS :: "string list" where
  "EXIT_MUTATION_OPERATORS = [''swap_exit_policy'', ''add_exit_stop'', ''replace_exit_with_preset'', ''drop_exit_policy'', ''nudge_exit_param_ref'']"

definition MUTATION_OPERATORS :: "string list" where
  "MUTATION_OPERATORS = [''rewire'', ''swap_indicator'', ''nudge_param'', ''swap_exit'', ''add_node'', ''remove_node''] @ EXIT_MUTATION_OPERATORS"

record search_config =
  sc_max_nodes :: nat
  sc_max_depth :: nat
  sc_probe :: "probe option"
  sc_min_signals :: nat
  sc_repair_max_attempts :: nat
  sc_operator_weights :: "(string \<times> decimal) list"
  sc_exit_policy_preset_ids :: "string list option"
  sc_indicator_kinds :: "string list"
  sc_n_latents :: int

definition apply_mutation :: "search_config \<Rightarrow> string \<Rightarrow> Genome \<Rightarrow> Genome rand" where
  "apply_mutation cfg op' genome =
     (let n = sc_max_nodes cfg; d = sc_max_depth cfg in
      if op' = ''rewire'' then mutate_rewire n d genome
      else if op' = ''swap_indicator'' then mutate_swap_indicator n d (sc_indicator_kinds cfg) (sc_n_latents cfg) genome
      else if op' = ''nudge_param'' then mutate_nudge_param n d (sc_probe cfg) (sc_min_signals cfg) (sc_repair_max_attempts cfg) (sc_n_latents cfg) genome
      else if op' = ''swap_exit'' then mutate_swap_exit n d genome
      else if op' = ''add_node'' then mutate_add_node n d genome
      else if op' = ''remove_node'' then mutate_remove_node n d genome
      else if op' = ''swap_exit_policy'' then mutate_swap_exit_policy (sc_exit_policy_preset_ids cfg) genome
      else if op' = ''add_exit_stop'' then mutate_add_exit_stop genome
      else if op' = ''replace_exit_with_preset'' then mutate_replace_exit_with_preset (sc_exit_policy_preset_ids cfg) genome
      else if op' = ''drop_exit_policy'' then mutate_drop_exit_policy genome
      else mutate_nudge_exit_param_ref genome)"

definition record_mutation :: "Genome \<Rightarrow> string \<Rightarrow> Genome \<Rightarrow> Genome rand" where
  "record_mutation genome op' mutated =
     (let metadata = dict_put ''last_mutation_op'' (PyStr op') (ge_metadata mutated) in
      if op' \<in> set EXIT_MUTATION_OPERATORS then
        if (ge_entry_long mutated, ge_entry_short mutated) \<noteq> (ge_entry_long genome, ge_entry_short genome) then fail OpAssertionError
        else give (mutated\<lparr>ge_metadata := dict_put ''last_exit_mutation_op'' (PyStr op') metadata\<rparr>)
      else give (mutated\<lparr>ge_metadata := metadata\<rparr>))"

definition mutate_genome :: "search_config \<Rightarrow> Genome \<Rightarrow> Genome rand" where
  "mutate_genome cfg genome =
     rbind (weighted_choice MUTATION_OPERATORS (sc_operator_weights cfg)) (\<lambda>op'.
     rbind (apply_mutation cfg op' genome) (record_mutation genome op'))"

end
