(* ===== verification/Population.thy ===== *)
theory Population
  imports Operators
begin

text \<open>
  The first population of the genetic search: the registry strategies as genomes,
  \<^verbatim>\<open>backtesting/genome/registry_fixtures.py\<close>, and the random genomes, the seeding and the drawing of
  valid genomes of \<^verbatim>\<open>operators.py\<close>.
\<close>

section \<open>Registry strategies as genomes\<close>

definition named_genome :: "string \<Rightarrow> GenomeNode list \<Rightarrow> string \<Rightarrow> string \<Rightarrow> string \<Rightarrow> string \<Rightarrow> (string \<times> pyval) list \<Rightarrow> Genome" where
  "named_genome i nodes el es xl xs metadata = \<lparr>ge_genome_id = i, ge_nodes = nodes, ge_entry_long = el, ge_entry_short = es,
     ge_exit_long = xl, ge_exit_short = xs, ge_metadata = metadata\<rparr>"

definition refs_to :: "string list \<Rightarrow> (string \<times> pyval) list" where
  "refs_to keys = map (\<lambda>key. (key, random_param_ref key)) keys"

definition close_node :: GenomeNode where
  "close_node = genome_node ''n1'' ''source.close'' [] []"

definition MA_CROSSOVER_GENOME :: Genome where
  "MA_CROSSOVER_GENOME = named_genome ''example-ma-crossover''
     [close_node,
      genome_node ''n2'' ''ind.ma'' [(''period'', random_param_ref ''short_period''), (''ma_type'', random_param_ref ''short_ma_type'')] [''n1''],
      genome_node ''n3'' ''ind.ma'' [(''period'', random_param_ref ''long_period''), (''ma_type'', random_param_ref ''long_ma_type'')] [''n1''],
      genome_node ''n4'' ''ind.diff'' [] [''n2'', ''n3''],
      genome_node ''n5'' ''cmp.cross_above'' [(''threshold'', random_param_ref ''threshold'')] [''n4''],
      genome_node ''n6'' ''cmp.cross_below'' [(''threshold'', PyDict [(''param'', PyStr ''threshold''), (''negate'', PyBool True)])] [''n4'']]
     ''n5'' ''n6'' ''n6'' ''n5'' [(''equivalent_registry'', PyStr ''MACrossover'')]"

definition RSI_MEAN_REVERSION_GENOME :: Genome where
  "RSI_MEAN_REVERSION_GENOME = named_genome ''example-rsi-mean-reversion''
     [close_node, genome_node ''n2'' ''ind.rsi'' (refs_to [''period'']) [''n1''],
      genome_node ''n3'' ''cmp.cross_above'' [(''threshold'', random_param_ref ''oversold'')] [''n2''],
      genome_node ''n4'' ''cmp.cross_above'' [(''threshold'', random_param_ref ''overbought'')] [''n2'']]
     ''n3'' ''n4'' ''n4'' ''n3'' [(''equivalent_registry'', PyStr ''RSIMeanReversion'')]"

definition BOLLINGER_REVERSION_GENOME :: Genome where
  "BOLLINGER_REVERSION_GENOME = named_genome ''example-bollinger-reversion''
     [close_node, genome_node ''n2'' ''ind.bollinger'' (refs_to [''period'', ''num_std'']) [''n1''],
      genome_node ''n3'' ''cmp.touch_below'' [] [''n1'', ''n2:bb_lower''], genome_node ''n4'' ''cmp.touch_above'' [] [''n1'', ''n2:bb_upper''],
      genome_node ''n5'' ''exit.middle_band'' [] [''n1'', ''n2:bb_middle'']]
     ''n3'' ''n4'' ''n5'' ''n5'' [(''equivalent_registry'', PyStr ''BollingerReversion'')]"

definition DONCHIAN_BREAKOUT_GENOME :: Genome where
  "DONCHIAN_BREAKOUT_GENOME = named_genome ''example-donchian-breakout''
     [close_node, genome_node ''n2'' ''ind.donchian'' (refs_to [''period'']) [],
      genome_node ''n3'' ''cmp.cross_above'' [] [''n1'', ''n2:donchian_upper''], genome_node ''n4'' ''cmp.cross_below'' [] [''n1'', ''n2:donchian_lower'']]
     ''n3'' ''n4'' ''n4'' ''n3'' [(''equivalent_registry'', PyStr ''DonchianBreakout'')]"

definition MACD_GENOME :: Genome where
  "MACD_GENOME = named_genome ''example-macd''
     [close_node, genome_node ''n2'' ''ind.macd'' (refs_to [''fast_period'', ''slow_period'', ''signal_period'']) [''n1''],
      genome_node ''n3'' ''cmp.cross_above'' [] [''n2:macd'', ''n2:macd_signal''], genome_node ''n4'' ''cmp.cross_below'' [] [''n2:macd'', ''n2:macd_signal'']]
     ''n3'' ''n4'' ''n4'' ''n3'' [(''equivalent_registry'', PyStr ''MACD'')]"

definition TRB_GENOME :: Genome where
  "TRB_GENOME = named_genome ''example-trb''
     [close_node, genome_node ''n2'' ''ind.trb_channel'' (refs_to [''period'', ''band_pct'']) [''n1''],
      genome_node ''n3'' ''cmp.trb_breakout_above'' [] [''n1'', ''n2:trb_upper'', ''n2:channel_high''],
      genome_node ''n4'' ''cmp.trb_breakout_below'' [] [''n1'', ''n2:trb_lower'', ''n2:channel_low''],
      genome_node ''n5'' ''exit.fixed_holding'' (refs_to [''holding_period'']) []]
     ''n3'' ''n4'' ''n5'' ''n5'' [(''equivalent_registry'', PyStr ''TRB'')]"

definition FMA_GENOME :: Genome where
  "FMA_GENOME = named_genome ''example-fma''
     [close_node, genome_node ''n2'' ''ind.ma'' (refs_to [''period'', ''ma_type'']) [''n1''],
      genome_node ''n3'' ''ind.ma_band'' (refs_to [''band_pct'']) [''n2''],
      genome_node ''n4'' ''cmp.cross_above'' [] [''n1'', ''n3:ma_band_upper''], genome_node ''n5'' ''cmp.cross_below'' [] [''n1'', ''n3:ma_band_lower''],
      genome_node ''n6'' ''exit.fixed_holding'' (refs_to [''holding_period'']) []]
     ''n4'' ''n5'' ''n6'' ''n6'' [(''equivalent_registry'', PyStr ''FMA'')]"

definition TSMOM_GENOME :: Genome where
  "TSMOM_GENOME = named_genome ''example-tsmom''
     [genome_node ''n1'' ''ind.tsmom'' (refs_to [''lookback_bars'', ''rebalance_bars'', ''vol_window'', ''vol_estimator'']) []]
     ''n1:buy_signal'' ''n1:sell_signal'' ''n1:sell_signal'' ''n1:buy_signal'' [(''equivalent_registry'', PyStr ''TSMOM'')]"

definition REGISTRY_GENOME_FIXTURES :: "(string \<times> Genome) list" where
  "REGISTRY_GENOME_FIXTURES = [(''MACrossover'', MA_CROSSOVER_GENOME), (''RSIMeanReversion'', RSI_MEAN_REVERSION_GENOME),
     (''BollingerReversion'', BOLLINGER_REVERSION_GENOME), (''DonchianBreakout'', DONCHIAN_BREAKOUT_GENOME), (''MACD'', MACD_GENOME),
     (''TRB'', TRB_GENOME), (''FMA'', FMA_GENOME), (''TSMOM'', TSMOM_GENOME)]"

section \<open>Random genomes\<close>

type_synonym kind_weights = "(string \<times> decimal) list"

definition CROSSOVER_TREND_KINDS :: "string list" where
  "CROSSOVER_TREND_KINDS = [''ind.ma'', ''ind.ema'']"

definition REVERSION_OSC_KINDS :: "string list" where
  "REVERSION_OSC_KINDS = [''ind.rsi'']"

definition BREAKOUT_STYLE_KIND :: "(string \<times> string) list" where
  "BREAKOUT_STYLE_KIND = [(''donchian'', ''ind.donchian''), (''bollinger'', ''ind.bollinger''), (''trb'', ''ind.trb_channel'')]"

definition filter_indicator_kinds :: "string list \<Rightarrow> string list \<Rightarrow> string list" where
  "filter_indicator_kinds candidates indicator_kinds =
     (let filtered = filter (\<lambda>kind. kind \<in> set indicator_kinds) candidates in if filtered = [] then candidates else filtered)"

definition registry_primary_kind :: "Genome \<Rightarrow> string" where
  "registry_primary_kind fixture = (case find (\<lambda>node. starts_with ''ind.'' (gn_kind node) \<and> gn_kind node \<notin> {''ind.diff'', ''ind.ratio''}) (ge_nodes fixture) of
     None \<Rightarrow> ''ind.ma'' | Some node \<Rightarrow> gn_kind node)"

definition random_archetypes :: "string list \<Rightarrow> int \<Rightarrow> string list" where
  "random_archetypes indicator_kinds n_latents = [''crossover'', ''reversion'', ''breakout''] @
     (if ''ind.latent'' \<in> set indicator_kinds \<and> 0 < n_latents then [''latent''] else [])"

definition archetype_kinds :: "(string \<times> string list) list" where
  "archetype_kinds = [(''crossover'', CROSSOVER_TREND_KINDS), (''reversion'', REVERSION_OSC_KINDS),
     (''breakout'', map snd BREAKOUT_STYLE_KIND), (''latent'', [''ind.latent''])]"

definition archetype_choice_weights :: "string list \<Rightarrow> string list \<Rightarrow> kind_weights \<Rightarrow> kind_weights" where
  "archetype_choice_weights archetypes indicator_kinds weights = map (\<lambda>a. (a,
     let ws = map (weight_of weights) (filter_indicator_kinds (case map_of archetype_kinds a of None \<Rightarrow> [] | Some ks \<Rightarrow> ks) indicator_kinds)
     in fold max (tl ws) (hd ws))) archetypes"

text \<open>The parameters of a node of a random genome are all references.\<close>

definition reference_params :: "string \<Rightarrow> operator_error + (string \<times> pyval) list" where
  "reference_params kind = map_sum id (\<lambda>spec. refs_to (sort (ns_allowed_param_keys spec))) (spec_of kind)"

definition maybe_wrap_with_transform :: "GenomeNode list \<Rightarrow> string \<Rightarrow> nat \<Rightarrow> (GenomeNode list \<times> string \<times> nat) rand" where
  "maybe_wrap_with_transform nodes source_id next_node_index =
     (let pool = sorted_list_of_set random_init_transform_kinds in
      if pool = [] then give (nodes, source_id, next_node_index)
      else rbind random (\<lambda>u. if 35 / 100 \<le> u then give (nodes, source_id, next_node_index)
        else rbind (choice pool) (\<lambda>kind. rbind (lift (reference_params kind)) (\<lambda>params.
          give (nodes @ [genome_node (numbered next_node_index) kind params [source_id]], numbered next_node_index, Suc next_node_index)))))"

definition origin :: "int \<Rightarrow> string \<Rightarrow> (string \<times> pyval) list" where
  "origin generation name = [(''generation'', PyInt generation), (''origin'', PyStr name)]"

record random_config =
  rc_max_nodes :: nat
  rc_max_depth :: nat
  rc_indicator_kinds :: "string list"
  rc_kind_weights :: kind_weights
  rc_n_latents :: int

definition validated :: "random_config \<Rightarrow> Genome \<Rightarrow> Genome rand" where
  "validated rc = validate_or_raise (rc_max_nodes rc) (rc_max_depth rc)"

definition build_random_crossover :: "random_config \<Rightarrow> string \<Rightarrow> int \<Rightarrow> Genome rand" where
  "build_random_crossover rc genome_id generation =
     (let trend_kinds = filter_indicator_kinds CROSSOVER_TREND_KINDS (rc_indicator_kinds rc) in
      rbind (choose_seeding trend_kinds (rc_kind_weights rc)) (\<lambda>short_kind. rbind (choose_seeding trend_kinds (rc_kind_weights rc)) (\<lambda>long_kind.
      rbind (lift (reference_params short_kind)) (\<lambda>short_params. rbind (lift (reference_params long_kind)) (\<lambda>long_params.
      rbind (maybe_wrap_with_transform [close_node] ''n1'' 7) (\<lambda>(nodes, short_input, next_idx).
      rbind (maybe_wrap_with_transform nodes ''n1'' next_idx) (\<lambda>(nodes, long_input, _).
        validated rc (named_genome genome_id
          (nodes @ [genome_node ''n2'' short_kind short_params [short_input], genome_node ''n3'' long_kind long_params [long_input],
            genome_node ''n4'' ''ind.diff'' [] [''n2'', ''n3''], genome_node ''n5'' ''cmp.cross_above'' (refs_to [''threshold'']) [''n4''],
            genome_node ''n6'' ''cmp.cross_below'' [(''threshold'', PyDict [(''param'', PyStr ''threshold''), (''negate'', PyBool True)])] [''n4'']])
          ''n5'' ''n6'' ''n6'' ''n5'' (origin generation ''random_crossover''))))))))) "

definition build_random_reversion :: "random_config \<Rightarrow> string \<Rightarrow> int \<Rightarrow> Genome rand" where
  "build_random_reversion rc genome_id generation =
     (let osc_kinds = filter_indicator_kinds REVERSION_OSC_KINDS (rc_indicator_kinds rc) in
      rbind (if rc_kind_weights rc = [] then give (if ''ind.rsi'' \<in> set (rc_indicator_kinds rc) then ''ind.rsi'' else hd osc_kinds)
             else choose_seeding osc_kinds (rc_kind_weights rc)) (\<lambda>osc_kind.
      rbind (lift (reference_params osc_kind)) (\<lambda>osc_params. rbind (lift (spec_of osc_kind)) (\<lambda>osc_spec.
      rbind (maybe_wrap_with_transform [close_node] ''n1'' 5) (\<lambda>(nodes, osc_input, _).
        validated rc (named_genome genome_id
          (nodes @ [genome_node ''n2'' osc_kind osc_params (if 0 < ns_max_inputs osc_spec then [osc_input] else []),
            genome_node ''n3'' ''cmp.cross_above'' [(''threshold'', random_param_ref ''oversold'')] [''n2''],
            genome_node ''n4'' ''cmp.cross_below'' [(''threshold'', random_param_ref ''overbought'')] [''n2'']])
          ''n3'' ''n4'' ''n4'' ''n3'' (origin generation ''random_reversion'')))))))"

definition breakout_genome :: "string \<Rightarrow> int \<Rightarrow> string \<Rightarrow> (string \<times> pyval) list \<Rightarrow> Genome" where
  "breakout_genome genome_id generation style params =
     (if style = ''donchian'' then named_genome genome_id
        [close_node, genome_node ''n2'' ''ind.donchian'' params [],
         genome_node ''n3'' ''cmp.cross_above'' [] [''n1'', ''n2:donchian_upper''], genome_node ''n4'' ''cmp.cross_below'' [] [''n1'', ''n2:donchian_lower'']]
        ''n3'' ''n4'' ''n4'' ''n3'' (origin generation ''random_donchian'')
      else if style = ''bollinger'' then named_genome genome_id
        [close_node, genome_node ''n2'' ''ind.bollinger'' params [''n1''],
         genome_node ''n3'' ''cmp.touch_below'' [] [''n1'', ''n2:bb_lower''], genome_node ''n4'' ''cmp.touch_above'' [] [''n1'', ''n2:bb_upper''],
         genome_node ''n5'' ''exit.middle_band'' [] [''n1'', ''n2:bb_middle'']]
        ''n3'' ''n4'' ''n5:exit_long'' ''n5:exit_short'' (origin generation ''random_bollinger'')
      else named_genome genome_id
        [close_node, genome_node ''n2'' ''ind.trb_channel'' params [''n1''],
         genome_node ''n3'' ''cmp.trb_breakout_above'' [] [''n1'', ''n2:trb_upper'', ''n2:channel_high''],
         genome_node ''n4'' ''cmp.trb_breakout_below'' [] [''n1'', ''n2:trb_lower'', ''n2:channel_low'']]
        ''n3'' ''n4'' ''n4'' ''n3'' (origin generation ''random_trb''))"

definition style_kind :: "string \<Rightarrow> string" where
  "style_kind style = (case map_of BREAKOUT_STYLE_KIND style of None \<Rightarrow> ''ind.trb_channel'' | Some kind \<Rightarrow> kind)"

definition build_random_breakout :: "random_config \<Rightarrow> string \<Rightarrow> int \<Rightarrow> Genome rand" where
  "build_random_breakout rc genome_id generation =
     (let styles = map fst BREAKOUT_STYLE_KIND;
          present = filter (\<lambda>style. style_kind style \<in> set (rc_indicator_kinds rc)) styles;
          available_styles = (if present = [] then styles else present)
      in rbind (if rc_kind_weights rc = [] then choice available_styles
                else choose_seeding available_styles (map (\<lambda>style. (style, weight_of (rc_kind_weights rc) (style_kind style))) available_styles)) (\<lambda>style.
         rbind (lift (reference_params (style_kind style))) (\<lambda>params. validated rc (breakout_genome genome_id generation style params))))"

definition build_random_latent :: "random_config \<Rightarrow> string \<Rightarrow> int \<Rightarrow> Genome rand" where
  "build_random_latent rc genome_id generation = rbind (sample_latent_index (rc_n_latents rc)) (\<lambda>latent_index.
     validated rc (named_genome genome_id
       [genome_node ''n1'' ''ind.latent'' [(''latent_index'', PyInt latent_index)] [],
        genome_node ''n2'' ''cmp.cross_above'' [(''threshold'', PyFloat 0)] [''n1''],
        genome_node ''n3'' ''cmp.cross_below'' [(''threshold'', PyFloat 0)] [''n1'']]
       ''n2'' ''n3'' ''n3'' ''n2'' (origin generation ''random_latent'')))"

definition build_random_genome :: "random_config \<Rightarrow> string \<Rightarrow> int \<Rightarrow> Genome rand" where
  "build_random_genome rc genome_id generation =
     (let archetypes = random_archetypes (rc_indicator_kinds rc) (rc_n_latents rc) in
      rbind (if rc_kind_weights rc = [] then choice archetypes
             else choose_seeding archetypes (archetype_choice_weights archetypes (rc_indicator_kinds rc) (rc_kind_weights rc))) (\<lambda>archetype.
        if archetype = ''crossover'' then build_random_crossover rc genome_id generation
        else if archetype = ''reversion'' then build_random_reversion rc genome_id generation
        else if archetype = ''latent'' then build_random_latent rc genome_id generation
        else build_random_breakout rc genome_id generation))"

section \<open>Tradeable genomes\<close>

definition tradeable_registry_fallback :: "string \<Rightarrow> int \<Rightarrow> Genome" where
  "tradeable_registry_fallback genome_id generation = clone_genome (Some genome_id) (Some generation) MA_CROSSOVER_GENOME"

record seeding_probe =
  sp_probe :: probe
  sp_min_signals :: nat
  sp_repair_max_attempts :: nat

definition ensure_tradeable_genome :: "seeding_probe \<Rightarrow> random_config \<Rightarrow> string \<Rightarrow> int \<Rightarrow> Genome \<Rightarrow> Genome rand" where
  "ensure_tradeable_genome sp rc genome_id generation genome =
     (let check = tradeable (sp_probe sp) (sp_min_signals sp) in
      rbind (check genome) (\<lambda>ok. if ok then give genome
        else rbind (repair_genome (sp_probe sp) (sp_min_signals sp) (rc_max_nodes rc) (rc_max_depth rc) (sp_repair_max_attempts sp) genome) (\<lambda>repaired.
          rbind (check repaired) (\<lambda>ok'. give (if ok' then repaired else tradeable_registry_fallback genome_id generation)))))"

primrec draw_tradeable :: "seeding_probe \<Rightarrow> random_config \<Rightarrow> string \<Rightarrow> int \<Rightarrow> nat \<Rightarrow> Genome rand" where
  "draw_tradeable sp rc genome_id generation 0 = give (tradeable_registry_fallback genome_id generation)"
| "draw_tradeable sp rc genome_id generation (Suc n) =
     rbind (build_random_genome rc genome_id generation) (\<lambda>genome.
     rbind (ensure_tradeable_genome sp rc genome_id generation genome) (\<lambda>genome.
     rbind (tradeable (sp_probe sp) (sp_min_signals sp) genome) (\<lambda>ok.
       if ok then give genome else draw_tradeable sp rc genome_id generation n)))"

definition draw_tradeable_random_genome :: "seeding_probe \<Rightarrow> random_config \<Rightarrow> string \<Rightarrow> int \<Rightarrow> Genome rand" where
  "draw_tradeable_random_genome sp rc genome_id generation = draw_tradeable sp rc genome_id generation (Suc (sp_repair_max_attempts sp))"

text \<open>At most 64 attempts; the last error is raised.\<close>

primrec draw_attempts :: "'a rand \<Rightarrow> nat \<Rightarrow> operator_error \<Rightarrow> 'a rand" where
  "draw_attempts builder 0 last_error = fail last_error"
| "draw_attempts builder (Suc n) last_error = except_invalid builder (draw_attempts builder n)"

definition draw_valid :: "'a rand \<Rightarrow> 'a rand" where
  "draw_valid builder = draw_attempts builder 64 (OpGenomeError (GenomeValidationError ''failed to draw a valid genome''))"

section \<open>The first population\<close>

definition remove_nth :: "nat \<Rightarrow> 'a list \<Rightarrow> 'a list" where
  "remove_nth i xs = take i xs @ drop (Suc i) xs"

text \<open>\<^verbatim>\<open>rng.sample\<close>: positions without repetition.\<close>

primrec sample :: "nat \<Rightarrow> 'a list \<Rightarrow> 'a list rand" where
  "sample 0 xs = give []"
| "sample (Suc k) xs = rbind (choice [0..<length xs]) (\<lambda>i. rbind (sample k (remove_nth i xs)) (\<lambda>ys. give (xs ! i # ys)))"

record seeding_config =
  se_population_size :: nat
  se_probe :: "probe option"
  se_min_seed_signals :: nat
  se_repair_max_attempts :: nat
  se_seed_exit_policies :: bool
  se_exit_policy_preset_ids :: "string list option"
  se_exit_policy_seed_fraction :: decimal

definition active_probe :: "seeding_config \<Rightarrow> seeding_probe option" where
  "active_probe se = (case se_probe se of
     None \<Rightarrow> None
   | Some p \<Rightarrow> if df_index (pb_data p) = [] \<or> se_min_seed_signals se = 0 then None
       else Some \<lparr>sp_probe = p, sp_min_signals = se_min_seed_signals se, sp_repair_max_attempts = se_repair_max_attempts se\<rparr>)"

definition ensured :: "seeding_config \<Rightarrow> random_config \<Rightarrow> string \<Rightarrow> Genome \<Rightarrow> Genome rand" where
  "ensured se rc genome_id genome = (case active_probe se of
     None \<Rightarrow> give genome | Some sp \<Rightarrow> ensure_tradeable_genome sp rc genome_id 0 genome)"

definition light_or_same :: "random_config \<Rightarrow> Genome \<Rightarrow> Genome rand" where
  "light_or_same rc genome = except_invalid (light_mutate_params (rc_max_nodes rc) (rc_max_depth rc) (rc_n_latents rc) genome) (\<lambda>_. give genome)"

definition hypothesis_seed :: "seeding_config \<Rightarrow> random_config \<Rightarrow> Genome list \<Rightarrow> nat \<Rightarrow> Genome rand" where
  "hypothesis_seed se rc seed_genomes index = (let genome_id = ''gen0-seed-hyp-'' @ digits_of index in
     rbind (light_or_same rc (clone_genome (Some genome_id) (Some 0) (seed_genomes ! index))) (ensured se rc genome_id))"

definition registry_seed :: "seeding_config \<Rightarrow> random_config \<Rightarrow> nat \<Rightarrow> Genome rand" where
  "registry_seed se rc index = (let genome_id = ''gen0-seed-'' @ digits_of index; names = map fst REGISTRY_GENOME_FIXTURES in
     rbind (if rc_kind_weights rc = [] then choice names
            else choose_seeding names (map (\<lambda>(name, fixture). (name, weight_of (rc_kind_weights rc) (registry_primary_kind fixture))) REGISTRY_GENOME_FIXTURES))
       (\<lambda>chosen_name. case map_of REGISTRY_GENOME_FIXTURES chosen_name of
          None \<Rightarrow> fail (OpGenomeError (GenomeKeyError chosen_name))
        | Some template \<Rightarrow> rbind (light_or_same rc (clone_genome (Some genome_id) (Some 0) template)) (ensured se rc genome_id)))"

definition random_seed :: "seeding_config \<Rightarrow> random_config \<Rightarrow> nat \<Rightarrow> Genome rand" where
  "random_seed se rc index = (let genome_id = ''gen0-rand-'' @ digits_of index in
     case active_probe se of
       None \<Rightarrow> draw_valid (build_random_genome rc genome_id 0)
     | Some sp \<Rightarrow> draw_tradeable_random_genome sp rc genome_id 0)"

definition attach_at :: "ExitPreset list \<Rightarrow> nat \<Rightarrow> Genome list \<Rightarrow> Genome list" where
  "attach_at presets index population =
     population[index := attach_exit_rule_policy (presets ! (index mod length presets)) (population ! index)]"

definition seed_exit_policy_variants :: "seeding_config \<Rightarrow> Genome list \<Rightarrow> Genome list rand" where
  "seed_exit_policy_variants se population =
     (if \<not> se_seed_exit_policies se \<or> se_exit_policy_seed_fraction se \<le> 0 then give population
      else rbind (lift (selected_exit_policy_presets (se_exit_policy_preset_ids se))) (\<lambda>presets.
        if presets = [] then give population
        else let wanted = max 1 (round_half_even (of_nat (length population) * se_exit_policy_seed_fraction se));
                 seed_count = min (nat wanted) (length population)
             in rbind (sample seed_count [0..<length population]) (\<lambda>indices. give (fold (attach_at presets) indices population))))"

definition build_initial_population :: "seeding_config \<Rightarrow> random_config \<Rightarrow> Genome list \<Rightarrow> Genome list rand" where
  "build_initial_population se rc seed_genomes =
     (let seed_count = se_population_size se div 2; num_hyp_seeds = min (length seed_genomes) seed_count in
      rbind (map_rand (hypothesis_seed se rc seed_genomes) [0..<num_hyp_seeds]) (\<lambda>hyp.
      rbind (map_rand (registry_seed se rc) [0..<seed_count - num_hyp_seeds]) (\<lambda>registry.
      rbind (map_rand (random_seed se rc) [0..<se_population_size se - seed_count]) (\<lambda>rand.
        seed_exit_policy_variants se (hyp @ registry @ rand)))))"

end
