(* ===== verification/Genetic_Search.thy ===== *)
theory Genetic_Search
  imports Population
begin

text \<open>
  The evolving state of the genetic search, \<^verbatim>\<open>GeneticCandidateProvider\<close> of
  \<^verbatim>\<open>optimization/genetic_search.py\<close>: the fitness of a candidate, the report of a generation with
  selection and breeding of the next one, and the state that travels between worker processes. The
  results of candidates come from outside. A report that raises fails the job; its partial updates are
  not modelled. A fitness that is minus infinity is \<open>None\<close>.
\<close>

section \<open>Results and fitness\<close>

datatype candidate_status = CS_COMPLETED | CS_NO_RESULT | CS_UNSUPPORTED | CS_ERROR

record CandidateResult =
  cr_candidate_id :: string
  cr_status :: candidate_status
  cr_robustness_score :: "decimal option"
  cr_efficiency :: "decimal option"
  cr_gate_flags :: "string list"
  cr_passed_gates :: bool
  cr_total_trades :: int
  cr_window_count :: int
  cr_completed_windows :: int

record GateConfig =
  gt_min_completed_windows :: int
  gt_min_oos_trades :: int
  gt_efficiency_low :: decimal
  gt_efficiency_high :: decimal

record GeneticSearchConfig =
  gs_population_size :: nat
  gs_elite_count :: nat
  gs_crossover_rate :: decimal
  gs_mutation_rate :: decimal
  gs_tournament_size :: nat
  gs_complexity_lambda :: decimal
  gs_complexity_mu :: decimal
  gs_gate_penalty_efficiency :: decimal
  gs_gate_penalty_trades :: decimal
  gs_gate_penalty_windows :: decimal
  gs_no_result_floor :: decimal
  gs_error_floor :: decimal
  gs_mutation_rate_min :: decimal
  gs_mutation_rate_max :: decimal
  gs_stagnation_patience :: int
  gs_adaptive_operator_weights :: bool
  gs_max_nodes :: nat
  gs_max_depth :: nat
  gs_min_seed_signals :: nat
  gs_repair_max_attempts :: nat
  gs_seed_exit_policies :: bool
  gs_exit_policy_preset_ids :: "string list option"
  gs_exit_policy_seed_fraction :: decimal

definition complexity_penalty :: "GeneticSearchConfig \<Rightarrow> Genome \<Rightarrow> decimal" where
  "complexity_penalty genetic genome =
     gs_complexity_lambda genetic * of_nat (genome_node_count genome) + gs_complexity_mu genetic * of_nat (genome_param_count genome)"

definition efficiency_gate_penalty :: "numerics \<Rightarrow> decimal option \<Rightarrow> GateConfig \<Rightarrow> GeneticSearchConfig \<Rightarrow> decimal" where
  "efficiency_gate_penalty np efficiency gates genetic = (let target = (gt_efficiency_low gates + gt_efficiency_high gates) / 2 in
     case efficiency of
       None \<Rightarrow> gs_gate_penalty_efficiency genetic
     | Some e \<Rightarrow> if target \<le> 0 then gs_gate_penalty_efficiency genetic
         else gs_gate_penalty_efficiency genetic * min \<bar>np_log np (max e (1 / 1000000) / target)\<bar> 2)"

definition soft_gate_penalty :: "numerics \<Rightarrow> CandidateResult \<Rightarrow> GateConfig \<Rightarrow> GeneticSearchConfig \<Rightarrow> decimal" where
  "soft_gate_penalty np result gates genetic =
     (let flagged = (\<lambda>flag. flag \<in> set (cr_gate_flags result));
          trades = (if flagged ''few_oos_trades'' then gs_gate_penalty_trades genetic *
            (if 0 < gt_min_oos_trades gates
             then max 0 (min 1 (of_int (gt_min_oos_trades gates - cr_total_trades result) / of_int (gt_min_oos_trades gates))) else 0) else 0);
          windows = (if flagged ''few_windows'' then gs_gate_penalty_windows genetic *
            (if 0 < gt_min_completed_windows gates
             then of_int (max 0 (gt_min_completed_windows gates - cr_completed_windows result)) / of_int (gt_min_completed_windows gates) else 0) else 0);
          efficiency = (\<lambda>flag. if flagged flag then efficiency_gate_penalty np (cr_efficiency result) gates genetic else 0)
      in trades + windows + efficiency ''low_efficiency'' + efficiency ''suspicious_efficiency'')"

definition candidate_fitness :: "numerics \<Rightarrow> GeneticSearchConfig \<Rightarrow> GateConfig \<Rightarrow> CandidateResult \<Rightarrow> Genome \<Rightarrow> decimal" where
  "candidate_fitness np genetic gates result genome =
     (if cr_status result \<in> {CS_ERROR, CS_UNSUPPORTED} then gs_error_floor genetic
      else if cr_status result = CS_NO_RESULT \<or> cr_status result = CS_COMPLETED \<and> cr_total_trades result = 0 then
        gs_no_result_floor genetic + 1 / 2 * (of_int (cr_completed_windows result) / of_int (max (cr_window_count result) 1))
      else case cr_robustness_score result of
        None \<Rightarrow> gs_error_floor genetic
      | Some score \<Rightarrow> let base = score - complexity_penalty genetic genome in
          if cr_passed_gates result then base else base - soft_gate_penalty np result gates genetic)"

section \<open>The provider\<close>

record provider =
  gp_rng :: rng
  gp_generation :: nat
  gp_next_individual :: nat
  gp_population :: "Genome list"
  gp_champion :: "Genome option"
  gp_champion_fitness :: "decimal option"
  gp_best_fitness :: "decimal option"
  gp_stagnation_generations :: nat
  gp_effective_mutation_rate :: decimal
  gp_mutation_operator_weights :: "(string \<times> decimal) list"
  gp_parent_fitness_by_id :: "(string \<times> decimal) list"

text \<open>What the run fixes, and the arguments the operators get from it.\<close>

record search_setup =
  ss_numerics :: numerics
  ss_genetic :: GeneticSearchConfig
  ss_gates :: GateConfig
  ss_probe_df :: "probe option"
  ss_indicator_kinds :: "string list"
  ss_n_latents :: int
  ss_kind_weights :: kind_weights

definition seeding_of :: "search_setup \<Rightarrow> seeding_config" where
  "seeding_of su = (let genetic = ss_genetic su in
     \<lparr>se_population_size = gs_population_size genetic, se_probe = ss_probe_df su, se_min_seed_signals = gs_min_seed_signals genetic,
      se_repair_max_attempts = gs_repair_max_attempts genetic, se_seed_exit_policies = gs_seed_exit_policies genetic,
      se_exit_policy_preset_ids = gs_exit_policy_preset_ids genetic, se_exit_policy_seed_fraction = gs_exit_policy_seed_fraction genetic\<rparr>)"

definition random_of :: "search_setup \<Rightarrow> random_config" where
  "random_of su = \<lparr>rc_max_nodes = gs_max_nodes (ss_genetic su), rc_max_depth = gs_max_depth (ss_genetic su),
     rc_indicator_kinds = ss_indicator_kinds su, rc_kind_weights = ss_kind_weights su, rc_n_latents = ss_n_latents su\<rparr>"

definition operators_of :: "search_setup \<Rightarrow> (string \<times> decimal) list \<Rightarrow> search_config" where
  "operators_of su weights = (let genetic = ss_genetic su in
     \<lparr>sc_max_nodes = gs_max_nodes genetic, sc_max_depth = gs_max_depth genetic, sc_probe = ss_probe_df su,
      sc_min_signals = gs_min_seed_signals genetic, sc_repair_max_attempts = gs_repair_max_attempts genetic,
      sc_operator_weights = (if gs_adaptive_operator_weights genetic then weights else []),
      sc_exit_policy_preset_ids = gs_exit_policy_preset_ids genetic, sc_indicator_kinds = ss_indicator_kinds su, sc_n_latents = ss_n_latents su\<rparr>)"

definition genome_by_id :: "Genome list \<Rightarrow> string \<Rightarrow> Genome option" where
  "genome_by_id population candidate_id = find (\<lambda>genome. ge_genome_id genome = candidate_id) (rev population)"

definition new_provider :: "search_setup \<Rightarrow> Genome list \<Rightarrow> rng \<Rightarrow> operator_error + provider" where
  "new_provider su seed_genomes rng = (case build_initial_population (seeding_of su) (random_of su) seed_genomes rng of
     (Inl e, _) \<Rightarrow> Inl e
   | (Inr population, rng') \<Rightarrow> Inr \<lparr>gp_rng = rng', gp_generation = 0, gp_next_individual = 0, gp_population = population, gp_champion = None,
       gp_champion_fitness = None, gp_best_fitness = None, gp_stagnation_generations = 0,
       gp_effective_mutation_rate = gs_mutation_rate (ss_genetic su), gp_mutation_operator_weights = map (\<lambda>op'. (op', 1)) MUTATION_OPERATORS,
       gp_parent_fitness_by_id = []\<rparr>)"

definition exceeds :: "decimal \<Rightarrow> decimal option \<Rightarrow> bool" where
  "exceeds fitness bound = (case bound of None \<Rightarrow> True | Some b \<Rightarrow> b < fitness)"

definition metadata_text :: "Genome \<Rightarrow> string \<Rightarrow> string" where
  "metadata_text genome key = (case map_of (ge_metadata genome) key of Some (PyStr s) \<Rightarrow> s | _ \<Rightarrow> [])"

definition parent_ids_of :: "Genome \<Rightarrow> string list" where
  "parent_ids_of genome = (case map_of (ge_metadata genome) ''parent_ids'' of
     Some (PyList vs) \<Rightarrow> List.map_filter (\<lambda>v. case v of PyStr s \<Rightarrow> Some s | _ \<Rightarrow> None) vs | _ \<Rightarrow> [])"

definition reward_operator :: "(string \<times> decimal) list \<Rightarrow> Genome \<Rightarrow> decimal \<Rightarrow> (string \<times> decimal) list \<Rightarrow> (string \<times> decimal) list" where
  "reward_operator parent_fitness genome fitness weights =
     (let mutation_op = metadata_text genome ''last_mutation_op''; known = List.map_filter (map_of parent_fitness) (parent_ids_of genome) in
      if mutation_op = [] \<or> known = [] then weights
      else update_mutation_operator_weights (15 / 100) (5 / 100) 5 weights mutation_op (fitness - fold max (tl known) (hd known)))"

definition note_result :: "search_setup \<Rightarrow> CandidateResult \<Rightarrow> provider \<times> (decimal \<times> Genome) list \<Rightarrow> provider \<times> (decimal \<times> Genome) list" where
  "note_result su result = (\<lambda>(st, scored). case genome_by_id (gp_population st) (cr_candidate_id result) of
     None \<Rightarrow> (st, scored)
   | Some genome \<Rightarrow>
       let fitness = candidate_fitness (ss_numerics su) (ss_genetic su) (ss_gates su) result genome;
           st = (if exceeds fitness (gp_best_fitness st) then st\<lparr>gp_best_fitness := Some fitness\<rparr> else st);
           st = (if cr_status result = CS_COMPLETED \<and> cr_passed_gates result \<and> exceeds fitness (gp_champion_fitness st)
             then st\<lparr>gp_champion_fitness := Some fitness, gp_champion := Some genome\<rparr> else st);
           st = (if gs_adaptive_operator_weights (ss_genetic su)
             then st\<lparr>gp_mutation_operator_weights := reward_operator (gp_parent_fitness_by_id st) genome fitness (gp_mutation_operator_weights st)\<rparr> else st)
       in (st, scored @ [(fitness, genome)]))"

section \<open>Breeding\<close>

definition new_genome_id :: "nat \<Rightarrow> nat \<Rightarrow> string" where
  "new_genome_id generation k = ''gen'' @ digits_of generation @ ''-ind'' @ digits_of k"

definition bred :: "string \<Rightarrow> nat \<Rightarrow> string list \<Rightarrow> Genome \<Rightarrow> Genome" where
  "bred genome_id generation parent_ids genome = (let child = clone_genome (Some genome_id) (Some (int generation)) genome in
     child\<lparr>ge_metadata := dict_put ''parent_ids'' (PyList (map PyStr parent_ids)) (ge_metadata child)\<rparr>)"

text \<open>The best of a sample; the first of equally good ones.\<close>

definition tournament_select :: "nat \<Rightarrow> (decimal \<times> Genome) list \<Rightarrow> Genome rand" where
  "tournament_select tournament_size reproducers = rbind (sample (min tournament_size (length reproducers)) reproducers) (\<lambda>tournament.
     case sort_key (\<lambda>(fitness, _). - fitness) tournament of [] \<Rightarrow> fail OpIndexError | (_, genome) # _ \<Rightarrow> give genome)"

definition build_child :: "search_setup \<Rightarrow> provider \<Rightarrow> Genome \<Rightarrow> Genome \<Rightarrow> Genome rand" where
  "build_child su st parent_a parent_b =
     (let cfg = operators_of su (gp_mutation_operator_weights st) in
      rbind random (\<lambda>u.
      rbind (if u < gs_crossover_rate (ss_genetic su) then crossover_genomes (sc_max_nodes cfg) (sc_max_depth cfg) parent_a parent_b else give parent_a) (\<lambda>child.
        let child = child\<lparr>ge_metadata := filter (\<lambda>(k, v). k \<noteq> ''last_mutation_op'') (ge_metadata child)\<rparr> in
        rbind random (\<lambda>w. if w < gp_effective_mutation_rate st then mutate_genome cfg child else give child))))"

definition vary :: "search_setup \<Rightarrow> provider \<Rightarrow> nat \<Rightarrow> Genome \<Rightarrow> Genome \<Rightarrow> Genome rand" where
  "vary su st k parent_a parent_b = rbind (draw_valid (build_child su st parent_a parent_b)) (\<lambda>child.
     give (bred (new_genome_id (gp_generation st) k) (Suc (gp_generation st)) (sort (remdups [ge_genome_id parent_a, ge_genome_id parent_b])) child))"

definition breed_one :: "search_setup \<Rightarrow> provider \<Rightarrow> (decimal \<times> Genome) list \<Rightarrow> nat \<Rightarrow> Genome rand" where
  "breed_one su st reproducers k =
     (if length reproducers < 2 then rbind (choice (gp_population st)) (\<lambda>parent. vary su st k parent parent)
      else rbind (tournament_select (gs_tournament_size (ss_genetic su)) reproducers) (\<lambda>parent_a.
           rbind (tournament_select (gs_tournament_size (ss_genetic su)) reproducers) (\<lambda>parent_b. vary su st k parent_a parent_b)))"

definition elites :: "search_setup \<Rightarrow> provider \<Rightarrow> (decimal \<times> Genome) list \<Rightarrow> Genome list" where
  "elites su st reproducers = map (\<lambda>(k, (_, genome)). bred (new_genome_id (gp_generation st) k) (Suc (gp_generation st)) [ge_genome_id genome] genome)
     (enumerate (gp_next_individual st) (take (gs_elite_count (ss_genetic su)) reproducers))"

definition breed :: "search_setup \<Rightarrow> provider \<Rightarrow> (decimal \<times> Genome) list \<Rightarrow> operator_error + provider" where
  "breed su st reproducers =
     (let elite = elites su st reproducers;
          first = gp_next_individual st + length elite;
          count = gs_population_size (ss_genetic su) - length elite
      in case map_rand (breed_one su st reproducers) [first..<first + count] (gp_rng st) of
           (Inl e, _) \<Rightarrow> Inl e
         | (Inr children, rng') \<Rightarrow> Inr (st\<lparr>gp_rng := rng', gp_generation := Suc (gp_generation st), gp_next_individual := first + count,
             gp_population := take (gs_population_size (ss_genetic su)) (elite @ children)\<rparr>))"

definition report :: "search_setup \<Rightarrow> CandidateResult list \<Rightarrow> provider \<Rightarrow> operator_error + provider" where
  "report su results st =
     (let generation_best = gp_best_fitness st;
          (st, scored) = fold (note_result su) results (st, []);
          improved = (case gp_best_fitness st of None \<Rightarrow> False | Some best \<Rightarrow> exceeds best generation_best);
          genetic = ss_genetic su;
          st = st\<lparr>gp_stagnation_generations := (if improved then 0 else Suc (gp_stagnation_generations st))\<rparr>;
          st = st\<lparr>gp_effective_mutation_rate := adapt_mutation_rate (gs_mutation_rate genetic) (gs_mutation_rate_min genetic) (gs_mutation_rate_max genetic)
            (int (gp_stagnation_generations st)) (gs_stagnation_patience genetic) (population_structural_diversity (gp_population st))\<rparr>;
          reproducers = sort_key (\<lambda>(fitness, _). - fitness) scored;
          st = st\<lparr>gp_parent_fitness_by_id := fold (\<lambda>(fitness, genome). dict_put (ge_genome_id genome) fitness) reproducers []\<rparr>
      in breed su st reproducers)"

section \<open>State between workers\<close>

record exported_state =
  ex_rng :: rng
  ex_generation :: nat
  ex_next_individual :: nat
  ex_best_fitness :: "decimal option"
  ex_stagnation_generations :: nat
  ex_effective_mutation_rate :: decimal
  ex_mutation_operator_weights :: "(string \<times> decimal) list"
  ex_parent_fitness_by_id :: "(string \<times> decimal) list"
  ex_champion :: "Genome option"
  ex_population :: "Genome list"

definition export_state :: "provider \<Rightarrow> exported_state" where
  "export_state st = \<lparr>ex_rng = gp_rng st, ex_generation = gp_generation st, ex_next_individual = gp_next_individual st,
     ex_best_fitness = gp_best_fitness st, ex_stagnation_generations = gp_stagnation_generations st,
     ex_effective_mutation_rate = gp_effective_mutation_rate st, ex_mutation_operator_weights = gp_mutation_operator_weights st,
     ex_parent_fitness_by_id = gp_parent_fitness_by_id st, ex_champion = gp_champion st, ex_population = gp_population st\<rparr>"

definition load_state :: "exported_state \<Rightarrow> provider \<Rightarrow> provider" where
  "load_state ex self = self\<lparr>gp_rng := ex_rng ex, gp_generation := ex_generation ex, gp_next_individual := ex_next_individual ex,
     gp_best_fitness := ex_best_fitness ex, gp_stagnation_generations := ex_stagnation_generations ex,
     gp_effective_mutation_rate := ex_effective_mutation_rate ex, gp_mutation_operator_weights := ex_mutation_operator_weights ex,
     gp_parent_fitness_by_id := ex_parent_fitness_by_id ex, gp_champion := ex_champion ex, gp_population := ex_population ex\<rparr>"

end
