(* ===== verification/Operators_Correct.thy ===== *)
theory Operators_Correct
  imports Operators Bt_Correct
begin

text \<open>
  The genetic operators give valid genomes. A small calculus follows a random computation whatever the
  choices are; the operators that change the graph validate their result, the others change the exit
  policy only. Crossover of subtrees tries a subtree once: the one it prunes on failure is the same.
\<close>

section \<open>Results of random computations\<close>

definition yields :: "'a rand \<Rightarrow> ('a \<Rightarrow> bool) \<Rightarrow> bool" where
  "yields m P \<longleftrightarrow> (\<forall>rng x rng'. m rng = (Inr x, rng') \<longrightarrow> P x)"

named_theorems yields_intros \<open>rules for the results of random computations\<close>

lemma yieldsD: "yields m P \<Longrightarrow> m rng = (Inr x, rng') \<Longrightarrow> P x"
  by (auto simp: yields_def)

lemma yields_mono: "yields m P \<Longrightarrow> (\<And>x. P x \<Longrightarrow> Q x) \<Longrightarrow> yields m Q"
  by (auto simp: yields_def)

lemma yields_give [yields_intros]: "P x \<Longrightarrow> yields (give x) P"
  by (simp add: yields_def give_def)

lemma yields_fail [yields_intros]: "yields (fail e) P"
  by (simp add: yields_def fail_def)

lemma yields_lift: "(\<And>x. r = Inr x \<Longrightarrow> P x) \<Longrightarrow> yields (lift r) P"
  by (auto simp: yields_def lift_def)

lemma yields_rbind:
  assumes "yields m Q" and "\<And>x. Q x \<Longrightarrow> yields (k x) P"
  shows "yields (rbind m k) P"
  using assms by (fastforce simp: yields_def rbind_def split: prod.splits sum.splits)

lemma yields_rbind_any [yields_intros]:
  assumes "\<And>x. yields (k x) P"
  shows "yields (rbind m k) P"
  by (rule yields_rbind [of m "\<lambda>_. True"]) (simp_all add: yields_def [of m] assms)

lemma yields_if [yields_intros]:
  "(b \<Longrightarrow> yields m P) \<Longrightarrow> (\<not> b \<Longrightarrow> yields n P) \<Longrightarrow> yields (if b then m else n) P"
  by simp

lemma yields_option [yields_intros]:
  "(opt = None \<Longrightarrow> yields m P) \<Longrightarrow> (\<And>x. opt = Some x \<Longrightarrow> yields (n x) P) \<Longrightarrow> yields (case opt of None \<Rightarrow> m | Some x \<Rightarrow> n x) P"
  by (simp split: option.splits)

lemma yields_prod [yields_intros]:
  "(\<And>x y. p = (x, y) \<Longrightarrow> yields (m x y) P) \<Longrightarrow> yields (case p of (x, y) \<Rightarrow> m x y) P"
  by (simp split: prod.splits)

lemma yields_let [yields_intros]: "(\<And>x. x = v \<Longrightarrow> yields (m x) P) \<Longrightarrow> yields (let x = v in m x) P"
  by simp

lemma yields_except [yields_intros]:
  assumes "yields m P" and "\<And>e. yields (h e) P"
  shows "yields (except_invalid m h) P"
  using assms by (fastforce simp: yields_def except_invalid_def split: prod.splits sum.splits if_splits)

lemma yields_choice: "yields (choice xs) (\<lambda>x. x \<in> set xs)"
  by (auto simp: yields_def choice_def fail_def rbind_def draw_def give_def split: if_splits list.splits)

lemma yields_each:
  assumes "P s" and "\<And>x s. P s \<Longrightarrow> yields (f x s) P"
  shows "yields (each f xs s) P"
  using assms by (induction xs arbitrary: s) (auto intro: yields_give yields_rbind)

section \<open>Parts of validation\<close>

definition graph_valid :: "nat \<Rightarrow> nat \<Rightarrow> Genome \<Rightarrow> bool" where
  "graph_valid max_nodes max_depth genome \<longleftrightarrow> validate_genome max_depth max_nodes (genome\<lparr>ge_metadata := []\<rparr>) = None"

definition policy_error :: "(string \<times> pyval) list \<Rightarrow> genome_error option" where
  "policy_error policy = validate_exit_rule_policy \<lparr>ge_genome_id = [], ge_nodes = [], ge_entry_long = [], ge_entry_short = [],
     ge_exit_long = [], ge_exit_short = [], ge_metadata = [(''exit_rule_policy'', PyDict policy)]\<rparr>"

lemma validate_exit_rule_policy_eq:
  "validate_exit_rule_policy genome = (case get_exit_rule_policy genome of None \<Rightarrow> None | Some policy \<Rightarrow> policy_error policy)"
  by (auto simp: validate_exit_rule_policy_def policy_error_def get_exit_rule_policy_def split: option.splits pyval.splits if_splits)

lemma signal_refs_metadata [simp]: "validate_signal_refs (genome\<lparr>ge_metadata := m\<rparr>) = validate_signal_refs genome"
  by (simp add: validate_signal_refs_def)

lemma validate_genome_parts:
  "validate_genome max_depth max_nodes genome = None \<longleftrightarrow> graph_valid max_nodes max_depth genome \<and> validate_exit_rule_policy genome = None"
proof -
  have "validate_exit_rule_policy (genome\<lparr>ge_metadata := []\<rparr>) = None" by (simp add: validate_exit_rule_policy_def get_exit_rule_policy_def)
  then show ?thesis unfolding graph_valid_def validate_genome_def Let_def first_error_None by auto
qed

lemma graph_valid_metadata [simp]: "graph_valid n d (genome\<lparr>ge_metadata := m\<rparr>) = graph_valid n d genome"
  by (simp add: graph_valid_def)

text \<open>A policy that names parameters of its preset keeps being valid when a value becomes a reference.\<close>

definition policy_names_known :: "(string \<times> pyval) list \<Rightarrow> bool" where
  "policy_names_known policy = (case map_of policy ''preset_id'' of
     Some (PyStr preset_id) \<Rightarrow> list_all (\<lambda>(name, v). policy_param_error preset_id (exit_ref_param name) = None) (policy_params policy)
   | _ \<Rightarrow> True)"

definition search_valid :: "nat \<Rightarrow> nat \<Rightarrow> Genome \<Rightarrow> bool" where
  "search_valid max_nodes max_depth genome \<longleftrightarrow> validate_genome max_depth max_nodes genome = None \<and>
     (case get_exit_rule_policy genome of None \<Rightarrow> True | Some policy \<Rightarrow> policy_names_known policy)"

section \<open>Operators on the graph\<close>

text \<open>The result is valid or the genome itself, with the same name and metadata.\<close>

abbreviation same_header :: "Genome \<Rightarrow> Genome \<Rightarrow> bool" where
  "same_header child genome \<equiv> ge_metadata child = ge_metadata genome \<and> ge_genome_id child = ge_genome_id genome"

definition same_or_valid :: "nat \<Rightarrow> nat \<Rightarrow> Genome \<Rightarrow> Genome \<Rightarrow> bool" where
  "same_or_valid max_nodes max_depth genome child \<longleftrightarrow> same_header child genome \<and>
     (child = genome \<or> validate_genome max_depth max_nodes child = None)"

lemma same_or_valid_refl [simp]: "same_or_valid n d genome genome"
  by (simp add: same_or_valid_def)

lemma yields_validate:
  "same_header child genome \<Longrightarrow> yields (validate_or_raise n d child) (same_or_valid n d genome)"
  by (auto simp: validate_or_raise_def same_or_valid_def intro: yields_give yields_fail split: option.split)

lemma set_node_header [simp]:
  "ge_metadata (set_node k node genome) = ge_metadata genome" "ge_genome_id (set_node k node genome) = ge_genome_id genome"
  by (simp_all add: set_node_def)

lemma light_mutate_valid: "yields (light_mutate_params n d n_latents genome) (same_or_valid n d genome)"
  unfolding light_mutate_params_def by (intro yields_intros yields_validate) simp_all

lemma rewire_valid: "yields (mutate_rewire n d genome) (same_or_valid n d genome)"
  unfolding mutate_rewire_def by (intro yields_intros yields_validate) simp_all

lemma swap_indicator_valid: "yields (mutate_swap_indicator n d kinds n_latents genome) (same_or_valid n d genome)"
  unfolding mutate_swap_indicator_def by (intro yields_intros yields_validate) simp_all

lemma swap_exit_valid: "yields (mutate_swap_exit n d genome) (same_or_valid n d genome)"
  unfolding mutate_swap_exit_def by (intro yields_intros yields_validate) simp_all

lemma add_node_valid: "yields (mutate_add_node n d genome) (same_or_valid n d genome)"
proof -
  have "same_header child genome" if "(child, close_id) = with_close_node genome" for child close_id
    using that by (auto simp: with_close_node_def split: option.splits)
  then show ?thesis unfolding mutate_add_node_def by (intro yields_intros yields_validate) auto
qed

lemma remove_node_valid: "yields (mutate_remove_node n d genome) (same_or_valid n d genome)"
proof -
  have "same_header child genome" if "without_node target fallback genome = Inr child" for target fallback child
    using that by (auto simp: without_node_def Let_def andthen_def split: sum.splits list.splits)
  then show ?thesis unfolding mutate_remove_node_def
    by (intro yields_intros yields_rbind [OF yields_lift yields_validate]) simp_all
qed

lemma if_changed_valid:
  assumes "same_header child genome" and "\<not> changed \<Longrightarrow> child = genome"
  shows "yields (if_changed n d (child, changed)) (same_or_valid n d genome)"
  using assms by (auto simp: if_changed_def intro: yields_validate yields_give)

definition repairing :: "Genome \<Rightarrow> Genome \<times> bool \<Rightarrow> bool" where
  "repairing genome = (\<lambda>(child, changed). same_header child genome \<and> (\<not> changed \<longrightarrow> child = genome))"

lemma recenter_node_repairing:
  "repairing genome s \<Longrightarrow> yields (recenter_node probe trial_params k s) (repairing genome)"
  unfolding recenter_node_def by (intro yields_intros) (auto simp: repairing_def)

lemma repairing_valid:
  assumes "\<And>k s. repairing genome s \<Longrightarrow> yields (f k s) (repairing genome)"
  shows "yields (rbind (each f xs (genome, False)) (if_changed n d)) (same_or_valid n d genome)"
proof (rule yields_rbind)
  show "yields (each f xs (genome, False)) (repairing genome)" by (rule yields_each [OF _ assms]) (simp_all add: repairing_def)
  show "yields (if_changed n d s) (same_or_valid n d genome)" if "repairing genome s" for s
    using that if_changed_valid by (cases s) (auto simp: repairing_def)
qed

lemma recenter_valid: "yields (repair_recenter_thresholds probe n d genome) (same_or_valid n d genome)"
  unfolding repair_recenter_thresholds_def by (intro yields_rbind_any repairing_valid recenter_node_repairing)

definition shortening :: "(string \<times> pyval) list \<Rightarrow> bool \<Rightarrow> (string \<times> pyval) list \<times> bool \<Rightarrow> bool" where
  "shortening params changed = (\<lambda>(params', changed'). (changed \<longrightarrow> changed') \<and> (\<not> changed' \<longrightarrow> params' = params))"

lemma shorten_key_shortening:
  "shortening params changed s \<Longrightarrow> yields (lift (shorten_key key s)) (shortening params changed)"
  by (rule yields_lift)
    (auto simp: shorten_key_def shortening_def andthen_def split: prod.splits option.splits sum.splits)

lemma shorten_node_repairing:
  assumes "repairing genome s"
  shows "yields (shorten_node k s) (repairing genome)"
proof (cases s)
  case (Pair child changed)
  let ?node = "ge_nodes child ! k"
  have "yields (each (\<lambda>key s. lift (shorten_key key s)) PERIOD_PARAM_KEYS (gn_params ?node, changed)) (shortening (gn_params ?node) changed)"
    by (rule yields_each) (auto simp: shortening_def intro: shorten_key_shortening [unfolded shortening_def])
  then have "yields (rbind (each (\<lambda>key s. lift (shorten_key key s)) PERIOD_PARAM_KEYS (gn_params ?node, changed)) (\<lambda>(params, changed').
       give (set_node k (?node\<lparr>gn_params := params\<rparr>) child, changed'))) (repairing genome)"
    by (rule yields_rbind) (use assms Pair in \<open>auto simp: shortening_def repairing_def set_node_def intro!: yields_give\<close>)
  then show ?thesis using assms Pair by (auto simp: shorten_node_def Let_def intro: yields_give)
qed

lemma shorten_valid: "yields (repair_shorten_lookbacks n d genome) (same_or_valid n d genome)"
  unfolding repair_shorten_lookbacks_def by (intro repairing_valid shorten_node_repairing)

lemma relax_valid: "yields (repair_relax_logic_and n d genome) (same_or_valid n d genome)"
  unfolding repair_relax_logic_and_def by (intro yields_intros if_changed_valid) (auto split: option.splits)

lemma repair_operation_valid: "yields (repair_operation probe n d attempt genome) (same_or_valid n d genome)"
proof -
  consider "attempt mod 3 = 0" | "attempt mod 3 = 1" | "attempt mod 3 = 2" by linarith
  then show ?thesis by cases (simp_all add: repair_operation_def recenter_valid shorten_valid relax_valid)
qed

lemma same_or_valid_trans: "same_or_valid n d genome g \<Longrightarrow> same_or_valid n d g h \<Longrightarrow> same_or_valid n d genome h"
  by (auto simp: same_or_valid_def)

lemma repair_attempts_valid:
  "yields (repair_attempts probe min_signals n d attempt k current) (same_or_valid n d current)"
proof (induction k arbitrary: attempt current)
  case 0
  show ?case by (simp add: yields_give)
next
  case (Suc k)
  have rest: "yields (repair_attempts probe min_signals n d a k g) (same_or_valid n d current)" if "same_or_valid n d current g" for a g
    using yields_mono [OF Suc.IH] same_or_valid_trans [OF that] by blast
  have "yields (except_invalid (rbind (repair_operation probe n d attempt current) (\<lambda>candidate.
        rbind (tradeable probe min_signals candidate) (\<lambda>ok. give (candidate, ok)))) (\<lambda>_. give (current, False)))
      (\<lambda>(g, ok). same_or_valid n d current g)"
    by (intro yields_except yields_rbind [OF repair_operation_valid] yields_rbind_any yields_give) simp_all
  then show ?case unfolding repair_attempts.simps
    by (rule yields_rbind) (auto intro!: yields_intros rest)
qed

lemma repair_genome_valid: "yields (repair_genome probe min_signals n d max_attempts genome) (same_or_valid n d genome)"
  unfolding repair_genome_def by (intro yields_intros repair_attempts_valid) simp_all

lemma nudge_param_valid:
  "yields (mutate_nudge_param n d probe_df min_signals attempts n_latents genome) (same_or_valid n d genome)"
proof -
  have "yields (rbind (repair_genome probe min_signals n d attempts genome) (\<lambda>repaired.
      rbind (tradeable probe min_signals repaired) (\<lambda>ok'. if ok' then give repaired else light_mutate_params n d n_latents genome)))
      (same_or_valid n d genome)" for probe
    by (intro yields_rbind [OF repair_genome_valid] yields_rbind_any yields_if light_mutate_valid yields_give) simp_all
  then have "yields (rbind (tradeable probe min_signals genome) (\<lambda>ok. if ok then light_mutate_params n d n_latents genome
      else rbind (repair_genome probe min_signals n d attempts genome) (\<lambda>repaired. rbind (tradeable probe min_signals repaired) (\<lambda>ok'.
        if ok' then give repaired else light_mutate_params n d n_latents genome)))) (same_or_valid n d genome)" for probe
    by (intro yields_rbind_any [of "\<lambda>ok. if ok then _ else _"]) (simp add: light_mutate_valid)
  then show ?thesis by (simp add: mutate_nudge_param_def Let_def light_mutate_valid split: option.split)
qed

section \<open>Operators on the exit policy\<close>

definition policy_ok :: "(string \<times> pyval) list \<Rightarrow> bool" where
  "policy_ok policy \<longleftrightarrow> ''params'' \<in> fst ` set policy \<and> policy_error policy = None \<and> policy_names_known policy"

text \<open>The names with bounds, without computing the bounds.\<close>

definition bound_names :: "string list" where
  "bound_names = map ps_name static_param_bounds @ map (genome_exit_param_ref \<circ> ps_name)
     (filter (\<lambda>spec. genome_exit_param_ref (ps_name spec) \<notin> set (map ps_name static_param_bounds)) all_param_specs)"

lemma bound_names_eq [code]: "bound_names =
    [''short_period'', ''long_period'', ''short_ma_type'', ''long_ma_type'', ''threshold'', ''period'', ''oversold'', ''overbought'',
     ''num_std'', ''fast_period'', ''slow_period'', ''signal_period'', ''band_pct'', ''holding_period'', ''ma_type'', ''lookback_bars'',
     ''rebalance_bars'', ''vol_window'', ''vol_estimator'', ''factor'', ''lookback_1'', ''lookback_2'', ''lookback_3'', ''latent_index'',
     ''window'', ''change_bars'', ''clip_low'', ''clip_high'', ''regime_lookback'', ''ma_period'', ''atr_period'', ''range_minutes'',
     ''exit_stop_loss_pct'', ''exit_stop_loss_atr'', ''exit_atr_period'', ''exit_take_profit_pct'', ''exit_take_profit_atr'',
     ''exit_trailing_stop_pct'', ''exit_chandelier_atr_mult'', ''exit_breakeven_trigger_pct'', ''exit_breakeven_offset_pct'',
     ''exit_psar_af_start'', ''exit_psar_af_step'', ''exit_psar_af_max'', ''exit_target_ratchet_atr'', ''exit_max_bars_in_trade'',
     ''exit_donchian_exit_period'']"
  by code_simp

lemma param_bound_None_iff [code_unfold]: "param_bound key = None \<longleftrightarrow> key \<notin> set bound_names"
proof -
  have "ps_name (exit_param_bound spec) = genome_exit_param_ref (ps_name spec)" for spec
    by (simp add: exit_param_bound_def Let_def split_beta)
  then show ?thesis by (auto simp: param_bound_def find_None_iff GENOME_PARAM_BOUNDS_def bound_names_def)
qed

lemma exit_ref_error_None:
  "policy_param_error preset_id (exit_ref_param name) = None \<longleftrightarrow> genome_exit_param_ref name \<in> set bound_names \<and>
     (preset_id \<in> set single_stop_ids \<or> (case preset_by_id preset_id of None \<Rightarrow> False | Some preset \<Rightarrow> name \<in> preset_exit_param_names preset))"
  by (auto simp: policy_param_error_def exit_ref_param_def is_param_ref_def ref_name_def py_text_def param_bound_None_iff split: option.splits)

lemma preset_names_bound:
  "list_all (\<lambda>preset. list_all (\<lambda>name. genome_exit_param_ref name \<in> set bound_names) (sorted_list_of_set (preset_exit_param_names preset)) \<and>
     preset_by_id (ep_id preset) = Some preset \<and> ep_id preset \<noteq> [] \<and> sorted_list_of_set (preset_exit_param_names preset) \<noteq> []) EXIT_PRESETS"
  by code_simp

lemma stop_names_bound: "list_all (\<lambda>name. genome_exit_param_ref name \<in> set bound_names) [''stop_loss_atr'', ''atr_period'', ''stop_loss_pct'']"
  by code_simp

text \<open>A policy of references is valid when its names are.\<close>

lemma references_ok:
  assumes "list_all (\<lambda>name. policy_param_error preset_id (exit_ref_param name) = None) names" and "names \<noteq> []"
    and "preset_id \<noteq> []" and "preset_id \<in> set (map ep_id EXIT_PRESETS) \<union> set single_stop_ids"
  shows "policy_ok [(''preset_id'', PyStr preset_id), (''params'', PyDict (map exit_ref_param names))]"
  using assms
  by (auto simp: policy_ok_def policy_error_def validate_exit_rule_policy_def get_exit_rule_policy_def first_error_None
      policy_names_known_def policy_params_def list_all_iff exit_ref_param_def)

lemma presets_ok:
  assumes "preset \<in> set EXIT_PRESETS"
  shows "policy_ok (build_exit_rule_policy preset)"
proof -
  have "finite (preset_exit_param_names preset)" by (simp add: preset_exit_param_names_def)
  then show ?thesis unfolding build_exit_rule_policy_def
    by (intro references_ok) (use assms preset_names_bound in \<open>auto simp: list_all_iff exit_ref_error_None\<close>)
qed

lemma single_stops_ok: "policy_ok (build_single_stop_exit_policy atr)"
  using stop_names_bound references_ok [of "''atr_stop_only''" "[''stop_loss_atr'', ''atr_period'']"]
    references_ok [of "''fixed_stop_only''" "[''stop_loss_pct'']"]
  by (auto simp: build_single_stop_exit_policy_def exit_ref_error_None single_stop_ids_def)

lemma selected_presets: "selected_exit_policy_presets ids = Inr presets \<Longrightarrow> set presets \<subseteq> set EXIT_PRESETS"
proof (cases ids)
  case (Some is')
  assume "selected_exit_policy_presets ids = Inr presets"
  then have "list_all2 (\<lambda>i preset. preset_by_id i = Some preset) is' presets"
    unfolding selected_exit_policy_presets_def Some by (auto simp: map_result_Inr elim!: list_all2_mono split: option.splits)
  moreover have "preset \<in> set EXIT_PRESETS" if "preset_by_id i = Some preset" for i preset
    using that by (auto simp: preset_by_id_def find_Some_iff)
  ultimately have "presets ! k \<in> set EXIT_PRESETS" if "k < length presets" for k
    using that by (auto simp: list_all2_conv_all_nth)
  then show ?thesis by (auto simp: in_set_conv_nth [of _ presets])
qed (simp add: selected_exit_policy_presets_def)

lemma put_policy_valid:
  assumes "graph_valid n d genome" and "policy_ok policy"
  shows "search_valid n d (put_policy policy genome)"
proof -
  have "get_exit_rule_policy (put_policy policy genome) = Some policy"
    using assms(2) by (simp add: put_policy_def get_exit_rule_policy_def policy_ok_def)
  then show ?thesis using assms
    by (simp add: search_valid_def validate_genome_parts validate_exit_rule_policy_eq policy_ok_def) (simp add: put_policy_def)
qed

lemma search_valid_policy:
  assumes "search_valid n d genome" and "get_exit_rule_policy genome = Some policy"
  shows "policy_ok policy"
  using assms
  by (auto simp: search_valid_def validate_genome_parts validate_exit_rule_policy_eq policy_ok_def get_exit_rule_policy_def
      split: option.splits pyval.splits if_splits)

lemma drop_policy_valid: "search_valid n d genome \<Longrightarrow> search_valid n d (drop_exit_rule_policy genome)"
proof -
  have "map_of (filter (\<lambda>(k, v). k \<noteq> ''exit_rule_policy'') ms) ''exit_rule_policy'' = None" for ms :: "(string \<times> pyval) list"
    by (auto simp: map_of_eq_None_iff)
  then have "get_exit_rule_policy (drop_exit_rule_policy genome) = None" by (simp add: get_exit_rule_policy_def drop_exit_rule_policy_def)
  then show "search_valid n d genome \<Longrightarrow> search_valid n d (drop_exit_rule_policy genome)"
    by (simp add: search_valid_def validate_genome_parts validate_exit_rule_policy_eq) (simp add: drop_exit_rule_policy_def)
qed

lemma nudged_policy_ok:
  assumes "policy_ok policy" and "exit_name \<in> fst ` set (policy_params policy)"
  shows "policy_ok (dict_put ''params'' (PyDict (dict_put exit_name (snd (exit_ref_param exit_name)) (policy_params policy))) policy)"
proof -
  obtain preset_id ps where p: "map_of policy ''preset_id'' = Some (PyStr preset_id)" "map_of policy ''params'' = Some (PyDict ps)"
      "preset_id \<noteq> []" "preset_id \<in> set (map ep_id EXIT_PRESETS) \<union> set single_stop_ids" "ps \<noteq> []"
      "\<forall>b\<in>set ps. policy_param_error preset_id b = None"
    using assms(1)
    by (auto simp: policy_ok_def policy_error_def validate_exit_rule_policy_def get_exit_rule_policy_def first_error_None
        split: option.splits pyval.splits if_splits)
  have known: "\<forall>(name, v)\<in>set ps. policy_param_error preset_id (exit_ref_param name) = None"
    using assms(1) p(1,2) by (auto simp: policy_ok_def policy_names_known_def policy_params_def list_all_iff)
  have new: "set (dict_put exit_name v ps) \<subseteq> insert (exit_name, v) (set ps)" for v
    by (induction ps) auto
  have "exit_name \<in> fst ` set ps" using assms(2) p(2) by (simp add: policy_params_def)
  then have "policy_param_error preset_id (exit_ref_param exit_name) = None" using known by auto
  moreover have "(exit_name, snd (exit_ref_param exit_name)) = exit_ref_param exit_name" by (simp add: exit_ref_param_def)
  ultimately have "\<forall>b\<in>set (dict_put exit_name (snd (exit_ref_param exit_name)) ps). policy_param_error preset_id b = None"
    using subsetD [OF new] p(6) by (metis insertE)
  moreover have "\<forall>(name, v)\<in>set (dict_put exit_name (snd (exit_ref_param exit_name)) ps). policy_param_error preset_id (exit_ref_param name) = None"
    using new known \<open>policy_param_error preset_id (exit_ref_param exit_name) = None\<close> by blast
  moreover have "dict_put exit_name v ps \<noteq> []" for v by (cases ps) auto
  ultimately show ?thesis using p(1-5)
    by (auto simp: policy_ok_def policy_error_def validate_exit_rule_policy_def get_exit_rule_policy_def first_error_None
        policy_names_known_def policy_params_def list_all_iff)
qed

lemma exit_operators_valid:
  assumes "search_valid n d genome"
  shows "yields (mutate_swap_exit_policy ids genome) (search_valid n d)"
    and "yields (mutate_add_exit_stop genome) (search_valid n d)"
    and "yields (mutate_replace_exit_with_preset ids genome) (search_valid n d)"
    and "yields (mutate_drop_exit_policy genome) (search_valid n d)"
    and "yields (mutate_nudge_exit_param_ref genome) (search_valid n d)"
proof -
  have graph: "graph_valid n d genome" using assms by (simp add: search_valid_def validate_genome_parts)
  have attach: "search_valid n d (attach_exit_rule_policy preset genome)" if "preset \<in> set EXIT_PRESETS" for preset
    using put_policy_valid [OF graph presets_ok [OF that]] by (simp add: attach_exit_rule_policy_def)
  have some: "yields (rbind (choice presets) (\<lambda>preset. give (attach_exit_rule_policy preset genome))) (search_valid n d)"
    if "set presets \<subseteq> set EXIT_PRESETS" for presets
    by (rule yields_rbind [OF yields_choice]) (use that attach in \<open>auto intro: yields_give\<close>)
  show "yields (mutate_swap_exit_policy ids genome) (search_valid n d)"
    unfolding mutate_swap_exit_policy_def Let_def
    by (rule yields_rbind [OF yields_lift [of _ "\<lambda>presets. set presets \<subseteq> set EXIT_PRESETS"]])
      (use assms selected_presets in \<open>auto intro!: yields_if yields_give some\<close>)
  show "yields (mutate_replace_exit_with_preset ids genome) (search_valid n d)"
    unfolding mutate_replace_exit_with_preset_def
    by (rule yields_rbind [OF yields_lift [of _ "\<lambda>presets. set presets \<subseteq> set EXIT_PRESETS"]])
      (use assms selected_presets in \<open>auto intro!: yields_if yields_give some\<close>)
  show "yields (mutate_add_exit_stop genome) (search_valid n d)"
    unfolding mutate_add_exit_stop_def by (intro yields_intros put_policy_valid [OF graph single_stops_ok]) (use assms in simp)
  show "yields (mutate_drop_exit_policy genome) (search_valid n d)"
    unfolding mutate_drop_exit_policy_def by (intro yields_intros drop_policy_valid assms)
  show "yields (mutate_nudge_exit_param_ref genome) (search_valid n d)"
    unfolding mutate_nudge_exit_param_ref_def Let_def
  proof (intro yields_option yields_if yields_rbind [OF yields_choice] yields_give assms)
    fix policy exit_name assume "get_exit_rule_policy genome = Some policy" "exit_name \<in> set (sort (map fst (policy_params policy)))"
    then show "search_valid n d (put_policy (dict_put ''params'' (PyDict (dict_put exit_name (snd (exit_ref_param exit_name)) (policy_params policy))) policy) genome)"
      using put_policy_valid [OF graph nudged_policy_ok] search_valid_policy [OF assms] by simp
  qed
qed

lemma same_or_valid_search:
  assumes "search_valid n d genome" and "same_or_valid n d genome child"
  shows "search_valid n d child"
proof -
  have "get_exit_rule_policy child = get_exit_rule_policy genome" using assms(2) by (simp add: same_or_valid_def get_exit_rule_policy_def)
  then show ?thesis using assms by (auto simp: search_valid_def same_or_valid_def)
qed

lemmas graph_operators_valid = rewire_valid swap_indicator_valid nudge_param_valid swap_exit_valid add_node_valid remove_node_valid

lemma apply_mutation_valid:
  assumes "search_valid (sc_max_nodes cfg) (sc_max_depth cfg) genome"
  shows "yields (apply_mutation cfg op' genome) (search_valid (sc_max_nodes cfg) (sc_max_depth cfg))"
  unfolding apply_mutation_def Let_def
  by (intro yields_if exit_operators_valid assms yields_mono [OF rewire_valid] yields_mono [OF swap_indicator_valid] yields_mono [OF nudge_param_valid]
      yields_mono [OF swap_exit_valid] yields_mono [OF add_node_valid] yields_mono [OF remove_node_valid])
    (erule same_or_valid_search [OF assms])+

lemma put_metadata_valid:
  assumes "k \<noteq> ''exit_rule_policy''"
  shows "search_valid n d (genome\<lparr>ge_metadata := dict_put k v (ge_metadata genome)\<rparr>) = search_valid n d genome"
proof -
  have "get_exit_rule_policy (genome\<lparr>ge_metadata := dict_put k v (ge_metadata genome)\<rparr>) = get_exit_rule_policy genome"
    using assms by (simp add: get_exit_rule_policy_def)
  then show ?thesis by (simp add: search_valid_def validate_genome_parts validate_exit_rule_policy_eq)
qed

lemma record_mutation_valid:
  assumes "search_valid n d mutated"
  shows "yields (record_mutation genome op' mutated) (search_valid n d)"
proof -
  have "search_valid n d (mutated\<lparr>ge_metadata := dict_put ''last_mutation_op'' v (ge_metadata mutated)\<rparr>)" for v
    using assms by (simp add: put_metadata_valid)
  moreover from this have "search_valid n d (mutated\<lparr>ge_metadata := dict_put ''last_exit_mutation_op'' w (dict_put ''last_mutation_op'' v (ge_metadata mutated))\<rparr>)" for v w
    using put_metadata_valid [of "''last_exit_mutation_op''" n d, where v = w and genome = "mutated\<lparr>ge_metadata := dict_put ''last_mutation_op'' v (ge_metadata mutated)\<rparr>"] by simp
  ultimately show ?thesis unfolding record_mutation_def Let_def by (intro yields_intros)
qed

lemma mutate_genome_valid:
  assumes "search_valid (sc_max_nodes cfg) (sc_max_depth cfg) genome"
  shows "yields (mutate_genome cfg genome) (search_valid (sc_max_nodes cfg) (sc_max_depth cfg))"
  unfolding mutate_genome_def
  by (rule yields_rbind_any, rule yields_rbind [OF apply_mutation_valid [OF assms]], rule record_mutation_valid)

section \<open>Crossover\<close>

text \<open>Every node of a subtree but its root is an input of a node of the subtree, so none can be pruned.\<close>

definition read_from :: "GenomeNode list \<Rightarrow> string \<Rightarrow> string list \<Rightarrow> string \<Rightarrow> bool" where
  "read_from nodes start ids x \<longleftrightarrow> x = start \<or> (\<exists>y\<in>set ids. x \<in> set (parents (the (node_by_id nodes y))))"

lemma read_from_mono: "read_from nodes start ids x \<Longrightarrow> set ids \<subseteq> set ids' \<Longrightarrow> read_from nodes start ids' x"
  by (auto simp: read_from_def)

lemma collect_ids_read:
  assumes "\<forall>x\<in>set collected \<union> set stack. read_from nodes start collected x"
  shows "\<forall>x\<in>set (collect_ids nodes collected stack). read_from nodes start (collect_ids nodes collected stack) x"
  using assms
proof (induction nodes collected stack rule: collect_ids.induct)
  case (2 nodes collected node_id stack)
  show ?case
  proof (cases "node_id \<in> set collected \<or> node_by_id nodes node_id = None")
    case True
    then show ?thesis using 2 by (auto split: option.splits)
  next
    case False
    then obtain node where node: "node_by_id nodes node_id = Some node" "node_id \<notin> set collected" by auto
    have "read_from nodes start (collected @ [node_id]) x" if "x \<in> set (collected @ [node_id]) \<union> set (rev (parents node) @ stack)" for x
    proof (cases "x \<in> set (parents node)")
      case True
      then show ?thesis using node by (auto simp: read_from_def)
    next
      case False
      then have "read_from nodes start collected x" using that 2(4) by auto
      then show ?thesis by (rule read_from_mono) auto
    qed
    then show ?thesis using 2(3) [OF node(2) node(1)] node by simp
  qed
qed simp

lemma subtree_has_no_leaves:
  "prune_subtree_leaves (subtree_node_ids genome start) genome start = subtree_node_ids genome start"
proof -
  let ?ids = "subtree_node_ids genome start"
  have "\<forall>x\<in>set ?ids. read_from (ge_nodes genome) start ?ids x"
    unfolding subtree_node_ids_def by (rule collect_ids_read) (simp add: read_from_def)
  then have "dependents (ge_nodes genome) ?ids x \<noteq> 0" if "x \<in> set ?ids" "x \<noteq> start" for x
    using that by (auto simp: dependents_def read_from_def filter_empty_conv)
  then have "filter (\<lambda>x. x \<noteq> start \<and> dependents (ge_nodes genome) ?ids x = 0) ?ids = []"
    by (intro filter_False) blast
  then show ?thesis unfolding prune_subtree_leaves_def by simp
qed

lemma graft_pruned_once:
  "graft_pruned n d parent_a parent_b cut_a cut_b (subtree_node_ids parent_b (gn_id cut_b)) =
     (let child = graft parent_a parent_b cut_a cut_b (subtree_node_ids parent_b (gn_id cut_b)) in
      case validate_genome d n child of None \<Rightarrow> Inr child | Some e \<Rightarrow> Inl (OpGenomeError e))"
  by (subst graft_pruned.simps) (simp add: subtree_has_no_leaves Let_def split: option.split)

lemma graft_header: "same_header (graft parent_a parent_b cut_a cut_b ids) parent_a"
  by (simp add: graft_def Let_def split_beta prune_unreachable_nodes_def rewire_consumers_def)

lemma subtree_crossover_valid: "yields (lift (subtree_crossover n d parent_a parent_b cut_a cut_b)) (same_or_valid n d parent_a)"
  by (rule yields_lift)
    (auto simp: subtree_crossover_def graft_pruned_once Let_def same_or_valid_def graft_header split: if_splits option.splits)

lemma crossover_valid: "yields (crossover_genomes n d parent_a parent_b) (same_or_valid n d parent_a)"
proof -
  have single: "yields (single_node_crossover n d parent_a k cut_b) (same_or_valid n d parent_a)" for k cut_b
    unfolding single_node_crossover_def by (rule yields_validate) simp
  show ?thesis unfolding crossover_genomes_def Let_def
    by (intro yields_if yields_rbind_any yields_except subtree_crossover_valid single yields_give same_or_valid_refl)
qed

text \<open>
  The genetic operators keep genomes valid. Whatever the random choices, the child of a mutation or
  of a crossover passes the validation that its parent passed, exit policy included; only the parent
  the child is made from has to be valid, and to name exit parameters of its preset.
\<close>

lemma genetic_operators_keep_genomes_valid:
  assumes "search_valid (sc_max_nodes cfg) (sc_max_depth cfg) genome"
    and "mutate_genome cfg genome rng = (Inr child, rng') \<or>
      crossover_genomes (sc_max_nodes cfg) (sc_max_depth cfg) genome other rng = (Inr child, rng')"
  shows "search_valid (sc_max_nodes cfg) (sc_max_depth cfg) child"
  using assms(2) yieldsD [OF mutate_genome_valid [OF assms(1)]] yieldsD [OF crossover_valid] same_or_valid_search [OF assms(1)] by metis

text \<open>
  C34. Crossover of subtrees never prunes. When the child with the whole subtree is not valid, the
  subtree that is to be tried next is the same one, since every node of it but the root is read by
  another, and the crossover raises what validation raised.
\<close>

theorem subtree_crossover_never_prunes:
  "subtree_crossover max_nodes max_depth parent_a parent_b cut_a cut_b =
     (let subtree_b_ids = subtree_node_ids parent_b (gn_id cut_b); child = graft parent_a parent_b cut_a cut_b subtree_b_ids in
      if gn_id cut_a \<notin> gn_id ` set (ge_nodes parent_a) then Inr parent_a
      else if length subtree_b_ids \<le> 1 then Inl (OpGenomeError (GenomeValidationError ''subtree too small for crossover''))
      else case validate_genome max_depth max_nodes child of None \<Rightarrow> Inr child | Some e \<Rightarrow> Inl (OpGenomeError e))"
  by (simp add: subtree_crossover_def graft_pruned_once Let_def)

end
