(* ===== verification/Fixtures_Correct.thy ===== *)
theory Fixtures_Correct
  imports Population Operators_Correct
begin

text \<open>
  The registry strategies as genomes are valid, within limits of six nodes and of depth four.
\<close>

text \<open>The specification of a kind, looked up among those with the same first letter.\<close>

definition spec_group :: "string \<Rightarrow> NodeSpec list" where
  "spec_group kind = (case kind of
     [] \<Rightarrow> []
   | c # _ \<Rightarrow> if c = CHR ''c'' \<or> c = CHR ''l'' then signal_specs
       else if c = CHR ''i'' then indicator_specs @ late_indicator_specs
       else if c = CHR ''s'' then source_specs
       else if c = CHR ''e'' then exit_specs
       else if c = CHR ''t'' then transform_specs
       else session_feature_specs @ level_feature_specs)"

lemma spec_groups: "list_all (\<lambda>spec. find (\<lambda>s. ns_kind s = ns_kind spec) (spec_group (ns_kind spec)) = Some spec) NODE_SPECS"
  by code_simp

lemma spec_group_subset: "set (spec_group kind) \<subseteq> set NODE_SPECS"
  by (auto simp: spec_group_def NODE_SPECS_def split: list.splits if_splits)

lemma node_spec_group [code]: "node_spec kind = find (\<lambda>spec. ns_kind spec = kind) (spec_group kind)"
proof (cases "node_spec kind")
  case None
  then have "\<forall>spec\<in>set NODE_SPECS. ns_kind spec \<noteq> kind" by (auto simp: node_spec_def find_None_iff)
  then have "find (\<lambda>spec. ns_kind spec = kind) (spec_group kind) = None" using spec_group_subset by (fastforce simp: find_None_iff)
  then show ?thesis using None by simp
next
  case (Some spec)
  then have "spec \<in> set NODE_SPECS" "ns_kind spec = kind" by (auto simp: node_spec_def find_Some_iff)
  then show ?thesis using spec_groups Some by (auto simp: list_all_iff)
qed

lemma validate_genome_mono:
  assumes "validate_genome d n genome = None" and "d \<le> d'" and "n \<le> n'"
  shows "validate_genome d' n' genome = None"
proof -
  have "depth_error d nodes node = None \<Longrightarrow> depth_error d' nodes node = None" for nodes node
    using assms(2) by (cases "node_depth (Suc (length nodes)) (children_of nodes) (gn_id node)") (auto simp: depth_error_def simp del: node_depth.simps)
  then show ?thesis using assms unfolding validate_genome_def Let_def first_error_None by auto
qed

text \<open>The fixtures are within six nodes and depth four.\<close>

lemma ma_crossover_valid: "validate_genome 4 6 MA_CROSSOVER_GENOME = None"
  by code_simp

lemma rsi_mean_reversion_valid: "validate_genome 4 6 RSI_MEAN_REVERSION_GENOME = None"
  by code_simp

lemma bollinger_reversion_valid: "validate_genome 4 6 BOLLINGER_REVERSION_GENOME = None"
  by code_simp

lemma donchian_breakout_valid: "validate_genome 4 6 DONCHIAN_BREAKOUT_GENOME = None"
  by code_simp

lemma macd_valid: "validate_genome 4 6 MACD_GENOME = None"
  by code_simp

lemma trb_valid: "validate_genome 4 6 TRB_GENOME = None"
  by code_simp

lemma fma_valid: "validate_genome 4 6 FMA_GENOME = None"
  by code_simp

lemma tsmom_valid: "validate_genome 4 6 TSMOM_GENOME = None"
  by code_simp

lemmas fixture_valid = ma_crossover_valid rsi_mean_reversion_valid bollinger_reversion_valid donchian_breakout_valid macd_valid trb_valid fma_valid tsmom_valid

lemma no_policy: "get_exit_rule_policy (named_genome i nodes el es xl xs [(''equivalent_registry'', PyStr name)]) = None"
  by (simp add: named_genome_def get_exit_rule_policy_def)

lemma origin_no_policy: "get_exit_rule_policy (named_genome i nodes el es xl xs (origin g name)) = None"
  by (simp add: named_genome_def get_exit_rule_policy_def origin_def)

lemma fixture_no_policy:
  "(name, fixture) \<in> set REGISTRY_GENOME_FIXTURES \<Longrightarrow> get_exit_rule_policy fixture = None"
  by (auto simp: REGISTRY_GENOME_FIXTURES_def no_policy MA_CROSSOVER_GENOME_def RSI_MEAN_REVERSION_GENOME_def BOLLINGER_REVERSION_GENOME_def
      DONCHIAN_BREAKOUT_GENOME_def MACD_GENOME_def TRB_GENOME_def FMA_GENOME_def TSMOM_GENOME_def)

lemma fixture_search_valid:
  assumes "(name, fixture) \<in> set REGISTRY_GENOME_FIXTURES" and "6 \<le> n" and "4 \<le> d"
  shows "search_valid n d fixture"
proof -
  have "validate_genome 4 6 fixture = None" using assms(1) by (auto simp: REGISTRY_GENOME_FIXTURES_def fixture_valid)
  then show ?thesis using fixture_no_policy [OF assms(1)] validate_genome_mono [OF _ assms(3,2)] by (simp add: search_valid_def)
qed

end
