(* ===== verification/Genetic_Search_Correct.thy ===== *)
theory Genetic_Search_Correct
  imports Genetic_Search Fixtures_Correct
begin

text \<open>
  Every population of the genetic search has the configured size and consists of valid genomes with
  distinct names, whatever the random choices and the reported results are, also across worker
  processes. A restored provider breeds as the exported one would, but has lost the fitness of its
  champion.
\<close>

section \<open>Lists of random results\<close>

lemma yields_map_rand:
  assumes "\<And>x. x \<in> set xs \<Longrightarrow> yields (f x) (P x)"
  shows "yields (map_rand f xs) (list_all2 P xs)"
  using assms
proof (induction xs)
  case (Cons x xs)
  show ?case unfolding map_rand.simps
    by (rule yields_rbind [OF Cons.prems [of x]], simp, rule yields_rbind [OF Cons.IH])
      (use Cons.prems in \<open>auto intro: yields_give\<close>)
qed (simp add: yields_give)

lemma yields_sample: "yields (sample k xs) (\<lambda>ys. set ys \<subseteq> set xs)"
proof (induction k arbitrary: xs)
  case (Suc k)
  have rest: "yields (sample k (remove_nth i xs)) (\<lambda>ys. set ys \<subseteq> set xs)" for i
    by (rule yields_mono [OF Suc.IH]) (auto simp: remove_nth_def dest: in_set_takeD in_set_dropD)
  show ?case unfolding sample.simps
    by (rule yields_rbind [OF yields_choice], rule yields_rbind [OF rest]) (auto intro!: yields_give)
qed (simp add: yields_give)

lemma yields_draw_attempts: "yields m P \<Longrightarrow> yields (draw_attempts m k e) P"
  by (induction k arbitrary: e) (auto intro: yields_intros)

lemma yields_draw_valid: "yields m P \<Longrightarrow> yields (draw_valid m) P"
  by (simp add: draw_valid_def yields_draw_attempts)

lemma draw_valid_first: "builder rng = (Inr x, rng') \<Longrightarrow> draw_valid builder rng = (Inr x, rng')"
proof -
  have "(64 :: nat) = Suc 63" by simp
  then show "builder rng = (Inr x, rng') \<Longrightarrow> draw_valid builder rng = (Inr x, rng')"
    unfolding draw_valid_def by (simp only: draw_attempts.simps) (simp add: except_invalid_def)
qed

section \<open>The first population\<close>

text \<open>A valid genome with a given name.\<close>

definition drawn :: "nat \<Rightarrow> nat \<Rightarrow> string \<Rightarrow> Genome \<Rightarrow> bool" where
  "drawn n d genome_id genome \<longleftrightarrow> search_valid n d genome \<and> ge_genome_id genome = genome_id"

lemma rename_valid: "search_valid n d (genome\<lparr>ge_genome_id := i\<rparr>) = search_valid n d genome"
  by (simp add: search_valid_def validate_genome_def validate_signal_refs_def validate_exit_rule_policy_def get_exit_rule_policy_def)

lemma clone_drawn:
  assumes "search_valid n d genome"
  shows "drawn n d genome_id (clone_genome (Some genome_id) (Some g) genome)"
  using assms put_metadata_valid [where k = "''generation''" and v = "PyInt g" and genome = "genome\<lparr>ge_genome_id := genome_id\<rparr>" and n = n and d = d]
  by (simp add: drawn_def clone_genome_def rename_valid)

lemma same_or_valid_drawn: "drawn n d i genome \<Longrightarrow> same_or_valid n d genome child \<Longrightarrow> drawn n d i child"
  using same_or_valid_search by (auto simp: drawn_def same_or_valid_def)

lemma fallback_drawn: "6 \<le> n \<Longrightarrow> 4 \<le> d \<Longrightarrow> drawn n d i (tradeable_registry_fallback i g)"
  unfolding tradeable_registry_fallback_def
  by (intro clone_drawn fixture_search_valid [of "''MACrossover''"]) (simp_all add: REGISTRY_GENOME_FIXTURES_def)

text \<open>The limits of the run leave room for the fixtures.\<close>

abbreviation room :: "random_config \<Rightarrow> bool" where
  "room rc \<equiv> 6 \<le> rc_max_nodes rc \<and> 4 \<le> rc_max_depth rc"

abbreviation named :: "random_config \<Rightarrow> string \<Rightarrow> Genome \<Rightarrow> bool" where
  "named rc \<equiv> drawn (rc_max_nodes rc) (rc_max_depth rc)"

lemma validated_named: "yields (validated rc (named_genome i nodes el es xl xs (origin g name))) (named rc i)"
  by (auto simp: validated_def validate_or_raise_def drawn_def search_valid_def origin_no_policy
      intro!: yields_give yields_fail split: option.split) (simp add: named_genome_def)

lemma breakout_named: "yields (validated rc (breakout_genome i g style params)) (named rc i)"
  by (simp add: breakout_genome_def validated_named)

lemma random_genome_named: "yields (build_random_genome rc i g) (named rc i)"
  unfolding build_random_genome_def build_random_crossover_def build_random_reversion_def build_random_latent_def build_random_breakout_def
  by (intro yields_intros validated_named breakout_named)

lemma ensure_named:
  assumes "room rc" and "named rc i genome"
  shows "yields (ensure_tradeable_genome sp rc i g genome) (named rc i)"
  unfolding ensure_tradeable_genome_def Let_def
  by (intro yields_rbind_any yields_if yields_give assms yields_rbind [OF repair_genome_valid])
    (use assms fallback_drawn same_or_valid_drawn [OF assms(2)] in auto)

lemma draw_tradeable_named: "room rc \<Longrightarrow> yields (draw_tradeable sp rc i g k) (named rc i)"
proof (induction k)
  case 0
  then show ?case by (simp add: fallback_drawn yields_give)
next
  case (Suc k)
  show ?case unfolding draw_tradeable.simps
    by (rule yields_rbind [OF random_genome_named], rule yields_rbind [OF ensure_named [OF Suc.prems]], assumption)
      (intro yields_intros Suc.IH Suc.prems)
qed

lemma seed_named:
  assumes "room rc" and "search_valid (rc_max_nodes rc) (rc_max_depth rc) template"
  shows "yields (rbind (light_or_same rc (clone_genome (Some i) (Some 0) template)) (ensured se rc i)) (named rc i)"
proof (rule yields_rbind)
  have clone: "named rc i (clone_genome (Some i) (Some 0) template)" by (rule clone_drawn [OF assms(2)])
  show "yields (light_or_same rc (clone_genome (Some i) (Some 0) template)) (named rc i)"
    unfolding light_or_same_def
    by (intro yields_except yields_mono [OF light_mutate_valid] yields_give clone) (rule same_or_valid_drawn [OF clone])
  show "yields (ensured se rc i genome) (named rc i)" if "named rc i genome" for genome
    unfolding ensured_def by (intro yields_option yields_give ensure_named that assms)
qed

lemma registry_seed_named: "room rc \<Longrightarrow> yields (registry_seed se rc k) (named rc (''gen0-seed-'' @ digits_of k))"
  unfolding registry_seed_def Let_def
  by (intro yields_rbind_any yields_option yields_fail seed_named) (auto dest: map_of_SomeD intro: fixture_search_valid)

lemma hypothesis_seed_named:
  assumes "room rc" and "list_all (search_valid (rc_max_nodes rc) (rc_max_depth rc)) seeds" and "k < length seeds"
  shows "yields (hypothesis_seed se rc seeds k) (named rc (''gen0-seed-hyp-'' @ digits_of k))"
  unfolding hypothesis_seed_def Let_def using assms by (intro seed_named) (auto simp: list_all_length)

lemma random_seed_named: "room rc \<Longrightarrow> yields (random_seed se rc k) (named rc (''gen0-rand-'' @ digits_of k))"
  unfolding random_seed_def Let_def draw_tradeable_random_genome_def
  by (intro yields_option yields_draw_valid random_genome_named draw_tradeable_named)

text \<open>The names are distinct: the digits determine the number, and no digit is a letter.\<close>

lemma digits_of_inj [simp]: "digits_of a = digits_of b \<longleftrightarrow> a = b"
  by (metis digits_value_of)

lemma digits_of_char: "c \<in> set (digits_of k) \<Longrightarrow> (of_char c :: nat) < 58"
proof (induction k rule: digits_of.induct)
  case (1 k)
  then show ?case by (subst (asm) (2) digits_of.simps) (auto split: if_splits)
qed

lemma digits_not_letters: "digits_of k \<noteq> CHR ''h'' # rest"
  using digits_of_char [of "CHR ''h''" k] by auto

lemma first_ids_distinct:
  "distinct (map (\<lambda>k. ''gen0-seed-hyp-'' @ digits_of k) [0..<a] @ map (\<lambda>k. ''gen0-seed-'' @ digits_of k) [0..<b] @
     map (\<lambda>k. ''gen0-rand-'' @ digits_of k) [0..<c])"
  using digits_not_letters by (auto simp: distinct_map inj_on_def) metis

lemma attach_at_drawn:
  assumes "list_all2 (drawn n d) ids population" and "presets \<noteq> []" and "set presets \<subseteq> set EXIT_PRESETS"
  shows "list_all2 (drawn n d) ids (attach_at presets k population)"
proof (cases "k < length population")
  case True
  let ?preset = "presets ! (k mod length presets)"
  have "?preset \<in> set EXIT_PRESETS" using assms(2,3) by (meson length_greater_0_conv mod_less_divisor nth_mem subsetD)
  moreover have "drawn n d (ids ! k) (population ! k)" using assms(1) True by (simp add: list_all2_conv_all_nth)
  ultimately have "drawn n d (ids ! k) (attach_exit_rule_policy ?preset (population ! k))"
    using put_policy_valid [OF _ presets_ok]
    by (simp add: drawn_def attach_exit_rule_policy_def search_valid_def [of _ _ "population ! k"] validate_genome_parts) (simp add: put_policy_def)
  then show ?thesis using assms(1) True by (auto simp: attach_at_def list_all2_conv_all_nth nth_list_update)
qed (use assms in \<open>simp add: attach_at_def list_update_beyond\<close>)

lemma seed_exit_drawn:
  assumes "list_all2 (drawn n d) ids population"
  shows "yields (seed_exit_policy_variants se population) (list_all2 (drawn n d) ids)"
proof -
  have "list_all2 (drawn n d) ids (fold (attach_at presets) indices population)"
    if "presets \<noteq> []" "set presets \<subseteq> set EXIT_PRESETS" for presets indices
    using assms attach_at_drawn [OF _ that] by (induction indices arbitrary: population) auto
  then have some: "yields (give (fold (attach_at presets) indices population)) (list_all2 (drawn n d) ids)"
    if "presets \<noteq> []" "set presets \<subseteq> set EXIT_PRESETS" for presets indices using that by (intro yields_give)
  show ?thesis unfolding seed_exit_policy_variants_def Let_def
    by (intro yields_if yields_give assms yields_rbind [OF yields_lift [OF selected_presets]] yields_rbind_any some)
qed

text \<open>What holds of a population.\<close>

definition population_ok :: "GeneticSearchConfig \<Rightarrow> Genome list \<Rightarrow> bool" where
  "population_ok genetic population \<longleftrightarrow> length population = gs_population_size genetic \<and>
     list_all (search_valid (gs_max_nodes genetic) (gs_max_depth genetic)) population \<and> distinct (map ge_genome_id population)"

lemma drawn_population:
  assumes "list_all2 (drawn n d) ids population"
  shows "length population = length ids" and "list_all (search_valid n d) population" and "map ge_genome_id population = ids"
  using assms by (auto simp: list_all2_conv_all_nth list_all_length drawn_def intro: nth_equalityI)

lemma first_population:
  assumes "room rc" and "list_all (search_valid (rc_max_nodes rc) (rc_max_depth rc)) seeds"
  shows "yields (build_initial_population se rc seeds) (\<lambda>population. length population = se_population_size se \<and>
     list_all (search_valid (rc_max_nodes rc) (rc_max_depth rc)) population \<and> distinct (map ge_genome_id population))"
proof -
  let ?half = "se_population_size se div 2"
  let ?hyp = "min (length seeds) ?half"
  let ?ids = "map (\<lambda>k. ''gen0-seed-hyp-'' @ digits_of k) [0..<?hyp] @ map (\<lambda>k. ''gen0-seed-'' @ digits_of k) [0..<?half - ?hyp] @
     map (\<lambda>k. ''gen0-rand-'' @ digits_of k) [0..<se_population_size se - ?half]"
  have seeded: "list_all2 (named rc) ?ids (hyp @ registry @ rand)"
    if "list_all2 (\<lambda>k. named rc (''gen0-seed-hyp-'' @ digits_of k)) [0..<?hyp] hyp"
      and "list_all2 (\<lambda>k. named rc (''gen0-seed-'' @ digits_of k)) [0..<?half - ?hyp] registry"
      and "list_all2 (\<lambda>k. named rc (''gen0-rand-'' @ digits_of k)) [0..<se_population_size se - ?half] rand" for hyp registry rand
    by (intro list_all2_appendI) (use that in \<open>simp_all add: list.rel_map\<close>)
  have hyp: "yields (map_rand (hypothesis_seed se rc seeds) [0..<?hyp]) (list_all2 (\<lambda>k. named rc (''gen0-seed-hyp-'' @ digits_of k)) [0..<?hyp])"
    by (rule yields_map_rand) (use hypothesis_seed_named [OF assms] in simp)
  have registry: "yields (map_rand (registry_seed se rc) [0..<?half - ?hyp]) (list_all2 (\<lambda>k. named rc (''gen0-seed-'' @ digits_of k)) [0..<?half - ?hyp])"
    by (rule yields_map_rand) (rule registry_seed_named [OF assms(1)])
  have rand: "yields (map_rand (random_seed se rc) [0..<se_population_size se - ?half])
      (list_all2 (\<lambda>k. named rc (''gen0-rand-'' @ digits_of k)) [0..<se_population_size se - ?half])"
    by (rule yields_map_rand) (rule random_seed_named [OF assms(1)])
  have "yields (build_initial_population se rc seeds) (list_all2 (named rc) ?ids)"
    unfolding build_initial_population_def Let_def
    by (rule yields_rbind [OF hyp], rule yields_rbind [OF registry], rule yields_rbind [OF rand], rule seed_exit_drawn, rule seeded)
  then show ?thesis
  proof (rule yields_mono)
    fix population assume drawn: "list_all2 (named rc) ?ids population"
    then show "length population = se_population_size se \<and> list_all (search_valid (rc_max_nodes rc) (rc_max_depth rc)) population \<and>
        distinct (map ge_genome_id population)"
      using drawn_population [OF drawn] first_ids_distinct [of ?hyp "?half - ?hyp" "se_population_size se - ?half"] by simp
  qed
qed

section \<open>Breeding\<close>

abbreviation fits :: "search_setup \<Rightarrow> Genome \<Rightarrow> bool" where
  "fits su \<equiv> search_valid (gs_max_nodes (ss_genetic su)) (gs_max_depth (ss_genetic su))"

abbreviation bred_as :: "search_setup \<Rightarrow> string \<Rightarrow> Genome \<Rightarrow> bool" where
  "bred_as su \<equiv> drawn (gs_max_nodes (ss_genetic su)) (gs_max_depth (ss_genetic su))"

lemma operators_of_limits [simp]:
  "sc_max_nodes (operators_of su ws) = gs_max_nodes (ss_genetic su)" "sc_max_depth (operators_of su ws) = gs_max_depth (ss_genetic su)"
  by (simp_all add: operators_of_def Let_def)

lemma bred_drawn: "fits su genome \<Longrightarrow> bred_as su i (bred i g ps genome)"
  using clone_drawn [of _ _ genome i "int g"] put_metadata_valid [where k = "''parent_ids''" and genome = "clone_genome (Some i) (Some (int g)) genome"]
  by (simp add: bred_def Let_def drawn_def)

lemma forget_operator_valid:
  "search_valid n d (genome\<lparr>ge_metadata := filter (\<lambda>(k, v). k \<noteq> ''last_mutation_op'') (ge_metadata genome)\<rparr>) = search_valid n d genome"
proof -
  have "map_of (filter (\<lambda>(k, v). k \<noteq> ''last_mutation_op'') ms) ''exit_rule_policy'' = map_of ms ''exit_rule_policy''" for ms :: "(string \<times> pyval) list"
    by (induction ms) auto
  then have "get_exit_rule_policy (genome\<lparr>ge_metadata := filter (\<lambda>(k, v). k \<noteq> ''last_mutation_op'') (ge_metadata genome)\<rparr>) = get_exit_rule_policy genome"
    by (simp add: get_exit_rule_policy_def)
  then show ?thesis by (simp add: search_valid_def validate_genome_parts validate_exit_rule_policy_eq)
qed

lemma build_child_fits:
  assumes "fits su parent_a"
  shows "yields (build_child su st parent_a parent_b) (fits su)"
proof -
  let ?cfg = "operators_of su (gp_mutation_operator_weights st)"
  have cross: "yields (if u < gs_crossover_rate (ss_genetic su) then crossover_genomes (sc_max_nodes ?cfg) (sc_max_depth ?cfg) parent_a parent_b
      else give parent_a) (fits su)" for u
    by (intro yields_if yields_give yields_mono [OF crossover_valid] assms) (use same_or_valid_search [OF assms] in simp)
  have "yields (mutate_genome ?cfg genome) (fits su)" if "fits su genome" for genome
    using mutate_genome_valid [of ?cfg genome] that by simp
  then show ?thesis unfolding build_child_def Let_def
    by (intro yields_rbind_any yields_rbind [OF cross] yields_if yields_give) (simp_all add: forget_operator_valid)
qed

lemma vary_bred:
  assumes "fits su parent_a"
  shows "yields (vary su st k parent_a parent_b) (bred_as su (new_genome_id (gp_generation st) k))"
  unfolding vary_def by (rule yields_rbind [OF yields_draw_valid [OF build_child_fits [OF assms]]]) (intro yields_give bred_drawn)

lemma tournament_fits:
  assumes "list_all (\<lambda>(fitness, genome). fits su genome) reproducers"
  shows "yields (tournament_select k reproducers) (fits su)"
  unfolding tournament_select_def
proof (rule yields_rbind [OF yields_sample])
  fix tournament assume sub: "set tournament \<subseteq> set reproducers"
  show "yields (case sort_key (\<lambda>(fitness, _). - fitness) tournament of [] \<Rightarrow> fail OpIndexError | (_, genome) # _ \<Rightarrow> give genome) (fits su)"
  proof (cases "sort_key (\<lambda>(fitness, _). - fitness) tournament")
    case (Cons best rest)
    then have "best \<in> set (sort_key (\<lambda>(fitness, _). - fitness) tournament)" by simp
    then have "best \<in> set reproducers" using sub by auto
    then show ?thesis using assms by (auto simp: Cons list_all_iff intro!: yields_give split: prod.split)
  qed (simp add: yields_fail)
qed

lemma breed_one_bred:
  assumes "list_all (\<lambda>(fitness, genome). fits su genome) reproducers" and "list_all (fits su) (gp_population st)"
  shows "yields (breed_one su st reproducers k) (bred_as su (new_genome_id (gp_generation st) k))"
  unfolding breed_one_def
  by (intro yields_if yields_rbind [OF tournament_fits [OF assms(1)]] yields_rbind_any yields_rbind [OF yields_choice] vary_bred)
    (use assms(2) in \<open>auto simp: list_all_iff\<close>)

lemma new_genome_id_inj [simp]: "new_genome_id g a = new_genome_id g b \<longleftrightarrow> a = b"
  by (simp add: new_genome_id_def)

lemma elites_bred:
  assumes "list_all (\<lambda>(fitness, genome). fits su genome) reproducers"
  shows "list_all2 (bred_as su) (map (new_genome_id (gp_generation st)) [gp_next_individual st..<gp_next_individual st + length (elites su st reproducers)])
     (elites su st reproducers)"
  using assms by (auto simp: elites_def list_all2_conv_all_nth nth_enumerate_eq list_all_length bred_drawn split: prod.split)

lemma breed_ok:
  assumes "list_all (\<lambda>(fitness, genome). fits su genome) reproducers" and "list_all (fits su) (gp_population st)"
    and "breed su st reproducers = Inr st'"
  shows "population_ok (ss_genetic su) (gp_population st')" and "gp_champion st' = gp_champion st"
proof -
  let ?ni = "gp_next_individual st" and ?elite = "elites su st reproducers" and ?size = "gs_population_size (ss_genetic su)"
  let ?id = "new_genome_id (gp_generation st)"
  let ?ks = "[?ni + length ?elite..<?ni + length ?elite + (?size - length ?elite)]"
  obtain children rng' where run: "map_rand (breed_one su st reproducers) ?ks (gp_rng st) = (Inr children, rng')"
    and st': "gp_population st' = take ?size (?elite @ children)" "gp_champion st' = gp_champion st"
    using assms(3) by (auto simp: breed_def Let_def split: prod.splits sum.splits)
  have bred: "yields (map_rand (breed_one su st reproducers) ?ks) (list_all2 (\<lambda>k. bred_as su (?id k)) ?ks)"
    by (rule yields_map_rand) (rule breed_one_bred [OF assms(1,2)])
  have "list_all2 (bred_as su) (map ?id ?ks) children" using yieldsD [OF bred run] by (simp add: list.rel_map)
  then have all: "list_all2 (bred_as su) (map ?id [?ni..<?ni + length ?elite] @ map ?id ?ks) (?elite @ children)"
    by (intro list_all2_appendI elites_bred assms(1))
  have ids: "map ?id [?ni..<?ni + length ?elite] @ map ?id ?ks = map ?id [?ni..<?ni + length ?elite + (?size - length ?elite)]"
    by (metis map_append upt_add_eq_append le_add1)
  have "distinct (map ?id ks)" if "distinct ks" for ks using that by (simp add: distinct_map inj_on_def)
  then have "distinct (map ge_genome_id (?elite @ children))" using drawn_population(3) [OF all] ids by simp
  then have "distinct (map ge_genome_id (gp_population st'))" unfolding st' take_map [symmetric] by (rule distinct_take)
  then show "population_ok (ss_genetic su) (gp_population st')"
    using drawn_population(1,2) [OF all] by (auto simp: population_ok_def st' list_all_iff dest: in_set_takeD)
  show "gp_champion st' = gp_champion st" by (rule st')
qed

section \<open>Evolution\<close>

text \<open>
  The states of a search: a provider that is new, that has got the results of a generation, or that a
  worker has restored into a provider of its own.
\<close>

inductive evolves :: "search_setup \<Rightarrow> Genome list \<Rightarrow> provider \<Rightarrow> bool" for su seeds where
  start: "new_provider su seeds rng = Inr st \<Longrightarrow> evolves su seeds st"
| reported: "evolves su seeds st \<Longrightarrow> report su results st = Inr st' \<Longrightarrow> evolves su seeds st'"
| resumed: "evolves su seeds st \<Longrightarrow> new_provider su seeds rng = Inr self \<Longrightarrow> evolves su seeds (load_state (export_state st) self)"

definition provider_ok :: "search_setup \<Rightarrow> provider \<Rightarrow> bool" where
  "provider_ok su st \<longleftrightarrow> population_ok (ss_genetic su) (gp_population st) \<and> (case gp_champion st of None \<Rightarrow> True | Some champion \<Rightarrow> fits su champion)"

lemma new_provider_ok:
  assumes "6 \<le> gs_max_nodes (ss_genetic su)" and "4 \<le> gs_max_depth (ss_genetic su)" and "list_all (fits su) seeds"
    and "new_provider su seeds rng = Inr st"
  shows "provider_ok su st"
proof -
  obtain population rng' where run: "build_initial_population (seeding_of su) (random_of su) seeds rng = (Inr population, rng')"
    and st: "gp_population st = population" "gp_champion st = None"
    using assms(4) by (auto simp: new_provider_def split: prod.splits sum.splits)
  have "room (random_of su)" and "list_all (search_valid (rc_max_nodes (random_of su)) (rc_max_depth (random_of su))) seeds"
    using assms(1-3) by (simp_all add: random_of_def)
  from yieldsD [OF first_population [OF this] run] show ?thesis
    by (simp add: provider_ok_def population_ok_def st random_of_def seeding_of_def Let_def)
qed

text \<open>Scoring keeps the population, and scores genomes of it only.\<close>

definition scoring :: "search_setup \<Rightarrow> Genome list \<Rightarrow> provider \<times> (decimal \<times> Genome) list \<Rightarrow> bool" where
  "scoring su population = (\<lambda>(st, scored). provider_ok su st \<and> gp_population st = population \<and> snd ` set scored \<subseteq> set population)"

lemma note_result_scoring: "scoring su population s \<Longrightarrow> scoring su population (note_result su result s)"
proof (cases s)
  case (Pair st scored)
  assume inv: "scoring su population s"
  show ?thesis
  proof (cases "genome_by_id (gp_population st) (cr_candidate_id result)")
    case None
    then show ?thesis using inv Pair by (simp add: note_result_def)
  next
    case (Some genome)
    then have "genome \<in> set population" using inv Pair by (auto simp: genome_by_id_def find_Some_iff scoring_def) (metis length_rev nth_mem set_rev)
    then show ?thesis using inv Pair Some
      by (auto simp: note_result_def scoring_def provider_ok_def population_ok_def list_all_iff Let_def)
  qed
qed

lemma note_results_scoring: "scoring su population s \<Longrightarrow> scoring su population (fold (note_result su) results s)"
  by (induction results arbitrary: s) (simp_all add: note_result_scoring)

lemma report_ok:
  assumes "provider_ok su st" and "report su results st = Inr st'"
  shows "provider_ok su st'"
proof -
  obtain st\<^sub>1 scored where fold: "fold (note_result su) results (st, []) = (st\<^sub>1, scored)" by fastforce
  have inv: "scoring su (gp_population st) (st\<^sub>1, scored)"
    using note_results_scoring [of su "gp_population st" "(st, [])" results] assms(1) by (simp add: fold scoring_def)
  obtain st\<^sub>2 where bred: "breed su st\<^sub>2 (sort_key (\<lambda>(fitness, _). - fitness) scored) = Inr st'"
    and st\<^sub>2: "gp_population st\<^sub>2 = gp_population st\<^sub>1" "gp_champion st\<^sub>2 = gp_champion st\<^sub>1"
    using assms(2) unfolding report_def Let_def fold by simp
  have "list_all (fits su) (gp_population st\<^sub>2)" and "list_all (\<lambda>(fitness, genome). fits su genome) (sort_key (\<lambda>(fitness, _). - fitness) scored)"
    using inv st\<^sub>2 by (fastforce simp: scoring_def provider_ok_def population_ok_def list_all_iff)+
  from breed_ok [OF this(2,1) bred] show ?thesis using inv st\<^sub>2 by (simp add: provider_ok_def scoring_def)
qed

lemma load_state_ok: "provider_ok su st \<Longrightarrow> provider_ok su (load_state (export_state st) self)"
  by (simp add: provider_ok_def load_state_def export_state_def)

lemma evolves_ok:
  assumes "evolves su seeds st" and "6 \<le> gs_max_nodes (ss_genetic su)" and "4 \<le> gs_max_depth (ss_genetic su)" and "list_all (fits su) seeds"
  shows "provider_ok su st"
  using assms(1) by induction (use assms(2-4) new_provider_ok report_ok load_state_ok in blast)+

text \<open>
  C29. Every generation of the genetic search is sound. Whatever the random choices and the reported results
  are, and also after the search has moved to another worker, the population has the configured size,
  every genome passes validation within the limits of the run, exit policy included, no two genomes
  share a name, and the champion is valid. The limits must leave room for the registry strategies that
  seed the search, and the hypotheses that seed it must be valid.
\<close>

theorem evolved_populations_stay_valid:
  assumes "evolves su seeds st" and "6 \<le> gs_max_nodes (ss_genetic su)" and "4 \<le> gs_max_depth (ss_genetic su)"
    and "list_all (search_valid (gs_max_nodes (ss_genetic su)) (gs_max_depth (ss_genetic su))) seeds"
  shows "length (gp_population st) = gs_population_size (ss_genetic su) \<and>
    list_all (search_valid (gs_max_nodes (ss_genetic su)) (gs_max_depth (ss_genetic su))) (gp_population st) \<and>
    distinct (map ge_genome_id (gp_population st)) \<and>
    (case gp_champion st of None \<Rightarrow> True | Some champion \<Rightarrow> search_valid (gs_max_nodes (ss_genetic su)) (gs_max_depth (ss_genetic su)) champion)"
  using evolves_ok [OF assms] by (simp add: provider_ok_def population_ok_def)

section \<open>State between workers\<close>

definition without_champion :: "provider \<Rightarrow> provider" where
  "without_champion st = st\<lparr>gp_champion := None, gp_champion_fitness := None\<rparr>"

lemma restored_same: "without_champion (load_state (export_state st) self) = without_champion st"
  by (cases st) (simp add: without_champion_def load_state_def export_state_def)

lemma without_champion_simps [simp]:
  "gp_rng (without_champion st) = gp_rng st" "gp_generation (without_champion st) = gp_generation st"
  "gp_next_individual (without_champion st) = gp_next_individual st" "gp_population (without_champion st) = gp_population st"
  "gp_best_fitness (without_champion st) = gp_best_fitness st" "gp_stagnation_generations (without_champion st) = gp_stagnation_generations st"
  "gp_effective_mutation_rate (without_champion st) = gp_effective_mutation_rate st"
  "gp_mutation_operator_weights (without_champion st) = gp_mutation_operator_weights st"
  "gp_parent_fitness_by_id (without_champion st) = gp_parent_fitness_by_id st"
  by (simp_all add: without_champion_def)

text \<open>Two providers that differ in the champion only, and so do all their next states.\<close>

definition alike :: "provider \<times> (decimal \<times> Genome) list \<Rightarrow> provider \<times> (decimal \<times> Genome) list \<Rightarrow> bool" where
  "alike = (\<lambda>(st, scored) (st', scored'). without_champion st = without_champion st' \<and> scored = scored')"

lemma note_result_alike: "alike s s' \<Longrightarrow> alike (note_result su result s) (note_result su result s')"
proof -
  assume "alike s s'"
  then obtain st st' scored where s: "s = (st, scored)" "s' = (st', scored)" and eq: "without_champion st = without_champion st'"
    by (cases s, cases s') (auto simp: alike_def)
  have "gp_population st = gp_population st'" "gp_best_fitness st = gp_best_fitness st'"
    "gp_mutation_operator_weights st = gp_mutation_operator_weights st'" "gp_parent_fitness_by_id st = gp_parent_fitness_by_id st'"
    using arg_cong [OF eq, of gp_population] arg_cong [OF eq, of gp_best_fitness] arg_cong [OF eq, of gp_mutation_operator_weights]
      arg_cong [OF eq, of gp_parent_fitness_by_id] by simp_all
  then show ?thesis using eq unfolding s alike_def
    by (cases st, cases st') (auto simp: note_result_def without_champion_def Let_def split: option.splits)
qed

lemma note_results_alike: "alike s s' \<Longrightarrow> alike (fold (note_result su) results s) (fold (note_result su) results s')"
  by (induction results arbitrary: s s') (simp_all add: note_result_alike)

lemma breed_without_champion: "map_sum id without_champion (breed su st reproducers) = breed su (without_champion st) reproducers"
proof -
  have "vary su (without_champion st) = vary su st" by (simp add: fun_eq_iff vary_def build_child_def)
  then have "breed_one su (without_champion st) reproducers = breed_one su st reproducers" by (intro ext) (simp add: breed_one_def)
  moreover have "elites su (without_champion st) reproducers = elites su st reproducers" by (simp add: elites_def)
  ultimately show ?thesis by (simp add: breed_def Let_def split: prod.splits sum.splits) (simp add: without_champion_def)
qed

text \<open>
  C26. A restored provider breeds as the exported one. A provider that another worker has filled from the
  exported state gives, for the same results, the same next generation, generator and counters, or the
  same error; only the champion may differ.
\<close>

theorem restored_provider_breeds_alike:
  "map_sum id without_champion (report su results (load_state (export_state st) self)) = map_sum id without_champion (report su results st)"
proof -
  obtain a scored b scored' where folds: "fold (note_result su) results (load_state (export_state st) self, []) = (a, scored)"
    "fold (note_result su) results (st, []) = (b, scored')" by fastforce
  have "alike (a, scored) (b, scored')"
    using note_results_alike [of "(load_state (export_state st) self, [])" "(st, [])" su results] folds restored_same
    by (simp add: alike_def)
  then have eq: "without_champion a = without_champion b" "scored = scored'" by (simp_all add: alike_def)
  have best: "gp_best_fitness (load_state (export_state st) self) = gp_best_fitness st" by (simp add: load_state_def export_state_def)
  have same: "gp_best_fitness a = gp_best_fitness b" "gp_stagnation_generations a = gp_stagnation_generations b" "gp_population a = gp_population b"
    using arg_cong [OF eq(1), of gp_best_fitness] arg_cong [OF eq(1), of gp_stagnation_generations] arg_cong [OF eq(1), of gp_population] by simp_all
  have "without_champion (a\<lparr>gp_stagnation_generations := k, gp_effective_mutation_rate := r, gp_parent_fitness_by_id := m\<rparr>) =
      without_champion (b\<lparr>gp_stagnation_generations := k, gp_effective_mutation_rate := r, gp_parent_fitness_by_id := m\<rparr>)" for k r m
    using eq(1) by (cases a, cases b) (simp add: without_champion_def)
  then show ?thesis unfolding report_def Let_def folds split best same eq(2) breed_without_champion by (simp add: same)
qed

lemma new_provider_no_champion: "new_provider su seeds rng = Inr self \<Longrightarrow> gp_champion_fitness self = None"
  by (auto simp: new_provider_def split: prod.splits sum.splits)

lemma report_champion:
  assumes "report su [result] st = Inr st'" and "genome_by_id (gp_population st) (cr_candidate_id result) = Some genome"
    and "cr_status result = CS_COMPLETED" and "cr_passed_gates result"
  shows "gp_champion st' = (if exceeds (candidate_fitness (ss_numerics su) (ss_genetic su) (ss_gates su) result genome) (gp_champion_fitness st)
     then Some genome else gp_champion st)"
proof -
  have kept: "breed su s reproducers = Inr s' \<Longrightarrow> gp_champion s' = gp_champion s" for s s' reproducers
    by (auto simp: breed_def Let_def split: prod.splits sum.splits)
  show ?thesis using assms unfolding report_def Let_def by (auto dest!: kept simp: note_result_def Let_def)
qed

text \<open>
  C33. The champion does not survive a change of worker. A genome that passes the gates and is no better than
  the champion leaves the champion as it is; but in a provider that a new worker has restored from the
  exported state, the same result makes that genome the champion, because the fitness of the champion
  is not exported and the new provider starts with none.
\<close>

theorem restored_champion_is_replaced:
  assumes "new_provider su seeds rng = Inr self"
    and "genome_by_id (gp_population st) (cr_candidate_id result) = Some genome"
    and "cr_status result = CS_COMPLETED" and "cr_passed_gates result"
    and "gp_champion_fitness st = Some best"
    and "candidate_fitness (ss_numerics su) (ss_genetic su) (ss_gates su) result genome \<le> best"
    and "report su [result] st = Inr kept" and "report su [result] (load_state (export_state st) self) = Inr again"
  shows "gp_champion kept = gp_champion st \<and> gp_champion again = Some genome"
proof -
  let ?loaded = "load_state (export_state st) self"
  have "gp_population ?loaded = gp_population st" "gp_champion_fitness ?loaded = None"
    using new_provider_no_champion [OF assms(1)] by (simp_all add: load_state_def export_state_def)
  then show ?thesis using assms(2-6) report_champion [OF assms(7,2-4)] report_champion [OF assms(8) _ assms(3,4)] by (simp add: exceeds_def)
qed

section \<open>An example\<close>

definition ex_latent :: Genome where
  "ex_latent = named_genome ''seed'' [genome_node ''n1'' ''ind.latent'' [(''latent_index'', PyInt 0)] [],
      genome_node ''n2'' ''cmp.cross_above'' [(''threshold'', PyFloat 0)] [''n1''],
      genome_node ''n3'' ''cmp.cross_below'' [(''threshold'', PyFloat 0)] [''n1'']] ''n2'' ''n3'' ''n3'' ''n2'' []"

definition ex_genetic :: GeneticSearchConfig where
  "ex_genetic = \<lparr>gs_population_size = 10, gs_elite_count = 4, gs_crossover_rate = 0, gs_mutation_rate = 0, gs_tournament_size = 3,
     gs_complexity_lambda = 1 / 1000, gs_complexity_mu = 1 / 2000, gs_gate_penalty_efficiency = 1 / 2, gs_gate_penalty_trades = 1 / 2,
     gs_gate_penalty_windows = 1 / 2, gs_no_result_floor = - 2, gs_error_floor = - 4, gs_mutation_rate_min = 0, gs_mutation_rate_max = 0,
     gs_stagnation_patience = 2, gs_adaptive_operator_weights = True, gs_max_nodes = 24, gs_max_depth = 12, gs_min_seed_signals = 1,
     gs_repair_max_attempts = 8, gs_seed_exit_policies = False, gs_exit_policy_preset_ids = None, gs_exit_policy_seed_fraction = 1 / 4\<rparr>"

definition ex_search :: search_setup where
  "ex_search = \<lparr>ss_numerics = ex_numerics, ss_genetic = ex_genetic,
     ss_gates = \<lparr>gt_min_completed_windows = 3, gt_min_oos_trades = 30, gt_efficiency_low = 1 / 2, gt_efficiency_high = 1\<rparr>,
     ss_probe_df = None, ss_indicator_kinds = [''ind.latent''], ss_n_latents = 4, ss_kind_weights = []\<rparr>"

definition ex_result :: CandidateResult where
  "ex_result = \<lparr>cr_candidate_id = ''b'', cr_status = CS_COMPLETED, cr_robustness_score = Some (1 / 2), cr_efficiency = Some (3 / 4),
     cr_gate_flags = [], cr_passed_gates = True, cr_total_trades = 40, cr_window_count = 4, cr_completed_windows = 4\<rparr>"

definition ex_provider :: provider where
  "ex_provider = \<lparr>gp_rng = [], gp_generation = 1, gp_next_individual = 2,
     gp_population = [ex_latent\<lparr>ge_genome_id := ''a''\<rparr>, ex_latent\<lparr>ge_genome_id := ''b''\<rparr>],
     gp_champion = Some (ex_latent\<lparr>ge_genome_id := ''a''\<rparr>), gp_champion_fitness = Some 1, gp_best_fitness = Some 1, gp_stagnation_generations = 0,
     gp_effective_mutation_rate = 0, gp_mutation_operator_weights = map (\<lambda>op'. (op', 1)) MUTATION_OPERATORS, gp_parent_fitness_by_id = []\<rparr>"

lemma ex_latent_valid: "validate_genome (gs_max_depth ex_genetic) (gs_max_nodes ex_genetic) ex_latent = None"
  by code_simp

lemma ex_latent_fits: "fits ex_search ex_latent"
  using ex_latent_valid by (simp add: search_valid_def ex_search_def) (simp add: ex_latent_def named_genome_def get_exit_rule_policy_def)

lemma ex_seed_spec: "spec_of ''cmp.cross_above'' = Inr (NodeSpec_of ''cmp.cross_above'' 1 2 None [(''out'', OT_BOOL)] [''threshold'', ''negate''] no_gen)"
  by code_simp

lemma ex_seed_keys: "sort [''threshold'', ''negate''] = [''negate'', ''threshold'']"
  by code_simp

text \<open>A seed whose mutation changes nothing, and a random genome that is the seed again.\<close>

lemma ex_hypothesis_seed:
  assumes "k < 5"
  shows "hypothesis_seed (seeding_of ex_search) (random_of ex_search) (replicate 5 ex_latent) k (1 # 0 # rng) =
     (Inr (clone_genome (Some (''gen0-seed-hyp-'' @ digits_of k)) (Some 0) ex_latent), rng)"
proof -
  let ?genome = "clone_genome (Some (''gen0-seed-hyp-'' @ digits_of k)) (Some 0) ex_latent"
  have nodes: "length (ge_nodes ?genome) = 3" "gn_kind (ge_nodes ?genome ! 1) = ''cmp.cross_above''" "ge_nodes ?genome \<noteq> []"
    by (simp_all add: clone_genome_def ex_latent_def named_genome_def genome_node_def)
  have "param_bound ''negate'' = None" by (simp add: param_bound_None_iff bound_names_eq)
  then have "light_mutate_params n d l ?genome (1 # 0 # rng) = (Inr ?genome, rng)" for n d l
    using nodes by (simp add: light_mutate_params_def rand_defs ex_seed_spec ex_seed_keys NodeSpec_of_def no_gen_def Let_def upt_rec)
  then show ?thesis using assms
    by (simp add: hypothesis_seed_def light_or_same_def ensured_def active_probe_def seeding_of_def ex_search_def Let_def rbind_def except_invalid_def give_def)
qed

lemma ex_latent_nodes: "ge_nodes ex_latent = [genome_node ''n1'' ''ind.latent'' [(''latent_index'', PyInt 0)] [],
    genome_node ''n2'' ''cmp.cross_above'' [(''threshold'', PyFloat 0)] [''n1''], genome_node ''n3'' ''cmp.cross_below'' [(''threshold'', PyFloat 0)] [''n1'']]"
  by (simp add: ex_latent_def named_genome_def)

lemma ex_latent_validated:
  "validated (random_of ex_search) (named_genome i (ge_nodes ex_latent) ''n2'' ''n3'' ''n3'' ''n2'' (origin g name)) =
     give (named_genome i (ge_nodes ex_latent) ''n2'' ''n3'' ''n3'' ''n2'' (origin g name))"
proof -
  let ?genome = "named_genome i (ge_nodes ex_latent) ''n2'' ''n3'' ''n3'' ''n2'' (origin g name)"
  have genome: "?genome = ex_latent\<lparr>ge_genome_id := i\<rparr>\<lparr>ge_metadata := origin g name\<rparr>" by (simp add: named_genome_def ex_latent_def)
  have "fits ex_search (ex_latent\<lparr>ge_genome_id := i\<rparr>)" using ex_latent_fits by (simp only: rename_valid)
  then have "graph_valid (gs_max_nodes (ss_genetic ex_search)) (gs_max_depth (ss_genetic ex_search)) ?genome"
    unfolding genome graph_valid_metadata by (simp add: search_valid_def validate_genome_parts)
  then have "validate_genome (gs_max_depth (ss_genetic ex_search)) (gs_max_nodes (ss_genetic ex_search)) ?genome = None"
    by (simp add: validate_genome_parts validate_exit_rule_policy_eq origin_no_policy)
  then show ?thesis by (simp add: validated_def validate_or_raise_def random_of_def)
qed

lemma ex_archetype: "choice (random_archetypes [''ind.latent''] 4) (3 # rng) = (Inr ''latent'', rng)"
  by (simp add: random_archetypes_def rand_defs)

lemma ex_random_seed:
  "\<exists>genome. random_seed (seeding_of ex_search) (random_of ex_search) k (3 # 0 # rng) = (Inr genome, rng)"
proof -
  let ?i = "''gen0-rand-'' @ digits_of k"
  let ?genome = "named_genome ?i (ge_nodes ex_latent) ''n2'' ''n3'' ''n3'' ''n2'' (origin 0 ''random_latent'')"
  have kinds: "rc_indicator_kinds (random_of ex_search) = [''ind.latent'']" "rc_n_latents (random_of ex_search) = 4" "rc_kind_weights (random_of ex_search) = []"
    by (simp_all add: random_of_def ex_search_def)
  have "sample_latent_index 4 (0 # rng) = (Inr 0, rng)" by (simp add: sample_latent_index_def rand_defs)
  then have "build_random_latent (random_of ex_search) ?i 0 (0 # rng) = (Inr ?genome, rng)"
    unfolding build_random_latent_def kinds using ex_latent_validated [of ?i 0 "''random_latent''"]
    by (simp add: rbind_def ex_latent_nodes give_def)
  then have "build_random_genome (random_of ex_search) ?i 0 (3 # 0 # rng) = (Inr ?genome, rng)"
    unfolding build_random_genome_def Let_def kinds by (simp add: rbind_def ex_archetype)
  then have "draw_valid (build_random_genome (random_of ex_search) ?i 0) (3 # 0 # rng) = (Inr ?genome, rng)" by (rule draw_valid_first)
  then have "random_seed (seeding_of ex_search) (random_of ex_search) k (3 # 0 # rng) = (Inr ?genome, rng)"
    by (simp add: random_seed_def active_probe_def seeding_of_def ex_search_def Let_def)
  then show ?thesis by blast
qed

definition ex_rng :: rng where
  "ex_rng = concat (replicate 5 [1, 0]) @ concat (replicate 5 [3, 0])"

lemma map_rand_steps:
  assumes "\<And>x rng. x \<in> set xs \<Longrightarrow> \<exists>y. f x (step @ rng) = (Inr y, rng)"
  shows "\<exists>ys. map_rand f xs (concat (replicate (length xs) step) @ rng) = (Inr ys, rng)"
  using assms
proof (induction xs)
  case (Cons x xs)
  then obtain y ys where "f x (step @ concat (replicate (length xs) step) @ rng) = (Inr y, concat (replicate (length xs) step) @ rng)"
    and "map_rand f xs (concat (replicate (length xs) step) @ rng) = (Inr ys, rng)" by (metis list.set_intros)
  then show ?case by (simp add: rbind_def give_def)
qed (simp add: give_def)

lemma ex_started: "\<exists>self. new_provider ex_search (replicate 5 ex_latent) ex_rng = Inr self"
proof -
  let ?se = "seeding_of ex_search" and ?rc = "random_of ex_search"
  let ?rest = "concat (replicate 5 [3, 0]) :: rng"
  obtain hyp where hyp: "map_rand (hypothesis_seed ?se ?rc (replicate 5 ex_latent)) [0..<5] ex_rng = (Inr hyp, ?rest)"
    using map_rand_steps [of "[0..<5]" "hypothesis_seed ?se ?rc (replicate 5 ex_latent)" "[1, 0]" ?rest] ex_hypothesis_seed
    by (auto simp: ex_rng_def)
  obtain rand where rand: "map_rand (random_seed ?se ?rc) [0..<5] ?rest = (Inr rand, [])"
    using map_rand_steps [of "[0..<5]" "random_seed ?se ?rc" "[3, 0]" "[]"] ex_random_seed by auto
  have "se_population_size ?se = 10" "\<not> se_seed_exit_policies ?se" by (simp_all add: seeding_of_def ex_search_def ex_genetic_def Let_def)
  then have "build_initial_population ?se ?rc (replicate 5 ex_latent) ex_rng = (Inr (hyp @ rand), [])"
    using hyp rand by (simp add: build_initial_population_def seed_exit_policy_variants_def rbind_def give_def Let_def)
  then show ?thesis by (simp add: new_provider_def)
qed

text \<open>Without crossover and mutation a report of one result copies genomes, whatever the generator yields.\<close>

lemma random_gives: "\<exists>u rng'. random rng = (Inr u, rng') \<and> 0 \<le> u"
proof (intro exI conjI)
  let ?u = "of_nat ((case rng of [] \<Rightarrow> 0 | n # _ \<Rightarrow> n) mod 2 ^ 53) / 2 ^ 53 :: decimal"
  show "random rng = (Inr ?u, tl rng)" by (cases rng) (simp_all add: rand_defs)
  show "0 \<le> ?u" by simp
qed

lemma build_child_copies:
  assumes "gs_crossover_rate (ss_genetic su) \<le> 0" and "gp_effective_mutation_rate st \<le> 0"
  shows "\<exists>child rng'. build_child su st parent_a parent_b rng = (Inr child, rng')"
proof -
  obtain u rng\<^sub>1 w rng\<^sub>2 where "random rng = (Inr u, rng\<^sub>1)" "0 \<le> u" "random rng\<^sub>1 = (Inr w, rng\<^sub>2)" "0 \<le> w" using random_gives by metis
  then show ?thesis using assms by (simp add: build_child_def Let_def rbind_def give_def)
qed

lemma map_rand_gives:
  assumes "\<And>x rng. \<exists>y rng'. f x rng = (Inr y, rng')"
  shows "\<exists>ys rng'. map_rand f xs rng = (Inr ys, rng')"
proof (induction xs arbitrary: rng)
  case (Cons x xs)
  obtain y rng\<^sub>1 ys rng\<^sub>2 where "f x rng = (Inr y, rng\<^sub>1)" "map_rand f xs rng\<^sub>1 = (Inr ys, rng\<^sub>2)" using assms Cons by metis
  then show ?case by (simp add: rbind_def give_def)
qed (simp add: give_def)

lemma breed_copies:
  assumes "gs_crossover_rate (ss_genetic su) \<le> 0" and "gp_effective_mutation_rate st \<le> 0" and "gp_population st \<noteq> []" and "length reproducers < 2"
  shows "\<exists>st'. breed su st reproducers = Inr st'"
proof -
  have varied: "\<exists>child rng'. vary su st k parent parent rng = (Inr child, rng')" for k parent rng
  proof -
    obtain child rng' where "build_child su st parent parent rng = (Inr child, rng')" using build_child_copies [OF assms(1,2)] by metis
    then show ?thesis by (simp add: vary_def draw_valid_first rbind_def give_def)
  qed
  have "\<exists>child rng'. breed_one su st reproducers k rng = (Inr child, rng')" for k rng
  proof -
    obtain parent rng\<^sub>1 where "choice (gp_population st) rng = (Inr parent, rng\<^sub>1)" using assms(3) by (cases rng) (simp_all add: rand_defs)
    then show ?thesis using assms(4) varied [of k parent rng\<^sub>1] by (simp add: breed_one_def rbind_def)
  qed
  from map_rand_gives [of "breed_one su st reproducers", OF this]
  show ?thesis by (simp add: breed_def Let_def split: prod.split sum.split) (metis Inl_Inr_False prod.inject)
qed

lemma report_copies:
  assumes "gs_crossover_rate (ss_genetic su) \<le> 0" and "gs_mutation_rate (ss_genetic su) \<le> 0"
    and "gs_mutation_rate_max (ss_genetic su) \<le> gs_mutation_rate_min (ss_genetic su)" and "gp_population st \<noteq> []"
  shows "\<exists>st'. report su [result] st = Inr st'"
proof -
  obtain st\<^sub>1 scored where noted: "note_result su result (st, []) = (st\<^sub>1, scored)" by fastforce
  then have "gp_population st\<^sub>1 \<noteq> []" "length scored < 2"
    using assms(4) by (auto simp: note_result_def Let_def split: option.splits if_splits)
  then show ?thesis using assms(1-3) unfolding report_def Let_def
    by (simp add: noted) (intro conjI impI breed_copies; simp add: adapt_mutation_rate_def)
qed

theorem evolved_populations_stay_valid_witness:
  "\<exists>st. evolves ex_search (replicate 5 ex_latent) st \<and> length (gp_population st) = 10 \<and>
     list_all (search_valid 24 12) (gp_population st) \<and> distinct (map ge_genome_id (gp_population st))"
proof -
  obtain st where "new_provider ex_search (replicate 5 ex_latent) ex_rng = Inr st" using ex_started by blast
  then have "evolves ex_search (replicate 5 ex_latent) st" by (rule evolves.start)
  moreover have "gs_population_size (ss_genetic ex_search) = 10" "gs_max_nodes (ss_genetic ex_search) = 24" "gs_max_depth (ss_genetic ex_search) = 12"
    by (simp_all add: ex_search_def ex_genetic_def)
  ultimately show ?thesis using evolved_populations_stay_valid [of ex_search "replicate 5 ex_latent" st] ex_latent_fits by (auto simp: list_all_iff)
qed

theorem restored_champion_is_replaced_witness:
  "\<exists>self kept again. new_provider ex_search (replicate 5 ex_latent) ex_rng = Inr self \<and> report ex_search [ex_result] ex_provider = Inr kept \<and>
     report ex_search [ex_result] (load_state (export_state ex_provider) self) = Inr again \<and>
     gp_champion kept = Some (ex_latent\<lparr>ge_genome_id := ''a''\<rparr>) \<and> gp_champion again = Some (ex_latent\<lparr>ge_genome_id := ''b''\<rparr>)"
proof -
  obtain self where self: "new_provider ex_search (replicate 5 ex_latent) ex_rng = Inr self" using ex_started by blast
  have rates: "gs_crossover_rate (ss_genetic ex_search) \<le> 0" "gs_mutation_rate (ss_genetic ex_search) \<le> 0"
    "gs_mutation_rate_max (ss_genetic ex_search) \<le> gs_mutation_rate_min (ss_genetic ex_search)" by (simp_all add: ex_search_def ex_genetic_def)
  have "gp_population ex_provider \<noteq> []" "gp_population (load_state (export_state ex_provider) self) \<noteq> []"
    by (simp_all add: ex_provider_def load_state_def export_state_def)
  then obtain kept again where runs: "report ex_search [ex_result] ex_provider = Inr kept"
    "report ex_search [ex_result] (load_state (export_state ex_provider) self) = Inr again" using report_copies [OF rates] by metis
  have found: "genome_by_id (gp_population ex_provider) (cr_candidate_id ex_result) = Some (ex_latent\<lparr>ge_genome_id := ''b''\<rparr>)"
    by (simp add: genome_by_id_def ex_provider_def ex_result_def)
  have fitness: "candidate_fitness (ss_numerics ex_search) (ss_genetic ex_search) (ss_gates ex_search) ex_result (ex_latent\<lparr>ge_genome_id := ''b''\<rparr>) \<le> 1"
    by code_simp
  have "gp_champion kept = gp_champion ex_provider \<and> gp_champion again = Some (ex_latent\<lparr>ge_genome_id := ''b''\<rparr>)"
    by (rule restored_champion_is_replaced [OF self found _ _ _ fitness runs]) (simp_all add: ex_result_def ex_provider_def)
  then show ?thesis using self runs by (auto simp: ex_provider_def)
qed

end
