(* ===== verification/Spec2Isabelle.thy ===== *)
theory Spec2Isabelle
  imports Worker_Example Live_Broker_Correct Bars_Correct Forward_Parity Exit_Rules_Correct Genome_Correct
    Bt_Registry_Correct Bt_Pairs_Correct Bt_Session_Causal Tick_Correct
    Composite_Cache Genetic_Search_Correct
begin

text \<open>
  Verification of \<^verbatim>\<open>q_backend\<close>: the forward-execution subsystem, the part of the program that trades
  (it evaluates strategies on completed bars, decides, places orders, books their fills, and
  survives crashes, ambiguous broker answers and competing workers), and the backtesting
  subsystem whose strategies it runs: the candle and tick engines, exit rules, indicators,
  strategies, the genomes that the search evolves, and the genetic search itself. All source names
  below are under \<^verbatim>\<open>src/src/q_backend/\<close>.

  \<^bold>\<open>The parts and how they interact.\<close> An execution worker polls. At each poll it refreshes its
  leases on the deployments it may trade, reconciles orders whose outcome is unknown, fetches
  the bars of every stream once, lets the evaluator of each deployment turn new bars into
  decisions, and has the service process each decision: it records it, asks the risk gate,
  commits the intent of an order before sending it to the broker, and books the answer in the
  ledger. Operators act through the API, whose requests run in sessions of their own, and through
  a command that flattens a position. All parts share one database. The backtest engines run
  strategies over historical bars or ticks, with a registry of their own in place of the database. A
  strategy is built from a request by the registry; it computes columns over a frame and
  reads entries and exits off its rows, and exit rules close trades on top of it. An evolved
  strategy interprets a genome, a graph of indicator and signal nodes that is validated and compiled
  before it runs. The genetic search seeds a population of genomes, repairs those that give no
  signals on a probe, and breeds one generation from the results of the last; between generations
  its state may move to another worker process.

  \<^bold>\<open>Vocabulary.\<close> \<^verbatim>\<open>Exec_Prelude\<close> has the Python values (identifiers, times in microseconds,
  decimals as rationals, JSON), the exceptions, results that may be an error, computations with
  state and exceptions (an exception keeps the state reached so far), tables of rows with a key,
  and the predicates \<open>outcome\<close> and \<open>keeps\<close> with their rule collections. \<^verbatim>\<open>Exec_Store_Inv\<close> adds
  \<open>frames\<close> (a projection is unchanged) and \<^verbatim>\<open>Exec_History\<close> adds \<open>steps\<close> (a preorder relates the
  states), the latter with its rules proved once in the locale \<open>step_preorder\<close>. \<^verbatim>\<open>Bt_Series\<close> has
  floats with their special values, series, frames, and the collection \<open>causal\<close>: an operation
  commutes with cutting off the end of its arguments. \<^verbatim>\<open>Activity\<close> has random computations (the
  generator is the list of the numbers it yields) and \<^verbatim>\<open>Operators_Correct\<close> the calculus \<open>yields\<close> of
  what they return.

  \<^bold>\<open>Theories and sources: execution.\<close>
  \<^item> \<^verbatim>\<open>Exec_Domain\<close>: \<^verbatim>\<open>execution/domain.py\<close>, enumerations, lifecycle tables, values.
  \<^item> \<^verbatim>\<open>Exec_Models\<close>: \<^verbatim>\<open>storage/db/execution_models.py\<close>, one record per table; primary keys and
    unique constraints are \<open>wf_db\<close>.
  \<^item> \<^verbatim>\<open>Exec_Store\<close>, \<^verbatim>\<open>Exec_Pages\<close>, \<^verbatim>\<open>Exec_Leases\<close>: \<^verbatim>\<open>storage/db/execution_repositories.py\<close>,
    one definition per function. The listings satisfy the locale \<open>paged_listing\<close>; the leases
    refine an abstract map of holders through the locale \<open>lease_service\<close>.
  \<^item> \<^verbatim>\<open>Paper_Broker\<close>: \<^verbatim>\<open>execution/brokers/base.py\<close> and \<^verbatim>\<open>paper.py\<close>; the contract of a broker
    is the locale \<open>execution_broker\<close>, extended by \<open>simulated_broker\<close>.
  \<^item> \<^verbatim>\<open>Live_Broker\<close>, \<^verbatim>\<open>Live_Broker_Correct\<close>: \<^verbatim>\<open>execution/brokers/metatrader.py\<close>,
    \<^verbatim>\<open>live_gates.py\<close>, \<^verbatim>\<open>mt5_constants.py\<close> and the protocol of \<^verbatim>\<open>mt5_runtime.py\<close>, whose terminal is
    a parameter; it interprets \<open>execution_broker\<close> too.
  \<^item> \<^verbatim>\<open>Ledger\<close>, \<^verbatim>\<open>Ledger_Correct\<close>: \<^verbatim>\<open>execution/ledger.py\<close>.
  \<^item> \<^verbatim>\<open>Risk\<close>: \<^verbatim>\<open>execution/risk.py\<close>.
  \<^item> \<^verbatim>\<open>Service\<close>, \<^verbatim>\<open>Service_Correct\<close>, \<^verbatim>\<open>Service_Once\<close>, \<^verbatim>\<open>Service_Placement\<close>:
    \<^verbatim>\<open>execution/service.py\<close> and \<^verbatim>\<open>results.py\<close>. A session has a working and a committed
    database and the log of requests the broker was sent; crash points are parameters.
  \<^item> \<^verbatim>\<open>Reconciliation\<close>, \<^verbatim>\<open>Reconciliation_Correct\<close>: \<^verbatim>\<open>execution/reconciliation.py\<close> and
    \<^verbatim>\<open>ExecutionRecovery.recover\<close>.
  \<^item> \<^verbatim>\<open>Bars\<close>, \<^verbatim>\<open>Bars_Correct\<close>: \<^verbatim>\<open>execution/bars.py\<close>, \<^verbatim>\<open>bar_coordinator.py\<close>, and the timeframes of
    \<^verbatim>\<open>market_data/exogenous_context.py\<close>.
  \<^item> \<^verbatim>\<open>Evaluator\<close>, \<^verbatim>\<open>Evaluator_Correct\<close>: \<^verbatim>\<open>execution/evaluator.py\<close>, \<^verbatim>\<open>signal_eval.py\<close>,
    \<^verbatim>\<open>position_adapter.py\<close>; the strategy is a parameter.
  \<^item> \<^verbatim>\<open>Forward_Parity\<close>: \<^verbatim>\<open>execution/parity.py\<close>.
  \<^item> \<^verbatim>\<open>Control\<close>, \<^verbatim>\<open>Control_Correct\<close>: \<^verbatim>\<open>execution/commands.py\<close>, \<^verbatim>\<open>validation.py\<close>,
    \<^verbatim>\<open>api/services/execution.py\<close>.
  \<^item> \<^verbatim>\<open>Worker\<close>, \<^verbatim>\<open>Worker_Correct\<close>: \<^verbatim>\<open>execution/worker.py\<close>, \<^verbatim>\<open>ExecutionRecovery.build_runtime\<close>,
    \<^verbatim>\<open>cmd_flatten\<close> of \<^verbatim>\<open>cli/q_execution.py\<close>.
  \<^item> \<^verbatim>\<open>Exec_Example\<close>, \<^verbatim>\<open>Service_Example\<close>, \<^verbatim>\<open>Worker_Example\<close>: concrete databases, sessions and workers
    on which the hypotheses of the properties hold.

  \<^bold>\<open>Theories and sources: backtesting.\<close> The sources are under \<^verbatim>\<open>backtesting/\<close>.
  \<^item> \<^verbatim>\<open>Bt_Models\<close>, \<^verbatim>\<open>Bt_Engine\<close>, \<^verbatim>\<open>Bt_Correct\<close>: \<^verbatim>\<open>models.py\<close>, \<^verbatim>\<open>costs.py\<close>, \<^verbatim>\<open>position_sizing.py\<close>,
    \<^verbatim>\<open>registry.py\<close>, \<^verbatim>\<open>engine.py\<close>.
  \<^item> \<^verbatim>\<open>Tick_Engine\<close>, \<^verbatim>\<open>Tick_Correct\<close>: \<^verbatim>\<open>tick/\<close>; the contract of a tick strategy is the locale
    \<open>tick_strategy\<close>.
  \<^item> \<^verbatim>\<open>Exit_Rules\<close>, \<^verbatim>\<open>Exit_Rules_Correct\<close>: \<^verbatim>\<open>exit_rules/\<close> and \<^verbatim>\<open>exit_strategy.py\<close>.
  \<^item> \<^verbatim>\<open>Bt_Indicators\<close>, \<^verbatim>\<open>Bt_Strategies\<close>, \<^verbatim>\<open>Bt_Pairs\<close>, \<^verbatim>\<open>Bt_Causality\<close>, \<^verbatim>\<open>Bt_Pairs_Correct\<close>:
    \<^verbatim>\<open>technical_indicators.py\<close>, \<^verbatim>\<open>transforms.py\<close>, \<^verbatim>\<open>moving_averages.py\<close>, \<^verbatim>\<open>strategy.py\<close>, \<^verbatim>\<open>strategies/\<close>.
    Every strategy interprets the locale \<open>registered_strategy\<close>, whose sublocale is
    \<open>causal_indicators\<close>.
  \<^item> \<^verbatim>\<open>Bt_Session\<close>, \<^verbatim>\<open>Bt_Session_Causal\<close>: \<^verbatim>\<open>session_context/\<close>.
  \<^item> \<^verbatim>\<open>Bt_Registry\<close>, \<^verbatim>\<open>Bt_Registry_Correct\<close>: \<^verbatim>\<open>strategy_registry.py\<close>, \<^verbatim>\<open>factory.py\<close>, \<^verbatim>\<open>signal_managers/\<close>,
    \<^verbatim>\<open>composite_entry.py\<close>, \<^verbatim>\<open>entry_config.py\<close>, and \<^verbatim>\<open>execution/strategy_build.py\<close>.
  \<^item> \<^verbatim>\<open>Genome_Params\<close>, \<^verbatim>\<open>Genome_Specs\<close>, \<^verbatim>\<open>Genome\<close>, \<^verbatim>\<open>Genome_Compile\<close>, \<^verbatim>\<open>Genome_Correct\<close>: \<^verbatim>\<open>genome/\<close>,
    the tables of nodes and parameters, validation, and compilation.
  \<^item> \<^verbatim>\<open>Composite\<close>, \<^verbatim>\<open>Composite_Causal\<close>, \<^verbatim>\<open>Composite_Cache\<close>: \<^verbatim>\<open>genome/composite_strategy.py\<close>,
    \<^verbatim>\<open>genome/feature_nodes.py\<close>, the interpreter of compiled genomes and its cache. The encoder of
    latent variables is a parameter, causal where a property needs it.
  \<^item> \<^verbatim>\<open>Activity\<close>: \<^verbatim>\<open>genome/activity.py\<close>, the probe of a genome and its repairs.
  \<^item> \<^verbatim>\<open>Operators\<close>, \<^verbatim>\<open>Operators_Correct\<close>: \<^verbatim>\<open>genome/operators.py\<close>, crossover and the eleven mutations, with
    \<^verbatim>\<open>genome/exit_rule_policy.py\<close>.
  \<^item> \<^verbatim>\<open>Population\<close>, \<^verbatim>\<open>Fixtures_Correct\<close>: the random genomes and the seeding of \<^verbatim>\<open>genome/operators.py\<close>, and
    \<^verbatim>\<open>genome/registry_fixtures.py\<close>.
  \<^item> \<^verbatim>\<open>Genetic_Search\<close>, \<^verbatim>\<open>Genetic_Search_Correct\<close>: \<^verbatim>\<open>optimization/genetic_search.py\<close>, the fitness of a
    candidate and \<^verbatim>\<open>GeneticCandidateProvider\<close>, with its configuration in
    \<^verbatim>\<open>optimization/strategy_search.py\<close>.

  \<^bold>\<open>What is shown.\<close> Booking a fill moves position and cash as double-entry arithmetic demands,
  once per external fill (C1 to C3). A genome that passes validation is a well-typed acyclic graph,
  and compiles to a plan that computes every column before it is read (C4, C13). The risk gate
  admits exactly what its conditions allow (C5). A single-strategy request loses its exit rules in
  forward execution (C6). A blocked deployment places no order, a bar is decided once (C7, C8), and
  the committed book changes only together with a filled order, also when persisting fails and when
  the bar starts on top of uncommitted work (C10, C11). The compiled tick loop takes the trades of its specification, and a day-trading tick run
  accounts for them (C9, C14). Reconciliation keeps books and trail and clears what can be cleared
  (C12, C15 to C17, with the one case it strands). Leases do what they promise (C19,
  C20). Exit rules run bar by bar close the trades that they close when evaluated on the whole
  history of a trade (C21). The evaluator emits each bar once and misses none (C22, C24). No
  registered and no evolved strategy looks ahead (C23, C25), but an evolved strategy is silent at the
  new bars of a window as long as the first it saw (C18). Every generation of the genetic
  search has the configured size and consists of valid genomes with distinct names (C29); a search
  that moves to another worker breeds as it would have (C26), but forgets how good its champion was
  (C33); crossover of subtrees never tries a pruned subtree (C34). The control plane does what it
  promises (C27, C28). Any interleaving of polls, crashes, requests and flattens keeps the whole
  database correct, and no order is ever sent twice (C30). A live order leaves the process only when every gate is open, and
  is never reported as rejected unless it certainly was (C31, C32). A worker that lost a lease
  processes nothing until the deployment is stopped or the worker restarted, and a poll delivers only completed new bars (C35, C36). A backtest accounts for every trade, keeps exposure within the sizer's limit and, when day trading,
  holds nothing overnight (C37 to C39). Forward evaluation in batches through a bounded window
  takes the decisions that the reference of \<^verbatim>\<open>parity.py\<close> queues on the whole history (C40); on which
  bars that is also what the engine queues is said in \<^verbatim>\<open>Forward_Parity\<close> (all of them without day
  trading). Each theory ends with, or contains, further lemmas on every branch of its operations.

  \<^bold>\<open>Bounds and fuel.\<close> Loops run over a list that is fixed when they start, or have a measure: the
  doubling of chart bars ends past a day, the reference of the tick loop moves on to the next tick.
  The worker's endless loop is modelled by a finite list of polls, of any length; the state machine
  of \<^verbatim>\<open>Worker_Correct\<close> closes it under any number of restarts. The recursions over the graph of a
  genome (\<open>node_depth\<close>, \<open>compile_node\<close>) have as fuel one more than the number of its nodes, which on
  an acyclic graph is enough (C13); the search for valid random genomes makes 64 attempts, as the code
  does; the decimal exponent of a bound is searched for 400 steps,
  the range of floats.

  \<^bold>\<open>Not modelled.\<close> The rounding of decimals to 28 digits or eight places, and of floats; wall-clock
  timings and logs; commits of other processes in the middle of a poll (requests are interleaved
  between polls); the expiry of attributes of objects after a rollback inside a poll; parsing the
  allowlist of live accounts; answers of the live terminal that change during one submission (one record
  holds them); NaN prices of a bar, and repeated times in an index of candles; labels and chart descriptions; strategies stored in the database.
  Of the genetic search: the internal state of the random generator (a list of numbers stands for
  it), the quantiles of a series (a parameter), the choice of the hypotheses that seed it, and the
  evaluation of candidates, whose results are arguments. Outside these subsystems: the drivers of
  the optimizers, features and model training, which are statistics over third-party arrays; market data
  clients, storage of other entities, and the job bookkeeping of the API, which are I/O around them.
\<close>

end
